(* ===== verification/GoBase.thy ===== *)
theory GoBase
  imports Main "HOL-Library.Multiset"
begin

section \<open>Prelude: what the code uses of Go and its standard library\<close>

text \<open>
  The parts of Go that every component of the model shares: results with errors and panics,
  byte strings with the functions of packages strings and strconv that the code calls, and
  sorting. A Go string is a list of bytes (\<open>char\<close>). A Go map is a finite map
  \<open>'k \<rightharpoonup> 'v\<close> where only lookups matter and an association list where the code ranges over
  it (the order of the list is then one of the iteration orders the language allows). A call
  that returns a non-nil error is \<open>Inl (Err msg)\<close>; a run-time panic (a failed type assertion,
  an index out of range, a nil dereference) is \<open>Inl (Panic what)\<close>.
\<close>

subsection \<open>Hint collections\<close>

named_theorems go_simps \<open>rewrite rules for the string and number functions\<close>
named_theorems result_simps \<open>unfolding rules for results\<close>

subsection \<open>Results\<close>

datatype failure = Err string | Panic string

type_synonym 'a result = "failure + 'a"

definition bindR :: "'a result \<Rightarrow> ('a \<Rightarrow> 'b result) \<Rightarrow> 'b result" where
  "bindR r f = (case r of Inl e \<Rightarrow> Inl e | Inr x \<Rightarrow> f x)"

lemma bindR_simps [simp]:
  "bindR (Inl e) f = Inl e"
  "bindR (Inr x) f = f x"
  by (simp_all add: bindR_def)

lemma bindR_Inr_iff [result_simps]:
  "bindR r f = Inr y \<longleftrightarrow> (\<exists>x. r = Inr x \<and> f x = Inr y)"
  by (cases r) auto

lemma bindR_Inl_iff [result_simps]:
  "bindR r f = Inl e \<longleftrightarrow> r = Inl e \<or> (\<exists>x. r = Inr x \<and> f x = Inl e)"
  by (cases r) auto

lemma bindR_split:
  "P (bindR r f) \<longleftrightarrow> (\<forall>e. r = Inl e \<longrightarrow> P (Inl e)) \<and> (\<forall>x. r = Inr x \<longrightarrow> P (f x))"
  by (cases r) auto

text \<open>A loop whose body can return early with an error.\<close>

fun mapR :: "('a \<Rightarrow> 'b result) \<Rightarrow> 'a list \<Rightarrow> 'b list result" where
  "mapR f [] = Inr []"
| "mapR f (x # xs) = bindR (f x) (\<lambda>y. bindR (mapR f xs) (\<lambda>ys. Inr (y # ys)))"

fun foldR :: "('s \<Rightarrow> 'a \<Rightarrow> 's result) \<Rightarrow> 's \<Rightarrow> 'a list \<Rightarrow> 's result" where
  "foldR f s [] = Inr s"
| "foldR f s (x # xs) = bindR (f s x) (\<lambda>s'. foldR f s' xs)"

lemma mapR_Inr_length: "mapR f xs = Inr ys \<Longrightarrow> length ys = length xs"
  by (induction xs arbitrary: ys) (auto simp: result_simps)

lemma mapR_Inr_iff: "mapR f xs = Inr ys \<longleftrightarrow> list_all2 (\<lambda>x y. f x = Inr y) xs ys"
  by (induction xs arbitrary: ys) (auto simp: result_simps list_all2_Cons1)

lemma foldR_append: "foldR f s (xs @ ys) = bindR (foldR f s xs) (\<lambda>s'. foldR f s' ys)"
proof (induction xs arbitrary: s)
  case (Cons x xs)
  then show ?case by (cases "f s x") simp_all
qed simp

text \<open>An invariant of the accumulator that every iteration keeps holds of the final one.\<close>

lemma foldR_invariant:
  assumes "foldR f s xs = Inr t" and "I s"
    and "\<And>u x v. I u \<Longrightarrow> x \<in> set xs \<Longrightarrow> f u x = Inr v \<Longrightarrow> I v"
  shows "I t"
  using assms
proof (induction xs arbitrary: s)
  case (Cons x xs)
  from Cons.prems(1) obtain v where v: "f s x = Inr v" "foldR f v xs = Inr t"
    unfolding foldR.simps bindR_Inr_iff by blast
  show ?case
  proof (rule Cons.IH [OF v(2)])
    show "I v" by (rule Cons.prems(3) [OF Cons.prems(2) _ v(1)]) simp
    show "I w" if "I u" "y \<in> set xs" "f u y = Inr w" for u y w
      by (rule Cons.prems(3) [OF that(1) _ that(3)]) (simp add: that(2))
  qed
qed simp

subsection \<open>Package strings\<close>

definition has_prefix :: "string \<Rightarrow> string \<Rightarrow> bool" where
  "has_prefix s p \<longleftrightarrow> take (length p) s = p"

definition trim_prefix :: "string \<Rightarrow> string \<Rightarrow> string" where
  "trim_prefix s p = (if has_prefix s p then drop (length p) s else s)"

fun contains :: "string \<Rightarrow> string \<Rightarrow> bool" where
  "contains [] p = (p = [])"
| "contains (c # cs) p = (has_prefix (c # cs) p \<or> contains cs p)"

text \<open>\<open>strings.Split\<close> and \<open>strings.SplitN\<close> for a separator of one byte.\<close>

fun split_on :: "char \<Rightarrow> string \<Rightarrow> string list" where
  "split_on d [] = [[]]"
| "split_on d (c # cs) =
     (if c = d then [] # split_on d cs
      else (case split_on d cs of [] \<Rightarrow> [[c]] | w # ws \<Rightarrow> (c # w) # ws))"

fun split_first :: "char \<Rightarrow> string \<Rightarrow> (string \<times> string) option" where
  "split_first d [] = None"
| "split_first d (c # cs) =
     (if c = d then Some ([], cs)
      else map_option (\<lambda>(a, b). (c # a, b)) (split_first d cs))"

fun splitN :: "nat \<Rightarrow> char \<Rightarrow> string \<Rightarrow> string list" where
  "splitN 0 d s = []"
| "splitN (Suc 0) d s = [s]"
| "splitN (Suc (Suc n)) d s =
     (case split_first d s of None \<Rightarrow> [s] | Some (a, b) \<Rightarrow> a # splitN (Suc n) d b)"

fun join :: "string \<Rightarrow> string list \<Rightarrow> string" where
  "join sep [] = []"
| "join sep [w] = w"
| "join sep (w # ws) = w @ sep @ join sep ws"

definition lower_char :: "char \<Rightarrow> char" where
  "lower_char c = (let n = of_char c :: nat in if 65 \<le> n \<and> n \<le> 90 then char_of (n + 32) else c)"

definition to_lower :: "string \<Rightarrow> string" where
  "to_lower s = map lower_char s"

text \<open>\<open>strings.EqualFold\<close>, on ASCII strings.\<close>

definition equal_fold :: "string \<Rightarrow> string \<Rightarrow> bool" where
  "equal_fold s t \<longleftrightarrow> to_lower s = to_lower t"

text \<open>\<open>strings.Replace (s, old, new, -1)\<close> for a non-empty \<open>old\<close>.\<close>

function replace_all :: "string \<Rightarrow> string \<Rightarrow> string \<Rightarrow> string" where
  "replace_all old new s =
     (if s = [] \<or> old = [] then s
      else if has_prefix s old then new @ replace_all old new (drop (length old) s)
      else hd s # replace_all old new (tl s))"
  by pat_completeness auto
termination
  by (relation "measure (\<lambda>(old, new, s). length s)") auto

declare replace_all.simps [simp del]

lemma has_prefix_iff: "has_prefix s p \<longleftrightarrow> (\<exists>t. s = p @ t)"
  unfolding has_prefix_def by (metis append_eq_conv_conj)

lemma has_prefix_append [simp, go_simps]: "has_prefix (p @ t) p"
  by (auto simp: has_prefix_iff)

lemma has_prefix_Nil [simp, go_simps]: "has_prefix s []"
  by (simp add: has_prefix_def)

lemma trim_prefix_append [simp, go_simps]: "trim_prefix (p @ t) p = t"
  by (simp add: trim_prefix_def)

lemma contains_iff: "contains s p \<longleftrightarrow> (\<exists>a b. s = a @ p @ b)"
proof (induction s)
  case (Cons c cs)
  show ?case
  proof
    assume "contains (c # cs) p"
    then consider "has_prefix (c # cs) p" | "contains cs p" by auto
    then show "\<exists>a b. c # cs = a @ p @ b"
    proof cases
      case 1 then show ?thesis by (metis has_prefix_iff append_Nil)
    next
      case 2 then show ?thesis using Cons.IH by (metis append_Cons)
    qed
  next
    assume "\<exists>a b. c # cs = a @ p @ b"
    then obtain a b where ab: "c # cs = a @ p @ b" by blast
    show "contains (c # cs) p"
    proof (cases a)
      case Nil then show ?thesis using ab by (metis append_Nil contains.simps(2) has_prefix_append)
    next
      case (Cons x xs) then show ?thesis using ab Cons.IH by auto
    qed
  qed
qed simp

lemma contains_append [go_simps]: "contains s p \<Longrightarrow> contains (a @ s @ b) p"
  by (metis append_assoc contains_iff)

lemma split_on_nonempty [simp]: "split_on d s \<noteq> []"
  by (induction s) (auto split: list.splits)

lemma split_on_single [go_simps]: "d \<notin> set s \<Longrightarrow> split_on d s = [s]"
  by (induction s) auto

lemma split_on_append [go_simps]:
  "d \<notin> set a \<Longrightarrow> split_on d (a @ d # b) = a # split_on d b"
  by (induction a) auto

lemma join_split_on: "join [d] (split_on d s) = s"
proof (induction s)
  case (Cons c cs)
  then show ?case by (cases "split_on d cs"; cases "tl (split_on d cs)") auto
qed simp

lemma split_first_None [go_simps]: "split_first d s = None \<longleftrightarrow> d \<notin> set s"
  by (induction s) auto

lemma split_first_append [go_simps]:
  "d \<notin> set a \<Longrightarrow> split_first d (a @ d # b) = Some (a, b)"
  by (induction a) auto

lemma split_first_SomeD: "split_first d s = Some (a, b) \<Longrightarrow> s = a @ d # b \<and> d \<notin> set a"
  by (induction s arbitrary: a) (auto split: if_splits)

lemma to_lower_length [simp]: "length (to_lower s) = length s"
  by (simp add: to_lower_def)

lemma equal_fold_refl [simp]: "equal_fold s s"
  by (simp add: equal_fold_def)

subsection \<open>Package strconv\<close>

definition is_digit :: "char \<Rightarrow> bool" where
  "is_digit c \<longleftrightarrow> (let n = of_char c :: nat in 48 \<le> n \<and> n \<le> 57)"

definition digit_val :: "char \<Rightarrow> nat" where
  "digit_val c = of_char c - 48"

definition digit_char :: "nat \<Rightarrow> char" where
  "digit_char d = char_of (48 + d)"

fun dec_val :: "nat \<Rightarrow> string \<Rightarrow> nat" where
  "dec_val acc [] = acc"
| "dec_val acc (c # cs) = dec_val (10 * acc + digit_val c) cs"

text \<open>\<open>strconv.FormatUint\<close> in base 10, and \<open>strconv.Itoa\<close> on the int type.\<close>

fun utoa :: "nat \<Rightarrow> string" where
  "utoa n = (if n < 10 then [digit_char n] else utoa (n div 10) @ [digit_char (n mod 10)])"

declare utoa.simps [simp del]

definition itoa :: "int \<Rightarrow> string" where
  "itoa i = (if i < 0 then CHR ''-'' # utoa (nat (- i)) else utoa (nat i))"

text \<open>\<open>strconv.ParseUint (s, 10, 64)\<close>: \<open>None\<close> for a syntax error or a value out of range.\<close>

definition parse_uint64 :: "string \<Rightarrow> nat option" where
  "parse_uint64 s =
     (if s = [] \<or> \<not> list_all is_digit s then None
      else let v = dec_val 0 s in if v < 2 ^ 64 then Some v else None)"

text \<open>
  \<open>strconv.Atoi\<close> with 64-bit ints. The second component says whether the error is nil; on
  an error the value is still defined, 0 for a syntax error and the nearest bound for a value
  out of range, and some callers go on with it.
\<close>

definition atoi_magnitude :: "bool \<Rightarrow> string \<Rightarrow> int \<times> bool" where
  "atoi_magnitude neg ds =
     (if ds = [] \<or> \<not> list_all is_digit ds then (0, False)
      else let v = int (dec_val 0 ds) in
        if neg then (if v \<le> 2 ^ 63 then (- v, True) else (- (2 ^ 63), False))
        else (if v < 2 ^ 63 then (v, True) else (2 ^ 63 - 1, False)))"

fun atoi :: "string \<Rightarrow> int \<times> bool" where
  "atoi [] = (0, False)"
| "atoi (c # cs) =
     (if c = CHR ''-'' then atoi_magnitude True cs
      else if c = CHR ''+'' then atoi_magnitude False cs
      else atoi_magnitude False (c # cs))"

lemma of_char_digit_char [simp]: "d < 10 \<Longrightarrow> of_char (digit_char d) = (48 + d :: nat)"
  by (simp add: digit_char_def of_char_of)

lemma digit_char_props [simp, go_simps]:
  assumes "d < 10"
  shows "is_digit (digit_char d)" and "digit_val (digit_char d) = d"
  using assms by (simp_all add: is_digit_def digit_val_def)

lemma dec_val_append: "dec_val acc (s @ t) = dec_val (dec_val acc s) t"
  by (induction s arbitrary: acc) auto

lemma utoa_nonempty [simp, go_simps]: "utoa n \<noteq> []"
  by (subst utoa.simps) simp

lemma utoa_digits [simp, go_simps]: "list_all is_digit (utoa n)"
proof (induction n rule: utoa.induct)
  case (1 n)
  then show ?case by (subst utoa.simps) (cases "n < 10"; simp)
qed

lemma dec_val_utoa [simp, go_simps]: "dec_val 0 (utoa n) = n"
proof (induction n rule: utoa.induct)
  case (1 n)
  then show ?case by (subst utoa.simps) (cases "n < 10"; simp add: dec_val_append)
qed

lemma utoa_inj: "utoa m = utoa n \<longleftrightarrow> m = n"
  by (metis dec_val_utoa)

lemma set_utoa_digits: "c \<in> set (utoa n) \<Longrightarrow> is_digit c"
  using utoa_digits [of n] by (auto simp: list_all_iff)

lemma parse_uint64_utoa [simp, go_simps]: "n < 2 ^ 64 \<Longrightarrow> parse_uint64 (utoa n) = Some n"
  by (simp add: parse_uint64_def)

lemma parse_uint64_bound: "parse_uint64 s = Some n \<Longrightarrow> n < 2 ^ 64"
  by (auto simp: parse_uint64_def Let_def split: if_splits)

lemma digit_not_sign: "is_digit c \<Longrightarrow> c \<noteq> CHR ''-'' \<and> c \<noteq> CHR ''+''"
  by (auto simp: is_digit_def)

lemma atoi_digits:
  assumes "s \<noteq> []" and "list_all is_digit s" and "dec_val 0 s < 2 ^ 63"
  shows "atoi s = (int (dec_val 0 s), True)"
proof (cases s)
  case (Cons c cs)
  then have "c \<noteq> CHR ''-'' \<and> c \<noteq> CHR ''+''"
    using assms(2) digit_not_sign by auto
  moreover have "int (dec_val 0 s) < 2 ^ 63"
    using assms(3) by (metis of_nat_less_iff of_nat_numeral of_nat_power)
  ultimately show ?thesis
    using assms Cons by (auto simp: atoi_magnitude_def Let_def)
qed (use assms in simp)

lemma atoi_utoa [simp, go_simps]: "n < 2 ^ 63 \<Longrightarrow> atoi (utoa n) = (int n, True)"
  by (simp add: atoi_digits)

lemma atoi_bounds: "- (2 ^ 63) \<le> fst (atoi s) \<and> fst (atoi s) < 2 ^ 63"
  by (cases s) (auto simp: atoi_magnitude_def Let_def)

lemma utoa_no_leading_zero: "0 < n \<Longrightarrow> hd (utoa n) \<noteq> CHR ''0''"
proof (induction n rule: utoa.induct)
  case (1 n)
  show ?case
  proof (cases "n < 10")
    case True
    then have "of_char (digit_char n) = 48 + n" by simp
    moreover have "of_char (CHR ''0'') = (48 :: nat)" by simp
    ultimately have "digit_char n \<noteq> CHR ''0''"
      using "1.prems" by (metis add_cancel_left_right less_numeral_extra(3))
    then show ?thesis using True by (subst utoa.simps) simp
  next
    case False
    then have "hd (utoa (n div 10)) \<noteq> CHR ''0''" using "1.IH" by simp
    then show ?thesis using False by (subst utoa.simps) simp
  qed
qed

text \<open>Evaluation of the character tests on literals, for concrete strings.\<close>

lemma is_digit_eval:
  "is_digit CHR ''0'' = True" "is_digit CHR ''1'' = True" "is_digit CHR ''2'' = True"
  "is_digit CHR ''3'' = True" "is_digit CHR ''4'' = True" "is_digit CHR ''5'' = True"
  "is_digit CHR ''6'' = True" "is_digit CHR ''7'' = True" "is_digit CHR ''8'' = True"
  "is_digit CHR ''9'' = True" "is_digit CHR ''a'' = False" "is_digit CHR ''b'' = False"
  "is_digit CHR ''c'' = False" "is_digit CHR ''d'' = False" "is_digit CHR ''e'' = False"
  "is_digit CHR ''f'' = False" "is_digit CHR ''g'' = False" "is_digit CHR ''h'' = False"
  "is_digit CHR ''i'' = False" "is_digit CHR ''j'' = False" "is_digit CHR ''k'' = False"
  "is_digit CHR ''l'' = False" "is_digit CHR ''m'' = False" "is_digit CHR ''n'' = False"
  "is_digit CHR ''o'' = False" "is_digit CHR ''p'' = False" "is_digit CHR ''q'' = False"
  "is_digit CHR ''r'' = False" "is_digit CHR ''s'' = False" "is_digit CHR ''t'' = False"
  "is_digit CHR ''u'' = False" "is_digit CHR ''v'' = False" "is_digit CHR ''w'' = False"
  "is_digit CHR ''x'' = False" "is_digit CHR ''y'' = False" "is_digit CHR ''z'' = False"
  "is_digit CHR ''A'' = False" "is_digit CHR ''B'' = False" "is_digit CHR ''C'' = False"
  "is_digit CHR ''D'' = False" "is_digit CHR ''E'' = False" "is_digit CHR ''F'' = False"
  "is_digit CHR ''G'' = False" "is_digit CHR ''H'' = False" "is_digit CHR ''I'' = False"
  "is_digit CHR ''J'' = False" "is_digit CHR ''K'' = False" "is_digit CHR ''L'' = False"
  "is_digit CHR ''M'' = False" "is_digit CHR ''N'' = False" "is_digit CHR ''O'' = False"
  "is_digit CHR ''P'' = False" "is_digit CHR ''Q'' = False" "is_digit CHR ''R'' = False"
  "is_digit CHR ''S'' = False" "is_digit CHR ''T'' = False" "is_digit CHR ''U'' = False"
  "is_digit CHR ''V'' = False" "is_digit CHR ''W'' = False" "is_digit CHR ''X'' = False"
  "is_digit CHR ''Y'' = False" "is_digit CHR ''Z'' = False" "is_digit CHR ''.'' = False"
  "is_digit CHR ''-'' = False" "is_digit CHR ''+'' = False" "is_digit CHR ''/'' = False"
  "is_digit CHR ''_'' = False"
  by (simp_all add: is_digit_def)

lemma digit_val_eval:
  "digit_val CHR ''0'' = 0" "digit_val CHR ''1'' = 1" "digit_val CHR ''2'' = 2"
  "digit_val CHR ''3'' = 3" "digit_val CHR ''4'' = 4" "digit_val CHR ''5'' = 5"
  "digit_val CHR ''6'' = 6" "digit_val CHR ''7'' = 7" "digit_val CHR ''8'' = 8"
  "digit_val CHR ''9'' = 9"
  by (simp_all add: digit_val_def)

lemma digit_char_val: "is_digit c \<Longrightarrow> digit_char (digit_val c) = c"
  by (auto simp: is_digit_def digit_val_def digit_char_def Let_def)

lemma digit_char_eval:
  "digit_char 0 = CHR ''0''" "digit_char (Suc 0) = CHR ''1''" "digit_char 1 = CHR ''1''"
  "digit_char 2 = CHR ''2''" "digit_char 3 = CHR ''3''" "digit_char 4 = CHR ''4''"
  "digit_char 5 = CHR ''5''" "digit_char 6 = CHR ''6''" "digit_char 7 = CHR ''7''"
  "digit_char 8 = CHR ''8''" "digit_char 9 = CHR ''9''"
  using digit_char_val [of "CHR ''0''"] digit_char_val [of "CHR ''1''"]
    digit_char_val [of "CHR ''2''"] digit_char_val [of "CHR ''3''"]
    digit_char_val [of "CHR ''4''"] digit_char_val [of "CHR ''5''"]
    digit_char_val [of "CHR ''6''"] digit_char_val [of "CHR ''7''"]
    digit_char_val [of "CHR ''8''"] digit_char_val [of "CHR ''9''"]
  by (simp_all add: is_digit_eval digit_val_eval)

text \<open>Decimal printing of concrete numbers; \<open>utoa.simps\<close> alone would unfold for ever on variables.\<close>

lemmas utoa_eval = utoa.simps digit_char_eval

end
