(* ===== verification/ApiTypes.thy ===== *)
theory ApiTypes
  imports Complex_Main GoBase
begin

section \<open>The cluster definition (pkg/api/types.go, azenvtypes.go, const.go)\<close>

text \<open>
  The unversioned API model: one record per struct, one field per field, in the source's order.
  A field keeps its source name behind a prefix for its struct (\<open>mp_Count\<close> of MasterProfile,
  \<open>ap_Count\<close> of AgentPoolProfile, \<open>kc_\<close> of KubernetesConfig, \<open>op_\<close> of OrchestratorProfile, \<open>p_\<close> of
  Properties). A pointer is an \<open>option\<close>, whose \<open>None\<close> is nil; a slice is a list, and an optional
  list where the code tells nil from empty; a string map is an optional association list in the
  order in which one range statement visits it; a named string type (OSType, Distro) is a
  string; an int is an \<open>int\<close> and a float64 a \<open>rat\<close>. \<open>zero_\<close> values are the zero values of the
  structs. The pointer from ContainerService to Properties is never nil where the modelled code runs, and
  is the value itself.
\<close>

subsection \<open>Key vault secrets and keys\<close>

record public_key =
  pk_KeyData :: string

definition zero_public_key :: public_key where
  "zero_public_key = \<lparr>pk_KeyData = ''''\<rparr>"

record key_vault_id =
  kvid_ID :: string

definition zero_key_vault_id :: key_vault_id where
  "zero_key_vault_id = \<lparr>kvid_ID = ''''\<rparr>"

record key_vault_certificate =
  kvc_CertificateURL :: string
  kvc_CertificateStore :: string

definition zero_key_vault_certificate :: key_vault_certificate where
  "zero_key_vault_certificate = \<lparr>kvc_CertificateURL = '''',
    kvc_CertificateStore = ''''\<rparr>"

record key_vault_secrets =
  kvs_SourceVault :: "key_vault_id option"
  kvs_VaultCertificates :: "key_vault_certificate list"

definition zero_key_vault_secrets :: key_vault_secrets where
  "zero_key_vault_secrets = \<lparr>kvs_SourceVault = None, kvs_VaultCertificates = []\<rparr>"

subsection \<open>Addons and components\<close>

record container_spec =
  ct_Name :: string
  ct_Image :: string
  ct_CPURequests :: string
  ct_MemoryRequests :: string
  ct_CPULimits :: string
  ct_MemoryLimits :: string

definition zero_container_spec :: container_spec where
  "zero_container_spec = \<lparr>ct_Name = '''', ct_Image = '''', ct_CPURequests = '''',
    ct_MemoryRequests = '''', ct_CPULimits = '''', ct_MemoryLimits = ''''\<rparr>"

record addon_pools_config =
  anp_Name :: string
  anp_Config :: "(string \<times> string) list option"

definition zero_addon_pools_config :: addon_pools_config where
  "zero_addon_pools_config = \<lparr>anp_Name = '''', anp_Config = None\<rparr>"

record addon =
  ad_Name :: string
  ad_Enabled :: "bool option"
  ad_Mode :: string
  ad_Containers :: "container_spec list"
  ad_Config :: "(string \<times> string) list option"
  ad_Pools :: "addon_pools_config list"
  ad_Data :: string

definition zero_addon :: addon where
  "zero_addon = \<lparr>ad_Name = '''', ad_Enabled = None, ad_Mode = '''', ad_Containers = [],
    ad_Config = None, ad_Pools = [], ad_Data = ''''\<rparr>"

record component =
  co_Name :: string
  co_Enabled :: "bool option"
  co_Containers :: "container_spec list"
  co_Config :: "(string \<times> string) list option"
  co_Data :: string

definition zero_component :: component where
  "zero_component = \<lparr>co_Name = '''', co_Enabled = None, co_Containers = [],
    co_Config = None, co_Data = ''''\<rparr>"

subsection \<open>Kubernetes configuration\<close>

record private_jumpbox_profile =
  pj_Name :: string
  pj_VMSize :: string
  pj_OSDiskSizeGB :: int
  pj_Username :: string
  pj_PublicKey :: string
  pj_StorageProfile :: string

definition zero_private_jumpbox_profile :: private_jumpbox_profile where
  "zero_private_jumpbox_profile = \<lparr>pj_Name = '''', pj_VMSize = '''', pj_OSDiskSizeGB = 0,
    pj_Username = '''', pj_PublicKey = '''', pj_StorageProfile = ''''\<rparr>"

record private_cluster =
  pc_Enabled :: "bool option"
  pc_EnableHostsConfigAgent :: "bool option"
  pc_JumpboxProfile :: "private_jumpbox_profile option"

definition zero_private_cluster :: private_cluster where
  "zero_private_cluster = \<lparr>pc_Enabled = None, pc_EnableHostsConfigAgent = None,
    pc_JumpboxProfile = None\<rparr>"

record kubernetes_config =
  kc_KubernetesImageBase :: string
  kc_KubernetesImageBaseType :: string
  kc_MCRKubernetesImageBase :: string
  kc_ClusterSubnet :: string
  kc_NetworkPolicy :: string
  kc_NetworkPlugin :: string
  kc_NetworkMode :: string
  kc_ContainerRuntime :: string
  kc_MaxPods :: int
  kc_DockerBridgeSubnet :: string
  kc_DNSServiceIP :: string
  kc_ServiceCIDR :: string
  kc_UseManagedIdentity :: "bool option"
  kc_UserAssignedID :: string
  kc_UserAssignedClientID :: string
  kc_CustomHyperkubeImage :: string
  kc_CustomKubeAPIServerImage :: string
  kc_CustomKubeControllerManagerImage :: string
  kc_CustomKubeProxyImage :: string
  kc_CustomKubeSchedulerImage :: string
  kc_CustomKubeBinaryURL :: string
  kc_DockerEngineVersion :: string
  kc_MobyVersion :: string
  kc_LinuxMobyURL :: string
  kc_LinuxRuncURL :: string
  kc_ContainerdVersion :: string
  kc_LinuxContainerdURL :: string
  kc_CustomCcmImage :: string
  kc_UseCloudControllerManager :: "bool option"
  kc_CustomWindowsPackageURL :: string
  kc_WindowsNodeBinariesURL :: string
  kc_WindowsContainerdURL :: string
  kc_WindowsSdnPluginURL :: string
  kc_UseInstanceMetadata :: "bool option"
  kc_EnableRbac :: "bool option"
  kc_EnableSecureKubelet :: "bool option"
  kc_EnableAggregatedAPIs :: bool
  kc_PrivateCluster :: "private_cluster option"
  kc_GCHighThreshold :: int
  kc_GCLowThreshold :: int
  kc_EtcdVersion :: string
  kc_EtcdDiskSizeGB :: string
  kc_EtcdStorageLimitGB :: int
  kc_EtcdEncryptionKey :: string
  kc_EnableDataEncryptionAtRest :: "bool option"
  kc_EnableEncryptionWithExternalKms :: "bool option"
  kc_EnablePodSecurityPolicy :: "bool option"
  kc_Addons :: "addon list"
  kc_Components :: "component list"
  kc_KubeletConfig :: "(string \<times> string) list option"
  kc_ContainerRuntimeConfig :: "(string \<times> string) list option"
  kc_ControllerManagerConfig :: "(string \<times> string) list option"
  kc_CloudControllerManagerConfig :: "(string \<times> string) list option"
  kc_APIServerConfig :: "(string \<times> string) list option"
  kc_SchedulerConfig :: "(string \<times> string) list option"
  kc_PodSecurityPolicyConfig :: "(string \<times> string) list option"
  kc_KubeReservedCgroup :: string
  kc_CloudProviderBackoffMode :: string
  kc_CloudProviderBackoff :: "bool option"
  kc_CloudProviderBackoffRetries :: int
  kc_CloudProviderBackoffJitter :: rat
  kc_CloudProviderBackoffDuration :: int
  kc_CloudProviderBackoffExponent :: rat
  kc_CloudProviderRateLimit :: "bool option"
  kc_CloudProviderRateLimitQPS :: rat
  kc_CloudProviderRateLimitQPSWrite :: rat
  kc_CloudProviderRateLimitBucket :: int
  kc_CloudProviderRateLimitBucketWrite :: int
  kc_CloudProviderDisableOutboundSNAT :: "bool option"
  kc_NonMasqueradeCidr :: string
  kc_NodeStatusUpdateFrequency :: string
  kc_HardEvictionThreshold :: string
  kc_CtrlMgrNodeMonitorGracePeriod :: string
  kc_CtrlMgrPodEvictionTimeout :: string
  kc_CtrlMgrRouteReconciliationPeriod :: string
  kc_LoadBalancerSku :: string
  kc_ExcludeMasterFromStandardLB :: "bool option"
  kc_LoadBalancerOutboundIPs :: "int option"
  kc_AzureCNIVersion :: string
  kc_AzureCNIURLLinux :: string
  kc_AzureCNIURLWindows :: string
  kc_KeyVaultSku :: string
  kc_MaximumLoadBalancerRuleCount :: int
  kc_ProxyMode :: string
  kc_PrivateAzureRegistryServer :: string
  kc_OutboundRuleIdleTimeoutInMinutes :: int
  kc_MicrosoftAptRepositoryURL :: string
  kc_EnableMultipleStandardLoadBalancers :: "bool option"
  kc_Tags :: string

definition zero_kubernetes_config :: kubernetes_config where
  "zero_kubernetes_config = \<lparr>kc_KubernetesImageBase = '''',
    kc_KubernetesImageBaseType = '''', kc_MCRKubernetesImageBase = '''', kc_ClusterSubnet = '''',
    kc_NetworkPolicy = '''', kc_NetworkPlugin = '''', kc_NetworkMode = '''',
    kc_ContainerRuntime = '''', kc_MaxPods = 0, kc_DockerBridgeSubnet = '''',
    kc_DNSServiceIP = '''', kc_ServiceCIDR = '''', kc_UseManagedIdentity = None,
    kc_UserAssignedID = '''', kc_UserAssignedClientID = '''', kc_CustomHyperkubeImage = '''',
    kc_CustomKubeAPIServerImage = '''', kc_CustomKubeControllerManagerImage = '''',
    kc_CustomKubeProxyImage = '''', kc_CustomKubeSchedulerImage = '''',
    kc_CustomKubeBinaryURL = '''', kc_DockerEngineVersion = '''', kc_MobyVersion = '''',
    kc_LinuxMobyURL = '''', kc_LinuxRuncURL = '''', kc_ContainerdVersion = '''',
    kc_LinuxContainerdURL = '''', kc_CustomCcmImage = '''', kc_UseCloudControllerManager = None,
    kc_CustomWindowsPackageURL = '''', kc_WindowsNodeBinariesURL = '''',
    kc_WindowsContainerdURL = '''', kc_WindowsSdnPluginURL = '''', kc_UseInstanceMetadata = None,
    kc_EnableRbac = None, kc_EnableSecureKubelet = None, kc_EnableAggregatedAPIs = False,
    kc_PrivateCluster = None, kc_GCHighThreshold = 0, kc_GCLowThreshold = 0,
    kc_EtcdVersion = '''', kc_EtcdDiskSizeGB = '''', kc_EtcdStorageLimitGB = 0,
    kc_EtcdEncryptionKey = '''', kc_EnableDataEncryptionAtRest = None,
    kc_EnableEncryptionWithExternalKms = None, kc_EnablePodSecurityPolicy = None, kc_Addons = [],
    kc_Components = [], kc_KubeletConfig = None, kc_ContainerRuntimeConfig = None,
    kc_ControllerManagerConfig = None, kc_CloudControllerManagerConfig = None,
    kc_APIServerConfig = None, kc_SchedulerConfig = None, kc_PodSecurityPolicyConfig = None,
    kc_KubeReservedCgroup = '''', kc_CloudProviderBackoffMode = '''',
    kc_CloudProviderBackoff = None, kc_CloudProviderBackoffRetries = 0,
    kc_CloudProviderBackoffJitter = 0, kc_CloudProviderBackoffDuration = 0,
    kc_CloudProviderBackoffExponent = 0, kc_CloudProviderRateLimit = None,
    kc_CloudProviderRateLimitQPS = 0, kc_CloudProviderRateLimitQPSWrite = 0,
    kc_CloudProviderRateLimitBucket = 0, kc_CloudProviderRateLimitBucketWrite = 0,
    kc_CloudProviderDisableOutboundSNAT = None, kc_NonMasqueradeCidr = '''',
    kc_NodeStatusUpdateFrequency = '''', kc_HardEvictionThreshold = '''',
    kc_CtrlMgrNodeMonitorGracePeriod = '''', kc_CtrlMgrPodEvictionTimeout = '''',
    kc_CtrlMgrRouteReconciliationPeriod = '''', kc_LoadBalancerSku = '''',
    kc_ExcludeMasterFromStandardLB = None, kc_LoadBalancerOutboundIPs = None,
    kc_AzureCNIVersion = '''', kc_AzureCNIURLLinux = '''', kc_AzureCNIURLWindows = '''',
    kc_KeyVaultSku = '''', kc_MaximumLoadBalancerRuleCount = 0, kc_ProxyMode = '''',
    kc_PrivateAzureRegistryServer = '''', kc_OutboundRuleIdleTimeoutInMinutes = 0,
    kc_MicrosoftAptRepositoryURL = '''', kc_EnableMultipleStandardLoadBalancers = None,
    kc_Tags = ''''\<rparr>"

record orchestrator_profile =
  op_OrchestratorType :: string
  op_OrchestratorVersion :: string
  op_KubernetesConfig :: "kubernetes_config option"

definition zero_orchestrator_profile :: orchestrator_profile where
  "zero_orchestrator_profile = \<lparr>op_OrchestratorType = '''', op_OrchestratorVersion = '''',
    op_KubernetesConfig = None\<rparr>"

subsection \<open>Node pools\<close>

record custom_file =
  cf_Source :: string
  cf_Dest :: string

definition zero_custom_file :: custom_file where
  "zero_custom_file = \<lparr>cf_Source = '''', cf_Dest = ''''\<rparr>"

record image_reference =
  ir_Name :: string
  ir_ResourceGroup :: string
  ir_SubscriptionID :: string
  ir_Gallery :: string
  ir_Version :: string

definition zero_image_reference :: image_reference where
  "zero_image_reference = \<lparr>ir_Name = '''', ir_ResourceGroup = '''',
    ir_SubscriptionID = '''', ir_Gallery = '''', ir_Version = ''''\<rparr>"

record extension =
  ex_Name :: string
  ex_SingleOrAll :: string
  ex_Template :: string

definition zero_extension :: extension where
  "zero_extension = \<lparr>ex_Name = '''', ex_SingleOrAll = '''', ex_Template = ''''\<rparr>"

record master_profile =
  mp_Count :: int
  mp_DNSPrefix :: string
  mp_SubjectAltNames :: "string list"
  mp_VMSize :: string
  mp_OSDiskSizeGB :: int
  mp_VnetSubnetID :: string
  mp_VnetCidr :: string
  mp_AgentVnetSubnetID :: string
  mp_FirstConsecutiveStaticIP :: string
  mp_Subnet :: string
  mp_SubnetIPv6 :: string
  mp_IPAddressCount :: int
  mp_StorageProfile :: string
  mp_HTTPSourceAddressPrefix :: string
  mp_OAuthEnabled :: bool
  mp_PreprovisionExtension :: "extension option"
  mp_Extensions :: "extension list"
  mp_Distro :: string
  mp_KubernetesConfig :: "kubernetes_config option"
  mp_ImageRef :: "image_reference option"
  mp_CustomFiles :: "custom_file list option"
  mp_AvailabilityProfile :: string
  mp_PlatformFaultDomainCount :: "int option"
  mp_PlatformUpdateDomainCount :: "int option"
  mp_AgentSubnet :: string
  mp_AvailabilityZones :: "string list"
  mp_SinglePlacementGroup :: "bool option"
  mp_AuditDEnabled :: "bool option"
  mp_UltraSSDEnabled :: "bool option"
  mp_EncryptionAtHost :: "bool option"
  mp_CustomVMTags :: "(string \<times> string) list option"
  mp_FQDN :: string
  mp_CosmosEtcd :: "bool option"
  mp_SysctlDConfig :: "(string \<times> string) list option"
  mp_ProximityPlacementGroupID :: string
  mp_OSDiskCachingType :: string

definition zero_master_profile :: master_profile where
  "zero_master_profile = \<lparr>mp_Count = 0, mp_DNSPrefix = '''', mp_SubjectAltNames = [],
    mp_VMSize = '''', mp_OSDiskSizeGB = 0, mp_VnetSubnetID = '''', mp_VnetCidr = '''',
    mp_AgentVnetSubnetID = '''', mp_FirstConsecutiveStaticIP = '''', mp_Subnet = '''',
    mp_SubnetIPv6 = '''', mp_IPAddressCount = 0, mp_StorageProfile = '''',
    mp_HTTPSourceAddressPrefix = '''', mp_OAuthEnabled = False, mp_PreprovisionExtension = None,
    mp_Extensions = [], mp_Distro = '''', mp_KubernetesConfig = None, mp_ImageRef = None,
    mp_CustomFiles = None, mp_AvailabilityProfile = '''', mp_PlatformFaultDomainCount = None,
    mp_PlatformUpdateDomainCount = None, mp_AgentSubnet = '''', mp_AvailabilityZones = [],
    mp_SinglePlacementGroup = None, mp_AuditDEnabled = None, mp_UltraSSDEnabled = None,
    mp_EncryptionAtHost = None, mp_CustomVMTags = None, mp_FQDN = '''', mp_CosmosEtcd = None,
    mp_SysctlDConfig = None, mp_ProximityPlacementGroupID = '''',
    mp_OSDiskCachingType = ''''\<rparr>"

record agent_pool_profile =
  ap_Name :: string
  ap_Count :: int
  ap_VMSize :: string
  ap_OSDiskSizeGB :: int
  ap_DNSPrefix :: string
  ap_OSType :: string
  ap_Ports :: "int list"
  ap_ProvisioningState :: string
  ap_AvailabilityProfile :: string
  ap_ScaleSetPriority :: string
  ap_ScaleSetEvictionPolicy :: string
  ap_SpotMaxPrice :: "rat option"
  ap_StorageProfile :: string
  ap_DiskSizesGB :: "int list"
  ap_VnetSubnetID :: string
  ap_Subnet :: string
  ap_IPAddressCount :: int
  ap_Distro :: string
  ap_Role :: string
  ap_AcceleratedNetworkingEnabled :: "bool option"
  ap_AcceleratedNetworkingEnabledWindows :: "bool option"
  ap_VMSSOverProvisioningEnabled :: "bool option"
  ap_FQDN :: string
  ap_CustomNodeLabels :: "(string \<times> string) list option"
  ap_PreprovisionExtension :: "extension option"
  ap_Extensions :: "extension list"
  ap_KubernetesConfig :: "kubernetes_config option"
  ap_OrchestratorVersion :: string
  ap_ImageRef :: "image_reference option"
  ap_MaxCount :: "int option"
  ap_MinCount :: "int option"
  ap_EnableAutoScaling :: "bool option"
  ap_AvailabilityZones :: "string list option"
  ap_PlatformFaultDomainCount :: "int option"
  ap_PlatformUpdateDomainCount :: "int option"
  ap_SinglePlacementGroup :: "bool option"
  ap_VnetCidrs :: "string list"
  ap_PreserveNodesProperties :: "bool option"
  ap_WindowsNameVersion :: string
  ap_EnableVMSSNodePublicIP :: "bool option"
  ap_LoadBalancerBackendAddressPoolIDs :: "string list option"
  ap_AuditDEnabled :: "bool option"
  ap_CustomVMTags :: "(string \<times> string) list option"
  ap_DiskEncryptionSetID :: string
  ap_SysctlDConfig :: "(string \<times> string) list option"
  ap_UltraSSDEnabled :: "bool option"
  ap_EncryptionAtHost :: "bool option"
  ap_ProximityPlacementGroupID :: string
  ap_OSDiskCachingType :: string
  ap_DataDiskCachingType :: string
  ap_VMSSName :: string

definition zero_agent_pool_profile :: agent_pool_profile where
  "zero_agent_pool_profile = \<lparr>ap_Name = '''', ap_Count = 0, ap_VMSize = '''',
    ap_OSDiskSizeGB = 0, ap_DNSPrefix = '''', ap_OSType = '''', ap_Ports = [],
    ap_ProvisioningState = '''', ap_AvailabilityProfile = '''', ap_ScaleSetPriority = '''',
    ap_ScaleSetEvictionPolicy = '''', ap_SpotMaxPrice = None, ap_StorageProfile = '''',
    ap_DiskSizesGB = [], ap_VnetSubnetID = '''', ap_Subnet = '''', ap_IPAddressCount = 0,
    ap_Distro = '''', ap_Role = '''', ap_AcceleratedNetworkingEnabled = None,
    ap_AcceleratedNetworkingEnabledWindows = None, ap_VMSSOverProvisioningEnabled = None,
    ap_FQDN = '''', ap_CustomNodeLabels = None, ap_PreprovisionExtension = None,
    ap_Extensions = [], ap_KubernetesConfig = None, ap_OrchestratorVersion = '''',
    ap_ImageRef = None, ap_MaxCount = None, ap_MinCount = None, ap_EnableAutoScaling = None,
    ap_AvailabilityZones = None, ap_PlatformFaultDomainCount = None,
    ap_PlatformUpdateDomainCount = None, ap_SinglePlacementGroup = None, ap_VnetCidrs = [],
    ap_PreserveNodesProperties = None, ap_WindowsNameVersion = '''',
    ap_EnableVMSSNodePublicIP = None, ap_LoadBalancerBackendAddressPoolIDs = None,
    ap_AuditDEnabled = None, ap_CustomVMTags = None, ap_DiskEncryptionSetID = '''',
    ap_SysctlDConfig = None, ap_UltraSSDEnabled = None, ap_EncryptionAtHost = None,
    ap_ProximityPlacementGroupID = '''', ap_OSDiskCachingType = '''',
    ap_DataDiskCachingType = '''', ap_VMSSName = ''''\<rparr>"

subsection \<open>Cluster-wide profiles\<close>

record feature_flags =
  ff_EnableCSERunInBackground :: bool
  ff_BlockOutboundInternet :: bool
  ff_EnableIPv6DualStack :: bool
  ff_EnableTelemetry :: bool
  ff_EnableIPv6Only :: bool
  ff_EnableWinDSR :: bool
  ff_EnforceUbuntuDisaStig :: bool
  ff_EnforceKubernetesDisaStig :: bool

definition zero_feature_flags :: feature_flags where
  "zero_feature_flags = \<lparr>ff_EnableCSERunInBackground = False,
    ff_BlockOutboundInternet = False, ff_EnableIPv6DualStack = False, ff_EnableTelemetry = False,
    ff_EnableIPv6Only = False, ff_EnableWinDSR = False, ff_EnforceUbuntuDisaStig = False,
    ff_EnforceKubernetesDisaStig = False\<rparr>"

record custom_search_domain =
  sd_Name :: string
  sd_RealmUser :: string
  sd_RealmPassword :: string

definition zero_custom_search_domain :: custom_search_domain where
  "zero_custom_search_domain = \<lparr>sd_Name = '''', sd_RealmUser = '''',
    sd_RealmPassword = ''''\<rparr>"

record custom_nodes_dns =
  nd_DNSServer :: string

definition zero_custom_nodes_dns :: custom_nodes_dns where
  "zero_custom_nodes_dns = \<lparr>nd_DNSServer = ''''\<rparr>"

record linux_profile =
  lp_AdminUsername :: string
  lp_SSH_PublicKeys :: "public_key list"
  lp_Secrets :: "key_vault_secrets list"
  lp_Distro :: string
  lp_ScriptRootURL :: string
  lp_CustomSearchDomain :: "custom_search_domain option"
  lp_CustomNodesDNS :: "custom_nodes_dns option"
  lp_IsSSHKeyAutoGenerated :: "bool option"
  lp_RunUnattendedUpgradesOnBootstrap :: "bool option"
  lp_EnableUnattendedUpgrades :: "bool option"
  lp_Eth0MTU :: int

definition zero_linux_profile :: linux_profile where
  "zero_linux_profile = \<lparr>lp_AdminUsername = '''', lp_SSH_PublicKeys = [], lp_Secrets = [],
    lp_Distro = '''', lp_ScriptRootURL = '''', lp_CustomSearchDomain = None,
    lp_CustomNodesDNS = None, lp_IsSSHKeyAutoGenerated = None,
    lp_RunUnattendedUpgradesOnBootstrap = None, lp_EnableUnattendedUpgrades = None,
    lp_Eth0MTU = 0\<rparr>"

record runtime_handlers =
  rh_BuildNumber :: string

definition zero_runtime_handlers :: runtime_handlers where
  "zero_runtime_handlers = \<lparr>rh_BuildNumber = ''''\<rparr>"

record windows_runtimes =
  wr_Default :: string
  wr_HypervRuntimes :: "runtime_handlers list"

definition zero_windows_runtimes :: windows_runtimes where
  "zero_windows_runtimes = \<lparr>wr_Default = '''', wr_HypervRuntimes = []\<rparr>"

record windows_profile =
  wp_AdminUsername :: string
  wp_AdminPassword :: string
  wp_CSIProxyURL :: string
  wp_EnableCSIProxy :: "bool option"
  wp_ImageRef :: "image_reference option"
  wp_ImageVersion :: string
  wp_ProvisioningScriptsPackageURL :: string
  wp_WindowsImageSourceURL :: string
  wp_WindowsPublisher :: string
  wp_WindowsOffer :: string
  wp_WindowsSku :: string
  wp_WindowsDockerVersion :: string
  wp_Secrets :: "key_vault_secrets list"
  wp_SSHEnabled :: "bool option"
  wp_EnableAutomaticUpdates :: "bool option"
  wp_IsCredentialAutoGenerated :: "bool option"
  wp_EnableAHUB :: "bool option"
  wp_WindowsPauseImageURL :: string
  wp_AlwaysPullWindowsPauseImage :: "bool option"
  wp_WindowsRuntimes :: "windows_runtimes option"
  wp_WindowsSecureTLSEnabled :: "bool option"

definition zero_windows_profile :: windows_profile where
  "zero_windows_profile = \<lparr>wp_AdminUsername = '''', wp_AdminPassword = '''',
    wp_CSIProxyURL = '''', wp_EnableCSIProxy = None, wp_ImageRef = None, wp_ImageVersion = '''',
    wp_ProvisioningScriptsPackageURL = '''', wp_WindowsImageSourceURL = '''',
    wp_WindowsPublisher = '''', wp_WindowsOffer = '''', wp_WindowsSku = '''',
    wp_WindowsDockerVersion = '''', wp_Secrets = [], wp_SSHEnabled = None,
    wp_EnableAutomaticUpdates = None, wp_IsCredentialAutoGenerated = None, wp_EnableAHUB = None,
    wp_WindowsPauseImageURL = '''', wp_AlwaysPullWindowsPauseImage = None,
    wp_WindowsRuntimes = None, wp_WindowsSecureTLSEnabled = None\<rparr>"

record aad_profile =
  aad_ClientAppID :: string
  aad_ServerAppID :: string
  aad_ServerAppSecret :: string
  aad_TenantID :: string
  aad_AdminGroupID :: string
  aad_Authenticator :: string

definition zero_aad_profile :: aad_profile where
  "zero_aad_profile = \<lparr>aad_ClientAppID = '''', aad_ServerAppID = '''',
    aad_ServerAppSecret = '''', aad_TenantID = '''', aad_AdminGroupID = '''',
    aad_Authenticator = ''''\<rparr>"

record keyvault_secret_ref =
  ksr_VaultID :: string
  ksr_SecretName :: string
  ksr_SecretVersion :: string

definition zero_keyvault_secret_ref :: keyvault_secret_ref where
  "zero_keyvault_secret_ref = \<lparr>ksr_VaultID = '''', ksr_SecretName = '''',
    ksr_SecretVersion = ''''\<rparr>"

record service_principal_profile =
  sp_ClientID :: string
  sp_Secret :: string
  sp_ObjectID :: string
  sp_KeyvaultSecretRef :: "keyvault_secret_ref option"

definition zero_service_principal_profile :: service_principal_profile where
  "zero_service_principal_profile = \<lparr>sp_ClientID = '''', sp_Secret = '''',
    sp_ObjectID = '''', sp_KeyvaultSecretRef = None\<rparr>"

record certificate_profile =
  cert_CaCertificate :: string
  cert_CaPrivateKey :: string
  cert_APIServerCertificate :: string
  cert_APIServerPrivateKey :: string
  cert_ClientCertificate :: string
  cert_ClientPrivateKey :: string
  cert_KubeConfigCertificate :: string
  cert_KubeConfigPrivateKey :: string
  cert_EtcdServerCertificate :: string
  cert_EtcdServerPrivateKey :: string
  cert_EtcdClientCertificate :: string
  cert_EtcdClientPrivateKey :: string
  cert_EtcdPeerCertificates :: "string list"
  cert_EtcdPeerPrivateKeys :: "string list"

definition zero_certificate_profile :: certificate_profile where
  "zero_certificate_profile = \<lparr>cert_CaCertificate = '''', cert_CaPrivateKey = '''',
    cert_APIServerCertificate = '''', cert_APIServerPrivateKey = '''',
    cert_ClientCertificate = '''', cert_ClientPrivateKey = '''',
    cert_KubeConfigCertificate = '''', cert_KubeConfigPrivateKey = '''',
    cert_EtcdServerCertificate = '''', cert_EtcdServerPrivateKey = '''',
    cert_EtcdClientCertificate = '''', cert_EtcdClientPrivateKey = '''',
    cert_EtcdPeerCertificates = [], cert_EtcdPeerPrivateKeys = []\<rparr>"

record extension_profile =
  ep_Name :: string
  ep_Version :: string
  ep_ExtensionParameters :: string
  ep_ExtensionParametersKeyVaultRef :: "keyvault_secret_ref option"
  ep_RootURL :: string
  ep_Script :: string
  ep_URLQuery :: string

definition zero_extension_profile :: extension_profile where
  "zero_extension_profile = \<lparr>ep_Name = '''', ep_Version = '''',
    ep_ExtensionParameters = '''', ep_ExtensionParametersKeyVaultRef = None, ep_RootURL = '''',
    ep_Script = '''', ep_URLQuery = ''''\<rparr>"

record jumpbox_profile =
  jb_OSType :: string
  jb_DNSPrefix :: string
  jb_FQDN :: string

definition zero_jumpbox_profile :: jumpbox_profile where
  "zero_jumpbox_profile = \<lparr>jb_OSType = '''', jb_DNSPrefix = '''', jb_FQDN = ''''\<rparr>"

record telemetry_profile =
  tp_ApplicationInsightsKey :: string

definition zero_telemetry_profile :: telemetry_profile where
  "zero_telemetry_profile = \<lparr>tp_ApplicationInsightsKey = ''''\<rparr>"

subsection \<open>Settings of a cloud (azenvtypes.go)\<close>

record kubernetes_spec_config =
  ks_AzureTelemetryPID :: string
  ks_KubernetesImageBase :: string
  ks_TillerImageBase :: string
  ks_ACIConnectorImageBase :: string
  ks_MCRKubernetesImageBase :: string
  ks_NVIDIAImageBase :: string
  ks_AzureCNIImageBase :: string
  ks_CalicoImageBase :: string
  ks_EtcdDownloadURLBase :: string
  ks_KubeBinariesSASURLBase :: string
  ks_WindowsTelemetryGUID :: string
  ks_CNIPluginsDownloadURL :: string
  ks_VnetCNILinuxPluginsDownloadURL :: string
  ks_VnetCNIWindowsPluginsDownloadURL :: string
  ks_ContainerdDownloadURLBase :: string
  ks_CSIProxyDownloadURL :: string
  ks_WindowsProvisioningScriptsPackageURL :: string
  ks_WindowsPauseImageURL :: string
  ks_AlwaysPullWindowsPauseImage :: bool

definition zero_kubernetes_spec_config :: kubernetes_spec_config where
  "zero_kubernetes_spec_config = \<lparr>ks_AzureTelemetryPID = '''',
    ks_KubernetesImageBase = '''', ks_TillerImageBase = '''', ks_ACIConnectorImageBase = '''',
    ks_MCRKubernetesImageBase = '''', ks_NVIDIAImageBase = '''', ks_AzureCNIImageBase = '''',
    ks_CalicoImageBase = '''', ks_EtcdDownloadURLBase = '''', ks_KubeBinariesSASURLBase = '''',
    ks_WindowsTelemetryGUID = '''', ks_CNIPluginsDownloadURL = '''',
    ks_VnetCNILinuxPluginsDownloadURL = '''', ks_VnetCNIWindowsPluginsDownloadURL = '''',
    ks_ContainerdDownloadURLBase = '''', ks_CSIProxyDownloadURL = '''',
    ks_WindowsProvisioningScriptsPackageURL = '''', ks_WindowsPauseImageURL = '''',
    ks_AlwaysPullWindowsPauseImage = False\<rparr>"

record azure_endpoint_config =
  ec_ResourceManagerVMDNSSuffix :: string

definition zero_azure_endpoint_config :: azure_endpoint_config where
  "zero_azure_endpoint_config = \<lparr>ec_ResourceManagerVMDNSSuffix = ''''\<rparr>"

record azure_os_image_config =
  oi_ImageOffer :: string
  oi_ImageSku :: string
  oi_ImagePublisher :: string
  oi_ImageVersion :: string

definition zero_azure_os_image_config :: azure_os_image_config where
  "zero_azure_os_image_config = \<lparr>oi_ImageOffer = '''', oi_ImageSku = '''',
    oi_ImagePublisher = '''', oi_ImageVersion = ''''\<rparr>"

record azure_environment_spec_config =
  es_CloudName :: string
  es_KubernetesSpecConfig :: kubernetes_spec_config
  es_EndpointConfig :: azure_endpoint_config
  es_OSImageConfig :: "(string \<times> azure_os_image_config) list option"

definition zero_azure_environment_spec_config :: azure_environment_spec_config where
  "zero_azure_environment_spec_config = \<lparr>es_CloudName = '''',
    es_KubernetesSpecConfig = zero_kubernetes_spec_config,
    es_EndpointConfig = zero_azure_endpoint_config, es_OSImageConfig = None\<rparr>"

subsection \<open>Custom clouds\<close>

record resource_identifier =
  ri_Graph :: string
  ri_KeyVault :: string
  ri_Datalake :: string
  ri_Batch :: string
  ri_OperationalInsights :: string
  ri_Storage :: string
  ri_Synapse :: string
  ri_ServiceBus :: string

definition zero_resource_identifier :: resource_identifier where
  "zero_resource_identifier = \<lparr>ri_Graph = '''', ri_KeyVault = '''', ri_Datalake = '''',
    ri_Batch = '''', ri_OperationalInsights = '''', ri_Storage = '''', ri_Synapse = '''',
    ri_ServiceBus = ''''\<rparr>"

record environment =
  env_Name :: string
  env_ManagementPortalURL :: string
  env_PublishSettingsURL :: string
  env_ServiceManagementEndpoint :: string
  env_ResourceManagerEndpoint :: string
  env_ActiveDirectoryEndpoint :: string
  env_GalleryEndpoint :: string
  env_KeyVaultEndpoint :: string
  env_GraphEndpoint :: string
  env_ServiceBusEndpoint :: string
  env_BatchManagementEndpoint :: string
  env_StorageEndpointSuffix :: string
  env_SQLDatabaseDNSSuffix :: string
  env_TrafficManagerDNSSuffix :: string
  env_KeyVaultDNSSuffix :: string
  env_ServiceBusEndpointSuffix :: string
  env_ServiceManagementVMDNSSuffix :: string
  env_ResourceManagerVMDNSSuffix :: string
  env_ContainerRegistryDNSSuffix :: string
  env_CosmosDBDNSSuffix :: string
  env_TokenAudience :: string
  env_APIManagementHostNameSuffix :: string
  env_SynapseEndpointSuffix :: string
  env_ResourceIdentifiers :: resource_identifier

definition zero_environment :: environment where
  "zero_environment = \<lparr>env_Name = '''', env_ManagementPortalURL = '''',
    env_PublishSettingsURL = '''', env_ServiceManagementEndpoint = '''',
    env_ResourceManagerEndpoint = '''', env_ActiveDirectoryEndpoint = '''',
    env_GalleryEndpoint = '''', env_KeyVaultEndpoint = '''', env_GraphEndpoint = '''',
    env_ServiceBusEndpoint = '''', env_BatchManagementEndpoint = '''',
    env_StorageEndpointSuffix = '''', env_SQLDatabaseDNSSuffix = '''',
    env_TrafficManagerDNSSuffix = '''', env_KeyVaultDNSSuffix = '''',
    env_ServiceBusEndpointSuffix = '''', env_ServiceManagementVMDNSSuffix = '''',
    env_ResourceManagerVMDNSSuffix = '''', env_ContainerRegistryDNSSuffix = '''',
    env_CosmosDBDNSSuffix = '''', env_TokenAudience = '''',
    env_APIManagementHostNameSuffix = '''', env_SynapseEndpointSuffix = '''',
    env_ResourceIdentifiers = zero_resource_identifier\<rparr>"

record custom_cloud_profile =
  cc_Environment :: "environment option"
  cc_AzureEnvironmentSpecConfig :: "azure_environment_spec_config option"
  cc_IdentitySystem :: string
  cc_AuthenticationMethod :: string
  cc_DependenciesLocation :: string
  cc_PortalURL :: string
  cc_CustomCloudRootCertificates :: string
  cc_CustomCloudSourcesList :: string

definition zero_custom_cloud_profile :: custom_cloud_profile where
  "zero_custom_cloud_profile = \<lparr>cc_Environment = None,
    cc_AzureEnvironmentSpecConfig = None, cc_IdentitySystem = '''',
    cc_AuthenticationMethod = '''', cc_DependenciesLocation = '''', cc_PortalURL = '''',
    cc_CustomCloudRootCertificates = '''', cc_CustomCloudSourcesList = ''''\<rparr>"

subsection \<open>The cluster\<close>

record properties =
  p_ClusterID :: string
  p_ProvisioningState :: string
  p_OrchestratorProfile :: "orchestrator_profile option"
  p_MasterProfile :: "master_profile option"
  p_AgentPoolProfiles :: "agent_pool_profile list option"
  p_LinuxProfile :: "linux_profile option"
  p_WindowsProfile :: "windows_profile option"
  p_ExtensionProfiles :: "extension_profile list"
  p_JumpboxProfile :: "jumpbox_profile option"
  p_ServicePrincipalProfile :: "service_principal_profile option"
  p_CertificateProfile :: "certificate_profile option"
  p_AADProfile :: "aad_profile option"
  p_FeatureFlags :: "feature_flags option"
  p_CustomCloudProfile :: "custom_cloud_profile option"
  p_TelemetryProfile :: "telemetry_profile option"

definition zero_properties :: properties where
  "zero_properties = \<lparr>p_ClusterID = '''', p_ProvisioningState = '''',
    p_OrchestratorProfile = None, p_MasterProfile = None, p_AgentPoolProfiles = None,
    p_LinuxProfile = None, p_WindowsProfile = None, p_ExtensionProfiles = [],
    p_JumpboxProfile = None, p_ServicePrincipalProfile = None, p_CertificateProfile = None,
    p_AADProfile = None, p_FeatureFlags = None, p_CustomCloudProfile = None,
    p_TelemetryProfile = None\<rparr>"

record resource_purchase_plan =
  rpp_Name :: string
  rpp_Product :: string
  rpp_PromotionCode :: string
  rpp_Publisher :: string

definition zero_resource_purchase_plan :: resource_purchase_plan where
  "zero_resource_purchase_plan = \<lparr>rpp_Name = '''', rpp_Product = '''',
    rpp_PromotionCode = '''', rpp_Publisher = ''''\<rparr>"

record container_service =
  cs_ID :: string
  cs_Location :: string
  cs_Name :: string
  cs_Plan :: "resource_purchase_plan option"
  cs_Tags :: "(string \<times> string) list option"
  cs_Type :: string
  cs_Properties :: properties

definition zero_container_service :: container_service where
  "zero_container_service = \<lparr>cs_ID = '''', cs_Location = '''', cs_Name = '''',
    cs_Plan = None, cs_Tags = None, cs_Type = '''', cs_Properties = zero_properties\<rparr>"

subsection \<open>Constants of const.go\<close>

definition Windows :: string where "Windows = ''Windows''"
definition Linux :: string where "Linux = ''Linux''"

definition Ubuntu :: string where "Ubuntu = ''ubuntu''"
definition Ubuntu1804 :: string where "Ubuntu1804 = ''ubuntu-18.04''"
definition Ubuntu1804Gen2 :: string where "Ubuntu1804Gen2 = ''ubuntu-18.04-gen2''"
definition Ubuntu2004 :: string where "Ubuntu2004 = ''ubuntu-20.04''"
definition Ubuntu2204 :: string where "Ubuntu2204 = ''ubuntu-22.04''"
definition Flatcar :: string where "Flatcar = ''flatcar''"
definition AKSUbuntu1604 :: string where "AKSUbuntu1604 = ''aks-ubuntu-16.04''"
definition AKSUbuntu1804 :: string where "AKSUbuntu1804 = ''aks-ubuntu-18.04''"
definition AKSUbuntu2004 :: string where "AKSUbuntu2004 = ''aks-ubuntu-20.04''"
definition AKSUbuntu2204 :: string where "AKSUbuntu2204 = ''aks-ubuntu-22.04''"
definition ACC1604 :: string where "ACC1604 = ''acc-16.04''"

definition AvailabilitySet :: string where "AvailabilitySet = ''AvailabilitySet''"
definition VirtualMachineScaleSets :: string where
  "VirtualMachineScaleSets = ''VirtualMachineScaleSets''"
definition DefaultOrchestratorName :: string where "DefaultOrchestratorName = ''k8s''"
definition ScaleSetPriorityLow :: string where "ScaleSetPriorityLow = ''Low''"
definition ScaleSetPrioritySpot :: string where "ScaleSetPrioritySpot = ''Spot''"

definition Docker :: string where "Docker = ''docker''"
definition Containerd :: string where "Containerd = ''containerd''"

definition StorageAccount :: string where "StorageAccount = ''StorageAccount''"
definition ManagedDisks :: string where "ManagedDisks = ''ManagedDisks''"
definition Ephemeral :: string where "Ephemeral = ''Ephemeral''"

definition StandardLoadBalancerSku :: string where "StandardLoadBalancerSku = ''Standard''"
definition NetworkPluginAzure :: string where "NetworkPluginAzure = ''azure''"
definition NetworkPolicyCilium :: string where "NetworkPolicyCilium = ''cilium''"
definition NetworkPluginAntrea :: string where "NetworkPluginAntrea = ''antrea''"
definition DefaultVNETCIDR :: string where "DefaultVNETCIDR = ''10.0.0.0/8''"
definition DefaultPreserveNodesProperties :: bool where "DefaultPreserveNodesProperties = True"
definition VMSSVMType :: string where "VMSSVMType = ''vmss''"
definition StandardVMType :: string where "StandardVMType = ''standard''"

definition DefaultSubnetNameResourceSegmentIndex :: nat where
  "DefaultSubnetNameResourceSegmentIndex = 10"
definition DefaultVnetResourceGroupSegmentIndex :: nat where
  "DefaultVnetResourceGroupSegmentIndex = 4"
definition DefaultVnetNameResourceSegmentIndex :: nat where
  "DefaultVnetNameResourceSegmentIndex = 8"

lemmas const_defs =
  Windows_def Linux_def Ubuntu_def Ubuntu1804_def Ubuntu1804Gen2_def Ubuntu2004_def Ubuntu2204_def
  Flatcar_def AKSUbuntu1604_def AKSUbuntu1804_def AKSUbuntu2004_def AKSUbuntu2204_def ACC1604_def
  AvailabilitySet_def VirtualMachineScaleSets_def DefaultOrchestratorName_def
  ScaleSetPriorityLow_def ScaleSetPrioritySpot_def Docker_def Containerd_def StorageAccount_def
  ManagedDisks_def Ephemeral_def StandardLoadBalancerSku_def NetworkPluginAzure_def
  NetworkPolicyCilium_def NetworkPluginAntrea_def DefaultVNETCIDR_def VMSSVMType_def
  StandardVMType_def

subsection \<open>Pointers\<close>

text \<open>\<open>to.Bool\<close> of the autorest helpers reads a nil pointer as false; a plain dereference of nil
  panics.\<close>

definition to_Bool :: "bool option \<Rightarrow> bool" where
  "to_Bool b = (case b of None \<Rightarrow> False | Some x \<Rightarrow> x)"

definition deref :: "'a option \<Rightarrow> 'a result" where
  "deref p = (case p of None \<Rightarrow> Inl (Panic ''nil pointer dereference'') | Some x \<Rightarrow> Inr x)"

lemma deref_simps [simp]:
  "deref None = Inl (Panic ''nil pointer dereference'')"
  "deref (Some x) = Inr x"
  by (simp_all add: deref_def)

lemma to_Bool_simps [simp]: "to_Bool None = False" "to_Bool (Some b) = b"
  by (simp_all add: to_Bool_def)

end
