(* ===== verification/Ordering.thy ===== *)
theory Ordering
  imports GoBase
begin

section \<open>Three-way comparison functions and sorting\<close>

text \<open>
  The code orders versions with functions that return -1, 0 or 1 (\<open>PRVersion.Compare\<close> and
  \<open>Version.Compare\<close> of blang/semver, \<open>compare\<close> of pkg/versions). The locale
  \<open>comparison\<close> states what such a function promises, and the order and sorting facts that
  clients rely on are proved once in it. Package sort only promises a sorted permutation
  (\<open>sort.Slice\<close> and \<open>sort.Sort\<close> are not stable), so the model sorts by insertion and
  \<open>sorted_perm_unique\<close> says when every sorting algorithm gives that same list.
\<close>

fun insert_by :: "('a \<Rightarrow> 'a \<Rightarrow> bool) \<Rightarrow> 'a \<Rightarrow> 'a list \<Rightarrow> 'a list" where
  "insert_by le x [] = [x]"
| "insert_by le x (y # ys) = (if le x y then x # y # ys else y # insert_by le x ys)"

fun sort_by :: "('a \<Rightarrow> 'a \<Rightarrow> bool) \<Rightarrow> 'a list \<Rightarrow> 'a list" where
  "sort_by le [] = []"
| "sort_by le (x # xs) = insert_by le x (sort_by le xs)"

lemma mset_insert_by [simp]: "mset (insert_by le x xs) = add_mset x (mset xs)"
  by (induction xs) auto

lemma mset_sort_by [simp]: "mset (sort_by le xs) = mset xs"
  by (induction xs) auto

lemma set_insert_by [simp]: "set (insert_by le x xs) = insert x (set xs)"
  by (induction xs) auto

lemma set_sort_by [simp]: "set (sort_by le xs) = set xs"
  by (induction xs) auto

lemma length_sort_by [simp]: "length (sort_by le xs) = length xs"
  by (metis mset_sort_by size_mset)

lemma sort_by_eq_Nil_iff [simp]: "sort_by le xs = [] \<longleftrightarrow> xs = []"
  by (metis length_0_conv length_sort_by)

lemma sort_by_cong:
  "(\<And>x y. x \<in> set xs \<Longrightarrow> y \<in> set xs \<Longrightarrow> le x y = le' x y) \<Longrightarrow> sort_by le xs = sort_by le' xs"
proof (induction xs)
  case (Cons x xs)
  have "insert_by le x ys = insert_by le' x ys" if "set ys \<subseteq> set (x # xs)" for ys
    using that Cons.prems by (induction ys) auto
  moreover have "sort_by le xs = sort_by le' xs" using Cons by auto
  ultimately show ?case by (metis set_sort_by set_subset_Cons sort_by.simps(2))
qed simp

text \<open>The comparison of a linear order, and the shape every comparison of the code reduces to.\<close>

definition cmp3 :: "'a::linorder \<Rightarrow> 'a \<Rightarrow> int" where
  "cmp3 a b = (if a < b then -1 else if b < a then 1 else 0)"

lemma cmp3_iff [simp]:
  "cmp3 a b \<le> 0 \<longleftrightarrow> a \<le> b"
  "cmp3 a b = 0 \<longleftrightarrow> a = b"
  "0 \<le> cmp3 a b \<longleftrightarrow> b \<le> a"
  "cmp3 a b = 1 \<longleftrightarrow> b < a"
  "cmp3 a b = -1 \<longleftrightarrow> a < b"
  by (auto simp: cmp3_def)

locale comparison =
  fixes cmp :: "'a \<Rightarrow> 'a \<Rightarrow> int"
  assumes cmp_range: "cmp a b = -1 \<or> cmp a b = 0 \<or> cmp a b = 1"
    and cmp_flip: "cmp b a = - cmp a b"
    and cmp_trans: "cmp a b \<le> 0 \<Longrightarrow> cmp b c \<le> 0 \<Longrightarrow> cmp a c \<le> 0"
begin

lemma cmp_self: "cmp a a = 0"
  using cmp_flip [of a a] by simp

lemma cmp_total: "cmp a b \<le> 0 \<or> cmp b a \<le> 0"
  using cmp_flip [of a b] by linarith

lemma cmp_less_iff: "cmp a b = -1 \<longleftrightarrow> \<not> cmp b a \<le> 0"
  using cmp_flip [of a b] cmp_range [of a b] by auto

lemma cmp_greater_iff: "cmp a b = 1 \<longleftrightarrow> \<not> cmp a b \<le> 0"
  using cmp_range [of a b] by auto

lemma cmp_less_trans: "cmp a b = -1 \<Longrightarrow> cmp b c \<le> 0 \<Longrightarrow> cmp a c = -1"
  using cmp_less_iff cmp_trans [of b c a] by blast

lemma cmp_le_less_trans: "cmp a b \<le> 0 \<Longrightarrow> cmp b c = -1 \<Longrightarrow> cmp a c = -1"
  using cmp_less_iff cmp_trans [of c a b] by blast

lemma sorted_insert_by:
  "sorted_wrt (\<lambda>x y. cmp x y \<le> 0) xs \<Longrightarrow> sorted_wrt (\<lambda>x y. cmp x y \<le> 0) (insert_by (\<lambda>x y. cmp x y \<le> 0) x xs)"
proof (induction xs)
  case (Cons y ys)
  then show ?case
    using cmp_trans cmp_total [of x y] by (cases "cmp x y \<le> 0") auto
qed simp

lemma sorted_sort_by: "sorted_wrt (\<lambda>x y. cmp x y \<le> 0) (sort_by (\<lambda>x y. cmp x y \<le> 0) xs)"
  by (induction xs) (auto simp: sorted_insert_by)

lemma sort_by_hd_least: "x \<in> set xs \<Longrightarrow> cmp (hd (sort_by (\<lambda>x y. cmp x y \<le> 0) xs)) x \<le> 0"
proof -
  assume x: "x \<in> set xs"
  let ?s = "sort_by (\<lambda>x y. cmp x y \<le> 0) xs"
  obtain z zs where s: "?s = z # zs" using x by (cases ?s) auto
  then have "sorted_wrt (\<lambda>x y. cmp x y \<le> 0) (z # zs)" using sorted_sort_by [of xs] by simp
  moreover have "x \<in> set (z # zs)" using x s by (metis set_sort_by)
  ultimately show ?thesis using s cmp_self by auto
qed

lemma sort_by_last_greatest: "x \<in> set xs \<Longrightarrow> cmp x (last (sort_by (\<lambda>x y. cmp x y \<le> 0) xs)) \<le> 0"
proof -
  assume x: "x \<in> set xs"
  let ?s = "sort_by (\<lambda>x y. cmp x y \<le> 0) xs"
  have "?s \<noteq> []" using x by auto
  then obtain zs z where s: "?s = zs @ [z]" by (metis append_butlast_last_id)
  then have "sorted_wrt (\<lambda>x y. cmp x y \<le> 0) (zs @ [z])" using sorted_sort_by [of xs] by simp
  moreover have "x \<in> set (zs @ [z])" using x s by (metis set_sort_by)
  ultimately show ?thesis using s cmp_self by (auto simp: sorted_wrt_append)
qed

lemma sorted_perm_unique:
  assumes "mset xs = mset ys"
    and "sorted_wrt (\<lambda>x y. cmp x y \<le> 0) xs" and "sorted_wrt (\<lambda>x y. cmp x y \<le> 0) ys"
    and "\<And>x y. x \<in> set xs \<Longrightarrow> y \<in> set xs \<Longrightarrow> cmp x y = 0 \<Longrightarrow> x = y"
  shows "xs = ys"
  using assms
proof (induction xs arbitrary: ys)
  case (Cons x xs)
  then obtain y ys' where ys: "ys = y # ys'" by (cases ys) auto
  have x: "x \<in> set ys" and y: "y \<in> set (x # xs)"
    using Cons.prems(1) ys by (metis list.set_intros(1) set_mset_mset)+
  have "cmp y x \<le> 0" using x Cons.prems(3) ys cmp_self by auto
  moreover have "cmp x y \<le> 0" using y Cons.prems(2) cmp_self by auto
  ultimately have "cmp x y = 0" using cmp_flip [of x y] by linarith
  then have xy: "x = y" using Cons.prems(4) y by simp
  moreover have "xs = ys'"
    using Cons.prems xy ys by (intro Cons.IH) auto
  ultimately show ?case using ys by simp
qed simp

lemma pullback: "comparison (\<lambda>x y. cmp (f x) (f y))"
  by unfold_locales (use cmp_range cmp_flip cmp_trans in blast)+

end

interpretation linear: comparison "cmp3 :: 'a::linorder \<Rightarrow> 'a \<Rightarrow> int"
  by unfold_locales (auto simp: cmp3_def split: if_splits)

text \<open>A comparison that agrees with a linear order on keys satisfies the laws.\<close>

lemma comparison_by_key: "(\<And>a b. cmp a b = cmp3 (key a) (key b)) \<Longrightarrow> comparison cmp"
proof -
  assume eq: "\<And>a b. cmp a b = cmp3 (key a) (key b)"
  then have "cmp = (\<lambda>a b. cmp3 (key a) (key b))" by blast
  then show ?thesis using linear.pullback [of key] by simp
qed

end
