(* ===== verification/Semver.thy ===== *)
theory Semver
  imports Ordering "HOL-Library.List_Lexorder" "HOL-Library.Char_ord" "HOL-Library.Product_Lexorder"
begin

section \<open>Semantic versions (blang/semver)\<close>

text \<open>
  Package semver as the repository vendors it: \<open>Version\<close> and \<open>PRVersion\<close>, \<open>Parse\<close>
  (and \<open>Make\<close>, which calls it), \<open>String\<close>, \<open>Compare\<close> and the tests built on it.
  Numbers are uint64 in the code and naturals below \<open>2 ^ 64\<close> here: the parser rejects larger
  ones (\<open>semver_parse_wf\<close>). \<open>PRVersion\<close> is a struct with a flag \<open>IsNum\<close> that says
  which of its two payload fields counts; the model has one constructor for each value of the
  flag.
\<close>

datatype pr_version = PRNum nat | PRStr string

record version =
  Major :: nat
  Minor :: nat
  Patch :: nat
  Pre :: "pr_version list"
  Build :: "string list"

datatype semver_error =
    EmptyVersion | NoMajorMinorPatch
  | InvalidMajor string | LeadingZeroMajor string
  | InvalidMinor string | LeadingZeroMinor string
  | InvalidPatch string | LeadingZeroPatch string
  | NumberRange string
  | EmptyPre | LeadingZeroPre string | InvalidPre string
  | EmptyBuild | InvalidBuild string

definition zero_version :: version where
  "zero_version = \<lparr>Major = 0, Minor = 0, Patch = 0, Pre = [], Build = []\<rparr>"

subsection \<open>Parsing\<close>

definition is_alphanum :: "char \<Rightarrow> bool" where
  "is_alphanum c \<longleftrightarrow> (let n = of_char c :: nat in
     (97 \<le> n \<and> n \<le> 122) \<or> (65 \<le> n \<and> n \<le> 90) \<or> n = 45 \<or> (48 \<le> n \<and> n \<le> 57))"

definition has_leading_zeroes :: "string \<Rightarrow> bool" where
  "has_leading_zeroes s \<longleftrightarrow> (case s of c # _ # _ \<Rightarrow> c = CHR ''0'' | _ \<Rightarrow> False)"

definition new_pr_version :: "string \<Rightarrow> semver_error + pr_version" where
  "new_pr_version s =
     (if s = [] then Inl EmptyPre
      else if list_all is_digit s then
        (if has_leading_zeroes s then Inl (LeadingZeroPre s)
         else (case parse_uint64 s of None \<Rightarrow> Inl (NumberRange s) | Some n \<Rightarrow> Inr (PRNum n)))
      else if list_all is_alphanum s then Inr (PRStr s)
      else Inl (InvalidPre s))"

fun parse_pres :: "string list \<Rightarrow> semver_error + pr_version list" where
  "parse_pres [] = Inr []"
| "parse_pres (s # ss) =
     (case new_pr_version s of Inl e \<Rightarrow> Inl e
      | Inr p \<Rightarrow> (case parse_pres ss of Inl e \<Rightarrow> Inl e | Inr ps \<Rightarrow> Inr (p # ps)))"

fun parse_builds :: "string list \<Rightarrow> semver_error + string list" where
  "parse_builds [] = Inr []"
| "parse_builds (s # ss) =
     (if s = [] then Inl EmptyBuild
      else if \<not> list_all is_alphanum s then Inl (InvalidBuild s)
      else (case parse_builds ss of Inl e \<Rightarrow> Inl e | Inr bs \<Rightarrow> Inr (s # bs)))"

definition parse_number ::
    "(string \<Rightarrow> semver_error) \<Rightarrow> (string \<Rightarrow> semver_error) \<Rightarrow> string \<Rightarrow> semver_error + nat" where
  "parse_number invalid zeroes s =
     (if \<not> list_all is_digit s then Inl (invalid s)
      else if has_leading_zeroes s then Inl (zeroes s)
      else (case parse_uint64 s of None \<Rightarrow> Inl (NumberRange s) | Some n \<Rightarrow> Inr n))"

text \<open>The patch part: build metadata after the first plus sign, then a pre-release after the first dash.\<close>

definition cut_build :: "string \<Rightarrow> string \<times> string list" where
  "cut_build s = (case split_first (CHR ''+'') s of
     None \<Rightarrow> (s, []) | Some (a, b) \<Rightarrow> (a, split_on (CHR ''.'') b))"

definition cut_pre :: "string \<Rightarrow> string \<times> string list" where
  "cut_pre s = (case split_first (CHR ''-'') s of
     None \<Rightarrow> (s, []) | Some (a, b) \<Rightarrow> (a, split_on (CHR ''.'') b))"

definition parse_tail :: "nat \<Rightarrow> nat \<Rightarrow> string \<Rightarrow> semver_error + version" where
  "parse_tail major minor s =
     (let (s1, build) = cut_build s; (s2, pre) = cut_pre s1 in
      case parse_number InvalidPatch LeadingZeroPatch s2 of Inl e \<Rightarrow> Inl e
      | Inr patch \<Rightarrow>
        (case parse_pres pre of Inl e \<Rightarrow> Inl e
         | Inr ps \<Rightarrow>
           (case parse_builds build of Inl e \<Rightarrow> Inl e
            | Inr bs \<Rightarrow> Inr \<lparr>Major = major, Minor = minor, Patch = patch, Pre = ps, Build = bs\<rparr>)))"

definition semver_parse :: "string \<Rightarrow> semver_error + version" where
  "semver_parse s =
     (if s = [] then Inl EmptyVersion
      else (case splitN 3 (CHR ''.'') s of
        [p0, p1, p2] \<Rightarrow>
          (case parse_number InvalidMajor LeadingZeroMajor p0 of Inl e \<Rightarrow> Inl e
           | Inr major \<Rightarrow>
             (case parse_number InvalidMinor LeadingZeroMinor p1 of Inl e \<Rightarrow> Inl e
              | Inr minor \<Rightarrow> parse_tail major minor p2))
      | _ \<Rightarrow> Inl NoMajorMinorPatch))"

text \<open>A caller that drops the error goes on with the zero \<open>Version\<close>, which \<open>Parse\<close> returns then.\<close>

definition semver_make :: "string \<Rightarrow> version" where
  "semver_make s = (case semver_parse s of Inl _ \<Rightarrow> zero_version | Inr v \<Rightarrow> v)"

subsection \<open>Printing\<close>

fun pr_string :: "pr_version \<Rightarrow> string" where
  "pr_string (PRNum n) = utoa n"
| "pr_string (PRStr s) = s"

definition version_string :: "version \<Rightarrow> string" where
  "version_string v =
     utoa (Major v) @ ''.'' @ utoa (Minor v) @ ''.'' @ utoa (Patch v)
     @ (if Pre v = [] then [] else ''-'' @ join ''.'' (map pr_string (Pre v)))
     @ (if Build v = [] then [] else ''+'' @ join ''.'' (Build v))"

subsection \<open>Comparison\<close>

fun pr_compare :: "pr_version \<Rightarrow> pr_version \<Rightarrow> int" where
  "pr_compare (PRNum m) (PRStr s) = -1"
| "pr_compare (PRStr s) (PRNum m) = 1"
| "pr_compare (PRNum m) (PRNum n) = (if m = n then 0 else if m > n then 1 else -1)"
| "pr_compare (PRStr s) (PRStr t) = (if s = t then 0 else if s > t then 1 else -1)"

text \<open>The loop over the pre-release identifiers, with the length tests after it.\<close>

fun compare_pres :: "pr_version list \<Rightarrow> pr_version list \<Rightarrow> int" where
  "compare_pres [] [] = 0"
| "compare_pres [] (q # qs) = -1"
| "compare_pres (p # ps) [] = 1"
| "compare_pres (p # ps) (q # qs) =
     (let c = pr_compare p q in if c = 0 then compare_pres ps qs else if c = 1 then 1 else -1)"

definition semver_compare :: "version \<Rightarrow> version \<Rightarrow> int" where
  "semver_compare v w =
     (if Major v \<noteq> Major w then (if Major v > Major w then 1 else -1)
      else if Minor v \<noteq> Minor w then (if Minor v > Minor w then 1 else -1)
      else if Patch v \<noteq> Patch w then (if Patch v > Patch w then 1 else -1)
      else if Pre v = [] \<and> Pre w = [] then 0
      else if Pre v = [] \<and> Pre w \<noteq> [] then 1
      else if Pre v \<noteq> [] \<and> Pre w = [] then -1
      else compare_pres (Pre v) (Pre w))"

definition semver_GT :: "version \<Rightarrow> version \<Rightarrow> bool" where
  "semver_GT v w \<longleftrightarrow> semver_compare v w = 1"

definition semver_GE :: "version \<Rightarrow> version \<Rightarrow> bool" where
  "semver_GE v w \<longleftrightarrow> 0 \<le> semver_compare v w"

definition semver_LT :: "version \<Rightarrow> version \<Rightarrow> bool" where
  "semver_LT v w \<longleftrightarrow> semver_compare v w = -1"

definition semver_LE :: "version \<Rightarrow> version \<Rightarrow> bool" where
  "semver_LE v w \<longleftrightarrow> semver_compare v w \<le> 0"

definition semver_sort :: "version list \<Rightarrow> version list" where
  "semver_sort vs = sort_by (\<lambda>v w. semver_compare v w \<le> 0) vs"

subsection \<open>The order of versions\<close>

text \<open>
  \<open>PRVersion.Compare\<close> is the comparison of a linear order, so pre-release identifiers get
  the library's order classes, and their lists are compared lexicographically.
\<close>

instantiation pr_version :: linorder
begin

definition less_eq_pr_version :: "pr_version \<Rightarrow> pr_version \<Rightarrow> bool" where
  "less_eq_pr_version p q \<longleftrightarrow> pr_compare p q \<le> 0"

definition less_pr_version :: "pr_version \<Rightarrow> pr_version \<Rightarrow> bool" where
  "less_pr_version p q \<longleftrightarrow> pr_compare p q = -1"

instance
proof
  fix p q r :: pr_version
  show "p < q \<longleftrightarrow> p \<le> q \<and> \<not> q \<le> p"
    by (cases p; cases q) (auto simp: less_pr_version_def less_eq_pr_version_def)
  show "p \<le> p"
    by (cases p) (auto simp: less_eq_pr_version_def)
  show "p \<le> q \<Longrightarrow> q \<le> r \<Longrightarrow> p \<le> r"
    by (cases p; cases q; cases r) (auto simp: less_eq_pr_version_def split: if_splits)
  show "p \<le> q \<Longrightarrow> q \<le> p \<Longrightarrow> p = q"
    by (cases p; cases q) (auto simp: less_eq_pr_version_def split: if_splits)
  show "p \<le> q \<or> q \<le> p"
    by (cases p; cases q) (auto simp: less_eq_pr_version_def)
qed

end

lemma pr_compare_cmp3: "pr_compare p q = cmp3 p q"
  by (cases p; cases q) (auto simp: cmp3_def less_pr_version_def)

lemma compare_pres_cmp3: "compare_pres ps qs = cmp3 ps qs"
  by (induction ps qs rule: compare_pres.induct)
    (auto simp: cmp3_def pr_compare_cmp3 Let_def)

text \<open>
  The reference definition of the order: major, minor, patch, then a release after all its
  pre-releases, then the identifiers. Build metadata has no precedence.
\<close>

definition version_key :: "version \<Rightarrow> nat \<times> nat \<times> nat \<times> nat \<times> pr_version list" where
  "version_key v =
     (Major v, Minor v, Patch v, (if Pre v = [] then 1 else 0), Pre v)"

lemma semver_compare_key: "semver_compare v w = cmp3 (version_key v) (version_key w)"
proof -
  have "compare_pres (Pre v) (Pre w) = cmp3 (Pre v) (Pre w)" by (rule compare_pres_cmp3)
  then show ?thesis
    by (auto simp: semver_compare_def version_key_def cmp3_def less_prod_simp)
qed

interpretation prc: comparison pr_compare
  by (rule comparison_by_key [where key = "\<lambda>p. p"]) (rule pr_compare_cmp3)

interpretation svc: comparison semver_compare
  by (rule comparison_by_key [where key = version_key]) (rule semver_compare_key)

interpretation svs: comparison "\<lambda>x y. semver_compare (semver_make x) (semver_make y)"
  by (rule svc.pullback)

lemma semver_compare_zero_iff: "semver_compare v w = 0 \<longleftrightarrow> version_key v = version_key w"
  by (simp add: semver_compare_key)

lemma semver_tests:
  "semver_GT v w \<longleftrightarrow> version_key w < version_key v"
  "semver_GE v w \<longleftrightarrow> version_key w \<le> version_key v"
  "semver_LT v w \<longleftrightarrow> version_key v < version_key w"
  "semver_LE v w \<longleftrightarrow> version_key v \<le> version_key w"
  by (simp_all add: semver_GT_def semver_GE_def semver_LT_def semver_LE_def semver_compare_key)

text \<open>Two versions that compare equal and carry no build metadata are the same version.\<close>

lemma semver_compare_eq:
  "semver_compare v w = 0 \<Longrightarrow> Build v = [] \<Longrightarrow> Build w = [] \<Longrightarrow> v = w"
  by (simp add: semver_compare_zero_iff version_key_def)

subsection \<open>Well-formed versions and the round trip\<close>

fun wf_pr :: "pr_version \<Rightarrow> bool" where
  "wf_pr (PRNum n) \<longleftrightarrow> n < 2 ^ 64"
| "wf_pr (PRStr s) \<longleftrightarrow> s \<noteq> [] \<and> list_all is_alphanum s \<and> \<not> list_all is_digit s"

definition wf_version :: "version \<Rightarrow> bool" where
  "wf_version v \<longleftrightarrow> Major v < 2 ^ 64 \<and> Minor v < 2 ^ 64 \<and> Patch v < 2 ^ 64 \<and>
     list_all wf_pr (Pre v) \<and> list_all (\<lambda>b. b \<noteq> [] \<and> list_all is_alphanum b) (Build v)"

lemma digit_is_alphanum: "is_digit c \<Longrightarrow> is_alphanum c"
  by (auto simp: is_digit_def is_alphanum_def Let_def)

lemma digit_not_sep: "is_digit c \<Longrightarrow> c \<noteq> CHR ''.'' \<and> c \<noteq> CHR ''+'' \<and> c \<noteq> CHR ''-''"
  by (auto simp: is_digit_def)

lemma alphanum_not_sep: "is_alphanum c \<Longrightarrow> c \<noteq> CHR ''.'' \<and> c \<noteq> CHR ''+''"
  by (auto simp: is_alphanum_def)

lemma utoa_no_sep [go_simps]:
  "CHR ''.'' \<notin> set (utoa n)" "CHR ''+'' \<notin> set (utoa n)" "CHR ''-'' \<notin> set (utoa n)"
  using set_utoa_digits digit_not_sep by blast+

lemma has_leading_zeroes_utoa [go_simps]: "\<not> has_leading_zeroes (utoa n)"
proof (cases "n = 0")
  case True
  then show ?thesis by (simp add: utoa.simps has_leading_zeroes_def)
next
  case False
  then have "hd (utoa n) \<noteq> CHR ''0''" using utoa_no_leading_zero by simp
  then show ?thesis by (auto simp: has_leading_zeroes_def split: list.splits)
qed

lemma parse_number_utoa [go_simps]: "n < 2 ^ 64 \<Longrightarrow> parse_number a b (utoa n) = Inr n"
  by (simp add: parse_number_def has_leading_zeroes_utoa)

lemma new_pr_version_string: "wf_pr p \<Longrightarrow> new_pr_version (pr_string p) = Inr p"
  by (cases p) (auto simp: new_pr_version_def has_leading_zeroes_utoa)

lemma parse_pres_string: "list_all wf_pr ps \<Longrightarrow> parse_pres (map pr_string ps) = Inr ps"
  by (induction ps) (auto simp: new_pr_version_string)

lemma parse_builds_string:
  "list_all (\<lambda>b. b \<noteq> [] \<and> list_all is_alphanum b) bs \<Longrightarrow> parse_builds bs = Inr bs"
  by (induction bs) auto

lemma split_on_join:
  "ws \<noteq> [] \<Longrightarrow> \<forall>w \<in> set ws. d \<notin> set w \<Longrightarrow> split_on d (join [d] ws) = ws"
proof (induction ws rule: induct_list012)
  case (2 x)
  then show ?case by (simp add: split_on_single)
next
  case (3 x y zs)
  then show ?case by (simp add: split_on_append)
qed simp

lemma wf_pr_chars: "wf_pr p \<Longrightarrow> c \<in> set (pr_string p) \<Longrightarrow> is_alphanum c"
  by (cases p) (auto simp: list_all_iff intro: digit_is_alphanum set_utoa_digits)

lemma set_join: "set (join sep ws) \<subseteq> set sep \<union> (\<Union>w \<in> set ws. set w)"
  by (induction sep ws rule: join.induct) auto

lemma pres_no_plus:
  assumes "list_all wf_pr ps"
  shows "CHR ''+'' \<notin> set (join ''.'' (map pr_string ps))"
proof
  assume "CHR ''+'' \<in> set (join ''.'' (map pr_string ps))"
  then obtain p where "p \<in> set ps" "CHR ''+'' \<in> set (pr_string p)"
    using set_join [of "''.''" "map pr_string ps"] by auto
  then show False
    using assms wf_pr_chars alphanum_not_sep by (metis list_all_iff)
qed

lemma cut_pre_string:
  assumes "list_all wf_pr ps"
  shows "cut_pre (utoa n @ (if ps = [] then [] else ''-'' @ join ''.'' (map pr_string ps)))
         = (utoa n, map pr_string ps)"
proof -
  have "split_on (CHR ''.'') (join [CHR ''.''] (map pr_string ps)) = map pr_string ps" if "ps \<noteq> []"
  proof (rule split_on_join)
    show "\<forall>w \<in> set (map pr_string ps). CHR ''.'' \<notin> set w"
      using assms wf_pr_chars alphanum_not_sep by (fastforce simp: list_all_iff)
  qed (use that in simp)
  then show ?thesis
    by (simp add: cut_pre_def utoa_no_sep split_first_append split_first_None [THEN iffD2])
qed

lemma cut_build_string:
  assumes "CHR ''+'' \<notin> set s" and "list_all (\<lambda>b. b \<noteq> [] \<and> list_all is_alphanum b) bs"
  shows "cut_build (s @ (if bs = [] then [] else ''+'' @ join ''.'' bs)) = (s, bs)"
proof -
  have "split_on (CHR ''.'') (join [CHR ''.''] bs) = bs" if "bs \<noteq> []"
  proof (rule split_on_join)
    show "\<forall>w \<in> set bs. CHR ''.'' \<notin> set w"
      using assms(2) alphanum_not_sep by (fastforce simp: list_all_iff)
  qed (use that in simp)
  then show ?thesis
    using assms(1) by (simp add: cut_build_def split_first_append split_first_None [THEN iffD2])
qed

lemma parse_tail_string:
  assumes "wf_version v"
  shows "parse_tail (Major v) (Minor v)
    (utoa (Patch v) @ (if Pre v = [] then [] else ''-'' @ join ''.'' (map pr_string (Pre v)))
     @ (if Build v = [] then [] else ''+'' @ join ''.'' (Build v))) = Inr v"
proof -
  let ?s = "utoa (Patch v) @ (if Pre v = [] then [] else ''-'' @ join ''.'' (map pr_string (Pre v)))"
  have "CHR ''+'' \<notin> set ?s"
    using assms pres_no_plus [of "Pre v"] by (auto simp: wf_version_def utoa_no_sep)
  then have "cut_build (?s @ (if Build v = [] then [] else ''+'' @ join ''.'' (Build v))) = (?s, Build v)"
    using assms by (intro cut_build_string) (auto simp: wf_version_def)
  moreover have "cut_pre ?s = (utoa (Patch v), map pr_string (Pre v))"
    using assms by (intro cut_pre_string) (simp add: wf_version_def)
  ultimately show ?thesis
    using assms
    by (simp add: parse_tail_def wf_version_def parse_number_utoa parse_pres_string parse_builds_string)
qed

lemma digit_val_less: "is_digit c \<Longrightarrow> digit_val c < 10"
  by (auto simp: is_digit_def digit_val_def Let_def)

lemma utoa_dec_val:
  "s \<noteq> [] \<Longrightarrow> list_all is_digit s \<Longrightarrow> \<not> has_leading_zeroes s \<Longrightarrow> utoa (dec_val 0 s) = s"
proof (induction s rule: rev_induct)
  case (snoc c t)
  then have c: "is_digit c" by simp
  show ?case
  proof (cases "t = []")
    case True
    then show ?thesis
      using c by (simp add: utoa.simps digit_val_less digit_char_val)
  next
    case False
    then have lz: "hd t \<noteq> CHR ''0''"
      using snoc.prems(3) by (cases t; cases "tl t") (auto simp: has_leading_zeroes_def)
    then have "\<not> has_leading_zeroes t"
      by (auto simp: has_leading_zeroes_def split: list.splits)
    then have IH: "utoa (dec_val 0 t) = t" using snoc False by simp
    have "dec_val 0 t \<noteq> 0"
    proof
      assume "dec_val 0 t = 0"
      then have "t = ''0''" using IH by (simp add: utoa.simps digit_char_eval)
      then show False using lz by simp
    qed
    then have "\<not> 10 * dec_val 0 t + digit_val c < 10" by simp
    then show ?thesis
      using IH digit_val_less [OF c] digit_char_val [OF c]
      by (subst utoa.simps) (simp add: dec_val_append)
  qed
qed simp

lemma parse_number_InrD: "parse_number a b s = Inr n \<Longrightarrow> s = utoa n \<and> n < 2 ^ 64"
  by (auto simp: parse_number_def parse_uint64_def Let_def utoa_dec_val split: if_splits option.splits)

lemma new_pr_version_InrD: "new_pr_version s = Inr p \<Longrightarrow> s = pr_string p \<and> wf_pr p"
  by (auto simp: new_pr_version_def parse_uint64_def Let_def utoa_dec_val split: if_splits option.splits)

lemma parse_pres_InrD: "parse_pres ss = Inr ps \<Longrightarrow> ss = map pr_string ps \<and> list_all wf_pr ps"
  by (induction ss arbitrary: ps) (auto dest!: new_pr_version_InrD split: sum.splits)

lemma parse_builds_InrD:
  "parse_builds ss = Inr bs \<Longrightarrow> ss = bs \<and> list_all (\<lambda>b. b \<noteq> [] \<and> list_all is_alphanum b) bs"
  by (induction ss arbitrary: bs) (auto split: sum.splits if_splits)

lemma cut_buildD: "cut_build s = (a, bs) \<Longrightarrow>
    s = a @ (if bs = [] then [] else ''+'' @ join ''.'' bs)"
  by (auto simp: cut_build_def join_split_on split: option.splits dest!: split_first_SomeD)

lemma cut_preD: "cut_pre s = (a, ps) \<Longrightarrow>
    s = a @ (if ps = [] then [] else ''-'' @ join ''.'' ps)"
  by (auto simp: cut_pre_def join_split_on split: option.splits dest!: split_first_SomeD)

lemma parse_tail_InrD:
  assumes "parse_tail ma mi s = Inr v"
  shows "Major v = ma \<and> Minor v = mi \<and> Patch v < 2 ^ 64 \<and> list_all wf_pr (Pre v) \<and>
    list_all (\<lambda>b. b \<noteq> [] \<and> list_all is_alphanum b) (Build v) \<and>
    s = utoa (Patch v)
      @ (if Pre v = [] then [] else ''-'' @ join ''.'' (map pr_string (Pre v)))
      @ (if Build v = [] then [] else ''+'' @ join ''.'' (Build v))"
proof -
  obtain s1 build where b: "cut_build s = (s1, build)" by (cases "cut_build s")
  obtain s2 pre where p: "cut_pre s1 = (s2, pre)" by (cases "cut_pre s1")
  have "parse_number InvalidPatch LeadingZeroPatch s2 = Inr (Patch v)"
    "parse_pres pre = Inr (Pre v)" "parse_builds build = Inr (Build v)"
    "Major v = ma" "Minor v = mi"
    using assms b p by (auto simp: parse_tail_def split: sum.splits)
  then show ?thesis
    using cut_buildD [OF b] cut_preD [OF p] parse_number_InrD parse_pres_InrD parse_builds_InrD
    by fastforce
qed

lemma splitN3D:
  assumes "splitN 3 (CHR ''.'') s = [a, b, c]"
  shows "s = a @ ''.'' @ b @ ''.'' @ c"
proof -
  have "splitN 3 (CHR ''.'') s = splitN (Suc (Suc (Suc 0))) (CHR ''.'') s"
    by (simp add: numeral_3_eq_3)
  then show ?thesis
    using assms by (auto split: option.splits dest!: split_first_SomeD)
qed

lemma splitN3_dots:
  "CHR ''.'' \<notin> set a \<Longrightarrow> CHR ''.'' \<notin> set b \<Longrightarrow>
     splitN 3 (CHR ''.'') (a @ ''.'' @ b @ ''.'' @ c) = [a, b, c]"
  by (simp add: numeral_3_eq_3 split_first_append)

lemma semver_parse_string:
  assumes "wf_version v"
  shows "semver_parse (version_string v) = Inr v"
proof -
  let ?t = "utoa (Patch v) @ (if Pre v = [] then [] else ''-'' @ join ''.'' (map pr_string (Pre v)))
     @ (if Build v = [] then [] else ''+'' @ join ''.'' (Build v))"
  have s: "version_string v = utoa (Major v) @ ''.'' @ utoa (Minor v) @ ''.'' @ ?t"
    by (simp add: version_string_def)
  have "splitN 3 (CHR ''.'') (version_string v) = [utoa (Major v), utoa (Minor v), ?t]"
    unfolding s by (rule splitN3_dots) (simp_all add: utoa_no_sep)
  then show ?thesis
    using assms parse_tail_string [OF assms]
    by (simp add: semver_parse_def version_string_def wf_version_def parse_number_utoa)
qed

lemma semver_parse_InrD:
  assumes "semver_parse s = Inr v"
  shows "s = version_string v \<and> wf_version v"
proof -
  obtain p0 p1 p2 where sp: "splitN 3 (CHR ''.'') s = [p0, p1, p2]"
    using assms by (auto simp: semver_parse_def split: if_splits list.splits)
  obtain ma mi where
    n: "parse_number InvalidMajor LeadingZeroMajor p0 = Inr ma"
       "parse_number InvalidMinor LeadingZeroMinor p1 = Inr mi"
    and t: "parse_tail ma mi p2 = Inr v"
    using assms sp by (auto simp: semver_parse_def split: if_splits sum.splits)
  show ?thesis
    using splitN3D [OF sp] n [THEN parse_number_InrD] parse_tail_InrD [OF t]
    by (simp add: version_string_def wf_version_def)
qed

text \<open>
  The parser accepts exactly the printed forms of well-formed versions: parsing and printing
  are inverse to each other, so distinct strings never parse to the same version.
\<close>

lemma semver_parse_iff: "semver_parse s = Inr v \<longleftrightarrow> wf_version v \<and> s = version_string v"
  using semver_parse_InrD semver_parse_string by blast

lemma semver_parse_wf: "semver_parse s = Inr v \<Longrightarrow> wf_version v"
  by (simp add: semver_parse_iff)

text \<open>A release string: it parses, and carries no build metadata.\<close>

definition plain_version :: "string \<Rightarrow> bool" where
  "plain_version s \<longleftrightarrow> (case semver_parse s of Inl _ \<Rightarrow> False | Inr v \<Rightarrow> Build v = [])"

lemma plain_version_make:
  "plain_version s \<Longrightarrow> semver_parse s = Inr (semver_make s) \<and> Build (semver_make s) = []"
  by (auto simp: plain_version_def semver_make_def split: sum.splits)

lemma plain_version_inj:
  assumes "plain_version s" and "plain_version t"
    and "semver_compare (semver_make s) (semver_make t) = 0"
  shows "s = t"
proof -
  have "semver_make s = semver_make t"
    using assms plain_version_make semver_compare_eq by blast
  then show ?thesis
    using assms plain_version_make semver_parse_InrD by metis
qed

subsection \<open>Evaluation on literals\<close>

lemma is_alphanum_eval:
  "is_alphanum CHR ''0'' = True" "is_alphanum CHR ''1'' = True" "is_alphanum CHR ''2'' = True"
  "is_alphanum CHR ''3'' = True" "is_alphanum CHR ''4'' = True" "is_alphanum CHR ''5'' = True"
  "is_alphanum CHR ''6'' = True" "is_alphanum CHR ''7'' = True" "is_alphanum CHR ''8'' = True"
  "is_alphanum CHR ''9'' = True" "is_alphanum CHR ''a'' = True" "is_alphanum CHR ''b'' = True"
  "is_alphanum CHR ''c'' = True" "is_alphanum CHR ''d'' = True" "is_alphanum CHR ''e'' = True"
  "is_alphanum CHR ''f'' = True" "is_alphanum CHR ''g'' = True" "is_alphanum CHR ''h'' = True"
  "is_alphanum CHR ''i'' = True" "is_alphanum CHR ''j'' = True" "is_alphanum CHR ''k'' = True"
  "is_alphanum CHR ''l'' = True" "is_alphanum CHR ''m'' = True" "is_alphanum CHR ''n'' = True"
  "is_alphanum CHR ''o'' = True" "is_alphanum CHR ''p'' = True" "is_alphanum CHR ''q'' = True"
  "is_alphanum CHR ''r'' = True" "is_alphanum CHR ''s'' = True" "is_alphanum CHR ''t'' = True"
  "is_alphanum CHR ''u'' = True" "is_alphanum CHR ''v'' = True" "is_alphanum CHR ''w'' = True"
  "is_alphanum CHR ''x'' = True" "is_alphanum CHR ''y'' = True" "is_alphanum CHR ''z'' = True"
  "is_alphanum CHR ''A'' = True" "is_alphanum CHR ''B'' = True" "is_alphanum CHR ''C'' = True"
  "is_alphanum CHR ''D'' = True" "is_alphanum CHR ''E'' = True" "is_alphanum CHR ''F'' = True"
  "is_alphanum CHR ''G'' = True" "is_alphanum CHR ''H'' = True" "is_alphanum CHR ''I'' = True"
  "is_alphanum CHR ''J'' = True" "is_alphanum CHR ''K'' = True" "is_alphanum CHR ''L'' = True"
  "is_alphanum CHR ''M'' = True" "is_alphanum CHR ''N'' = True" "is_alphanum CHR ''O'' = True"
  "is_alphanum CHR ''P'' = True" "is_alphanum CHR ''Q'' = True" "is_alphanum CHR ''R'' = True"
  "is_alphanum CHR ''S'' = True" "is_alphanum CHR ''T'' = True" "is_alphanum CHR ''U'' = True"
  "is_alphanum CHR ''V'' = True" "is_alphanum CHR ''W'' = True" "is_alphanum CHR ''X'' = True"
  "is_alphanum CHR ''Y'' = True" "is_alphanum CHR ''Z'' = True" "is_alphanum CHR ''.'' = False"
  "is_alphanum CHR ''-'' = True" "is_alphanum CHR ''+'' = False" "is_alphanum CHR ''/'' = False"
  "is_alphanum CHR ''_'' = False"
  by (simp_all add: is_alphanum_def)

lemma splitN_3: "splitN 3 d s = splitN (Suc (Suc (Suc 0))) d s"
  by (simp add: numeral_3_eq_3)

lemmas semver_eval = is_digit_eval digit_val_eval is_alphanum_eval
  plain_version_def semver_parse_def parse_number_def parse_tail_def cut_build_def cut_pre_def
  parse_uint64_def has_leading_zeroes_def new_pr_version_def splitN_3

lemmas compare_eval = semver_make_def semver_compare_def semver_GT_def semver_GE_def
  semver_LT_def semver_LE_def semver_eval

lemma semver_parse_example:
  "semver_parse ''1.11.0-alpha.1'' =
     Inr \<lparr>Major = 1, Minor = 11, Patch = 0, Pre = [PRStr ''alpha'', PRNum 1], Build = []\<rparr>"
  by (simp add: semver_eval)

end
