(* ===== verification/K8sVersions.thy ===== *)
theory K8sVersions
  imports Semver "HOL-Library.AList"
begin

section \<open>Supported Kubernetes versions (pkg/api/common/versions.go)\<close>

text \<open>
  The version tables and every function of versions.go. A Go \<open>map[string]bool\<close> that the code
  ranges over is an association list; its order stands for one of the iteration orders, and
  \<open>supported_iteration_order\<close> shows that the order does not matter. A lookup of a missing key
  gives false, as in Go (\<open>lookup_bool\<close>).
\<close>

subsection \<open>Tables\<close>

definition AllKubernetesSupportedVersions :: "(string \<times> bool) list" where
  "AllKubernetesSupportedVersions = [(''1.6.6'', False), (''1.6.9'', False), (''1.6.11'', False), (''1.6.12'', False),
    (''1.6.13'', False), (''1.7.0'', False), (''1.7.1'', False), (''1.7.2'', False),
    (''1.7.4'', False), (''1.7.5'', False), (''1.7.7'', False), (''1.7.9'', False),
    (''1.7.10'', False), (''1.7.12'', False), (''1.7.13'', False), (''1.7.14'', False),
    (''1.7.15'', False), (''1.7.16'', False), (''1.8.0'', False), (''1.8.1'', False),
    (''1.8.2'', False), (''1.8.4'', False), (''1.8.6'', False), (''1.8.7'', False),
    (''1.8.8'', False), (''1.8.9'', False), (''1.8.10'', False), (''1.8.11'', False),
    (''1.8.12'', False), (''1.8.13'', False), (''1.8.14'', False), (''1.8.15'', False),
    (''1.9.0'', False), (''1.9.1'', False), (''1.9.2'', False), (''1.9.3'', False),
    (''1.9.4'', False), (''1.9.5'', False), (''1.9.6'', False), (''1.9.7'', False),
    (''1.9.8'', False), (''1.9.9'', False), (''1.9.10'', False), (''1.9.11'', False),
    (''1.10.0-beta.2'', False), (''1.10.0-beta.4'', False), (''1.10.0-rc.1'', False), (''1.10.0'', False),
    (''1.10.1'', False), (''1.10.2'', False), (''1.10.3'', False), (''1.10.4'', False),
    (''1.10.5'', False), (''1.10.6'', False), (''1.10.7'', False), (''1.10.8'', False),
    (''1.10.9'', False), (''1.10.12'', False), (''1.10.13'', False), (''1.11.0-alpha.1'', False),
    (''1.11.0-alpha.2'', False), (''1.11.0-beta.1'', False), (''1.11.0-beta.2'', False), (''1.11.0-rc.1'', False),
    (''1.11.0-rc.2'', False), (''1.11.0-rc.3'', False), (''1.11.0'', False), (''1.11.1'', False),
    (''1.11.2'', False), (''1.11.3'', False), (''1.11.4'', False), (''1.11.5'', False),
    (''1.11.6'', False), (''1.11.7'', False), (''1.11.8'', False), (''1.11.9'', False),
    (''1.11.10'', False), (''1.12.0-alpha.1'', False), (''1.12.0-beta.0'', False), (''1.12.0-beta.1'', False),
    (''1.12.0-rc.1'', False), (''1.12.0-rc.2'', False), (''1.12.0'', False), (''1.12.1'', False),
    (''1.12.2'', False), (''1.12.4'', False), (''1.12.5'', False), (''1.12.6'', False),
    (''1.12.7'', False), (''1.12.8'', False), (''1.12.9'', False), (''1.13.0-alpha.1'', False),
    (''1.13.0-alpha.2'', False), (''1.13.1'', False), (''1.13.2'', False), (''1.13.3'', False),
    (''1.13.4'', False), (''1.13.5'', False), (''1.13.6'', False), (''1.13.7'', False),
    (''1.13.8'', False), (''1.13.9'', False), (''1.13.10'', False), (''1.13.11'', False),
    (''1.13.12'', False), (''1.14.0-alpha.1'', False), (''1.14.0-alpha.2'', False), (''1.14.0-beta.1'', False),
    (''1.14.0-beta.2'', False), (''1.14.0-rc.1'', False), (''1.14.0'', False), (''1.14.1'', False),
    (''1.14.2'', False), (''1.14.3'', False), (''1.14.4'', False), (''1.14.5'', False),
    (''1.14.6'', False), (''1.14.7'', False), (''1.14.8'', False), (''1.14.10'', False),
    (''1.15.0-alpha.1'', False), (''1.15.0-alpha.2'', False), (''1.15.0-alpha.3'', False), (''1.15.0-beta.1'', False),
    (''1.15.0-beta.2'', False), (''1.15.0-rc.1'', False), (''1.15.0'', False), (''1.15.1'', False),
    (''1.15.2'', False), (''1.15.3'', False), (''1.15.4'', False), (''1.15.5'', False),
    (''1.15.7'', False), (''1.15.8'', False), (''1.15.9'', False), (''1.15.10'', False),
    (''1.15.11'', False), (''1.15.12'', False), (''1.16.0-alpha.1'', False), (''1.16.0-alpha.2'', False),
    (''1.16.0-alpha.3'', False), (''1.16.0-beta.1'', False), (''1.16.0-beta.2'', False), (''1.16.0-rc.1'', False),
    (''1.16.0'', False), (''1.16.1'', False), (''1.16.2'', False), (''1.16.4'', False),
    (''1.16.5'', False), (''1.16.6'', False), (''1.16.7'', False), (''1.16.8'', False),
    (''1.16.9'', False), (''1.16.10'', False), (''1.16.11'', False), (''1.16.12'', False),
    (''1.16.13'', False), (''1.16.14'', False), (''1.16.15'', False), (''1.17.0-alpha.1'', False),
    (''1.17.0-alpha.2'', False), (''1.17.0-alpha.3'', False), (''1.17.0-beta.1'', False), (''1.17.0-beta.2'', False),
    (''1.17.0-rc.1'', False), (''1.17.0-rc.2'', False), (''1.17.0'', False), (''1.17.1'', False),
    (''1.17.2'', False), (''1.17.3'', False), (''1.17.4'', False), (''1.17.5'', False),
    (''1.17.6'', False), (''1.17.7'', False), (''1.17.8'', False), (''1.17.9'', False),
    (''1.17.10'', False), (''1.17.11'', False), (''1.17.12'', False), (''1.17.13'', False),
    (''1.17.14'', False), (''1.17.15'', False), (''1.17.16'', False), (''1.17.17'', False),
    (''1.18.0-alpha.1'', False), (''1.18.0-alpha.2'', False), (''1.18.0-alpha.3'', False), (''1.18.0-alpha.5'', False),
    (''1.18.0-beta.1'', False), (''1.18.0'', False), (''1.18.1'', False), (''1.18.2'', False),
    (''1.18.3'', False), (''1.18.4'', False), (''1.18.5'', False), (''1.18.6'', False),
    (''1.18.7'', False), (''1.18.8'', False), (''1.18.9'', False), (''1.18.10'', False),
    (''1.18.11'', False), (''1.18.12'', False), (''1.18.13'', False), (''1.18.14'', False),
    (''1.18.15'', False), (''1.18.16'', False), (''1.18.17'', False), (''1.18.18'', False),
    (''1.18.19'', False), (''1.18.20'', False), (''1.19.0-alpha.1'', False), (''1.19.0-alpha.2'', False),
    (''1.19.0-alpha.3'', False), (''1.19.0-beta.0'', False), (''1.19.0-beta.1'', False), (''1.19.0-beta.2'', False),
    (''1.19.0-rc.3'', False), (''1.19.0-rc.4'', False), (''1.19.0'', False), (''1.19.1'', False),
    (''1.19.2'', False), (''1.19.3'', False), (''1.19.4'', False), (''1.19.5'', False),
    (''1.19.6'', False), (''1.19.7'', False), (''1.19.8'', False), (''1.19.9'', False),
    (''1.19.10'', False), (''1.19.11'', False), (''1.19.12'', False), (''1.19.13'', False),
    (''1.19.14'', False), (''1.19.15'', False), (''1.19.16'', False), (''1.20.0-alpha.1'', False),
    (''1.20.0-alpha.2'', False), (''1.20.0-alpha.3'', False), (''1.20.0-beta.0'', False), (''1.20.0-beta.1'', False),
    (''1.20.0-beta.2'', False), (''1.20.0-rc.0'', False), (''1.20.0'', False), (''1.20.1'', False),
    (''1.20.2'', False), (''1.20.3'', False), (''1.20.4'', False), (''1.20.5'', False),
    (''1.20.6'', False), (''1.20.7'', False), (''1.20.8'', False), (''1.20.9'', False),
    (''1.20.10'', False), (''1.20.11'', False), (''1.20.12'', False), (''1.20.13'', False),
    (''1.20.14'', False), (''1.20.15'', False), (''1.21.0-alpha.1'', False), (''1.21.0-alpha.2'', False),
    (''1.21.0-alpha.3'', False), (''1.21.0-beta.0'', False), (''1.21.0-beta.1'', False), (''1.21.0-rc.0'', False),
    (''1.21.0'', False), (''1.21.1'', False), (''1.21.2'', False), (''1.21.3'', False),
    (''1.21.4'', False), (''1.21.5'', False), (''1.21.6'', False), (''1.21.7'', False),
    (''1.21.8'', False), (''1.21.9'', False), (''1.21.10'', False), (''1.21.11'', False),
    (''1.21.12'', False), (''1.21.13'', False), (''1.21.14'', False), (''1.22.0-alpha.1'', False),
    (''1.22.0-alpha.2'', False), (''1.22.0-alpha.3'', False), (''1.22.0-beta.0'', False), (''1.22.0-beta.1'', False),
    (''1.22.0-beta.2'', False), (''1.22.0'', False), (''1.22.1'', False), (''1.22.2'', False),
    (''1.22.3'', False), (''1.22.4'', False), (''1.22.5'', False), (''1.22.6'', False),
    (''1.22.7'', False), (''1.22.8'', False), (''1.22.9'', False), (''1.22.10'', False),
    (''1.22.11'', False), (''1.22.12'', False), (''1.22.13'', False), (''1.22.14'', False),
    (''1.22.15'', False), (''1.22.16'', False), (''1.22.17'', False), (''1.23.0-alpha.1'', False),
    (''1.23.0-alpha.2'', False), (''1.23.0-alpha.3'', False), (''1.23.0-alpha.4'', False), (''1.23.0-beta.0'', False),
    (''1.23.0-rc.0'', False), (''1.23.0-rc.1'', False), (''1.23.0'', False), (''1.23.1'', False),
    (''1.23.2'', False), (''1.23.3'', False), (''1.23.4'', False), (''1.23.5'', False),
    (''1.23.6'', False), (''1.23.7'', False), (''1.23.8'', False), (''1.23.9'', False),
    (''1.23.10'', False), (''1.23.11'', False), (''1.23.12'', False), (''1.23.13'', False),
    (''1.23.14'', False), (''1.23.15'', False), (''1.24.0-alpha.2'', False), (''1.24.0-alpha.3'', False),
    (''1.24.0'', False), (''1.24.1'', False), (''1.24.2'', False), (''1.24.3'', False),
    (''1.24.4'', False), (''1.24.5'', False), (''1.24.6'', False), (''1.24.7'', False),
    (''1.24.8'', False), (''1.24.9'', False), (''1.24.11'', False), (''1.25.7'', False),
    (''1.25.13'', False), (''1.26.6'', False), (''1.26.8'', False), (''1.26.9'', False),
    (''1.27.6'', False), (''1.27.9'', False), (''1.27.10'', False), (''1.28.5'', False),
    (''1.28.6'', False), (''1.28.15'', True), (''1.29.10'', True)]"

definition AllKubernetesSupportedVersionsAzureStack :: "(string \<times> bool) list" where
  "AllKubernetesSupportedVersionsAzureStack = [(''1.14.7'', False), (''1.14.8'', False), (''1.15.4'', False), (''1.15.5'', False),
    (''1.15.10'', False), (''1.15.11'', False), (''1.15.12'', False), (''1.16.9'', False),
    (''1.16.10'', False), (''1.16.11'', False), (''1.16.13'', False), (''1.16.14'', False),
    (''1.16.15'', False), (''1.17.4'', False), (''1.17.5'', False), (''1.17.6'', False),
    (''1.17.7'', False), (''1.17.9'', False), (''1.17.11'', False), (''1.17.17'', False),
    (''1.18.10'', False), (''1.18.15'', False), (''1.18.18'', False), (''1.19.10'', False),
    (''1.19.15'', False), (''1.20.6'', False), (''1.20.11'', False), (''1.21.10'', False),
    (''1.22.7'', False), (''1.22.15'', False), (''1.22.16'', False), (''1.23.6'', False),
    (''1.23.12'', False), (''1.23.13'', False), (''1.23.14'', False), (''1.23.15'', False),
    (''1.24.7'', False), (''1.24.9'', False), (''1.24.11'', False), (''1.25.7'', False),
    (''1.25.13'', False), (''1.26.6'', False), (''1.26.8'', False), (''1.26.9'', False),
    (''1.27.6'', False), (''1.27.9'', False), (''1.27.10'', False), (''1.28.5'', False),
    (''1.28.6'', False), (''1.28.15'', True), (''1.29.10'', True)]"

definition AllKubernetesWindowsSupportedVersionsAzureStack :: "(string \<times> bool) list" where
  "AllKubernetesWindowsSupportedVersionsAzureStack = [(''1.15.10'', False), (''1.15.11'', False), (''1.15.12'', False), (''1.16.9'', False),
    (''1.16.10'', False), (''1.16.11'', False), (''1.16.13'', False), (''1.16.14'', False),
    (''1.16.15'', False), (''1.17.4'', False), (''1.17.5'', False), (''1.17.6'', False),
    (''1.17.7'', False), (''1.17.9'', False), (''1.17.11'', False), (''1.17.17'', False),
    (''1.18.10'', False), (''1.18.15'', False), (''1.18.18'', False), (''1.19.10'', False),
    (''1.19.15'', False), (''1.20.6'', False), (''1.20.11'', False), (''1.21.10'', False),
    (''1.22.7'', False), (''1.22.15'', False), (''1.22.16'', False), (''1.23.6'', False),
    (''1.23.12'', False), (''1.23.13'', False), (''1.23.14'', False), (''1.23.15'', False),
    (''1.24.7'', False), (''1.24.9'', False), (''1.24.11'', False), (''1.25.7'', False),
    (''1.25.13'', False), (''1.26.6'', False), (''1.26.8'', False), (''1.26.9'', False),
    (''1.27.6'', False), (''1.27.9'', False), (''1.27.10'', False), (''1.28.5'', False),
    (''1.28.6'', False), (''1.28.15'', True), (''1.29.10'', True)]"

definition windows_unsupported :: "string list" where
  "windows_unsupported = [''1.6.6'', ''1.6.9'', ''1.6.11'', ''1.6.12'', ''1.6.13'', ''1.7.0'', ''1.7.1'', ''1.8.13'', ''1.8.14'', ''1.8.15'', ''1.10.0-beta.2'', ''1.10.0-beta.4'', ''1.10.0-rc.1'', ''1.11.0-alpha.1'', ''1.11.0-alpha.2'']"

definition AllKubernetesWindowsSupportedVersions :: "(string \<times> bool) list" where
  "AllKubernetesWindowsSupportedVersions =
     AList.update ''1.8.12'' True
       (fold AList.delete windows_unsupported AllKubernetesSupportedVersions)"

definition lookup_bool :: "(string \<times> bool) list \<Rightarrow> string \<Rightarrow> bool" where
  "lookup_bool m k = (case map_of m k of Some b \<Rightarrow> b | None \<Rightarrow> False)"

definition Kubernetes :: string where
  "Kubernetes = ''Kubernetes''"

definition KubernetesDefaultRelease :: string where
  "KubernetesDefaultRelease = ''1.28''"

definition KubernetesDefaultReleaseWindows :: string where
  "KubernetesDefaultReleaseWindows = ''1.28''"

definition KubernetesDefaultReleaseAzureStack :: string where
  "KubernetesDefaultReleaseAzureStack = ''1.28''"

definition KubernetesDefaultReleaseWindowsAzureStack :: string where
  "KubernetesDefaultReleaseWindowsAzureStack = ''1.28''"

subsection \<open>Comparisons and filters\<close>

definition IsKubernetesVersionGe :: "string \<Rightarrow> string \<Rightarrow> bool" where
  "IsKubernetesVersionGe actualVersion version =
     semver_GE (semver_make actualVersion) (semver_make version)"

definition major_minor :: "version \<Rightarrow> string" where
  "major_minor sv = utoa (Major sv) @ ''.'' @ utoa (Minor sv)"

definition GetVersionsGt :: "string list \<Rightarrow> string \<Rightarrow> bool \<Rightarrow> bool \<Rightarrow> string list" where
  "GetVersionsGt versions version inclusive preReleases =
     (let minVersion = semver_make version in
      filter (\<lambda>v. let sv = semver_make v in
        \<not> (\<not> preReleases \<and> Pre sv \<noteq> []) \<and>
        ((inclusive \<and> semver_GE sv minVersion) \<or> (\<not> inclusive \<and> semver_GT sv minVersion))) versions)"

definition GetVersionsLt :: "string list \<Rightarrow> string \<Rightarrow> bool \<Rightarrow> bool \<Rightarrow> string list" where
  "GetVersionsLt versions version inclusive preReleases =
     (let minVersion = semver_make version in
      filter (\<lambda>v. let sv = semver_make v in
        \<not> (\<not> preReleases \<and> Pre sv \<noteq> []) \<and>
        ((inclusive \<and> semver_LE sv minVersion) \<or> (\<not> inclusive \<and> semver_LT sv minVersion))) versions)"

definition GetVersionsBetween ::
    "string list \<Rightarrow> string \<Rightarrow> string \<Rightarrow> bool \<Rightarrow> bool \<Rightarrow> string list" where
  "GetVersionsBetween versions versionMin versionMax inclusive preReleases0 =
     (let preReleases = (if Pre (semver_make versionMin) \<noteq> [] then True else preReleases0);
          greaterThan = GetVersionsGt versions versionMin inclusive preReleases;
          lessThan = GetVersionsLt versions versionMax inclusive preReleases
      in concat (map (\<lambda>lv. map (\<lambda>_. lv) (filter (\<lambda>gv. lv = gv) greaterThan)) lessThan))"

definition getSortedSemverVersions :: "string list \<Rightarrow> bool \<Rightarrow> version list" where
  "getSortedSemverVersions versions preRelease =
     semver_sort (filter (\<lambda>sv. Pre sv = [] \<or> preRelease) (map semver_make versions))"

definition GetMinVersion :: "string list \<Rightarrow> bool \<Rightarrow> string result" where
  "GetMinVersion versions preRelease =
     (if length versions < 1 then Inr ''''
      else (case getSortedSemverVersions versions preRelease of
        [] \<Rightarrow> Inl (Panic ''index out of range'') | sv # _ \<Rightarrow> Inr (version_string sv)))"

definition GetMaxVersion :: "string list \<Rightarrow> bool \<Rightarrow> string result" where
  "GetMaxVersion versions preRelease =
     (if length versions < 1 then Inr ''''
      else (let svs = getSortedSemverVersions versions preRelease in
        if svs = [] then Inl (Panic ''index out of range'') else Inr (version_string (last svs))))"

text \<open>The loop of \<open>GetLatestPatchVersion\<close>: a version that does not parse ends it with the current value.\<close>

fun latest_patch :: "string \<Rightarrow> string \<Rightarrow> string list \<Rightarrow> string" where
  "latest_patch majorMinor version [] = version"
| "latest_patch majorMinor version (ver # vers) =
     (case semver_parse ver of Inl _ \<Rightarrow> version
      | Inr sv \<Rightarrow>
        if major_minor sv = majorMinor then
          (if version = '''' then latest_patch majorMinor ver vers
           else if semver_GT sv (semver_make version) then latest_patch majorMinor ver vers
           else latest_patch majorMinor version vers)
        else latest_patch majorMinor version vers)"

definition GetLatestPatchVersion :: "string \<Rightarrow> string list \<Rightarrow> string" where
  "GetLatestPatchVersion majorMinor versionsList = latest_patch majorMinor '''' versionsList"

subsection \<open>Supported and default versions\<close>

text \<open>The table that \<open>GetAllSupportedKubernetesVersions\<close> selects.\<close>

definition supported_table :: "bool \<Rightarrow> bool \<Rightarrow> (string \<times> bool) list" where
  "supported_table hasWindows isAzureStackCloud =
     (let t0 = AllKubernetesSupportedVersions;
          t1 = (if hasWindows then AllKubernetesWindowsSupportedVersions else t0);
          t2 = (if isAzureStackCloud \<and> hasWindows
                then AllKubernetesWindowsSupportedVersionsAzureStack else t1)
      in if isAzureStackCloud \<and> \<not> hasWindows then AllKubernetesSupportedVersionsAzureStack else t2)"

definition supported_versions_of :: "(string \<times> bool) list \<Rightarrow> bool \<Rightarrow> string list" where
  "supported_versions_of tbl isUpdate =
     sort_by (\<lambda>vi vj. IsKubernetesVersionGe vj vi)
       (map fst (filter (\<lambda>(ver, supported). isUpdate \<or> supported) tbl))"

definition GetAllSupportedKubernetesVersions :: "bool \<Rightarrow> bool \<Rightarrow> bool \<Rightarrow> string list" where
  "GetAllSupportedKubernetesVersions isUpdate hasWindows isAzureStackCloud =
     supported_versions_of (supported_table hasWindows isAzureStackCloud) isUpdate"

definition GetDefaultKubernetesVersion :: "bool \<Rightarrow> bool \<Rightarrow> string" where
  "GetDefaultKubernetesVersion hasWindows isAzureStackCloud =
     (let r0 = KubernetesDefaultRelease;
          r1 = (if hasWindows then KubernetesDefaultReleaseWindows else r0);
          r2 = (if isAzureStackCloud \<and> hasWindows
                then KubernetesDefaultReleaseWindowsAzureStack else r1);
          r3 = (if isAzureStackCloud \<and> \<not> hasWindows
                then KubernetesDefaultReleaseAzureStack else r2)
      in GetLatestPatchVersion r3
           (GetAllSupportedKubernetesVersions False hasWindows isAzureStackCloud))"

definition GetSupportedKubernetesVersion :: "string \<Rightarrow> bool \<Rightarrow> bool \<Rightarrow> string" where
  "GetSupportedKubernetesVersion version hasWindows isAzureStackCloud =
     (let v0 = GetDefaultKubernetesVersion hasWindows isAzureStackCloud;
          v1 = (if hasWindows
                then (if lookup_bool AllKubernetesWindowsSupportedVersions version then version else v0)
                else (if lookup_bool AllKubernetesSupportedVersions version then version else v0))
      in if isAzureStackCloud then
           (if hasWindows
            then (if lookup_bool AllKubernetesWindowsSupportedVersionsAzureStack version
                  then version else v1)
            else (if lookup_bool AllKubernetesSupportedVersionsAzureStack version
                  then version else v1))
         else v1)"

definition IsSupportedKubernetesVersion :: "string \<Rightarrow> bool \<Rightarrow> bool \<Rightarrow> bool \<Rightarrow> bool" where
  "IsSupportedKubernetesVersion version isUpdate hasWindows isAzureStackCloud =
     list_ex (\<lambda>ver. ver = version)
       (GetAllSupportedKubernetesVersions isUpdate hasWindows isAzureStackCloud)"

text \<open>A nil slice of versions is \<open>None\<close>: the callers test for it.\<close>

definition GetSupportedVersions ::
    "string \<Rightarrow> bool \<Rightarrow> bool \<Rightarrow> bool \<Rightarrow> string list option \<times> string" where
  "GetSupportedVersions orchType isUpdate hasWindows isAzureStackCloud =
     (if orchType = Kubernetes then
        (let vs = GetAllSupportedKubernetesVersions isUpdate hasWindows isAzureStackCloud in
         (if vs = [] then None else Some vs, GetDefaultKubernetesVersion hasWindows isAzureStackCloud))
      else (None, ''''))"

subsection \<open>Rationalizing a release and a version\<close>

definition find_version :: "(string \<Rightarrow> bool) \<Rightarrow> string list \<Rightarrow> string" where
  "find_version p vs = (case find p vs of Some v \<Rightarrow> v | None \<Rightarrow> '''')"

definition RationalizeReleaseAndVersion ::
    "string \<Rightarrow> string \<Rightarrow> string \<Rightarrow> bool \<Rightarrow> bool \<Rightarrow> bool \<Rightarrow> string" where
  "RationalizeReleaseAndVersion orchType0 orchRel0 orchVer0 isUpdate hasWindows isAzureStackCloud =
     (let orchType = (if orchType0 = '''' then Kubernetes else orchType0);
          orchVer = trim_prefix orchVer0 ''v'';
          orchRel = trim_prefix orchRel0 ''v''
      in case GetSupportedVersions orchType isUpdate hasWindows isAzureStackCloud of
        (None, _) \<Rightarrow> ''''
      | (Some supportedVersions, defaultVersion) \<Rightarrow>
          if orchRel = '''' \<and> orchVer = '''' then defaultVersion
          else if orchVer = '''' then GetLatestPatchVersion orchRel supportedVersions
          else if orchRel = '''' then find_version (\<lambda>ver. ver = orchVer) supportedVersions
          else find_version (\<lambda>ver. major_minor (semver_make ver) = orchRel \<and> ver = orchVer)
                 supportedVersions)"

definition GetValidPatchVersion :: "string \<Rightarrow> string \<Rightarrow> bool \<Rightarrow> bool \<Rightarrow> bool \<Rightarrow> string" where
  "GetValidPatchVersion orchType orchVer isUpdate hasWindows isAzureStackCloud =
     (if orchVer = '''' then
        RationalizeReleaseAndVersion orchType '''' '''' isUpdate hasWindows isAzureStackCloud
      else
        (let version = RationalizeReleaseAndVersion orchType '''' orchVer isUpdate hasWindows
                         isAzureStackCloud in
         if version = '''' then
           (case semver_parse orchVer of Inl _ \<Rightarrow> ''''
            | Inr sv \<Rightarrow> RationalizeReleaseAndVersion orchType (major_minor sv) '''' isUpdate
                         hasWindows isAzureStackCloud)
         else version))"

definition IsValidMinVersion :: "string \<Rightarrow> string \<Rightarrow> string \<Rightarrow> string \<Rightarrow> bool result" where
  "IsValidMinVersion orchType orchRelease orchVersion minVersion =
     (let version = RationalizeReleaseAndVersion orchType orchRelease orchVersion False False False in
      if version = '''' then Inl (Err ''the user supplied OrchestratorProfile configuration is not supported'')
      else (case semver_parse version of
        Inl _ \<Rightarrow> Inl (Err (''could not validate version '' @ version))
      | Inr sv \<Rightarrow>
          (case semver_parse minVersion of
            Inl _ \<Rightarrow> Inl (Err ''could not validate version'')
          | Inr m \<Rightarrow> Inr (\<not> semver_LT sv m))))"

subsection \<open>Filters select what their names say\<close>

text \<open>The order of version strings, as the key order of the versions they denote.\<close>

definition skey :: "string \<Rightarrow> nat \<times> nat \<times> nat \<times> nat \<times> pr_version list" where
  "skey s = version_key (semver_make s)"

lemma IsKubernetesVersionGe_iff: "IsKubernetesVersionGe a v \<longleftrightarrow> skey v \<le> skey a"
  by (simp add: IsKubernetesVersionGe_def semver_tests skey_def)

lemma set_GetVersionsGt:
  "v \<in> set (GetVersionsGt vs ver incl pre) \<longleftrightarrow>
     v \<in> set vs \<and> (pre \<or> Pre (semver_make v) = []) \<and>
     (if incl then skey ver \<le> skey v else skey ver < skey v)"
  by (auto simp: GetVersionsGt_def Let_def semver_tests skey_def)

lemma set_GetVersionsLt:
  "v \<in> set (GetVersionsLt vs ver incl pre) \<longleftrightarrow>
     v \<in> set vs \<and> (pre \<or> Pre (semver_make v) = []) \<and>
     (if incl then skey v \<le> skey ver else skey v < skey ver)"
  by (auto simp: GetVersionsLt_def Let_def semver_tests skey_def)

lemma set_GetVersionsBetween:
  "v \<in> set (GetVersionsBetween vs lo hi incl pre) \<longleftrightarrow>
     v \<in> set (GetVersionsGt vs lo incl (pre \<or> Pre (semver_make lo) \<noteq> [])) \<and>
     v \<in> set (GetVersionsLt vs hi incl (pre \<or> Pre (semver_make lo) \<noteq> []))"
  by (auto simp: GetVersionsBetween_def Let_def)

subsection \<open>Sorting does not depend on the iteration order of the table\<close>

lemma supported_versions_of_svs:
  "supported_versions_of tbl u =
     sort_by (\<lambda>x y. semver_compare (semver_make x) (semver_make y) \<le> 0)
       (map fst (filter (\<lambda>(ver, supported). u \<or> supported) tbl))"
proof -
  have "(\<lambda>vi vj. IsKubernetesVersionGe vj vi) =
      (\<lambda>x y. semver_compare (semver_make x) (semver_make y) \<le> 0)"
    by (intro ext) (simp add: IsKubernetesVersionGe_iff skey_def semver_compare_key)
  then show ?thesis by (simp add: supported_versions_of_def)
qed

lemma set_supported_versions_of:
  "set (supported_versions_of tbl u) = {v. \<exists>b. (v, b) \<in> set tbl \<and> (u \<or> b)}"
  by (force simp: supported_versions_of_def)

lemma sorted_supported_versions_of:
  "sorted_wrt (\<lambda>x y. skey x \<le> skey y) (supported_versions_of tbl u)"
proof -
  have "(\<lambda>x y. semver_compare (semver_make x) (semver_make y) \<le> 0) = (\<lambda>x y. skey x \<le> skey y)"
    by (intro ext) (simp add: skey_def semver_compare_key)
  then show ?thesis
    unfolding supported_versions_of_svs using svs.sorted_sort_by by metis
qed

lemma supported_versions_of_perm:
  assumes "mset tbl = mset tbl'" and plain: "\<forall>v \<in> fst ` set tbl. plain_version v"
  shows "supported_versions_of tbl u = supported_versions_of tbl' u"
  unfolding supported_versions_of_svs
proof (rule svs.sorted_perm_unique)
  show "mset (sort_by (\<lambda>x y. semver_compare (semver_make x) (semver_make y) \<le> 0)
        (map fst (filter (\<lambda>(ver, supported). u \<or> supported) tbl))) =
      mset (sort_by (\<lambda>x y. semver_compare (semver_make x) (semver_make y) \<le> 0)
        (map fst (filter (\<lambda>(ver, supported). u \<or> supported) tbl')))"
    using assms(1) by (simp add: mset_filter)
  show "x = y"
    if "x \<in> set (sort_by (\<lambda>x y. semver_compare (semver_make x) (semver_make y) \<le> 0)
          (map fst (filter (\<lambda>(ver, supported). u \<or> supported) tbl)))"
      "y \<in> set (sort_by (\<lambda>x y. semver_compare (semver_make x) (semver_make y) \<le> 0)
          (map fst (filter (\<lambda>(ver, supported). u \<or> supported) tbl)))"
      "semver_compare (semver_make x) (semver_make y) = 0" for x y
  proof (rule plain_version_inj)
    show "plain_version x" "plain_version y" using that(1,2) plain by force+
  qed (rule that(3))
qed (rule svs.sorted_sort_by)+

subsection \<open>The latest patch of a release\<close>

lemma plain_version_nonempty: "plain_version s \<Longrightarrow> s \<noteq> ''''"
  by (auto simp: plain_version_def semver_parse_def)

text \<open>What the loop guarantees of its result \<open>r\<close>, started with the current value \<open>v\<close>.\<close>

definition latest_of :: "string \<Rightarrow> string \<Rightarrow> string list \<Rightarrow> string \<Rightarrow> bool" where
  "latest_of mm v vs r \<longleftrightarrow>
     (r = v \<or> r \<in> set vs \<and> major_minor (semver_make r) = mm) \<and>
     (\<forall>x \<in> set vs. major_minor (semver_make x) = mm \<longrightarrow> r \<noteq> '''' \<and> skey x \<le> skey r) \<and>
     (v \<noteq> '''' \<longrightarrow> r \<noteq> '''' \<and> skey v \<le> skey r)"

lemma latest_patch_spec:
  "\<forall>x \<in> set vs. plain_version x \<Longrightarrow> latest_of mm v vs (latest_patch mm v vs)"
proof (induction vs arbitrary: v)
  case (Cons w ws)
  then have w: "semver_parse w = Inr (semver_make w)" "w \<noteq> ''''"
    using plain_version_make plain_version_nonempty by auto
  let ?v' = "if major_minor (semver_make w) = mm \<and> (v = '''' \<or> skey v < skey w) then w else v"
  have step: "latest_patch mm v (w # ws) = latest_patch mm ?v' ws"
    using w by (simp add: semver_tests skey_def)
  have "latest_of mm ?v' ws (latest_patch mm ?v' ws)"
    using Cons by simp
  then show ?case
    unfolding step using w(2) by (auto simp: latest_of_def not_less split: if_splits)
qed (simp add: latest_of_def)

lemma GetLatestPatchVersion_member:
  "\<forall>x \<in> set vs. plain_version x \<Longrightarrow> GetLatestPatchVersion mm vs \<noteq> '''' \<Longrightarrow>
     GetLatestPatchVersion mm vs \<in> set vs \<and>
     major_minor (semver_make (GetLatestPatchVersion mm vs)) = mm"
  using latest_patch_spec [of vs mm "''''"] by (auto simp: GetLatestPatchVersion_def latest_of_def)

lemma GetLatestPatchVersion_greatest:
  "\<forall>x \<in> set vs. plain_version x \<Longrightarrow> x \<in> set vs \<Longrightarrow> major_minor (semver_make x) = mm \<Longrightarrow>
     GetLatestPatchVersion mm vs \<noteq> '''' \<and> IsKubernetesVersionGe (GetLatestPatchVersion mm vs) x"
  using latest_patch_spec [of vs mm "''''"]
  by (auto simp: GetLatestPatchVersion_def IsKubernetesVersionGe_iff latest_of_def)

end
