(* ===== verification/ClusterModel.thy ===== *)
theory ClusterModel
  imports ApiTypes K8sVersions
begin

section \<open>Methods of the cluster definition (pkg/api/types.go)\<close>

text \<open>
  The predicates and lookups on the cluster definition that naming, upgrading and scaling use.
  Where two structs have a method of one name, the struct's name comes first.
\<close>

subsection \<open>Addons and components\<close>

definition KubernetesAddon_IsEnabled :: "addon \<Rightarrow> bool" where
  "KubernetesAddon_IsEnabled a = (case ad_Enabled a of None \<Rightarrow> False | Some e \<Rightarrow> e)"

definition KubernetesAddon_IsDisabled :: "addon \<Rightarrow> bool" where
  "KubernetesAddon_IsDisabled a = (case ad_Enabled a of None \<Rightarrow> False | Some e \<Rightarrow> \<not> e)"

fun index_where :: "('a \<Rightarrow> bool) \<Rightarrow> int \<Rightarrow> 'a list \<Rightarrow> int" where
  "index_where P i [] = - 1"
| "index_where P i (x # xs) = (if P x then i else index_where P (i + 1) xs)"

definition GetAddonContainersIndexByName :: "addon \<Rightarrow> string \<Rightarrow> int" where
  "GetAddonContainersIndexByName a containerName =
     index_where (\<lambda>c. ct_Name c = containerName) 0 (ad_Containers a)"

definition GetAddonPoolIndexByName :: "addon \<Rightarrow> string \<Rightarrow> int" where
  "GetAddonPoolIndexByName a poolName = index_where (\<lambda>p. anp_Name p = poolName) 0 (ad_Pools a)"

definition KubernetesComponent_IsEnabled :: "component \<Rightarrow> bool" where
  "KubernetesComponent_IsEnabled c = (case co_Enabled c of None \<Rightarrow> False | Some e \<Rightarrow> e)"

definition KubernetesComponent_IsDisabled :: "component \<Rightarrow> bool" where
  "KubernetesComponent_IsDisabled c = (case co_Enabled c of None \<Rightarrow> False | Some e \<Rightarrow> \<not> e)"

definition GetContainersIndexByName :: "component \<Rightarrow> string \<Rightarrow> int" where
  "GetContainersIndexByName c containerName =
     index_where (\<lambda>x. ct_Name x = containerName) 0 (co_Containers c)"

definition GetAddonByName :: "kubernetes_config \<Rightarrow> string \<Rightarrow> addon" where
  "GetAddonByName k addonName =
     (case find (\<lambda>a. ad_Name a = addonName) (kc_Addons k) of Some a \<Rightarrow> a | None \<Rightarrow> zero_addon)"

definition GetAddonScript :: "kubernetes_config \<Rightarrow> string \<Rightarrow> string" where
  "GetAddonScript k addonName = ad_Data (GetAddonByName k addonName)"

definition IsAddonEnabled :: "kubernetes_config \<Rightarrow> string \<Rightarrow> bool" where
  "IsAddonEnabled k addonName = KubernetesAddon_IsEnabled (GetAddonByName k addonName)"

definition IsAddonDisabled :: "kubernetes_config \<Rightarrow> string \<Rightarrow> bool" where
  "IsAddonDisabled k addonName = KubernetesAddon_IsDisabled (GetAddonByName k addonName)"

definition ClusterAutoscalerAddonName :: string where
  "ClusterAutoscalerAddonName = ''cluster-autoscaler''"

definition IsClusterAutoscalerEnabled :: "kubernetes_config \<Rightarrow> bool" where
  "IsClusterAutoscalerEnabled k = IsAddonEnabled k ClusterAutoscalerAddonName"

definition GetComponentByName :: "kubernetes_config \<Rightarrow> string \<Rightarrow> component" where
  "GetComponentByName k componentName =
     (case find (\<lambda>c. co_Name c = componentName) (kc_Components k) of
        Some c \<Rightarrow> c | None \<Rightarrow> zero_component)"

definition GetComponentData :: "kubernetes_config \<Rightarrow> string \<Rightarrow> string" where
  "GetComponentData k componentName = co_Data (GetComponentByName k componentName)"

definition IsComponentEnabled :: "kubernetes_config \<Rightarrow> string \<Rightarrow> component \<times> bool" where
  "IsComponentEnabled k componentName =
     (let component = GetComponentByName k componentName
      in (component, KubernetesComponent_IsEnabled component))"

subsection \<open>Kubernetes configuration\<close>

definition IsRBACEnabled :: "kubernetes_config \<Rightarrow> bool" where
  "IsRBACEnabled k = (if kc_EnableRbac k \<noteq> None then to_Bool (kc_EnableRbac k) else False)"

definition UserAssignedIDEnabled :: "kubernetes_config \<Rightarrow> bool" where
  "UserAssignedIDEnabled k \<longleftrightarrow> to_Bool (kc_UseManagedIdentity k) \<and> kc_UserAssignedID k \<noteq> ''''"

definition SystemAssignedIDEnabled :: "kubernetes_config \<Rightarrow> bool" where
  "SystemAssignedIDEnabled k \<longleftrightarrow> to_Bool (kc_UseManagedIdentity k) \<and> kc_UserAssignedID k = ''''"

definition ShouldCreateNewUserAssignedIdentity :: "kubernetes_config \<Rightarrow> bool" where
  "ShouldCreateNewUserAssignedIdentity k \<longleftrightarrow>
     \<not> (UserAssignedIDEnabled k \<and> contains (kc_UserAssignedID k) ''/'')"

definition NeedsContainerd :: "kubernetes_config \<Rightarrow> bool" where
  "NeedsContainerd k \<longleftrightarrow> kc_ContainerRuntime k = Containerd"

definition RequiresDocker :: "kubernetes_config option \<Rightarrow> bool" where
  "RequiresDocker k =
     (case k of None \<Rightarrow> False
      | Some k \<Rightarrow> (let runtime = to_lower (kc_ContainerRuntime k)
                  in runtime = Docker \<or> runtime = ''''))"

text \<open>
  The order in which a map is ranged over does not show in these two: the keys are sorted first.
  \<open>sort.Strings\<close> compares byte-wise.
\<close>

fun string_le :: "string \<Rightarrow> string \<Rightarrow> bool" where
  "string_le [] t = True"
| "string_le (c # s) [] = False"
| "string_le (c # s) (d # t) =
     ((of_char c :: nat) < of_char d \<or> c = d \<and> string_le s t)"

definition sort_Strings :: "string list \<Rightarrow> string list" where
  "sort_Strings ks = sort_by string_le ks"

definition map_get :: "(string \<times> string) list \<Rightarrow> string \<Rightarrow> string" where
  "map_get m k = (case map_of m k of Some v \<Rightarrow> v | None \<Rightarrow> '''')"

definition kubelet_keys :: "kubernetes_config \<Rightarrow> string list" where
  "kubelet_keys k =
     sort_Strings (map fst (case kc_KubeletConfig k of None \<Rightarrow> [] | Some m \<Rightarrow> m))"

definition kubelet_value :: "kubernetes_config \<Rightarrow> string \<Rightarrow> string" where
  "kubelet_value k key =
     map_get (case kc_KubeletConfig k of None \<Rightarrow> [] | Some m \<Rightarrow> m) key"

definition GetOrderedKubeletConfigString :: "kubernetes_config \<Rightarrow> string" where
  "GetOrderedKubeletConfigString k =
     concat (map (\<lambda>key. key @ ''='' @ kubelet_value k key @ '' '') (kubelet_keys k))"

definition trim_suffix :: "string \<Rightarrow> string \<Rightarrow> string" where
  "trim_suffix s suf =
     (if length suf \<le> length s \<and> drop (length s - length suf) s = suf
      then take (length s - length suf) s else s)"

definition GetOrderedKubeletConfigStringForPowershell :: "kubernetes_config \<Rightarrow> string" where
  "GetOrderedKubeletConfigStringForPowershell k =
     trim_suffix
       (concat (map (\<lambda>key. [CHR 0x22] @ key @ ''='' @ kubelet_value k key
                        @ [CHR 0x22] @ '', '') (kubelet_keys k)))
       '', ''"

text \<open>\<open>PrivateJumpboxProvision\<close> dereferences \<open>Enabled\<close> without a test.\<close>

definition PrivateJumpboxProvision :: "kubernetes_config option \<Rightarrow> bool result" where
  "PrivateJumpboxProvision k =
     (case k of None \<Rightarrow> Inr False
      | Some k \<Rightarrow> (case kc_PrivateCluster k of None \<Rightarrow> Inr False
        | Some pc \<Rightarrow> bindR (deref (pc_Enabled pc)) (\<lambda>e.
            Inr (e \<and> pc_JumpboxProfile pc \<noteq> None))))"

text \<open>\<open>IsFeatureEnabled\<close> of a nil pointer to the flags is false.\<close>

definition IsFeatureEnabled :: "feature_flags option \<Rightarrow> string \<Rightarrow> bool" where
  "IsFeatureEnabled f feature =
     (case f of None \<Rightarrow> False
      | Some f \<Rightarrow>
          if feature = ''CSERunInBackground'' then ff_EnableCSERunInBackground f
          else if feature = ''BlockOutboundInternet'' then ff_BlockOutboundInternet f
          else if feature = ''EnableIPv6DualStack'' then ff_EnableIPv6DualStack f
          else if feature = ''EnableTelemetry'' then ff_EnableTelemetry f
          else if feature = ''EnableIPv6Only'' then ff_EnableIPv6Only f
          else if feature = ''EnableWinDSR'' then ff_EnableWinDSR f
          else if feature = ''EnforceUbuntuDisaStig'' then ff_EnforceUbuntuDisaStig f
          else if feature = ''EnforceKubernetesDisaStig'' then ff_EnforceKubernetesDisaStig f
          else False)"

subsection \<open>The master profile\<close>

definition ImageReference_IsValid :: "image_reference \<Rightarrow> bool" where
  "ImageReference_IsValid i \<longleftrightarrow> length (ir_Name i) > 0 \<and> length (ir_ResourceGroup i) > 0"

definition IsGalleryImage :: "image_reference \<Rightarrow> bool" where
  "IsGalleryImage i \<longleftrightarrow> length (ir_Gallery i) > 0 \<and> length (ir_Name i) > 0 \<and>
     length (ir_ResourceGroup i) > 0 \<and> length (ir_SubscriptionID i) > 0 \<and> length (ir_Version i) > 0"

definition MasterProfile_HasImageRef :: "master_profile \<Rightarrow> bool" where
  "MasterProfile_HasImageRef m =
     (case mp_ImageRef m of None \<Rightarrow> False | Some i \<Rightarrow> ImageReference_IsValid i)"

definition MasterProfile_IsCustomVNET :: "master_profile \<Rightarrow> bool" where
  "MasterProfile_IsCustomVNET m \<longleftrightarrow> length (mp_VnetSubnetID m) > 0"

definition MasterProfile_IsManagedDisks :: "master_profile \<Rightarrow> bool" where
  "MasterProfile_IsManagedDisks m \<longleftrightarrow> mp_StorageProfile m = ManagedDisks"

definition MasterProfile_IsVHDDistro :: "master_profile \<Rightarrow> bool" where
  "MasterProfile_IsVHDDistro m \<longleftrightarrow> mp_Distro m = AKSUbuntu1604 \<or> mp_Distro m = AKSUbuntu1804 \<or>
     mp_Distro m = AKSUbuntu2004 \<or> mp_Distro m = AKSUbuntu2204"

definition MasterProfile_IsVirtualMachineScaleSets :: "master_profile \<Rightarrow> bool" where
  "MasterProfile_IsVirtualMachineScaleSets m \<longleftrightarrow> mp_AvailabilityProfile m = VirtualMachineScaleSets"

definition MasterProfile_IsAvailabilitySet :: "master_profile \<Rightarrow> bool" where
  "MasterProfile_IsAvailabilitySet m \<longleftrightarrow> mp_AvailabilityProfile m = AvailabilitySet"

definition MasterProfile_HasAvailabilityZones :: "master_profile \<Rightarrow> bool" where
  "MasterProfile_HasAvailabilityZones m \<longleftrightarrow> length (mp_AvailabilityZones m) > 0"

definition HasMultipleNodes :: "master_profile \<Rightarrow> bool" where
  "HasMultipleNodes m \<longleftrightarrow> mp_Count m > 1"

definition HasCosmosEtcd :: "master_profile \<Rightarrow> bool" where
  "HasCosmosEtcd m = to_Bool (mp_CosmosEtcd m)"

definition GetCosmosEndPointURI :: "master_profile \<Rightarrow> string" where
  "GetCosmosEndPointURI m =
     (if HasCosmosEtcd m then mp_DNSPrefix m @ ''k8s.etcd.cosmosdb.azure.com'' else '''')"

subsection \<open>Agent pools\<close>

definition AgentPoolProfile_HasImageRef :: "agent_pool_profile \<Rightarrow> bool" where
  "AgentPoolProfile_HasImageRef a =
     (case ap_ImageRef a of None \<Rightarrow> False | Some i \<Rightarrow> ImageReference_IsValid i)"

definition AgentPoolProfile_IsCustomVNET :: "agent_pool_profile \<Rightarrow> bool" where
  "AgentPoolProfile_IsCustomVNET a \<longleftrightarrow> length (ap_VnetSubnetID a) > 0"

definition IsWindows :: "agent_pool_profile \<Rightarrow> bool" where
  "IsWindows a \<longleftrightarrow> ap_OSType a = Windows"

definition IsLinux :: "agent_pool_profile \<Rightarrow> bool" where
  "IsLinux a \<longleftrightarrow> ap_OSType a = Linux"

definition IsFlatcar :: "agent_pool_profile \<Rightarrow> bool" where
  "IsFlatcar a \<longleftrightarrow> ap_Distro a = Flatcar"

definition AgentPoolProfile_IsVHDDistro :: "agent_pool_profile \<Rightarrow> bool" where
  "AgentPoolProfile_IsVHDDistro a \<longleftrightarrow> ap_Distro a = AKSUbuntu1604 \<or> ap_Distro a = AKSUbuntu1804 \<or>
     ap_Distro a = AKSUbuntu2004 \<or> ap_Distro a = AKSUbuntu2204"

definition IsAvailabilitySets :: "agent_pool_profile \<Rightarrow> bool" where
  "IsAvailabilitySets a \<longleftrightarrow> ap_AvailabilityProfile a = AvailabilitySet"

definition IsVirtualMachineScaleSets :: "agent_pool_profile \<Rightarrow> bool" where
  "IsVirtualMachineScaleSets a \<longleftrightarrow> ap_AvailabilityProfile a = VirtualMachineScaleSets"

definition IsLowPriorityScaleSet :: "agent_pool_profile \<Rightarrow> bool" where
  "IsLowPriorityScaleSet a \<longleftrightarrow>
     ap_AvailabilityProfile a = VirtualMachineScaleSets \<and> ap_ScaleSetPriority a = ScaleSetPriorityLow"

definition IsSpotScaleSet :: "agent_pool_profile \<Rightarrow> bool" where
  "IsSpotScaleSet a \<longleftrightarrow>
     ap_AvailabilityProfile a = VirtualMachineScaleSets \<and> ap_ScaleSetPriority a = ScaleSetPrioritySpot"

definition IsManagedDisks :: "agent_pool_profile \<Rightarrow> bool" where
  "IsManagedDisks a \<longleftrightarrow> ap_StorageProfile a = ManagedDisks"

definition IsStorageAccount :: "agent_pool_profile \<Rightarrow> bool" where
  "IsStorageAccount a \<longleftrightarrow> ap_StorageProfile a = StorageAccount"

definition IsEphemeral :: "agent_pool_profile \<Rightarrow> bool" where
  "IsEphemeral a \<longleftrightarrow> ap_StorageProfile a = Ephemeral"

definition HasDisks :: "agent_pool_profile \<Rightarrow> bool" where
  "HasDisks a \<longleftrightarrow> length (ap_DiskSizesGB a) > 0"

definition AgentPoolProfile_HasAvailabilityZones :: "agent_pool_profile \<Rightarrow> bool" where
  "AgentPoolProfile_HasAvailabilityZones a =
     (case ap_AvailabilityZones a of None \<Rightarrow> False | Some zs \<Rightarrow> length zs > 0)"

definition IsUbuntu1604 :: "agent_pool_profile \<Rightarrow> bool" where
  "IsUbuntu1604 a = (if ap_OSType a \<noteq> Windows
     then ap_Distro a = AKSUbuntu1604 \<or> ap_Distro a = Ubuntu \<or> ap_Distro a = ACC1604 else False)"

definition IsUbuntu1804 :: "agent_pool_profile \<Rightarrow> bool" where
  "IsUbuntu1804 a = (if ap_OSType a \<noteq> Windows
     then ap_Distro a = AKSUbuntu1804 \<or> ap_Distro a = Ubuntu1804 \<or> ap_Distro a = Ubuntu1804Gen2
     else False)"

definition IsUbuntu2004 :: "agent_pool_profile \<Rightarrow> bool" where
  "IsUbuntu2004 a = (if ap_OSType a \<noteq> Windows
     then ap_Distro a = AKSUbuntu2004 \<or> ap_Distro a = Ubuntu2004 else False)"

definition IsUbuntu2204 :: "agent_pool_profile \<Rightarrow> bool" where
  "IsUbuntu2204 a = (if ap_OSType a \<noteq> Windows
     then ap_Distro a = AKSUbuntu2204 \<or> ap_Distro a = Ubuntu2204 else False)"

definition IsUbuntu :: "agent_pool_profile \<Rightarrow> bool" where
  "IsUbuntu a \<longleftrightarrow> IsUbuntu1604 a \<or> IsUbuntu1804 a \<or> IsUbuntu2004 a \<or> IsUbuntu2204 a"

definition IsUbuntuNonVHD :: "agent_pool_profile \<Rightarrow> bool" where
  "IsUbuntuNonVHD a \<longleftrightarrow> IsUbuntu a \<and> \<not> AgentPoolProfile_IsVHDDistro a"

text \<open>
  \<open>RequiresCloudproviderConfig\<close> goes through three kubelet flags: one that is absent, or present
  with a value, decides.
\<close>

fun any_flag_active :: "(string \<times> string) list \<Rightarrow> string list \<Rightarrow> bool" where
  "any_flag_active m [] = False"
| "any_flag_active m (f # fs) =
     (case map_of m f of
        Some v \<Rightarrow> if v \<noteq> '''' then True else any_flag_active m fs
      | None \<Rightarrow> True)"

definition RequiresCloudproviderConfig :: "agent_pool_profile \<Rightarrow> bool" where
  "RequiresCloudproviderConfig a =
     (case ap_KubernetesConfig a of None \<Rightarrow> True
      | Some k \<Rightarrow> (case kc_KubeletConfig k of None \<Rightarrow> True
        | Some m \<Rightarrow> any_flag_active m
            [''--cloud-provider'', ''--cloud-config'', ''--azure-container-registry-config'']))"

subsection \<open>The whole cluster\<close>

text \<open>\<open>range p.AgentPoolProfiles\<close> of a nil slice has no iteration.\<close>

definition pools :: "properties \<Rightarrow> agent_pool_profile list" where
  "pools p = (case p_AgentPoolProfiles p of None \<Rightarrow> [] | Some ps \<Rightarrow> ps)"

definition HasFlatcar :: "properties \<Rightarrow> bool" where
  "HasFlatcar p \<longleftrightarrow> list_ex (\<lambda>a. ap_Distro a = Flatcar) (pools p)"

definition HasWindows :: "properties \<Rightarrow> bool" where
  "HasWindows p \<longleftrightarrow> list_ex (\<lambda>a. ap_OSType a = Windows) (pools p)"

text \<open>
  \<open>HasManagedDisks\<close> and \<open>HasStorageAccountDisks\<close> differ in the profile only. The last test, of
  the private cluster's jumpbox, is reached when no master and no pool has the profile.
\<close>

definition has_storage_profile :: "string \<Rightarrow> properties \<Rightarrow> bool result" where
  "has_storage_profile prof p =
     (if (case p_MasterProfile p of None \<Rightarrow> False | Some m \<Rightarrow> mp_StorageProfile m = prof)
      then Inr True
      else if list_ex (\<lambda>a. ap_StorageProfile a = prof) (pools p) then Inr True
      else (case p_OrchestratorProfile p of None \<Rightarrow> Inr False
        | Some op \<Rightarrow> (case op_KubernetesConfig op of None \<Rightarrow> Inr False
          | Some k \<Rightarrow> bindR (PrivateJumpboxProvision (Some k)) (\<lambda>prov.
              if \<not> prov then Inr False
              else (case kc_PrivateCluster k of None \<Rightarrow> Inr False
                | Some pc \<Rightarrow> bindR (deref (pc_JumpboxProfile pc)) (\<lambda>j.
                    Inr (pj_StorageProfile j = prof)))))))"

definition HasManagedDisks :: "properties \<Rightarrow> bool result" where
  "HasManagedDisks p = has_storage_profile ManagedDisks p"

definition HasStorageAccountDisks :: "properties \<Rightarrow> bool result" where
  "HasStorageAccountDisks p = has_storage_profile StorageAccount p"

definition HasEphemeralDisks :: "properties \<Rightarrow> bool" where
  "HasEphemeralDisks p \<longleftrightarrow> list_ex (\<lambda>a. ap_StorageProfile a = Ephemeral) (pools p)"

definition TotalNodes :: "properties \<Rightarrow> int" where
  "TotalNodes p =
     fold (\<lambda>a n. n + ap_Count a) (pools p)
       (case p_MasterProfile p of None \<Rightarrow> 0 | Some m \<Rightarrow> mp_Count m)"

definition HasVMSSAgentPool :: "properties \<Rightarrow> bool" where
  "HasVMSSAgentPool p \<longleftrightarrow> list_ex (\<lambda>a. ap_AvailabilityProfile a = VirtualMachineScaleSets) (pools p)"

definition K8sOrchestratorName :: "properties \<Rightarrow> string" where
  "K8sOrchestratorName p = DefaultOrchestratorName"

definition GetAgentPoolByName :: "properties \<Rightarrow> string \<Rightarrow> agent_pool_profile option" where
  "GetAgentPoolByName p name = find (\<lambda>a. ap_Name a = name) (pools p)"

definition GetAgentPoolIndexByName :: "properties \<Rightarrow> string \<Rightarrow> int" where
  "GetAgentPoolIndexByName p name = index_where (\<lambda>a. ap_Name a = name) 0 (pools p)"

definition GetVMType :: "properties \<Rightarrow> string" where
  "GetVMType p = (if HasVMSSAgentPool p then VMSSVMType else StandardVMType)"

definition HasVMASAgentPool :: "properties \<Rightarrow> bool" where
  "HasVMASAgentPool p \<longleftrightarrow> list_ex IsAvailabilitySets (pools p)"

definition AnyAgentIsLinux :: "properties \<Rightarrow> bool" where
  "AnyAgentIsLinux p \<longleftrightarrow> list_ex IsLinux (pools p)"

definition AreAgentProfilesCustomVNET :: "properties \<Rightarrow> bool" where
  "AreAgentProfilesCustomVNET p =
     (case p_AgentPoolProfiles p of None \<Rightarrow> False
      | Some ps \<Rightarrow> list_all AgentPoolProfile_IsCustomVNET ps)"

definition HasZonesForAllAgentPools :: "properties \<Rightarrow> bool" where
  "HasZonesForAllAgentPools p =
     (if length (pools p) > 0 then list_all AgentPoolProfile_HasAvailabilityZones (pools p) else False)"

definition IsVHDDistroForAllNodes :: "properties \<Rightarrow> bool" where
  "IsVHDDistroForAllNodes p =
     (if length (pools p) > 0 \<and> \<not> list_all AgentPoolProfile_IsVHDDistro (pools p) then False
      else (case p_MasterProfile p of None \<Rightarrow> True | Some m \<Rightarrow> MasterProfile_IsVHDDistro m))"

definition HasVHDDistroNodes :: "properties \<Rightarrow> bool" where
  "HasVHDDistroNodes p =
     (if length (pools p) > 0 \<and> list_ex AgentPoolProfile_IsVHDDistro (pools p) then True
      else (case p_MasterProfile p of None \<Rightarrow> False | Some m \<Rightarrow> MasterProfile_IsVHDDistro m))"

definition HasAvailabilityZones :: "properties \<Rightarrow> bool" where
  "HasAvailabilityZones p =
     (let hasZones = (case p_MasterProfile p of None \<Rightarrow> False
                      | Some m \<Rightarrow> MasterProfile_HasAvailabilityZones m)
      in if \<not> hasZones \<and> p_AgentPoolProfiles p \<noteq> None
         then list_ex AgentPoolProfile_HasAvailabilityZones (pools p) else hasZones)"

definition HasAgentPoolAvailabilityZones :: "properties \<Rightarrow> bool" where
  "HasAgentPoolAvailabilityZones p \<longleftrightarrow> list_ex (\<lambda>a. ap_AvailabilityZones a \<noteq> None) (pools p)"

definition HasNonRegularPriorityScaleset :: "properties \<Rightarrow> bool" where
  "HasNonRegularPriorityScaleset p \<longleftrightarrow>
     list_ex (\<lambda>a. IsLowPriorityScaleSet a \<or> IsSpotScaleSet a) (pools p)"

definition IsCustomCloudProfile :: "properties \<Rightarrow> bool" where
  "IsCustomCloudProfile p \<longleftrightarrow> p_CustomCloudProfile p \<noteq> None"

definition AzureStackCloud :: string where "AzureStackCloud = ''AzureStackCloud''"

definition IsAzureStackCloud :: "properties \<Rightarrow> bool" where
  "IsAzureStackCloud p =
     (case p_CustomCloudProfile p of None \<Rightarrow> False
      | Some c \<Rightarrow> (case cc_Environment c of None \<Rightarrow> True
        | Some e \<Rightarrow> env_Name e = '''' \<or> equal_fold (env_Name e) AzureStackCloud))"

definition IsAzureCNI :: "orchestrator_profile \<Rightarrow> bool" where
  "IsAzureCNI op =
     (case op_KubernetesConfig op of None \<Rightarrow> False
      | Some k \<Rightarrow> kc_NetworkPlugin k = NetworkPluginAzure)"

definition IsPrivateCluster :: "orchestrator_profile \<Rightarrow> bool" where
  "IsPrivateCluster op =
     (case op_KubernetesConfig op of None \<Rightarrow> False
      | Some k \<Rightarrow> (case kc_PrivateCluster k of None \<Rightarrow> False
        | Some pc \<Rightarrow> to_Bool (pc_Enabled pc)))"

definition GetDNSPrefix :: "properties \<Rightarrow> string" where
  "GetDNSPrefix p =
     (case p_MasterProfile p of None \<Rightarrow> '''' | Some m \<Rightarrow> to_lower (mp_DNSPrefix m))"

text \<open>\<open>RequireRouteTable\<close> reads the Kubernetes configuration without a nil test, after the first
  disjunct has failed.\<close>

definition RequireRouteTable :: "properties \<Rightarrow> bool result" where
  "RequireRouteTable p =
     bindR (deref (p_OrchestratorProfile p)) (\<lambda>op.
       if op_OrchestratorType op = Kubernetes then
         (if IsAzureCNI op \<and> \<not> IsFeatureEnabled (p_FeatureFlags p) ''EnableIPv6DualStack''
          then Inr False
          else bindR (deref (op_KubernetesConfig op)) (\<lambda>k.
            Inr (\<not> (NetworkPolicyCilium = kc_NetworkPolicy k \<or> ''flannel'' = kc_NetworkPlugin k \<or>
                    NetworkPluginAntrea = kc_NetworkPlugin k))))
       else Inr False)"

definition ShouldEnableAzureCloudAddon :: "properties \<Rightarrow> string \<Rightarrow> bool result" where
  "ShouldEnableAzureCloudAddon p addonName =
     bindR (deref (p_OrchestratorProfile p)) (\<lambda>op.
     bindR (deref (op_KubernetesConfig op)) (\<lambda>k.
       if \<not> to_Bool (kc_UseCloudControllerManager k) then Inr False
       else if addonName = ''azuredisk-csi-driver'' \<and> IsAzureStackCloud p then Inr False
       else if \<not> HasWindows p then
         (if addonName = ''azuredisk-csi-driver'' \<or> addonName = ''azurefile-csi-driver''
          then Inr (IsKubernetesVersionGe (op_OrchestratorVersion op) ''1.13.0'')
          else if addonName = ''cloud-node-manager''
          then Inr (IsKubernetesVersionGe (op_OrchestratorVersion op) ''1.16.0'')
          else Inr False)
       else Inr (IsKubernetesVersionGe (op_OrchestratorVersion op) ''1.18.0'')))"

definition GetKubernetesVersion :: "properties \<Rightarrow> string result" where
  "GetKubernetesVersion p =
     bindR (deref (p_OrchestratorProfile p)) (\<lambda>op.
       Inr (if IsAzureStackCloud p \<and> \<not> IsKubernetesVersionGe (op_OrchestratorVersion op) ''1.21.0''
            then op_OrchestratorVersion op @ ''-azs'' else op_OrchestratorVersion op))"

text \<open>The segments of a subnet's resource id, indexed without a bounds check.\<close>

definition segment :: "string \<Rightarrow> nat \<Rightarrow> string result" where
  "segment s i =
     (let parts = split_on (CHR ''/'') s in
      if i < length parts then Inr (parts ! i) else Inl (Panic ''index out of range''))"

definition GetVNetResourceGroupName :: "properties \<Rightarrow> string result" where
  "GetVNetResourceGroupName p =
     (case p_MasterProfile p of None \<Rightarrow> Inr ''''
      | Some m \<Rightarrow> if MasterProfile_IsCustomVNET m
          then segment (mp_VnetSubnetID m) DefaultVnetResourceGroupSegmentIndex else Inr '''')"

definition GetSubnetName :: "properties \<Rightarrow> string result" where
  "GetSubnetName p =
     bindR (deref (p_MasterProfile p)) (\<lambda>m.
       if MasterProfile_IsCustomVNET m
       then segment (mp_VnetSubnetID m) DefaultSubnetNameResourceSegmentIndex
       else if MasterProfile_IsVirtualMachineScaleSets m then Inr ''subnetmaster''
       else Inr (K8sOrchestratorName p @ ''-subnet''))"

subsection \<open>Lookups\<close>

lemma index_where_None: "0 \<le> i \<Longrightarrow> index_where P i xs = - 1 \<longleftrightarrow> find P xs = None"
  by (induction xs arbitrary: i) auto

lemma index_where_Some:
  "find P xs = Some x \<Longrightarrow>
     \<exists>n < length xs. index_where P i xs = i + int n \<and> xs ! n = x \<and> (\<forall>m < n. \<not> P (xs ! m))"
proof (induction xs arbitrary: i)
  case (Cons y ys)
  show ?case
  proof (cases "P y")
    case True
    then show ?thesis using Cons.prems by (intro exI [of _ 0]) simp
  next
    case False
    then obtain n where n: "n < length ys" "index_where P (i + 1) ys = i + 1 + int n" "ys ! n = x"
        "\<forall>m < n. \<not> P (ys ! m)"
      using Cons.prems Cons.IH [of "i + 1"] by auto
    then show ?thesis
      using False by (intro exI [of _ "Suc n"]) (auto simp: less_Suc_eq_0_disj)
  qed
qed simp

text \<open>The pool of a name and its index agree.\<close>

lemma pool_index:
  "(GetAgentPoolIndexByName p name = - 1) = (GetAgentPoolByName p name = None)"
  "GetAgentPoolByName p name = Some a \<Longrightarrow>
     \<exists>n < length (pools p). GetAgentPoolIndexByName p name = int n \<and> pools p ! n = a"
  unfolding GetAgentPoolIndexByName_def GetAgentPoolByName_def
  using index_where_None [of 0] index_where_Some [of _ "pools p" a 0] by fastforce+

lemma TotalNodes_sum:
  "TotalNodes p = (case p_MasterProfile p of None \<Rightarrow> 0 | Some m \<Rightarrow> mp_Count m) +
     sum_list (map ap_Count (pools p))"
proof -
  have "fold (\<lambda>a n. n + ap_Count a) ps c = c + sum_list (map ap_Count ps)" for ps c
    by (induction ps arbitrary: c) auto
  then show ?thesis by (simp add: TotalNodes_def)
qed

subsection \<open>Sorted map traversals\<close>

definition bytes :: "string \<Rightarrow> nat list" where
  "bytes s = map of_char s"

lemma string_le_iff: "string_le s t \<longleftrightarrow> bytes s \<le> bytes t"
  by (induction s t rule: string_le.induct) (auto simp: bytes_def)

lemma bytes_inj: "bytes s = bytes t \<longleftrightarrow> s = t"
  unfolding bytes_def by (rule inj_map_eq_map) (auto intro: injI)

interpretation str: comparison "\<lambda>s t. cmp3 (bytes s) (bytes t)"
  by (rule linear.pullback)

lemma sort_Strings_alt: "sort_Strings ks = sort_by (\<lambda>s t. cmp3 (bytes s) (bytes t) \<le> 0) ks"
  unfolding sort_Strings_def by (intro sort_by_cong) (simp add: string_le_iff)

lemma sort_Strings_perm: "mset ks = mset ks' \<Longrightarrow> sort_Strings ks = sort_Strings ks'"
  unfolding sort_Strings_alt
proof (rule str.sorted_perm_unique)
  show "sorted_wrt (\<lambda>x y. cmp3 (bytes x) (bytes y) \<le> 0)
      (sort_by (\<lambda>s t. cmp3 (bytes s) (bytes t) \<le> 0) l)" for l
    by (rule str.sorted_sort_by)
  then show "sorted_wrt (\<lambda>x y. cmp3 (bytes x) (bytes y) \<le> 0)
      (sort_by (\<lambda>s t. cmp3 (bytes s) (bytes t) \<le> 0) l)" for l .
qed (simp_all add: bytes_inj)

lemma map_get_update: "map_get (AList.update k v m) k' = (if k' = k then v else map_get m k')"
  by (simp add: map_get_def update_conv')

lemma map_get_perm:
  assumes "mset m = mset m'" and "distinct (map fst m)"
  shows "map_get m k = map_get m' k"
proof -
  have "distinct (map fst m')" using assms by (metis mset_eq_imp_distinct_iff mset_map)
  moreover have "set m = set m'" using assms(1) by (metis set_mset_mset)
  ultimately have "map_of m k = map_of m' k"
    using assms(2) by (metis map_of_inject_set)
  then show ?thesis by (simp add: map_get_def)
qed

subsection \<open>Properties\<close>

text \<open>
  The kubelet flag strings that go into the node templates do not depend on the order in
  which the flag map is ranged over, in the shell form and in the PowerShell form.\<close>

theorem kubelet_string_order:
  assumes "mset m = mset m'" and "distinct (map fst m)"
  shows "GetOrderedKubeletConfigString (k\<lparr>kc_KubeletConfig := Some m\<rparr>) =
      GetOrderedKubeletConfigString (k\<lparr>kc_KubeletConfig := Some m'\<rparr>) \<and>
    GetOrderedKubeletConfigStringForPowershell (k\<lparr>kc_KubeletConfig := Some m\<rparr>) =
      GetOrderedKubeletConfigStringForPowershell (k\<lparr>kc_KubeletConfig := Some m'\<rparr>)"
proof -
  have "sort_Strings (map fst m) = sort_Strings (map fst m')"
    using assms(1) by (intro sort_Strings_perm) simp
  then have "kubelet_keys (k\<lparr>kc_KubeletConfig := Some m\<rparr>) = kubelet_keys (k\<lparr>kc_KubeletConfig := Some m'\<rparr>)"
    by (simp add: kubelet_keys_def)
  moreover have "kubelet_value (k\<lparr>kc_KubeletConfig := Some m\<rparr>) = kubelet_value (k\<lparr>kc_KubeletConfig := Some m'\<rparr>)"
    by (rule ext) (simp add: kubelet_value_def map_get_perm [OF assms])
  ultimately show ?thesis
    by (simp add: GetOrderedKubeletConfigString_def GetOrderedKubeletConfigStringForPowershell_def)
qed

theorem kubelet_string_order_witness:
  "GetOrderedKubeletConfigString
     (zero_kubernetes_config\<lparr>kc_KubeletConfig := Some [(''--v'', ''2''), (''--a'', ''1'')]\<rparr>) =
   GetOrderedKubeletConfigString
     (zero_kubernetes_config\<lparr>kc_KubeletConfig := Some [(''--a'', ''1''), (''--v'', ''2'')]\<rparr>)"
  using kubelet_string_order [of "[(''--v'', ''2''), (''--a'', ''1'')]"
      "[(''--a'', ''1''), (''--v'', ''2'')]" zero_kubernetes_config]
  by simp

lemma deref_Inl: "deref x = Inl e \<longleftrightarrow> x = None \<and> e = Panic ''nil pointer dereference''"
  by (cases x) auto

text \<open>
  Testing the cluster for a storage profile panics exactly if no master and no pool has the
  profile and the private cluster's \<open>Enabled\<close> pointer is nil; otherwise it says whether a master,
  a pool or the enabled private cluster's jumpbox has the profile.\<close>

theorem storage_profile_panics:
  "(\<exists>e. has_storage_profile prof p = Inl e) \<longleftrightarrow>
     (\<forall>m. p_MasterProfile p = Some m \<longrightarrow> mp_StorageProfile m \<noteq> prof) \<and>
     (\<forall>a \<in> set (pools p). ap_StorageProfile a \<noteq> prof) \<and>
     (\<exists>op k pc. p_OrchestratorProfile p = Some op \<and> op_KubernetesConfig op = Some k \<and>
        kc_PrivateCluster k = Some pc \<and> pc_Enabled pc = None)"
  by (auto simp: has_storage_profile_def PrivateJumpboxProvision_def deref_Inl bindR_Inl_iff
      bindR_Inr_iff list_ex_iff split: option.splits if_splits)

theorem storage_profile_panics_witness:
  "\<exists>e. has_storage_profile ManagedDisks
     (zero_properties\<lparr>p_OrchestratorProfile := Some (zero_orchestrator_profile\<lparr>op_KubernetesConfig :=
        Some (zero_kubernetes_config\<lparr>kc_PrivateCluster := Some zero_private_cluster\<rparr>)\<rparr>)\<rparr>) = Inl e"
  unfolding storage_profile_panics
  by (simp add: pools_def zero_properties_def zero_private_cluster_def zero_orchestrator_profile_def)

end
