(* ===== verification/K8sVersionTables.thy ===== *)
theory K8sVersionTables
  imports K8sVersions
begin

section \<open>Facts about the version tables\<close>

text \<open>
  What the tables of versions.go contain, evaluated once: every key is a version without build
  metadata, and the versions that clusters may be created with. The properties of the version
  functions follow without evaluating the tables again.
\<close>

lemma delete_update_comm:
  "k \<noteq> k' \<Longrightarrow> AList.update k v (AList.delete k' al) = AList.delete k' (AList.update k v al)"
  by (induction al) auto

lemma update_fold_delete:
  "k \<notin> set ks \<Longrightarrow> AList.update k v (fold AList.delete ks al) = fold AList.delete ks (AList.update k v al)"
  by (induction ks arbitrary: al) (auto simp: delete_update_comm)

lemma filter_fold_delete:
  "filter P (fold AList.delete ks al) = fold AList.delete ks (filter P al)"
  by (induction ks arbitrary: al) (auto simp: AList.delete_eq conj_commute)

lemma keys_fold_delete: "fst ` set (fold AList.delete ks al) \<subseteq> fst ` set al"
proof (induction ks arbitrary: al)
  case (Cons k ks)
  then show ?case by (fastforce simp: AList.delete_eq)
qed simp

lemma keys_plain_public: "list_all plain_version (map fst AllKubernetesSupportedVersions)"
  by (simp add: AllKubernetesSupportedVersions_def semver_eval)

lemma keys_plain_azure_stack:
  "list_all plain_version (map fst AllKubernetesSupportedVersionsAzureStack)"
  "list_all plain_version (map fst AllKubernetesWindowsSupportedVersionsAzureStack)"
  by (simp_all add: AllKubernetesSupportedVersionsAzureStack_def
      AllKubernetesWindowsSupportedVersionsAzureStack_def semver_eval)

lemma keys_windows:
  "fst ` set AllKubernetesWindowsSupportedVersions \<subseteq>
     {''1.8.12''} \<union> fst ` set AllKubernetesSupportedVersions"
  unfolding AllKubernetesWindowsSupportedVersions_def dom_update
  by (rule Un_mono [OF subset_refl keys_fold_delete])

lemma keys_plain_windows: "list_all plain_version (map fst AllKubernetesWindowsSupportedVersions)"
proof -
  have "plain_version ''1.8.12''" by (simp add: semver_eval)
  then have "\<forall>v \<in> {''1.8.12''} \<union> fst ` set AllKubernetesSupportedVersions. plain_version v"
    using keys_plain_public unfolding list_all_iff set_map by blast
  then show ?thesis
    unfolding list_all_iff set_map using subsetD [OF keys_windows] by blast
qed

lemma supported_table_plain: "v \<in> fst ` set (supported_table w a) \<Longrightarrow> plain_version v"
  using keys_plain_public keys_plain_azure_stack keys_plain_windows
  by (auto simp: supported_table_def Let_def list_all_iff split: if_splits)

lemma creatable_public:
  "filter snd AllKubernetesSupportedVersions = [(''1.28.15'', True), (''1.29.10'', True)]"
  by (simp add: AllKubernetesSupportedVersions_def)

lemma creatable_azure_stack:
  "filter snd AllKubernetesSupportedVersionsAzureStack = [(''1.28.15'', True), (''1.29.10'', True)]"
  "filter snd AllKubernetesWindowsSupportedVersionsAzureStack = [(''1.28.15'', True), (''1.29.10'', True)]"
  by (simp_all add: AllKubernetesSupportedVersionsAzureStack_def
      AllKubernetesWindowsSupportedVersionsAzureStack_def)

lemma creatable_windows:
  "filter snd AllKubernetesWindowsSupportedVersions =
     [(''1.8.12'', True), (''1.28.15'', True), (''1.29.10'', True)]"
proof -
  have "filter snd (AList.update ''1.8.12'' True AllKubernetesSupportedVersions) =
      [(''1.8.12'', True), (''1.28.15'', True), (''1.29.10'', True)]"
    by (simp add: AllKubernetesSupportedVersions_def)
  moreover have "''1.8.12'' \<notin> set windows_unsupported"
    by (simp add: windows_unsupported_def)
  ultimately show ?thesis
    by (simp add: AllKubernetesWindowsSupportedVersions_def update_fold_delete filter_fold_delete)
      (simp add: windows_unsupported_def)
qed

lemma supported_versions_create:
  "supported_versions_of tbl False =
     sort_by (\<lambda>vi vj. IsKubernetesVersionGe vj vi) (map fst (filter snd tbl))"
proof -
  have "(\<lambda>(ver, supported). False \<or> supported) = (snd :: string \<times> bool \<Rightarrow> bool)" by auto
  then show ?thesis unfolding supported_versions_of_def by (simp only:)
qed

lemma GetAllSupportedKubernetesVersions_create:
  "GetAllSupportedKubernetesVersions False w a =
     (if w \<and> \<not> a then [''1.8.12'', ''1.28.15'', ''1.29.10''] else [''1.28.15'', ''1.29.10''])"
  by (cases w; cases a)
    (simp_all add: GetAllSupportedKubernetesVersions_def supported_table_def
      supported_versions_create creatable_public creatable_azure_stack creatable_windows
      IsKubernetesVersionGe_def compare_eval)

lemma GetDefaultKubernetesVersion_eval: "GetDefaultKubernetesVersion w a = ''1.28.15''"
  by (cases w; cases a)
    (simp_all add: GetDefaultKubernetesVersion_def GetAllSupportedKubernetesVersions_create
      KubernetesDefaultRelease_def KubernetesDefaultReleaseWindows_def
      KubernetesDefaultReleaseAzureStack_def KubernetesDefaultReleaseWindowsAzureStack_def
      GetLatestPatchVersion_def major_minor_def utoa_eval semver_eval)

end
