(* ===== verification/K8sVersionFacts.thy ===== *)
theory K8sVersionFacts
  imports K8sVersionTables
begin

section \<open>Supported, default and rationalized versions\<close>

text \<open>
  What callers of versions.go rely on: the supported list of a cloud does not depend on map
  iteration, the default version can be created, and \<open>RationalizeReleaseAndVersion\<close>
  returns a supported version that matches what the user asked for, or nothing.
\<close>

subsection \<open>Derived facts\<close>

lemma set_GetAllSupportedKubernetesVersions:
  "v \<in> set (GetAllSupportedKubernetesVersions u w a) \<longleftrightarrow>
     (\<exists>b. (v, b) \<in> set (supported_table w a) \<and> (u \<or> b))"
  by (simp add: GetAllSupportedKubernetesVersions_def set_supported_versions_of)

lemma GetAllSupportedKubernetesVersions_plain:
  "v \<in> set (GetAllSupportedKubernetesVersions u w a) \<Longrightarrow> plain_version v"
  by (force simp: set_GetAllSupportedKubernetesVersions intro: supported_table_plain)

lemma creatable_updatable:
  "v \<in> set (GetAllSupportedKubernetesVersions False w a) \<Longrightarrow>
     v \<in> set (GetAllSupportedKubernetesVersions u w a)"
  by (auto simp: set_GetAllSupportedKubernetesVersions)

lemma default_supported:
  "GetDefaultKubernetesVersion w a \<in> set (GetAllSupportedKubernetesVersions u w a)"
  by (rule creatable_updatable)
    (simp add: GetDefaultKubernetesVersion_eval GetAllSupportedKubernetesVersions_create)

lemma GetSupportedVersions_Kubernetes:
  "GetSupportedVersions Kubernetes u w a =
     (Some (GetAllSupportedKubernetesVersions u w a), GetDefaultKubernetesVersion w a)"
proof -
  have "GetAllSupportedKubernetesVersions u w a \<noteq> []"
    using default_supported [of w a u] by auto
  then show ?thesis by (simp add: GetSupportedVersions_def)
qed

lemma find_version_SomeD:
  assumes "find_version p vs \<noteq> []"
  shows "find_version p vs \<in> set vs \<and> p (find_version p vs)"
proof (cases "find p vs")
  case (Some x)
  then have "x \<in> set vs \<and> p x" by (auto simp: find_Some_iff)
  then show ?thesis by (simp add: find_version_def Some)
qed (use assms in \<open>simp add: find_version_def\<close>)

lemma find_version_eq:
  assumes "v \<in> set vs" and "p v" and "\<And>x. p x \<Longrightarrow> x = v"
  shows "find_version p vs = v"
proof (cases "find p vs")
  case None
  then show ?thesis using assms(1,2) by (simp add: find_None_iff)
next
  case (Some x)
  then have "p x" by (auto simp: find_Some_iff)
  then show ?thesis using Some assms(3) by (simp add: find_version_def)
qed

lemma plain_version_no_v: "plain_version s \<Longrightarrow> trim_prefix s ''v'' = s"
proof -
  assume "plain_version s"
  then have "s = version_string (semver_make s)"
    using plain_version_make semver_parse_InrD by blast
  then obtain c cs where s: "s = c # cs" and c: "c \<in> set (utoa (Major (semver_make s)))"
    by (cases s; cases "utoa (Major (semver_make s))") (auto simp: version_string_def)
  have "c \<noteq> CHR ''v''" using set_utoa_digits [OF c] by (auto simp: is_digit_def)
  then show ?thesis using s by (simp add: trim_prefix_def has_prefix_def)
qed

lemma major_minor_nonempty [simp]: "major_minor sv \<noteq> ''''"
  by (simp add: major_minor_def)

lemma trim_v_major_minor: "trim_prefix (major_minor sv) ''v'' = major_minor sv"
proof -
  obtain c cs where u: "utoa (Major sv) = c # cs" by (cases "utoa (Major sv)") auto
  then have "is_digit c" using set_utoa_digits [of c "Major sv"] by simp
  then have "c \<noteq> CHR ''v''" by (auto simp: is_digit_def)
  then show ?thesis using u by (simp add: major_minor_def trim_prefix_def has_prefix_def)
qed

definition is_kubernetes :: "string \<Rightarrow> bool" where
  "is_kubernetes t \<longleftrightarrow> t = '''' \<or> t = Kubernetes"

lemma Kubernetes_nonempty [simp]: "Kubernetes \<noteq> ''''"
  by (simp add: Kubernetes_def)

text \<open>
  \<open>RationalizeReleaseAndVersion\<close> as one equation over the supported versions, with the type
  test and the \<open>v\<close> prefixes out of the way.
\<close>

lemma Rationalize_unfold:
  "RationalizeReleaseAndVersion t r v u w a =
     (let vs = GetAllSupportedKubernetesVersions u w a;
          ver = trim_prefix v ''v''; rel = trim_prefix r ''v'' in
      if \<not> is_kubernetes t then ''''
      else if rel = '''' \<and> ver = '''' then GetDefaultKubernetesVersion w a
      else if ver = '''' then GetLatestPatchVersion rel vs
      else if rel = '''' then find_version (\<lambda>x. x = ver) vs
      else find_version (\<lambda>x. major_minor (semver_make x) = rel \<and> x = ver) vs)"
proof (cases "is_kubernetes t")
  case True
  then have "(if t = '''' then Kubernetes else t) = Kubernetes" by (auto simp: is_kubernetes_def)
  then show ?thesis
    using True by (simp add: RationalizeReleaseAndVersion_def GetSupportedVersions_Kubernetes Let_def)
next
  case False
  then have "GetSupportedVersions (if t = '''' then Kubernetes else t) u w a = (None, '''')"
    by (auto simp: is_kubernetes_def GetSupportedVersions_def)
  then show ?thesis using False by (simp add: RationalizeReleaseAndVersion_def Let_def)
qed

lemma IsSupportedKubernetesVersion_iff:
  "IsSupportedKubernetesVersion v u w a \<longleftrightarrow> v \<in> set (GetAllSupportedKubernetesVersions u w a)"
  by (auto simp: IsSupportedKubernetesVersion_def list_ex_iff)

lemma Rationalize_sound:
  assumes "RationalizeReleaseAndVersion t r v u w a = x" and "x \<noteq> ''''"
  shows "IsSupportedKubernetesVersion x u w a"
    and "trim_prefix v ''v'' \<noteq> '''' \<Longrightarrow> x = trim_prefix v ''v''"
    and "trim_prefix r ''v'' \<noteq> '''' \<Longrightarrow> major_minor (semver_make x) = trim_prefix r ''v''"
proof -
  let ?vs = "GetAllSupportedKubernetesVersions u w a"
  have plain: "\<forall>y \<in> set ?vs. plain_version y" using GetAllSupportedKubernetesVersions_plain by blast
  note facts = default_supported [of w a u] GetLatestPatchVersion_member [OF plain]
    find_version_SomeD [where vs = ?vs]
  show "IsSupportedKubernetesVersion x u w a"
    using assms facts unfolding Rationalize_unfold IsSupportedKubernetesVersion_iff
    by (auto simp: Let_def split: if_splits)
  show "x = trim_prefix v ''v''" if "trim_prefix v ''v'' \<noteq> ''''"
    using assms that facts unfolding Rationalize_unfold by (auto simp: Let_def split: if_splits)
  show "major_minor (semver_make x) = trim_prefix r ''v''" if "trim_prefix r ''v'' \<noteq> ''''"
    using assms that facts unfolding Rationalize_unfold by (auto simp: Let_def split: if_splits)
qed

lemma Rationalize_complete:
  assumes "is_kubernetes t" and "IsSupportedKubernetesVersion ver u w a"
  shows "RationalizeReleaseAndVersion t '''' ver u w a = ver"
    and "RationalizeReleaseAndVersion t (major_minor (semver_make ver)) ver u w a = ver"
    and "RationalizeReleaseAndVersion t (major_minor (semver_make ver)) '''' u w a \<noteq> ''''"
    and "IsKubernetesVersionGe
           (RationalizeReleaseAndVersion t (major_minor (semver_make ver)) '''' u w a) ver"
proof -
  let ?vs = "GetAllSupportedKubernetesVersions u w a"
  have ver: "ver \<in> set ?vs" using assms(2) by (simp add: IsSupportedKubernetesVersion_iff)
  then have plain: "plain_version ver" by (rule GetAllSupportedKubernetesVersions_plain)
  have all: "\<forall>y \<in> set ?vs. plain_version y" using GetAllSupportedKubernetesVersions_plain by blast
  have trims: "trim_prefix ver ''v'' = ver" "ver \<noteq> ''''"
      "trim_prefix (major_minor (semver_make ver)) ''v'' = major_minor (semver_make ver)"
      "trim_prefix '''' ''v'' = ''''"
    using plain_version_no_v [OF plain] plain_version_nonempty [OF plain] trim_v_major_minor
    by (auto simp: trim_prefix_def has_prefix_def)
  show "RationalizeReleaseAndVersion t '''' ver u w a = ver"
    using assms(1) ver trims unfolding Rationalize_unfold Let_def by (simp add: find_version_eq)
  show "RationalizeReleaseAndVersion t (major_minor (semver_make ver)) ver u w a = ver"
    using assms(1) ver trims unfolding Rationalize_unfold Let_def by (simp add: find_version_eq)
  show "RationalizeReleaseAndVersion t (major_minor (semver_make ver)) '''' u w a \<noteq> ''''"
    "IsKubernetesVersionGe
       (RationalizeReleaseAndVersion t (major_minor (semver_make ver)) '''' u w a) ver"
    using assms(1) trims GetLatestPatchVersion_greatest [OF all ver]
    unfolding Rationalize_unfold Let_def by simp_all
qed

subsection \<open>Properties\<close>

text \<open>
  Semver parsing and printing are inverse to each other: a string parses to a version
  exactly if the version is well formed and the string is its printed form, so parsing loses
  nothing and two strings never denote the same version.\<close>

theorem semver_parse_print_inverse:
  "semver_parse s = Inr v \<longleftrightarrow> wf_version v \<and> s = version_string v"
  by (rule semver_parse_iff)


text \<open>
  The list of supported versions does not depend on the order in which the map is
  ranged over, and it is sorted by semantic version.\<close>

theorem supported_iteration_order:
  assumes "mset tbl = mset (supported_table w a)"
  shows "supported_versions_of tbl u = GetAllSupportedKubernetesVersions u w a \<and>
    sorted_wrt (\<lambda>x y. IsKubernetesVersionGe y x) (supported_versions_of tbl u)"
proof
  have "set tbl = set (supported_table w a)" using assms by (metis set_mset_mset)
  then have "\<forall>v \<in> fst ` set tbl. plain_version v" using supported_table_plain by metis
  then show "supported_versions_of tbl u = GetAllSupportedKubernetesVersions u w a"
    unfolding GetAllSupportedKubernetesVersions_def using assms by (intro supported_versions_of_perm)
  show "sorted_wrt (\<lambda>x y. IsKubernetesVersionGe y x) (supported_versions_of tbl u)"
    using sorted_supported_versions_of by (simp add: IsKubernetesVersionGe_iff)
qed

theorem supported_iteration_order_witness:
  "supported_versions_of (rev (supported_table False True)) False = [''1.28.15'', ''1.29.10'']"
  using supported_iteration_order [of "rev (supported_table False True)" False True False]
  by (simp add: GetAllSupportedKubernetesVersions_create)

text \<open>
  C14: a version that \<open>RationalizeReleaseAndVersion\<close> returns is supported on the cloud it
  was asked for, is the version the user gave (without its \<open>v\<close>) and belongs to the release
  the user gave.\<close>

theorem rationalize_sound:
  assumes "RationalizeReleaseAndVersion t r v u w a = x" and "x \<noteq> ''''"
  shows "IsSupportedKubernetesVersion x u w a \<and>
    (trim_prefix v ''v'' \<noteq> '''' \<longrightarrow> x = trim_prefix v ''v'') \<and>
    (trim_prefix r ''v'' \<noteq> '''' \<longrightarrow> major_minor (semver_make x) = trim_prefix r ''v'')"
  using Rationalize_sound [OF assms] by blast

theorem rationalize_sound_witness:
  "IsSupportedKubernetesVersion ''1.29.10'' False False False \<and>
     major_minor (semver_make ''1.29.10'') = ''1.29''"
proof -
  have "RationalizeReleaseAndVersion '''' ''v1.29'' '''' False False False = ''1.29.10''"
    by (simp add: Rationalize_unfold is_kubernetes_def trim_prefix_def has_prefix_def
        GetAllSupportedKubernetesVersions_create GetLatestPatchVersion_def major_minor_def
        utoa_eval semver_eval)
  from rationalize_sound [OF this] show ?thesis
    by (simp add: trim_prefix_def has_prefix_def)
qed

text \<open>
  Every supported version can be asked for: by itself or together with its release it
  rationalizes to itself, and its release alone rationalizes to a patch that is at least as new.\<close>

theorem rationalize_complete:
  assumes "is_kubernetes t" and "IsSupportedKubernetesVersion ver u w a"
  shows "RationalizeReleaseAndVersion t '''' ver u w a = ver \<and>
    RationalizeReleaseAndVersion t (major_minor (semver_make ver)) ver u w a = ver \<and>
    RationalizeReleaseAndVersion t (major_minor (semver_make ver)) '''' u w a \<noteq> '''' \<and>
    IsKubernetesVersionGe
      (RationalizeReleaseAndVersion t (major_minor (semver_make ver)) '''' u w a) ver"
  using Rationalize_complete [OF assms] by blast

theorem rationalize_complete_witness:
  "RationalizeReleaseAndVersion Kubernetes '''' ''1.28.15'' False True True = ''1.28.15''"
  using rationalize_complete [of Kubernetes "''1.28.15''" False True True]
  by (simp add: is_kubernetes_def IsSupportedKubernetesVersion_iff
      GetAllSupportedKubernetesVersions_create)

text \<open>
  On every cloud and with or without Windows pools the default version is 1.28.15, and
  it is one that clusters may be created with.\<close>

theorem default_version_creatable:
  "GetDefaultKubernetesVersion w a = ''1.28.15'' \<and>
     IsSupportedKubernetesVersion (GetDefaultKubernetesVersion w a) False w a"
  by (simp add: GetDefaultKubernetesVersion_eval IsSupportedKubernetesVersion_iff
      GetAllSupportedKubernetesVersions_create)

lemma lookup_bool_creatable:
  "lookup_bool tbl v \<Longrightarrow> v \<in> fst ` set (filter snd tbl)"
  by (force simp: lookup_bool_def split: option.splits dest: map_of_SomeD)

text \<open>
  Outside Azure Stack or without Windows pools, \<open>GetSupportedKubernetesVersion\<close> always
  returns a creatable version. For Windows pools on Azure Stack it does not: it looks the version
  up in the public-cloud Windows table too, and returns 1.8.12, which Azure Stack does not
  support.\<close>

theorem get_supported_version_result:
  "(\<not> w \<or> \<not> a \<longrightarrow> IsSupportedKubernetesVersion (GetSupportedKubernetesVersion v w a) False w a) \<and>
   GetSupportedKubernetesVersion ''1.8.12'' True True = ''1.8.12'' \<and>
   \<not> IsSupportedKubernetesVersion ''1.8.12'' u True True"
proof (intro conjI impI)
  note lk = lookup_bool_creatable [of AllKubernetesSupportedVersions v, unfolded creatable_public]
    lookup_bool_creatable [of AllKubernetesWindowsSupportedVersions v, unfolded creatable_windows]
    lookup_bool_creatable [of AllKubernetesSupportedVersionsAzureStack v, unfolded creatable_azure_stack]
  show "IsSupportedKubernetesVersion (GetSupportedKubernetesVersion v w a) False w a"
    if "\<not> w \<or> \<not> a"
    using that lk
    by (auto simp: GetSupportedKubernetesVersion_def GetDefaultKubernetesVersion_eval Let_def
        IsSupportedKubernetesVersion_iff GetAllSupportedKubernetesVersions_create)
  have "lookup_bool AllKubernetesWindowsSupportedVersions ''1.8.12''"
    by (simp add: lookup_bool_def AllKubernetesWindowsSupportedVersions_def update_conv)
  then show "GetSupportedKubernetesVersion ''1.8.12'' True True = ''1.8.12''"
    by (simp add: GetSupportedKubernetesVersion_def)
  show "\<not> IsSupportedKubernetesVersion ''1.8.12'' u True True"
    by (cases u)
      (auto simp: IsSupportedKubernetesVersion_iff set_GetAllSupportedKubernetesVersions
        supported_table_def AllKubernetesWindowsSupportedVersionsAzureStack_def)
qed

theorem get_supported_version_result_witness:
  "IsSupportedKubernetesVersion (GetSupportedKubernetesVersion ''1.29.10'' False True) False False True"
  using get_supported_version_result [of False True "''1.29.10''" False] by simp

end
