(* ===== verification/Orchestrators.thy ===== *)
theory Orchestrators
  imports ClusterModel K8sVersionFacts
begin

section \<open>Orchestrator versions and upgrade paths (pkg/api/orchestrators.go)\<close>

text \<open>
  Which Kubernetes versions a cluster can be asked for and which ones it can be upgraded to. The
  package variables \<open>funcmap\<close>, \<open>versionsMap\<close> and \<open>versionsMapAzureStack\<close> are set once by \<open>init\<close>:
  they have the single key \<open>Kubernetes\<close>. Minor versions are uint64, so their increments wrap.
\<close>

record orchestrator_version_profile =
  ovp_OrchestratorProfile :: orchestrator_profile
  ovp_Default :: bool
  ovp_Upgrades :: "orchestrator_profile list"

definition versionsMap :: "string \<Rightarrow> string list" where
  "versionsMap t = (if t = Kubernetes then GetAllSupportedKubernetesVersions True False False else [])"

definition versionsMapAzureStack :: "string \<Rightarrow> string list" where
  "versionsMapAzureStack t =
     (if t = Kubernetes then GetAllSupportedKubernetesVersions True False True else [])"

definition validate :: "string \<Rightarrow> string \<Rightarrow> string result" where
  "validate orchestrator version =
     (if equal_fold orchestrator Kubernetes then Inr Kubernetes
      else if orchestrator = '''' then
        (if version \<noteq> '''' then Inl (Err (''Must specify orchestrator for version '' @ version))
         else Inr '''')
      else Inl (Err (''Unsupported orchestrator '' @ orchestrator)))"

definition isVersionSupported :: "orchestrator_profile \<Rightarrow> bool \<Rightarrow> bool" where
  "isVersionSupported csOrch isAzureStackCloud =
     (let versions = versionsMap (op_OrchestratorType csOrch);
          versions = (if isAzureStackCloud
                      then versionsMapAzureStack (op_OrchestratorType csOrch) else versions)
      in list_ex (\<lambda>version. version = op_OrchestratorVersion csOrch) versions)"

definition skip_bound :: "nat \<Rightarrow> nat \<Rightarrow> string" where
  "skip_bound major minor = utoa major @ ''.'' @ utoa minor @ ''.0-alpha.0''"

definition uint64 :: "nat \<Rightarrow> nat" where
  "uint64 n = n mod 2 ^ 64"

definition getKubernetesAvailableUpgradeVersions :: "string \<Rightarrow> string list \<Rightarrow> string list result" where
  "getKubernetesAvailableUpgradeVersions orchestratorVersion supportedVersions =
     (case semver_parse orchestratorVersion of
        Inl _ \<Rightarrow> Inl (Err orchestratorVersion)
      | Inr currentVer \<Rightarrow>
          (let versionsGT = GetVersionsGt supportedVersions orchestratorVersion False True in
           if versionsGT \<noteq> [] then
             bindR (GetMinVersion versionsGT True) (\<lambda>lowest.
               (case semver_parse lowest of
                  Inl _ \<Rightarrow> Inl (Err lowest)
                | Inr lo \<Rightarrow>
                    (let skipUpgradeMinor =
                       (if Major lo \<le> Major currentVer \<and> uint64 (Minor currentVer + 1) < Minor lo
                        then skip_bound (Major lo) (uint64 (Minor lo + 1))
                        else skip_bound (Major currentVer) (uint64 (Minor currentVer + 2)))
                     in Inr (GetVersionsBetween supportedVersions orchestratorVersion
                               skipUpgradeMinor False True))))
           else Inr []))"

definition kubernetesUpgrades ::
    "orchestrator_profile \<Rightarrow> bool \<Rightarrow> bool \<Rightarrow> orchestrator_profile list result" where
  "kubernetesUpgrades csOrch hasWindows isAzureStackCloud =
     bindR (getKubernetesAvailableUpgradeVersions (op_OrchestratorVersion csOrch)
              (GetAllSupportedKubernetesVersions False hasWindows isAzureStackCloud))
       (\<lambda>upgradeVersions. Inr (map (\<lambda>ver. zero_orchestrator_profile
          \<lparr>op_OrchestratorType := Kubernetes, op_OrchestratorVersion := ver\<rparr>) upgradeVersions))"

definition version_info ::
    "string \<Rightarrow> bool \<Rightarrow> bool \<Rightarrow> orchestrator_profile list \<Rightarrow> orchestrator_version_profile" where
  "version_info ver hasWindows isAzureStackCloud upgrades =
     \<lparr>ovp_OrchestratorProfile = zero_orchestrator_profile
        \<lparr>op_OrchestratorType := Kubernetes, op_OrchestratorVersion := ver\<rparr>,
      ovp_Default = (ver = GetDefaultKubernetesVersion hasWindows isAzureStackCloud),
      ovp_Upgrades = upgrades\<rparr>"

definition kubernetesInfo ::
    "orchestrator_profile \<Rightarrow> bool \<Rightarrow> bool \<Rightarrow> orchestrator_version_profile list result" where
  "kubernetesInfo csOrch hasWindows isAzureStackCloud =
     (if op_OrchestratorVersion csOrch = '''' then
        mapR (\<lambda>ver. bindR (kubernetesUpgrades
                   (zero_orchestrator_profile\<lparr>op_OrchestratorVersion := ver\<rparr>) hasWindows isAzureStackCloud)
                (\<lambda>upgrades. Inr (version_info ver hasWindows isAzureStackCloud upgrades)))
          (GetAllSupportedKubernetesVersions False hasWindows isAzureStackCloud)
      else if \<not> isVersionSupported csOrch isAzureStackCloud then
        Inl (Err (''Kubernetes version '' @ op_OrchestratorVersion csOrch @ '' is not supported''))
      else bindR (kubernetesUpgrades csOrch hasWindows isAzureStackCloud)
        (\<lambda>upgrades. Inr [version_info (op_OrchestratorVersion csOrch) hasWindows isAzureStackCloud upgrades]))"

definition GetOrchestratorVersionProfileList ::
    "string \<Rightarrow> string \<Rightarrow> bool \<Rightarrow> string \<Rightarrow> orchestrator_version_profile list result" where
  "GetOrchestratorVersionProfileList orchestrator version windows azureEnv =
     (let isAzureStackCloud = equal_fold azureEnv AzureStackCloud in
      bindR (validate orchestrator version) (\<lambda>orchestrator.
        if length orchestrator = 0
        then kubernetesInfo zero_orchestrator_profile False isAzureStackCloud
        else kubernetesInfo (zero_orchestrator_profile
               \<lparr>op_OrchestratorType := orchestrator, op_OrchestratorVersion := version\<rparr>)
               windows isAzureStackCloud))"

definition GetOrchestratorVersionProfile ::
    "orchestrator_profile \<Rightarrow> bool \<Rightarrow> bool \<Rightarrow> orchestrator_version_profile result" where
  "GetOrchestratorVersionProfile orch hasWindows isAzureStackCloud =
     (if op_OrchestratorVersion orch = '''' then Inl (Err ''Missing Orchestrator Version'')
      else if op_OrchestratorType orch = Kubernetes then
        bindR (kubernetesInfo orch hasWindows isAzureStackCloud) (\<lambda>arr.
          if length arr \<noteq> 1 then Inl (Err ''Ambiguous Orchestrator Versions'')
          else Inr (hd arr))
      else Inl (Err (''Upgrade operation is not supported for '' @ op_OrchestratorType orch)))"

subsection \<open>The least newer version and the bound\<close>

abbreviation newer :: "string \<Rightarrow> string \<Rightarrow> bool" where
  "newer w v \<equiv> \<not> IsKubernetesVersionGe v w"

definition mkey :: "string \<Rightarrow> nat \<times> nat" where
  "mkey s = (Major (semver_make s), Minor (semver_make s))"

lemma mkey_mono: "skey v \<le> skey w \<Longrightarrow> mkey v \<le> mkey w"
  by (auto simp: skey_def mkey_def version_key_def less_eq_prod_def)

lemma skip_bound_make:
  assumes "M < 2 ^ 64" and "m < 2 ^ 64"
  shows "semver_make (skip_bound M m) =
    \<lparr>Major = M, Minor = m, Patch = 0, Pre = [PRStr ''alpha'', PRNum 0], Build = []\<rparr>" (is "_ = ?v")
proof -
  have "wf_version ?v" using assms by (simp add: wf_version_def is_alphanum_eval is_digit_eval)
  moreover have "skip_bound M m = version_string ?v"
    by (simp add: skip_bound_def version_string_def utoa_eval)
  ultimately have "semver_parse (skip_bound M m) = Inr ?v" by (simp add: semver_parse_iff)
  then show ?thesis by (simp add: semver_make_def)
qed

text \<open>A release is below the bound exactly if its minor version is.\<close>

lemma below_skip_bound:
  assumes "M < 2 ^ 64" and "m < 2 ^ 64" and "Pre (semver_make w) = []"
  shows "skey w < skey (skip_bound M m) \<longleftrightarrow> mkey w < (M, m)"
  using assms
  by (auto simp: skey_def version_key_def skip_bound_make mkey_def less_prod_def less_eq_prod_def)

lemma GetMinVersion_least:
  assumes "xs \<noteq> []" and plain: "\<forall>x \<in> set xs. plain_version x"
  shows "\<exists>y \<in> set xs. GetMinVersion xs True = Inr y \<and> (\<forall>x \<in> set xs. skey y \<le> skey x)"
proof -
  let ?vs = "map semver_make xs"
  obtain v rest where s: "semver_sort ?vs = v # rest"
    using assms(1) by (cases "semver_sort ?vs") (auto simp: semver_sort_def)
  then have "v \<in> set ?vs" by (metis list.set_intros(1) semver_sort_def set_sort_by)
  then obtain y where y: "y \<in> set xs" "v = semver_make y" by auto
  then have "y = version_string v" using plain plain_version_make semver_parse_InrD by blast
  moreover have "semver_compare v (semver_make x) \<le> 0" if "x \<in> set xs" for x
    using that svc.sort_by_hd_least [of "semver_make x" ?vs] s by (simp add: semver_sort_def)
  ultimately show ?thesis
    using y s assms(1)
    by (intro bexI [of _ y]) (auto simp: GetMinVersion_def getSortedSemverVersions_def
        skey_def semver_compare_key)
qed

text \<open>
  Which versions are upgrades, when all versions are releases that parse: the newer ones of the
  same major version, up to the next minor version or, if that one is not supported, up to the
  minor version of the oldest newer version.
\<close>

definition is_upgrade :: "string list \<Rightarrow> string \<Rightarrow> string \<Rightarrow> bool" where
  "is_upgrade vs v w \<longleftrightarrow> w \<in> set vs \<and> newer w v \<and>
     fst (mkey w) = fst (mkey v) \<and>
     (snd (mkey w) \<le> snd (mkey v) + 1 \<or> (\<forall>x \<in> set vs. newer x v \<longrightarrow> mkey w \<le> mkey x))"

lemma upgrade_versions_char:
  assumes v: "semver_parse v = Inr cur" and plain: "\<forall>x \<in> set vs. plain_version x"
    and wrap: "Minor cur + 2 < 2 ^ 64" "\<forall>x \<in> set vs. Minor (semver_make x) + 1 < 2 ^ 64"
  shows "\<exists>ups. getKubernetesAvailableUpgradeVersions v vs = Inr ups \<and> set ups \<subseteq> set vs \<and>
    (\<forall>w. Pre (semver_make w) = [] \<longrightarrow> (w \<in> set ups \<longleftrightarrow> is_upgrade vs v w))"
proof -
  let ?gt = "GetVersionsGt vs v False True"
  have gt: "set ?gt = {x \<in> set vs. newer x v}"
    by (auto simp: set_GetVersionsGt IsKubernetesVersionGe_iff not_le)
  have cur: "semver_make v = cur" using v by (simp add: semver_make_def)
  have cur64: "Major cur < 2 ^ 64" using semver_parse_wf [OF v] by (simp add: wf_version_def)
  show ?thesis
  proof (cases "?gt = []")
    case True
    then have "\<not> is_upgrade vs v w" for w using gt by (auto simp: is_upgrade_def)
    then show ?thesis using v True by (simp add: getKubernetesAvailableUpgradeVersions_def)
  next
    case False
    have "\<forall>x \<in> set ?gt. plain_version x" using plain gt by auto
    then obtain y where y: "y \<in> set ?gt" "GetMinVersion ?gt True = Inr y"
        "\<And>x. x \<in> set ?gt \<Longrightarrow> skey y \<le> skey x"
      using GetMinVersion_least [OF False] by blast
    then have yv: "y \<in> set vs" "newer y v" using gt by auto
    define lo where "lo = semver_make y"
    have lo: "semver_parse y = Inr lo" using yv plain plain_version_make by (simp add: lo_def)
    have lo64: "Major lo < 2 ^ 64" "Minor lo + 1 < 2 ^ 64"
      using semver_parse_wf [OF lo] wrap(2) yv by (auto simp: wf_version_def lo_def)
    have mk: "mkey v = (Major cur, Minor cur)" "mkey y = (Major lo, Minor lo)"
      by (simp_all add: mkey_def cur lo_def)
    have order: "mkey v \<le> mkey x \<and> mkey y \<le> mkey x" if "x \<in> set vs" "newer x v" for x
      using that y(3) gt by (auto intro!: mkey_mono simp: IsKubernetesVersionGe_iff)
    define bound where "bound =
      (if Major lo \<le> Major cur \<and> Minor cur + 1 < Minor lo
       then (Major lo, Minor lo + 1) else (Major cur, Minor cur + 2))"
    let ?ups = "GetVersionsBetween vs v (skip_bound (fst bound) (snd bound)) False True"
    have "getKubernetesAvailableUpgradeVersions v vs = Inr ?ups"
      using v False y(2) lo lo64 wrap(1)
      by (auto simp: getKubernetesAvailableUpgradeVersions_def uint64_def bound_def)
    moreover have "w \<in> set ?ups \<longleftrightarrow> is_upgrade vs v w" if w: "Pre (semver_make w) = []" for w
    proof -
      have b64: "fst bound < 2 ^ 64" "snd bound < 2 ^ 64"
        using lo64 cur64 wrap(1) by (auto simp: bound_def)
      have "w \<in> set ?ups \<longleftrightarrow> w \<in> set vs \<and> newer w v \<and> mkey w < bound"
        using below_skip_bound [OF b64 w]
        by (auto simp: set_GetVersionsBetween set_GetVersionsGt set_GetVersionsLt
            IsKubernetesVersionGe_iff not_le)
      also have "\<dots> \<longleftrightarrow> is_upgrade vs v w"
      proof -
        have "mkey w < bound \<longleftrightarrow> fst (mkey w) = fst (mkey v) \<and>
            (snd (mkey w) \<le> snd (mkey v) + 1 \<or> (\<forall>x \<in> set vs. newer x v \<longrightarrow> mkey w \<le> mkey x))"
          if wv: "w \<in> set vs" "newer w v"
        proof -
          have all: "(\<forall>x \<in> set vs. newer x v \<longrightarrow> mkey w \<le> mkey x) \<longleftrightarrow> mkey w \<le> mkey y"
            using yv order order_trans by blast
          show ?thesis
            unfolding all using order [OF wv] order [OF yv] mk
            by (cases "mkey w") (auto simp: bound_def)
        qed
        then show ?thesis unfolding is_upgrade_def by blast
      qed
      finally show ?thesis .
    qed
    moreover have "set ?ups \<subseteq> set vs"
      by (auto simp: set_GetVersionsBetween set_GetVersionsGt)
    ultimately show ?thesis by blast
  qed
qed

subsection \<open>Properties\<close>

text \<open>
  C8: the upgrade versions are exactly the newer supported releases of the same major version
  up to the next minor version, or up to the oldest newer minor version when the next one is not
  supported. Nothing else is offered, and nothing of that is left out.\<close>

theorem upgrade_versions_exact:
  assumes "semver_parse v = Inr cur" and "\<forall>x \<in> set vs. plain_version x"
    and "Minor cur + 2 < 2 ^ 64" and "\<forall>x \<in> set vs. Minor (semver_make x) + 1 < 2 ^ 64"
  shows "\<exists>ups. getKubernetesAvailableUpgradeVersions v vs = Inr ups \<and> set ups \<subseteq> set vs \<and>
    (\<forall>w. Pre (semver_make w) = [] \<longrightarrow> (w \<in> set ups \<longleftrightarrow> is_upgrade vs v w))"
  by (rule upgrade_versions_char [OF assms])

theorem upgrade_versions_exact_witness:
  "\<exists>ups. getKubernetesAvailableUpgradeVersions ''1.8.14'' [''1.8.15'', ''1.9.10'', ''1.10.3''] = Inr ups \<and>
    ''1.9.10'' \<in> set ups \<and> ''1.10.3'' \<notin> set ups"
proof -
  let ?vs = "[''1.8.15'', ''1.9.10'', ''1.10.3'']"
  obtain ups where ups: "getKubernetesAvailableUpgradeVersions ''1.8.14'' ?vs = Inr ups"
      "\<And>w. Pre (semver_make w) = [] \<Longrightarrow> w \<in> set ups \<longleftrightarrow> is_upgrade ?vs ''1.8.14'' w"
    using upgrade_versions_exact [of "''1.8.14''" "\<lparr>Major = 1, Minor = 8, Patch = 14, Pre = [], Build = []\<rparr>" ?vs]
    by (auto simp: compare_eval)
  have "is_upgrade ?vs ''1.8.14'' ''1.9.10''" "\<not> is_upgrade ?vs ''1.8.14'' ''1.10.3''"
    by (simp_all add: is_upgrade_def mkey_def IsKubernetesVersionGe_def compare_eval)
  moreover have "Pre (semver_make ''1.9.10'') = []" "Pre (semver_make ''1.10.3'') = []"
    by (simp_all add: compare_eval)
  ultimately show ?thesis using ups by blast
qed

text \<open>Facts about the versions that clusters can be created with.\<close>

lemma creatable_facts:
  assumes "x \<in> set (GetAllSupportedKubernetesVersions False w a)"
  shows "plain_version x" and "Minor (semver_make x) + 1 < 2 ^ 64" and "Pre (semver_make x) = []"
  using assms by (auto simp: GetAllSupportedKubernetesVersions_create compare_eval split: if_splits)

lemma supported_parses:
  "v \<in> set (GetAllSupportedKubernetesVersions u w a) \<Longrightarrow> semver_parse v = Inr (semver_make v)"
  using GetAllSupportedKubernetesVersions_plain plain_version_make by blast

lemma isVersionSupported_iff:
  "isVersionSupported op a \<longleftrightarrow> op_OrchestratorType op = Kubernetes \<and>
     op_OrchestratorVersion op \<in> set (GetAllSupportedKubernetesVersions True False a)"
  by (auto simp: isVersionSupported_def versionsMap_def versionsMapAzureStack_def list_ex_iff Let_def)

lemma kubernetesUpgrades_ok:
  assumes "semver_parse (op_OrchestratorVersion op) = Inr cur" and "Minor cur + 2 < 2 ^ 64"
  shows "\<exists>ups. kubernetesUpgrades op w a = Inr ups \<and>
    (\<forall>u \<in> set ups. op_OrchestratorType u = Kubernetes \<and>
       is_upgrade (GetAllSupportedKubernetesVersions False w a) (op_OrchestratorVersion op)
         (op_OrchestratorVersion u))"
proof -
  let ?vs = "GetAllSupportedKubernetesVersions False w a"
  obtain ups where ups: "getKubernetesAvailableUpgradeVersions (op_OrchestratorVersion op) ?vs = Inr ups"
      "set ups \<subseteq> set ?vs"
      "\<And>x. Pre (semver_make x) = [] \<Longrightarrow> x \<in> set ups \<longleftrightarrow> is_upgrade ?vs (op_OrchestratorVersion op) x"
    using upgrade_versions_char [OF assms(1), of ?vs] assms(2) creatable_facts by blast
  have "is_upgrade ?vs (op_OrchestratorVersion op) x" if "x \<in> set ups" for x
    using that ups(2,3) creatable_facts(3) by blast
  then show ?thesis by (simp add: kubernetesUpgrades_def ups(1))
qed

text \<open>
  The profile of a supported version is found, carries that version, says whether it is the
  default, and lists only upgrades that clusters of that cloud and OS can be created with; any
  other request is an error and never a panic.\<close>

theorem orchestrator_version_profile_result:
  assumes "Minor (semver_make (op_OrchestratorVersion op)) + 2 < 2 ^ 64"
  shows "if isVersionSupported op a
    then \<exists>r. GetOrchestratorVersionProfile op w a = Inr r \<and>
      op_OrchestratorVersion (ovp_OrchestratorProfile r) = op_OrchestratorVersion op \<and>
      (ovp_Default r \<longleftrightarrow> op_OrchestratorVersion op = ''1.28.15'') \<and>
      (\<forall>u \<in> set (ovp_Upgrades r).
         IsSupportedKubernetesVersion (op_OrchestratorVersion u) False w a \<and>
         is_upgrade (GetAllSupportedKubernetesVersions False w a) (op_OrchestratorVersion op)
           (op_OrchestratorVersion u))
    else \<exists>m. GetOrchestratorVersionProfile op w a = Inl (Err m)"
proof (cases "isVersionSupported op a")
  case True
  then have sup: "op_OrchestratorType op = Kubernetes"
      "op_OrchestratorVersion op \<in> set (GetAllSupportedKubernetesVersions True False a)"
    by (simp_all add: isVersionSupported_iff)
  have ne: "op_OrchestratorVersion op \<noteq> ''''"
    using sup(2) GetAllSupportedKubernetesVersions_plain plain_version_nonempty by blast
  obtain ups where ups: "kubernetesUpgrades op w a = Inr ups"
      "\<forall>u \<in> set ups. is_upgrade (GetAllSupportedKubernetesVersions False w a)
         (op_OrchestratorVersion op) (op_OrchestratorVersion u)"
    using kubernetesUpgrades_ok [OF supported_parses [OF sup(2)] assms] by blast
  then show ?thesis
    using True sup ne
    by (auto simp: GetOrchestratorVersionProfile_def kubernetesInfo_def version_info_def
        GetDefaultKubernetesVersion_eval zero_orchestrator_profile_def
        IsSupportedKubernetesVersion_iff is_upgrade_def)
next
  case False
  then show ?thesis
    by (simp add: GetOrchestratorVersionProfile_def kubernetesInfo_def)
qed

theorem orchestrator_version_profile_result_witness:
  "\<exists>r. GetOrchestratorVersionProfile (zero_orchestrator_profile
       \<lparr>op_OrchestratorType := Kubernetes, op_OrchestratorVersion := ''1.28.15''\<rparr>) False True = Inr r \<and>
     ovp_Default r"
proof -
  let ?op = "zero_orchestrator_profile\<lparr>op_OrchestratorType := Kubernetes, op_OrchestratorVersion := ''1.28.15''\<rparr>"
  have "isVersionSupported ?op True"
    using creatable_updatable [of "''1.28.15''" False True True]
    by (simp add: isVersionSupported_iff GetAllSupportedKubernetesVersions_create)
  then show ?thesis
    using orchestrator_version_profile_result [of ?op True False] by (auto simp: compare_eval)
qed

lemma upgrades_now:
  "getKubernetesAvailableUpgradeVersions ''1.28.15'' (GetAllSupportedKubernetesVersions False w a)
     = Inr [''1.29.10'']"
  "getKubernetesAvailableUpgradeVersions ''1.29.10'' (GetAllSupportedKubernetesVersions False w a)
     = Inr []"
  by (cases w; cases a)
    (simp_all add: GetAllSupportedKubernetesVersions_create getKubernetesAvailableUpgradeVersions_def
      GetVersionsGt_def GetVersionsLt_def GetVersionsBetween_def GetMinVersion_def
      getSortedSemverVersions_def semver_sort_def version_string_def utoa_eval uint64_def
      skip_bound_def compare_eval)

text \<open>
  Today's tables offer one upgrade path: from 1.28.15 to 1.29.10 and no further, on every
  cloud and with or without Windows pools.\<close>

theorem upgrade_path_of_the_default:
  "getKubernetesAvailableUpgradeVersions ''1.28.15'' (GetAllSupportedKubernetesVersions False w a)
     = Inr [''1.29.10''] \<and>
   getKubernetesAvailableUpgradeVersions ''1.29.10'' (GetAllSupportedKubernetesVersions False w a)
     = Inr []"
  by (simp add: upgrades_now)

end
