(* ===== verification/Transform.thy ===== *)
theory Transform
  imports GoBase "HOL-Library.AList"
begin

section \<open>Rewriting ARM templates (pkg/engine/transform/transform.go)\<close>

text \<open>
  Before a scale or upgrade deployment the generated ARM template is stripped of everything that
  must not be deployed again. A template is a JSON object as \<open>encoding/json\<close> decodes it: an object
  is an association list without duplicate keys, and two values that only this code puts into a
  template have constructors of their own, a slice of Go strings (which, unlike an array, fails the
  type assertion to \<open>[]interface{}\<close>) and the pointer to \<open>ManagedDiskParameters\<close> with an id. Maps
  are updated in place by the code and returned by the model; on an error the callers give the
  template up, so the model returns only the error. A failed type assertion without \<open>ok\<close> panics.
\<close>

datatype json =
    JNull
  | JBool bool
  | JNum int
  | JStr string
  | JArr "json list"
  | JObj "(string \<times> json) list"
  | JStrings "string list"
  | JManagedDisk string

type_synonym obj = "(string \<times> json) list"

definition get_str :: "obj \<Rightarrow> string \<Rightarrow> string option" where
  "get_str m k = (case map_of m k of Some (JStr s) \<Rightarrow> Some s | _ \<Rightarrow> None)"

definition get_arr :: "obj \<Rightarrow> string \<Rightarrow> json list option" where
  "get_arr m k = (case map_of m k of Some (JArr xs) \<Rightarrow> Some xs | _ \<Rightarrow> None)"

definition get_obj :: "obj \<Rightarrow> string \<Rightarrow> obj option" where
  "get_obj m k = (case map_of m k of Some (JObj ob) \<Rightarrow> Some ob | _ \<Rightarrow> None)"

definition must :: "'a option \<Rightarrow> 'a result" where
  "must x = (case x of None \<Rightarrow> Inl (Panic ''interface conversion'') | Some y \<Rightarrow> Inr y)"

lemma must_simps [simp]: "must None = Inl (Panic ''interface conversion'')" "must (Some x) = Inr x"
  by (simp_all add: must_def)

lemma must_Inr [result_simps]: "must x = Inr y \<longleftrightarrow> x = Some y"
  by (cases x) auto

subsection \<open>Names\<close>

definition nsgResourceType :: string where "nsgResourceType = ''Microsoft.Network/networkSecurityGroups''"
definition rtResourceType :: string where "rtResourceType = ''Microsoft.Network/routeTables''"
definition vmResourceType :: string where "vmResourceType = ''Microsoft.Compute/virtualMachines''"
definition vmExtensionType :: string where
  "vmExtensionType = ''Microsoft.Compute/virtualMachines/extensions''"
definition nicResourceType :: string where "nicResourceType = ''Microsoft.Network/networkInterfaces''"
definition vnetResourceType :: string where "vnetResourceType = ''Microsoft.Network/virtualNetworks''"
definition vmasResourceType :: string where "vmasResourceType = ''Microsoft.Compute/availabilitySets''"
definition vmssResourceType :: string where
  "vmssResourceType = ''Microsoft.Compute/virtualMachineScaleSets''"
definition lbResourceType :: string where "lbResourceType = ''Microsoft.Network/loadBalancers''"
definition roleResourceType :: string where
  "roleResourceType = ''Microsoft.Authorization/roleAssignments''"
definition keyVaultResourceType :: string where "keyVaultResourceType = ''Microsoft.KeyVault/vaults''"
definition publicIPAddressResourceType :: string where
  "publicIPAddressResourceType = ''Microsoft.Network/publicIPAddresses''"
definition storageAccountsResourceType :: string where
  "storageAccountsResourceType = ''Microsoft.Storage/storageAccounts''"
definition userAssignedIdentityResourceType :: string where
  "userAssignedIdentityResourceType = ''Microsoft.ManagedIdentity/userAssignedIdentities''"

lemmas type_defs =
  nsgResourceType_def rtResourceType_def vmResourceType_def vmExtensionType_def nicResourceType_def
  vnetResourceType_def vmasResourceType_def vmssResourceType_def lbResourceType_def
  roleResourceType_def keyVaultResourceType_def publicIPAddressResourceType_def
  storageAccountsResourceType_def userAssignedIdentityResourceType_def

definition nsgID :: string where "nsgID = ''nsgID''"
definition rtID :: string where "rtID = ''routeTableID''"
definition vnetID :: string where "vnetID = ''vnetID''"
definition agentLbID :: string where "agentLbID = ''agentLbID''"

text \<open>A quoted name: \<open>var_ref v\<close> is \<open>variables('v\<close>, without the closing quote.\<close>

definition quote :: string where "quote = [CHR 0x27]"

definition var_ref :: "string \<Rightarrow> string" where
  "var_ref v = ''variables('' @ quote @ v"

definition var_full :: "string \<Rightarrow> string" where
  "var_full v = var_ref v @ quote @ '')''"

subsection \<open>Accessors\<close>

definition template_resources :: "obj \<Rightarrow> json list result" where
  "template_resources t = must (get_arr t ''resources'')"

definition Resources :: "obj \<Rightarrow> obj list result" where
  "Resources t = bindR (template_resources t) (\<lambda>rs.
     Inr (concat (map (\<lambda>ri. case ri of JObj r \<Rightarrow> [r] | _ \<Rightarrow> []) rs)))"

definition resource_Type :: "obj \<Rightarrow> string result" where
  "resource_Type r = must (get_str r ''type'')"

definition resource_Name :: "obj \<Rightarrow> string result" where
  "resource_Name r = must (get_str r ''name'')"

definition resource_Properties :: "obj \<Rightarrow> obj" where
  "resource_Properties r = (case get_obj r ''properties'' of Some ps \<Rightarrow> ps | None \<Rightarrow> [])"

definition DependsOn :: "obj \<Rightarrow> json list" where
  "DependsOn r = (case get_arr r ''dependsOn'' of Some ds \<Rightarrow> ds | None \<Rightarrow> [])"

text \<open>The log line asks for the name, so a resource without one panics.\<close>

definition RemoveProperty :: "string \<Rightarrow> obj \<Rightarrow> obj result" where
  "RemoveProperty key r =
     (let properties = resource_Properties r in
      if map_of properties key \<noteq> None then
        bindR (resource_Name r) (\<lambda>_.
          Inr (AList.update ''properties'' (JObj (AList.delete key properties)) r))
      else Inr r)"

definition removeDependencyType :: "string \<Rightarrow> obj \<Rightarrow> string list result" where
  "removeDependencyType depType r =
     foldR (\<lambda>newDependsOn dep.
         bindR (must (case dep of JStr s \<Rightarrow> Some s | _ \<Rightarrow> None)) (\<lambda>depVal.
           if \<not> contains depVal depType
           then bindR (resource_Name r) (\<lambda>_. Inr (newDependsOn @ [depVal]))
           else Inr newDependsOn))
       [] (DependsOn r)"

subsection \<open>Index removal and dependency stripping\<close>

definition remove_at :: "nat \<Rightarrow> 'a list \<Rightarrow> 'a list result" where
  "remove_at i xs =
     (if i < length xs then Inr (take i xs @ drop (Suc i) xs)
      else Inl (Panic ''slice bounds out of range''))"

definition removeIndexesFromArray :: "'a list \<Rightarrow> nat list \<Rightarrow> 'a list result" where
  "removeIndexesFromArray array indexes = foldR (\<lambda>a i. remove_at i a) array (rev (sort indexes))"

text \<open>The inner loops over the dependencies run from the last index down to 0.\<close>

fun strip_deps :: "(string \<Rightarrow> bool) \<Rightarrow> nat \<Rightarrow> json list \<Rightarrow> json list result" where
  "strip_deps unwanted 0 deps = Inr deps"
| "strip_deps unwanted (Suc d) deps =
     (case deps ! d of
        JStr s \<Rightarrow> strip_deps unwanted d (if unwanted s then take d deps @ drop (Suc d) deps else deps)
      | _ \<Rightarrow> Inl (Panic ''interface conversion''))"

definition set_deps :: "json list \<Rightarrow> obj \<Rightarrow> obj" where
  "set_deps deps r =
     (if length deps > 0 then AList.update ''dependsOn'' (JArr deps) r
      else AList.delete ''dependsOn'' r)"

definition strip_dependsOn :: "(string \<Rightarrow> bool) \<Rightarrow> obj \<Rightarrow> obj result" where
  "strip_dependsOn unwanted r =
     (case get_arr r ''dependsOn'' of None \<Rightarrow> Inr r
      | Some deps \<Rightarrow> bindR (strip_deps unwanted (length deps) deps) (\<lambda>deps'. Inr (set_deps deps' r)))"

subsection \<open>The transformations that remove named resources\<close>

text \<open>The indexes of the resources whose name satisfies a test; anything but an object is an error.\<close>

fun scan_names :: "(string \<Rightarrow> bool) \<Rightarrow> nat \<Rightarrow> json list \<Rightarrow> nat list result" where
  "scan_names unwanted i [] = Inr []"
| "scan_names unwanted i (r # rs) =
     (case r of
        JObj m \<Rightarrow> bindR (scan_names unwanted (Suc i) rs) (\<lambda>is.
          Inr (case get_str m ''name'' of None \<Rightarrow> is | Some n \<Rightarrow> if unwanted n then i # is else is))
      | _ \<Rightarrow> Inl (Err ''Template improperly formatted for resource''))"

definition remove_named :: "(string \<Rightarrow> bool) \<Rightarrow> obj \<Rightarrow> obj result" where
  "remove_named unwanted t =
     bindR (template_resources t) (\<lambda>resources.
     bindR (scan_names unwanted 0 resources) (\<lambda>indexesToRemove.
     bindR (removeIndexesFromArray resources indexesToRemove) (\<lambda>rs.
       Inr (AList.update ''resources'' (JArr rs) t))))"

definition jumpbox_name :: "string \<Rightarrow> bool" where
  "jumpbox_name n \<longleftrightarrow> contains n (var_ref ''jumpbox'') \<or> contains n (''parameters('' @ quote @ ''jumpbox'')"

definition RemoveJumpboxResourcesFromTemplate :: "obj \<Rightarrow> obj result" where
  "RemoveJumpboxResourcesFromTemplate = remove_named jumpbox_name"

definition RemoveKMSResourcesFromTemplate :: "obj \<Rightarrow> obj result" where
  "RemoveKMSResourcesFromTemplate = remove_named (\<lambda>n. contains n (var_ref ''clusterKeyVaultName''))"

text \<open>\<open>RemoveImmutableResourceProperties\<close> asks every resource object for its type.\<close>

definition immutable_step :: "json \<Rightarrow> json result" where
  "immutable_step ri =
     (case ri of
        JObj r \<Rightarrow> bindR (resource_Type r) (\<lambda>ty.
          if ty = vmssResourceType then
            bindR (RemoveProperty ''platformFaultDomainCount'' r) (\<lambda>r.
            bindR (RemoveProperty ''singlePlacementGroup'' r) (\<lambda>r.
            bindR (RemoveProperty ''proximityPlacementGroup'' r) (\<lambda>r. Inr (JObj r))))
          else Inr (JObj r))
      | x \<Rightarrow> Inr x)"

definition RemoveImmutableResourceProperties :: "obj \<Rightarrow> obj result" where
  "RemoveImmutableResourceProperties t =
     bindR (template_resources t) (\<lambda>resources.
     bindR (mapR immutable_step resources) (\<lambda>rs. Inr (AList.update ''resources'' (JArr rs) t)))"

subsection \<open>Scaling\<close>

text \<open>
  \<open>RemoveResourcesAndOutputsForScaling\<close>: the two tests are not exclusive, so a name with both
  markers puts its index into the list twice.
\<close>

fun scaling_indexes :: "nat \<Rightarrow> json list \<Rightarrow> nat list" where
  "scaling_indexes i [] = []"
| "scaling_indexes i (r # rs) =
     (case r of
        JObj m \<Rightarrow> (case get_str m ''name'' of
            None \<Rightarrow> []
          | Some n \<Rightarrow> (if contains n (var_ref ''master'') then [i] else []) @
                      (if contains n (var_full ''agentPublicIPAddressName'') then [i] else []))
      | _ \<Rightarrow> []) @ scaling_indexes (Suc i) rs"

definition RemoveResourcesAndOutputsForScaling :: "obj \<Rightarrow> obj result" where
  "RemoveResourcesAndOutputsForScaling t =
     bindR (template_resources t) (\<lambda>resources.
     bindR (removeIndexesFromArray resources (scaling_indexes 0 resources)) (\<lambda>rs.
       Inr (AList.delete ''outputs'' (AList.update ''resources'' (JArr rs) t))))"

text \<open>\<open>NormalizeForK8sSLBScalingOrUpgrade\<close>: the state of the loop is the index of the last agent
  load balancer and the resources seen, in order.\<close>

definition slb_step :: "int \<times> json list \<Rightarrow> json \<Rightarrow> (int \<times> json list) result" where
  "slb_step st ri =
     (let (lbIndex, seen) = st in
      case ri of
        JObj m \<Rightarrow>
          bindR (must (get_str m ''name'')) (\<lambda>resourceName.
            let lbIndex = (if get_str m ''type'' = Some lbResourceType \<and>
                              contains resourceName (var_full ''agentLbName'')
                           then int (length seen) else lbIndex)
            in case get_arr m ''dependsOn'' of
                 None \<Rightarrow> Inr (lbIndex, seen @ [JObj m])
               | Some deps \<Rightarrow>
                   bindR (strip_deps (\<lambda>d. contains d lbResourceType \<or> contains d agentLbID)
                            (length deps) deps) (\<lambda>deps1.
                   bindR (strip_deps (\<lambda>d. contains d keyVaultResourceType) (length deps1) deps1)
                     (\<lambda>deps2. Inr (lbIndex, seen @ [JObj (set_deps deps2 m)]))))
      | x \<Rightarrow> Inr (lbIndex, seen @ [x]))"

definition NormalizeForK8sSLBScalingOrUpgrade :: "obj \<Rightarrow> obj result" where
  "NormalizeForK8sSLBScalingOrUpgrade t =
     bindR (template_resources t) (\<lambda>resources.
     bindR (foldR slb_step (- 1, []) resources) (\<lambda>(lbIndex, seen).
     bindR (removeIndexesFromArray seen (if lbIndex \<noteq> - 1 then [nat lbIndex] else [])) (\<lambda>rs.
       Inr (AList.update ''resources'' (JArr rs) t))))"

text \<open>\<open>NormalizeForK8sVMASScalingUp\<close> looks for one network security group, one route table and one
  virtual network, and all availability sets.\<close>

record scan_state =
  rtIndex :: int
  nsgIndex :: int
  vnetIndex :: int
  vmasIndexes :: "nat list"
  seen :: "json list"

definition scan_init :: scan_state where
  "scan_init = \<lparr>rtIndex = - 1, nsgIndex = - 1, vnetIndex = - 1, vmasIndexes = [], seen = []\<rparr>"

definition two_resources :: "string \<Rightarrow> failure" where
  "two_resources ty = Err (''Found 2 resources with type '' @ ty)"

definition vmas_unwanted_dep :: "string \<Rightarrow> bool" where
  "vmas_unwanted_dep d \<longleftrightarrow> contains d nsgResourceType \<or> contains d nsgID \<or>
     contains d rtResourceType \<or> contains d rtID \<or>
     contains d vnetResourceType \<or> contains d vnetID \<or> contains d vmasResourceType"

definition vmas_classify :: "string option \<Rightarrow> string \<Rightarrow> scan_state \<Rightarrow> scan_state result" where
  "vmas_classify ty resourceName st =
     (let index = length (seen st) in
      bindR (if ty = Some nsgResourceType \<and> \<not> contains resourceName (var_full ''jumpboxNetworkSecurityGroupName'')
             then (if nsgIndex st \<noteq> - 1 then Inl (two_resources nsgResourceType)
                   else Inr (st\<lparr>nsgIndex := int index\<rparr>))
             else Inr st) (\<lambda>st.
      bindR (if ty = Some rtResourceType
             then (if rtIndex st \<noteq> - 1 then Inl (two_resources rtResourceType)
                   else Inr (st\<lparr>rtIndex := int index\<rparr>))
             else Inr st) (\<lambda>st.
      bindR (if ty = Some vnetResourceType
             then (if vnetIndex st \<noteq> - 1 then Inl (two_resources vnetResourceType)
                   else Inr (st\<lparr>vnetIndex := int index\<rparr>))
             else Inr st) (\<lambda>st.
      Inr (if ty = Some vmasResourceType
           then st\<lparr>vmasIndexes := vmasIndexes st @ [index]\<rparr> else st)))))"

definition vmas_step :: "scan_state \<Rightarrow> json \<Rightarrow> scan_state result" where
  "vmas_step st ri =
     (case ri of
        JObj m \<Rightarrow>
          bindR (must (get_str m ''name'')) (\<lambda>resourceName.
          bindR (vmas_classify (get_str m ''type'') resourceName st) (\<lambda>st.
          bindR (strip_dependsOn vmas_unwanted_dep m) (\<lambda>m.
            Inr (st\<lparr>seen := seen st @ [JObj m]\<rparr>))))
      | x \<Rightarrow> Inr (st\<lparr>seen := seen st @ [x]\<rparr>))"

definition vmas_indexesToRemove :: "scan_state \<Rightarrow> nat list" where
  "vmas_indexesToRemove st =
     (if rtIndex st = - 1 then [] else [nat (rtIndex st)]) @
     (if vnetIndex st \<noteq> - 1 then [nat (vnetIndex st)] else []) @
     vmasIndexes st @
     (if nsgIndex st > 0 then [nat (nsgIndex st)] else [])"

definition NormalizeForK8sVMASScalingUp :: "obj \<Rightarrow> obj result" where
  "NormalizeForK8sVMASScalingUp t =
     bindR (RemoveResourcesAndOutputsForScaling t) (\<lambda>t.
     bindR (template_resources t) (\<lambda>resources.
     bindR (foldR vmas_step scan_init resources) (\<lambda>st.
     bindR (removeIndexesFromArray (seen st) (vmas_indexesToRemove st)) (\<lambda>rs.
       Inr (AList.update ''resources'' (JArr rs) t)))))"

subsection \<open>Adding a pool\<close>

definition containsResourceID :: "string \<Rightarrow> string \<Rightarrow> bool" where
  "containsResourceID dep typeToRemove =
     (if typeToRemove = nsgResourceType then contains dep nsgID
      else if typeToRemove = rtResourceType then contains dep rtID
      else if typeToRemove = vnetResourceType then contains dep vnetID
      else False)"

definition single_step :: "string \<Rightarrow> int \<times> json list \<Rightarrow> json \<Rightarrow> (int \<times> json list) result" where
  "single_step typeToRemove st ri =
     (let (indexToRemove, rs) = st in
      case ri of
        JObj m \<Rightarrow>
          bindR (if get_str m ''type'' = Some typeToRemove
                 then (if indexToRemove \<noteq> - 1
                       then Inl (Err (''Found at least 2 resources of type '' @ vnetResourceType))
                       else Inr (int (length rs)))
                 else Inr indexToRemove) (\<lambda>indexToRemove.
          bindR (strip_dependsOn (\<lambda>d. contains d typeToRemove \<or> containsResourceID d typeToRemove) m)
            (\<lambda>m. Inr (indexToRemove, rs @ [JObj m])))
      | x \<Rightarrow> Inr (indexToRemove, rs @ [x]))"

definition removeSingleOfType :: "string \<Rightarrow> obj \<Rightarrow> obj result" where
  "removeSingleOfType typeToRemove t =
     bindR (template_resources t) (\<lambda>resources.
     bindR (foldR (single_step typeToRemove) (- 1, []) resources) (\<lambda>(indexToRemove, rs).
     bindR (if indexToRemove \<noteq> - 1 then removeIndexesFromArray rs [nat indexToRemove] else Inr rs)
       (\<lambda>rs. Inr (AList.update ''resources'' (JArr rs) t))))"

definition NormalizeForK8sAddVMASPool :: "obj \<Rightarrow> obj result" where
  "NormalizeForK8sAddVMASPool t =
     bindR (RemoveImmutableResourceProperties t) (\<lambda>t.
     bindR (RemoveJumpboxResourcesFromTemplate t) (\<lambda>t.
     bindR (RemoveResourcesAndOutputsForScaling t) (\<lambda>t.
     bindR (removeSingleOfType vnetResourceType t) (\<lambda>t.
     bindR (removeSingleOfType rtResourceType t) (\<lambda>t.
       removeSingleOfType nsgResourceType t)))))"

subsection \<open>Upgrading\<close>

definition vmss_pool_step :: "nat list \<times> json list \<Rightarrow> json \<Rightarrow> nat list \<times> json list" where
  "vmss_pool_step st ri =
     (let (indexesToRemove, rs) = st;
          remove = (indexesToRemove @ [length rs], rs @ [ri]) in
      case ri of
        JObj m \<Rightarrow>
          (let stripped = (indexesToRemove, rs @ [JObj
                 (if get_arr m ''dependsOn'' \<noteq> None then AList.delete ''dependsOn'' m else m)]) in
           case get_str m ''type'' of
             None \<Rightarrow> stripped
           | Some ty \<Rightarrow>
               if ty \<noteq> vmssResourceType \<and> ty \<noteq> roleResourceType then remove
               else (case get_str m ''name'' of
                   None \<Rightarrow> (indexesToRemove, rs @ [ri])
                 | Some n \<Rightarrow>
                     if contains n (var_full ''masterVMNamePrefix'') then remove
                     else if ty = roleResourceType \<and> contains n (var_full ''userAssignedID'') then remove
                     else stripped))
      | x \<Rightarrow> (indexesToRemove, rs @ [x]))"

definition NormalizeMasterResourcesForVMSSPoolUpgrade :: "obj \<Rightarrow> obj result" where
  "NormalizeMasterResourcesForVMSSPoolUpgrade t =
     bindR (template_resources t) (\<lambda>resources.
       let (indexesToRemove, rs) = foldl vmss_pool_step ([], []) resources in
       bindR (removeIndexesFromArray rs indexesToRemove) (\<lambda>rs.
         Inr (AList.delete ''outputs'' (AList.update ''resources'' (JArr rs) t))))"

text \<open>\<open>RemoveNsgDependency\<close> does nothing for an empty name or without an array of dependencies.\<close>

definition RemoveNsgDependency :: "string \<Rightarrow> obj \<Rightarrow> obj result" where
  "RemoveNsgDependency resourceName m =
     (if resourceName \<noteq> '''' then
        strip_dependsOn (\<lambda>d. contains d nsgResourceType \<or> contains d nsgID) m
      else Inr m)"

text \<open>
  The two upgrade transformations filter the resources in place: each resource is appended to the
  result, then possibly cut off again and otherwise possibly modified. A step maps one resource to
  what is left of it, no resource or one. \<open>removeVMAS\<close> tells whether it cut the resource off.
\<close>

definition removeVMAS :: "string \<Rightarrow> obj \<Rightarrow> (bool \<times> obj) result" where
  "removeVMAS ty m =
     (if equal_fold ty vmasResourceType then Inr (True, m)
      else if equal_fold ty vmResourceType then
        bindR (removeDependencyType vmasResourceType m) (\<lambda>deps.
          Inr (False, AList.update ''dependsOn'' (JStrings deps) m))
      else Inr (False, m))"

definition master_types :: "string list" where
  "master_types =
     [vmResourceType, vmExtensionType, nicResourceType, vnetResourceType, nsgResourceType,
      lbResourceType, vmssResourceType, vmasResourceType, roleResourceType,
      publicIPAddressResourceType, storageAccountsResourceType, keyVaultResourceType,
      rtResourceType, userAssignedIdentityResourceType]"

definition etcd_disk_id :: string where
  "etcd_disk_id = ''[concat('' @ quote @ ''/subscriptions/'' @ quote @ '', '' @ var_full ''subscriptionId'' @
     '', '' @ quote @ ''/resourceGroups/'' @ quote @ '', '' @ var_full ''resourceGroup'' @ '','' @ quote @
     ''/providers/Microsoft.Compute/disks/'' @ quote @ '', '' @ var_full ''masterVMNamePrefix'' @
     '', copyIndex('' @ var_full ''masterOffset'' @ ''),'' @ quote @ ''-etcddisk'' @ quote @ '')]''"

definition attach_disk :: "bool \<Rightarrow> obj \<Rightarrow> obj" where
  "attach_disk isMasterManagedDisk dataDisk =
     (let d = AList.update ''createOption'' (JStr ''attach'') dataDisk in
      if isMasterManagedDisk then AList.update ''managedDisk'' (JManagedDisk etcd_disk_id) d else d)"

definition attach_data_disk :: "bool \<Rightarrow> obj \<Rightarrow> obj result" where
  "attach_data_disk isMasterManagedDisk m =
     (case get_obj m ''properties'' of None \<Rightarrow> Inr m
      | Some ps \<Rightarrow> (case get_obj ps ''storageProfile'' of None \<Rightarrow> Inr m
        | Some sp \<Rightarrow> (case get_arr sp ''dataDisks'' of None \<Rightarrow> Inr m
          | Some disks \<Rightarrow> (case disks of
                [] \<Rightarrow> Inl (Panic ''index out of range'')
              | JObj d # rest \<Rightarrow>
                  Inr (AList.update ''properties'' (JObj (AList.update ''storageProfile''
                    (JObj (AList.update ''dataDisks''
                      (JArr (JObj (attach_disk isMasterManagedDisk d) # rest)) sp)) ps)) m)
              | _ \<Rightarrow> Inr m))))"

definition master_drops :: "string \<Rightarrow> string \<Rightarrow> bool" where
  "master_drops ty n \<longleftrightarrow>
     (if ty = vmssResourceType \<or> ty = vmResourceType \<or> ty = vmExtensionType \<or>
         ty = roleResourceType \<or> ty = nicResourceType
      then \<not> contains n (var_full ''masterVMNamePrefix'')
      else if ty = nsgResourceType then contains n (var_full ''nsgName'')
      else if ty = publicIPAddressResourceType \<or> ty = rtResourceType \<or>
              ty = userAssignedIdentityResourceType then True
      else if ty = lbResourceType
      then contains n (var_full ''masterInternalLbName'') \<or> contains n (var_full ''masterLbName'')
      else if ty = vnetResourceType then contains n (var_full ''virtualNetworkName'')
      else if ty = storageAccountsResourceType then \<not> contains n (var_full ''clusterKeyVaultName'')
      else if ty = keyVaultResourceType then \<not> contains n (var_full ''clusterKeyVaultName'')
      else False)"

definition master_step :: "bool \<Rightarrow> json \<Rightarrow> json list result" where
  "master_step isMasterManagedDisk ri =
     (case ri of
        JObj m \<Rightarrow> (case get_str m ''type'' of
          None \<Rightarrow> Inr [ri]
        | Some ty \<Rightarrow>
            if ty \<notin> set master_types then Inr [ri]
            else bindR (removeVMAS ty m) (\<lambda>(gone, m).
              let keep = (\<lambda>m. if gone then [] else [JObj m]) in
              case get_str m ''name'' of
                None \<Rightarrow> Inr (keep m)
              | Some n \<Rightarrow>
                  if master_drops ty n then Inr []
                  else (let m = (if ty = nicResourceType then AList.delete ''dependsOn'' m else m) in
                    if ty = vmssResourceType \<or> ty = vnetResourceType then
                      bindR (RemoveNsgDependency n m) (\<lambda>m. Inr (keep m))
                    else if equal_fold ty vmResourceType \<and> contains n (var_full ''masterVMNamePrefix'') then
                      bindR (attach_data_disk isMasterManagedDisk m) (\<lambda>m. Inr (keep m))
                    else Inr (keep m))))
      | x \<Rightarrow> Inr [x])"

definition NormalizeResourcesForK8sMasterUpgrade ::
    "bool \<Rightarrow> (string \<times> bool) list \<Rightarrow> obj \<Rightarrow> obj result" where
  "NormalizeResourcesForK8sMasterUpgrade isMasterManagedDisk agentPoolsToPreserve t =
     bindR (template_resources t) (\<lambda>resources.
     bindR (mapR (master_step isMasterManagedDisk) resources) (\<lambda>rs.
       Inr (AList.delete ''outputs'' (AList.update ''resources'' (JArr (concat rs)) t))))"

definition agent_types :: "string list" where
  "agent_types =
     [vmResourceType, vmExtensionType, nicResourceType, vnetResourceType, nsgResourceType,
      lbResourceType, vmssResourceType, vmasResourceType, roleResourceType,
      storageAccountsResourceType]"

definition preserved :: "(string \<times> bool) list \<Rightarrow> string \<Rightarrow> bool" where
  "preserved agentPoolsToPreserve n \<longleftrightarrow>
     list_ex (\<lambda>(pool, preserve). contains n (var_ref pool) \<and> preserve) agentPoolsToPreserve"

text \<open>Control plane resources first, then the resources of pools that are not preserved.\<close>

definition control_plane_drops :: "string \<Rightarrow> string \<Rightarrow> bool" where
  "control_plane_drops ty n \<longleftrightarrow>
     (if ty = vmResourceType \<or> ty = vmExtensionType \<or> ty = roleResourceType \<or> ty = nicResourceType
      then contains n (var_full ''masterVMNamePrefix'')
      else if ty = nsgResourceType then contains n (var_full ''nsgName'')
      else if ty = publicIPAddressResourceType \<or> ty = lbResourceType then contains n (var_ref ''master'')
      else ty = vmssResourceType)"

definition agent_step :: "(string \<times> bool) list \<Rightarrow> json \<Rightarrow> json list result" where
  "agent_step agentPoolsToPreserve ri =
     (case ri of
        JObj m \<Rightarrow> (case get_str m ''type'' of
          None \<Rightarrow> Inr [ri]
        | Some ty \<Rightarrow>
            if ty \<notin> set agent_types then Inr [ri]
            else bindR (removeVMAS ty m) (\<lambda>(gone, m).
              let keep = (\<lambda>m. if gone then [] else [JObj m]) in
              case get_str m ''name'' of
                None \<Rightarrow> Inr (keep m)
              | Some n \<Rightarrow>
                  if control_plane_drops ty n then Inr []
                  else bindR (if ty = vnetResourceType then RemoveNsgDependency n m else Inr m) (\<lambda>m.
                    if (ty = vmResourceType \<or> ty = roleResourceType \<or> ty = vmExtensionType \<or>
                        ty = storageAccountsResourceType \<or> ty = nicResourceType) \<and>
                       \<not> preserved agentPoolsToPreserve n
                    then Inr [] else Inr (keep m))))
      | x \<Rightarrow> Inr [x])"

definition NormalizeResourcesForK8sAgentUpgrade ::
    "bool \<Rightarrow> (string \<times> bool) list \<Rightarrow> obj \<Rightarrow> obj result" where
  "NormalizeResourcesForK8sAgentUpgrade isMasterManagedDisk agentPoolsToPreserve t =
     bindR (template_resources t) (\<lambda>resources.
     bindR (mapR (agent_step agentPoolsToPreserve) resources) (\<lambda>rs.
       NormalizeForK8sVMASScalingUp (AList.update ''resources'' (JArr (concat rs)) t)))"

subsection \<open>Index removal\<close>

text \<open>
  Removing distinct indexes in descending order leaves exactly the elements at the other indexes,
  in their order. This is what the transformations rely on; a repeated index removes a neighbour.
\<close>

lemma nths_outside: "(\<And>i. i < length xs \<Longrightarrow> i \<in> A \<longleftrightarrow> i \<in> B) \<Longrightarrow> nths xs A = nths xs B"
proof -
  assume eq: "\<And>i. i < length xs \<Longrightarrow> i \<in> A \<longleftrightarrow> i \<in> B"
  have "filter (\<lambda>p. snd p \<in> A) (zip xs [0..<length xs]) = filter (\<lambda>p. snd p \<in> B) (zip xs [0..<length xs])"
    by (rule filter_cong) (auto dest!: set_zip_rightD simp: eq)
  then show ?thesis by (simp add: nths_def)
qed

lemma nths_split:
  assumes len: "length as = i" and "\<forall>d \<in> D. d < i"
  shows "nths (as @ x # bs) (- insert i D) = nths (as @ bs) (- D)"
proof -
  have "nths as (- insert i D) = nths as (- D)"
    by (rule nths_outside) (use len in auto)
  moreover have "nths bs {j. Suc j + i \<in> - insert i D} = nths bs {j. j + i \<in> - D}"
    using assms(2) by (intro nths_outside) auto
  ultimately show ?thesis using len by (simp add: nths_append nths_Cons)
qed

lemma nths_split_at:
  assumes "i < length xs" and "\<forall>d \<in> D. d < i"
  shows "nths xs (- insert i D) = nths (take i xs @ drop (Suc i) xs) (- D)"
  using nths_split [of "take i xs" i D "xs ! i" "drop (Suc i) xs"] assms
  by (simp add: id_take_nth_drop [symmetric])

lemma remove_descending:
  assumes "sorted_wrt (>) ds" and "\<forall>d \<in> set ds. d < length xs"
  shows "foldR (\<lambda>a i. remove_at i a) xs ds = Inr (nths xs (- set ds))"
  using assms
proof (induction ds arbitrary: xs)
  case (Cons i ds)
  let ?xs = "take i xs @ drop (Suc i) xs"
  have "\<forall>d \<in> set ds. d < length ?xs" using Cons.prems by fastforce
  then have "foldR (\<lambda>a i. remove_at i a) ?xs ds = Inr (nths ?xs (- set ds))"
    using Cons by simp
  then show ?case
    using Cons.prems nths_split_at [of i xs "set ds"] by (simp add: remove_at_def)
qed (simp add: nths_all)

lemma removeIndexes_nths:
  assumes "distinct is" and "\<forall>i \<in> set is. i < length xs"
  shows "removeIndexesFromArray xs is = Inr (nths xs (- set is))"
proof -
  have "sorted_wrt (<) (sort is)"
    using assms(1) by (metis distinct_sort sorted_sort strict_sorted_iff)
  then have "sorted_wrt (>) (rev (sort is))" by (simp add: sorted_wrt_rev)
  then show ?thesis
    using remove_descending [of "rev (sort is)" xs] assms(2) by (simp add: removeIndexesFromArray_def)
qed

text \<open>The indexes of a predicate, and removing them.\<close>

definition indexes_of :: "('a \<Rightarrow> bool) \<Rightarrow> 'a list \<Rightarrow> nat list" where
  "indexes_of P xs = filter (\<lambda>i. P (xs ! i)) [0..<length xs]"

lemma nths_indexes_of: "nths xs (- set (indexes_of P xs)) = filter (\<lambda>x. \<not> P x) xs"
proof (induction xs rule: rev_induct)
  case (snoc x xs)
  have "nths xs (- set (indexes_of P (xs @ [x]))) = nths xs (- set (indexes_of P xs))"
    by (rule nths_outside) (auto simp: indexes_of_def nth_append)
  moreover have "length xs \<in> set (indexes_of P (xs @ [x])) \<longleftrightarrow> P x"
    by (auto simp: indexes_of_def)
  ultimately show ?case
    using snoc by (simp add: nths_append)
qed simp

lemma removeIndexes_filter:
  "set is = set (indexes_of P xs) \<Longrightarrow> distinct is \<Longrightarrow>
     removeIndexesFromArray xs is = Inr (filter (\<lambda>x. \<not> P x) xs)"
proof -
  assume "set is = set (indexes_of P xs)" "distinct is"
  moreover from this have "\<forall>i \<in> set is. i < length xs" by (simp add: indexes_of_def)
  ultimately show ?thesis using removeIndexes_nths [of "is" xs] nths_indexes_of [of xs P] by simp
qed

lemma indexes_of_Nil [simp]: "indexes_of P [] = []"
  by (simp add: indexes_of_def)

lemma indexes_of_snoc [simp]:
  "indexes_of P (xs @ [x]) = indexes_of P xs @ (if P x then [length xs] else [])"
  by (auto simp: indexes_of_def nth_append intro: filter_cong)

lemma indexes_of_Cons:
  "indexes_of P (x # xs) = (if P x then [0] else []) @ map Suc (indexes_of P xs)"
proof -
  have "[0..<length (x # xs)] = 0 # map Suc [0..<length xs]"
    by (simp add: map_Suc_upt upt_conv_Cons del: upt_Suc)
  then show ?thesis by (simp add: indexes_of_def filter_map o_def)
qed

lemma distinct_indexes_of [simp]: "distinct (indexes_of P xs)"
  by (simp add: indexes_of_def)

lemma set_indexes_of: "i \<in> set (indexes_of P xs) \<longleftrightarrow> i < length xs \<and> P (xs ! i)"
  by (auto simp: indexes_of_def)

subsection \<open>Dependencies\<close>

lemma strip_deps_char:
  "d \<le> length deps \<Longrightarrow> strip_deps u d deps =
     (if \<forall>x \<in> set (take d deps). \<exists>s. x = JStr s
      then Inr (filter (\<lambda>x. \<forall>s. x = JStr s \<longrightarrow> \<not> u s) (take d deps) @ drop d deps)
      else Inl (Panic ''interface conversion''))"
proof (induction d arbitrary: deps)
  case (Suc d)
  have nth: "take (Suc d) deps = take d deps @ [deps ! d]" "drop d deps = deps ! d # drop (Suc d) deps"
    using Suc.prems by (simp_all add: take_Suc_conv_app_nth Cons_nth_drop_Suc)
  show ?case
  proof (cases "deps ! d")
    case (JStr s)
    show ?thesis
    proof (cases "u s")
      case True
      let ?deps = "take d deps @ drop (Suc d) deps"
      have "take d ?deps = take d deps" "drop d ?deps = drop (Suc d) deps" "d \<le> length ?deps"
        using Suc.prems by simp_all
      then show ?thesis using Suc.IH [of ?deps] JStr True nth by simp
    next
      case False
      then show ?thesis using Suc JStr nth by simp
    qed
  qed (use nth in simp_all)
qed simp

text \<open>What stripping leaves of a resource, and what it does not touch.\<close>

definition strip_ok :: "(string \<Rightarrow> bool) \<Rightarrow> obj \<Rightarrow> bool" where
  "strip_ok u m \<longleftrightarrow> (\<forall>d \<in> set (DependsOn m). \<exists>s. d = JStr s \<and> \<not> u s)"

lemma map_of_obj_update: "map_of (AList.update k v al) x = (if x = k then Some v else map_of al x)"
  by (simp add: update_conv')

lemma map_of_obj_delete: "map_of (AList.delete k al) x = (if x = k then None else map_of al x)"
  by (simp add: delete_conv')

lemmas obj_simps = map_of_obj_update map_of_obj_delete

lemma get_set_deps:
  "k \<noteq> ''dependsOn'' \<Longrightarrow> get_str (set_deps ds m) k = get_str m k"
  "k \<noteq> ''dependsOn'' \<Longrightarrow> get_arr (set_deps ds m) k = get_arr m k"
  "k \<noteq> ''dependsOn'' \<Longrightarrow> get_obj (set_deps ds m) k = get_obj m k"
  "DependsOn (set_deps ds m) = ds"
  by (auto simp: set_deps_def get_str_def get_arr_def get_obj_def DependsOn_def obj_simps)

lemma strip_dependsOn_Inr:
  assumes "strip_dependsOn u m = Inr m'"
  shows "strip_ok u m'" and "k \<noteq> ''dependsOn'' \<Longrightarrow> get_str m' k = get_str m k"
proof -
  show "strip_ok u m'"
  proof (cases "get_arr m ''dependsOn''")
    case None
    then show ?thesis using assms by (simp add: strip_dependsOn_def strip_ok_def DependsOn_def)
  next
    case (Some ds)
    then obtain ds' where "strip_deps u (length ds) ds = Inr ds'" "m' = set_deps ds' m"
      using assms by (auto simp: strip_dependsOn_def bindR_Inr_iff)
    then have "DependsOn m' = filter (\<lambda>x. \<forall>s. x = JStr s \<longrightarrow> \<not> u s) ds" "\<forall>x \<in> set ds. \<exists>s. x = JStr s"
      by (auto simp: strip_deps_char get_set_deps split: if_splits)
    then show ?thesis by (auto simp: strip_ok_def)
  qed
  show "get_str m' k = get_str m k" if "k \<noteq> ''dependsOn''"
    using assms that by (auto simp: strip_dependsOn_def bindR_Inr_iff get_set_deps split: option.splits)
qed

subsection \<open>Removing named resources\<close>

definition named :: "(string \<Rightarrow> bool) \<Rightarrow> json \<Rightarrow> bool" where
  "named u r = (case r of
     JObj m \<Rightarrow> (case get_str m ''name'' of None \<Rightarrow> False | Some n \<Rightarrow> u n) | _ \<Rightarrow> False)"

definition is_obj :: "json \<Rightarrow> bool" where
  "is_obj r = (case r of JObj _ \<Rightarrow> True | _ \<Rightarrow> False)"

lemma named_simps [simp]:
  "named u (JObj m) = (case get_str m ''name'' of None \<Rightarrow> False | Some n \<Rightarrow> u n)"
  "\<not> is_obj r \<Longrightarrow> \<not> named u r" "is_obj (JObj m)"
  by (auto simp: named_def is_obj_def split: json.splits)

lemma scan_names_char:
  "scan_names u i rs =
     (if list_all is_obj rs then Inr (map (\<lambda>j. j + i) (indexes_of (named u) rs))
      else Inl (Err ''Template improperly formatted for resource''))"
proof (induction rs arbitrary: i)
  case (Cons r rs)
  show ?case
  proof (cases r)
    case (JObj m)
    then show ?thesis
      using Cons [of "Suc i"]
      by (auto simp: indexes_of_Cons o_def split: option.splits)
  qed (simp_all add: is_obj_def)
qed simp

lemma remove_named_char:
  "remove_named u t =
     (case get_arr t ''resources'' of
        None \<Rightarrow> Inl (Panic ''interface conversion'')
      | Some rs \<Rightarrow>
          if list_all is_obj rs
          then Inr (AList.update ''resources'' (JArr (filter (\<lambda>r. \<not> named u r) rs)) t)
          else Inl (Err ''Template improperly formatted for resource''))"
proof (cases "get_arr t ''resources''")
  case (Some rs)
  have "removeIndexesFromArray rs (indexes_of (named u) rs) = Inr (filter (\<lambda>r. \<not> named u r) rs)"
    by (rule removeIndexes_filter) simp_all
  then show ?thesis
    using Some by (simp add: remove_named_def template_resources_def scan_names_char)
qed (simp add: remove_named_def template_resources_def)

definition scaling_name :: "string \<Rightarrow> bool" where
  "scaling_name n \<longleftrightarrow> contains n (var_ref ''master'') \<or> contains n (var_full ''agentPublicIPAddressName'')"

definition both_markers :: "string \<Rightarrow> bool" where
  "both_markers n \<longleftrightarrow> contains n (var_ref ''master'') \<and> contains n (var_full ''agentPublicIPAddressName'')"

lemma scaling_indexes_char:
  "\<forall>r \<in> set rs. \<not> named both_markers r \<Longrightarrow>
     scaling_indexes i rs = map (\<lambda>j. j + i) (indexes_of (named scaling_name) rs)"
proof (induction rs arbitrary: i)
  case (Cons r rs)
  then have "scaling_indexes (Suc i) rs = map (\<lambda>j. j + Suc i) (indexes_of (named scaling_name) rs)"
    by simp
  then have eq: "scaling_indexes i (r # rs) =
      (case r of
         JObj m \<Rightarrow> (case get_str m ''name'' of None \<Rightarrow> []
           | Some n \<Rightarrow> (if contains n (var_ref ''master'') then [i] else []) @
                       (if contains n (var_full ''agentPublicIPAddressName'') then [i] else []))
       | _ \<Rightarrow> []) @ map (\<lambda>j. Suc (j + i)) (indexes_of (named scaling_name) rs)"
    by simp
  show ?case
  proof (cases "\<exists>m n. r = JObj m \<and> get_str m ''name'' = Some n")
    case True
    then obtain m n where mn: "r = JObj m" "get_str m ''name'' = Some n" by blast
    then have "\<not> both_markers n" using Cons.prems by simp
    then show ?thesis
      unfolding eq using mn scaling_name_def [of n] both_markers_def [of n]
      by (simp add: indexes_of_Cons o_def)
  next
    case False
    then show ?thesis
      unfolding eq by (cases r) (simp_all add: indexes_of_Cons is_obj_def o_def split: option.splits)
  qed
qed simp

lemma RemoveResourcesAndOutputsForScaling_char:
  assumes "get_arr t ''resources'' = Some rs" and "\<forall>r \<in> set rs. \<not> named both_markers r"
  shows "RemoveResourcesAndOutputsForScaling t =
    Inr (AList.delete ''outputs'' (AList.update ''resources''
      (JArr (filter (\<lambda>r. \<not> named scaling_name r) rs)) t))"
proof -
  have "removeIndexesFromArray rs (indexes_of (named scaling_name) rs) =
      Inr (filter (\<lambda>r. \<not> named scaling_name r) rs)"
    by (rule removeIndexes_filter) simp_all
  then show ?thesis
    using assms by (simp add: RemoveResourcesAndOutputsForScaling_def template_resources_def scaling_indexes_char)
qed

subsection \<open>The scan for network resources\<close>

definition has_type :: "string \<Rightarrow> json \<Rightarrow> bool" where
  "has_type ty r = (case r of JObj m \<Rightarrow> get_str m ''type'' = Some ty | _ \<Rightarrow> False)"

definition cluster_nsg :: "json \<Rightarrow> bool" where
  "cluster_nsg r \<longleftrightarrow> has_type nsgResourceType r \<and>
     named (\<lambda>n. \<not> contains n (var_full ''jumpboxNetworkSecurityGroupName'')) r"

definition strip_resource :: "(string \<Rightarrow> bool) \<Rightarrow> json \<Rightarrow> json result" where
  "strip_resource u r =
     (case r of JObj m \<Rightarrow> bindR (strip_dependsOn u m) (\<lambda>m. Inr (JObj m)) | x \<Rightarrow> Inr x)"

definition index_list :: "int \<Rightarrow> nat list" where
  "index_list i = (if i = - 1 then [] else [nat i])"

text \<open>What the loop knows after the resources \<open>xs\<close>.\<close>

definition scan_inv :: "json list \<Rightarrow> scan_state \<Rightarrow> bool" where
  "scan_inv xs st \<longleftrightarrow>
     mapR (strip_resource vmas_unwanted_dep) xs = Inr (seen st) \<and>
     - 1 \<le> rtIndex st \<and> - 1 \<le> vnetIndex st \<and> - 1 \<le> nsgIndex st \<and>
     index_list (rtIndex st) = indexes_of (has_type rtResourceType) xs \<and>
     index_list (vnetIndex st) = indexes_of (has_type vnetResourceType) xs \<and>
     index_list (nsgIndex st) = indexes_of cluster_nsg xs \<and>
     vmasIndexes st = indexes_of (has_type vmasResourceType) xs"

lemma mapR_snoc: "mapR f (xs @ [x]) = bindR (mapR f xs) (\<lambda>ys. bindR (f x) (\<lambda>y. Inr (ys @ [y])))"
proof (induction xs)
  case Nil
  show ?case by (cases "f x") simp_all
next
  case (Cons a xs)
  then show ?case by (cases "f a"; cases "mapR f xs"; cases "f x") simp_all
qed

lemma mapR_set: "mapR f xs = Inr ys \<Longrightarrow> y \<in> set ys \<Longrightarrow> \<exists>x \<in> set xs. f x = Inr y"
  by (induction xs arbitrary: ys) (auto simp: bindR_Inr_iff)

lemma index_list_simps: "index_list (- 1) = []" "i \<noteq> - 1 \<Longrightarrow> index_list i = [nat i]"
  "index_list (int n) = [n]"
  by (simp_all add: index_list_def)

lemma index_list_Nil: "index_list i = [] \<longleftrightarrow> i = - 1"
  by (simp add: index_list_def)

text \<open>The four resource types are different, so a resource sets at most one index.\<close>

lemma types_differ:
  "nsgResourceType \<noteq> rtResourceType" "nsgResourceType \<noteq> vnetResourceType"
  "nsgResourceType \<noteq> vmasResourceType" "rtResourceType \<noteq> vnetResourceType"
  "rtResourceType \<noteq> vmasResourceType" "vnetResourceType \<noteq> vmasResourceType"
  by (simp_all add: type_defs)

lemma vmas_classify_inv:
  assumes "scan_inv xs st" and "get_str m ''name'' = Some n"
    and "vmas_classify (get_str m ''type'') n st = Inr st'"
  shows "seen st' = seen st \<and> - 1 \<le> rtIndex st' \<and> - 1 \<le> vnetIndex st' \<and> - 1 \<le> nsgIndex st' \<and>
    index_list (rtIndex st') = indexes_of (has_type rtResourceType) (xs @ [JObj m]) \<and>
    index_list (vnetIndex st') = indexes_of (has_type vnetResourceType) (xs @ [JObj m]) \<and>
    index_list (nsgIndex st') = indexes_of cluster_nsg (xs @ [JObj m]) \<and>
    vmasIndexes st' = indexes_of (has_type vmasResourceType) (xs @ [JObj m])"
proof -
  have len: "length (seen st) = length xs"
    using assms(1) mapR_Inr_length unfolding scan_inv_def by blast
  have ty: "has_type ty (JObj m) \<longleftrightarrow> get_str m ''type'' = Some ty" for ty
    by (simp add: has_type_def)
  have nsg: "cluster_nsg (JObj m) \<longleftrightarrow> get_str m ''type'' = Some nsgResourceType \<and>
      \<not> contains n (var_full ''jumpboxNetworkSecurityGroupName'')"
    using assms(2) by (simp add: cluster_nsg_def ty)
  show ?thesis
    using assms(1,3) types_differ
    unfolding vmas_classify_def scan_inv_def Let_def indexes_of_snoc ty nsg len
    by (auto simp: bindR_Inr_iff index_list_simps index_list_Nil split: if_splits)
qed

lemma vmas_step_inv:
  assumes inv: "scan_inv xs st" and step: "vmas_step st r = Inr st'"
  shows "scan_inv (xs @ [r]) st'"
proof (cases r)
  case (JObj m)
  then obtain n st1 m' where n: "get_str m ''name'' = Some n"
      and cl: "vmas_classify (get_str m ''type'') n st = Inr st1"
      and m': "strip_dependsOn vmas_unwanted_dep m = Inr m'"
      and st': "st' = st1\<lparr>seen := seen st1 @ [JObj m']\<rparr>"
    using step by (auto simp: vmas_step_def bindR_Inr_iff must_Inr)
  note c = vmas_classify_inv [OF inv n cl]
  have "mapR (strip_resource vmas_unwanted_dep) (xs @ [JObj m]) = Inr (seen st @ [JObj m'])"
    using inv m' by (simp add: scan_inv_def mapR_snoc strip_resource_def)
  then show ?thesis using c JObj st' by (simp add: scan_inv_def del: indexes_of_snoc)
qed (use assms in \<open>auto simp: vmas_step_def scan_inv_def mapR_snoc strip_resource_def has_type_def
      cluster_nsg_def\<close>)

lemma vmas_scan:
  assumes "foldR vmas_step scan_init rs = Inr st"
  shows "scan_inv rs st"
proof -
  have "scan_inv (xs @ rs) st" if "scan_inv xs s" "foldR vmas_step s rs = Inr st" for xs s
    using that
  proof (induction rs arbitrary: xs s)
    case (Cons r rs)
    then obtain s' where s': "vmas_step s r = Inr s'" "foldR vmas_step s' rs = Inr st"
      by (auto simp: bindR_Inr_iff)
    then show ?case
      using Cons.IH [OF vmas_step_inv [OF Cons.prems(1) s'(1)]] by simp
  qed simp
  moreover have "scan_inv [] scan_init"
    by (simp add: scan_inv_def scan_init_def index_list_simps)
  ultimately show ?thesis using assms by (metis append_Nil)
qed

text \<open>The resources that the scan removes, if no network security group comes first.\<close>

definition network_resource :: "json \<Rightarrow> bool" where
  "network_resource r \<longleftrightarrow> has_type rtResourceType r \<or> has_type vnetResourceType r \<or>
     has_type vmasResourceType r \<or> cluster_nsg r"

lemma strip_resource_same:
  assumes "strip_resource u r = Inr r'"
  shows "has_type ty r' = has_type ty r" and "named v r' = named v r" and "is_obj r' = is_obj r"
proof -
  have "has_type ty r' = has_type ty r \<and> named v r' = named v r \<and> is_obj r' = is_obj r"
  proof (cases r)
    case (JObj m)
    then obtain m' where "strip_dependsOn u m = Inr m'" "r' = JObj m'"
      using assms by (auto simp: strip_resource_def bindR_Inr_iff)
    then show ?thesis
      using JObj strip_dependsOn_Inr(2) [of u m m'] by (simp add: has_type_def)
  qed (use assms in \<open>simp_all add: strip_resource_def has_type_def\<close>)
  then show "has_type ty r' = has_type ty r" "named v r' = named v r" "is_obj r' = is_obj r"
    by simp_all
qed

lemma strip_resource_JObj: "strip_resource u r = Inr (JObj m) \<Longrightarrow> \<exists>m0. strip_dependsOn u m0 = Inr m"
  by (cases r) (auto simp: strip_resource_def bindR_Inr_iff)

lemma network_resource_same:
  "strip_resource u r = Inr r' \<Longrightarrow> network_resource r' = network_resource r"
  by (simp add: network_resource_def cluster_nsg_def strip_resource_same)

lemma indexes_of_list_all2:
  assumes "list_all2 (\<lambda>x y. P x = Q y) xs ys"
  shows "indexes_of P xs = indexes_of Q ys"
  using assms unfolding indexes_of_def
  by (intro filter_cong) (auto simp: list_all2_conv_all_nth)

lemma vmas_removed:
  assumes inv: "scan_inv rs st" and "rs = [] \<or> \<not> cluster_nsg (hd rs)"
  shows "removeIndexesFromArray (seen st) (vmas_indexesToRemove st) =
    Inr (filter (\<lambda>r. \<not> network_resource r) (seen st))"
proof (rule removeIndexes_filter)
  have "list_all2 (\<lambda>x y. strip_resource vmas_unwanted_dep x = Inr y) rs (seen st)"
    using inv by (simp add: scan_inv_def mapR_Inr_iff)
  then have same: "indexes_of network_resource rs = indexes_of network_resource (seen st)"
    using network_resource_same by (intro indexes_of_list_all2) (auto elim: list_all2_mono)
  have "nsgIndex st \<noteq> 0"
  proof
    assume "nsgIndex st = 0"
    then have "indexes_of cluster_nsg rs = [0]" using inv by (simp add: scan_inv_def index_list_def)
    then have "0 < length rs" "cluster_nsg (rs ! 0)"
      using set_indexes_of [of 0 cluster_nsg rs] by simp_all
    then show False using assms(2) by (cases rs) auto
  qed
  then have "(if nsgIndex st > 0 then [nat (nsgIndex st)] else []) = indexes_of cluster_nsg rs"
    using inv by (auto simp: scan_inv_def index_list_def)
  then have ix: "vmas_indexesToRemove st =
      indexes_of (has_type rtResourceType) rs @ indexes_of (has_type vnetResourceType) rs @
      indexes_of (has_type vmasResourceType) rs @ indexes_of cluster_nsg rs"
    using inv by (auto simp: vmas_indexesToRemove_def scan_inv_def index_list_def)
  show "set (vmas_indexesToRemove st) = set (indexes_of network_resource (seen st))"
    unfolding ix same [symmetric] by (auto simp: set_indexes_of network_resource_def)
  have "\<not> (has_type t1 r \<and> has_type t2 r)" if "t1 \<noteq> t2" for t1 t2 r
    using that by (auto simp: has_type_def split: json.splits)
  then show "distinct (vmas_indexesToRemove st)"
    unfolding ix using types_differ by (auto simp: set_indexes_of cluster_nsg_def)
qed

lemma get_arr_update [simp]: "get_arr (AList.update k (JArr xs) t) k = Some xs"
  by (simp add: get_arr_def obj_simps)

lemma NormalizeForK8sVMASScalingUp_result:
  assumes "NormalizeForK8sVMASScalingUp t = Inr t'"
    and t1: "RemoveResourcesAndOutputsForScaling t = Inr t1" and rs: "get_arr t1 ''resources'' = Some rs"
    and "rs = [] \<or> \<not> cluster_nsg (hd rs)"
  shows "\<exists>ss. mapR (strip_resource vmas_unwanted_dep) rs = Inr ss \<and>
    t' = AList.update ''resources'' (JArr (filter (\<lambda>r. \<not> network_resource r) ss)) t1"
proof -
  obtain st where st: "foldR vmas_step scan_init rs = Inr st"
      and "bindR (removeIndexesFromArray (seen st) (vmas_indexesToRemove st))
        (\<lambda>rs. Inr (AList.update ''resources'' (JArr rs) t1)) = Inr t'"
    using assms(1) t1 rs
    by (auto simp: NormalizeForK8sVMASScalingUp_def template_resources_def bindR_Inr_iff)
  then show ?thesis
    using vmas_removed [OF vmas_scan [OF st] assms(4)] vmas_scan [OF st]
    by (simp add: scan_inv_def)
qed

subsection \<open>What the upgrade steps leave\<close>

text \<open>The resource types are also different from the virtual machine type when case is ignored.\<close>

lemma master_types_fold: "distinct (map to_lower master_types)"
  by code_simp

lemma fold_types:
  assumes "ty \<in> set master_types" and "ty' \<in> set master_types"
  shows "equal_fold ty ty' \<longleftrightarrow> ty = ty'"
  using master_types_fold assms by (auto simp: equal_fold_def distinct_map inj_on_def)

lemma agent_types_sub: "set agent_types \<subseteq> set master_types"
  by (auto simp: agent_types_def master_types_def)

lemma removeVMAS_Inr:
  assumes "removeVMAS ty m = Inr (gone, m')" and "k \<noteq> ''dependsOn''"
  shows "map_of m' k = map_of m k"
  using assms by (auto simp: removeVMAS_def bindR_Inr_iff obj_simps split: if_splits)

lemma map_of_set_deps: "k \<noteq> ''dependsOn'' \<Longrightarrow> map_of (set_deps ds m) k = map_of m k"
  by (simp add: set_deps_def obj_simps)

lemma map_of_strip:
  "strip_dependsOn u m = Inr m' \<Longrightarrow> k \<noteq> ''dependsOn'' \<Longrightarrow> map_of m' k = map_of m k"
  by (auto simp: strip_dependsOn_def bindR_Inr_iff map_of_set_deps split: option.splits)

lemma map_of_nsg:
  "RemoveNsgDependency n m = Inr m' \<Longrightarrow> k \<noteq> ''dependsOn'' \<Longrightarrow> map_of m' k = map_of m k"
  by (auto simp: RemoveNsgDependency_def map_of_strip split: if_splits)

lemma map_of_attach:
  "attach_data_disk b m = Inr m' \<Longrightarrow> k \<noteq> ''properties'' \<Longrightarrow> map_of m' k = map_of m k"
  by (auto simp: attach_data_disk_def obj_simps split: option.splits list.splits json.splits)

lemma get_str_cong: "map_of m k = map_of m' k \<Longrightarrow> get_str m k = get_str m' k"
  by (simp add: get_str_def)

text \<open>A resource that the agent step leaves was not dropped by either test.\<close>

lemma agent_step_kept:
  assumes "agent_step pools ri = Inr out" and "JObj m \<in> set out"
    and "get_str m ''type'' = Some ty" and "ty \<in> set agent_types" and "get_str m ''name'' = Some n"
  shows "ty \<noteq> vmasResourceType \<and> \<not> control_plane_drops ty n \<and>
    (ty \<in> {vmResourceType, roleResourceType, vmExtensionType, storageAccountsResourceType, nicResourceType}
       \<longrightarrow> preserved pools n)"
proof (cases ri)
  case (JObj m0)
  have "\<exists>ty0. get_str m0 ''type'' = Some ty0 \<and> ty0 \<in> set agent_types"
    using assms JObj by (auto simp: agent_step_def split: option.splits if_splits)
  then obtain ty0 where ty0: "get_str m0 ''type'' = Some ty0" "ty0 \<in> set agent_types" by blast
  then obtain gone m1 where rm: "removeVMAS ty0 m0 = Inr (gone, m1)"
    using assms(1) JObj by (auto simp: agent_step_def bindR_Inr_iff)
  have n1: "get_str m1 ''type'' = Some ty0" "get_str m1 ''name'' = get_str m0 ''name''"
    using get_str_cong [OF removeVMAS_Inr [OF rm, of "''type''"]]
      get_str_cong [OF removeVMAS_Inr [OF rm, of "''name''"]] ty0 by simp_all
  show ?thesis
  proof (cases "get_str m1 ''name''")
    case None
    then have "out = (if gone then [] else [JObj m1])"
      using assms(1) JObj ty0 rm by (simp add: agent_step_def)
    then show ?thesis using assms(2,5) None by (auto split: if_splits)
  next
    case (Some n0)
    then have nd: "\<not> control_plane_drops ty0 n0"
      using assms(1,2) JObj ty0 rm by (auto simp: agent_step_def)
    then obtain m2 where m2: "(if ty0 = vnetResourceType then RemoveNsgDependency n0 m1 else Inr m1) = Inr m2"
        and out: "out = (if (ty0 = vmResourceType \<or> ty0 = roleResourceType \<or> ty0 = vmExtensionType \<or>
             ty0 = storageAccountsResourceType \<or> ty0 = nicResourceType) \<and> \<not> preserved pools n0
           then [] else (if gone then [] else [JObj m2]))"
      using assms(1) JObj ty0 rm Some by (auto simp: agent_step_def bindR_Inr_iff split: if_splits)
    then have "m = m2" "\<not> gone" using assms(2) by (auto split: if_splits)
    have "map_of m2 k = map_of m1 k" if "k \<noteq> ''dependsOn''" for k
      using m2 map_of_nsg that by (auto split: if_splits)
    then have "ty = ty0" "n = n0"
      using assms(3,5) n1 Some \<open>m = m2\<close> get_str_cong [of m2 _ m1] by auto
    have "ty \<noteq> vmasResourceType"
      using rm \<open>\<not> gone\<close> unfolding \<open>ty = ty0\<close> by (auto simp: removeVMAS_def)
    then show ?thesis
      using nd out assms(2) unfolding \<open>ty = ty0\<close> \<open>n = n0\<close> by (auto split: if_splits)
  qed
qed (use assms in \<open>auto simp: agent_step_def\<close>)

lemma master_step_kept:
  assumes "master_step b ri = Inr out" and "JObj m \<in> set out"
    and "get_str m ''type'' = Some ty" and "ty \<in> set master_types" and "get_str m ''name'' = Some n"
  shows "ty \<noteq> vmasResourceType \<and> \<not> master_drops ty n \<and>
    (ty = vmResourceType \<longrightarrow> (\<exists>m1. attach_data_disk b m1 = Inr m))"
proof (cases ri)
  case (JObj m0)
  have "\<exists>ty0. get_str m0 ''type'' = Some ty0 \<and> ty0 \<in> set master_types"
    using assms JObj by (auto simp: master_step_def split: option.splits if_splits)
  then obtain ty0 where ty0: "get_str m0 ''type'' = Some ty0" "ty0 \<in> set master_types" by blast
  then obtain gone m1 where rm: "removeVMAS ty0 m0 = Inr (gone, m1)"
    using assms(1) JObj by (auto simp: master_step_def bindR_Inr_iff)
  have n1: "get_str m1 ''type'' = Some ty0"
    using get_str_cong [OF removeVMAS_Inr [OF rm, of "''type''"]] ty0 by simp
  show ?thesis
  proof (cases "get_str m1 ''name''")
    case None
    then have "out = (if gone then [] else [JObj m1])"
      using assms(1) JObj ty0 rm by (simp add: master_step_def)
    then show ?thesis using assms(2,5) None by (auto split: if_splits)
  next
    case (Some n0)
    then have nd: "\<not> master_drops ty0 n0"
      using assms(1,2) JObj ty0 rm by (auto simp: master_step_def)
    let ?m1 = "if ty0 = nicResourceType then AList.delete ''dependsOn'' m1 else m1"
    have vm: "equal_fold ty0 vmResourceType \<longleftrightarrow> ty0 = vmResourceType"
      using fold_types [OF ty0(2), of vmResourceType] by (simp add: master_types_def)
    have full: "ty0 = vmResourceType \<Longrightarrow> contains n0 (var_full ''masterVMNamePrefix'')"
      using nd by (auto simp: master_drops_def)
    obtain m2 where m2: "(if ty0 = vmssResourceType \<or> ty0 = vnetResourceType then RemoveNsgDependency n0 ?m1
          else if ty0 = vmResourceType then attach_data_disk b ?m1 else Inr ?m1) = Inr m2"
        and out: "out = (if gone then [] else [JObj m2])"
      using assms(1) JObj ty0 rm Some nd vm full
      by (auto simp: master_step_def bindR_Inr_iff Let_def split: if_splits)
    then have "m = m2" "\<not> gone" using assms(2) by (auto split: if_splits)
    have keep: "map_of m2 k = map_of m1 k" if "k \<noteq> ''dependsOn''" "k \<noteq> ''properties''" for k
      using m2 that by (auto simp: map_of_nsg map_of_attach obj_simps split: if_splits)
    then have "ty = ty0" "n = n0"
      using assms(3,5) n1 Some \<open>m = m2\<close> get_str_cong [of m2 _ m1] by auto
    have "ty \<noteq> vmasResourceType"
      using rm \<open>\<not> gone\<close> unfolding \<open>ty = ty0\<close> by (auto simp: removeVMAS_def)
    moreover have "ty = vmResourceType \<longrightarrow> (\<exists>m1. attach_data_disk b m1 = Inr m)"
      using m2 unfolding \<open>ty = ty0\<close> \<open>m = m2\<close> by (auto simp: type_defs split: if_splits)
    ultimately show ?thesis using nd unfolding \<open>ty = ty0\<close> \<open>n = n0\<close> by blast
  qed
qed (use assms in \<open>auto simp: master_step_def\<close>)

text \<open>The first data disk of a VM that passed \<open>attach_data_disk\<close>.\<close>

definition first_disk_attached :: "bool \<Rightarrow> obj \<Rightarrow> bool" where
  "first_disk_attached managed m \<longleftrightarrow>
     (\<forall>ps sp d rest. get_obj m ''properties'' = Some ps \<longrightarrow> get_obj ps ''storageProfile'' = Some sp \<longrightarrow>
        get_arr sp ''dataDisks'' = Some (JObj d # rest) \<longrightarrow>
        get_str d ''createOption'' = Some ''attach'' \<and>
        (managed \<longrightarrow> map_of d ''managedDisk'' = Some (JManagedDisk etcd_disk_id)))"

lemma get_obj_update [simp]: "get_obj (AList.update k (JObj m) t) k = Some m"
  by (simp add: get_obj_def obj_simps)

lemma attach_disk_fields:
  "get_str (attach_disk b d) ''createOption'' = Some ''attach''"
  "b \<Longrightarrow> map_of (attach_disk b d) ''managedDisk'' = Some (JManagedDisk etcd_disk_id)"
  by (cases b; simp add: attach_disk_def get_str_def obj_simps)+

lemma attach_attached: "attach_data_disk b m = Inr m' \<Longrightarrow> first_disk_attached b m'"
  by (auto simp: attach_data_disk_def first_disk_attached_def attach_disk_fields
      split: option.splits list.splits json.splits)

subsection \<open>Properties\<close>

text \<open>
  Removing a set of indexes from the resource array, largest first, never goes out of range and
  leaves exactly the elements at the other positions in their order.\<close>

theorem remove_indexes_reference:
  assumes "distinct is" and "\<forall>i \<in> set is. i < length xs"
  shows "removeIndexesFromArray xs is = Inr (nths xs (- set is))"
  by (rule removeIndexes_nths [OF assms])

theorem remove_indexes_reference_witness:
  "removeIndexesFromArray [JNum 0, JNum 1, JNum 2, JNum 3] [2, 0] = Inr [JNum 1, JNum 3]"
  using remove_indexes_reference [of "[2, 0]" "[JNum 0, JNum 1, JNum 2, JNum 3]"]
  by (simp add: nths_Cons)

text \<open>
  Removing the jumpbox takes away exactly the resources whose name refers to the jumpbox; it
  panics only without a resource array and fails only if a resource is not an object.\<close>

theorem remove_jumpbox_exact:
  "RemoveJumpboxResourcesFromTemplate t =
     (case get_arr t ''resources'' of
        None \<Rightarrow> Inl (Panic ''interface conversion'')
      | Some rs \<Rightarrow>
          if list_all is_obj rs
          then Inr (AList.update ''resources'' (JArr (filter (\<lambda>r. \<not> named jumpbox_name r) rs)) t)
          else Inl (Err ''Template improperly formatted for resource''))"
  unfolding RemoveJumpboxResourcesFromTemplate_def by (rule remove_named_char)

text \<open>
  A scaled-up availability set deploys no route table, virtual network, availability set or
  cluster network security group again, deploys no control plane resource and no outputs, and no
  remaining resource depends on what was removed, provided the security group is not the first
  resource.\<close>

theorem vmas_scaling_result:
  assumes "NormalizeForK8sVMASScalingUp t = Inr t'"
    and "get_arr t ''resources'' = Some rs" and "\<forall>r \<in> set rs. \<not> named both_markers r"
    and "rs' = filter (\<lambda>r. \<not> named scaling_name r) rs" and "rs' = [] \<or> \<not> cluster_nsg (hd rs')"
  shows "\<exists>ss. mapR (strip_resource vmas_unwanted_dep) rs' = Inr ss \<and>
    get_arr t' ''resources'' = Some (filter (\<lambda>r. \<not> network_resource r) ss) \<and>
    map_of t' ''outputs'' = None \<and>
    (\<forall>m. JObj m \<in> set ss \<longrightarrow> strip_ok vmas_unwanted_dep m \<and> \<not> named scaling_name (JObj m))"
proof -
  let ?t1 = "AList.delete ''outputs'' (AList.update ''resources'' (JArr rs') t)"
  have t1: "RemoveResourcesAndOutputsForScaling t = Inr ?t1"
    using RemoveResourcesAndOutputsForScaling_char [OF assms(2,3)] assms(4) by simp
  have rs': "get_arr ?t1 ''resources'' = Some rs'" by (simp add: get_arr_def obj_simps)
  obtain ss where ss: "mapR (strip_resource vmas_unwanted_dep) rs' = Inr ss"
      and t': "t' = AList.update ''resources'' (JArr (filter (\<lambda>r. \<not> network_resource r) ss)) ?t1"
    using NormalizeForK8sVMASScalingUp_result [OF assms(1) t1 rs' assms(5)] by blast
  have "strip_ok vmas_unwanted_dep m \<and> \<not> named scaling_name (JObj m)" if mem: "JObj m \<in> set ss" for m
  proof -
    obtain r where r: "r \<in> set rs'" "strip_resource vmas_unwanted_dep r = Inr (JObj m)"
      using mapR_set [OF ss mem] by blast
    then obtain m0 where "strip_dependsOn vmas_unwanted_dep m0 = Inr m"
      using strip_resource_JObj by blast
    then have "strip_ok vmas_unwanted_dep m" by (rule strip_dependsOn_Inr)
    moreover have "\<not> named scaling_name (JObj m)"
      using strip_resource_same(2) [OF r(2)] r(1) assms(4) by simp
    ultimately show ?thesis by blast
  qed
  moreover have "map_of t' ''outputs'' = None" using t' by (simp add: obj_simps)
  ultimately show ?thesis using ss t' by (intro exI [of _ ss]) simp
qed

definition example_resource :: "string \<Rightarrow> string \<Rightarrow> string list \<Rightarrow> json" where
  "example_resource ty n deps =
     JObj [(''type'', JStr ty), (''name'', JStr n), (''dependsOn'', JArr (map JStr deps))]"

definition example_template :: obj where
  "example_template = [(''resources'', JArr
     [example_resource rtResourceType ''rt'' [],
      example_resource vmResourceType (var_full ''pool1VMNamePrefix'') [''nic'', ''vnetID''],
      example_resource vmResourceType (var_full ''masterVMNamePrefix'') [''nic'']])]"

theorem vmas_scaling_result_witness:
  "\<exists>t'. NormalizeForK8sVMASScalingUp example_template = Inr t' \<and> map_of t' ''outputs'' = None"
proof -
  have "NormalizeForK8sVMASScalingUp example_template = Inr [(''resources'', JArr
      [example_resource vmResourceType (var_full ''pool1VMNamePrefix'') [''nic'']])]"
    by code_simp
  moreover have "get_arr example_template ''resources'' = Some
     [example_resource rtResourceType ''rt'' [],
      example_resource vmResourceType (var_full ''pool1VMNamePrefix'') [''nic'', ''vnetID''],
      example_resource vmResourceType (var_full ''masterVMNamePrefix'') [''nic'']]"
    by (simp add: example_template_def get_arr_def)
  moreover have "list_all (\<lambda>r. \<not> named both_markers r)
     [example_resource rtResourceType ''rt'' [],
      example_resource vmResourceType (var_full ''pool1VMNamePrefix'') [''nic'', ''vnetID''],
      example_resource vmResourceType (var_full ''masterVMNamePrefix'') [''nic'']]"
    by code_simp
  moreover have "filter (\<lambda>r. \<not> named scaling_name r)
     [example_resource rtResourceType ''rt'' [],
      example_resource vmResourceType (var_full ''pool1VMNamePrefix'') [''nic'', ''vnetID''],
      example_resource vmResourceType (var_full ''masterVMNamePrefix'') [''nic'']] =
     [example_resource rtResourceType ''rt'' [],
      example_resource vmResourceType (var_full ''pool1VMNamePrefix'') [''nic'', ''vnetID'']]"
    by code_simp
  moreover have "\<not> cluster_nsg (example_resource rtResourceType ''rt'' [])"
    by code_simp
  ultimately show ?thesis
    using vmas_scaling_result [of example_template] unfolding list_all_iff by fastforce
qed


definition example_vm :: obj where
  "example_vm = [(''type'', JStr vmResourceType), (''name'', JStr (var_full ''masterVMNamePrefix'')),
     (''properties'', JObj [(''storageProfile'', JObj [(''dataDisks'', JArr [JObj []])])])]"


lemma agent_upgrade_filtered:
  assumes "mapR (agent_step pools) rs0 = Inr outs" and "JObj m \<in> set (concat outs)"
    and "get_str m ''type'' = Some ty" "ty \<in> set agent_types" "get_str m ''name'' = Some n"
  shows "ty \<noteq> vmasResourceType \<and> \<not> control_plane_drops ty n \<and>
    (ty \<in> {vmResourceType, roleResourceType, vmExtensionType, storageAccountsResourceType, nicResourceType}
       \<longrightarrow> preserved pools n)"
proof -
  obtain out where "out \<in> set outs" "JObj m \<in> set out" using assms(2) by auto
  then obtain r where "JObj m \<in> set out" "agent_step pools r = Inr out"
    using mapR_set [OF assms(1)] by blast
  then show ?thesis using agent_step_kept [OF _ _ assms(3-5)] by blast
qed

lemma remove_at_sub: "remove_at i xs = Inr ys \<Longrightarrow> set ys \<subseteq> set xs"
  using set_take_subset [of i xs] set_drop_subset [of "Suc i" xs]
  by (auto simp: remove_at_def split: if_splits)

lemma removeIndexes_sub: "removeIndexesFromArray xs is = Inr ys \<Longrightarrow> set ys \<subseteq> set xs"
  unfolding removeIndexesFromArray_def
  by (rule foldR_invariant [where I = "\<lambda>a. set a \<subseteq> set xs"]) (use remove_at_sub in blast)+

lemma vmas_scaling_sources:
  assumes "NormalizeForK8sVMASScalingUp t = Inr t'" and "get_arr t ''resources'' = Some rs0"
    and "get_arr t' ''resources'' = Some rs" and "JObj m \<in> set rs"
  shows "\<exists>m0. JObj m0 \<in> set rs0 \<and> (\<forall>k. k \<noteq> ''dependsOn'' \<longrightarrow> get_str m k = get_str m0 k)"
proof -
  obtain t1 rs1 st ys where t1: "RemoveResourcesAndOutputsForScaling t = Inr t1"
      and rs1: "get_arr t1 ''resources'' = Some rs1" and st: "foldR vmas_step scan_init rs1 = Inr st"
      and ys: "removeIndexesFromArray (seen st) (vmas_indexesToRemove st) = Inr ys"
      and t': "t' = AList.update ''resources'' (JArr ys) t1"
    using assms(1)
    by (auto simp: NormalizeForK8sVMASScalingUp_def template_resources_def bindR_Inr_iff must_Inr)
  obtain zs where "removeIndexesFromArray rs0 (scaling_indexes 0 rs0) = Inr zs"
      and "t1 = AList.delete ''outputs'' (AList.update ''resources'' (JArr zs) t)"
    using t1 assms(2)
    by (auto simp: RemoveResourcesAndOutputsForScaling_def template_resources_def bindR_Inr_iff)
  then have "set rs1 \<subseteq> set rs0"
    using rs1 removeIndexes_sub by (fastforce simp: get_arr_def obj_simps)
  moreover have "JObj m \<in> set (seen st)"
    using removeIndexes_sub [OF ys] t' assms(3,4) by auto
  moreover have strip: "mapR (strip_resource vmas_unwanted_dep) rs1 = Inr (seen st)"
    using vmas_scan [OF st] by (simp add: scan_inv_def)
  ultimately obtain r where r: "r \<in> set rs0" "strip_resource vmas_unwanted_dep r = Inr (JObj m)"
    using mapR_set [OF strip, of "JObj m"] by blast
  obtain m0 where "r = JObj m0" "strip_dependsOn vmas_unwanted_dep m0 = Inr m"
    using r(2) by (cases r) (auto simp: strip_resource_def bindR_Inr_iff)
  then show ?thesis using r(1) strip_dependsOn_Inr(2) by blast
qed



text \<open>
  The pool test compares prefixes: while pool \<open>p\<close> is upgraded, the VMs of every pool whose name
  starts with \<open>p\<close> stay in the template too, for instance those of pool10 in an upgrade of pool1.\<close>

theorem agent_upgrade_pool_prefix:
  "preserved [(p, True)] (var_ref (p @ q) @ r) \<and>
   NormalizeResourcesForK8sAgentUpgrade True [(''pool1'', True)]
     [(''resources'', JArr [example_resource vmResourceType (var_full ''pool10VMNamePrefix'') [''nic'']])] =
   Inr [(''resources'', JArr [JObj [(''type'', JStr vmResourceType),
     (''name'', JStr (var_full ''pool10VMNamePrefix'')), (''dependsOn'', JStrings [''nic''])]])]"
proof
  have "var_ref (p @ q) @ r = [] @ var_ref p @ (q @ r)" by (simp add: var_ref_def)
  then show "preserved [(p, True)] (var_ref (p @ q) @ r)"
    unfolding preserved_def by (simp add: contains_iff) blast
  show "NormalizeResourcesForK8sAgentUpgrade True [(''pool1'', True)]
     [(''resources'', JArr [example_resource vmResourceType (var_full ''pool10VMNamePrefix'') [''nic'']])] =
   Inr [(''resources'', JArr [JObj [(''type'', JStr vmResourceType),
     (''name'', JStr (var_full ''pool10VMNamePrefix'')), (''dependsOn'', JStrings [''nic''])]])]"
    by code_simp
qed

text \<open>
  Two cases the scaling transformations miss: a network security group that is the first
  resource is deployed again, and a resource whose name has both markers takes its right neighbour
  with it.\<close>

theorem scaling_misses:
  "NormalizeForK8sVMASScalingUp
     [(''resources'', JArr [example_resource nsgResourceType (var_full ''nsgName'') [''x'']])] =
   Inr [(''resources'', JArr [example_resource nsgResourceType (var_full ''nsgName'') [''x'']])] \<and>
   RemoveResourcesAndOutputsForScaling
     [(''resources'', JArr [example_resource nicResourceType
         (var_full ''masterVMNamePrefix'' @ var_full ''agentPublicIPAddressName'') [''x''],
       example_resource vmResourceType (var_full ''pool1VMNamePrefix'') [''nic'']])] =
   Inr [(''resources'', JArr [])]"
  by (rule conjI; code_simp)

text \<open>
  The agent upgrade replaces the dependencies of a VM by a slice of Go strings, which the scaling
  transformation that follows does not recognise: a VM's dependency on the removed network stays.\<close>

theorem agent_upgrade_keeps_network_dependency:
  "NormalizeResourcesForK8sAgentUpgrade True [(''pool1'', True)]
     [(''resources'', JArr [example_resource vmResourceType (var_full ''pool1VMNamePrefix'') [''vnetID'']])] =
   Inr [(''resources'', JArr [JObj [(''type'', JStr vmResourceType),
     (''name'', JStr (var_full ''pool1VMNamePrefix'')), (''dependsOn'', JStrings [''vnetID''])]])] \<and>
   vmas_unwanted_dep ''vnetID''"
  by (rule conjI; code_simp)

end
