(* ===== verification/Regex.thy ===== *)
theory Regex
  imports GoBase
begin

section \<open>Regular expressions (package regexp)\<close>

text \<open>
  Package regexp picks, among the matches that start leftmost, the one that a backtracking engine
  would have found first. \<open>rx\<close> is that engine as a list of successes: all matches of an
  expression at the start of a string in the order of preference, each with the captured groups
  and the rest of the string. Greedy repetition therefore lists longer matches first.
  Repetition is of one character class, which is what the patterns of the naming code use.
  An anchored pattern \<open>^...$\<close> is matched at the start only and ends with \<open>End\<close>.
\<close>

datatype re =
    Eps
  | Cls "char \<Rightarrow> bool"
  | CRep "char \<Rightarrow> bool" nat "nat option"
  | Seq re re
  | Alt re re
  | Grp re
  | End

text \<open>What is left after each greedy repetition of a class, between \<open>lo\<close> and \<open>hi\<close> times.\<close>

fun crep :: "(char \<Rightarrow> bool) \<Rightarrow> nat \<Rightarrow> nat option \<Rightarrow> string \<Rightarrow> string list" where
  "crep p lo hi [] = (if lo = 0 then [[]] else [])"
| "crep p lo hi (c # cs) =
     (if p c \<and> hi \<noteq> Some 0 then crep p (lo - 1) (map_option (\<lambda>h. h - 1) hi) cs else [])
     @ (if lo = 0 then [c # cs] else [])"

fun rx :: "re \<Rightarrow> string \<Rightarrow> (string list \<times> string) list" where
  "rx Eps s = [([], s)]"
| "rx (Cls p) s = (case s of [] \<Rightarrow> [] | c # cs \<Rightarrow> if p c then [([], cs)] else [])"
| "rx (CRep p lo hi) s = map (\<lambda>r. ([], r)) (crep p lo hi s)"
| "rx (Seq a b) s = concat (map (\<lambda>(g, r). map (\<lambda>(g', r'). (g @ g', r')) (rx b r)) (rx a s))"
| "rx (Alt a b) s = rx a s @ rx b s"
| "rx (Grp a) s = map (\<lambda>(g, r). (take (length s - length r) s # g, r)) (rx a s)"
| "rx End s = (if s = [] then [([], [])] else [])"

definition find_submatch :: "re \<Rightarrow> string \<Rightarrow> string list option" where
  "find_submatch r s = (case rx r s of [] \<Rightarrow> None | (g, _) # _ \<Rightarrow> Some g)"

definition match_string :: "re \<Rightarrow> string \<Rightarrow> bool" where
  "match_string r s \<longleftrightarrow> rx r s \<noteq> []"

text \<open>The concatenation of a list of expressions, and a literal.\<close>

definition seqs :: "re list \<Rightarrow> re" where
  "seqs rs = foldr Seq rs Eps"

definition lit :: "char \<Rightarrow> re" where
  "lit c = Cls (\<lambda>x. x = c)"

subsection \<open>Matches as sets\<close>

lemma set_crep:
  "r \<in> set (crep p lo hi s) \<longleftrightarrow>
     (\<exists>w. s = w @ r \<and> list_all p w \<and> lo \<le> length w \<and> (\<forall>h. hi = Some h \<longrightarrow> length w \<le> h))"
proof (induction s arbitrary: lo hi)
  case Nil
  show ?case by auto
next
  case (Cons c cs)
  have IH: "r \<in> set (crep p (lo - 1) (map_option (\<lambda>h. h - 1) hi) cs) \<longleftrightarrow>
     (\<exists>w. cs = w @ r \<and> list_all p w \<and> lo - 1 \<le> length w \<and>
       (\<forall>h. map_option (\<lambda>h. h - 1) hi = Some h \<longrightarrow> length w \<le> h))"
    by (rule Cons.IH)
  show ?case
  proof
    assume "r \<in> set (crep p lo hi (c # cs))"
    then consider (empty) "lo = 0" "r = c # cs"
      | (step) "p c" "hi \<noteq> Some 0" "r \<in> set (crep p (lo - 1) (map_option (\<lambda>h. h - 1) hi) cs)"
      by (auto split: if_splits)
    then show "\<exists>w. c # cs = w @ r \<and> list_all p w \<and> lo \<le> length w \<and> (\<forall>h. hi = Some h \<longrightarrow> length w \<le> h)"
    proof cases
      case empty
      then show ?thesis by (intro exI [of _ "[]"]) simp
    next
      case step
      then obtain w where w: "cs = w @ r" "list_all p w" "lo - 1 \<le> length w"
          "\<forall>h. map_option (\<lambda>h. h - 1) hi = Some h \<longrightarrow> length w \<le> h"
        using IH by blast
      show ?thesis
        using w step by (intro exI [of _ "c # w"]) (cases hi; auto)
    qed
  next
    assume "\<exists>w. c # cs = w @ r \<and> list_all p w \<and> lo \<le> length w \<and> (\<forall>h. hi = Some h \<longrightarrow> length w \<le> h)"
    then obtain w where w: "c # cs = w @ r" "list_all p w" "lo \<le> length w"
        "\<forall>h. hi = Some h \<longrightarrow> length w \<le> h" by blast
    show "r \<in> set (crep p lo hi (c # cs))"
    proof (cases w)
      case Nil
      then have "r = c # cs" "lo = 0" using w by auto
      then show ?thesis by simp
    next
      case (Cons x v)
      then have "r \<in> set (crep p (lo - 1) (map_option (\<lambda>h. h - 1) hi) cs)"
        using w IH by (intro IH [THEN iffD2] exI [of _ v]) (cases hi; auto)
      moreover have "p c" "hi \<noteq> Some 0" using w Cons by auto
      ultimately show ?thesis by simp
    qed
  qed
qed

lemma set_rx_Seq:
  "(g, r) \<in> set (rx (Seq a b) s) \<longleftrightarrow>
     (\<exists>g1 r1 g2. (g1, r1) \<in> set (rx a s) \<and> (g2, r) \<in> set (rx b r1) \<and> g = g1 @ g2)"
  by force

text \<open>Every match splits the string into what was matched and the rest.\<close>

lemma rx_suffix: "(g, r) \<in> set (rx e s) \<Longrightarrow> \<exists>w. s = w @ r"
proof (induction e arbitrary: g r s)
  case (CRep p lo hi)
  then show ?case by (auto simp: set_crep)
next
  case (Seq a b)
  then show ?case unfolding set_rx_Seq by (metis append.assoc)
next
  case (Grp a)
  then show ?case by (force simp: case_prod_beta)
qed (auto split: list.splits if_splits)

lemma set_rx_CRep:
  "(g, r) \<in> set (rx (CRep p lo hi) s) \<longleftrightarrow>
     g = [] \<and> (\<exists>w. s = w @ r \<and> list_all p w \<and> lo \<le> length w \<and> (\<forall>h. hi = Some h \<longrightarrow> length w \<le> h))"
  by (auto simp: set_crep [symmetric] image_iff)

lemma set_rx_Grp_CRep:
  "(g, r) \<in> set (rx (Grp (CRep p lo hi)) s) \<longleftrightarrow>
     (\<exists>w. g = [w] \<and> s = w @ r \<and> list_all p w \<and> lo \<le> length w \<and> (\<forall>h. hi = Some h \<longrightarrow> length w \<le> h))"
proof
  assume "(g, r) \<in> set (rx (Grp (CRep p lo hi)) s)"
  then have "g = [take (length s - length r) s]" "r \<in> set (crep p lo hi s)" by auto
  then show "\<exists>w. g = [w] \<and> s = w @ r \<and> list_all p w \<and> lo \<le> length w \<and> (\<forall>h. hi = Some h \<longrightarrow> length w \<le> h)"
    by (auto simp: set_crep)
next
  assume "\<exists>w. g = [w] \<and> s = w @ r \<and> list_all p w \<and> lo \<le> length w \<and> (\<forall>h. hi = Some h \<longrightarrow> length w \<le> h)"
  then obtain w where w: "g = [w]" "s = w @ r" and "r \<in> set (crep p lo hi s)"
    by (auto simp: set_crep)
  then show "(g, r) \<in> set (rx (Grp (CRep p lo hi)) s)"
    by (force simp: image_iff)
qed

lemma set_rx_lit: "(g, r) \<in> set (rx (lit c) s) \<longleftrightarrow> g = [] \<and> s = c # r"
  by (auto simp: lit_def split: list.splits)

lemma set_rx_End: "(g, r) \<in> set (rx End s) \<longleftrightarrow> g = [] \<and> s = [] \<and> r = []"
  by auto

lemma set_rx_Eps: "(g, r) \<in> set (rx Eps s) \<longleftrightarrow> g = [] \<and> s = r"
  by auto

lemmas set_rx = set_rx_Seq set_rx_CRep set_rx_Grp_CRep set_rx_lit set_rx_End set_rx_Eps

text \<open>Introduction rules that follow a pattern written with \<open>seqs\<close> from left to right.\<close>

definition fits :: "(char \<Rightarrow> bool) \<Rightarrow> nat \<Rightarrow> nat option \<Rightarrow> string \<Rightarrow> bool" where
  "fits p lo hi w \<longleftrightarrow> list_all p w \<and> lo \<le> length w \<and> (\<forall>h. hi = Some h \<longrightarrow> length w \<le> h)"

lemma rx_seq_crepI:
  "fits p lo hi w \<Longrightarrow> (g, r) \<in> set (rx b s) \<Longrightarrow> (g, r) \<in> set (rx (Seq (CRep p lo hi) b) (w @ s))"
  unfolding set_rx_Seq set_rx_CRep fits_def by force

lemma rx_seq_grpI:
  "fits p lo hi w \<Longrightarrow> (g, r) \<in> set (rx b s) \<Longrightarrow>
     (w # g, r) \<in> set (rx (Seq (Grp (CRep p lo hi)) b) (w @ s))"
  unfolding set_rx_Seq set_rx_Grp_CRep fits_def by force

lemma rx_seq_litI: "(g, r) \<in> set (rx b s) \<Longrightarrow> (g, r) \<in> set (rx (Seq (lit c) b) (c # s))"
  unfolding set_rx_Seq set_rx_lit by force

lemma rx_seq_endI: "([], []) \<in> set (rx (Seq End Eps) [])"
  by simp

lemma rx_seq_grp_endI:
  "fits p lo hi w \<Longrightarrow> ([w], []) \<in> set (rx (Seq (Grp (CRep p lo hi)) (Seq End Eps)) w)"
  using rx_seq_grpI [OF _ rx_seq_endI, of p lo hi w] by simp

lemmas rx_intros = rx_seq_crepI rx_seq_grp_endI rx_seq_grpI rx_seq_litI rx_seq_endI

text \<open>The same as equations, to take a match of a pattern apart.\<close>

lemma set_rx_seq_crep:
  "(g, r) \<in> set (rx (Seq (CRep p lo hi) b) s) \<longleftrightarrow>
     (\<exists>w t. s = w @ t \<and> fits p lo hi w \<and> (g, r) \<in> set (rx b t))"
  unfolding set_rx_Seq set_rx_CRep fits_def by force

lemma set_rx_seq_grp:
  "(g, r) \<in> set (rx (Seq (Grp (CRep p lo hi)) b) s) \<longleftrightarrow>
     (\<exists>w t h. s = w @ t \<and> g = w # h \<and> fits p lo hi w \<and> (h, r) \<in> set (rx b t))" (is "?L \<longleftrightarrow> ?R")
proof
  assume ?L
  then obtain w t h where "s = w @ t" "g = [w] @ h" "fits p lo hi w" "(h, r) \<in> set (rx b t)"
    unfolding set_rx_Seq set_rx_Grp_CRep fits_def by blast
  then show ?R by simp
qed (use rx_seq_grpI in blast)

lemma set_rx_seq_lit:
  "(g, r) \<in> set (rx (Seq (lit c) b) s) \<longleftrightarrow> (\<exists>t. s = c # t \<and> (g, r) \<in> set (rx b t))"
  unfolding set_rx_Seq set_rx_lit by force

lemma set_rx_seq_end:
  "(g, r) \<in> set (rx (Seq End Eps) s) \<longleftrightarrow> s = [] \<and> g = [] \<and> r = []"
  by auto

lemmas set_rx_seqs = set_rx_seq_crep set_rx_seq_grp set_rx_seq_lit set_rx_seq_end

lemma fitsD: "fits p lo hi w \<Longrightarrow> list_all p w" "fits p lo hi w \<Longrightarrow> lo \<le> length w"
  "fits p lo (Some h) w \<Longrightarrow> length w \<le> h"
  by (simp_all add: fits_def)

lemma fits_exact: "fits p k (Some k) w \<Longrightarrow> length w = k"
  by (simp add: fits_def)

text \<open>If all matches capture the same groups, the preferred match captures them.\<close>

lemma find_submatch_unique:
  assumes "(g, r) \<in> set (rx e s)" and "\<And>g' r'. (g', r') \<in> set (rx e s) \<Longrightarrow> g' = g"
  shows "find_submatch e s = Some g"
proof (cases "rx e s")
  case (Cons m ms)
  then show ?thesis using assms(2) [of "fst m" "snd m"] by (simp add: find_submatch_def case_prod_beta)
qed (use assms in simp)

lemma find_submatch_SomeD: "find_submatch e s = Some g \<Longrightarrow> \<exists>r. (g, r) \<in> set (rx e s)"
  by (force simp: find_submatch_def split: list.splits)

lemma find_submatch_None: "find_submatch e s = None \<longleftrightarrow> rx e s = []"
  by (auto simp: find_submatch_def split: list.splits)

end
