(* ===== verification/VMNames.thy ===== *)
theory VMNames
  imports ClusterModel Regex "HOL-Library.Word"
begin

section \<open>Names of virtual machines (pkg/armhelpers/utils/util.go, pkg/api/types.go)\<close>

text \<open>
  The cluster derives every VM's name from the cluster id, its pool and its index, and the upgrade
  and scale operations read pool and index back from the names with regular expressions. The model
  has both directions. The cluster id is drawn from math/rand seeded with a hash of the DNS prefix;
  the generator is the parameter \<open>rnd\<close>, from the seed to the first \<open>Uint32\<close>. \<open>GetClusterID\<close> caches
  the id in the properties: callers that only read the id use its first component, and
  \<open>GetClusterID_cached\<close> shows that the cache does not change later answers.
\<close>

subsection \<open>The cluster id\<close>

unbundle bit_operations_syntax

definition fnv64a_step :: "64 word \<Rightarrow> char \<Rightarrow> 64 word" where
  "fnv64a_step h c = (h XOR word_of_nat (of_char c)) * 1099511628211"

definition fnv64a :: "string \<Rightarrow> 64 word" where
  "fnv64a s = foldl fnv64a_step 14695981039346656037 s"

definition pad0 :: "nat \<Rightarrow> string \<Rightarrow> string" where
  "pad0 w s = replicate (w - length s) (CHR ''0'') @ s"

type_synonym rand_source = "64 word \<Rightarrow> 32 word"

definition GetClusterID :: "rand_source \<Rightarrow> properties \<Rightarrow> string \<times> properties" where
  "GetClusterID rnd p =
     (if p_ClusterID p = '''' then
        (let seed = (case p_MasterProfile p of
                       Some m \<Rightarrow> fnv64a (mp_DNSPrefix m)
                     | None \<Rightarrow> (if length (pools p) > 0 then fnv64a (ap_Name (hd (pools p))) else fnv64a []));
             id = take 8 (pad0 8 (utoa (unat (rnd seed))))
         in (id, p\<lparr>p_ClusterID := id\<rparr>))
      else (p_ClusterID p, p))"

definition cluster_id :: "rand_source \<Rightarrow> properties \<Rightarrow> string" where
  "cluster_id rnd p = fst (GetClusterID rnd p)"

subsection \<open>From pools and indexes to names\<close>

definition GetMasterVMPrefix :: "rand_source \<Rightarrow> properties \<Rightarrow> string" where
  "GetMasterVMPrefix rnd p = K8sOrchestratorName p @ ''-master-'' @ cluster_id rnd p @ ''-''"

definition GetMasterVMNameList :: "rand_source \<Rightarrow> properties \<Rightarrow> string list result" where
  "GetMasterVMNameList rnd p =
     bindR (deref (p_MasterProfile p)) (\<lambda>m.
       Inr (map (\<lambda>i. if MasterProfile_IsAvailabilitySet m
                      then GetMasterVMPrefix rnd p @ utoa i
                      else GetMasterVMPrefix rnd p @ ''vmss00000'' @ utoa i)
              [0..<nat (mp_Count m)]))"

definition GetAgentVMPrefix :: "rand_source \<Rightarrow> properties \<Rightarrow> agent_pool_profile \<Rightarrow> int \<Rightarrow> string result" where
  "GetAgentVMPrefix rnd p a index =
     (if IsVirtualMachineScaleSets a \<and> ap_VMSSName a \<noteq> '''' then Inr (ap_VMSSName a)
      else (let nameSuffix = cluster_id rnd p in
        if IsLinux a \<or> ap_OSType a = '''' then
          Inr (K8sOrchestratorName p @ ''-'' @ ap_Name a @ ''-'' @ nameSuffix @ ''-'' @
               (if IsVirtualMachineScaleSets a then ''vmss'' else ''''))
        else if IsWindows a \<and> index \<noteq> - 1 then
          (if length nameSuffix < 4 then Inl (Panic ''slice bounds out of range'')
           else Inr (take 4 nameSuffix @ K8sOrchestratorName p @
                  (if index < 0 then itoa index else pad0 2 (utoa (nat index)))))
        else Inr ''''))"

definition IsAgentPoolMember ::
    "rand_source \<Rightarrow> properties \<Rightarrow> string \<Rightarrow> agent_pool_profile \<Rightarrow> int \<Rightarrow> bool result" where
  "IsAgentPoolMember rnd p vmName a index =
     bindR (GetAgentVMPrefix rnd p a index) (\<lambda>prefix. Inr (has_prefix vmName prefix))"

definition GetRouteTableName :: "rand_source \<Rightarrow> properties \<Rightarrow> string" where
  "GetRouteTableName rnd p = GetMasterVMPrefix rnd p @ ''routetable''"

definition GetNSGName :: "rand_source \<Rightarrow> properties \<Rightarrow> string" where
  "GetNSGName rnd p = GetMasterVMPrefix rnd p @ ''nsg''"

definition GetPrimaryAvailabilitySetName :: "rand_source \<Rightarrow> properties \<Rightarrow> string" where
  "GetPrimaryAvailabilitySetName rnd p =
     (if length (pools p) > 0 \<and> ap_AvailabilityProfile (hd (pools p)) = AvailabilitySet
      then ap_Name (hd (pools p)) @ ''-availabilitySet-'' @ cluster_id rnd p else '''')"

definition GetPrimaryScaleSetName :: "rand_source \<Rightarrow> properties \<Rightarrow> string result" where
  "GetPrimaryScaleSetName rnd p =
     (if length (pools p) > 0 \<and> ap_AvailabilityProfile (hd (pools p)) = VirtualMachineScaleSets
      then GetAgentVMPrefix rnd p (hd (pools p)) 0 else Inr '''')"

definition GetVirtualNetworkName :: "rand_source \<Rightarrow> properties \<Rightarrow> string result" where
  "GetVirtualNetworkName rnd p =
     (case p_MasterProfile p of
        Some m \<Rightarrow> if MasterProfile_IsCustomVNET m
          then segment (mp_VnetSubnetID m) DefaultVnetNameResourceSegmentIndex
          else Inr (K8sOrchestratorName p @ ''-vnet-'' @ cluster_id rnd p)
      | None \<Rightarrow> Inr (K8sOrchestratorName p @ ''-vnet-'' @ cluster_id rnd p))"

definition GetK8sVMName :: "rand_source \<Rightarrow> properties \<Rightarrow> agent_pool_profile \<Rightarrow> int \<Rightarrow> string result" where
  "GetK8sVMName rnd p agentPoolProfile agentIndex =
     bindR (GetAgentVMPrefix rnd p agentPoolProfile
              (GetAgentPoolIndexByName p (ap_Name agentPoolProfile)))
       (\<lambda>vmPrefix. if vmPrefix \<noteq> '''' then Inr (vmPrefix @ itoa agentIndex)
                   else Inl (Err ''Failed to reconstruct VM Name''))"

subsection \<open>From names to pools and indexes\<close>

text \<open>The character classes of the patterns; the dot matches anything but a newline.\<close>

definition alnum_class :: "char \<Rightarrow> bool" where
  "alnum_class c \<longleftrightarrow> (let n = of_char c :: nat in
     (48 \<le> n \<and> n \<le> 57) \<or> (65 \<le> n \<and> n \<le> 90) \<or> (97 \<le> n \<and> n \<le> 122))"

definition hex_class :: "char \<Rightarrow> bool" where
  "hex_class c \<longleftrightarrow> (let n = of_char c :: nat in
     (48 \<le> n \<and> n \<le> 57) \<or> (65 \<le> n \<and> n \<le> 70) \<or> (97 \<le> n \<and> n \<le> 102))"

definition dot_class :: "char \<Rightarrow> bool" where
  "dot_class c \<longleftrightarrow> c \<noteq> CHR 0x0A"

abbreviation dash :: char where "dash \<equiv> CHR ''-''"

definition k8sLinuxVMNamingFormat :: re where
  "k8sLinuxVMNamingFormat = seqs
     [CRep alnum_class 3 (Some 3), lit dash, Grp (CRep dot_class 1 None), lit dash,
      Grp (CRep hex_class 8 (Some 8)), CRep (\<lambda>c. c = dash) 0 (Some 2),
      Grp (CRep is_digit 1 None), End]"

definition vmssNamingFormat :: re where
  "vmssNamingFormat = seqs
     ([CRep alnum_class 1 None, lit dash, Grp (CRep dot_class 1 None), lit dash,
       Grp (CRep hex_class 8 (Some 8))] @ map lit ''-vmss'' @ [End])"

definition k8sWindowsOldVMNamingFormat :: re where
  "k8sWindowsOldVMNamingFormat = seqs
     [Grp (CRep hex_class 5 (Some 5)), Grp (CRep alnum_class 3 (Some 3)),
      Grp (CRep (\<lambda>c. c = CHR ''9'') 1 (Some 1)), Grp (CRep alnum_class 3 (Some 5)), End]"

definition k8sWindowsVMNamingFormat :: re where
  "k8sWindowsVMNamingFormat = seqs
     [Grp (CRep hex_class 4 (Some 4)), Grp (CRep alnum_class 3 (Some 3)),
      Grp (CRep is_digit 3 (Some 8)), End]"

definition windowsVmssNamingFormatV2 :: re where
  "windowsVmssNamingFormatV2 = seqs (map lit ''aks'' @ [Grp (CRep alnum_class 1 None), End])"

text \<open>A pattern without \<open>^\<close> is tried at every position from the left.\<close>

fun search_submatch :: "re \<Rightarrow> string \<Rightarrow> string list option" where
  "search_submatch r [] = find_submatch r []"
| "search_submatch r (c # cs) =
     (case find_submatch r (c # cs) of Some g \<Rightarrow> Some g | None \<Rightarrow> search_submatch r cs)"

definition ResourceName :: "string \<Rightarrow> string result" where
  "ResourceName rid =
     (let name = last (split_on (CHR ''/'') rid) in
      if length name = 0 then Inl (Err ''resource name was missing from identifier'') else Inr name)"

definition K8sLinuxVMNameParts :: "string \<Rightarrow> (string \<times> string \<times> int) result" where
  "K8sLinuxVMNameParts vmName =
     (case find_submatch k8sLinuxVMNamingFormat vmName of
        Some [pool, cid, idx] \<Rightarrow>
          (case atoi idx of
             (vmNum, True) \<Rightarrow> Inr (pool, cid, vmNum)
           | (_, False) \<Rightarrow> Inl (Err ''Error parsing VM Name''))
      | _ \<Rightarrow> Inl (Err ''resource name was missing from identifier''))"

definition VmssNameParts :: "string \<Rightarrow> (string \<times> string) result" where
  "VmssNameParts vmssName =
     (case find_submatch vmssNamingFormat vmssName of
        Some [pool, cid] \<Rightarrow> Inr (pool, cid)
      | _ \<Rightarrow> Inl (Err ''resource name was missing from identifier''))"

definition WindowsVmssNameParts :: "string \<Rightarrow> string result" where
  "WindowsVmssNameParts vmssName =
     (case search_submatch windowsVmssNamingFormatV2 vmssName of
        Some [pool] \<Rightarrow> Inr pool
      | _ \<Rightarrow> Inl (Err ''resource name was missing from identifier''))"

definition parse_pool_info :: "string \<Rightarrow> string \<Rightarrow> string \<Rightarrow> (string \<times> string \<times> int \<times> int) result" where
  "parse_pool_info poolPrefix orch poolInfo =
     (if length poolInfo < 2 then Inl (Panic ''slice bounds out of range'')
      else (case atoi (take 2 poolInfo) of
        (_, False) \<Rightarrow> Inl (Err ''Error parsing VM Name'')
      | (poolIndex, True) \<Rightarrow>
          (case atoi (drop 2 poolInfo) of
             (_, False) \<Rightarrow> Inl (Err ''Error parsing VM Name'')
           | (agentIndex, True) \<Rightarrow> Inr (poolPrefix, orch, poolIndex, agentIndex))))"

definition WindowsVMNameParts :: "string \<Rightarrow> (string \<times> string \<times> int \<times> int) result" where
  "WindowsVMNameParts vmName =
     (case find_submatch k8sWindowsOldVMNamingFormat vmName of
        Some [poolPrefix, orch, _, poolInfo] \<Rightarrow> parse_pool_info poolPrefix orch poolInfo
      | _ \<Rightarrow> (case find_submatch k8sWindowsVMNamingFormat vmName of
          Some [poolPrefix, orch, poolInfo] \<Rightarrow> parse_pool_info poolPrefix orch poolInfo
        | _ \<Rightarrow> Inl (Err ''resource name was missing from identifier'')))"

definition GetVMNameIndex :: "string \<Rightarrow> string \<Rightarrow> int result" where
  "GetVMNameIndex osType vmName =
     (if osType = Linux then
        bindR (K8sLinuxVMNameParts vmName) (\<lambda>(_, _, agentIndex). Inr agentIndex)
      else if osType = Windows then
        bindR (WindowsVMNameParts vmName) (\<lambda>(_, _, _, agentIndex). Inr agentIndex)
      else Inl (Err ''Unknown os type''))"

subsection \<open>Generic facts\<close>

lemma last_sep_unique:
  fixes d :: char
  assumes "a @ d # x = b @ d # y" and "d \<notin> set x" and "d \<notin> set y"
  shows "a = b \<and> x = y"
proof -
  have "split_first d (rev x @ d # rev a) = split_first d (rev y @ d # rev b)"
    using arg_cong [OF assms(1), of rev] by simp
  moreover have "split_first d (rev x @ d # rev a) = Some (rev x, rev a)"
    "split_first d (rev y @ d # rev b) = Some (rev y, rev b)"
    using assms(2,3) by (simp_all add: split_first_append)
  ultimately show ?thesis by simp
qed

lemma length_utoa: "n < 10 ^ k \<Longrightarrow> 0 < k \<Longrightarrow> length (utoa n) \<le> k"
proof (induction n arbitrary: k rule: utoa.induct)
  case (1 n)
  show ?case
  proof (cases "n < 10")
    case True
    then show ?thesis using 1(3) by (subst utoa.simps) simp
  next
    case False
    then obtain j where k: "k = Suc j" "0 < j"
      using 1(2,3) by (cases k; cases "k - 1") auto
    then have "n div 10 < 10 ^ j" using 1(2) by (simp add: less_mult_imp_div_less mult.commute)
    then have "length (utoa (n div 10)) \<le> j" using 1(1) False k by blast
    then show ?thesis using False k by (subst utoa.simps) simp
  qed
qed

lemma digits_classes:
  "is_digit c \<Longrightarrow> hex_class c" "is_digit c \<Longrightarrow> alnum_class c" "is_digit c \<Longrightarrow> c \<noteq> dash"
  by (auto simp: is_digit_def hex_class_def alnum_class_def Let_def)

lemma hex_not_dash: "hex_class c \<Longrightarrow> c \<noteq> dash"
  by (auto simp: hex_class_def)

lemma list_all_no_dash:
  "list_all hex_class s \<Longrightarrow> dash \<notin> set s" "list_all is_digit s \<Longrightarrow> dash \<notin> set s"
  using hex_not_dash digits_classes(3) by (auto simp: list_all_iff)

lemma k8s_chars: "list_all alnum_class ''k8s''"
  by (simp add: alnum_class_def)

subsection \<open>The cluster id\<close>

lemma GetClusterID_shape:
  "p_ClusterID p = '''' \<Longrightarrow> length (cluster_id rnd p) = 8 \<and> list_all is_digit (cluster_id rnd p)"
proof -
  have len: "length (pad0 8 s) \<ge> 8" for s by (simp add: pad0_def)
  have dig: "list_all is_digit (pad0 8 (utoa n))" for n
    using set_utoa_digits by (auto simp: pad0_def list_all_iff is_digit_eval)
  assume "p_ClusterID p = ''''"
  then obtain n where n: "cluster_id rnd p = take 8 (pad0 8 (utoa n))"
    by (auto simp: cluster_id_def GetClusterID_def Let_def)
  have "list_all is_digit (take 8 (pad0 8 (utoa n)))"
    using dig [of n] by (meson in_set_takeD list_all_iff)
  then show ?thesis using n len [of "utoa n"] by simp
qed

lemma GetClusterID_snd: "snd (GetClusterID rnd p) = p\<lparr>p_ClusterID := cluster_id rnd p\<rparr>"
  by (simp add: GetClusterID_def cluster_id_def Let_def)

lemma cluster_id_nonempty: "cluster_id rnd p \<noteq> []"
proof (cases "p_ClusterID p = []")
  case True
  then show ?thesis using GetClusterID_shape [of p rnd] by fastforce
qed (simp add: cluster_id_def GetClusterID_def)

lemma GetClusterID_cached:
  "GetClusterID rnd (snd (GetClusterID rnd p)) = (cluster_id rnd p, snd (GetClusterID rnd p))"
  using cluster_id_nonempty [of rnd p] unfolding GetClusterID_snd by (simp add: GetClusterID_def)

text \<open>The ids that the names can carry.\<close>

definition wf_id :: "string \<Rightarrow> bool" where
  "wf_id s \<longleftrightarrow> length s = 8 \<and> list_all hex_class s"

lemma generated_id_wf: "p_ClusterID p = '''' \<Longrightarrow> wf_id (cluster_id rnd p)"
  using GetClusterID_shape [of p rnd] digits_classes(1) by (auto simp: wf_id_def list_all_iff)

subsection \<open>Reading Linux names back\<close>

lemma linux_match_unique:
  assumes "wf_id i" and u: "list_all is_digit u" "length u \<le> 8"
    and eq: "h3 @ dash # w1 @ dash # h8 @ ds @ dg = ''k8s'' @ dash # pool @ dash # i @ dash # u"
    and h: "length h3 = 3" "list_all hex_class h8" "length h8 = 8"
    and ds: "list_all (\<lambda>c. c = dash) ds" "length ds \<le> 2"
    and dg: "list_all is_digit dg" "1 \<le> length dg"
  shows "w1 = pool \<and> h8 = i \<and> dg = u"
proof -
  have "w1 @ dash # h8 @ ds @ dg = pool @ dash # i @ dash # u"
    using eq h(1) append_eq_append_conv [of h3 "''k8s''"] by simp
  moreover have nd: "dash \<notin> set h8" "dash \<notin> set dg" "dash \<notin> set u"
    using h(2) dg(1) u(1) list_all_no_dash by blast+
  ultimately consider "ds = []" "w1 @ dash # (h8 @ dg) = (pool @ dash # i) @ dash # u"
    | "ds = [dash]" "(w1 @ dash # h8) @ dash # dg = (pool @ dash # i) @ dash # u"
    | "ds = [dash, dash]" "(w1 @ dash # h8 @ [dash]) @ dash # dg = (pool @ dash # i) @ dash # u"
    using ds by (cases ds; cases "tl ds") auto
  then show ?thesis
  proof cases
    case 1
    then have "h8 @ dg = u" using nd last_sep_unique [of w1 dash "h8 @ dg" _ u] by simp
    then show ?thesis using u(2) h(3) dg(2) by auto
  next
    case 2
    then have "dg = u" "w1 @ dash # h8 = pool @ dash # i"
      using nd last_sep_unique [OF 2(2)] by auto
    then show ?thesis
      using last_sep_unique [of w1 dash h8 pool i] nd assms(1) list_all_no_dash(1)
      by (auto simp: wf_id_def)
  next
    case 3
    then have "w1 @ dash # h8 @ [dash] = pool @ dash # i"
      using nd last_sep_unique [OF 3(2)] by auto
    then have "last (w1 @ dash # h8 @ [dash]) = last (pool @ dash # i)" by metis
    then have "dash = last i" using assms(1) by (simp add: wf_id_def split: if_splits)
    moreover have "i \<noteq> []" using assms(1) by (auto simp: wf_id_def)
    ultimately have "dash \<in> set i" by (metis last_in_set)
    then show ?thesis using assms(1) list_all_no_dash(1) by (auto simp: wf_id_def)
  qed
qed

lemma set_rx_linux:
  "(g, r) \<in> set (rx k8sLinuxVMNamingFormat s) \<longleftrightarrow>
     (\<exists>h3 w1 h8 ds dg. s = h3 @ dash # w1 @ dash # h8 @ ds @ dg \<and> r = [] \<and> g = [w1, h8, dg] \<and>
        list_all alnum_class h3 \<and> length h3 = 3 \<and> list_all dot_class w1 \<and> 1 \<le> length w1 \<and>
        list_all hex_class h8 \<and> length h8 = 8 \<and> list_all (\<lambda>c. c = dash) ds \<and> length ds \<le> 2 \<and>
        list_all is_digit dg \<and> 1 \<le> length dg)" (is "?L \<longleftrightarrow> ?R")
proof
  assume ?L
  then show ?R
    unfolding k8sLinuxVMNamingFormat_def seqs_def foldr.simps o_apply set_rx id_apply
    by (elim exE conjE) (simp, blast intro: order_antisym)
next
  assume ?R
  then show ?L
    unfolding k8sLinuxVMNamingFormat_def seqs_def foldr.simps o_apply id_apply
    by (elim exE conjE) (clarify, intro rx_intros, simp_all add: fits_def)
qed

lemma K8sLinuxVMNameParts_name:
  assumes "wf_id i" and "pool \<noteq> ''''" and "list_all dot_class pool" and "n < 10 ^ 8"
  shows "K8sLinuxVMNameParts (''k8s-'' @ pool @ ''-'' @ i @ ''-'' @ utoa n) = Inr (pool, i, int n)"
proof -
  let ?s = "''k8s'' @ dash # pool @ dash # i @ dash # utoa n"
  have u: "list_all is_digit (utoa n)" "length (utoa n) \<le> 8"
    using length_utoa [OF assms(4)] by simp_all
  have "1 \<le> length pool" "1 \<le> length (utoa n)"
    using assms(2) by (simp_all add: Suc_le_eq)
  then have "([pool, i, utoa n], []) \<in> set (rx k8sLinuxVMNamingFormat ?s)"
    using assms k8s_chars u unfolding set_rx_linux wf_id_def
    by (intro exI [of _ "''k8s''"] exI [of _ pool] exI [of _ i] exI [of _ "[dash]"] exI [of _ "utoa n"])
      simp
  moreover have "g = [pool, i, utoa n]" if "(g, r) \<in> set (rx k8sLinuxVMNamingFormat ?s)" for g r
    using that linux_match_unique [OF assms(1) u, where pool = pool] unfolding set_rx_linux by metis
  ultimately have "find_submatch k8sLinuxVMNamingFormat ?s = Some [pool, i, utoa n]"
    by (rule find_submatch_unique)
  moreover have "n < 2 ^ 63" using assms(4) by simp
  ultimately show ?thesis by (simp add: K8sLinuxVMNameParts_def)
qed

subsection \<open>Reading Windows names back\<close>

lemma windows_old_no_match:
  assumes "length pre = 4"
  shows "rx k8sWindowsOldVMNamingFormat (pre @ ''k8s'' @ t) = []"
proof -
  have False if "(g, r) \<in> set (rx k8sWindowsOldVMNamingFormat (pre @ ''k8s'' @ t))" for g r
  proof -
    have "\<exists>w r'. pre @ ''k8s'' @ t = w @ r' \<and> fits hex_class 5 (Some 5) w"
      using that unfolding k8sWindowsOldVMNamingFormat_def seqs_def foldr.simps o_apply set_rx_seqs
      by (elim exE conjE) (intro exI conjI)
    then obtain w r' where w: "pre @ ''k8s'' @ t = w @ r'" "fits hex_class 5 (Some 5) w" by blast
    have "(pre @ ''k8s'' @ t) ! 4 = CHR ''k''" using assms by (simp add: nth_append)
    moreover have "(w @ r') ! 4 \<in> set w" using fits_exact [OF w(2)] by (simp add: nth_append)
    ultimately have "CHR ''k'' \<in> set w" using w(1) by metis
    then have "hex_class (CHR ''k'')" using fitsD(1) [OF w(2)] by (simp add: list_all_iff)
    then show False by (simp add: hex_class_def)
  qed
  then show ?thesis by (metis list.set_sel(1) prod.exhaust)
qed

lemma windows_new_match:
  assumes "length pre = 4" "list_all hex_class pre"
    and d: "list_all is_digit d" "3 \<le> length d" "length d \<le> 8"
  shows "find_submatch k8sWindowsVMNamingFormat (pre @ ''k8s'' @ d) = Some [pre, ''k8s'', d]"
proof (rule find_submatch_unique)
  let ?s = "pre @ ''k8s'' @ d"
  show "([pre, ''k8s'', d], []) \<in> set (rx k8sWindowsVMNamingFormat ?s)"
    unfolding k8sWindowsVMNamingFormat_def seqs_def foldr.simps o_apply id_apply
    using assms k8s_chars by (intro rx_intros) (simp_all add: fits_def)
  fix g r assume "(g, r) \<in> set (rx k8sWindowsVMNamingFormat ?s)"
  then obtain w1 w2 w3 where w: "?s = w1 @ w2 @ w3" "g = [w1, w2, w3]"
      "fits hex_class 4 (Some 4) w1" "fits alnum_class 3 (Some 3) w2"
    unfolding k8sWindowsVMNamingFormat_def seqs_def foldr.simps o_apply set_rx_seqs id_apply by auto
  then have "w1 = pre" "w2 @ w3 = ''k8s'' @ d"
    using assms(1) fits_exact append_eq_append_conv [of pre w1] by (metis, metis)
  moreover from this have "w2 = ''k8s''" "w3 = d"
    using fits_exact [OF w(4)] append_eq_append_conv [of w2 "''k8s''" w3 d] by auto
  ultimately show "g = [pre, ''k8s'', d]" using w(2) by simp
qed

lemma pad0_2:
  assumes "n < 100"
  shows "length (pad0 2 (utoa n)) = 2" and "list_all is_digit (pad0 2 (utoa n))"
    and "dec_val 0 (pad0 2 (utoa n)) = n"
proof -
  have len: "length (utoa n) \<le> 2" using length_utoa [of n 2] assms by simp
  then show "length (pad0 2 (utoa n)) = 2" by (simp add: pad0_def)
  show "list_all is_digit (pad0 2 (utoa n))"
    using set_utoa_digits by (auto simp: pad0_def list_all_iff is_digit_eval)
  have "dec_val 0 (replicate k (CHR ''0'') @ s) = dec_val 0 s" for k s
    by (induction k) (simp_all add: digit_val_eval)
  then show "dec_val 0 (pad0 2 (utoa n)) = n" by (simp add: pad0_def)
qed

lemma WindowsVMNameParts_name:
  assumes pre: "length pre = 4" "list_all hex_class pre" and "i < 100" and "n < 10 ^ 6"
  shows "WindowsVMNameParts (pre @ ''k8s'' @ pad0 2 (utoa i) @ utoa n) =
    Inr (pre, ''k8s'', int i, int n)"
proof -
  let ?d = "pad0 2 (utoa i) @ utoa n"
  note p2 = pad0_2 [OF assms(3)]
  have "length (utoa n) \<le> 6" using length_utoa [OF assms(4)] by simp
  then have d: "list_all is_digit ?d" "3 \<le> length ?d" "length ?d \<le> 8"
    using p2 by (simp_all add: Suc_le_eq)
  have "atoi (pad0 2 (utoa i)) = (int i, True)"
    using p2 assms(3) atoi_digits [of "pad0 2 (utoa i)"] by (cases "pad0 2 (utoa i)") auto
  moreover have "atoi (utoa n) = (int n, True)" using assms(4) by simp
  ultimately have "parse_pool_info pre ''k8s'' ?d = Inr (pre, ''k8s'', int i, int n)"
    using p2(1) by (simp add: parse_pool_info_def)
  moreover have "find_submatch k8sWindowsOldVMNamingFormat (pre @ ''k8s'' @ ?d) = None"
    using windows_old_no_match [OF pre(1)] by (simp only: find_submatch_None)
  ultimately show ?thesis
    using windows_new_match [OF pre d] by (simp add: WindowsVMNameParts_def)
qed

subsection \<open>Properties\<close>

text \<open>The pools whose names can carry an index, and the indexes they can carry.\<close>

definition linux_nameable :: "rand_source \<Rightarrow> properties \<Rightarrow> agent_pool_profile \<Rightarrow> nat \<Rightarrow> bool" where
  "linux_nameable rnd p a n \<longleftrightarrow> \<not> IsVirtualMachineScaleSets a \<and> (IsLinux a \<or> ap_OSType a = '''') \<and>
     wf_id (cluster_id rnd p) \<and> ap_Name a \<noteq> '''' \<and> list_all dot_class (ap_Name a) \<and> n < 10 ^ 8"

definition windows_nameable :: "rand_source \<Rightarrow> properties \<Rightarrow> agent_pool_profile \<Rightarrow> nat \<Rightarrow> bool" where
  "windows_nameable rnd p a n \<longleftrightarrow> \<not> IsVirtualMachineScaleSets a \<and> IsWindows a \<and>
     wf_id (cluster_id rnd p) \<and> 0 \<le> GetAgentPoolIndexByName p (ap_Name a) \<and>
     GetAgentPoolIndexByName p (ap_Name a) < 100 \<and> n < 10 ^ 6"

lemma linux_name:
  assumes "linux_nameable rnd p a n"
  shows "GetK8sVMName rnd p a (int n) =
    Inr (''k8s-'' @ ap_Name a @ ''-'' @ cluster_id rnd p @ ''-'' @ utoa n)"
  using assms
  by (auto simp: linux_nameable_def GetK8sVMName_def GetAgentVMPrefix_def K8sOrchestratorName_def
      DefaultOrchestratorName_def itoa_def IsVirtualMachineScaleSets_def)

lemma windows_name:
  assumes "windows_nameable rnd p a n"
  shows "GetK8sVMName rnd p a (int n) = Inr (take 4 (cluster_id rnd p) @ ''k8s'' @
    pad0 2 (utoa (nat (GetAgentPoolIndexByName p (ap_Name a)))) @ utoa n)"
  using assms
  by (auto simp: windows_nameable_def GetK8sVMName_def GetAgentVMPrefix_def K8sOrchestratorName_def
      DefaultOrchestratorName_def itoa_def IsVirtualMachineScaleSets_def IsLinux_def IsWindows_def
      Windows_def Linux_def wf_id_def)

lemma wf_id_take: "wf_id i \<Longrightarrow> length (take 4 i) = 4 \<and> list_all hex_class (take 4 i)"
  by (auto simp: wf_id_def list_all_iff dest: in_set_takeD)

lemma windows_parts:
  assumes "windows_nameable rnd p a n"
  shows "\<exists>name. GetK8sVMName rnd p a (int n) = Inr name \<and>
    WindowsVMNameParts name = Inr (take 4 (cluster_id rnd p), ''k8s'',
      GetAgentPoolIndexByName p (ap_Name a), int n)"
proof -
  let ?i = "nat (GetAgentPoolIndexByName p (ap_Name a))"
  have "length (take 4 (cluster_id rnd p)) = 4" "list_all hex_class (take 4 (cluster_id rnd p))"
      "?i < 100" "n < 10 ^ 6" "int ?i = GetAgentPoolIndexByName p (ap_Name a)"
    using assms wf_id_take by (auto simp: windows_nameable_def)
  then show ?thesis
    using windows_name [OF assms] WindowsVMNameParts_name [of "take 4 (cluster_id rnd p)" ?i n] by simp
qed

lemma linux_parts:
  assumes "linux_nameable rnd p a n"
  shows "\<exists>name. GetK8sVMName rnd p a (int n) = Inr name \<and>
    K8sLinuxVMNameParts name = Inr (ap_Name a, cluster_id rnd p, int n)"
  using assms linux_name [OF assms] K8sLinuxVMNameParts_name
  by (simp add: linux_nameable_def)

text \<open>
  C12: the name of a Linux VM in an availability set can be read back: pool, cluster id and index
  come out of the regular expression as they went in, for every index below 10^8.\<close>

theorem linux_vm_name_round_trip:
  assumes "linux_nameable rnd p a n"
  shows "\<exists>name. GetK8sVMName rnd p a (int n) = Inr name \<and>
    K8sLinuxVMNameParts name = Inr (ap_Name a, cluster_id rnd p, int n) \<and>
    GetVMNameIndex Linux name = Inr (int n)"
  using linux_parts [OF assms] by (auto simp: GetVMNameIndex_def)

definition example_cluster :: properties where
  "example_cluster = zero_properties\<lparr>p_ClusterID := ''11290731'', p_AgentPoolProfiles := Some
     [zero_agent_pool_profile\<lparr>ap_Name := ''pool-1'', ap_OSType := Linux\<rparr>,
      zero_agent_pool_profile\<lparr>ap_Name := ''win'', ap_OSType := Windows\<rparr>]\<rparr>"

lemmas example_eval = example_cluster_def zero_properties_def zero_agent_pool_profile_def
  IsVirtualMachineScaleSets_def VirtualMachineScaleSets_def IsLinux_def IsWindows_def Linux_def
  Windows_def wf_id_def cluster_id_def GetClusterID_def hex_class_def dot_class_def
  GetAgentPoolIndexByName_def pools_def

theorem linux_vm_name_round_trip_witness:
  "\<exists>name. GetK8sVMName (\<lambda>_. 0) example_cluster (hd (pools example_cluster)) 7 = Inr name \<and>
     GetVMNameIndex Linux name = Inr 7"
proof -
  have "linux_nameable (\<lambda>_. 0) example_cluster (hd (pools example_cluster)) 7"
    by (simp add: linux_nameable_def example_eval)
  from linux_vm_name_round_trip [OF this] show ?thesis by auto
qed

text \<open>
  C13: the name of a Windows VM can be read back: the pattern for old names does not match it,
  and the new pattern gives the pool's position and the VM's index, for up to 100 pools of up to
  10^6 VMs.\<close>

theorem windows_vm_name_round_trip:
  assumes "windows_nameable rnd p a n"
  shows "\<exists>name. GetK8sVMName rnd p a (int n) = Inr name \<and>
    WindowsVMNameParts name = Inr (take 4 (cluster_id rnd p), ''k8s'',
      GetAgentPoolIndexByName p (ap_Name a), int n) \<and>
    GetVMNameIndex Windows name = Inr (int n)"
  using windows_parts [OF assms] by (auto simp: GetVMNameIndex_def Windows_def Linux_def)

theorem windows_vm_name_round_trip_witness:
  "\<exists>name. GetK8sVMName (\<lambda>_. 0) example_cluster (pools example_cluster ! 1) 12 = Inr name \<and>
     WindowsVMNameParts name = Inr (''1129'', ''k8s'', 1, 12)"
proof -
  have "windows_nameable (\<lambda>_. 0) example_cluster (pools example_cluster ! 1) 12"
    by (simp add: windows_nameable_def example_eval)
  from windows_vm_name_round_trip [OF this] show ?thesis by (auto simp: example_eval)
qed

lemma pool_index_inj:
  "0 \<le> GetAgentPoolIndexByName p x \<Longrightarrow> GetAgentPoolIndexByName p x = GetAgentPoolIndexByName p y \<Longrightarrow> x = y"
proof -
  assume i: "0 \<le> GetAgentPoolIndexByName p x" "GetAgentPoolIndexByName p x = GetAgentPoolIndexByName p y"
  then obtain a b where ab: "GetAgentPoolByName p x = Some a" "GetAgentPoolByName p y = Some b"
    using pool_index(1) [of p x] pool_index(1) [of p y] by force
  then have "a = b" using pool_index(2) [OF ab(1)] pool_index(2) [OF ab(2)] i by auto
  then show "x = y" using ab by (auto simp: GetAgentPoolByName_def find_Some_iff)
qed

lemma linux_windows_names_differ:
  assumes "linux_nameable rnd p a n" and "windows_nameable rnd p b m"
  shows "GetK8sVMName rnd p a (int n) \<noteq> GetK8sVMName rnd p b (int m)"
proof
  let ?i = "cluster_id rnd p"
  assume "GetK8sVMName rnd p a (int n) = GetK8sVMName rnd p b (int m)"
  then have eq: "''k8s-'' @ ap_Name a @ ''-'' @ ?i @ ''-'' @ utoa n =
      take 4 ?i @ ''k8s'' @ pad0 2 (utoa (nat (GetAgentPoolIndexByName p (ap_Name b)))) @ utoa m"
    unfolding linux_name [OF assms(1)] windows_name [OF assms(2)] by (rule sum.inject(2) [THEN iffD1])
  have i: "length (take 4 ?i) = 4" "list_all hex_class (take 4 ?i)"
    using assms(1) wf_id_take by (auto simp: linux_nameable_def)
  have "''k8s-'' = take 4 ?i"
    using eq i(1) append_eq_append_conv [of "''k8s-''" "take 4 ?i"] by simp
  then have "list_all hex_class ''k8s-''" using i(2) by simp
  then show False by (simp add: hex_class_def)
qed

text \<open>
  C11: two VMs of a cluster have the same name only if they are in the same pool and have the
  same index, also across Linux and Windows pools.\<close>

theorem vm_names_distinct:
  assumes "linux_nameable rnd p a n \<or> windows_nameable rnd p a n"
    and "linux_nameable rnd p b m \<or> windows_nameable rnd p b m"
    and same: "GetK8sVMName rnd p a (int n) = GetK8sVMName rnd p b (int m)"
  shows "ap_Name a = ap_Name b \<and> n = m"
proof -
  consider "linux_nameable rnd p a n" "linux_nameable rnd p b m"
    | "windows_nameable rnd p a n" "windows_nameable rnd p b m"
    using assms linux_windows_names_differ by metis
  then show ?thesis
  proof cases
    case 1
    then show ?thesis using linux_parts [OF 1(1)] linux_parts [OF 1(2)] same by auto
  next
    case 2
    then have "GetAgentPoolIndexByName p (ap_Name a) = GetAgentPoolIndexByName p (ap_Name b)" "n = m"
      using windows_parts [OF 2(1)] windows_parts [OF 2(2)] same by auto
    then show ?thesis using 2 pool_index_inj by (auto simp: windows_nameable_def)
  qed
qed

theorem vm_names_distinct_witness:
  "GetK8sVMName (\<lambda>_. 0) example_cluster (hd (pools example_cluster)) 7 \<noteq>
   GetK8sVMName (\<lambda>_. 0) example_cluster (pools example_cluster ! 1) 7"
proof -
  let ?c = example_cluster
  have "linux_nameable (\<lambda>_. 0) ?c (hd (pools ?c)) 7" "windows_nameable (\<lambda>_. 0) ?c (pools ?c ! 1) 7"
    by (simp_all add: linux_nameable_def windows_nameable_def example_eval)
  then show ?thesis
    using vm_names_distinct [of "\<lambda>_. 0" ?c "hd (pools ?c)" 7 "pools ?c ! 1" 7] by (auto simp: example_eval)
qed

text \<open>
  The control plane VMs of an availability-set master profile have distinct names that read
  back as pool \<open>master\<close> with indexes 0 to count - 1 in order; an agent pool called \<open>master\<close> has
  VMs of the same names.\<close>

theorem master_vm_names:
  assumes "p_MasterProfile p = Some m" and "MasterProfile_IsAvailabilitySet m"
    and "wf_id (cluster_id rnd p)" and "mp_Count m \<le> 10 ^ 8"
  shows "\<exists>names. GetMasterVMNameList rnd p = Inr names \<and> distinct names \<and>
    length names = nat (mp_Count m) \<and>
    (\<forall>i < length names. K8sLinuxVMNameParts (names ! i) = Inr (''master'', cluster_id rnd p, int i)) \<and>
    (\<forall>a i. i < length names \<longrightarrow> linux_nameable rnd p a i \<longrightarrow> ap_Name a = ''master'' \<longrightarrow>
       GetK8sVMName rnd p a (int i) = Inr (names ! i))"
proof -
  let ?names = "map (\<lambda>i. GetMasterVMPrefix rnd p @ utoa i) [0..<nat (mp_Count m)]"
  have names: "GetMasterVMNameList rnd p = Inr ?names"
    using assms(1,2) by (simp add: GetMasterVMNameList_def)
  have nth: "?names ! i = ''k8s-'' @ ''master'' @ ''-'' @ cluster_id rnd p @ ''-'' @ utoa i"
    if "i < length ?names" for i
    using that by (simp add: GetMasterVMPrefix_def K8sOrchestratorName_def DefaultOrchestratorName_def)
  have "distinct ?names" by (simp add: distinct_map inj_on_def utoa_inj)
  moreover have "K8sLinuxVMNameParts (?names ! i) = Inr (''master'', cluster_id rnd p, int i)"
    if "i < length ?names" for i
  proof -
    have "i < 10 ^ 8" using that assms(4) by simp
    then show ?thesis
      unfolding nth [OF that] using assms(3)
      by (intro K8sLinuxVMNameParts_name) (simp_all add: dot_class_def)
  qed
  moreover have "GetK8sVMName rnd p a (int i) = Inr (?names ! i)"
    if "i < length ?names" "linux_nameable rnd p a i" "ap_Name a = ''master''" for a i
    unfolding nth [OF that(1)] linux_name [OF that(2)] that(3) ..
  ultimately show ?thesis unfolding names by (intro exI [of _ ?names]) simp
qed

theorem master_vm_names_witness:
  "\<exists>names. GetMasterVMNameList (\<lambda>_. 0) (example_cluster\<lparr>p_MasterProfile :=
       Some (zero_master_profile\<lparr>mp_Count := 3, mp_AvailabilityProfile := AvailabilitySet\<rparr>)\<rparr>) = Inr names \<and>
     length names = 3"
proof -
  let ?m = "zero_master_profile\<lparr>mp_Count := 3, mp_AvailabilityProfile := AvailabilitySet\<rparr>"
  show ?thesis
    using master_vm_names [of "example_cluster\<lparr>p_MasterProfile := Some ?m\<rparr>" ?m "\<lambda>_. 0"]
    by (auto simp: MasterProfile_IsAvailabilitySet_def example_eval)
qed

text \<open>
  A generated cluster id has eight decimal digits, so every name built on it can be read
  back, and asking again returns the cached id without changing the cluster.\<close>

theorem generated_cluster_id:
  assumes "p_ClusterID p = ''''" and "GetClusterID rnd p = (cid, p')"
  shows "length cid = 8 \<and> list_all is_digit cid \<and> wf_id cid \<and> p_ClusterID p' = cid \<and>
    GetClusterID rnd' p' = (cid, p')"
proof -
  have cid: "cid = cluster_id rnd p" and p': "p' = p\<lparr>p_ClusterID := cluster_id rnd p\<rparr>"
    using assms(2) GetClusterID_snd [of rnd p] by (auto simp: cluster_id_def)
  then show ?thesis
    using GetClusterID_shape [OF assms(1), of rnd] generated_id_wf [OF assms(1), of rnd]
      cluster_id_nonempty [of rnd p]
    by (simp add: GetClusterID_def)
qed

theorem generated_cluster_id_witness:
  "length (fst (GetClusterID (\<lambda>_. 42) zero_properties)) = 8"
proof -
  have "p_ClusterID zero_properties = []" by (simp add: zero_properties_def)
  from generated_cluster_id [OF this prod.collapse [symmetric]] show ?thesis by blast
qed

text \<open>
  10^8 is a sharp bound: the pattern lets the cluster id and the index share digits, so from
  nine digits on a name is read back as another pool and index.\<close>

theorem linux_vm_name_index_limit:
  "GetK8sVMName rnd (zero_properties\<lparr>p_ClusterID := ''12345678''\<rparr>)
     (zero_agent_pool_profile\<lparr>ap_Name := ''a'', ap_OSType := Linux\<rparr>) 123456789
       = Inr ''k8s-a-12345678-123456789'' \<and>
   K8sLinuxVMNameParts ''k8s-a-12345678-123456789'' = Inr (''a-12345678'', ''12345678'', 9)"
proof
  show "GetK8sVMName rnd (zero_properties\<lparr>p_ClusterID := ''12345678''\<rparr>)
     (zero_agent_pool_profile\<lparr>ap_Name := ''a'', ap_OSType := Linux\<rparr>) 123456789
       = Inr ''k8s-a-12345678-123456789''"
    by (simp add: GetK8sVMName_def GetAgentVMPrefix_def IsVirtualMachineScaleSets_def IsLinux_def
        zero_properties_def zero_agent_pool_profile_def VirtualMachineScaleSets_def cluster_id_def
        GetClusterID_def K8sOrchestratorName_def DefaultOrchestratorName_def itoa_def utoa_eval)
  show "K8sLinuxVMNameParts ''k8s-a-12345678-123456789'' = Inr (''a-12345678'', ''12345678'', 9)"
    by code_simp
qed

end
