(* ===== verification/ClusterTopology.thy ===== *)
theory ClusterTopology
  imports Orchestrators VMNames "HOL-Library.AList"
begin

section \<open>Sorting the VMs of a cluster for an upgrade (upgradecluster.go)\<close>

text \<open>
  The first half of pkg/operations/kubernetesupgrade/upgradecluster.go: which VMs of the resource
  group belong to the cluster, which version they run, and whether they still have to be upgraded.
  The kubernetes API is the parameter \<open>kubelet\<close>, from a node name to the kubelet version that
  \<open>GetNode\<close> reports (\<open>None\<close> for an error); without a client no node is asked. Go maps that are ranged
  over are association lists in iteration order.
\<close>

subsection \<open>Data\<close>

record vm =
  vm_Name :: string
  vm_Tags :: "(string \<times> string) list option"
  vm_OSType :: string
  vm_ProvisioningState :: "string option"

record agent_pool_topology =
  apt_Identifier :: string
  apt_Name :: string
  apt_AgentVMs :: "vm list"
  apt_UpgradedAgentVMs :: "vm list"

record topology =
  t_NameSuffix :: string
  t_AgentPoolsToUpgrade :: "(string \<times> bool) list"
  t_AgentPools :: "(string \<times> agent_pool_topology) list"
  t_MasterVMs :: "vm list"
  t_UpgradedMasterVMs :: "vm list"

record upgrade_cluster =
  uc_Properties :: properties
  uc_Force :: bool
  uc_kubelet :: "(string \<Rightarrow> string option) option"

definition tag :: "vm \<Rightarrow> string \<Rightarrow> string option" where
  "tag v k = (case vm_Tags v of None \<Rightarrow> None | Some ts \<Rightarrow> map_of ts k)"

subsection \<open>Versions\<close>

definition getNodeVersion ::
    "(string \<Rightarrow> string option) option \<Rightarrow> string \<Rightarrow> (string \<times> string) list option \<Rightarrow> bool \<Rightarrow> string" where
  "getNodeVersion client name tags getVersionFromTags =
     (let from_client = (case client of None \<Rightarrow> ''''
          | Some get \<Rightarrow> (case get name of None \<Rightarrow> '''' | Some v \<Rightarrow> trim_prefix v ''v''))
      in if getVersionFromTags then
           (case tags of None \<Rightarrow> from_client
            | Some ts \<Rightarrow> (case map_of ts ''orchestrator'' of None \<Rightarrow> from_client
              | Some s \<Rightarrow> (case split_on (CHR '':'') s of [_, v] \<Rightarrow> v | _ \<Rightarrow> from_client)))
         else from_client)"

definition upgradable :: "properties \<Rightarrow> string \<Rightarrow> unit result" where
  "upgradable p currentVersion =
     bindR (deref (p_OrchestratorProfile p)) (\<lambda>target.
     bindR (GetOrchestratorVersionProfile
              (zero_orchestrator_profile\<lparr>op_OrchestratorType := Kubernetes,
                 op_OrchestratorVersion := currentVersion\<rparr>)
              (HasWindows p) (IsAzureStackCloud p)) (\<lambda>orch.
       if list_ex (\<lambda>up. op_OrchestratorVersion up = op_OrchestratorVersion target) (ovp_Upgrades orch)
       then Inr ()
       else Inl (Err (currentVersion @ '' cannot be upgraded to '' @ op_OrchestratorVersion target))))"

subsection \<open>Pool membership\<close>

text \<open>A VM without a pool tag belongs to the only agent pool, if there is only one to upgrade.\<close>

definition vm_pool_name :: "topology \<Rightarrow> vm \<Rightarrow> string" where
  "vm_pool_name t v =
     (case tag v ''poolName'' of Some n \<Rightarrow> n
      | None \<Rightarrow> (case filter (\<lambda>k. \<not> has_prefix k ''master'') (map fst (t_AgentPoolsToUpgrade t)) of
          [k] \<Rightarrow> k | _ \<Rightarrow> ''''))"

text \<open>The identifier of the VM's pool; \<open>None\<close> if the VM is of another cluster.\<close>

definition pool_identifier :: "topology \<Rightarrow> vm \<Rightarrow> string option result" where
  "pool_identifier t v =
     (if vm_OSType v = Windows then
        bindR (WindowsVMNameParts (vm_Name v)) (\<lambda>(poolPrefix, _, _, _).
          if \<not> contains (t_NameSuffix t) poolPrefix then Inr None
          else if length (vm_Name v) \<le> 8 then Inl (Panic ''index out of range'')
          else (let len = (if vm_Name v ! 8 = CHR ''9'' then 11 else 9) in
            if length (vm_Name v) < len then Inl (Panic ''slice bounds out of range'')
            else Inr (Some (take len (vm_Name v)))))
      else
        bindR (K8sLinuxVMNameParts (vm_Name v)) (\<lambda>(poolIdentifier, poolPrefix, _).
          if \<not> equal_fold (t_NameSuffix t) poolPrefix then Inr None
          else Inr (Some poolIdentifier)))"

definition add_to_pool :: "string \<Rightarrow> string \<Rightarrow> vm \<Rightarrow> bool \<Rightarrow> topology \<Rightarrow> topology" where
  "add_to_pool poolIdentifier vmPoolName v isUpgradableVM t =
     (let pool = (case map_of (t_AgentPools t) poolIdentifier of
            Some a \<Rightarrow> a
          | None \<Rightarrow> \<lparr>apt_Identifier = poolIdentifier, apt_Name = vmPoolName,
                     apt_AgentVMs = [], apt_UpgradedAgentVMs = []\<rparr>);
          pool = (if isUpgradableVM then pool\<lparr>apt_AgentVMs := apt_AgentVMs pool @ [v]\<rparr>
                  else pool\<lparr>apt_UpgradedAgentVMs := apt_UpgradedAgentVMs pool @ [v]\<rparr>)
      in t\<lparr>t_AgentPools := AList.update poolIdentifier pool (t_AgentPools t)\<rparr>)"

definition addVMToAgentPool :: "vm \<Rightarrow> bool \<Rightarrow> topology \<Rightarrow> topology result" where
  "addVMToAgentPool v isUpgradableVM t =
     (let vmPoolName = vm_pool_name t v in
      if vmPoolName = '''' then Inr t
      else if map_of (t_AgentPoolsToUpgrade t) vmPoolName \<noteq> Some True then Inr t
      else bindR (pool_identifier t v) (\<lambda>ident.
        case ident of None \<Rightarrow> Inr t
        | Some poolIdentifier \<Rightarrow> Inr (add_to_pool poolIdentifier vmPoolName v isUpgradableVM t)))"

text \<open>Errors of \<open>addVMToAgentPool\<close> are logged and dropped; panics are not errors.\<close>

definition log_error :: "topology \<Rightarrow> topology result \<Rightarrow> topology result" where
  "log_error t r = (case r of Inl (Err _) \<Rightarrow> Inr t | _ \<Rightarrow> r)"

definition is_master_vm :: "vm \<Rightarrow> bool" where
  "is_master_vm v \<longleftrightarrow> contains (vm_Name v) ''k8s-master-''"

definition addVMToUpgradeSets :: "vm \<Rightarrow> topology \<Rightarrow> topology result" where
  "addVMToUpgradeSets v t =
     (if is_master_vm v then Inr (t\<lparr>t_MasterVMs := t_MasterVMs t @ [v]\<rparr>)
      else log_error t (addVMToAgentPool v True t))"

definition addVMToFinishedSets :: "vm \<Rightarrow> topology \<Rightarrow> topology result" where
  "addVMToFinishedSets v t =
     (if is_master_vm v then Inr (t\<lparr>t_UpgradedMasterVMs := t_UpgradedMasterVMs t @ [v]\<rparr>)
      else log_error t (addVMToAgentPool v False t))"

subsection \<open>All VMs of the resource group\<close>

definition in_cluster :: "topology \<Rightarrow> vm \<Rightarrow> bool result" where
  "in_cluster t v =
     (if contains (vm_Name v) (t_NameSuffix t) then Inr True
      else if length (t_NameSuffix t) < 4 then Inl (Panic ''slice bounds out of range'')
      else Inr (contains (vm_Name v) (take 4 (t_NameSuffix t) @ ''k8s'')))"

definition goal_version :: "upgrade_cluster \<Rightarrow> string result" where
  "goal_version uc =
     bindR (deref (p_OrchestratorProfile (uc_Properties uc))) (\<lambda>op. Inr (op_OrchestratorVersion op))"

definition vm_version :: "upgrade_cluster \<Rightarrow> vm \<Rightarrow> string" where
  "vm_version uc v = getNodeVersion (uc_kubelet uc) (to_lower (vm_Name v)) (vm_Tags v) True"

definition set_node :: "upgrade_cluster \<Rightarrow> string \<Rightarrow> topology \<Rightarrow> vm \<Rightarrow> topology result" where
  "set_node uc goalVersion t v =
     bindR (in_cluster t v) (\<lambda>mine.
       if \<not> mine then Inr t
       else (let currentVersion = vm_version uc v in
         if uc_Force uc then addVMToUpgradeSets v t
         else if currentVersion = '''' then Inr t
         else if currentVersion \<noteq> goalVersion then
           bindR (upgradable (uc_Properties uc) currentVersion) (\<lambda>_. addVMToUpgradeSets v t)
         else addVMToFinishedSets v t))"

definition setNodesToUpgrade :: "upgrade_cluster \<Rightarrow> vm list result \<Rightarrow> topology \<Rightarrow> topology result" where
  "setNodesToUpgrade uc vmList t =
     bindR (goal_version uc) (\<lambda>goalVersion.
     bindR vmList (\<lambda>vms. foldR (set_node uc goalVersion) t vms))"

subsection \<open>The control plane check and the cluster autoscaler\<close>

text \<open>
  One poll of the node list is \<open>None\<close> for an error, otherwise the control plane nodes with their
  readiness. The stream polls until no upgraded node is unready, at most \<open>steps\<close> times, and sends
  what every successful poll found.
\<close>

definition getUpgradedNotReady :: "(string \<times> bool) list option \<Rightarrow> string list \<Rightarrow> string list option" where
  "getUpgradedNotReady cpNodes upgraded =
     map_option (\<lambda>ns. filter (\<lambda>v. map_of (rev ns) v = Some False) upgraded) cpNodes"

fun upgradedNotReadyStream ::
    "nat \<Rightarrow> string list \<Rightarrow> (nat \<Rightarrow> (string \<times> bool) list option) \<Rightarrow> string list list" where
  "upgradedNotReadyStream 0 upgraded polls = []"
| "upgradedNotReadyStream (Suc steps) upgraded polls =
     (case getUpgradedNotReady (polls 0) upgraded of
        None \<Rightarrow> upgradedNotReadyStream steps upgraded (\<lambda>k. polls (Suc k))
      | Some notReady \<Rightarrow> notReady # (if length notReady > 0
          then upgradedNotReadyStream steps upgraded (\<lambda>k. polls (Suc k)) else []))"

definition checkControlPlaneNodesStatus :: "vm list \<Rightarrow> string list list \<Rightarrow> unit result" where
  "checkControlPlaneNodesStatus upgradedMasterVMs received =
     (if length upgradedMasterVMs = 0 then Inr ()
      else if foldl (\<lambda>_ notReady. length notReady) 0 received > 1
      then Inl (Err ''too many upgraded nodes are not ready'') else Inr ())"

text \<open>
  \<open>SetClusterAutoscalerReplicaCount\<close> with the answers of the API server, per attempt the replica
  count read (\<open>None\<close> for an error) and whether the update succeeded.
\<close>

fun set_replicas :: "nat \<Rightarrow> (nat \<Rightarrow> int option \<times> bool) \<Rightarrow> int \<Rightarrow> bool \<Rightarrow> int \<times> bool" where
  "set_replicas 0 answers replicas failed = (replicas, failed)"
| "set_replicas (Suc n) answers replicas failed =
     (case answers 0 of
        (None, _) \<Rightarrow> set_replicas n (\<lambda>k. answers (Suc k)) replicas True
      | (Some c, True) \<Rightarrow> (c, False)
      | (Some c, False) \<Rightarrow> set_replicas n (\<lambda>k. answers (Suc k)) c True)"

definition SetClusterAutoscalerReplicaCount :: "(nat \<Rightarrow> int option \<times> bool) option \<Rightarrow> int result" where
  "SetClusterAutoscalerReplicaCount client =
     (case client of None \<Rightarrow> Inl (Err ''no kubernetes client'')
      | Some answers \<Rightarrow> (let (replicas, failed) = set_replicas 10 answers 0 False in
          if failed then Inl (Err ''update failed'') else Inr replicas))"

subsection \<open>Invariants of the sorting\<close>

definition upgrade_vms :: "topology \<Rightarrow> vm set" where
  "upgrade_vms t = set (t_MasterVMs t) \<union> (\<Union>(i, a) \<in> set (t_AgentPools t). set (apt_AgentVMs a))"

definition finished_vms :: "topology \<Rightarrow> vm set" where
  "finished_vms t =
     set (t_UpgradedMasterVMs t) \<union> (\<Union>(i, a) \<in> set (t_AgentPools t). set (apt_UpgradedAgentVMs a))"

lemma set_update_cases: "x \<in> set (AList.update k v al) \<Longrightarrow> x = (k, v) \<or> x \<in> set al"
  by (induction al) (auto split: if_splits)

lemma add_to_pool_sets:
  "upgrade_vms (add_to_pool i n v b t) \<subseteq> (if b then {v} else {}) \<union> upgrade_vms t"
  "finished_vms (add_to_pool i n v b t) \<subseteq> (if b then {} else {v}) \<union> finished_vms t"
  unfolding upgrade_vms_def finished_vms_def add_to_pool_def Let_def
  by (auto dest!: set_update_cases map_of_SomeD split: option.splits if_splits; blast)+

lemma add_to_pool_fields:
  "t_MasterVMs (add_to_pool i n v b t) = t_MasterVMs t"
  "t_UpgradedMasterVMs (add_to_pool i n v b t) = t_UpgradedMasterVMs t"
  "t_NameSuffix (add_to_pool i n v b t) = t_NameSuffix t"
  "t_AgentPoolsToUpgrade (add_to_pool i n v b t) = t_AgentPoolsToUpgrade t"
  by (simp_all add: add_to_pool_def Let_def)

lemma addVM_sets:
  assumes "addVMToAgentPool v b t = Inr t'"
  shows "upgrade_vms t' \<subseteq> (if b then {v} else {}) \<union> upgrade_vms t"
    and "finished_vms t' \<subseteq> (if b then {} else {v}) \<union> finished_vms t"
    and "t_MasterVMs t' = t_MasterVMs t" and "t_UpgradedMasterVMs t' = t_UpgradedMasterVMs t"
    and "t_NameSuffix t' = t_NameSuffix t" and "t_AgentPoolsToUpgrade t' = t_AgentPoolsToUpgrade t"
proof -
  have "t' = t \<or> (\<exists>i n. t' = add_to_pool i n v b t)"
    using assms by (auto simp: addVMToAgentPool_def Let_def bindR_Inr_iff split: if_splits option.splits)
  then consider "t' = t" | i n where "t' = add_to_pool i n v b t" by blast
  then show "upgrade_vms t' \<subseteq> (if b then {v} else {}) \<union> upgrade_vms t"
    "finished_vms t' \<subseteq> (if b then {} else {v}) \<union> finished_vms t"
    "t_MasterVMs t' = t_MasterVMs t" "t_UpgradedMasterVMs t' = t_UpgradedMasterVMs t"
    "t_NameSuffix t' = t_NameSuffix t" "t_AgentPoolsToUpgrade t' = t_AgentPoolsToUpgrade t"
    by (cases; use add_to_pool_sets add_to_pool_fields in simp)+
qed

lemma log_error_Inr: "log_error t r = Inr t' \<Longrightarrow> r = Inr t' \<or> t' = t"
  by (auto simp: log_error_def split: sum.splits failure.splits)

lemma addVMToUpgradeSets_sets:
  assumes "addVMToUpgradeSets v t = Inr t'"
  shows "upgrade_vms t' \<subseteq> {v} \<union> upgrade_vms t" and "finished_vms t' \<subseteq> finished_vms t"
    and "is_master_vm v \<Longrightarrow> v \<in> set (t_MasterVMs t')"
    and "set (t_MasterVMs t) \<subseteq> set (t_MasterVMs t')" and "t_UpgradedMasterVMs t' = t_UpgradedMasterVMs t"
proof -
  consider "is_master_vm v" "t' = t\<lparr>t_MasterVMs := t_MasterVMs t @ [v]\<rparr>"
    | "\<not> is_master_vm v" "addVMToAgentPool v True t = Inr t' \<or> t' = t"
    using assms log_error_Inr [of t] by (auto simp: addVMToUpgradeSets_def split: if_splits)
  then show "upgrade_vms t' \<subseteq> {v} \<union> upgrade_vms t" "finished_vms t' \<subseteq> finished_vms t"
    "is_master_vm v \<Longrightarrow> v \<in> set (t_MasterVMs t')"
    "set (t_MasterVMs t) \<subseteq> set (t_MasterVMs t')" "t_UpgradedMasterVMs t' = t_UpgradedMasterVMs t"
    using addVM_sets [of v True t t'] by (cases; auto simp: upgrade_vms_def finished_vms_def)+
qed

lemma addVMToFinishedSets_sets:
  assumes "addVMToFinishedSets v t = Inr t'"
  shows "upgrade_vms t' \<subseteq> upgrade_vms t" and "finished_vms t' \<subseteq> {v} \<union> finished_vms t"
    and "is_master_vm v \<Longrightarrow> v \<in> set (t_UpgradedMasterVMs t')"
    and "set (t_UpgradedMasterVMs t) \<subseteq> set (t_UpgradedMasterVMs t')" and "t_MasterVMs t' = t_MasterVMs t"
proof -
  consider "is_master_vm v" "t' = t\<lparr>t_UpgradedMasterVMs := t_UpgradedMasterVMs t @ [v]\<rparr>"
    | "\<not> is_master_vm v" "addVMToAgentPool v False t = Inr t' \<or> t' = t"
    using assms log_error_Inr [of t] by (auto simp: addVMToFinishedSets_def split: if_splits)
  then show "upgrade_vms t' \<subseteq> upgrade_vms t" "finished_vms t' \<subseteq> {v} \<union> finished_vms t"
    "is_master_vm v \<Longrightarrow> v \<in> set (t_UpgradedMasterVMs t')"
    "set (t_UpgradedMasterVMs t) \<subseteq> set (t_UpgradedMasterVMs t')" "t_MasterVMs t' = t_MasterVMs t"
    using addVM_sets [of v False t t'] by (cases; auto simp: upgrade_vms_def finished_vms_def)+
qed

text \<open>What every VM in the two sets has in common, without \<open>--force\<close>.\<close>

definition sorted_by_version :: "upgrade_cluster \<Rightarrow> string \<Rightarrow> topology \<Rightarrow> bool" where
  "sorted_by_version uc goal t \<longleftrightarrow>
     (\<forall>v \<in> upgrade_vms t. vm_version uc v \<noteq> '''' \<and> vm_version uc v \<noteq> goal \<and>
        upgradable (uc_Properties uc) (vm_version uc v) = Inr ()) \<and>
     (\<forall>v \<in> finished_vms t. vm_version uc v = goal)"

lemma set_node_sorted:
  assumes "\<not> uc_Force uc" and "sorted_by_version uc goal t" and "set_node uc goal t v = Inr t'"
  shows "sorted_by_version uc goal t'"
proof -
  let ?ver = "vm_version uc v"
  consider "t' = t"
    | "?ver \<noteq> ''''" "?ver \<noteq> goal" "upgradable (uc_Properties uc) ?ver = Inr ()"
        "addVMToUpgradeSets v t = Inr t'"
    | "?ver = goal" "addVMToFinishedSets v t = Inr t'"
    using assms(1,3) by (auto simp: set_node_def Let_def bindR_Inr_iff split: if_splits)
  then show ?thesis
  proof cases
    case 2
    then show ?thesis
      using addVMToUpgradeSets_sets(1,2) [OF 2(4)] assms(2) by (auto simp: sorted_by_version_def)
  next
    case 3
    then show ?thesis
      using addVMToFinishedSets_sets(1,2) [OF 3(2)] assms(2) by (auto simp: sorted_by_version_def)
  qed (use assms(2) in simp)
qed

text \<open>
  The VMs that have to be sorted: those of the cluster whose version is known (or need not be), and
  which are of the control plane or whose name gives a pool that is to be upgraded.
\<close>

definition sortable :: "upgrade_cluster \<Rightarrow> topology \<Rightarrow> vm \<Rightarrow> bool" where
  "sortable uc t v \<longleftrightarrow> in_cluster t v = Inr True \<and> (uc_Force uc \<or> vm_version uc v \<noteq> '''') \<and>
     (is_master_vm v \<or>
      vm_pool_name t v \<noteq> '''' \<and> map_of (t_AgentPoolsToUpgrade t) (vm_pool_name t v) = Some True \<and>
      (\<exists>i. pool_identifier t v = Inr (Some i)))"

lemma set_update_old: "x \<in> set al \<Longrightarrow> x \<in> set (AList.update k v al) \<or> map_of al k = Some (snd x) \<and> fst x = k"
  by (induction al) auto

lemma set_update_new: "(k, v) \<in> set (AList.update k v al)"
  by (induction al) auto

lemma add_to_pool_pool:
  "\<exists>p. t_AgentPools (add_to_pool i n v b t) = AList.update i p (t_AgentPools t) \<and>
      (if b then v \<in> set (apt_AgentVMs p) else v \<in> set (apt_UpgradedAgentVMs p)) \<and>
      (\<forall>a. map_of (t_AgentPools t) i = Some a \<longrightarrow> set (apt_AgentVMs a) \<subseteq> set (apt_AgentVMs p) \<and>
         set (apt_UpgradedAgentVMs a) \<subseteq> set (apt_UpgradedAgentVMs p))"
  by (cases "map_of (t_AgentPools t) i"; cases b; simp add: add_to_pool_def Let_def;
      rule exI; rule conjI; (rule refl)?; force)

lemma add_to_pool_mono:
  "upgrade_vms t \<subseteq> upgrade_vms (add_to_pool i n v b t)"
  "finished_vms t \<subseteq> finished_vms (add_to_pool i n v b t)"
  "if b then v \<in> upgrade_vms (add_to_pool i n v b t) else v \<in> finished_vms (add_to_pool i n v b t)"
proof -
  obtain p where p: "t_AgentPools (add_to_pool i n v b t) = AList.update i p (t_AgentPools t)"
      "if b then v \<in> set (apt_AgentVMs p) else v \<in> set (apt_UpgradedAgentVMs p)"
      "\<And>a. map_of (t_AgentPools t) i = Some a \<Longrightarrow> set (apt_AgentVMs a) \<subseteq> set (apt_AgentVMs p) \<and>
         set (apt_UpgradedAgentVMs a) \<subseteq> set (apt_UpgradedAgentVMs p)"
    using add_to_pool_pool [of i n v b t] by blast
  have new: "(i, p) \<in> set (t_AgentPools (add_to_pool i n v b t))"
    unfolding p(1) by (rule set_update_new)
  have old: "\<exists>a'. (j, a') \<in> set (t_AgentPools (add_to_pool i n v b t)) \<and>
      set (apt_AgentVMs a) \<subseteq> set (apt_AgentVMs a') \<and>
      set (apt_UpgradedAgentVMs a) \<subseteq> set (apt_UpgradedAgentVMs a')"
    if "(j, a) \<in> set (t_AgentPools t)" for j a
    using set_update_old [OF that, of i p] p(3) new unfolding p(1) by auto
  show "upgrade_vms t \<subseteq> upgrade_vms (add_to_pool i n v b t)"
    unfolding upgrade_vms_def add_to_pool_fields using old by fastforce
  show "finished_vms t \<subseteq> finished_vms (add_to_pool i n v b t)"
    unfolding finished_vms_def add_to_pool_fields using old by fastforce
  show "if b then v \<in> upgrade_vms (add_to_pool i n v b t) else v \<in> finished_vms (add_to_pool i n v b t)"
    using new p(2) unfolding upgrade_vms_def finished_vms_def by (auto split: if_splits)
qed

lemma addVM_mono:
  assumes "addVMToAgentPool v b t = Inr t'"
  shows "upgrade_vms t \<subseteq> upgrade_vms t'" and "finished_vms t \<subseteq> finished_vms t'"
  using assms add_to_pool_mono(1,2) [THEN subsetD]
  by (auto simp: addVMToAgentPool_def Let_def bindR_Inr_iff split: if_splits option.splits)

lemma addVM_added:
  assumes "vm_pool_name t v \<noteq> ''''" and "map_of (t_AgentPoolsToUpgrade t) (vm_pool_name t v) = Some True"
    and "pool_identifier t v = Inr (Some i)"
  shows "addVMToAgentPool v b t = Inr (add_to_pool i (vm_pool_name t v) v b t)"
  using assms by (simp add: addVMToAgentPool_def Let_def)

lemma addSets_mono:
  assumes "addVMToUpgradeSets v t = Inr t' \<or> addVMToFinishedSets v t = Inr t'"
  shows "upgrade_vms t \<subseteq> upgrade_vms t'" and "finished_vms t \<subseteq> finished_vms t'"
    and "t_NameSuffix t' = t_NameSuffix t" and "t_AgentPoolsToUpgrade t' = t_AgentPoolsToUpgrade t"
proof -
  consider "t' = t" | b where "addVMToAgentPool v b t = Inr t'"
    | "t' = t\<lparr>t_MasterVMs := t_MasterVMs t @ [v]\<rparr>"
    | "t' = t\<lparr>t_UpgradedMasterVMs := t_UpgradedMasterVMs t @ [v]\<rparr>"
    using assms by (auto simp: addVMToUpgradeSets_def addVMToFinishedSets_def
        dest!: log_error_Inr split: if_splits)
  then show "upgrade_vms t \<subseteq> upgrade_vms t'" "finished_vms t \<subseteq> finished_vms t'"
    "t_NameSuffix t' = t_NameSuffix t" "t_AgentPoolsToUpgrade t' = t_AgentPoolsToUpgrade t"
    by (cases; use addVM_mono addVM_sets(5,6) in \<open>auto simp: upgrade_vms_def finished_vms_def\<close>)+
qed

lemma set_node_mono:
  assumes "set_node uc goal t v = Inr t'"
  shows "upgrade_vms t \<subseteq> upgrade_vms t'" and "finished_vms t \<subseteq> finished_vms t'"
    and "t_NameSuffix t' = t_NameSuffix t" and "t_AgentPoolsToUpgrade t' = t_AgentPoolsToUpgrade t"
proof -
  have "t' = t \<or> addVMToUpgradeSets v t = Inr t' \<or> addVMToFinishedSets v t = Inr t'"
    using assms by (auto simp: set_node_def Let_def bindR_Inr_iff split: if_splits)
  then show "upgrade_vms t \<subseteq> upgrade_vms t'" "finished_vms t \<subseteq> finished_vms t'"
    "t_NameSuffix t' = t_NameSuffix t" "t_AgentPoolsToUpgrade t' = t_AgentPoolsToUpgrade t"
    using addSets_mono [of v t t'] by auto
qed

lemma set_node_added:
  assumes "set_node uc goal t v = Inr t'" and "sortable uc t v"
  shows "if uc_Force uc \<or> vm_version uc v \<noteq> goal then v \<in> upgrade_vms t' else v \<in> finished_vms t'"
proof -
  have "v \<in> upgrade_vms u" if u: "addVMToUpgradeSets v t = Inr u" for u
  proof (cases "is_master_vm v")
    case True
    then show ?thesis
      using u by (auto simp: addVMToUpgradeSets_def upgrade_vms_def)
  next
    case False
    then obtain i where "u = add_to_pool i (vm_pool_name t v) v True t"
      using u assms(2)
      by (auto simp: addVMToUpgradeSets_def sortable_def addVM_added log_error_def)
    then show ?thesis using add_to_pool_mono(3) [of True] by simp
  qed
  moreover have "v \<in> finished_vms u" if u: "addVMToFinishedSets v t = Inr u" for u
  proof (cases "is_master_vm v")
    case True
    then show ?thesis
      using u by (auto simp: addVMToFinishedSets_def finished_vms_def)
  next
    case False
    then obtain i where "u = add_to_pool i (vm_pool_name t v) v False t"
      using u assms(2)
      by (auto simp: addVMToFinishedSets_def sortable_def addVM_added log_error_def)
    then show ?thesis using add_to_pool_mono(3) [of False] by simp
  qed
  ultimately show ?thesis
    using assms by (auto simp: set_node_def Let_def bindR_Inr_iff sortable_def split: if_splits)
qed

lemma sortable_cong:
  assumes "t_NameSuffix t' = t_NameSuffix t" and "t_AgentPoolsToUpgrade t' = t_AgentPoolsToUpgrade t"
  shows "sortable uc t' v = sortable uc t v"
  unfolding sortable_def in_cluster_def pool_identifier_def vm_pool_name_def assms by (rule refl)

lemma nodes_kept:
  "foldR (set_node uc goal) t vms = Inr t' \<Longrightarrow>
     upgrade_vms t \<subseteq> upgrade_vms t' \<and> finished_vms t \<subseteq> finished_vms t' \<and>
     (\<forall>v \<in> set vms. sortable uc t v \<longrightarrow>
        (if uc_Force uc \<or> vm_version uc v \<noteq> goal then v \<in> upgrade_vms t' else v \<in> finished_vms t'))"
proof (induction vms arbitrary: t)
  case (Cons v vms)
  then obtain u where u: "set_node uc goal t v = Inr u" "foldR (set_node uc goal) u vms = Inr t'"
    by (auto simp: bindR_Inr_iff)
  note mono = set_node_mono [OF u(1)] and IH = Cons.IH [OF u(2), unfolded sortable_cong [OF mono(3,4)]]
  then show ?case using mono(1,2) set_node_added [OF u(1)] by (auto split: if_splits; blast)
qed simp

text \<open>Every VM of a pool has the pool's identifier and is in a pool that is to be upgraded.\<close>

definition pools_inv :: "topology \<Rightarrow> bool" where
  "pools_inv t \<longleftrightarrow> (\<forall>(i, a) \<in> set (t_AgentPools t).
     \<forall>v \<in> set (apt_AgentVMs a) \<union> set (apt_UpgradedAgentVMs a).
       pool_identifier t v = Inr (Some i) \<and>
       map_of (t_AgentPoolsToUpgrade t) (vm_pool_name t v) = Some True)"

lemma pool_functions_cong:
  assumes "t_NameSuffix t' = t_NameSuffix t" and "t_AgentPoolsToUpgrade t' = t_AgentPoolsToUpgrade t"
  shows "pool_identifier t' v = pool_identifier t v" and "vm_pool_name t' v = vm_pool_name t v"
  unfolding pool_identifier_def vm_pool_name_def assms by (rule refl)+

lemma addVM_pools_inv:
  assumes "pools_inv t" and "addVMToAgentPool v b t = Inr t'"
  shows "pools_inv t'"
proof -
  consider "t' = t"
    | i where "t' = add_to_pool i (vm_pool_name t v) v b t" "pool_identifier t v = Inr (Some i)"
        "map_of (t_AgentPoolsToUpgrade t) (vm_pool_name t v) = Some True"
    using assms(2) by (auto simp: addVMToAgentPool_def Let_def bindR_Inr_iff split: if_splits option.splits)
  then show ?thesis
  proof cases
    case 2
    let ?t' = "add_to_pool i (vm_pool_name t v) v b t"
    let ?ok = "\<lambda>(i, a). \<forall>v \<in> set (apt_AgentVMs a) \<union> set (apt_UpgradedAgentVMs a).
       pool_identifier t v = Inr (Some i) \<and>
       map_of (t_AgentPoolsToUpgrade t) (vm_pool_name t v) = Some True"
    have ok: "?ok e" if "e \<in> set (t_AgentPools t)" for e
      using assms(1) that unfolding pools_inv_def by blast
    have "?ok e" if "e \<in> set (t_AgentPools ?t')" for e
    proof (cases "map_of (t_AgentPools t) i")
      case None
      then have "e \<in> set (t_AgentPools t) \<or> e = (i, \<lparr>apt_Identifier = i, apt_Name = vm_pool_name t v,
          apt_AgentVMs = if b then [v] else [], apt_UpgradedAgentVMs = if b then [] else [v]\<rparr>)"
        using set_update_cases that by (fastforce simp: add_to_pool_def Let_def split: if_splits)
      then show ?thesis using ok 2(2,3) by (auto split: if_splits)
    next
      case (Some a)
      have "e \<in> set (t_AgentPools t) \<or> e = (i, if b then a\<lparr>apt_AgentVMs := apt_AgentVMs a @ [v]\<rparr>
          else a\<lparr>apt_UpgradedAgentVMs := apt_UpgradedAgentVMs a @ [v]\<rparr>)"
        using set_update_cases that Some by (fastforce simp: add_to_pool_def Let_def split: if_splits)
      moreover have "?ok (i, a)" using ok [OF map_of_SomeD [OF Some]] .
      ultimately show ?thesis using ok 2(2,3) by (cases b) auto
    qed
    then show ?thesis
      unfolding pools_inv_def 2(1) pool_functions_cong [OF add_to_pool_fields(3,4)] add_to_pool_fields
      by blast
  qed (use assms(1) in simp)
qed

lemma set_node_pools_inv:
  assumes "pools_inv t" and "set_node uc goal t v = Inr t'"
  shows "pools_inv t'"
proof -
  have frame: "pools_inv u" if "t_AgentPools u = t_AgentPools t" "t_NameSuffix u = t_NameSuffix t"
      "t_AgentPoolsToUpgrade u = t_AgentPoolsToUpgrade t" for u
    using assms(1) unfolding pools_inv_def that(1,3) pool_functions_cong [OF that(2,3)] .
  consider "t' = t" | b where "addVMToAgentPool v b t = Inr t'"
    | "t' = t\<lparr>t_MasterVMs := t_MasterVMs t @ [v]\<rparr>"
    | "t' = t\<lparr>t_UpgradedMasterVMs := t_UpgradedMasterVMs t @ [v]\<rparr>"
    using assms(2) by (auto simp: set_node_def Let_def bindR_Inr_iff addVMToUpgradeSets_def
        addVMToFinishedSets_def dest!: log_error_Inr split: if_splits)
  then show ?thesis
    by cases (simp_all add: assms(1) addVM_pools_inv [OF assms(1)] frame)
qed

subsection \<open>Properties\<close>

text \<open>The sets of an upgrade that starts: nothing is sorted yet.\<close>

definition fresh_topology :: "string \<Rightarrow> (string \<times> bool) list \<Rightarrow> topology" where
  "fresh_topology suffix toUpgrade = \<lparr>t_NameSuffix = suffix, t_AgentPoolsToUpgrade = toUpgrade,
     t_AgentPools = [], t_MasterVMs = [], t_UpgradedMasterVMs = []\<rparr>"

lemma fresh_topology_invs: "sorted_by_version uc goal (fresh_topology s p)" "pools_inv (fresh_topology s p)"
  by (simp_all add: fresh_topology_def sorted_by_version_def pools_inv_def upgrade_vms_def finished_vms_def)

lemma setNodes_fold:
  "setNodesToUpgrade uc (Inr vms) t = Inr t' \<Longrightarrow> goal_version uc = Inr goal \<Longrightarrow>
     foldR (set_node uc goal) t vms = Inr t'"
  by (simp add: setNodesToUpgrade_def)

lemma setNodes_sorted:
  assumes "setNodesToUpgrade uc (Inr vms) (fresh_topology suffix todo) = Inr t"
    and "\<not> uc_Force uc" and "goal_version uc = Inr goal"
  shows "sorted_by_version uc goal t"
  using setNodes_fold [OF assms(1,3)] fresh_topology_invs(1)
  by (rule foldR_invariant) (erule set_node_sorted [OF assms(2)])

lemma setNodes_pools_inv:
  assumes "setNodesToUpgrade uc (Inr vms) (fresh_topology suffix todo) = Inr t"
    and "goal_version uc = Inr goal"
  shows "pools_inv t"
  using setNodes_fold [OF assms] fresh_topology_invs(2)
  by (rule foldR_invariant) (erule set_node_pools_inv)

text \<open>
  A cluster of one control plane VM that still runs 1.28.15 and one agent VM that already runs the goal
  version 1.29.10.
\<close>

definition example_upgrade :: upgrade_cluster where
  "example_upgrade = \<lparr>uc_Properties = zero_properties\<lparr>p_OrchestratorProfile :=
       Some (zero_orchestrator_profile\<lparr>op_OrchestratorType := Kubernetes,
         op_OrchestratorVersion := ''1.29.10''\<rparr>)\<rparr>,
     uc_Force = False, uc_kubelet = None\<rparr>"

definition example_master :: vm where
  "example_master = \<lparr>vm_Name = ''k8s-master-11290731-0'',
     vm_Tags = Some [(''orchestrator'', ''Kubernetes:1.28.15'')], vm_OSType = Linux,
     vm_ProvisioningState = Some ''Succeeded''\<rparr>"

definition example_agent :: vm where
  "example_agent = \<lparr>vm_Name = ''k8s-pool1-11290731-0'',
     vm_Tags = Some [(''orchestrator'', ''Kubernetes:1.29.10''), (''poolName'', ''pool1'')],
     vm_OSType = Linux, vm_ProvisioningState = Some ''Succeeded''\<rparr>"

lemma example_versions:
  "vm_version example_upgrade example_master = ''1.28.15''"
  "vm_version example_upgrade example_agent = ''1.29.10''"
  by (simp_all add: vm_version_def getNodeVersion_def example_master_def example_agent_def
      example_upgrade_def)

lemma example_upgradable: "upgradable (uc_Properties example_upgrade) ''1.28.15'' = Inr ()"
proof -
  have "isVersionSupported (zero_orchestrator_profile\<lparr>op_OrchestratorType := Kubernetes,
      op_OrchestratorVersion := ''1.28.15''\<rparr>) False"
    using creatable_updatable [of "''1.28.15''" False False True]
    by (simp add: isVersionSupported_iff GetAllSupportedKubernetesVersions_create)
  then show ?thesis
    by (simp add: upgradable_def example_upgrade_def GetOrchestratorVersionProfile_def
        kubernetesInfo_def kubernetesUpgrades_def upgrades_now zero_properties_def HasWindows_def
        pools_def IsAzureStackCloud_def version_info_def zero_orchestrator_profile_def)
qed

lemma example_names:
  "is_master_vm example_master" "\<not> is_master_vm example_agent"
  "contains (vm_Name example_master) ''11290731''" "contains (vm_Name example_agent) ''11290731''"
  by code_simp+

lemma example_pool:
  assumes "t_AgentPoolsToUpgrade t = [(''pool1'', True)]" and "t_NameSuffix t = ''11290731''"
  shows "addVMToAgentPool example_agent b t = Inr (add_to_pool ''pool1'' ''pool1'' example_agent b t)"
proof -
  have "K8sLinuxVMNameParts ''k8s-pool1-11290731-0'' = Inr (''pool1'', ''11290731'', 0)"
    by code_simp
  then show ?thesis
    by (simp add: addVMToAgentPool_def Let_def vm_pool_name_def tag_def pool_identifier_def assms
        example_agent_def Windows_def Linux_def)
qed

lemma example_sorted:
  "setNodesToUpgrade example_upgrade (Inr [example_master, example_agent])
     (fresh_topology ''11290731'' [(''pool1'', True)]) =
   Inr \<lparr>t_NameSuffix = ''11290731'', t_AgentPoolsToUpgrade = [(''pool1'', True)],
     t_AgentPools = [(''pool1'', \<lparr>apt_Identifier = ''pool1'', apt_Name = ''pool1'',
       apt_AgentVMs = [], apt_UpgradedAgentVMs = [example_agent]\<rparr>)],
     t_MasterVMs = [example_master], t_UpgradedMasterVMs = []\<rparr>"
proof -
  have goal: "goal_version example_upgrade = Inr ''1.29.10''"
    by (simp add: goal_version_def example_upgrade_def)
  have "uc_Force example_upgrade = False" by (simp add: example_upgrade_def)
  then show ?thesis
    using example_upgradable
    by (simp add: setNodesToUpgrade_def goal set_node_def in_cluster_def example_versions Let_def
        addVMToUpgradeSets_def addVMToFinishedSets_def example_names fresh_topology_def
        example_pool add_to_pool_def log_error_def)
qed

text \<open>
  C1: without \<open>--force\<close>, the VMs that \<open>setNodesToUpgrade\<close> selects for the upgrade all run a known
  version other than the goal, from which the goal is an available upgrade, and the VMs it takes for
  finished all run the goal version; the two sets are disjoint.\<close>

theorem selected_vms_are_upgradable:
  assumes "setNodesToUpgrade uc (Inr vms) (fresh_topology suffix todo) = Inr t"
    and "\<not> uc_Force uc" and "goal_version uc = Inr goal"
  shows "(\<forall>v \<in> upgrade_vms t. vm_version uc v \<notin> {'''', goal} \<and>
            upgradable (uc_Properties uc) (vm_version uc v) = Inr ()) \<and>
         (\<forall>v \<in> finished_vms t. vm_version uc v = goal) \<and>
         upgrade_vms t \<inter> finished_vms t = {}"
  using setNodes_sorted [OF assms] unfolding sorted_by_version_def by blast

theorem selected_vms_are_upgradable_witness:
  "\<exists>t. setNodesToUpgrade example_upgrade (Inr [example_master, example_agent])
     (fresh_topology ''11290731'' [(''pool1'', True)]) = Inr t \<and>
   upgrade_vms t \<noteq> {} \<and> finished_vms t \<noteq> {} \<and> upgrade_vms t \<inter> finished_vms t = {}"
proof -
  have "\<not> uc_Force example_upgrade" "goal_version example_upgrade = Inr ''1.29.10''"
    by (simp_all add: goal_version_def example_upgrade_def)
  from selected_vms_are_upgradable [OF example_sorted this] example_sorted show ?thesis
    by (auto simp: upgrade_vms_def finished_vms_def)
qed

text \<open>
  C2: no VM of the cluster is lost: every control plane VM, and every VM whose name gives a pool that is
  to be upgraded, ends up in the set for its version (with \<open>--force\<close>, in the set to upgrade), provided
  its version is known or the upgrade is forced; and every VM in a pool belongs there by its name.\<close>

theorem no_vm_is_lost:
  assumes "setNodesToUpgrade uc (Inr vms) (fresh_topology suffix todo) = Inr t"
    and "goal_version uc = Inr goal"
  shows "(\<forall>v \<in> set vms. sortable uc (fresh_topology suffix todo) v \<longrightarrow>
            (if uc_Force uc \<or> vm_version uc v \<noteq> goal then v \<in> upgrade_vms t else v \<in> finished_vms t)) \<and>
         pools_inv t"
  using nodes_kept [OF setNodes_fold [OF assms]] setNodes_pools_inv [OF assms] by blast

theorem no_vm_is_lost_witness:
  "sortable example_upgrade (fresh_topology ''11290731'' [(''pool1'', True)]) example_master \<and>
   (\<exists>t. setNodesToUpgrade example_upgrade (Inr [example_master, example_agent])
     (fresh_topology ''11290731'' [(''pool1'', True)]) = Inr t \<and> example_master \<in> upgrade_vms t)"
proof -
  have goal: "goal_version example_upgrade = Inr ''1.29.10''"
    by (simp add: goal_version_def example_upgrade_def)
  have "sortable example_upgrade (fresh_topology ''11290731'' [(''pool1'', True)]) example_master"
    unfolding sortable_def example_versions
    by (simp add: in_cluster_def example_names fresh_topology_def)
  then show ?thesis
    using no_vm_is_lost [OF example_sorted goal] example_sorted by (auto simp: example_versions)
qed

subsection \<open>The pool identifier of a generated name\<close>

lemma pad0_digits:
  assumes "i < 100"
  shows "pad0 2 (utoa i) = [digit_char (i div 10), digit_char (i mod 10)]"
  using assms by (cases "i < 10") (simp_all add: pad0_def digit_char_eval(1) utoa.simps)

lemma digit_char_nine:
  assumes "d < 10"
  shows "digit_char d = CHR ''9'' \<longleftrightarrow> d = 9"
proof
  assume "digit_char d = CHR ''9''"
  then have "digit_val (digit_char d) = 9" by (simp add: digit_val_def)
  then show "d = 9" using digit_char_props(2) [OF assms] by simp
qed (simp add: digit_char_eval)

lemma windows_pool_identifier:
  assumes a: "windows_nameable rnd p a n" and name: "GetK8sVMName rnd p a (int n) = Inr (vm_Name v)"
    and os: "vm_OSType v = Windows" and suffix: "t_NameSuffix t = cluster_id rnd p"
  shows "pool_identifier t v =
    (if GetAgentPoolIndexByName p (ap_Name a) mod 10 \<noteq> 9 then Inr (Some (take 9 (vm_Name v)))
     else if n < 10 then Inl (Panic ''slice bounds out of range'')
     else Inr (Some (take 11 (vm_Name v))))"
proof -
  obtain i where i: "GetAgentPoolIndexByName p (ap_Name a) = int i" "i < 100"
    using a nonneg_int_cases [of "GetAgentPoolIndexByName p (ap_Name a)"]
    by (auto simp: windows_nameable_def)
  have vn: "vm_Name v = take 4 (cluster_id rnd p) @ ''k8s'' @ pad0 2 (utoa i) @ utoa n"
    using windows_name [OF a] name i(1) by simp
  have four: "length (take 4 (cluster_id rnd p)) = 4"
    using a wf_id_take by (auto simp: windows_nameable_def)
  have "contains (cluster_id rnd p) (take 4 (cluster_id rnd p))"
    unfolding contains_iff by (metis append_Nil append_take_drop_id)
  then have parts: "WindowsVMNameParts (vm_Name v) = Inr (take 4 (cluster_id rnd p), ''k8s'', int i, int n)"
      "contains (t_NameSuffix t) (take 4 (cluster_id rnd p))"
    using windows_parts [OF a] name suffix i(1) by auto
  have eighth: "vm_Name v ! 8 = digit_char (i mod 10)" "length (vm_Name v) = 9 + length (utoa n)"
    unfolding vn pad0_digits [OF i(2)] using four by (simp_all add: nth_append)
  have nine: "digit_char (i mod 10) = CHR ''9'' \<longleftrightarrow> i mod 10 = 9"
    by (rule digit_char_nine) simp
  have len: "length (utoa n) < 2 \<longleftrightarrow> n < 10" "0 < length (utoa n)"
    by (auto simp: utoa.simps [of n] Suc_lessI)
  have "int i mod 10 = 9 \<longleftrightarrow> i mod 10 = 9" by presburger
  then show ?thesis
    unfolding pool_identifier_def parts eighth i(1)
    using os parts(2) nine len by (simp add: Let_def)
qed

text \<open>
  A Windows VM is sorted under the first nine characters of its name, the prefix its whole pool
  shares, if the pool's position does not end in 9. For the tenth pool, the twentieth and so on the ones
  digit is taken for the mark of the old name format: the first ten VMs of such a pool make the
  upgrade panic, and later VMs each get an identifier with digits of their own index.\<close>

theorem windows_pool_identifiers:
  assumes "windows_nameable rnd p a n" and "GetK8sVMName rnd p a (int n) = Inr (vm_Name v)"
    and "vm_OSType v = Windows" and "t_NameSuffix t = cluster_id rnd p"
    and "vm_pool_name t v \<noteq> ''''" and "map_of (t_AgentPoolsToUpgrade t) (vm_pool_name t v) = Some True"
  shows "addVMToAgentPool v b t =
    (if GetAgentPoolIndexByName p (ap_Name a) mod 10 \<noteq> 9
     then Inr (add_to_pool (take 9 (vm_Name v)) (vm_pool_name t v) v b t)
     else if n < 10 then Inl (Panic ''slice bounds out of range'')
     else Inr (add_to_pool (take 11 (vm_Name v)) (vm_pool_name t v) v b t))"
  using windows_pool_identifier [OF assms(1-4)] assms(5,6)
  by (simp add: addVMToAgentPool_def Let_def)

definition tenth_pool :: properties where
  "tenth_pool = zero_properties\<lparr>p_ClusterID := ''11290731'', p_AgentPoolProfiles := Some
     (map (\<lambda>n. zero_agent_pool_profile\<lparr>ap_Name := n, ap_OSType := Linux\<rparr>)
        [''a'', ''b'', ''c'', ''d'', ''e'', ''f'', ''g'', ''h'', ''i''] @
      [zero_agent_pool_profile\<lparr>ap_Name := ''win'', ap_OSType := Windows\<rparr>])\<rparr>"

theorem windows_pool_identifiers_witness:
  "GetK8sVMName (\<lambda>_. 0) tenth_pool (pools tenth_pool ! 9) 0 = Inr ''1129k8s090'' \<and>
   addVMToAgentPool \<lparr>vm_Name = ''1129k8s090'', vm_Tags = Some [(''poolName'', ''win'')],
       vm_OSType = Windows, vm_ProvisioningState = None\<rparr> True
     (fresh_topology ''11290731'' [(''win'', True)]) = Inl (Panic ''slice bounds out of range'')"
proof -
  have a: "windows_nameable (\<lambda>_. 0) tenth_pool (pools tenth_pool ! 9) 0"
      "GetAgentPoolIndexByName tenth_pool (ap_Name (pools tenth_pool ! 9)) = 9"
    by (simp_all add: windows_nameable_def tenth_pool_def example_eval)
  have n: "GetK8sVMName (\<lambda>_. 0) tenth_pool (pools tenth_pool ! 9) 0 = Inr ''1129k8s090''"
    using windows_name [OF a(1)] a(2)
    by (simp add: pad0_def utoa_eval) (simp add: tenth_pool_def example_eval)
  have "cluster_id (\<lambda>_. 0) tenth_pool = ''11290731''"
    by (simp add: tenth_pool_def example_eval)
  then show ?thesis
    using windows_pool_identifiers [OF a(1), of "\<lparr>vm_Name = ''1129k8s090'', vm_Tags =
        Some [(''poolName'', ''win'')], vm_OSType = Windows, vm_ProvisioningState = None\<rparr>"
        "fresh_topology ''11290731'' [(''win'', True)]" True] n a(2)
    by (simp add: vm_pool_name_def tag_def fresh_topology_def)
qed

lemma stream_reports:
  "r \<in> set (upgradedNotReadyStream steps upgraded polls) \<Longrightarrow>
     \<exists>k < steps. \<exists>ns. polls k = Some ns \<and> r = filter (\<lambda>v. map_of (rev ns) v = Some False) upgraded"
proof (induction steps upgraded polls rule: upgradedNotReadyStream.induct)
  case (2 steps upgraded polls)
  show ?case
  proof (cases "polls 0")
    case None
    then show ?thesis using 2(1,3) by (fastforce simp: getUpgradedNotReady_def)
  next
    case (Some ns)
    let ?r0 = "filter (\<lambda>v. map_of (rev ns) v = Some False) upgraded"
    consider "r = ?r0" | "length ?r0 > 0" "r \<in> set (upgradedNotReadyStream steps upgraded (\<lambda>k. polls (Suc k)))"
      using 2(3) Some by (auto simp: getUpgradedNotReady_def split: if_splits)
    then show ?thesis
    proof cases
      case 1
      then show ?thesis using Some by (intro exI [of _ 0]) simp
    next
      case 2
      then show ?thesis using "2.IH"(2) Some by (fastforce simp: getUpgradedNotReady_def)
    qed
  qed
qed simp

lemma foldl_last: "foldl (\<lambda>_ x. f x) z xs = (if xs = [] then z else f (last xs))"
  by (induction xs rule: rev_induct) auto

text \<open>
  C16: the upgrade is stopped exactly if the last report on the upgraded control plane nodes names more
  than one of them as not ready, however many of the reports arrive in time; every report names
  exactly the upgraded nodes that were not ready at one of the polls. In particular the upgrade goes on
  if no poll succeeds.\<close>

theorem control_plane_check:
  assumes "upgradedNotReadyStream steps (map vm_Name vms) polls = received @ late"
  shows "(checkControlPlaneNodesStatus vms received = Inr () \<longleftrightarrow>
            received = [] \<or> length (last received) \<le> 1) \<and>
         (\<forall>r \<in> set received. \<exists>k < steps. \<exists>ns. polls k = Some ns \<and>
            r = filter (\<lambda>v. map_of (rev ns) v = Some False) (map vm_Name vms))"
proof
  have reports: "\<forall>r \<in> set received. \<exists>k < steps. \<exists>ns. polls k = Some ns \<and>
      r = filter (\<lambda>v. map_of (rev ns) v = Some False) (map vm_Name vms)"
    using stream_reports [of _ steps "map vm_Name vms" polls] assms by simp
  then show "\<forall>r \<in> set received. \<exists>k < steps. \<exists>ns. polls k = Some ns \<and>
      r = filter (\<lambda>v. map_of (rev ns) v = Some False) (map vm_Name vms)" .
  have "length r \<le> length vms" if "r \<in> set received" for r
    using bspec [OF reports that] length_filter_le [of _ "map vm_Name vms"] by auto
  then have "vms = [] \<Longrightarrow> received \<noteq> [] \<Longrightarrow> length (last received) \<le> 1"
    using last_in_set [of received] by fastforce
  then show "checkControlPlaneNodesStatus vms received = Inr () \<longleftrightarrow>
      received = [] \<or> length (last received) \<le> 1"
    by (auto simp: checkControlPlaneNodesStatus_def foldl_last)
qed

theorem control_plane_check_witness:
  "checkControlPlaneNodesStatus [example_master]
     (upgradedNotReadyStream 2 (map vm_Name [example_master]) (\<lambda>_. None)) = Inr ()"
proof -
  have stream: "upgradedNotReadyStream 2 (map vm_Name [example_master]) (\<lambda>_. None) = [] @ []"
    by (simp add: numeral_2_eq_2 getUpgradedNotReady_def)
  from control_plane_check [OF this] show ?thesis unfolding stream by simp
qed

text \<open>The first attempt that both reads and updates the deployment.\<close>

definition first_success :: "(nat \<Rightarrow> int option \<times> bool) \<Rightarrow> nat \<Rightarrow> int \<Rightarrow> bool" where
  "first_success answers k c \<longleftrightarrow> answers k = (Some c, True) \<and> (\<forall>j < k. \<forall>c'. answers j \<noteq> (Some c', True))"

lemma first_success_exists:
  assumes "answers k = (Some c, True)"
  shows "\<exists>j \<le> k. \<exists>c'. first_success answers j c'"
  using assms
proof (induction k arbitrary: c rule: less_induct)
  case (less k)
  show ?case
  proof (cases "\<exists>j < k. \<exists>c'. answers j = (Some c', True)")
    case True
    then show ?thesis using less.IH by (meson less_imp_le order_trans)
  next
    case False
    then show ?thesis using less.prems by (auto simp: first_success_def)
  qed
qed

lemma set_replicas_success:
  "first_success answers k c \<Longrightarrow> k < n \<Longrightarrow> set_replicas n answers prev f = (c, False)"
proof (induction n arbitrary: k answers prev f)
  case (Suc n)
  show ?case
  proof (cases k)
    case 0
    then show ?thesis using Suc.prems by (simp add: first_success_def)
  next
    case (Suc k')
    have "first_success (\<lambda>i. answers (Suc i)) k' c"
      using Suc.prems(1) Suc by (auto simp: first_success_def)
    note IH = Suc.IH [OF this]
    moreover have "answers 0 \<noteq> (Some d, True)" for d
      using Suc.prems(1) Suc by (auto simp: first_success_def)
    ultimately show ?thesis
      using Suc.prems(2) Suc by (auto split: option.splits bool.splits prod.splits)
  qed
qed simp

lemma set_replicas_failure:
  "\<forall>k < n. \<forall>c. answers k \<noteq> (Some c, True) \<Longrightarrow> snd (set_replicas n answers prev f) = (f \<or> 0 < n)"
proof (induction n arbitrary: answers prev f)
  case (Suc n)
  have "\<forall>k < n. \<forall>c. answers (Suc k) \<noteq> (Some c, True)" using Suc.prems by auto
  note IH = Suc.IH [OF this]
  have "answers 0 \<noteq> (Some c, True)" for c using Suc.prems by auto
  then show ?case by (auto simp: IH split: option.splits bool.splits prod.splits)
qed simp

text \<open>
  Scaling the cluster autoscaler succeeds exactly if one of the first ten attempts both reads and
  updates the deployment, and then returns the replica count that this attempt read, so that resuming
  the autoscaler restores it.\<close>

theorem autoscaler_replica_count:
  "SetClusterAutoscalerReplicaCount (Some answers) = Inr c \<longleftrightarrow> (\<exists>k < 10. first_success answers k c)"
proof (cases "\<exists>k < 10. \<exists>c. answers k = (Some c, True)")
  case True
  then obtain k c' where k: "k < 10" "first_success answers k c'"
    by (meson first_success_exists order_le_less_trans)
  have run: "SetClusterAutoscalerReplicaCount (Some answers) = Inr c'"
    using set_replicas_success [OF k(2,1)] by (simp add: SetClusterAutoscalerReplicaCount_def)
  moreover have "first_success answers j c \<Longrightarrow> j < 10 \<Longrightarrow>
      SetClusterAutoscalerReplicaCount (Some answers) = Inr c" for j
    using set_replicas_success [of answers j c 10] by (simp add: SetClusterAutoscalerReplicaCount_def)
  ultimately show ?thesis using k by auto
next
  case False
  then have "snd (set_replicas 10 answers 0 False)"
    using set_replicas_failure [of 10 answers 0 False] by auto
  moreover have "\<not> first_success answers k c" if "k < 10" for k
    using False that by (auto simp: first_success_def)
  ultimately show ?thesis
    by (auto simp: SetClusterAutoscalerReplicaCount_def Let_def split: prod.splits)
qed

end
