(* ===== verification/Cloud.thy ===== *)
theory Cloud
  imports Transform
begin

section \<open>Calls to the cloud: histories, the sequential monad and its program logic\<close>

text \<open>
  The operations of an upgrade or scale call two services that are not part of the repository, the
  Azure Resource Manager and the kubernetes API server. A run is described by its history, the list of
  the calls made so far with whether each of them succeeded. What the services answer is the
  parameter \<open>cloud\<close> of the model: functions of the history, so that the same call can be answered
  differently later and no behaviour of the services is excluded. A computation returns its result and
  the longer history. Nothing is known of a call that fails: it may have had its effect or not.
\<close>

subsection \<open>Calls\<close>

datatype event =
    GetKubernetesClient
  | GetVirtualMachine string
  | DeleteVirtualMachine string
  | DeleteNetworkInterface string
  | DeleteVirtualHardDisk string
  | DeleteManagedDisk string
  | ListRoleAssignments string
  | DeleteRoleAssignment string
  | GetNode string
  | UpdateNode string bool
  | ListPods string
  | SupportEviction
  | EvictPods "string list"
  | DeletePod string
  | WaitForDelete "string list"
  | DeleteNode string
  | AwaitNodeReady string
  | CopyNodeProperties string string
  | DeployTemplate obj obj
  | ListPodSecurityPolicies
  | DeleteDaemonSet string
  | DeleteClusterRole string
  | DeleteDeployment string
  | ListVirtualMachines
  | UpdateReplicas int

type_synonym history = "(event \<times> bool) list"
type_synonym 'a io = "history \<Rightarrow> 'a result \<times> history"

subsection \<open>The monad\<close>

definition retIO :: "'a \<Rightarrow> 'a io" where
  "retIO x h = (Inr x, h)"

definition failIO :: "failure \<Rightarrow> 'a io" where
  "failIO e h = (Inl e, h)"

definition liftIO :: "'a result \<Rightarrow> 'a io" where
  "liftIO r h = (r, h)"

definition bindIO :: "'a io \<Rightarrow> ('a \<Rightarrow> 'b io) \<Rightarrow> 'b io" where
  "bindIO m f h = (case m h of (Inl e, h') \<Rightarrow> (Inl e, h') | (Inr x, h') \<Rightarrow> f x h')"

text \<open>An error that is only logged; a panic is not an error.\<close>

definition tryIO :: "'a io \<Rightarrow> 'a option io" where
  "tryIO m h = (case m h of
     (Inl (Err _), h') \<Rightarrow> (Inr None, h') | (Inl (Panic s), h') \<Rightarrow> (Inl (Panic s), h')
   | (Inr x, h') \<Rightarrow> (Inr (Some x), h'))"

text \<open>Another way to go on after an error.\<close>

definition catchIO :: "'a io \<Rightarrow> (failure \<Rightarrow> 'a io) \<Rightarrow> 'a io" where
  "catchIO m f h = (case m h of (Inl (Err s), h') \<Rightarrow> f (Err s) h' | r \<Rightarrow> r)"

text \<open>One call; the answer is asked of the parameter.\<close>

definition call :: "(history \<Rightarrow> event \<Rightarrow> bool) \<Rightarrow> event \<Rightarrow> unit io" where
  "call ok e h = (if ok h e then Inr () else Inl (Err ''the request failed''), h @ [(e, ok h e)])"

text \<open>A value that a service returns with its last answer.\<close>

definition answer :: "(history \<Rightarrow> 'a) \<Rightarrow> 'a io" where
  "answer f h = (Inr (f h), h)"

fun foldIO :: "('s \<Rightarrow> 'a \<Rightarrow> 's io) \<Rightarrow> 's \<Rightarrow> 'a list \<Rightarrow> 's io" where
  "foldIO f s [] = retIO s"
| "foldIO f s (x # xs) = bindIO (f s x) (\<lambda>s'. foldIO f s' xs)"

subsection \<open>Program logic\<close>

text \<open>
  \<open>triple I P m Q\<close>: started in a history with \<open>P\<close> whose prefixes all satisfy \<open>I\<close>, every history that
  \<open>m\<close> passes through satisfies \<open>I\<close> as well, whatever the services answer and also if \<open>m\<close> fails; and if
  \<open>m\<close> returns \<open>x\<close>, the final history satisfies \<open>Q x\<close>. The states between two calls are what an
  interrupted operation leaves behind, so \<open>I\<close> is what holds at every moment.
\<close>

definition throughout :: "(history \<Rightarrow> bool) \<Rightarrow> history \<Rightarrow> bool" where
  "throughout I h \<longleftrightarrow> (\<forall>n. I (take n h))"

lemma throughout_now: "throughout I h \<Longrightarrow> I h"
  unfolding throughout_def by (metis order_refl take_all)

lemma throughout_snoc: "throughout I (h @ [e]) \<longleftrightarrow> throughout I h \<and> I (h @ [e])"
proof
  assume all: "throughout I (h @ [e])"
  have "I (take n h)" for n
    using all unfolding throughout_def by (metis butlast_snoc butlast_take le_cases take_all take_butlast
        append_eq_append_conv2 append_take_drop_id linorder_not_le length_append_singleton less_Suc_eq_le
        nat_le_linear take_append diff_is_0_eq take0 append_Nil2)
  then show "throughout I h \<and> I (h @ [e])"
    using throughout_now [OF all] by (simp add: throughout_def)
next
  assume "throughout I h \<and> I (h @ [e])"
  then show "throughout I (h @ [e])"
    unfolding throughout_def by (auto simp: take_append take_Cons' split: nat.splits)
qed

definition triple ::
    "(history \<Rightarrow> bool) \<Rightarrow> (history \<Rightarrow> bool) \<Rightarrow> 'a io \<Rightarrow> ('a \<Rightarrow> history \<Rightarrow> bool) \<Rightarrow> bool" where
  "triple I P m Q \<longleftrightarrow> (\<forall>h. P h \<and> throughout I h \<longrightarrow>
     throughout I (snd (m h)) \<and> (\<forall>x. fst (m h) = Inr x \<longrightarrow> Q x (snd (m h))))"

named_theorems io_rules \<open>rules of the program logic\<close>

lemma triple_ret [io_rules]: "(\<And>h. P h \<Longrightarrow> Q x h) \<Longrightarrow> triple I P (retIO x) Q"
  by (simp add: triple_def retIO_def)

lemma triple_fail [io_rules]: "triple I P (failIO e) Q"
  by (simp add: triple_def failIO_def)

lemma triple_lift [io_rules]: "(\<And>h x. P h \<Longrightarrow> r = Inr x \<Longrightarrow> Q x h) \<Longrightarrow> triple I P (liftIO r) Q"
  by (simp add: triple_def liftIO_def)

lemma triple_answer [io_rules]: "(\<And>h. P h \<Longrightarrow> Q (f h) h) \<Longrightarrow> triple I P (answer f) Q"
  by (simp add: triple_def answer_def)

lemma triple_bind:
  "triple I P m R \<Longrightarrow> (\<And>x. triple I (R x) (f x) Q) \<Longrightarrow> triple I P (bindIO m f) Q"
  unfolding triple_def bindIO_def by (fastforce split: prod.splits sum.splits)

lemma triple_try:
  "triple I P m R \<Longrightarrow> (\<And>x h. R x h \<Longrightarrow> Q (Some x) h) \<Longrightarrow>
     (\<And>h h' e. P h \<Longrightarrow> throughout I h \<Longrightarrow> m h = (Inl e, h') \<Longrightarrow> Q None h') \<Longrightarrow> triple I P (tryIO m) Q"
  unfolding triple_def tryIO_def by (fastforce split: prod.splits sum.splits failure.splits)

lemma triple_call:
  assumes "\<And>h b. P h \<Longrightarrow> I h \<Longrightarrow> I (h @ [(e, b)])" and "\<And>h. P h \<Longrightarrow> I h \<Longrightarrow> Q () (h @ [(e, True)])"
  shows "triple I P (call ok e) Q"
  unfolding triple_def call_def
  using assms by (auto simp: throughout_snoc dest: throughout_now)

lemma triple_weaken:
  "triple I P m Q \<Longrightarrow> (\<And>h. P' h \<Longrightarrow> P h) \<Longrightarrow> (\<And>x h. Q x h \<Longrightarrow> Q' x h) \<Longrightarrow> triple I P' m Q'"
  unfolding triple_def by blast

lemma triple_fold:
  assumes "\<And>xs s x ys. pre = xs @ x # ys \<Longrightarrow> triple I (R s (x # ys)) (f s x) (\<lambda>s'. R s' ys)"
  shows "triple I (R s pre) (foldIO f s pre) (\<lambda>s'. R s' [])"
proof -
  have "pre = xs @ ys \<Longrightarrow> triple I (R s ys) (foldIO f s ys) (\<lambda>s'. R s' [])" for xs ys s
  proof (induction ys arbitrary: xs s)
    case (Cons y ys)
    have "triple I (R s' ys) (foldIO f s' ys) (\<lambda>s'. R s' [])" for s'
      by (rule Cons.IH [of "xs @ [y]"]) (simp add: Cons.prems)
    then show ?case using assms [OF Cons.prems] by (auto intro: triple_bind)
  qed (simp add: io_rules)
  then show ?thesis by simp
qed

lemma triple_case_bool:
  "(b \<Longrightarrow> triple I P m Q) \<Longrightarrow> (\<not> b \<Longrightarrow> triple I P n Q) \<Longrightarrow> triple I P (if b then m else n) Q"
  by simp

subsection \<open>Which calls a computation makes\<close>

definition emits :: "(event \<Rightarrow> bool) \<Rightarrow> 'a io \<Rightarrow> bool" where
  "emits A m \<longleftrightarrow> (\<forall>h. \<exists>es. snd (m h) = h @ es \<and> (\<forall>e \<in> set es. A (fst e)))"

lemma emits_silent [io_rules]:
  "emits A (retIO x)" "emits A (failIO e)" "emits A (liftIO r)" "emits A (answer f)"
  by (simp_all add: emits_def retIO_def failIO_def liftIO_def answer_def)

lemma emits_call [io_rules]: "A e \<Longrightarrow> emits A (call ok e)"
  by (simp add: emits_def call_def)

lemma emits_bind [io_rules]:
  assumes "emits A m" and "\<And>x. emits A (f x)"
  shows "emits A (bindIO m f)"
  unfolding emits_def
proof
  fix h
  obtain es where es: "snd (m h) = h @ es" "\<forall>e \<in> set es. A (fst e)"
    using assms(1) by (auto simp: emits_def)
  show "\<exists>es. snd (bindIO m f h) = h @ es \<and> (\<forall>e \<in> set es. A (fst e))"
  proof (cases "fst (m h)")
    case (Inl e)
    then show ?thesis using es by (auto simp: bindIO_def split: prod.splits)
  next
    case (Inr x)
    obtain fs where "snd (f x (h @ es)) = (h @ es) @ fs" "\<forall>e \<in> set fs. A (fst e)"
      using assms(2) [of x] unfolding emits_def by blast
    then show ?thesis
      using es Inr by (intro exI [of _ "es @ fs"]) (auto simp: bindIO_def split: prod.splits)
  qed
qed

lemma tryIO_history [simp]: "snd (tryIO m h) = snd (m h)"
  by (auto simp: tryIO_def split: prod.splits sum.splits failure.splits)

lemma emits_try [io_rules]: "emits A m \<Longrightarrow> emits A (tryIO m)"
  by (simp add: emits_def)

lemma emits_catch [io_rules]:
  assumes "emits A m" and "\<And>e. emits A (f e)"
  shows "emits A (catchIO m f)"
  unfolding emits_def
proof
  fix h
  obtain es where es: "snd (m h) = h @ es" "\<forall>e \<in> set es. A (fst e)"
    using assms(1) by (auto simp: emits_def)
  show "\<exists>es. snd (catchIO m f h) = h @ es \<and> (\<forall>e \<in> set es. A (fst e))"
  proof (cases "\<exists>s. fst (m h) = Inl (Err s)")
    case True
    then obtain s where s: "fst (m h) = Inl (Err s)" by blast
    obtain fs where "snd (f (Err s) (h @ es)) = (h @ es) @ fs" "\<forall>e \<in> set fs. A (fst e)"
      using assms(2) [of "Err s"] unfolding emits_def by blast
    then show ?thesis
      using es s by (intro exI [of _ "es @ fs"]) (auto simp: catchIO_def split: prod.splits)
  next
    case False
    then have "snd (catchIO m f h) = snd (m h)"
      by (auto simp: catchIO_def split: prod.splits sum.splits failure.splits)
    then show ?thesis using es by auto
  qed
qed

lemma emits_fold [io_rules]: "(\<And>s x. emits A (f s x)) \<Longrightarrow> emits A (foldIO f s xs)"
  by (induction xs arbitrary: s) (auto intro: io_rules)

lemma emits_weaken: "emits A m \<Longrightarrow> (\<And>e. A e \<Longrightarrow> B e) \<Longrightarrow> emits B m"
  unfolding emits_def by blast

text \<open>Calls that keep a property of histories keep it also if the computation fails.\<close>

lemma emits_keeps:
  assumes "emits A m" and "\<And>h e b. A e \<Longrightarrow> P h \<Longrightarrow> P (h @ [(e, b)])" and "P h"
  shows "P (snd (m h))"
proof -
  obtain es where es: "snd (m h) = h @ es" "\<forall>e \<in> set es. A (fst e)"
    using assms(1) by (auto simp: emits_def)
  have "\<forall>e \<in> set es. A (fst e) \<Longrightarrow> P (h @ es)" for es
    by (induction es rule: rev_induct)
      (auto simp: assms(3) simp flip: append_assoc intro!: assms(2))
  then show ?thesis using es by simp
qed

lemma triple_emits:
  assumes "emits A m" and "\<And>h e b. A e \<Longrightarrow> P h \<Longrightarrow> P (h @ [(e, b)])"
    and "\<And>h e b. A e \<Longrightarrow> P h \<Longrightarrow> I h \<Longrightarrow> I (h @ [(e, b)])"
  shows "triple I P m (\<lambda>_. P)"
proof -
  have "P (snd (m h)) \<and> throughout I (snd (m h))" if "P h" "throughout I h" for h
    by (rule emits_keeps [OF assms(1)])
      (auto simp: that throughout_snoc intro: assms(2,3) dest: throughout_now)
  then show ?thesis by (simp add: triple_def)
qed

subsection \<open>Which VMs exist\<close>

text \<open>
  The VMs of a history that starts with those of \<open>S\<close>, counted pessimistically: a VM is gone as soon as
  its deletion is requested, and a deployment brings the VMs it is for only if it succeeds. What a
  deployment creates is the argument \<open>new\<close>.
\<close>

fun live_step :: "(event \<Rightarrow> string set) \<Rightarrow> string set \<Rightarrow> event \<times> bool \<Rightarrow> string set" where
  "live_step new S (DeleteVirtualMachine v, _) = S - {v}"
| "live_step new S (DeployTemplate t p, True) = S \<union> new (DeployTemplate t p)"
| "live_step new S _ = S"

definition live :: "(event \<Rightarrow> string set) \<Rightarrow> string set \<Rightarrow> history \<Rightarrow> string set" where
  "live new S h = foldl (live_step new) S h"

definition quiet :: "event \<Rightarrow> bool" where
  "quiet e \<longleftrightarrow> (case e of DeleteVirtualMachine _ \<Rightarrow> False | DeployTemplate _ _ \<Rightarrow> False | _ \<Rightarrow> True)"

lemma live_Nil [simp]: "live new S [] = S"
  by (simp add: live_def)

lemma live_snoc: "live new S (h @ [e]) = live_step new (live new S h) e"
  by (simp add: live_def)

lemma live_quiet [simp]: "quiet e \<Longrightarrow> live new S (h @ [(e, b)]) = live new S h"
  by (cases e) (auto simp: live_snoc quiet_def)

lemma live_simps [simp]:
  "live new S (h @ [(DeleteVirtualMachine v, b)]) = live new S h - {v}"
  "live new S (h @ [(DeployTemplate t p, True)]) = live new S h \<union> new (DeployTemplate t p)"
  "live new S (h @ [(DeployTemplate t p, False)]) = live new S h"
  by (simp_all add: live_snoc)

end
