(* ===== verification/Operations.thy ===== *)
theory Operations
  imports Cloud VMNames
begin

section \<open>Deleting VMs and draining nodes (pkg/operations)\<close>

text \<open>
  deletevm.go, cordondrainvm.go and scaledownagentpool.go: deleting a VM with its network interface,
  its disk and its role assignments, cordoning and draining a node, deleting several VMs. What the
  services return is collected in the record \<open>cloud\<close>.
\<close>

subsection \<open>What the services return\<close>

record vm_details =
  vd_Vhd :: "string option"
  vd_ManagedDisk :: bool
  vd_OSDiskName :: "string option"
  vd_NetworkInterfaces :: "string option list"
  vd_PrincipalID :: "string option"

record pod =
  pod_Name :: string
  pod_Annotations :: "(string \<times> string) list"
  pod_OwnerReferences :: "(bool option \<times> string) list"

text \<open>
  \<open>c_ok\<close> says whether a call succeeds; \<open>c_Conflict\<close> and \<open>c_NotFound\<close> classify the error of the last call;
  \<open>c_Evictions\<close> are the messages of the eviction goroutines in the order of arrival (those that come
  in time); \<open>c_SplitBlobURI\<close> stands for the URL parser of the standard library; \<open>c_failed_node\<close> is the
  name in the object that the client returns with the error of a failed node update.
\<close>

record cloud =
  c_ok :: "history \<Rightarrow> event \<Rightarrow> bool"
  c_VM :: "history \<Rightarrow> vm_details"
  c_Roles :: "history \<Rightarrow> string list"
  c_SplitBlobURI :: "string \<Rightarrow> unit result"
  c_Conflict :: "history \<Rightarrow> bool"
  c_NotFound :: "history \<Rightarrow> bool"
  c_failed_node :: string
  c_Pods :: "history \<Rightarrow> pod list"
  c_PolicyGroup :: "history \<Rightarrow> string"
  c_Evictions :: "history \<Rightarrow> unit result list"
  c_Template :: "history \<Rightarrow> (obj \<times> obj) result"
  c_Policies :: "history \<Rightarrow> string list"

subsection \<open>CleanDeleteVirtualMachine\<close>

definition nic_name :: "vm_details \<Rightarrow> string result" where
  "nic_name vm = (case vd_NetworkInterfaces vm of
       [] \<Rightarrow> Inl (Panic ''index out of range'')
     | None # _ \<Rightarrow> Inr ''''
     | Some nicID # _ \<Rightarrow> ResourceName nicID)"

definition delete_os_disk :: "cloud \<Rightarrow> vm_details \<Rightarrow> unit io" where
  "delete_os_disk w vm = (case vd_Vhd vm of
       Some uri \<Rightarrow> bindIO (liftIO (c_SplitBlobURI w uri)) (\<lambda>_. call (c_ok w) (DeleteVirtualHardDisk uri))
     | None \<Rightarrow> if vd_ManagedDisk vm
         then (case vd_OSDiskName vm of None \<Rightarrow> retIO () | Some d \<Rightarrow> call (c_ok w) (DeleteManagedDisk d))
         else retIO ())"

definition delete_roles :: "cloud \<Rightarrow> vm_details \<Rightarrow> unit io" where
  "delete_roles w vm = (case vd_PrincipalID vm of None \<Rightarrow> retIO ()
     | Some principalID \<Rightarrow>
         bindIO (call (c_ok w) (ListRoleAssignments principalID)) (\<lambda>_.
         bindIO (answer (c_Roles w)) (\<lambda>roles.
           foldIO (\<lambda>_ r. call (c_ok w) (DeleteRoleAssignment r)) () roles)))"

definition CleanDeleteVirtualMachine :: "cloud \<Rightarrow> string \<Rightarrow> unit io" where
  "CleanDeleteVirtualMachine w name =
     bindIO (call (c_ok w) (GetVirtualMachine name)) (\<lambda>_.
     bindIO (answer (c_VM w)) (\<lambda>vm.
       if vd_Vhd vm = None \<and> \<not> vd_ManagedDisk vm
       then failIO (Err ''OS disk does not have a VHD URI'')
       else bindIO (liftIO (nic_name vm)) (\<lambda>nicName.
         bindIO (call (c_ok w) (DeleteVirtualMachine name)) (\<lambda>_.
         bindIO (if length nicName > 0 then call (c_ok w) (DeleteNetworkInterface nicName) else retIO ())
           (\<lambda>_.
         bindIO (delete_os_disk w vm) (\<lambda>_. delete_roles w vm))))))"

subsection \<open>Cordon and drain\<close>

definition cordonMaxRetries :: nat where "cordonMaxRetries = 5"

definition mirrorPodAnnotation :: string where
  "mirrorPodAnnotation = ''kubernetes.io/config.mirror''"

text \<open>
  Marks the node unschedulable; a concurrent modification is tried again, up to five times. Returns the
  name of the node object that the drain goes on with.
\<close>

fun cordon :: "cloud \<Rightarrow> string \<Rightarrow> nat \<Rightarrow> string \<Rightarrow> string io" where
  "cordon w nodeName 0 node = retIO node"
| "cordon w nodeName (Suc retries) node =
     bindIO (call (c_ok w) (GetNode nodeName)) (\<lambda>_.
     bindIO (tryIO (call (c_ok w) (UpdateNode nodeName True))) (\<lambda>updated.
       case updated of Some _ \<Rightarrow> retIO nodeName
       | None \<Rightarrow> bindIO (answer (c_Conflict w)) (\<lambda>conflict.
           if conflict then cordon w nodeName retries (c_failed_node w)
           else failIO (Err ''failed to update the node''))))"

definition mirrorPodFilter :: "pod \<Rightarrow> bool" where
  "mirrorPodFilter p \<longleftrightarrow> map_of (pod_Annotations p) mirrorPodAnnotation = None"

definition getControllerRef :: "pod \<Rightarrow> (bool option \<times> string) option" where
  "getControllerRef p = find (\<lambda>(controller, _). controller = Some True) (pod_OwnerReferences p)"

definition daemonSetPodFilter :: "pod \<Rightarrow> bool" where
  "daemonSetPodFilter p \<longleftrightarrow>
     (case getControllerRef p of None \<Rightarrow> True | Some (_, kind) \<Rightarrow> kind \<noteq> ''DaemonSet'')"

definition getPodsForDeletion :: "cloud \<Rightarrow> string \<Rightarrow> pod list io" where
  "getPodsForDeletion w node =
     bindIO (call (c_ok w) (ListPods node)) (\<lambda>_.
     bindIO (answer (c_Pods w)) (\<lambda>pods.
       retIO (filter (\<lambda>p. mirrorPodFilter p \<and> daemonSetPodFilter p) pods)))"

text \<open>Waits for one message per pod; the first error ends the wait, and so does the timeout.\<close>

fun await_evictions :: "nat \<Rightarrow> unit result list \<Rightarrow> unit result" where
  "await_evictions missing [] = Inl (Err ''Drain did not complete'')"
| "await_evictions missing (Inl e # msgs) = Inl e"
| "await_evictions missing (Inr _ # msgs) =
     (if missing = 1 then Inr () else await_evictions (missing - 1) msgs)"

definition evictPods :: "cloud \<Rightarrow> pod list \<Rightarrow> unit io" where
  "evictPods w pods =
     bindIO (tryIO (call (c_ok w) (EvictPods (map pod_Name pods)))) (\<lambda>_.
     bindIO (answer (c_Evictions w)) (\<lambda>msgs. liftIO (await_evictions (length pods) msgs)))"

definition delete_pod :: "cloud \<Rightarrow> unit \<Rightarrow> pod \<Rightarrow> unit io" where
  "delete_pod w u p =
     bindIO (tryIO (call (c_ok w) (DeletePod (pod_Name p)))) (\<lambda>deleted.
       case deleted of Some _ \<Rightarrow> retIO ()
       | None \<Rightarrow> bindIO (answer (c_NotFound w)) (\<lambda>gone.
           if gone then retIO () else failIO (Err ''failed to delete the pod'')))"

definition deletePods :: "cloud \<Rightarrow> pod list \<Rightarrow> unit io" where
  "deletePods w pods =
     bindIO (foldIO (delete_pod w) () pods) (\<lambda>_. call (c_ok w) (WaitForDelete (map pod_Name pods)))"

definition deleteOrEvictPods :: "cloud \<Rightarrow> pod list \<Rightarrow> unit io" where
  "deleteOrEvictPods w pods =
     (if length pods = 0 then retIO ()
      else bindIO (call (c_ok w) SupportEviction) (\<lambda>_.
        bindIO (answer (c_PolicyGroup w)) (\<lambda>policyGroupVersion.
          if length policyGroupVersion > 0 then evictPods w pods else deletePods w pods)))"

definition deleteOrEvictPodsSimple :: "cloud \<Rightarrow> string \<Rightarrow> unit io" where
  "deleteOrEvictPodsSimple w node =
     bindIO (getPodsForDeletion w node) (\<lambda>pods.
       catchIO (deleteOrEvictPods w pods) (\<lambda>err.
         bindIO (getPodsForDeletion w node) (\<lambda>pendingPods. failIO err)))"

definition SafelyDrainNodeWithClient :: "cloud \<Rightarrow> string \<Rightarrow> unit io" where
  "SafelyDrainNodeWithClient w nodeName =
     bindIO (cordon w (to_lower nodeName) cordonMaxRetries '''') (\<lambda>node. deleteOrEvictPodsSimple w node)"

definition SafelyDrainNode :: "cloud \<Rightarrow> string \<Rightarrow> unit io" where
  "SafelyDrainNode w nodeName =
     bindIO (call (c_ok w) GetKubernetesClient) (\<lambda>_. SafelyDrainNodeWithClient w nodeName)"

subsection \<open>Deleting several VMs\<close>

text \<open>
  The deletions run concurrently and report on a channel; the model runs them in the order \<open>vmNames\<close> in
  which they report. The result is \<open>None\<close> if all succeed, otherwise the failures.
\<close>

definition scale_down_one ::
    "cloud \<Rightarrow> (string \<times> failure) list \<Rightarrow> string \<Rightarrow> (string \<times> failure) list io" where
  "scale_down_one w failed vmName =
     catchIO (bindIO (CleanDeleteVirtualMachine w vmName) (\<lambda>_. retIO failed))
       (\<lambda>err. retIO (failed @ [(vmName, err)]))"

definition ScaleDownVMs :: "cloud \<Rightarrow> string list \<Rightarrow> (string \<times> failure) list option io" where
  "ScaleDownVMs w vmNames =
     bindIO (foldIO (scale_down_one w) [] vmNames) (\<lambda>failed.
       retIO (if length failed > 0 then Some failed else None))"

subsection \<open>The plan of a deletion\<close>

text \<open>A sequence of calls up to the first failure.\<close>

fun calls :: "(history \<Rightarrow> event \<Rightarrow> bool) \<Rightarrow> event list \<Rightarrow> unit io" where
  "calls ok [] = retIO ()"
| "calls ok (e # es) = bindIO (call ok e) (\<lambda>_. calls ok es)"

definition succeeded :: "event list \<Rightarrow> history" where
  "succeeded es = map (\<lambda>e. (e, True)) es"

lemma succeeded_simps [simp]:
  "succeeded [] = []" "succeeded (e # es) = (e, True) # succeeded es"
  "succeeded (xs @ ys) = succeeded xs @ succeeded ys"
  by (simp_all add: succeeded_def)

lemma bindIO_ret [simp]: "bindIO (retIO x) f = f x" "bindIO m retIO = m"
  by (auto simp: fun_eq_iff bindIO_def retIO_def split: prod.splits sum.splits)

lemma bindIO_assoc: "bindIO (bindIO m f) g = bindIO m (\<lambda>x. bindIO (f x) g)"
  by (auto simp: fun_eq_iff bindIO_def split: prod.splits sum.splits)

lemma calls_append: "calls ok (xs @ ys) = bindIO (calls ok xs) (\<lambda>_. calls ok ys)"
  by (induction xs) (simp_all add: bindIO_assoc)

lemma calls_single: "calls ok [e] = call ok e"
  by simp

text \<open>What a sequence of calls leaves behind: a prefix of it, of which at most the last call failed.\<close>

lemma calls_result:
  "calls ok es h = (Inr (), h @ succeeded es) \<or>
   (\<exists>k < length es. calls ok es h =
      (Inl (Err ''the request failed''), h @ succeeded (take k es) @ [(es ! k, False)]))"
proof (induction es arbitrary: h)
  case (Cons e es)
  show ?case
  proof (cases "ok h e")
    case True
    then have step: "calls ok (e # es) h = calls ok es (h @ [(e, True)])"
      by (simp add: bindIO_def call_def)
    from Cons.IH [of "h @ [(e, True)]"] show ?thesis
    proof
      assume "\<exists>k < length es. calls ok es (h @ [(e, True)]) = (Inl (Err ''the request failed''),
          (h @ [(e, True)]) @ succeeded (take k es) @ [(es ! k, False)])"
      then obtain k where "k < length es" "calls ok es (h @ [(e, True)]) =
          (Inl (Err ''the request failed''), (h @ [(e, True)]) @ succeeded (take k es) @ [(es ! k, False)])"
        by blast
      then show ?thesis unfolding step by (intro disjI2 exI [of _ "Suc k"]) simp
    qed (simp add: step del: calls.simps)
  next
    case False
    then show ?thesis by (intro disjI2 exI [of _ 0]) (simp add: bindIO_def call_def)
  qed
qed (simp add: retIO_def)

definition disk_plan :: "vm_details \<Rightarrow> event list" where
  "disk_plan vm = (case vd_Vhd vm of Some uri \<Rightarrow> [DeleteVirtualHardDisk uri]
     | None \<Rightarrow> (case vd_OSDiskName vm of Some d \<Rightarrow> [DeleteManagedDisk d] | None \<Rightarrow> []))"

text \<open>The VM, then its network interface, then its disk, then the role assignments of its identity.\<close>

definition vm_plan :: "string \<Rightarrow> string \<Rightarrow> vm_details \<Rightarrow> event list" where
  "vm_plan name nic vm = DeleteVirtualMachine name #
     (if nic = '''' then [] else [DeleteNetworkInterface nic]) @ disk_plan vm @
     (case vd_PrincipalID vm of Some i \<Rightarrow> [ListRoleAssignments i] | None \<Rightarrow> [])"

definition role_plan :: "cloud \<Rightarrow> vm_details \<Rightarrow> history \<Rightarrow> event list" where
  "role_plan w vm h = (if vd_PrincipalID vm = None then [] else map DeleteRoleAssignment (c_Roles w h))"

lemma delete_os_disk_calls:
  assumes "\<And>uri. vd_Vhd vm = Some uri \<Longrightarrow> c_SplitBlobURI w uri = Inr ()"
    and "vd_Vhd vm \<noteq> None \<or> vd_ManagedDisk vm"
  shows "delete_os_disk w vm = calls (c_ok w) (disk_plan vm)"
  using assms
  by (auto simp: delete_os_disk_def disk_plan_def bindIO_def liftIO_def fun_eq_iff split: option.splits)

lemma foldIO_calls: "foldIO (\<lambda>_ r. call ok (f r)) () rs = calls ok (map f rs)"
  by (induction rs) simp_all

lemma delete_roles_plan:
  "delete_roles w vm = (case vd_PrincipalID vm of None \<Rightarrow> retIO ()
     | Some i \<Rightarrow> bindIO (calls (c_ok w) [ListRoleAssignments i]) (\<lambda>_.
         bindIO (answer (role_plan w vm)) (calls (c_ok w))))"
  by (auto simp: delete_roles_def role_plan_def foldIO_calls answer_def bindIO_def fun_eq_iff
      split: option.splits prod.splits sum.splits)

text \<open>The code makes exactly the calls of the plan, in this order, up to the first that fails.\<close>

lemma CleanDelete_plan:
  assumes "vd_Vhd vm \<noteq> None \<or> vd_ManagedDisk vm" and "nic_name vm = Inr nic"
    and "\<And>uri. vd_Vhd vm = Some uri \<Longrightarrow> c_SplitBlobURI w uri = Inr ()"
    and "c_VM w (h @ [(GetVirtualMachine name, True)]) = vm" and "c_ok w h (GetVirtualMachine name)"
  shows "CleanDeleteVirtualMachine w name h =
    bindIO (calls (c_ok w) (vm_plan name nic vm)) (\<lambda>_. bindIO (answer (role_plan w vm)) (calls (c_ok w)))
      (h @ [(GetVirtualMachine name, True)])"
proof -
  have "CleanDeleteVirtualMachine w name h =
    bindIO (call (c_ok w) (DeleteVirtualMachine name)) (\<lambda>_.
      bindIO (if length nic > 0 then call (c_ok w) (DeleteNetworkInterface nic) else retIO ()) (\<lambda>_.
      bindIO (calls (c_ok w) (disk_plan vm)) (\<lambda>_. delete_roles w vm))) (h @ [(GetVirtualMachine name, True)])"
    using assms delete_os_disk_calls [of vm w]
    by (auto simp: CleanDeleteVirtualMachine_def bindIO_def [of "call (c_ok w) (GetVirtualMachine name)"]
        call_def [of "c_ok w" "GetVirtualMachine name"] answer_def bindIO_def [of "answer (c_VM w)"]
        liftIO_def bindIO_def [of "liftIO (Inr nic)"])
  also have "bindIO (call (c_ok w) (DeleteVirtualMachine name)) (\<lambda>_.
      bindIO (if length nic > 0 then call (c_ok w) (DeleteNetworkInterface nic) else retIO ()) (\<lambda>_.
      bindIO (calls (c_ok w) (disk_plan vm)) (\<lambda>_. delete_roles w vm))) =
    bindIO (calls (c_ok w) (vm_plan name nic vm)) (\<lambda>_. bindIO (answer (role_plan w vm)) (calls (c_ok w)))"
    by (auto simp: vm_plan_def delete_roles_plan calls_append bindIO_assoc role_plan_def answer_def
        fun_eq_iff bindIO_def retIO_def split: option.splits prod.splits sum.splits)
  finally show ?thesis .
qed

lemma CleanDelete_result:
  assumes "vd_Vhd vm \<noteq> None \<or> vd_ManagedDisk vm" and "nic_name vm = Inr nic"
    and "\<And>uri. vd_Vhd vm = Some uri \<Longrightarrow> c_SplitBlobURI w uri = Inr ()"
    and "c_VM w (h @ [(GetVirtualMachine name, True)]) = vm" and "c_ok w h (GetVirtualMachine name)"
    and "plan = vm_plan name nic vm @
      role_plan w vm (h @ (GetVirtualMachine name, True) # succeeded (vm_plan name nic vm))"
  shows "CleanDeleteVirtualMachine w name h = (Inr (), h @ (GetVirtualMachine name, True) # succeeded plan) \<or>
    (\<exists>k < length plan. CleanDeleteVirtualMachine w name h = (Inl (Err ''the request failed''),
       h @ (GetVirtualMachine name, True) # succeeded (take k plan) @ [(plan ! k, False)]))"
proof -
  let ?h1 = "h @ [(GetVirtualMachine name, True)]" and ?p1 = "vm_plan name nic vm"
  let ?p2 = "role_plan w vm (?h1 @ succeeded ?p1)"
  have plan: "plan = ?p1 @ ?p2" using assms(6) by simp
  have run: "CleanDeleteVirtualMachine w name h = calls (c_ok w) plan ?h1"
  proof -
    have "bindIO (calls (c_ok w) ?p1) (\<lambda>_. bindIO (answer (role_plan w vm)) (calls (c_ok w))) ?h1 =
        bindIO (calls (c_ok w) ?p1) (\<lambda>_. calls (c_ok w) ?p2) ?h1"
      using calls_result [of "c_ok w" ?p1 ?h1] by (auto simp: bindIO_def answer_def)
    then show ?thesis using CleanDelete_plan [OF assms(1-5)] by (simp add: plan calls_append)
  qed
  show ?thesis unfolding run using calls_result [of "c_ok w" plan ?h1] by (auto simp: append_assoc)
qed

lemma call_Inr: "call ok e h = (Inr u, h') \<Longrightarrow> h' = h @ [(e, True)]"
  by (auto simp: call_def split: if_splits)

lemma bindIO_Inr: "bindIO m f h = (Inr y, h') \<longleftrightarrow> (\<exists>x h1. m h = (Inr x, h1) \<and> f x h1 = (Inr y, h'))"
  by (auto simp: bindIO_def split: prod.splits sum.splits)

lemma emits_extends: "emits A m \<Longrightarrow> m h = (r, h') \<Longrightarrow> \<exists>es. h' = h @ es"
  unfolding emits_def by (metis snd_conv)

subsection \<open>Which calls the operations make\<close>

definition deletes :: "string \<Rightarrow> event \<Rightarrow> bool" where
  "deletes name e \<longleftrightarrow> quiet e \<or> e = DeleteVirtualMachine name"

lemma quiet_deletes: "quiet e \<Longrightarrow> deletes name e"
  by (simp add: deletes_def)

lemma CleanDelete_emits: "emits (deletes name) (CleanDeleteVirtualMachine w name)"
  unfolding CleanDeleteVirtualMachine_def delete_os_disk_def delete_roles_def
  by (intro io_rules triple_case_bool; auto simp: deletes_def quiet_def split: option.splits intro!: io_rules)

text \<open>The calls of a drain: none deletes or creates a VM, and only pods that may be evicted are.\<close>

definition evictable :: "cloud \<Rightarrow> string \<Rightarrow> bool" where
  "evictable w n \<longleftrightarrow> (\<exists>h. \<exists>p \<in> set (c_Pods w h). pod_Name p = n \<and> mirrorPodFilter p \<and> daemonSetPodFilter p)"

definition drain_event :: "cloud \<Rightarrow> event \<Rightarrow> bool" where
  "drain_event w e \<longleftrightarrow> quiet e \<and> (case e of
     EvictPods ns \<Rightarrow> (\<forall>n \<in> set ns. evictable w n)
   | DeletePod n \<Rightarrow> evictable w n
   | _ \<Rightarrow> True)"

lemma drain_event_quiet: "drain_event w e \<Longrightarrow> quiet e"
  by (simp add: drain_event_def)

lemma cordon_emits: "emits (drain_event w) (cordon w nodeName retries node)"
  by (induction retries arbitrary: node)
    (auto simp: drain_event_def quiet_def split: option.splits intro!: io_rules)

definition pods_ok :: "cloud \<Rightarrow> pod list \<Rightarrow> bool" where
  "pods_ok w pods \<longleftrightarrow> (\<forall>p \<in> set pods. evictable w (pod_Name p))"

lemma deleteOrEvictPods_emits:
  assumes "pods_ok w pods"
  shows "emits (drain_event w) (deleteOrEvictPods w pods)"
proof -
  have ev: "drain_event w (EvictPods (map pod_Name pods))"
      "p \<in> set pods \<Longrightarrow> drain_event w (DeletePod (pod_Name p))" for p
    using assms by (auto simp: drain_event_def quiet_def pods_ok_def)
  have fold: "set ps \<subseteq> set pods \<Longrightarrow> emits (drain_event w) (foldIO (delete_pod w) () ps)" for ps
    by (induction ps) (auto simp: delete_pod_def ev split: option.splits intro!: io_rules)
  show ?thesis
    unfolding deleteOrEvictPods_def evictPods_def deletePods_def
    using ev(1) fold [of pods]
    by (auto simp: drain_event_def quiet_def intro!: io_rules)
qed

lemma getPodsForDeletion_pods:
  "getPodsForDeletion w node h = (Inr pods, h') \<Longrightarrow> pods_ok w pods"
  by (auto simp: getPodsForDeletion_def bindIO_Inr answer_def retIO_def pods_ok_def evictable_def; blast)

lemma getPodsForDeletion_emits: "emits (drain_event w) (getPodsForDeletion w node)"
  by (auto simp: getPodsForDeletion_def drain_event_def quiet_def intro!: io_rules)

lemma emits_bind_result:
  assumes "emits A m" and "\<And>h x h'. m h = (Inr x, h') \<Longrightarrow> emits A (f x)"
  shows "emits A (bindIO m f)"
  unfolding emits_def
proof
  fix h
  obtain es where es: "snd (m h) = h @ es" "\<forall>e \<in> set es. A (fst e)"
    using assms(1) by (auto simp: emits_def)
  show "\<exists>es. snd (bindIO m f h) = h @ es \<and> (\<forall>e \<in> set es. A (fst e))"
  proof (cases "fst (m h)")
    case (Inl e)
    then show ?thesis using es by (auto simp: bindIO_def split: prod.splits)
  next
    case (Inr x)
    then have "m h = (Inr x, h @ es)" using es by (simp add: prod_eq_iff)
    then have run: "bindIO m f h = f x (h @ es)" and "emits A (f x)"
      using assms(2) by (auto simp: bindIO_def)
    then obtain fs where "snd (f x (h @ es)) = (h @ es) @ fs" "\<forall>e \<in> set fs. A (fst e)"
      unfolding emits_def by blast
    then show ?thesis using es run by (intro exI [of _ "es @ fs"]) auto
  qed
qed

lemma drain_emits: "emits (drain_event w) (SafelyDrainNodeWithClient w nodeName)"
  unfolding SafelyDrainNodeWithClient_def deleteOrEvictPodsSimple_def
  by (auto intro!: emits_bind cordon_emits emits_catch emits_silent
      emits_bind_result [OF getPodsForDeletion_emits] getPodsForDeletion_emits
      deleteOrEvictPods_emits getPodsForDeletion_pods)

subsection \<open>Properties\<close>

text \<open>
  C18: deleting a VM makes exactly the calls of its plan, in order: the VM, its network interface, its
  disk, then every role assignment of its identity. It stops at the first call that fails and then
  reports an error, and it reports success only after the whole plan.\<close>

theorem vm_deletion_follows_the_plan:
  assumes "vd_Vhd vm \<noteq> None \<or> vd_ManagedDisk vm" and "nic_name vm = Inr nic"
    and "\<And>uri. vd_Vhd vm = Some uri \<Longrightarrow> c_SplitBlobURI w uri = Inr ()"
    and "c_VM w (h @ [(GetVirtualMachine name, True)]) = vm" and "c_ok w h (GetVirtualMachine name)"
    and "plan = vm_plan name nic vm @
      role_plan w vm (h @ (GetVirtualMachine name, True) # succeeded (vm_plan name nic vm))"
  shows "CleanDeleteVirtualMachine w name h = (Inr (), h @ (GetVirtualMachine name, True) # succeeded plan) \<or>
    (\<exists>k < length plan. CleanDeleteVirtualMachine w name h = (Inl (Err ''the request failed''),
       h @ (GetVirtualMachine name, True) # succeeded (take k plan) @ [(plan ! k, False)]))"
  by (rule CleanDelete_result [OF assms])

definition example_cloud :: cloud where
  "example_cloud = \<lparr>c_ok = (\<lambda>_ _. True),
     c_VM = (\<lambda>_. \<lparr>vd_Vhd = None, vd_ManagedDisk = True, vd_OSDiskName = Some ''disk'',
       vd_NetworkInterfaces = [Some ''/rg/nic''], vd_PrincipalID = Some ''id''\<rparr>),
     c_Roles = (\<lambda>_. [''r1'', ''r2'']), c_SplitBlobURI = (\<lambda>_. Inr ()), c_Conflict = (\<lambda>_. False),
     c_NotFound = (\<lambda>_. False), c_failed_node = '''', c_Pods = (\<lambda>_. []), c_PolicyGroup = (\<lambda>_. ''''),
     c_Evictions = (\<lambda>_. []), c_Template = (\<lambda>_. Inr ([], [])), c_Policies = (\<lambda>_. [])\<rparr>"

theorem vm_deletion_follows_the_plan_witness:
  "\<exists>h. CleanDeleteVirtualMachine example_cloud ''vm'' [] = (Inr (), h) \<and>
     map fst h = [GetVirtualMachine ''vm'', DeleteVirtualMachine ''vm'', DeleteNetworkInterface ''nic'',
       DeleteManagedDisk ''disk'', ListRoleAssignments ''id'', DeleteRoleAssignment ''r1'',
       DeleteRoleAssignment ''r2'']"
proof -
  let ?vm = "c_VM example_cloud []"
  let ?p = "vm_plan ''vm'' ''nic'' ?vm"
  let ?plan = "?p @ role_plan example_cloud ?vm (succeeded (GetVirtualMachine ''vm'' # ?p))"
  have plan: "?plan = [DeleteVirtualMachine ''vm'', DeleteNetworkInterface ''nic'',
       DeleteManagedDisk ''disk'', ListRoleAssignments ''id'', DeleteRoleAssignment ''r1'',
       DeleteRoleAssignment ''r2'']"
    by (simp add: vm_plan_def role_plan_def disk_plan_def example_cloud_def)
  have "snd (calls (\<lambda>_ _. True) es h) = h @ succeeded es" for es h
    by (induction es arbitrary: h) (simp_all add: bindIO_def call_def retIO_def)
  have nic: "nic_name ?vm = Inr ''nic''"
    by (simp add: nic_name_def example_cloud_def ResourceName_def)
  have run: "CleanDeleteVirtualMachine example_cloud ''vm'' [] = (Inr (), snd (CleanDeleteVirtualMachine example_cloud ''vm'' []))"
    using nic by (simp add: CleanDeleteVirtualMachine_def bindIO_def call_def answer_def liftIO_def
        delete_os_disk_def delete_roles_def foldIO_calls example_cloud_def nic_name_def ResourceName_def)
  have "CleanDeleteVirtualMachine example_cloud ''vm'' [] = (Inr (), succeeded (GetVirtualMachine ''vm'' # ?plan)) \<or>
    (\<exists>k < length ?plan. CleanDeleteVirtualMachine example_cloud ''vm'' [] = (Inl (Err ''the request failed''),
       (GetVirtualMachine ''vm'', True) # succeeded (take k ?plan) @ [(?plan ! k, False)]))"
    using vm_deletion_follows_the_plan [of ?vm "''nic''" example_cloud "[]" "''vm''" ?plan] nic
    by (simp add: example_cloud_def)
  then have "CleanDeleteVirtualMachine example_cloud ''vm'' [] = (Inr (), succeeded (GetVirtualMachine ''vm'' # ?plan))"
    using run by (metis Inl_Inr_False fst_conv)
  then show ?thesis unfolding plan by (simp add: succeeded_def)
qed

text \<open>
  C19: a drain never evicts or deletes a mirror pod or a pod of a DaemonSet, it touches no VM, and only
  asks to evict pods that the API server listed.\<close>

theorem drain_spares_static_pods:
  "\<exists>es. snd (SafelyDrainNodeWithClient w nodeName h) = h @ es \<and>
     (\<forall>(e, ok) \<in> set es. (\<forall>v. e \<noteq> DeleteVirtualMachine v) \<and>
        (\<forall>n. e = DeletePod n \<or> (\<exists>ns. e = EvictPods ns \<and> n \<in> set ns) \<longrightarrow>
           (\<exists>h'. \<exists>p \<in> set (c_Pods w h'). pod_Name p = n \<and>
              map_of (pod_Annotations p) mirrorPodAnnotation = None \<and>
              (\<forall>kind. getControllerRef p = Some (Some True, kind) \<longrightarrow> kind \<noteq> ''DaemonSet''))))"
proof -
  obtain es where es: "snd (SafelyDrainNodeWithClient w nodeName h) = h @ es"
      "\<forall>e \<in> set es. drain_event w (fst e)"
    using drain_emits [of w nodeName] by (auto simp: emits_def)
  show ?thesis
  proof (intro exI [of _ es] conjI ballI)
    fix p
    assume "p \<in> set es"
    then have d: "drain_event w (fst p)" using es(2) by blast
    obtain e ok where p: "p = (e, ok)" by fastforce
    have "evictable w n" if "e = DeletePod n \<or> (\<exists>ns. e = EvictPods ns \<and> n \<in> set ns)" for n
      using d that unfolding p drain_event_def by auto
    moreover have "e \<noteq> DeleteVirtualMachine v" for v
      using d unfolding p drain_event_def quiet_def by auto
    ultimately show "case p of (e, ok) \<Rightarrow> (\<forall>v. e \<noteq> DeleteVirtualMachine v) \<and>
        (\<forall>n. e = DeletePod n \<or> (\<exists>ns. e = EvictPods ns \<and> n \<in> set ns) \<longrightarrow>
           (\<exists>h'. \<exists>p \<in> set (c_Pods w h'). pod_Name p = n \<and>
              map_of (pod_Annotations p) mirrorPodAnnotation = None \<and>
              (\<forall>kind. getControllerRef p = Some (Some True, kind) \<longrightarrow> kind \<noteq> ''DaemonSet'')))"
      unfolding p evictable_def mirrorPodFilter_def daemonSetPodFilter_def by fastforce
  qed (simp add: es(1))
qed

definition drained_cloud :: cloud where
  "drained_cloud = example_cloud\<lparr>c_Pods := (\<lambda>_.
     [\<lparr>pod_Name = ''web'', pod_Annotations = [], pod_OwnerReferences = [(Some True, ''ReplicaSet'')]\<rparr>,
      \<lparr>pod_Name = ''proxy'', pod_Annotations = [], pod_OwnerReferences = [(Some True, ''DaemonSet'')]\<rparr>,
      \<lparr>pod_Name = ''etcd'', pod_Annotations = [(mirrorPodAnnotation, '''')], pod_OwnerReferences = []\<rparr>])\<rparr>"

theorem drain_spares_static_pods_witness:
  "snd (SafelyDrainNodeWithClient drained_cloud ''Node'' []) =
     [(GetNode ''node'', True), (UpdateNode ''node'' True, True), (ListPods ''node'', True),
      (SupportEviction, True), (DeletePod ''web'', True), (WaitForDelete [''web''], True)] \<and>
   (\<exists>h'. \<exists>p \<in> set (c_Pods drained_cloud h'). pod_Name p = ''web'' \<and>
      map_of (pod_Annotations p) mirrorPodAnnotation = None \<and>
      (\<forall>kind. getControllerRef p = Some (Some True, kind) \<longrightarrow> kind \<noteq> ''DaemonSet''))"
proof
  have low: "to_lower ''Node'' = ''node''" by code_simp
  have "cordon drained_cloud ''node'' (Suc 4) '''' [] =
      (Inr ''node'', [(GetNode ''node'', True), (UpdateNode ''node'' True, True)])"
    by (subst cordon.simps)
      (simp add: drained_cloud_def example_cloud_def bindIO_def call_def tryIO_def catchIO_def retIO_def)
  then have cordoned: "cordon drained_cloud ''node'' cordonMaxRetries '''' [] =
      (Inr ''node'', [(GetNode ''node'', True), (UpdateNode ''node'' True, True)])"
    by (simp add: cordonMaxRetries_def)
  show run: "snd (SafelyDrainNodeWithClient drained_cloud ''Node'' []) =
     [(GetNode ''node'', True), (UpdateNode ''node'' True, True), (ListPods ''node'', True),
      (SupportEviction, True), (DeletePod ''web'', True), (WaitForDelete [''web''], True)]"
    unfolding SafelyDrainNodeWithClient_def low bindIO_def [of "cordon _ _ _ _"] cordoned
    by (simp add: drained_cloud_def example_cloud_def bindIO_def call_def tryIO_def catchIO_def retIO_def
        failIO_def answer_def deleteOrEvictPodsSimple_def getPodsForDeletion_def mirrorPodFilter_def
        daemonSetPodFilter_def getControllerRef_def deleteOrEvictPods_def deletePods_def delete_pod_def
        mirrorPodAnnotation_def)
  show "\<exists>h'. \<exists>p \<in> set (c_Pods drained_cloud h'). pod_Name p = ''web'' \<and>
      map_of (pod_Annotations p) mirrorPodAnnotation = None \<and>
      (\<forall>kind. getControllerRef p = Some (Some True, kind) \<longrightarrow> kind \<noteq> ''DaemonSet'')"
    using drain_spares_static_pods [of drained_cloud "''Node''" "[]"] unfolding run by auto
qed

definition failed_cordons :: "string \<Rightarrow> nat \<Rightarrow> history" where
  "failed_cordons node k = concat (replicate k [(GetNode node, True), (UpdateNode node True, False)])"

lemma failed_cordons_Suc:
  "failed_cordons node (Suc k) = (GetNode node, True) # (UpdateNode node True, False) # failed_cordons node k"
  by (simp add: failed_cordons_def)

text \<open>How a cordon ends: with an error, with the node updated, or after the last conflict.\<close>

lemma cordon_result:
  "\<exists>es. snd (cordon w n k node h) = h @ es \<and>
     (\<forall>x. fst (cordon w n k node h) = Inr x \<longrightarrow>
        x = n \<and> (\<exists>j < k. es = failed_cordons n j @ [(GetNode n, True), (UpdateNode n True, True)]) \<or>
        x = (if k = 0 then node else c_failed_node w) \<and> es = failed_cordons n k)"
proof (induction k arbitrary: node h)
  case 0
  then show ?case by (simp add: retIO_def failed_cordons_def)
next
  case (Suc k)
  let ?h1 = "h @ [(GetNode n, True)]"
  let ?h2 = "h @ [(GetNode n, True), (UpdateNode n True, False)]"
  consider "\<not> c_ok w h (GetNode n)" | "c_ok w h (GetNode n)" "c_ok w ?h1 (UpdateNode n True)"
    | "c_ok w h (GetNode n)" "\<not> c_ok w ?h1 (UpdateNode n True)" "\<not> c_Conflict w ?h2"
    | "c_ok w h (GetNode n)" "\<not> c_ok w ?h1 (UpdateNode n True)" "c_Conflict w ?h2"
    by blast
  then show ?case
  proof cases
    case 2
    then show ?thesis
      by (intro exI [of _ "[(GetNode n, True), (UpdateNode n True, True)]"])
        (auto simp: bindIO_def call_def tryIO_def retIO_def failed_cordons_def)
  next
    case 4
    then have step: "cordon w n (Suc k) node h = cordon w n k (c_failed_node w) ?h2"
      by (simp add: bindIO_def call_def tryIO_def answer_def)
    obtain es where es: "snd (cordon w n k (c_failed_node w) ?h2) = ?h2 @ es"
        "\<forall>x. fst (cordon w n k (c_failed_node w) ?h2) = Inr x \<longrightarrow>
          x = n \<and> (\<exists>j < k. es = failed_cordons n j @ [(GetNode n, True), (UpdateNode n True, True)]) \<or>
          x = (if k = 0 then c_failed_node w else c_failed_node w) \<and> es = failed_cordons n k"
      using Suc.IH [of "c_failed_node w" ?h2] by blast
    have grow: "\<exists>j' < Suc k. (GetNode n, True) # (UpdateNode n True, False) #
        failed_cordons n j @ tail = failed_cordons n j' @ tail" if "j < k" for j tail
      using that by (intro exI [of _ "Suc j"]) (simp add: failed_cordons_Suc)
    show ?thesis
      unfolding step using es grow
      by (intro exI [of _ "(GetNode n, True) # (UpdateNode n True, False) # es"])
        (auto simp: failed_cordons_Suc)
  qed (auto simp: bindIO_def call_def tryIO_def answer_def failIO_def)
qed

lemma evictions_after_listing:
  "\<exists>b es. snd (deleteOrEvictPodsSimple w node h) = h @ (ListPods node, b) # es"
proof -
  let ?rest = "\<lambda>pods. catchIO (deleteOrEvictPods w pods) (\<lambda>err.
      bindIO (getPodsForDeletion w node) (\<lambda>pendingPods. failIO err))"
  have list: "getPodsForDeletion w node h =
      (if c_ok w h (ListPods node)
       then (Inr (filter (\<lambda>p. mirrorPodFilter p \<and> daemonSetPodFilter p) (c_Pods w (h @ [(ListPods node, True)]))),
             h @ [(ListPods node, True)])
       else (Inl (Err ''the request failed''), h @ [(ListPods node, False)]))"
    by (simp add: getPodsForDeletion_def bindIO_def call_def answer_def retIO_def)
  show ?thesis
  proof (cases "c_ok w h (ListPods node)")
    case True
    have "emits (drain_event w) (?rest pods)" if "pods_ok w pods" for pods
      by (intro emits_catch deleteOrEvictPods_emits that emits_bind getPodsForDeletion_emits emits_silent)
    then have "\<exists>es. snd (?rest pods h1) = h1 @ es" if "pods_ok w pods" for pods h1
      using that unfolding emits_def by blast
    moreover have "pods_ok w (filter (\<lambda>p. mirrorPodFilter p \<and> daemonSetPodFilter p)
        (c_Pods w (h @ [(ListPods node, True)])))"
      using getPodsForDeletion_pods [of w node h] True list by simp
    ultimately obtain es where es: "snd (?rest (filter (\<lambda>p. mirrorPodFilter p \<and> daemonSetPodFilter p)
        (c_Pods w (h @ [(ListPods node, True)]))) (h @ [(ListPods node, True)])) =
          (h @ [(ListPods node, True)]) @ es"
      by blast
    then show ?thesis
      using True by (intro exI [of _ True] exI [of _ es]) (simp add: deleteOrEvictPodsSimple_def bindIO_def list)
  qed (simp add: deleteOrEvictPodsSimple_def bindIO_def list ex_bool_eq)
qed

text \<open>
  A drain evicts pods only after cordoning: it lists the pods of the node right after the node has
  been marked unschedulable. The exception is a node whose update meets five conflicts in a row: the
  last error is dropped, and the drain goes on with the object that came with the error, without the
  node being cordoned.\<close>

theorem drain_cordons_first:
  "let n = to_lower nodeName in
   \<exists>es rest. snd (SafelyDrainNodeWithClient w nodeName h) = h @ es @ rest \<and>
     (rest = [] \<or>
      (\<exists>b more. rest = (ListPods n, b) # more) \<and> es \<noteq> [] \<and> last es = (UpdateNode n True, True) \<or>
      (\<exists>b more. rest = (ListPods (c_failed_node w), b) # more) \<and> es = failed_cordons n 5)"
proof -
  let ?n = "to_lower nodeName"
  let ?c = "cordon w ?n cordonMaxRetries ''''"
  obtain es where es: "snd (?c h) = h @ es"
      "\<forall>x. fst (?c h) = Inr x \<longrightarrow>
        x = ?n \<and> (\<exists>j < 5. es = failed_cordons ?n j @ [(GetNode ?n, True), (UpdateNode ?n True, True)]) \<or>
        x = c_failed_node w \<and> es = failed_cordons ?n 5"
    using cordon_result [of w ?n cordonMaxRetries "''''" h] by (auto simp: cordonMaxRetries_def)
  show ?thesis
  proof (cases "fst (?c h)")
    case (Inl e)
    then have "snd (SafelyDrainNodeWithClient w nodeName h) = h @ es @ []"
      using es(1) by (auto simp: SafelyDrainNodeWithClient_def bindIO_def split: prod.splits)
    then show ?thesis unfolding Let_def by blast
  next
    case (Inr x)
    obtain b more where "snd (deleteOrEvictPodsSimple w x (h @ es)) = (h @ es) @ (ListPods x, b) # more"
      using evictions_after_listing by blast
    then have "snd (SafelyDrainNodeWithClient w nodeName h) = h @ es @ (ListPods x, b) # more"
      using es(1) Inr by (auto simp: SafelyDrainNodeWithClient_def bindIO_def split: prod.splits)
    then show ?thesis
      unfolding Let_def using es(2) Inr
      by (intro exI [of _ es] exI [of _ "(ListPods x, b) # more"]) auto
  qed
qed

text \<open>A VM whose deletion is not reported as failed is gone.\<close>

lemma CleanDelete_success:
  assumes "CleanDeleteVirtualMachine w name h = (Inr u, h')"
  shows "\<exists>es. h' = h @ es \<and> (DeleteVirtualMachine name, True) \<in> set es"
proof -
  let ?rest = "\<lambda>nic vm. bindIO
      (if length nic > 0 then call (c_ok w) (DeleteNetworkInterface nic) else retIO ())
      (\<lambda>_. bindIO (delete_os_disk w vm) (\<lambda>_. delete_roles w vm))"
  have "\<exists>vm nic. bindIO (call (c_ok w) (DeleteVirtualMachine name)) (\<lambda>_. ?rest nic vm)
      (h @ [(GetVirtualMachine name, True)]) = (Inr u, h')"
    using assms
    by (auto simp: CleanDeleteVirtualMachine_def bindIO_Inr [of "call (c_ok w) (GetVirtualMachine name)"]
        bindIO_def [of "answer (c_VM w)"] answer_def failIO_def bindIO_def [of "liftIO (nic_name _)"]
        liftIO_def split: if_splits sum.splits dest!: call_Inr)
  then obtain vm nic where
      rest: "?rest nic vm (h @ [(GetVirtualMachine name, True), (DeleteVirtualMachine name, True)]) = (Inr u, h')"
    by (auto simp: bindIO_Inr [of "call (c_ok w) (DeleteVirtualMachine name)"] dest!: call_Inr)
  have "emits quiet (bindIO (if length nic > 0 then call (c_ok w) (DeleteNetworkInterface nic) else retIO ())
        (\<lambda>_. bindIO (delete_os_disk w vm) (\<lambda>_. delete_roles w vm)))"
    unfolding delete_os_disk_def delete_roles_def
    by (auto simp: quiet_def split: option.splits intro!: io_rules)
  from emits_extends [OF this rest] show ?thesis by auto
qed

text \<open>
  Scaling down misses no failure: every VM that is not in the report has been deleted, and without
  a report all of them have been.\<close>

theorem scale_down_report:
  assumes "ScaleDownVMs w names h = (Inr report, h')" and "v \<in> set names"
    and "\<forall>failed. report = Some failed \<longrightarrow> v \<notin> fst ` set failed"
  shows "(DeleteVirtualMachine v, True) \<in> set h'"
proof -
  have step: "(DeleteVirtualMachine v, True) \<in> set h2 \<or> v \<in> fst ` set g"
    if "scale_down_one w f v h1 = (Inr g, h2)" for f g h1 h2 v
    using that CleanDelete_success [of w v h1]
    by (auto simp: scale_down_one_def catchIO_def bindIO_def retIO_def split: prod.splits sum.splits
        failure.splits)
  have mono: "set h1 \<subseteq> set h2 \<and> set f \<subseteq> set g"
    if "scale_down_one w f v h1 = (Inr g, h2)" for f g h1 h2 v
  proof -
    have em: "emits (deletes v) (scale_down_one w f v)"
      unfolding scale_down_one_def by (intro io_rules CleanDelete_emits)
    show ?thesis
      using emits_extends [OF em that] that
      by (auto simp: scale_down_one_def catchIO_def bindIO_def retIO_def split: prod.splits sum.splits
          failure.splits)
  qed
  have all: "set h1 \<subseteq> set h2 \<and> set f \<subseteq> set g \<and>
      (\<forall>v \<in> set ns. (DeleteVirtualMachine v, True) \<in> set h2 \<or> v \<in> fst ` set g)"
    if "foldIO (scale_down_one w) f ns h1 = (Inr g, h2)" for ns f g h1 h2
    using that
  proof (induction ns arbitrary: f h1)
    case (Cons n ns)
    then obtain g1 h3 where one: "scale_down_one w f n h1 = (Inr g1, h3)"
        and "foldIO (scale_down_one w) g1 ns h3 = (Inr g, h2)"
      by (auto simp: bindIO_Inr)
    from Cons.IH [OF this(2)] mono [OF one] step [OF one] show ?case by auto
  qed (simp add: retIO_def)
  obtain failed where run: "foldIO (scale_down_one w) [] names h = (Inr failed, h')"
      and "report = (if length failed > 0 then Some failed else None)"
    using assms(1) by (auto simp: ScaleDownVMs_def bindIO_Inr retIO_def)
  then have "v \<notin> fst ` set failed" using assms(3) by (cases failed) auto
  then show ?thesis using all [OF run] assms(2) by blast
qed

theorem scale_down_report_witness:
  "\<exists>report h. ScaleDownVMs example_cloud [''a'', ''b''] [] = (Inr report, h) \<and>
     (DeleteVirtualMachine ''b'', True) \<in> set h"
proof -
  have "fst (ScaleDownVMs example_cloud [''a'', ''b''] []) = Inr None"
    by (simp add: ScaleDownVMs_def scale_down_one_def catchIO_def CleanDeleteVirtualMachine_def bindIO_def
        call_def answer_def liftIO_def retIO_def delete_os_disk_def delete_roles_def foldIO_calls
        example_cloud_def nic_name_def ResourceName_def)
  then obtain h where run: "ScaleDownVMs example_cloud [''a'', ''b''] [] = (Inr None, h)"
    by (metis prod.collapse)
  from scale_down_report [OF run, of "''b''"] run show ?thesis by simp
qed

end
