(* ===== verification/UpgradeNodes.thy ===== *)
theory UpgradeNodes
  imports Operations ClusterTopology
begin

section \<open>Replacing one node (upgradeworkflow.go, upgradeagentnode.go, upgrademasternode.go)\<close>

text \<open>
  \<open>UpgradeNode\<close> is an interface with two implementations, for agents and for masters: delete a VM,
  deploy the upgrade template for one index, wait for the new node. Here the interface is the locale
  \<open>node_ops\<close> and the implementations interpret it. The wait loops end with the node ready or with
  the timeout, whichever comes first; which one is the answer to the call \<open>AwaitNodeReady\<close>.
\<close>

subsection \<open>State\<close>

text \<open>The template and the parameters are shared by all deployments of a pool and changed in place.\<close>

record upgrade_node =
  un_Properties :: properties
  un_TemplateMap :: obj
  un_ParametersMap :: obj

text \<open>\<open>m[k] = v\<close> for the object that is the value of \<open>key\<close>, whose type assertion panics if there is none.\<close>

definition set_in :: "obj \<Rightarrow> string \<Rightarrow> (string \<times> json) list \<Rightarrow> obj result" where
  "set_in m key kvs = bindR (must (get_obj m key)) (\<lambda>o'.
     Inr (AList.update key (JObj (AList.updates (map fst kvs) (map snd kvs) o')) m))"

subsection \<open>Agents\<close>

definition Agent_DeleteNode :: "cloud \<Rightarrow> upgrade_node \<Rightarrow> string \<Rightarrow> bool \<Rightarrow> unit io" where
  "Agent_DeleteNode w un vmName drain =
     bindIO (liftIO (deref (p_MasterProfile (un_Properties un)))) (\<lambda>_.
     if vmName = '''' then failIO (Err ''Error deleting VM: VM name was empty'')
     else let nodeName = to_lower vmName in
       bindIO (call (c_ok w) GetKubernetesClient) (\<lambda>_.
       bindIO (if drain then tryIO (SafelyDrainNodeWithClient w nodeName) else retIO None) (\<lambda>_.
       bindIO (CleanDeleteVirtualMachine w vmName) (\<lambda>_.
       bindIO (tryIO (call (c_ok w) (DeleteNode nodeName))) (\<lambda>_. retIO ())))))"

definition Agent_CreateNode :: "cloud \<Rightarrow> string \<Rightarrow> upgrade_node \<Rightarrow> int \<Rightarrow> upgrade_node io" where
  "Agent_CreateNode w poolName un agentNo =
     bindIO (liftIO (set_in (un_ParametersMap un) (poolName @ ''Count'') [(''value'', JNum (agentNo + 1))]))
       (\<lambda>params.
     bindIO (liftIO (set_in (un_TemplateMap un) ''variables'' [(poolName @ ''Offset'', JNum agentNo)]))
       (\<lambda>template.
     bindIO (call (c_ok w) (DeployTemplate template params)) (\<lambda>_.
       retIO (un\<lparr>un_TemplateMap := template, un_ParametersMap := params\<rparr>))))"

definition Agent_Validate :: "cloud \<Rightarrow> upgrade_node \<Rightarrow> string \<Rightarrow> unit io" where
  "Agent_Validate w un vmName =
     (if vmName = '''' then retIO ()
      else bindIO (liftIO (deref (p_MasterProfile (un_Properties un)))) (\<lambda>_.
        bindIO (call (c_ok w) GetKubernetesClient) (\<lambda>_.
        bindIO (tryIO (call (c_ok w) (AwaitNodeReady (to_lower vmName)))) (\<lambda>ready.
          case ready of Some _ \<Rightarrow> retIO ()
          | None \<Rightarrow> bindIO (tryIO (Agent_DeleteNode w un vmName False)) (\<lambda>deleted.
              case deleted of
                None \<Rightarrow> failIO (Err ''Node was not ready. Failed to delete node'')
              | Some _ \<Rightarrow> failIO (Err ''Node was not ready. Succeeded to delete node''))))))"

subsection \<open>Masters\<close>

definition Master_DeleteNode :: "cloud \<Rightarrow> string \<Rightarrow> unit io" where
  "Master_DeleteNode w vmName = CleanDeleteVirtualMachine w vmName"

definition Master_CreateNode :: "cloud \<Rightarrow> upgrade_node \<Rightarrow> int \<Rightarrow> upgrade_node io" where
  "Master_CreateNode w un masterNo =
     bindIO (liftIO (set_in (un_TemplateMap un) ''variables''
        [(''masterOffset'', JNum masterNo), (''masterCount'', JNum (masterNo + 1))])) (\<lambda>template.
     bindIO (call (c_ok w) (DeployTemplate template (un_ParametersMap un))) (\<lambda>_.
       retIO (un\<lparr>un_TemplateMap := template\<rparr>)))"

definition Master_Validate :: "cloud \<Rightarrow> upgrade_node \<Rightarrow> string \<Rightarrow> unit io" where
  "Master_Validate w un vmName =
     (if vmName = '''' then retIO ()
      else if p_MasterProfile (un_Properties un) = None then retIO ()
      else bindIO (call (c_ok w) GetKubernetesClient) (\<lambda>_.
        call (c_ok w) (AwaitNodeReady (to_lower vmName))))"

subsection \<open>Which VMs a deployment creates\<close>

text \<open>
  The generated template creates the VMs of a pool with the indexes from its offset (a template
  variable) up to its count; for agents the count is a parameter, for masters a variable.
\<close>

definition num_in :: "obj \<Rightarrow> string \<Rightarrow> string \<Rightarrow> int option" where
  "num_in m key k = (case get_obj m key of None \<Rightarrow> None
     | Some o' \<Rightarrow> (case map_of o' k of Some (JNum n) \<Rightarrow> Some n | _ \<Rightarrow> None))"

definition vm_range :: "(int \<Rightarrow> string) \<Rightarrow> int option \<Rightarrow> int option \<Rightarrow> string set" where
  "vm_range name offset limit = (case (offset, limit) of
     (Some a, Some b) \<Rightarrow> name ` {a..<b} | _ \<Rightarrow> {})"

fun agent_vms :: "string \<Rightarrow> (int \<Rightarrow> string) \<Rightarrow> event \<Rightarrow> string set" where
  "agent_vms poolName name (DeployTemplate t p) =
     vm_range name (num_in t ''variables'' (poolName @ ''Offset'')) (num_in p (poolName @ ''Count'') ''value'')"
| "agent_vms poolName name _ = {}"

fun master_vms :: "(int \<Rightarrow> string) \<Rightarrow> event \<Rightarrow> string set" where
  "master_vms name (DeployTemplate t p) =
     vm_range name (num_in t ''variables'' ''masterOffset'') (num_in t ''variables'' ''masterCount'')"
| "master_vms name _ = {}"

lemma set_in_one:
  "set_in m key [(k, JNum n)] = Inr m' \<Longrightarrow> num_in m' key k = Some n"
  by (auto simp: set_in_def bindR_Inr_iff num_in_def get_obj_def updates_conv' update_conv')

lemma set_in_two:
  "set_in m key [(j, JNum a), (k, JNum b)] = Inr m' \<Longrightarrow> j \<noteq> k \<Longrightarrow>
     num_in m' key j = Some a \<and> num_in m' key k = Some b"
  by (auto simp: set_in_def bindR_Inr_iff num_in_def get_obj_def updates_conv' update_conv')

lemma vm_range_one: "vm_range name (Some n) (Some (n + 1)) = {name n}"
proof -
  have "{n..<n + 1} = {n}" by auto
  then show ?thesis by (simp add: vm_range_def)
qed

subsection \<open>The interface\<close>

text \<open>
  What the upgrade needs of a node: deleting takes one VM away, creating brings one, validating
  changes nothing, and a validation that fails takes at most the VM away that it validates. \<open>I\<close> is any
  property that holds at every moment.
\<close>

locale node_ops =
  fixes new :: "event \<Rightarrow> string set" and name :: "int \<Rightarrow> string"
    and delete :: "'n \<Rightarrow> string \<Rightarrow> unit io" and create :: "'n \<Rightarrow> int \<Rightarrow> 'n io"
    and validate :: "'n \<Rightarrow> string \<Rightarrow> unit io"
  assumes delete_law: "(\<And>h. L - {v} \<subseteq> live new S h \<Longrightarrow> live new S h \<subseteq> L \<Longrightarrow> I h) \<Longrightarrow>
      triple I (\<lambda>h. live new S h = L) (delete n v) (\<lambda>_ h. live new S h = L - {v})"
    and create_law: "(\<And>h. live new S h = L \<or> live new S h = insert (name i) L \<Longrightarrow> I h) \<Longrightarrow>
      triple I (\<lambda>h. live new S h = L) (create n i) (\<lambda>_ h. live new S h = insert (name i) L)"
    and validate_law: "(\<And>h. L - {v} \<subseteq> live new S h \<Longrightarrow> live new S h \<subseteq> L \<Longrightarrow> I h) \<Longrightarrow>
      triple I (\<lambda>h. live new S h = L) (validate n v) (\<lambda>_ h. live new S h = L)"
begin

definition add_node :: "'n \<Rightarrow> int \<Rightarrow> string \<Rightarrow> 'n io" where
  "add_node n i v = bindIO (create n i) (\<lambda>n'. bindIO (validate n' v) (\<lambda>_. retIO n'))"

definition replace_node :: "'n \<Rightarrow> string \<Rightarrow> int \<Rightarrow> string \<Rightarrow> 'n io" where
  "replace_node n old i v = bindIO (delete n old) (\<lambda>_. add_node n i v)"

lemma add_node_law:
  assumes "\<And>h. L - {v} \<subseteq> live new S h \<Longrightarrow> live new S h \<subseteq> insert (name i) L \<Longrightarrow> I h"
  shows "triple I (\<lambda>h. live new S h = L) (add_node n i v) (\<lambda>_ h. live new S h = insert (name i) L)"
  unfolding add_node_def
proof (rule triple_bind)
  show "triple I (\<lambda>h. live new S h = L) (create n i) (\<lambda>_ h. live new S h = insert (name i) L)"
    by (rule create_law) (auto intro: assms)
  show "triple I (\<lambda>h. live new S h = insert (name i) L) (bindIO (validate n' v) (\<lambda>_. retIO n'))
      (\<lambda>_ h. live new S h = insert (name i) L)" for n'
  proof (rule triple_bind)
    show "triple I (\<lambda>h. live new S h = insert (name i) L) (validate n' v)
        (\<lambda>_ h. live new S h = insert (name i) L)"
      by (rule validate_law) (auto intro: assms)
  qed (auto intro: io_rules)
qed

text \<open>A rolling replacement misses at most one VM at any moment, besides the VM it validates.\<close>

lemma replace_node_law:
  assumes "\<And>h. L - {old, v} \<subseteq> live new S h \<Longrightarrow> live new S h \<subseteq> insert (name i) L \<Longrightarrow> I h"
  shows "triple I (\<lambda>h. live new S h = L) (replace_node n old i v)
    (\<lambda>_ h. live new S h = insert (name i) (L - {old}))"
  unfolding replace_node_def
proof (rule triple_bind)
  show "triple I (\<lambda>h. live new S h = L) (delete n old) (\<lambda>_ h. live new S h = L - {old})"
    by (rule delete_law) (auto intro: assms)
  show "triple I (\<lambda>h. live new S h = L - {old}) (add_node n i v)
      (\<lambda>_ h. live new S h = insert (name i) (L - {old}))" for x
    by (rule add_node_law) (auto intro: assms)
qed

end

subsection \<open>The implementations\<close>

lemma live_deletes:
  assumes "deletes v e"
  shows "live new S h - {v} \<subseteq> live new S (h @ [(e, b)])" and "live new S (h @ [(e, b)]) \<subseteq> live new S h"
  using assms by (auto simp: deletes_def)

lemma live_after_delete:
  assumes "\<forall>e \<in> set es. deletes v (fst e)"
  shows "live new S h - {v} \<subseteq> live new S (h @ es) \<and> live new S (h @ es) \<subseteq> live new S h \<and>
    ((DeleteVirtualMachine v, True) \<in> set es \<longrightarrow> v \<notin> live new S (h @ es))"
  using assms
proof (induction es rule: rev_induct)
  case (snoc e es)
  obtain x b where e: "e = (x, b)" by fastforce
  have "deletes v x" using snoc.prems e by simp
  note step = live_deletes [OF this, of new S "h @ es" b]
  have "e = (DeleteVirtualMachine v, True) \<Longrightarrow> v \<notin> live new S ((h @ es) @ [e])"
    by (simp del: append_assoc)
  then show ?case
    using snoc step e by (auto simp flip: append_assoc)
qed simp

lemma deletes_triple:
  assumes "emits (deletes v) m"
    and "\<And>h. L - {v} \<subseteq> live new S h \<Longrightarrow> live new S h \<subseteq> L \<Longrightarrow> I h"
  shows "triple I (\<lambda>h. L - {v} \<subseteq> live new S h \<and> live new S h \<subseteq> L) m
    (\<lambda>_ h. L - {v} \<subseteq> live new S h \<and> live new S h \<subseteq> L)"
  using assms(1)
proof (rule triple_emits)
  fix h e b
  assume "deletes v e" "L - {v} \<subseteq> live new S h \<and> live new S h \<subseteq> L"
  then show "L - {v} \<subseteq> live new S (h @ [(e, b)]) \<and> live new S (h @ [(e, b)]) \<subseteq> L"
    using live_deletes [of v e new S h b] by blast
  then show "I (h @ [(e, b)])" using assms(2) by blast
qed

text \<open>Computations that cannot succeed without a certain successful call.\<close>

definition performs :: "event \<Rightarrow> 'a io \<Rightarrow> bool" where
  "performs e m \<longleftrightarrow> (\<forall>h u h'. m h = (Inr u, h') \<longrightarrow> (\<exists>es. h' = h @ es \<and> (e, True) \<in> set es))"

lemma performs_fail: "performs e (failIO f)"
  by (simp add: performs_def failIO_def)

lemma performs_first:
  assumes "performs e m" and "\<And>x. emits A (f x)"
  shows "performs e (bindIO m f)"
  unfolding performs_def bindIO_Inr
proof (intro allI impI, elim exE conjE)
  fix h u h' x h1
  assume m: "m h = (Inr x, h1)" and f: "f x h1 = (Inr u, h')"
  obtain es where "h1 = h @ es" "(e, True) \<in> set es" using assms(1) m unfolding performs_def by blast
  moreover obtain fs where "h' = h1 @ fs" using emits_extends [OF assms(2) f] by blast
  ultimately show "\<exists>es. h' = h @ es \<and> (e, True) \<in> set es" by auto
qed

lemma performs_then:
  assumes "emits A m" and "\<And>x. performs e (f x)"
  shows "performs e (bindIO m f)"
  unfolding performs_def bindIO_Inr
proof (intro allI impI, elim exE conjE)
  fix h u h' x h1
  assume m: "m h = (Inr x, h1)" and f: "f x h1 = (Inr u, h')"
  obtain es where "h1 = h @ es" using emits_extends [OF assms(1) m] by blast
  moreover obtain fs where "h' = h1 @ fs" "(e, True) \<in> set fs"
    using assms(2) f unfolding performs_def by blast
  ultimately show "\<exists>es. h' = h @ es \<and> (e, True) \<in> set es" by auto
qed

lemma delete_triple:
  assumes em: "emits (deletes v) m"
    and del: "performs (DeleteVirtualMachine v) m"
    and I: "\<And>h. L - {v} \<subseteq> live new S h \<Longrightarrow> live new S h \<subseteq> L \<Longrightarrow> I h"
  shows "triple I (\<lambda>h. live new S h = L) m (\<lambda>_ h. live new S h = L - {v})"
  unfolding triple_def
proof (intro allI impI conjI)
  fix h
  assume h: "live new S h = L \<and> throughout I h"
  show "throughout I (snd (m h))"
    using deletes_triple [where I = I, OF em I] h by (auto simp: triple_def)
  fix x
  assume x: "fst (m h) = Inr x"
  obtain es where es: "snd (m h) = h @ es" "\<forall>e \<in> set es. deletes v (fst e)"
    using em by (auto simp: emits_def)
  moreover have "(DeleteVirtualMachine v, True) \<in> set es"
    using del es(1) x unfolding performs_def by (metis prod.collapse same_append_eq)
  ultimately show "live new S (snd (m h)) = L - {v}"
    using live_after_delete [OF es(2), of new S h] h by auto
qed

lemma Agent_DeleteNode_emits: "emits (deletes v) (Agent_DeleteNode w un v drain)"
proof -
  have "emits (deletes v) (SafelyDrainNodeWithClient w n)" for n
    by (rule emits_weaken [OF drain_emits]) (simp add: drain_event_quiet quiet_deletes)
  then show ?thesis
    unfolding Agent_DeleteNode_def Let_def
    by (auto simp: deletes_def quiet_def split: if_splits intro!: io_rules CleanDelete_emits)
qed

lemma CleanDelete_performs: "performs (DeleteVirtualMachine v) (CleanDeleteVirtualMachine w v)"
  unfolding performs_def using CleanDelete_success by blast

lemma Agent_DeleteNode_performs: "performs (DeleteVirtualMachine v) (Agent_DeleteNode w un v drain)"
proof -
  have drain: "emits quiet (tryIO (SafelyDrainNodeWithClient w n))" for n
    using emits_weaken [OF drain_emits drain_event_quiet] by (auto intro!: io_rules)
  have "emits quiet (bindIO (tryIO (call (c_ok w) (DeleteNode n))) (\<lambda>_. retIO ()))" for n
    by (intro io_rules) (simp add: quiet_def)
  note del = performs_first [OF CleanDelete_performs this]
  have client: "emits quiet (call (c_ok w) GetKubernetesClient)"
    by (intro io_rules) (simp add: quiet_def)
  show ?thesis
    unfolding Agent_DeleteNode_def Let_def
    by (auto intro!: performs_fail performs_then [OF emits_silent(3) [where A = quiet]]
        performs_then [OF client] performs_then [OF drain] del split: if_splits)
qed

lemma Agent_CreateNode_law:
  assumes "\<And>h. live (agent_vms pool name) S h = L \<or> live (agent_vms pool name) S h = insert (name i) L \<Longrightarrow> I h"
  shows "triple I (\<lambda>h. live (agent_vms pool name) S h = L) (Agent_CreateNode w pool un i)
    (\<lambda>_ h. live (agent_vms pool name) S h = insert (name i) L)"
  unfolding Agent_CreateNode_def
proof (intro triple_bind)
  let ?live = "\<lambda>h. live (agent_vms pool name) S h"
  let ?params = "set_in (un_ParametersMap un) (pool @ ''Count'') [(''value'', JNum (i + 1))]"
  let ?templ = "set_in (un_TemplateMap un) ''variables'' [(pool @ ''Offset'', JNum i)]"
  show "triple I (\<lambda>h. ?live h = L) (liftIO ?params) (\<lambda>p h. ?live h = L \<and> ?params = Inr p)"
    by (rule triple_lift) simp
  show "triple I (\<lambda>h. ?live h = L \<and> ?params = Inr p) (liftIO ?templ)
      (\<lambda>t h. ?live h = L \<and> ?params = Inr p \<and> ?templ = Inr t)" for p
    by (rule triple_lift) simp
  show "triple I (\<lambda>h. ?live h = L \<and> ?params = Inr p \<and> ?templ = Inr t)
      (call (c_ok w) (DeployTemplate t p)) (\<lambda>_ h. ?live h = insert (name i) L)" for p t
  proof (rule triple_call)
    fix h b
    assume pre: "?live h = L \<and> ?params = Inr p \<and> ?templ = Inr t"
    then have "agent_vms pool name (DeployTemplate t p) = {name i}"
      using set_in_one vm_range_one by auto
    then show "?live (h @ [(DeployTemplate t p, True)]) = insert (name i) L"
      and "I (h @ [(DeployTemplate t p, b)])"
      using pre assms by (auto simp del: agent_vms.simps) (cases b; simp)
  qed
qed (auto intro: io_rules)

lemma Master_CreateNode_law:
  assumes "\<And>h. live (master_vms name) S h = L \<or> live (master_vms name) S h = insert (name i) L \<Longrightarrow> I h"
  shows "triple I (\<lambda>h. live (master_vms name) S h = L) (Master_CreateNode w un i)
    (\<lambda>_ h. live (master_vms name) S h = insert (name i) L)"
  unfolding Master_CreateNode_def
proof (intro triple_bind)
  let ?live = "\<lambda>h. live (master_vms name) S h" and ?p = "un_ParametersMap un"
  let ?templ = "set_in (un_TemplateMap un) ''variables''
    [(''masterOffset'', JNum i), (''masterCount'', JNum (i + 1))]"
  show "triple I (\<lambda>h. ?live h = L) (liftIO ?templ) (\<lambda>t h. ?live h = L \<and> ?templ = Inr t)"
    by (rule triple_lift) simp
  show "triple I (\<lambda>h. ?live h = L \<and> ?templ = Inr t) (call (c_ok w) (DeployTemplate t ?p))
      (\<lambda>_ h. ?live h = insert (name i) L)" for t
  proof (rule triple_call)
    fix h b
    assume pre: "?live h = L \<and> ?templ = Inr t"
    then have "master_vms name (DeployTemplate t ?p) = {name i}"
      using set_in_two [of "un_TemplateMap un" "''variables''" "''masterOffset''" i "''masterCount''" "i + 1" t]
        vm_range_one by auto
    then show "?live (h @ [(DeployTemplate t ?p, True)]) = insert (name i) L"
      and "I (h @ [(DeployTemplate t ?p, b)])"
      using pre assms by (auto simp del: master_vms.simps) (cases b; simp)
  qed
qed (auto intro: io_rules)

lemma Agent_Validate_emits: "emits (deletes v) (Agent_Validate w un v)"
  unfolding Agent_Validate_def
  by (auto simp: deletes_def quiet_def split: option.splits
      intro!: io_rules Agent_DeleteNode_emits)

lemma Master_Validate_emits: "emits quiet (Master_Validate w un v)"
  unfolding Master_Validate_def by (auto simp: quiet_def intro!: io_rules)

text \<open>A successful validation has not deleted anything.\<close>

lemma Agent_Validate_law:
  assumes I: "\<And>h. L - {v} \<subseteq> live new S h \<Longrightarrow> live new S h \<subseteq> L \<Longrightarrow> I h"
  shows "triple I (\<lambda>h. live new S h = L) (Agent_Validate w un v) (\<lambda>_ h. live new S h = L)"
proof -
  have quiet_calls: "triple I (\<lambda>h. live new S h = L) m (\<lambda>_ h. live new S h = L)"
    if "emits quiet m" for m :: "'x io"
    using that by (rule triple_emits) (auto intro: I)
  have client: "emits quiet (call (c_ok w) GetKubernetesClient)"
      "emits quiet (tryIO (call (c_ok w) (AwaitNodeReady (to_lower v))))"
    by (auto simp: quiet_def intro!: io_rules)
  have expired: "triple I (\<lambda>h. live new S h = L) (bindIO (tryIO (Agent_DeleteNode w un v False))
      (\<lambda>deleted. case deleted of None \<Rightarrow> failIO e | Some _ \<Rightarrow> failIO e')) (\<lambda>_ h. live new S h = L)" for e e'
  proof (rule triple_bind)
    show "triple I (\<lambda>h. live new S h = L) (tryIO (Agent_DeleteNode w un v False)) (\<lambda>_ h. True)"
      by (rule triple_weaken [OF deletes_triple [where L = L and I = I]])
        (auto intro: I io_rules Agent_DeleteNode_emits)
  qed (auto split: option.splits intro!: io_rules)
  show ?thesis
    unfolding Agent_Validate_def
    by (auto intro!: triple_bind [OF triple_lift [where Q = "\<lambda>_ h. live new S h = L"]] triple_bind [OF quiet_calls [OF client(1)]]
        triple_bind [OF quiet_calls [OF client(2)]] io_rules expired split: option.splits)
qed

interpretation agent: node_ops "agent_vms pool name" name
    "\<lambda>un v. Agent_DeleteNode w un v drain" "Agent_CreateNode w pool" "Agent_Validate w"
  for w pool name drain
  by unfold_locales
    (auto intro!: delete_triple [OF Agent_DeleteNode_emits Agent_DeleteNode_performs]
      Agent_CreateNode_law Agent_Validate_law)

lemma Master_Validate_law:
  assumes I: "\<And>h. L - {v} \<subseteq> live new S h \<Longrightarrow> live new S h \<subseteq> L \<Longrightarrow> I h"
  shows "triple I (\<lambda>h. live new S h = L) (Master_Validate w un v) (\<lambda>_ h. live new S h = L)"
  by (rule triple_emits [OF Master_Validate_emits]) (auto intro: I)

interpretation master: node_ops "master_vms name" name
    "\<lambda>_ v. Master_DeleteNode w v" "Master_CreateNode w" "Master_Validate w"
  for w name
  unfolding Master_DeleteNode_def
  by unfold_locales
    (auto intro!: delete_triple [OF CleanDelete_emits CleanDelete_performs]
      Master_CreateNode_law Master_Validate_law)

end
