(* ===== verification/Upgrader.thy ===== *)
theory Upgrader
  imports UpgradeNodes
begin

section \<open>The upgrade of a cluster (upgrader.go)\<close>

text \<open>
  The pipeline of pkg/operations/kubernetesupgrade/upgrader.go: masters first, one at a time, then the
  agent pools, each with one extra node. Every call is one to the \<open>cloud\<close>; the iteration order of the
  Go map of agent VMs is the parameter \<open>range\<close>.
\<close>

subsection \<open>State\<close>

datatype vm_status = vmStatusUpgraded | vmStatusNotUpgraded | vmStatusIgnored

record vm_info =
  vi_name :: string
  vi_status :: vm_status

type_synonym agent_map = "(int \<times> vm_info) list"

record upgrader =
  ku_Properties :: properties
  ku_Topology :: topology
  ku_CurrentVersion :: string
  ku_ControlPlaneOnly :: bool
  ku_Force :: bool
  ku_rand :: rand_source
  ku_range :: "agent_map \<Rightarrow> agent_map"

text \<open>The state of the loops over one pool.\<close>

record pool_run =
  pr_node :: upgrade_node
  pr_agentVMs :: agent_map
  pr_newCreatedVMs :: "string list"
  pr_upgradedCount :: int

text \<open>The index of a VM; the error is ignored and leaves the zero value.\<close>

definition vm_index :: "vm \<Rightarrow> int result" where
  "vm_index v = (case GetVMNameIndex (vm_OSType v) (vm_Name v) of Inl (Err _) \<Rightarrow> Inr 0 | r \<Rightarrow> r)"

definition getAvailableIndex :: "agent_map \<Rightarrow> int" where
  "getAvailableIndex vms =
     (let maxIndex = foldl (\<lambda>m i. if i > m then i else m) 0 (map fst vms)
      in case find (\<lambda>i. map_of vms i = None) [0..maxIndex - 1] of
           Some i \<Rightarrow> i | None \<Rightarrow> maxIndex + 1)"

subsection \<open>Templates\<close>

definition kubernetes_config_of :: "upgrader \<Rightarrow> kubernetes_config option result" where
  "kubernetes_config_of ku = bindR (deref (p_OrchestratorProfile (ku_Properties ku)))
     (\<lambda>op. Inr (op_KubernetesConfig op))"

definition prepare_common :: "upgrader \<Rightarrow> obj \<Rightarrow> obj result" where
  "prepare_common ku t =
     bindR (kubernetes_config_of ku) (\<lambda>kc.
     bindR (PrivateJumpboxProvision kc) (\<lambda>jumpbox.
     bindR (if jumpbox then RemoveJumpboxResourcesFromTemplate t else Inr t) (\<lambda>t.
     bindR (deref kc) (\<lambda>k.
       if kc_LoadBalancerSku k = StandardLoadBalancerSku then NormalizeForK8sSLBScalingOrUpgrade t
       else Inr t))))"

definition prepare_masters :: "upgrader \<Rightarrow> master_profile \<Rightarrow> obj \<Rightarrow> obj result" where
  "prepare_masters ku m t =
     bindR (prepare_common ku t) (\<lambda>t.
     bindR (kubernetes_config_of ku) (\<lambda>kc. bindR (deref kc) (\<lambda>k.
     bindR (if to_Bool (kc_EnableEncryptionWithExternalKms k) then RemoveKMSResourcesFromTemplate t else Inr t)
       (\<lambda>t.
     bindR (NormalizeResourcesForK8sMasterUpgrade (MasterProfile_IsManagedDisks m) [] t)
       RemoveImmutableResourceProperties))))"

definition prepare_agents :: "upgrader \<Rightarrow> string \<Rightarrow> obj \<Rightarrow> obj result" where
  "prepare_agents ku poolName t =
     bindR (prepare_common ku t) (\<lambda>t.
     bindR (NormalizeResourcesForK8sAgentUpgrade
              (case p_MasterProfile (ku_Properties ku) of None \<Rightarrow> False
               | Some m \<Rightarrow> MasterProfile_IsManagedDisks m)
              [(poolName, True)] t)
       RemoveImmutableResourceProperties)"

subsection \<open>Masters\<close>

text \<open>The least index from \<open>i\<close> on that is not used.\<close>

function next_index :: "int list \<Rightarrow> int \<Rightarrow> int" where
  "next_index used i = (if i \<in> set used then next_index used (i + 1) else i)"
  by pat_completeness auto
termination
proof (relation "measure (\<lambda>(used, i). card {j \<in> set used. i \<le> j})")
  fix used :: "int list" and i :: int
  assume "i \<in> set used"
  then have "i \<in> {j \<in> set used. i \<le> j} - {j \<in> set used. i + 1 \<le> j}" by simp
  then have "{j \<in> set used. i + 1 \<le> j} \<subset> {j \<in> set used. i \<le> j}" by fastforce
  then show "((used, i + 1), used, i) \<in> measure (\<lambda>(used, i). card {j \<in> set used. i \<le> j})"
    by (simp add: psubset_card_mono)
qed simp

declare next_index.simps [simp del]

definition create_master ::
    "cloud \<Rightarrow> upgrade_node \<times> int list \<Rightarrow> nat \<Rightarrow> (upgrade_node \<times> int list) io" where
  "create_master w st i =
     (let (un, existing) = st; masterIndexToCreate = next_index existing 0 in
      bindIO (Master_CreateNode w un masterIndexToCreate) (\<lambda>un.
      bindIO (Master_Validate w un '''') (\<lambda>_. retIO (un, masterIndexToCreate # existing))))"

definition upgrade_master :: "cloud \<Rightarrow> upgrade_node \<Rightarrow> vm \<Rightarrow> upgrade_node io" where
  "upgrade_master w un v =
     bindIO (liftIO (vm_index v)) (\<lambda>masterIndex.
     bindIO (Master_DeleteNode w (vm_Name v)) (\<lambda>_.
     bindIO (Master_CreateNode w un masterIndex) (\<lambda>un.
     bindIO (Master_Validate w un (vm_Name v)) (\<lambda>_. retIO un))))"

definition upgradeMasterNodes :: "cloud \<Rightarrow> upgrader \<Rightarrow> unit io" where
  "upgradeMasterNodes w ku =
     (case p_MasterProfile (ku_Properties ku) of None \<Rightarrow> retIO ()
      | Some m \<Rightarrow>
          bindIO (answer (c_Template w)) (\<lambda>generated.
          bindIO (liftIO generated) (\<lambda>(templateMap, parametersMap).
          bindIO (liftIO (prepare_masters ku m templateMap)) (\<lambda>templateMap.
          let t = ku_Topology ku;
              un = \<lparr>un_Properties = ku_Properties ku, un_TemplateMap = templateMap,
                    un_ParametersMap = parametersMap\<rparr>;
              expectedMasterCount = mp_Count m;
              mastersUpgradedCount = int (length (t_UpgradedMasterVMs t));
              masterNodesInCluster = int (length (t_MasterVMs t)) + mastersUpgradedCount in
          if masterNodesInCluster > expectedMasterCount
          then failIO (Err ''Total count of master VMs exceeded expected count'')
          else bindIO (liftIO (mapR vm_index (t_MasterVMs t))) (\<lambda>existingMastersIndex.
            bindIO (foldIO (create_master w) (un, existingMastersIndex)
                [0..<nat (expectedMasterCount - masterNodesInCluster)]) (\<lambda>(un, _).
            bindIO (liftIO (mapR vm_index (t_UpgradedMasterVMs t))) (\<lambda>upgradedMastersIndex.
            bindIO (foldIO (upgrade_master w) un (t_MasterVMs t)) (\<lambda>_. retIO ()))))))))"

subsection \<open>One agent pool\<close>

definition find_pool :: "properties \<Rightarrow> string \<Rightarrow> agent_pool_profile option" where
  "find_pool p name = find (\<lambda>a. ap_Name a = name) (pools p)"

definition check_upgraded :: "cloud \<Rightarrow> pool_run \<Rightarrow> vm \<Rightarrow> pool_run io" where
  "check_upgraded w pr v =
     bindIO (liftIO (vm_index v)) (\<lambda>agentIndex.
       case vm_ProvisioningState v of
         Some s \<Rightarrow>
           if s \<in> {''Creating'', ''Updating'', ''Succeeded''} then
             retIO (pr\<lparr>pr_agentVMs := AList.update agentIndex
                          \<lparr>vi_name = vm_Name v, vi_status = vmStatusUpgraded\<rparr> (pr_agentVMs pr),
                       pr_upgradedCount := pr_upgradedCount pr + 1\<rparr>)
           else if s = ''Failed'' then
             bindIO (Agent_DeleteNode w (pr_node pr) (vm_Name v) False) (\<lambda>_. retIO pr)
           else retIO (pr\<lparr>pr_agentVMs := AList.update agentIndex
                          \<lparr>vi_name = vm_Name v, vi_status = vmStatusIgnored\<rparr> (pr_agentVMs pr)\<rparr>)
       | None \<Rightarrow> retIO (pr\<lparr>pr_agentVMs := AList.update agentIndex
                          \<lparr>vi_name = vm_Name v, vi_status = vmStatusIgnored\<rparr> (pr_agentVMs pr)\<rparr>))"

definition add_not_upgraded :: "agent_map \<Rightarrow> vm \<Rightarrow> agent_map result" where
  "add_not_upgraded vms v = bindR (vm_index v) (\<lambda>agentIndex.
     Inr (AList.update agentIndex \<lparr>vi_name = vm_Name v, vi_status = vmStatusNotUpgraded\<rparr> vms))"

definition create_agent ::
    "cloud \<Rightarrow> upgrader \<Rightarrow> agent_pool_profile \<Rightarrow> string \<Rightarrow> pool_run \<Rightarrow> pool_run io" where
  "create_agent w ku agentPoolProfile poolName pr =
     (let agentIndex = getAvailableIndex (pr_agentVMs pr) in
      bindIO (liftIO (GetK8sVMName (ku_rand ku) (ku_Properties ku) agentPoolProfile agentIndex)) (\<lambda>vmName.
      bindIO (Agent_CreateNode w poolName (pr_node pr) agentIndex) (\<lambda>un.
      bindIO (Agent_Validate w un vmName) (\<lambda>_.
        retIO (pr\<lparr>pr_node := un, pr_newCreatedVMs := pr_newCreatedVMs pr @ [vmName],
          pr_agentVMs := AList.update agentIndex
             \<lparr>vi_name = vmName, vi_status = vmStatusUpgraded\<rparr> (pr_agentVMs pr)\<rparr>)))))"

text \<open>The loop that brings the pool to \<open>agentCount\<close> VMs.\<close>

function create_missing ::
    "cloud \<Rightarrow> upgrader \<Rightarrow> agent_pool_profile \<Rightarrow> string \<Rightarrow> int \<Rightarrow> int \<Rightarrow> int \<Rightarrow> pool_run \<Rightarrow> pool_run io" where
  "create_missing w ku agentPoolProfile poolName agentCount toBeUpgradedCount upgradedCount pr =
     (if upgradedCount + toBeUpgradedCount < agentCount then
        bindIO (create_agent w ku agentPoolProfile poolName pr)
          (\<lambda>pr. create_missing w ku agentPoolProfile poolName agentCount toBeUpgradedCount (upgradedCount + 1) pr)
      else retIO pr)"
  by pat_completeness auto
termination
  by (relation "measure (\<lambda>(w, ku, a, n, agentCount, todo, upgradedCount, pr). nat (agentCount - (upgradedCount + todo)))")
    auto

declare create_missing.simps [simp del]

definition copyCustomPropertiesToNewNode :: "cloud \<Rightarrow> string \<Rightarrow> string \<Rightarrow> unit io" where
  "copyCustomPropertiesToNewNode w oldNodeName newNodeName =
     bindIO (tryIO (SafelyDrainNodeWithClient w newNodeName)) (\<lambda>_.
       call (c_ok w) (CopyNodeProperties oldNodeName newNodeName))"

definition preserve_properties :: "agent_pool_profile \<Rightarrow> bool" where
  "preserve_properties a = (case ap_PreserveNodesProperties a of
     None \<Rightarrow> DefaultPreserveNodesProperties | Some b \<Rightarrow> b)"

definition upgrade_agent ::
    "cloud \<Rightarrow> upgrader \<Rightarrow> agent_pool_profile \<Rightarrow> string \<Rightarrow> int \<Rightarrow> pool_run \<Rightarrow> int \<times> vm_info \<Rightarrow> pool_run io" where
  "upgrade_agent w ku agentPoolProfile poolName toBeUpgradedCount pr entry =
     (let (agentIndex, vm) = entry in
      if vi_status vm \<noteq> vmStatusNotUpgraded then retIO pr
      else
        bindIO (if preserve_properties agentPoolProfile then
                  (case pr_newCreatedVMs pr of [] \<Rightarrow> retIO pr
                   | newNodeName # others \<Rightarrow>
                       bindIO (tryIO (copyCustomPropertiesToNewNode w (to_lower (vi_name vm)) newNodeName))
                         (\<lambda>_. retIO (pr\<lparr>pr_newCreatedVMs := others\<rparr>)))
                else retIO pr) (\<lambda>pr.
        bindIO (Agent_DeleteNode w (pr_node pr) (vi_name vm) True) (\<lambda>_.
        bindIO (liftIO (GetK8sVMName (ku_rand ku) (ku_Properties ku) agentPoolProfile agentIndex)) (\<lambda>vmName.
        bindIO (if pr_upgradedCount pr = toBeUpgradedCount - 1
                then retIO (pr\<lparr>pr_agentVMs := AList.delete agentIndex (pr_agentVMs pr)\<rparr>)
                else bindIO (Agent_CreateNode w poolName (pr_node pr) agentIndex) (\<lambda>un.
                  bindIO (Agent_Validate w un vmName) (\<lambda>_.
                    retIO (pr\<lparr>pr_node := un, pr_newCreatedVMs := pr_newCreatedVMs pr @ [vmName],
                      pr_agentVMs := AList.update agentIndex (vm\<lparr>vi_status := vmStatusUpgraded\<rparr>)
                        (pr_agentVMs pr)\<rparr>)))) (\<lambda>pr.
          retIO (pr\<lparr>pr_upgradedCount := pr_upgradedCount pr + 1\<rparr>))))))"

text \<open>One pool; the result says whether the loop over the pools goes on.\<close>

definition upgrade_pool :: "cloud \<Rightarrow> upgrader \<Rightarrow> agent_pool_topology \<Rightarrow> bool io" where
  "upgrade_pool w ku agentPool =
     bindIO (answer (c_Template w)) (\<lambda>generated.
     bindIO (liftIO generated) (\<lambda>(templateMap, parametersMap).
     bindIO (liftIO (prepare_agents ku (apt_Name agentPool) templateMap)) (\<lambda>templateMap.
       case find_pool (ku_Properties ku) (apt_Name agentPool) of
         None \<Rightarrow> retIO False
       | Some agentPoolProfile \<Rightarrow>
           let agentCount = ap_Count agentPoolProfile;
               toBeUpgradedCount = int (length (apt_AgentVMs agentPool));
               un = \<lparr>un_Properties = ku_Properties ku, un_TemplateMap = templateMap,
                     un_ParametersMap = parametersMap\<rparr>;
               pr = \<lparr>pr_node = un, pr_agentVMs = [], pr_newCreatedVMs = [], pr_upgradedCount = 0\<rparr> in
           if agentCount = 0 then retIO False
           else
             bindIO (foldIO (check_upgraded w) pr (apt_UpgradedAgentVMs agentPool)) (\<lambda>pr.
             bindIO (liftIO (foldR add_not_upgraded (pr_agentVMs pr) (apt_AgentVMs agentPool))) (\<lambda>vms.
             bindIO (liftIO (deref (p_MasterProfile (ku_Properties ku)))) (\<lambda>_.
             bindIO (call (c_ok w) GetKubernetesClient) (\<lambda>_.
             bindIO (create_missing w ku agentPoolProfile (apt_Name agentPool)
                 (if toBeUpgradedCount > 0 then agentCount + 1 else agentCount) toBeUpgradedCount
                 (pr_upgradedCount pr) (pr\<lparr>pr_agentVMs := vms\<rparr>)) (\<lambda>pr.
               if toBeUpgradedCount = 0 then retIO True
               else bindIO (foldIO (upgrade_agent w ku agentPoolProfile (apt_Name agentPool) toBeUpgradedCount)
                   (pr\<lparr>pr_upgradedCount := 0\<rparr>) (ku_range ku (pr_agentVMs pr))) (\<lambda>_. retIO True)))))))))"

fun upgradeAgentPools :: "cloud \<Rightarrow> upgrader \<Rightarrow> agent_pool_topology list \<Rightarrow> unit io" where
  "upgradeAgentPools w ku [] = retIO ()"
| "upgradeAgentPools w ku (agentPool # rest) =
     bindIO (upgrade_pool w ku agentPool) (\<lambda>go. if go then upgradeAgentPools w ku rest else retIO ())"

end
