(* ===== verification/AgentUpgrade.thy ===== *)
theory AgentUpgrade
  imports Upgrader
begin

section \<open>Upgrading an agent pool (upgradeAgentPools of upgrader.go)\<close>

text \<open>
  What the upgrade of one pool does to its VMs, at every moment of the run and whatever fails. The VMs
  are counted pessimistically (theory Cloud); they carry the names of the code's naming scheme, so that
  an index stands for a VM. The laws of the interface \<open>node_ops\<close> give one law per loop.
\<close>

subsection \<open>Free indexes\<close>

lemma foldl_max:
  "foldl (\<lambda>m i. if i > m then i else m) (m :: int) xs \<ge> m \<and>
   (\<forall>x \<in> set xs. x \<le> foldl (\<lambda>m i. if i > m then i else m) m xs)"
  by (induction xs arbitrary: m) (auto, (meson order_trans less_imp_le linorder_not_le)+)

lemma getAvailableIndex_free: "getAvailableIndex vms \<notin> fst ` set vms \<and> 0 \<le> getAvailableIndex vms"
proof -
  define m where "m = foldl (\<lambda>m i. if i > m then i else m) (0 :: int) (map fst vms)"
  have m: "0 \<le> m" "\<forall>x \<in> fst ` set vms. x \<le> m"
    using foldl_max [of 0 "map fst vms"] by (auto simp: m_def)
  show ?thesis
  proof (cases "find (\<lambda>i. map_of vms i = None) [0..m - 1]")
    case None
    then have "getAvailableIndex vms = m + 1" by (simp add: getAvailableIndex_def Let_def m_def)
    moreover have "m + 1 \<notin> fst ` set vms" using m by fastforce
    ultimately show ?thesis using m by simp
  next
    case (Some i)
    then have "getAvailableIndex vms = i" by (simp add: getAvailableIndex_def Let_def m_def)
    moreover have "i \<in> set [0..m - 1]" "map_of vms i = None"
      using Some by (auto simp: find_Some_iff)
    ultimately show ?thesis by (auto simp: map_of_eq_None_iff)
  qed
qed

subsection \<open>The VMs of a pool\<close>

definition vm_number :: "vm \<Rightarrow> int" where
  "vm_number v = (case vm_index v of Inr i \<Rightarrow> i | Inl _ \<Rightarrow> 0)"

definition well_named :: "(int \<Rightarrow> string) \<Rightarrow> vm list \<Rightarrow> bool" where
  "well_named name vs \<longleftrightarrow> distinct (map vm_number vs) \<and>
     (\<forall>v \<in> set vs. 0 \<le> vm_number v \<and> vm_index v = Inr (vm_number v) \<and> vm_Name v = name (vm_number v))"

definition healthy :: "vm \<Rightarrow> bool" where
  "healthy v \<longleftrightarrow> vm_ProvisioningState v \<in> Some ` {''Creating'', ''Updating'', ''Succeeded''}"

definition kept :: "vm \<Rightarrow> bool" where
  "kept v \<longleftrightarrow> vm_ProvisioningState v \<noteq> Some ''Failed''"

definition upgraded_entry :: "vm \<Rightarrow> int \<times> vm_info" where
  "upgraded_entry v = (vm_number v,
     \<lparr>vi_name = vm_Name v, vi_status = (if healthy v then vmStatusUpgraded else vmStatusIgnored)\<rparr>)"

definition old_entry :: "vm \<Rightarrow> int \<times> vm_info" where
  "old_entry v = (vm_number v, \<lparr>vi_name = vm_Name v, vi_status = vmStatusNotUpgraded\<rparr>)"

lemma healthy_kept: "healthy v \<Longrightarrow> kept v"
  by (auto simp: healthy_def kept_def)

lemma well_named_Cons [simp]:
  "well_named name (v # vs) \<longleftrightarrow> vm_number v \<notin> vm_number ` set vs \<and> 0 \<le> vm_number v \<and>
     vm_index v = Inr (vm_number v) \<and> vm_Name v = name (vm_number v) \<and> well_named name vs"
  by (auto simp: well_named_def)

lemma well_named_append [simp]:
  "well_named name (us @ vs) \<longleftrightarrow> well_named name us \<and> well_named name vs \<and>
     vm_number ` set us \<inter> vm_number ` set vs = {}"
  by (auto simp: well_named_def)

lemma well_named_filter: "well_named name vs \<Longrightarrow> well_named name (filter P vs)"
  by (auto simp: well_named_def distinct_map_filter)

lemma well_named_names: "well_named name vs \<Longrightarrow> vm_Name ` set vs = name ` vm_number ` set vs"
  by (force simp: well_named_def image_image)

lemma update_fresh: "k \<notin> fst ` set al \<Longrightarrow> AList.update k v al = al @ [(k, v)]"
  by (induction al) auto

lemma add_old_entries:
  assumes "well_named name vs" and "fst ` set m \<inter> vm_number ` set vs = {}"
  shows "foldR add_not_upgraded m vs = Inr (m @ map old_entry vs)"
  using assms
proof (induction vs arbitrary: m)
  case (Cons v vs)
  then have "add_not_upgraded m v = Inr (m @ [old_entry v])"
    by (auto simp: add_not_upgraded_def update_fresh old_entry_def)
  moreover have "foldR add_not_upgraded (m @ [old_entry v]) vs = Inr ((m @ [old_entry v]) @ map old_entry vs)"
    using Cons.prems by (intro Cons.IH) (auto simp: old_entry_def)
  ultimately show ?case by simp
qed simp

subsection \<open>VMs that are already upgraded\<close>

lemma bindIO_lift [simp]: "bindIO (liftIO (Inr x)) f = f x"
  by (simp add: bindIO_def liftIO_def fun_eq_iff)

lemma triple_pure: "(\<phi> \<Longrightarrow> triple I P m Q) \<Longrightarrow> triple I (\<lambda>h. P h \<and> \<phi>) m Q"
  by (auto simp: triple_def)

lemma name_image_diff:
  "inj_on name {0 :: int..} \<Longrightarrow> K \<subseteq> {0..} \<Longrightarrow> 0 \<le> i \<Longrightarrow> name ` K - {name i} = name ` (K - {i})"
  by (auto simp: inj_on_def)

lemma check_upgraded_step:
  assumes inj: "inj_on name {0..}" and ok: "well_named name (filter kept xs @ v # rest)"
    and s: "pr_agentVMs s = map upgraded_entry (filter kept xs)"
    and I: "\<And>h. vm_Name ` set (filter kept (xs @ [v]) @ rest) \<subseteq> live (agent_vms pool name) S h \<Longrightarrow>
        live (agent_vms pool name) S h \<subseteq> vm_Name ` set (filter kept xs @ v # rest) \<Longrightarrow> I h"
  shows "triple I (\<lambda>h. live (agent_vms pool name) S h = vm_Name ` set (filter kept xs @ v # rest))
    (check_upgraded w s v)
    (\<lambda>s' h. pr_agentVMs s' = map upgraded_entry (filter kept (xs @ [v])) \<and>
       pr_newCreatedVMs s' = pr_newCreatedVMs s \<and>
       pr_upgradedCount s' = pr_upgradedCount s + of_bool (healthy v) \<and>
       live (agent_vms pool name) S h = vm_Name ` set (filter kept (xs @ [v]) @ rest))"
proof -
  let ?live = "\<lambda>h. live (agent_vms pool name) S h" and ?xs = "filter kept xs"
  have idx: "vm_index v = Inr (vm_number v)" and num: "0 \<le> vm_number v" "vm_Name v = name (vm_number v)"
    using ok by simp_all
  have fresh: "vm_number v \<notin> fst ` set (pr_agentVMs s)"
    using ok by (auto simp: s upgraded_entry_def)
  have keep: "kept v \<Longrightarrow> check_upgraded w s v = retIO (s\<lparr>pr_agentVMs := pr_agentVMs s @ [upgraded_entry v],
      pr_upgradedCount := pr_upgradedCount s + of_bool (healthy v)\<rparr>)"
    using update_fresh [OF fresh]
    by (auto simp: check_upgraded_def idx liftIO_def bindIO_def fun_eq_iff kept_def healthy_def
        upgraded_entry_def split: option.splits)
  show ?thesis
  proof (cases "kept v")
    case True
    then show ?thesis unfolding keep [OF True] by (auto simp: s intro!: triple_ret)
  next
    case False
    then have drop: "check_upgraded w s v =
        bindIO (Agent_DeleteNode w (pr_node s) (vm_Name v) False) (\<lambda>_. retIO s)"
      by (auto simp: check_upgraded_def idx liftIO_def bindIO_def fun_eq_iff kept_def split: option.splits)
    have less: "vm_Name ` set (?xs @ v # rest) - {vm_Name v} = vm_Name ` set (?xs @ rest)"
    proof -
      have "vm_Name ` set (?xs @ v # rest) - {vm_Name v} =
          name ` (vm_number ` set (?xs @ v # rest)) - {name (vm_number v)}"
        using well_named_names [OF ok] num by simp
      also have "\<dots> = name ` (vm_number ` set (?xs @ v # rest) - {vm_number v})"
        using ok by (intro name_image_diff [OF inj]) (auto simp: well_named_def)
      also have "vm_number ` set (?xs @ v # rest) - {vm_number v} = vm_number ` set (?xs @ rest)"
      proof -
        have "vm_number v \<notin> vm_number ` set (?xs @ rest)" using ok by (auto simp: image_Un)
        then show ?thesis by (simp add: image_Un Un_insert_right)
      qed
      also have "name ` \<dots> = vm_Name ` set (?xs @ rest)"
        using ok by (intro well_named_names [symmetric]) auto
      finally show ?thesis .
    qed
    have "triple I (\<lambda>h. ?live h = vm_Name ` set (?xs @ v # rest)) (Agent_DeleteNode w (pr_node s) (vm_Name v) False)
        (\<lambda>_ h. ?live h = vm_Name ` set (?xs @ rest))"
      unfolding less [symmetric]
    proof (rule agent.delete_law [where drain = False])
      fix h
      assume "vm_Name ` set (?xs @ v # rest) - {vm_Name v} \<subseteq> ?live h" "?live h \<subseteq> vm_Name ` set (?xs @ v # rest)"
      then show "I h" using False unfolding less by (intro I) auto
    qed
    then show ?thesis
      unfolding drop using False
      by (auto intro!: triple_bind io_rules simp: s healthy_kept dest: healthy_kept)
  qed
qed

lemma check_upgraded_all:
  assumes inj: "inj_on name {0..}" and ok: "well_named name (us @ as)"
    and I: "\<And>h. vm_Name ` set (filter kept us @ as) \<subseteq> live (agent_vms pool name) S h \<Longrightarrow>
        live (agent_vms pool name) S h \<subseteq> vm_Name ` set (us @ as) \<Longrightarrow> I h"
    and pr: "pr_agentVMs pr = []" "pr_newCreatedVMs pr = []" "pr_upgradedCount pr = 0"
  shows "triple I (\<lambda>h. live (agent_vms pool name) S h = vm_Name ` set (us @ as))
    (foldIO (check_upgraded w) pr us)
    (\<lambda>s h. live (agent_vms pool name) S h = vm_Name ` set (filter kept us @ as) \<and>
       pr_agentVMs s = map upgraded_entry (filter kept us) \<and> pr_newCreatedVMs s = [] \<and>
       pr_upgradedCount s = int (length (filter healthy us)))"
proof -
  let ?R = "\<lambda>s ys h. \<exists>xs. us = xs @ ys \<and> pr_agentVMs s = map upgraded_entry (filter kept xs) \<and>
      pr_newCreatedVMs s = [] \<and> pr_upgradedCount s = int (length (filter healthy xs)) \<and>
      live (agent_vms pool name) S h = vm_Name ` set (filter kept xs @ ys @ as)"
  have "triple I (?R pr us) (foldIO (check_upgraded w) pr us) (\<lambda>s'. ?R s' [])"
  proof (rule triple_fold)
    fix xs s v ys
    assume us: "us = xs @ v # ys"
    show "triple I (?R s (v # ys)) (check_upgraded w s v) (\<lambda>s'. ?R s' ys)"
    proof (cases "pr_agentVMs s = map upgraded_entry (filter kept xs) \<and> pr_newCreatedVMs s = [] \<and>
        pr_upgradedCount s = int (length (filter healthy xs))")
      case True
      then have s: "pr_agentVMs s = map upgraded_entry (filter kept xs)" by simp
      have "well_named name (filter kept xs @ v # ys @ as)"
        using ok well_named_filter [of name xs kept] by (auto simp: us)
      note step = check_upgraded_step [OF inj this s, of pool S I w]
      have before: "vm_Name ` set (filter kept us @ as) \<subseteq> vm_Name ` set (filter kept (xs @ [v]) @ ys @ as)"
        and after: "vm_Name ` set (filter kept xs @ v # ys @ as) \<subseteq> vm_Name ` set (us @ as)"
        by (auto simp: us)
      have "triple I (\<lambda>h. live (agent_vms pool name) S h = vm_Name ` set (filter kept xs @ v # ys @ as))
        (check_upgraded w s v) (\<lambda>s' h. pr_agentVMs s' = map upgraded_entry (filter kept (xs @ [v])) \<and>
          pr_newCreatedVMs s' = pr_newCreatedVMs s \<and>
          pr_upgradedCount s' = pr_upgradedCount s + of_bool (healthy v) \<and>
          live (agent_vms pool name) S h = vm_Name ` set (filter kept (xs @ [v]) @ ys @ as))"
        by (rule step, rule I [OF order_trans [OF before] order_trans [OF _ after]])
      then show ?thesis
        by (rule triple_weaken) (use True in \<open>auto simp: us intro!: exI [of _ "xs @ [v]"]\<close>)
    next
      case False
      then show ?thesis by (auto simp: triple_def us)
    qed
  qed
  then show ?thesis by (rule triple_weaken) (auto simp: pr)
qed

subsection \<open>Creating the missing VMs\<close>

definition pool_map :: "(int \<Rightarrow> string) \<Rightarrow> agent_map \<Rightarrow> bool" where
  "pool_map name m \<longleftrightarrow> distinct (map fst m) \<and> (\<forall>e \<in> set m. 0 \<le> fst e \<and> vi_name (snd e) = name (fst e))"

definition with_status :: "vm_status \<Rightarrow> agent_map \<Rightarrow> agent_map" where
  "with_status s m = filter (\<lambda>e. vi_status (snd e) = s) m"

text \<open>The VMs that a deployment of the pool's template with one index creates, by name.\<close>

definition names_vms :: "upgrader \<Rightarrow> agent_pool_profile \<Rightarrow> (int \<Rightarrow> string) \<Rightarrow> bool" where
  "names_vms ku a name \<longleftrightarrow> inj_on name {0..} \<and>
     (\<forall>i \<ge> 0. GetK8sVMName (ku_rand ku) (ku_Properties ku) a i = Inr (name i))"

lemma name_notin:
  "inj_on name {0 :: int..} \<Longrightarrow> K \<subseteq> {0..} \<Longrightarrow> 0 \<le> i \<Longrightarrow> i \<notin> K \<Longrightarrow> name i \<notin> name ` K"
  by (auto simp: inj_on_def)

lemma pool_map_indexes: "pool_map name m \<Longrightarrow> fst ` set m \<subseteq> {0..}"
  by (auto simp: pool_map_def)

lemma create_agent_law:
  assumes names: "names_vms ku a name" and ok: "pool_map name (pr_agentVMs pr)"
    and I: "\<And>h. name ` fst ` set (pr_agentVMs pr) \<subseteq> live (agent_vms pool name) S h \<Longrightarrow>
        finite (live (agent_vms pool name) S h) \<Longrightarrow> I h"
  shows "triple I (\<lambda>h. live (agent_vms pool name) S h = name ` fst ` set (pr_agentVMs pr))
    (create_agent w ku a pool pr)
    (\<lambda>s h. live (agent_vms pool name) S h = name ` fst ` set (pr_agentVMs s) \<and> pool_map name (pr_agentVMs s) \<and>
       with_status vmStatusNotUpgraded (pr_agentVMs s) = with_status vmStatusNotUpgraded (pr_agentVMs pr) \<and>
       with_status vmStatusIgnored (pr_agentVMs s) = with_status vmStatusIgnored (pr_agentVMs pr) \<and>
       length (pr_agentVMs s) = Suc (length (pr_agentVMs pr)) \<and>
       fst ` set (pr_agentVMs pr) \<subseteq> fst ` set (pr_agentVMs s))"
proof -
  let ?live = "\<lambda>h. live (agent_vms pool name) S h" and ?m = "pr_agentVMs pr"
  let ?L = "name ` fst ` set ?m"
  define i where "i = getAvailableIndex ?m"
  have i: "i \<notin> fst ` set ?m" "0 \<le> i" using getAvailableIndex_free by (simp_all add: i_def)
  have vm: "GetK8sVMName (ku_rand ku) (ku_Properties ku) a i = Inr (name i)"
    using names i(2) by (simp add: names_vms_def)
  have new: "name i \<notin> ?L"
    by (rule name_notin [OF _ pool_map_indexes [OF ok] i(2,1)]) (use names in \<open>simp add: names_vms_def\<close>)
  have create: "triple I (\<lambda>h. ?live h = ?L) (Agent_CreateNode w pool (pr_node pr) i) (\<lambda>_ h. ?live h = insert (name i) ?L)"
    by (rule agent.create_law, rule I) auto
  have validate: "triple I (\<lambda>h. ?live h = insert (name i) ?L) (Agent_Validate w un (name i))
      (\<lambda>_ h. ?live h = insert (name i) ?L)" for un
    by (rule agent.validate_law, rule I) (use new in \<open>auto intro: finite_subset\<close>)
  show ?thesis
    unfolding create_agent_def Let_def i_def [symmetric] vm bindIO_lift
    by (intro triple_bind [OF create] triple_bind [OF validate] triple_ret)
      (use ok i in \<open>auto simp: pool_map_def with_status_def update_fresh [OF i(1)]\<close>)
qed

lemma create_missing_law:
  assumes names: "names_vms ku a name" and ok: "pool_map name (pr_agentVMs pr)"
    and I: "\<And>h. name ` fst ` set (pr_agentVMs pr) \<subseteq> live (agent_vms pool name) S h \<Longrightarrow>
        finite (live (agent_vms pool name) S h) \<Longrightarrow> I h"
  shows "triple I (\<lambda>h. live (agent_vms pool name) S h = name ` fst ` set (pr_agentVMs pr))
    (create_missing w ku a pool c todo up pr)
    (\<lambda>s h. live (agent_vms pool name) S h = name ` fst ` set (pr_agentVMs s) \<and> pool_map name (pr_agentVMs s) \<and>
       with_status vmStatusNotUpgraded (pr_agentVMs s) = with_status vmStatusNotUpgraded (pr_agentVMs pr) \<and>
       with_status vmStatusIgnored (pr_agentVMs s) = with_status vmStatusIgnored (pr_agentVMs pr) \<and>
       int (length (pr_agentVMs s)) = int (length (pr_agentVMs pr)) + max 0 (c - (up + todo)))"
  using names ok I
proof (induction w ku a pool c todo up pr rule: create_missing.induct)
  case (1 w ku a pool c todo up pr)
  let ?live = "\<lambda>h. live (agent_vms pool name) S h"
  show ?case
  proof (cases "up + todo < c")
    case False
    then show ?thesis
      using "1.prems"(2) by (subst create_missing.simps) (auto intro!: triple_ret)
  next
    case True
    let ?R = "\<lambda>s. pool_map name (pr_agentVMs s) \<and>
       with_status vmStatusNotUpgraded (pr_agentVMs s) = with_status vmStatusNotUpgraded (pr_agentVMs pr) \<and>
       with_status vmStatusIgnored (pr_agentVMs s) = with_status vmStatusIgnored (pr_agentVMs pr) \<and>
       length (pr_agentVMs s) = Suc (length (pr_agentVMs pr)) \<and>
       fst ` set (pr_agentVMs pr) \<subseteq> fst ` set (pr_agentVMs s)"
    have first: "triple I (\<lambda>h. ?live h = name ` fst ` set (pr_agentVMs pr)) (create_agent w ku a pool pr)
        (\<lambda>s h. ?live h = name ` fst ` set (pr_agentVMs s) \<and> ?R s)"
      by (rule create_agent_law [OF "1.prems"(1,2)]) (rule "1.prems"(3))
    have rest: "triple I (\<lambda>h. ?live h = name ` fst ` set (pr_agentVMs s) \<and> ?R s)
       (create_missing w ku a pool c todo (up + 1) s)
       (\<lambda>s h. ?live h = name ` fst ` set (pr_agentVMs s) \<and> pool_map name (pr_agentVMs s) \<and>
       with_status vmStatusNotUpgraded (pr_agentVMs s) = with_status vmStatusNotUpgraded (pr_agentVMs pr) \<and>
       with_status vmStatusIgnored (pr_agentVMs s) = with_status vmStatusIgnored (pr_agentVMs pr) \<and>
       int (length (pr_agentVMs s)) = int (length (pr_agentVMs pr)) + max 0 (c - (up + todo)))" for s
    proof (rule triple_pure)
      assume R: "?R s"
      have "I h" if "name ` fst ` set (pr_agentVMs s) \<subseteq> ?live h" "finite (?live h)" for h
        using that R by (intro "1.prems"(3)) (blast dest: image_mono)+
      then have "triple I (\<lambda>h. ?live h = name ` fst ` set (pr_agentVMs s))
         (create_missing w ku a pool c todo (up + 1) s)
         (\<lambda>s' h. ?live h = name ` fst ` set (pr_agentVMs s') \<and> pool_map name (pr_agentVMs s') \<and>
         with_status vmStatusNotUpgraded (pr_agentVMs s') = with_status vmStatusNotUpgraded (pr_agentVMs s) \<and>
         with_status vmStatusIgnored (pr_agentVMs s') = with_status vmStatusIgnored (pr_agentVMs s) \<and>
         int (length (pr_agentVMs s')) = int (length (pr_agentVMs s)) + max 0 (c - (up + 1 + todo)))"
        using R by (intro "1.IH" [OF True "1.prems"(1)]) blast+
      then show "triple I (\<lambda>h. ?live h = name ` fst ` set (pr_agentVMs s))
         (create_missing w ku a pool c todo (up + 1) s)
         (\<lambda>s h. ?live h = name ` fst ` set (pr_agentVMs s) \<and> pool_map name (pr_agentVMs s) \<and>
         with_status vmStatusNotUpgraded (pr_agentVMs s) = with_status vmStatusNotUpgraded (pr_agentVMs pr) \<and>
         with_status vmStatusIgnored (pr_agentVMs s) = with_status vmStatusIgnored (pr_agentVMs pr) \<and>
         int (length (pr_agentVMs s)) = int (length (pr_agentVMs pr)) + max 0 (c - (up + todo)))"
        by (rule triple_weaken) (use R True in auto)
    qed
    show ?thesis
      by (subst create_missing.simps, simp only: if_P [OF True])
        (rule triple_bind [OF first rest])
  qed
qed

subsection \<open>Replacing the old VMs\<close>

lemma triple_pre: "(\<And>h. P h \<Longrightarrow> \<phi>) \<Longrightarrow> (\<phi> \<Longrightarrow> triple I P m Q) \<Longrightarrow> triple I P m Q"
  unfolding triple_def by blast

lemma triple_run:
  "triple I P m Q \<Longrightarrow> P [] \<Longrightarrow> I [] \<Longrightarrow>
     (\<forall>n. I (take n (snd (m [])))) \<and> (\<forall>x. fst (m []) = Inr x \<longrightarrow> Q x (snd (m [])))"
  by (simp add: triple_def throughout_def)

lemma copy_properties_quiet: "emits quiet (copyCustomPropertiesToNewNode w old new)"
  unfolding copyCustomPropertiesToNewNode_def
  by (auto simp: quiet_def intro!: io_rules emits_weaken [OF drain_emits drain_event_quiet])

lemma live_quiet_law:
  assumes "emits quiet m" and "\<And>h. live new S h = L \<Longrightarrow> I h"
  shows "triple I (\<lambda>h. live new S h = L) m (\<lambda>_ h. live new S h = L)"
  using assms by (intro triple_emits [OF assms(1)]) auto

definition indexes :: "pool_run \<Rightarrow> int set" where
  "indexes pr = fst ` set (pr_agentVMs pr)"

lemma delete_dom: "fst ` set (AList.delete k al) = fst ` set al - {k}"
  by (metis AList.delete_keys list.set_map set_removeAll)

lemma upgrade_agent_law:
  assumes names: "names_vms ku a name" and K: "indexes pr = K" "K \<subseteq> {0..}"
    and e: "vi_status vi = vmStatusNotUpgraded" "vi_name vi = name i" "i \<in> K"
    and I: "\<And>h. name ` (K - {i}) \<subseteq> live (agent_vms pool name) S h \<Longrightarrow>
        live (agent_vms pool name) S h \<subseteq> name ` K \<Longrightarrow> I h"
  shows "triple I (\<lambda>h. live (agent_vms pool name) S h = name ` K)
    (upgrade_agent w ku a pool todo pr (i, vi))
    (\<lambda>s h. pr_upgradedCount s = pr_upgradedCount pr + 1 \<and>
       indexes s = (if pr_upgradedCount pr = todo - 1 then K - {i} else K) \<and>
       live (agent_vms pool name) S h = name ` indexes s)"
proof -
  let ?live = "\<lambda>h. live (agent_vms pool name) S h"
  have i: "0 \<le> i" using e(3) K(2) by auto
  have vm: "GetK8sVMName (ku_rand ku) (ku_Properties ku) a i = Inr (name i)"
    using names i by (simp add: names_vms_def)
  have less: "name ` K - {name i} = name ` (K - {i})"
    by (rule name_image_diff [OF _ K(2) i]) (use names in \<open>simp add: names_vms_def\<close>)
  have more: "insert (name i) (name ` (K - {i})) = name ` K" using e(3) by auto
  have I': "I h" if "name ` K - {name i} \<subseteq> ?live h" "?live h \<subseteq> name ` K" for h
    using that unfolding less by (rule I)
  let ?same = "\<lambda>pr' h. ?live h = name ` K \<and> indexes pr' = K \<and> pr_upgradedCount pr' = pr_upgradedCount pr"
  have copy: "triple I (\<lambda>h. ?live h = name ` K)
      (if preserve_properties a then
         (case pr_newCreatedVMs pr of [] \<Rightarrow> retIO pr
          | newNodeName # others \<Rightarrow>
              bindIO (tryIO (copyCustomPropertiesToNewNode w (to_lower (vi_name vi)) newNodeName))
                (\<lambda>_. retIO (pr\<lparr>pr_newCreatedVMs := others\<rparr>)))
       else retIO pr) ?same"
    using K(1)
    by (auto simp: indexes_def split: list.splits
        intro!: triple_ret triple_bind [OF live_quiet_law [OF emits_try [OF copy_properties_quiet]]] I')
  have delete: "triple I (\<lambda>h. ?live h = name ` K) (Agent_DeleteNode w un (name i) True)
      (\<lambda>_ h. ?live h = name ` (K - {i}))" for un
    unfolding less [symmetric] by (rule agent.delete_law [where drain = True]) (rule I')
  have create: "triple I (\<lambda>h. ?live h = name ` (K - {i})) (Agent_CreateNode w pool un i) (\<lambda>_ h. ?live h = name ` K)" for un
    unfolding more [symmetric] by (rule agent.create_law) (auto simp: more intro!: I)
  have validate: "triple I (\<lambda>h. ?live h = name ` K) (Agent_Validate w un (name i)) (\<lambda>_ h. ?live h = name ` K)" for un
    by (rule agent.validate_law) (rule I')
  let ?Q = "\<lambda>s h. pr_upgradedCount s = pr_upgradedCount pr + 1 \<and>
       indexes s = (if pr_upgradedCount pr = todo - 1 then K - {i} else K) \<and> ?live h = name ` indexes s"
  let ?replace = "\<lambda>pr'. if pr_upgradedCount pr' = todo - 1
     then retIO (pr'\<lparr>pr_agentVMs := AList.delete i (pr_agentVMs pr')\<rparr>)
     else bindIO (Agent_CreateNode w pool (pr_node pr') i) (\<lambda>un. bindIO (Agent_Validate w un (name i)) (\<lambda>_.
       retIO (pr'\<lparr>pr_node := un, pr_newCreatedVMs := pr_newCreatedVMs pr' @ [name i],
         pr_agentVMs := AList.update i (vi\<lparr>vi_status := vmStatusUpgraded\<rparr>) (pr_agentVMs pr')\<rparr>)))"
  have replace: "triple I (\<lambda>h. ?live h = name ` (K - {i})) (bindIO (?replace pr')
      (\<lambda>pr. retIO (pr\<lparr>pr_upgradedCount := pr_upgradedCount pr + 1\<rparr>))) ?Q"
    if same: "indexes pr' = K" "pr_upgradedCount pr' = pr_upgradedCount pr" for pr'
  proof (rule triple_bind)
    show "triple I (\<lambda>h. ?live h = name ` (K - {i})) (?replace pr') (\<lambda>s h. pr_upgradedCount s = pr_upgradedCount pr \<and>
        indexes s = (if pr_upgradedCount pr = todo - 1 then K - {i} else K) \<and> ?live h = name ` indexes s)"
    proof (cases "pr_upgradedCount pr' = todo - 1")
      case True
      then show ?thesis
        unfolding if_P [OF True] using same by (intro triple_ret) (simp_all add: indexes_def delete_dom)
    next
      case False
      then show ?thesis
        unfolding if_not_P [OF False] using same e(3)
        by (intro triple_bind [OF create] triple_bind [OF validate] triple_ret)
          (auto simp: indexes_def dom_update)
    qed
  qed (intro triple_ret, simp add: indexes_def)
  have rest: "triple I (?same pr') (bindIO (Agent_DeleteNode w (pr_node pr') (name i) True)
      (\<lambda>_. bindIO (?replace pr') (\<lambda>pr. retIO (pr\<lparr>pr_upgradedCount := pr_upgradedCount pr + 1\<rparr>)))) ?Q" for pr'
    by (rule triple_pure) (rule triple_bind [OF delete replace], simp_all)
  show ?thesis
    unfolding upgrade_agent_def Let_def prod.case e(1) e(2) vm bindIO_lift
    by (simp only: not_False_eq_True simp_thms if_False) (rule triple_bind [OF copy [unfolded e(2)] rest])
qed


lemma upgrade_agent_other: "vi_status vi \<noteq> vmStatusNotUpgraded \<Longrightarrow> upgrade_agent w ku a pool todo pr (i, vi) = retIO pr"
  by (simp add: upgrade_agent_def)

text \<open>After the last old VM is gone, all indexes but its own have a VM.\<close>

definition remaining_indexes :: "agent_map \<Rightarrow> agent_map \<Rightarrow> int set \<Rightarrow> bool" where
  "remaining_indexes m todo K \<longleftrightarrow>
     (if with_status vmStatusNotUpgraded todo = []
      then \<exists>i \<in> fst ` set (with_status vmStatusNotUpgraded m). K = fst ` set m - {i}
      else K = fst ` set m)"

lemma with_status_Cons [simp]:
  "with_status s (e # m) = (if vi_status (snd e) = s then e # with_status s m else with_status s m)"
  by (simp add: with_status_def)

lemma with_status_append [simp]: "with_status s (m @ n) = with_status s m @ with_status s n"
  by (simp add: with_status_def)

lemma with_status_member: "e \<in> set (with_status s m) \<longleftrightarrow> e \<in> set m \<and> vi_status (snd e) = s"
  by (auto simp: with_status_def)

lemma upgrade_agents_law:
  assumes names: "names_vms ku a name" and m: "pool_map name m" "mset order = mset m"
    and todo: "todo = int (length (with_status vmStatusNotUpgraded m))" "with_status vmStatusNotUpgraded m \<noteq> []"
    and pr: "pr_upgradedCount pr = 0" "indexes pr = fst ` set m"
    and I: "\<And>h i. i \<in> fst ` set (with_status vmStatusNotUpgraded m) \<Longrightarrow>
        name ` (fst ` set m - {i}) \<subseteq> live (agent_vms pool name) S h \<Longrightarrow>
        live (agent_vms pool name) S h \<subseteq> name ` fst ` set m \<Longrightarrow> I h"
  shows "triple I (\<lambda>h. live (agent_vms pool name) S h = name ` fst ` set m)
    (foldIO (upgrade_agent w ku a pool todo) pr order)
    (\<lambda>s h. \<exists>i \<in> fst ` set (with_status vmStatusNotUpgraded m).
       live (agent_vms pool name) S h = name ` (fst ` set m - {i}))"
proof -
  let ?live = "\<lambda>h. live (agent_vms pool name) S h" and ?old = "with_status vmStatusNotUpgraded"
  let ?R = "\<lambda>s ys h. pr_upgradedCount s = todo - int (length (?old ys)) \<and>
     remaining_indexes m ys (indexes s) \<and> ?live h = name ` indexes s"
  have set: "set order = set m" using m(2) by (metis set_mset_mset)
  have old: "mset (?old order) = mset (?old m)" using m(2) by (simp add: with_status_def)
  then have "length (?old order) = length (?old m)" "?old order \<noteq> []"
    using todo(2) by (metis size_mset, metis mset_zero_iff)
  then have start: "?R pr order h" if "?live h = name ` fst ` set m" for h
    using that todo pr by (simp add: remaining_indexes_def)
  have "triple I (?R pr order) (foldIO (upgrade_agent w ku a pool todo) pr order) (\<lambda>s. ?R s [])"
  proof (rule triple_fold)
    fix xs s e ys
    assume order: "order = xs @ e # ys"
    obtain i vi where e: "e = (i, vi)" by fastforce
    have "e \<in> set m" using set order by auto
    then have mem: "i \<in> fst ` set m" "vi_name vi = name i" using m(1) by (force simp: e pool_map_def)+
    show "triple I (?R s (e # ys)) (upgrade_agent w ku a pool todo s e) (\<lambda>s. ?R s ys)"
    proof (cases "vi_status vi = vmStatusNotUpgraded")
      case False
      then show ?thesis
        by (auto simp: e upgrade_agent_other remaining_indexes_def intro!: triple_ret)
    next
      case True
      then have i: "i \<in> fst ` set (?old m)" using \<open>e \<in> set m\<close> by (force simp: e with_status_member)
      show ?thesis
      proof (rule triple_pre [where \<phi> = "pr_upgradedCount s = todo - int (length (?old ys)) - 1 \<and> indexes s = fst ` set m"])
        assume s: "pr_upgradedCount s = todo - int (length (?old ys)) - 1 \<and> indexes s = fst ` set m"
        have "triple I (\<lambda>h. ?live h = name ` fst ` set m) (upgrade_agent w ku a pool todo s (i, vi))
          (\<lambda>s' h. pr_upgradedCount s' = pr_upgradedCount s + 1 \<and>
             indexes s' = (if pr_upgradedCount s = todo - 1 then fst ` set m - {i} else fst ` set m) \<and>
             ?live h = name ` indexes s')"
          using s True mem i pool_map_indexes [OF m(1)]
          by (intro upgrade_agent_law [OF names] I [OF i]) auto
        then show ?thesis
          unfolding e
          by (rule triple_weaken) (use s True i in \<open>auto simp: remaining_indexes_def split: if_splits\<close>)
      qed (use True in \<open>auto simp: e remaining_indexes_def\<close>)
    qed
  qed
  then show ?thesis
    by (rule triple_weaken) (erule start, simp add: remaining_indexes_def with_status_def [of _ "[]"], metis)
qed


subsection \<open>A whole pool\<close>

text \<open>The VMs that can serve: those that exist, without the ones the upgrade ignores.\<close>

definition ignored_vms :: "vm list \<Rightarrow> string set" where
  "ignored_vms us = vm_Name ` {v \<in> set us. \<not> healthy v \<and> kept v}"

definition start_map :: "vm list \<Rightarrow> vm list \<Rightarrow> agent_map" where
  "start_map us as = map upgraded_entry (filter kept us) @ map old_entry as"

lemma pool_map_names: "pool_map name m \<Longrightarrow> distinct (map fst (with_status s m))"
  by (simp add: pool_map_def with_status_def distinct_map_filter)

lemma pool_map_unique: "pool_map name m \<Longrightarrow> (i, v) \<in> set m \<Longrightarrow> (i, v') \<in> set m \<Longrightarrow> v = v'"
  by (metis pool_map_def map_of_eq_Some_iff option.inject)

lemma serving_card:
  assumes m: "pool_map name m" and inj: "inj_on name {0..}"
  defines "ign \<equiv> name ` fst ` set (with_status vmStatusIgnored m)"
  shows "card (name ` fst ` set m - ign) = length m - length (with_status vmStatusIgnored m)"
    and "i \<in> fst ` set (with_status vmStatusNotUpgraded m) \<Longrightarrow>
      card (name ` (fst ` set m - {i}) - ign) = length m - length (with_status vmStatusIgnored m) - 1"
proof -
  let ?K = "fst ` set m" and ?G = "fst ` set (with_status vmStatusIgnored m)"
  have sub: "?G \<subseteq> ?K" by (auto simp: with_status_member)
  have inj_K: "inj_on name ?K" using inj_on_subset [OF inj pool_map_indexes [OF m]] .
  have cards: "card ?K = length m" "card ?G = length (with_status vmStatusIgnored m)"
    using m pool_map_names [OF m, of vmStatusIgnored] distinct_card [of "map fst m"]
      distinct_card [of "map fst (with_status vmStatusIgnored m)"] by (simp_all add: pool_map_def)
  have diff: "name ` A - ign = name ` (A - ?G)" if "A \<subseteq> ?K" for A
    unfolding ign_def using inj_on_image_set_diff [OF inj_K, of A ?G] that sub by (auto simp: Diff_Int_distrib)
  have card_name: "card (name ` A) = card A" if "A \<subseteq> ?K" for A
    using inj_on_subset [OF inj_K that] by (rule card_image)
  have card_rest: "card (?K - ?G) = length m - length (with_status vmStatusIgnored m)"
    using card_Diff_subset [OF finite_imageI [OF finite_set] sub] cards by simp
  then show "card (name ` ?K - ign) = length m - length (with_status vmStatusIgnored m)"
    using diff [of ?K] card_name [of "?K - ?G"] by simp
  assume i: "i \<in> fst ` set (with_status vmStatusNotUpgraded m)"
  then obtain v where v: "(i, v) \<in> set m" "vi_status v = vmStatusNotUpgraded"
    by (auto simp: with_status_member)
  then have "v' = v" if "(i, v') \<in> set m" for v' using pool_map_unique [OF m] that by blast
  then have "i \<notin> ?G" using v(2) by (auto simp: with_status_member)
  then have "i \<in> ?K - ?G" using v(1) by force
  then have "card (?K - ?G - {i}) = length m - length (with_status vmStatusIgnored m) - 1"
    unfolding card_rest [symmetric] by (rule card_Diff_singleton)
  moreover have "?K - {i} - ?G = ?K - ?G - {i}" by blast
  moreover have "name ` (?K - {i}) - ign = name ` (?K - {i} - ?G)" by (rule diff) blast
  moreover have "card (name ` (?K - {i} - ?G)) = card (?K - {i} - ?G)" by (rule card_name) blast
  ultimately show "card (name ` (?K - {i}) - ign) = length m - length (with_status vmStatusIgnored m) - 1"
    by simp
qed

lemma start_map_facts:
  assumes "well_named name (us @ as)"
  shows "pool_map name (start_map us as)"
    and "vm_Name ` set (filter kept us @ as) = name ` fst ` set (start_map us as)"
    and "ignored_vms us = name ` fst ` set (with_status vmStatusIgnored (start_map us as))"
    and "with_status vmStatusNotUpgraded (start_map us as) = map old_entry as"
    and "length (start_map us as) - length (with_status vmStatusIgnored (start_map us as)) =
      length (filter healthy us) + length as"
proof -
  have entries: "vi_name (snd (upgraded_entry v)) = vm_Name v" "fst (upgraded_entry v) = vm_number v"
      "vi_name (snd (old_entry v)) = vm_Name v" "fst (old_entry v) = vm_number v"
      "vi_status (snd (old_entry v)) = vmStatusNotUpgraded"
      "vi_status (snd (upgraded_entry v)) = (if healthy v then vmStatusUpgraded else vmStatusIgnored)" for v
    by (simp_all add: upgraded_entry_def old_entry_def)
  have ok: "well_named name (filter kept us @ as)"
    using assms well_named_filter [of name us kept] by auto
  have keys: "map fst (start_map us as) = map vm_number (filter kept us @ as)"
    by (simp add: start_map_def entries)
  then have fst_set: "fst ` set (start_map us as) = vm_number ` set (filter kept us @ as)"
    by (metis list.set_map)
  show "pool_map name (start_map us as)"
    unfolding pool_map_def keys using ok
    by (auto simp: start_map_def entries well_named_def)
  show "vm_Name ` set (filter kept us @ as) = name ` fst ` set (start_map us as)"
    unfolding fst_set by (rule well_named_names [OF ok])
  have ign: "with_status vmStatusIgnored (start_map us as) =
      map upgraded_entry (filter (\<lambda>v. \<not> healthy v \<and> kept v) us)"
    by (simp add: with_status_def start_map_def filter_map comp_def entries cong: conj_cong)
  then have "fst ` set (with_status vmStatusIgnored (start_map us as)) =
      vm_number ` set (filter (\<lambda>v. \<not> healthy v \<and> kept v) us)"
    by (simp add: image_image entries)
  then show "ignored_vms us = name ` fst ` set (with_status vmStatusIgnored (start_map us as))"
    using well_named_names [OF well_named_filter [of name us "\<lambda>v. \<not> healthy v \<and> kept v"]] assms
    by (simp add: ignored_vms_def)
  show "with_status vmStatusNotUpgraded (start_map us as) = map old_entry as"
    by (simp add: with_status_def start_map_def filter_map comp_def entries)
  have "filter healthy (filter kept us) = filter healthy us"
    by (induction us) (auto dest: healthy_kept)
  moreover have "filter (\<lambda>v. \<not> healthy v) (filter kept us) = filter (\<lambda>v. \<not> healthy v \<and> kept v) us"
    by (simp add: conj_commute)
  ultimately show "length (start_map us as) - length (with_status vmStatusIgnored (start_map us as)) =
      length (filter healthy us) + length as"
    unfolding ign using sum_length_filter_compl [of healthy "filter kept us"]
    by (simp add: start_map_def)
qed

definition still_serving :: "upgrader \<Rightarrow> agent_pool_topology \<Rightarrow> agent_pool_profile \<Rightarrow> nat" where
  "still_serving ku pool a = min (nat (ap_Count a))
     (length (filter healthy (apt_UpgradedAgentVMs pool)) + length (apt_AgentVMs pool))"

definition serving_after :: "agent_pool_topology \<Rightarrow> agent_pool_profile \<Rightarrow> nat" where
  "serving_after pool a =
     (let n = length (filter healthy (apt_UpgradedAgentVMs pool)) + length (apt_AgentVMs pool)
      in max (nat (ap_Count a)) (if apt_AgentVMs pool = [] then n else n - 1))"

lemma serving_after_last:
  assumes "n = nat (max (int h + int a) (c + 1))" and "0 < c" and "0 < a"
  shows "n - 1 = max (nat c) (h + a - 1)"
proof (cases "int h + int a \<le> c + 1")
  case True
  then show ?thesis using assms by auto
next
  case False
  then have "n = h + a" using assms by auto
  then show ?thesis using False assms by auto
qed

lemma upgrade_pool_law:
  fixes pool :: agent_pool_topology and name :: "int \<Rightarrow> string" and S :: "string set"
  assumes a: "find_pool (ku_Properties ku) (apt_Name pool) = Some a" "0 < ap_Count a"
    and names: "names_vms ku a name"
    and ok: "well_named name (apt_UpgradedAgentVMs pool @ apt_AgentVMs pool)"
    and range: "\<And>m. mset (ku_range ku m) = mset m"
  defines "lv \<equiv> live (agent_vms (apt_Name pool) name) S"
    and "all \<equiv> vm_Name ` set (apt_UpgradedAgentVMs pool @ apt_AgentVMs pool)"
    and "ign \<equiv> ignored_vms (apt_UpgradedAgentVMs pool)"
  shows "triple (\<lambda>h. finite (lv h) \<and> still_serving ku pool a \<le> card (lv h - ign)) (\<lambda>h. lv h = all)
    (upgrade_pool w ku pool) (\<lambda>go h. go \<and> card (lv h - ign) = serving_after pool a)"
proof -
  let ?us = "apt_UpgradedAgentVMs pool" and ?as = "apt_AgentVMs pool"
  let ?I = "\<lambda>h. finite (lv h) \<and> still_serving ku pool a \<le> card (lv h - ign)"
  let ?H = "length (filter healthy ?us)"
  let ?m = "start_map ?us ?as"
  let ?c = "if 0 < int (length ?as) then ap_Count a + 1 else ap_Count a"
  have inj: "inj_on name {0..}" using names by (simp add: names_vms_def)
  note m = start_map_facts [OF ok]
  have ign: "ign = name ` fst ` set (with_status vmStatusIgnored ?m)"
    by (simp add: ign_def m(3))
  have I: "?I h" if "X \<subseteq> lv h" "finite (lv h)" "still_serving ku pool a \<le> card (X - ign)" for X h
  proof -
    have "card (X - ign) \<le> card (lv h - ign)" using that(1,2) by (intro card_mono) auto
    then show ?thesis using that by simp
  qed
  have base: "still_serving ku pool a \<le> card (name ` fst ` set ?m - ign)"
    unfolding ign serving_card(1) [OF m(1) inj] m(5) still_serving_def by simp
  have all_fin: "finite all" by (simp add: all_def)
  have "name ` fst ` set ?m \<subseteq> all" unfolding m(2) [symmetric] all_def by auto
  then have all_I: "?I h" if "lv h = all" for h
    by (intro I [of "name ` fst ` set ?m"]) (use that all_fin base in simp_all)
  have m_I: "?I h" if "name ` fst ` set ?m \<subseteq> lv h" "finite (lv h)" for h
    using that base by (rule I)
  have check: "triple ?I (\<lambda>h. lv h = all) (foldIO (check_upgraded w) pr ?us)
      (\<lambda>s h. lv h = name ` fst ` set ?m \<and> pr_agentVMs s = map upgraded_entry (filter kept ?us) \<and>
         pr_newCreatedVMs s = [] \<and> pr_upgradedCount s = int ?H)"
    if "pr_agentVMs pr = []" "pr_newCreatedVMs pr = []" "pr_upgradedCount pr = 0" for pr
    unfolding m(2) [symmetric] lv_def all_def
    by (rule check_upgraded_all [OF inj ok _ that])
      (use m_I all_fin in \<open>simp_all add: lv_def all_def m(2) finite_subset del: set_append\<close>)
  have missing: "triple ?I (\<lambda>h. lv h = name ` fst ` set ?m)
      (create_missing w ku a (apt_Name pool) ?c (int (length ?as)) (int ?H) s)
      (\<lambda>s h. lv h = name ` fst ` set (pr_agentVMs s) \<and> pool_map name (pr_agentVMs s) \<and>
       with_status vmStatusNotUpgraded (pr_agentVMs s) = map old_entry ?as \<and>
       with_status vmStatusIgnored (pr_agentVMs s) = with_status vmStatusIgnored ?m \<and>
       int (length (pr_agentVMs s)) = int (length ?m) + max 0 (?c - (int ?H + int (length ?as))))"
    if "pr_agentVMs s = ?m" for s
    using create_missing_law [OF names, of s "apt_Name pool" S ?I w ?c "int (length ?as)" "int ?H"]
      m(1,4) m_I by (simp add: that lv_def)
  have size: "length (pr_agentVMs s) - length (with_status vmStatusIgnored (pr_agentVMs s)) =
      nat (max (int ?H + int (length ?as)) ?c)"
    if "int (length (pr_agentVMs s)) = int (length ?m) + max 0 (?c - (int ?H + int (length ?as)))"
      "with_status vmStatusIgnored (pr_agentVMs s) = with_status vmStatusIgnored ?m" for s
  proof -
    have "length (with_status vmStatusIgnored ?m) \<le> length ?m" by (simp add: with_status_def)
    then show ?thesis using that m(5) by (auto simp: max_def)
  qed
  have loop: "triple ?I (\<lambda>h. lv h = name ` fst ` set (pr_agentVMs s))
      (foldIO (upgrade_agent w ku a (apt_Name pool) (int (length ?as))) (s\<lparr>pr_upgradedCount := 0\<rparr>)
         (ku_range ku (pr_agentVMs s)))
      (\<lambda>_ h. card (lv h - ign) = serving_after pool a)"
    if s: "pool_map name (pr_agentVMs s)" "with_status vmStatusNotUpgraded (pr_agentVMs s) = map old_entry ?as"
        "with_status vmStatusIgnored (pr_agentVMs s) = with_status vmStatusIgnored ?m"
        "int (length (pr_agentVMs s)) = int (length ?m) + max 0 (?c - (int ?H + int (length ?as)))"
      and old: "?as \<noteq> []" for s
  proof -
    let ?M = "pr_agentVMs s"
    have after: "card (name ` (fst ` set ?M - {i}) - ign) = serving_after pool a"
      if "i \<in> fst ` set (with_status vmStatusNotUpgraded ?M)" for i
    proof -
      have "int (length ?as) > 0" using old by simp
      then have n: "length ?M - length (with_status vmStatusIgnored ?M) =
          nat (max (int ?H + int (length ?as)) (ap_Count a + 1))"
        using size [OF s(4,3)] by simp
      have "card (name ` (fst ` set ?M - {i}) - ign) = length ?M - length (with_status vmStatusIgnored ?M) - 1"
        using serving_card(2) [OF s(1) inj that] by (simp only: ign s(3))
      then show ?thesis
        using serving_after_last [OF n a(2)] old by (simp add: serving_after_def Let_def)
    qed
    have "still_serving ku pool a \<le> serving_after pool a"
      using a(2) by (auto simp: still_serving_def serving_after_def Let_def)
    then have "?I h" if "i \<in> fst ` set (with_status vmStatusNotUpgraded ?M)"
        "name ` (fst ` set ?M - {i}) \<subseteq> lv h" "lv h \<subseteq> name ` fst ` set ?M" for h i
      using that after [OF that(1)] by (intro I [OF that(2)]) (auto intro: finite_subset)
    then show ?thesis
      unfolding lv_def
      by (intro triple_weaken [OF upgrade_agents_law [OF names s(1) range, of "int (length ?as)"]])
        (use old after in \<open>auto simp: lv_def s(2) indexes_def\<close>)
  qed
  have last: "triple ?I (\<lambda>h. lv h = name ` fst ` set (pr_agentVMs s) \<and> pool_map name (pr_agentVMs s) \<and>
       with_status vmStatusNotUpgraded (pr_agentVMs s) = map old_entry ?as \<and>
       with_status vmStatusIgnored (pr_agentVMs s) = with_status vmStatusIgnored ?m \<and>
       int (length (pr_agentVMs s)) = int (length ?m) + max 0 (?c - (int ?H + int (length ?as))))
     (if int (length ?as) = 0 then retIO True
      else bindIO (foldIO (upgrade_agent w ku a (apt_Name pool) (int (length ?as))) (s\<lparr>pr_upgradedCount := 0\<rparr>)
         (ku_range ku (pr_agentVMs s))) (\<lambda>_. retIO True))
     (\<lambda>go h. go \<and> card (lv h - ign) = serving_after pool a)" for s
  proof (rule triple_pure)
    assume s: "pool_map name (pr_agentVMs s) \<and>
       with_status vmStatusNotUpgraded (pr_agentVMs s) = map old_entry ?as \<and>
       with_status vmStatusIgnored (pr_agentVMs s) = with_status vmStatusIgnored ?m \<and>
       int (length (pr_agentVMs s)) = int (length ?m) + max 0 (?c - (int ?H + int (length ?as)))"
    show "triple ?I (\<lambda>h. lv h = name ` fst ` set (pr_agentVMs s))
     (if int (length ?as) = 0 then retIO True
      else bindIO (foldIO (upgrade_agent w ku a (apt_Name pool) (int (length ?as))) (s\<lparr>pr_upgradedCount := 0\<rparr>)
         (ku_range ku (pr_agentVMs s))) (\<lambda>_. retIO True))
     (\<lambda>go h. go \<and> card (lv h - ign) = serving_after pool a)"
    proof (rule triple_case_bool)
      assume none: "int (length ?as) = 0"
      have "card (name ` fst ` set (pr_agentVMs s) - ign) = serving_after pool a"
        using serving_card(1) [of name "pr_agentVMs s"] s inj size [of s] none
        by (auto simp: ign serving_after_def Let_def max_def)
      then show "triple ?I (\<lambda>h. lv h = name ` fst ` set (pr_agentVMs s)) (retIO True)
         (\<lambda>go h. go \<and> card (lv h - ign) = serving_after pool a)"
        by (intro triple_ret) simp
    qed (use s in \<open>intro triple_bind [OF loop] triple_ret; auto\<close>)
  qed
  have quiet: "triple ?I (\<lambda>h. lv h = L) (call (c_ok w) GetKubernetesClient) (\<lambda>_ h. lv h = L)"
    if "\<And>h. lv h = L \<Longrightarrow> ?I h" for L
    unfolding lv_def by (rule live_quiet_law) (use that in \<open>auto simp: lv_def quiet_def intro!: emits_call\<close>)
  have old_entries: "foldR add_not_upgraded (map upgraded_entry (filter kept ?us)) ?as = Inr ?m"
    unfolding start_map_def
    by (rule add_old_entries) (use ok in \<open>auto simp: upgraded_entry_def\<close>)
  have second: "triple ?I (\<lambda>h. lv h = name ` fst ` set ?m \<and> pr_agentVMs s = map upgraded_entry (filter kept ?us) \<and>
        pr_newCreatedVMs s = [] \<and> pr_upgradedCount s = int ?H)
      (bindIO (liftIO (foldR add_not_upgraded (pr_agentVMs s) ?as)) (\<lambda>vms.
       bindIO (liftIO (deref (p_MasterProfile (ku_Properties ku)))) (\<lambda>_.
       bindIO (call (c_ok w) GetKubernetesClient) (\<lambda>_.
       bindIO (create_missing w ku a (apt_Name pool) ?c (int (length ?as)) (pr_upgradedCount s)
           (s\<lparr>pr_agentVMs := vms\<rparr>)) (\<lambda>s.
       if int (length ?as) = 0 then retIO True
       else bindIO (foldIO (upgrade_agent w ku a (apt_Name pool) (int (length ?as))) (s\<lparr>pr_upgradedCount := 0\<rparr>)
         (ku_range ku (pr_agentVMs s))) (\<lambda>_. retIO True))))))
      (\<lambda>go h. go \<and> card (lv h - ign) = serving_after pool a)" for s
  proof (rule triple_pure)
    assume s: "pr_agentVMs s = map upgraded_entry (filter kept ?us) \<and> pr_newCreatedVMs s = [] \<and>
        pr_upgradedCount s = int ?H"
    have master: "triple ?I (\<lambda>h. lv h = name ` fst ` set ?m) (liftIO r) (\<lambda>_ h. lv h = name ` fst ` set ?m)"
      for r :: "master_profile result" by (rule triple_lift)
    have fin: "?I h" if "lv h = name ` fst ` set ?m" for h by (rule m_I) (simp_all add: that)
    show "triple ?I (\<lambda>h. lv h = name ` fst ` set ?m)
      (bindIO (liftIO (foldR add_not_upgraded (pr_agentVMs s) ?as)) (\<lambda>vms.
       bindIO (liftIO (deref (p_MasterProfile (ku_Properties ku)))) (\<lambda>_.
       bindIO (call (c_ok w) GetKubernetesClient) (\<lambda>_.
       bindIO (create_missing w ku a (apt_Name pool) ?c (int (length ?as)) (pr_upgradedCount s)
           (s\<lparr>pr_agentVMs := vms\<rparr>)) (\<lambda>s.
       if int (length ?as) = 0 then retIO True
       else bindIO (foldIO (upgrade_agent w ku a (apt_Name pool) (int (length ?as))) (s\<lparr>pr_upgradedCount := 0\<rparr>)
         (ku_range ku (pr_agentVMs s))) (\<lambda>_. retIO True))))))
      (\<lambda>go h. go \<and> card (lv h - ign) = serving_after pool a)"
      unfolding s [THEN conjunct1] s [THEN conjunct2, THEN conjunct2] old_entries bindIO_lift
      by (intro triple_bind [OF master] triple_bind [OF quiet [OF fin]] triple_bind [OF missing last]) simp_all
  qed
  have start: "triple ?I (\<lambda>h. lv h = all) (liftIO r) (\<lambda>_ h. lv h = all)"
      "triple ?I (\<lambda>h. lv h = all) (answer f) (\<lambda>_ h. lv h = all)" for r :: "'x result" and f :: "history \<Rightarrow> 'y"
    by (auto intro: io_rules)
  have count: "ap_Count a \<noteq> 0" using a(2) by simp
  show ?thesis
    unfolding upgrade_pool_def Let_def case_prod_beta a(1) option.case if_not_P [OF count]
    by (intro triple_bind [OF start(2)] triple_bind [OF start(1)] triple_bind [OF check second]) simp_all
qed

subsection \<open>Names\<close>

lemma itoa_inj: "inj_on itoa {0..}"
  by (auto simp: inj_on_def itoa_def utoa_inj)

text \<open>The name of a VM is a prefix that the pool decides, followed by the index.\<close>

lemma pool_prefix_names:
  assumes "GetAgentVMPrefix (ku_rand ku) (ku_Properties ku) a
      (GetAgentPoolIndexByName (ku_Properties ku) (ap_Name a)) = Inr prefix" and "prefix \<noteq> ''''"
  shows "names_vms ku a (\<lambda>i. prefix @ itoa i)"
  using assms itoa_inj by (auto simp: names_vms_def GetK8sVMName_def inj_on_def)

subsection \<open>Completeness\<close>

definition some_calls :: "'a io \<Rightarrow> bool" where
  "some_calls m \<longleftrightarrow> emits (\<lambda>_. True) m"

lemma some_calls_rules [io_rules]:
  "some_calls (retIO x)" "some_calls (failIO e)" "some_calls (liftIO r)" "some_calls (answer g)"
  "some_calls (call ok ev)"
  "some_calls m \<Longrightarrow> (\<And>y. some_calls (f y)) \<Longrightarrow> some_calls (bindIO m f)"
  "some_calls m \<Longrightarrow> some_calls (tryIO m)"
  by (auto simp: some_calls_def intro: io_rules)

lemma emits_some_calls: "emits A m \<Longrightarrow> some_calls m"
  unfolding some_calls_def by (erule emits_weaken) simp

lemma performs_after: "some_calls m \<Longrightarrow> (\<And>x. performs e (f x)) \<Longrightarrow> performs e (bindIO m f)"
  unfolding some_calls_def by (rule performs_then)

lemma performs_before: "performs e m \<Longrightarrow> (\<And>x. some_calls (f x)) \<Longrightarrow> performs e (bindIO m f)"
  unfolding some_calls_def by (rule performs_first)

lemma some_calls_fold [io_rules]: "(\<And>s x. some_calls (f s x)) \<Longrightarrow> some_calls (foldIO f s xs)"
  unfolding some_calls_def by (rule emits_fold)

lemma performs_fold:
  assumes "x \<in> set xs" and "\<And>s. performs e (f s x)" and "\<And>s y. some_calls (f s y)"
  shows "performs e (foldIO f s xs)"
  using assms(1)
proof (induction xs arbitrary: s)
  case (Cons y ys)
  show ?case
  proof (cases "x = y")
    case True
    then show ?thesis
      using assms(2) by (auto intro!: performs_before some_calls_fold assms(3))
  next
    case False
    then show ?thesis using Cons by (auto intro!: performs_after assms(3))
  qed
qed simp

lemma foldIO_keeps:
  assumes "\<And>s x h s' h'. x \<in> set xs \<Longrightarrow> P s \<Longrightarrow> f s x h = (Inr s', h') \<Longrightarrow> P s'"
    and "foldIO f s xs h = (Inr s', h')" and "P s"
  shows "P s'"
  using assms
proof (induction xs arbitrary: s h)
  case (Cons x xs)
  then obtain s1 h1 where "f s x h = (Inr s1, h1)" "foldIO f s1 xs h1 = (Inr s', h')"
    by (auto simp: bindIO_Inr)
  then show ?case
    using Cons.IH [of s1 h1] Cons.prems by (meson list.set_intros)
qed (simp add: retIO_def)

lemma agent_some_calls [io_rules]:
  "some_calls (Agent_DeleteNode w un v drain)" "some_calls (Agent_CreateNode w pool un i)"
  "some_calls (Agent_Validate w un v)" "some_calls (copyCustomPropertiesToNewNode w old new)"
  by (rule emits_some_calls [OF Agent_DeleteNode_emits], simp add: Agent_CreateNode_def io_rules,
      rule emits_some_calls [OF Agent_Validate_emits], rule emits_some_calls [OF copy_properties_quiet])

lemma upgrade_agent_some_calls [io_rules]: "some_calls (upgrade_agent w ku a pool todo s e)"
  unfolding upgrade_agent_def Let_def
  by (cases e) (auto intro!: io_rules split: list.splits)

lemma create_agent_some_calls [io_rules]: "some_calls (create_agent w ku a pool s)"
  unfolding create_agent_def Let_def by (intro io_rules)

lemma upgrade_agent_performs:
  "performs (DeleteVirtualMachine (vm_Name v)) (upgrade_agent w ku a pool todo s (old_entry v))"
  unfolding upgrade_agent_def Let_def old_entry_def prod.case vm_info.select_convs not_not
    not_False_eq_True simp_thms if_False
  by (rule performs_after, auto intro!: io_rules split: list.splits)
    (auto intro!: performs_before [OF Agent_DeleteNode_performs] io_rules)

lemma create_missing_old:
  "create_missing w ku a pool c todo up s h = (Inr s', h') \<Longrightarrow>
     with_status vmStatusNotUpgraded (pr_agentVMs s') = with_status vmStatusNotUpgraded (pr_agentVMs s)"
proof (induction w ku a pool c todo up s arbitrary: h rule: create_missing.induct)
  case (1 w ku a pool c todo up s)
  show ?case
  proof (cases "up + todo < c")
    case True
    then obtain s1 h1 where step: "create_agent w ku a pool s h = (Inr s1, h1)"
        "create_missing w ku a pool c todo (up + 1) s1 h1 = (Inr s', h')"
      using "1.prems" by (subst (asm) create_missing.simps) (auto simp: bindIO_Inr)
    have "with_status vmStatusNotUpgraded (pr_agentVMs s1) = with_status vmStatusNotUpgraded (pr_agentVMs s)"
      using step(1) getAvailableIndex_free [of "pr_agentVMs s"]
      by (auto simp: create_agent_def Let_def bindIO_Inr retIO_def liftIO_def update_fresh with_status_def)
    then show ?thesis using "1.IH" [OF True step(2)] by simp
  next
    case False
    then show ?thesis using "1.prems" by (subst (asm) create_missing.simps) (simp add: retIO_def)
  qed
qed

lemma update_index: "(i, e) \<in> set (AList.update k v al) \<Longrightarrow> i = k \<or> i \<in> fst ` set al"
  using dom_update [of k v al] by (metis Un_iff fst_conv imageI singletonD)

lemma check_upgraded_indexes:
  "check_upgraded w s v h = (Inr s', h') \<Longrightarrow> vm_index v = Inr (vm_number v) \<Longrightarrow>
     fst ` set (pr_agentVMs s') \<subseteq> insert (vm_number v) (fst ` set (pr_agentVMs s))"
  by (auto simp: check_upgraded_def bindIO_Inr retIO_def liftIO_def split: option.splits if_splits
      dest!: update_index)

lemma upgrade_pool_old:
  assumes a: "find_pool (ku_Properties ku) (apt_Name pool) = Some a"
    and ok: "well_named name (apt_UpgradedAgentVMs pool @ apt_AgentVMs pool)"
    and range: "\<And>m. mset (ku_range ku m) = mset m"
    and run: "upgrade_pool w ku pool h = (Inr True, h')" and v: "v \<in> set (apt_AgentVMs pool)"
  shows "(DeleteVirtualMachine (vm_Name v), True) \<in> set h'"
proof -
  let ?us = "apt_UpgradedAgentVMs pool" and ?as = "apt_AgentVMs pool"
  have some: "int (length ?as) > 0" using v by (cases ?as) auto
  obtain pr0 s1 h1 m s2 h2 h3 s4 h4 where steps: "pr_agentVMs pr0 = []"
      "foldIO (check_upgraded w) pr0 ?us h1 = (Inr s1, h2)"
      "foldR add_not_upgraded (pr_agentVMs s1) ?as = Inr m"
      "create_missing w ku a (apt_Name pool) (ap_Count a + 1) (int (length ?as)) (pr_upgradedCount s1)
         (s1\<lparr>pr_agentVMs := m\<rparr>) h3 = (Inr s2, h4)"
      "foldIO (upgrade_agent w ku a (apt_Name pool) (int (length ?as))) (s2\<lparr>pr_upgradedCount := 0\<rparr>)
         (ku_range ku (pr_agentVMs s2)) h4 = (Inr s4, h')"
  proof -
    have "ap_Count a \<noteq> 0"
      using run by (auto simp: upgrade_pool_def Let_def bindIO_Inr liftIO_def retIO_def answer_def a case_prod_beta)
    then have "\<exists>pr0 s1 h1 m s2 h2 h3 s4 h4. pr_agentVMs pr0 = [] \<and>
      foldIO (check_upgraded w) pr0 ?us h1 = (Inr s1, h2) \<and>
      foldR add_not_upgraded (pr_agentVMs s1) ?as = Inr m \<and>
      create_missing w ku a (apt_Name pool) (ap_Count a + 1) (int (length ?as)) (pr_upgradedCount s1)
         (s1\<lparr>pr_agentVMs := m\<rparr>) h3 = (Inr s2, h4) \<and>
      foldIO (upgrade_agent w ku a (apt_Name pool) (int (length ?as))) (s2\<lparr>pr_upgradedCount := 0\<rparr>)
         (ku_range ku (pr_agentVMs s2)) h4 = (Inr s4, h')"
      using run some
      by (simp add: upgrade_pool_def Let_def bindIO_Inr liftIO_def retIO_def answer_def a case_prod_beta)
        (metis pool_run.select_convs(2))
    then show ?thesis using that by blast
  qed
  have "fst ` set (pr_agentVMs s1) \<subseteq> vm_number ` set ?us"
  proof (rule foldIO_keeps [OF _ steps(2)])
    fix s x h s' h'
    assume x: "x \<in> set ?us" and P: "fst ` set (pr_agentVMs s) \<subseteq> vm_number ` set ?us"
      and step: "check_upgraded w s x h = (Inr s', h')"
    have "vm_index x = Inr (vm_number x)" using ok x by (simp add: well_named_def)
    from check_upgraded_indexes [OF step this] show "fst ` set (pr_agentVMs s') \<subseteq> vm_number ` set ?us"
      using P x by blast
  qed (simp add: steps(1))
  then have "m = pr_agentVMs s1 @ map old_entry ?as"
    using add_old_entries [of name ?as "pr_agentVMs s1"] ok steps(3) by auto
  then have "old_entry v \<in> set (with_status vmStatusNotUpgraded m)"
    using v by (simp add: with_status_member old_entry_def)
  moreover have "with_status vmStatusNotUpgraded (pr_agentVMs s2) = with_status vmStatusNotUpgraded m"
    using create_missing_old [OF steps(4)] by simp
  ultimately have "old_entry v \<in> set (pr_agentVMs s2)"
    by (metis with_status_member)
  then have "old_entry v \<in> set (ku_range ku (pr_agentVMs s2))"
    using range by (metis set_mset_mset)
  then have "performs (DeleteVirtualMachine (vm_Name v))
      (foldIO (upgrade_agent w ku a (apt_Name pool) (int (length ?as))) s (ku_range ku (pr_agentVMs s2)))" for s
    by (rule performs_fold) (rule upgrade_agent_performs upgrade_agent_some_calls)+
  then show ?thesis using steps(5) unfolding performs_def by fastforce
qed

subsection \<open>Availability\<close>

text \<open>
  C3: while an agent pool is upgraded, the number of VMs that can serve (those that exist and that the
  upgrade does not ignore) never falls below the pool's count, or the number of healthy VMs at the
  start if that is smaller, at any moment and whatever call fails; and an upgrade that succeeds leaves
  the pool with its count of VMs, or with those it had beyond that without the extra one.\<close>

theorem agent_pool_stays_available:
  assumes "find_pool (ku_Properties ku) (apt_Name pool) = Some a" and "0 < ap_Count a"
    and "GetAgentVMPrefix (ku_rand ku) (ku_Properties ku) a
      (GetAgentPoolIndexByName (ku_Properties ku) (ap_Name a)) = Inr prefix" and "prefix \<noteq> ''''"
    and "well_named (\<lambda>i. prefix @ itoa i) (apt_UpgradedAgentVMs pool @ apt_AgentVMs pool)"
    and "\<And>m. mset (ku_range ku m) = mset m"
  shows "let (result, history) = upgrade_pool w ku pool [];
       serving = (\<lambda>h. card (live (agent_vms (apt_Name pool) (\<lambda>i. prefix @ itoa i))
         (vm_Name ` set (apt_UpgradedAgentVMs pool @ apt_AgentVMs pool)) h -
         ignored_vms (apt_UpgradedAgentVMs pool)))
     in (\<forall>n. still_serving ku pool a \<le> serving (take n history)) \<and>
        (\<forall>go. result = Inr go \<longrightarrow> go \<and> serving history = serving_after pool a)"
proof -
  let ?name = "\<lambda>i. prefix @ itoa i" and ?S = "vm_Name ` set (apt_UpgradedAgentVMs pool @ apt_AgentVMs pool)"
  let ?serving = "\<lambda>h. card (live (agent_vms (apt_Name pool) ?name) ?S h - ignored_vms (apt_UpgradedAgentVMs pool))"
  note law = upgrade_pool_law [OF assms(1,2) pool_prefix_names [OF assms(3,4)] assms(5,6), of ?S w]
  have "finite ?S \<and> still_serving ku pool a \<le> ?serving []"
  proof -
    note m = start_map_facts [OF assms(5)]
    have "inj_on ?name {0..}" using pool_prefix_names [OF assms(3,4)] by (simp add: names_vms_def)
    note base = serving_card(1) [OF m(1) this, folded m(3), unfolded m(5), folded m(2)]
    have "vm_Name ` set (filter kept (apt_UpgradedAgentVMs pool) @ apt_AgentVMs pool) \<subseteq> ?S" by auto
    then have "length (filter healthy (apt_UpgradedAgentVMs pool)) + length (apt_AgentVMs pool) \<le> ?serving []"
      unfolding base [symmetric] live_Nil by (intro card_mono Diff_mono) auto
    then show ?thesis by (simp add: still_serving_def)
  qed
  then show ?thesis
    using triple_run [OF law] by (auto simp: Let_def case_prod_beta simp del: set_append)
qed

subsection \<open>An example\<close>

definition example_pool :: agent_pool_profile where
  "example_pool = zero_agent_pool_profile\<lparr>ap_Name := ''pool1'', ap_Count := 2, ap_OSType := Linux\<rparr>"

definition example_upgrader :: upgrader where
  "example_upgrader = \<lparr>ku_Properties = zero_properties\<lparr>p_ClusterID := ''11290731'',
       p_OrchestratorProfile := Some (zero_orchestrator_profile\<lparr>op_OrchestratorType := Kubernetes,
         op_OrchestratorVersion := ''1.29.10'', op_KubernetesConfig := Some zero_kubernetes_config\<rparr>),
       p_MasterProfile := Some zero_master_profile, p_AgentPoolProfiles := Some [example_pool]\<rparr>,
     ku_Topology = \<lparr>t_NameSuffix = ''11290731'', t_AgentPoolsToUpgrade = [], t_AgentPools = [],
       t_MasterVMs = [], t_UpgradedMasterVMs = []\<rparr>, ku_CurrentVersion = ''1.28.15'',
     ku_ControlPlaneOnly = False, ku_Force = False, ku_rand = (\<lambda>_. 0), ku_range = (\<lambda>m. m)\<rparr>"

definition example_vm :: "int \<Rightarrow> vm" where
  "example_vm i = \<lparr>vm_Name = ''k8s-pool1-11290731-'' @ itoa i, vm_Tags = None, vm_OSType = Linux,
     vm_ProvisioningState = Some ''Succeeded''\<rparr>"

definition upgrade_cloud :: cloud where
  "upgrade_cloud = example_cloud\<lparr>c_Template := (\<lambda>_. Inr
     ([(''resources'', JArr []), (''variables'', JObj [])], [(''pool1Count'', JObj [])]))\<rparr>"

definition example_topology :: agent_pool_topology where
  "example_topology = \<lparr>apt_Identifier = ''pool1'', apt_Name = ''pool1'',
     apt_AgentVMs = [example_vm 0, example_vm 1], apt_UpgradedAgentVMs = []\<rparr>"

lemma example_pool_facts:
  "find_pool (ku_Properties example_upgrader) (apt_Name example_topology) = Some example_pool"
  "GetAgentVMPrefix (ku_rand example_upgrader) (ku_Properties example_upgrader) example_pool
     (GetAgentPoolIndexByName (ku_Properties example_upgrader) (ap_Name example_pool)) = Inr ''k8s-pool1-11290731-''"
  "vm_index (example_vm 0) = Inr 0" "vm_index (example_vm 1) = Inr 1"
  by code_simp+

lemma example_well_named:
  "well_named (\<lambda>i. ''k8s-pool1-11290731-'' @ itoa i)
     (apt_UpgradedAgentVMs example_topology @ apt_AgentVMs example_topology)"
  using example_pool_facts(3,4)
  by (simp add: well_named_def example_topology_def vm_number_def) (simp add: example_vm_def)

theorem agent_pool_stays_available_witness:
  "let (result, history) = upgrade_pool upgrade_cloud example_upgrader example_topology [];
       serving = (\<lambda>h. card (live (agent_vms ''pool1'' (\<lambda>i. ''k8s-pool1-11290731-'' @ itoa i))
         {''k8s-pool1-11290731-0'', ''k8s-pool1-11290731-1''} h))
   in result = Inr True \<and> serving history = 2 \<and> (\<forall>n. 2 \<le> serving (take n history))"
proof -
  let ?run = "upgrade_pool upgrade_cloud example_upgrader example_topology []"
  have run: "fst ?run = Inr True" by code_simp
  have vms: "vm_Name ` set (apt_UpgradedAgentVMs example_topology @ apt_AgentVMs example_topology) =
      {''k8s-pool1-11290731-0'', ''k8s-pool1-11290731-1''}"
    by (simp add: example_topology_def example_vm_def itoa_def utoa_eval)
  have counts: "still_serving example_upgrader example_topology example_pool = 2"
      "serving_after example_topology example_pool = 2" "ignored_vms (apt_UpgradedAgentVMs example_topology) = {}"
    by (simp_all add: still_serving_def serving_after_def example_topology_def example_pool_def ignored_vms_def)
  have "mset (ku_range example_upgrader m) = mset m" for m by (simp add: example_upgrader_def)
  moreover have "0 < ap_Count example_pool" by (simp add: example_pool_def)
  moreover have "apt_Name example_topology = ''pool1''" by (simp add: example_topology_def)
  ultimately show ?thesis
    using agent_pool_stays_available [OF example_pool_facts(1) _ example_pool_facts(2) _ example_well_named, of upgrade_cloud]
      run unfolding vms counts
    by (simp add: Let_def case_prod_beta ex_bool_eq)
qed

text \<open>
  C7: an upgrade of a pool that succeeds has deleted every VM of the pool that did not run the goal
  version, in whatever order the map of VMs is visited.\<close>

theorem every_old_agent_is_deleted:
  assumes "find_pool (ku_Properties ku) (apt_Name pool) = Some a"
    and "well_named name (apt_UpgradedAgentVMs pool @ apt_AgentVMs pool)"
    and "\<And>m. mset (ku_range ku m) = mset m"
    and "upgrade_pool w ku pool h = (Inr True, h')" and "v \<in> set (apt_AgentVMs pool)"
  shows "(DeleteVirtualMachine (vm_Name v), True) \<in> set h'"
  by (rule upgrade_pool_old [OF assms])

theorem every_old_agent_is_deleted_witness:
  "\<exists>h. upgrade_pool upgrade_cloud example_upgrader example_topology [] = (Inr True, h) \<and>
     (DeleteVirtualMachine ''k8s-pool1-11290731-1'', True) \<in> set h"
proof -
  have "fst (upgrade_pool upgrade_cloud example_upgrader example_topology []) = Inr True" by code_simp
  then obtain h where h: "upgrade_pool upgrade_cloud example_upgrader example_topology [] = (Inr True, h)"
    by (metis prod.collapse)
  have "(DeleteVirtualMachine (vm_Name (example_vm 1)), True) \<in> set h"
    by (rule every_old_agent_is_deleted [OF example_pool_facts(1) example_well_named _ h])
      (simp_all add: example_upgrader_def example_topology_def)
  then show ?thesis using h by (simp add: example_vm_def itoa_def utoa_eval)
qed

end
