(* ===== verification/MasterUpgrade.thy ===== *)
theory MasterUpgrade
  imports AgentUpgrade
begin

section \<open>Upgrading the control plane (upgradeMasterNodes of upgrader.go)\<close>

text \<open>
  Masters are replaced one at a time, so that at most one is missing at any moment. Missing masters are
  recreated first, at the least indexes that no old master uses; a master that an earlier run has
  upgraded is not taken into account there.
\<close>

subsection \<open>Free indexes\<close>

lemma next_index_free: "next_index used i \<notin> set used \<and> i \<le> next_index used i \<and>
  (\<forall>j. i \<le> j \<and> j < next_index used i \<longrightarrow> j \<in> set used)"
proof (induction used i rule: next_index.induct)
  case (1 used i)
  show ?case
  proof (cases "i \<in> set used")
    case True
    have "next_index used i = next_index used (i + 1)" using True by (subst next_index.simps) simp
    moreover have "j \<in> set used" if "i \<le> j" "j < next_index used (i + 1)" for j
      using 1 [OF True] True that by (cases "j = i") auto
    ultimately show ?thesis using 1 [OF True] by auto
  next
    case False
    then have "next_index used i = i" by (subst next_index.simps) simp
    then show ?thesis using False by auto
  qed
qed

text \<open>
  The search for the index of a missing master ends with the least index that no master to upgrade
  has.\<close>

theorem missing_master_index:
  "next_index used 0 = (LEAST i. 0 \<le> i \<and> i \<notin> set used)"
proof (rule Least_equality [symmetric])
  show "0 \<le> next_index used 0 \<and> next_index used 0 \<notin> set used"
    using next_index_free [of used 0] by simp
  show "next_index used 0 \<le> j" if "0 \<le> j \<and> j \<notin> set used" for j
    using next_index_free [of used 0] that by (meson linorder_not_le)
qed

subsection \<open>Recreating missing masters\<close>

lemma live_master_law:
  assumes "inj_on name {0..}" and "K \<subseteq> {0..}" and "0 \<le> i"
    and "\<And>h. live (master_vms name) S h \<in> {name ` K, name ` insert i K} \<Longrightarrow> I h"
  shows "triple I (\<lambda>h. live (master_vms name) S h = name ` K)
    (bindIO (Master_CreateNode w un i) (\<lambda>un. bindIO (Master_Validate w un v) (\<lambda>_. retIO (f un))))
    (\<lambda>r h. live (master_vms name) S h = name ` insert i K \<and> (\<exists>un. r = f un))"
proof -
  have create: "triple I (\<lambda>h. live (master_vms name) S h = name ` K) (Master_CreateNode w un i)
      (\<lambda>_ h. live (master_vms name) S h = name ` insert i K)"
    using master.create_law [where L = "name ` K" and I = I] assms(4) by auto
  have validate: "triple I (\<lambda>h. live (master_vms name) S h = name ` insert i K) (Master_Validate w un v)
      (\<lambda>_ h. live (master_vms name) S h = name ` insert i K)" for un
    using live_quiet_law [OF Master_Validate_emits, where L = "name ` insert i K" and I = I] assms(4) by auto
  show ?thesis
    by (intro triple_bind [OF create] triple_bind [OF validate] triple_ret) auto
qed

lemma create_masters_law:
  assumes inj: "inj_on name {0..}" and old: "distinct old" "set old \<subseteq> {0..}" and up: "U \<subseteq> {0..}"
    and I: "\<And>h. name ` (set old \<union> U) \<subseteq> live (master_vms name) S h \<Longrightarrow> finite (live (master_vms name) S h) \<Longrightarrow> I h"
    and fin: "finite U"
  shows "triple I (\<lambda>h. live (master_vms name) S h = name ` (set old \<union> U))
    (foldIO (create_master w) (un, old) ns)
    (\<lambda>st h. live (master_vms name) S h = name ` (set (snd st) \<union> U) \<and> distinct (snd st) \<and>
       set old \<subseteq> set (snd st) \<and> set (snd st) \<subseteq> {0..} \<and> length (snd st) = length old + length ns)"
proof -
  let ?live = "\<lambda>h. live (master_vms name) S h"
  let ?R = "\<lambda>(st :: upgrade_node \<times> int list) (ys :: nat list) h. ?live h = name ` (set (snd st) \<union> U) \<and> distinct (snd st) \<and>
     set old \<subseteq> set (snd st) \<and> set (snd st) \<subseteq> {0..} \<and> length (snd st) + length ys = length old + length ns"
  have "triple I (?R (un, old) ns) (foldIO (create_master w) (un, old) ns) (\<lambda>st. ?R st [])"
  proof (rule triple_fold )
    fix xs ys :: "nat list" and n :: nat and st :: "upgrade_node \<times> int list"
    obtain un and ex :: "int list" where st: "st = (un, ex)" by fastforce
    let ?i = "next_index ex 0"
    show "triple I (?R st (n # ys)) (create_master w st n) (\<lambda>st. ?R st ys)"
    proof (rule triple_pre [where \<phi> = "distinct ex \<and> set old \<subseteq> set ex \<and> set ex \<subseteq> {0..} \<and>
        length ex + length (n # ys) = length old + length ns"])
      assume ex: "distinct ex \<and> set old \<subseteq> set ex \<and> set ex \<subseteq> {0..} \<and>
        length ex + length (n # ys) = length old + length ns"
      have "triple I (\<lambda>h. ?live h = name ` (set ex \<union> U)) (create_master w (un, ex) n)
          (\<lambda>r h. ?live h = name ` insert ?i (set ex \<union> U) \<and> (\<exists>un. r = (un, ?i # ex)))"
        unfolding create_master_def prod.case Let_def
      proof (rule live_master_law [OF inj])
        show "I h" if "?live h \<in> {name ` (set ex \<union> U), name ` insert ?i (set ex \<union> U)}" for h
          using that ex fin by (intro I) auto
      qed (use ex up next_index_free [of ex 0] in auto)
      then show ?thesis
        unfolding st
        by (rule triple_weaken) (use ex next_index_free [of ex 0] in auto)
    qed (use st in auto)
  qed
  then show ?thesis by (rule triple_weaken) (use old in auto)
qed


subsection \<open>Replacing masters\<close>

lemma upgrade_master_law:
  assumes inj: "inj_on name {0..}" and K: "K \<subseteq> {0..}"
    and v: "vm_index v = Inr i" "vm_Name v = name i" "i \<in> K"
    and I: "\<And>h. name ` (K - {i}) \<subseteq> live (master_vms name) S h \<Longrightarrow>
        live (master_vms name) S h \<subseteq> name ` K \<Longrightarrow> I h"
  shows "triple I (\<lambda>h. live (master_vms name) S h = name ` K) (upgrade_master w un v)
    (\<lambda>_ h. live (master_vms name) S h = name ` K)"
proof -
  let ?live = "\<lambda>h. live (master_vms name) S h"
  have i: "0 \<le> i" using K v(3) by auto
  have less: "name ` K - {name i} = name ` (K - {i})" by (rule name_image_diff [OF inj K i])
  have more: "insert i (K - {i}) = K" using v(3) by auto
  have delete: "triple I (\<lambda>h. ?live h = name ` K) (Master_DeleteNode w (name i)) (\<lambda>_ h. ?live h = name ` (K - {i}))"
    unfolding less [symmetric] by (rule master.delete_law) (auto simp: less intro!: I)
  have create: "triple I (\<lambda>h. ?live h = name ` (K - {i}))
      (bindIO (Master_CreateNode w un i) (\<lambda>un. bindIO (Master_Validate w un (name i)) (\<lambda>_. retIO un)))
      (\<lambda>r h. ?live h = name ` insert i (K - {i}) \<and> (\<exists>un. r = un))"
  proof (rule live_master_law [OF inj _ i])
    show "I h" if "?live h \<in> {name ` (K - {i}), name ` insert i (K - {i})}" for h
      using that unfolding more by (intro I) auto
  qed (use K in auto)
  show ?thesis
    unfolding upgrade_master_def v(1,2) bindIO_lift
    by (rule triple_bind [OF delete], rule triple_weaken [OF create]) (simp_all only: more)
qed

lemma upgrade_masters_law:
  assumes inj: "inj_on name {0..}" and K: "K \<subseteq> {0..}" and fin: "finite K"
    and vs: "\<forall>v \<in> set vs. vm_index v = Inr (vm_number v) \<and> vm_Name v = name (vm_number v) \<and> vm_number v \<in> K"
    and I: "\<And>h i. i \<in> K \<Longrightarrow> name ` (K - {i}) \<subseteq> live (master_vms name) S h \<Longrightarrow>
        live (master_vms name) S h \<subseteq> name ` K \<Longrightarrow> I h"
  shows "triple I (\<lambda>h. live (master_vms name) S h = name ` K) (foldIO (upgrade_master w) un vs)
    (\<lambda>_ h. live (master_vms name) S h = name ` K)"
proof (rule triple_fold)
  fix xs un v ys
  assume "vs = xs @ v # ys"
  then have v: "vm_index v = Inr (vm_number v)" "vm_Name v = name (vm_number v)" "vm_number v \<in> K"
    using vs by auto
  show "triple I (\<lambda>h. live (master_vms name) S h = name ` K) (upgrade_master w un v)
      (\<lambda>_ h. live (master_vms name) S h = name ` K)"
    by (rule upgrade_master_law [OF inj K v I [OF v(3)]])
qed

lemma vm_indexes:
  assumes "\<forall>v \<in> set vs. vm_index v = Inr (vm_number v)"
  shows "mapR vm_index vs = Inr (map vm_number vs)"
  using assms by (induction vs) simp_all

subsection \<open>The control plane\<close>

lemma upgradeMasterNodes_law:
  fixes name :: "int \<Rightarrow> string" and S :: "string set"
  assumes m: "p_MasterProfile (ku_Properties ku) = Some m"
    and inj: "inj_on name {0..}"
    and ok: "well_named name (t_MasterVMs (ku_Topology ku) @ t_UpgradedMasterVMs (ku_Topology ku))"
  defines "lv \<equiv> live (master_vms name) S"
    and "old \<equiv> t_MasterVMs (ku_Topology ku)" and "done \<equiv> t_UpgradedMasterVMs (ku_Topology ku)"
  shows "triple (\<lambda>h. finite (lv h) \<and> length old + length done - 1 \<le> card (lv h))
    (\<lambda>h. lv h = vm_Name ` set (old @ done)) (upgradeMasterNodes w ku)
    (\<lambda>_ h. done = [] \<or> int (length old + length done) = mp_Count m \<longrightarrow> int (card (lv h)) = mp_Count m)"
proof -
  let ?I = "\<lambda>h. finite (lv h) \<and> length old + length done - 1 \<le> card (lv h)"
  let ?O = "map vm_number old" and ?U = "vm_number ` set done"
  have ok': "well_named name old" "well_named name done" "set ?O \<inter> ?U = {}"
    using ok by (auto simp: old_def done_def)
  have idx: "\<forall>v \<in> set old. vm_index v = Inr (vm_number v)" "\<forall>v \<in> set done. vm_index v = Inr (vm_number v)"
    and O: "distinct ?O" "set ?O \<subseteq> {0..}" and U: "?U \<subseteq> {0..}" "card ?U = length done"
    using ok' by (auto simp: well_named_def card_image distinct_map distinct_card)
  have start: "vm_Name ` set (old @ done) = name ` (set ?O \<union> ?U)"
    using well_named_names [OF ok'(1)] well_named_names [OF ok'(2)] by (simp add: image_Un)
  have card_name: "card (name ` K) = card K" if "K \<subseteq> {0..}" for K
    using inj_on_subset [OF inj that] by (rule card_image)
  have card_K: "card (set ex \<union> ?U) \<ge> length old + length done"
    if "distinct ex" "set ?O \<subseteq> set ex" for ex
  proof -
    have "card (set ?O \<union> ?U) = length old + length done"
      using O(1) U(2) ok'(3) distinct_card [of ?O] by (subst card_Un_disjoint) auto
    moreover have "card (set ?O \<union> ?U) \<le> card (set ex \<union> ?U)" using that(2) by (intro card_mono) auto
    ultimately show ?thesis by simp
  qed
  have I: "?I h" if "name ` (set ?O \<union> ?U) \<subseteq> lv h" "finite (lv h)" for h
  proof -
    have "card (name ` (set ?O \<union> ?U)) \<le> card (lv h)" using that by (intro card_mono)
    then show ?thesis using card_name [of "set ?O \<union> ?U"] card_K [OF O(1) subset_refl] O(2) U(1) that(2) by simp
  qed
  have quiet: "triple ?I (\<lambda>h. lv h = L) (liftIO r) (\<lambda>_ h. lv h = L)"
      "triple ?I (\<lambda>h. lv h = L) (answer f) (\<lambda>_ h. lv h = L)" for r :: "'x result" and f :: "history \<Rightarrow> 'y" and L
    by (auto intro: io_rules)
  let ?n = "nat (mp_Count m - (int (length old) + int (length done)))"
  have create: "triple ?I (\<lambda>h. lv h = name ` (set ?O \<union> ?U)) (foldIO (create_master w) (un, ?O) [0..<?n])
      (\<lambda>st h. lv h = name ` (set (snd st) \<union> ?U) \<and> distinct (snd st) \<and> set ?O \<subseteq> set (snd st) \<and>
         set (snd st) \<subseteq> {0..} \<and> length (snd st) = length old + ?n)" for un
    using create_masters_law [OF inj O U(1), of S ?I w un "[0..<?n]"] I by (simp add: lv_def)
  have replace: "triple ?I (\<lambda>h. lv h = name ` (set ex \<union> ?U) \<and> distinct ex \<and> set ?O \<subseteq> set ex \<and>
         set ex \<subseteq> {0..} \<and> length ex = length old + ?n)
      (foldIO (upgrade_master w) un old)
      (\<lambda>_ h. done = [] \<or> int (length old + length done) = mp_Count m \<longrightarrow> int (card (lv h)) = mp_Count m)"
    if "\<not> int (length old) + int (length done) > mp_Count m" for un ex
  proof (rule triple_pure)
    assume ex: "distinct ex \<and> set ?O \<subseteq> set ex \<and> set ex \<subseteq> {0..} \<and> length ex = length old + ?n"
    let ?K = "set ex \<union> ?U"
    have K: "?K \<subseteq> {0..}" "finite ?K" "length old + length done \<le> card ?K"
      using ex U(1) card_K by auto
    have lost: "?I h" if "i \<in> ?K" "name ` (?K - {i}) \<subseteq> lv h" "lv h \<subseteq> name ` ?K" for h i
    proof -
      have "finite (lv h)" using that(3) K(2) by (auto intro: finite_subset)
      moreover have "card (?K - {i}) \<le> card (lv h)"
        using card_mono [OF calculation that(2)] card_name [OF order_trans [OF Diff_subset K(1)]] by simp
      ultimately show ?thesis using K(3) card_Diff_singleton [OF that(1)] by simp
    qed
    have size: "int (card (name ` ?K)) = mp_Count m" if few: "done = [] \<or> int (length old + length done) = mp_Count m"
    proof (cases "done = []")
      case True
      then show ?thesis
        using card_name [OF K(1)] ex \<open>\<not> int (length old) + int (length done) > mp_Count m\<close>
        by (simp add: distinct_card)
    next
      case False
      then have "length ex = length old" using few ex by simp
      then have "set ex = set ?O"
        using ex O(1) card_subset_eq [of "set ex" "set ?O"] distinct_card [of ex] distinct_card [of ?O] by simp
      then have "card ?K = length old + length done"
        using O(1) U(2) ok'(3) distinct_card [of ?O] by (simp only:) (subst card_Un_disjoint; auto)
      then show ?thesis using card_name [OF K(1)] False few by simp
    qed
    have "triple ?I (\<lambda>h. lv h = name ` ?K) (foldIO (upgrade_master w) un old) (\<lambda>_ h. lv h = name ` ?K)"
      unfolding lv_def
      by (rule upgrade_masters_law [OF inj K(1,2)])
        (use ok'(1) ex lost in \<open>auto simp: well_named_def lv_def\<close>)
    then show "triple ?I (\<lambda>h. lv h = name ` ?K) (foldIO (upgrade_master w) un old)
      (\<lambda>_ h. done = [] \<or> int (length old + length done) = mp_Count m \<longrightarrow> int (card (lv h)) = mp_Count m)"
      by (rule triple_weaken) (use size in auto)
  qed
  show ?thesis
    unfolding upgradeMasterNodes_def m option.case Let_def case_prod_beta start old_def [symmetric]
      done_def [symmetric] vm_indexes [OF idx(1)] vm_indexes [OF idx(2)] bindIO_lift
    apply (intro triple_bind [OF quiet(2)] triple_bind [OF quiet(1)])
    apply (rule triple_case_bool)
     apply (rule triple_fail)
    apply (rule triple_bind [OF create])
    apply (rule triple_bind [OF replace])
    apply assumption
    apply (rule triple_ret)
    apply assumption
    done
qed




subsection \<open>Examples\<close>

definition example_master_vm :: "int \<Rightarrow> vm" where
  "example_master_vm i = \<lparr>vm_Name = ''k8s-master-11290731-'' @ itoa i, vm_Tags = None, vm_OSType = Linux,
     vm_ProvisioningState = Some ''Succeeded''\<rparr>"

definition masters_upgrader :: "int \<Rightarrow> vm list \<Rightarrow> vm list \<Rightarrow> upgrader" where
  "masters_upgrader n olds upgraded = example_upgrader\<lparr>
     ku_Properties := (ku_Properties example_upgrader)\<lparr>p_MasterProfile := Some (zero_master_profile\<lparr>mp_Count := n\<rparr>)\<rparr>,
     ku_Topology := (ku_Topology example_upgrader)\<lparr>t_MasterVMs := olds, t_UpgradedMasterVMs := upgraded\<rparr>\<rparr>"

lemma example_masters:
  "vm_index (example_master_vm 0) = Inr 0" "vm_index (example_master_vm 1) = Inr 1"
  "vm_index (example_master_vm 2) = Inr 2"
  "GetMasterVMPrefix (ku_rand (masters_upgrader n olds upgraded)) (ku_Properties (masters_upgrader n olds upgraded)) =
     ''k8s-master-11290731-''"
  "fst (upgradeMasterNodes upgrade_cloud (masters_upgrader 3 [example_master_vm 0, example_master_vm 2] []) []) = Inr ()"
  by code_simp+

lemma example_masters_named:
  "well_named (\<lambda>i. ''k8s-master-11290731-'' @ itoa i) [example_master_vm 0, example_master_vm 2]"
  using example_masters(1,3)
  by (simp add: well_named_def vm_number_def) (simp add: example_master_vm_def)



end
