(* ===== verification/DefaultConstants.thy ===== *)
theory DefaultConstants
  imports ClusterModel
begin

section \<open>Constants of the defaults (pkg/api/const.go, pkg/api/common/const.go)\<close>

text \<open>The values that the defaults and the addon tables name.\<close>

definition NetworkPluginKubenet :: string where "NetworkPluginKubenet = ''kubenet''"

definition NetworkPolicyCalico :: string where "NetworkPolicyCalico = ''calico''"

definition DefaultKubernetesMaxPods :: int where "DefaultKubernetesMaxPods = 110"

definition DefaultKubernetesMaxPodsVNETIntegrated :: int where
  "DefaultKubernetesMaxPodsVNETIntegrated = 30"

definition DefaultKubernetesNodeStatusUpdateFrequency :: string where
  "DefaultKubernetesNodeStatusUpdateFrequency = ''10s''"

definition DefaultKubernetesHardEvictionThreshold :: string where
  "DefaultKubernetesHardEvictionThreshold = ''memory.available<750Mi,nodefs.available<10%,nodefs.inodesFree<5%''"

definition DefaultKubernetesCtrlMgrNodeMonitorGracePeriod :: string where
  "DefaultKubernetesCtrlMgrNodeMonitorGracePeriod = ''40s''"

definition DefaultKubernetesCtrlMgrPodEvictionTimeout :: string where
  "DefaultKubernetesCtrlMgrPodEvictionTimeout = ''5m0s''"

definition DefaultKubernetesCtrlMgrRouteReconciliationPeriod :: string where
  "DefaultKubernetesCtrlMgrRouteReconciliationPeriod = ''10s''"

definition DefaultKubernetesCtrlMgrTerminatedPodGcThreshold :: string where
  "DefaultKubernetesCtrlMgrTerminatedPodGcThreshold = ''5000''"

definition DefaultKubernetesCtrlMgrUseSvcAccountCreds :: string where
  "DefaultKubernetesCtrlMgrUseSvcAccountCreds = ''false''"

definition DefaultKubernetesGCHighThreshold :: int where "DefaultKubernetesGCHighThreshold = 85"

definition DefaultKubernetesGCLowThreshold :: int where "DefaultKubernetesGCLowThreshold = 80"

definition DefaultAzureStackKubernetesNodeStatusUpdateFrequency :: string where
  "DefaultAzureStackKubernetesNodeStatusUpdateFrequency = ''1m''"

definition DefaultAzureStackKubernetesCtrlMgrRouteReconciliationPeriod :: string where
  "DefaultAzureStackKubernetesCtrlMgrRouteReconciliationPeriod = ''1m''"

definition DefaultAzureStackKubernetesCtrlMgrNodeMonitorGracePeriod :: string where
  "DefaultAzureStackKubernetesCtrlMgrNodeMonitorGracePeriod = ''5m''"

definition DefaultAzureStackKubernetesCtrlMgrPodEvictionTimeout :: string where
  "DefaultAzureStackKubernetesCtrlMgrPodEvictionTimeout = ''5m''"

definition DefaultMasterEtcdClientPort :: int where "DefaultMasterEtcdClientPort = 2379"

definition DefaultKubeletEventQPS :: string where "DefaultKubeletEventQPS = ''0''"

definition DefaultKubeletCadvisorPort :: string where "DefaultKubeletCadvisorPort = ''0''"

definition DefaultKubeletHealthzPort :: string where "DefaultKubeletHealthzPort = ''10248''"

definition DefaultKubeletPodMaxPIDs :: int where "DefaultKubeletPodMaxPIDs = -1"

definition DefaultKubernetesAPIServerEnableProfiling :: string where
  "DefaultKubernetesAPIServerEnableProfiling = ''false''"

definition DefaultKubernetesAPIServerVerbosity :: string where
  "DefaultKubernetesAPIServerVerbosity = ''2''"

definition DefaultKubernetesCtrMgrEnableProfiling :: string where
  "DefaultKubernetesCtrMgrEnableProfiling = ''false''"

definition DefaultKubernetesSchedulerEnableProfiling :: string where
  "DefaultKubernetesSchedulerEnableProfiling = ''false''"

definition DefaultNonMasqueradeCIDR :: string where "DefaultNonMasqueradeCIDR = ''0.0.0.0/0''"

definition TLSStrongCipherSuitesAPIServer :: string where
  "TLSStrongCipherSuitesAPIServer = ''TLS_ECDHE_ECDSA_WITH_AES_128_GCM_SHA256,TLS_ECDHE_RSA_WITH_AES_128_GCM_SHA256,TLS_ECDHE_RSA_WITH_AES_256_GCM_SHA384,TLS_ECDHE_ECDSA_WITH_AES_256_GCM_SHA384''"

definition TLSStrongCipherSuitesKubelet :: string where
  "TLSStrongCipherSuitesKubelet = ''TLS_ECDHE_ECDSA_WITH_AES_128_GCM_SHA256,TLS_ECDHE_RSA_WITH_AES_128_GCM_SHA256,TLS_ECDHE_ECDSA_WITH_CHACHA20_POLY1305,TLS_ECDHE_RSA_WITH_AES_256_GCM_SHA384,TLS_ECDHE_RSA_WITH_CHACHA20_POLY1305,TLS_ECDHE_ECDSA_WITH_AES_256_GCM_SHA384,TLS_RSA_WITH_AES_256_GCM_SHA384,TLS_RSA_WITH_AES_128_GCM_SHA256''"

definition DefaultKubernetesCloudProviderBackoffRetries :: int where
  "DefaultKubernetesCloudProviderBackoffRetries = 6"

definition DefaultKubernetesCloudProviderBackoffJitter :: rat where
  "DefaultKubernetesCloudProviderBackoffJitter = 1"

definition DefaultKubernetesCloudProviderBackoffDuration :: int where
  "DefaultKubernetesCloudProviderBackoffDuration = 5"

definition DefaultKubernetesCloudProviderBackoffExponent :: rat where
  "DefaultKubernetesCloudProviderBackoffExponent = 3 / 2"

definition DefaultKubernetesCloudProviderRateLimitQPS :: rat where
  "DefaultKubernetesCloudProviderRateLimitQPS = 3"

definition DefaultKubernetesCloudProviderRateLimitQPSWrite :: rat where
  "DefaultKubernetesCloudProviderRateLimitQPSWrite = 1"

definition DefaultKubernetesCloudProviderRateLimitBucket :: int where
  "DefaultKubernetesCloudProviderRateLimitBucket = 10"

definition DefaultKubernetesCloudProviderRateLimitBucketWrite :: int where
  "DefaultKubernetesCloudProviderRateLimitBucketWrite = DefaultKubernetesCloudProviderRateLimitBucket"

definition PodSecurityPolicyAddonName :: string where
  "PodSecurityPolicyAddonName = ''pod-security-policy''"

definition IPMASQAgentAddonName :: string where "IPMASQAgentAddonName = ''ip-masq-agent''"

definition AADPodIdentityAddonName :: string where "AADPodIdentityAddonName = ''aad-pod-identity''"

definition MasterNodeTaint :: string where
  "MasterNodeTaint = ''node-role.kubernetes.io/control-plane=true:NoSchedule''"

definition AADPodIdentityTaintKey :: string where
  "AADPodIdentityTaintKey = ''node.kubernetes.io/aad-pod-identity-not-ready''"

definition PodSecurityPolicyRemovedVersion :: string where
  "PodSecurityPolicyRemovedVersion = ''1.25.0''"

definition ACIConnectorAddonName :: string where "ACIConnectorAddonName = ''aci-connector''"

definition APIServerComponentName :: string where "APIServerComponentName = ''kube-apiserver''"

definition AddonManagerComponentName :: string where
  "AddonManagerComponentName = ''kube-addon-manager''"

definition AddonResizerComponentName :: string where "AddonResizerComponentName = ''addon-resizer''"

definition AntreaAgentContainerName :: string where "AntreaAgentContainerName = ''antrea-agent''"

definition AntreaControllerContainerName :: string where
  "AntreaControllerContainerName = ''antrea-controller''"

definition AntreaInstallCNIContainerName :: string where
  "AntreaInstallCNIContainerName = ''install-cni''"

definition AntreaOVSContainerName :: string where "AntreaOVSContainerName = ''antrea-ovs''"

definition AzureArcOnboardingAddonName :: string where
  "AzureArcOnboardingAddonName = ''azure-arc-onboarding''"

definition AzureFileCSIDriverAddonName :: string where
  "AzureFileCSIDriverAddonName = ''azurefile-csi-driver''"

definition AzureKMSProviderComponentName :: string where
  "AzureKMSProviderComponentName = ''azure-kms-provider''"

definition AzureNetworkPolicyAddonName :: string where
  "AzureNetworkPolicyAddonName = ''azure-npm-daemonset''"

definition AzurePolicyAddonName :: string where "AzurePolicyAddonName = ''azure-policy''"

definition AzureStackSuffix :: string where "AzureStackSuffix = ''-azs''"

definition CSIAttacherContainerName :: string where "CSIAttacherContainerName = ''csi-attacher''"

definition CSIAzureDiskContainerName :: string where "CSIAzureDiskContainerName = ''azuredisk-csi''"

definition CSIAzureFileContainerName :: string where "CSIAzureFileContainerName = ''azurefile-csi''"

definition CSILivenessProbeContainerName :: string where
  "CSILivenessProbeContainerName = ''livenessprobe''"

definition CSILivenessProbeWindowsContainerName :: string where
  "CSILivenessProbeWindowsContainerName = ''livenessprobe-windows''"

definition CSINodeDriverRegistrarContainerName :: string where
  "CSINodeDriverRegistrarContainerName = ''csi-node-driver-registrar''"

definition CSINodeDriverRegistrarWindowsContainerName :: string where
  "CSINodeDriverRegistrarWindowsContainerName = ''csi-node-driver-registrar-windows''"

definition CSIProvisionerContainerName :: string where
  "CSIProvisionerContainerName = ''csi-provisioner''"

definition CSIResizerContainerName :: string where "CSIResizerContainerName = ''csi-resizer''"

definition CSISecretsStoreDriverContainerName :: string where
  "CSISecretsStoreDriverContainerName = ''secrets-store''"

definition CSISecretsStoreProviderAzureContainerName :: string where
  "CSISecretsStoreProviderAzureContainerName = ''provider-azure-installer''"

definition CSISnapshotControllerContainerName :: string where
  "CSISnapshotControllerContainerName = ''csi-snapshot-controller''"

definition CSISnapshotterContainerName :: string where
  "CSISnapshotterContainerName = ''csi-snapshotter''"

definition CalicoCNIComponentName :: string where "CalicoCNIComponentName = ''calico-cni''"

definition CalicoClusterAutoscalerComponentName :: string where
  "CalicoClusterAutoscalerComponentName = ''calico-cluster-proportional-autoscaler''"

definition CalicoNodeComponentName :: string where "CalicoNodeComponentName = ''calico-node''"

definition CalicoPod2DaemonComponentName :: string where
  "CalicoPod2DaemonComponentName = ''calico-pod2daemon''"

definition CalicoTyphaComponentName :: string where "CalicoTyphaComponentName = ''calico-typha''"

definition CiliumAgentContainerName :: string where "CiliumAgentContainerName = ''cilium-agent''"

definition CiliumCleanStateContainerName :: string where
  "CiliumCleanStateContainerName = ''clean-cilium-state''"

definition CiliumEtcdOperatorContainerName :: string where
  "CiliumEtcdOperatorContainerName = ''cilium-etcd-operator''"

definition CiliumOperatorContainerName :: string where
  "CiliumOperatorContainerName = ''cilium-operator''"

definition CloudControllerManagerComponentName :: string where
  "CloudControllerManagerComponentName = ''cloud-controller-manager''"

definition CloudNodeManagerAddonName :: string where
  "CloudNodeManagerAddonName = ''cloud-node-manager''"

definition ControllerManagerComponentName :: string where
  "ControllerManagerComponentName = ''kube-controller-manager''"

definition CoreDNSAddonName :: string where "CoreDNSAddonName = ''coredns''"

definition CoreDNSAutoscalerName :: string where "CoreDNSAutoscalerName = ''coredns-autoscaler''"

definition DNSMasqComponentName :: string where "DNSMasqComponentName = ''dnsmasq''"

definition DNSSidecarComponentName :: string where "DNSSidecarComponentName = ''k8s-dns-sidecar''"

definition DashboardAddonName :: string where "DashboardAddonName = ''kubernetes-dashboard''"

definition DashboardMetricsScraperContainerName :: string where
  "DashboardMetricsScraperContainerName = ''kubernetes-dashboard-metrics-scraper''"

definition ExecHealthZComponentName :: string where "ExecHealthZComponentName = ''exechealthz''"

definition FlannelInstallCNIContainerName :: string where
  "FlannelInstallCNIContainerName = ''install-cni''"

definition GatekeeperContainerName :: string where "GatekeeperContainerName = ''gatekeeper''"

definition Hyperkube :: string where "Hyperkube = ''hyperkube''"

definition KubeDNSAddonName :: string where "KubeDNSAddonName = ''kube-dns''"

definition KubeFlannelContainerName :: string where "KubeFlannelContainerName = ''kube-flannel''"

definition KubeProxyAddonName :: string where "KubeProxyAddonName = ''kube-proxy''"

definition KubeRBACProxyContainerName :: string where
  "KubeRBACProxyContainerName = ''kube-rbac-proxy''"

definition KubernetesImageBaseTypeGCR :: string where "KubernetesImageBaseTypeGCR = ''gcr''"

definition KubernetesImageBaseTypeMCR :: string where "KubernetesImageBaseTypeMCR = ''mcr''"

definition MICContainerName :: string where "MICContainerName = ''mic''"

definition MetricsServerAddonName :: string where "MetricsServerAddonName = ''metrics-server''"

definition NMIContainerName :: string where "NMIContainerName = ''nmi''"

definition NVIDIADevicePluginAddonName :: string where
  "NVIDIADevicePluginAddonName = ''nvidia-device-plugin''"

definition NodeProblemDetectorAddonName :: string where
  "NodeProblemDetectorAddonName = ''node-problem-detector''"

definition PauseComponentName :: string where "PauseComponentName = ''pause''"

definition ReschedulerAddonName :: string where "ReschedulerAddonName = ''rescheduler''"

definition SMBFlexVolumeAddonName :: string where "SMBFlexVolumeAddonName = ''smb-flexvolume''"

definition ScheduledMaintenanceManagerContainerName :: string where
  "ScheduledMaintenanceManagerContainerName = ''manager''"

definition SchedulerComponentName :: string where "SchedulerComponentName = ''kube-scheduler''"

definition TillerAddonName :: string where "TillerAddonName = ''tiller''"

definition WindowsArtifactAzureStackComponentName :: string where
  "WindowsArtifactAzureStackComponentName = ''windowszip-azs''"

definition WindowsArtifactComponentName :: string where
  "WindowsArtifactComponentName = ''windowszip''"

lemmas default_consts =
  NetworkPluginKubenet_def
  NetworkPolicyCalico_def
  DefaultKubernetesMaxPods_def
  DefaultKubernetesMaxPodsVNETIntegrated_def
  DefaultKubernetesNodeStatusUpdateFrequency_def
  DefaultKubernetesHardEvictionThreshold_def
  DefaultKubernetesCtrlMgrNodeMonitorGracePeriod_def
  DefaultKubernetesCtrlMgrPodEvictionTimeout_def
  DefaultKubernetesCtrlMgrRouteReconciliationPeriod_def
  DefaultKubernetesCtrlMgrTerminatedPodGcThreshold_def
  DefaultKubernetesCtrlMgrUseSvcAccountCreds_def
  DefaultKubernetesGCHighThreshold_def
  DefaultKubernetesGCLowThreshold_def
  DefaultAzureStackKubernetesNodeStatusUpdateFrequency_def
  DefaultAzureStackKubernetesCtrlMgrRouteReconciliationPeriod_def
  DefaultAzureStackKubernetesCtrlMgrNodeMonitorGracePeriod_def
  DefaultAzureStackKubernetesCtrlMgrPodEvictionTimeout_def
  DefaultMasterEtcdClientPort_def
  DefaultKubeletEventQPS_def
  DefaultKubeletCadvisorPort_def
  DefaultKubeletHealthzPort_def
  DefaultKubeletPodMaxPIDs_def
  DefaultKubernetesAPIServerEnableProfiling_def
  DefaultKubernetesAPIServerVerbosity_def
  DefaultKubernetesCtrMgrEnableProfiling_def
  DefaultKubernetesSchedulerEnableProfiling_def
  DefaultNonMasqueradeCIDR_def
  TLSStrongCipherSuitesAPIServer_def
  TLSStrongCipherSuitesKubelet_def
  DefaultKubernetesCloudProviderBackoffRetries_def
  DefaultKubernetesCloudProviderBackoffJitter_def
  DefaultKubernetesCloudProviderBackoffDuration_def
  DefaultKubernetesCloudProviderBackoffExponent_def
  DefaultKubernetesCloudProviderRateLimitQPS_def
  DefaultKubernetesCloudProviderRateLimitQPSWrite_def
  DefaultKubernetesCloudProviderRateLimitBucket_def
  DefaultKubernetesCloudProviderRateLimitBucketWrite_def
  PodSecurityPolicyAddonName_def
  IPMASQAgentAddonName_def
  AADPodIdentityAddonName_def
  MasterNodeTaint_def
  AADPodIdentityTaintKey_def
  PodSecurityPolicyRemovedVersion_def
  ACIConnectorAddonName_def
  APIServerComponentName_def
  AddonManagerComponentName_def
  AddonResizerComponentName_def
  AntreaAgentContainerName_def
  AntreaControllerContainerName_def
  AntreaInstallCNIContainerName_def
  AntreaOVSContainerName_def
  AzureArcOnboardingAddonName_def
  AzureFileCSIDriverAddonName_def
  AzureKMSProviderComponentName_def
  AzureNetworkPolicyAddonName_def
  AzurePolicyAddonName_def
  AzureStackSuffix_def
  CSIAttacherContainerName_def
  CSIAzureDiskContainerName_def
  CSIAzureFileContainerName_def
  CSILivenessProbeContainerName_def
  CSILivenessProbeWindowsContainerName_def
  CSINodeDriverRegistrarContainerName_def
  CSINodeDriverRegistrarWindowsContainerName_def
  CSIProvisionerContainerName_def
  CSIResizerContainerName_def
  CSISecretsStoreDriverContainerName_def
  CSISecretsStoreProviderAzureContainerName_def
  CSISnapshotControllerContainerName_def
  CSISnapshotterContainerName_def
  CalicoCNIComponentName_def
  CalicoClusterAutoscalerComponentName_def
  CalicoNodeComponentName_def
  CalicoPod2DaemonComponentName_def
  CalicoTyphaComponentName_def
  CiliumAgentContainerName_def
  CiliumCleanStateContainerName_def
  CiliumEtcdOperatorContainerName_def
  CiliumOperatorContainerName_def
  CloudControllerManagerComponentName_def
  CloudNodeManagerAddonName_def
  ControllerManagerComponentName_def
  CoreDNSAddonName_def
  CoreDNSAutoscalerName_def
  DNSMasqComponentName_def
  DNSSidecarComponentName_def
  DashboardAddonName_def
  DashboardMetricsScraperContainerName_def
  ExecHealthZComponentName_def
  FlannelInstallCNIContainerName_def
  GatekeeperContainerName_def
  Hyperkube_def
  KubeDNSAddonName_def
  KubeFlannelContainerName_def
  KubeProxyAddonName_def
  KubeRBACProxyContainerName_def
  KubernetesImageBaseTypeGCR_def
  KubernetesImageBaseTypeMCR_def
  MICContainerName_def
  MetricsServerAddonName_def
  NMIContainerName_def
  NVIDIADevicePluginAddonName_def
  NodeProblemDetectorAddonName_def
  PauseComponentName_def
  ReschedulerAddonName_def
  SMBFlexVolumeAddonName_def
  ScheduledMaintenanceManagerContainerName_def
  SchedulerComponentName_def
  TillerAddonName_def
  WindowsArtifactAzureStackComponentName_def
  WindowsArtifactComponentName_def

end
