(* ===== verification/ClusterUpgrade.thy ===== *)
theory ClusterUpgrade
  imports MasterUpgrade DefaultConstants
begin

section \<open>The upgrade pipeline (RunUpgrade of upgrader.go, UpgradeCluster of upgradecluster.go)\<close>

text \<open>
  The whole run: sort the VMs, check the control plane, pause the cluster autoscaler, check for pod
  security policies, upgrade the control plane, clean up addons, upgrade the agent pools, resume the
  autoscaler. What the API server and the resource manager answer beyond the record \<open>cloud\<close> is in the
  record \<open>cluster_api\<close>.
\<close>

subsection \<open>Node properties\<close>

text \<open>Annotations and labels are maps in iteration order, \<open>None\<close> for nil; a taint is its key, value and effect.\<close>

record k8s_node =
  kn_Annotations :: "(string \<times> string) list option"
  kn_Labels :: "(string \<times> string) list option"
  kn_Taints :: "(string \<times> string \<times> string) list option"
  kn_Unschedulable :: bool

fun copy_missing ::
    "string \<Rightarrow> string \<Rightarrow> (string \<times> string) list \<Rightarrow> (string \<times> string) list \<Rightarrow> (string \<times> string) list" where
  "copy_missing oldName newName [] m = m"
| "copy_missing oldName newName ((k, v) # kvs) m =
     copy_missing oldName newName kvs
       (if map_of m k = None then AList.update k (replace_all oldName newName v) m else m)"

definition copy_map ::
    "string \<Rightarrow> string \<Rightarrow> (string \<times> string) list option \<Rightarrow> (string \<times> string) list option \<Rightarrow>
      (string \<times> string) list option" where
  "copy_map oldName newName old new = (case old of None \<Rightarrow> new
     | Some kvs \<Rightarrow> Some (copy_missing oldName newName kvs (case new of None \<Rightarrow> [] | Some m \<Rightarrow> m)))"

text \<open>The node that the first update sends.\<close>

definition copyCustomNodeProperties :: "string \<Rightarrow> k8s_node \<Rightarrow> string \<Rightarrow> k8s_node \<Rightarrow> k8s_node" where
  "copyCustomNodeProperties oldNodeName oldNode newNodeName newNode =
     newNode\<lparr>kn_Annotations := copy_map oldNodeName newNodeName (kn_Annotations oldNode) (kn_Annotations newNode),
       kn_Labels := copy_map oldNodeName newNodeName (kn_Labels oldNode) (kn_Labels newNode),
       kn_Taints := (case kn_Taints oldNode of None \<Rightarrow> kn_Taints newNode
         | Some ts \<Rightarrow> Some (map (\<lambda>(k, v, e). (k, replace_all oldNodeName newNodeName v, e)) ts))\<rparr>"

subsection \<open>Pod security policies\<close>

definition validateUserCreatedPodSecurityPolices :: "string \<Rightarrow> string \<Rightarrow> string list \<Rightarrow> unit result" where
  "validateUserCreatedPodSecurityPolices currentVersion upgradeVersion policies =
     (if IsKubernetesVersionGe currentVersion PodSecurityPolicyRemovedVersion then Inr ()
      else if \<not> IsKubernetesVersionGe upgradeVersion PodSecurityPolicyRemovedVersion then Inr ()
      else if length policies > 2 then Inl (Err ''user-created PodSecurityPolices found'')
      else if list_ex (\<lambda>name. name \<noteq> ''privileged'' \<and> name \<noteq> ''restricted'') policies
      then Inl (Err ''user-created PodSecurityPolices found'')
      else Inr ())"

definition upgrade_version :: "upgrader \<Rightarrow> string result" where
  "upgrade_version ku = bindR (deref (p_OrchestratorProfile (ku_Properties ku)))
     (\<lambda>op. Inr (op_OrchestratorVersion op))"

definition validatePodSecurityPolices :: "cloud \<Rightarrow> upgrader \<Rightarrow> unit io" where
  "validatePodSecurityPolices w ku =
     (if IsKubernetesVersionGe (ku_CurrentVersion ku) PodSecurityPolicyRemovedVersion then retIO ()
      else bindIO (call (c_ok w) GetKubernetesClient) (\<lambda>_.
        bindIO (call (c_ok w) ListPodSecurityPolicies) (\<lambda>_.
        bindIO (answer (c_Policies w)) (\<lambda>policies.
        bindIO (liftIO (upgrade_version ku)) (\<lambda>next.
          liftIO (validateUserCreatedPodSecurityPolices (ku_CurrentVersion ku) next policies))))))"

subsection \<open>Addons that the addon manager cannot upgrade\<close>

definition handleUnreconcilableAddons :: "cloud \<Rightarrow> upgrader \<Rightarrow> unit io" where
  "handleUnreconcilableAddons w ku =
     bindIO (liftIO (upgrade_version ku)) (\<lambda>upgradeVersion.
     let crossed = \<not> IsKubernetesVersionGe (ku_CurrentVersion ku) ''1.16.0'' \<and>
           IsKubernetesVersionGe upgradeVersion ''1.16.0'' in
     if \<not> crossed then retIO ()
     else bindIO (tryIO (call (c_ok w) GetKubernetesClient)) (\<lambda>client.
       if client = None then retIO ()
       else bindIO (tryIO (call (c_ok w) (DeleteDaemonSet KubeProxyAddonName))) (\<lambda>_.
         bindIO (tryIO (call (c_ok w) GetKubernetesClient)) (\<lambda>client.
           if client = None then retIO ()
           else bindIO (tryIO (call (c_ok w) (DeleteClusterRole ''system:metrics-server''))) (\<lambda>_.
             bindIO (tryIO (call (c_ok w) (DeleteDeployment MetricsServerAddonName))) (\<lambda>_. retIO ()))))))"

subsection \<open>RunUpgrade\<close>

definition RunUpgrade :: "cloud \<Rightarrow> upgrader \<Rightarrow> unit io" where
  "RunUpgrade w ku =
     bindIO (catchIO (validatePodSecurityPolices w ku) (\<lambda>err. if ku_Force ku then retIO () else failIO err)) (\<lambda>_.
     bindIO (liftIO (deref (p_MasterProfile (ku_Properties ku)))) (\<lambda>_.
     bindIO (upgradeMasterNodes w ku) (\<lambda>_.
     bindIO (handleUnreconcilableAddons w ku) (\<lambda>_.
       if ku_ControlPlaneOnly ku then retIO ()
       else upgradeAgentPools w ku (map snd (t_AgentPools (ku_Topology ku)))))))"

subsection \<open>UpgradeCluster\<close>

text \<open>
  The client of the API server is nil if it could not be created, as the interface \<open>AKSEngineClient\<close> has
  it. (\<open>GetKubernetesClient\<close> of azureclient.go returns a nil pointer in an interface that is not nil.)
  \<open>ca_VMs\<close> are the VMs of the resource group, \<open>ca_polls\<close> the polls of the control plane nodes,
  \<open>ca_received\<close> how many of their reports arrive before the context ends, \<open>ca_replicas\<close> the answers to
  one update of the cluster autoscaler's deployment.
\<close>

record cluster_api =
  ca_VMs :: "history \<Rightarrow> vm list"
  ca_polls :: "history \<Rightarrow> nat \<Rightarrow> (string \<times> bool) list option"
  ca_received :: "history \<Rightarrow> nat"
  ca_replicas :: "history \<Rightarrow> nat \<Rightarrow> int option \<times> bool"

text \<open>
  The arguments of an upgrade; \<open>ur_range\<close> and \<open>ur_pool_range\<close> are the orders in which the maps of VMs
  and of pools are visited.
\<close>

record upgrade_request =
  ur_cluster :: upgrade_cluster
  ur_NameSuffix :: string
  ur_AgentPoolsToUpgrade :: "(string \<times> bool) list"
  ur_ControlPlaneOnly :: bool
  ur_CurrentVersion :: string
  ur_rand :: rand_source
  ur_range :: "agent_map \<Rightarrow> agent_map"
  ur_pool_range :: "(string \<times> agent_pool_topology) list \<Rightarrow> (string \<times> agent_pool_topology) list"

text \<open>One update of the replica count; the event says whether it succeeded in the end.\<close>

definition set_replica_count :: "cluster_api \<Rightarrow> bool \<Rightarrow> int \<Rightarrow> int io" where
  "set_replica_count a client n =
     bindIO (answer (ca_replicas a)) (\<lambda>answers.
       if \<not> client then failIO (Err ''no kubernetes client'')
       else case SetClusterAutoscalerReplicaCount (Some answers) of
         Inr c \<Rightarrow> bindIO (call (\<lambda>_ _. True) (UpdateReplicas n)) (\<lambda>_. retIO c)
       | Inl e \<Rightarrow> bindIO (tryIO (call (\<lambda>_ _. False) (UpdateReplicas n))) (\<lambda>_. failIO e))"

text \<open>A deferred call: it is made on every way out and leaves the result as it is.\<close>

definition deferIO :: "'a io \<Rightarrow> 'b io \<Rightarrow> 'a io" where
  "deferIO m f h = (case m h of (r, h') \<Rightarrow> (r, snd (f h')))"

definition check_control_plane :: "cluster_api \<Rightarrow> bool \<Rightarrow> topology \<Rightarrow> unit io" where
  "check_control_plane a client t =
     (if \<not> client then retIO ()
      else bindIO (answer (ca_polls a)) (\<lambda>polls. bindIO (answer (ca_received a)) (\<lambda>n.
        liftIO (checkControlPlaneNodesStatus (t_UpgradedMasterVMs t)
          (take n (upgradedNotReadyStream 15 (map vm_Name (t_UpgradedMasterVMs t)) polls))))))"

definition getUpgradeWorkflow :: "upgrade_request \<Rightarrow> topology \<Rightarrow> upgrader" where
  "getUpgradeWorkflow r t =
     \<lparr>ku_Properties = uc_Properties (ur_cluster r),
      ku_Topology = t\<lparr>t_AgentPools := ur_pool_range r (t_AgentPools t)\<rparr>, ku_CurrentVersion = ur_CurrentVersion r,
      ku_ControlPlaneOnly = ur_ControlPlaneOnly r, ku_Force = uc_Force (ur_cluster r), ku_rand = ur_rand r,
      ku_range = ur_range r\<rparr>"

definition autoscaled :: "upgrade_request \<Rightarrow> bool result" where
  "autoscaled r = bindR (deref (p_OrchestratorProfile (uc_Properties (ur_cluster r)))) (\<lambda>op.
     Inr (case op_KubernetesConfig op of None \<Rightarrow> False | Some kc \<Rightarrow> IsClusterAutoscalerEnabled kc))"

definition UpgradeCluster :: "cloud \<Rightarrow> cluster_api \<Rightarrow> bool \<Rightarrow> upgrade_request \<Rightarrow> unit io" where
  "UpgradeCluster w a az r =
     bindIO (if az then tryIO (call (c_ok w) GetKubernetesClient) else retIO None) (\<lambda>kubeClient.
     let client = (kubeClient \<noteq> None);
         uc = (if client then ur_cluster r else (ur_cluster r)\<lparr>uc_kubelet := None\<rparr>) in
     bindIO (liftIO (goal_version uc)) (\<lambda>_.
     bindIO (call (c_ok w) ListVirtualMachines) (\<lambda>_.
     bindIO (answer (ca_VMs a)) (\<lambda>vmList.
     bindIO (liftIO (setNodesToUpgrade uc (Inr vmList)
         (fresh_topology (ur_NameSuffix r) (ur_AgentPoolsToUpgrade r)))) (\<lambda>t.
     bindIO (check_control_plane a client t) (\<lambda>_.
     bindIO (liftIO (autoscaled r)) (\<lambda>enabled.
     let run = RunUpgrade w (getUpgradeWorkflow r t) in
     if enabled \<and> \<not> ur_ControlPlaneOnly r then
       bindIO (tryIO (set_replica_count a client 0)) (\<lambda>paused. case paused of
         None \<Rightarrow> if uc_Force uc then run else failIO (Err ''Failed to pause cluster-autoscaler'')
       | Some replicas \<Rightarrow> deferIO run (set_replica_count a client replicas))
     else run)))))))"

subsection \<open>Custom properties of a replaced node\<close>

lemma copy_missing_lookup:
  "distinct (map fst kvs) \<Longrightarrow> map_of (copy_missing old new kvs m) k =
     (case map_of m k of Some v \<Rightarrow> Some v | None \<Rightarrow> map_option (replace_all old new) (map_of kvs k))"
proof (induction kvs arbitrary: m)
  case (Cons e kvs)
  obtain j v where e: "e = (j, v)" by fastforce
  have fresh: "map_of kvs j = None" using Cons.prems by (auto simp: e map_of_eq_None_iff)
  show ?case
    using Cons.IH Cons.prems fresh by (auto simp: e update_conv' split: option.splits)
qed (auto split: option.splits)

definition lookup :: "(string \<times> string) list option \<Rightarrow> string \<Rightarrow> string option" where
  "lookup m k = (case m of None \<Rightarrow> None | Some kvs \<Rightarrow> map_of kvs k)"

lemma copy_map_lookup:
  "distinct (map fst (case old of None \<Rightarrow> [] | Some kvs \<Rightarrow> kvs)) \<Longrightarrow>
     lookup (copy_map o' n old new) k =
       (case lookup new k of Some v \<Rightarrow> Some v | None \<Rightarrow> map_option (replace_all o' n) (lookup old k))"
  by (auto simp: copy_map_def lookup_def copy_missing_lookup split: option.splits)

text \<open>
  The node that replaces another keeps its own annotations and labels, gets the missing ones of the
  old node with the old node's name replaced, in whatever order the maps are visited, and all its
  taints; the new node's own taints are lost if the old node has a list of taints.\<close>

theorem custom_properties_are_copied:
  assumes "distinct (map fst (case kn_Annotations old of None \<Rightarrow> [] | Some kvs \<Rightarrow> kvs))"
    and "distinct (map fst (case kn_Labels old of None \<Rightarrow> [] | Some kvs \<Rightarrow> kvs))"
  shows "let node = copyCustomNodeProperties oldName old newName new in
     (\<forall>k. lookup (kn_Annotations node) k = (case lookup (kn_Annotations new) k of Some v \<Rightarrow> Some v
        | None \<Rightarrow> map_option (replace_all oldName newName) (lookup (kn_Annotations old) k))) \<and>
     (\<forall>k. lookup (kn_Labels node) k = (case lookup (kn_Labels new) k of Some v \<Rightarrow> Some v
        | None \<Rightarrow> map_option (replace_all oldName newName) (lookup (kn_Labels old) k))) \<and>
     kn_Taints node = (if kn_Taints old = None then kn_Taints new
        else map_option (map (\<lambda>(k, v, e). (k, replace_all oldName newName v, e))) (kn_Taints old)) \<and>
     kn_Unschedulable node = kn_Unschedulable new"
  using copy_map_lookup [OF assms(1)] copy_map_lookup [OF assms(2)]
  by (simp add: copyCustomNodeProperties_def split: option.splits)

theorem custom_properties_are_copied_witness:
  "let old = \<lparr>kn_Annotations = Some [(''host'', ''node-a''), (''team'', ''red'')], kn_Labels = None,
         kn_Taints = Some [(''only'', ''node-a'', ''NoSchedule'')], kn_Unschedulable = True\<rparr>;
       new = \<lparr>kn_Annotations = Some [(''team'', ''blue'')], kn_Labels = None, kn_Taints = None,
         kn_Unschedulable = True\<rparr>;
       node = copyCustomNodeProperties ''node-a'' old ''node-b'' new
   in lookup (kn_Annotations node) ''team'' = Some ''blue'' \<and> lookup (kn_Annotations node) ''host'' = Some ''node-b'' \<and>
      kn_Taints node = Some [(''only'', ''node-b'', ''NoSchedule'')]"
proof -
  let ?old = "\<lparr>kn_Annotations = Some [(''host'', ''node-a''), (''team'', ''red'')], kn_Labels = None,
    kn_Taints = Some [(''only'', ''node-a'', ''NoSchedule'')], kn_Unschedulable = True\<rparr>"
  have "replace_all ''node-a'' ''node-b'' ''node-a'' = ''node-b''" by code_simp
  then show ?thesis
    using custom_properties_are_copied [of ?old "''node-a''" "''node-b''"
      "\<lparr>kn_Annotations = Some [(''team'', ''blue'')], kn_Labels = None, kn_Taints = None, kn_Unschedulable = True\<rparr>"]
    by (simp add: Let_def lookup_def)
qed

subsection \<open>The check for pod security policies\<close>

text \<open>
  The upgrade is refused exactly if it crosses version 1.25 and the cluster has a pod security policy
  other than the two that the engine deploys (policies have distinct names).\<close>

theorem user_policies_stop_the_upgrade:
  assumes "distinct policies"
  shows "validateUserCreatedPodSecurityPolices current next policies = Inr () \<longleftrightarrow>
    (IsKubernetesVersionGe current ''1.25.0'' \<or> \<not> IsKubernetesVersionGe next ''1.25.0'' \<or>
     set policies \<subseteq> {''privileged'', ''restricted''})"
proof -
  have few: "length policies \<le> 2" if "set policies \<subseteq> {''privileged'', ''restricted''}"
    using card_mono [OF _ that] distinct_card [OF assms] by simp
  have own: "list_ex (\<lambda>name. name \<noteq> ''privileged'' \<and> name \<noteq> ''restricted'') policies \<longleftrightarrow>
      \<not> set policies \<subseteq> {''privileged'', ''restricted''}"
    unfolding list_ex_iff by blast
  show ?thesis
    unfolding validateUserCreatedPodSecurityPolices_def PodSecurityPolicyRemovedVersion_def own
    using few by (simp del: insert_subset) (metis linorder_not_le)
qed

theorem user_policies_stop_the_upgrade_witness:
  "validateUserCreatedPodSecurityPolices ''1.24.17'' ''1.25.15'' [''restricted'', ''mine''] \<noteq> Inr () \<and>
   validateUserCreatedPodSecurityPolices ''1.24.17'' ''1.25.15'' [''restricted''] = Inr ()"
proof -
  have "\<not> IsKubernetesVersionGe ''1.24.17'' ''1.25.0''" "IsKubernetesVersionGe ''1.25.15'' ''1.25.0''"
    by (simp_all add: IsKubernetesVersionGe_def compare_eval)
  then show ?thesis
    using user_policies_stop_the_upgrade [of "[''restricted'', ''mine'']" "''1.24.17''" "''1.25.15''"]
      user_policies_stop_the_upgrade [of "[''restricted'']" "''1.24.17''" "''1.25.15''"] by simp
qed

end
