(* ===== verification/UpgradeSafety.thy ===== *)
theory UpgradeSafety
  imports ClusterUpgrade
begin

section \<open>What a whole upgrade may do\<close>

text \<open>
  Two guarantees about every history of \<open>UpgradeCluster\<close>, whatever the services answer: which VMs it
  deletes, and that a paused cluster autoscaler is resumed. The invariant \<open>allowed\<close> is carried through
  every handler by the rules of the program logic; the calls that scale the autoscaler are followed by
  \<open>emits\<close>.
\<close>

subsection \<open>Which calls the pipeline makes\<close>

definition no_scaling :: "event \<Rightarrow> bool" where
  "no_scaling e \<longleftrightarrow> (\<forall>n. e \<noteq> UpdateReplicas n)"

lemma emits_both: "emits A m \<Longrightarrow> emits B m \<Longrightarrow> emits (\<lambda>e. A e \<and> B e) m"
  unfolding emits_def by (metis append_same_eq same_append_eq)

lemma cordon_no_scaling: "emits no_scaling (cordon w n k node)"
  by (induction k arbitrary: node) (auto simp: no_scaling_def split: option.splits intro!: io_rules)

lemma drain_no_scaling: "emits no_scaling (SafelyDrainNodeWithClient w n)"
  unfolding SafelyDrainNodeWithClient_def deleteOrEvictPodsSimple_def getPodsForDeletion_def
    deleteOrEvictPods_def evictPods_def deletePods_def delete_pod_def
  by (intro io_rules cordon_no_scaling triple_case_bool)
    (auto simp: no_scaling_def split: option.splits intro!: io_rules)

lemma CleanDelete_no_scaling: "emits no_scaling (CleanDeleteVirtualMachine w v)"
  unfolding CleanDeleteVirtualMachine_def delete_os_disk_def delete_roles_def
  by (auto simp: no_scaling_def split: option.splits intro!: io_rules)

lemma node_no_scaling:
  "emits no_scaling (Agent_DeleteNode w un v drain)" "emits no_scaling (Agent_Validate w un v)"
  "emits no_scaling (Master_Validate w un v)" "emits no_scaling (copyCustomPropertiesToNewNode w old new)"
proof -
  show del: "emits no_scaling (Agent_DeleteNode w un v drain)" for drain
    unfolding Agent_DeleteNode_def Let_def
    by (auto simp: no_scaling_def [of "GetKubernetesClient"] no_scaling_def [of "DeleteNode _"]
        intro!: io_rules drain_no_scaling CleanDelete_no_scaling)
  show "emits no_scaling (Agent_Validate w un v)"
    unfolding Agent_Validate_def
    by (auto simp: no_scaling_def [of "GetKubernetesClient"] no_scaling_def [of "AwaitNodeReady _"]
        split: option.splits intro!: io_rules del)
  show "emits no_scaling (Master_Validate w un v)"
    unfolding Master_Validate_def by (auto simp: no_scaling_def intro!: io_rules)
  show "emits no_scaling (copyCustomPropertiesToNewNode w old new)"
    unfolding copyCustomPropertiesToNewNode_def
    by (auto simp: no_scaling_def [of "CopyNodeProperties _ _"] intro!: io_rules drain_no_scaling)
qed

subsection \<open>Which VMs the pipeline deletes\<close>

text \<open>The VMs that a run has brought about so far.\<close>

definition deployed :: "(event \<Rightarrow> string set) \<Rightarrow> history \<Rightarrow> string set" where
  "deployed new h = (\<Union>(e, ok) \<in> set h. if ok then new e else {})"

text \<open>Every VM to be deleted is in \<open>A\<close> or has been deployed by the run itself.\<close>

definition allowed :: "string set \<Rightarrow> (event \<Rightarrow> string set) \<Rightarrow> history \<Rightarrow> bool" where
  "allowed A new h \<longleftrightarrow> (\<forall>h1 v b h2. h = h1 @ (DeleteVirtualMachine v, b) # h2 \<longrightarrow> v \<in> A \<union> deployed new h1)"

lemma allowed_snoc:
  "allowed A new (h @ [(e, b)]) \<longleftrightarrow>
     allowed A new h \<and> (\<forall>v. e = DeleteVirtualMachine v \<longrightarrow> v \<in> A \<union> deployed new h)"
  (is "?l \<longleftrightarrow> ?r")
proof
  assume l: ?l
  have "allowed A new h"
    unfolding allowed_def
  proof (intro allI impI)
    fix h1 v b' h2
    assume "h = h1 @ (DeleteVirtualMachine v, b') # h2"
    then show "v \<in> A \<union> deployed new h1"
      using l unfolding allowed_def by (metis append_Cons append_assoc)
  qed
  then show ?r using l unfolding allowed_def by blast
next
  assume ?r
  then show ?l
    unfolding allowed_def by (auto simp: append_eq_append_conv2 append_eq_Cons_conv Cons_eq_append_conv)
qed

lemma deployed_snoc: "deployed new (h @ [(e, b)]) = deployed new h \<union> (if b then new e else {})"
  by (auto simp: deployed_def)

lemma allowed_node_call:
  assumes "emits (deletes v) m" and "v \<in> A \<union> X"
  shows "triple (allowed A new) (\<lambda>h. X \<subseteq> deployed new h) m (\<lambda>_ h. X \<subseteq> deployed new h)"
  by (rule triple_emits [OF assms(1)])
    (use assms(2) in \<open>auto simp: deployed_snoc allowed_snoc deletes_def quiet_def\<close>)

lemma allowed_quiet_call:
  assumes "emits quiet m"
  shows "triple (allowed A new) (\<lambda>h. X \<subseteq> deployed new h) m (\<lambda>_ h. X \<subseteq> deployed new h)"
  by (rule triple_emits [OF assms])
    (auto simp: deployed_snoc allowed_snoc quiet_def)

lemma allowed_lift:
  "(\<And>x. r = Inr x \<Longrightarrow> triple I P (f x) Q) \<Longrightarrow> triple I P (bindIO (liftIO r) f) Q"
  by (cases r) (auto simp: triple_def bindIO_def liftIO_def)

lemma allowed_create:
  assumes "\<And>e. agent_vms pool name e \<subseteq> new e"
  shows "triple (allowed A new) (\<lambda>h. X \<subseteq> deployed new h) (Agent_CreateNode w pool un i)
    (\<lambda>_ h. insert (name i) X \<subseteq> deployed new h)"
  unfolding Agent_CreateNode_def
proof (intro allowed_lift triple_bind)
  fix p t
  assume p: "set_in (un_ParametersMap un) (pool @ ''Count'') [(''value'', JNum (i + 1))] = Inr p"
    and t: "set_in (un_TemplateMap un) ''variables'' [(pool @ ''Offset'', JNum i)] = Inr t"
  have "agent_vms pool name (DeployTemplate t p) = {name i}"
    using set_in_one [OF p] set_in_one [OF t] vm_range_one by simp
  then have "name i \<in> new (DeployTemplate t p)" using assms [of "DeployTemplate t p"] by auto
  then show "triple (allowed A new) (\<lambda>h. X \<subseteq> deployed new h) (call (c_ok w) (DeployTemplate t p))
      (\<lambda>_ h. insert (name i) X \<subseteq> deployed new h)"
    by (intro triple_call) (auto simp: allowed_snoc deployed_snoc no_scaling_def)
qed (auto intro: io_rules)

text \<open>The name that the code computes for the VM of an index.\<close>

definition name_of :: "upgrader \<Rightarrow> agent_pool_profile \<Rightarrow> int \<Rightarrow> string" where
  "name_of ku a i = (case GetK8sVMName (ku_rand ku) (ku_Properties ku) a i of Inr v \<Rightarrow> v | Inl _ \<Rightarrow> '''')"

definition old_in :: "string set \<Rightarrow> agent_map \<Rightarrow> bool" where
  "old_in A m \<longleftrightarrow> (\<forall>(i, vi) \<in> set m. vi_status vi = vmStatusNotUpgraded \<longrightarrow> vi_name vi \<in> A)"

lemma old_in_update:
  "old_in A m \<Longrightarrow> (vi_status vi = vmStatusNotUpgraded \<longrightarrow> vi_name vi \<in> A) \<Longrightarrow> old_in A (AList.update i vi m)"
  by (auto simp: old_in_def dest!: set_update_cases)

lemma add_validated_node:
  assumes new: "\<And>e. agent_vms pool name e \<subseteq> new e"
  shows "triple (allowed A new) (\<lambda>_. True)
    (bindIO (Agent_CreateNode w pool un i) (\<lambda>un. bindIO (Agent_Validate w un (name i)) (\<lambda>_. retIO (f un))))
    (\<lambda>r _. \<exists>un. r = f un)"
proof -
  have create: "triple (allowed A new) (\<lambda>_. True) (Agent_CreateNode w pool un i)
      (\<lambda>_ h. {name i} \<subseteq> deployed new h)"
    by (rule triple_weaken [OF allowed_create [OF new, where X = "{}"]]) auto
  have validate: "triple (allowed A new) (\<lambda>h. {name i} \<subseteq> deployed new h) (Agent_Validate w un (name i))
      (\<lambda>_ h. {name i} \<subseteq> deployed new h)" for un
    by (rule allowed_node_call [OF Agent_Validate_emits]) simp
  show ?thesis
    by (intro triple_bind [OF create] triple_bind [OF validate] triple_ret) auto
qed

lemma create_agent_allowed:
  assumes new: "\<And>e. agent_vms pool (name_of ku a) e \<subseteq> new e"
  shows "triple (allowed A new) (\<lambda>_. old_in A (pr_agentVMs pr)) (create_agent w ku a pool pr)
    (\<lambda>s _. old_in A (pr_agentVMs s))"
proof (rule triple_pre)
  assume old: "old_in A (pr_agentVMs pr)"
  show "triple (allowed A new) (\<lambda>_. old_in A (pr_agentVMs pr)) (create_agent w ku a pool pr)
      (\<lambda>s _. old_in A (pr_agentVMs s))"
    unfolding create_agent_def Let_def
  proof (rule allowed_lift)
    fix vmName
    assume "GetK8sVMName (ku_rand ku) (ku_Properties ku) a (getAvailableIndex (pr_agentVMs pr)) = Inr vmName"
    then have vmName: "vmName = name_of ku a (getAvailableIndex (pr_agentVMs pr))" by (simp add: name_of_def)
    show "triple (allowed A new) (\<lambda>_. old_in A (pr_agentVMs pr))
       (bindIO (Agent_CreateNode w pool (pr_node pr) (getAvailableIndex (pr_agentVMs pr))) (\<lambda>un.
        bindIO (Agent_Validate w un vmName) (\<lambda>_. retIO (pr\<lparr>pr_node := un,
          pr_newCreatedVMs := pr_newCreatedVMs pr @ [vmName],
          pr_agentVMs := AList.update (getAvailableIndex (pr_agentVMs pr))
            \<lparr>vi_name = vmName, vi_status = vmStatusUpgraded\<rparr> (pr_agentVMs pr)\<rparr>))))
       (\<lambda>s _. old_in A (pr_agentVMs s))"
      unfolding vmName
      by (rule triple_weaken [OF add_validated_node [where name = "name_of ku a", OF new]])
        (auto intro!: old_in_update old)
  qed
qed simp

lemma create_missing_allowed:
  assumes "\<And>e. agent_vms pool (name_of ku a) e \<subseteq> new e"
  shows "triple (allowed A new) (\<lambda>_. old_in A (pr_agentVMs pr)) (create_missing w ku a pool c todo up pr)
    (\<lambda>s _. old_in A (pr_agentVMs s))"
  using assms
proof (induction w ku a pool c todo up pr rule: create_missing.induct)
  case (1 w ku a pool c todo up pr)
  then show ?case
    by (cases "up + todo < c"; subst create_missing.simps)
      (auto intro!: triple_bind [OF create_agent_allowed] triple_ret)
qed

lemma check_upgraded_allowed:
  assumes "vm_ProvisioningState v = Some ''Failed'' \<Longrightarrow> vm_Name v \<in> A"
  shows "triple (allowed A new) (\<lambda>_. old_in A (pr_agentVMs pr)) (check_upgraded w pr v)
    (\<lambda>s _. old_in A (pr_agentVMs s))"
  unfolding check_upgraded_def
proof (rule allowed_lift, goal_cases)
  case (1 i)
  have delete: "triple (allowed A new) (\<lambda>_. old_in A (pr_agentVMs pr))
      (bindIO (Agent_DeleteNode w (pr_node pr) (vm_Name v) False) (\<lambda>_. retIO pr)) (\<lambda>s _. old_in A (pr_agentVMs s))"
    if "vm_ProvisioningState v = Some ''Failed''"
  proof (rule triple_pre)
    assume old: "old_in A (pr_agentVMs pr)"
    show "triple (allowed A new) (\<lambda>_. old_in A (pr_agentVMs pr))
      (bindIO (Agent_DeleteNode w (pr_node pr) (vm_Name v) False) (\<lambda>_. retIO pr)) (\<lambda>s _. old_in A (pr_agentVMs s))"
      by (rule triple_bind [OF triple_weaken [OF allowed_node_call [where X = "{}",
              OF Agent_DeleteNode_emits]]])
        (use assms [OF that] old in \<open>auto intro!: triple_ret\<close>)
  qed simp
  show ?case
    using delete by (auto simp: old_in_update split: option.splits intro!: triple_ret triple_case_bool)
qed

lemma add_not_upgraded_in:
  "foldR add_not_upgraded m vs = Inr m' \<Longrightarrow> old_in A m \<Longrightarrow> vm_Name ` set vs \<subseteq> A \<Longrightarrow> old_in A m'"
proof (induction vs arbitrary: m)
  case (Cons v vs)
  then obtain i where "foldR add_not_upgraded
      (AList.update i \<lparr>vi_name = vm_Name v, vi_status = vmStatusNotUpgraded\<rparr> m) vs = Inr m'"
    by (auto simp: add_not_upgraded_def [of m v] bindR_Inr_iff)
  then show ?case
    by (rule Cons.IH) (use Cons.prems in \<open>auto intro: old_in_update\<close>)
qed simp

lemma upgrade_agent_allowed:
  assumes new: "\<And>e. agent_vms pool (name_of ku a) e \<subseteq> new e"
    and vi: "vi_status vi = vmStatusNotUpgraded \<Longrightarrow> vi_name vi \<in> A"
  shows "triple (allowed A new) (\<lambda>_. True) (upgrade_agent w ku a pool todo pr (i, vi)) (\<lambda>_ _. True)"
proof (cases "vi_status vi = vmStatusNotUpgraded")
  case False
  then show ?thesis by (simp add: upgrade_agent_other triple_ret)
next
  case True
  have copy: "triple (allowed A new) (\<lambda>_. True) (tryIO (copyCustomPropertiesToNewNode w old' new')) (\<lambda>_ _. True)"
    for old' new'
    using allowed_quiet_call [OF emits_try [OF copy_properties_quiet], where X = "{}"]
    by simp
  have delete: "triple (allowed A new) (\<lambda>_. True) (Agent_DeleteNode w un (vi_name vi) True) (\<lambda>_ _. True)" for un
    using allowed_node_call [where X = "{}", OF Agent_DeleteNode_emits] vi [OF True] by simp
  have create: "triple (allowed A new) (\<lambda>_. True)
     (bindIO (Agent_CreateNode w pool un i) (\<lambda>un. bindIO (Agent_Validate w un vmName) (\<lambda>_. retIO (f un)))) (\<lambda>_ _. True)"
    if "GetK8sVMName (ku_rand ku) (ku_Properties ku) a i = Inr vmName" for un vmName f
  proof -
    have vmName: "vmName = name_of ku a i" using that by (simp add: name_of_def)
    show ?thesis
      unfolding vmName by (rule triple_weaken [OF add_validated_node [where name = "name_of ku a", OF new]]) simp_all
  qed
  show ?thesis
    unfolding upgrade_agent_def Let_def prod.case True not_not not_False_eq_True simp_thms if_False
    by (rule triple_bind [where R = "\<lambda>_ _. True"], fastforce split: list.splits intro!: io_rules triple_bind [OF copy] triple_case_bool)
      (rule triple_bind [OF delete] allowed_lift triple_bind [where R = "\<lambda>_ _. True"] triple_case_bool triple_ret create
        TrueI | assumption)+
qed

text \<open>What a deployment of one of the agent pools creates.\<close>

definition pool_vms :: "upgrader \<Rightarrow> event \<Rightarrow> string set" where
  "pool_vms ku e = (\<Union>a \<in> set (pools (ku_Properties ku)). agent_vms (ap_Name a) (name_of ku a) e)"

lemma pool_vms_find:
  "find_pool (ku_Properties ku) n = Some a \<Longrightarrow> agent_vms n (name_of ku a) e \<subseteq> pool_vms ku e"
proof -
  assume "find_pool (ku_Properties ku) n = Some a"
  then have "a \<in> set (pools (ku_Properties ku))" "ap_Name a = n"
    by (auto simp: find_pool_def find_Some_iff)
  then show ?thesis unfolding pool_vms_def by blast
qed

text \<open>The VMs of a pool that may be deleted: the old ones and those whose upgrade has failed.\<close>

definition replaceable :: "agent_pool_topology \<Rightarrow> string set" where
  "replaceable pool = vm_Name ` (set (apt_AgentVMs pool) \<union>
     {v \<in> set (apt_UpgradedAgentVMs pool). vm_ProvisioningState v = Some ''Failed''})"

lemma upgrade_pool_allowed:
  assumes A: "replaceable pool \<subseteq> A" and range: "\<And>m. set (ku_range ku m) = set m"
  shows "triple (allowed A (pool_vms ku)) (\<lambda>_. True) (upgrade_pool w ku pool) (\<lambda>_ _. True)"
proof -
  let ?I = "allowed A (pool_vms ku)"
  have quiet: "triple ?I (\<lambda>_. P) (call (c_ok w) GetKubernetesClient) (\<lambda>_ _. P)" for P
    by (intro triple_call) (auto simp: allowed_snoc no_scaling_def)
  have check: "triple ?I (\<lambda>_. True) (foldIO (check_upgraded w) pr (apt_UpgradedAgentVMs pool))
      (\<lambda>s _. old_in A (pr_agentVMs s))" if "pr_agentVMs pr = []" for pr
  proof -
    let ?us = "apt_UpgradedAgentVMs pool"
    have "triple ?I (\<lambda>_. old_in A (pr_agentVMs pr)) (foldIO (check_upgraded w) pr ?us)
        (\<lambda>s _. old_in A (pr_agentVMs s))"
    proof (rule triple_fold [where R = "\<lambda>s (_ :: vm list) _. old_in A (pr_agentVMs s)"])
      fix xs s v ys
      assume "?us = xs @ v # ys"
      then have "v \<in> set ?us" by simp
      then show "triple ?I (\<lambda>_. old_in A (pr_agentVMs s)) (check_upgraded w s v) (\<lambda>s _. old_in A (pr_agentVMs s))"
        by (intro check_upgraded_allowed) (use A in \<open>auto simp: replaceable_def\<close>)
    qed
    then show ?thesis using that by (simp add: old_in_def)
  qed
  have loop: "triple ?I (\<lambda>_. True) (foldIO (upgrade_agent w ku a (apt_Name pool) todo) s (ku_range ku m)) (\<lambda>_ _. True)"
    if "find_pool (ku_Properties ku) (apt_Name pool) = Some a" "old_in A m" for a todo s m
  proof (rule triple_fold [where R = "\<lambda>_ (_ :: (int \<times> vm_info) list) _. True"])
    fix xs s e ys
    assume "ku_range ku m = xs @ e # ys"
    then have "e \<in> set (ku_range ku m)" by simp
    moreover obtain i vi where e: "e = (i, vi)" by fastforce
    ultimately have "vi_name vi \<in> A" if "vi_status vi = vmStatusNotUpgraded"
      using \<open>old_in A m\<close> that unfolding old_in_def range by blast
    then show "triple ?I (\<lambda>_. True) (upgrade_agent w ku a (apt_Name pool) todo s e) (\<lambda>_ _. True)"
      unfolding e by (rule upgrade_agent_allowed [OF pool_vms_find [OF that(1)]])
  qed
  have pool: "triple ?I (\<lambda>_. old_in A (pr_agentVMs s))
     (bindIO (liftIO (foldR add_not_upgraded (pr_agentVMs s) (apt_AgentVMs pool))) (\<lambda>vms.
      bindIO (liftIO (deref (p_MasterProfile (ku_Properties ku)))) (\<lambda>_.
      bindIO (call (c_ok w) GetKubernetesClient) (\<lambda>_.
      bindIO (create_missing w ku a (apt_Name pool) c todo (pr_upgradedCount s) (s\<lparr>pr_agentVMs := vms\<rparr>)) (\<lambda>pr.
        if todo = 0 then retIO True
        else bindIO (foldIO (upgrade_agent w ku a (apt_Name pool) todo) (pr\<lparr>pr_upgradedCount := 0\<rparr>)
          (ku_range ku (pr_agentVMs pr))) (\<lambda>_. retIO True)))))) (\<lambda>_ _. True)"
    if a: "find_pool (ku_Properties ku) (apt_Name pool) = Some a" for a c todo s
  proof (rule triple_pre, assumption, intro allowed_lift)
    fix m
    assume old: "old_in A (pr_agentVMs s)" and m: "foldR add_not_upgraded (pr_agentVMs s) (apt_AgentVMs pool) = Inr m"
    have m_old: "old_in A m"
      by (rule add_not_upgraded_in [OF m old]) (use A in \<open>auto simp: replaceable_def\<close>)
    have missing: "triple ?I (\<lambda>_. True) (create_missing w ku a (apt_Name pool) c todo (pr_upgradedCount s) (s\<lparr>pr_agentVMs := m\<rparr>))
        (\<lambda>s _. old_in A (pr_agentVMs s))"
      by (rule triple_weaken [OF create_missing_allowed]) (use m_old pool_vms_find [OF a] in auto)
    have rest: "triple ?I (\<lambda>_. old_in A (pr_agentVMs pr)) (if todo = 0 then retIO True
        else bindIO (foldIO (upgrade_agent w ku a (apt_Name pool) todo) (pr\<lparr>pr_upgradedCount := 0\<rparr>)
          (ku_range ku (pr_agentVMs pr))) (\<lambda>_. retIO True)) (\<lambda>_ _. True)" for pr
    proof (rule triple_pre, assumption)
      assume "old_in A (pr_agentVMs pr)"
      from loop [OF a this] show "triple ?I (\<lambda>_. old_in A (pr_agentVMs pr)) (if todo = 0 then retIO True
        else bindIO (foldIO (upgrade_agent w ku a (apt_Name pool) todo) (pr\<lparr>pr_upgradedCount := 0\<rparr>)
          (ku_range ku (pr_agentVMs pr))) (\<lambda>_. retIO True)) (\<lambda>_ _. True)"
        by (intro triple_case_bool triple_ret triple_bind [where R = "\<lambda>_ _. True"]) (auto intro: triple_weaken)
    qed
    show "triple ?I (\<lambda>_. old_in A (pr_agentVMs s)) (bindIO (call (c_ok w) GetKubernetesClient) (\<lambda>_.
      bindIO (create_missing w ku a (apt_Name pool) c todo (pr_upgradedCount s) (s\<lparr>pr_agentVMs := m\<rparr>)) (\<lambda>pr.
        if todo = 0 then retIO True
        else bindIO (foldIO (upgrade_agent w ku a (apt_Name pool) todo) (pr\<lparr>pr_upgradedCount := 0\<rparr>)
          (ku_range ku (pr_agentVMs pr))) (\<lambda>_. retIO True)))) (\<lambda>_ _. True)"
      by (rule triple_weaken [OF triple_bind [OF quiet [of True] triple_bind [OF missing rest]]]) simp_all
  qed
  note start = triple_bind [where R = "\<lambda>_ _. True", OF triple_answer]
  show ?thesis
  proof (cases "find_pool (ku_Properties ku) (apt_Name pool)")
    case None
    show ?thesis
      unfolding upgrade_pool_def Let_def case_prod_beta None option.case
      by (intro start allowed_lift triple_ret) simp_all
  next
    case (Some a)
    show ?thesis
      unfolding upgrade_pool_def Let_def case_prod_beta Some option.case
      by (intro start allowed_lift triple_case_bool triple_ret triple_bind [OF check pool [OF Some]]) simp_all
  qed
qed

lemma upgradeAgentPools_allowed:
  assumes "(\<Union>pool \<in> set ps. replaceable pool) \<subseteq> A" and "\<And>m. set (ku_range ku m) = set m"
  shows "triple (allowed A (pool_vms ku)) (\<lambda>_. True) (upgradeAgentPools w ku ps) (\<lambda>_ _. True)"
  using assms(1)
proof (induction ps)
  case (Cons p ps)
  have "triple (allowed A (pool_vms ku)) (\<lambda>_. True) (upgrade_pool w ku p) (\<lambda>_ _. True)"
    by (rule upgrade_pool_allowed [OF _ assms(2)]) (use Cons.prems in auto)
  then show ?case
    using Cons by (auto intro!: triple_bind triple_ret)
qed (simp add: triple_ret)

lemma allowed_silent:
  assumes "emits (\<lambda>e. \<forall>v. e \<noteq> DeleteVirtualMachine v) m"
  shows "triple (allowed A new) (\<lambda>_. True) m (\<lambda>_ _. True)"
  by (rule triple_emits [OF assms]) (auto simp: allowed_snoc)

lemma upgradeMasterNodes_allowed:
  assumes "vm_Name ` set (t_MasterVMs (ku_Topology ku)) \<subseteq> A"
  shows "triple (allowed A new) (\<lambda>_. True) (upgradeMasterNodes w ku) (\<lambda>_ _. True)"
proof -
  let ?I = "allowed A new"
  have create: "triple ?I (\<lambda>_. True) (Master_CreateNode w un i) (\<lambda>_ _. True)" for un i
    by (rule allowed_silent) (auto simp: Master_CreateNode_def intro!: io_rules)
  have validate: "triple ?I (\<lambda>_. True) (Master_Validate w un v) (\<lambda>_ _. True)" for un v
    by (rule allowed_silent, rule emits_weaken [OF Master_Validate_emits]) (auto simp: quiet_def)
  have creates: "triple ?I (\<lambda>_. True) (foldIO (create_master w) st ns) (\<lambda>_ _. True)" for st ns
    by (rule triple_fold [where R = "\<lambda>_ (_ :: nat list) _. True"])
      (auto simp: create_master_def Let_def split: prod.splits
        intro!: triple_bind [OF create] triple_bind [OF validate] triple_ret)
  have upgrades: "triple ?I (\<lambda>_. True) (foldIO (upgrade_master w) un (t_MasterVMs (ku_Topology ku))) (\<lambda>_ _. True)" for un
  proof (rule triple_fold [where R = "\<lambda>_ (_ :: vm list) _. True"])
    fix xs un v ys
    assume "t_MasterVMs (ku_Topology ku) = xs @ v # ys"
    then have v: "vm_Name v \<in> A" using assms by auto
    have "triple ?I (\<lambda>_. True) (Master_DeleteNode w (vm_Name v)) (\<lambda>_ _. True)"
      using allowed_node_call [where X = "{}", OF CleanDelete_emits] v
      by (simp add: Master_DeleteNode_def)
    then show "triple ?I (\<lambda>_. True) (upgrade_master w un v) (\<lambda>_ _. True)"
      unfolding upgrade_master_def
      by (intro allowed_lift triple_bind [where R = "\<lambda>_ _. True"] create validate triple_ret) simp_all
  qed
  show ?thesis
    unfolding upgradeMasterNodes_def Let_def case_prod_beta
    by (auto split: option.splits intro!: triple_bind [where R = "\<lambda>_ _. True", OF triple_answer] allowed_lift
      triple_ret triple_fail triple_case_bool triple_bind [OF creates] triple_bind [OF upgrades])
qed

text \<open>The VMs of a topology that an upgrade may delete.\<close>

definition replaceable_vms :: "topology \<Rightarrow> string set" where
  "replaceable_vms t = vm_Name ` set (t_MasterVMs t) \<union> (\<Union>pool \<in> snd ` set (t_AgentPools t). replaceable pool)"

definition control_plane_call :: "event \<Rightarrow> bool" where
  "control_plane_call e \<longleftrightarrow> no_scaling e \<and> (\<forall>v. e \<noteq> DeleteVirtualMachine v)"

lemma checks_emit:
  "emits control_plane_call (validatePodSecurityPolices w ku)" "emits control_plane_call (handleUnreconcilableAddons w ku)"
  unfolding validatePodSecurityPolices_def handleUnreconcilableAddons_def Let_def
  by (auto simp: control_plane_call_def no_scaling_def intro!: io_rules)

lemma RunUpgrade_allowed:
  assumes "replaceable_vms (ku_Topology ku) \<subseteq> A" and "\<And>m. set (ku_range ku m) = set m"
  shows "triple (allowed A (pool_vms ku)) (\<lambda>_. True) (RunUpgrade w ku) (\<lambda>_ _. True)"
proof -
  let ?I = "allowed A (pool_vms ku)"
  have silent: "triple ?I (\<lambda>_. True) m (\<lambda>_ _. True)" if "emits control_plane_call m" for m :: "unit io"
    by (rule allowed_silent [OF emits_weaken [OF that]]) (simp add: control_plane_call_def)
  have psp: "emits control_plane_call (catchIO (validatePodSecurityPolices w ku)
      (\<lambda>err. if ku_Force ku then retIO () else failIO err))"
    by (auto intro!: emits_catch checks_emit io_rules)
  have masters: "triple ?I (\<lambda>_. True) (upgradeMasterNodes w ku) (\<lambda>_ _. True)"
    by (rule upgradeMasterNodes_allowed) (use assms(1) in \<open>auto simp: replaceable_vms_def\<close>)
  have agents: "triple ?I (\<lambda>_. True) (upgradeAgentPools w ku (map snd (t_AgentPools (ku_Topology ku)))) (\<lambda>_ _. True)"
    by (rule upgradeAgentPools_allowed [OF _ assms(2)]) (use assms(1) in \<open>auto simp: replaceable_vms_def\<close>)
  show ?thesis
    unfolding RunUpgrade_def
    by (intro triple_bind [OF silent [OF psp]] allowed_lift triple_bind [OF masters]
      triple_bind [OF silent [OF checks_emit(2)]] triple_case_bool triple_ret agents) simp
qed

subsection \<open>What an upgrade deletes\<close>

lemma set_node_vms:
  assumes "set_node uc goal t v = Inr t'"
  shows "upgrade_vms t' \<union> finished_vms t' \<subseteq> insert v (upgrade_vms t \<union> finished_vms t)"
proof -
  consider "t' = t" | "addVMToUpgradeSets v t = Inr t'" | "addVMToFinishedSets v t = Inr t'"
    using assms by (auto simp: set_node_def Let_def bindR_Inr_iff split: if_splits)
  then show ?thesis
    by cases (use addVMToUpgradeSets_sets(1,2) [of v t t'] addVMToFinishedSets_sets(1,2) [of v t t'] in auto)
qed

lemma sorted_vms:
  "foldR (set_node uc goal) t vms = Inr t' \<Longrightarrow>
     upgrade_vms t' \<union> finished_vms t' \<subseteq> set vms \<union> (upgrade_vms t \<union> finished_vms t)"
proof (induction vms arbitrary: t)
  case (Cons v vms)
  then obtain u where u: "set_node uc goal t v = Inr u" "foldR (set_node uc goal) u vms = Inr t'"
    by (auto simp: bindR_Inr_iff)
  then show ?case using set_node_vms [OF u(1)] Cons.IH [OF u(2)] by auto
qed simp

lemma replaceable_vms_sorted:
  "replaceable_vms t \<subseteq> vm_Name ` (upgrade_vms t \<union> {v \<in> finished_vms t. vm_ProvisioningState v = Some ''Failed''})"
  unfolding replaceable_vms_def replaceable_def upgrade_vms_def finished_vms_def by fastforce

text \<open>
  A VM that an upgrade without \<open>--force\<close> has a reason to replace: its version is known and the goal is
  an available upgrade of it, or it runs the goal already but its provisioning has failed.
\<close>

definition outdated :: "upgrade_cluster \<Rightarrow> string \<Rightarrow> vm \<Rightarrow> bool" where
  "outdated uc goal v \<longleftrightarrow>
     vm_version uc v \<notin> {'''', goal} \<and> upgradable (uc_Properties uc) (vm_version uc v) = Inr () \<or>
     vm_version uc v = goal \<and> vm_ProvisioningState v = Some ''Failed''"

lemma replaceable_vms_outdated:
  assumes "setNodesToUpgrade uc (Inr vms) (fresh_topology suffix todo) = Inr t"
    and "\<not> uc_Force uc" and "goal_version uc = Inr goal"
  shows "replaceable_vms t \<subseteq> vm_Name ` {v \<in> set vms. outdated uc goal v}"
proof -
  have "upgrade_vms t \<union> finished_vms t \<subseteq> set vms"
    using sorted_vms [OF setNodes_fold [OF assms(1,3)]]
    by (simp add: fresh_topology_def upgrade_vms_def finished_vms_def)
  moreover have "sorted_by_version uc goal t" by (rule setNodes_sorted [OF assms])
  ultimately have "upgrade_vms t \<union> {v \<in> finished_vms t. vm_ProvisioningState v = Some ''Failed''} \<subseteq>
      {v \<in> set vms. outdated uc goal v}"
    unfolding sorted_by_version_def outdated_def by auto
  then show ?thesis using replaceable_vms_sorted [of t] by blast
qed

lemma triple_defer:
  assumes "triple I P m (\<lambda>_ _. True)" and "triple I (\<lambda>_. True) f (\<lambda>_ _. True)"
  shows "triple I P (deferIO m f) (\<lambda>_ _. True)"
  using assms unfolding triple_def deferIO_def by (fastforce split: prod.splits)

lemma emits_defer [io_rules]:
  assumes "emits A m" and "emits A f"
  shows "emits A (deferIO m f)"
  unfolding emits_def
proof
  fix h
  obtain es where es: "snd (m h) = h @ es" "\<forall>e \<in> set es. A (fst e)"
    using assms(1) by (auto simp: emits_def)
  obtain fs where fs: "snd (f (h @ es)) = (h @ es) @ fs" "\<forall>e \<in> set fs. A (fst e)"
    using assms(2) unfolding emits_def by blast
  have "snd (deferIO m f h) = h @ (es @ fs)"
    using es(1) fs(1) by (simp add: deferIO_def case_prod_beta)
  then show "\<exists>es. snd (deferIO m f h) = h @ es \<and> (\<forall>e \<in> set es. A (fst e))"
    using es(2) fs(2) by (metis Un_iff set_append)
qed

lemma set_replica_count_emits: "emits (\<lambda>e. \<forall>v. e \<noteq> DeleteVirtualMachine v) (set_replica_count a client n)"
  unfolding set_replica_count_def by (auto intro!: io_rules split: sum.splits)

lemma check_control_plane_silent: "emits (\<lambda>_. False) (check_control_plane a client t)"
  unfolding check_control_plane_def by (auto intro!: io_rules)

lemma pool_vms_workflow: "pool_vms (getUpgradeWorkflow r t) = pool_vms (getUpgradeWorkflow r t')"
proof -
  have name: "name_of (getUpgradeWorkflow r t) = name_of (getUpgradeWorkflow r t')"
    by (simp add: name_of_def getUpgradeWorkflow_def fun_eq_iff)
  show ?thesis unfolding pool_vms_def name by (simp add: getUpgradeWorkflow_def)
qed

text \<open>The cluster as seen with or without a client of the API server.\<close>

definition seen_cluster :: "upgrade_request \<Rightarrow> bool \<Rightarrow> upgrade_cluster" where
  "seen_cluster r client = (if client then ur_cluster r else (ur_cluster r)\<lparr>uc_kubelet := None\<rparr>)"

lemma seen_cluster_fields:
  "uc_Force (seen_cluster r client) = uc_Force (ur_cluster r)"
  "goal_version (seen_cluster r client) = goal_version (ur_cluster r)"
  by (simp_all add: seen_cluster_def goal_version_def)

lemma UpgradeCluster_allowed:
  assumes force: "\<not> uc_Force (ur_cluster r)" and goal: "goal_version (ur_cluster r) = Inr goal"
    and range: "\<And>m. set (ur_range r m) = set m" "\<And>ps. set (ur_pool_range r ps) = set ps"
    and A: "\<And>h client. vm_Name ` {v \<in> set (ca_VMs a h). outdated (seen_cluster r client) goal v} \<subseteq> A"
  shows "triple (allowed A (pool_vms (getUpgradeWorkflow r t0))) (\<lambda>_. True) (UpgradeCluster w a az r) (\<lambda>_ _. True)"
proof -
  let ?new = "pool_vms (getUpgradeWorkflow r t0)"
  let ?I = "allowed A ?new"
  have silent: "triple ?I (\<lambda>_. True) m (\<lambda>_ _. True)" if "emits (\<lambda>e. \<forall>v. e \<noteq> DeleteVirtualMachine v) m"
    for m :: "'a io" by (rule allowed_silent [OF that])
  have run: "triple ?I (\<lambda>_. True) (RunUpgrade w (getUpgradeWorkflow r t)) (\<lambda>_ _. True)"
    if "setNodesToUpgrade (seen_cluster r client) (Inr (ca_VMs a h))
         (fresh_topology (ur_NameSuffix r) (ur_AgentPoolsToUpgrade r)) = Inr t" for client h t
  proof -
    have "replaceable_vms (ku_Topology (getUpgradeWorkflow r t)) = replaceable_vms t"
      by (simp add: getUpgradeWorkflow_def replaceable_vms_def range(2))
    then have "replaceable_vms (ku_Topology (getUpgradeWorkflow r t)) \<subseteq> A"
      using replaceable_vms_outdated [OF that] A [of h client] force goal by (auto simp: seen_cluster_fields)
    moreover have "set (ku_range (getUpgradeWorkflow r t) m) = set m" for m
      using range(1) by (simp add: getUpgradeWorkflow_def)
    ultimately show ?thesis
      using RunUpgrade_allowed [of "getUpgradeWorkflow r t" A w]
      unfolding pool_vms_workflow [of r t t0] by simp
  qed
  have scale: "triple ?I (\<lambda>_. True) (set_replica_count a c n) (\<lambda>_ _. True)" for c n
    by (rule silent [OF set_replica_count_emits])
  let ?run = "\<lambda>client t. bindIO (liftIO (autoscaled r)) (\<lambda>enabled.
        if enabled \<and> \<not> ur_ControlPlaneOnly r then
          bindIO (tryIO (set_replica_count a client 0)) (\<lambda>paused. case paused of
            None \<Rightarrow> if uc_Force (seen_cluster r client) then RunUpgrade w (getUpgradeWorkflow r t)
              else failIO (Err ''Failed to pause cluster-autoscaler'')
          | Some replicas \<Rightarrow> deferIO (RunUpgrade w (getUpgradeWorkflow r t)) (set_replica_count a client replicas))
        else RunUpgrade w (getUpgradeWorkflow r t))"
  have rest: "triple ?I (\<lambda>_. True) (bindIO (check_control_plane a client t) (\<lambda>_. ?run client t)) (\<lambda>_ _. True)"
    if t: "setNodesToUpgrade (seen_cluster r client) (Inr (ca_VMs a h))
         (fresh_topology (ur_NameSuffix r) (ur_AgentPoolsToUpgrade r)) = Inr t" for client h t
  proof (rule triple_bind [OF silent [OF emits_weaken [OF check_control_plane_silent]]])
    have pause: "triple ?I (\<lambda>_. True) (tryIO (set_replica_count a client 0)) (\<lambda>_ _. True)"
      by (rule silent [OF emits_try [OF set_replica_count_emits]])
    show "triple ?I (\<lambda>_. True) (?run client t) (\<lambda>_ _. True)" for x
      by (intro allowed_lift triple_case_bool run [OF t] triple_bind [OF pause])
        (auto split: option.splits intro!: triple_fail triple_defer run [OF t] scale)
  qed simp
  have client: "triple ?I (\<lambda>_. True) (if az then tryIO (call (c_ok w) GetKubernetesClient) else retIO None) (\<lambda>_ _. True)"
    and listing: "triple ?I (\<lambda>_. True) (call (c_ok w) ListVirtualMachines) (\<lambda>_ _. True)"
    by (rule silent, auto intro!: io_rules)+
  have vms: "triple ?I (\<lambda>_. True) (answer (ca_VMs a)) (\<lambda>vms _. \<exists>h0. vms = ca_VMs a h0)"
    by (rule triple_answer) blast
  have sorted: "triple ?I (\<lambda>_. \<exists>h0. vms = ca_VMs a h0) (bindIO (liftIO (setNodesToUpgrade (seen_cluster r client)
      (Inr vms) (fresh_topology (ur_NameSuffix r) (ur_AgentPoolsToUpgrade r))))
      (\<lambda>t. bindIO (check_control_plane a client t) (\<lambda>_. ?run client t))) (\<lambda>_ _. True)" for vms client
    by (rule triple_pre, assumption, elim exE, intro allowed_lift, rule triple_weaken [OF rest]) simp_all
  show ?thesis
    unfolding UpgradeCluster_def Let_def seen_cluster_def [symmetric]
    by (intro triple_bind [OF client] triple_bind [OF listing] triple_bind [OF vms sorted] allowed_lift)
qed

text \<open>A cluster with one control plane VM and the autoscaler, which has three replicas.\<close>

definition example_request :: upgrade_request where
  "example_request = \<lparr>ur_cluster = \<lparr>uc_Properties = (uc_Properties example_upgrade)\<lparr>p_ClusterID := ''11290731'',
       p_OrchestratorProfile := Some (zero_orchestrator_profile\<lparr>op_OrchestratorType := Kubernetes,
         op_OrchestratorVersion := ''1.29.10'', op_KubernetesConfig := Some (zero_kubernetes_config\<lparr>kc_Addons :=
           [zero_addon\<lparr>ad_Name := ClusterAutoscalerAddonName, ad_Enabled := Some True\<rparr>]\<rparr>)\<rparr>),
       p_MasterProfile := Some (zero_master_profile\<lparr>mp_Count := 1\<rparr>)\<rparr>, uc_Force = False, uc_kubelet = None\<rparr>,
     ur_NameSuffix = ''11290731'', ur_AgentPoolsToUpgrade = [(''master'', True)], ur_ControlPlaneOnly = False,
     ur_CurrentVersion = ''1.28.15'', ur_rand = (\<lambda>_. 0), ur_range = (\<lambda>m. m),
     ur_pool_range = (\<lambda>ps. ps)\<rparr>"

definition example_api :: cluster_api where
  "example_api = \<lparr>ca_VMs = (\<lambda>_. [example_master]), ca_polls = (\<lambda>_ _. Some []), ca_received = (\<lambda>_. 15),
     ca_replicas = (\<lambda>_ n. (Some 3, True))\<rparr>"

definition example_sorting :: topology where
  "example_sorting = (fresh_topology ''11290731'' [(''master'', True)])\<lparr>t_MasterVMs := [example_master]\<rparr>"

lemma upgradable_cong:
  assumes "p_OrchestratorProfile p = Some a" and "p_OrchestratorProfile q = Some b"
    and "op_OrchestratorVersion a = op_OrchestratorVersion b" and "HasWindows p = HasWindows q"
    and "IsAzureStackCloud p = IsAzureStackCloud q"
  shows "upgradable p v = upgradable q v"
  using assms by (simp add: upgradable_def cong: if_cong)

lemma example_request_facts:
  "vm_version (seen_cluster example_request True) example_master = ''1.28.15''"
  "upgradable (uc_Properties (ur_cluster example_request)) ''1.28.15'' = Inr ()"
  "goal_version (ur_cluster example_request) = Inr ''1.29.10''" "\<not> uc_Force (ur_cluster example_request)"
  "autoscaled example_request = Inr True"
proof -
  show "vm_version (seen_cluster example_request True) example_master = ''1.28.15''"
    by (simp add: vm_version_def getNodeVersion_def example_master_def seen_cluster_def example_request_def)
  show "goal_version (ur_cluster example_request) = Inr ''1.29.10''" "\<not> uc_Force (ur_cluster example_request)"
    by (simp_all add: goal_version_def example_request_def)
  show "upgradable (uc_Properties (ur_cluster example_request)) ''1.28.15'' = Inr ()"
    unfolding example_upgradable [symmetric]
    by (rule upgradable_cong [where a = "the (p_OrchestratorProfile (uc_Properties (ur_cluster example_request)))"
          and b = "the (p_OrchestratorProfile (uc_Properties example_upgrade))"]) (simp_all add: example_request_def example_upgrade_def HasWindows_def pools_def
        IsAzureStackCloud_def)
  show "autoscaled example_request = Inr True" by code_simp
qed

lemma example_request_sorted:
  "setNodesToUpgrade (seen_cluster example_request True) (Inr [example_master])
     (fresh_topology ''11290731'' [(''master'', True)]) = Inr example_sorting"
  using example_request_facts example_names
  by (simp add: setNodesToUpgrade_def set_node_def in_cluster_def seen_cluster_fields Let_def
      addVMToUpgradeSets_def fresh_topology_def example_sorting_def)
    (simp add: seen_cluster_def)

lemma set_replica_count_cases:
  "set_replica_count a client n h = (if \<not> client then (Inl (Err ''no kubernetes client''), h)
     else case SetClusterAutoscalerReplicaCount (Some (ca_replicas a h)) of
       Inr c \<Rightarrow> (Inr c, h @ [(UpdateReplicas n, True)])
     | Inl e \<Rightarrow> (Inl e, h @ [(UpdateReplicas n, False)]))"
  by (auto simp: set_replica_count_def bindIO_def answer_def failIO_def call_def retIO_def tryIO_def
      split: sum.splits)

text \<open>The calls before the run and the run itself.\<close>

definition example_start :: history where
  "example_start = [(GetKubernetesClient, True), (ListVirtualMachines, True), (UpdateReplicas 0, True)]"

lemma set_replica_count_event: "\<exists>b. snd (set_replica_count a True n h) = h @ [(UpdateReplicas n, b)]"
  by (auto simp: set_replica_count_cases split: sum.splits)

lemma example_count: "SetClusterAutoscalerReplicaCount (Some (ca_replicas example_api h)) = Inr 3"
  by (simp add: example_api_def SetClusterAutoscalerReplicaCount_def eval_nat_numeral)

lemma example_run:
  "UpgradeCluster upgrade_cloud example_api True example_request [] =
     deferIO (RunUpgrade upgrade_cloud (getUpgradeWorkflow example_request example_sorting))
       (set_replica_count example_api True 3) example_start"
proof -
  have ok: "c_ok upgrade_cloud h e" for h e by (simp add: upgrade_cloud_def example_cloud_def)
  have control_plane: "check_control_plane example_api True example_sorting h = (Inr (), h)" for h
    by (simp add: check_control_plane_def example_sorting_def fresh_topology_def bindIO_def answer_def liftIO_def
        checkControlPlaneNodesStatus_def)
  have pause: "tryIO (set_replica_count example_api True 0) h = (Inr (Some 3), h @ [(UpdateReplicas 0, True)])" for h
    by (simp add: set_replica_count_cases example_count tryIO_def)
  have vms: "ca_VMs example_api h = [example_master]" for h by (simp add: example_api_def)
  have request: "ur_NameSuffix example_request = ''11290731''"
    "ur_AgentPoolsToUpgrade example_request = [(''master'', True)]" "\<not> ur_ControlPlaneOnly example_request"
    by (simp_all add: example_request_def)
  show ?thesis
    unfolding UpgradeCluster_def seen_cluster_def [symmetric]
    by (simp add: bindIO_def tryIO_def [of "call _ _"] call_def ok liftIO_def answer_def Let_def
        seen_cluster_fields example_request_facts vms request example_request_sorted control_plane pause
        example_start_def)
qed

lemma example_calls:
  "let (r, h) = RunUpgrade upgrade_cloud (getUpgradeWorkflow example_request example_sorting) example_start
   in r = Inr () \<and> list_ex (\<lambda>e. e = (DeleteVirtualMachine ''k8s-master-11290731-0'', True)) h"
proof -
  let ?ku = "getUpgradeWorkflow example_request example_sorting"
  have version: "ku_CurrentVersion ?ku = ''1.28.15''" "p_MasterProfile (ku_Properties ?ku) \<noteq> None"
      "\<not> ku_ControlPlaneOnly ?ku" "upgrade_version ?ku = Inr ''1.29.10''" "t_AgentPools (ku_Topology ?ku) = []"
    by (simp_all add: getUpgradeWorkflow_def example_request_def upgrade_version_def example_sorting_def fresh_topology_def)
  have "IsKubernetesVersionGe ''1.28.15'' ''1.25.0''" "IsKubernetesVersionGe ''1.28.15'' ''1.16.0''"
    by (simp_all add: IsKubernetesVersionGe_def compare_eval)
  then have run: "RunUpgrade upgrade_cloud ?ku = bindIO (upgradeMasterNodes upgrade_cloud ?ku) retIO"
    using version
    by (auto simp: RunUpgrade_def validatePodSecurityPolices_def PodSecurityPolicyRemovedVersion_def
        handleUnreconcilableAddons_def fun_eq_iff bindIO_def liftIO_def catchIO_def retIO_def Let_def
        split: sum.splits prod.splits)
  have "fst (upgradeMasterNodes upgrade_cloud ?ku example_start) = Inr ()"
    "list_ex (\<lambda>e. e = (DeleteVirtualMachine ''k8s-master-11290731-0'', True))
       (snd (upgradeMasterNodes upgrade_cloud ?ku example_start))"
    by code_simp+
  then show ?thesis
    unfolding run by (auto simp: Let_def bindIO_def retIO_def split: prod.splits)
qed

text \<open>
  C5: without \<open>--force\<close>, whatever the services answer, an upgrade deletes only VMs that the resource
  group lists with a reason to replace them, and VMs that the same run has deployed before.\<close>

theorem upgrade_replaces_only_outdated_vms:
  assumes "\<not> uc_Force (ur_cluster r)" and "goal_version (ur_cluster r) = Inr goal"
    and "\<And>m. set (ur_range r m) = set m" and "\<And>ps. set (ur_pool_range r ps) = set ps"
    and "UpgradeCluster w a az r [] = (res, h1 @ (DeleteVirtualMachine v, ok) # h2)"
  shows "(\<exists>h0 uc vm. vm \<in> set (ca_VMs a h0) \<and> vm_Name vm = v \<and> outdated uc goal vm \<and>
            (uc = ur_cluster r \<or> uc = (ur_cluster r)\<lparr>uc_kubelet := None\<rparr>)) \<or>
         v \<in> deployed (pool_vms (getUpgradeWorkflow r (fresh_topology suffix todo))) h1"
proof -
  let ?A = "{vm_Name vm |vm h0 client. vm \<in> set (ca_VMs a h0) \<and> outdated (seen_cluster r client) goal vm}"
  let ?new = "pool_vms (getUpgradeWorkflow r (fresh_topology suffix todo))"
  have "triple (allowed ?A ?new) (\<lambda>_. True) (UpgradeCluster w a az r) (\<lambda>_ _. True)"
    by (rule UpgradeCluster_allowed [OF assms(1-4)]) blast
  then have "\<forall>n. allowed ?A ?new (take n (snd (UpgradeCluster w a az r [])))"
    by (rule triple_run [THEN conjunct1]) (simp_all add: allowed_def)
  then have "allowed ?A ?new (take (length (h1 @ (DeleteVirtualMachine v, ok) # h2)) (h1 @ (DeleteVirtualMachine v, ok) # h2))"
    unfolding assms(5) snd_conv by (rule spec)
  then have "allowed ?A ?new (h1 @ (DeleteVirtualMachine v, ok) # h2)"
    unfolding take_all [OF order_refl] .
  then have "v \<in> ?A \<union> deployed ?new h1" unfolding allowed_def by blast
  then show ?thesis
  proof
    assume "v \<in> ?A"
    then obtain vm h0 client where "vm \<in> set (ca_VMs a h0)" "vm_Name vm = v" "outdated (seen_cluster r client) goal vm"
      by blast
    moreover have "seen_cluster r client = ur_cluster r \<or> seen_cluster r client = (ur_cluster r)\<lparr>uc_kubelet := None\<rparr>"
      by (simp add: seen_cluster_def)
    ultimately show ?thesis by blast
  qed blast
qed

theorem upgrade_replaces_only_outdated_vms_witness:
  "\<exists>res h1 h2. UpgradeCluster upgrade_cloud example_api True example_request [] =
       (res, h1 @ (DeleteVirtualMachine ''k8s-master-11290731-0'', True) # h2) \<and>
     ((\<exists>h0 uc vm. vm \<in> set (ca_VMs example_api h0) \<and> vm_Name vm = ''k8s-master-11290731-0'' \<and>
         outdated uc ''1.29.10'' vm) \<or>
      ''k8s-master-11290731-0'' \<in>
        deployed (pool_vms (getUpgradeWorkflow example_request (fresh_topology ''11290731'' []))) h1)"
proof -
  have "(DeleteVirtualMachine ''k8s-master-11290731-0'', True) \<in>
      set (snd (UpgradeCluster upgrade_cloud example_api True example_request []))"
    using example_calls
    by (auto simp: example_run deferIO_def Let_def list_ex_iff set_replica_count_cases example_count split: prod.splits)
  then obtain h1 h2 where "snd (UpgradeCluster upgrade_cloud example_api True example_request []) =
      h1 @ (DeleteVirtualMachine ''k8s-master-11290731-0'', True) # h2"
    by (metis split_list)
  then have run: "UpgradeCluster upgrade_cloud example_api True example_request [] =
      (fst (UpgradeCluster upgrade_cloud example_api True example_request []),
       h1 @ (DeleteVirtualMachine ''k8s-master-11290731-0'', True) # h2)"
    by (metis prod.collapse)
  have "set (ur_range example_request m) = set m" "set (ur_pool_range example_request ps) = set ps" for m ps
    by (simp_all add: example_request_def)
  from upgrade_replaces_only_outdated_vms [OF example_request_facts(4,3) this run] run show ?thesis by blast
qed

subsection \<open>The cluster autoscaler\<close>

lemma create_no_scaling:
  "emits no_scaling (Agent_CreateNode w pool un i)" "emits no_scaling (Master_CreateNode w un i)"
  "emits no_scaling (Master_DeleteNode w v)"
  unfolding Agent_CreateNode_def Master_CreateNode_def Master_DeleteNode_def
  by (auto simp: no_scaling_def [of "DeployTemplate _ _"] intro!: io_rules CleanDelete_no_scaling)

lemma create_missing_no_scaling: "emits no_scaling (create_missing w ku a pool c todo up pr)"
proof (induction w ku a pool c todo up pr rule: create_missing.induct)
  case (1 w ku a pool c todo up pr)
  have "emits no_scaling (create_agent w ku a pool pr)"
    unfolding create_agent_def Let_def by (intro io_rules create_no_scaling node_no_scaling)
  then show ?case
    by (cases "up + todo < c"; subst create_missing.simps) (use 1 in \<open>auto intro!: io_rules\<close>)
qed

lemma upgrade_pool_no_scaling: "emits no_scaling (upgrade_pool w ku pool)"
proof -
  have check: "emits no_scaling (check_upgraded w pr v)" for pr v
    unfolding check_upgraded_def by (auto split: option.splits intro!: io_rules node_no_scaling)
  have agent: "emits no_scaling (upgrade_agent w ku a n todo pr e)" for a n todo pr e
    unfolding upgrade_agent_def Let_def case_prod_beta
    by (auto split: list.splits intro!: io_rules node_no_scaling create_no_scaling)
  have "no_scaling GetKubernetesClient" by (simp add: no_scaling_def)
  then show ?thesis
    unfolding upgrade_pool_def Let_def case_prod_beta
    by (auto split: option.splits intro!: io_rules check agent create_missing_no_scaling)
qed

lemma RunUpgrade_no_scaling: "emits no_scaling (RunUpgrade w ku)"
proof -
  have agents: "emits no_scaling (upgradeAgentPools w ku ps)" for ps
    by (induction ps) (auto intro!: io_rules upgrade_pool_no_scaling)
  have "emits no_scaling (create_master w st i)" "emits no_scaling (upgrade_master w un v)" for st i un v
    unfolding create_master_def upgrade_master_def Let_def case_prod_beta
    by (intro io_rules create_no_scaling node_no_scaling)+
  then have masters: "emits no_scaling (upgradeMasterNodes w ku)"
    unfolding upgradeMasterNodes_def Let_def case_prod_beta
    by (auto split: option.splits intro!: io_rules)
  have "emits no_scaling (validatePodSecurityPolices w ku)" "emits no_scaling (handleUnreconcilableAddons w ku)"
    by (rule emits_weaken [OF checks_emit(1)] emits_weaken [OF checks_emit(2)], simp add: control_plane_call_def)+
  then show ?thesis
    unfolding RunUpgrade_def by (auto intro!: io_rules agents masters)
qed

text \<open>Either no scaling has succeeded, or the autoscaler has been paused and its old count restored at the end.\<close>

definition unscaled :: "history \<Rightarrow> bool" where
  "unscaled h \<longleftrightarrow> (\<forall>(e, b) \<in> set h. b \<longrightarrow> no_scaling e)"

definition resumed :: "cluster_api \<Rightarrow> history \<Rightarrow> bool" where
  "resumed a h \<longleftrightarrow> (\<exists>h0 es c b. h = h0 @ (UpdateReplicas 0, True) # es @ [(UpdateReplicas c, b)] \<and>
     (\<forall>e \<in> set es. no_scaling (fst e)) \<and> SetClusterAutoscalerReplicaCount (Some (ca_replicas a h0)) = Inr c)"

definition resumes :: "cluster_api \<Rightarrow> 'a io \<Rightarrow> bool" where
  "resumes a m \<longleftrightarrow> (\<forall>h. unscaled h \<longrightarrow> unscaled (snd (m h)) \<or> resumed a (snd (m h)))"

lemma unscaled_append: "unscaled h \<Longrightarrow> \<forall>e \<in> set es. no_scaling (fst e) \<Longrightarrow> unscaled (h @ es)"
  by (auto simp: unscaled_def)

lemma resumes_quiet: "emits no_scaling m \<Longrightarrow> resumes a m"
  unfolding resumes_def emits_def by (metis unscaled_append)

lemma resumes_if: "(b \<Longrightarrow> resumes a m) \<Longrightarrow> (\<not> b \<Longrightarrow> resumes a n) \<Longrightarrow> resumes a (if b then m else n)"
  by simp

lemma resumes_bind:
  assumes "emits no_scaling m" and "\<And>x. resumes a (f x)"
  shows "resumes a (bindIO m f)"
  unfolding resumes_def
proof (intro allI impI)
  fix h
  assume "unscaled h"
  obtain es where es: "snd (m h) = h @ es" "\<forall>e \<in> set es. no_scaling (fst e)"
    using assms(1) by (auto simp: emits_def)
  then have "unscaled (snd (m h))" using unscaled_append [OF \<open>unscaled h\<close>] by simp
  moreover have "unscaled (snd (f x g)) \<or> resumed a (snd (f x g))" if "unscaled g" for x g
    using assms(2) that unfolding resumes_def by blast
  ultimately show "unscaled (snd (bindIO m f h)) \<or> resumed a (snd (bindIO m f h))"
    by (cases "m h"; cases "fst (m h)") (simp_all add: bindIO_def)
qed

lemma paused_run_resumes:
  assumes "emits no_scaling run"
  shows "resumes a (bindIO (tryIO (set_replica_count a client 0)) (\<lambda>paused. case paused of
      None \<Rightarrow> if force then run else failIO err
    | Some replicas \<Rightarrow> deferIO run (set_replica_count a client replicas)))"
  unfolding resumes_def
proof (intro allI impI)
  fix h
  assume h: "unscaled h"
  let ?m = "bindIO (tryIO (set_replica_count a client 0)) (\<lambda>paused. case paused of
      None \<Rightarrow> if force then run else failIO err
    | Some replicas \<Rightarrow> deferIO run (set_replica_count a client replicas))"
  have go_on: "unscaled (snd ((if force then run else failIO err) g))" if "unscaled g" for g
  proof -
    have "emits no_scaling (if force then run else failIO err)" using assms by (auto intro!: io_rules)
    then show ?thesis using that unscaled_append unfolding emits_def by metis
  qed
  show "unscaled (snd (?m h)) \<or> resumed a (snd (?m h))"
  proof (cases "client \<and> (\<exists>c. SetClusterAutoscalerReplicaCount (Some (ca_replicas a h)) = Inr c)")
    case True
    then obtain c where c: "SetClusterAutoscalerReplicaCount (Some (ca_replicas a h)) = Inr c" by blast
    obtain es where es: "snd (run (h @ [(UpdateReplicas 0, True)])) = h @ (UpdateReplicas 0, True) # es"
        "\<forall>e \<in> set es. no_scaling (fst e)"
      using assms unfolding emits_def by (metis append_Cons append_Nil append_assoc)
    have "?m h = deferIO run (set_replica_count a True c) (h @ [(UpdateReplicas 0, True)])"
      using True by (simp add: bindIO_def tryIO_def set_replica_count_cases c)
    moreover obtain b where "snd (set_replica_count a True c (h @ (UpdateReplicas 0, True) # es)) =
        (h @ (UpdateReplicas 0, True) # es) @ [(UpdateReplicas c, b)]"
      using set_replica_count_event by blast
    ultimately have "snd (?m h) = h @ (UpdateReplicas 0, True) # es @ [(UpdateReplicas c, b)]"
      using es(1) by (simp add: deferIO_def case_prod_beta)
    then show ?thesis using es(2) c unfolding resumed_def by blast
  next
    case False
    then show ?thesis
      using h go_on [of h] go_on [of "h @ [(UpdateReplicas 0, False)]"]
      by (auto simp: bindIO_def tryIO_def set_replica_count_cases unscaled_def split: sum.splits failure.splits)
  qed
qed

lemma UpgradeCluster_resumes: "resumes a (UpgradeCluster w a az r)"
proof -
  have calls: "no_scaling GetKubernetesClient" "no_scaling ListVirtualMachines" by (simp_all add: no_scaling_def)
  have check: "emits no_scaling (check_control_plane a client t)" for client t
    by (rule emits_weaken [OF check_control_plane_silent]) simp
  have client: "emits no_scaling (if az then tryIO (call (c_ok w) GetKubernetesClient) else retIO None)"
    by (auto intro!: io_rules calls)
  show ?thesis
    unfolding UpgradeCluster_def Let_def
    by (intro resumes_bind io_rules check calls client)
      (rule resumes_if, rule paused_run_resumes [OF RunUpgrade_no_scaling], rule resumes_quiet [OF RunUpgrade_no_scaling])
qed

text \<open>
  C6: an upgrade that has paused the cluster autoscaler sets its replica count to the count read before as
  its last call, whatever way the run ends, and scales it at no other time.\<close>

theorem autoscaler_is_resumed:
  assumes "UpgradeCluster w a az r [] = (res, h)" and "(UpdateReplicas 0, True) \<in> set h"
  shows "\<exists>h0 es c ok. h = h0 @ (UpdateReplicas 0, True) # es @ [(UpdateReplicas c, ok)] \<and>
     (\<forall>e \<in> set es. \<forall>n. fst e \<noteq> UpdateReplicas n) \<and>
     SetClusterAutoscalerReplicaCount (Some (ca_replicas a h0)) = Inr c"
proof -
  have "unscaled []" by (simp add: unscaled_def)
  then have "unscaled h \<or> resumed a h"
    using UpgradeCluster_resumes [of a w az r] assms(1) unfolding resumes_def by (metis snd_conv)
  moreover have "\<not> unscaled h" using assms(2) by (auto simp: unscaled_def no_scaling_def)
  ultimately show ?thesis by (simp add: resumed_def no_scaling_def)
qed

theorem autoscaler_is_resumed_witness:
  "\<exists>es. snd (UpgradeCluster upgrade_cloud example_api True example_request []) =
     es @ [(UpdateReplicas 3, True)]"
proof -
  let ?h = "snd (UpgradeCluster upgrade_cloud example_api True example_request [])"
  obtain es where es: "?h = example_start @ es @ [(UpdateReplicas 3, True)]"
    using RunUpgrade_no_scaling [of upgrade_cloud "getUpgradeWorkflow example_request example_sorting"]
    by (auto simp: example_run deferIO_def emits_def set_replica_count_cases case_prod_beta example_count)
  then have "(UpdateReplicas 0, True) \<in> set ?h" by (simp add: example_start_def)
  from autoscaler_is_resumed [OF prod.collapse [symmetric] this] obtain h0 es' c ok where
    "?h = h0 @ (UpdateReplicas 0, True) # es' @ [(UpdateReplicas c, ok)]" by blast
  then show ?thesis using es by simp
qed

end
