(* ===== verification/ConfigMaps.thy ===== *)
theory ConfigMaps
  imports ClusterModel K8sVersions
begin

section \<open>Flag maps of the Kubernetes components (helpers of defaults.go)\<close>

text \<open>
  The flags of a component are a map from flag names to values, here an association list in some order;
  the results below do not depend on it. The value of \<open>--feature-gates\<close> is itself a list
  \<open>key=value,key=value\<close> that the code parses, merges and prints again.
\<close>

type_synonym config = "(string \<times> string) list"

text \<open>The loop that assigns the default values of the flags that have none, and the one that overrides.\<close>

fun set_missing :: "config \<Rightarrow> config \<Rightarrow> config" where
  "set_missing m [] = m"
| "set_missing m ((key, val) # defaults) =
     set_missing (if map_of m key = None then AList.update key val m else m) defaults"

fun set_all :: "config \<Rightarrow> config \<Rightarrow> config" where
  "set_all m [] = m"
| "set_all m ((key, val) # static) = set_all (AList.update key val m) static"

fun delete_all :: "config \<Rightarrow> string list \<Rightarrow> config" where
  "delete_all m [] = m"
| "delete_all m (key # ks) = delete_all (AList.delete key m) ks"

subsection \<open>Feature gates\<close>

definition trim_by :: "(char \<Rightarrow> bool) \<Rightarrow> string \<Rightarrow> string" where
  "trim_by P s = rev (dropWhile P (rev (dropWhile P s)))"

definition trim_spaces :: "string \<Rightarrow> string" where
  "trim_spaces = trim_by (\<lambda>c. c = CHR '' '')"

definition apply_value :: "config \<Rightarrow> string \<Rightarrow> config" where
  "apply_value valueMap value =
     (case split_on (CHR ''='') (trim_spaces value) of
        [k, v] \<Rightarrow> if map_of valueMap k = None then AList.update k v valueMap else valueMap
      | _ \<Rightarrow> valueMap)"

definition applyValueStringToMap :: "config \<Rightarrow> string \<Rightarrow> config" where
  "applyValueStringToMap valueMap input = foldl apply_value valueMap (split_on (CHR '','') input)"

definition mapToString :: "config \<Rightarrow> string" where
  "mapToString valueMap =
     join '','' (map (\<lambda>key. key @ ''='' @ map_get valueMap key) (sort_Strings (map fst valueMap)))"

definition combineValues :: "string list \<Rightarrow> string" where
  "combineValues inputs = mapToString (foldl applyValueStringToMap [] inputs)"

definition feature_gates :: string where
  "feature_gates = ''--feature-gates''"

definition addDefaultFeatureGates :: "config \<Rightarrow> string \<Rightarrow> string \<Rightarrow> string \<Rightarrow> config" where
  "addDefaultFeatureGates m version minVersion defaults =
     (if minVersion = '''' \<or> IsKubernetesVersionGe version minVersion
      then AList.update feature_gates (combineValues [map_get m feature_gates, defaults]) m
      else AList.update feature_gates (combineValues [map_get m feature_gates, '''']) m)"

definition removeKeys :: "string \<Rightarrow> string list \<Rightarrow> string" where
  "removeKeys input keysToRemove = mapToString (delete_all (applyValueStringToMap [] input) keysToRemove)"

definition removeInvalidFeatureGates :: "config \<Rightarrow> string list \<Rightarrow> config" where
  "removeInvalidFeatureGates m invalidFeatureGates =
     AList.update feature_gates (removeKeys (map_get m feature_gates) invalidFeatureGates) m"

fun replaceFlags :: "config \<Rightarrow> (string \<times> string) list \<Rightarrow> config" where
  "replaceFlags m [] = m"
| "replaceFlags m ((old, new) # replacedflags) =
     replaceFlags (case map_of m old of None \<Rightarrow> m | Some v \<Rightarrow> AList.delete old (AList.update new v m)) replacedflags"

text \<open>\<open>strings.TrimSpace\<close> on ASCII strings, and the list of flags.go.\<close>

definition is_space :: "char \<Rightarrow> bool" where
  "is_space c \<longleftrightarrow> of_char c \<in> {9, 10, 11, 12, 13, 32 :: nat}"

definition trim_space :: "string \<Rightarrow> string" where
  "trim_space = trim_by is_space"

definition RemoveFromCommaSeparatedList :: "string \<Rightarrow> string list \<Rightarrow> string" where
  "RemoveFromCommaSeparatedList input toRemove =
     join '','' (filter (\<lambda>key. to_lower key \<notin> set (map (to_lower \<circ> trim_space) toRemove))
       (map trim_space (split_on (CHR '','') input)))"

subsection \<open>What the loops do to the map\<close>

named_theorems config_simps \<open>what the operations on map_get maps do to the map\<close>

lemma map_of_set_missing [config_simps]: "map_of (set_missing m d) = map_of d ++ map_of m"
proof (induction m d rule: set_missing.induct)
  case (2 m key val d)
  then show ?case by (cases "map_of m key") (auto simp: update_conv' map_add_def fun_eq_iff split: option.splits)
qed simp

lemma map_of_set_all [config_simps]:
  "distinct (map fst s) \<Longrightarrow> map_of (set_all m s) = map_of m ++ map_of s"
proof (induction m s rule: set_all.induct)
  case (2 m key val s)
  then have "key \<notin> dom (map_of s)" by (simp add: dom_map_of_conv_image_fst)
  then show ?case using 2 by (auto simp: update_conv' map_add_def fun_eq_iff split: option.splits)
qed simp

lemma map_of_delete_all [config_simps]: "map_of (delete_all m ks) = map_of m |` (- set ks)"
  by (induction m ks rule: delete_all.induct) (auto simp: delete_conv' restrict_map_def fun_eq_iff)

lemma map_of_update [config_simps]: "map_of (AList.update k v m) = (map_of m)(k \<mapsto> v)"
  by (simp add: update_conv')

lemma map_of_delete [config_simps]: "map_of (AList.delete k m) = (map_of m)(k := None)"
  by (simp add: delete_conv' restrict_map_def fun_eq_iff)

lemma map_get_cong: "map_of m = map_of m' \<Longrightarrow> map_get m = map_get m'"
  by (simp add: map_get_def fun_eq_iff)

subsection \<open>Parsing and printing feature gates\<close>

text \<open>A map that can be printed: distinct keys, no separator in keys and values, no space at the ends.\<close>

definition printable :: "config \<Rightarrow> bool" where
  "printable m \<longleftrightarrow> distinct (map fst m) \<and>
     (\<forall>(k, v) \<in> set m. CHR ''='' \<notin> set (k @ v) \<and> CHR '','' \<notin> set (k @ v) \<and>
        trim_spaces (k @ ''='' @ v) = k @ ''='' @ v)"

text \<open>The feature gates that a string sets.\<close>

definition gates :: "string \<Rightarrow> string \<Rightarrow> string option" where
  "gates s = map_of (applyValueStringToMap [] s)"

definition trimmed :: "(char \<Rightarrow> bool) \<Rightarrow> string \<Rightarrow> bool" where
  "trimmed P s \<longleftrightarrow> s = [] \<or> \<not> P (hd s) \<and> \<not> P (last s)"

lemma trim_by_id: "trimmed P s \<Longrightarrow> trim_by P s = s"
  unfolding trimmed_def trim_by_def by (auto simp: hd_rev dropWhile_eq_self_iff [THEN iffD2])

lemma trimmed_trim_by: "trimmed P (trim_by P s)"
proof (cases "dropWhile P s")
  case (Cons c t)
  let ?u = "dropWhile P (rev (c # t))"
  have c: "\<not> P c" using Cons by (metis hd_dropWhile list.distinct(1) list.sel(1))
  then have u: "?u \<noteq> []" by auto
  then have "last ?u = last (rev (c # t))" by (metis last_appendR takeWhile_dropWhile_id)
  then show ?thesis
    unfolding trimmed_def trim_by_def Cons using c u hd_dropWhile [OF u] by (simp add: hd_rev last_rev)
next
  case Nil
  then show ?thesis by (simp only: trimmed_def trim_by_def Nil) simp
qed

lemma split_on_free: "w \<in> set (split_on d s) \<Longrightarrow> d \<notin> set w"
  by (induction s arbitrary: w) (auto split: if_splits list.splits)

lemma update_new: "k \<notin> fst ` set m \<Longrightarrow> AList.update k v m = m @ [(k, v)]"
  by (induction m) auto

lemma printable_apply_value:
  assumes "printable m" and "CHR '','' \<notin> set value"
  shows "printable (apply_value m value)"
proof (cases "\<exists>k v. split_on (CHR ''='') (trim_spaces value) = [k, v] \<and> map_of m k = None")
  case True
  then obtain k v where kv: "split_on (CHR ''='') (trim_spaces value) = [k, v]" "map_of m k = None" by blast
  then have parts: "k @ ''='' @ v = trim_spaces value"
    using join_split_on [of "CHR ''=''" "trim_spaces value"] by simp
  have "set (trim_spaces value) \<subseteq> set value"
    unfolding trim_spaces_def trim_by_def by (auto dest!: set_dropWhileD)
  then have "CHR '','' \<notin> set (k @ v)" using assms(2) parts [THEN arg_cong [where f = set]] by auto
  moreover have "CHR ''='' \<notin> set (k @ v)"
    using split_on_free [of _ "CHR ''=''" "trim_spaces value"] unfolding kv(1) by auto
  moreover have "trim_spaces (k @ ''='' @ v) = k @ ''='' @ v"
    unfolding parts unfolding trim_spaces_def by (intro trim_by_id trimmed_trim_by)
  moreover have "apply_value m value = m @ [(k, v)]"
    using kv by (simp add: apply_value_def map_of_eq_None_iff update_new)
  moreover have "k \<notin> fst ` set m" using kv(2) by (simp add: map_of_eq_None_iff)
  ultimately show ?thesis using assms(1) by (auto simp: printable_def)
next
  case False
  then have "apply_value m value = m" by (auto simp: apply_value_def split: list.splits)
  then show ?thesis using assms(1) by simp
qed

lemma printable_apply: "printable m \<Longrightarrow> printable (applyValueStringToMap m s)"
proof -
  have "\<forall>v \<in> set vs. CHR '','' \<notin> set v \<Longrightarrow> printable m \<Longrightarrow> printable (foldl apply_value m vs)" for vs m
    by (induction vs arbitrary: m) (auto simp: printable_apply_value)
  moreover have "\<forall>v \<in> set (split_on (CHR '','') s). CHR '','' \<notin> set v" using split_on_free by blast
  ultimately show "printable m \<Longrightarrow> printable (applyValueStringToMap m s)"
    unfolding applyValueStringToMap_def by blast
qed

lemma map_of_apply_value: "map_of (apply_value m s) = map_of (apply_value [] s) ++ map_of m"
proof (cases "\<exists>k v. split_on (CHR ''='') (trim_spaces s) = [k, v]")
  case True
  then obtain k v where "split_on (CHR ''='') (trim_spaces s) = [k, v]" by blast
  then show ?thesis
    by (auto simp: apply_value_def map_of_update map_add_def fun_eq_iff split: option.splits)
next
  case False
  then have "apply_value m s = m" for m by (auto simp: apply_value_def split: list.splits)
  then show ?thesis by simp
qed

lemma map_of_foldl_apply:
  "map_of (foldl apply_value m vs) = map_of (foldl apply_value [] vs) ++ map_of m"
proof (induction vs arbitrary: m)
  case (Cons v vs)
  show ?case
    using Cons.IH [of "apply_value m v"] Cons.IH [of "apply_value [] v"] map_of_apply_value [of m v]
    by simp
qed simp

text \<open>The values that are there already win.\<close>

lemma map_of_apply [config_simps]: "map_of (applyValueStringToMap m s) = gates s ++ map_of m"
  unfolding applyValueStringToMap_def gates_def by (rule map_of_foldl_apply)

lemma printable_Nil [simp]: "printable []"
  by (simp add: printable_def)

lemma printable_delete_all: "printable m \<Longrightarrow> printable (delete_all m ks)"
proof (induction m ks rule: delete_all.induct)
  case (2 m key ks)
  have "set (AList.delete key m) \<subseteq> set m" by (induction m) auto
  then have "printable (AList.delete key m)"
    using 2(2) distinct_delete [of m key] unfolding printable_def by blast
  then show ?case using 2(1) by simp
qed simp

lemma apply_value_print:
  assumes "printable m" and "map_of m k = Some v"
  shows "apply_value [] (k @ ''='' @ v) = [(k, v)]"
proof -
  have "(k, v) \<in> set m" using assms(2) by (rule map_of_SomeD)
  then have kv: "CHR ''='' \<notin> set k" "CHR ''='' \<notin> set v" "trim_spaces (k @ ''='' @ v) = k @ ''='' @ v"
    using assms(1) by (auto simp: printable_def)
  have "split_on (CHR ''='') (k @ ''='' @ v) = [k, v]"
    using kv(1,2) by (simp add: split_on_append split_on_single)
  then show ?thesis unfolding apply_value_def kv(3) by simp
qed

lemma set_sort_Strings [simp]: "set (sort_Strings ks) = set ks"
  by (simp add: sort_Strings_def)

lemma gates_mapToString:
  assumes "printable m"
  shows "gates (mapToString m) = map_of m"
proof (cases "m = []")
  case True
  then show ?thesis
    by (simp add: mapToString_def sort_Strings_def gates_def applyValueStringToMap_def apply_value_def
        trim_spaces_def trim_by_def)
next
  case False
  let ?print = "\<lambda>key. key @ ''='' @ map_get m key"
  have parsed: "set ks \<subseteq> dom (map_of m) \<Longrightarrow>
      map_of (foldl apply_value [] (map ?print ks)) = map_of m |` set ks" for ks
  proof (induction ks)
    case (Cons k ks)
    then obtain v where v: "map_of m k = Some v" by auto
    then have "apply_value [] (?print k) = [(k, v)]"
      using apply_value_print [OF assms v] by (simp add: map_get_def)
    then show ?case
      using Cons v map_of_foldl_apply [of "[(k, v)]" "map ?print ks"]
      by (auto simp: restrict_map_def map_add_def fun_eq_iff split: option.splits)
  qed simp
  have dom: "set (sort_Strings (map fst m)) = dom (map_of m)" by (simp add: dom_map_of_conv_image_fst)
  have "\<forall>w \<in> set (map ?print (sort_Strings (map fst m))). CHR '','' \<notin> set w"
  proof
    fix w
    assume "w \<in> set (map ?print (sort_Strings (map fst m)))"
    then obtain k v where "w = ?print k" "map_of m k = Some v" unfolding set_map dom by auto
    then have "w = k @ ''='' @ v" "(k, v) \<in> set m" by (auto simp: map_get_def map_of_SomeD)
    then show "CHR '','' \<notin> set w" using assms by (auto simp: printable_def)
  qed
  moreover have "map ?print (sort_Strings (map fst m)) \<noteq> []"
  proof -
    have "set (sort_Strings (map fst m)) \<noteq> {}" using False by simp
    then show ?thesis by (metis Nil_is_map_conv empty_set)
  qed
  ultimately have "split_on (CHR '','') (mapToString m) = map ?print (sort_Strings (map fst m))"
    unfolding mapToString_def by (intro split_on_join)
  then have "gates (mapToString m) = map_of m |` dom (map_of m)"
    using parsed [of "sort_Strings (map fst m)"] unfolding dom gates_def applyValueStringToMap_def by simp
  then show ?thesis by (simp add: restrict_map_def fun_eq_iff domIff split: if_splits)
qed

lemma mapToString_cong:
  assumes "map_of m = map_of m'" and "distinct (map fst m)" and "distinct (map fst m')"
  shows "mapToString m = mapToString m'"
proof -
  have "set (map fst m) = set (map fst m')"
    using assms(1) by (metis dom_map_of_conv_image_fst set_map)
  then have "sort_Strings (map fst m) = sort_Strings (map fst m')"
    using assms(2,3) by (intro sort_Strings_perm set_eq_iff_mset_eq_distinct [THEN iffD1])
  then show ?thesis unfolding mapToString_def using map_get_cong [OF assms(1)] by simp
qed

text \<open>Printing what has been read gives the same text again.\<close>

lemma mapToString_apply: "printable m \<Longrightarrow> mapToString (applyValueStringToMap [] (mapToString m)) = mapToString m"
  using printable_apply [of "[]"] gates_mapToString [of m]
  by (intro mapToString_cong) (auto simp: gates_def printable_def)

subsection \<open>Merging and removing feature gates\<close>

lemma printable_inputs: "printable m \<Longrightarrow> printable (foldl applyValueStringToMap m inputs)"
  by (induction inputs arbitrary: m) (auto intro: printable_apply)

lemma map_of_inputs:
  "map_of (foldl applyValueStringToMap m inputs) = foldl (\<lambda>g s. gates s ++ g) (map_of m) inputs"
  by (induction inputs arbitrary: m) (simp_all add: map_of_apply)

lemma gates_combineValues [config_simps]:
  "gates (combineValues inputs) = foldl (\<lambda>g s. gates s ++ g) Map.empty inputs"
  unfolding combineValues_def
  by (simp add: gates_mapToString printable_inputs map_of_inputs)

lemma gates_removeKeys [config_simps]: "gates (removeKeys s ks) = gates s |` (- set ks)"
  unfolding removeKeys_def
  by (simp add: gates_mapToString printable_delete_all printable_apply map_of_delete_all map_of_apply)

lemma gates_Nil [simp]: "gates '''' = Map.empty"
  by (simp add: gates_def applyValueStringToMap_def apply_value_def trim_spaces_def trim_by_def)

text \<open>Texts that the code has printed itself are determined by the gates they set.\<close>

definition canonical :: "string \<Rightarrow> bool" where
  "canonical s \<longleftrightarrow> (\<exists>m. printable m \<and> s = mapToString m)"

lemma canonical_combineValues: "canonical (combineValues inputs)"
  unfolding canonical_def combineValues_def using printable_inputs [OF printable_Nil] by blast

lemma canonical_removeKeys: "canonical (removeKeys s ks)"
  unfolding canonical_def removeKeys_def using printable_delete_all [OF printable_apply [OF printable_Nil]] by blast

lemma canonical_eqI: "canonical s \<Longrightarrow> canonical t \<Longrightarrow> gates s = gates t \<Longrightarrow> s = t"
  unfolding canonical_def by (auto simp: gates_mapToString printable_def intro!: mapToString_cong)

lemma removeKeys_idem: "removeKeys (removeKeys s ks) ks = removeKeys s ks"
  by (rule canonical_eqI) (simp_all add: canonical_removeKeys gates_removeKeys)

subsection \<open>What the passes over the flags do to the feature gates\<close>

text \<open>Merging the defaults \<open>ds\<close> one after the other and then removing the gates \<open>ks\<close>.\<close>

definition gates_text :: "string list \<Rightarrow> string list \<Rightarrow> string \<Rightarrow> string" where
  "gates_text ds ks s = removeKeys (foldl (\<lambda>s d. combineValues [s, d]) s ds) ks"

definition default_gate :: "string \<Rightarrow> string \<Rightarrow> string \<Rightarrow> string" where
  "default_gate version minVersion d =
     (if minVersion = '''' \<or> IsKubernetesVersionGe version minVersion then d else '''')"

lemma map_of_addDefaultFeatureGates [config_simps]:
  "map_of (addDefaultFeatureGates m version minVersion d) =
     (map_of m)(feature_gates \<mapsto> combineValues [map_get m feature_gates, default_gate version minVersion d])"
  by (simp add: addDefaultFeatureGates_def default_gate_def map_of_update)

lemma map_of_removeInvalidFeatureGates [config_simps]:
  "map_of (removeInvalidFeatureGates m ks) = (map_of m)(feature_gates \<mapsto> removeKeys (map_get m feature_gates) ks)"
  by (simp add: removeInvalidFeatureGates_def map_of_update)

lemma gates_foldl_combine:
  "gates (foldl (\<lambda>s d. combineValues [s, d]) s ds) = foldl (\<lambda>g d. gates d ++ g) (gates s) ds"
  by (induction ds arbitrary: s) (simp_all add: gates_combineValues)

lemma merge_below: "foldl (\<lambda>g d. gates d ++ g) h ds = foldl (\<lambda>g d. gates d ++ g) Map.empty ds ++ h"
proof (induction ds arbitrary: h)
  case (Cons d ds)
  show ?case using Cons.IH [of "gates d ++ h"] Cons.IH [of "gates d"] by simp
qed simp

lemma gates_gates_text [config_simps]:
  "gates (gates_text ds ks s) = (foldl (\<lambda>g d. gates d ++ g) Map.empty ds ++ gates s) |` (- set ks)"
  unfolding gates_text_def gates_removeKeys gates_foldl_combine using merge_below [of "gates s" ds] by simp

lemma gates_text_idem: "gates_text ds ks (gates_text ds ks s) = gates_text ds ks s"
proof (rule canonical_eqI)
  show "canonical (gates_text ds ks (gates_text ds ks s))" "canonical (gates_text ds ks s)"
    unfolding gates_text_def by (rule canonical_removeKeys)+
  show "gates (gates_text ds ks (gates_text ds ks s)) = gates (gates_text ds ks s)"
    unfolding gates_gates_text by (auto simp: restrict_map_def map_add_def fun_eq_iff split: option.splits)
qed

subsection \<open>The contract of a pass over the flags of a component\<close>

text \<open>
  A pass removes flags, forces flags, and completes and repairs the others, each flag on its own:
  \<open>forced\<close> are the values the user may not choose, \<open>offered\<close> the defaults, \<open>fix_up\<close> repairs a value.
\<close>

locale flag_pass =
  fixes pass :: "config \<Rightarrow> config"
    and removed :: "string list"
    and forced :: config
    and offered :: config
    and fix_up :: "string \<Rightarrow> string \<Rightarrow> string"
  assumes pass_value: "map_of (pass m) key =
      (if key \<in> set removed then None
       else case map_of forced key of Some v \<Rightarrow> Some v
       | None \<Rightarrow> map_option (fix_up key) ((map_of offered ++ map_of m) key))"
    and fix_up_idem: "fix_up key (fix_up key v) = fix_up key v"
begin

lemma removed_absent: "key \<in> set removed \<Longrightarrow> map_of (pass m) key = None"
  by (simp add: pass_value)

lemma forced_wins:
  "key \<notin> set removed \<Longrightarrow> map_of forced key = Some v \<Longrightarrow> map_of (pass m) key = Some v"
  by (simp add: pass_value)

lemma chosen_kept:
  "key \<notin> set removed \<Longrightarrow> map_of forced key = None \<Longrightarrow> map_of m key = Some v \<Longrightarrow>
     map_of (pass m) key = Some (fix_up key v)"
  by (simp add: pass_value)

lemma missing_offered:
  "key \<notin> set removed \<Longrightarrow> map_of forced key = None \<Longrightarrow> map_of m key = None \<Longrightarrow>
     map_of (pass m) key = map_option (fix_up key) (map_of offered key)"
  by (simp add: pass_value map_add_def)

lemma pass_cong: "map_of m = map_of m' \<Longrightarrow> map_of (pass m) = map_of (pass m')"
  by (rule ext) (simp add: pass_value split: option.split)

lemma pass_idem: "map_of (pass (pass m)) = map_of (pass m)"
proof (rule ext)
  fix key
  show "map_of (pass (pass m)) key = map_of (pass m) key"
    by (cases "(map_of offered ++ map_of m) key")
      (auto simp: pass_value [of "pass m"] map_add_def pass_value [of m] fix_up_idem split: option.splits)
qed

end

end
