(* ===== verification/DefaultsControlPlane.thy ===== *)
theory DefaultsControlPlane
  imports ConfigMaps DefaultConstants
begin

section \<open>Flags of the control plane components (defaults-apiserver.go and its siblings)\<close>

text \<open>
  For each component the code completes the user's flags with defaults, overrides the flags that the user
  may not choose, and takes away flags and feature gates that the version does not accept. A \<open>properties
  result\<close> is a panic if a profile is missing.
\<close>

definition user_flags :: "config option \<Rightarrow> config" where
  "user_flags m = (case m of None \<Rightarrow> [] | Some m \<Rightarrow> m)"

text \<open>The configuration that the functions assign through two pointers.\<close>

definition update_config ::
    "properties \<Rightarrow> (orchestrator_profile \<Rightarrow> kubernetes_config \<Rightarrow> kubernetes_config result) \<Rightarrow> properties result" where
  "update_config p f =
     bindR (deref (p_OrchestratorProfile p)) (\<lambda>orch.
     bindR (deref (op_KubernetesConfig orch)) (\<lambda>k.
     bindR (f orch k) (\<lambda>k'. Inr (p\<lparr>p_OrchestratorProfile := Some (orch\<lparr>op_KubernetesConfig := Some k'\<rparr>)\<rparr>))))"

subsection \<open>Feature gates that a version does not accept\<close>

definition gates_removed_1_27 :: "string list" where
  "gates_removed_1_27 = [''ControllerManagerLeaderMigration'', ''ExpandCSIVolumes'', ''ExpandInUsePersistentVolumes'',
     ''ExpandPersistentVolumes'', ''CSIInlineVolume'', ''CSIMigration'', ''CSIMigrationAzureDisk'', ''DaemonSetUpdateSurge'',
     ''EphemeralContainers'', ''IdentifyPodOS'', ''LocalStorageCapacityIsolation'', ''NetworkPolicyEndPort'',
     ''StatefulSetMinReadySeconds'']"

definition gates_removed_1_28 :: "string list" where
  "gates_removed_1_28 = [''AdvancedAuditing'', ''DisableAcceleratorUsageMetrics'', ''DryRun'', ''PodSecurity'',
     ''NetworkPolicyStatus'', ''PodHasNetworkCondition'', ''UserNamespacesStatelessPodsSupport'', ''CSIMigrationGCE'',
     ''CSIStorageCapacity'', ''DelegateFSGroupToCSIDriver'', ''DevicePlugins'', ''KubeletCredentialProviders'',
     ''MixedProtocolLBService'', ''ServiceInternalTrafficPolicy'', ''ServiceIPStaticSubrange'',
     ''EndpointSliceTerminatingCondition'', ''WindowsHostProcessContainers'']"

definition gates_removed_1_29 :: "string list" where
  "gates_removed_1_29 = [''CSIMigrationvSphere'', ''ProbeTerminationGracePeriod'', ''JobTrackingWithFinalizers'',
     ''TopologyManager'', ''OpenAPIV3'', ''SeccompDefault'', ''CronJobTimeZone'', ''JobMutableNodeSchedulingDirectives'',
     ''LegacyServiceAccountTokenNoAutoGeneration'', ''DownwardAPIHugePages'', ''GRPCContainerProbe'',
     ''RetroactiveDefaultStorageClass'']"

definition invalidFeatureGates :: "string \<Rightarrow> string list" where
  "invalidFeatureGates version =
     (if IsKubernetesVersionGe version ''1.22.0-alpha.1'' then [''VolumeSnapshotDataSource''] else []) @
     (if IsKubernetesVersionGe version ''1.27.0'' then gates_removed_1_27 else []) @
     (if IsKubernetesVersionGe version ''1.28.0'' then gates_removed_1_28 else []) @
     (if IsKubernetesVersionGe version ''1.29.0'' then gates_removed_1_29 else [])"

subsection \<open>Scheduler\<close>

definition staticSchedulerConfig :: config where
  "staticSchedulerConfig =
     [(''--kubeconfig'', ''/var/lib/kubelet/kubeconfig''),
      (''--leader-elect'', ''true'')]"

definition defaultSchedulerConfig :: config where
  "defaultSchedulerConfig =
     [(''--v'', ''2''),
      (''--profiling'', DefaultKubernetesSchedulerEnableProfiling),
      (''--bind-address'', ''127.0.0.1''),
      (''--tls-min-version'', ''VersionTLS12'')]"

definition scheduler_flag_change :: "string \<Rightarrow> (string \<times> string) list" where
  "scheduler_flag_change version =
     (if IsKubernetesVersionGe version ''1.28.0''
      then [(''--lock-object-namespace'', ''--leader-elect-resource-namespace''),
            (''--lock-object-name'', ''--leader-elect-resource-name'')]
      else [])"

definition scheduler_flags :: "string \<Rightarrow> config \<Rightarrow> config" where
  "scheduler_flags version m =
     (let m = set_missing m defaultSchedulerConfig;
          m = addDefaultFeatureGates m version ''1.25.0'' ''PodSecurity=true'';
          m = set_all m staticSchedulerConfig;
          m = removeInvalidFeatureGates m (invalidFeatureGates version)
      in replaceFlags m (scheduler_flag_change version))"

definition setSchedulerConfig :: "properties \<Rightarrow> properties result" where
  "setSchedulerConfig p = update_config p (\<lambda>orch k.
     Inr (k\<lparr>kc_SchedulerConfig := Some (scheduler_flags (op_OrchestratorVersion orch) (user_flags (kc_SchedulerConfig k)))\<rparr>))"

subsection \<open>Controller managers\<close>

definition IsAzureCNIDualStack :: "properties \<Rightarrow> orchestrator_profile \<Rightarrow> bool" where
  "IsAzureCNIDualStack p orch \<longleftrightarrow> IsAzureCNI orch \<and> IsFeatureEnabled (p_FeatureFlags p) ''EnableIPv6DualStack''"

definition format_bool :: "bool \<Rightarrow> string" where
  "format_bool b = (if b then ''true'' else ''false'')"

definition cluster_cidr :: "bool \<Rightarrow> kubernetes_config \<Rightarrow> string" where
  "cluster_cidr isAzureCNIDualStack k =
     (let clusterSubnets = split_on (CHR '','') (kc_ClusterSubnet k) in
      if isAzureCNIDualStack \<and> length clusterSubnets > 1 then clusterSubnets ! 1 else kc_ClusterSubnet k)"

definition cluster_name_flag :: "properties \<Rightarrow> config" where
  "cluster_name_flag p =
     (case p_MasterProfile p of None \<Rightarrow> [] | Some m \<Rightarrow> [(''--cluster-name'', mp_DNSPrefix m)])"

definition staticControllerManagerConfig ::
    "properties \<Rightarrow> orchestrator_profile \<Rightarrow> kubernetes_config \<Rightarrow> bool \<Rightarrow> config" where
  "staticControllerManagerConfig p orch k routes =
     (let isAzureCNIDualStack = IsAzureCNIDualStack p orch in
      [(''--kubeconfig'', ''/var/lib/kubelet/kubeconfig''),
       (''--allocate-node-cidrs'', format_bool (\<not> IsAzureCNI orch \<or> isAzureCNIDualStack)),
       (''--configure-cloud-routes'', format_bool routes),
       (''--cluster-cidr'', cluster_cidr isAzureCNIDualStack k),
       (''--root-ca-file'', ''/etc/kubernetes/certs/ca.crt''),
       (''--cluster-signing-cert-file'', ''/etc/kubernetes/certs/ca.crt''),
       (''--cluster-signing-key-file'', ''/etc/kubernetes/certs/ca.key''),
       (''--service-account-private-key-file'', ''/etc/kubernetes/certs/apiserver.key''),
       (''--leader-elect'', ''true''),
       (''--v'', ''2''),
       (''--controllers'', ''*,bootstrapsigner,tokencleaner'')] @
      cluster_name_flag p @
      (if \<not> to_Bool (kc_UseCloudControllerManager k)
       then [(''--cloud-provider'', ''azure''), (''--cloud-config'', ''/etc/kubernetes/azure.json'')]
       else [(''--cloud-provider'', ''external'')]))"

definition defaultControllerManagerConfig :: "properties \<Rightarrow> config" where
  "defaultControllerManagerConfig p =
     [(''--bind-address'', ''127.0.0.1''),
      (''--node-monitor-grace-period'',
        if IsAzureStackCloud p then DefaultAzureStackKubernetesCtrlMgrNodeMonitorGracePeriod
        else DefaultKubernetesCtrlMgrNodeMonitorGracePeriod),
      (''--pod-eviction-timeout'',
        if IsAzureStackCloud p then DefaultAzureStackKubernetesCtrlMgrPodEvictionTimeout
        else DefaultKubernetesCtrlMgrPodEvictionTimeout),
      (''--route-reconciliation-period'',
        if IsAzureStackCloud p then DefaultAzureStackKubernetesCtrlMgrRouteReconciliationPeriod
        else DefaultKubernetesCtrlMgrRouteReconciliationPeriod),
      (''--terminated-pod-gc-threshold'', DefaultKubernetesCtrlMgrTerminatedPodGcThreshold),
      (''--tls-min-version'', ''VersionTLS12''),
      (''--use-service-account-credentials'', DefaultKubernetesCtrlMgrUseSvcAccountCreds),
      (''--profiling'', DefaultKubernetesCtrMgrEnableProfiling)]"

definition controller_manager_removed :: "string \<Rightarrow> string list" where
  "controller_manager_removed version =
     (if IsKubernetesVersionGe version ''1.24.0'' then [''--address'', ''--port''] else []) @
     (if IsKubernetesVersionGe version ''1.25.0''
      then [''--deleting-pods-qps'', ''--deleting-pods-burst'', ''--register-retry-count''] else []) @
     (if IsKubernetesVersionGe version ''1.27.0'' then [''--enable-taint-manager'', ''--pod-eviction-timeout''] else [])"

definition controller_manager_gates :: "string \<Rightarrow> config \<Rightarrow> config" where
  "controller_manager_gates version m =
     (let m = if \<not> IsKubernetesVersionGe version ''1.19.0''
              then addDefaultFeatureGates m version ''1.9.0'' ''ServiceNodeExclusion=true'' else m;
          m = addDefaultFeatureGates m version ''1.10.0'' ''LocalStorageCapacityIsolation=true'';
          m = if \<not> IsKubernetesVersionGe version ''1.27.0''
              then addDefaultFeatureGates m version ''1.24.0'' ''LegacyServiceAccountTokenNoAutoGeneration=false'' else m
      in addDefaultFeatureGates m version ''1.25.0'' ''PodSecurity=true'')"

definition controller_manager_invalid_gates :: "string \<Rightarrow> string list" where
  "controller_manager_invalid_gates version = invalidFeatureGates version @
     (if IsKubernetesVersionGe version ''1.27.0'' then [''LegacyServiceAccountTokenNoAutoGeneration''] else [])"

definition controller_manager_flags ::
    "properties \<Rightarrow> orchestrator_profile \<Rightarrow> kubernetes_config \<Rightarrow> bool \<Rightarrow> config \<Rightarrow> config" where
  "controller_manager_flags p orch k routes m =
     (let version = op_OrchestratorVersion orch;
          m = set_missing m (defaultControllerManagerConfig p);
          m = delete_all m (controller_manager_removed version);
          m = controller_manager_gates version m;
          m = set_all m (staticControllerManagerConfig p orch k routes);
          m = if IsRBACEnabled k then AList.update ''--use-service-account-credentials'' ''true'' m else m
      in removeInvalidFeatureGates m (controller_manager_invalid_gates version))"

definition setControllerManagerConfig :: "properties \<Rightarrow> properties result" where
  "setControllerManagerConfig p = update_config p (\<lambda>orch k. bindR (RequireRouteTable p) (\<lambda>routes.
     Inr (k\<lparr>kc_ControllerManagerConfig :=
       Some (controller_manager_flags p orch k routes (user_flags (kc_ControllerManagerConfig k)))\<rparr>)))"

definition staticCloudControllerManagerConfig ::
    "properties \<Rightarrow> orchestrator_profile \<Rightarrow> kubernetes_config \<Rightarrow> bool \<Rightarrow> config" where
  "staticCloudControllerManagerConfig p orch k routes =
     (let isAzureCNIDualStack = IsAzureCNIDualStack p orch in
      [(''--allocate-node-cidrs'', format_bool (\<not> IsAzureCNI orch \<or> isAzureCNIDualStack)),
       (''--configure-cloud-routes'', format_bool routes),
       (''--cloud-provider'', ''azure''),
       (''--cloud-config'', ''/etc/kubernetes/azure.json''),
       (''--cluster-cidr'', cluster_cidr isAzureCNIDualStack k),
       (''--kubeconfig'', ''/var/lib/kubelet/kubeconfig''),
       (''--leader-elect'', ''true''),
       (''--route-reconciliation-period'', ''10s''),
       (''--v'', ''2''),
       (''--controllers'', ''*,-cloud-node'')] @ cluster_name_flag p)"

definition defaultCloudControllerManagerConfig :: config where
  "defaultCloudControllerManagerConfig =
     [(''--route-reconciliation-period'', DefaultKubernetesCtrlMgrRouteReconciliationPeriod)]"

definition cloud_controller_manager_flags ::
    "properties \<Rightarrow> orchestrator_profile \<Rightarrow> kubernetes_config \<Rightarrow> bool \<Rightarrow> config \<Rightarrow> config" where
  "cloud_controller_manager_flags p orch k routes m =
     (let m = set_missing m defaultCloudControllerManagerConfig;
          m = set_all m (staticCloudControllerManagerConfig p orch k routes)
      in removeInvalidFeatureGates m (invalidFeatureGates (op_OrchestratorVersion orch)))"

definition setCloudControllerManagerConfig :: "properties \<Rightarrow> properties result" where
  "setCloudControllerManagerConfig p = update_config p (\<lambda>orch k. bindR (RequireRouteTable p) (\<lambda>routes.
     Inr (k\<lparr>kc_CloudControllerManagerConfig :=
       Some (cloud_controller_manager_flags p orch k routes (user_flags (kc_CloudControllerManagerConfig k)))\<rparr>)))"

subsection \<open>API server\<close>

text \<open>\<open>GetCloudTargetEnv\<close> and \<open>GetTargetEnv\<close> of helpers.go.\<close>

definition GetCloudTargetEnv :: "string \<Rightarrow> string" where
  "GetCloudTargetEnv location =
     (let loc = to_lower (filter (\<lambda>c. \<not> is_space c) location) in
      if loc \<in> {''chinaeast'', ''chinanorth'', ''chinaeast2'', ''chinaeast3'', ''chinanorth2'', ''chinanorth3''}
      then ''AzureChinaCloud''
      else if loc \<in> {''germanynortheast'', ''germanycentral''} then ''AzureGermanCloud''
      else if has_prefix loc ''usgov'' \<or> has_prefix loc ''usdod'' then ''AzureUSGovernmentCloud''
      else ''AzurePublicCloud'')"

definition GetTargetEnv :: "string \<Rightarrow> string \<Rightarrow> string" where
  "GetTargetEnv location customCloudName =
     (if customCloudName \<noteq> '''' then ''AzureStackCloud'' else GetCloudTargetEnv location)"

definition GetCustomCloudName :: "properties \<Rightarrow> string result" where
  "GetCustomCloudName p = (case p_CustomCloudProfile p of None \<Rightarrow> Inr ''''
     | Some cc \<Rightarrow> bindR (deref (cc_Environment cc)) (\<lambda>env. Inr (env_Name env)))"

definition GetAPIServerEtcdAPIVersion :: "orchestrator_profile \<Rightarrow> string" where
  "GetAPIServerEtcdAPIVersion orch = (case op_KubernetesConfig orch of None \<Rightarrow> ''''
     | Some k \<Rightarrow> ''etcd'' @ utoa (Major (semver_make (kc_EtcdVersion k))))"

definition etcd_flags :: "properties \<Rightarrow> config" where
  "etcd_flags p = (case p_MasterProfile p of None \<Rightarrow> []
     | Some m \<Rightarrow>
         if HasCosmosEtcd m
         then [(''--etcd-servers'', ''https://'' @ GetCosmosEndPointURI m @ '':'' @ itoa DefaultMasterEtcdClientPort)]
         else [(''--etcd-cafile'', ''/etc/kubernetes/certs/ca.crt''),
               (''--etcd-servers'', ''https://127.0.0.1:'' @ itoa DefaultMasterEtcdClientPort)])"

definition staticAPIServerConfig :: "properties \<Rightarrow> orchestrator_profile \<Rightarrow> kubernetes_config \<Rightarrow> config" where
  "staticAPIServerConfig p orch k =
     [(''--bind-address'', ''0.0.0.0''),
      (''--advertise-address'', ''<advertiseAddr>''),
      (''--allow-privileged'', ''true''),
      (''--audit-log-path'', ''/var/log/kubeaudit/audit.log''),
      (''--secure-port'', ''443''),
      (''--service-account-lookup'', ''true''),
      (''--etcd-certfile'', ''/etc/kubernetes/certs/etcdclient.crt''),
      (''--etcd-keyfile'', ''/etc/kubernetes/certs/etcdclient.key''),
      (''--tls-cert-file'', ''/etc/kubernetes/certs/apiserver.crt''),
      (''--tls-private-key-file'', ''/etc/kubernetes/certs/apiserver.key''),
      (''--client-ca-file'', ''/etc/kubernetes/certs/ca.crt''),
      (''--service-account-key-file'', ''/etc/kubernetes/certs/apiserver.key''),
      (''--kubelet-client-certificate'', ''/etc/kubernetes/certs/client.crt''),
      (''--kubelet-client-key'', ''/etc/kubernetes/certs/client.key''),
      (''--service-cluster-ip-range'', kc_ServiceCIDR k),
      (''--storage-backend'', GetAPIServerEtcdAPIVersion orch),
      (''--enable-bootstrap-token-auth'', ''true'')] @
     etcd_flags p @
     (if to_Bool (kc_EnableDataEncryptionAtRest k) \<or> to_Bool (kc_EnableEncryptionWithExternalKms k)
      then [(''--encryption-provider-config'', ''/etc/kubernetes/encryption-config.yaml'')] else []) @
     (if \<not> to_Bool (kc_UseCloudControllerManager k)
      then [(''--cloud-provider'', ''azure''), (''--cloud-config'', ''/etc/kubernetes/azure.json'')] else [])"

definition oidc_flags :: "string \<Rightarrow> aad_profile \<Rightarrow> config" where
  "oidc_flags issuerHost aad =
     [(''--oidc-username-claim'', ''oid''),
      (''--oidc-groups-claim'', ''groups''),
      (''--oidc-client-id'', ''spn:'' @ aad_ServerAppID aad),
      (''--oidc-issuer-url'', ''https://'' @ issuerHost @ ''/'' @ aad_TenantID aad @ ''/'')]"

definition aad_flags :: "container_service \<Rightarrow> config result" where
  "aad_flags cs = (case p_AADProfile (cs_Properties cs) of None \<Rightarrow> Inr []
     | Some aad \<Rightarrow> bindR (GetCustomCloudName (cs_Properties cs)) (\<lambda>customCloudName.
         Inr (oidc_flags (if GetTargetEnv (cs_Location cs) customCloudName = ''AzureChinaCloud''
           then ''sts.chinacloudapi.cn'' else ''sts.windows.net'') aad)))"

definition getDefaultAdmissionControls :: "kubernetes_config \<Rightarrow> string \<times> string" where
  "getDefaultAdmissionControls k =
     (''--enable-admission-plugins'', ''ExtendedResourceToleration'' @
        (if IsAddonEnabled k PodSecurityPolicyAddonName then '',PodSecurityPolicy'' else ''''))"

definition defaultAPIServerConfig :: "config \<Rightarrow> string \<Rightarrow> kubernetes_config \<Rightarrow> config" where
  "defaultAPIServerConfig aad version k =
     [(''--admission-control-config-file'', ''/etc/kubernetes/apiserver-admission-control.yaml''),
      (''--anonymous-auth'', ''false''),
      (''--audit-log-maxage'', ''30''),
      (''--audit-log-maxbackup'', ''10''),
      (''--audit-log-maxsize'', ''100''),
      (''--profiling'', DefaultKubernetesAPIServerEnableProfiling),
      (''--request-timeout'', ''1m''),
      (''--tls-cipher-suites'', TLSStrongCipherSuitesAPIServer),
      (''--tls-min-version'', ''VersionTLS12''),
      (''--v'', DefaultKubernetesAPIServerVerbosity)] @
     (if kc_EnableAggregatedAPIs k
      then [(''--requestheader-client-ca-file'', ''/etc/kubernetes/certs/proxy-ca.crt''),
            (''--proxy-client-cert-file'', ''/etc/kubernetes/certs/proxy.crt''),
            (''--proxy-client-key-file'', ''/etc/kubernetes/certs/proxy.key''),
            (''--requestheader-allowed-names'', ''''),
            (''--requestheader-extra-headers-prefix'', ''X-Remote-Extra-''),
            (''--requestheader-group-headers'', ''X-Remote-Group''),
            (''--requestheader-username-headers'', ''X-Remote-User'')] else []) @
     aad @
     [(''--audit-policy-file'', ''/etc/kubernetes/addons/audit-policy.yaml'')] @
     (if to_Bool (kc_EnableRbac k) then [(''--authorization-mode'', ''Node,RBAC'')] else []) @
     (if IsKubernetesVersionGe version ''1.20.0-alpha.1''
      then [(''--service-account-issuer'', ''https://kubernetes.default.svc.cluster.local''),
            (''--service-account-signing-key-file'', ''/etc/kubernetes/certs/apiserver.key'')] else []) @
     (if \<not> IsKubernetesVersionGe version ''1.20.0-alpha.0'' then [(''--insecure-port'', ''0'')] else []) @
     [getDefaultAdmissionControls k]"

text \<open>The default audit policy also replaces the path that earlier releases used.\<close>

fun set_missing_or_moved :: "config \<Rightarrow> config \<Rightarrow> config" where
  "set_missing_or_moved m [] = m"
| "set_missing_or_moved m ((key, val) # defaults) =
     set_missing_or_moved
       (if map_of m key = None then AList.update key val m
        else if key = ''--audit-policy-file'' \<and> map_get m key = ''/etc/kubernetes/manifests/audit-policy.yaml''
        then AList.update key val m else m) defaults"

definition api_server_removed :: "string \<Rightarrow> kubernetes_config \<Rightarrow> string list" where
  "api_server_removed version k =
     (if \<not> to_Bool (kc_EnableSecureKubelet k) then [''--kubelet-client-certificate'', ''--kubelet-client-key''] else []) @
     [''--admission-control'', ''--repair-malformed-updates''] @
     (if IsKubernetesVersionGe version ''1.24.0''
      then [''--address'', ''--insecure-bind-address'', ''--port'', ''--insecure-port''] else []) @
     (if IsKubernetesVersionGe version ''1.25.0'' then [''--service-account-api-audiences''] else []) @
     (if IsKubernetesVersionGe version ''1.27.0'' then [''--master-service-namespace''] else [])"

definition ShouldDisablePodSecurityPolicyAddon :: "string \<Rightarrow> bool" where
  "ShouldDisablePodSecurityPolicyAddon version \<longleftrightarrow> IsKubernetesVersionGe version PodSecurityPolicyRemovedVersion"

definition overrideAPIServerConfig :: "string \<Rightarrow> config \<Rightarrow> config" where
  "overrideAPIServerConfig version m =
     (let m = removeInvalidFeatureGates m (invalidFeatureGates version) in
      if ShouldDisablePodSecurityPolicyAddon version
      then AList.update ''--enable-admission-plugins''
        (RemoveFromCommaSeparatedList (map_get m ''--enable-admission-plugins'') [''PodSecurityPolicy'']) m
      else m)"

definition api_server_flags ::
    "config \<Rightarrow> properties \<Rightarrow> orchestrator_profile \<Rightarrow> kubernetes_config \<Rightarrow> config \<Rightarrow> config" where
  "api_server_flags aad p orch k m =
     (let version = op_OrchestratorVersion orch;
          ipv6Only = IsFeatureEnabled (p_FeatureFlags p) ''EnableIPv6Only'';
          m = set_missing_or_moved m (defaultAPIServerConfig aad version k);
          m = addDefaultFeatureGates m version ''1.25.0'' ''PodSecurity=true'';
          m = set_all m (staticAPIServerConfig p orch k);
          m = delete_all m (api_server_removed version k);
          m = if ipv6Only then AList.delete ''--advertise-address'' (AList.update ''--bind-address'' ''::'' m) else m;
          m = if IsKubernetesVersionGe version ''1.20.0-alpha.1'' \<and>
                 map_get m ''--service-account-issuer'' = ''kubernetes.default.svc''
              then AList.update ''--service-account-issuer'' ''https://kubernetes.default.svc.cluster.local'' m else m
      in overrideAPIServerConfig version m)"

definition setAPIServerConfig :: "container_service \<Rightarrow> properties result" where
  "setAPIServerConfig cs = update_config (cs_Properties cs) (\<lambda>orch k. bindR (aad_flags cs) (\<lambda>aad.
     Inr (k\<lparr>kc_APIServerConfig :=
       Some (api_server_flags aad (cs_Properties cs) orch k (user_flags (kc_APIServerConfig k)))\<rparr>)))"

end
