(* ===== verification/ControlPlaneFlags.thy ===== *)
theory ControlPlaneFlags
  imports DefaultsControlPlane "HOL-Library.Sublist"
begin

section \<open>The control plane passes meet their contract\<close>

text \<open>
  Each pass of DefaultsControlPlane is an instance of \<open>flag_pass\<close>: the laws give what a user's choice,
  a default and a forbidden flag become, and that a second run changes nothing.
\<close>

subsection \<open>Feature gates within a pass\<close>

definition gate_fix_up :: "string list \<Rightarrow> string list \<Rightarrow> string \<Rightarrow> string \<Rightarrow> string" where
  "gate_fix_up ds ks key v = (if key = feature_gates then gates_text ds ks v else v)"

lemma gate_fix_up_idem: "gate_fix_up ds ks key (gate_fix_up ds ks key v) = gate_fix_up ds ks key v"
  by (simp add: gate_fix_up_def gates_text_idem)

text \<open>Merging default gates one after the other.\<close>

definition add_gates :: "config \<Rightarrow> string list \<Rightarrow> config" where
  "add_gates m ds = foldl (\<lambda>m d. AList.update feature_gates (combineValues [map_get m feature_gates, d]) m) m ds"

lemma add_gates_Nil [simp]: "add_gates m [] = m"
  by (simp add: add_gates_def)

lemma addDefaultFeatureGates_add_gates:
  "addDefaultFeatureGates (add_gates m ds) version minVersion d =
     add_gates m (ds @ [default_gate version minVersion d])"
  by (simp add: addDefaultFeatureGates_def add_gates_def default_gate_def)

declare map_get_update [simp]

lemma map_get_add_gates:
  "map_get (add_gates m ds) key =
     (if key = feature_gates then foldl (\<lambda>s d. combineValues [s, d]) (map_get m feature_gates) ds else map_get m key)"
  unfolding add_gates_def by (induction ds arbitrary: m) simp_all

lemma map_of_add_gates:
  "key \<noteq> feature_gates \<Longrightarrow> map_of (add_gates m ds) key = map_of m key"
  unfolding add_gates_def by (induction ds arbitrary: m) (simp_all add: map_of_update)

text \<open>What the last step, the removal of gates, leaves under each key.\<close>

lemma gates_pass:
  assumes "map_get m feature_gates = foldl (\<lambda>s d. combineValues [s, d]) v ds"
  shows "map_of (removeInvalidFeatureGates m ks) key =
    (if key = feature_gates then Some (gates_text ds ks v) else map_of m key)"
  using assms by (simp add: map_of_removeInvalidFeatureGates gates_text_def)

lemma map_get_cong_key: "map_of m key = map_of m' key \<Longrightarrow> map_get m key = map_get m' key"
  by (simp add: map_get_def)

lemma basic_pass:
  assumes "distinct (map fst st)" and "map_of st feature_gates = None" and "map_of d feature_gates = None"
    and "feature_gates \<notin> set rs"
  shows "map_of (removeInvalidFeatureGates
      (set_all (add_gates (delete_all (set_missing m d) rs) ds) st) ks) key =
    (case map_of st key of Some v \<Rightarrow> Some v
     | None \<Rightarrow> if key \<in> set rs then None
         else map_option (gate_fix_up ds ks key) ((map_of ((feature_gates, '''') # d) ++ map_of m) key))"
proof (cases "key = feature_gates")
  case True
  let ?m = "add_gates (delete_all (set_missing m d) rs) ds"
  have "map_of (set_all ?m st) feature_gates = map_of ?m feature_gates"
    using assms by (simp add: map_of_set_all map_add_def)
  then have "map_get (set_all ?m st) feature_gates = map_get ?m feature_gates" by (rule map_get_cong_key)
  moreover have "map_get (delete_all (set_missing m d) rs) feature_gates = map_get m feature_gates"
    using assms by (intro map_get_cong_key) (simp add: map_of_delete_all map_of_set_missing map_add_def split: option.split)
  ultimately have "map_get (set_all ?m st) feature_gates =
      foldl (\<lambda>s d. combineValues [s, d]) (map_get m feature_gates) ds"
    by (simp add: map_get_add_gates)
  then show ?thesis
    using assms True by (auto simp: gates_pass gate_fix_up_def map_get_def map_add_def split: option.splits)
next
  case False
  then have "gate_fix_up ds ks key = (\<lambda>v. v)" by (simp add: gate_fix_up_def fun_eq_iff)
  then show ?thesis
    using assms False
    by (auto simp: map_of_removeInvalidFeatureGates map_of_set_all map_of_add_gates map_of_delete_all
        map_of_set_missing map_add_def option.map_ident split: option.splits)
qed

lemma empty_set_facts: "x \<notin> set []" "(x \<in> set []) = False"
  by simp_all

lemma forced_not_removed:
  assumes "set rs \<inter> fst ` set st = {}"
  shows "(case map_of st key of Some v \<Rightarrow> Some v | None \<Rightarrow> if key \<in> set rs then None else x) =
    (if key \<in> set rs then None else case map_of st key of Some v \<Rightarrow> Some v | None \<Rightarrow> x)"
  using assms by (auto split: option.splits dest!: map_of_SomeD) (metis IntI empty_iff fst_conv image_eqI)

subsection \<open>Scheduler\<close>

definition scheduler_pass :: "string \<Rightarrow> config \<Rightarrow> config" where
  "scheduler_pass version m =
     (let m = set_missing m defaultSchedulerConfig;
          m = addDefaultFeatureGates m version ''1.25.0'' ''PodSecurity=true'';
          m = set_all m staticSchedulerConfig
      in removeInvalidFeatureGates m (invalidFeatureGates version))"

lemma scheduler_flags_pass:
  "scheduler_flags version m = replaceFlags (scheduler_pass version m) (scheduler_flag_change version)"
  by (simp add: scheduler_flags_def scheduler_pass_def Let_def)

definition scheduler_gates :: "string \<Rightarrow> string list" where
  "scheduler_gates version = [default_gate version ''1.25.0'' ''PodSecurity=true'']"

lemma scheduler_static: "distinct (map fst staticSchedulerConfig)" "map_of staticSchedulerConfig feature_gates = None"
    "map_of defaultSchedulerConfig feature_gates = None"
  by (simp_all add: staticSchedulerConfig_def defaultSchedulerConfig_def feature_gates_def)

lemma scheduler_pass_basic:
  "scheduler_pass version m = removeInvalidFeatureGates
     (set_all (add_gates (delete_all (set_missing m defaultSchedulerConfig) []) (scheduler_gates version)) staticSchedulerConfig)
     (invalidFeatureGates version)"
  using addDefaultFeatureGates_add_gates [of _ "[]"] by (simp add: scheduler_pass_def Let_def scheduler_gates_def)

interpretation scheduler: flag_pass "scheduler_pass version" "[]" staticSchedulerConfig
    "(feature_gates, '''') # defaultSchedulerConfig"
    "gate_fix_up (scheduler_gates version) (invalidFeatureGates version)" for version
  by unfold_locales
    (simp_all only: scheduler_pass_basic basic_pass [OF scheduler_static empty_set_facts(1)] gate_fix_up_idem
      empty_set_facts if_False)

subsection \<open>Controller manager\<close>

definition controller_manager_default_gates :: "string \<Rightarrow> string list" where
  "controller_manager_default_gates version =
     (if \<not> IsKubernetesVersionGe version ''1.19.0''
      then [default_gate version ''1.9.0'' ''ServiceNodeExclusion=true''] else []) @
     [default_gate version ''1.10.0'' ''LocalStorageCapacityIsolation=true''] @
     (if \<not> IsKubernetesVersionGe version ''1.27.0''
      then [default_gate version ''1.24.0'' ''LegacyServiceAccountTokenNoAutoGeneration=false''] else []) @
     [default_gate version ''1.25.0'' ''PodSecurity=true'']"

lemma controller_manager_gates_add:
  "controller_manager_gates version m = add_gates m (controller_manager_default_gates version)"
  by (simp add: controller_manager_gates_def Let_def controller_manager_default_gates_def
      addDefaultFeatureGates_def add_gates_def default_gate_def)

definition controller_manager_forced ::
    "properties \<Rightarrow> orchestrator_profile \<Rightarrow> kubernetes_config \<Rightarrow> bool \<Rightarrow> config" where
  "controller_manager_forced p orch k routes = staticControllerManagerConfig p orch k routes @
     (if IsRBACEnabled k then [(''--use-service-account-credentials'', ''true'')] else [])"

lemma controller_manager_static:
  "distinct (map fst (controller_manager_forced p orch k routes))"
  "map_of (controller_manager_forced p orch k routes) feature_gates = None"
  "map_of (defaultControllerManagerConfig p) feature_gates = None"
  "feature_gates \<notin> set (controller_manager_removed version)"
  "set (controller_manager_removed version) \<inter> fst ` set (controller_manager_forced p orch k routes) = {}"
  by (auto simp: controller_manager_forced_def staticControllerManagerConfig_def Let_def cluster_name_flag_def
      defaultControllerManagerConfig_def controller_manager_removed_def feature_gates_def split: option.splits)

lemma set_all_append: "set_all m (s @ t) = set_all (set_all m s) t"
  by (induction m s rule: set_all.induct) auto

lemma controller_manager_flags_basic:
  "controller_manager_flags p orch k routes m = removeInvalidFeatureGates
     (set_all (add_gates (delete_all (set_missing m (defaultControllerManagerConfig p))
         (controller_manager_removed (op_OrchestratorVersion orch)))
       (controller_manager_default_gates (op_OrchestratorVersion orch)))
     (controller_manager_forced p orch k routes))
     (controller_manager_invalid_gates (op_OrchestratorVersion orch))"
  by (simp add: controller_manager_flags_def Let_def controller_manager_gates_add controller_manager_forced_def
      set_all_append)

interpretation controller_manager: flag_pass "controller_manager_flags p orch k routes"
    "controller_manager_removed (op_OrchestratorVersion orch)" "controller_manager_forced p orch k routes"
    "(feature_gates, '''') # defaultControllerManagerConfig p"
    "gate_fix_up (controller_manager_default_gates (op_OrchestratorVersion orch))
       (controller_manager_invalid_gates (op_OrchestratorVersion orch))"
  for p orch k routes
  by unfold_locales
    (simp_all only: controller_manager_flags_basic basic_pass [OF controller_manager_static(1-4)]
      forced_not_removed [OF controller_manager_static(5)] gate_fix_up_idem)

subsection \<open>Cloud controller manager\<close>

lemma cloud_controller_manager_static:
  "distinct (map fst (staticCloudControllerManagerConfig p orch k routes))"
  "map_of (staticCloudControllerManagerConfig p orch k routes) feature_gates = None"
  "map_of defaultCloudControllerManagerConfig feature_gates = None"
  by (auto simp: staticCloudControllerManagerConfig_def Let_def cluster_name_flag_def
      defaultCloudControllerManagerConfig_def feature_gates_def split: option.splits)

lemma cloud_controller_manager_flags_basic:
  "cloud_controller_manager_flags p orch k routes m = removeInvalidFeatureGates
     (set_all (add_gates (delete_all (set_missing m defaultCloudControllerManagerConfig) []) [])
       (staticCloudControllerManagerConfig p orch k routes)) (invalidFeatureGates (op_OrchestratorVersion orch))"
  by (simp add: cloud_controller_manager_flags_def Let_def)

interpretation cloud_controller_manager: flag_pass "cloud_controller_manager_flags p orch k routes"
    "[]" "staticCloudControllerManagerConfig p orch k routes"
    "(feature_gates, '''') # defaultCloudControllerManagerConfig"
    "gate_fix_up [] (invalidFeatureGates (op_OrchestratorVersion orch))"
  for p orch k routes
  by unfold_locales
    (simp_all only: cloud_controller_manager_flags_basic basic_pass [OF cloud_controller_manager_static empty_set_facts(1)]
      gate_fix_up_idem empty_set_facts if_False)

subsection \<open>API server\<close>

text \<open>The OpenID flags that are merged into the defaults.\<close>

definition aad_config :: "(string \<times> aad_profile) option \<Rightarrow> config" where
  "aad_config issuer = (case issuer of None \<Rightarrow> [] | Some (host, aad) \<Rightarrow> oidc_flags host aad)"

definition api_server_forced :: "properties \<Rightarrow> orchestrator_profile \<Rightarrow> kubernetes_config \<Rightarrow> config" where
  "api_server_forced p orch k =
     (if IsFeatureEnabled (p_FeatureFlags p) ''EnableIPv6Only''
      then AList.update ''--bind-address'' ''::'' (staticAPIServerConfig p orch k) else staticAPIServerConfig p orch k)"

definition api_server_banned :: "properties \<Rightarrow> orchestrator_profile \<Rightarrow> kubernetes_config \<Rightarrow> string list" where
  "api_server_banned p orch k = api_server_removed (op_OrchestratorVersion orch) k @
     (if IsFeatureEnabled (p_FeatureFlags p) ''EnableIPv6Only'' then [''--advertise-address''] else [])"

definition api_server_fix_up :: "string \<Rightarrow> string \<Rightarrow> string \<Rightarrow> string" where
  "api_server_fix_up version key v =
     (if key = feature_gates
      then gates_text [default_gate version ''1.25.0'' ''PodSecurity=true''] (invalidFeatureGates version) v
      else if key = ''--audit-policy-file'' \<and> v = ''/etc/kubernetes/manifests/audit-policy.yaml''
      then ''/etc/kubernetes/addons/audit-policy.yaml''
      else if key = ''--service-account-issuer'' \<and> IsKubernetesVersionGe version ''1.20.0-alpha.1'' \<and>
          v = ''kubernetes.default.svc''
      then ''https://kubernetes.default.svc.cluster.local''
      else if key = ''--enable-admission-plugins'' \<and> ShouldDisablePodSecurityPolicyAddon version
      then RemoveFromCommaSeparatedList v [''PodSecurityPolicy'']
      else v)"

lemma trim_space_idem: "trim_space (trim_space s) = trim_space s"
  by (simp add: trim_space_def trim_by_id trimmed_trim_by)

lemma trim_space_Nil [simp]: "trim_space [] = []"
  by (simp add: trim_space_def trim_by_def)

lemma trim_space_subset: "set (trim_space s) \<subseteq> set s"
  unfolding trim_space_def trim_by_def by (auto dest!: set_dropWhileD)

lemma RemoveFromCommaSeparatedList_idem:
  "RemoveFromCommaSeparatedList (RemoveFromCommaSeparatedList s rs) rs = RemoveFromCommaSeparatedList s rs"
proof -
  let ?keep = "\<lambda>key. to_lower key \<notin> set (map (to_lower \<circ> trim_space) rs)"
  let ?ws = "filter ?keep (map trim_space (split_on (CHR '','') s))"
  have free: "\<forall>w \<in> set ?ws. CHR '','' \<notin> set w"
    using trim_space_subset split_on_free by fastforce
  have "map trim_space ?ws = ?ws" by (rule map_idI) (auto simp: trim_space_idem)
  then have again: "filter ?keep (map trim_space ?ws) = ?ws" by simp
  show ?thesis
  proof (cases "?ws = []")
    case True
    then show ?thesis by (simp add: RemoveFromCommaSeparatedList_def)
  next
    case False
    show ?thesis
      unfolding RemoveFromCommaSeparatedList_def split_on_join [OF False free] again ..
  qed
qed

lemma api_server_fix_up_idem: "api_server_fix_up version key (api_server_fix_up version key v) = api_server_fix_up version key v"
  by (simp add: api_server_fix_up_def gates_text_idem RemoveFromCommaSeparatedList_idem)

lemma map_of_set_missing_or_moved:
  "distinct (map fst d) \<Longrightarrow> map_of (set_missing_or_moved m d) key =
     (case map_of m key of None \<Rightarrow> map_of d key
      | Some v \<Rightarrow> Some (if key = ''--audit-policy-file'' \<and> v = ''/etc/kubernetes/manifests/audit-policy.yaml''
          then case map_of d key of None \<Rightarrow> v | Some w \<Rightarrow> w else v))"
proof (induction m d rule: set_missing_or_moved.induct)
  case (2 m k val d)
  then have "map_of d k = None" by (simp add: map_of_eq_None_iff)
  then show ?case
    using 2 by (cases "map_of m k") (auto simp: map_of_update map_get_def split: option.splits)
qed (simp split: option.split)

text \<open>The keys of the tables, in their order, are among fixed lists without repetition.\<close>

lemma subseq_distinct: "subseq xs ys \<Longrightarrow> distinct ys \<Longrightarrow> distinct xs"
  by (induction xs ys rule: list_emb.induct) (auto dest: list_emb_set)

lemma subseq_opt: "subseq (map fst xs) ks \<Longrightarrow> subseq (map fst (if b then xs else [])) ks"
  by simp

lemmas subseq_table = list_emb_append_mono subseq_opt

definition api_server_static_keys :: "string list" where
  "api_server_static_keys =
     [''--bind-address'', ''--advertise-address'', ''--allow-privileged'', ''--audit-log-path'', ''--secure-port'',
      ''--service-account-lookup'', ''--etcd-certfile'', ''--etcd-keyfile'', ''--tls-cert-file'',
      ''--tls-private-key-file'', ''--client-ca-file'', ''--service-account-key-file'', ''--kubelet-client-certificate'',
      ''--kubelet-client-key'', ''--service-cluster-ip-range'', ''--storage-backend'', ''--enable-bootstrap-token-auth'',
      ''--etcd-cafile'', ''--etcd-servers'', ''--encryption-provider-config'', ''--cloud-provider'', ''--cloud-config'']"

definition api_server_default_keys :: "string list" where
  "api_server_default_keys =
     [''--admission-control-config-file'', ''--anonymous-auth'', ''--audit-log-maxage'', ''--audit-log-maxbackup'',
      ''--audit-log-maxsize'', ''--profiling'', ''--request-timeout'', ''--tls-cipher-suites'', ''--tls-min-version'',
      ''--v'', ''--requestheader-client-ca-file'', ''--proxy-client-cert-file'', ''--proxy-client-key-file'',
      ''--requestheader-allowed-names'', ''--requestheader-extra-headers-prefix'', ''--requestheader-group-headers'',
      ''--requestheader-username-headers'', ''--oidc-username-claim'', ''--oidc-groups-claim'', ''--oidc-client-id'',
      ''--oidc-issuer-url'', ''--audit-policy-file'', ''--authorization-mode'', ''--service-account-issuer'',
      ''--service-account-signing-key-file'', ''--insecure-port'', ''--enable-admission-plugins'']"

lemma api_server_keys_distinct:
  "distinct api_server_static_keys" "distinct api_server_default_keys"
  "feature_gates \<notin> set api_server_static_keys" "feature_gates \<notin> set api_server_default_keys"
  by code_simp+

lemma subseq_etcd: "subseq (map fst (etcd_flags p)) [''--etcd-cafile'', ''--etcd-servers'']"
  by (auto simp: etcd_flags_def split: option.split)

lemma api_server_static_subseq: "subseq (map fst (staticAPIServerConfig p orch k)) api_server_static_keys"
proof -
  have "api_server_static_keys = take 17 api_server_static_keys @
      [''--etcd-cafile'', ''--etcd-servers''] @ [''--encryption-provider-config''] @ [''--cloud-provider'', ''--cloud-config'']"
    by (simp add: api_server_static_keys_def)
  then show ?thesis
    unfolding staticAPIServerConfig_def map_append
    by (elim ssubst, intro subseq_table subseq_etcd) (simp_all add: api_server_static_keys_def)
qed

lemma aad_config_subseq:
  "subseq (map fst (aad_config issuer))
     [''--oidc-username-claim'', ''--oidc-groups-claim'', ''--oidc-client-id'', ''--oidc-issuer-url'']"
  by (auto simp: aad_config_def oidc_flags_def split: option.split)

lemma api_server_default_subseq:
  "subseq (map fst (defaultAPIServerConfig (aad_config issuer) version k)) api_server_default_keys"
proof -
  have "api_server_default_keys = take 10 api_server_default_keys @ take 7 (drop 10 api_server_default_keys) @
      [''--oidc-username-claim'', ''--oidc-groups-claim'', ''--oidc-client-id'', ''--oidc-issuer-url''] @
      [''--audit-policy-file''] @ [''--authorization-mode''] @
      [''--service-account-issuer'', ''--service-account-signing-key-file''] @ [''--insecure-port''] @
      [''--enable-admission-plugins'']"
    by (simp add: api_server_default_keys_def)
  then show ?thesis
    unfolding defaultAPIServerConfig_def map_append
    by (elim ssubst, intro subseq_table aad_config_subseq)
      (simp_all add: api_server_default_keys_def getDefaultAdmissionControls_def)
qed

lemmas api_server_distinct =
  subseq_distinct [OF api_server_static_subseq api_server_keys_distinct(1)]
  subseq_distinct [OF api_server_default_subseq api_server_keys_distinct(2)]

lemma in_opt: "(x \<in> set (if b then xs else [])) = (b \<and> x \<in> set xs)"
  by simp

lemma not_among_keys:
  "subseq (map fst d) ks \<Longrightarrow> key \<notin> set ks \<Longrightarrow> map_of d key = None"
proof -
  assume sub: "subseq (map fst d) ks" and no: "key \<notin> set ks"
  have "key \<notin> set (map fst d)"
  proof
    assume "key \<in> set (map fst d)"
    from list_emb_set [OF sub this] no show False by auto
  qed
  then show "map_of d key = None" by (simp add: map_of_eq_None_iff)
qed

lemma api_server_no_gates:
  "map_of (staticAPIServerConfig p orch k) feature_gates = None"
  "map_of (defaultAPIServerConfig (aad_config issuer) version k) feature_gates = None"
  by (rule not_among_keys, rule api_server_static_subseq api_server_default_subseq, rule api_server_keys_distinct)+

lemma api_server_audit_default:
  "map_of (defaultAPIServerConfig (aad_config issuer) version k) ''--audit-policy-file'' =
     Some ''/etc/kubernetes/addons/audit-policy.yaml''"
  by (rule map_of_is_SomeI [OF api_server_distinct(2)])
    (simp only: defaultAPIServerConfig_def set_append Un_iff list.set_intros simp_thms)

lemma api_server_admission_default:
  "map_of (defaultAPIServerConfig (aad_config issuer) version k) ''--enable-admission-plugins'' =
     Some (snd (getDefaultAdmissionControls k))"
  by (rule map_of_is_SomeI [OF api_server_distinct(2)])
    (simp add: defaultAPIServerConfig_def getDefaultAdmissionControls_def)

lemma api_server_issuer_default:
  assumes "map_of (defaultAPIServerConfig (aad_config issuer) version k) ''--service-account-issuer'' = Some v"
  shows "v = ''https://kubernetes.default.svc.cluster.local''"
  using map_of_SomeD [OF assms]
  unfolding defaultAPIServerConfig_def set_append Un_iff in_opt aad_config_def oidc_flags_def getDefaultAdmissionControls_def
  by (auto split: option.splits)

definition api_server_repaired :: "string list" where
  "api_server_repaired =
     [feature_gates, ''--audit-policy-file'', ''--service-account-issuer'', ''--enable-admission-plugins'']"

lemma api_server_repaired_free:
  assumes "key \<in> set api_server_repaired"
  shows "key \<notin> set api_server_static_keys" and "key \<notin> set (api_server_removed version k)"
    and "key \<noteq> ''--bind-address''" and "key \<noteq> ''--advertise-address''"
proof -
  show "key \<notin> set api_server_static_keys" "key \<noteq> ''--bind-address''" "key \<noteq> ''--advertise-address''"
    using assms by (auto simp: api_server_repaired_def api_server_static_keys_def feature_gates_def)
  show "key \<notin> set (api_server_removed version k)"
    using assms unfolding api_server_removed_def set_append Un_iff in_opt
    by (auto simp: api_server_repaired_def feature_gates_def)
qed

text \<open>The flags before the last repairs.\<close>

definition api_server_base ::
    "config \<Rightarrow> properties \<Rightarrow> orchestrator_profile \<Rightarrow> kubernetes_config \<Rightarrow> config \<Rightarrow> config" where
  "api_server_base aad p orch k m =
     (let version = op_OrchestratorVersion orch;
          m = set_missing_or_moved m (defaultAPIServerConfig aad version k);
          m = addDefaultFeatureGates m version ''1.25.0'' ''PodSecurity=true'';
          m = set_all m (staticAPIServerConfig p orch k);
          m = delete_all m (api_server_removed version k)
      in if IsFeatureEnabled (p_FeatureFlags p) ''EnableIPv6Only''
         then AList.delete ''--advertise-address'' (AList.update ''--bind-address'' ''::'' m) else m)"

lemma bind_address_allowed: "''--bind-address'' \<notin> set (api_server_removed version k)"
  unfolding api_server_removed_def set_append Un_iff in_opt by auto

lemma api_server_base_value:
  "map_of (api_server_base aad p orch k m) key =
     (if key \<in> set (api_server_banned p orch k) then None
      else case map_of (api_server_forced p orch k) key of Some v \<Rightarrow> Some v
      | None \<Rightarrow> map_of (addDefaultFeatureGates
           (set_missing_or_moved m (defaultAPIServerConfig aad (op_OrchestratorVersion orch) k))
           (op_OrchestratorVersion orch) ''1.25.0'' ''PodSecurity=true'') key)"
proof -
  let ?d = "addDefaultFeatureGates (set_missing_or_moved m (defaultAPIServerConfig aad (op_OrchestratorVersion orch) k))
    (op_OrchestratorVersion orch) ''1.25.0'' ''PodSecurity=true''"
  let ?st = "staticAPIServerConfig p orch k"
  have "map_of (delete_all (set_all ?d ?st) (api_server_removed (op_OrchestratorVersion orch) k)) key =
      (if key \<in> set (api_server_removed (op_OrchestratorVersion orch) k) then None
       else case map_of ?st key of Some v \<Rightarrow> Some v | None \<Rightarrow> map_of ?d key)"
    by (simp add: map_of_delete_all map_of_set_all api_server_distinct(1) restrict_map_def map_add_def)
  then show ?thesis
    using bind_address_allowed [of "op_OrchestratorVersion orch" k]
    unfolding api_server_base_def Let_def api_server_banned_def api_server_forced_def
    by (simp add: map_of_delete map_of_update)
qed

lemma api_server_flags_base:
  "api_server_flags aad p orch k m =
     (let version = op_OrchestratorVersion orch;
          m = api_server_base aad p orch k m;
          m = if IsKubernetesVersionGe version ''1.20.0-alpha.1'' \<and>
                 map_get m ''--service-account-issuer'' = ''kubernetes.default.svc''
              then AList.update ''--service-account-issuer'' ''https://kubernetes.default.svc.cluster.local'' m else m
      in overrideAPIServerConfig version m)"
  by (simp only: api_server_flags_def api_server_base_def Let_def)

lemma api_server_repaired_value:
  assumes "key \<in> set api_server_repaired"
  shows "map_of (api_server_base aad p orch k m) key =
     map_of (addDefaultFeatureGates
       (set_missing_or_moved m (defaultAPIServerConfig aad (op_OrchestratorVersion orch) k))
       (op_OrchestratorVersion orch) ''1.25.0'' ''PodSecurity=true'') key"
    and "key \<notin> set (api_server_banned p orch k)" and "map_of (api_server_forced p orch k) key = None"
proof -
  note free = api_server_repaired_free [OF assms]
  show banned: "key \<notin> set (api_server_banned p orch k)" using free by (simp add: api_server_banned_def)
  show forced: "map_of (api_server_forced p orch k) key = None"
    using not_among_keys [OF api_server_static_subseq free(1)] free by (simp add: api_server_forced_def map_of_update)
  show "map_of (api_server_base aad p orch k m) key =
     map_of (addDefaultFeatureGates
       (set_missing_or_moved m (defaultAPIServerConfig aad (op_OrchestratorVersion orch) k))
       (op_OrchestratorVersion orch) ''1.25.0'' ''PodSecurity=true'') key"
    using banned forced by (simp add: api_server_base_value)
qed

definition api_server_offered :: "(string \<times> aad_profile) option \<Rightarrow> string \<Rightarrow> kubernetes_config \<Rightarrow> config" where
  "api_server_offered issuer version k = (feature_gates, '''') # defaultAPIServerConfig (aad_config issuer) version k"

lemma api_server_completed:
  fixes issuer version k m
  defines "d \<equiv> defaultAPIServerConfig (aad_config issuer) version k"
  shows "map_of (addDefaultFeatureGates (set_missing_or_moved m d) version minVersion g) key =
    (if key = feature_gates then Some (combineValues [map_get m feature_gates, default_gate version minVersion g])
     else case map_of m key of
       Some v \<Rightarrow> Some (if key = ''--audit-policy-file'' \<and> v = ''/etc/kubernetes/manifests/audit-policy.yaml''
         then ''/etc/kubernetes/addons/audit-policy.yaml'' else v)
     | None \<Rightarrow> map_of d key)"
proof -
  have moved: "map_of (set_missing_or_moved m d) key = (case map_of m key of
       Some v \<Rightarrow> Some (if key = ''--audit-policy-file'' \<and> v = ''/etc/kubernetes/manifests/audit-policy.yaml''
         then ''/etc/kubernetes/addons/audit-policy.yaml'' else v)
     | None \<Rightarrow> map_of d key)" for key
    unfolding d_def map_of_set_missing_or_moved [OF api_server_distinct(2)]
    by (simp add: api_server_audit_default split: option.split)
  have "map_get (set_missing_or_moved m d) feature_gates = map_get m feature_gates"
    unfolding map_get_def moved using api_server_no_gates(2) [of issuer version k]
    by (simp add: d_def feature_gates_def split: option.split)
  then show ?thesis by (simp add: map_of_addDefaultFeatureGates moved)
qed

lemma api_server_last_steps:
  assumes gates: "map_of m feature_gates = Some g"
    and plugins: "map_of m ''--enable-admission-plugins'' = Some a"
  shows "map_of (let m = if IsKubernetesVersionGe version ''1.20.0-alpha.1'' \<and>
                 map_get m ''--service-account-issuer'' = ''kubernetes.default.svc''
              then AList.update ''--service-account-issuer'' ''https://kubernetes.default.svc.cluster.local'' m else m
      in overrideAPIServerConfig version m) key =
    map_option (\<lambda>v. if key = feature_gates then removeKeys v (invalidFeatureGates version)
      else if key = ''--service-account-issuer'' \<and> IsKubernetesVersionGe version ''1.20.0-alpha.1'' \<and>
          v = ''kubernetes.default.svc''
      then ''https://kubernetes.default.svc.cluster.local''
      else if key = ''--enable-admission-plugins'' \<and> ShouldDisablePodSecurityPolicyAddon version
      then RemoveFromCommaSeparatedList v [''PodSecurityPolicy'']
      else v) (map_of m key)"
  (is "map_of ?r key = map_option (?f key) (map_of m key)")
proof -
  have ne: "feature_gates \<noteq> ''--service-account-issuer''" "feature_gates \<noteq> ''--enable-admission-plugins''"
    by (simp_all add: feature_gates_def)
  consider "key = feature_gates" | "key = ''--service-account-issuer''" | "key = ''--enable-admission-plugins''"
    | "key \<noteq> feature_gates" "key \<noteq> ''--service-account-issuer''" "key \<noteq> ''--enable-admission-plugins''" by blast
  then show ?thesis
  proof cases
    case 1
    then show ?thesis
      using gates ne by (simp add: Let_def overrideAPIServerConfig_def map_of_update map_of_removeInvalidFeatureGates map_get_def)
  next
    case 2
    then show ?thesis
      using ne by (cases "map_of m ''--service-account-issuer''")
        (simp_all add: Let_def overrideAPIServerConfig_def map_of_update map_of_removeInvalidFeatureGates map_get_def)
  next
    case 3
    then show ?thesis
      using plugins ne by (simp add: Let_def overrideAPIServerConfig_def map_of_update map_of_removeInvalidFeatureGates map_get_def)
  next
    case 4
    then show ?thesis
      by (simp add: Let_def overrideAPIServerConfig_def map_of_update map_of_removeInvalidFeatureGates option.map_ident)
  qed
qed

lemma api_server_value:
  "map_of (api_server_flags (aad_config issuer) p orch k m) key =
     (if key \<in> set (api_server_banned p orch k) then None
      else case map_of (api_server_forced p orch k) key of Some v \<Rightarrow> Some v
      | None \<Rightarrow> map_option (api_server_fix_up (op_OrchestratorVersion orch) key)
          ((map_of (api_server_offered issuer (op_OrchestratorVersion orch) k) ++ map_of m) key))"
proof -
  let ?version = "op_OrchestratorVersion orch"
  let ?base = "api_server_base (aad_config issuer) p orch k m"
  have base: "map_of ?base key =
      (if key = feature_gates
       then Some (combineValues [map_get m feature_gates, default_gate ?version ''1.25.0'' ''PodSecurity=true''])
       else case map_of m key of
         Some v \<Rightarrow> Some (if key = ''--audit-policy-file'' \<and> v = ''/etc/kubernetes/manifests/audit-policy.yaml''
           then ''/etc/kubernetes/addons/audit-policy.yaml'' else v)
       | None \<Rightarrow> map_of (defaultAPIServerConfig (aad_config issuer) ?version k) key)"
    if "key \<in> set api_server_repaired" for key
    unfolding api_server_repaired_value(1) [OF that] by (rule api_server_completed)
  have "map_of ?base feature_gates =
      Some (combineValues [map_get m feature_gates, default_gate ?version ''1.25.0'' ''PodSecurity=true''])"
    using base [of feature_gates] by (simp add: api_server_repaired_def)
  moreover have "\<exists>a. map_of ?base ''--enable-admission-plugins'' = Some a"
    using base [of "''--enable-admission-plugins''"] api_server_admission_default [of issuer ?version k]
    by (simp add: api_server_repaired_def feature_gates_def split: option.split)
  ultimately have steps: "map_of (api_server_flags (aad_config issuer) p orch k m) key =
      map_option (\<lambda>v. if key = feature_gates then removeKeys v (invalidFeatureGates ?version)
        else if key = ''--service-account-issuer'' \<and> IsKubernetesVersionGe ?version ''1.20.0-alpha.1'' \<and>
            v = ''kubernetes.default.svc''
        then ''https://kubernetes.default.svc.cluster.local''
        else if key = ''--enable-admission-plugins'' \<and> ShouldDisablePodSecurityPolicyAddon ?version
        then RemoveFromCommaSeparatedList v [''PodSecurityPolicy'']
        else v) (map_of ?base key)"
    unfolding api_server_flags_base Let_def using api_server_last_steps [unfolded Let_def] by blast
  show ?thesis
  proof (cases "key \<in> set api_server_repaired")
    case True
    note kept = api_server_repaired_value(2,3) [OF True, of p orch k]
    consider "key = feature_gates" | "key = ''--service-account-issuer''" | "key = ''--enable-admission-plugins''"
      | "key = ''--audit-policy-file''" using True by (auto simp: api_server_repaired_def)
    then show ?thesis
    proof cases
      case 1
      then show ?thesis
        unfolding steps base [OF True] using kept
        by (cases "map_of m key")
          (simp_all add: api_server_fix_up_def api_server_offered_def map_add_def gates_text_def map_get_def)
    next
      case 2
      then show ?thesis
        unfolding steps base [OF True] using kept api_server_issuer_default [of issuer ?version k]
        by (cases "map_of m key"; cases "map_of (defaultAPIServerConfig (aad_config issuer) ?version k) key")
          (auto simp: api_server_fix_up_def api_server_offered_def map_add_def feature_gates_def)
    next
      case 3
      then show ?thesis
        unfolding steps base [OF True] using kept api_server_admission_default [of issuer ?version k]
        by (cases "map_of m key") (simp_all add: api_server_fix_up_def api_server_offered_def map_add_def feature_gates_def)
    next
      case 4
      then show ?thesis
        unfolding steps base [OF True] using kept api_server_audit_default [of issuer ?version k]
        by (cases "map_of m key") (simp_all add: api_server_fix_up_def api_server_offered_def map_add_def feature_gates_def)
    qed
  next
    case False
    then have "key \<noteq> feature_gates" "key \<noteq> ''--service-account-issuer''" "key \<noteq> ''--enable-admission-plugins''"
      "key \<noteq> ''--audit-policy-file''" by (auto simp: api_server_repaired_def)
    then have "api_server_fix_up ?version key = (\<lambda>v. v)" by (simp add: api_server_fix_up_def fun_eq_iff)
    with \<open>key \<noteq> feature_gates\<close> \<open>key \<noteq> ''--service-account-issuer''\<close> \<open>key \<noteq> ''--enable-admission-plugins''\<close>
      \<open>key \<noteq> ''--audit-policy-file''\<close> show ?thesis
      unfolding steps api_server_base_value api_server_completed
      by (simp add: api_server_offered_def map_add_def option.map_ident split: option.split)
  qed
qed

interpretation api_server: flag_pass "api_server_flags (aad_config issuer) p orch k" "api_server_banned p orch k"
    "api_server_forced p orch k" "api_server_offered issuer (op_OrchestratorVersion orch) k"
    "api_server_fix_up (op_OrchestratorVersion orch)"
  for issuer p orch k
  by unfold_locales (simp_all only: api_server_value api_server_fix_up_idem)

end
