(* ===== verification/ControlPlaneDefaults.thy ===== *)
theory ControlPlaneDefaults
  imports ControlPlaneFlags
begin

section \<open>Completing the flags of the whole control plane\<close>

text \<open>
  The four calls of \<open>setOrchestratorDefaults\<close> in their order, and what they guarantee together. They
  run on every deployment, scale operation and upgrade, on the flags that the last run has stored.
\<close>

definition set_control_plane_flags :: "container_service \<Rightarrow> properties result" where
  "set_control_plane_flags cs =
     bindR (setControllerManagerConfig (cs_Properties cs)) (\<lambda>p.
     bindR (setCloudControllerManagerConfig p) (\<lambda>p.
     bindR (setAPIServerConfig (cs\<lparr>cs_Properties := p\<rparr>)) (\<lambda>p.
     setSchedulerConfig p)))"

text \<open>The flags of the four components, each as the map that it is.\<close>

definition control_plane_flags :: "properties \<Rightarrow> (string \<rightharpoonup> string) list" where
  "control_plane_flags p = (case p_OrchestratorProfile p of None \<Rightarrow> []
     | Some orch \<Rightarrow> (case op_KubernetesConfig orch of None \<Rightarrow> []
       | Some k \<Rightarrow> map (map_of \<circ> user_flags) [kc_ControllerManagerConfig k, kc_CloudControllerManagerConfig k,
           kc_APIServerConfig k, kc_SchedulerConfig k]))"

subsection \<open>The passes read the configuration, not each other's flags\<close>

definition erase_flags :: "kubernetes_config \<Rightarrow> kubernetes_config" where
  "erase_flags k = k\<lparr>kc_ControllerManagerConfig := None, kc_CloudControllerManagerConfig := None,
     kc_APIServerConfig := None, kc_SchedulerConfig := None\<rparr>"

definition erase_orch :: "orchestrator_profile \<Rightarrow> orchestrator_profile" where
  "erase_orch orch = orch\<lparr>op_KubernetesConfig := map_option erase_flags (op_KubernetesConfig orch)\<rparr>"

definition erase :: "properties \<Rightarrow> properties" where
  "erase p = p\<lparr>p_OrchestratorProfile := map_option erase_orch (p_OrchestratorProfile p)\<rparr>"

named_theorems erased \<open>what is read of an erased configuration\<close>

lemma erase_fields [erased]:
  "op_OrchestratorVersion (erase_orch orch) = op_OrchestratorVersion orch"
  "op_OrchestratorType (erase_orch orch) = op_OrchestratorType orch"
  "op_KubernetesConfig (erase_orch orch) = map_option erase_flags (op_KubernetesConfig orch)"
  "kc_NetworkPlugin (erase_flags k) = kc_NetworkPlugin k" "kc_NetworkPolicy (erase_flags k) = kc_NetworkPolicy k"
  "kc_ClusterSubnet (erase_flags k) = kc_ClusterSubnet k"
  "kc_ServiceCIDR (erase_flags k) = kc_ServiceCIDR k" "kc_EtcdVersion (erase_flags k) = kc_EtcdVersion k"
  "kc_EnableRbac (erase_flags k) = kc_EnableRbac k" "kc_Addons (erase_flags k) = kc_Addons k"
  "kc_UseCloudControllerManager (erase_flags k) = kc_UseCloudControllerManager k"
  "kc_EnableSecureKubelet (erase_flags k) = kc_EnableSecureKubelet k"
  "kc_EnableAggregatedAPIs (erase_flags k) = kc_EnableAggregatedAPIs k"
  "kc_EnableDataEncryptionAtRest (erase_flags k) = kc_EnableDataEncryptionAtRest k"
  "kc_EnableEncryptionWithExternalKms (erase_flags k) = kc_EnableEncryptionWithExternalKms k"
  "p_OrchestratorProfile (erase p) = map_option erase_orch (p_OrchestratorProfile p)"
  "p_MasterProfile (erase p) = p_MasterProfile p" "p_FeatureFlags (erase p) = p_FeatureFlags p"
  "p_AADProfile (erase p) = p_AADProfile p" "p_CustomCloudProfile (erase p) = p_CustomCloudProfile p"
  "p_AgentPoolProfiles (erase p) = p_AgentPoolProfiles p"
  by (simp_all add: erase_def erase_orch_def erase_flags_def)

lemma erase_queries [erased]:
  "IsAzureCNI (erase_orch orch) = IsAzureCNI orch"
  "IsAzureStackCloud (erase p) = IsAzureStackCloud p"
  "IsRBACEnabled (erase_flags k) = IsRBACEnabled k"
  "cluster_cidr b (erase_flags k) = cluster_cidr b k"
  "cluster_name_flag (erase p) = cluster_name_flag p"
  "IsAzureCNIDualStack (erase p) (erase_orch orch) = IsAzureCNIDualStack p orch"
  "GetAPIServerEtcdAPIVersion (erase_orch orch) = GetAPIServerEtcdAPIVersion orch"
  "etcd_flags (erase p) = etcd_flags p"
  "getDefaultAdmissionControls (erase_flags k) = getDefaultAdmissionControls k"
  by (auto simp: Let_def IsAzureCNI_def IsAzureStackCloud_def IsRBACEnabled_def cluster_cidr_def cluster_name_flag_def
      IsAzureCNIDualStack_def GetAPIServerEtcdAPIVersion_def etcd_flags_def getDefaultAdmissionControls_def
      IsAddonEnabled_def GetAddonByName_def erase_fields split: option.splits)

lemma erase_routes [erased]: "RequireRouteTable (erase p) = RequireRouteTable p"
proof (cases "p_OrchestratorProfile p")
  case (Some orch)
  then show ?thesis
    by (cases "op_KubernetesConfig orch") (simp_all add: RequireRouteTable_def erase_fields IsAzureCNI_def)
qed (simp add: RequireRouteTable_def erase_fields)

lemma erase_tables [erased]:
  "defaultControllerManagerConfig (erase p) = defaultControllerManagerConfig p"
  "staticControllerManagerConfig (erase p) (erase_orch orch) (erase_flags k) routes = staticControllerManagerConfig p orch k routes"
  "staticCloudControllerManagerConfig (erase p) (erase_orch orch) (erase_flags k) routes =
     staticCloudControllerManagerConfig p orch k routes"
  "staticAPIServerConfig (erase p) (erase_orch orch) (erase_flags k) = staticAPIServerConfig p orch k"
  "defaultAPIServerConfig aad version (erase_flags k) = defaultAPIServerConfig aad version k"
  "api_server_removed version (erase_flags k) = api_server_removed version k"
  unfolding defaultControllerManagerConfig_def staticControllerManagerConfig_def staticCloudControllerManagerConfig_def
    staticAPIServerConfig_def defaultAPIServerConfig_def api_server_removed_def erase_queries erase_fields
  by (rule refl)+

lemma erase_passes:
  "controller_manager_flags (erase p) (erase_orch orch) (erase_flags k) routes = controller_manager_flags p orch k routes"
  "cloud_controller_manager_flags (erase p) (erase_orch orch) (erase_flags k) routes =
     cloud_controller_manager_flags p orch k routes"
  "api_server_flags aad (erase p) (erase_orch orch) (erase_flags k) = api_server_flags aad p orch k"
  unfolding controller_manager_flags_def cloud_controller_manager_flags_def api_server_flags_def erased
  by (rule refl)+

lemma erase_aad: "aad_flags (cs\<lparr>cs_Properties := erase p\<rparr>) = aad_flags (cs\<lparr>cs_Properties := p\<rparr>)"
  by (simp add: aad_flags_def GetCustomCloudName_def erase_fields split: option.split)

subsection \<open>The renamed flags of the scheduler\<close>

context flag_pass
begin

lemma pass_local: "map_of m key = map_of m' key \<Longrightarrow> map_of (pass m) key = map_of (pass m') key"
  by (simp add: pass_value map_add_def split: option.split)

end

lemma map_of_replaceFlags_absent:
  "\<forall>(old, new) \<in> set fs. map_of m old = None \<Longrightarrow> replaceFlags m fs = m"
  by (induction m fs rule: replaceFlags.induct) auto

lemma map_of_replaceFlags_other:
  "key \<notin> fst ` set fs \<Longrightarrow> key \<notin> snd ` set fs \<Longrightarrow> map_of (replaceFlags m fs) key = map_of m key"
  by (induction m fs rule: replaceFlags.induct) (auto simp: map_of_delete map_of_update split: option.splits)

lemma map_of_replaceFlags_old:
  "key \<in> fst ` set fs \<Longrightarrow> fst ` set fs \<inter> snd ` set fs = {} \<Longrightarrow> map_of (replaceFlags m fs) key = None"
proof (induction m fs rule: replaceFlags.induct)
  case (2 m old new fs)
  let ?m = "case map_of m old of None \<Rightarrow> m | Some v \<Rightarrow> AList.delete old (AList.update new v m)"
  show ?case
  proof (cases "key \<in> fst ` set fs")
    case True
    then show ?thesis using 2 by auto
  next
    case False
    then have "key = old" using 2(2) by auto
    moreover have "map_of ?m old = None" using 2(3) by (auto simp: map_of_delete split: option.split)
    moreover have "key \<notin> snd ` set fs" using 2(2,3) by auto
    ultimately show ?thesis using map_of_replaceFlags_other [of key fs ?m] False by simp
  qed
qed auto

text \<open>The renamed flags are neither defaults nor forced nor feature gates.\<close>

lemma scheduler_renamed:
  "fst ` set (scheduler_flag_change version) \<inter> snd ` set (scheduler_flag_change version) = {}"
  "key \<in> fst ` set (scheduler_flag_change version) \<union> snd ` set (scheduler_flag_change version) \<Longrightarrow>
     map_of staticSchedulerConfig key = None \<and> map_of ((feature_gates, '''') # defaultSchedulerConfig) key = None \<and>
     key \<noteq> feature_gates"
  by (auto simp: scheduler_flag_change_def staticSchedulerConfig_def defaultSchedulerConfig_def feature_gates_def
      split: if_splits)

lemma scheduler_pass_renamed:
  assumes "key \<in> fst ` set (scheduler_flag_change version) \<union> snd ` set (scheduler_flag_change version)"
  shows "map_of (scheduler_pass version m) key = map_of m key"
  using scheduler_renamed(2) [OF assms]
  by (cases "map_of m key") (auto simp: scheduler.pass_value gate_fix_up_def map_add_def split: if_splits)

lemma scheduler_flags_idem: "map_of (scheduler_flags version (scheduler_flags version m)) = map_of (scheduler_flags version m)"
proof -
  let ?fs = "scheduler_flag_change version" and ?x = "scheduler_flags version m"
  have other: "map_of ?x key = map_of (scheduler_pass version m) key"
    if "key \<notin> fst ` set ?fs \<union> snd ` set ?fs" for key
    unfolding scheduler_flags_pass using that by (intro map_of_replaceFlags_other) auto
  have same: "map_of (scheduler_pass version ?x) = map_of ?x"
  proof (rule ext)
    fix key
    show "map_of (scheduler_pass version ?x) key = map_of ?x key"
    proof (cases "key \<in> fst ` set ?fs \<union> snd ` set ?fs")
      case True
      then show ?thesis by (rule scheduler_pass_renamed)
    next
      case False
      show ?thesis
        using scheduler.pass_local [OF other [OF False]] other [OF False] by (simp add: scheduler.pass_idem)
    qed
  qed
  have "\<forall>(old, new) \<in> set ?fs. map_of ?x old = None"
    unfolding scheduler_flags_pass using map_of_replaceFlags_old [OF _ scheduler_renamed(1)] by force
  then have "\<forall>(old, new) \<in> set ?fs. map_of (scheduler_pass version ?x) old = None" unfolding same .
  then show ?thesis unfolding scheduler_flags_pass [of version ?x] by (simp add: map_of_replaceFlags_absent same)
qed

subsection \<open>The result of the four passes\<close>

lemma update_config_Inr:
  "update_config p f = Inr p' \<longleftrightarrow> (\<exists>orch k k'. p_OrchestratorProfile p = Some orch \<and> op_KubernetesConfig orch = Some k \<and>
     f orch k = Inr k' \<and> p' = p\<lparr>p_OrchestratorProfile := Some (orch\<lparr>op_KubernetesConfig := Some k'\<rparr>)\<rparr>)"
  by (auto simp: update_config_def bindR_def deref_def split: sum.splits option.splits)

definition kubernetes_of :: "properties \<Rightarrow> (orchestrator_profile \<times> kubernetes_config) option" where
  "kubernetes_of p = (case p_OrchestratorProfile p of None \<Rightarrow> None
     | Some orch \<Rightarrow> map_option (\<lambda>k. (orch, k)) (op_KubernetesConfig orch))"

text \<open>The flags that the passes compute for the configuration of \<open>p\<close>.\<close>

definition completed_flags ::
    "properties \<Rightarrow> orchestrator_profile \<Rightarrow> kubernetes_config \<Rightarrow> bool \<Rightarrow> config \<Rightarrow> kubernetes_config" where
  "completed_flags p orch k routes aad =
     k\<lparr>kc_ControllerManagerConfig :=
         Some (controller_manager_flags p orch k routes (user_flags (kc_ControllerManagerConfig k))),
       kc_CloudControllerManagerConfig :=
         Some (cloud_controller_manager_flags p orch k routes (user_flags (kc_CloudControllerManagerConfig k))),
       kc_APIServerConfig := Some (api_server_flags aad p orch k (user_flags (kc_APIServerConfig k))),
       kc_SchedulerConfig := Some (scheduler_flags (op_OrchestratorVersion orch) (user_flags (kc_SchedulerConfig k)))\<rparr>"

definition with_config :: "properties \<Rightarrow> orchestrator_profile \<Rightarrow> kubernetes_config \<Rightarrow> properties" where
  "with_config p orch k = p\<lparr>p_OrchestratorProfile := Some (orch\<lparr>op_KubernetesConfig := Some k\<rparr>)\<rparr>"

lemma with_config_simps [simp]:
  "p_OrchestratorProfile (with_config p orch k) = Some (orch\<lparr>op_KubernetesConfig := Some k\<rparr>)"
  "with_config (with_config p orch k) orch' k' = with_config p orch' k'"
  "with_config p (orch\<lparr>op_KubernetesConfig := x\<rparr>) k = with_config p orch k"
  by (simp_all add: with_config_def)

lemma erase_with_config:
  assumes "p_OrchestratorProfile p = Some orch" and "op_KubernetesConfig orch = Some k"
    and "erase_flags k' = erase_flags k"
  shows "erase (with_config p orch k') = erase p" and "erase_orch (orch\<lparr>op_KubernetesConfig := Some k'\<rparr>) = erase_orch orch"
  using assms by (simp_all add: erase_def erase_orch_def with_config_def)

lemma erase_cong:
  assumes "erase p = erase q" and "erase_orch orch = erase_orch orch'" and "erase_flags k = erase_flags k'"
  shows "controller_manager_flags p orch k routes = controller_manager_flags q orch' k' routes"
    and "cloud_controller_manager_flags p orch k routes = cloud_controller_manager_flags q orch' k' routes"
    and "api_server_flags aad p orch k = api_server_flags aad q orch' k'"
    and "RequireRouteTable p = RequireRouteTable q"
    and "aad_flags (cs\<lparr>cs_Properties := p\<rparr>) = aad_flags (cs\<lparr>cs_Properties := q\<rparr>)"
  using assms by (metis erase_passes(1), metis erase_passes(2), metis erase_passes(3), metis erase_routes, metis erase_aad)

lemma erase_completed [simp]:
  "erase_flags (k\<lparr>kc_ControllerManagerConfig := a\<rparr>) = erase_flags k"
  "erase_flags (k\<lparr>kc_CloudControllerManagerConfig := a\<rparr>) = erase_flags k"
  "erase_flags (k\<lparr>kc_APIServerConfig := a\<rparr>) = erase_flags k"
  "erase_flags (k\<lparr>kc_SchedulerConfig := a\<rparr>) = erase_flags k"
  by (simp_all add: erase_flags_def)

lemma erase_completed_flags [simp]: "erase_flags (completed_flags p orch k routes aad) = erase_flags k"
  by (simp add: completed_flags_def)

lemma aad_flags_shape: "aad_flags cs = Inr aad \<Longrightarrow> \<exists>issuer. aad = aad_config issuer"
proof (cases "p_AADProfile (cs_Properties cs)")
  case None
  then show "aad_flags cs = Inr aad \<Longrightarrow> \<exists>issuer. aad = aad_config issuer"
    by (auto simp: aad_flags_def aad_config_def intro: exI [of _ None])
next
  case (Some prof)
  assume "aad_flags cs = Inr aad"
  then obtain host where "aad = oidc_flags host prof"
    using Some by (auto simp: aad_flags_def bindR_def split: sum.splits)
  then show "\<exists>issuer. aad = aad_config issuer" by (auto simp: aad_config_def intro: exI [of _ "Some (host, prof)"])
qed

text \<open>What the four calls do: each reads a configuration that differs from the first one in flags only.\<close>

lemma set_control_plane_flags_Inr:
  "set_control_plane_flags cs = Inr p' \<longleftrightarrow>
   (\<exists>orch k routes aad. p_OrchestratorProfile (cs_Properties cs) = Some orch \<and> op_KubernetesConfig orch = Some k \<and>
      RequireRouteTable (cs_Properties cs) = Inr routes \<and> aad_flags cs = Inr aad \<and>
      p' = with_config (cs_Properties cs) orch (completed_flags (cs_Properties cs) orch k routes aad))"
  (is "?l = ?r")
proof (cases "kubernetes_of (cs_Properties cs)")
  case None
  then show ?thesis
    by (auto simp: kubernetes_of_def set_control_plane_flags_def setControllerManagerConfig_def update_config_def bindR_def
        deref_def split: option.splits)
next
  case (Some ok)
  then obtain orch k where ok: "p_OrchestratorProfile (cs_Properties cs) = Some orch" "op_KubernetesConfig orch = Some k"
    by (auto simp: kubernetes_of_def split: option.splits)
  let ?p = "cs_Properties cs"
  have same: "erase (with_config ?p orch k') = erase ?p"
    "erase_orch (orch\<lparr>op_KubernetesConfig := Some k'\<rparr>) = erase_orch orch" if "erase_flags k' = erase_flags k" for k'
    using erase_with_config [OF ok that] by blast+
  have aad: "aad_flags (cs\<lparr>cs_Properties := with_config ?p orch k'\<rparr>) = aad_flags cs" if "erase_flags k' = erase_flags k" for k'
    using erase_cong(5) [OF same(1) [OF that] refl refl, of cs] by simp
  have routes: "RequireRouteTable (with_config ?p orch k') = RequireRouteTable ?p" if "erase_flags k' = erase_flags k" for k'
    using erase_cong(4) [OF same(1) [OF that] refl refl] .
  have passes: "controller_manager_flags (with_config ?p orch k') (orch\<lparr>op_KubernetesConfig := Some k'\<rparr>) k' r =
      controller_manager_flags ?p orch k r"
    "cloud_controller_manager_flags (with_config ?p orch k') (orch\<lparr>op_KubernetesConfig := Some k'\<rparr>) k' r =
      cloud_controller_manager_flags ?p orch k r"
    "api_server_flags a (with_config ?p orch k') (orch\<lparr>op_KubernetesConfig := Some k'\<rparr>) k' = api_server_flags a ?p orch k"
    if "erase_flags k' = erase_flags k" for k' r a
    using erase_cong [OF same [OF that] that] by blast+
  show ?thesis
    using ok
    by (cases "RequireRouteTable ?p"; cases "aad_flags cs")
      (auto simp: set_control_plane_flags_def setControllerManagerConfig_def setCloudControllerManagerConfig_def
        setAPIServerConfig_def setSchedulerConfig_def update_config_def with_config_def [symmetric] routes aad passes
        completed_flags_def)
qed

lemma map_of_passes_idem:
  assumes "aad = aad_config issuer"
  shows "map_of (controller_manager_flags p orch k routes (controller_manager_flags p orch k routes m)) =
      map_of (controller_manager_flags p orch k routes m)"
    and "map_of (cloud_controller_manager_flags p orch k routes (cloud_controller_manager_flags p orch k routes m)) =
      map_of (cloud_controller_manager_flags p orch k routes m)"
    and "map_of (api_server_flags aad p orch k (api_server_flags aad p orch k m)) = map_of (api_server_flags aad p orch k m)"
  unfolding assms by (rule controller_manager.pass_idem cloud_controller_manager.pass_idem api_server.pass_idem)+

lemma control_plane_flags_completed:
  "control_plane_flags (with_config p orch (completed_flags q orch' k routes aad)) =
     [map_of (controller_manager_flags q orch' k routes (user_flags (kc_ControllerManagerConfig k))),
      map_of (cloud_controller_manager_flags q orch' k routes (user_flags (kc_CloudControllerManagerConfig k))),
      map_of (api_server_flags aad q orch' k (user_flags (kc_APIServerConfig k))),
      map_of (scheduler_flags (op_OrchestratorVersion orch') (user_flags (kc_SchedulerConfig k)))]"
  by (simp add: control_plane_flags_def completed_flags_def user_flags_def)

subsection \<open>Properties\<close>

text \<open>
  C20: A second run of the defaults, as every scale operation and upgrade of the same version makes it on
  the stored cluster definition, finds every flag of the control plane as it left it.\<close>

theorem control_plane_flags_idempotent:
  assumes "set_control_plane_flags cs = Inr p'"
  shows "\<exists>p''. set_control_plane_flags (cs\<lparr>cs_Properties := p'\<rparr>) = Inr p'' \<and>
    control_plane_flags p'' = control_plane_flags p'"
proof -
  let ?p = "cs_Properties cs"
  obtain orch k routes aad where ok: "p_OrchestratorProfile ?p = Some orch" "op_KubernetesConfig orch = Some k"
    and routes: "RequireRouteTable ?p = Inr routes" and aad: "aad_flags cs = Inr aad"
    and p': "p' = with_config ?p orch (completed_flags ?p orch k routes aad)"
    using assms unfolding set_control_plane_flags_Inr by blast
  let ?k = "completed_flags ?p orch k routes aad" and ?orch = "orch\<lparr>op_KubernetesConfig := Some (completed_flags ?p orch k routes aad)\<rparr>"
  have same: "erase p' = erase ?p" "erase_orch ?orch = erase_orch orch" "erase_flags ?k = erase_flags k"
    using erase_with_config [OF ok, of ?k] by (simp_all add: p')
  note cong = erase_cong [OF same]
  have "aad_flags (cs\<lparr>cs_Properties := p'\<rparr>) = Inr aad" using cong(5) [of cs] aad by simp
  then have "set_control_plane_flags (cs\<lparr>cs_Properties := p'\<rparr>) =
      Inr (with_config p' ?orch (completed_flags p' ?orch ?k routes aad))"
    unfolding set_control_plane_flags_Inr using routes cong(4) by (auto simp: p')
  moreover have "control_plane_flags (with_config p' ?orch (completed_flags p' ?orch ?k routes aad)) = control_plane_flags p'"
  proof -
    obtain issuer where issuer: "aad = aad_config issuer" using aad_flags_shape [OF aad] by blast
    show ?thesis
      unfolding control_plane_flags_completed cong(1-3)
      unfolding p' control_plane_flags_completed
      by (simp add: user_flags_def completed_flags_def map_of_passes_idem [OF issuer] scheduler_flags_idem)
  qed
  ultimately show ?thesis by blast
qed

definition example_control_plane :: container_service where
  "example_control_plane = zero_container_service\<lparr>cs_Location := ''local'', cs_Properties := zero_properties\<lparr>
     p_OrchestratorProfile := Some \<lparr>op_OrchestratorType = Kubernetes, op_OrchestratorVersion = ''1.28.5'',
       op_KubernetesConfig = Some (zero_kubernetes_config\<lparr>kc_NetworkPlugin := ''kubenet'',
         kc_SchedulerConfig := Some [(''--lock-object-name'', ''s''), (feature_gates, ''PodSecurity=true, A=b'')]\<rparr>)\<rparr>\<rparr>\<rparr>"

lemma example_control_plane_completes:
  "\<exists>p'. set_control_plane_flags example_control_plane = Inr p'"
  unfolding set_control_plane_flags_Inr
  by (simp add: example_control_plane_def zero_properties_def RequireRouteTable_def aad_flags_def) auto

definition example_completed :: properties where
  "example_completed = projr (set_control_plane_flags example_control_plane)"

lemma example_completed: "set_control_plane_flags example_control_plane = Inr example_completed"
  using example_control_plane_completes by (auto simp: example_completed_def)

theorem control_plane_flags_idempotent_witness:
  "\<exists>p''. set_control_plane_flags (example_control_plane\<lparr>cs_Properties := example_completed\<rparr>) = Inr p'' \<and>
    control_plane_flags p'' = control_plane_flags example_completed"
  by (rule control_plane_flags_idempotent [OF example_completed])

subsection \<open>Feature gates that the version refuses\<close>

lemma gates_fixed_up:
  assumes "set (invalidFeatureGates version) \<subseteq> set ks" and "g \<in> set (invalidFeatureGates version)"
  shows "gates (gate_fix_up ds ks feature_gates v) g = None"
  using assms by (auto simp: gate_fix_up_def gates_gates_text)

text \<open>Every pass leaves the flag with a text from which the removed gates are gone.\<close>

lemma pass_gates:
  assumes "flag_pass pass removed forced offered fix_up"
    and "feature_gates \<notin> set removed" and "map_of forced feature_gates = None" and "map_of offered feature_gates \<noteq> None"
    and "\<And>v. gates (fix_up feature_gates v) g = None"
  shows "\<exists>s. map_of (pass m) feature_gates = Some s \<and> gates s g = None"
proof -
  have "map_of (pass m) feature_gates = map_option (fix_up feature_gates) ((map_of offered ++ map_of m) feature_gates)"
    using assms(2,3) flag_pass.pass_value [OF assms(1), of m feature_gates] by simp
  then show ?thesis using assms(4,5) by (auto simp: map_add_def split: option.splits)
qed

lemma passes_gates:
  assumes g: "g \<in> set (invalidFeatureGates (op_OrchestratorVersion orch))"
  shows "\<exists>s. map_of (controller_manager_flags p orch k routes m) feature_gates = Some s \<and> gates s g = None"
    and "\<exists>s. map_of (cloud_controller_manager_flags p orch k routes m) feature_gates = Some s \<and> gates s g = None"
    and "\<exists>s. map_of (api_server_flags (aad_config issuer) p orch k m) feature_gates = Some s \<and> gates s g = None"
    and "\<exists>s. map_of (scheduler_flags (op_OrchestratorVersion orch) m) feature_gates = Some s \<and> gates s g = None"
proof -
  show "\<exists>s. map_of (controller_manager_flags p orch k routes m) feature_gates = Some s \<and> gates s g = None"
    by (rule pass_gates [OF controller_manager.flag_pass_axioms])
      (use g in \<open>auto simp: controller_manager_static controller_manager_invalid_gates_def intro!: gates_fixed_up\<close>)
  show "\<exists>s. map_of (cloud_controller_manager_flags p orch k routes m) feature_gates = Some s \<and> gates s g = None"
    by (rule pass_gates [OF cloud_controller_manager.flag_pass_axioms])
      (use g in \<open>auto simp: cloud_controller_manager_static intro!: gates_fixed_up\<close>)
  have "feature_gates \<in> set api_server_repaired" by (simp add: api_server_repaired_def)
  note api = api_server_repaired_value(2,3) [OF this]
  show "\<exists>s. map_of (api_server_flags (aad_config issuer) p orch k m) feature_gates = Some s \<and> gates s g = None"
    by (rule pass_gates [OF api_server.flag_pass_axioms])
      (use g api in \<open>auto simp: api_server_offered_def api_server_fix_up_def gates_gates_text\<close>)
  have "\<exists>s. map_of (scheduler_pass (op_OrchestratorVersion orch) m) feature_gates = Some s \<and> gates s g = None"
    by (rule pass_gates [OF scheduler.flag_pass_axioms]) (use g in \<open>auto simp: scheduler_static intro!: gates_fixed_up\<close>)
  moreover have "map_of (scheduler_flags (op_OrchestratorVersion orch) m) feature_gates =
      map_of (scheduler_pass (op_OrchestratorVersion orch) m) feature_gates"
    unfolding scheduler_flags_pass using scheduler_renamed(2) [of feature_gates]
    by (intro map_of_replaceFlags_other) auto
  ultimately show "\<exists>s. map_of (scheduler_flags (op_OrchestratorVersion orch) m) feature_gates = Some s \<and> gates s g = None"
    by simp
qed

text \<open>
  Whatever feature gates the user asks for, no component of the control plane is started with a gate
  that the version of the cluster no longer knows, which would keep the component from starting.\<close>

theorem control_plane_gates_are_valid:
  assumes "set_control_plane_flags cs = Inr p'" and "p_OrchestratorProfile p' = Some orch"
    and "g \<in> set (invalidFeatureGates (op_OrchestratorVersion orch))" and "flags \<in> set (control_plane_flags p')"
  shows "\<exists>s. flags feature_gates = Some s \<and> gates s g = None"
proof -
  let ?p = "cs_Properties cs"
  obtain o' k routes aad where aad: "aad_flags cs = Inr aad"
    and p': "p' = with_config ?p o' (completed_flags ?p o' k routes aad)"
    using assms(1) unfolding set_control_plane_flags_Inr by blast
  obtain issuer where issuer: "aad = aad_config issuer" using aad_flags_shape [OF aad] by blast
  have "g \<in> set (invalidFeatureGates (op_OrchestratorVersion o'))" using assms(2,3) by (auto simp: p')
  then show ?thesis
    using assms(4) passes_gates unfolding p' control_plane_flags_completed issuer by fastforce
qed

lemma version_kept:
  assumes "set_control_plane_flags cs = Inr p'" and "p_OrchestratorProfile (cs_Properties cs) = Some orch"
  shows "\<exists>orch'. p_OrchestratorProfile p' = Some orch' \<and> op_OrchestratorVersion orch' = op_OrchestratorVersion orch"
  using assms unfolding set_control_plane_flags_Inr by auto

theorem control_plane_gates_are_valid_witness:
  "list_all (\<lambda>flags. \<exists>s. flags feature_gates = Some s \<and> gates s ''PodSecurity'' = None)
     (control_plane_flags example_completed)"
proof -
  obtain orch where orch: "p_OrchestratorProfile example_completed = Some orch" and v: "op_OrchestratorVersion orch = ''1.28.5''"
    using version_kept [OF example_completed] by (auto simp: example_control_plane_def)
  have "''PodSecurity'' \<in> set (invalidFeatureGates (op_OrchestratorVersion orch))"
    by (simp add: v invalidFeatureGates_def gates_removed_1_28_def IsKubernetesVersionGe_def compare_eval)
  then show ?thesis using control_plane_gates_are_valid [OF example_completed orch] unfolding list_all_iff by blast
qed

subsection \<open>Who decides a flag of the API server\<close>

definition api_server_flag :: "properties \<Rightarrow> string \<Rightarrow> string option" where
  "api_server_flag p key = (case kubernetes_of p of None \<Rightarrow> None | Some (orch, k) \<Rightarrow> map_of (user_flags (kc_APIServerConfig k)) key)"

lemma setAPIServerConfig_flag:
  assumes "setAPIServerConfig cs = Inr p'" and "kubernetes_of (cs_Properties cs) = Some (orch, k)"
  shows "\<exists>issuer. api_server_flag p' = map_of (api_server_flags (aad_config issuer) (cs_Properties cs) orch k
    (user_flags (kc_APIServerConfig k)))"
proof -
  have ok: "p_OrchestratorProfile (cs_Properties cs) = Some orch" "op_KubernetesConfig orch = Some k"
    using assms(2) by (auto simp: kubernetes_of_def split: option.splits)
  then obtain aad where aad: "aad_flags cs = Inr aad"
    and p': "p' = with_config (cs_Properties cs) orch (k\<lparr>kc_APIServerConfig :=
      Some (api_server_flags aad (cs_Properties cs) orch k (user_flags (kc_APIServerConfig k)))\<rparr>)"
    using assms(1) by (auto simp: setAPIServerConfig_def update_config_Inr with_config_def bindR_def split: sum.splits)
  obtain issuer where "aad = aad_config issuer" using aad_flags_shape [OF aad] by blast
  then show ?thesis
    by (auto simp: api_server_flag_def p' kubernetes_of_def user_flags_def fun_eq_iff intro!: exI [of _ issuer])
qed

lemma api_server_fix_up_other: "key \<notin> set api_server_repaired \<Longrightarrow> api_server_fix_up version key v = v"
  by (simp add: api_server_repaired_def api_server_fix_up_def)


lemma example_api_server_completes: "\<exists>p'. setAPIServerConfig example_control_plane = Inr p'"
  by (simp add: setAPIServerConfig_def update_config_Inr example_control_plane_def aad_flags_def zero_properties_def)


end
