(* ===== verification/K8sComponents.thy ===== *)
theory K8sComponents
  imports DefaultConstants K8sVersions
begin

section \<open>Component images per Kubernetes version (pkg/api/k8s_versions.go)\<close>

text \<open>
  The tables of the file, in its order: a map is an association list, a map of maps a function on the
  outer keys that is empty where the map is nil (a lookup in a nil map gives the empty string).
\<close>

subsection \<open>Image references\<close>

definition pauseImageReference :: string where
  "pauseImageReference = ''oss/kubernetes/pause:3.8''"

definition smbFlexVolumeImageReference :: string where
  "smbFlexVolumeImageReference = ''mcr.microsoft.com/k8s/flexvolume/smb-flexvolume:1.0.2''"

definition calicoTyphaImageReference :: string where
  "calicoTyphaImageReference = ''typha:v3.8.9''"

definition calicoCNIImageReference :: string where
  "calicoCNIImageReference = ''cni:v3.8.9''"

definition calicoNodeImageReference :: string where
  "calicoNodeImageReference = ''node:v3.8.9''"

definition calicoPod2DaemonImageReference :: string where
  "calicoPod2DaemonImageReference = ''pod2daemon-flexvol:v3.8.0''"

definition calicoClusterProportionalAutoscalerImageReference :: string where
  "calicoClusterProportionalAutoscalerImageReference = ''mcr.microsoft.com/oss/kubernetes/autoscaler/cluster-proportional-autoscaler:1.1.2-r2''"

definition ciliumAgentImageReference :: string where
  "ciliumAgentImageReference = ''docker.io/cilium/cilium:v1.4''"

definition ciliumCleanStateImageReference :: string where
  "ciliumCleanStateImageReference = ''docker.io/cilium/cilium-init:2018-10-16''"

definition ciliumOperatorImageReference :: string where
  "ciliumOperatorImageReference = ''docker.io/cilium/operator:v1.4''"

definition ciliumEtcdOperatorImageReference :: string where
  "ciliumEtcdOperatorImageReference = ''docker.io/cilium/cilium-etcd-operator:v2.0.5''"

definition antreaControllerImageReference :: string where
  "antreaControllerImageReference = ''projects.registry.vmware.com/antrea/antrea-ubuntu:v1.3.0''"

definition antreaAgentImageReference :: string where
  "antreaAgentImageReference = antreaControllerImageReference"

definition antreaOVSImageReference :: string where
  "antreaOVSImageReference = antreaControllerImageReference"

definition antreaInstallCNIImageReference :: string where
  "antreaInstallCNIImageReference = antreaControllerImageReference"

definition azureNPMContainerImageReference :: string where
  "azureNPMContainerImageReference = ''mcr.microsoft.com/containernetworking/azure-npm:v1.4.32''"

definition aadPodIdentityNMIImageReference :: string where
  "aadPodIdentityNMIImageReference = ''mcr.microsoft.com/k8s/aad-pod-identity/nmi:1.6.1''"

definition aadPodIdentityMICImageReference :: string where
  "aadPodIdentityMICImageReference = ''mcr.microsoft.com/k8s/aad-pod-identity/mic:1.6.1''"

definition azurePolicyImageReference :: string where
  "azurePolicyImageReference = ''mcr.microsoft.com/azure-policy/policy-kubernetes-addon-prod:prod_20201023.1''"

definition gatekeeperImageReference :: string where
  "gatekeeperImageReference = ''mcr.microsoft.com/oss/open-policy-agent/gatekeeper:v3.2.3''"

definition nodeProblemDetectorImageReference :: string where
  "nodeProblemDetectorImageReference = ''registry.k8s.io/node-problem-detector/node-problem-detector:v0.8.4''"

definition csiAzureFileImageReference :: string where
  "csiAzureFileImageReference = ''oss/kubernetes-csi/azurefile-csi:v1.9.0''"

definition azureCloudControllerManagerImageReference :: string where
  "azureCloudControllerManagerImageReference = ''oss/kubernetes/azure-cloud-controller-manager:v1.1.1''"

definition azureCloudNodeManagerImageReference :: string where
  "azureCloudNodeManagerImageReference = ''oss/kubernetes/azure-cloud-node-manager:v1.1.1''"

definition dashboardImageReference :: string where
  "dashboardImageReference = ''mcr.microsoft.com/oss/kubernetes/dashboard:v2.0.4''"

definition dashboardMetricsScraperImageReference :: string where
  "dashboardMetricsScraperImageReference = ''mcr.microsoft.com/oss/kubernetes/metrics-scraper:v1.0.4''"

definition kubeFlannelImageReference :: string where
  "kubeFlannelImageReference = ''quay.io/coreos/flannel:v0.8.0-amd64''"

definition flannelInstallCNIImageReference :: string where
  "flannelInstallCNIImageReference = ''quay.io/coreos/flannel:v0.10.0-amd64''"

definition KubeRBACProxyImageReference :: string where
  "KubeRBACProxyImageReference = ''gcr.io/kubebuilder/kube-rbac-proxy:v0.4.0''"

definition ScheduledMaintenanceManagerImageReference :: string where
  "ScheduledMaintenanceManagerImageReference = ''quay.io/awesomenix/drainsafe-manager:latest''"

definition nvidiaDevicePluginImageReference :: string where
  "nvidiaDevicePluginImageReference = ''oss/nvidia/k8s-device-plugin:1.0.0-beta6''"

definition virtualKubeletImageReference :: string where
  "virtualKubeletImageReference = ''virtual-kubelet:1.2.1.2''"

definition tillerImageReference :: string where
  "tillerImageReference = ''oss/kubernetes/tiller:v2.13.1''"

definition csiSecretsStoreProviderAzureImageReference :: string where
  "csiSecretsStoreProviderAzureImageReference = ''oss/azure/secrets-store/provider-azure:0.0.12''"

definition csiSecretsStoreDriverImageReference :: string where
  "csiSecretsStoreDriverImageReference = ''oss/kubernetes-csi/secrets-store/driver:v0.0.19''"

definition clusterProportionalAutoscalerImageReference :: string where
  "clusterProportionalAutoscalerImageReference = ''mcr.microsoft.com/oss/kubernetes/autoscaler/cluster-proportional-autoscaler:1.8.5''"

definition azureArcOnboardingImageReference :: string where
  "azureArcOnboardingImageReference = ''arck8sonboarding.azurecr.io/arck8sonboarding:v0.1.0''"

definition azureKMSProviderImageReference :: string where
  "azureKMSProviderImageReference = ''k8s/kms/keyvault:v0.0.10''"

text \<open>\<open>strconv.FormatFloat\<close> in the shortest form, for numbers of at most one decimal.\<close>

definition format_float :: "rat \<Rightarrow> string" where
  "format_float r = (let tenths = \<lfloor>10 * r\<rfloor> in
     if tenths mod 10 = 0 then itoa (tenths div 10)
     else itoa (tenths div 10) @ ''.'' @ itoa (tenths mod 10))"

subsection \<open>Default images\<close>

definition gcr_default_images :: "(string \<times> string) list" where
  "gcr_default_images =
     [(DashboardAddonName, ''kubernetes-dashboard-amd64:v1.10.1''),
      (DashboardMetricsScraperContainerName, ''''),
      (ExecHealthZComponentName, ''exechealthz-amd64:1.2''),
      (CoreDNSAddonName, ''coredns:1.6.7''),
      (KubeDNSAddonName, ''k8s-dns-kube-dns-amd64:1.15.4''),
      (DNSMasqComponentName, ''k8s-dns-dnsmasq-nanny-amd64:1.15.4''),
      (DNSSidecarComponentName, ''k8s-dns-sidecar-amd64:1.14.10''),
      (ReschedulerAddonName, ''rescheduler:v0.4.0''),
      (IPMASQAgentAddonName, ''networking/ip-masq-agent:v2.8.0''),
      (KubeProxyAddonName, ''kube-proxy''),
      (ControllerManagerComponentName, ''kube-controller-manager''),
      (APIServerComponentName, ''kube-apiserver''),
      (SchedulerComponentName, ''kube-scheduler''),
      (Hyperkube, ''hyperkube-amd64'')]"

definition mcr_default_images :: "(string \<times> string) list" where
  "mcr_default_images =
     [(DashboardAddonName, ''oss/kubernetes/dashboard:v2.0.4''),
      (DashboardMetricsScraperContainerName, ''oss/kubernetes/metrics-scraper:v1.0.4''),
      (ExecHealthZComponentName, ''oss/kubernetes/exechealthz:1.2''),
      (CoreDNSAddonName, ''oss/kubernetes/coredns:v1.9.4''),
      (KubeDNSAddonName, ''oss/kubernetes/k8s-dns-kube-dns:1.15.4''),
      (DNSMasqComponentName, ''oss/kubernetes/k8s-dns-dnsmasq-nanny:1.15.4''),
      (DNSSidecarComponentName, ''oss/kubernetes/k8s-dns-sidecar:1.14.10''),
      (ReschedulerAddonName, ''oss/kubernetes/rescheduler:v0.4.0''),
      (IPMASQAgentAddonName, ''oss/kubernetes/ip-masq-agent:v2.8.0''),
      (KubeProxyAddonName, ''oss/kubernetes/kube-proxy''),
      (ControllerManagerComponentName, ''oss/kubernetes/kube-controller-manager''),
      (APIServerComponentName, ''oss/kubernetes/kube-apiserver''),
      (SchedulerComponentName, ''oss/kubernetes/kube-scheduler''),
      (Hyperkube, ''oss/kubernetes/hyperkube'')]"

definition kubernetesImageBaseDefaultImages :: "string \<Rightarrow> (string \<times> string) list" where
  "kubernetesImageBaseDefaultImages kubernetesImageBaseType =
     (if kubernetesImageBaseType = KubernetesImageBaseTypeGCR then gcr_default_images
      else if kubernetesImageBaseType = KubernetesImageBaseTypeMCR then mcr_default_images
      else [])"

definition csiSidecarComponentsOverrides :: "(string \<times> (string \<times> string) list) list" where
  "csiSidecarComponentsOverrides =
     [(AzureFileCSIDriverAddonName,
       [(CSIProvisionerContainerName, ''oss/kubernetes-csi/csi-provisioner:v2.2.2''),
        (CSISnapshotterContainerName, ''oss/kubernetes-csi/csi-snapshotter:v4.2.1'')])]"

definition getDefaultImage :: "string \<Rightarrow> string \<Rightarrow> string" where
  "getDefaultImage img kubernetesImageBaseType = map_get (kubernetesImageBaseDefaultImages kubernetesImageBaseType) img"

subsection \<open>Images per minor version\<close>

definition gcr_images_1_29 :: "(string \<times> string) list" where
  "gcr_images_1_29 =
     [(CSIProvisionerContainerName, ''oss/kubernetes-csi/csi-provisioner:v3.5.0''),
      (CSIAttacherContainerName, ''oss/kubernetes-csi/csi-attacher:v4.3.0''),
      (CSILivenessProbeContainerName, ''oss/kubernetes-csi/livenessprobe:v2.10.0''),
      (CSILivenessProbeWindowsContainerName, ''oss/kubernetes-csi/livenessprobe:v2.10.0''),
      (CSINodeDriverRegistrarContainerName, ''oss/kubernetes-csi/csi-node-driver-registrar:v2.8.0''),
      (CSINodeDriverRegistrarWindowsContainerName, ''oss/kubernetes-csi/csi-node-driver-registrar:v2.8.0''),
      (CSISnapshotterContainerName, ''oss/kubernetes-csi/csi-snapshotter:v6.2.2''),
      (CSISnapshotControllerContainerName, ''oss/kubernetes-csi/snapshot-controller:v6.2.2''),
      (CSIResizerContainerName, ''oss/kubernetes-csi/csi-resizer:v1.8.0''),
      (CSIAzureDiskContainerName, ''oss/kubernetes-csi/azuredisk-csi:v1.29.1''),
      (AddonResizerComponentName, ''addon-resizer:1.8.7''),
      (MetricsServerAddonName, ''metrics-server/metrics-server:v0.5.0''),
      (AddonManagerComponentName, ''kube-addon-manager-amd64:v9.1.6''),
      (ClusterAutoscalerAddonName, ''cluster-autoscaler:v1.18.0'')]"

definition gcr_images_1_28 :: "(string \<times> string) list" where
  "gcr_images_1_28 =
     [(CSIProvisionerContainerName, ''oss/kubernetes-csi/csi-provisioner:v3.5.0''),
      (CSIAttacherContainerName, ''oss/kubernetes-csi/csi-attacher:v4.3.0''),
      (CSILivenessProbeContainerName, ''oss/kubernetes-csi/livenessprobe:v2.10.0''),
      (CSILivenessProbeWindowsContainerName, ''oss/kubernetes-csi/livenessprobe:v2.10.0''),
      (CSINodeDriverRegistrarContainerName, ''oss/kubernetes-csi/csi-node-driver-registrar:v2.8.0''),
      (CSINodeDriverRegistrarWindowsContainerName, ''oss/kubernetes-csi/csi-node-driver-registrar:v2.8.0''),
      (CSISnapshotterContainerName, ''oss/kubernetes-csi/csi-snapshotter:v6.2.2''),
      (CSISnapshotControllerContainerName, ''oss/kubernetes-csi/snapshot-controller:v6.2.2''),
      (CSIResizerContainerName, ''oss/kubernetes-csi/csi-resizer:v1.8.0''),
      (CSIAzureDiskContainerName, ''oss/kubernetes-csi/azuredisk-csi:v1.29.1''),
      (AddonResizerComponentName, ''addon-resizer:1.8.7''),
      (MetricsServerAddonName, ''metrics-server/metrics-server:v0.5.0''),
      (AddonManagerComponentName, ''kube-addon-manager-amd64:v9.1.6''),
      (ClusterAutoscalerAddonName, ''cluster-autoscaler:v1.18.0'')]"

definition gcr_images_1_27 :: "(string \<times> string) list" where
  "gcr_images_1_27 =
     [(CSIProvisionerContainerName, ''oss/kubernetes-csi/csi-provisioner:v3.5.0''),
      (CSIAttacherContainerName, ''oss/kubernetes-csi/csi-attacher:v4.3.0''),
      (CSILivenessProbeContainerName, ''oss/kubernetes-csi/livenessprobe:v2.10.0''),
      (CSILivenessProbeWindowsContainerName, ''oss/kubernetes-csi/livenessprobe:v2.10.0''),
      (CSINodeDriverRegistrarContainerName, ''oss/kubernetes-csi/csi-node-driver-registrar:v2.8.0''),
      (CSINodeDriverRegistrarWindowsContainerName, ''oss/kubernetes-csi/csi-node-driver-registrar:v2.8.0''),
      (CSISnapshotterContainerName, ''oss/kubernetes-csi/csi-snapshotter:v6.2.2''),
      (CSISnapshotControllerContainerName, ''oss/kubernetes-csi/snapshot-controller:v6.2.2''),
      (CSIResizerContainerName, ''oss/kubernetes-csi/csi-resizer:v1.8.0''),
      (CSIAzureDiskContainerName, ''oss/kubernetes-csi/azuredisk-csi:v1.28.3''),
      (AddonResizerComponentName, ''addon-resizer:1.8.7''),
      (MetricsServerAddonName, ''metrics-server/metrics-server:v0.5.0''),
      (AddonManagerComponentName, ''kube-addon-manager-amd64:v9.1.6''),
      (ClusterAutoscalerAddonName, ''cluster-autoscaler:v1.18.0'')]"

definition gcr_images_1_26 :: "(string \<times> string) list" where
  "gcr_images_1_26 =
     [(CSIProvisionerContainerName, ''oss/kubernetes-csi/csi-provisioner:v3.3.0''),
      (CSIAttacherContainerName, ''oss/kubernetes-csi/csi-attacher:v4.0.0''),
      (CSILivenessProbeContainerName, ''oss/kubernetes-csi/livenessprobe:v2.8.0''),
      (CSILivenessProbeWindowsContainerName, ''oss/kubernetes-csi/livenessprobe:v2.8.0''),
      (CSINodeDriverRegistrarContainerName, ''oss/kubernetes-csi/csi-node-driver-registrar:v2.6.2''),
      (CSINodeDriverRegistrarWindowsContainerName, ''oss/kubernetes-csi/csi-node-driver-registrar:v2.6.2''),
      (CSISnapshotterContainerName, ''oss/kubernetes-csi/csi-snapshotter:v5.0.1''),
      (CSISnapshotControllerContainerName, ''oss/kubernetes-csi/snapshot-controller:v5.0.1''),
      (CSIResizerContainerName, ''oss/kubernetes-csi/csi-resizer:v1.6.0''),
      (CSIAzureDiskContainerName, ''oss/kubernetes-csi/azuredisk-csi:v1.26.5''),
      (AddonResizerComponentName, ''addon-resizer:1.8.7''),
      (MetricsServerAddonName, ''metrics-server/metrics-server:v0.5.0''),
      (AddonManagerComponentName, ''kube-addon-manager-amd64:v9.1.6''),
      (ClusterAutoscalerAddonName, ''cluster-autoscaler:v1.18.0'')]"

definition gcr_images_1_25 :: "(string \<times> string) list" where
  "gcr_images_1_25 =
     [(CSIProvisionerContainerName, ''oss/kubernetes-csi/csi-provisioner:v3.3.0''),
      (CSIAttacherContainerName, ''oss/kubernetes-csi/csi-attacher:v4.0.0''),
      (CSILivenessProbeContainerName, ''oss/kubernetes-csi/livenessprobe:v2.8.0''),
      (CSILivenessProbeWindowsContainerName, ''oss/kubernetes-csi/livenessprobe:v2.8.0''),
      (CSINodeDriverRegistrarContainerName, ''oss/kubernetes-csi/csi-node-driver-registrar:v2.6.2''),
      (CSINodeDriverRegistrarWindowsContainerName, ''oss/kubernetes-csi/csi-node-driver-registrar:v2.6.2''),
      (CSISnapshotterContainerName, ''oss/kubernetes-csi/csi-snapshotter:v5.0.1''),
      (CSISnapshotControllerContainerName, ''oss/kubernetes-csi/snapshot-controller:v5.0.1''),
      (CSIResizerContainerName, ''oss/kubernetes-csi/csi-resizer:v1.6.0''),
      (CSIAzureDiskContainerName, ''oss/kubernetes-csi/azuredisk-csi:v1.26.5''),
      (AddonResizerComponentName, ''addon-resizer:1.8.7''),
      (MetricsServerAddonName, ''metrics-server/metrics-server:v0.5.0''),
      (AddonManagerComponentName, ''kube-addon-manager-amd64:v9.1.6''),
      (ClusterAutoscalerAddonName, ''cluster-autoscaler:v1.18.0'')]"

definition gcr_images_1_24 :: "(string \<times> string) list" where
  "gcr_images_1_24 =
     [(CSIProvisionerContainerName, ''oss/kubernetes-csi/csi-provisioner:v3.0.0''),
      (CSIAttacherContainerName, ''oss/kubernetes-csi/csi-attacher:v3.3.0''),
      (CSILivenessProbeContainerName, ''oss/kubernetes-csi/livenessprobe:v2.5.0''),
      (CSILivenessProbeWindowsContainerName, ''oss/kubernetes-csi/livenessprobe:v2.5.0''),
      (CSINodeDriverRegistrarContainerName, ''oss/kubernetes-csi/csi-node-driver-registrar:v2.4.0''),
      (CSINodeDriverRegistrarWindowsContainerName, ''oss/kubernetes-csi/csi-node-driver-registrar:v2.4.0''),
      (CSISnapshotterContainerName, ''oss/kubernetes-csi/csi-snapshotter:v4.2.1''),
      (CSISnapshotControllerContainerName, ''oss/kubernetes-csi/snapshot-controller:v4.2.1''),
      (CSIResizerContainerName, ''oss/kubernetes-csi/csi-resizer:v1.3.0''),
      (CSIAzureDiskContainerName, ''oss/kubernetes-csi/azuredisk-csi:v1.10.0''),
      (AddonResizerComponentName, ''addon-resizer:1.8.7''),
      (MetricsServerAddonName, ''metrics-server/metrics-server:v0.5.0''),
      (AddonManagerComponentName, ''kube-addon-manager-amd64:v9.1.5''),
      (ClusterAutoscalerAddonName, ''cluster-autoscaler:v1.18.0'')]"

definition gcr_images_1_23 :: "(string \<times> string) list" where
  "gcr_images_1_23 =
     [(CSIProvisionerContainerName, ''oss/kubernetes-csi/csi-provisioner:v3.0.0''),
      (CSIAttacherContainerName, ''oss/kubernetes-csi/csi-attacher:v3.3.0''),
      (CSILivenessProbeContainerName, ''oss/kubernetes-csi/livenessprobe:v2.5.0''),
      (CSILivenessProbeWindowsContainerName, ''oss/kubernetes-csi/livenessprobe:v2.5.0''),
      (CSINodeDriverRegistrarContainerName, ''oss/kubernetes-csi/csi-node-driver-registrar:v2.4.0''),
      (CSINodeDriverRegistrarWindowsContainerName, ''oss/kubernetes-csi/csi-node-driver-registrar:v2.4.0''),
      (CSISnapshotterContainerName, ''oss/kubernetes-csi/csi-snapshotter:v4.2.1''),
      (CSISnapshotControllerContainerName, ''oss/kubernetes-csi/snapshot-controller:v4.2.1''),
      (CSIResizerContainerName, ''oss/kubernetes-csi/csi-resizer:v1.3.0''),
      (CSIAzureDiskContainerName, ''oss/kubernetes-csi/azuredisk-csi:v1.10.0''),
      (AddonResizerComponentName, ''addon-resizer:1.8.7''),
      (MetricsServerAddonName, ''metrics-server/metrics-server:v0.5.0''),
      (AddonManagerComponentName, ''kube-addon-manager-amd64:v9.1.5''),
      (ClusterAutoscalerAddonName, ''cluster-autoscaler:v1.18.0'')]"

definition gcr_images_1_22 :: "(string \<times> string) list" where
  "gcr_images_1_22 =
     [(CSIProvisionerContainerName, ''oss/kubernetes-csi/csi-provisioner:v3.0.0''),
      (CSIAttacherContainerName, ''oss/kubernetes-csi/csi-attacher:v3.3.0''),
      (CSILivenessProbeContainerName, ''oss/kubernetes-csi/livenessprobe:v2.5.0''),
      (CSILivenessProbeWindowsContainerName, ''oss/kubernetes-csi/livenessprobe:v2.5.0''),
      (CSINodeDriverRegistrarContainerName, ''oss/kubernetes-csi/csi-node-driver-registrar:v2.4.0''),
      (CSINodeDriverRegistrarWindowsContainerName, ''oss/kubernetes-csi/csi-node-driver-registrar:v2.4.0''),
      (CSISnapshotterContainerName, ''oss/kubernetes-csi/csi-snapshotter:v4.2.1''),
      (CSISnapshotControllerContainerName, ''oss/kubernetes-csi/snapshot-controller:v4.2.1''),
      (CSIResizerContainerName, ''oss/kubernetes-csi/csi-resizer:v1.3.0''),
      (CSIAzureDiskContainerName, ''oss/kubernetes-csi/azuredisk-csi:v1.10.0''),
      (AddonResizerComponentName, ''addon-resizer:1.8.7''),
      (MetricsServerAddonName, ''metrics-server/metrics-server:v0.5.0''),
      (AddonManagerComponentName, ''kube-addon-manager-amd64:v9.1.5''),
      (ClusterAutoscalerAddonName, ''cluster-autoscaler:v1.18.0'')]"

definition gcr_images_1_21 :: "(string \<times> string) list" where
  "gcr_images_1_21 =
     [(CSIProvisionerContainerName, ''oss/kubernetes-csi/csi-provisioner:v3.0.0''),
      (CSIAttacherContainerName, ''oss/kubernetes-csi/csi-attacher:v3.3.0''),
      (CSILivenessProbeContainerName, ''oss/kubernetes-csi/livenessprobe:v2.5.0''),
      (CSILivenessProbeWindowsContainerName, ''oss/kubernetes-csi/livenessprobe:v2.5.0''),
      (CSINodeDriverRegistrarContainerName, ''oss/kubernetes-csi/csi-node-driver-registrar:v2.4.0''),
      (CSINodeDriverRegistrarWindowsContainerName, ''oss/kubernetes-csi/csi-node-driver-registrar:v2.4.0''),
      (CSISnapshotterContainerName, ''oss/kubernetes-csi/csi-snapshotter:v4.2.1''),
      (CSISnapshotControllerContainerName, ''oss/kubernetes-csi/snapshot-controller:v4.2.1''),
      (CSIResizerContainerName, ''oss/kubernetes-csi/csi-resizer:v1.3.0''),
      (CSIAzureDiskContainerName, ''oss/kubernetes-csi/azuredisk-csi:v1.10.0''),
      (AddonResizerComponentName, ''addon-resizer:1.8.7''),
      (MetricsServerAddonName, ''metrics-server/metrics-server:v0.5.0''),
      (AddonManagerComponentName, ''kube-addon-manager-amd64:v9.1.3''),
      (ClusterAutoscalerAddonName, ''cluster-autoscaler:v1.18.0'')]"

definition gcr_images_1_20 :: "(string \<times> string) list" where
  "gcr_images_1_20 =
     [(CSIProvisionerContainerName, ''oss/kubernetes-csi/csi-provisioner:v3.0.0''),
      (CSIAttacherContainerName, ''oss/kubernetes-csi/csi-attacher:v3.3.0''),
      (CSILivenessProbeContainerName, ''oss/kubernetes-csi/livenessprobe:v2.5.0''),
      (CSILivenessProbeWindowsContainerName, ''oss/kubernetes-csi/livenessprobe:v2.5.0''),
      (CSINodeDriverRegistrarContainerName, ''oss/kubernetes-csi/csi-node-driver-registrar:v2.4.0''),
      (CSINodeDriverRegistrarWindowsContainerName, ''oss/kubernetes-csi/csi-node-driver-registrar:v2.4.0''),
      (CSISnapshotterContainerName, ''oss/kubernetes-csi/csi-snapshotter:v4.2.1''),
      (CSISnapshotControllerContainerName, ''oss/kubernetes-csi/snapshot-controller:v4.2.1''),
      (CSIResizerContainerName, ''oss/kubernetes-csi/csi-resizer:v1.3.0''),
      (CSIAzureDiskContainerName, ''oss/kubernetes-csi/azuredisk-csi:v1.10.0''),
      (AddonResizerComponentName, ''addon-resizer:1.8.7''),
      (MetricsServerAddonName, ''metrics-server/metrics-server:v0.5.0''),
      (AddonManagerComponentName, ''kube-addon-manager-amd64:v9.1.3''),
      (ClusterAutoscalerAddonName, ''cluster-autoscaler:v1.18.0'')]"

definition gcr_images_1_19 :: "(string \<times> string) list" where
  "gcr_images_1_19 =
     [(CSIProvisionerContainerName, ''oss/kubernetes-csi/csi-provisioner:v3.0.0''),
      (CSIAttacherContainerName, ''oss/kubernetes-csi/csi-attacher:v3.3.0''),
      (CSILivenessProbeContainerName, ''oss/kubernetes-csi/livenessprobe:v2.5.0''),
      (CSILivenessProbeWindowsContainerName, ''oss/kubernetes-csi/livenessprobe:v2.5.0''),
      (CSINodeDriverRegistrarContainerName, ''oss/kubernetes-csi/csi-node-driver-registrar:v2.4.0''),
      (CSINodeDriverRegistrarWindowsContainerName, ''oss/kubernetes-csi/csi-node-driver-registrar:v2.4.0''),
      (CSISnapshotterContainerName, ''oss/kubernetes-csi/csi-snapshotter:v4.2.1''),
      (CSISnapshotControllerContainerName, ''oss/kubernetes-csi/snapshot-controller:v4.2.1''),
      (CSIResizerContainerName, ''oss/kubernetes-csi/csi-resizer:v1.3.0''),
      (CSIAzureDiskContainerName, ''oss/kubernetes-csi/azuredisk-csi:v1.10.0''),
      (AddonResizerComponentName, ''addon-resizer:1.8.7''),
      (MetricsServerAddonName, ''metrics-server/metrics-server:v0.5.0''),
      (AddonManagerComponentName, ''kube-addon-manager-amd64:v9.1.3''),
      (ClusterAutoscalerAddonName, ''cluster-autoscaler:v1.18.0'')]"

definition gcr_images_1_18 :: "(string \<times> string) list" where
  "gcr_images_1_18 =
     [(CSIProvisionerContainerName, ''oss/kubernetes-csi/csi-provisioner:v3.0.0''),
      (CSIAttacherContainerName, ''oss/kubernetes-csi/csi-attacher:v3.3.0''),
      (CSILivenessProbeContainerName, ''oss/kubernetes-csi/livenessprobe:v2.5.0''),
      (CSILivenessProbeWindowsContainerName, ''oss/kubernetes-csi/livenessprobe:v2.5.0''),
      (CSINodeDriverRegistrarContainerName, ''oss/kubernetes-csi/csi-node-driver-registrar:v2.4.0''),
      (CSINodeDriverRegistrarWindowsContainerName, ''oss/kubernetes-csi/csi-node-driver-registrar:v2.4.0''),
      (CSISnapshotterContainerName, ''oss/kubernetes-csi/csi-snapshotter:v4.2.1''),
      (CSISnapshotControllerContainerName, ''oss/kubernetes-csi/snapshot-controller:v4.2.1''),
      (CSIResizerContainerName, ''oss/kubernetes-csi/csi-resizer:v1.3.0''),
      (CSIAzureDiskContainerName, ''oss/kubernetes-csi/azuredisk-csi:v1.10.0''),
      (AddonResizerComponentName, ''addon-resizer:1.8.7''),
      (MetricsServerAddonName, ''metrics-server/metrics-server:v0.5.0''),
      (AddonManagerComponentName, ''kube-addon-manager-amd64:v9.1.3''),
      (ClusterAutoscalerAddonName, ''cluster-autoscaler:v1.18.0'')]"

definition gcr_images_1_17 :: "(string \<times> string) list" where
  "gcr_images_1_17 =
     [(CSIProvisionerContainerName, ''oss/kubernetes-csi/csi-provisioner:v3.0.0''),
      (CSIAttacherContainerName, ''oss/kubernetes-csi/csi-attacher:v3.3.0''),
      (CSILivenessProbeContainerName, ''oss/kubernetes-csi/livenessprobe:v2.5.0''),
      (CSINodeDriverRegistrarContainerName, ''oss/kubernetes-csi/csi-node-driver-registrar:v2.4.0''),
      (CSISnapshotterContainerName, ''oss/kubernetes-csi/csi-snapshotter:v4.2.1''),
      (CSISnapshotControllerContainerName, ''oss/kubernetes-csi/snapshot-controller:v4.2.1''),
      (CSIResizerContainerName, ''oss/kubernetes-csi/csi-resizer:v1.3.0''),
      (CSIAzureDiskContainerName, ''oss/kubernetes-csi/azuredisk-csi:v1.10.0''),
      (AddonResizerComponentName, ''addon-resizer:1.8.7''),
      (MetricsServerAddonName, ''metrics-server/metrics-server:v0.5.0''),
      (AddonManagerComponentName, ''kube-addon-manager-amd64:v9.1.3''),
      (ClusterAutoscalerAddonName, ''cluster-autoscaler:v1.17.1'')]"

definition gcr_images_1_16 :: "(string \<times> string) list" where
  "gcr_images_1_16 =
     [(CSIProvisionerContainerName, ''oss/kubernetes-csi/csi-provisioner:v3.0.0''),
      (CSIAttacherContainerName, ''oss/kubernetes-csi/csi-attacher:v3.3.0''),
      (CSILivenessProbeContainerName, ''oss/kubernetes-csi/livenessprobe:v2.5.0''),
      (CSINodeDriverRegistrarContainerName, ''oss/kubernetes-csi/csi-node-driver-registrar:v2.4.0''),
      (CSIResizerContainerName, ''oss/kubernetes-csi/csi-resizer:v1.3.0''),
      (CSIAzureDiskContainerName, ''oss/kubernetes-csi/azuredisk-csi:v1.10.0''),
      (AddonResizerComponentName, ''addon-resizer:1.8.7''),
      (MetricsServerAddonName, ''metrics-server/metrics-server:v0.5.0''),
      (AddonManagerComponentName, ''kube-addon-manager-amd64:v9.1.3''),
      (ClusterAutoscalerAddonName, ''cluster-autoscaler:v1.16.4'')]"

definition gcr_images_1_15 :: "(string \<times> string) list" where
  "gcr_images_1_15 =
     [(CSIProvisionerContainerName, ''oss/kubernetes-csi/csi-provisioner:v3.0.0''),
      (CSIAttacherContainerName, ''oss/kubernetes-csi/csi-attacher:v3.3.0''),
      (CSILivenessProbeContainerName, ''oss/kubernetes-csi/livenessprobe:v2.5.0''),
      (CSINodeDriverRegistrarContainerName, ''oss/kubernetes-csi/csi-node-driver-registrar:v2.4.0''),
      (CSIAzureDiskContainerName, ''oss/kubernetes-csi/azuredisk-csi:v1.10.0''),
      (AddonResizerComponentName, ''addon-resizer:1.8.7''),
      (MetricsServerAddonName, ''metrics-server-amd64:v0.2.1''),
      (AddonManagerComponentName, ''kube-addon-manager-amd64:v9.1.3''),
      (ClusterAutoscalerAddonName, ''cluster-autoscaler:v1.15.5''),
      (CloudControllerManagerComponentName, ''cloud-controller-manager-amd64'')]"

definition gcr_images_1_14 :: "(string \<times> string) list" where
  "gcr_images_1_14 =
     [(CSIProvisionerContainerName, ''oss/kubernetes-csi/csi-provisioner:v3.0.0''),
      (CSIAttacherContainerName, ''oss/kubernetes-csi/csi-attacher:v3.3.0''),
      (CSILivenessProbeContainerName, ''oss/kubernetes-csi/livenessprobe:v2.5.0''),
      (CSINodeDriverRegistrarContainerName, ''oss/kubernetes-csi/csi-node-driver-registrar:v2.4.0''),
      (CSIAzureDiskContainerName, ''oss/kubernetes-csi/azuredisk-csi:v1.10.0''),
      (AddonResizerComponentName, ''addon-resizer:1.8.4''),
      (MetricsServerAddonName, ''metrics-server-amd64:v0.2.1''),
      (AddonManagerComponentName, ''kube-addon-manager-amd64:v9.0.2''),
      (ClusterAutoscalerAddonName, ''cluster-autoscaler:v1.14.7''),
      (CloudControllerManagerComponentName, ''cloud-controller-manager-amd64'')]"

definition gcr_images_1_13 :: "(string \<times> string) list" where
  "gcr_images_1_13 =
     [(CSIProvisionerContainerName, ''oss/kubernetes-csi/csi-provisioner:v3.0.0''),
      (CSIAttacherContainerName, ''oss/kubernetes-csi/csi-attacher:v3.3.0''),
      (CSILivenessProbeContainerName, ''oss/kubernetes-csi/livenessprobe:v2.5.0''),
      (CSINodeDriverRegistrarContainerName, ''oss/kubernetes-csi/csi-node-driver-registrar:v2.4.0''),
      (CSIAzureDiskContainerName, ''oss/kubernetes-csi/azuredisk-csi:v1.10.0''),
      (AddonResizerComponentName, ''addon-resizer:1.8.4''),
      (MetricsServerAddonName, ''metrics-server-amd64:v0.2.1''),
      (AddonManagerComponentName, ''kube-addon-manager-amd64:v8.9.1''),
      (ClusterAutoscalerAddonName, ''cluster-autoscaler:v1.13.9''),
      (CloudControllerManagerComponentName, ''cloud-controller-manager-amd64'')]"

definition gcr_images_1_12 :: "(string \<times> string) list" where
  "gcr_images_1_12 =
     [(AddonResizerComponentName, ''addon-resizer:1.8.4''),
      (MetricsServerAddonName, ''metrics-server-amd64:v0.2.1''),
      (AddonManagerComponentName, ''kube-addon-manager-amd64:v8.9.1''),
      (ClusterAutoscalerAddonName, ''cluster-autoscaler:v1.12.8''),
      (CloudControllerManagerComponentName, ''cloud-controller-manager-amd64'')]"

definition gcr_images_1_11 :: "(string \<times> string) list" where
  "gcr_images_1_11 =
     [(AddonResizerComponentName, ''addon-resizer:1.8.4''),
      (MetricsServerAddonName, ''metrics-server-amd64:v0.2.1''),
      (AddonManagerComponentName, ''kube-addon-manager-amd64:v8.9.1''),
      (ClusterAutoscalerAddonName, ''cluster-autoscaler:v1.3.9''),
      (CloudControllerManagerComponentName, ''cloud-controller-manager-amd64'')]"

definition gcr_images_1_10 :: "(string \<times> string) list" where
  "gcr_images_1_10 =
     [(AddonResizerComponentName, ''addon-resizer:1.8.4''),
      (MetricsServerAddonName, ''metrics-server-amd64:v0.2.1''),
      (AddonManagerComponentName, ''kube-addon-manager-amd64:v8.9.1''),
      (ReschedulerAddonName, ''rescheduler:v0.3.1''),
      (ClusterAutoscalerAddonName, ''cluster-autoscaler:v1.2.5''),
      (DNSSidecarComponentName, ''k8s-dns-sidecar-amd64:1.14.8''),
      (CloudControllerManagerComponentName, ''cloud-controller-manager-amd64'')]"

definition gcr_images_1_9 :: "(string \<times> string) list" where
  "gcr_images_1_9 =
     [(AddonResizerComponentName, ''addon-resizer:1.8.4''),
      (MetricsServerAddonName, ''metrics-server-amd64:v0.2.1''),
      (AddonManagerComponentName, ''kube-addon-manager-amd64:v8.6''),
      (ReschedulerAddonName, ''rescheduler:v0.3.1''),
      (ClusterAutoscalerAddonName, ''cluster-autoscaler:v1.1.2''),
      (DNSSidecarComponentName, ''k8s-dns-sidecar-amd64:1.14.7''),
      (CloudControllerManagerComponentName, ''cloud-controller-manager-amd64'')]"

definition gcr_images_1_8 :: "(string \<times> string) list" where
  "gcr_images_1_8 =
     [(AddonResizerComponentName, ''addon-resizer:1.7''),
      (MetricsServerAddonName, ''metrics-server-amd64:v0.2.1''),
      (KubeDNSAddonName, ''k8s-dns-kube-dns-amd64:1.14.13''),
      (AddonManagerComponentName, ''kube-addon-manager-amd64:v8.6''),
      (DNSMasqComponentName, ''k8s-dns-dnsmasq-nanny-amd64:1.14.8''),
      (ReschedulerAddonName, ''rescheduler:v0.3.1''),
      (CloudControllerManagerComponentName, ''cloud-controller-manager-amd64'')]"

definition gcr_images_1_7 :: "(string \<times> string) list" where
  "gcr_images_1_7 =
     [(''dashboard'', ''kubernetes-dashboard-amd64:v1.6.3''),
      (AddonResizerComponentName, ''addon-resizer:1.7''),
      (MetricsServerAddonName, ''metrics-server-amd64:v0.2.1''),
      (KubeDNSAddonName, ''k8s-dns-kube-dns-amd64:1.14.5''),
      (AddonManagerComponentName, ''kube-addon-manager-amd64:v8.6''),
      (DNSMasqComponentName, ''k8s-dns-dnsmasq-nanny-amd64:1.14.5''),
      (ReschedulerAddonName, ''rescheduler:v0.3.1'')]"

definition gcr_images_1_6 :: "(string \<times> string) list" where
  "gcr_images_1_6 =
     [(''dashboard'', ''kubernetes-dashboard-amd64:v1.6.3''),
      (AddonResizerComponentName, ''addon-resizer:1.7''),
      (MetricsServerAddonName, ''metrics-server-amd64:v0.2.1''),
      (KubeDNSAddonName, ''k8s-dns-kube-dns-amd64:1.14.5''),
      (AddonManagerComponentName, ''kube-addon-manager-amd64:v6.5''),
      (DNSMasqComponentName, ''k8s-dns-dnsmasq-nanny-amd64:1.14.5''),
      (ReschedulerAddonName, ''rescheduler:v0.3.1'')]"

definition mcr_images_1_29 :: "(string \<times> string) list" where
  "mcr_images_1_29 =
     [(CSIProvisionerContainerName, ''oss/kubernetes-csi/csi-provisioner:v3.5.0''),
      (CSIAttacherContainerName, ''oss/kubernetes-csi/csi-attacher:v4.3.0''),
      (CSILivenessProbeContainerName, ''oss/kubernetes-csi/livenessprobe:v2.10.0''),
      (CSILivenessProbeWindowsContainerName, ''oss/kubernetes-csi/livenessprobe:v2.10.0''),
      (CSINodeDriverRegistrarContainerName, ''oss/kubernetes-csi/csi-node-driver-registrar:v2.8.0''),
      (CSINodeDriverRegistrarWindowsContainerName, ''oss/kubernetes-csi/csi-node-driver-registrar:v2.8.0''),
      (CSISnapshotterContainerName, ''oss/kubernetes-csi/csi-snapshotter:v6.2.2''),
      (CSISnapshotControllerContainerName, ''oss/kubernetes-csi/snapshot-controller:v6.2.2''),
      (CSIResizerContainerName, ''oss/kubernetes-csi/csi-resizer:v1.8.0''),
      (CSIAzureDiskContainerName, ''oss/kubernetes-csi/azuredisk-csi:v1.29.1''),
      (AddonResizerComponentName, ''oss/kubernetes/autoscaler/addon-resizer:1.8.7''),
      (MetricsServerAddonName, ''oss/kubernetes/metrics-server:v0.5.2''),
      (AddonManagerComponentName, ''oss/kubernetes/kube-addon-manager:v9.1.6''),
      (ClusterAutoscalerAddonName, ''oss/kubernetes/autoscaler/cluster-autoscaler:v1.22.1'')]"

definition mcr_images_1_28 :: "(string \<times> string) list" where
  "mcr_images_1_28 =
     [(CSIProvisionerContainerName, ''oss/kubernetes-csi/csi-provisioner:v3.5.0''),
      (CSIAttacherContainerName, ''oss/kubernetes-csi/csi-attacher:v4.3.0''),
      (CSILivenessProbeContainerName, ''oss/kubernetes-csi/livenessprobe:v2.10.0''),
      (CSILivenessProbeWindowsContainerName, ''oss/kubernetes-csi/livenessprobe:v2.10.0''),
      (CSINodeDriverRegistrarContainerName, ''oss/kubernetes-csi/csi-node-driver-registrar:v2.8.0''),
      (CSINodeDriverRegistrarWindowsContainerName, ''oss/kubernetes-csi/csi-node-driver-registrar:v2.8.0''),
      (CSISnapshotterContainerName, ''oss/kubernetes-csi/csi-snapshotter:v6.2.2''),
      (CSISnapshotControllerContainerName, ''oss/kubernetes-csi/snapshot-controller:v6.2.2''),
      (CSIResizerContainerName, ''oss/kubernetes-csi/csi-resizer:v1.8.0''),
      (CSIAzureDiskContainerName, ''oss/kubernetes-csi/azuredisk-csi:v1.29.1''),
      (AddonResizerComponentName, ''oss/kubernetes/autoscaler/addon-resizer:1.8.7''),
      (MetricsServerAddonName, ''oss/kubernetes/metrics-server:v0.5.2''),
      (AddonManagerComponentName, ''oss/kubernetes/kube-addon-manager:v9.1.6''),
      (ClusterAutoscalerAddonName, ''oss/kubernetes/autoscaler/cluster-autoscaler:v1.22.1'')]"

definition mcr_images_1_27 :: "(string \<times> string) list" where
  "mcr_images_1_27 =
     [(CSIProvisionerContainerName, ''oss/kubernetes-csi/csi-provisioner:v3.5.0''),
      (CSIAttacherContainerName, ''oss/kubernetes-csi/csi-attacher:v4.3.0''),
      (CSILivenessProbeContainerName, ''oss/kubernetes-csi/livenessprobe:v2.10.0''),
      (CSILivenessProbeWindowsContainerName, ''oss/kubernetes-csi/livenessprobe:v2.10.0''),
      (CSINodeDriverRegistrarContainerName, ''oss/kubernetes-csi/csi-node-driver-registrar:v2.8.0''),
      (CSINodeDriverRegistrarWindowsContainerName, ''oss/kubernetes-csi/csi-node-driver-registrar:v2.8.0''),
      (CSISnapshotterContainerName, ''oss/kubernetes-csi/csi-snapshotter:v6.2.2''),
      (CSISnapshotControllerContainerName, ''oss/kubernetes-csi/snapshot-controller:v6.2.2''),
      (CSIResizerContainerName, ''oss/kubernetes-csi/csi-resizer:v1.8.0''),
      (CSIAzureDiskContainerName, ''oss/kubernetes-csi/azuredisk-csi:v1.28.3''),
      (AddonResizerComponentName, ''oss/kubernetes/autoscaler/addon-resizer:1.8.7''),
      (MetricsServerAddonName, ''oss/kubernetes/metrics-server:v0.5.2''),
      (AddonManagerComponentName, ''oss/kubernetes/kube-addon-manager:v9.1.6''),
      (ClusterAutoscalerAddonName, ''oss/kubernetes/autoscaler/cluster-autoscaler:v1.22.1'')]"

definition mcr_images_1_26 :: "(string \<times> string) list" where
  "mcr_images_1_26 =
     [(CSIProvisionerContainerName, ''oss/kubernetes-csi/csi-provisioner:v3.3.0''),
      (CSIAttacherContainerName, ''oss/kubernetes-csi/csi-attacher:v4.0.0''),
      (CSILivenessProbeContainerName, ''oss/kubernetes-csi/livenessprobe:v2.8.0''),
      (CSILivenessProbeWindowsContainerName, ''oss/kubernetes-csi/livenessprobe:v2.8.0''),
      (CSINodeDriverRegistrarContainerName, ''oss/kubernetes-csi/csi-node-driver-registrar:v2.6.2''),
      (CSINodeDriverRegistrarWindowsContainerName, ''oss/kubernetes-csi/csi-node-driver-registrar:v2.6.2''),
      (CSISnapshotterContainerName, ''oss/kubernetes-csi/csi-snapshotter:v5.0.1''),
      (CSISnapshotControllerContainerName, ''oss/kubernetes-csi/snapshot-controller:v5.0.1''),
      (CSIResizerContainerName, ''oss/kubernetes-csi/csi-resizer:v1.6.0''),
      (CSIAzureDiskContainerName, ''oss/kubernetes-csi/azuredisk-csi:v1.26.5''),
      (AddonResizerComponentName, ''oss/kubernetes/autoscaler/addon-resizer:1.8.7''),
      (MetricsServerAddonName, ''oss/kubernetes/metrics-server:v0.5.2''),
      (AddonManagerComponentName, ''oss/kubernetes/kube-addon-manager:v9.1.6''),
      (ClusterAutoscalerAddonName, ''oss/kubernetes/autoscaler/cluster-autoscaler:v1.22.1'')]"

definition mcr_images_1_25 :: "(string \<times> string) list" where
  "mcr_images_1_25 =
     [(CSIProvisionerContainerName, ''oss/kubernetes-csi/csi-provisioner:v3.3.0''),
      (CSIAttacherContainerName, ''oss/kubernetes-csi/csi-attacher:v4.0.0''),
      (CSILivenessProbeContainerName, ''oss/kubernetes-csi/livenessprobe:v2.8.0''),
      (CSILivenessProbeWindowsContainerName, ''oss/kubernetes-csi/livenessprobe:v2.8.0''),
      (CSINodeDriverRegistrarContainerName, ''oss/kubernetes-csi/csi-node-driver-registrar:v2.6.2''),
      (CSINodeDriverRegistrarWindowsContainerName, ''oss/kubernetes-csi/csi-node-driver-registrar:v2.6.2''),
      (CSISnapshotterContainerName, ''oss/kubernetes-csi/csi-snapshotter:v5.0.1''),
      (CSISnapshotControllerContainerName, ''oss/kubernetes-csi/snapshot-controller:v5.0.1''),
      (CSIResizerContainerName, ''oss/kubernetes-csi/csi-resizer:v1.6.0''),
      (CSIAzureDiskContainerName, ''oss/kubernetes-csi/azuredisk-csi:v1.26.5''),
      (AddonResizerComponentName, ''oss/kubernetes/autoscaler/addon-resizer:1.8.7''),
      (MetricsServerAddonName, ''oss/kubernetes/metrics-server:v0.5.2''),
      (AddonManagerComponentName, ''oss/kubernetes/kube-addon-manager:v9.1.6''),
      (ClusterAutoscalerAddonName, ''oss/kubernetes/autoscaler/cluster-autoscaler:v1.22.1'')]"

definition mcr_images_1_24 :: "(string \<times> string) list" where
  "mcr_images_1_24 =
     [(CSIProvisionerContainerName, ''oss/kubernetes-csi/csi-provisioner:v3.0.0''),
      (CSIAttacherContainerName, ''oss/kubernetes-csi/csi-attacher:v3.3.0''),
      (CSILivenessProbeContainerName, ''oss/kubernetes-csi/livenessprobe:v2.5.0''),
      (CSILivenessProbeWindowsContainerName, ''oss/kubernetes-csi/livenessprobe:v2.5.0''),
      (CSINodeDriverRegistrarContainerName, ''oss/kubernetes-csi/csi-node-driver-registrar:v2.4.0''),
      (CSINodeDriverRegistrarWindowsContainerName, ''oss/kubernetes-csi/csi-node-driver-registrar:v2.4.0''),
      (CSISnapshotterContainerName, ''oss/kubernetes-csi/csi-snapshotter:v4.2.1''),
      (CSISnapshotControllerContainerName, ''oss/kubernetes-csi/snapshot-controller:v4.2.1''),
      (CSIResizerContainerName, ''oss/kubernetes-csi/csi-resizer:v1.3.0''),
      (CSIAzureDiskContainerName, ''oss/kubernetes-csi/azuredisk-csi:v1.10.0''),
      (AddonResizerComponentName, ''oss/kubernetes/autoscaler/addon-resizer:1.8.7''),
      (MetricsServerAddonName, ''oss/kubernetes/metrics-server:v0.5.2''),
      (AddonManagerComponentName, ''oss/kubernetes/kube-addon-manager:v9.1.5''),
      (ClusterAutoscalerAddonName, ''oss/kubernetes/autoscaler/cluster-autoscaler:v1.22.1'')]"

definition mcr_images_1_23 :: "(string \<times> string) list" where
  "mcr_images_1_23 =
     [(CSIProvisionerContainerName, ''oss/kubernetes-csi/csi-provisioner:v3.0.0''),
      (CSIAttacherContainerName, ''oss/kubernetes-csi/csi-attacher:v3.3.0''),
      (CSILivenessProbeContainerName, ''oss/kubernetes-csi/livenessprobe:v2.5.0''),
      (CSILivenessProbeWindowsContainerName, ''oss/kubernetes-csi/livenessprobe:v2.5.0''),
      (CSINodeDriverRegistrarContainerName, ''oss/kubernetes-csi/csi-node-driver-registrar:v2.4.0''),
      (CSINodeDriverRegistrarWindowsContainerName, ''oss/kubernetes-csi/csi-node-driver-registrar:v2.4.0''),
      (CSISnapshotterContainerName, ''oss/kubernetes-csi/csi-snapshotter:v4.2.1''),
      (CSISnapshotControllerContainerName, ''oss/kubernetes-csi/snapshot-controller:v4.2.1''),
      (CSIResizerContainerName, ''oss/kubernetes-csi/csi-resizer:v1.3.0''),
      (CSIAzureDiskContainerName, ''oss/kubernetes-csi/azuredisk-csi:v1.10.0''),
      (AddonResizerComponentName, ''oss/kubernetes/autoscaler/addon-resizer:1.8.7''),
      (MetricsServerAddonName, ''oss/kubernetes/metrics-server:v0.5.2''),
      (AddonManagerComponentName, ''oss/kubernetes/kube-addon-manager:v9.1.5''),
      (ClusterAutoscalerAddonName, ''oss/kubernetes/autoscaler/cluster-autoscaler:v1.22.1'')]"

definition mcr_images_1_22 :: "(string \<times> string) list" where
  "mcr_images_1_22 =
     [(CSIProvisionerContainerName, ''oss/kubernetes-csi/csi-provisioner:v3.0.0''),
      (CSIAttacherContainerName, ''oss/kubernetes-csi/csi-attacher:v3.3.0''),
      (CSILivenessProbeContainerName, ''oss/kubernetes-csi/livenessprobe:v2.5.0''),
      (CSILivenessProbeWindowsContainerName, ''oss/kubernetes-csi/livenessprobe:v2.5.0''),
      (CSINodeDriverRegistrarContainerName, ''oss/kubernetes-csi/csi-node-driver-registrar:v2.4.0''),
      (CSINodeDriverRegistrarWindowsContainerName, ''oss/kubernetes-csi/csi-node-driver-registrar:v2.4.0''),
      (CSISnapshotterContainerName, ''oss/kubernetes-csi/csi-snapshotter:v4.2.1''),
      (CSISnapshotControllerContainerName, ''oss/kubernetes-csi/snapshot-controller:v4.2.1''),
      (CSIResizerContainerName, ''oss/kubernetes-csi/csi-resizer:v1.3.0''),
      (CSIAzureDiskContainerName, ''oss/kubernetes-csi/azuredisk-csi:v1.10.0''),
      (AddonResizerComponentName, ''oss/kubernetes/autoscaler/addon-resizer:1.8.7''),
      (MetricsServerAddonName, ''oss/kubernetes/metrics-server:v0.5.2''),
      (AddonManagerComponentName, ''oss/kubernetes/kube-addon-manager:v9.1.5''),
      (ClusterAutoscalerAddonName, ''oss/kubernetes/autoscaler/cluster-autoscaler:v1.22.1'')]"

definition mcr_images_1_21 :: "(string \<times> string) list" where
  "mcr_images_1_21 =
     [(CSIProvisionerContainerName, ''oss/kubernetes-csi/csi-provisioner:v3.0.0''),
      (CSIAttacherContainerName, ''oss/kubernetes-csi/csi-attacher:v3.3.0''),
      (CSILivenessProbeContainerName, ''oss/kubernetes-csi/livenessprobe:v2.5.0''),
      (CSILivenessProbeWindowsContainerName, ''oss/kubernetes-csi/livenessprobe:v2.5.0''),
      (CSINodeDriverRegistrarContainerName, ''oss/kubernetes-csi/csi-node-driver-registrar:v2.4.0''),
      (CSINodeDriverRegistrarWindowsContainerName, ''oss/kubernetes-csi/csi-node-driver-registrar:v2.4.0''),
      (CSISnapshotterContainerName, ''oss/kubernetes-csi/csi-snapshotter:v4.2.1''),
      (CSISnapshotControllerContainerName, ''oss/kubernetes-csi/snapshot-controller:v4.2.1''),
      (CSIResizerContainerName, ''oss/kubernetes-csi/csi-resizer:v1.3.0''),
      (CSIAzureDiskContainerName, ''oss/kubernetes-csi/azuredisk-csi:v1.10.0''),
      (AddonResizerComponentName, ''oss/kubernetes/autoscaler/addon-resizer:1.8.7''),
      (MetricsServerAddonName, ''oss/kubernetes/metrics-server:v0.5.2''),
      (AddonManagerComponentName, ''oss/kubernetes/kube-addon-manager:v9.1.3''),
      (ClusterAutoscalerAddonName, ''oss/kubernetes/autoscaler/cluster-autoscaler:v1.22.1'')]"

definition mcr_images_1_20 :: "(string \<times> string) list" where
  "mcr_images_1_20 =
     [(CSIProvisionerContainerName, ''oss/kubernetes-csi/csi-provisioner:v3.0.0''),
      (CSIAttacherContainerName, ''oss/kubernetes-csi/csi-attacher:v3.3.0''),
      (CSILivenessProbeContainerName, ''oss/kubernetes-csi/livenessprobe:v2.5.0''),
      (CSILivenessProbeWindowsContainerName, ''oss/kubernetes-csi/livenessprobe:v2.5.0''),
      (CSINodeDriverRegistrarContainerName, ''oss/kubernetes-csi/csi-node-driver-registrar:v2.4.0''),
      (CSINodeDriverRegistrarWindowsContainerName, ''oss/kubernetes-csi/csi-node-driver-registrar:v2.4.0''),
      (CSISnapshotterContainerName, ''oss/kubernetes-csi/csi-snapshotter:v4.2.1''),
      (CSISnapshotControllerContainerName, ''oss/kubernetes-csi/snapshot-controller:v4.2.1''),
      (CSIResizerContainerName, ''oss/kubernetes-csi/csi-resizer:v1.3.0''),
      (CSIAzureDiskContainerName, ''oss/kubernetes-csi/azuredisk-csi:v1.10.0''),
      (AddonResizerComponentName, ''oss/kubernetes/autoscaler/addon-resizer:1.8.7''),
      (MetricsServerAddonName, ''oss/kubernetes/metrics-server:v0.5.2''),
      (AddonManagerComponentName, ''oss/kubernetes/kube-addon-manager:v9.1.3''),
      (ClusterAutoscalerAddonName, ''oss/kubernetes/autoscaler/cluster-autoscaler:v1.22.1'')]"

definition mcr_images_1_19 :: "(string \<times> string) list" where
  "mcr_images_1_19 =
     [(CSIProvisionerContainerName, ''oss/kubernetes-csi/csi-provisioner:v3.0.0''),
      (CSIAttacherContainerName, ''oss/kubernetes-csi/csi-attacher:v3.3.0''),
      (CSILivenessProbeContainerName, ''oss/kubernetes-csi/livenessprobe:v2.5.0''),
      (CSILivenessProbeWindowsContainerName, ''oss/kubernetes-csi/livenessprobe:v2.5.0''),
      (CSINodeDriverRegistrarContainerName, ''oss/kubernetes-csi/csi-node-driver-registrar:v2.4.0''),
      (CSINodeDriverRegistrarWindowsContainerName, ''oss/kubernetes-csi/csi-node-driver-registrar:v2.4.0''),
      (CSISnapshotterContainerName, ''oss/kubernetes-csi/csi-snapshotter:v4.2.1''),
      (CSISnapshotControllerContainerName, ''oss/kubernetes-csi/snapshot-controller:v4.2.1''),
      (CSIResizerContainerName, ''oss/kubernetes-csi/csi-resizer:v1.3.0''),
      (CSIAzureDiskContainerName, ''oss/kubernetes-csi/azuredisk-csi:v1.10.0''),
      (AddonResizerComponentName, ''oss/kubernetes/autoscaler/addon-resizer:1.8.7''),
      (MetricsServerAddonName, ''oss/kubernetes/metrics-server:v0.5.2''),
      (AddonManagerComponentName, ''oss/kubernetes/kube-addon-manager:v9.1.3''),
      (ClusterAutoscalerAddonName, ''oss/kubernetes/autoscaler/cluster-autoscaler:v1.22.1'')]"

definition mcr_images_1_18 :: "(string \<times> string) list" where
  "mcr_images_1_18 =
     [(CSIProvisionerContainerName, ''oss/kubernetes-csi/csi-provisioner:v3.0.0''),
      (CSIAttacherContainerName, ''oss/kubernetes-csi/csi-attacher:v3.3.0''),
      (CSILivenessProbeContainerName, ''oss/kubernetes-csi/livenessprobe:v2.5.0''),
      (CSILivenessProbeWindowsContainerName, ''oss/kubernetes-csi/livenessprobe:v2.5.0''),
      (CSINodeDriverRegistrarContainerName, ''oss/kubernetes-csi/csi-node-driver-registrar:v2.4.0''),
      (CSINodeDriverRegistrarWindowsContainerName, ''oss/kubernetes-csi/csi-node-driver-registrar:v2.4.0''),
      (CSISnapshotterContainerName, ''oss/kubernetes-csi/csi-snapshotter:v4.2.1''),
      (CSISnapshotControllerContainerName, ''oss/kubernetes-csi/snapshot-controller:v4.2.1''),
      (CSIResizerContainerName, ''oss/kubernetes-csi/csi-resizer:v1.3.0''),
      (CSIAzureDiskContainerName, ''oss/kubernetes-csi/azuredisk-csi:v1.10.0''),
      (AddonResizerComponentName, ''oss/kubernetes/autoscaler/addon-resizer:1.8.7''),
      (MetricsServerAddonName, ''oss/kubernetes/metrics-server:v0.5.0''),
      (AddonManagerComponentName, ''oss/kubernetes/kube-addon-manager:v9.1.3''),
      (ClusterAutoscalerAddonName, ''oss/kubernetes/autoscaler/cluster-autoscaler:v1.22.0'')]"

definition mcr_images_1_17 :: "(string \<times> string) list" where
  "mcr_images_1_17 =
     [(CSIProvisionerContainerName, ''oss/kubernetes-csi/csi-provisioner:v3.0.0''),
      (CSIAttacherContainerName, ''oss/kubernetes-csi/csi-attacher:v3.3.0''),
      (CSILivenessProbeContainerName, ''oss/kubernetes-csi/livenessprobe:v2.5.0''),
      (CSINodeDriverRegistrarContainerName, ''oss/kubernetes-csi/csi-node-driver-registrar:v2.4.0''),
      (CSISnapshotterContainerName, ''oss/kubernetes-csi/csi-snapshotter:v4.2.1''),
      (CSISnapshotControllerContainerName, ''oss/kubernetes-csi/snapshot-controller:v4.2.1''),
      (CSIResizerContainerName, ''oss/kubernetes-csi/csi-resizer:v1.3.0''),
      (CSIAzureDiskContainerName, ''oss/kubernetes-csi/azuredisk-csi:v1.10.0''),
      (AddonResizerComponentName, ''oss/kubernetes/autoscaler/addon-resizer:1.8.7''),
      (MetricsServerAddonName, ''oss/kubernetes/metrics-server:v0.5.0''),
      (AddonManagerComponentName, ''oss/kubernetes/kube-addon-manager:v9.1.3''),
      (ClusterAutoscalerAddonName, ''oss/kubernetes/autoscaler/cluster-autoscaler:v1.20.0'')]"

definition mcr_images_1_16 :: "(string \<times> string) list" where
  "mcr_images_1_16 =
     [(CSIProvisionerContainerName, ''oss/kubernetes-csi/csi-provisioner:v3.0.0''),
      (CSIAttacherContainerName, ''oss/kubernetes-csi/csi-attacher:v3.3.0''),
      (CSILivenessProbeContainerName, ''oss/kubernetes-csi/livenessprobe:v2.5.0''),
      (CSINodeDriverRegistrarContainerName, ''oss/kubernetes-csi/csi-node-driver-registrar:v2.4.0''),
      (CSIResizerContainerName, ''oss/kubernetes-csi/csi-resizer:v1.3.0''),
      (CSIAzureDiskContainerName, ''oss/kubernetes-csi/azuredisk-csi:v1.10.0''),
      (AddonResizerComponentName, ''oss/kubernetes/autoscaler/addon-resizer:1.8.7''),
      (MetricsServerAddonName, ''oss/kubernetes/metrics-server:v0.5.0''),
      (AddonManagerComponentName, ''oss/kubernetes/kube-addon-manager:v9.1.3''),
      (ClusterAutoscalerAddonName, ''oss/kubernetes/autoscaler/cluster-autoscaler:v1.16.7'')]"

definition mcr_images_1_15 :: "(string \<times> string) list" where
  "mcr_images_1_15 =
     [(CSIProvisionerContainerName, ''oss/kubernetes-csi/csi-provisioner:v3.0.0''),
      (CSIAttacherContainerName, ''oss/kubernetes-csi/csi-attacher:v3.3.0''),
      (CSILivenessProbeContainerName, ''oss/kubernetes-csi/livenessprobe:v2.5.0''),
      (CSINodeDriverRegistrarContainerName, ''oss/kubernetes-csi/csi-node-driver-registrar:v2.4.0''),
      (CSIAzureDiskContainerName, ''oss/kubernetes-csi/azuredisk-csi:v1.10.0''),
      (AddonResizerComponentName, ''oss/kubernetes/autoscaler/addon-resizer:1.8.7''),
      (MetricsServerAddonName, ''oss/kubernetes/metrics-server:v0.2.1''),
      (AddonManagerComponentName, ''oss/kubernetes/kube-addon-manager:v9.1.3''),
      (ClusterAutoscalerAddonName, ''oss/kubernetes/autoscaler/cluster-autoscaler:v1.15.7''),
      (CloudControllerManagerComponentName, ''oss/kubernetes/cloud-controller-manager'')]"

definition mcr_images_1_14 :: "(string \<times> string) list" where
  "mcr_images_1_14 =
     [(CSIProvisionerContainerName, ''oss/kubernetes-csi/csi-provisioner:v3.0.0''),
      (CSIAttacherContainerName, ''oss/kubernetes-csi/csi-attacher:v3.3.0''),
      (CSILivenessProbeContainerName, ''oss/kubernetes-csi/livenessprobe:v2.5.0''),
      (CSINodeDriverRegistrarContainerName, ''oss/kubernetes-csi/csi-node-driver-registrar:v2.4.0''),
      (CSIAzureDiskContainerName, ''oss/kubernetes-csi/azuredisk-csi:v1.10.0''),
      (AddonResizerComponentName, ''oss/kubernetes/autoscaler/addon-resizer:1.8.4''),
      (MetricsServerAddonName, ''oss/kubernetes/metrics-server:v0.2.1''),
      (AddonManagerComponentName, ''oss/kubernetes/kube-addon-manager:v9.0.2''),
      (ClusterAutoscalerAddonName, ''oss/kubernetes/autoscaler/cluster-autoscaler:v1.14.8''),
      (CloudControllerManagerComponentName, ''oss/kubernetes/cloud-controller-manager'')]"

definition mcr_images_1_13 :: "(string \<times> string) list" where
  "mcr_images_1_13 =
     [(CSIProvisionerContainerName, ''oss/kubernetes-csi/csi-provisioner:v3.0.0''),
      (CSIAttacherContainerName, ''oss/kubernetes-csi/csi-attacher:v3.3.0''),
      (CSILivenessProbeContainerName, ''oss/kubernetes-csi/livenessprobe:v2.5.0''),
      (CSINodeDriverRegistrarContainerName, ''oss/kubernetes-csi/csi-node-driver-registrar:v2.4.0''),
      (CSIAzureDiskContainerName, ''oss/kubernetes-csi/azuredisk-csi:v1.10.0''),
      (AddonResizerComponentName, ''oss/kubernetes/autoscaler/addon-resizer:1.8.4''),
      (MetricsServerAddonName, ''oss/kubernetes/metrics-server:v0.2.1''),
      (AddonManagerComponentName, ''oss/kubernetes/kube-addon-manager:v8.9.1''),
      (ClusterAutoscalerAddonName, ''oss/kubernetes/autoscaler/cluster-autoscaler:v1.13.9''),
      (CloudControllerManagerComponentName, ''oss/kubernetes/cloud-controller-manager'')]"

definition mcr_images_1_12 :: "(string \<times> string) list" where
  "mcr_images_1_12 =
     [(AddonResizerComponentName, ''oss/kubernetes/autoscaler/addon-resizer:1.8.4''),
      (MetricsServerAddonName, ''oss/kubernetes/metrics-server:v0.2.1''),
      (AddonManagerComponentName, ''oss/kubernetes/kube-addon-manager:v8.9.1''),
      (ClusterAutoscalerAddonName, ''oss/kubernetes/autoscaler/cluster-autoscaler:v1.12.8''),
      (CloudControllerManagerComponentName, ''oss/kubernetes/cloud-controller-manager'')]"

definition mcr_images_1_11 :: "(string \<times> string) list" where
  "mcr_images_1_11 =
     [(AddonResizerComponentName, ''oss/kubernetes/autoscaler/addon-resizer:1.8.4''),
      (MetricsServerAddonName, ''oss/kubernetes/metrics-server:v0.2.1''),
      (AddonManagerComponentName, ''oss/kubernetes/kube-addon-manager:v8.9.1''),
      (ClusterAutoscalerAddonName, ''oss/kubernetes/autoscaler/cluster-autoscaler:v1.3.9''),
      (CloudControllerManagerComponentName, ''oss/kubernetes/cloud-controller-manager'')]"

definition mcr_images_1_10 :: "(string \<times> string) list" where
  "mcr_images_1_10 =
     [(AddonResizerComponentName, ''oss/kubernetes/autoscaler/addon-resizer:1.8.4''),
      (MetricsServerAddonName, ''oss/kubernetes/metrics-server:v0.2.1''),
      (AddonManagerComponentName, ''oss/kubernetes/kube-addon-manager:v8.9.1''),
      (ReschedulerAddonName, ''oss/kubernetes/rescheduler:v0.3.1''),
      (ClusterAutoscalerAddonName, ''oss/kubernetes/autoscaler/cluster-autoscaler:v1.2.5''),
      (DNSSidecarComponentName, ''oss/kubernetes/k8s-dns-sidecar:1.14.8''),
      (CloudControllerManagerComponentName, ''oss/kubernetes/cloud-controller-manager'')]"

definition mcr_images_1_9 :: "(string \<times> string) list" where
  "mcr_images_1_9 =
     [(AddonResizerComponentName, ''oss/kubernetes/autoscaler/addon-resizer:1.8.4''),
      (MetricsServerAddonName, ''oss/kubernetes/metrics-server:v0.2.1''),
      (AddonManagerComponentName, ''oss/kubernetes/kube-addon-manager:v8.6''),
      (ReschedulerAddonName, ''oss/kubernetes/rescheduler:v0.3.1''),
      (ClusterAutoscalerAddonName, ''oss/kubernetes/autoscaler/cluster-autoscaler:v1.1.2''),
      (DNSSidecarComponentName, ''oss/kubernetes/k8s-dns-sidecar:1.14.7''),
      (CloudControllerManagerComponentName, ''oss/kubernetes/cloud-controller-manager'')]"

definition mcr_images_1_8 :: "(string \<times> string) list" where
  "mcr_images_1_8 =
     [(AddonResizerComponentName, ''oss/kubernetes/autoscaler/addon-resizer:1.7''),
      (MetricsServerAddonName, ''oss/kubernetes/metrics-server:v0.2.1''),
      (KubeDNSAddonName, ''oss/kubernetes/k8s-dns-kube-dns:1.14.13''),
      (AddonManagerComponentName, ''oss/kubernetes/kube-addon-manager:v8.6''),
      (DNSMasqComponentName, ''oss/kubernetes/k8s-dns-dnsmasq-nanny:1.14.8''),
      (ReschedulerAddonName, ''oss/kubernetes/rescheduler:v0.3.1''),
      (CloudControllerManagerComponentName, ''oss/kubernetes/cloud-controller-manager'')]"

definition mcr_images_1_7 :: "(string \<times> string) list" where
  "mcr_images_1_7 =
     [(''dashboard'', ''oss/kubernetes/kubernetes-dashboard:v1.6.3''),
      (AddonResizerComponentName, ''oss/kubernetes/autoscaler/addon-resizer:1.7''),
      (MetricsServerAddonName, ''oss/kubernetes/metrics-server:v0.2.1''),
      (KubeDNSAddonName, ''oss/kubernetes/k8s-dns-kube-dns:1.14.5''),
      (AddonManagerComponentName, ''oss/kubernetes/kube-addon-manager:v8.6''),
      (DNSMasqComponentName, ''oss/kubernetes/k8s-dns-dnsmasq-nanny:1.14.5''),
      (ReschedulerAddonName, ''oss/kubernetes/rescheduler:v0.3.1''),
      (CloudControllerManagerComponentName, ''oss/kubernetes/cloud-controller-manager'')]"

definition mcr_images_1_6 :: "(string \<times> string) list" where
  "mcr_images_1_6 =
     [(''dashboard'', ''oss/kubernetes/kubernetes-dashboard:v1.6.3''),
      (AddonResizerComponentName, ''oss/kubernetes/autoscaler/addon-resizer:1.7''),
      (MetricsServerAddonName, ''oss/kubernetes/metrics-server:v0.2.1''),
      (KubeDNSAddonName, ''oss/kubernetes/k8s-dns-kube-dns:1.14.5''),
      (AddonManagerComponentName, ''oss/kubernetes/kube-addon-manager:v6.5''),
      (DNSMasqComponentName, ''oss/kubernetes/k8s-dns-dnsmasq-nanny:1.14.5''),
      (ReschedulerAddonName, ''oss/kubernetes/rescheduler:v0.3.1''),
      (CloudControllerManagerComponentName, ''oss/kubernetes/cloud-controller-manager'')]"

definition gcr_versioned_images :: "(string \<times> (string \<times> string) list) list" where
  "gcr_versioned_images =
       [(''1.29'', gcr_images_1_29),
        (''1.28'', gcr_images_1_28),
        (''1.27'', gcr_images_1_27),
        (''1.26'', gcr_images_1_26),
        (''1.25'', gcr_images_1_25),
        (''1.24'', gcr_images_1_24),
        (''1.23'', gcr_images_1_23),
        (''1.22'', gcr_images_1_22),
        (''1.21'', gcr_images_1_21),
        (''1.20'', gcr_images_1_20),
        (''1.19'', gcr_images_1_19),
        (''1.18'', gcr_images_1_18),
        (''1.17'', gcr_images_1_17),
        (''1.16'', gcr_images_1_16),
        (''1.15'', gcr_images_1_15),
        (''1.14'', gcr_images_1_14),
        (''1.13'', gcr_images_1_13),
        (''1.12'', gcr_images_1_12),
        (''1.11'', gcr_images_1_11),
        (''1.10'', gcr_images_1_10),
        (''1.9'', gcr_images_1_9),
        (''1.8'', gcr_images_1_8),
        (''1.7'', gcr_images_1_7),
        (''1.6'', gcr_images_1_6)]"

definition mcr_versioned_images :: "(string \<times> (string \<times> string) list) list" where
  "mcr_versioned_images =
       [(''1.29'', mcr_images_1_29),
        (''1.28'', mcr_images_1_28),
        (''1.27'', mcr_images_1_27),
        (''1.26'', mcr_images_1_26),
        (''1.25'', mcr_images_1_25),
        (''1.24'', mcr_images_1_24),
        (''1.23'', mcr_images_1_23),
        (''1.22'', mcr_images_1_22),
        (''1.21'', mcr_images_1_21),
        (''1.20'', mcr_images_1_20),
        (''1.19'', mcr_images_1_19),
        (''1.18'', mcr_images_1_18),
        (''1.17'', mcr_images_1_17),
        (''1.16'', mcr_images_1_16),
        (''1.15'', mcr_images_1_15),
        (''1.14'', mcr_images_1_14),
        (''1.13'', mcr_images_1_13),
        (''1.12'', mcr_images_1_12),
        (''1.11'', mcr_images_1_11),
        (''1.10'', mcr_images_1_10),
        (''1.9'', mcr_images_1_9),
        (''1.8'', mcr_images_1_8),
        (''1.7'', mcr_images_1_7),
        (''1.6'', mcr_images_1_6)]"

definition kubernetesImageBaseVersionedImages :: "string \<Rightarrow> string \<Rightarrow> (string \<times> string) list" where
  "kubernetesImageBaseVersionedImages kubernetesImageBaseType majorMinor =
     (let images = (if kubernetesImageBaseType = KubernetesImageBaseTypeGCR then gcr_versioned_images
            else if kubernetesImageBaseType = KubernetesImageBaseTypeMCR then mcr_versioned_images
            else [])
      in case map_of images majorMinor of None \<Rightarrow> [] | Some m \<Rightarrow> m)"

subsection \<open>Overrides\<close>

definition getVersionOverridesMCR :: "string \<Rightarrow> (string \<times> string) list" where
  "getVersionOverridesMCR v =
     (case map_of
       [(''1.18.6'', [(WindowsArtifactComponentName, ''v1.18.6-hotfix.20200723/windowszip/v1.18.6-hotfix.20200723-1int.zip'')]),
        (''1.18.4'', [(WindowsArtifactComponentName, ''v1.18.4-hotfix.20200626/windowszip/v1.18.4-hotfix.20200626-1int.zip'')]),
        (''1.18.2'', [(WindowsArtifactComponentName, ''v1.18.2-hotfix.20200624/windowszip/v1.18.2-hotfix.20200624-1int.zip'')]),
        (''1.17.9'', [(WindowsArtifactComponentName, ''v1.17.9-hotfix.20200817/windowszip/v1.17.9-hotfix.20200817-1int.zip'')]),
        (''1.17.7'', [(WindowsArtifactComponentName, ''v1.17.7-hotfix.20200817/windowszip/v1.17.7-hotfix.20200817-1int.zip'')]),
        (''1.16.13'', [(WindowsArtifactComponentName, ''v1.16.13-hotfix.20200817/windowszip/v1.16.13-hotfix.20200817-1int.zip'')]),
        (''1.16.11'', [(WindowsArtifactComponentName, ''v1.16.11-hotfix.20200617/windowszip/v1.16.11-hotfix.20200617-1int.zip'')]),
        (''1.16.10'', [(WindowsArtifactComponentName, ''v1.16.10-hotfix.20200817/windowszip/v1.16.10-hotfix.20200817-1int.zip'')]),
        (''1.15.12'', [(WindowsArtifactComponentName, ''v1.15.12-hotfix.20200817/windowszip/v1.15.12-hotfix.20200817-1int.zip'')]),
        (''1.15.11'', [(WindowsArtifactComponentName, ''v1.15.11-hotfix.20200817/windowszip/v1.15.11-hotfix.20200817-1int.zip'')])] v
      of None \<Rightarrow> [] | Some m \<Rightarrow> m)"

definition getVersionOverridesGCR :: "string \<Rightarrow> (string \<times> string) list" where
  "getVersionOverridesGCR v =
     (case map_of
       [(''1.18.6'', [(WindowsArtifactComponentName, ''v1.18.6-hotfix.20200723/windowszip/v1.18.6-hotfix.20200723-1int.zip'')]),
        (''1.18.4'', [(WindowsArtifactComponentName, ''v1.18.4-hotfix.20200626/windowszip/v1.18.4-hotfix.20200626-1int.zip'')]),
        (''1.18.2'', [(WindowsArtifactComponentName, ''v1.18.2-hotfix.20200624/windowszip/v1.18.2-hotfix.20200624-1int.zip'')]),
        (''1.17.9'', [(WindowsArtifactComponentName, ''v1.17.9-hotfix.20200817/windowszip/v1.17.9-hotfix.20200817-1int.zip'')]),
        (''1.17.7'', [(WindowsArtifactComponentName, ''v1.17.7-hotfix.20200817/windowszip/v1.17.7-hotfix.20200817-1int.zip'')]),
        (''1.16.13'', [(WindowsArtifactComponentName, ''v1.16.13-hotfix.20200817/windowszip/v1.16.13-hotfix.20200817-1int.zip'')]),
        (''1.16.11'', [(WindowsArtifactComponentName, ''v1.16.11-hotfix.20200617/windowszip/v1.16.11-hotfix.20200617-1int.zip'')]),
        (''1.16.10'', [(WindowsArtifactComponentName, ''v1.16.10-hotfix.20200817/windowszip/v1.16.10-hotfix.20200817-1int.zip'')]),
        (''1.15.12'', [(WindowsArtifactComponentName, ''v1.15.12-hotfix.20200817/windowszip/v1.15.12-hotfix.20200817-1int.zip'')]),
        (''1.15.11'', [(WindowsArtifactComponentName, ''v1.15.11-hotfix.20200817/windowszip/v1.15.11-hotfix.20200817-1int.zip'')]),
        (''1.8.11'', [(KubeDNSAddonName, ''k8s-dns-kube-dns-amd64:1.14.9'')]),
        (''1.8.9'', [(WindowsArtifactComponentName, ''v1.8.9-2int.zip'')]),
        (''1.8.6'', [(WindowsArtifactComponentName, ''v1.8.6-2int.zip'')]),
        (''1.8.2'', [(WindowsArtifactComponentName, ''v1.8.2-2int.zip'')]),
        (''1.8.1'', [(WindowsArtifactComponentName, ''v1.8.1-2int.zip'')]),
        (''1.8.0'', [(WindowsArtifactComponentName, ''v1.8.0-2int.zip'')]),
        (''1.7.16'', [(WindowsArtifactComponentName, ''v1.7.16-1int.zip'')]),
        (''1.7.15'', [(WindowsArtifactComponentName, ''v1.7.15-1int.zip'')]),
        (''1.7.14'', [(WindowsArtifactComponentName, ''v1.7.14-1int.zip'')]),
        (''1.7.13'', [(WindowsArtifactComponentName, ''v1.7.13-1int.zip'')]),
        (''1.7.12'', [(WindowsArtifactComponentName, ''v1.7.12-2int.zip'')]),
        (''1.7.10'', [(WindowsArtifactComponentName, ''v1.7.10-1int.zip'')]),
        (''1.7.9'', [(WindowsArtifactComponentName, ''v1.7.9-2int.zip'')]),
        (''1.7.7'', [(WindowsArtifactComponentName, ''v1.7.7-2int.zip'')]),
        (''1.7.5'', [(WindowsArtifactComponentName, ''v1.7.5-4int.zip'')]),
        (''1.7.4'', [(WindowsArtifactComponentName, ''v1.7.4-2int.zip'')]),
        (''1.7.2'', [(WindowsArtifactComponentName, ''v1.7.2-1int.zip'')])] v
      of None \<Rightarrow> [] | Some m \<Rightarrow> m)"

subsection \<open>Components per minor version\<close>

definition k8s_components_1_29 ::
    "string \<Rightarrow> string \<Rightarrow> (string \<times> string) list \<Rightarrow> (string \<times> string) list" where
  "k8s_components_1_29 version kubernetesImageBaseType k8sComponent =
     [(APIServerComponentName, getDefaultImage APIServerComponentName kubernetesImageBaseType @ '':v'' @ version),
      (ControllerManagerComponentName, getDefaultImage ControllerManagerComponentName kubernetesImageBaseType @ '':v'' @ version),
      (KubeProxyAddonName, getDefaultImage KubeProxyAddonName kubernetesImageBaseType @ '':v'' @ version),
      (SchedulerComponentName, getDefaultImage SchedulerComponentName kubernetesImageBaseType @ '':v'' @ version),
      (CloudControllerManagerComponentName, ''oss/kubernetes/azure-cloud-controller-manager:v1.29.8''),
      (CloudNodeManagerAddonName, ''oss/kubernetes/azure-cloud-node-manager:v1.29.9''),
      (WindowsArtifactComponentName, ''v'' @ version @ ''/windowszip/v'' @ version @ ''-1int.zip''),
      (WindowsArtifactAzureStackComponentName, ''v'' @ version @ ''/windowszip/v'' @ version @ ''-1int.zip''),
      (DashboardAddonName, dashboardImageReference),
      (DashboardMetricsScraperContainerName, dashboardMetricsScraperImageReference),
      (ExecHealthZComponentName, getDefaultImage ExecHealthZComponentName kubernetesImageBaseType),
      (AddonResizerComponentName, map_get k8sComponent AddonResizerComponentName),
      (MetricsServerAddonName, map_get k8sComponent MetricsServerAddonName),
      (CoreDNSAddonName, getDefaultImage CoreDNSAddonName kubernetesImageBaseType),
      (CoreDNSAutoscalerName, clusterProportionalAutoscalerImageReference),
      (KubeDNSAddonName, getDefaultImage KubeDNSAddonName kubernetesImageBaseType),
      (AddonManagerComponentName, map_get k8sComponent AddonManagerComponentName),
      (DNSMasqComponentName, getDefaultImage DNSMasqComponentName kubernetesImageBaseType),
      (PauseComponentName, pauseImageReference),
      (TillerAddonName, tillerImageReference),
      (ReschedulerAddonName, getDefaultImage ReschedulerAddonName kubernetesImageBaseType),
      (ACIConnectorAddonName, virtualKubeletImageReference),
      (ClusterAutoscalerAddonName, map_get k8sComponent ClusterAutoscalerAddonName),
      (DNSSidecarComponentName, getDefaultImage DNSSidecarComponentName kubernetesImageBaseType),
      (SMBFlexVolumeAddonName, smbFlexVolumeImageReference),
      (IPMASQAgentAddonName, getDefaultImage IPMASQAgentAddonName kubernetesImageBaseType),
      (AzureNetworkPolicyAddonName, azureNPMContainerImageReference),
      (CalicoTyphaComponentName, calicoTyphaImageReference),
      (CalicoCNIComponentName, calicoCNIImageReference),
      (CalicoNodeComponentName, calicoNodeImageReference),
      (CalicoPod2DaemonComponentName, calicoPod2DaemonImageReference),
      (CalicoClusterAutoscalerComponentName, calicoClusterProportionalAutoscalerImageReference),
      (CiliumAgentContainerName, ciliumAgentImageReference),
      (CiliumCleanStateContainerName, ciliumCleanStateImageReference),
      (CiliumOperatorContainerName, ciliumOperatorImageReference),
      (CiliumEtcdOperatorContainerName, ciliumEtcdOperatorImageReference),
      (AntreaControllerContainerName, antreaControllerImageReference),
      (AntreaAgentContainerName, antreaAgentImageReference),
      (AntreaOVSContainerName, antreaOVSImageReference),
      (''antrea'' @ AntreaInstallCNIContainerName, antreaInstallCNIImageReference),
      (NMIContainerName, aadPodIdentityNMIImageReference),
      (MICContainerName, aadPodIdentityMICImageReference),
      (AzurePolicyAddonName, azurePolicyImageReference),
      (GatekeeperContainerName, gatekeeperImageReference),
      (NodeProblemDetectorAddonName, nodeProblemDetectorImageReference),
      (CSIProvisionerContainerName, map_get k8sComponent CSIProvisionerContainerName),
      (CSIAttacherContainerName, map_get k8sComponent CSIAttacherContainerName),
      (CSILivenessProbeContainerName, map_get k8sComponent CSILivenessProbeContainerName),
      (CSILivenessProbeWindowsContainerName, map_get k8sComponent CSILivenessProbeWindowsContainerName),
      (CSINodeDriverRegistrarContainerName, map_get k8sComponent CSINodeDriverRegistrarContainerName),
      (CSINodeDriverRegistrarWindowsContainerName, map_get k8sComponent CSINodeDriverRegistrarWindowsContainerName),
      (CSISnapshotterContainerName, map_get k8sComponent CSISnapshotterContainerName),
      (CSISnapshotControllerContainerName, map_get k8sComponent CSISnapshotControllerContainerName),
      (CSIResizerContainerName, map_get k8sComponent CSIResizerContainerName),
      (CSIAzureDiskContainerName, map_get k8sComponent CSIAzureDiskContainerName),
      (CSIAzureFileContainerName, csiAzureFileImageReference),
      (KubeFlannelContainerName, kubeFlannelImageReference),
      (''flannel'' @ FlannelInstallCNIContainerName, flannelInstallCNIImageReference),
      (KubeRBACProxyContainerName, KubeRBACProxyImageReference),
      (ScheduledMaintenanceManagerContainerName, ScheduledMaintenanceManagerImageReference),
      (''nodestatusfreq'', DefaultKubernetesNodeStatusUpdateFrequency),
      (''nodegraceperiod'', DefaultKubernetesCtrlMgrNodeMonitorGracePeriod),
      (''podeviction'', DefaultKubernetesCtrlMgrPodEvictionTimeout),
      (''routeperiod'', DefaultKubernetesCtrlMgrRouteReconciliationPeriod),
      (''backoffretries'', itoa DefaultKubernetesCloudProviderBackoffRetries),
      (''backoffjitter'', format_float DefaultKubernetesCloudProviderBackoffJitter),
      (''backoffduration'', itoa DefaultKubernetesCloudProviderBackoffDuration),
      (''backoffexponent'', format_float DefaultKubernetesCloudProviderBackoffExponent),
      (''ratelimitqps'', format_float DefaultKubernetesCloudProviderRateLimitQPS),
      (''ratelimitqpswrite'', format_float DefaultKubernetesCloudProviderRateLimitQPSWrite),
      (''ratelimitbucket'', itoa DefaultKubernetesCloudProviderRateLimitBucket),
      (''ratelimitbucketwrite'', itoa DefaultKubernetesCloudProviderRateLimitBucketWrite),
      (''gchighthreshold'', itoa DefaultKubernetesGCHighThreshold),
      (''gclowthreshold'', itoa DefaultKubernetesGCLowThreshold),
      (NVIDIADevicePluginAddonName, nvidiaDevicePluginImageReference),
      (CSISecretsStoreProviderAzureContainerName, csiSecretsStoreProviderAzureImageReference),
      (CSISecretsStoreDriverContainerName, csiSecretsStoreDriverImageReference),
      (AzureArcOnboardingAddonName, azureArcOnboardingImageReference),
      (AzureKMSProviderComponentName, azureKMSProviderImageReference)]"

definition k8s_components_1_28 ::
    "string \<Rightarrow> string \<Rightarrow> (string \<times> string) list \<Rightarrow> (string \<times> string) list" where
  "k8s_components_1_28 version kubernetesImageBaseType k8sComponent =
     [(APIServerComponentName, getDefaultImage APIServerComponentName kubernetesImageBaseType @ '':v'' @ version),
      (ControllerManagerComponentName, getDefaultImage ControllerManagerComponentName kubernetesImageBaseType @ '':v'' @ version),
      (KubeProxyAddonName, getDefaultImage KubeProxyAddonName kubernetesImageBaseType @ '':v'' @ version),
      (SchedulerComponentName, getDefaultImage SchedulerComponentName kubernetesImageBaseType @ '':v'' @ version),
      (CloudControllerManagerComponentName, ''oss/kubernetes/azure-cloud-controller-manager:v1.28.5''),
      (CloudNodeManagerAddonName, ''oss/kubernetes/azure-cloud-node-manager:v1.28.5''),
      (WindowsArtifactComponentName, ''v'' @ version @ ''/windowszip/v'' @ version @ ''-1int.zip''),
      (WindowsArtifactAzureStackComponentName, ''v'' @ version @ ''/windowszip/v'' @ version @ ''-1int.zip''),
      (DashboardAddonName, dashboardImageReference),
      (DashboardMetricsScraperContainerName, dashboardMetricsScraperImageReference),
      (ExecHealthZComponentName, getDefaultImage ExecHealthZComponentName kubernetesImageBaseType),
      (AddonResizerComponentName, map_get k8sComponent AddonResizerComponentName),
      (MetricsServerAddonName, map_get k8sComponent MetricsServerAddonName),
      (CoreDNSAddonName, getDefaultImage CoreDNSAddonName kubernetesImageBaseType),
      (CoreDNSAutoscalerName, clusterProportionalAutoscalerImageReference),
      (KubeDNSAddonName, getDefaultImage KubeDNSAddonName kubernetesImageBaseType),
      (AddonManagerComponentName, map_get k8sComponent AddonManagerComponentName),
      (DNSMasqComponentName, getDefaultImage DNSMasqComponentName kubernetesImageBaseType),
      (PauseComponentName, pauseImageReference),
      (TillerAddonName, tillerImageReference),
      (ReschedulerAddonName, getDefaultImage ReschedulerAddonName kubernetesImageBaseType),
      (ACIConnectorAddonName, virtualKubeletImageReference),
      (ClusterAutoscalerAddonName, map_get k8sComponent ClusterAutoscalerAddonName),
      (DNSSidecarComponentName, getDefaultImage DNSSidecarComponentName kubernetesImageBaseType),
      (SMBFlexVolumeAddonName, smbFlexVolumeImageReference),
      (IPMASQAgentAddonName, getDefaultImage IPMASQAgentAddonName kubernetesImageBaseType),
      (AzureNetworkPolicyAddonName, azureNPMContainerImageReference),
      (CalicoTyphaComponentName, calicoTyphaImageReference),
      (CalicoCNIComponentName, calicoCNIImageReference),
      (CalicoNodeComponentName, calicoNodeImageReference),
      (CalicoPod2DaemonComponentName, calicoPod2DaemonImageReference),
      (CalicoClusterAutoscalerComponentName, calicoClusterProportionalAutoscalerImageReference),
      (CiliumAgentContainerName, ciliumAgentImageReference),
      (CiliumCleanStateContainerName, ciliumCleanStateImageReference),
      (CiliumOperatorContainerName, ciliumOperatorImageReference),
      (CiliumEtcdOperatorContainerName, ciliumEtcdOperatorImageReference),
      (AntreaControllerContainerName, antreaControllerImageReference),
      (AntreaAgentContainerName, antreaAgentImageReference),
      (AntreaOVSContainerName, antreaOVSImageReference),
      (''antrea'' @ AntreaInstallCNIContainerName, antreaInstallCNIImageReference),
      (NMIContainerName, aadPodIdentityNMIImageReference),
      (MICContainerName, aadPodIdentityMICImageReference),
      (AzurePolicyAddonName, azurePolicyImageReference),
      (GatekeeperContainerName, gatekeeperImageReference),
      (NodeProblemDetectorAddonName, nodeProblemDetectorImageReference),
      (CSIProvisionerContainerName, map_get k8sComponent CSIProvisionerContainerName),
      (CSIAttacherContainerName, map_get k8sComponent CSIAttacherContainerName),
      (CSILivenessProbeContainerName, map_get k8sComponent CSILivenessProbeContainerName),
      (CSILivenessProbeWindowsContainerName, map_get k8sComponent CSILivenessProbeWindowsContainerName),
      (CSINodeDriverRegistrarContainerName, map_get k8sComponent CSINodeDriverRegistrarContainerName),
      (CSINodeDriverRegistrarWindowsContainerName, map_get k8sComponent CSINodeDriverRegistrarWindowsContainerName),
      (CSISnapshotterContainerName, map_get k8sComponent CSISnapshotterContainerName),
      (CSISnapshotControllerContainerName, map_get k8sComponent CSISnapshotControllerContainerName),
      (CSIResizerContainerName, map_get k8sComponent CSIResizerContainerName),
      (CSIAzureDiskContainerName, map_get k8sComponent CSIAzureDiskContainerName),
      (CSIAzureFileContainerName, csiAzureFileImageReference),
      (KubeFlannelContainerName, kubeFlannelImageReference),
      (''flannel'' @ FlannelInstallCNIContainerName, flannelInstallCNIImageReference),
      (KubeRBACProxyContainerName, KubeRBACProxyImageReference),
      (ScheduledMaintenanceManagerContainerName, ScheduledMaintenanceManagerImageReference),
      (''nodestatusfreq'', DefaultKubernetesNodeStatusUpdateFrequency),
      (''nodegraceperiod'', DefaultKubernetesCtrlMgrNodeMonitorGracePeriod),
      (''podeviction'', DefaultKubernetesCtrlMgrPodEvictionTimeout),
      (''routeperiod'', DefaultKubernetesCtrlMgrRouteReconciliationPeriod),
      (''backoffretries'', itoa DefaultKubernetesCloudProviderBackoffRetries),
      (''backoffjitter'', format_float DefaultKubernetesCloudProviderBackoffJitter),
      (''backoffduration'', itoa DefaultKubernetesCloudProviderBackoffDuration),
      (''backoffexponent'', format_float DefaultKubernetesCloudProviderBackoffExponent),
      (''ratelimitqps'', format_float DefaultKubernetesCloudProviderRateLimitQPS),
      (''ratelimitqpswrite'', format_float DefaultKubernetesCloudProviderRateLimitQPSWrite),
      (''ratelimitbucket'', itoa DefaultKubernetesCloudProviderRateLimitBucket),
      (''ratelimitbucketwrite'', itoa DefaultKubernetesCloudProviderRateLimitBucketWrite),
      (''gchighthreshold'', itoa DefaultKubernetesGCHighThreshold),
      (''gclowthreshold'', itoa DefaultKubernetesGCLowThreshold),
      (NVIDIADevicePluginAddonName, nvidiaDevicePluginImageReference),
      (CSISecretsStoreProviderAzureContainerName, csiSecretsStoreProviderAzureImageReference),
      (CSISecretsStoreDriverContainerName, csiSecretsStoreDriverImageReference),
      (AzureArcOnboardingAddonName, azureArcOnboardingImageReference),
      (AzureKMSProviderComponentName, azureKMSProviderImageReference)]"

definition k8s_components_1_27 ::
    "string \<Rightarrow> string \<Rightarrow> (string \<times> string) list \<Rightarrow> (string \<times> string) list" where
  "k8s_components_1_27 version kubernetesImageBaseType k8sComponent =
     [(APIServerComponentName, getDefaultImage APIServerComponentName kubernetesImageBaseType @ '':v'' @ version),
      (ControllerManagerComponentName, getDefaultImage ControllerManagerComponentName kubernetesImageBaseType @ '':v'' @ version),
      (KubeProxyAddonName, getDefaultImage KubeProxyAddonName kubernetesImageBaseType @ '':v'' @ version),
      (SchedulerComponentName, getDefaultImage SchedulerComponentName kubernetesImageBaseType @ '':v'' @ version),
      (CloudControllerManagerComponentName, ''oss/kubernetes/azure-cloud-controller-manager:v1.27.13''),
      (CloudNodeManagerAddonName, ''oss/kubernetes/azure-cloud-node-manager:v1.27.13''),
      (WindowsArtifactComponentName, ''v'' @ version @ ''/windowszip/v'' @ version @ ''-1int.zip''),
      (WindowsArtifactAzureStackComponentName, ''v'' @ version @ ''/windowszip/v'' @ version @ ''-1int.zip''),
      (DashboardAddonName, dashboardImageReference),
      (DashboardMetricsScraperContainerName, dashboardMetricsScraperImageReference),
      (ExecHealthZComponentName, getDefaultImage ExecHealthZComponentName kubernetesImageBaseType),
      (AddonResizerComponentName, map_get k8sComponent AddonResizerComponentName),
      (MetricsServerAddonName, map_get k8sComponent MetricsServerAddonName),
      (CoreDNSAddonName, getDefaultImage CoreDNSAddonName kubernetesImageBaseType),
      (CoreDNSAutoscalerName, clusterProportionalAutoscalerImageReference),
      (KubeDNSAddonName, getDefaultImage KubeDNSAddonName kubernetesImageBaseType),
      (AddonManagerComponentName, map_get k8sComponent AddonManagerComponentName),
      (DNSMasqComponentName, getDefaultImage DNSMasqComponentName kubernetesImageBaseType),
      (PauseComponentName, pauseImageReference),
      (TillerAddonName, tillerImageReference),
      (ReschedulerAddonName, getDefaultImage ReschedulerAddonName kubernetesImageBaseType),
      (ACIConnectorAddonName, virtualKubeletImageReference),
      (ClusterAutoscalerAddonName, map_get k8sComponent ClusterAutoscalerAddonName),
      (DNSSidecarComponentName, getDefaultImage DNSSidecarComponentName kubernetesImageBaseType),
      (SMBFlexVolumeAddonName, smbFlexVolumeImageReference),
      (IPMASQAgentAddonName, getDefaultImage IPMASQAgentAddonName kubernetesImageBaseType),
      (AzureNetworkPolicyAddonName, azureNPMContainerImageReference),
      (CalicoTyphaComponentName, calicoTyphaImageReference),
      (CalicoCNIComponentName, calicoCNIImageReference),
      (CalicoNodeComponentName, calicoNodeImageReference),
      (CalicoPod2DaemonComponentName, calicoPod2DaemonImageReference),
      (CalicoClusterAutoscalerComponentName, calicoClusterProportionalAutoscalerImageReference),
      (CiliumAgentContainerName, ciliumAgentImageReference),
      (CiliumCleanStateContainerName, ciliumCleanStateImageReference),
      (CiliumOperatorContainerName, ciliumOperatorImageReference),
      (CiliumEtcdOperatorContainerName, ciliumEtcdOperatorImageReference),
      (AntreaControllerContainerName, antreaControllerImageReference),
      (AntreaAgentContainerName, antreaAgentImageReference),
      (AntreaOVSContainerName, antreaOVSImageReference),
      (''antrea'' @ AntreaInstallCNIContainerName, antreaInstallCNIImageReference),
      (NMIContainerName, aadPodIdentityNMIImageReference),
      (MICContainerName, aadPodIdentityMICImageReference),
      (AzurePolicyAddonName, azurePolicyImageReference),
      (GatekeeperContainerName, gatekeeperImageReference),
      (NodeProblemDetectorAddonName, nodeProblemDetectorImageReference),
      (CSIProvisionerContainerName, map_get k8sComponent CSIProvisionerContainerName),
      (CSIAttacherContainerName, map_get k8sComponent CSIAttacherContainerName),
      (CSILivenessProbeContainerName, map_get k8sComponent CSILivenessProbeContainerName),
      (CSILivenessProbeWindowsContainerName, map_get k8sComponent CSILivenessProbeWindowsContainerName),
      (CSINodeDriverRegistrarContainerName, map_get k8sComponent CSINodeDriverRegistrarContainerName),
      (CSINodeDriverRegistrarWindowsContainerName, map_get k8sComponent CSINodeDriverRegistrarWindowsContainerName),
      (CSISnapshotterContainerName, map_get k8sComponent CSISnapshotterContainerName),
      (CSISnapshotControllerContainerName, map_get k8sComponent CSISnapshotControllerContainerName),
      (CSIResizerContainerName, map_get k8sComponent CSIResizerContainerName),
      (CSIAzureDiskContainerName, map_get k8sComponent CSIAzureDiskContainerName),
      (CSIAzureFileContainerName, csiAzureFileImageReference),
      (KubeFlannelContainerName, kubeFlannelImageReference),
      (''flannel'' @ FlannelInstallCNIContainerName, flannelInstallCNIImageReference),
      (KubeRBACProxyContainerName, KubeRBACProxyImageReference),
      (ScheduledMaintenanceManagerContainerName, ScheduledMaintenanceManagerImageReference),
      (''nodestatusfreq'', DefaultKubernetesNodeStatusUpdateFrequency),
      (''nodegraceperiod'', DefaultKubernetesCtrlMgrNodeMonitorGracePeriod),
      (''podeviction'', DefaultKubernetesCtrlMgrPodEvictionTimeout),
      (''routeperiod'', DefaultKubernetesCtrlMgrRouteReconciliationPeriod),
      (''backoffretries'', itoa DefaultKubernetesCloudProviderBackoffRetries),
      (''backoffjitter'', format_float DefaultKubernetesCloudProviderBackoffJitter),
      (''backoffduration'', itoa DefaultKubernetesCloudProviderBackoffDuration),
      (''backoffexponent'', format_float DefaultKubernetesCloudProviderBackoffExponent),
      (''ratelimitqps'', format_float DefaultKubernetesCloudProviderRateLimitQPS),
      (''ratelimitqpswrite'', format_float DefaultKubernetesCloudProviderRateLimitQPSWrite),
      (''ratelimitbucket'', itoa DefaultKubernetesCloudProviderRateLimitBucket),
      (''ratelimitbucketwrite'', itoa DefaultKubernetesCloudProviderRateLimitBucketWrite),
      (''gchighthreshold'', itoa DefaultKubernetesGCHighThreshold),
      (''gclowthreshold'', itoa DefaultKubernetesGCLowThreshold),
      (NVIDIADevicePluginAddonName, nvidiaDevicePluginImageReference),
      (CSISecretsStoreProviderAzureContainerName, csiSecretsStoreProviderAzureImageReference),
      (CSISecretsStoreDriverContainerName, csiSecretsStoreDriverImageReference),
      (AzureArcOnboardingAddonName, azureArcOnboardingImageReference),
      (AzureKMSProviderComponentName, azureKMSProviderImageReference)]"

definition k8s_components_1_26 ::
    "string \<Rightarrow> string \<Rightarrow> (string \<times> string) list \<Rightarrow> (string \<times> string) list" where
  "k8s_components_1_26 version kubernetesImageBaseType k8sComponent =
     [(APIServerComponentName, getDefaultImage APIServerComponentName kubernetesImageBaseType @ '':v'' @ version),
      (ControllerManagerComponentName, getDefaultImage ControllerManagerComponentName kubernetesImageBaseType @ '':v'' @ version),
      (KubeProxyAddonName, getDefaultImage KubeProxyAddonName kubernetesImageBaseType @ '':v'' @ version),
      (SchedulerComponentName, getDefaultImage SchedulerComponentName kubernetesImageBaseType @ '':v'' @ version),
      (CloudControllerManagerComponentName, ''oss/kubernetes/azure-cloud-controller-manager:v1.26.10''),
      (CloudNodeManagerAddonName, ''oss/kubernetes/azure-cloud-node-manager:v1.26.10''),
      (WindowsArtifactComponentName, ''v'' @ version @ ''/windowszip/v'' @ version @ ''-1int.zip''),
      (WindowsArtifactAzureStackComponentName, ''v'' @ version @ ''/windowszip/v'' @ version @ ''-1int.zip''),
      (DashboardAddonName, dashboardImageReference),
      (DashboardMetricsScraperContainerName, dashboardMetricsScraperImageReference),
      (ExecHealthZComponentName, getDefaultImage ExecHealthZComponentName kubernetesImageBaseType),
      (AddonResizerComponentName, map_get k8sComponent AddonResizerComponentName),
      (MetricsServerAddonName, map_get k8sComponent MetricsServerAddonName),
      (CoreDNSAddonName, getDefaultImage CoreDNSAddonName kubernetesImageBaseType),
      (CoreDNSAutoscalerName, clusterProportionalAutoscalerImageReference),
      (KubeDNSAddonName, getDefaultImage KubeDNSAddonName kubernetesImageBaseType),
      (AddonManagerComponentName, map_get k8sComponent AddonManagerComponentName),
      (DNSMasqComponentName, getDefaultImage DNSMasqComponentName kubernetesImageBaseType),
      (PauseComponentName, pauseImageReference),
      (TillerAddonName, tillerImageReference),
      (ReschedulerAddonName, getDefaultImage ReschedulerAddonName kubernetesImageBaseType),
      (ACIConnectorAddonName, virtualKubeletImageReference),
      (ClusterAutoscalerAddonName, map_get k8sComponent ClusterAutoscalerAddonName),
      (DNSSidecarComponentName, getDefaultImage DNSSidecarComponentName kubernetesImageBaseType),
      (SMBFlexVolumeAddonName, smbFlexVolumeImageReference),
      (IPMASQAgentAddonName, getDefaultImage IPMASQAgentAddonName kubernetesImageBaseType),
      (AzureNetworkPolicyAddonName, azureNPMContainerImageReference),
      (CalicoTyphaComponentName, calicoTyphaImageReference),
      (CalicoCNIComponentName, calicoCNIImageReference),
      (CalicoNodeComponentName, calicoNodeImageReference),
      (CalicoPod2DaemonComponentName, calicoPod2DaemonImageReference),
      (CalicoClusterAutoscalerComponentName, calicoClusterProportionalAutoscalerImageReference),
      (CiliumAgentContainerName, ciliumAgentImageReference),
      (CiliumCleanStateContainerName, ciliumCleanStateImageReference),
      (CiliumOperatorContainerName, ciliumOperatorImageReference),
      (CiliumEtcdOperatorContainerName, ciliumEtcdOperatorImageReference),
      (AntreaControllerContainerName, antreaControllerImageReference),
      (AntreaAgentContainerName, antreaAgentImageReference),
      (AntreaOVSContainerName, antreaOVSImageReference),
      (''antrea'' @ AntreaInstallCNIContainerName, antreaInstallCNIImageReference),
      (NMIContainerName, aadPodIdentityNMIImageReference),
      (MICContainerName, aadPodIdentityMICImageReference),
      (AzurePolicyAddonName, azurePolicyImageReference),
      (GatekeeperContainerName, gatekeeperImageReference),
      (NodeProblemDetectorAddonName, nodeProblemDetectorImageReference),
      (CSIProvisionerContainerName, map_get k8sComponent CSIProvisionerContainerName),
      (CSIAttacherContainerName, map_get k8sComponent CSIAttacherContainerName),
      (CSILivenessProbeContainerName, map_get k8sComponent CSILivenessProbeContainerName),
      (CSILivenessProbeWindowsContainerName, map_get k8sComponent CSILivenessProbeWindowsContainerName),
      (CSINodeDriverRegistrarContainerName, map_get k8sComponent CSINodeDriverRegistrarContainerName),
      (CSINodeDriverRegistrarWindowsContainerName, map_get k8sComponent CSINodeDriverRegistrarWindowsContainerName),
      (CSISnapshotterContainerName, map_get k8sComponent CSISnapshotterContainerName),
      (CSISnapshotControllerContainerName, map_get k8sComponent CSISnapshotControllerContainerName),
      (CSIResizerContainerName, map_get k8sComponent CSIResizerContainerName),
      (CSIAzureDiskContainerName, map_get k8sComponent CSIAzureDiskContainerName),
      (CSIAzureFileContainerName, csiAzureFileImageReference),
      (KubeFlannelContainerName, kubeFlannelImageReference),
      (''flannel'' @ FlannelInstallCNIContainerName, flannelInstallCNIImageReference),
      (KubeRBACProxyContainerName, KubeRBACProxyImageReference),
      (ScheduledMaintenanceManagerContainerName, ScheduledMaintenanceManagerImageReference),
      (''nodestatusfreq'', DefaultKubernetesNodeStatusUpdateFrequency),
      (''nodegraceperiod'', DefaultKubernetesCtrlMgrNodeMonitorGracePeriod),
      (''podeviction'', DefaultKubernetesCtrlMgrPodEvictionTimeout),
      (''routeperiod'', DefaultKubernetesCtrlMgrRouteReconciliationPeriod),
      (''backoffretries'', itoa DefaultKubernetesCloudProviderBackoffRetries),
      (''backoffjitter'', format_float DefaultKubernetesCloudProviderBackoffJitter),
      (''backoffduration'', itoa DefaultKubernetesCloudProviderBackoffDuration),
      (''backoffexponent'', format_float DefaultKubernetesCloudProviderBackoffExponent),
      (''ratelimitqps'', format_float DefaultKubernetesCloudProviderRateLimitQPS),
      (''ratelimitqpswrite'', format_float DefaultKubernetesCloudProviderRateLimitQPSWrite),
      (''ratelimitbucket'', itoa DefaultKubernetesCloudProviderRateLimitBucket),
      (''ratelimitbucketwrite'', itoa DefaultKubernetesCloudProviderRateLimitBucketWrite),
      (''gchighthreshold'', itoa DefaultKubernetesGCHighThreshold),
      (''gclowthreshold'', itoa DefaultKubernetesGCLowThreshold),
      (NVIDIADevicePluginAddonName, nvidiaDevicePluginImageReference),
      (CSISecretsStoreProviderAzureContainerName, csiSecretsStoreProviderAzureImageReference),
      (CSISecretsStoreDriverContainerName, csiSecretsStoreDriverImageReference),
      (AzureArcOnboardingAddonName, azureArcOnboardingImageReference),
      (AzureKMSProviderComponentName, azureKMSProviderImageReference)]"

definition k8s_components_1_25 ::
    "string \<Rightarrow> string \<Rightarrow> (string \<times> string) list \<Rightarrow> (string \<times> string) list" where
  "k8s_components_1_25 version kubernetesImageBaseType k8sComponent =
     [(APIServerComponentName, getDefaultImage APIServerComponentName kubernetesImageBaseType @ '':v'' @ version),
      (ControllerManagerComponentName, getDefaultImage ControllerManagerComponentName kubernetesImageBaseType @ '':v'' @ version),
      (KubeProxyAddonName, getDefaultImage KubeProxyAddonName kubernetesImageBaseType @ '':v'' @ version),
      (SchedulerComponentName, getDefaultImage SchedulerComponentName kubernetesImageBaseType @ '':v'' @ version),
      (CloudControllerManagerComponentName, ''oss/kubernetes/azure-cloud-controller-manager:v1.25.9''),
      (CloudNodeManagerAddonName, ''oss/kubernetes/azure-cloud-node-manager:v1.25.9''),
      (WindowsArtifactComponentName, ''v'' @ version @ ''/windowszip/v'' @ version @ ''-1int.zip''),
      (WindowsArtifactAzureStackComponentName, ''v'' @ version @ ''/windowszip/v'' @ version @ ''-1int.zip''),
      (DashboardAddonName, dashboardImageReference),
      (DashboardMetricsScraperContainerName, dashboardMetricsScraperImageReference),
      (ExecHealthZComponentName, getDefaultImage ExecHealthZComponentName kubernetesImageBaseType),
      (AddonResizerComponentName, map_get k8sComponent AddonResizerComponentName),
      (MetricsServerAddonName, map_get k8sComponent MetricsServerAddonName),
      (CoreDNSAddonName, getDefaultImage CoreDNSAddonName kubernetesImageBaseType),
      (CoreDNSAutoscalerName, clusterProportionalAutoscalerImageReference),
      (KubeDNSAddonName, getDefaultImage KubeDNSAddonName kubernetesImageBaseType),
      (AddonManagerComponentName, map_get k8sComponent AddonManagerComponentName),
      (DNSMasqComponentName, getDefaultImage DNSMasqComponentName kubernetesImageBaseType),
      (PauseComponentName, pauseImageReference),
      (TillerAddonName, tillerImageReference),
      (ReschedulerAddonName, getDefaultImage ReschedulerAddonName kubernetesImageBaseType),
      (ACIConnectorAddonName, virtualKubeletImageReference),
      (ClusterAutoscalerAddonName, map_get k8sComponent ClusterAutoscalerAddonName),
      (DNSSidecarComponentName, getDefaultImage DNSSidecarComponentName kubernetesImageBaseType),
      (SMBFlexVolumeAddonName, smbFlexVolumeImageReference),
      (IPMASQAgentAddonName, getDefaultImage IPMASQAgentAddonName kubernetesImageBaseType),
      (AzureNetworkPolicyAddonName, azureNPMContainerImageReference),
      (CalicoTyphaComponentName, calicoTyphaImageReference),
      (CalicoCNIComponentName, calicoCNIImageReference),
      (CalicoNodeComponentName, calicoNodeImageReference),
      (CalicoPod2DaemonComponentName, calicoPod2DaemonImageReference),
      (CalicoClusterAutoscalerComponentName, calicoClusterProportionalAutoscalerImageReference),
      (CiliumAgentContainerName, ciliumAgentImageReference),
      (CiliumCleanStateContainerName, ciliumCleanStateImageReference),
      (CiliumOperatorContainerName, ciliumOperatorImageReference),
      (CiliumEtcdOperatorContainerName, ciliumEtcdOperatorImageReference),
      (AntreaControllerContainerName, antreaControllerImageReference),
      (AntreaAgentContainerName, antreaAgentImageReference),
      (AntreaOVSContainerName, antreaOVSImageReference),
      (''antrea'' @ AntreaInstallCNIContainerName, antreaInstallCNIImageReference),
      (NMIContainerName, aadPodIdentityNMIImageReference),
      (MICContainerName, aadPodIdentityMICImageReference),
      (AzurePolicyAddonName, azurePolicyImageReference),
      (GatekeeperContainerName, gatekeeperImageReference),
      (NodeProblemDetectorAddonName, nodeProblemDetectorImageReference),
      (CSIProvisionerContainerName, map_get k8sComponent CSIProvisionerContainerName),
      (CSIAttacherContainerName, map_get k8sComponent CSIAttacherContainerName),
      (CSILivenessProbeContainerName, map_get k8sComponent CSILivenessProbeContainerName),
      (CSILivenessProbeWindowsContainerName, map_get k8sComponent CSILivenessProbeWindowsContainerName),
      (CSINodeDriverRegistrarContainerName, map_get k8sComponent CSINodeDriverRegistrarContainerName),
      (CSINodeDriverRegistrarWindowsContainerName, map_get k8sComponent CSINodeDriverRegistrarWindowsContainerName),
      (CSISnapshotterContainerName, map_get k8sComponent CSISnapshotterContainerName),
      (CSISnapshotControllerContainerName, map_get k8sComponent CSISnapshotControllerContainerName),
      (CSIResizerContainerName, map_get k8sComponent CSIResizerContainerName),
      (CSIAzureDiskContainerName, map_get k8sComponent CSIAzureDiskContainerName),
      (CSIAzureFileContainerName, csiAzureFileImageReference),
      (KubeFlannelContainerName, kubeFlannelImageReference),
      (''flannel'' @ FlannelInstallCNIContainerName, flannelInstallCNIImageReference),
      (KubeRBACProxyContainerName, KubeRBACProxyImageReference),
      (ScheduledMaintenanceManagerContainerName, ScheduledMaintenanceManagerImageReference),
      (''nodestatusfreq'', DefaultKubernetesNodeStatusUpdateFrequency),
      (''nodegraceperiod'', DefaultKubernetesCtrlMgrNodeMonitorGracePeriod),
      (''podeviction'', DefaultKubernetesCtrlMgrPodEvictionTimeout),
      (''routeperiod'', DefaultKubernetesCtrlMgrRouteReconciliationPeriod),
      (''backoffretries'', itoa DefaultKubernetesCloudProviderBackoffRetries),
      (''backoffjitter'', format_float DefaultKubernetesCloudProviderBackoffJitter),
      (''backoffduration'', itoa DefaultKubernetesCloudProviderBackoffDuration),
      (''backoffexponent'', format_float DefaultKubernetesCloudProviderBackoffExponent),
      (''ratelimitqps'', format_float DefaultKubernetesCloudProviderRateLimitQPS),
      (''ratelimitqpswrite'', format_float DefaultKubernetesCloudProviderRateLimitQPSWrite),
      (''ratelimitbucket'', itoa DefaultKubernetesCloudProviderRateLimitBucket),
      (''ratelimitbucketwrite'', itoa DefaultKubernetesCloudProviderRateLimitBucketWrite),
      (''gchighthreshold'', itoa DefaultKubernetesGCHighThreshold),
      (''gclowthreshold'', itoa DefaultKubernetesGCLowThreshold),
      (NVIDIADevicePluginAddonName, nvidiaDevicePluginImageReference),
      (CSISecretsStoreProviderAzureContainerName, csiSecretsStoreProviderAzureImageReference),
      (CSISecretsStoreDriverContainerName, csiSecretsStoreDriverImageReference),
      (AzureArcOnboardingAddonName, azureArcOnboardingImageReference),
      (AzureKMSProviderComponentName, azureKMSProviderImageReference)]"

definition k8s_components_1_24 ::
    "string \<Rightarrow> string \<Rightarrow> (string \<times> string) list \<Rightarrow> (string \<times> string) list" where
  "k8s_components_1_24 version kubernetesImageBaseType k8sComponent =
     [(APIServerComponentName, getDefaultImage APIServerComponentName kubernetesImageBaseType @ '':v'' @ version),
      (ControllerManagerComponentName, getDefaultImage ControllerManagerComponentName kubernetesImageBaseType @ '':v'' @ version),
      (KubeProxyAddonName, getDefaultImage KubeProxyAddonName kubernetesImageBaseType @ '':v'' @ version),
      (SchedulerComponentName, getDefaultImage SchedulerComponentName kubernetesImageBaseType @ '':v'' @ version),
      (CloudControllerManagerComponentName, ''oss/kubernetes/azure-cloud-controller-manager:v1.24.0''),
      (CloudNodeManagerAddonName, ''oss/kubernetes/azure-cloud-node-manager:v1.24.0''),
      (WindowsArtifactComponentName, ''v'' @ version @ ''/windowszip/v'' @ version @ ''-1int.zip''),
      (WindowsArtifactAzureStackComponentName, ''v'' @ version @ ''/windowszip/v'' @ version @ ''-1int.zip''),
      (DashboardAddonName, dashboardImageReference),
      (DashboardMetricsScraperContainerName, dashboardMetricsScraperImageReference),
      (ExecHealthZComponentName, getDefaultImage ExecHealthZComponentName kubernetesImageBaseType),
      (AddonResizerComponentName, map_get k8sComponent AddonResizerComponentName),
      (MetricsServerAddonName, map_get k8sComponent MetricsServerAddonName),
      (CoreDNSAddonName, getDefaultImage CoreDNSAddonName kubernetesImageBaseType),
      (CoreDNSAutoscalerName, clusterProportionalAutoscalerImageReference),
      (KubeDNSAddonName, getDefaultImage KubeDNSAddonName kubernetesImageBaseType),
      (AddonManagerComponentName, map_get k8sComponent AddonManagerComponentName),
      (DNSMasqComponentName, getDefaultImage DNSMasqComponentName kubernetesImageBaseType),
      (PauseComponentName, pauseImageReference),
      (TillerAddonName, tillerImageReference),
      (ReschedulerAddonName, getDefaultImage ReschedulerAddonName kubernetesImageBaseType),
      (ACIConnectorAddonName, virtualKubeletImageReference),
      (ClusterAutoscalerAddonName, map_get k8sComponent ClusterAutoscalerAddonName),
      (DNSSidecarComponentName, getDefaultImage DNSSidecarComponentName kubernetesImageBaseType),
      (SMBFlexVolumeAddonName, smbFlexVolumeImageReference),
      (IPMASQAgentAddonName, getDefaultImage IPMASQAgentAddonName kubernetesImageBaseType),
      (AzureNetworkPolicyAddonName, azureNPMContainerImageReference),
      (CalicoTyphaComponentName, calicoTyphaImageReference),
      (CalicoCNIComponentName, calicoCNIImageReference),
      (CalicoNodeComponentName, calicoNodeImageReference),
      (CalicoPod2DaemonComponentName, calicoPod2DaemonImageReference),
      (CalicoClusterAutoscalerComponentName, calicoClusterProportionalAutoscalerImageReference),
      (CiliumAgentContainerName, ciliumAgentImageReference),
      (CiliumCleanStateContainerName, ciliumCleanStateImageReference),
      (CiliumOperatorContainerName, ciliumOperatorImageReference),
      (CiliumEtcdOperatorContainerName, ciliumEtcdOperatorImageReference),
      (AntreaControllerContainerName, antreaControllerImageReference),
      (AntreaAgentContainerName, antreaAgentImageReference),
      (AntreaOVSContainerName, antreaOVSImageReference),
      (''antrea'' @ AntreaInstallCNIContainerName, antreaInstallCNIImageReference),
      (NMIContainerName, aadPodIdentityNMIImageReference),
      (MICContainerName, aadPodIdentityMICImageReference),
      (AzurePolicyAddonName, azurePolicyImageReference),
      (GatekeeperContainerName, gatekeeperImageReference),
      (NodeProblemDetectorAddonName, nodeProblemDetectorImageReference),
      (CSIProvisionerContainerName, map_get k8sComponent CSIProvisionerContainerName),
      (CSIAttacherContainerName, map_get k8sComponent CSIAttacherContainerName),
      (CSILivenessProbeContainerName, map_get k8sComponent CSILivenessProbeContainerName),
      (CSILivenessProbeWindowsContainerName, map_get k8sComponent CSILivenessProbeWindowsContainerName),
      (CSINodeDriverRegistrarContainerName, map_get k8sComponent CSINodeDriverRegistrarContainerName),
      (CSINodeDriverRegistrarWindowsContainerName, map_get k8sComponent CSINodeDriverRegistrarWindowsContainerName),
      (CSISnapshotterContainerName, map_get k8sComponent CSISnapshotterContainerName),
      (CSISnapshotControllerContainerName, map_get k8sComponent CSISnapshotControllerContainerName),
      (CSIResizerContainerName, map_get k8sComponent CSIResizerContainerName),
      (CSIAzureDiskContainerName, map_get k8sComponent CSIAzureDiskContainerName),
      (CSIAzureFileContainerName, csiAzureFileImageReference),
      (KubeFlannelContainerName, kubeFlannelImageReference),
      (''flannel'' @ FlannelInstallCNIContainerName, flannelInstallCNIImageReference),
      (KubeRBACProxyContainerName, KubeRBACProxyImageReference),
      (ScheduledMaintenanceManagerContainerName, ScheduledMaintenanceManagerImageReference),
      (''nodestatusfreq'', DefaultKubernetesNodeStatusUpdateFrequency),
      (''nodegraceperiod'', DefaultKubernetesCtrlMgrNodeMonitorGracePeriod),
      (''podeviction'', DefaultKubernetesCtrlMgrPodEvictionTimeout),
      (''routeperiod'', DefaultKubernetesCtrlMgrRouteReconciliationPeriod),
      (''backoffretries'', itoa DefaultKubernetesCloudProviderBackoffRetries),
      (''backoffjitter'', format_float DefaultKubernetesCloudProviderBackoffJitter),
      (''backoffduration'', itoa DefaultKubernetesCloudProviderBackoffDuration),
      (''backoffexponent'', format_float DefaultKubernetesCloudProviderBackoffExponent),
      (''ratelimitqps'', format_float DefaultKubernetesCloudProviderRateLimitQPS),
      (''ratelimitqpswrite'', format_float DefaultKubernetesCloudProviderRateLimitQPSWrite),
      (''ratelimitbucket'', itoa DefaultKubernetesCloudProviderRateLimitBucket),
      (''ratelimitbucketwrite'', itoa DefaultKubernetesCloudProviderRateLimitBucketWrite),
      (''gchighthreshold'', itoa DefaultKubernetesGCHighThreshold),
      (''gclowthreshold'', itoa DefaultKubernetesGCLowThreshold),
      (NVIDIADevicePluginAddonName, nvidiaDevicePluginImageReference),
      (CSISecretsStoreProviderAzureContainerName, csiSecretsStoreProviderAzureImageReference),
      (CSISecretsStoreDriverContainerName, csiSecretsStoreDriverImageReference),
      (AzureArcOnboardingAddonName, azureArcOnboardingImageReference),
      (AzureKMSProviderComponentName, azureKMSProviderImageReference)]"

definition k8s_components_1_23 ::
    "string \<Rightarrow> string \<Rightarrow> (string \<times> string) list \<Rightarrow> (string \<times> string) list" where
  "k8s_components_1_23 version kubernetesImageBaseType k8sComponent =
     [(APIServerComponentName, getDefaultImage APIServerComponentName kubernetesImageBaseType @ '':v'' @ version),
      (ControllerManagerComponentName, getDefaultImage ControllerManagerComponentName kubernetesImageBaseType @ '':v'' @ version),
      (KubeProxyAddonName, getDefaultImage KubeProxyAddonName kubernetesImageBaseType @ '':v'' @ version),
      (SchedulerComponentName, getDefaultImage SchedulerComponentName kubernetesImageBaseType @ '':v'' @ version),
      (CloudControllerManagerComponentName, ''oss/kubernetes/azure-cloud-controller-manager:v1.23.11''),
      (CloudNodeManagerAddonName, ''oss/kubernetes/azure-cloud-node-manager:v1.23.11''),
      (WindowsArtifactComponentName, ''v'' @ version @ ''/windowszip/v'' @ version @ ''-1int.zip''),
      (WindowsArtifactAzureStackComponentName, ''v'' @ version @ ''/windowszip/v'' @ version @ ''-1int.zip''),
      (DashboardAddonName, dashboardImageReference),
      (DashboardMetricsScraperContainerName, dashboardMetricsScraperImageReference),
      (ExecHealthZComponentName, getDefaultImage ExecHealthZComponentName kubernetesImageBaseType),
      (AddonResizerComponentName, map_get k8sComponent AddonResizerComponentName),
      (MetricsServerAddonName, map_get k8sComponent MetricsServerAddonName),
      (CoreDNSAddonName, getDefaultImage CoreDNSAddonName kubernetesImageBaseType),
      (CoreDNSAutoscalerName, clusterProportionalAutoscalerImageReference),
      (KubeDNSAddonName, getDefaultImage KubeDNSAddonName kubernetesImageBaseType),
      (AddonManagerComponentName, map_get k8sComponent AddonManagerComponentName),
      (DNSMasqComponentName, getDefaultImage DNSMasqComponentName kubernetesImageBaseType),
      (PauseComponentName, pauseImageReference),
      (TillerAddonName, tillerImageReference),
      (ReschedulerAddonName, getDefaultImage ReschedulerAddonName kubernetesImageBaseType),
      (ACIConnectorAddonName, virtualKubeletImageReference),
      (ClusterAutoscalerAddonName, map_get k8sComponent ClusterAutoscalerAddonName),
      (DNSSidecarComponentName, getDefaultImage DNSSidecarComponentName kubernetesImageBaseType),
      (SMBFlexVolumeAddonName, smbFlexVolumeImageReference),
      (IPMASQAgentAddonName, getDefaultImage IPMASQAgentAddonName kubernetesImageBaseType),
      (AzureNetworkPolicyAddonName, azureNPMContainerImageReference),
      (CalicoTyphaComponentName, calicoTyphaImageReference),
      (CalicoCNIComponentName, calicoCNIImageReference),
      (CalicoNodeComponentName, calicoNodeImageReference),
      (CalicoPod2DaemonComponentName, calicoPod2DaemonImageReference),
      (CalicoClusterAutoscalerComponentName, calicoClusterProportionalAutoscalerImageReference),
      (CiliumAgentContainerName, ciliumAgentImageReference),
      (CiliumCleanStateContainerName, ciliumCleanStateImageReference),
      (CiliumOperatorContainerName, ciliumOperatorImageReference),
      (CiliumEtcdOperatorContainerName, ciliumEtcdOperatorImageReference),
      (AntreaControllerContainerName, antreaControllerImageReference),
      (AntreaAgentContainerName, antreaAgentImageReference),
      (AntreaOVSContainerName, antreaOVSImageReference),
      (''antrea'' @ AntreaInstallCNIContainerName, antreaInstallCNIImageReference),
      (NMIContainerName, aadPodIdentityNMIImageReference),
      (MICContainerName, aadPodIdentityMICImageReference),
      (AzurePolicyAddonName, azurePolicyImageReference),
      (GatekeeperContainerName, gatekeeperImageReference),
      (NodeProblemDetectorAddonName, nodeProblemDetectorImageReference),
      (CSIProvisionerContainerName, map_get k8sComponent CSIProvisionerContainerName),
      (CSIAttacherContainerName, map_get k8sComponent CSIAttacherContainerName),
      (CSILivenessProbeContainerName, map_get k8sComponent CSILivenessProbeContainerName),
      (CSILivenessProbeWindowsContainerName, map_get k8sComponent CSILivenessProbeWindowsContainerName),
      (CSINodeDriverRegistrarContainerName, map_get k8sComponent CSINodeDriverRegistrarContainerName),
      (CSINodeDriverRegistrarWindowsContainerName, map_get k8sComponent CSINodeDriverRegistrarWindowsContainerName),
      (CSISnapshotterContainerName, map_get k8sComponent CSISnapshotterContainerName),
      (CSISnapshotControllerContainerName, map_get k8sComponent CSISnapshotControllerContainerName),
      (CSIResizerContainerName, map_get k8sComponent CSIResizerContainerName),
      (CSIAzureDiskContainerName, map_get k8sComponent CSIAzureDiskContainerName),
      (CSIAzureFileContainerName, csiAzureFileImageReference),
      (KubeFlannelContainerName, kubeFlannelImageReference),
      (''flannel'' @ FlannelInstallCNIContainerName, flannelInstallCNIImageReference),
      (KubeRBACProxyContainerName, KubeRBACProxyImageReference),
      (ScheduledMaintenanceManagerContainerName, ScheduledMaintenanceManagerImageReference),
      (''nodestatusfreq'', DefaultKubernetesNodeStatusUpdateFrequency),
      (''nodegraceperiod'', DefaultKubernetesCtrlMgrNodeMonitorGracePeriod),
      (''podeviction'', DefaultKubernetesCtrlMgrPodEvictionTimeout),
      (''routeperiod'', DefaultKubernetesCtrlMgrRouteReconciliationPeriod),
      (''backoffretries'', itoa DefaultKubernetesCloudProviderBackoffRetries),
      (''backoffjitter'', format_float DefaultKubernetesCloudProviderBackoffJitter),
      (''backoffduration'', itoa DefaultKubernetesCloudProviderBackoffDuration),
      (''backoffexponent'', format_float DefaultKubernetesCloudProviderBackoffExponent),
      (''ratelimitqps'', format_float DefaultKubernetesCloudProviderRateLimitQPS),
      (''ratelimitqpswrite'', format_float DefaultKubernetesCloudProviderRateLimitQPSWrite),
      (''ratelimitbucket'', itoa DefaultKubernetesCloudProviderRateLimitBucket),
      (''ratelimitbucketwrite'', itoa DefaultKubernetesCloudProviderRateLimitBucketWrite),
      (''gchighthreshold'', itoa DefaultKubernetesGCHighThreshold),
      (''gclowthreshold'', itoa DefaultKubernetesGCLowThreshold),
      (NVIDIADevicePluginAddonName, nvidiaDevicePluginImageReference),
      (CSISecretsStoreProviderAzureContainerName, csiSecretsStoreProviderAzureImageReference),
      (CSISecretsStoreDriverContainerName, csiSecretsStoreDriverImageReference),
      (AzureArcOnboardingAddonName, azureArcOnboardingImageReference),
      (AzureKMSProviderComponentName, azureKMSProviderImageReference)]"

definition k8s_components_1_22 ::
    "string \<Rightarrow> string \<Rightarrow> (string \<times> string) list \<Rightarrow> (string \<times> string) list" where
  "k8s_components_1_22 version kubernetesImageBaseType k8sComponent =
     [(APIServerComponentName, getDefaultImage APIServerComponentName kubernetesImageBaseType @ '':v'' @ version),
      (ControllerManagerComponentName, getDefaultImage ControllerManagerComponentName kubernetesImageBaseType @ '':v'' @ version),
      (KubeProxyAddonName, getDefaultImage KubeProxyAddonName kubernetesImageBaseType @ '':v'' @ version),
      (SchedulerComponentName, getDefaultImage SchedulerComponentName kubernetesImageBaseType @ '':v'' @ version),
      (CloudControllerManagerComponentName, ''oss/kubernetes/azure-cloud-controller-manager:v1.1.14''),
      (CloudNodeManagerAddonName, ''oss/kubernetes/azure-cloud-node-manager:v1.1.14''),
      (WindowsArtifactComponentName, ''v'' @ version @ ''/windowszip/v'' @ version @ ''-1int.zip''),
      (WindowsArtifactAzureStackComponentName, ''v'' @ version @ ''/windowszip/v'' @ version @ ''-1int.zip''),
      (DashboardAddonName, dashboardImageReference),
      (DashboardMetricsScraperContainerName, dashboardMetricsScraperImageReference),
      (ExecHealthZComponentName, getDefaultImage ExecHealthZComponentName kubernetesImageBaseType),
      (AddonResizerComponentName, map_get k8sComponent AddonResizerComponentName),
      (MetricsServerAddonName, map_get k8sComponent MetricsServerAddonName),
      (CoreDNSAddonName, getDefaultImage CoreDNSAddonName kubernetesImageBaseType),
      (CoreDNSAutoscalerName, clusterProportionalAutoscalerImageReference),
      (KubeDNSAddonName, getDefaultImage KubeDNSAddonName kubernetesImageBaseType),
      (AddonManagerComponentName, map_get k8sComponent AddonManagerComponentName),
      (DNSMasqComponentName, getDefaultImage DNSMasqComponentName kubernetesImageBaseType),
      (PauseComponentName, pauseImageReference),
      (TillerAddonName, tillerImageReference),
      (ReschedulerAddonName, getDefaultImage ReschedulerAddonName kubernetesImageBaseType),
      (ACIConnectorAddonName, virtualKubeletImageReference),
      (ClusterAutoscalerAddonName, map_get k8sComponent ClusterAutoscalerAddonName),
      (DNSSidecarComponentName, getDefaultImage DNSSidecarComponentName kubernetesImageBaseType),
      (SMBFlexVolumeAddonName, smbFlexVolumeImageReference),
      (IPMASQAgentAddonName, getDefaultImage IPMASQAgentAddonName kubernetesImageBaseType),
      (AzureNetworkPolicyAddonName, azureNPMContainerImageReference),
      (CalicoTyphaComponentName, calicoTyphaImageReference),
      (CalicoCNIComponentName, calicoCNIImageReference),
      (CalicoNodeComponentName, calicoNodeImageReference),
      (CalicoPod2DaemonComponentName, calicoPod2DaemonImageReference),
      (CalicoClusterAutoscalerComponentName, calicoClusterProportionalAutoscalerImageReference),
      (CiliumAgentContainerName, ciliumAgentImageReference),
      (CiliumCleanStateContainerName, ciliumCleanStateImageReference),
      (CiliumOperatorContainerName, ciliumOperatorImageReference),
      (CiliumEtcdOperatorContainerName, ciliumEtcdOperatorImageReference),
      (AntreaControllerContainerName, antreaControllerImageReference),
      (AntreaAgentContainerName, antreaAgentImageReference),
      (AntreaOVSContainerName, antreaOVSImageReference),
      (''antrea'' @ AntreaInstallCNIContainerName, antreaInstallCNIImageReference),
      (NMIContainerName, aadPodIdentityNMIImageReference),
      (MICContainerName, aadPodIdentityMICImageReference),
      (AzurePolicyAddonName, azurePolicyImageReference),
      (GatekeeperContainerName, gatekeeperImageReference),
      (NodeProblemDetectorAddonName, nodeProblemDetectorImageReference),
      (CSIProvisionerContainerName, map_get k8sComponent CSIProvisionerContainerName),
      (CSIAttacherContainerName, map_get k8sComponent CSIAttacherContainerName),
      (CSILivenessProbeContainerName, map_get k8sComponent CSILivenessProbeContainerName),
      (CSILivenessProbeWindowsContainerName, map_get k8sComponent CSILivenessProbeWindowsContainerName),
      (CSINodeDriverRegistrarContainerName, map_get k8sComponent CSINodeDriverRegistrarContainerName),
      (CSINodeDriverRegistrarWindowsContainerName, map_get k8sComponent CSINodeDriverRegistrarWindowsContainerName),
      (CSISnapshotterContainerName, map_get k8sComponent CSISnapshotterContainerName),
      (CSISnapshotControllerContainerName, map_get k8sComponent CSISnapshotControllerContainerName),
      (CSIResizerContainerName, map_get k8sComponent CSIResizerContainerName),
      (CSIAzureDiskContainerName, map_get k8sComponent CSIAzureDiskContainerName),
      (CSIAzureFileContainerName, csiAzureFileImageReference),
      (KubeFlannelContainerName, kubeFlannelImageReference),
      (''flannel'' @ FlannelInstallCNIContainerName, flannelInstallCNIImageReference),
      (KubeRBACProxyContainerName, KubeRBACProxyImageReference),
      (ScheduledMaintenanceManagerContainerName, ScheduledMaintenanceManagerImageReference),
      (''nodestatusfreq'', DefaultKubernetesNodeStatusUpdateFrequency),
      (''nodegraceperiod'', DefaultKubernetesCtrlMgrNodeMonitorGracePeriod),
      (''podeviction'', DefaultKubernetesCtrlMgrPodEvictionTimeout),
      (''routeperiod'', DefaultKubernetesCtrlMgrRouteReconciliationPeriod),
      (''backoffretries'', itoa DefaultKubernetesCloudProviderBackoffRetries),
      (''backoffjitter'', format_float DefaultKubernetesCloudProviderBackoffJitter),
      (''backoffduration'', itoa DefaultKubernetesCloudProviderBackoffDuration),
      (''backoffexponent'', format_float DefaultKubernetesCloudProviderBackoffExponent),
      (''ratelimitqps'', format_float DefaultKubernetesCloudProviderRateLimitQPS),
      (''ratelimitqpswrite'', format_float DefaultKubernetesCloudProviderRateLimitQPSWrite),
      (''ratelimitbucket'', itoa DefaultKubernetesCloudProviderRateLimitBucket),
      (''ratelimitbucketwrite'', itoa DefaultKubernetesCloudProviderRateLimitBucketWrite),
      (''gchighthreshold'', itoa DefaultKubernetesGCHighThreshold),
      (''gclowthreshold'', itoa DefaultKubernetesGCLowThreshold),
      (NVIDIADevicePluginAddonName, nvidiaDevicePluginImageReference),
      (CSISecretsStoreProviderAzureContainerName, csiSecretsStoreProviderAzureImageReference),
      (CSISecretsStoreDriverContainerName, csiSecretsStoreDriverImageReference),
      (AzureArcOnboardingAddonName, azureArcOnboardingImageReference),
      (AzureKMSProviderComponentName, azureKMSProviderImageReference)]"

definition k8s_components_1_21 ::
    "string \<Rightarrow> string \<Rightarrow> (string \<times> string) list \<Rightarrow> (string \<times> string) list" where
  "k8s_components_1_21 version kubernetesImageBaseType k8sComponent =
     [(APIServerComponentName, getDefaultImage APIServerComponentName kubernetesImageBaseType @ '':v'' @ version),
      (ControllerManagerComponentName, getDefaultImage ControllerManagerComponentName kubernetesImageBaseType @ '':v'' @ version),
      (KubeProxyAddonName, getDefaultImage KubeProxyAddonName kubernetesImageBaseType @ '':v'' @ version),
      (SchedulerComponentName, getDefaultImage SchedulerComponentName kubernetesImageBaseType @ '':v'' @ version),
      (CloudControllerManagerComponentName, ''oss/kubernetes/azure-cloud-controller-manager:v1.0.18''),
      (CloudNodeManagerAddonName, ''oss/kubernetes/azure-cloud-node-manager:v1.0.18''),
      (WindowsArtifactComponentName, ''v'' @ version @ ''/windowszip/v'' @ version @ ''-1int.zip''),
      (WindowsArtifactAzureStackComponentName, ''v'' @ version @ ''/windowszip/v'' @ version @ ''-1int.zip''),
      (DashboardAddonName, dashboardImageReference),
      (DashboardMetricsScraperContainerName, dashboardMetricsScraperImageReference),
      (ExecHealthZComponentName, getDefaultImage ExecHealthZComponentName kubernetesImageBaseType),
      (AddonResizerComponentName, map_get k8sComponent AddonResizerComponentName),
      (MetricsServerAddonName, map_get k8sComponent MetricsServerAddonName),
      (CoreDNSAddonName, getDefaultImage CoreDNSAddonName kubernetesImageBaseType),
      (CoreDNSAutoscalerName, clusterProportionalAutoscalerImageReference),
      (KubeDNSAddonName, getDefaultImage KubeDNSAddonName kubernetesImageBaseType),
      (AddonManagerComponentName, map_get k8sComponent AddonManagerComponentName),
      (DNSMasqComponentName, getDefaultImage DNSMasqComponentName kubernetesImageBaseType),
      (PauseComponentName, pauseImageReference),
      (TillerAddonName, tillerImageReference),
      (ReschedulerAddonName, getDefaultImage ReschedulerAddonName kubernetesImageBaseType),
      (ACIConnectorAddonName, virtualKubeletImageReference),
      (ClusterAutoscalerAddonName, map_get k8sComponent ClusterAutoscalerAddonName),
      (DNSSidecarComponentName, getDefaultImage DNSSidecarComponentName kubernetesImageBaseType),
      (SMBFlexVolumeAddonName, smbFlexVolumeImageReference),
      (IPMASQAgentAddonName, getDefaultImage IPMASQAgentAddonName kubernetesImageBaseType),
      (AzureNetworkPolicyAddonName, azureNPMContainerImageReference),
      (CalicoTyphaComponentName, calicoTyphaImageReference),
      (CalicoCNIComponentName, calicoCNIImageReference),
      (CalicoNodeComponentName, calicoNodeImageReference),
      (CalicoPod2DaemonComponentName, calicoPod2DaemonImageReference),
      (CalicoClusterAutoscalerComponentName, calicoClusterProportionalAutoscalerImageReference),
      (CiliumAgentContainerName, ciliumAgentImageReference),
      (CiliumCleanStateContainerName, ciliumCleanStateImageReference),
      (CiliumOperatorContainerName, ciliumOperatorImageReference),
      (CiliumEtcdOperatorContainerName, ciliumEtcdOperatorImageReference),
      (AntreaControllerContainerName, antreaControllerImageReference),
      (AntreaAgentContainerName, antreaAgentImageReference),
      (AntreaOVSContainerName, antreaOVSImageReference),
      (''antrea'' @ AntreaInstallCNIContainerName, antreaInstallCNIImageReference),
      (NMIContainerName, aadPodIdentityNMIImageReference),
      (MICContainerName, aadPodIdentityMICImageReference),
      (AzurePolicyAddonName, azurePolicyImageReference),
      (GatekeeperContainerName, gatekeeperImageReference),
      (NodeProblemDetectorAddonName, nodeProblemDetectorImageReference),
      (CSIProvisionerContainerName, map_get k8sComponent CSIProvisionerContainerName),
      (CSIAttacherContainerName, map_get k8sComponent CSIAttacherContainerName),
      (CSILivenessProbeContainerName, map_get k8sComponent CSILivenessProbeContainerName),
      (CSILivenessProbeWindowsContainerName, map_get k8sComponent CSILivenessProbeWindowsContainerName),
      (CSINodeDriverRegistrarContainerName, map_get k8sComponent CSINodeDriverRegistrarContainerName),
      (CSINodeDriverRegistrarWindowsContainerName, map_get k8sComponent CSINodeDriverRegistrarWindowsContainerName),
      (CSISnapshotterContainerName, map_get k8sComponent CSISnapshotterContainerName),
      (CSISnapshotControllerContainerName, map_get k8sComponent CSISnapshotControllerContainerName),
      (CSIResizerContainerName, map_get k8sComponent CSIResizerContainerName),
      (CSIAzureDiskContainerName, map_get k8sComponent CSIAzureDiskContainerName),
      (CSIAzureFileContainerName, csiAzureFileImageReference),
      (KubeFlannelContainerName, kubeFlannelImageReference),
      (''flannel'' @ FlannelInstallCNIContainerName, flannelInstallCNIImageReference),
      (KubeRBACProxyContainerName, KubeRBACProxyImageReference),
      (ScheduledMaintenanceManagerContainerName, ScheduledMaintenanceManagerImageReference),
      (''nodestatusfreq'', DefaultKubernetesNodeStatusUpdateFrequency),
      (''nodegraceperiod'', DefaultKubernetesCtrlMgrNodeMonitorGracePeriod),
      (''podeviction'', DefaultKubernetesCtrlMgrPodEvictionTimeout),
      (''routeperiod'', DefaultKubernetesCtrlMgrRouteReconciliationPeriod),
      (''backoffretries'', itoa DefaultKubernetesCloudProviderBackoffRetries),
      (''backoffjitter'', format_float DefaultKubernetesCloudProviderBackoffJitter),
      (''backoffduration'', itoa DefaultKubernetesCloudProviderBackoffDuration),
      (''backoffexponent'', format_float DefaultKubernetesCloudProviderBackoffExponent),
      (''ratelimitqps'', format_float DefaultKubernetesCloudProviderRateLimitQPS),
      (''ratelimitqpswrite'', format_float DefaultKubernetesCloudProviderRateLimitQPSWrite),
      (''ratelimitbucket'', itoa DefaultKubernetesCloudProviderRateLimitBucket),
      (''ratelimitbucketwrite'', itoa DefaultKubernetesCloudProviderRateLimitBucketWrite),
      (''gchighthreshold'', itoa DefaultKubernetesGCHighThreshold),
      (''gclowthreshold'', itoa DefaultKubernetesGCLowThreshold),
      (NVIDIADevicePluginAddonName, nvidiaDevicePluginImageReference),
      (CSISecretsStoreProviderAzureContainerName, csiSecretsStoreProviderAzureImageReference),
      (CSISecretsStoreDriverContainerName, csiSecretsStoreDriverImageReference),
      (AzureArcOnboardingAddonName, azureArcOnboardingImageReference),
      (AzureKMSProviderComponentName, azureKMSProviderImageReference)]"

definition k8s_components_1_20 ::
    "string \<Rightarrow> string \<Rightarrow> (string \<times> string) list \<Rightarrow> (string \<times> string) list" where
  "k8s_components_1_20 version kubernetesImageBaseType k8sComponent =
     [(APIServerComponentName, getDefaultImage APIServerComponentName kubernetesImageBaseType @ '':v'' @ version),
      (ControllerManagerComponentName, getDefaultImage ControllerManagerComponentName kubernetesImageBaseType @ '':v'' @ version),
      (KubeProxyAddonName, getDefaultImage KubeProxyAddonName kubernetesImageBaseType @ '':v'' @ version),
      (SchedulerComponentName, getDefaultImage SchedulerComponentName kubernetesImageBaseType @ '':v'' @ version),
      (CloudControllerManagerComponentName, ''oss/kubernetes/azure-cloud-controller-manager:v0.7.21''),
      (CloudNodeManagerAddonName, ''oss/kubernetes/azure-cloud-node-manager:v0.7.21''),
      (WindowsArtifactComponentName, ''v'' @ version @ ''/windowszip/v'' @ version @ ''-1int.zip''),
      (WindowsArtifactAzureStackComponentName, ''v'' @ version @ AzureStackSuffix @ ''/windowszip/v'' @ version @ AzureStackSuffix @ ''-1int.zip''),
      (DashboardAddonName, dashboardImageReference),
      (DashboardMetricsScraperContainerName, dashboardMetricsScraperImageReference),
      (ExecHealthZComponentName, getDefaultImage ExecHealthZComponentName kubernetesImageBaseType),
      (AddonResizerComponentName, map_get k8sComponent AddonResizerComponentName),
      (MetricsServerAddonName, map_get k8sComponent MetricsServerAddonName),
      (CoreDNSAddonName, getDefaultImage CoreDNSAddonName kubernetesImageBaseType),
      (CoreDNSAutoscalerName, clusterProportionalAutoscalerImageReference),
      (KubeDNSAddonName, getDefaultImage KubeDNSAddonName kubernetesImageBaseType),
      (AddonManagerComponentName, map_get k8sComponent AddonManagerComponentName),
      (DNSMasqComponentName, getDefaultImage DNSMasqComponentName kubernetesImageBaseType),
      (PauseComponentName, pauseImageReference),
      (TillerAddonName, tillerImageReference),
      (ReschedulerAddonName, getDefaultImage ReschedulerAddonName kubernetesImageBaseType),
      (ACIConnectorAddonName, virtualKubeletImageReference),
      (ClusterAutoscalerAddonName, map_get k8sComponent ClusterAutoscalerAddonName),
      (DNSSidecarComponentName, getDefaultImage DNSSidecarComponentName kubernetesImageBaseType),
      (SMBFlexVolumeAddonName, smbFlexVolumeImageReference),
      (IPMASQAgentAddonName, getDefaultImage IPMASQAgentAddonName kubernetesImageBaseType),
      (AzureNetworkPolicyAddonName, azureNPMContainerImageReference),
      (CalicoTyphaComponentName, calicoTyphaImageReference),
      (CalicoCNIComponentName, calicoCNIImageReference),
      (CalicoNodeComponentName, calicoNodeImageReference),
      (CalicoPod2DaemonComponentName, calicoPod2DaemonImageReference),
      (CalicoClusterAutoscalerComponentName, calicoClusterProportionalAutoscalerImageReference),
      (CiliumAgentContainerName, ciliumAgentImageReference),
      (CiliumCleanStateContainerName, ciliumCleanStateImageReference),
      (CiliumOperatorContainerName, ciliumOperatorImageReference),
      (CiliumEtcdOperatorContainerName, ciliumEtcdOperatorImageReference),
      (AntreaControllerContainerName, antreaControllerImageReference),
      (AntreaAgentContainerName, antreaAgentImageReference),
      (AntreaOVSContainerName, antreaOVSImageReference),
      (''antrea'' @ AntreaInstallCNIContainerName, antreaInstallCNIImageReference),
      (NMIContainerName, aadPodIdentityNMIImageReference),
      (MICContainerName, aadPodIdentityMICImageReference),
      (AzurePolicyAddonName, azurePolicyImageReference),
      (GatekeeperContainerName, gatekeeperImageReference),
      (NodeProblemDetectorAddonName, nodeProblemDetectorImageReference),
      (CSIProvisionerContainerName, map_get k8sComponent CSIProvisionerContainerName),
      (CSIAttacherContainerName, map_get k8sComponent CSIAttacherContainerName),
      (CSILivenessProbeContainerName, map_get k8sComponent CSILivenessProbeContainerName),
      (CSILivenessProbeWindowsContainerName, map_get k8sComponent CSILivenessProbeWindowsContainerName),
      (CSINodeDriverRegistrarContainerName, map_get k8sComponent CSINodeDriverRegistrarContainerName),
      (CSINodeDriverRegistrarWindowsContainerName, map_get k8sComponent CSINodeDriverRegistrarWindowsContainerName),
      (CSISnapshotterContainerName, map_get k8sComponent CSISnapshotterContainerName),
      (CSISnapshotControllerContainerName, map_get k8sComponent CSISnapshotControllerContainerName),
      (CSIResizerContainerName, map_get k8sComponent CSIResizerContainerName),
      (CSIAzureDiskContainerName, map_get k8sComponent CSIAzureDiskContainerName),
      (CSIAzureFileContainerName, csiAzureFileImageReference),
      (KubeFlannelContainerName, kubeFlannelImageReference),
      (''flannel'' @ FlannelInstallCNIContainerName, flannelInstallCNIImageReference),
      (KubeRBACProxyContainerName, KubeRBACProxyImageReference),
      (ScheduledMaintenanceManagerContainerName, ScheduledMaintenanceManagerImageReference),
      (''nodestatusfreq'', DefaultKubernetesNodeStatusUpdateFrequency),
      (''nodegraceperiod'', DefaultKubernetesCtrlMgrNodeMonitorGracePeriod),
      (''podeviction'', DefaultKubernetesCtrlMgrPodEvictionTimeout),
      (''routeperiod'', DefaultKubernetesCtrlMgrRouteReconciliationPeriod),
      (''backoffretries'', itoa DefaultKubernetesCloudProviderBackoffRetries),
      (''backoffjitter'', format_float DefaultKubernetesCloudProviderBackoffJitter),
      (''backoffduration'', itoa DefaultKubernetesCloudProviderBackoffDuration),
      (''backoffexponent'', format_float DefaultKubernetesCloudProviderBackoffExponent),
      (''ratelimitqps'', format_float DefaultKubernetesCloudProviderRateLimitQPS),
      (''ratelimitqpswrite'', format_float DefaultKubernetesCloudProviderRateLimitQPSWrite),
      (''ratelimitbucket'', itoa DefaultKubernetesCloudProviderRateLimitBucket),
      (''ratelimitbucketwrite'', itoa DefaultKubernetesCloudProviderRateLimitBucketWrite),
      (''gchighthreshold'', itoa DefaultKubernetesGCHighThreshold),
      (''gclowthreshold'', itoa DefaultKubernetesGCLowThreshold),
      (NVIDIADevicePluginAddonName, nvidiaDevicePluginImageReference),
      (CSISecretsStoreProviderAzureContainerName, csiSecretsStoreProviderAzureImageReference),
      (CSISecretsStoreDriverContainerName, csiSecretsStoreDriverImageReference),
      (AzureArcOnboardingAddonName, azureArcOnboardingImageReference),
      (AzureKMSProviderComponentName, azureKMSProviderImageReference)]"

definition k8s_components_1_19 ::
    "string \<Rightarrow> string \<Rightarrow> (string \<times> string) list \<Rightarrow> (string \<times> string) list" where
  "k8s_components_1_19 version kubernetesImageBaseType k8sComponent =
     [(APIServerComponentName, getDefaultImage APIServerComponentName kubernetesImageBaseType @ '':v'' @ version),
      (ControllerManagerComponentName, getDefaultImage ControllerManagerComponentName kubernetesImageBaseType @ '':v'' @ version),
      (KubeProxyAddonName, getDefaultImage KubeProxyAddonName kubernetesImageBaseType @ '':v'' @ version),
      (SchedulerComponentName, getDefaultImage SchedulerComponentName kubernetesImageBaseType @ '':v'' @ version),
      (CloudControllerManagerComponentName, ''oss/kubernetes/azure-cloud-controller-manager:v0.6.0''),
      (CloudNodeManagerAddonName, ''oss/kubernetes/azure-cloud-node-manager:v0.6.0''),
      (WindowsArtifactComponentName, ''v'' @ version @ ''/windowszip/v'' @ version @ ''-1int.zip''),
      (WindowsArtifactAzureStackComponentName, ''v'' @ version @ AzureStackSuffix @ ''/windowszip/v'' @ version @ AzureStackSuffix @ ''-1int.zip''),
      (DashboardAddonName, dashboardImageReference),
      (DashboardMetricsScraperContainerName, dashboardMetricsScraperImageReference),
      (ExecHealthZComponentName, getDefaultImage ExecHealthZComponentName kubernetesImageBaseType),
      (AddonResizerComponentName, map_get k8sComponent AddonResizerComponentName),
      (MetricsServerAddonName, map_get k8sComponent MetricsServerAddonName),
      (CoreDNSAddonName, getDefaultImage CoreDNSAddonName kubernetesImageBaseType),
      (CoreDNSAutoscalerName, clusterProportionalAutoscalerImageReference),
      (KubeDNSAddonName, getDefaultImage KubeDNSAddonName kubernetesImageBaseType),
      (AddonManagerComponentName, map_get k8sComponent AddonManagerComponentName),
      (DNSMasqComponentName, getDefaultImage DNSMasqComponentName kubernetesImageBaseType),
      (PauseComponentName, pauseImageReference),
      (TillerAddonName, tillerImageReference),
      (ReschedulerAddonName, getDefaultImage ReschedulerAddonName kubernetesImageBaseType),
      (ACIConnectorAddonName, virtualKubeletImageReference),
      (ClusterAutoscalerAddonName, map_get k8sComponent ClusterAutoscalerAddonName),
      (DNSSidecarComponentName, getDefaultImage DNSSidecarComponentName kubernetesImageBaseType),
      (SMBFlexVolumeAddonName, smbFlexVolumeImageReference),
      (IPMASQAgentAddonName, getDefaultImage IPMASQAgentAddonName kubernetesImageBaseType),
      (AzureNetworkPolicyAddonName, azureNPMContainerImageReference),
      (CalicoTyphaComponentName, calicoTyphaImageReference),
      (CalicoCNIComponentName, calicoCNIImageReference),
      (CalicoNodeComponentName, calicoNodeImageReference),
      (CalicoPod2DaemonComponentName, calicoPod2DaemonImageReference),
      (CalicoClusterAutoscalerComponentName, calicoClusterProportionalAutoscalerImageReference),
      (CiliumAgentContainerName, ciliumAgentImageReference),
      (CiliumCleanStateContainerName, ciliumCleanStateImageReference),
      (CiliumOperatorContainerName, ciliumOperatorImageReference),
      (CiliumEtcdOperatorContainerName, ciliumEtcdOperatorImageReference),
      (AntreaControllerContainerName, antreaControllerImageReference),
      (AntreaAgentContainerName, antreaAgentImageReference),
      (AntreaOVSContainerName, antreaOVSImageReference),
      (''antrea'' @ AntreaInstallCNIContainerName, antreaInstallCNIImageReference),
      (NMIContainerName, aadPodIdentityNMIImageReference),
      (MICContainerName, aadPodIdentityMICImageReference),
      (AzurePolicyAddonName, azurePolicyImageReference),
      (GatekeeperContainerName, gatekeeperImageReference),
      (NodeProblemDetectorAddonName, nodeProblemDetectorImageReference),
      (CSIProvisionerContainerName, map_get k8sComponent CSIProvisionerContainerName),
      (CSIAttacherContainerName, map_get k8sComponent CSIAttacherContainerName),
      (CSILivenessProbeContainerName, map_get k8sComponent CSILivenessProbeContainerName),
      (CSILivenessProbeWindowsContainerName, map_get k8sComponent CSILivenessProbeWindowsContainerName),
      (CSINodeDriverRegistrarContainerName, map_get k8sComponent CSINodeDriverRegistrarContainerName),
      (CSINodeDriverRegistrarWindowsContainerName, map_get k8sComponent CSINodeDriverRegistrarWindowsContainerName),
      (CSISnapshotterContainerName, map_get k8sComponent CSISnapshotterContainerName),
      (CSISnapshotControllerContainerName, map_get k8sComponent CSISnapshotControllerContainerName),
      (CSIResizerContainerName, map_get k8sComponent CSIResizerContainerName),
      (CSIAzureDiskContainerName, map_get k8sComponent CSIAzureDiskContainerName),
      (CSIAzureFileContainerName, csiAzureFileImageReference),
      (KubeFlannelContainerName, kubeFlannelImageReference),
      (''flannel'' @ FlannelInstallCNIContainerName, flannelInstallCNIImageReference),
      (KubeRBACProxyContainerName, KubeRBACProxyImageReference),
      (ScheduledMaintenanceManagerContainerName, ScheduledMaintenanceManagerImageReference),
      (''nodestatusfreq'', DefaultKubernetesNodeStatusUpdateFrequency),
      (''nodegraceperiod'', DefaultKubernetesCtrlMgrNodeMonitorGracePeriod),
      (''podeviction'', DefaultKubernetesCtrlMgrPodEvictionTimeout),
      (''routeperiod'', DefaultKubernetesCtrlMgrRouteReconciliationPeriod),
      (''backoffretries'', itoa DefaultKubernetesCloudProviderBackoffRetries),
      (''backoffjitter'', format_float DefaultKubernetesCloudProviderBackoffJitter),
      (''backoffduration'', itoa DefaultKubernetesCloudProviderBackoffDuration),
      (''backoffexponent'', format_float DefaultKubernetesCloudProviderBackoffExponent),
      (''ratelimitqps'', format_float DefaultKubernetesCloudProviderRateLimitQPS),
      (''ratelimitqpswrite'', format_float DefaultKubernetesCloudProviderRateLimitQPSWrite),
      (''ratelimitbucket'', itoa DefaultKubernetesCloudProviderRateLimitBucket),
      (''ratelimitbucketwrite'', itoa DefaultKubernetesCloudProviderRateLimitBucketWrite),
      (''gchighthreshold'', itoa DefaultKubernetesGCHighThreshold),
      (''gclowthreshold'', itoa DefaultKubernetesGCLowThreshold),
      (NVIDIADevicePluginAddonName, nvidiaDevicePluginImageReference),
      (CSISecretsStoreProviderAzureContainerName, csiSecretsStoreProviderAzureImageReference),
      (CSISecretsStoreDriverContainerName, csiSecretsStoreDriverImageReference),
      (AzureArcOnboardingAddonName, azureArcOnboardingImageReference),
      (AzureKMSProviderComponentName, azureKMSProviderImageReference)]"

definition k8s_components_1_18 ::
    "string \<Rightarrow> string \<Rightarrow> (string \<times> string) list \<Rightarrow> (string \<times> string) list" where
  "k8s_components_1_18 version kubernetesImageBaseType k8sComponent =
     [(APIServerComponentName, getDefaultImage APIServerComponentName kubernetesImageBaseType @ '':v'' @ version),
      (ControllerManagerComponentName, getDefaultImage ControllerManagerComponentName kubernetesImageBaseType @ '':v'' @ version),
      (KubeProxyAddonName, getDefaultImage KubeProxyAddonName kubernetesImageBaseType @ '':v'' @ version),
      (SchedulerComponentName, getDefaultImage SchedulerComponentName kubernetesImageBaseType @ '':v'' @ version),
      (CloudControllerManagerComponentName, azureCloudControllerManagerImageReference),
      (CloudNodeManagerAddonName, azureCloudNodeManagerImageReference),
      (WindowsArtifactComponentName, ''v'' @ version @ ''/windowszip/v'' @ version @ ''-1int.zip''),
      (WindowsArtifactAzureStackComponentName, ''v'' @ version @ AzureStackSuffix @ ''/windowszip/v'' @ version @ AzureStackSuffix @ ''-1int.zip''),
      (DashboardAddonName, dashboardImageReference),
      (DashboardMetricsScraperContainerName, dashboardMetricsScraperImageReference),
      (ExecHealthZComponentName, getDefaultImage ExecHealthZComponentName kubernetesImageBaseType),
      (AddonResizerComponentName, map_get k8sComponent AddonResizerComponentName),
      (MetricsServerAddonName, map_get k8sComponent MetricsServerAddonName),
      (CoreDNSAddonName, getDefaultImage CoreDNSAddonName kubernetesImageBaseType),
      (CoreDNSAutoscalerName, clusterProportionalAutoscalerImageReference),
      (KubeDNSAddonName, getDefaultImage KubeDNSAddonName kubernetesImageBaseType),
      (AddonManagerComponentName, map_get k8sComponent AddonManagerComponentName),
      (DNSMasqComponentName, getDefaultImage DNSMasqComponentName kubernetesImageBaseType),
      (PauseComponentName, pauseImageReference),
      (TillerAddonName, tillerImageReference),
      (ReschedulerAddonName, getDefaultImage ReschedulerAddonName kubernetesImageBaseType),
      (ACIConnectorAddonName, virtualKubeletImageReference),
      (ClusterAutoscalerAddonName, map_get k8sComponent ClusterAutoscalerAddonName),
      (DNSSidecarComponentName, getDefaultImage DNSSidecarComponentName kubernetesImageBaseType),
      (SMBFlexVolumeAddonName, smbFlexVolumeImageReference),
      (IPMASQAgentAddonName, getDefaultImage IPMASQAgentAddonName kubernetesImageBaseType),
      (AzureNetworkPolicyAddonName, azureNPMContainerImageReference),
      (CalicoTyphaComponentName, calicoTyphaImageReference),
      (CalicoCNIComponentName, calicoCNIImageReference),
      (CalicoNodeComponentName, calicoNodeImageReference),
      (CalicoPod2DaemonComponentName, calicoPod2DaemonImageReference),
      (CalicoClusterAutoscalerComponentName, calicoClusterProportionalAutoscalerImageReference),
      (CiliumAgentContainerName, ciliumAgentImageReference),
      (CiliumCleanStateContainerName, ciliumCleanStateImageReference),
      (CiliumOperatorContainerName, ciliumOperatorImageReference),
      (CiliumEtcdOperatorContainerName, ciliumEtcdOperatorImageReference),
      (AntreaControllerContainerName, antreaControllerImageReference),
      (AntreaAgentContainerName, antreaAgentImageReference),
      (AntreaOVSContainerName, antreaOVSImageReference),
      (''antrea'' @ AntreaInstallCNIContainerName, antreaInstallCNIImageReference),
      (NMIContainerName, aadPodIdentityNMIImageReference),
      (MICContainerName, aadPodIdentityMICImageReference),
      (AzurePolicyAddonName, azurePolicyImageReference),
      (GatekeeperContainerName, gatekeeperImageReference),
      (NodeProblemDetectorAddonName, nodeProblemDetectorImageReference),
      (CSIProvisionerContainerName, map_get k8sComponent CSIProvisionerContainerName),
      (CSIAttacherContainerName, map_get k8sComponent CSIAttacherContainerName),
      (CSILivenessProbeContainerName, map_get k8sComponent CSILivenessProbeContainerName),
      (CSILivenessProbeWindowsContainerName, map_get k8sComponent CSILivenessProbeWindowsContainerName),
      (CSINodeDriverRegistrarContainerName, map_get k8sComponent CSINodeDriverRegistrarContainerName),
      (CSINodeDriverRegistrarWindowsContainerName, map_get k8sComponent CSINodeDriverRegistrarWindowsContainerName),
      (CSISnapshotterContainerName, map_get k8sComponent CSISnapshotterContainerName),
      (CSISnapshotControllerContainerName, map_get k8sComponent CSISnapshotControllerContainerName),
      (CSIResizerContainerName, map_get k8sComponent CSIResizerContainerName),
      (CSIAzureDiskContainerName, map_get k8sComponent CSIAzureDiskContainerName),
      (CSIAzureFileContainerName, csiAzureFileImageReference),
      (KubeFlannelContainerName, kubeFlannelImageReference),
      (''flannel'' @ FlannelInstallCNIContainerName, flannelInstallCNIImageReference),
      (KubeRBACProxyContainerName, KubeRBACProxyImageReference),
      (ScheduledMaintenanceManagerContainerName, ScheduledMaintenanceManagerImageReference),
      (''nodestatusfreq'', DefaultKubernetesNodeStatusUpdateFrequency),
      (''nodegraceperiod'', DefaultKubernetesCtrlMgrNodeMonitorGracePeriod),
      (''podeviction'', DefaultKubernetesCtrlMgrPodEvictionTimeout),
      (''routeperiod'', DefaultKubernetesCtrlMgrRouteReconciliationPeriod),
      (''backoffretries'', itoa DefaultKubernetesCloudProviderBackoffRetries),
      (''backoffjitter'', format_float DefaultKubernetesCloudProviderBackoffJitter),
      (''backoffduration'', itoa DefaultKubernetesCloudProviderBackoffDuration),
      (''backoffexponent'', format_float DefaultKubernetesCloudProviderBackoffExponent),
      (''ratelimitqps'', format_float DefaultKubernetesCloudProviderRateLimitQPS),
      (''ratelimitqpswrite'', format_float DefaultKubernetesCloudProviderRateLimitQPSWrite),
      (''ratelimitbucket'', itoa DefaultKubernetesCloudProviderRateLimitBucket),
      (''ratelimitbucketwrite'', itoa DefaultKubernetesCloudProviderRateLimitBucketWrite),
      (''gchighthreshold'', itoa DefaultKubernetesGCHighThreshold),
      (''gclowthreshold'', itoa DefaultKubernetesGCLowThreshold),
      (NVIDIADevicePluginAddonName, nvidiaDevicePluginImageReference),
      (CSISecretsStoreProviderAzureContainerName, csiSecretsStoreProviderAzureImageReference),
      (CSISecretsStoreDriverContainerName, csiSecretsStoreDriverImageReference),
      (AzureArcOnboardingAddonName, azureArcOnboardingImageReference),
      (AzureKMSProviderComponentName, azureKMSProviderImageReference)]"

definition k8s_components_1_17 ::
    "string \<Rightarrow> string \<Rightarrow> (string \<times> string) list \<Rightarrow> (string \<times> string) list" where
  "k8s_components_1_17 version kubernetesImageBaseType k8sComponent =
     [(APIServerComponentName, getDefaultImage APIServerComponentName kubernetesImageBaseType @ '':v'' @ version),
      (ControllerManagerComponentName, getDefaultImage ControllerManagerComponentName kubernetesImageBaseType @ '':v'' @ version),
      (KubeProxyAddonName, getDefaultImage KubeProxyAddonName kubernetesImageBaseType @ '':v'' @ version),
      (SchedulerComponentName, getDefaultImage SchedulerComponentName kubernetesImageBaseType @ '':v'' @ version),
      (CloudControllerManagerComponentName, azureCloudControllerManagerImageReference),
      (CloudNodeManagerAddonName, azureCloudNodeManagerImageReference),
      (WindowsArtifactComponentName, ''v'' @ version @ ''/windowszip/v'' @ version @ ''-1int.zip''),
      (WindowsArtifactAzureStackComponentName, ''v'' @ version @ AzureStackSuffix @ ''/windowszip/v'' @ version @ AzureStackSuffix @ ''-1int.zip''),
      (DashboardAddonName, dashboardImageReference),
      (DashboardMetricsScraperContainerName, dashboardMetricsScraperImageReference),
      (ExecHealthZComponentName, getDefaultImage ExecHealthZComponentName kubernetesImageBaseType),
      (AddonResizerComponentName, map_get k8sComponent AddonResizerComponentName),
      (MetricsServerAddonName, map_get k8sComponent MetricsServerAddonName),
      (CoreDNSAddonName, getDefaultImage CoreDNSAddonName kubernetesImageBaseType),
      (CoreDNSAutoscalerName, clusterProportionalAutoscalerImageReference),
      (KubeDNSAddonName, getDefaultImage KubeDNSAddonName kubernetesImageBaseType),
      (AddonManagerComponentName, map_get k8sComponent AddonManagerComponentName),
      (DNSMasqComponentName, getDefaultImage DNSMasqComponentName kubernetesImageBaseType),
      (PauseComponentName, pauseImageReference),
      (TillerAddonName, tillerImageReference),
      (ReschedulerAddonName, getDefaultImage ReschedulerAddonName kubernetesImageBaseType),
      (ACIConnectorAddonName, virtualKubeletImageReference),
      (ClusterAutoscalerAddonName, map_get k8sComponent ClusterAutoscalerAddonName),
      (DNSSidecarComponentName, getDefaultImage DNSSidecarComponentName kubernetesImageBaseType),
      (SMBFlexVolumeAddonName, smbFlexVolumeImageReference),
      (IPMASQAgentAddonName, getDefaultImage IPMASQAgentAddonName kubernetesImageBaseType),
      (AzureNetworkPolicyAddonName, azureNPMContainerImageReference),
      (CalicoTyphaComponentName, calicoTyphaImageReference),
      (CalicoCNIComponentName, calicoCNIImageReference),
      (CalicoNodeComponentName, calicoNodeImageReference),
      (CalicoPod2DaemonComponentName, calicoPod2DaemonImageReference),
      (CalicoClusterAutoscalerComponentName, calicoClusterProportionalAutoscalerImageReference),
      (CiliumAgentContainerName, ciliumAgentImageReference),
      (CiliumCleanStateContainerName, ciliumCleanStateImageReference),
      (CiliumOperatorContainerName, ciliumOperatorImageReference),
      (CiliumEtcdOperatorContainerName, ciliumEtcdOperatorImageReference),
      (AntreaControllerContainerName, antreaControllerImageReference),
      (AntreaAgentContainerName, antreaAgentImageReference),
      (AntreaOVSContainerName, antreaOVSImageReference),
      (''antrea'' @ AntreaInstallCNIContainerName, antreaInstallCNIImageReference),
      (NMIContainerName, aadPodIdentityNMIImageReference),
      (MICContainerName, aadPodIdentityMICImageReference),
      (AzurePolicyAddonName, azurePolicyImageReference),
      (GatekeeperContainerName, gatekeeperImageReference),
      (NodeProblemDetectorAddonName, nodeProblemDetectorImageReference),
      (CSIProvisionerContainerName, map_get k8sComponent CSIProvisionerContainerName),
      (CSIAttacherContainerName, map_get k8sComponent CSIAttacherContainerName),
      (CSILivenessProbeContainerName, map_get k8sComponent CSILivenessProbeContainerName),
      (CSINodeDriverRegistrarContainerName, map_get k8sComponent CSINodeDriverRegistrarContainerName),
      (CSISnapshotterContainerName, map_get k8sComponent CSISnapshotterContainerName),
      (CSISnapshotControllerContainerName, map_get k8sComponent CSISnapshotControllerContainerName),
      (CSIResizerContainerName, map_get k8sComponent CSIResizerContainerName),
      (CSIAzureDiskContainerName, map_get k8sComponent CSIAzureDiskContainerName),
      (CSIAzureFileContainerName, csiAzureFileImageReference),
      (KubeFlannelContainerName, kubeFlannelImageReference),
      (''flannel'' @ FlannelInstallCNIContainerName, flannelInstallCNIImageReference),
      (KubeRBACProxyContainerName, KubeRBACProxyImageReference),
      (ScheduledMaintenanceManagerContainerName, ScheduledMaintenanceManagerImageReference),
      (''nodestatusfreq'', DefaultKubernetesNodeStatusUpdateFrequency),
      (''nodegraceperiod'', DefaultKubernetesCtrlMgrNodeMonitorGracePeriod),
      (''podeviction'', DefaultKubernetesCtrlMgrPodEvictionTimeout),
      (''routeperiod'', DefaultKubernetesCtrlMgrRouteReconciliationPeriod),
      (''backoffretries'', itoa DefaultKubernetesCloudProviderBackoffRetries),
      (''backoffjitter'', format_float DefaultKubernetesCloudProviderBackoffJitter),
      (''backoffduration'', itoa DefaultKubernetesCloudProviderBackoffDuration),
      (''backoffexponent'', format_float DefaultKubernetesCloudProviderBackoffExponent),
      (''ratelimitqps'', format_float DefaultKubernetesCloudProviderRateLimitQPS),
      (''ratelimitqpswrite'', format_float DefaultKubernetesCloudProviderRateLimitQPSWrite),
      (''ratelimitbucket'', itoa DefaultKubernetesCloudProviderRateLimitBucket),
      (''ratelimitbucketwrite'', itoa DefaultKubernetesCloudProviderRateLimitBucketWrite),
      (''gchighthreshold'', itoa DefaultKubernetesGCHighThreshold),
      (''gclowthreshold'', itoa DefaultKubernetesGCLowThreshold),
      (NVIDIADevicePluginAddonName, nvidiaDevicePluginImageReference),
      (CSISecretsStoreProviderAzureContainerName, csiSecretsStoreProviderAzureImageReference),
      (CSISecretsStoreDriverContainerName, csiSecretsStoreDriverImageReference),
      (AzureArcOnboardingAddonName, azureArcOnboardingImageReference),
      (AzureKMSProviderComponentName, azureKMSProviderImageReference)]"

definition k8s_components_1_16 ::
    "string \<Rightarrow> string \<Rightarrow> (string \<times> string) list \<Rightarrow> (string \<times> string) list" where
  "k8s_components_1_16 version kubernetesImageBaseType k8sComponent =
     [(Hyperkube, getDefaultImage Hyperkube kubernetesImageBaseType @ '':v'' @ version),
      (KubeProxyAddonName, getDefaultImage KubeProxyAddonName kubernetesImageBaseType @ '':v'' @ version),
      (CloudControllerManagerComponentName, azureCloudControllerManagerImageReference),
      (CloudNodeManagerAddonName, azureCloudNodeManagerImageReference),
      (WindowsArtifactComponentName, ''v'' @ version @ ''/windowszip/v'' @ version @ ''-1int.zip''),
      (WindowsArtifactAzureStackComponentName, ''v'' @ version @ AzureStackSuffix @ ''/windowszip/v'' @ version @ AzureStackSuffix @ ''-1int.zip''),
      (DashboardAddonName, dashboardImageReference),
      (DashboardMetricsScraperContainerName, dashboardMetricsScraperImageReference),
      (ExecHealthZComponentName, getDefaultImage ExecHealthZComponentName kubernetesImageBaseType),
      (AddonResizerComponentName, map_get k8sComponent AddonResizerComponentName),
      (MetricsServerAddonName, map_get k8sComponent MetricsServerAddonName),
      (CoreDNSAddonName, getDefaultImage CoreDNSAddonName kubernetesImageBaseType),
      (CoreDNSAutoscalerName, clusterProportionalAutoscalerImageReference),
      (KubeDNSAddonName, getDefaultImage KubeDNSAddonName kubernetesImageBaseType),
      (AddonManagerComponentName, map_get k8sComponent AddonManagerComponentName),
      (DNSMasqComponentName, getDefaultImage DNSMasqComponentName kubernetesImageBaseType),
      (PauseComponentName, pauseImageReference),
      (TillerAddonName, tillerImageReference),
      (ReschedulerAddonName, getDefaultImage ReschedulerAddonName kubernetesImageBaseType),
      (ACIConnectorAddonName, virtualKubeletImageReference),
      (ClusterAutoscalerAddonName, map_get k8sComponent ClusterAutoscalerAddonName),
      (DNSSidecarComponentName, getDefaultImage DNSSidecarComponentName kubernetesImageBaseType),
      (SMBFlexVolumeAddonName, smbFlexVolumeImageReference),
      (IPMASQAgentAddonName, getDefaultImage IPMASQAgentAddonName kubernetesImageBaseType),
      (AzureNetworkPolicyAddonName, azureNPMContainerImageReference),
      (CalicoTyphaComponentName, calicoTyphaImageReference),
      (CalicoCNIComponentName, calicoCNIImageReference),
      (CalicoNodeComponentName, calicoNodeImageReference),
      (CalicoPod2DaemonComponentName, calicoPod2DaemonImageReference),
      (CalicoClusterAutoscalerComponentName, calicoClusterProportionalAutoscalerImageReference),
      (CiliumAgentContainerName, ciliumAgentImageReference),
      (CiliumCleanStateContainerName, ciliumCleanStateImageReference),
      (CiliumOperatorContainerName, ciliumOperatorImageReference),
      (CiliumEtcdOperatorContainerName, ciliumEtcdOperatorImageReference),
      (AntreaControllerContainerName, antreaControllerImageReference),
      (AntreaAgentContainerName, antreaAgentImageReference),
      (AntreaOVSContainerName, antreaOVSImageReference),
      (''antrea'' @ AntreaInstallCNIContainerName, antreaInstallCNIImageReference),
      (NMIContainerName, aadPodIdentityNMIImageReference),
      (MICContainerName, aadPodIdentityMICImageReference),
      (AzurePolicyAddonName, azurePolicyImageReference),
      (GatekeeperContainerName, gatekeeperImageReference),
      (NodeProblemDetectorAddonName, nodeProblemDetectorImageReference),
      (CSIProvisionerContainerName, map_get k8sComponent CSIProvisionerContainerName),
      (CSIAttacherContainerName, map_get k8sComponent CSIAttacherContainerName),
      (CSILivenessProbeContainerName, map_get k8sComponent CSILivenessProbeContainerName),
      (CSINodeDriverRegistrarContainerName, map_get k8sComponent CSINodeDriverRegistrarContainerName),
      (CSIResizerContainerName, map_get k8sComponent CSIResizerContainerName),
      (CSIAzureDiskContainerName, map_get k8sComponent CSIAzureDiskContainerName),
      (CSIAzureFileContainerName, csiAzureFileImageReference),
      (KubeFlannelContainerName, kubeFlannelImageReference),
      (''flannel'' @ FlannelInstallCNIContainerName, flannelInstallCNIImageReference),
      (KubeRBACProxyContainerName, KubeRBACProxyImageReference),
      (ScheduledMaintenanceManagerContainerName, ScheduledMaintenanceManagerImageReference),
      (''nodestatusfreq'', DefaultKubernetesNodeStatusUpdateFrequency),
      (''nodegraceperiod'', DefaultKubernetesCtrlMgrNodeMonitorGracePeriod),
      (''podeviction'', DefaultKubernetesCtrlMgrPodEvictionTimeout),
      (''routeperiod'', DefaultKubernetesCtrlMgrRouteReconciliationPeriod),
      (''backoffretries'', itoa DefaultKubernetesCloudProviderBackoffRetries),
      (''backoffjitter'', format_float DefaultKubernetesCloudProviderBackoffJitter),
      (''backoffduration'', itoa DefaultKubernetesCloudProviderBackoffDuration),
      (''backoffexponent'', format_float DefaultKubernetesCloudProviderBackoffExponent),
      (''ratelimitqps'', format_float DefaultKubernetesCloudProviderRateLimitQPS),
      (''ratelimitqpswrite'', format_float DefaultKubernetesCloudProviderRateLimitQPSWrite),
      (''ratelimitbucket'', itoa DefaultKubernetesCloudProviderRateLimitBucket),
      (''ratelimitbucketwrite'', itoa DefaultKubernetesCloudProviderRateLimitBucketWrite),
      (''gchighthreshold'', itoa DefaultKubernetesGCHighThreshold),
      (''gclowthreshold'', itoa DefaultKubernetesGCLowThreshold),
      (NVIDIADevicePluginAddonName, nvidiaDevicePluginImageReference),
      (CSISecretsStoreProviderAzureContainerName, csiSecretsStoreProviderAzureImageReference),
      (CSISecretsStoreDriverContainerName, csiSecretsStoreDriverImageReference),
      (AzureArcOnboardingAddonName, azureArcOnboardingImageReference),
      (AzureKMSProviderComponentName, azureKMSProviderImageReference)]"

definition k8s_components_1_15 ::
    "string \<Rightarrow> string \<Rightarrow> (string \<times> string) list \<Rightarrow> (string \<times> string) list" where
  "k8s_components_1_15 version kubernetesImageBaseType k8sComponent =
     [(Hyperkube, getDefaultImage Hyperkube kubernetesImageBaseType @ '':v'' @ version),
      (KubeProxyAddonName, getDefaultImage Hyperkube kubernetesImageBaseType @ '':v'' @ version),
      (CloudControllerManagerComponentName, map_get k8sComponent CloudControllerManagerComponentName @ '':v'' @ version),
      (WindowsArtifactComponentName, ''v'' @ version @ ''/windowszip/v'' @ version @ ''-1int.zip''),
      (WindowsArtifactAzureStackComponentName, ''v'' @ version @ AzureStackSuffix @ ''/windowszip/v'' @ version @ AzureStackSuffix @ ''-1int.zip''),
      (DashboardAddonName, dashboardImageReference),
      (DashboardMetricsScraperContainerName, dashboardMetricsScraperImageReference),
      (ExecHealthZComponentName, getDefaultImage ExecHealthZComponentName kubernetesImageBaseType),
      (AddonResizerComponentName, map_get k8sComponent AddonResizerComponentName),
      (MetricsServerAddonName, map_get k8sComponent MetricsServerAddonName),
      (CoreDNSAddonName, getDefaultImage CoreDNSAddonName kubernetesImageBaseType),
      (CoreDNSAutoscalerName, clusterProportionalAutoscalerImageReference),
      (KubeDNSAddonName, getDefaultImage KubeDNSAddonName kubernetesImageBaseType),
      (AddonManagerComponentName, map_get k8sComponent AddonManagerComponentName),
      (DNSMasqComponentName, getDefaultImage DNSMasqComponentName kubernetesImageBaseType),
      (PauseComponentName, pauseImageReference),
      (TillerAddonName, tillerImageReference),
      (ReschedulerAddonName, getDefaultImage ReschedulerAddonName kubernetesImageBaseType),
      (ACIConnectorAddonName, virtualKubeletImageReference),
      (ClusterAutoscalerAddonName, map_get k8sComponent ClusterAutoscalerAddonName),
      (DNSSidecarComponentName, getDefaultImage DNSSidecarComponentName kubernetesImageBaseType),
      (SMBFlexVolumeAddonName, smbFlexVolumeImageReference),
      (IPMASQAgentAddonName, getDefaultImage IPMASQAgentAddonName kubernetesImageBaseType),
      (AzureNetworkPolicyAddonName, azureNPMContainerImageReference),
      (CalicoTyphaComponentName, calicoTyphaImageReference),
      (CalicoCNIComponentName, calicoCNIImageReference),
      (CalicoNodeComponentName, calicoNodeImageReference),
      (CalicoPod2DaemonComponentName, calicoPod2DaemonImageReference),
      (CalicoClusterAutoscalerComponentName, calicoClusterProportionalAutoscalerImageReference),
      (CiliumAgentContainerName, ciliumAgentImageReference),
      (CiliumCleanStateContainerName, ciliumCleanStateImageReference),
      (CiliumOperatorContainerName, ciliumOperatorImageReference),
      (CiliumEtcdOperatorContainerName, ciliumEtcdOperatorImageReference),
      (AntreaControllerContainerName, antreaControllerImageReference),
      (AntreaAgentContainerName, antreaAgentImageReference),
      (AntreaOVSContainerName, antreaOVSImageReference),
      (''antrea'' @ AntreaInstallCNIContainerName, antreaInstallCNIImageReference),
      (NMIContainerName, aadPodIdentityNMIImageReference),
      (MICContainerName, aadPodIdentityMICImageReference),
      (AzurePolicyAddonName, azurePolicyImageReference),
      (GatekeeperContainerName, gatekeeperImageReference),
      (NodeProblemDetectorAddonName, nodeProblemDetectorImageReference),
      (CSIProvisionerContainerName, map_get k8sComponent CSIProvisionerContainerName),
      (CSIAttacherContainerName, map_get k8sComponent CSIAttacherContainerName),
      (CSILivenessProbeContainerName, map_get k8sComponent CSILivenessProbeContainerName),
      (CSINodeDriverRegistrarContainerName, map_get k8sComponent CSINodeDriverRegistrarContainerName),
      (CSIAzureDiskContainerName, map_get k8sComponent CSIAzureDiskContainerName),
      (CSIAzureFileContainerName, csiAzureFileImageReference),
      (KubeFlannelContainerName, kubeFlannelImageReference),
      (''flannel'' @ FlannelInstallCNIContainerName, flannelInstallCNIImageReference),
      (KubeRBACProxyContainerName, KubeRBACProxyImageReference),
      (ScheduledMaintenanceManagerContainerName, ScheduledMaintenanceManagerImageReference),
      (''nodestatusfreq'', DefaultKubernetesNodeStatusUpdateFrequency),
      (''nodegraceperiod'', DefaultKubernetesCtrlMgrNodeMonitorGracePeriod),
      (''podeviction'', DefaultKubernetesCtrlMgrPodEvictionTimeout),
      (''routeperiod'', DefaultKubernetesCtrlMgrRouteReconciliationPeriod),
      (''backoffretries'', itoa DefaultKubernetesCloudProviderBackoffRetries),
      (''backoffjitter'', format_float DefaultKubernetesCloudProviderBackoffJitter),
      (''backoffduration'', itoa DefaultKubernetesCloudProviderBackoffDuration),
      (''backoffexponent'', format_float DefaultKubernetesCloudProviderBackoffExponent),
      (''ratelimitqps'', format_float DefaultKubernetesCloudProviderRateLimitQPS),
      (''ratelimitqpswrite'', format_float DefaultKubernetesCloudProviderRateLimitQPSWrite),
      (''ratelimitbucket'', itoa DefaultKubernetesCloudProviderRateLimitBucket),
      (''ratelimitbucketwrite'', itoa DefaultKubernetesCloudProviderRateLimitBucketWrite),
      (''gchighthreshold'', itoa DefaultKubernetesGCHighThreshold),
      (''gclowthreshold'', itoa DefaultKubernetesGCLowThreshold),
      (NVIDIADevicePluginAddonName, nvidiaDevicePluginImageReference),
      (AzureArcOnboardingAddonName, azureArcOnboardingImageReference),
      (AzureKMSProviderComponentName, azureKMSProviderImageReference)]"

definition k8s_components_1_14 ::
    "string \<Rightarrow> string \<Rightarrow> (string \<times> string) list \<Rightarrow> (string \<times> string) list" where
  "k8s_components_1_14 version kubernetesImageBaseType k8sComponent =
     [(Hyperkube, getDefaultImage Hyperkube kubernetesImageBaseType @ '':v'' @ version),
      (KubeProxyAddonName, getDefaultImage Hyperkube kubernetesImageBaseType @ '':v'' @ version),
      (CloudControllerManagerComponentName, map_get k8sComponent CloudControllerManagerComponentName @ '':v'' @ version),
      (WindowsArtifactComponentName, ''v'' @ version @ ''/windowszip/v'' @ version @ ''-1int.zip''),
      (WindowsArtifactAzureStackComponentName, ''v'' @ version @ AzureStackSuffix @ ''/windowszip/v'' @ version @ AzureStackSuffix @ ''-1int.zip''),
      (DashboardAddonName, dashboardImageReference),
      (DashboardMetricsScraperContainerName, dashboardMetricsScraperImageReference),
      (ExecHealthZComponentName, getDefaultImage ExecHealthZComponentName kubernetesImageBaseType),
      (AddonResizerComponentName, map_get k8sComponent AddonResizerComponentName),
      (MetricsServerAddonName, map_get k8sComponent MetricsServerAddonName),
      (CoreDNSAddonName, getDefaultImage CoreDNSAddonName kubernetesImageBaseType),
      (CoreDNSAutoscalerName, clusterProportionalAutoscalerImageReference),
      (KubeDNSAddonName, getDefaultImage KubeDNSAddonName kubernetesImageBaseType),
      (AddonManagerComponentName, map_get k8sComponent AddonManagerComponentName),
      (DNSMasqComponentName, getDefaultImage DNSMasqComponentName kubernetesImageBaseType),
      (PauseComponentName, pauseImageReference),
      (TillerAddonName, tillerImageReference),
      (ReschedulerAddonName, getDefaultImage ReschedulerAddonName kubernetesImageBaseType),
      (ACIConnectorAddonName, virtualKubeletImageReference),
      (ClusterAutoscalerAddonName, map_get k8sComponent ClusterAutoscalerAddonName),
      (DNSSidecarComponentName, getDefaultImage DNSSidecarComponentName kubernetesImageBaseType),
      (SMBFlexVolumeAddonName, smbFlexVolumeImageReference),
      (IPMASQAgentAddonName, getDefaultImage IPMASQAgentAddonName kubernetesImageBaseType),
      (AzureNetworkPolicyAddonName, azureNPMContainerImageReference),
      (CalicoTyphaComponentName, calicoTyphaImageReference),
      (CalicoCNIComponentName, calicoCNIImageReference),
      (CalicoNodeComponentName, calicoNodeImageReference),
      (CalicoPod2DaemonComponentName, calicoPod2DaemonImageReference),
      (CalicoClusterAutoscalerComponentName, calicoClusterProportionalAutoscalerImageReference),
      (CiliumAgentContainerName, ciliumAgentImageReference),
      (CiliumCleanStateContainerName, ciliumCleanStateImageReference),
      (CiliumOperatorContainerName, ciliumOperatorImageReference),
      (CiliumEtcdOperatorContainerName, ciliumEtcdOperatorImageReference),
      (AntreaControllerContainerName, antreaControllerImageReference),
      (AntreaAgentContainerName, antreaAgentImageReference),
      (AntreaOVSContainerName, antreaOVSImageReference),
      (''antrea'' @ AntreaInstallCNIContainerName, antreaInstallCNIImageReference),
      (NMIContainerName, aadPodIdentityNMIImageReference),
      (MICContainerName, aadPodIdentityMICImageReference),
      (AzurePolicyAddonName, azurePolicyImageReference),
      (GatekeeperContainerName, gatekeeperImageReference),
      (NodeProblemDetectorAddonName, nodeProblemDetectorImageReference),
      (CSIProvisionerContainerName, map_get k8sComponent CSIProvisionerContainerName),
      (CSIAttacherContainerName, map_get k8sComponent CSIAttacherContainerName),
      (CSILivenessProbeContainerName, map_get k8sComponent CSILivenessProbeContainerName),
      (CSINodeDriverRegistrarContainerName, map_get k8sComponent CSINodeDriverRegistrarContainerName),
      (CSIAzureDiskContainerName, map_get k8sComponent CSIAzureDiskContainerName),
      (CSIAzureFileContainerName, csiAzureFileImageReference),
      (KubeFlannelContainerName, kubeFlannelImageReference),
      (''flannel'' @ FlannelInstallCNIContainerName, flannelInstallCNIImageReference),
      (KubeRBACProxyContainerName, KubeRBACProxyImageReference),
      (ScheduledMaintenanceManagerContainerName, ScheduledMaintenanceManagerImageReference),
      (''nodestatusfreq'', DefaultKubernetesNodeStatusUpdateFrequency),
      (''nodegraceperiod'', DefaultKubernetesCtrlMgrNodeMonitorGracePeriod),
      (''podeviction'', DefaultKubernetesCtrlMgrPodEvictionTimeout),
      (''routeperiod'', DefaultKubernetesCtrlMgrRouteReconciliationPeriod),
      (''backoffretries'', itoa DefaultKubernetesCloudProviderBackoffRetries),
      (''backoffjitter'', format_float DefaultKubernetesCloudProviderBackoffJitter),
      (''backoffduration'', itoa DefaultKubernetesCloudProviderBackoffDuration),
      (''backoffexponent'', format_float DefaultKubernetesCloudProviderBackoffExponent),
      (''ratelimitqps'', format_float DefaultKubernetesCloudProviderRateLimitQPS),
      (''ratelimitqpswrite'', format_float DefaultKubernetesCloudProviderRateLimitQPSWrite),
      (''ratelimitbucket'', itoa DefaultKubernetesCloudProviderRateLimitBucket),
      (''ratelimitbucketwrite'', itoa DefaultKubernetesCloudProviderRateLimitBucketWrite),
      (''gchighthreshold'', itoa DefaultKubernetesGCHighThreshold),
      (''gclowthreshold'', itoa DefaultKubernetesGCLowThreshold),
      (NVIDIADevicePluginAddonName, nvidiaDevicePluginImageReference),
      (AzureKMSProviderComponentName, azureKMSProviderImageReference)]"

definition k8s_components_1_13 ::
    "string \<Rightarrow> string \<Rightarrow> (string \<times> string) list \<Rightarrow> (string \<times> string) list" where
  "k8s_components_1_13 version kubernetesImageBaseType k8sComponent =
     [(Hyperkube, getDefaultImage Hyperkube kubernetesImageBaseType @ '':v'' @ version),
      (KubeProxyAddonName, getDefaultImage Hyperkube kubernetesImageBaseType @ '':v'' @ version),
      (CloudControllerManagerComponentName, map_get k8sComponent CloudControllerManagerComponentName @ '':v'' @ version),
      (WindowsArtifactComponentName, ''v'' @ version @ ''/windowszip/v'' @ version @ ''-1int.zip''),
      (WindowsArtifactAzureStackComponentName, ''v'' @ version @ AzureStackSuffix @ ''/windowszip/v'' @ version @ AzureStackSuffix @ ''-1int.zip''),
      (DashboardAddonName, dashboardImageReference),
      (ExecHealthZComponentName, getDefaultImage ExecHealthZComponentName kubernetesImageBaseType),
      (AddonResizerComponentName, map_get k8sComponent AddonResizerComponentName),
      (MetricsServerAddonName, map_get k8sComponent MetricsServerAddonName),
      (CoreDNSAddonName, getDefaultImage CoreDNSAddonName kubernetesImageBaseType),
      (CoreDNSAutoscalerName, clusterProportionalAutoscalerImageReference),
      (KubeDNSAddonName, getDefaultImage KubeDNSAddonName kubernetesImageBaseType),
      (AddonManagerComponentName, map_get k8sComponent AddonManagerComponentName),
      (DNSMasqComponentName, getDefaultImage DNSMasqComponentName kubernetesImageBaseType),
      (PauseComponentName, pauseImageReference),
      (TillerAddonName, tillerImageReference),
      (ReschedulerAddonName, getDefaultImage ReschedulerAddonName kubernetesImageBaseType),
      (ACIConnectorAddonName, virtualKubeletImageReference),
      (ClusterAutoscalerAddonName, map_get k8sComponent ClusterAutoscalerAddonName),
      (DNSSidecarComponentName, getDefaultImage DNSSidecarComponentName kubernetesImageBaseType),
      (SMBFlexVolumeAddonName, smbFlexVolumeImageReference),
      (IPMASQAgentAddonName, getDefaultImage IPMASQAgentAddonName kubernetesImageBaseType),
      (AzureNetworkPolicyAddonName, azureNPMContainerImageReference),
      (CalicoTyphaComponentName, calicoTyphaImageReference),
      (CalicoCNIComponentName, calicoCNIImageReference),
      (CalicoNodeComponentName, calicoNodeImageReference),
      (CalicoPod2DaemonComponentName, calicoPod2DaemonImageReference),
      (CalicoClusterAutoscalerComponentName, calicoClusterProportionalAutoscalerImageReference),
      (CiliumAgentContainerName, ciliumAgentImageReference),
      (CiliumCleanStateContainerName, ciliumCleanStateImageReference),
      (CiliumOperatorContainerName, ciliumOperatorImageReference),
      (CiliumEtcdOperatorContainerName, ciliumEtcdOperatorImageReference),
      (AntreaControllerContainerName, antreaControllerImageReference),
      (AntreaAgentContainerName, antreaAgentImageReference),
      (AntreaOVSContainerName, antreaOVSImageReference),
      (''antrea'' @ AntreaInstallCNIContainerName, antreaInstallCNIImageReference),
      (NMIContainerName, aadPodIdentityNMIImageReference),
      (MICContainerName, aadPodIdentityMICImageReference),
      (AzurePolicyAddonName, azurePolicyImageReference),
      (GatekeeperContainerName, gatekeeperImageReference),
      (NodeProblemDetectorAddonName, nodeProblemDetectorImageReference),
      (CSIProvisionerContainerName, map_get k8sComponent CSIProvisionerContainerName),
      (CSIAttacherContainerName, map_get k8sComponent CSIAttacherContainerName),
      (CSILivenessProbeContainerName, map_get k8sComponent CSILivenessProbeContainerName),
      (CSINodeDriverRegistrarContainerName, map_get k8sComponent CSINodeDriverRegistrarContainerName),
      (CSIAzureDiskContainerName, map_get k8sComponent CSIAzureDiskContainerName),
      (CSIAzureFileContainerName, csiAzureFileImageReference),
      (KubeFlannelContainerName, kubeFlannelImageReference),
      (''flannel'' @ FlannelInstallCNIContainerName, flannelInstallCNIImageReference),
      (KubeRBACProxyContainerName, KubeRBACProxyImageReference),
      (ScheduledMaintenanceManagerContainerName, ScheduledMaintenanceManagerImageReference),
      (''nodestatusfreq'', DefaultKubernetesNodeStatusUpdateFrequency),
      (''nodegraceperiod'', DefaultKubernetesCtrlMgrNodeMonitorGracePeriod),
      (''podeviction'', DefaultKubernetesCtrlMgrPodEvictionTimeout),
      (''routeperiod'', DefaultKubernetesCtrlMgrRouteReconciliationPeriod),
      (''backoffretries'', itoa DefaultKubernetesCloudProviderBackoffRetries),
      (''backoffjitter'', format_float DefaultKubernetesCloudProviderBackoffJitter),
      (''backoffduration'', itoa DefaultKubernetesCloudProviderBackoffDuration),
      (''backoffexponent'', format_float DefaultKubernetesCloudProviderBackoffExponent),
      (''ratelimitqps'', format_float DefaultKubernetesCloudProviderRateLimitQPS),
      (''ratelimitqpswrite'', format_float DefaultKubernetesCloudProviderRateLimitQPSWrite),
      (''ratelimitbucket'', itoa DefaultKubernetesCloudProviderRateLimitBucket),
      (''ratelimitbucketwrite'', itoa DefaultKubernetesCloudProviderRateLimitBucketWrite),
      (''gchighthreshold'', itoa DefaultKubernetesGCHighThreshold),
      (''gclowthreshold'', itoa DefaultKubernetesGCLowThreshold),
      (NVIDIADevicePluginAddonName, nvidiaDevicePluginImageReference),
      (AzureKMSProviderComponentName, azureKMSProviderImageReference)]"

definition k8s_components_1_12 ::
    "string \<Rightarrow> string \<Rightarrow> (string \<times> string) list \<Rightarrow> (string \<times> string) list" where
  "k8s_components_1_12 version kubernetesImageBaseType k8sComponent =
     [(Hyperkube, getDefaultImage Hyperkube kubernetesImageBaseType @ '':v'' @ version),
      (KubeProxyAddonName, getDefaultImage Hyperkube kubernetesImageBaseType @ '':v'' @ version),
      (CloudControllerManagerComponentName, map_get k8sComponent CloudControllerManagerComponentName @ '':v'' @ version),
      (WindowsArtifactComponentName, ''v'' @ version @ ''-1int.zip''),
      (DashboardAddonName, dashboardImageReference),
      (ExecHealthZComponentName, getDefaultImage ExecHealthZComponentName kubernetesImageBaseType),
      (AddonResizerComponentName, map_get k8sComponent AddonResizerComponentName),
      (MetricsServerAddonName, map_get k8sComponent MetricsServerAddonName),
      (CoreDNSAddonName, getDefaultImage CoreDNSAddonName kubernetesImageBaseType),
      (CoreDNSAutoscalerName, clusterProportionalAutoscalerImageReference),
      (KubeDNSAddonName, getDefaultImage KubeDNSAddonName kubernetesImageBaseType),
      (AddonManagerComponentName, map_get k8sComponent AddonManagerComponentName),
      (DNSMasqComponentName, getDefaultImage DNSMasqComponentName kubernetesImageBaseType),
      (PauseComponentName, pauseImageReference),
      (TillerAddonName, tillerImageReference),
      (ReschedulerAddonName, getDefaultImage ReschedulerAddonName kubernetesImageBaseType),
      (ACIConnectorAddonName, virtualKubeletImageReference),
      (ClusterAutoscalerAddonName, map_get k8sComponent ClusterAutoscalerAddonName),
      (DNSSidecarComponentName, getDefaultImage DNSSidecarComponentName kubernetesImageBaseType),
      (SMBFlexVolumeAddonName, smbFlexVolumeImageReference),
      (IPMASQAgentAddonName, getDefaultImage IPMASQAgentAddonName kubernetesImageBaseType),
      (AzureNetworkPolicyAddonName, azureNPMContainerImageReference),
      (CalicoTyphaComponentName, calicoTyphaImageReference),
      (CalicoCNIComponentName, calicoCNIImageReference),
      (CalicoNodeComponentName, calicoNodeImageReference),
      (CalicoPod2DaemonComponentName, calicoPod2DaemonImageReference),
      (CalicoClusterAutoscalerComponentName, calicoClusterProportionalAutoscalerImageReference),
      (CiliumAgentContainerName, ciliumAgentImageReference),
      (CiliumCleanStateContainerName, ciliumCleanStateImageReference),
      (CiliumOperatorContainerName, ciliumOperatorImageReference),
      (CiliumEtcdOperatorContainerName, ciliumEtcdOperatorImageReference),
      (AntreaControllerContainerName, antreaControllerImageReference),
      (AntreaAgentContainerName, antreaAgentImageReference),
      (AntreaOVSContainerName, antreaOVSImageReference),
      (''antrea'' @ AntreaInstallCNIContainerName, antreaInstallCNIImageReference),
      (NMIContainerName, aadPodIdentityNMIImageReference),
      (MICContainerName, aadPodIdentityMICImageReference),
      (AzurePolicyAddonName, azurePolicyImageReference),
      (GatekeeperContainerName, gatekeeperImageReference),
      (NodeProblemDetectorAddonName, nodeProblemDetectorImageReference),
      (KubeFlannelContainerName, kubeFlannelImageReference),
      (''flannel'' @ FlannelInstallCNIContainerName, flannelInstallCNIImageReference),
      (KubeRBACProxyContainerName, KubeRBACProxyImageReference),
      (ScheduledMaintenanceManagerContainerName, ScheduledMaintenanceManagerImageReference),
      (''nodestatusfreq'', DefaultKubernetesNodeStatusUpdateFrequency),
      (''nodegraceperiod'', DefaultKubernetesCtrlMgrNodeMonitorGracePeriod),
      (''podeviction'', DefaultKubernetesCtrlMgrPodEvictionTimeout),
      (''routeperiod'', DefaultKubernetesCtrlMgrRouteReconciliationPeriod),
      (''backoffretries'', itoa DefaultKubernetesCloudProviderBackoffRetries),
      (''backoffjitter'', format_float DefaultKubernetesCloudProviderBackoffJitter),
      (''backoffduration'', itoa DefaultKubernetesCloudProviderBackoffDuration),
      (''backoffexponent'', format_float DefaultKubernetesCloudProviderBackoffExponent),
      (''ratelimitqps'', format_float DefaultKubernetesCloudProviderRateLimitQPS),
      (''ratelimitqpswrite'', format_float DefaultKubernetesCloudProviderRateLimitQPSWrite),
      (''ratelimitbucket'', itoa DefaultKubernetesCloudProviderRateLimitBucket),
      (''ratelimitbucketwrite'', itoa DefaultKubernetesCloudProviderRateLimitBucketWrite),
      (''gchighthreshold'', itoa DefaultKubernetesGCHighThreshold),
      (''gclowthreshold'', itoa DefaultKubernetesGCLowThreshold),
      (NVIDIADevicePluginAddonName, nvidiaDevicePluginImageReference)]"

definition k8s_components_1_11 ::
    "string \<Rightarrow> string \<Rightarrow> (string \<times> string) list \<Rightarrow> (string \<times> string) list" where
  "k8s_components_1_11 version kubernetesImageBaseType k8sComponent =
     [(Hyperkube, getDefaultImage Hyperkube kubernetesImageBaseType @ '':v'' @ version),
      (KubeProxyAddonName, getDefaultImage Hyperkube kubernetesImageBaseType @ '':v'' @ version),
      (CloudControllerManagerComponentName, map_get k8sComponent CloudControllerManagerComponentName @ '':v'' @ version),
      (WindowsArtifactComponentName, ''v'' @ version @ ''-1int.zip''),
      (DashboardAddonName, dashboardImageReference),
      (ExecHealthZComponentName, getDefaultImage ExecHealthZComponentName kubernetesImageBaseType),
      (AddonResizerComponentName, map_get k8sComponent AddonResizerComponentName),
      (MetricsServerAddonName, map_get k8sComponent MetricsServerAddonName),
      (KubeDNSAddonName, getDefaultImage KubeDNSAddonName kubernetesImageBaseType),
      (AddonManagerComponentName, map_get k8sComponent AddonManagerComponentName),
      (DNSMasqComponentName, getDefaultImage DNSMasqComponentName kubernetesImageBaseType),
      (PauseComponentName, pauseImageReference),
      (TillerAddonName, tillerImageReference),
      (ReschedulerAddonName, getDefaultImage ReschedulerAddonName kubernetesImageBaseType),
      (ACIConnectorAddonName, virtualKubeletImageReference),
      (ClusterAutoscalerAddonName, map_get k8sComponent ClusterAutoscalerAddonName),
      (DNSSidecarComponentName, getDefaultImage DNSSidecarComponentName kubernetesImageBaseType),
      (SMBFlexVolumeAddonName, smbFlexVolumeImageReference),
      (IPMASQAgentAddonName, getDefaultImage IPMASQAgentAddonName kubernetesImageBaseType),
      (AzureNetworkPolicyAddonName, azureNPMContainerImageReference),
      (CalicoTyphaComponentName, calicoTyphaImageReference),
      (CalicoCNIComponentName, calicoCNIImageReference),
      (CalicoNodeComponentName, calicoNodeImageReference),
      (CalicoPod2DaemonComponentName, calicoPod2DaemonImageReference),
      (CalicoClusterAutoscalerComponentName, calicoClusterProportionalAutoscalerImageReference),
      (CiliumAgentContainerName, ciliumAgentImageReference),
      (CiliumCleanStateContainerName, ciliumCleanStateImageReference),
      (CiliumOperatorContainerName, ciliumOperatorImageReference),
      (CiliumEtcdOperatorContainerName, ciliumEtcdOperatorImageReference),
      (AntreaControllerContainerName, antreaControllerImageReference),
      (AntreaAgentContainerName, antreaAgentImageReference),
      (AntreaOVSContainerName, antreaOVSImageReference),
      (''antrea'' @ AntreaInstallCNIContainerName, antreaInstallCNIImageReference),
      (NMIContainerName, aadPodIdentityNMIImageReference),
      (MICContainerName, aadPodIdentityMICImageReference),
      (AzurePolicyAddonName, azurePolicyImageReference),
      (GatekeeperContainerName, gatekeeperImageReference),
      (NodeProblemDetectorAddonName, nodeProblemDetectorImageReference),
      (KubeFlannelContainerName, kubeFlannelImageReference),
      (''flannel'' @ FlannelInstallCNIContainerName, flannelInstallCNIImageReference),
      (KubeRBACProxyContainerName, KubeRBACProxyImageReference),
      (ScheduledMaintenanceManagerContainerName, ScheduledMaintenanceManagerImageReference),
      (''nodestatusfreq'', DefaultKubernetesNodeStatusUpdateFrequency),
      (''nodegraceperiod'', DefaultKubernetesCtrlMgrNodeMonitorGracePeriod),
      (''podeviction'', DefaultKubernetesCtrlMgrPodEvictionTimeout),
      (''routeperiod'', DefaultKubernetesCtrlMgrRouteReconciliationPeriod),
      (''backoffretries'', itoa DefaultKubernetesCloudProviderBackoffRetries),
      (''backoffjitter'', format_float DefaultKubernetesCloudProviderBackoffJitter),
      (''backoffduration'', itoa DefaultKubernetesCloudProviderBackoffDuration),
      (''backoffexponent'', format_float DefaultKubernetesCloudProviderBackoffExponent),
      (''ratelimitqps'', format_float DefaultKubernetesCloudProviderRateLimitQPS),
      (''ratelimitqpswrite'', format_float DefaultKubernetesCloudProviderRateLimitQPSWrite),
      (''ratelimitbucket'', itoa DefaultKubernetesCloudProviderRateLimitBucket),
      (''ratelimitbucketwrite'', itoa DefaultKubernetesCloudProviderRateLimitBucketWrite),
      (''gchighthreshold'', itoa DefaultKubernetesGCHighThreshold),
      (''gclowthreshold'', itoa DefaultKubernetesGCLowThreshold),
      (NVIDIADevicePluginAddonName, nvidiaDevicePluginImageReference)]"

definition k8s_components_1_10 ::
    "string \<Rightarrow> string \<Rightarrow> (string \<times> string) list \<Rightarrow> (string \<times> string) list" where
  "k8s_components_1_10 version kubernetesImageBaseType k8sComponent =
     [(Hyperkube, getDefaultImage Hyperkube kubernetesImageBaseType @ '':v'' @ version),
      (KubeProxyAddonName, getDefaultImage Hyperkube kubernetesImageBaseType @ '':v'' @ version),
      (CloudControllerManagerComponentName, map_get k8sComponent CloudControllerManagerComponentName @ '':v'' @ version),
      (WindowsArtifactComponentName, ''v'' @ version @ ''-1int.zip''),
      (DashboardAddonName, dashboardImageReference),
      (ExecHealthZComponentName, getDefaultImage ExecHealthZComponentName kubernetesImageBaseType),
      (AddonResizerComponentName, map_get k8sComponent AddonResizerComponentName),
      (MetricsServerAddonName, map_get k8sComponent MetricsServerAddonName),
      (KubeDNSAddonName, getDefaultImage KubeDNSAddonName kubernetesImageBaseType),
      (AddonManagerComponentName, map_get k8sComponent AddonManagerComponentName),
      (DNSMasqComponentName, getDefaultImage DNSMasqComponentName kubernetesImageBaseType),
      (PauseComponentName, pauseImageReference),
      (TillerAddonName, tillerImageReference),
      (ReschedulerAddonName, map_get k8sComponent ReschedulerAddonName),
      (ACIConnectorAddonName, virtualKubeletImageReference),
      (ClusterAutoscalerAddonName, map_get k8sComponent ClusterAutoscalerAddonName),
      (DNSSidecarComponentName, map_get k8sComponent DNSSidecarComponentName),
      (SMBFlexVolumeAddonName, smbFlexVolumeImageReference),
      (IPMASQAgentAddonName, getDefaultImage IPMASQAgentAddonName kubernetesImageBaseType),
      (AzureNetworkPolicyAddonName, azureNPMContainerImageReference),
      (CalicoTyphaComponentName, calicoTyphaImageReference),
      (CalicoCNIComponentName, calicoCNIImageReference),
      (CalicoNodeComponentName, calicoNodeImageReference),
      (CalicoPod2DaemonComponentName, calicoPod2DaemonImageReference),
      (CalicoClusterAutoscalerComponentName, calicoClusterProportionalAutoscalerImageReference),
      (CiliumAgentContainerName, ciliumAgentImageReference),
      (CiliumCleanStateContainerName, ciliumCleanStateImageReference),
      (CiliumOperatorContainerName, ciliumOperatorImageReference),
      (CiliumEtcdOperatorContainerName, ciliumEtcdOperatorImageReference),
      (AntreaControllerContainerName, antreaControllerImageReference),
      (AntreaAgentContainerName, antreaAgentImageReference),
      (AntreaOVSContainerName, antreaOVSImageReference),
      (''antrea'' @ AntreaInstallCNIContainerName, antreaInstallCNIImageReference),
      (NMIContainerName, aadPodIdentityNMIImageReference),
      (MICContainerName, aadPodIdentityMICImageReference),
      (AzurePolicyAddonName, azurePolicyImageReference),
      (GatekeeperContainerName, gatekeeperImageReference),
      (NodeProblemDetectorAddonName, nodeProblemDetectorImageReference),
      (KubeFlannelContainerName, kubeFlannelImageReference),
      (''flannel'' @ FlannelInstallCNIContainerName, flannelInstallCNIImageReference),
      (KubeRBACProxyContainerName, KubeRBACProxyImageReference),
      (ScheduledMaintenanceManagerContainerName, ScheduledMaintenanceManagerImageReference),
      (''nodestatusfreq'', DefaultKubernetesNodeStatusUpdateFrequency),
      (''nodegraceperiod'', DefaultKubernetesCtrlMgrNodeMonitorGracePeriod),
      (''podeviction'', DefaultKubernetesCtrlMgrPodEvictionTimeout),
      (''routeperiod'', DefaultKubernetesCtrlMgrRouteReconciliationPeriod),
      (''backoffretries'', itoa DefaultKubernetesCloudProviderBackoffRetries),
      (''backoffjitter'', format_float DefaultKubernetesCloudProviderBackoffJitter),
      (''backoffduration'', itoa DefaultKubernetesCloudProviderBackoffDuration),
      (''backoffexponent'', format_float DefaultKubernetesCloudProviderBackoffExponent),
      (''ratelimitqps'', format_float DefaultKubernetesCloudProviderRateLimitQPS),
      (''ratelimitqpswrite'', format_float DefaultKubernetesCloudProviderRateLimitQPSWrite),
      (''ratelimitbucket'', itoa DefaultKubernetesCloudProviderRateLimitBucket),
      (''ratelimitbucketwrite'', itoa DefaultKubernetesCloudProviderRateLimitBucketWrite),
      (''gchighthreshold'', itoa DefaultKubernetesGCHighThreshold),
      (''gclowthreshold'', itoa DefaultKubernetesGCLowThreshold),
      (NVIDIADevicePluginAddonName, nvidiaDevicePluginImageReference)]"

definition k8s_components_1_9 ::
    "string \<Rightarrow> string \<Rightarrow> (string \<times> string) list \<Rightarrow> (string \<times> string) list" where
  "k8s_components_1_9 version kubernetesImageBaseType k8sComponent =
     [(Hyperkube, getDefaultImage Hyperkube kubernetesImageBaseType @ '':v'' @ version),
      (KubeProxyAddonName, getDefaultImage Hyperkube kubernetesImageBaseType @ '':v'' @ version),
      (CloudControllerManagerComponentName, map_get k8sComponent CloudControllerManagerComponentName @ '':v'' @ version),
      (WindowsArtifactComponentName, ''v'' @ version @ ''-1int.zip''),
      (DashboardAddonName, dashboardImageReference),
      (ExecHealthZComponentName, getDefaultImage ExecHealthZComponentName kubernetesImageBaseType),
      (AddonResizerComponentName, map_get k8sComponent AddonResizerComponentName),
      (MetricsServerAddonName, map_get k8sComponent MetricsServerAddonName),
      (KubeDNSAddonName, getDefaultImage KubeDNSAddonName kubernetesImageBaseType),
      (AddonManagerComponentName, map_get k8sComponent AddonManagerComponentName),
      (DNSMasqComponentName, getDefaultImage DNSMasqComponentName kubernetesImageBaseType),
      (PauseComponentName, pauseImageReference),
      (TillerAddonName, tillerImageReference),
      (ReschedulerAddonName, map_get k8sComponent ReschedulerAddonName),
      (ACIConnectorAddonName, virtualKubeletImageReference),
      (ClusterAutoscalerAddonName, map_get k8sComponent ClusterAutoscalerAddonName),
      (DNSSidecarComponentName, map_get k8sComponent DNSSidecarComponentName),
      (SMBFlexVolumeAddonName, smbFlexVolumeImageReference),
      (IPMASQAgentAddonName, getDefaultImage IPMASQAgentAddonName kubernetesImageBaseType),
      (AzureNetworkPolicyAddonName, azureNPMContainerImageReference),
      (CalicoTyphaComponentName, calicoTyphaImageReference),
      (CalicoCNIComponentName, calicoCNIImageReference),
      (CalicoNodeComponentName, calicoNodeImageReference),
      (CalicoPod2DaemonComponentName, calicoPod2DaemonImageReference),
      (CalicoClusterAutoscalerComponentName, calicoClusterProportionalAutoscalerImageReference),
      (CiliumAgentContainerName, ciliumAgentImageReference),
      (CiliumCleanStateContainerName, ciliumCleanStateImageReference),
      (CiliumOperatorContainerName, ciliumOperatorImageReference),
      (CiliumEtcdOperatorContainerName, ciliumEtcdOperatorImageReference),
      (AntreaControllerContainerName, antreaControllerImageReference),
      (AntreaAgentContainerName, antreaAgentImageReference),
      (AntreaOVSContainerName, antreaOVSImageReference),
      (''antrea'' @ AntreaInstallCNIContainerName, antreaInstallCNIImageReference),
      (NMIContainerName, aadPodIdentityNMIImageReference),
      (MICContainerName, aadPodIdentityMICImageReference),
      (AzurePolicyAddonName, azurePolicyImageReference),
      (GatekeeperContainerName, gatekeeperImageReference),
      (NodeProblemDetectorAddonName, nodeProblemDetectorImageReference),
      (KubeFlannelContainerName, kubeFlannelImageReference),
      (''flannel'' @ FlannelInstallCNIContainerName, flannelInstallCNIImageReference),
      (KubeRBACProxyContainerName, KubeRBACProxyImageReference),
      (ScheduledMaintenanceManagerContainerName, ScheduledMaintenanceManagerImageReference),
      (''nodestatusfreq'', DefaultKubernetesNodeStatusUpdateFrequency),
      (''nodegraceperiod'', DefaultKubernetesCtrlMgrNodeMonitorGracePeriod),
      (''podeviction'', DefaultKubernetesCtrlMgrPodEvictionTimeout),
      (''routeperiod'', DefaultKubernetesCtrlMgrRouteReconciliationPeriod),
      (''backoffretries'', itoa DefaultKubernetesCloudProviderBackoffRetries),
      (''backoffjitter'', format_float DefaultKubernetesCloudProviderBackoffJitter),
      (''backoffduration'', itoa DefaultKubernetesCloudProviderBackoffDuration),
      (''backoffexponent'', format_float DefaultKubernetesCloudProviderBackoffExponent),
      (''ratelimitqps'', format_float DefaultKubernetesCloudProviderRateLimitQPS),
      (''ratelimitqpswrite'', format_float DefaultKubernetesCloudProviderRateLimitQPSWrite),
      (''ratelimitbucket'', itoa DefaultKubernetesCloudProviderRateLimitBucket),
      (''ratelimitbucketwrite'', itoa DefaultKubernetesCloudProviderRateLimitBucketWrite),
      (''gchighthreshold'', itoa DefaultKubernetesGCHighThreshold),
      (''gclowthreshold'', itoa DefaultKubernetesGCLowThreshold)]"

definition k8s_components_1_8 ::
    "string \<Rightarrow> string \<Rightarrow> (string \<times> string) list \<Rightarrow> (string \<times> string) list" where
  "k8s_components_1_8 version kubernetesImageBaseType k8sComponent =
     [(Hyperkube, getDefaultImage Hyperkube kubernetesImageBaseType @ '':v'' @ version),
      (KubeProxyAddonName, getDefaultImage Hyperkube kubernetesImageBaseType @ '':v'' @ version),
      (CloudControllerManagerComponentName, map_get k8sComponent CloudControllerManagerComponentName @ '':v'' @ version),
      (WindowsArtifactComponentName, ''v'' @ version @ ''-1int.zip''),
      (DashboardAddonName, dashboardImageReference),
      (ExecHealthZComponentName, getDefaultImage ExecHealthZComponentName kubernetesImageBaseType),
      (AddonResizerComponentName, map_get k8sComponent AddonResizerComponentName),
      (MetricsServerAddonName, map_get k8sComponent MetricsServerAddonName),
      (KubeDNSAddonName, map_get k8sComponent KubeDNSAddonName),
      (AddonManagerComponentName, map_get k8sComponent AddonManagerComponentName),
      (DNSMasqComponentName, map_get k8sComponent DNSMasqComponentName),
      (PauseComponentName, pauseImageReference),
      (TillerAddonName, tillerImageReference),
      (ReschedulerAddonName, map_get k8sComponent ReschedulerAddonName),
      (ACIConnectorAddonName, virtualKubeletImageReference),
      (SMBFlexVolumeAddonName, smbFlexVolumeImageReference),
      (IPMASQAgentAddonName, getDefaultImage IPMASQAgentAddonName kubernetesImageBaseType),
      (AzureNetworkPolicyAddonName, azureNPMContainerImageReference),
      (CalicoTyphaComponentName, calicoTyphaImageReference),
      (CalicoCNIComponentName, calicoCNIImageReference),
      (CalicoNodeComponentName, calicoNodeImageReference),
      (CalicoPod2DaemonComponentName, calicoPod2DaemonImageReference),
      (CalicoClusterAutoscalerComponentName, calicoClusterProportionalAutoscalerImageReference),
      (CiliumAgentContainerName, ciliumAgentImageReference),
      (CiliumCleanStateContainerName, ciliumCleanStateImageReference),
      (CiliumOperatorContainerName, ciliumOperatorImageReference),
      (CiliumEtcdOperatorContainerName, ciliumEtcdOperatorImageReference),
      (AntreaControllerContainerName, antreaControllerImageReference),
      (AntreaAgentContainerName, antreaAgentImageReference),
      (AntreaOVSContainerName, antreaOVSImageReference),
      (''antrea'' @ AntreaInstallCNIContainerName, antreaInstallCNIImageReference),
      (NMIContainerName, aadPodIdentityNMIImageReference),
      (MICContainerName, aadPodIdentityMICImageReference),
      (AzurePolicyAddonName, azurePolicyImageReference),
      (GatekeeperContainerName, gatekeeperImageReference),
      (KubeFlannelContainerName, kubeFlannelImageReference),
      (''flannel'' @ FlannelInstallCNIContainerName, flannelInstallCNIImageReference),
      (KubeRBACProxyContainerName, KubeRBACProxyImageReference),
      (ScheduledMaintenanceManagerContainerName, ScheduledMaintenanceManagerImageReference),
      (''nodestatusfreq'', DefaultKubernetesNodeStatusUpdateFrequency),
      (''nodegraceperiod'', DefaultKubernetesCtrlMgrNodeMonitorGracePeriod),
      (''podeviction'', DefaultKubernetesCtrlMgrPodEvictionTimeout),
      (''routeperiod'', DefaultKubernetesCtrlMgrRouteReconciliationPeriod),
      (''backoffretries'', itoa DefaultKubernetesCloudProviderBackoffRetries),
      (''backoffjitter'', format_float DefaultKubernetesCloudProviderBackoffJitter),
      (''backoffduration'', itoa DefaultKubernetesCloudProviderBackoffDuration),
      (''backoffexponent'', format_float DefaultKubernetesCloudProviderBackoffExponent),
      (''ratelimitqps'', format_float DefaultKubernetesCloudProviderRateLimitQPS),
      (''ratelimitqpswrite'', format_float DefaultKubernetesCloudProviderRateLimitQPSWrite),
      (''ratelimitbucket'', itoa DefaultKubernetesCloudProviderRateLimitBucket),
      (''ratelimitbucketwrite'', itoa DefaultKubernetesCloudProviderRateLimitBucketWrite),
      (''gchighthreshold'', itoa DefaultKubernetesGCHighThreshold),
      (''gclowthreshold'', itoa DefaultKubernetesGCLowThreshold)]"

definition k8s_components_1_7 ::
    "string \<Rightarrow> string \<Rightarrow> (string \<times> string) list \<Rightarrow> (string \<times> string) list" where
  "k8s_components_1_7 version kubernetesImageBaseType k8sComponent =
     [(Hyperkube, getDefaultImage Hyperkube kubernetesImageBaseType @ '':v'' @ version),
      (KubeProxyAddonName, getDefaultImage Hyperkube kubernetesImageBaseType @ '':v'' @ version),
      (DashboardAddonName, map_get k8sComponent ''dashboard''),
      (ExecHealthZComponentName, getDefaultImage ExecHealthZComponentName kubernetesImageBaseType),
      (AddonResizerComponentName, map_get k8sComponent AddonResizerComponentName),
      (MetricsServerAddonName, map_get k8sComponent MetricsServerAddonName),
      (KubeDNSAddonName, map_get k8sComponent KubeDNSAddonName),
      (AddonManagerComponentName, map_get k8sComponent AddonManagerComponentName),
      (DNSMasqComponentName, map_get k8sComponent DNSMasqComponentName),
      (PauseComponentName, pauseImageReference),
      (TillerAddonName, tillerImageReference),
      (ReschedulerAddonName, map_get k8sComponent ReschedulerAddonName),
      (ACIConnectorAddonName, virtualKubeletImageReference),
      (''nodestatusfreq'', DefaultKubernetesNodeStatusUpdateFrequency),
      (''nodegraceperiod'', DefaultKubernetesCtrlMgrNodeMonitorGracePeriod),
      (''podeviction'', DefaultKubernetesCtrlMgrPodEvictionTimeout),
      (''routeperiod'', DefaultKubernetesCtrlMgrRouteReconciliationPeriod),
      (''backoffretries'', itoa DefaultKubernetesCloudProviderBackoffRetries),
      (''backoffjitter'', format_float DefaultKubernetesCloudProviderBackoffJitter),
      (''backoffduration'', itoa DefaultKubernetesCloudProviderBackoffDuration),
      (''backoffexponent'', format_float DefaultKubernetesCloudProviderBackoffExponent),
      (''ratelimitqps'', format_float DefaultKubernetesCloudProviderRateLimitQPS),
      (''ratelimitqpswrite'', format_float DefaultKubernetesCloudProviderRateLimitQPSWrite),
      (''ratelimitbucket'', itoa DefaultKubernetesCloudProviderRateLimitBucket),
      (''ratelimitbucketwrite'', itoa DefaultKubernetesCloudProviderRateLimitBucketWrite),
      (''gchighthreshold'', itoa DefaultKubernetesGCHighThreshold),
      (''gclowthreshold'', itoa DefaultKubernetesGCLowThreshold)]"

definition k8s_components_1_6 ::
    "string \<Rightarrow> string \<Rightarrow> (string \<times> string) list \<Rightarrow> (string \<times> string) list" where
  "k8s_components_1_6 version kubernetesImageBaseType k8sComponent =
     [(Hyperkube, getDefaultImage Hyperkube kubernetesImageBaseType @ '':v'' @ version),
      (KubeProxyAddonName, getDefaultImage Hyperkube kubernetesImageBaseType @ '':v'' @ version),
      (DashboardAddonName, map_get k8sComponent ''dashboard''),
      (ExecHealthZComponentName, getDefaultImage ExecHealthZComponentName kubernetesImageBaseType),
      (AddonResizerComponentName, map_get k8sComponent AddonResizerComponentName),
      (MetricsServerAddonName, map_get k8sComponent MetricsServerAddonName),
      (KubeDNSAddonName, map_get k8sComponent KubeDNSAddonName),
      (AddonManagerComponentName, map_get k8sComponent AddonManagerComponentName),
      (DNSMasqComponentName, map_get k8sComponent DNSMasqComponentName),
      (PauseComponentName, pauseImageReference),
      (TillerAddonName, tillerImageReference),
      (ReschedulerAddonName, map_get k8sComponent ReschedulerAddonName),
      (ACIConnectorAddonName, virtualKubeletImageReference),
      (''nodestatusfreq'', DefaultKubernetesNodeStatusUpdateFrequency),
      (''nodegraceperiod'', DefaultKubernetesCtrlMgrNodeMonitorGracePeriod),
      (''podeviction'', DefaultKubernetesCtrlMgrPodEvictionTimeout),
      (''routeperiod'', DefaultKubernetesCtrlMgrRouteReconciliationPeriod),
      (''backoffretries'', itoa DefaultKubernetesCloudProviderBackoffRetries),
      (''backoffjitter'', format_float DefaultKubernetesCloudProviderBackoffJitter),
      (''backoffduration'', itoa DefaultKubernetesCloudProviderBackoffDuration),
      (''backoffexponent'', format_float DefaultKubernetesCloudProviderBackoffExponent),
      (''ratelimitqps'', format_float DefaultKubernetesCloudProviderRateLimitQPS),
      (''ratelimitqpswrite'', format_float DefaultKubernetesCloudProviderRateLimitQPSWrite),
      (''ratelimitbucket'', itoa DefaultKubernetesCloudProviderRateLimitBucket),
      (''ratelimitbucketwrite'', itoa DefaultKubernetesCloudProviderRateLimitBucketWrite),
      (''gchighthreshold'', itoa DefaultKubernetesGCHighThreshold),
      (''gclowthreshold'', itoa DefaultKubernetesGCLowThreshold)]"

text \<open>A version without a point panics, and so does an override of a version without a table.\<close>

definition components_of ::
    "string \<Rightarrow> (string \<Rightarrow> string \<Rightarrow> (string \<times> string) list \<Rightarrow> (string \<times> string) list) option" where
  "components_of majorMinor = map_of
     [(''1.29'', k8s_components_1_29),
      (''1.28'', k8s_components_1_28),
      (''1.27'', k8s_components_1_27),
      (''1.26'', k8s_components_1_26),
      (''1.25'', k8s_components_1_25),
      (''1.24'', k8s_components_1_24),
      (''1.23'', k8s_components_1_23),
      (''1.22'', k8s_components_1_22),
      (''1.21'', k8s_components_1_21),
      (''1.20'', k8s_components_1_20),
      (''1.19'', k8s_components_1_19),
      (''1.18'', k8s_components_1_18),
      (''1.17'', k8s_components_1_17),
      (''1.16'', k8s_components_1_16),
      (''1.15'', k8s_components_1_15),
      (''1.14'', k8s_components_1_14),
      (''1.13'', k8s_components_1_13),
      (''1.12'', k8s_components_1_12),
      (''1.11'', k8s_components_1_11),
      (''1.10'', k8s_components_1_10),
      (''1.9'', k8s_components_1_9),
      (''1.8'', k8s_components_1_8),
      (''1.7'', k8s_components_1_7),
      (''1.6'', k8s_components_1_6)] majorMinor"

definition getK8sVersionComponents :: "string \<Rightarrow> string \<Rightarrow> (string \<times> string) list \<Rightarrow> (string \<times> string) list result" where
  "getK8sVersionComponents version kubernetesImageBaseType overrides =
     (let s = split_on (CHR ''.'') version in
      if length s < 2 then Inl (Panic ''slice bounds out of range'')
      else let majorMinor = join ''.'' (take 2 s);
               k8sComponent = kubernetesImageBaseVersionedImages kubernetesImageBaseType majorMinor
           in case components_of majorMinor of
                None \<Rightarrow> if overrides = [] then Inr [] else Inl (Panic ''assignment to entry in nil map'')
              | Some ret \<Rightarrow> Inr (foldl (\<lambda>m (k, v). AList.update k v m) (ret version kubernetesImageBaseType k8sComponent) overrides))"

definition GetK8sComponentsByVersionMap :: "kubernetes_config \<Rightarrow> (string \<times> (string \<times> string) list) list result" where
  "GetK8sComponentsByVersionMap k =
     (let overrides = (if kc_KubernetesImageBaseType k = KubernetesImageBaseTypeGCR then getVersionOverridesGCR
            else if kc_KubernetesImageBaseType k = KubernetesImageBaseTypeMCR then getVersionOverridesMCR
            else getVersionOverridesGCR)
      in mapR (\<lambda>version. bindR (getK8sVersionComponents version (kc_KubernetesImageBaseType k) (overrides version))
           (\<lambda>m. Inr (version, m))) (GetAllSupportedKubernetesVersions True False False))"

text \<open>The components of one version; a version that is not in the map has none.\<close>

definition k8s_components :: "kubernetes_config \<Rightarrow> string \<Rightarrow> (string \<times> string) list result" where
  "k8s_components k version = bindR (GetK8sComponentsByVersionMap k) (\<lambda>m.
     Inr (case map_of m version of None \<Rightarrow> [] | Some c \<Rightarrow> c))"

end
