(* ===== verification/DefaultsKubelet.thy ===== *)
theory DefaultsKubelet
  imports DefaultsControlPlane K8sComponents
begin

section \<open>Kubelet flags and kernel settings (defaults-kubelet.go, defaults-sysctld.go)\<close>

text \<open>
  The cluster's kubelet flags are computed first; the masters and the agent pools then complete their own
  with them. A nil map that takes the defaults is the map of the defaults itself: the code only reads one
  more value of the defaults after that, through a key that it then copies to itself, so the sharing
  cannot be seen and both are values here.
\<close>

subsection \<open>Flags that the user may not choose\<close>

text \<open>A path of Windows, and the two pairs of double quotes that stand for an empty value.\<close>

definition windows_path :: "string list \<Rightarrow> string" where
  "windows_path = join [CHR 0x5C]"

definition quoted_empty :: string where
  "quoted_empty = replicate 4 (CHR 0x22)"

definition secured_flags :: "string list" where
  "secured_flags = [''--anonymous-auth'', ''--client-ca-file'']"

definition staticLinuxKubeletConfig :: "kubernetes_config \<Rightarrow> config" where
  "staticLinuxKubeletConfig k =
     filter (\<lambda>(key, val). to_Bool (kc_EnableSecureKubelet k) \<or> key \<notin> set secured_flags)
     [(''--address'', ''0.0.0.0''),
      (''--allow-privileged'', ''true''),
      (''--anonymous-auth'', ''false''),
      (''--authorization-mode'', ''Webhook''),
      (''--client-ca-file'', ''/etc/kubernetes/certs/ca.crt''),
      (''--pod-manifest-path'', ''/etc/kubernetes/manifests''),
      (''--cluster-dns'', kc_DNSServiceIP k),
      (''--cgroups-per-qos'', ''true''),
      (''--kubeconfig'', ''/var/lib/kubelet/kubeconfig''),
      (''--keep-terminated-pod-volumes'', ''false''),
      (''--tls-cert-file'', ''/etc/kubernetes/certs/kubeletserver.crt''),
      (''--tls-private-key-file'', ''/etc/kubernetes/certs/kubeletserver.key''),
      (''--v'', ''2''),
      (''--volume-plugin-dir'', ''/etc/kubernetes/volumeplugins'')]"

definition windows_kubelet_value :: "kubernetes_config \<Rightarrow> string \<Rightarrow> string \<Rightarrow> string" where
  "windows_kubelet_value k key val =
     (if key \<in> {''--pod-manifest-path'', ''--tls-cert-file'', ''--tls-private-key-file''} then ''''
      else if key = ''--anonymous-auth'' then (if \<not> to_Bool (kc_EnableSecureKubelet k) then '''' else val)
      else if key = ''--client-ca-file''
      then (if \<not> to_Bool (kc_EnableSecureKubelet k) then '''' else windows_path [''c:'', ''k'', ''ca.crt''])
      else val)"

definition windows_kubelet_overrides :: config where
  "windows_kubelet_overrides =
     [(''--azure-container-registry-config'', windows_path [''c:'', ''k'', ''azure.json'']),
      (''--pod-infra-container-image'', ''kubletwin/pause''),
      (''--kubeconfig'', windows_path [''c:'', ''k'', ''config'']),
      (''--cloud-config'', windows_path [''c:'', ''k'', ''azure.json'']),
      (''--cgroups-per-qos'', ''false''),
      (''--enforce-node-allocatable'', quoted_empty),
      (''--system-reserved'', ''memory=2Gi''),
      (''--hairpin-mode'', ''promiscuous-bridge''),
      (''--image-pull-progress-deadline'', ''20m''),
      (''--resolv-conf'', quoted_empty),
      (''--eviction-hard'', quoted_empty)]"

definition staticWindowsKubeletConfig :: "kubernetes_config \<Rightarrow> config" where
  "staticWindowsKubeletConfig k =
     set_all (map (\<lambda>(key, val). (key, windows_kubelet_value k key val)) (staticLinuxKubeletConfig k))
       windows_kubelet_overrides"

text \<open>The flags of Linux nodes, with the provider that the cloud controller manager needs.\<close>

definition linux_kubelet_flags :: "kubernetes_config \<Rightarrow> config" where
  "linux_kubelet_flags k =
     (if to_Bool (kc_UseCloudControllerManager k)
      then AList.update ''--cloud-provider'' ''external'' (staticLinuxKubeletConfig k)
      else staticLinuxKubeletConfig k)"

subsection \<open>Defaults\<close>

definition IsIPMasqAgentDisabled :: "properties \<Rightarrow> bool" where
  "IsIPMasqAgentDisabled p = (case p_OrchestratorProfile p of None \<Rightarrow> False
     | Some orch \<Rightarrow> (case op_KubernetesConfig orch of None \<Rightarrow> False
         | Some k \<Rightarrow> IsAddonDisabled k IPMASQAgentAddonName))"

definition nodeStatusUpdateFrequency :: "config \<Rightarrow> properties \<Rightarrow> string" where
  "nodeStatusUpdateFrequency k8sComponents p =
     (if IsAzureStackCloud p then DefaultAzureStackKubernetesNodeStatusUpdateFrequency
      else map_get k8sComponents ''nodestatusfreq'')"

definition containerd_kubelet_flags :: "string \<Rightarrow> config" where
  "containerd_kubelet_flags version =
     (if \<not> IsKubernetesVersionGe version ''1.27.0'' then [(''--container-runtime'', ''remote'')] else []) @
     [(''--runtime-request-timeout'', ''15m''),
      (''--container-runtime-endpoint'', ''unix:///run/containerd/containerd.sock'')]"

definition minVersionRotateCerts :: string where
  "minVersionRotateCerts = ''1.11.9''"

definition defaultKubeletConfig :: "config \<Rightarrow> properties \<Rightarrow> string \<Rightarrow> kubernetes_config \<Rightarrow> config" where
  "defaultKubeletConfig k8sComponents p version k =
     [(''--cluster-domain'', ''cluster.local''),
      (''--network-plugin'', ''cni''),
      (''--pod-infra-container-image'', kc_MCRKubernetesImageBase k @ map_get k8sComponents PauseComponentName),
      (''--max-pods'', itoa (if kc_NetworkPlugin k = NetworkPluginAzure then DefaultKubernetesMaxPodsVNETIntegrated
         else DefaultKubernetesMaxPods)),
      (''--eviction-hard'', DefaultKubernetesHardEvictionThreshold),
      (''--node-status-update-frequency'', nodeStatusUpdateFrequency k8sComponents p),
      (''--image-gc-high-threshold'', itoa DefaultKubernetesGCHighThreshold),
      (''--image-gc-low-threshold'', itoa DefaultKubernetesGCLowThreshold),
      (''--non-masquerade-cidr'', if IsIPMasqAgentDisabled p then kc_ClusterSubnet k else DefaultNonMasqueradeCIDR),
      (''--cloud-provider'', ''azure''),
      (''--cloud-config'', ''/etc/kubernetes/azure.json''),
      (''--azure-container-registry-config'', ''/etc/kubernetes/azure.json''),
      (''--event-qps'', DefaultKubeletEventQPS),
      (''--cadvisor-port'', DefaultKubeletCadvisorPort),
      (''--pod-max-pids'', itoa DefaultKubeletPodMaxPIDs),
      (''--image-pull-progress-deadline'', ''30m''),
      (''--enforce-node-allocatable'', ''pods''),
      (''--streaming-connection-idle-timeout'', ''5m''),
      (''--tls-cipher-suites'', TLSStrongCipherSuitesKubelet),
      (''--healthz-port'', DefaultKubeletHealthzPort),
      (''--seccomp-default'', ''true'')] @
     (if IsKubernetesVersionGe version minVersionRotateCerts then [(''--rotate-certificates'', ''true'')] else []) @
     (if IsKubernetesVersionGe version ''1.16.0''
      then [(''--authentication-token-webhook'', ''true''), (''--read-only-port'', ''0'')] else []) @
     (if NeedsContainerd k then containerd_kubelet_flags version else [])"

definition setMissingKubeletValues :: "config option \<Rightarrow> config \<Rightarrow> config" where
  "setMissingKubeletValues m d = (case m of None \<Rightarrow> d | Some m \<Rightarrow> set_missing m d)"

definition removed_kubelet_flags :: "string \<Rightarrow> string list" where
  "removed_kubelet_flags v =
     (if \<not> IsKubernetesVersionGe v ''1.10.0'' then [''--pod-max-pids''] else []) @
     (if IsKubernetesVersionGe v ''1.12.0'' then [''--cadvisor-port''] else []) @
     (if IsKubernetesVersionGe v ''1.15.0-beta.1'' then [''--allow-privileged''] else []) @
     (if IsKubernetesVersionGe v ''1.24.0-alpha''
      then [''--cni-conf-dir'', ''--cni-bin-dir'', ''--cni-cache-dir'', ''--docker-endpoint'',
        ''--experimental-dockershim-root-directory'', ''--image-pull-progress-deadline'', ''--network-plugin'',
        ''--network-plugin-mtu'', ''--non-masquerade-cidr''] else []) @
     (if IsKubernetesVersionGe v ''1.27.0'' then [''--master-service-namespace'', ''--container-runtime''] else [])"

definition removeKubeletFlags :: "config \<Rightarrow> string \<Rightarrow> config" where
  "removeKubeletFlags m v = delete_all m (removed_kubelet_flags v)"

text \<open>An upgrade turns the limit of process ids off unless the user has turned the feature on.\<close>

definition limit_pod_pids :: "bool \<Rightarrow> string \<Rightarrow> config \<Rightarrow> config" where
  "limit_pod_pids isUpgrade version m =
     (if isUpgrade \<and> IsKubernetesVersionGe version ''1.14.0''
      then let hasSupportPodPidsLimitFeatureGate = contains (map_get m feature_gates) ''SupportPodPidsLimit=true'';
               (podMaxPids, ok) = atoi (map_get m ''--pod-max-pids'')
           in if \<not> ok \<or> \<not> hasSupportPodPidsLimitFeatureGate \<or> podMaxPids \<le> 0
              then AList.update ''--pod-max-pids'' (itoa (- 1)) m else m
      else m)"

text \<open>The taint is added to the taints that the user has, unless their text contains the key already.\<close>

definition register_taint :: "string \<Rightarrow> string \<Rightarrow> config \<Rightarrow> config" where
  "register_taint key taint m = (case map_of m ''--register-with-taints'' of
       None \<Rightarrow> AList.update ''--register-with-taints'' taint m
     | Some val \<Rightarrow> if contains val key then m
         else AList.update ''--register-with-taints'' (val @ '','' @ taint) m)"

definition node_settings :: "bool \<Rightarrow> bool \<Rightarrow> config \<Rightarrow> config" where
  "node_settings vhd resolved m =
     (let m = if vhd \<and> map_of m ''--protect-kernel-defaults'' = None
              then AList.update ''--protect-kernel-defaults'' ''true'' m else m
      in if resolved then AList.update ''--resolv-conf'' ''/run/systemd/resolve/resolv.conf'' m else m)"

definition MasterProfile_IsUbuntu1804 :: "master_profile \<Rightarrow> bool" where
  "MasterProfile_IsUbuntu1804 m \<longleftrightarrow> mp_Distro m \<in> {AKSUbuntu1804, Ubuntu1804, Ubuntu1804Gen2}"

definition MasterProfile_IsUbuntu2004 :: "master_profile \<Rightarrow> bool" where
  "MasterProfile_IsUbuntu2004 m \<longleftrightarrow> mp_Distro m \<in> {AKSUbuntu2004, Ubuntu2004}"

definition MasterProfile_IsUbuntu2204 :: "master_profile \<Rightarrow> bool" where
  "MasterProfile_IsUbuntu2204 m \<longleftrightarrow> mp_Distro m \<in> {AKSUbuntu2204, Ubuntu2204}"

subsection \<open>The flags of the cluster, of the masters and of a pool\<close>

definition default_kubelet_gates :: "string \<Rightarrow> config \<Rightarrow> config" where
  "default_kubelet_gates version m =
     (let m = addDefaultFeatureGates m version minVersionRotateCerts ''RotateKubeletServerCertificate=true'';
          m = addDefaultFeatureGates m version ''1.20.0-rc.0'' ''ExecProbeTimeout=true''
      in addDefaultFeatureGates m version ''1.25.0'' ''PodSecurity=true'')"

definition cluster_kubelet_flags ::
    "bool \<Rightarrow> config \<Rightarrow> properties \<Rightarrow> string \<Rightarrow> kubernetes_config \<Rightarrow> config" where
  "cluster_kubelet_flags isUpgrade k8sComponents p version k =
     (let d = defaultKubeletConfig k8sComponents p version k;
          m = setMissingKubeletValues (kc_KubeletConfig k) d;
          m = if isUpgrade
              then AList.update ''--pod-infra-container-image'' (map_get d ''--pod-infra-container-image'') m else m;
          m = default_kubelet_gates version m;
          m = if kc_NetworkPlugin k = NetworkPluginKubenet \<and> kc_NetworkPolicy k \<noteq> NetworkPolicyCalico
              then AList.update ''--network-plugin'' NetworkPluginKubenet m else m;
          m = set_all m (linux_kubelet_flags k);
          m = limit_pod_pids isUpgrade version m;
          m = removeKubeletFlags m version
      in removeInvalidFeatureGates m (invalidFeatureGates version))"

definition force_pause_image :: "bool \<Rightarrow> config \<Rightarrow> config \<Rightarrow> config" where
  "force_pause_image isUpgrade cluster m =
     (if isUpgrade
      then AList.update ''--pod-infra-container-image'' (map_get cluster ''--pod-infra-container-image'') m else m)"

definition master_kubelet_flags ::
    "bool \<Rightarrow> config \<Rightarrow> properties \<Rightarrow> string \<Rightarrow> kubernetes_config \<Rightarrow> master_profile \<Rightarrow> config \<Rightarrow> config" where
  "master_kubelet_flags isUpgrade cluster p version k master m =
     (let m = force_pause_image isUpgrade cluster m;
          m = if to_Bool (kc_UseCloudControllerManager k) then AList.update ''--cloud-provider'' ''external'' m else m;
          m = set_missing m cluster;
          m = addDefaultFeatureGates m version '''' '''';
          m = limit_pod_pids isUpgrade version m;
          m = node_settings (MasterProfile_IsVHDDistro master)
            (MasterProfile_IsUbuntu1804 master \<or> MasterProfile_IsUbuntu2004 master \<or> MasterProfile_IsUbuntu2204 master) m;
          m = removeKubeletFlags m version;
          m = removeInvalidFeatureGates m (invalidFeatureGates version)
      in if AnyAgentIsLinux p then register_taint MasterNodeTaint MasterNodeTaint m else m)"

definition agent_kubelet_flags ::
    "bool \<Rightarrow> config \<Rightarrow> string \<Rightarrow> kubernetes_config \<Rightarrow> agent_pool_profile \<Rightarrow> config \<Rightarrow> config" where
  "agent_kubelet_flags isUpgrade cluster version k profile m =
     (let m = force_pause_image isUpgrade cluster m;
          m = set_all m (if IsWindows profile then staticWindowsKubeletConfig k else linux_kubelet_flags k);
          m = set_missing m cluster;
          m = limit_pod_pids isUpgrade version m;
          m = node_settings (AgentPoolProfile_IsVHDDistro profile)
            (IsUbuntu1804 profile \<or> IsUbuntu2004 profile \<or> IsUbuntu2204 profile) m;
          m = removeKubeletFlags m version;
          m = removeInvalidFeatureGates m (invalidFeatureGates version)
      in if IsAddonEnabled k AADPodIdentityAddonName \<and> \<not> IsWindows profile
         then register_taint AADPodIdentityTaintKey (AADPodIdentityTaintKey @ ''=true:NoSchedule'') m else m)"

text \<open>A profile without a configuration gets an empty one.\<close>

definition node_config :: "kubernetes_config option \<Rightarrow> kubernetes_config" where
  "node_config k = (case k of None \<Rightarrow> zero_kubernetes_config | Some k \<Rightarrow> k)"

definition set_kubelet_flags :: "(config \<Rightarrow> config) \<Rightarrow> kubernetes_config option \<Rightarrow> kubernetes_config option" where
  "set_kubelet_flags f k =
     Some (node_config k \<lparr>kc_KubeletConfig := Some (f (user_flags (kc_KubeletConfig (node_config k))))\<rparr>)"

definition setKubeletConfig :: "bool \<Rightarrow> properties \<Rightarrow> properties result" where
  "setKubeletConfig isUpgrade p =
     bindR (deref (p_OrchestratorProfile p)) (\<lambda>orch.
     bindR (deref (op_KubernetesConfig orch)) (\<lambda>k.
     bindR (k8s_components k (op_OrchestratorVersion orch)) (\<lambda>k8sComponents.
       let version = op_OrchestratorVersion orch;
           cluster = cluster_kubelet_flags isUpgrade k8sComponents p version k;
           k = k\<lparr>kc_KubeletConfig := Some cluster\<rparr>
       in Inr (p\<lparr>p_OrchestratorProfile := Some (orch\<lparr>op_KubernetesConfig := Some k\<rparr>),
         p_MasterProfile := map_option (\<lambda>master. master\<lparr>mp_KubernetesConfig :=
           set_kubelet_flags (master_kubelet_flags isUpgrade cluster p version k master) (mp_KubernetesConfig master)\<rparr>)
             (p_MasterProfile p),
         p_AgentPoolProfiles := map_option (map (\<lambda>profile. profile\<lparr>ap_KubernetesConfig :=
           set_kubelet_flags (agent_kubelet_flags isUpgrade cluster version k profile) (ap_KubernetesConfig profile)\<rparr>))
             (p_AgentPoolProfiles p)\<rparr>))))"

subsection \<open>Kernel settings\<close>

definition defaultSysctlDConfig :: "kubernetes_config \<Rightarrow> feature_flags option \<Rightarrow> config" where
  "defaultSysctlDConfig k features =
     [(''net.ipv4.tcp_retries2'', ''8''),
      (''net.core.somaxconn'', ''16384''),
      (''net.ipv4.tcp_max_syn_backlog'', ''16384''),
      (''net.core.message_cost'', ''40''),
      (''net.core.message_burst'', ''80''),
      (''net.ipv4.neigh.default.gc_thresh1'', ''4096''),
      (''net.ipv4.neigh.default.gc_thresh2'', ''8192''),
      (''net.ipv4.neigh.default.gc_thresh3'', ''16384'')] @
     (if NeedsContainerd k then [(''net.ipv4.ip_forward'', ''1'')] else []) @
     (case features of None \<Rightarrow> []
      | Some f \<Rightarrow> if ff_EnforceUbuntuDisaStig f then [(''net.ipv4.tcp_syncookies'', ''1'')] else [])"

definition setMissingSysctlDConfigValues :: "config option \<Rightarrow> config \<Rightarrow> config option" where
  "setMissingSysctlDConfigValues m defaults = Some (set_missing (user_flags m) defaults)"

definition setSysctlDConfig :: "properties \<Rightarrow> properties result" where
  "setSysctlDConfig p =
     bindR (deref (p_OrchestratorProfile p)) (\<lambda>orch.
     bindR (deref (op_KubernetesConfig orch)) (\<lambda>k.
       let defaults = defaultSysctlDConfig k (p_FeatureFlags p)
       in Inr (p\<lparr>p_MasterProfile := map_option (\<lambda>m. m\<lparr>mp_SysctlDConfig :=
             setMissingSysctlDConfigValues (mp_SysctlDConfig m) defaults\<rparr>) (p_MasterProfile p),
           p_AgentPoolProfiles := map_option (map (\<lambda>a. if IsLinux a
             then a\<lparr>ap_SysctlDConfig := setMissingSysctlDConfigValues (ap_SysctlDConfig a) defaults\<rparr> else a))
             (p_AgentPoolProfiles p)\<rparr>)))"

end
