(* ===== verification/ComponentTables.thy ===== *)
theory ComponentTables
  imports K8sComponents K8sVersionFacts
begin

section \<open>The component tables cover every supported version\<close>

text \<open>
  A version of the tables that lacks an image would be deployed with an image reference that ends after
  the registry. Each table is checked once per image base; the checks are combined over all versions.
\<close>

definition no_empty_image :: "(string \<times> string) list \<Rightarrow> bool" where
  "no_empty_image m \<longleftrightarrow> list_all (\<lambda>(key, img). img \<noteq> []) m"

definition complete_table :: "string \<Rightarrow> string \<Rightarrow> string \<Rightarrow> bool" where
  "complete_table base version majorMinor = (case components_of majorMinor of None \<Rightarrow> False
     | Some table \<Rightarrow>
         let m = table version base (kubernetesImageBaseVersionedImages base majorMinor)
         in no_empty_image m \<and> PauseComponentName \<in> fst ` set m \<and> KubeProxyAddonName \<in> fst ` set m \<and>
            ''nodestatusfreq'' \<in> fst ` set m)"

lemma itoa_nonempty [simp]: "itoa i \<noteq> []"
  by (simp add: itoa_def)

lemma format_float_nonempty [simp]: "format_float r \<noteq> []"
  by (simp add: format_float_def Let_def)

lemmas image_references =
  pauseImageReference_def
  smbFlexVolumeImageReference_def
  calicoTyphaImageReference_def
  calicoCNIImageReference_def
  calicoNodeImageReference_def
  calicoPod2DaemonImageReference_def
  calicoClusterProportionalAutoscalerImageReference_def
  ciliumAgentImageReference_def
  ciliumCleanStateImageReference_def
  ciliumOperatorImageReference_def
  ciliumEtcdOperatorImageReference_def
  antreaControllerImageReference_def
  antreaAgentImageReference_def
  antreaOVSImageReference_def
  antreaInstallCNIImageReference_def
  azureNPMContainerImageReference_def
  aadPodIdentityNMIImageReference_def
  aadPodIdentityMICImageReference_def
  azurePolicyImageReference_def
  gatekeeperImageReference_def
  nodeProblemDetectorImageReference_def
  csiAzureFileImageReference_def
  azureCloudControllerManagerImageReference_def
  azureCloudNodeManagerImageReference_def
  dashboardImageReference_def
  dashboardMetricsScraperImageReference_def
  kubeFlannelImageReference_def
  flannelInstallCNIImageReference_def
  KubeRBACProxyImageReference_def
  ScheduledMaintenanceManagerImageReference_def
  nvidiaDevicePluginImageReference_def
  virtualKubeletImageReference_def
  tillerImageReference_def
  csiSecretsStoreProviderAzureImageReference_def
  csiSecretsStoreDriverImageReference_def
  clusterProportionalAutoscalerImageReference_def
  azureArcOnboardingImageReference_def
  azureKMSProviderImageReference_def

lemma default_images:
  "kubernetesImageBaseDefaultImages ''mcr'' = mcr_default_images"
  "kubernetesImageBaseDefaultImages ''gcr'' = gcr_default_images"
  by (simp_all add: kubernetesImageBaseDefaultImages_def default_consts)

lemma versioned_images:
  "kubernetesImageBaseVersionedImages ''mcr'' ''1.29'' = mcr_images_1_29"
  "kubernetesImageBaseVersionedImages ''gcr'' ''1.29'' = gcr_images_1_29"
  "kubernetesImageBaseVersionedImages ''mcr'' ''1.28'' = mcr_images_1_28"
  "kubernetesImageBaseVersionedImages ''gcr'' ''1.28'' = gcr_images_1_28"
  "kubernetesImageBaseVersionedImages ''mcr'' ''1.27'' = mcr_images_1_27"
  "kubernetesImageBaseVersionedImages ''gcr'' ''1.27'' = gcr_images_1_27"
  "kubernetesImageBaseVersionedImages ''mcr'' ''1.26'' = mcr_images_1_26"
  "kubernetesImageBaseVersionedImages ''gcr'' ''1.26'' = gcr_images_1_26"
  "kubernetesImageBaseVersionedImages ''mcr'' ''1.25'' = mcr_images_1_25"
  "kubernetesImageBaseVersionedImages ''gcr'' ''1.25'' = gcr_images_1_25"
  "kubernetesImageBaseVersionedImages ''mcr'' ''1.24'' = mcr_images_1_24"
  "kubernetesImageBaseVersionedImages ''gcr'' ''1.24'' = gcr_images_1_24"
  "kubernetesImageBaseVersionedImages ''mcr'' ''1.23'' = mcr_images_1_23"
  "kubernetesImageBaseVersionedImages ''gcr'' ''1.23'' = gcr_images_1_23"
  "kubernetesImageBaseVersionedImages ''mcr'' ''1.22'' = mcr_images_1_22"
  "kubernetesImageBaseVersionedImages ''gcr'' ''1.22'' = gcr_images_1_22"
  "kubernetesImageBaseVersionedImages ''mcr'' ''1.21'' = mcr_images_1_21"
  "kubernetesImageBaseVersionedImages ''gcr'' ''1.21'' = gcr_images_1_21"
  "kubernetesImageBaseVersionedImages ''mcr'' ''1.20'' = mcr_images_1_20"
  "kubernetesImageBaseVersionedImages ''gcr'' ''1.20'' = gcr_images_1_20"
  "kubernetesImageBaseVersionedImages ''mcr'' ''1.19'' = mcr_images_1_19"
  "kubernetesImageBaseVersionedImages ''gcr'' ''1.19'' = gcr_images_1_19"
  "kubernetesImageBaseVersionedImages ''mcr'' ''1.18'' = mcr_images_1_18"
  "kubernetesImageBaseVersionedImages ''gcr'' ''1.18'' = gcr_images_1_18"
  "kubernetesImageBaseVersionedImages ''mcr'' ''1.17'' = mcr_images_1_17"
  "kubernetesImageBaseVersionedImages ''gcr'' ''1.17'' = gcr_images_1_17"
  "kubernetesImageBaseVersionedImages ''mcr'' ''1.16'' = mcr_images_1_16"
  "kubernetesImageBaseVersionedImages ''gcr'' ''1.16'' = gcr_images_1_16"
  "kubernetesImageBaseVersionedImages ''mcr'' ''1.15'' = mcr_images_1_15"
  "kubernetesImageBaseVersionedImages ''gcr'' ''1.15'' = gcr_images_1_15"
  "kubernetesImageBaseVersionedImages ''mcr'' ''1.14'' = mcr_images_1_14"
  "kubernetesImageBaseVersionedImages ''gcr'' ''1.14'' = gcr_images_1_14"
  "kubernetesImageBaseVersionedImages ''mcr'' ''1.13'' = mcr_images_1_13"
  "kubernetesImageBaseVersionedImages ''gcr'' ''1.13'' = gcr_images_1_13"
  "kubernetesImageBaseVersionedImages ''mcr'' ''1.12'' = mcr_images_1_12"
  "kubernetesImageBaseVersionedImages ''gcr'' ''1.12'' = gcr_images_1_12"
  "kubernetesImageBaseVersionedImages ''mcr'' ''1.11'' = mcr_images_1_11"
  "kubernetesImageBaseVersionedImages ''gcr'' ''1.11'' = gcr_images_1_11"
  "kubernetesImageBaseVersionedImages ''mcr'' ''1.10'' = mcr_images_1_10"
  "kubernetesImageBaseVersionedImages ''gcr'' ''1.10'' = gcr_images_1_10"
  "kubernetesImageBaseVersionedImages ''mcr'' ''1.9'' = mcr_images_1_9"
  "kubernetesImageBaseVersionedImages ''gcr'' ''1.9'' = gcr_images_1_9"
  "kubernetesImageBaseVersionedImages ''mcr'' ''1.8'' = mcr_images_1_8"
  "kubernetesImageBaseVersionedImages ''gcr'' ''1.8'' = gcr_images_1_8"
  "kubernetesImageBaseVersionedImages ''mcr'' ''1.7'' = mcr_images_1_7"
  "kubernetesImageBaseVersionedImages ''gcr'' ''1.7'' = gcr_images_1_7"
  "kubernetesImageBaseVersionedImages ''mcr'' ''1.6'' = mcr_images_1_6"
  "kubernetesImageBaseVersionedImages ''gcr'' ''1.6'' = gcr_images_1_6"
  by (simp_all add: kubernetesImageBaseVersionedImages_def default_consts mcr_versioned_images_def gcr_versioned_images_def)

lemma components_of_minor:
  "components_of ''1.29'' = Some k8s_components_1_29"
  "components_of ''1.28'' = Some k8s_components_1_28"
  "components_of ''1.27'' = Some k8s_components_1_27"
  "components_of ''1.26'' = Some k8s_components_1_26"
  "components_of ''1.25'' = Some k8s_components_1_25"
  "components_of ''1.24'' = Some k8s_components_1_24"
  "components_of ''1.23'' = Some k8s_components_1_23"
  "components_of ''1.22'' = Some k8s_components_1_22"
  "components_of ''1.21'' = Some k8s_components_1_21"
  "components_of ''1.20'' = Some k8s_components_1_20"
  "components_of ''1.19'' = Some k8s_components_1_19"
  "components_of ''1.18'' = Some k8s_components_1_18"
  "components_of ''1.17'' = Some k8s_components_1_17"
  "components_of ''1.16'' = Some k8s_components_1_16"
  "components_of ''1.15'' = Some k8s_components_1_15"
  "components_of ''1.14'' = Some k8s_components_1_14"
  "components_of ''1.13'' = Some k8s_components_1_13"
  "components_of ''1.12'' = Some k8s_components_1_12"
  "components_of ''1.11'' = Some k8s_components_1_11"
  "components_of ''1.10'' = Some k8s_components_1_10"
  "components_of ''1.9'' = Some k8s_components_1_9"
  "components_of ''1.8'' = Some k8s_components_1_8"
  "components_of ''1.7'' = Some k8s_components_1_7"
  "components_of ''1.6'' = Some k8s_components_1_6"
  by (simp_all add: components_of_def)

text \<open>A lookup finds a nonempty image if the key is in the table and no image is empty.\<close>

lemma no_empty_Cons: "img \<noteq> [] \<Longrightarrow> no_empty_image m \<Longrightarrow> no_empty_image ((key, img) # m)"
  by (simp add: no_empty_image_def)

lemma no_empty_Nil: "no_empty_image []"
  by (simp add: no_empty_image_def)

lemma append_nonempty: "xs \<noteq> [] \<Longrightarrow> xs @ ys \<noteq> []"
  by simp

lemma in_hd: "key \<in> fst ` set ((key, img) # m)"
  by simp

lemma in_tl: "key \<in> fst ` set m \<Longrightarrow> key \<in> fst ` set (kv # m)"
  by simp

lemma map_get_nonempty: "no_empty_image m \<Longrightarrow> key \<in> fst ` set m \<Longrightarrow> map_get m key \<noteq> []"
proof -
  assume all: "no_empty_image m" and "key \<in> fst ` set m"
  then obtain v where "map_of m key = Some v" by (metis map_of_eq_None_iff not_None_eq)
  then show "map_get m key \<noteq> []" using all map_of_SomeD [of m key v]
    by (auto simp: no_empty_image_def map_get_def list_all_iff)
qed

lemma complete_tableI:
  assumes "components_of majorMinor = Some table" and "kubernetesImageBaseVersionedImages base majorMinor = images"
    and "no_empty_image (table version base images)"
    and "PauseComponentName \<in> fst ` set (table version base images)" and "KubeProxyAddonName \<in> fst ` set (table version base images)"
    and "''nodestatusfreq'' \<in> fst ` set (table version base images)"
  shows "complete_table base version majorMinor"
  using assms by (simp add: complete_table_def Let_def)

lemma no_empty_default: "no_empty_image mcr_default_images"
  unfolding mcr_default_images_def by (intro no_empty_Cons no_empty_Nil list.distinct(2))

lemma default_image_nonempty: "key \<in> fst ` set mcr_default_images \<Longrightarrow> getDefaultImage key ''mcr'' \<noteq> []"
  unfolding getDefaultImage_def default_images by (rule map_get_nonempty [OF no_empty_default])

lemma default_settings:
  "DefaultKubernetesNodeStatusUpdateFrequency \<noteq> []" "DefaultKubernetesCtrlMgrNodeMonitorGracePeriod \<noteq> []"
  "DefaultKubernetesCtrlMgrPodEvictionTimeout \<noteq> []" "DefaultKubernetesCtrlMgrRouteReconciliationPeriod \<noteq> []"
  by (simp_all add: default_consts)

lemma image_references_nonempty:
  "pauseImageReference \<noteq> []"
  "smbFlexVolumeImageReference \<noteq> []"
  "calicoTyphaImageReference \<noteq> []"
  "calicoCNIImageReference \<noteq> []"
  "calicoNodeImageReference \<noteq> []"
  "calicoPod2DaemonImageReference \<noteq> []"
  "calicoClusterProportionalAutoscalerImageReference \<noteq> []"
  "ciliumAgentImageReference \<noteq> []"
  "ciliumCleanStateImageReference \<noteq> []"
  "ciliumOperatorImageReference \<noteq> []"
  "ciliumEtcdOperatorImageReference \<noteq> []"
  "antreaControllerImageReference \<noteq> []"
  "antreaAgentImageReference \<noteq> []"
  "antreaOVSImageReference \<noteq> []"
  "antreaInstallCNIImageReference \<noteq> []"
  "azureNPMContainerImageReference \<noteq> []"
  "aadPodIdentityNMIImageReference \<noteq> []"
  "aadPodIdentityMICImageReference \<noteq> []"
  "azurePolicyImageReference \<noteq> []"
  "gatekeeperImageReference \<noteq> []"
  "nodeProblemDetectorImageReference \<noteq> []"
  "csiAzureFileImageReference \<noteq> []"
  "azureCloudControllerManagerImageReference \<noteq> []"
  "azureCloudNodeManagerImageReference \<noteq> []"
  "dashboardImageReference \<noteq> []"
  "dashboardMetricsScraperImageReference \<noteq> []"
  "kubeFlannelImageReference \<noteq> []"
  "flannelInstallCNIImageReference \<noteq> []"
  "KubeRBACProxyImageReference \<noteq> []"
  "ScheduledMaintenanceManagerImageReference \<noteq> []"
  "nvidiaDevicePluginImageReference \<noteq> []"
  "virtualKubeletImageReference \<noteq> []"
  "tillerImageReference \<noteq> []"
  "csiSecretsStoreProviderAzureImageReference \<noteq> []"
  "csiSecretsStoreDriverImageReference \<noteq> []"
  "clusterProportionalAutoscalerImageReference \<noteq> []"
  "azureArcOnboardingImageReference \<noteq> []"
  "azureKMSProviderImageReference \<noteq> []"
  by (simp_all add: image_references AzureStackSuffix_def)

lemma default_keys:
  "getDefaultImage APIServerComponentName ''mcr'' \<noteq> []"
  "getDefaultImage ControllerManagerComponentName ''mcr'' \<noteq> []"
  "getDefaultImage CoreDNSAddonName ''mcr'' \<noteq> []"
  "getDefaultImage DNSMasqComponentName ''mcr'' \<noteq> []"
  "getDefaultImage DNSSidecarComponentName ''mcr'' \<noteq> []"
  "getDefaultImage ExecHealthZComponentName ''mcr'' \<noteq> []"
  "getDefaultImage Hyperkube ''mcr'' \<noteq> []"
  "getDefaultImage IPMASQAgentAddonName ''mcr'' \<noteq> []"
  "getDefaultImage KubeDNSAddonName ''mcr'' \<noteq> []"
  "getDefaultImage KubeProxyAddonName ''mcr'' \<noteq> []"
  "getDefaultImage ReschedulerAddonName ''mcr'' \<noteq> []"
  "getDefaultImage SchedulerComponentName ''mcr'' \<noteq> []"
  by (rule default_image_nonempty, unfold mcr_default_images_def, (rule in_hd | rule in_tl)+)+

lemmas nonempty_images = no_empty_Cons no_empty_Nil list.distinct(2) append_nonempty itoa_nonempty format_float_nonempty
  image_references_nonempty default_settings default_keys

lemma images_1_29:
  "map_get mcr_images_1_29 (CSIProvisionerContainerName) \<noteq> []"
  "map_get mcr_images_1_29 (CSIAttacherContainerName) \<noteq> []"
  "map_get mcr_images_1_29 (CSILivenessProbeContainerName) \<noteq> []"
  "map_get mcr_images_1_29 (CSILivenessProbeWindowsContainerName) \<noteq> []"
  "map_get mcr_images_1_29 (CSINodeDriverRegistrarContainerName) \<noteq> []"
  "map_get mcr_images_1_29 (CSINodeDriverRegistrarWindowsContainerName) \<noteq> []"
  "map_get mcr_images_1_29 (CSISnapshotterContainerName) \<noteq> []"
  "map_get mcr_images_1_29 (CSISnapshotControllerContainerName) \<noteq> []"
  "map_get mcr_images_1_29 (CSIResizerContainerName) \<noteq> []"
  "map_get mcr_images_1_29 (CSIAzureDiskContainerName) \<noteq> []"
  "map_get mcr_images_1_29 (AddonResizerComponentName) \<noteq> []"
  "map_get mcr_images_1_29 (MetricsServerAddonName) \<noteq> []"
  "map_get mcr_images_1_29 (AddonManagerComponentName) \<noteq> []"
  "map_get mcr_images_1_29 (ClusterAutoscalerAddonName) \<noteq> []"
  by (rule map_get_nonempty; unfold mcr_images_1_29_def;
      ((rule in_hd | rule in_tl)+ | intro no_empty_Cons no_empty_Nil list.distinct(2)))+

lemma complete_1_29: "complete_table ''mcr'' version ''1.29''"
  by (rule complete_tableI [OF components_of_minor(1) versioned_images(1)]; unfold k8s_components_1_29_def;
      ((rule in_hd | rule in_tl)+ | intro nonempty_images images_1_29))

lemma images_1_28:
  "map_get mcr_images_1_28 (CSIProvisionerContainerName) \<noteq> []"
  "map_get mcr_images_1_28 (CSIAttacherContainerName) \<noteq> []"
  "map_get mcr_images_1_28 (CSILivenessProbeContainerName) \<noteq> []"
  "map_get mcr_images_1_28 (CSILivenessProbeWindowsContainerName) \<noteq> []"
  "map_get mcr_images_1_28 (CSINodeDriverRegistrarContainerName) \<noteq> []"
  "map_get mcr_images_1_28 (CSINodeDriverRegistrarWindowsContainerName) \<noteq> []"
  "map_get mcr_images_1_28 (CSISnapshotterContainerName) \<noteq> []"
  "map_get mcr_images_1_28 (CSISnapshotControllerContainerName) \<noteq> []"
  "map_get mcr_images_1_28 (CSIResizerContainerName) \<noteq> []"
  "map_get mcr_images_1_28 (CSIAzureDiskContainerName) \<noteq> []"
  "map_get mcr_images_1_28 (AddonResizerComponentName) \<noteq> []"
  "map_get mcr_images_1_28 (MetricsServerAddonName) \<noteq> []"
  "map_get mcr_images_1_28 (AddonManagerComponentName) \<noteq> []"
  "map_get mcr_images_1_28 (ClusterAutoscalerAddonName) \<noteq> []"
  by (rule map_get_nonempty; unfold mcr_images_1_28_def;
      ((rule in_hd | rule in_tl)+ | intro no_empty_Cons no_empty_Nil list.distinct(2)))+

lemma complete_1_28: "complete_table ''mcr'' version ''1.28''"
  by (rule complete_tableI [OF components_of_minor(2) versioned_images(3)]; unfold k8s_components_1_28_def;
      ((rule in_hd | rule in_tl)+ | intro nonempty_images images_1_28))

lemma images_1_27:
  "map_get mcr_images_1_27 (CSIProvisionerContainerName) \<noteq> []"
  "map_get mcr_images_1_27 (CSIAttacherContainerName) \<noteq> []"
  "map_get mcr_images_1_27 (CSILivenessProbeContainerName) \<noteq> []"
  "map_get mcr_images_1_27 (CSILivenessProbeWindowsContainerName) \<noteq> []"
  "map_get mcr_images_1_27 (CSINodeDriverRegistrarContainerName) \<noteq> []"
  "map_get mcr_images_1_27 (CSINodeDriverRegistrarWindowsContainerName) \<noteq> []"
  "map_get mcr_images_1_27 (CSISnapshotterContainerName) \<noteq> []"
  "map_get mcr_images_1_27 (CSISnapshotControllerContainerName) \<noteq> []"
  "map_get mcr_images_1_27 (CSIResizerContainerName) \<noteq> []"
  "map_get mcr_images_1_27 (CSIAzureDiskContainerName) \<noteq> []"
  "map_get mcr_images_1_27 (AddonResizerComponentName) \<noteq> []"
  "map_get mcr_images_1_27 (MetricsServerAddonName) \<noteq> []"
  "map_get mcr_images_1_27 (AddonManagerComponentName) \<noteq> []"
  "map_get mcr_images_1_27 (ClusterAutoscalerAddonName) \<noteq> []"
  by (rule map_get_nonempty; unfold mcr_images_1_27_def;
      ((rule in_hd | rule in_tl)+ | intro no_empty_Cons no_empty_Nil list.distinct(2)))+

lemma complete_1_27: "complete_table ''mcr'' version ''1.27''"
  by (rule complete_tableI [OF components_of_minor(3) versioned_images(5)]; unfold k8s_components_1_27_def;
      ((rule in_hd | rule in_tl)+ | intro nonempty_images images_1_27))

lemma images_1_26:
  "map_get mcr_images_1_26 (CSIProvisionerContainerName) \<noteq> []"
  "map_get mcr_images_1_26 (CSIAttacherContainerName) \<noteq> []"
  "map_get mcr_images_1_26 (CSILivenessProbeContainerName) \<noteq> []"
  "map_get mcr_images_1_26 (CSILivenessProbeWindowsContainerName) \<noteq> []"
  "map_get mcr_images_1_26 (CSINodeDriverRegistrarContainerName) \<noteq> []"
  "map_get mcr_images_1_26 (CSINodeDriverRegistrarWindowsContainerName) \<noteq> []"
  "map_get mcr_images_1_26 (CSISnapshotterContainerName) \<noteq> []"
  "map_get mcr_images_1_26 (CSISnapshotControllerContainerName) \<noteq> []"
  "map_get mcr_images_1_26 (CSIResizerContainerName) \<noteq> []"
  "map_get mcr_images_1_26 (CSIAzureDiskContainerName) \<noteq> []"
  "map_get mcr_images_1_26 (AddonResizerComponentName) \<noteq> []"
  "map_get mcr_images_1_26 (MetricsServerAddonName) \<noteq> []"
  "map_get mcr_images_1_26 (AddonManagerComponentName) \<noteq> []"
  "map_get mcr_images_1_26 (ClusterAutoscalerAddonName) \<noteq> []"
  by (rule map_get_nonempty; unfold mcr_images_1_26_def;
      ((rule in_hd | rule in_tl)+ | intro no_empty_Cons no_empty_Nil list.distinct(2)))+

lemma complete_1_26: "complete_table ''mcr'' version ''1.26''"
  by (rule complete_tableI [OF components_of_minor(4) versioned_images(7)]; unfold k8s_components_1_26_def;
      ((rule in_hd | rule in_tl)+ | intro nonempty_images images_1_26))

lemma images_1_25:
  "map_get mcr_images_1_25 (CSIProvisionerContainerName) \<noteq> []"
  "map_get mcr_images_1_25 (CSIAttacherContainerName) \<noteq> []"
  "map_get mcr_images_1_25 (CSILivenessProbeContainerName) \<noteq> []"
  "map_get mcr_images_1_25 (CSILivenessProbeWindowsContainerName) \<noteq> []"
  "map_get mcr_images_1_25 (CSINodeDriverRegistrarContainerName) \<noteq> []"
  "map_get mcr_images_1_25 (CSINodeDriverRegistrarWindowsContainerName) \<noteq> []"
  "map_get mcr_images_1_25 (CSISnapshotterContainerName) \<noteq> []"
  "map_get mcr_images_1_25 (CSISnapshotControllerContainerName) \<noteq> []"
  "map_get mcr_images_1_25 (CSIResizerContainerName) \<noteq> []"
  "map_get mcr_images_1_25 (CSIAzureDiskContainerName) \<noteq> []"
  "map_get mcr_images_1_25 (AddonResizerComponentName) \<noteq> []"
  "map_get mcr_images_1_25 (MetricsServerAddonName) \<noteq> []"
  "map_get mcr_images_1_25 (AddonManagerComponentName) \<noteq> []"
  "map_get mcr_images_1_25 (ClusterAutoscalerAddonName) \<noteq> []"
  by (rule map_get_nonempty; unfold mcr_images_1_25_def;
      ((rule in_hd | rule in_tl)+ | intro no_empty_Cons no_empty_Nil list.distinct(2)))+

lemma complete_1_25: "complete_table ''mcr'' version ''1.25''"
  by (rule complete_tableI [OF components_of_minor(5) versioned_images(9)]; unfold k8s_components_1_25_def;
      ((rule in_hd | rule in_tl)+ | intro nonempty_images images_1_25))

lemma images_1_24:
  "map_get mcr_images_1_24 (CSIProvisionerContainerName) \<noteq> []"
  "map_get mcr_images_1_24 (CSIAttacherContainerName) \<noteq> []"
  "map_get mcr_images_1_24 (CSILivenessProbeContainerName) \<noteq> []"
  "map_get mcr_images_1_24 (CSILivenessProbeWindowsContainerName) \<noteq> []"
  "map_get mcr_images_1_24 (CSINodeDriverRegistrarContainerName) \<noteq> []"
  "map_get mcr_images_1_24 (CSINodeDriverRegistrarWindowsContainerName) \<noteq> []"
  "map_get mcr_images_1_24 (CSISnapshotterContainerName) \<noteq> []"
  "map_get mcr_images_1_24 (CSISnapshotControllerContainerName) \<noteq> []"
  "map_get mcr_images_1_24 (CSIResizerContainerName) \<noteq> []"
  "map_get mcr_images_1_24 (CSIAzureDiskContainerName) \<noteq> []"
  "map_get mcr_images_1_24 (AddonResizerComponentName) \<noteq> []"
  "map_get mcr_images_1_24 (MetricsServerAddonName) \<noteq> []"
  "map_get mcr_images_1_24 (AddonManagerComponentName) \<noteq> []"
  "map_get mcr_images_1_24 (ClusterAutoscalerAddonName) \<noteq> []"
  by (rule map_get_nonempty; unfold mcr_images_1_24_def;
      ((rule in_hd | rule in_tl)+ | intro no_empty_Cons no_empty_Nil list.distinct(2)))+

lemma complete_1_24: "complete_table ''mcr'' version ''1.24''"
  by (rule complete_tableI [OF components_of_minor(6) versioned_images(11)]; unfold k8s_components_1_24_def;
      ((rule in_hd | rule in_tl)+ | intro nonempty_images images_1_24))

lemma images_1_23:
  "map_get mcr_images_1_23 (CSIProvisionerContainerName) \<noteq> []"
  "map_get mcr_images_1_23 (CSIAttacherContainerName) \<noteq> []"
  "map_get mcr_images_1_23 (CSILivenessProbeContainerName) \<noteq> []"
  "map_get mcr_images_1_23 (CSILivenessProbeWindowsContainerName) \<noteq> []"
  "map_get mcr_images_1_23 (CSINodeDriverRegistrarContainerName) \<noteq> []"
  "map_get mcr_images_1_23 (CSINodeDriverRegistrarWindowsContainerName) \<noteq> []"
  "map_get mcr_images_1_23 (CSISnapshotterContainerName) \<noteq> []"
  "map_get mcr_images_1_23 (CSISnapshotControllerContainerName) \<noteq> []"
  "map_get mcr_images_1_23 (CSIResizerContainerName) \<noteq> []"
  "map_get mcr_images_1_23 (CSIAzureDiskContainerName) \<noteq> []"
  "map_get mcr_images_1_23 (AddonResizerComponentName) \<noteq> []"
  "map_get mcr_images_1_23 (MetricsServerAddonName) \<noteq> []"
  "map_get mcr_images_1_23 (AddonManagerComponentName) \<noteq> []"
  "map_get mcr_images_1_23 (ClusterAutoscalerAddonName) \<noteq> []"
  by (rule map_get_nonempty; unfold mcr_images_1_23_def;
      ((rule in_hd | rule in_tl)+ | intro no_empty_Cons no_empty_Nil list.distinct(2)))+

lemma complete_1_23: "complete_table ''mcr'' version ''1.23''"
  by (rule complete_tableI [OF components_of_minor(7) versioned_images(13)]; unfold k8s_components_1_23_def;
      ((rule in_hd | rule in_tl)+ | intro nonempty_images images_1_23))

lemma images_1_22:
  "map_get mcr_images_1_22 (CSIProvisionerContainerName) \<noteq> []"
  "map_get mcr_images_1_22 (CSIAttacherContainerName) \<noteq> []"
  "map_get mcr_images_1_22 (CSILivenessProbeContainerName) \<noteq> []"
  "map_get mcr_images_1_22 (CSILivenessProbeWindowsContainerName) \<noteq> []"
  "map_get mcr_images_1_22 (CSINodeDriverRegistrarContainerName) \<noteq> []"
  "map_get mcr_images_1_22 (CSINodeDriverRegistrarWindowsContainerName) \<noteq> []"
  "map_get mcr_images_1_22 (CSISnapshotterContainerName) \<noteq> []"
  "map_get mcr_images_1_22 (CSISnapshotControllerContainerName) \<noteq> []"
  "map_get mcr_images_1_22 (CSIResizerContainerName) \<noteq> []"
  "map_get mcr_images_1_22 (CSIAzureDiskContainerName) \<noteq> []"
  "map_get mcr_images_1_22 (AddonResizerComponentName) \<noteq> []"
  "map_get mcr_images_1_22 (MetricsServerAddonName) \<noteq> []"
  "map_get mcr_images_1_22 (AddonManagerComponentName) \<noteq> []"
  "map_get mcr_images_1_22 (ClusterAutoscalerAddonName) \<noteq> []"
  by (rule map_get_nonempty; unfold mcr_images_1_22_def;
      ((rule in_hd | rule in_tl)+ | intro no_empty_Cons no_empty_Nil list.distinct(2)))+

lemma complete_1_22: "complete_table ''mcr'' version ''1.22''"
  by (rule complete_tableI [OF components_of_minor(8) versioned_images(15)]; unfold k8s_components_1_22_def;
      ((rule in_hd | rule in_tl)+ | intro nonempty_images images_1_22))

lemma images_1_21:
  "map_get mcr_images_1_21 (CSIProvisionerContainerName) \<noteq> []"
  "map_get mcr_images_1_21 (CSIAttacherContainerName) \<noteq> []"
  "map_get mcr_images_1_21 (CSILivenessProbeContainerName) \<noteq> []"
  "map_get mcr_images_1_21 (CSILivenessProbeWindowsContainerName) \<noteq> []"
  "map_get mcr_images_1_21 (CSINodeDriverRegistrarContainerName) \<noteq> []"
  "map_get mcr_images_1_21 (CSINodeDriverRegistrarWindowsContainerName) \<noteq> []"
  "map_get mcr_images_1_21 (CSISnapshotterContainerName) \<noteq> []"
  "map_get mcr_images_1_21 (CSISnapshotControllerContainerName) \<noteq> []"
  "map_get mcr_images_1_21 (CSIResizerContainerName) \<noteq> []"
  "map_get mcr_images_1_21 (CSIAzureDiskContainerName) \<noteq> []"
  "map_get mcr_images_1_21 (AddonResizerComponentName) \<noteq> []"
  "map_get mcr_images_1_21 (MetricsServerAddonName) \<noteq> []"
  "map_get mcr_images_1_21 (AddonManagerComponentName) \<noteq> []"
  "map_get mcr_images_1_21 (ClusterAutoscalerAddonName) \<noteq> []"
  by (rule map_get_nonempty; unfold mcr_images_1_21_def;
      ((rule in_hd | rule in_tl)+ | intro no_empty_Cons no_empty_Nil list.distinct(2)))+

lemma complete_1_21: "complete_table ''mcr'' version ''1.21''"
  by (rule complete_tableI [OF components_of_minor(9) versioned_images(17)]; unfold k8s_components_1_21_def;
      ((rule in_hd | rule in_tl)+ | intro nonempty_images images_1_21))

lemma images_1_20:
  "map_get mcr_images_1_20 (CSIProvisionerContainerName) \<noteq> []"
  "map_get mcr_images_1_20 (CSIAttacherContainerName) \<noteq> []"
  "map_get mcr_images_1_20 (CSILivenessProbeContainerName) \<noteq> []"
  "map_get mcr_images_1_20 (CSILivenessProbeWindowsContainerName) \<noteq> []"
  "map_get mcr_images_1_20 (CSINodeDriverRegistrarContainerName) \<noteq> []"
  "map_get mcr_images_1_20 (CSINodeDriverRegistrarWindowsContainerName) \<noteq> []"
  "map_get mcr_images_1_20 (CSISnapshotterContainerName) \<noteq> []"
  "map_get mcr_images_1_20 (CSISnapshotControllerContainerName) \<noteq> []"
  "map_get mcr_images_1_20 (CSIResizerContainerName) \<noteq> []"
  "map_get mcr_images_1_20 (CSIAzureDiskContainerName) \<noteq> []"
  "map_get mcr_images_1_20 (AddonResizerComponentName) \<noteq> []"
  "map_get mcr_images_1_20 (MetricsServerAddonName) \<noteq> []"
  "map_get mcr_images_1_20 (AddonManagerComponentName) \<noteq> []"
  "map_get mcr_images_1_20 (ClusterAutoscalerAddonName) \<noteq> []"
  by (rule map_get_nonempty; unfold mcr_images_1_20_def;
      ((rule in_hd | rule in_tl)+ | intro no_empty_Cons no_empty_Nil list.distinct(2)))+

lemma complete_1_20: "complete_table ''mcr'' version ''1.20''"
  by (rule complete_tableI [OF components_of_minor(10) versioned_images(19)]; unfold k8s_components_1_20_def;
      ((rule in_hd | rule in_tl)+ | intro nonempty_images images_1_20))

lemma images_1_19:
  "map_get mcr_images_1_19 (CSIProvisionerContainerName) \<noteq> []"
  "map_get mcr_images_1_19 (CSIAttacherContainerName) \<noteq> []"
  "map_get mcr_images_1_19 (CSILivenessProbeContainerName) \<noteq> []"
  "map_get mcr_images_1_19 (CSILivenessProbeWindowsContainerName) \<noteq> []"
  "map_get mcr_images_1_19 (CSINodeDriverRegistrarContainerName) \<noteq> []"
  "map_get mcr_images_1_19 (CSINodeDriverRegistrarWindowsContainerName) \<noteq> []"
  "map_get mcr_images_1_19 (CSISnapshotterContainerName) \<noteq> []"
  "map_get mcr_images_1_19 (CSISnapshotControllerContainerName) \<noteq> []"
  "map_get mcr_images_1_19 (CSIResizerContainerName) \<noteq> []"
  "map_get mcr_images_1_19 (CSIAzureDiskContainerName) \<noteq> []"
  "map_get mcr_images_1_19 (AddonResizerComponentName) \<noteq> []"
  "map_get mcr_images_1_19 (MetricsServerAddonName) \<noteq> []"
  "map_get mcr_images_1_19 (AddonManagerComponentName) \<noteq> []"
  "map_get mcr_images_1_19 (ClusterAutoscalerAddonName) \<noteq> []"
  by (rule map_get_nonempty; unfold mcr_images_1_19_def;
      ((rule in_hd | rule in_tl)+ | intro no_empty_Cons no_empty_Nil list.distinct(2)))+

lemma complete_1_19: "complete_table ''mcr'' version ''1.19''"
  by (rule complete_tableI [OF components_of_minor(11) versioned_images(21)]; unfold k8s_components_1_19_def;
      ((rule in_hd | rule in_tl)+ | intro nonempty_images images_1_19))

lemma images_1_18:
  "map_get mcr_images_1_18 (CSIProvisionerContainerName) \<noteq> []"
  "map_get mcr_images_1_18 (CSIAttacherContainerName) \<noteq> []"
  "map_get mcr_images_1_18 (CSILivenessProbeContainerName) \<noteq> []"
  "map_get mcr_images_1_18 (CSILivenessProbeWindowsContainerName) \<noteq> []"
  "map_get mcr_images_1_18 (CSINodeDriverRegistrarContainerName) \<noteq> []"
  "map_get mcr_images_1_18 (CSINodeDriverRegistrarWindowsContainerName) \<noteq> []"
  "map_get mcr_images_1_18 (CSISnapshotterContainerName) \<noteq> []"
  "map_get mcr_images_1_18 (CSISnapshotControllerContainerName) \<noteq> []"
  "map_get mcr_images_1_18 (CSIResizerContainerName) \<noteq> []"
  "map_get mcr_images_1_18 (CSIAzureDiskContainerName) \<noteq> []"
  "map_get mcr_images_1_18 (AddonResizerComponentName) \<noteq> []"
  "map_get mcr_images_1_18 (MetricsServerAddonName) \<noteq> []"
  "map_get mcr_images_1_18 (AddonManagerComponentName) \<noteq> []"
  "map_get mcr_images_1_18 (ClusterAutoscalerAddonName) \<noteq> []"
  by (rule map_get_nonempty; unfold mcr_images_1_18_def;
      ((rule in_hd | rule in_tl)+ | intro no_empty_Cons no_empty_Nil list.distinct(2)))+

lemma complete_1_18: "complete_table ''mcr'' version ''1.18''"
  by (rule complete_tableI [OF components_of_minor(12) versioned_images(23)]; unfold k8s_components_1_18_def;
      ((rule in_hd | rule in_tl)+ | intro nonempty_images images_1_18))

lemma images_1_17:
  "map_get mcr_images_1_17 (CSIProvisionerContainerName) \<noteq> []"
  "map_get mcr_images_1_17 (CSIAttacherContainerName) \<noteq> []"
  "map_get mcr_images_1_17 (CSILivenessProbeContainerName) \<noteq> []"
  "map_get mcr_images_1_17 (CSINodeDriverRegistrarContainerName) \<noteq> []"
  "map_get mcr_images_1_17 (CSISnapshotterContainerName) \<noteq> []"
  "map_get mcr_images_1_17 (CSISnapshotControllerContainerName) \<noteq> []"
  "map_get mcr_images_1_17 (CSIResizerContainerName) \<noteq> []"
  "map_get mcr_images_1_17 (CSIAzureDiskContainerName) \<noteq> []"
  "map_get mcr_images_1_17 (AddonResizerComponentName) \<noteq> []"
  "map_get mcr_images_1_17 (MetricsServerAddonName) \<noteq> []"
  "map_get mcr_images_1_17 (AddonManagerComponentName) \<noteq> []"
  "map_get mcr_images_1_17 (ClusterAutoscalerAddonName) \<noteq> []"
  by (rule map_get_nonempty; unfold mcr_images_1_17_def;
      ((rule in_hd | rule in_tl)+ | intro no_empty_Cons no_empty_Nil list.distinct(2)))+

lemma complete_1_17: "complete_table ''mcr'' version ''1.17''"
  by (rule complete_tableI [OF components_of_minor(13) versioned_images(25)]; unfold k8s_components_1_17_def;
      ((rule in_hd | rule in_tl)+ | intro nonempty_images images_1_17))

lemma images_1_16:
  "map_get mcr_images_1_16 (CSIProvisionerContainerName) \<noteq> []"
  "map_get mcr_images_1_16 (CSIAttacherContainerName) \<noteq> []"
  "map_get mcr_images_1_16 (CSILivenessProbeContainerName) \<noteq> []"
  "map_get mcr_images_1_16 (CSINodeDriverRegistrarContainerName) \<noteq> []"
  "map_get mcr_images_1_16 (CSIResizerContainerName) \<noteq> []"
  "map_get mcr_images_1_16 (CSIAzureDiskContainerName) \<noteq> []"
  "map_get mcr_images_1_16 (AddonResizerComponentName) \<noteq> []"
  "map_get mcr_images_1_16 (MetricsServerAddonName) \<noteq> []"
  "map_get mcr_images_1_16 (AddonManagerComponentName) \<noteq> []"
  "map_get mcr_images_1_16 (ClusterAutoscalerAddonName) \<noteq> []"
  by (rule map_get_nonempty; unfold mcr_images_1_16_def;
      ((rule in_hd | rule in_tl)+ | intro no_empty_Cons no_empty_Nil list.distinct(2)))+

lemma complete_1_16: "complete_table ''mcr'' version ''1.16''"
  by (rule complete_tableI [OF components_of_minor(14) versioned_images(27)]; unfold k8s_components_1_16_def;
      ((rule in_hd | rule in_tl)+ | intro nonempty_images images_1_16))

lemma images_1_15:
  "map_get mcr_images_1_15 (CSIProvisionerContainerName) \<noteq> []"
  "map_get mcr_images_1_15 (CSIAttacherContainerName) \<noteq> []"
  "map_get mcr_images_1_15 (CSILivenessProbeContainerName) \<noteq> []"
  "map_get mcr_images_1_15 (CSINodeDriverRegistrarContainerName) \<noteq> []"
  "map_get mcr_images_1_15 (CSIAzureDiskContainerName) \<noteq> []"
  "map_get mcr_images_1_15 (AddonResizerComponentName) \<noteq> []"
  "map_get mcr_images_1_15 (MetricsServerAddonName) \<noteq> []"
  "map_get mcr_images_1_15 (AddonManagerComponentName) \<noteq> []"
  "map_get mcr_images_1_15 (ClusterAutoscalerAddonName) \<noteq> []"
  "map_get mcr_images_1_15 (CloudControllerManagerComponentName) \<noteq> []"
  by (rule map_get_nonempty; unfold mcr_images_1_15_def;
      ((rule in_hd | rule in_tl)+ | intro no_empty_Cons no_empty_Nil list.distinct(2)))+

lemma complete_1_15: "complete_table ''mcr'' version ''1.15''"
  by (rule complete_tableI [OF components_of_minor(15) versioned_images(29)]; unfold k8s_components_1_15_def;
      ((rule in_hd | rule in_tl)+ | intro nonempty_images images_1_15))

lemma images_1_14:
  "map_get mcr_images_1_14 (CSIProvisionerContainerName) \<noteq> []"
  "map_get mcr_images_1_14 (CSIAttacherContainerName) \<noteq> []"
  "map_get mcr_images_1_14 (CSILivenessProbeContainerName) \<noteq> []"
  "map_get mcr_images_1_14 (CSINodeDriverRegistrarContainerName) \<noteq> []"
  "map_get mcr_images_1_14 (CSIAzureDiskContainerName) \<noteq> []"
  "map_get mcr_images_1_14 (AddonResizerComponentName) \<noteq> []"
  "map_get mcr_images_1_14 (MetricsServerAddonName) \<noteq> []"
  "map_get mcr_images_1_14 (AddonManagerComponentName) \<noteq> []"
  "map_get mcr_images_1_14 (ClusterAutoscalerAddonName) \<noteq> []"
  "map_get mcr_images_1_14 (CloudControllerManagerComponentName) \<noteq> []"
  by (rule map_get_nonempty; unfold mcr_images_1_14_def;
      ((rule in_hd | rule in_tl)+ | intro no_empty_Cons no_empty_Nil list.distinct(2)))+

lemma complete_1_14: "complete_table ''mcr'' version ''1.14''"
  by (rule complete_tableI [OF components_of_minor(16) versioned_images(31)]; unfold k8s_components_1_14_def;
      ((rule in_hd | rule in_tl)+ | intro nonempty_images images_1_14))

lemma images_1_13:
  "map_get mcr_images_1_13 (CSIProvisionerContainerName) \<noteq> []"
  "map_get mcr_images_1_13 (CSIAttacherContainerName) \<noteq> []"
  "map_get mcr_images_1_13 (CSILivenessProbeContainerName) \<noteq> []"
  "map_get mcr_images_1_13 (CSINodeDriverRegistrarContainerName) \<noteq> []"
  "map_get mcr_images_1_13 (CSIAzureDiskContainerName) \<noteq> []"
  "map_get mcr_images_1_13 (AddonResizerComponentName) \<noteq> []"
  "map_get mcr_images_1_13 (MetricsServerAddonName) \<noteq> []"
  "map_get mcr_images_1_13 (AddonManagerComponentName) \<noteq> []"
  "map_get mcr_images_1_13 (ClusterAutoscalerAddonName) \<noteq> []"
  "map_get mcr_images_1_13 (CloudControllerManagerComponentName) \<noteq> []"
  by (rule map_get_nonempty; unfold mcr_images_1_13_def;
      ((rule in_hd | rule in_tl)+ | intro no_empty_Cons no_empty_Nil list.distinct(2)))+

lemma complete_1_13: "complete_table ''mcr'' version ''1.13''"
  by (rule complete_tableI [OF components_of_minor(17) versioned_images(33)]; unfold k8s_components_1_13_def;
      ((rule in_hd | rule in_tl)+ | intro nonempty_images images_1_13))

lemma images_1_12:
  "map_get mcr_images_1_12 (AddonResizerComponentName) \<noteq> []"
  "map_get mcr_images_1_12 (MetricsServerAddonName) \<noteq> []"
  "map_get mcr_images_1_12 (AddonManagerComponentName) \<noteq> []"
  "map_get mcr_images_1_12 (ClusterAutoscalerAddonName) \<noteq> []"
  "map_get mcr_images_1_12 (CloudControllerManagerComponentName) \<noteq> []"
  by (rule map_get_nonempty; unfold mcr_images_1_12_def;
      ((rule in_hd | rule in_tl)+ | intro no_empty_Cons no_empty_Nil list.distinct(2)))+

lemma complete_1_12: "complete_table ''mcr'' version ''1.12''"
  by (rule complete_tableI [OF components_of_minor(18) versioned_images(35)]; unfold k8s_components_1_12_def;
      ((rule in_hd | rule in_tl)+ | intro nonempty_images images_1_12))

lemma images_1_11:
  "map_get mcr_images_1_11 (AddonResizerComponentName) \<noteq> []"
  "map_get mcr_images_1_11 (MetricsServerAddonName) \<noteq> []"
  "map_get mcr_images_1_11 (AddonManagerComponentName) \<noteq> []"
  "map_get mcr_images_1_11 (ClusterAutoscalerAddonName) \<noteq> []"
  "map_get mcr_images_1_11 (CloudControllerManagerComponentName) \<noteq> []"
  by (rule map_get_nonempty; unfold mcr_images_1_11_def;
      ((rule in_hd | rule in_tl)+ | intro no_empty_Cons no_empty_Nil list.distinct(2)))+

lemma complete_1_11: "complete_table ''mcr'' version ''1.11''"
  by (rule complete_tableI [OF components_of_minor(19) versioned_images(37)]; unfold k8s_components_1_11_def;
      ((rule in_hd | rule in_tl)+ | intro nonempty_images images_1_11))

lemma images_1_10:
  "map_get mcr_images_1_10 (AddonResizerComponentName) \<noteq> []"
  "map_get mcr_images_1_10 (MetricsServerAddonName) \<noteq> []"
  "map_get mcr_images_1_10 (AddonManagerComponentName) \<noteq> []"
  "map_get mcr_images_1_10 (ReschedulerAddonName) \<noteq> []"
  "map_get mcr_images_1_10 (ClusterAutoscalerAddonName) \<noteq> []"
  "map_get mcr_images_1_10 (DNSSidecarComponentName) \<noteq> []"
  "map_get mcr_images_1_10 (CloudControllerManagerComponentName) \<noteq> []"
  by (rule map_get_nonempty; unfold mcr_images_1_10_def;
      ((rule in_hd | rule in_tl)+ | intro no_empty_Cons no_empty_Nil list.distinct(2)))+

lemma complete_1_10: "complete_table ''mcr'' version ''1.10''"
  by (rule complete_tableI [OF components_of_minor(20) versioned_images(39)]; unfold k8s_components_1_10_def;
      ((rule in_hd | rule in_tl)+ | intro nonempty_images images_1_10))

lemma images_1_9:
  "map_get mcr_images_1_9 (AddonResizerComponentName) \<noteq> []"
  "map_get mcr_images_1_9 (MetricsServerAddonName) \<noteq> []"
  "map_get mcr_images_1_9 (AddonManagerComponentName) \<noteq> []"
  "map_get mcr_images_1_9 (ReschedulerAddonName) \<noteq> []"
  "map_get mcr_images_1_9 (ClusterAutoscalerAddonName) \<noteq> []"
  "map_get mcr_images_1_9 (DNSSidecarComponentName) \<noteq> []"
  "map_get mcr_images_1_9 (CloudControllerManagerComponentName) \<noteq> []"
  by (rule map_get_nonempty; unfold mcr_images_1_9_def;
      ((rule in_hd | rule in_tl)+ | intro no_empty_Cons no_empty_Nil list.distinct(2)))+

lemma complete_1_9: "complete_table ''mcr'' version ''1.9''"
  by (rule complete_tableI [OF components_of_minor(21) versioned_images(41)]; unfold k8s_components_1_9_def;
      ((rule in_hd | rule in_tl)+ | intro nonempty_images images_1_9))

lemma images_1_8:
  "map_get mcr_images_1_8 (AddonResizerComponentName) \<noteq> []"
  "map_get mcr_images_1_8 (MetricsServerAddonName) \<noteq> []"
  "map_get mcr_images_1_8 (KubeDNSAddonName) \<noteq> []"
  "map_get mcr_images_1_8 (AddonManagerComponentName) \<noteq> []"
  "map_get mcr_images_1_8 (DNSMasqComponentName) \<noteq> []"
  "map_get mcr_images_1_8 (ReschedulerAddonName) \<noteq> []"
  "map_get mcr_images_1_8 (CloudControllerManagerComponentName) \<noteq> []"
  by (rule map_get_nonempty; unfold mcr_images_1_8_def;
      ((rule in_hd | rule in_tl)+ | intro no_empty_Cons no_empty_Nil list.distinct(2)))+

lemma complete_1_8: "complete_table ''mcr'' version ''1.8''"
  by (rule complete_tableI [OF components_of_minor(22) versioned_images(43)]; unfold k8s_components_1_8_def;
      ((rule in_hd | rule in_tl)+ | intro nonempty_images images_1_8))

lemma images_1_7:
  "map_get mcr_images_1_7 (''dashboard'') \<noteq> []"
  "map_get mcr_images_1_7 (AddonResizerComponentName) \<noteq> []"
  "map_get mcr_images_1_7 (MetricsServerAddonName) \<noteq> []"
  "map_get mcr_images_1_7 (KubeDNSAddonName) \<noteq> []"
  "map_get mcr_images_1_7 (AddonManagerComponentName) \<noteq> []"
  "map_get mcr_images_1_7 (DNSMasqComponentName) \<noteq> []"
  "map_get mcr_images_1_7 (ReschedulerAddonName) \<noteq> []"
  "map_get mcr_images_1_7 (CloudControllerManagerComponentName) \<noteq> []"
  by (rule map_get_nonempty; unfold mcr_images_1_7_def;
      ((rule in_hd | rule in_tl)+ | intro no_empty_Cons no_empty_Nil list.distinct(2)))+

lemma complete_1_7: "complete_table ''mcr'' version ''1.7''"
  by (rule complete_tableI [OF components_of_minor(23) versioned_images(45)]; unfold k8s_components_1_7_def;
      ((rule in_hd | rule in_tl)+ | intro nonempty_images images_1_7))

lemma images_1_6:
  "map_get mcr_images_1_6 (''dashboard'') \<noteq> []"
  "map_get mcr_images_1_6 (AddonResizerComponentName) \<noteq> []"
  "map_get mcr_images_1_6 (MetricsServerAddonName) \<noteq> []"
  "map_get mcr_images_1_6 (KubeDNSAddonName) \<noteq> []"
  "map_get mcr_images_1_6 (AddonManagerComponentName) \<noteq> []"
  "map_get mcr_images_1_6 (DNSMasqComponentName) \<noteq> []"
  "map_get mcr_images_1_6 (ReschedulerAddonName) \<noteq> []"
  "map_get mcr_images_1_6 (CloudControllerManagerComponentName) \<noteq> []"
  by (rule map_get_nonempty; unfold mcr_images_1_6_def;
      ((rule in_hd | rule in_tl)+ | intro no_empty_Cons no_empty_Nil list.distinct(2)))+

lemma complete_1_6: "complete_table ''mcr'' version ''1.6''"
  by (rule complete_tableI [OF components_of_minor(24) versioned_images(47)]; unfold k8s_components_1_6_def;
      ((rule in_hd | rule in_tl)+ | intro nonempty_images images_1_6))

lemmas complete_minors =
  complete_1_29 complete_1_28 complete_1_27 complete_1_26 complete_1_25 complete_1_24 complete_1_23 complete_1_22
  complete_1_21 complete_1_20 complete_1_19 complete_1_18 complete_1_17 complete_1_16 complete_1_15 complete_1_14
  complete_1_13 complete_1_12 complete_1_11 complete_1_10 complete_1_9 complete_1_8 complete_1_7 complete_1_6

definition supported_minors :: "string list" where
  "supported_minors =
     [''1.29'', ''1.28'', ''1.27'', ''1.26'', ''1.25'', ''1.24'', ''1.23'', ''1.22'',
      ''1.21'', ''1.20'', ''1.19'', ''1.18'', ''1.17'', ''1.16'', ''1.15'', ''1.14'',
      ''1.13'', ''1.12'', ''1.11'', ''1.10'', ''1.9'', ''1.8'', ''1.7'', ''1.6'']"

lemma components_of_supported: "majorMinor \<in> set supported_minors \<Longrightarrow> components_of majorMinor \<noteq> None"
  by (auto simp: supported_minors_def components_of_minor)

text \<open>The first two numbers of a version.\<close>

definition release_of :: "string \<Rightarrow> string" where
  "release_of version = join ''.'' (take 2 (split_on (CHR ''.'') version))"

lemma supported_releases:
  "list_all (\<lambda>(v, b). length (split_on (CHR ''.'') v) \<ge> 2 \<and> release_of v \<in> set supported_minors)
     AllKubernetesSupportedVersions"
  by code_simp


subsection \<open>No lookup fails\<close>

lemma main_table_release:
  assumes "v \<in> set (GetAllSupportedKubernetesVersions True False False)"
  shows "length (split_on (CHR ''.'') v) \<ge> 2" and "release_of v \<in> set supported_minors"
proof -
  obtain b where "(v, b) \<in> set AllKubernetesSupportedVersions"
    using assms by (auto simp: set_GetAllSupportedKubernetesVersions supported_table_def)
  then show "length (split_on (CHR ''.'') v) \<ge> 2" "release_of v \<in> set supported_minors"
    using supported_releases unfolding list_all_iff by fastforce+
qed

definition components_with :: "string \<Rightarrow> (string \<times> string) list \<Rightarrow> string \<Rightarrow> (string \<times> string) list" where
  "components_with base overrides v =
     foldl (\<lambda>m (k, v). AList.update k v m)
       (the (components_of (release_of v)) v base (kubernetesImageBaseVersionedImages base (release_of v))) overrides"

lemma getK8sVersionComponents_supported:
  assumes "v \<in> set (GetAllSupportedKubernetesVersions True False False)"
  shows "getK8sVersionComponents v base overrides = Inr (components_with base overrides v)"
proof -
  note release = main_table_release [OF assms]
  obtain table where "components_of (release_of v) = Some table" using components_of_supported [OF release(2)] by blast
  then show ?thesis
    using release(1) by (simp add: getK8sVersionComponents_def Let_def components_with_def release_of_def)
qed

definition overrides_of :: "string \<Rightarrow> string \<Rightarrow> (string \<times> string) list" where
  "overrides_of base = (if base = KubernetesImageBaseTypeGCR then getVersionOverridesGCR
     else if base = KubernetesImageBaseTypeMCR then getVersionOverridesMCR else getVersionOverridesGCR)"

lemma GetK8sComponentsByVersionMap_Inr:
  "GetK8sComponentsByVersionMap k = Inr (map (\<lambda>v. (v, components_with (kc_KubernetesImageBaseType k)
     (overrides_of (kc_KubernetesImageBaseType k) v) v)) (GetAllSupportedKubernetesVersions True False False))"
proof -
  have "mapR (\<lambda>v. bindR (getK8sVersionComponents v base (f v)) (\<lambda>m. Inr (v, m))) vs =
      Inr (map (\<lambda>v. (v, components_with base (f v) v)) vs)"
    if "set vs \<subseteq> set (GetAllSupportedKubernetesVersions True False False)" for vs base f
    using that by (induction vs) (simp_all add: getK8sVersionComponents_supported)
  then show ?thesis
    unfolding GetK8sComponentsByVersionMap_def Let_def overrides_of_def by blast
qed

lemma k8s_components_Inr:
  "k8s_components k v = Inr (if v \<in> set (GetAllSupportedKubernetesVersions True False False)
     then components_with (kc_KubernetesImageBaseType k) (overrides_of (kc_KubernetesImageBaseType k) v) v else [])"
proof -
  have "map_of (map (\<lambda>v. (v, f v)) vs) v = (if v \<in> set vs then Some (f v) else None)" for f :: "string \<Rightarrow> (string \<times> string) list" and vs
    by (induction vs) auto
  then show ?thesis unfolding k8s_components_def GetK8sComponentsByVersionMap_Inr by simp
qed

subsection \<open>Complete images\<close>

lemma complete_tables: "majorMinor \<in> set supported_minors \<Longrightarrow> complete_table ''mcr'' version majorMinor"
  unfolding supported_minors_def list.set insert_iff empty_iff
  by (elim disjE FalseE; simp only:; rule complete_minors)

lemma no_empty_update: "no_empty_image m \<Longrightarrow> img \<noteq> [] \<Longrightarrow> no_empty_image (AList.update key img m)"
  unfolding no_empty_image_def by (induction m) auto

lemma overridden:
  assumes "no_empty_image m" and "no_empty_image overrides"
  shows "no_empty_image (foldl (\<lambda>m (k, v). AList.update k v m) m overrides) \<and>
    fst ` set m \<subseteq> fst ` set (foldl (\<lambda>m (k, v). AList.update k v m) m overrides)"
  using assms
proof (induction overrides arbitrary: m)
  case (Cons kv overrides)
  then have "no_empty_image (AList.update (fst kv) (snd kv) m)" "no_empty_image overrides"
    by (auto simp: no_empty_image_def no_empty_update [unfolded no_empty_image_def])
  from Cons.IH [OF this] show ?case by (auto simp: case_prod_beta dom_update)
qed simp

lemma no_empty_lookup:
  "list_all (\<lambda>(v, m). no_empty_image m) tbl \<Longrightarrow> no_empty_image (case map_of tbl v of None \<Rightarrow> [] | Some m \<Rightarrow> m)"
  by (auto simp: list_all_iff no_empty_Nil split: option.split dest: map_of_SomeD)

lemma no_empty_overrides: "no_empty_image (getVersionOverridesMCR v)"
  unfolding getVersionOverridesMCR_def by (rule no_empty_lookup) (simp add: no_empty_image_def)

text \<open>
  For every version that the engine knows, the table of images with the Microsoft base, the only one
  on Azure Stack, has no empty image, so every component that the engine deploys gets an image reference;
  a lookup of any version returns, with no image at all for a version that the engine does not know.\<close>

theorem component_images_are_complete:
  assumes "IsSupportedKubernetesVersion v True False False" and "kc_KubernetesImageBaseType k = KubernetesImageBaseTypeMCR"
  shows "\<exists>m. k8s_components k v = Inr m \<and> (\<forall>(key, img) \<in> set m. img \<noteq> '''') \<and>
    {PauseComponentName, KubeProxyAddonName, ''nodestatusfreq''} \<subseteq> fst ` set m"
proof -
  have v: "v \<in> set (GetAllSupportedKubernetesVersions True False False)"
    using assms(1) by (simp add: IsSupportedKubernetesVersion_iff)
  have base: "KubernetesImageBaseTypeMCR = ''mcr''" and over: "overrides_of KubernetesImageBaseTypeMCR = getVersionOverridesMCR"
    by (simp_all add: overrides_of_def KubernetesImageBaseTypeMCR_def KubernetesImageBaseTypeGCR_def)
  let ?m = "components_with ''mcr'' (getVersionOverridesMCR v) v"
  have run: "k8s_components k v = Inr ?m"
    using v by (simp add: k8s_components_Inr assms(2) over [unfolded base] base)
  have "complete_table ''mcr'' v (release_of v)" by (rule complete_tables [OF main_table_release(2) [OF v]])
  then obtain table where table: "components_of (release_of v) = Some table"
    and none: "no_empty_image (table v ''mcr'' (kubernetesImageBaseVersionedImages ''mcr'' (release_of v)))"
    and keys: "{PauseComponentName, KubeProxyAddonName, ''nodestatusfreq''} \<subseteq>
      fst ` set (table v ''mcr'' (kubernetesImageBaseVersionedImages ''mcr'' (release_of v)))"
    unfolding complete_table_def Let_def by (auto split: option.splits)
  have m: "?m = foldl (\<lambda>m (k, v). AList.update k v m)
      (table v ''mcr'' (kubernetesImageBaseVersionedImages ''mcr'' (release_of v))) (getVersionOverridesMCR v)"
    by (simp only: components_with_def table option.sel)
  note over = overridden [OF none no_empty_overrides [of v], folded m]
  have "\<forall>(key, img) \<in> set ?m. img \<noteq> ''''" using conjunct1 [OF over] by (simp only: no_empty_image_def list_all_iff)
  then show ?thesis using run subset_trans [OF keys conjunct2 [OF over]] by (intro exI conjI)
qed

theorem component_images_are_complete_witness:
  "\<exists>m. k8s_components (zero_kubernetes_config\<lparr>kc_KubernetesImageBaseType := KubernetesImageBaseTypeMCR\<rparr>) ''1.28.15'' = Inr m \<and>
    list_all (\<lambda>(key, img). img \<noteq> '''') m \<and> {PauseComponentName, KubeProxyAddonName, ''nodestatusfreq''} \<subseteq> fst ` set m"
  using component_images_are_complete [of "''1.28.15''"] creatable_updatable [of "''1.28.15''" False False True]
  by (simp add: IsSupportedKubernetesVersion_iff GetAllSupportedKubernetesVersions_create list_all_iff)

end
