(* ===== verification/KubeletDefaults.thy ===== *)
theory KubeletDefaults
  imports DefaultsKubelet ControlPlaneFlags ComponentTables
begin

section \<open>What the kubelets of a cluster are started with\<close>

text \<open>
  The facts on \<open>setKubeletConfig\<close>: which flags no kubelet gets, which flags the pools cannot change, and
  that the masters can change them.
\<close>

text \<open>The flags of the cluster, of the masters and of each pool.\<close>

definition kubelet_flags :: "kubernetes_config option \<Rightarrow> config" where
  "kubelet_flags k = user_flags (kc_KubeletConfig (node_config k))"

definition cluster_kubelet :: "properties \<Rightarrow> config list" where
  "cluster_kubelet p = (case p_OrchestratorProfile p of None \<Rightarrow> []
     | Some orch \<Rightarrow> [kubelet_flags (op_KubernetesConfig orch)])"

definition master_kubelet :: "properties \<Rightarrow> config list" where
  "master_kubelet p = (case p_MasterProfile p of None \<Rightarrow> [] | Some m \<Rightarrow> [kubelet_flags (mp_KubernetesConfig m)])"

definition pool_kubelets :: "properties \<Rightarrow> config list" where
  "pool_kubelets p = map (kubelet_flags \<circ> ap_KubernetesConfig) (pools p)"

definition all_kubelets :: "properties \<Rightarrow> config list" where
  "all_kubelets p = cluster_kubelet p @ master_kubelet p @ pool_kubelets p"

lemma kubelet_flags_set [simp]:
  "kubelet_flags (set_kubelet_flags f k) = f (kubelet_flags k)"
  by (simp add: kubelet_flags_def set_kubelet_flags_def node_config_def user_flags_def)

lemma setKubeletConfig_Inr:
  assumes "setKubeletConfig isUpgrade p = Inr p'"
  obtains orch k comps cluster where
    "p_OrchestratorProfile p = Some orch" and "op_KubernetesConfig orch = Some k"
    and "k8s_components k (op_OrchestratorVersion orch) = Inr comps"
    and "cluster = cluster_kubelet_flags isUpgrade comps p (op_OrchestratorVersion orch) k"
    and "p_OrchestratorProfile p' = Some (orch\<lparr>op_KubernetesConfig := Some (k\<lparr>kc_KubeletConfig := Some cluster\<rparr>)\<rparr>)"
    and "p_MasterProfile p' = map_option (\<lambda>master. master\<lparr>mp_KubernetesConfig := set_kubelet_flags
      (master_kubelet_flags isUpgrade cluster p (op_OrchestratorVersion orch) (k\<lparr>kc_KubeletConfig := Some cluster\<rparr>) master)
      (mp_KubernetesConfig master)\<rparr>) (p_MasterProfile p)"
    and "pools p' = map (\<lambda>profile. profile\<lparr>ap_KubernetesConfig := set_kubelet_flags
      (agent_kubelet_flags isUpgrade cluster (op_OrchestratorVersion orch) (k\<lparr>kc_KubeletConfig := Some cluster\<rparr>) profile)
      (ap_KubernetesConfig profile)\<rparr>) (pools p)"
  using assms
  by (auto simp: setKubeletConfig_def bindR_def Let_def pools_def deref_def split: sum.splits option.splits)

subsection \<open>Flags and feature gates that the version does not have\<close>

definition kubelet_valid :: "string \<Rightarrow> config \<Rightarrow> bool" where
  "kubelet_valid version m \<longleftrightarrow> list_all (\<lambda>key. map_of m key = None) (removed_kubelet_flags version) \<and>
     list_all (\<lambda>g. gates (map_get m feature_gates) g = None) (invalidFeatureGates version)"

lemma removed_kubelet_flags_other:
  "feature_gates \<notin> set (removed_kubelet_flags version)"
  "''--register-with-taints'' \<notin> set (removed_kubelet_flags version)"
  unfolding removed_kubelet_flags_def set_append Un_iff in_opt by (auto simp: feature_gates_def)

lemma kubelet_valid_removed:
  "kubelet_valid version (removeInvalidFeatureGates (removeKubeletFlags m version) (invalidFeatureGates version))"
  using removed_kubelet_flags_other(1) [of version]
  by (auto simp: kubelet_valid_def list_all_iff map_of_removeInvalidFeatureGates removeKubeletFlags_def map_of_delete_all
      map_get_def gates_removeKeys)

lemma kubelet_valid_update:
  "key \<notin> set (removed_kubelet_flags version) \<Longrightarrow> key \<noteq> feature_gates \<Longrightarrow>
     kubelet_valid version (AList.update key v m) = kubelet_valid version m"
  by (auto simp: kubelet_valid_def list_all_iff map_of_update)

lemma kubelet_valid_taint: "kubelet_valid version m \<Longrightarrow> kubelet_valid version (register_taint key taint m)"
  using removed_kubelet_flags_other(2) [of version]
  by (simp add: register_taint_def kubelet_valid_update feature_gates_def split: option.split)

lemma kubelet_valid_flags:
  "kubelet_valid version (cluster_kubelet_flags isUpgrade comps p version k)"
  "kubelet_valid version (master_kubelet_flags isUpgrade cluster p version k master m)"
  "kubelet_valid version (agent_kubelet_flags isUpgrade cluster version k profile m)"
  unfolding cluster_kubelet_flags_def master_kubelet_flags_def agent_kubelet_flags_def Let_def
  by (simp_all add: kubelet_valid_removed kubelet_valid_taint)

text \<open>
  C22: Neither the user's flags nor the ones stored by an earlier version bring a kubelet a flag or a
  feature gate that the version of the cluster has removed, which would keep it from starting; this holds
  for the masters and every pool, in a deployment and in an upgrade.\<close>

theorem kubelets_get_no_removed_flag:
  assumes "setKubeletConfig isUpgrade p = Inr p'" and "p_OrchestratorProfile p' = Some orch"
    and "m \<in> set (all_kubelets p')"
  shows "kubelet_valid (op_OrchestratorVersion orch) m"
proof -
  from assms(1) obtain orch' k comps cluster where
    run: "p_OrchestratorProfile p = Some orch'" "op_KubernetesConfig orch' = Some k"
      "cluster = cluster_kubelet_flags isUpgrade comps p (op_OrchestratorVersion orch') k"
      "p_OrchestratorProfile p' = Some (orch'\<lparr>op_KubernetesConfig := Some (k\<lparr>kc_KubeletConfig := Some cluster\<rparr>)\<rparr>)"
      "p_MasterProfile p' = map_option (\<lambda>master. master\<lparr>mp_KubernetesConfig := set_kubelet_flags
        (master_kubelet_flags isUpgrade cluster p (op_OrchestratorVersion orch') (k\<lparr>kc_KubeletConfig := Some cluster\<rparr>) master)
        (mp_KubernetesConfig master)\<rparr>) (p_MasterProfile p)"
      "pools p' = map (\<lambda>profile. profile\<lparr>ap_KubernetesConfig := set_kubelet_flags
        (agent_kubelet_flags isUpgrade cluster (op_OrchestratorVersion orch') (k\<lparr>kc_KubeletConfig := Some cluster\<rparr>) profile)
        (ap_KubernetesConfig profile)\<rparr>) (pools p)"
    by (rule setKubeletConfig_Inr)
  have "kubelet_flags (Some (k\<lparr>kc_KubeletConfig := Some cluster\<rparr>)) = cluster"
    by (simp add: kubelet_flags_def node_config_def user_flags_def)
  then show ?thesis
    using assms(2,3) run
    by (auto simp: all_kubelets_def cluster_kubelet_def master_kubelet_def pool_kubelets_def kubelet_valid_flags
        split: option.splits)
qed

subsection \<open>Flags that the user may not choose\<close>

text \<open>The flags that the last steps adjust.\<close>

definition adjusted_kubelet_flags :: "string list" where
  "adjusted_kubelet_flags =
     [feature_gates, ''--pod-max-pids'', ''--protect-kernel-defaults'', ''--resolv-conf'', ''--register-with-taints'']"

lemma static_linux_keys:
  "distinct (map fst (staticLinuxKubeletConfig k))"
  "key \<in> fst ` set (staticLinuxKubeletConfig k) \<Longrightarrow> key \<notin> set adjusted_kubelet_flags"
  by (cases "to_Bool (kc_EnableSecureKubelet k)";
      auto simp: staticLinuxKubeletConfig_def secured_flags_def adjusted_kubelet_flags_def feature_gates_def)+

lemma linux_kubelet_keys:
  "distinct (map fst (linux_kubelet_flags k))"
  "key \<in> fst ` set (linux_kubelet_flags k) \<Longrightarrow> key \<notin> set adjusted_kubelet_flags"
proof -
  have keys: "fst ` set (linux_kubelet_flags k) \<subseteq> insert ''--cloud-provider'' (fst ` set (staticLinuxKubeletConfig k))"
    by (simp add: linux_kubelet_flags_def dom_update subset_insertI)
  have "''--cloud-provider'' \<notin> set adjusted_kubelet_flags"
    by (simp add: adjusted_kubelet_flags_def feature_gates_def)
  moreover assume "key \<in> fst ` set (linux_kubelet_flags k)"
  then have "key = ''--cloud-provider'' \<or> key \<in> fst ` set (staticLinuxKubeletConfig k)" using keys by auto
  ultimately show "key \<notin> set adjusted_kubelet_flags" using static_linux_keys(2) [of key k] by metis
next
  show "distinct (map fst (linux_kubelet_flags k))"
    by (simp add: linux_kubelet_flags_def static_linux_keys(1) distinct_update)
qed

lemma adjusted_steps:
  assumes "key \<notin> set adjusted_kubelet_flags"
  shows "map_of (limit_pod_pids isUpgrade version m) key = map_of m key"
    and "map_of (node_settings vhd resolved m) key = map_of m key"
    and "map_of (register_taint k t m) key = map_of m key"
    and "map_of (removeInvalidFeatureGates m gs) key = map_of m key"
    and "map_of (addDefaultFeatureGates m version v d) key = map_of m key"
  using assms
  by (auto simp: adjusted_kubelet_flags_def limit_pod_pids_def node_settings_def register_taint_def map_of_update
      map_of_removeInvalidFeatureGates map_of_addDefaultFeatureGates Let_def split: option.splits prod.splits)

lemma map_of_removeKubeletFlags:
  "map_of (removeKubeletFlags m version) key = (if key \<in> set (removed_kubelet_flags version) then None else map_of m key)"
  by (simp add: removeKubeletFlags_def map_of_delete_all)

lemma agent_kubelet_forced:
  assumes "map_of (linux_kubelet_flags k) key = Some val" and "key \<notin> set (removed_kubelet_flags version)"
    and "\<not> IsWindows profile"
  shows "map_of (agent_kubelet_flags isUpgrade cluster version k profile m) key = Some val"
proof -
  have "key \<notin> set adjusted_kubelet_flags"
    using linux_kubelet_keys(2) [of key k] map_of_SomeD [OF assms(1)] by force
  then show ?thesis
    using assms
    by (simp add: agent_kubelet_flags_def Let_def adjusted_steps map_of_removeKubeletFlags map_of_set_missing map_of_set_all
        linux_kubelet_keys(1) map_add_def)
qed

lemma linux_kubelet_flags_stored [simp]: "linux_kubelet_flags (k\<lparr>kc_KubeletConfig := x\<rparr>) = linux_kubelet_flags k"
  by (simp add: linux_kubelet_flags_def staticLinuxKubeletConfig_def)

text \<open>
  On every Linux pool the flags that the documentation lists as not configurable, anonymous access and
  the authorization mode among them, have the values of the engine whatever the cluster definition says.\<close>

theorem linux_pools_have_the_forced_flags:
  assumes "setKubeletConfig isUpgrade p = Inr p'"
    and "p_OrchestratorProfile p = Some orch" and "op_KubernetesConfig orch = Some k"
    and "map_of (linux_kubelet_flags k) key = Some val" and "key \<notin> set (removed_kubelet_flags (op_OrchestratorVersion orch))"
    and "pool \<in> set (pools p')" and "\<not> IsWindows pool"
  shows "map_of (kubelet_flags (ap_KubernetesConfig pool)) key = Some val"
proof -
  from assms(1) obtain cluster where
    "pools p' = map (\<lambda>profile. profile\<lparr>ap_KubernetesConfig := set_kubelet_flags
      (agent_kubelet_flags isUpgrade cluster (op_OrchestratorVersion orch) (k\<lparr>kc_KubeletConfig := Some cluster\<rparr>) profile)
      (ap_KubernetesConfig profile)\<rparr>) (pools p)"
    by (rule setKubeletConfig_Inr) (use assms(2,3) in auto)
  then show ?thesis
    using assms(4-7) by (auto simp: IsWindows_def intro!: agent_kubelet_forced)
qed

lemma master_kubelet_kept:
  assumes "map_of m key = Some v" and "key \<notin> set (removed_kubelet_flags version)"
    and "key \<notin> set adjusted_kubelet_flags" and "key \<noteq> ''--cloud-provider''" and "key \<noteq> ''--pod-infra-container-image''"
  shows "map_of (master_kubelet_flags isUpgrade cluster p version k master m) key = Some v"
  using assms
  by (simp add: master_kubelet_flags_def force_pause_image_def Let_def adjusted_steps map_of_removeKubeletFlags
      map_of_set_missing map_of_update map_add_def)


subsection \<open>An example\<close>

lemma setKubeletConfig_returns:
  assumes "p_OrchestratorProfile p = Some orch" and "op_KubernetesConfig orch = Some k"
  shows "\<exists>p'. setKubeletConfig isUpgrade p = Inr p'"
  using assms by (simp add: setKubeletConfig_def k8s_components_Inr Let_def)

text \<open>A cluster whose definition asks for anonymous access on the masters and in the pools.\<close>

definition example_node_config :: kubernetes_config where
  "example_node_config = zero_kubernetes_config\<lparr>kc_KubeletConfig :=
     Some [(''--anonymous-auth'', ''true''), (feature_gates, ''PodSecurity=true'')]\<rparr>"

definition example_orch :: orchestrator_profile where
  "example_orch = \<lparr>op_OrchestratorType = Kubernetes, op_OrchestratorVersion = ''1.28.15'',
     op_KubernetesConfig = Some (zero_kubernetes_config\<lparr>kc_EnableSecureKubelet := Some True\<rparr>)\<rparr>"

definition example_nodes :: properties where
  "example_nodes = zero_properties\<lparr>p_OrchestratorProfile := Some example_orch,
     p_MasterProfile := Some (zero_master_profile\<lparr>mp_KubernetesConfig := Some example_node_config\<rparr>),
     p_AgentPoolProfiles := Some [zero_agent_pool_profile\<lparr>ap_OSType := Linux, ap_KubernetesConfig := Some example_node_config\<rparr>]\<rparr>"

definition example_nodes_set :: properties where
  "example_nodes_set = projr (setKubeletConfig False example_nodes)"

lemma example_nodes_set: "setKubeletConfig False example_nodes = Inr example_nodes_set"
  using setKubeletConfig_returns [of example_nodes example_orch _ False]
  by (auto simp: example_nodes_set_def example_nodes_def example_orch_def)

lemma example_nodes_parts:
  "p_OrchestratorProfile example_nodes = Some example_orch"
  "op_KubernetesConfig example_orch = Some (zero_kubernetes_config\<lparr>kc_EnableSecureKubelet := Some True\<rparr>)"
  "op_OrchestratorVersion example_orch = ''1.28.15''"
  "p_MasterProfile example_nodes = Some (zero_master_profile\<lparr>mp_KubernetesConfig := Some example_node_config\<rparr>)"
  by (simp_all add: example_nodes_def example_orch_def)

lemma example_anonymous:
  "''--anonymous-auth'' \<notin> set (removed_kubelet_flags version)" "''--anonymous-auth'' \<notin> set adjusted_kubelet_flags"
proof -
  show "''--anonymous-auth'' \<notin> set (removed_kubelet_flags version)"
    unfolding removed_kubelet_flags_def set_append Un_iff in_opt by simp
  show "''--anonymous-auth'' \<notin> set adjusted_kubelet_flags" by (simp add: adjusted_kubelet_flags_def feature_gates_def)
qed

subsection \<open>Properties\<close>

theorem kubelets_get_no_removed_flag_witness:
  "\<exists>orch. p_OrchestratorProfile example_nodes_set = Some orch \<and>
     list_all (kubelet_valid (op_OrchestratorVersion orch)) (all_kubelets example_nodes_set)"
proof -
  obtain orch where "p_OrchestratorProfile example_nodes_set = Some orch"
    using example_nodes_set by (rule setKubeletConfig_Inr) auto
  then show ?thesis using kubelets_get_no_removed_flag [OF example_nodes_set] unfolding list_all_iff by blast
qed

theorem linux_pools_have_the_forced_flags_witness:
  "list_all (\<lambda>pool. map_of (kubelet_flags (ap_KubernetesConfig pool)) ''--anonymous-auth'' = Some ''false'')
     (filter (\<lambda>pool. \<not> IsWindows pool) (pools example_nodes_set))"
proof -
  have "map_of (linux_kubelet_flags (zero_kubernetes_config\<lparr>kc_EnableSecureKubelet := Some True\<rparr>)) ''--anonymous-auth'' =
      Some ''false''"
    by (simp add: linux_kubelet_flags_def staticLinuxKubeletConfig_def zero_kubernetes_config_def)
  then show ?thesis
    using linux_pools_have_the_forced_flags [OF example_nodes_set example_nodes_parts(1,2) _ example_anonymous(1)]
    unfolding list_all_iff set_filter by blast
qed


end
