(* ===== verification/ClusterConstants.thy ===== *)
theory ClusterConstants
  imports DefaultConstants
begin

section \<open>Constants of the cluster defaults and addons (pkg/api/const.go, pkg/api/common/const.go)\<close>

text \<open>The values that defaults.go, azenvtypes.go, defaults-custom-cloud-profile.go and addons.go name.\<close>

definition AADAdminGroupAddonName :: string where "AADAdminGroupAddonName = ''aad''"

definition ADFSIdentitySystem :: string where "ADFSIdentitySystem = ''adfs''"

definition AKS1604Deprecated :: string where "AKS1604Deprecated = ''aks''"

definition AKS1804Deprecated :: string where "AKS1804Deprecated = ''aks-1804''"

definition AKSDockerEngine :: string where "AKSDockerEngine = ''aks-docker-engine''"

definition AddonModeEnsureExists :: string where "AddonModeEnsureExists = ''EnsureExists''"

definition AddonModeReconcile :: string where "AddonModeReconcile = ''Reconcile''"

definition AntreaAddonName :: string where "AntreaAddonName = ''antrea''"

definition AntreaDefaultInstallCniCmd :: string where "AntreaDefaultInstallCniCmd = ''install_cni''"

definition AntreaDefaultTrafficEncapMode :: string where "AntreaDefaultTrafficEncapMode = ''Encap''"

definition AntreaInstallCniChainCmd :: string where
  "AntreaInstallCniChainCmd = ''install_cni_chaining''"

definition AntreaNetworkPolicyOnlyMode :: string where
  "AntreaNetworkPolicyOnlyMode = ''networkPolicyOnly''"

definition AppGwIngressAddonName :: string where "AppGwIngressAddonName = ''appgw-ingress''"

definition AuditPolicyAddonName :: string where "AuditPolicyAddonName = ''audit-policy''"

definition AzureADIdentitySystem :: string where "AzureADIdentitySystem = ''azure_ad''"

definition AzureCNINetworkMonitorAddonName :: string where
  "AzureCNINetworkMonitorAddonName = ''azure-cni-networkmonitor''"

definition AzureChinaCloud :: string where "AzureChinaCloud = ''AzureChinaCloud''"

definition AzureCloudProviderAddonName :: string where
  "AzureCloudProviderAddonName = ''azure-cloud-provider''"

definition AzureCniPluginVerLinux :: string where "AzureCniPluginVerLinux = ''v1.4.32''"

definition AzureCniPluginVerWindows :: string where "AzureCniPluginVerWindows = ''v1.4.32''"

definition AzureCustomCloudDependenciesLocationChina :: string where
  "AzureCustomCloudDependenciesLocationChina = ''china''"

definition AzureCustomCloudDependenciesLocationGerman :: string where
  "AzureCustomCloudDependenciesLocationGerman = ''german''"

definition AzureCustomCloudDependenciesLocationPublic :: string where
  "AzureCustomCloudDependenciesLocationPublic = ''public''"

definition AzureCustomCloudDependenciesLocationUSGovernment :: string where
  "AzureCustomCloudDependenciesLocationUSGovernment = ''usgovernment''"

definition AzureDiskCSIDriverAddonName :: string where
  "AzureDiskCSIDriverAddonName = ''azuredisk-csi-driver''"

definition AzureGermanCloud :: string where "AzureGermanCloud = ''AzureGermanCloud''"

definition AzurePublicCloud :: string where "AzurePublicCloud = ''AzurePublicCloud''"

definition AzureUSGovernmentCloud :: string where
  "AzureUSGovernmentCloud = ''AzureUSGovernmentCloud''"

definition AzureVnetTelemetryContainerName :: string where
  "AzureVnetTelemetryContainerName = ''azure-vnet-telemetry-daemonset''"

definition BasicLoadBalancerSku :: string where "BasicLoadBalancerSku = ''Basic''"

definition CNIPluginVer :: string where "CNIPluginVer = ''v0.9.1''"

definition CalicoAddonName :: string where "CalicoAddonName = ''calico-daemonset''"

definition CiliumAddonName :: string where "CiliumAddonName = ''cilium''"

definition ClientSecretAuthMethod :: string where "ClientSecretAuthMethod = ''client_secret''"

definition CloudProviderBackoffModeV2 :: string where "CloudProviderBackoffModeV2 = ''v2''"

definition DefaultAADPodIdentityAddonEnabled :: bool where
  "DefaultAADPodIdentityAddonEnabled = False"

definition DefaultAcceleratedNetworking :: bool where "DefaultAcceleratedNetworking = True"

definition DefaultAcceleratedNetworkingWindowsEnabled :: bool where
  "DefaultAcceleratedNetworkingWindowsEnabled = False"

definition DefaultAlwaysPullWindowsPauseImage :: bool where
  "DefaultAlwaysPullWindowsPauseImage = False"

definition DefaultAppGwIngressAddonEnabled :: bool where "DefaultAppGwIngressAddonEnabled = False"

definition DefaultAuditDEnabled :: bool where "DefaultAuditDEnabled = False"

definition DefaultAzureArcOnboardingAddonEnabled :: bool where
  "DefaultAzureArcOnboardingAddonEnabled = False"

definition DefaultAzureDiskCSIDriverAddonEnabled :: bool where
  "DefaultAzureDiskCSIDriverAddonEnabled = True"

definition DefaultAzureFileCSIDriverAddonEnabled :: bool where
  "DefaultAzureFileCSIDriverAddonEnabled = False"

definition DefaultAzurePolicyAddonEnabled :: bool where "DefaultAzurePolicyAddonEnabled = False"

definition DefaultAzureStackAcceleratedNetworking :: bool where
  "DefaultAzureStackAcceleratedNetworking = False"

definition DefaultAzureStackAvailabilityProfile :: string where
  "DefaultAzureStackAvailabilityProfile = AvailabilitySet"

definition DefaultAzureStackDeployTelemetryPID :: string where
  "DefaultAzureStackDeployTelemetryPID = ''pid-1bda96ec-adf4-4eea-bb9a-8462de5475c0''"

definition DefaultAzureStackFaultDomainCount :: int where "DefaultAzureStackFaultDomainCount = 3"

definition DefaultAzureStackKubernetesCloudProviderBackoffDuration :: int where
  "DefaultAzureStackKubernetesCloudProviderBackoffDuration = 30"

definition DefaultAzureStackKubernetesCloudProviderBackoffExponent :: rat where
  "DefaultAzureStackKubernetesCloudProviderBackoffExponent = 3 / 2"

definition DefaultAzureStackKubernetesCloudProviderBackoffJitter :: rat where
  "DefaultAzureStackKubernetesCloudProviderBackoffJitter = 1"

definition DefaultAzureStackKubernetesCloudProviderBackoffRetries :: int where
  "DefaultAzureStackKubernetesCloudProviderBackoffRetries = 1"

definition DefaultAzureStackKubernetesCloudProviderRateLimitBucket :: int where
  "DefaultAzureStackKubernetesCloudProviderRateLimitBucket = 150"

definition DefaultAzureStackKubernetesCloudProviderRateLimitBucketWrite :: int where
  "DefaultAzureStackKubernetesCloudProviderRateLimitBucketWrite = 30"

definition DefaultAzureStackKubernetesCloudProviderRateLimitQPS :: rat where
  "DefaultAzureStackKubernetesCloudProviderRateLimitQPS = 100"

definition DefaultAzureStackKubernetesCloudProviderRateLimitQPSWrite :: rat where
  "DefaultAzureStackKubernetesCloudProviderRateLimitQPSWrite = 25"

definition DefaultAzureStackLoadBalancerSku :: string where
  "DefaultAzureStackLoadBalancerSku = BasicLoadBalancerSku"

definition DefaultAzureStackScaleTelemetryPID :: string where
  "DefaultAzureStackScaleTelemetryPID = ''pid-bbbafa53-d6a7-4022-84a2-86fcbaec7030''"

definition DefaultAzureStackUpgradeTelemetryPID :: string where
  "DefaultAzureStackUpgradeTelemetryPID = ''pid-0d9b5198-7cd7-4252-a890-5658eaf874be''"

definition DefaultAzureStackUseInstanceMetadata :: bool where
  "DefaultAzureStackUseInstanceMetadata = False"

definition DefaultClusterAutoscalerAddonEnabled :: bool where
  "DefaultClusterAutoscalerAddonEnabled = False"

definition DefaultContainerRuntime :: string where "DefaultContainerRuntime = Docker"

definition DefaultContainerdVersion :: string where "DefaultContainerdVersion = ''1.6.36''"

definition DefaultCoreDNSAddonEnabled :: bool where "DefaultCoreDNSAddonEnabled = True"

definition DefaultDashboardAddonEnabled :: bool where "DefaultDashboardAddonEnabled = False"

definition DefaultDockerBridgeSubnet :: string where "DefaultDockerBridgeSubnet = ''172.17.0.1/16''"

definition DefaultEnableCSIProxyWindows :: bool where "DefaultEnableCSIProxyWindows = False"

definition DefaultEnableUnattendedUpgrades :: bool where "DefaultEnableUnattendedUpgrades = True"

definition DefaultEnableUnattendedUpgradesAzureStack :: bool where
  "DefaultEnableUnattendedUpgradesAzureStack = True"

definition DefaultEnableVMSSNodePublicIP :: bool where "DefaultEnableVMSSNodePublicIP = False"

definition DefaultEtcdDiskSize :: string where "DefaultEtcdDiskSize = ''256''"

definition DefaultEtcdDiskSizeGT10Nodes :: string where "DefaultEtcdDiskSizeGT10Nodes = ''1024''"

definition DefaultEtcdDiskSizeGT20Nodes :: string where "DefaultEtcdDiskSizeGT20Nodes = ''2048''"

definition DefaultEtcdDiskSizeGT3Nodes :: string where "DefaultEtcdDiskSizeGT3Nodes = ''512''"

definition DefaultEtcdStorageLimitGB :: int where "DefaultEtcdStorageLimitGB = 2"

definition DefaultEtcdVersion :: string where "DefaultEtcdVersion = ''3.3.25''"

definition DefaultEth0MTU :: int where "DefaultEth0MTU = 1500"

definition DefaultExcludeMasterFromStandardLB :: bool where
  "DefaultExcludeMasterFromStandardLB = True"

definition DefaultExtensionsRootURL :: string where
  "DefaultExtensionsRootURL = ''https://raw.githubusercontent.com/Azure/aks-engine/master/''"

definition DefaultFirstConsecutiveKubernetesStaticIP :: string where
  "DefaultFirstConsecutiveKubernetesStaticIP = ''10.240.255.5''"

definition DefaultFirstConsecutiveKubernetesStaticIPVMSS :: string where
  "DefaultFirstConsecutiveKubernetesStaticIPVMSS = ''10.240.0.4''"

definition DefaultIPMasqAgentAddonEnabled :: bool where "DefaultIPMasqAgentAddonEnabled = True"

definition DefaultInternalLbStaticIPOffset :: int where "DefaultInternalLbStaticIPOffset = 10"

definition DefaultJumpboxDiskSize :: int where "DefaultJumpboxDiskSize = 30"

definition DefaultJumpboxUsername :: string where "DefaultJumpboxUsername = ''azureuser''"

definition DefaultKubeDNSAddonEnabled :: bool where "DefaultKubeDNSAddonEnabled = False"

definition DefaultKubeProxyAddonEnabled :: bool where "DefaultKubeProxyAddonEnabled = True"

definition KubeProxyModeIPTables :: string where "KubeProxyModeIPTables = ''iptables''"

definition DefaultKubeProxyMode :: string where "DefaultKubeProxyMode = KubeProxyModeIPTables"

definition DefaultKubernetesAgentSubnetVMSS :: string where
  "DefaultKubernetesAgentSubnetVMSS = ''10.248.0.0/13''"

definition DefaultKubernetesCloudProviderRateLimit :: bool where
  "DefaultKubernetesCloudProviderRateLimit = True"

definition DefaultKubernetesClusterDomain :: string where
  "DefaultKubernetesClusterDomain = ''cluster.local''"

definition DefaultKubernetesClusterSubnet :: string where
  "DefaultKubernetesClusterSubnet = ''10.244.0.0/16''"

definition DefaultKubernetesClusterSubnetIPv6 :: string where
  "DefaultKubernetesClusterSubnetIPv6 = ''fc00::/48''"

definition DefaultKubernetesDNSServiceIP :: string where
  "DefaultKubernetesDNSServiceIP = ''10.0.0.10''"

definition DefaultKubernetesDNSServiceIPv6 :: string where
  "DefaultKubernetesDNSServiceIPv6 = ''fd00::10''"

definition DefaultKubernetesFirstConsecutiveStaticIPOffset :: int where
  "DefaultKubernetesFirstConsecutiveStaticIPOffset = 5"

definition DefaultKubernetesFirstConsecutiveStaticIPOffsetVMSS :: int where
  "DefaultKubernetesFirstConsecutiveStaticIPOffsetVMSS = 4"

definition DefaultKubernetesMasterSubnet :: string where
  "DefaultKubernetesMasterSubnet = ''10.240.0.0/16''"

definition DefaultKubernetesMasterSubnetIPv6 :: string where
  "DefaultKubernetesMasterSubnetIPv6 = ''2001:1234:5678:9abc::/64''"

definition DefaultKubernetesServiceCIDR :: string where
  "DefaultKubernetesServiceCIDR = ''10.0.0.0/16''"

definition DefaultKubernetesServiceCIDRIPv6 :: string where
  "DefaultKubernetesServiceCIDRIPv6 = ''fd00::/108''"

definition DefaultKubernetesSubnet :: string where "DefaultKubernetesSubnet = ''10.240.0.0/12''"

definition DefaultMaximumLoadBalancerRuleCount :: int where
  "DefaultMaximumLoadBalancerRuleCount = 250"

definition DefaultMetricsServerAddonEnabled :: bool where "DefaultMetricsServerAddonEnabled = True"

definition DefaultMicrosoftAptRepositoryURL :: string where
  "DefaultMicrosoftAptRepositoryURL = ''https://packages.microsoft.com''"

definition DefaultMobyVersion :: string where "DefaultMobyVersion = ''20.10.14''"

definition DefaultNetworkPlugin :: string where "DefaultNetworkPlugin = NetworkPluginKubenet"

definition DefaultNetworkPluginWindows :: string where
  "DefaultNetworkPluginWindows = NetworkPluginKubenet"

definition DefaultNetworkPolicy :: string where "DefaultNetworkPolicy = ''''"

definition DefaultNodeProblemDetectorAddonEnabled :: bool where
  "DefaultNodeProblemDetectorAddonEnabled = False"

definition DefaultOutboundRuleIdleTimeoutInMinutes :: int where
  "DefaultOutboundRuleIdleTimeoutInMinutes = 30"

definition DefaultPrivateClusterEnabled :: bool where "DefaultPrivateClusterEnabled = False"

definition DefaultPrivateClusterHostsConfigAgentEnabled :: bool where
  "DefaultPrivateClusterHostsConfigAgentEnabled = False"

definition DefaultRBACEnabled :: bool where "DefaultRBACEnabled = True"

definition DefaultRunUnattendedUpgradesOnBootstrap :: bool where
  "DefaultRunUnattendedUpgradesOnBootstrap = True"

definition DefaultRunUnattendedUpgradesOnBootstrapAzureStack :: bool where
  "DefaultRunUnattendedUpgradesOnBootstrapAzureStack = False"

definition DefaultSMBFlexVolumeAddonEnabled :: bool where "DefaultSMBFlexVolumeAddonEnabled = False"

definition DefaultSecretStoreCSIDriverAddonEnabled :: bool where
  "DefaultSecretStoreCSIDriverAddonEnabled = False"

definition DefaultSecureKubeletEnabled :: bool where "DefaultSecureKubeletEnabled = True"

definition DefaultSinglePlacementGroup :: bool where "DefaultSinglePlacementGroup = True"

definition DefaultTillerAddonEnabled :: bool where "DefaultTillerAddonEnabled = False"

definition DefaultTillerMaxHistory :: int where "DefaultTillerMaxHistory = 0"

definition DefaultUseCosmos :: bool where "DefaultUseCosmos = False"

definition DefaultUseInstanceMetadata :: bool where "DefaultUseInstanceMetadata = True"

definition DefaultVMSSOverProvisioningEnabled :: bool where
  "DefaultVMSSOverProvisioningEnabled = False"

definition DefaultWindowsContainerdURL :: string where
  "DefaultWindowsContainerdURL = ''https://mobyartifacts.azureedge.net/moby/moby-containerd/1.6.36+azure/windows/windows_amd64/moby-containerd-1.6.36+azure-u1.amd64.zip''"

definition DefaultWindowsCsiProxyVersion :: string where
  "DefaultWindowsCsiProxyVersion = ''v1.1.3''"

definition DefaultWindowsProvisioningScriptsPackageVersion :: string where
  "DefaultWindowsProvisioningScriptsPackageVersion = ''v0.0.18''"

definition DefaultWindowsSSHEnabled :: bool where "DefaultWindowsSSHEnabled = True"

definition FlannelAddonName :: string where "FlannelAddonName = ''flannel''"

definition MaxAgentCount :: int where "MaxAgentCount = 1000"

definition MaxAzureStackManagedDiskSize :: string where "MaxAzureStackManagedDiskSize = ''1023''"

definition MinCloudProviderQPSToBucketFactor :: rat where
  "MinCloudProviderQPSToBucketFactor = 1 / 10"

definition NetworkModeTransparent :: string where "NetworkModeTransparent = ''transparent''"

definition NetworkPluginCilium :: string where "NetworkPluginCilium = NetworkPolicyCilium"

definition NetworkPolicyAntrea :: string where "NetworkPolicyAntrea = NetworkPluginAntrea"

definition NetworkPolicyAzure :: string where "NetworkPolicyAzure = ''azure''"

definition NetworkPolicyNone :: string where "NetworkPolicyNone = ''none''"

definition ScaleSetEvictionPolicyDelete :: string where "ScaleSetEvictionPolicyDelete = ''Delete''"

definition ScheduledMaintenanceAddonName :: string where
  "ScheduledMaintenanceAddonName = ''scheduled-maintenance''"

definition SecretsStoreCSIDriverAddonName :: string where
  "SecretsStoreCSIDriverAddonName = ''csi-secrets-store''"

definition VHDDiskSizeAKS :: int where "VHDDiskSizeAKS = 30"

definition WindowsPauseImageVersion :: string where "WindowsPauseImageVersion = ''3.8''"

lemmas cluster_consts =
  AADAdminGroupAddonName_def
  ADFSIdentitySystem_def
  AKS1604Deprecated_def
  AKS1804Deprecated_def
  AKSDockerEngine_def
  AddonModeEnsureExists_def
  AddonModeReconcile_def
  AntreaAddonName_def
  AntreaDefaultInstallCniCmd_def
  AntreaDefaultTrafficEncapMode_def
  AntreaInstallCniChainCmd_def
  AntreaNetworkPolicyOnlyMode_def
  AppGwIngressAddonName_def
  AuditPolicyAddonName_def
  AzureADIdentitySystem_def
  AzureCNINetworkMonitorAddonName_def
  AzureChinaCloud_def
  AzureCloudProviderAddonName_def
  AzureCniPluginVerLinux_def
  AzureCniPluginVerWindows_def
  AzureCustomCloudDependenciesLocationChina_def
  AzureCustomCloudDependenciesLocationGerman_def
  AzureCustomCloudDependenciesLocationPublic_def
  AzureCustomCloudDependenciesLocationUSGovernment_def
  AzureDiskCSIDriverAddonName_def
  AzureGermanCloud_def
  AzurePublicCloud_def
  AzureUSGovernmentCloud_def
  AzureVnetTelemetryContainerName_def
  BasicLoadBalancerSku_def
  CNIPluginVer_def
  CalicoAddonName_def
  CiliumAddonName_def
  ClientSecretAuthMethod_def
  CloudProviderBackoffModeV2_def
  DefaultAADPodIdentityAddonEnabled_def
  DefaultAcceleratedNetworking_def
  DefaultAcceleratedNetworkingWindowsEnabled_def
  DefaultAlwaysPullWindowsPauseImage_def
  DefaultAppGwIngressAddonEnabled_def
  DefaultAuditDEnabled_def
  DefaultAzureArcOnboardingAddonEnabled_def
  DefaultAzureDiskCSIDriverAddonEnabled_def
  DefaultAzureFileCSIDriverAddonEnabled_def
  DefaultAzurePolicyAddonEnabled_def
  DefaultAzureStackAcceleratedNetworking_def
  DefaultAzureStackAvailabilityProfile_def
  DefaultAzureStackDeployTelemetryPID_def
  DefaultAzureStackFaultDomainCount_def
  DefaultAzureStackKubernetesCloudProviderBackoffDuration_def
  DefaultAzureStackKubernetesCloudProviderBackoffExponent_def
  DefaultAzureStackKubernetesCloudProviderBackoffJitter_def
  DefaultAzureStackKubernetesCloudProviderBackoffRetries_def
  DefaultAzureStackKubernetesCloudProviderRateLimitBucket_def
  DefaultAzureStackKubernetesCloudProviderRateLimitBucketWrite_def
  DefaultAzureStackKubernetesCloudProviderRateLimitQPS_def
  DefaultAzureStackKubernetesCloudProviderRateLimitQPSWrite_def
  DefaultAzureStackLoadBalancerSku_def
  DefaultAzureStackScaleTelemetryPID_def
  DefaultAzureStackUpgradeTelemetryPID_def
  DefaultAzureStackUseInstanceMetadata_def
  DefaultClusterAutoscalerAddonEnabled_def
  DefaultContainerRuntime_def
  DefaultContainerdVersion_def
  DefaultCoreDNSAddonEnabled_def
  DefaultDashboardAddonEnabled_def
  DefaultDockerBridgeSubnet_def
  DefaultEnableCSIProxyWindows_def
  DefaultEnableUnattendedUpgrades_def
  DefaultEnableUnattendedUpgradesAzureStack_def
  DefaultEnableVMSSNodePublicIP_def
  DefaultEtcdDiskSize_def
  DefaultEtcdDiskSizeGT10Nodes_def
  DefaultEtcdDiskSizeGT20Nodes_def
  DefaultEtcdDiskSizeGT3Nodes_def
  DefaultEtcdStorageLimitGB_def
  DefaultEtcdVersion_def
  DefaultEth0MTU_def
  DefaultExcludeMasterFromStandardLB_def
  DefaultExtensionsRootURL_def
  DefaultFirstConsecutiveKubernetesStaticIP_def
  DefaultFirstConsecutiveKubernetesStaticIPVMSS_def
  DefaultIPMasqAgentAddonEnabled_def
  DefaultInternalLbStaticIPOffset_def
  DefaultJumpboxDiskSize_def
  DefaultJumpboxUsername_def
  DefaultKubeDNSAddonEnabled_def
  DefaultKubeProxyAddonEnabled_def
  KubeProxyModeIPTables_def
  DefaultKubeProxyMode_def
  DefaultKubernetesAgentSubnetVMSS_def
  DefaultKubernetesCloudProviderRateLimit_def
  DefaultKubernetesClusterDomain_def
  DefaultKubernetesClusterSubnet_def
  DefaultKubernetesClusterSubnetIPv6_def
  DefaultKubernetesDNSServiceIP_def
  DefaultKubernetesDNSServiceIPv6_def
  DefaultKubernetesFirstConsecutiveStaticIPOffset_def
  DefaultKubernetesFirstConsecutiveStaticIPOffsetVMSS_def
  DefaultKubernetesMasterSubnet_def
  DefaultKubernetesMasterSubnetIPv6_def
  DefaultKubernetesServiceCIDR_def
  DefaultKubernetesServiceCIDRIPv6_def
  DefaultKubernetesSubnet_def
  DefaultMaximumLoadBalancerRuleCount_def
  DefaultMetricsServerAddonEnabled_def
  DefaultMicrosoftAptRepositoryURL_def
  DefaultMobyVersion_def
  DefaultNetworkPlugin_def
  DefaultNetworkPluginWindows_def
  DefaultNetworkPolicy_def
  DefaultNodeProblemDetectorAddonEnabled_def
  DefaultOutboundRuleIdleTimeoutInMinutes_def
  DefaultPrivateClusterEnabled_def
  DefaultPrivateClusterHostsConfigAgentEnabled_def
  DefaultRBACEnabled_def
  DefaultRunUnattendedUpgradesOnBootstrap_def
  DefaultRunUnattendedUpgradesOnBootstrapAzureStack_def
  DefaultSMBFlexVolumeAddonEnabled_def
  DefaultSecretStoreCSIDriverAddonEnabled_def
  DefaultSecureKubeletEnabled_def
  DefaultSinglePlacementGroup_def
  DefaultTillerAddonEnabled_def
  DefaultTillerMaxHistory_def
  DefaultUseCosmos_def
  DefaultUseInstanceMetadata_def
  DefaultVMSSOverProvisioningEnabled_def
  DefaultWindowsContainerdURL_def
  DefaultWindowsCsiProxyVersion_def
  DefaultWindowsProvisioningScriptsPackageVersion_def
  DefaultWindowsSSHEnabled_def
  FlannelAddonName_def
  MaxAgentCount_def
  MaxAzureStackManagedDiskSize_def
  MinCloudProviderQPSToBucketFactor_def
  NetworkModeTransparent_def
  NetworkPluginCilium_def
  NetworkPolicyAntrea_def
  NetworkPolicyAzure_def
  NetworkPolicyNone_def
  ScaleSetEvictionPolicyDelete_def
  ScheduledMaintenanceAddonName_def
  SecretsStoreCSIDriverAddonName_def
  VHDDiskSizeAKS_def
  WindowsPauseImageVersion_def

end
