(* ===== verification/CloudSpecs.thy ===== *)
theory CloudSpecs
  imports ClusterConstants DefaultsControlPlane
begin

section \<open>Settings of the clouds (pkg/api/azenvtypes.go, pkg/api/defaults-custom-cloud-profile.go)\<close>

text \<open>
  The image sources, download addresses and images of each cloud, in the order of the file. The program
  keeps them in a map by cloud name that a custom cloud adds itself to; the map is an argument here.
\<close>

subsection \<open>The tables\<close>

definition DefaultKubernetesSpecConfig :: kubernetes_spec_config where
  "DefaultKubernetesSpecConfig =
     (zero_kubernetes_spec_config\<lparr>ks_KubernetesImageBase := ''registry.k8s.io/'',
     ks_TillerImageBase := ''mcr.microsoft.com/'',
     ks_NVIDIAImageBase := ''mcr.microsoft.com/'',
     ks_CalicoImageBase := ''mcr.microsoft.com/oss/calico/'',
     ks_AzureCNIImageBase := ''mcr.microsoft.com/containernetworking/'',
     ks_MCRKubernetesImageBase := ''mcr.microsoft.com/'',
     ks_EtcdDownloadURLBase := ''mcr.microsoft.com/oss/etcd-io/'',
     ks_KubeBinariesSASURLBase := ''https://kubernetesartifacts.azureedge.net/kubernetes/'',
     ks_WindowsTelemetryGUID := ''fb801154-36b9-41bc-89c2-f4d4f05472b0'',
     ks_CNIPluginsDownloadURL := ''https://kubernetesartifacts.azureedge.net/cni-plugins/'' @ CNIPluginVer @ ''/binaries/cni-plugins-linux-amd64-'' @ CNIPluginVer @ ''.tgz'',
     ks_VnetCNILinuxPluginsDownloadURL := ''https://kubernetesartifacts.azureedge.net/azure-cni/'' @ AzureCniPluginVerLinux @ ''/binaries/azure-vnet-cni-linux-amd64-'' @ AzureCniPluginVerLinux @ ''.tgz'',
     ks_VnetCNIWindowsPluginsDownloadURL := ''https://kubernetesartifacts.azureedge.net/azure-cni/'' @ AzureCniPluginVerWindows @ ''/binaries/azure-vnet-cni-singletenancy-windows-amd64-'' @ AzureCniPluginVerWindows @ ''.zip'',
     ks_ContainerdDownloadURLBase := ''https://storage.googleapis.com/cri-containerd-release/'',
     ks_CSIProxyDownloadURL := ''https://kubernetesartifacts.azureedge.net/csi-proxy/'' @ DefaultWindowsCsiProxyVersion @ ''/binaries/csi-proxy-'' @ DefaultWindowsCsiProxyVersion @ ''.tar.gz'',
     ks_WindowsProvisioningScriptsPackageURL := ''https://akseashartifacts.blob.core.windows.net/windows/provisioning/signedscripts-'' @ DefaultWindowsProvisioningScriptsPackageVersion @ ''.zip'',
     ks_WindowsPauseImageURL := ''mcr.microsoft.com/oss/kubernetes/pause:'' @ WindowsPauseImageVersion,
     ks_AlwaysPullWindowsPauseImage := DefaultAlwaysPullWindowsPauseImage\<rparr>)"

definition Ubuntu1604OSImageConfig :: azure_os_image_config where
  "Ubuntu1604OSImageConfig =
     (zero_azure_os_image_config\<lparr>oi_ImageOffer := ''UbuntuServer'',
     oi_ImageSku := ''16.04-LTS'',
     oi_ImagePublisher := ''Canonical'',
     oi_ImageVersion := ''latest''\<rparr>)"

definition Ubuntu1804OSImageConfig :: azure_os_image_config where
  "Ubuntu1804OSImageConfig =
     (zero_azure_os_image_config\<lparr>oi_ImageOffer := ''UbuntuServer'',
     oi_ImageSku := ''18.04-LTS'',
     oi_ImagePublisher := ''Canonical'',
     oi_ImageVersion := ''latest''\<rparr>)"

definition Ubuntu2004OSImageConfig :: azure_os_image_config where
  "Ubuntu2004OSImageConfig =
     (zero_azure_os_image_config\<lparr>oi_ImageOffer := ''0001-com-ubuntu-server-focal'',
     oi_ImageSku := ''20_04-lts'',
     oi_ImagePublisher := ''Canonical'',
     oi_ImageVersion := ''latest''\<rparr>)"

definition Ubuntu2204OSImageConfig :: azure_os_image_config where
  "Ubuntu2204OSImageConfig =
     (zero_azure_os_image_config\<lparr>oi_ImageOffer := ''0001-com-ubuntu-server-jammy'',
     oi_ImageSku := ''22_04-lts'',
     oi_ImagePublisher := ''Canonical'',
     oi_ImageVersion := ''latest''\<rparr>)"

definition Ubuntu1804Gen2OSImageConfig :: azure_os_image_config where
  "Ubuntu1804Gen2OSImageConfig =
     (zero_azure_os_image_config\<lparr>oi_ImageOffer := ''UbuntuServer'',
     oi_ImageSku := ''18_04-lts-gen2'',
     oi_ImagePublisher := ''Canonical'',
     oi_ImageVersion := ''latest''\<rparr>)"

definition FlatcarImageConfig :: azure_os_image_config where
  "FlatcarImageConfig =
     (zero_azure_os_image_config\<lparr>oi_ImageOffer := ''flatcar-container-linux-free'',
     oi_ImageSku := ''stable'',
     oi_ImagePublisher := ''kinvolk'',
     oi_ImageVersion := ''latest''\<rparr>)"

definition AKSUbuntu1604OSImageConfig :: azure_os_image_config where
  "AKSUbuntu1604OSImageConfig =
     (zero_azure_os_image_config\<lparr>oi_ImageOffer := ''aks'',
     oi_ImageSku := ''aks-engine-ubuntu-1604-202007'',
     oi_ImagePublisher := ''microsoft-aks'',
     oi_ImageVersion := ''2021.04.13''\<rparr>)"

definition AKSUbuntu1804OSImageConfig :: azure_os_image_config where
  "AKSUbuntu1804OSImageConfig =
     (zero_azure_os_image_config\<lparr>oi_ImageOffer := ''aks'',
     oi_ImageSku := ''aks-engine-ubuntu-1804-202112'',
     oi_ImagePublisher := ''microsoft-aks'',
     oi_ImageVersion := ''2023.01.10''\<rparr>)"

definition AKSUbuntu2004OSImageConfig :: azure_os_image_config where
  "AKSUbuntu2004OSImageConfig =
     (zero_azure_os_image_config\<lparr>oi_ImageOffer := ''aks'',
     oi_ImageSku := ''aks-engine-azurestack-ubuntu-2004'',
     oi_ImagePublisher := ''microsoft-aks'',
     oi_ImageVersion := ''2024.311.1''\<rparr>)"

definition AKSUbuntu2204OSImageConfig :: azure_os_image_config where
  "AKSUbuntu2204OSImageConfig =
     (zero_azure_os_image_config\<lparr>oi_ImageOffer := ''aks'',
     oi_ImageSku := ''aks-engine-azurestack-ubuntu-2204'',
     oi_ImagePublisher := ''microsoft-aks'',
     oi_ImageVersion := ''2024.032.1''\<rparr>)"

definition AKSWindowsServer2019OSImageConfig :: azure_os_image_config where
  "AKSWindowsServer2019OSImageConfig =
     (zero_azure_os_image_config\<lparr>oi_ImageOffer := ''aks-windows'',
     oi_ImageSku := ''2019-datacenter-core-azurestack-smalldisk'',
     oi_ImagePublisher := ''microsoft-aks'',
     oi_ImageVersion := ''17763.3887.20230332''\<rparr>)"

definition AKSWindowsServer2019ContainerDOSImageConfig :: azure_os_image_config where
  "AKSWindowsServer2019ContainerDOSImageConfig =
     (zero_azure_os_image_config\<lparr>oi_ImageOffer := ''aks-windows'',
     oi_ImageSku := ''2019-datacenter-core-azurestack-ctrd'',
     oi_ImagePublisher := ''microsoft-aks'',
     oi_ImageVersion := ''17763.6414.20243111''\<rparr>)"

definition WindowsServer2019OSImageConfig :: azure_os_image_config where
  "WindowsServer2019OSImageConfig =
     (zero_azure_os_image_config\<lparr>oi_ImageOffer := ''WindowsServer'',
     oi_ImageSku := ''2019-Datacenter-Core-with-Containers-smalldisk'',
     oi_ImagePublisher := ''MicrosoftWindowsServer'',
     oi_ImageVersion := ''17763.3650.221105''\<rparr>)"

definition ACC1604OSImageConfig :: azure_os_image_config where
  "ACC1604OSImageConfig =
     (zero_azure_os_image_config\<lparr>oi_ImageOffer := ''confidential-compute-preview'',
     oi_ImageSku := ''16.04-LTS'',
     oi_ImagePublisher := ''Canonical'',
     oi_ImageVersion := ''latest''\<rparr>)"

definition AzureCloudSpec :: azure_environment_spec_config where
  "AzureCloudSpec =
     (zero_azure_environment_spec_config\<lparr>es_CloudName := AzurePublicCloud,
     es_KubernetesSpecConfig := DefaultKubernetesSpecConfig,
     es_EndpointConfig := (zero_azure_endpoint_config\<lparr>ec_ResourceManagerVMDNSSuffix := ''cloudapp.azure.com''\<rparr>),
     es_OSImageConfig := Some
       [(Ubuntu, Ubuntu1604OSImageConfig),
        (Ubuntu1804, Ubuntu1804OSImageConfig),
        (Ubuntu1804Gen2, Ubuntu1804Gen2OSImageConfig),
        (Ubuntu2004, Ubuntu2004OSImageConfig),
        (Ubuntu2204, Ubuntu2204OSImageConfig),
        (Flatcar, FlatcarImageConfig),
        (AKSUbuntu1604, AKSUbuntu1604OSImageConfig),
        (AKS1604Deprecated, AKSUbuntu1604OSImageConfig),
        (AKSUbuntu1804, AKSUbuntu1804OSImageConfig),
        (AKS1804Deprecated, AKSUbuntu1804OSImageConfig),
        (AKSUbuntu2004, AKSUbuntu2004OSImageConfig),
        (AKSUbuntu2204, AKSUbuntu2204OSImageConfig),
        (ACC1604, ACC1604OSImageConfig)]\<rparr>)"

definition AzureGermanCloudSpec :: azure_environment_spec_config where
  "AzureGermanCloudSpec =
     (zero_azure_environment_spec_config\<lparr>es_CloudName := AzureGermanCloud,
     es_KubernetesSpecConfig := DefaultKubernetesSpecConfig,
     es_EndpointConfig := (zero_azure_endpoint_config\<lparr>ec_ResourceManagerVMDNSSuffix := ''cloudapp.microsoftazure.de''\<rparr>),
     es_OSImageConfig := Some
       [(Ubuntu, Ubuntu1604OSImageConfig),
        (Ubuntu1804, Ubuntu1804OSImageConfig),
        (Ubuntu1804Gen2, Ubuntu1804Gen2OSImageConfig),
        (Ubuntu2004, Ubuntu2004OSImageConfig),
        (Ubuntu2204, Ubuntu2204OSImageConfig),
        (Flatcar, FlatcarImageConfig),
        (AKSUbuntu1604, Ubuntu1604OSImageConfig),
        (AKS1604Deprecated, Ubuntu1604OSImageConfig),
        (AKSUbuntu1804, Ubuntu1604OSImageConfig),
        (AKS1804Deprecated, Ubuntu1604OSImageConfig),
        (AKSUbuntu2004, AKSUbuntu2004OSImageConfig),
        (AKSUbuntu2204, AKSUbuntu2204OSImageConfig)]\<rparr>)"

definition AzureUSGovernmentCloudSpec :: azure_environment_spec_config where
  "AzureUSGovernmentCloudSpec =
     (zero_azure_environment_spec_config\<lparr>es_CloudName := AzureUSGovernmentCloud,
     es_KubernetesSpecConfig := DefaultKubernetesSpecConfig,
     es_EndpointConfig := (zero_azure_endpoint_config\<lparr>ec_ResourceManagerVMDNSSuffix := ''cloudapp.usgovcloudapi.net''\<rparr>),
     es_OSImageConfig := Some
       [(Ubuntu, Ubuntu1604OSImageConfig),
        (Ubuntu1804, Ubuntu1804OSImageConfig),
        (Ubuntu1804Gen2, Ubuntu1804Gen2OSImageConfig),
        (Ubuntu2004, Ubuntu2004OSImageConfig),
        (Ubuntu2204, Ubuntu2204OSImageConfig),
        (Flatcar, FlatcarImageConfig),
        (AKSUbuntu1604, AKSUbuntu1604OSImageConfig),
        (AKS1604Deprecated, AKSUbuntu1604OSImageConfig),
        (AKSUbuntu1804, AKSUbuntu1804OSImageConfig),
        (AKS1804Deprecated, AKSUbuntu1804OSImageConfig),
        (AKSUbuntu2004, AKSUbuntu2004OSImageConfig),
        (AKSUbuntu2204, AKSUbuntu2204OSImageConfig)]\<rparr>)"

definition AzureChinaCloudSpec :: azure_environment_spec_config where
  "AzureChinaCloudSpec =
     (zero_azure_environment_spec_config\<lparr>es_CloudName := AzureChinaCloud,
     es_KubernetesSpecConfig := (zero_kubernetes_spec_config\<lparr>ks_KubernetesImageBase := ''gcr.azk8s.cn/google_containers/'',
       ks_TillerImageBase := ''mcr.microsoft.com/'',
       ks_NVIDIAImageBase := ''mcr.microsoft.com/'',
       ks_AzureCNIImageBase := ''mcr.azk8s.cn/containernetworking/'',
       ks_MCRKubernetesImageBase := ''mcr.microsoft.com/'',
       ks_CalicoImageBase := ''dockerhub.azk8s.cn/calico/'',
       ks_EtcdDownloadURLBase := ''mcr.microsoft.com/oss/etcd-io/'',
       ks_KubeBinariesSASURLBase := ks_KubeBinariesSASURLBase DefaultKubernetesSpecConfig,
       ks_WindowsTelemetryGUID := ks_WindowsTelemetryGUID DefaultKubernetesSpecConfig,
       ks_CNIPluginsDownloadURL := ''https://mirror.azk8s.cn/kubernetes/containernetworking-plugins/cni-plugins-linux-amd64-'' @ CNIPluginVer @ ''.tgz'',
       ks_VnetCNILinuxPluginsDownloadURL := ''https://mirror.azk8s.cn/azure-cni/'' @ AzureCniPluginVerLinux @ ''/binaries/azure-vnet-cni-linux-amd64-'' @ AzureCniPluginVerLinux @ ''.tgz'',
       ks_VnetCNIWindowsPluginsDownloadURL := ''https://mirror.azk8s.cn/azure-cni/'' @ AzureCniPluginVerWindows @ ''/binaries/azure-vnet-cni-singletenancy-windows-amd64-'' @ AzureCniPluginVerWindows @ ''.zip'',
       ks_ContainerdDownloadURLBase := ''https://mirror.azk8s.cn/kubernetes/containerd/'',
       ks_CSIProxyDownloadURL := ''https://mirror.azk8s.cn/csi-proxy/'' @ DefaultWindowsCsiProxyVersion @ ''/binaries/csi-proxy-'' @ DefaultWindowsCsiProxyVersion @ ''.tar.gz'',
       ks_WindowsProvisioningScriptsPackageURL := ''https://akseashartifacts.blob.core.windows.net/windows/provisioning/signedscripts-'' @ DefaultWindowsProvisioningScriptsPackageVersion @ ''.zip'',
       ks_WindowsPauseImageURL := ''mcr.microsoft.com/oss/kubernetes/pause:'' @ WindowsPauseImageVersion,
       ks_AlwaysPullWindowsPauseImage := DefaultAlwaysPullWindowsPauseImage\<rparr>),
     es_EndpointConfig := (zero_azure_endpoint_config\<lparr>ec_ResourceManagerVMDNSSuffix := ''cloudapp.chinacloudapi.cn''\<rparr>),
     es_OSImageConfig := Some
       [(Ubuntu, Ubuntu1604OSImageConfig),
        (Ubuntu1804, Ubuntu1804OSImageConfig),
        (Ubuntu1804Gen2, Ubuntu1804Gen2OSImageConfig),
        (Ubuntu2004, Ubuntu2004OSImageConfig),
        (Ubuntu2204, Ubuntu2204OSImageConfig),
        (Flatcar, FlatcarImageConfig),
        (AKSUbuntu1604, AKSUbuntu1604OSImageConfig),
        (AKS1604Deprecated, AKSUbuntu1604OSImageConfig),
        (AKSUbuntu1804, AKSUbuntu1804OSImageConfig),
        (AKS1804Deprecated, AKSUbuntu1804OSImageConfig),
        (AKSUbuntu2004, AKSUbuntu2004OSImageConfig),
        (AKSUbuntu2204, AKSUbuntu2204OSImageConfig)]\<rparr>)"

type_synonym cloud_specs = "(string \<times> azure_environment_spec_config) list"

definition AzureCloudSpecEnvMap :: cloud_specs where
  "AzureCloudSpecEnvMap =
     [(AzureChinaCloud, AzureChinaCloudSpec),
      (AzureGermanCloud, AzureGermanCloudSpec),
      (AzureUSGovernmentCloud, AzureUSGovernmentCloudSpec),
      (AzurePublicCloud, AzureCloudSpec)]"

subsection \<open>The settings of a cluster's cloud\<close>

text \<open>\<open>EnsureString\<close> of helpers.go, \<open>GetCloudSpecConfig\<close> of types.go: a name without settings gives the zero value.\<close>

definition EnsureString :: "string \<Rightarrow> string \<Rightarrow> string" where
  "EnsureString val defaultVal = (if val \<noteq> '''' then val else defaultVal)"

definition spec_of :: "cloud_specs \<Rightarrow> string \<Rightarrow> azure_environment_spec_config" where
  "spec_of specs name = (case map_of specs name of None \<Rightarrow> zero_azure_environment_spec_config | Some s \<Rightarrow> s)"

definition GetCloudSpecConfig :: "cloud_specs \<Rightarrow> container_service \<Rightarrow> azure_environment_spec_config result" where
  "GetCloudSpecConfig specs cs =
     bindR (GetCustomCloudName (cs_Properties cs)) (\<lambda>name. Inr (spec_of specs (GetTargetEnv (cs_Location cs) name)))"

text \<open>
  \<open>fmt.Sprintf("%s.%s."+FQDNFormat, ...)\<close>: the suffixes of the tables contain no verb, and a suffix that a
  custom cloud gives is taken as it is.
\<close>

definition FormatProdFQDNByLocation :: "cloud_specs \<Rightarrow> string \<Rightarrow> string \<Rightarrow> string \<Rightarrow> string" where
  "FormatProdFQDNByLocation specs fqdnPrefix location cloudName =
     fqdnPrefix @ ''.'' @ location @ ''.'' @
       ec_ResourceManagerVMDNSSuffix (es_EndpointConfig (spec_of specs (GetTargetEnv location cloudName)))"

subsection \<open>Custom clouds\<close>

text \<open>\<open>strings.Replace\<close> with a count of one.\<close>

fun replace_first :: "string \<Rightarrow> string \<Rightarrow> string \<Rightarrow> string" where
  "replace_first old new [] = (if old = [] then new else [])"
| "replace_first old new (c # s) =
     (if has_prefix (c # s) old then new @ drop (length old) (c # s) else c # replace_first old new s)"

definition getAzureStackFQDNSuffix :: "string \<Rightarrow> string \<Rightarrow> string" where
  "getAzureStackFQDNSuffix portalURL location =
     trim_suffix (replace_all (''https://portal.'' @ location @ ''.'') '''' portalURL) ''/''"

text \<open>The answer of the metadata endpoint: the fields that the code reads of \<open>AzureStackMetadataEndpoints\<close>.\<close>

record metadata_endpoints =
  me_GalleryEndpoint :: string
  me_GraphEndpoint :: string
  me_PortalEndpoint :: string
  me_Authentication :: "(string \<times> string list) option"

text \<open>
  Which endpoint is asked, and what the answer changes. The request is a function from the address to an
  answer; no answer stands for a failed request, a status other than 200 and an answer that does not parse.
\<close>

definition metadata_url :: "container_service \<Rightarrow> string \<Rightarrow> environment \<Rightarrow> environment result" where
  "metadata_url cs portalURL env =
     (if IsAzureStackCloud (cs_Properties cs)
      then if \<not> has_prefix portalURL (''https://portal.'' @ cs_Location cs @ ''.'')
           then Inl (Err ''portalURL needs to start with https://portal.'')
           else Inr (env\<lparr>env_ResourceManagerEndpoint := ''https://management.'' @ cs_Location cs @ ''.'' @
             getAzureStackFQDNSuffix portalURL (cs_Location cs) @ ''/''\<rparr>)
      else if env_ResourceManagerEndpoint env = ''''
      then Inl (Err ''Non-AzureStack CustomCloudProfile MUST provide ResourceManagerEndpoint'')
      else Inr env)"

definition apply_metadata ::
    "container_service \<Rightarrow> custom_cloud_profile \<Rightarrow> metadata_endpoints \<Rightarrow> environment \<Rightarrow> environment result" where
  "apply_metadata cs cc endpoints env =
     (case me_Authentication endpoints of
        Some (login, audience # _) \<Rightarrow>
          if me_GraphEndpoint endpoints = '''' \<or> login = '''' \<or> audience = ''''
          then Inl (Err ''invalid response'')
          else
            let env = env\<lparr>env_GraphEndpoint := me_GraphEndpoint endpoints, env_ServiceManagementEndpoint := audience,
                  env_GalleryEndpoint := me_GalleryEndpoint endpoints,
                  env_ActiveDirectoryEndpoint := (if cc_IdentitySystem cc = ADFSIdentitySystem
                    then trim_suffix (trim_suffix login ''/'') ''adfs'' else login),
                  env_ManagementPortalURL := me_PortalEndpoint endpoints\<rparr>;
                suffix = getAzureStackFQDNSuffix (cc_PortalURL cc) (cs_Location cs)
            in if IsAzureStackCloud (cs_Properties cs)
               then Inr (env\<lparr>env_ResourceManagerVMDNSSuffix := ''cloudapp.'' @ suffix,
                 env_StorageEndpointSuffix := cs_Location cs @ ''.'' @ suffix,
                 env_KeyVaultDNSSuffix := ''vault.'' @ cs_Location cs @ ''.'' @ suffix,
                 env_KeyVaultEndpoint := replace_first ''https://management.'' ''https://vault.'' audience\<rparr>)
               else if env_ResourceManagerVMDNSSuffix env = '''' \<or> env_StorageEndpointSuffix env = '''' \<or>
                 env_KeyVaultDNSSuffix env = ''''
               then Inl (Err ''Non-AzureStack CustomCloudProfile MUST provide suffixes'')
               else Inr env
      | _ \<Rightarrow> Inl (Err ''invalid response''))"

definition SetCustomCloudProfileEnvironment ::
    "(string \<Rightarrow> metadata_endpoints option) \<Rightarrow> container_service \<Rightarrow> container_service result" where
  "SetCustomCloudProfileEnvironment get cs =
     (let p = cs_Properties cs in
      case p_CustomCloudProfile p of None \<Rightarrow> Inr cs
      | Some cc \<Rightarrow>
        let env = (case cc_Environment cc of None \<Rightarrow> zero_environment | Some env \<Rightarrow> env);
            with_env = (\<lambda>env. cs\<lparr>cs_Properties := p\<lparr>p_CustomCloudProfile := Some (cc\<lparr>cc_Environment := Some env\<rparr>)\<rparr>\<rparr>)
        in if env_Name env = '''' \<or> env_ServiceManagementEndpoint env = '''' \<or> env_ActiveDirectoryEndpoint env = '''' \<or>
              env_GraphEndpoint env = '''' \<or> env_ResourceManagerVMDNSSuffix env = ''''
           then let env = (if env_Name env = '''' then env\<lparr>env_Name := AzureStackCloud\<rparr> else env);
                    cs' = with_env env
                in bindR (metadata_url cs' (cc_PortalURL cc) env) (\<lambda>env.
                   case get (trim_suffix (env_ResourceManagerEndpoint env) ''/'' @ ''/metadata/endpoints?api-version=1.0'') of
                     None \<Rightarrow> Inl (Err ''apimodel invalid: failed to retrieve custom endpoints'')
                   | Some endpoints \<Rightarrow> bindR (apply_metadata cs' cc endpoints env) (\<lambda>env. Inr (with_env env)))
           else Inr (with_env env))"

definition telemetry_pid :: "bool \<Rightarrow> bool \<Rightarrow> string" where
  "telemetry_pid isUpgrade isScale =
     (if isScale then DefaultAzureStackScaleTelemetryPID
      else if isUpgrade then DefaultAzureStackUpgradeTelemetryPID
      else DefaultAzureStackDeployTelemetryPID)"

text \<open>The settings of the user over those of the cloud that the dependencies come from.\<close>

definition merge_kubernetes_spec ::
    "kubernetes_spec_config \<Rightarrow> kubernetes_spec_config \<Rightarrow> kubernetes_spec_config" where
  "merge_kubernetes_spec u s = s\<lparr>
     ks_AzureTelemetryPID := EnsureString (ks_AzureTelemetryPID u) DefaultAzureStackDeployTelemetryPID,
     ks_AzureCNIImageBase := EnsureString (ks_AzureCNIImageBase u) (ks_AzureCNIImageBase s),
     ks_CalicoImageBase := EnsureString (ks_CalicoImageBase u) (ks_CalicoImageBase s),
     ks_CNIPluginsDownloadURL := EnsureString (ks_CNIPluginsDownloadURL u) (ks_CNIPluginsDownloadURL s),
     ks_ContainerdDownloadURLBase := EnsureString (ks_ContainerdDownloadURLBase u) (ks_ContainerdDownloadURLBase s),
     ks_CSIProxyDownloadURL := EnsureString (ks_CSIProxyDownloadURL u) (ks_CSIProxyDownloadURL s),
     ks_EtcdDownloadURLBase := EnsureString (ks_EtcdDownloadURLBase u) (ks_EtcdDownloadURLBase s),
     ks_KubeBinariesSASURLBase := EnsureString (ks_KubeBinariesSASURLBase u) (ks_KubeBinariesSASURLBase s),
     ks_KubernetesImageBase := EnsureString (ks_KubernetesImageBase u) (ks_KubernetesImageBase s),
     ks_MCRKubernetesImageBase := EnsureString (ks_MCRKubernetesImageBase u) (ks_MCRKubernetesImageBase s),
     ks_NVIDIAImageBase := EnsureString (ks_NVIDIAImageBase u) (ks_NVIDIAImageBase s),
     ks_TillerImageBase := EnsureString (ks_TillerImageBase u) (ks_TillerImageBase s),
     ks_VnetCNILinuxPluginsDownloadURL := EnsureString (ks_VnetCNILinuxPluginsDownloadURL u) (ks_VnetCNILinuxPluginsDownloadURL s),
     ks_VnetCNIWindowsPluginsDownloadURL := EnsureString (ks_VnetCNIWindowsPluginsDownloadURL u) (ks_VnetCNIWindowsPluginsDownloadURL s),
     ks_WindowsTelemetryGUID := EnsureString (ks_WindowsTelemetryGUID u) (ks_WindowsTelemetryGUID s),
     ks_WindowsProvisioningScriptsPackageURL := EnsureString (ks_WindowsProvisioningScriptsPackageURL u) (ks_WindowsProvisioningScriptsPackageURL s),
     ks_WindowsPauseImageURL := EnsureString (ks_WindowsPauseImageURL u) (ks_WindowsPauseImageURL s),
     ks_AlwaysPullWindowsPauseImage := ks_AlwaysPullWindowsPauseImage u\<rparr>"

definition dependencies_cloud :: "string \<Rightarrow> string" where
  "dependencies_cloud loc =
     (if loc = AzureCustomCloudDependenciesLocationPublic then AzurePublicCloud
      else if loc = AzureCustomCloudDependenciesLocationChina then AzureChinaCloud
      else if loc = AzureCustomCloudDependenciesLocationGerman then AzureGermanCloud
      else if loc = AzureCustomCloudDependenciesLocationUSGovernment then AzureUSGovernmentCloud
      else AzurePublicCloud)"

text \<open>The properties with the settings stored, and the map with those of the custom cloud.\<close>

definition SetCustomCloudSpec ::
    "bool \<Rightarrow> bool \<Rightarrow> cloud_specs \<Rightarrow> properties \<Rightarrow> (cloud_specs \<times> properties) result" where
  "SetCustomCloudSpec isUpgrade isScale specs p =
     (case p_CustomCloudProfile p of None \<Rightarrow> Inr (specs, p)
      | Some cc \<Rightarrow> (case cc_Environment cc of
          None \<Rightarrow> Inl (Err ''Failed to set Cloud Spec for Azure Stack due to invalid environment'')
        | Some env \<Rightarrow>
          if env_ResourceManagerVMDNSSuffix env = ''''
          then Inl (Err ''Failed to set Cloud Spec for Azure Stack due to invalid environment'')
          else
            let base = spec_of specs (dependencies_cloud (cc_DependenciesLocation cc));
                spec = base\<lparr>
                  es_EndpointConfig := \<lparr>ec_ResourceManagerVMDNSSuffix = env_ResourceManagerVMDNSSuffix env\<rparr>,
                  es_CloudName := (if env_Name env = '''' \<or> IsAzureStackCloud p then AzureStackCloud else env_Name env)\<rparr>
            in case cc_AzureEnvironmentSpecConfig cc of
                 None \<Rightarrow>
                   let spec = spec\<lparr>es_KubernetesSpecConfig :=
                     es_KubernetesSpecConfig spec\<lparr>ks_AzureTelemetryPID := telemetry_pid isUpgrade isScale\<rparr>\<rparr>
                   in Inr (AList.update AzureStackCloud spec specs, p)
               | Some u \<Rightarrow>
                   let spec = spec\<lparr>
                         es_CloudName := EnsureString (es_CloudName u) (es_CloudName spec),
                         es_KubernetesSpecConfig := merge_kubernetes_spec (es_KubernetesSpecConfig u) (es_KubernetesSpecConfig spec),
                         es_EndpointConfig := \<lparr>ec_ResourceManagerVMDNSSuffix = EnsureString
                           (ec_ResourceManagerVMDNSSuffix (es_EndpointConfig u)) (ec_ResourceManagerVMDNSSuffix (es_EndpointConfig spec))\<rparr>,
                         es_OSImageConfig := Some (case es_OSImageConfig u of None \<Rightarrow> [] | Some m \<Rightarrow> m)\<rparr>
                   in Inr (AList.update AzureStackCloud spec specs,
                     p\<lparr>p_CustomCloudProfile := Some (cc\<lparr>cc_AzureEnvironmentSpecConfig := Some spec\<rparr>)\<rparr>)))"

definition setCustomCloudProfileDefaults ::
    "(string \<Rightarrow> metadata_endpoints option) \<Rightarrow> bool \<Rightarrow> bool \<Rightarrow> cloud_specs \<Rightarrow> container_service \<Rightarrow>
     (cloud_specs \<times> container_service) result" where
  "setCustomCloudProfileDefaults get isUpgrade isScale specs cs =
     (let p = cs_Properties cs in
      case p_CustomCloudProfile p of None \<Rightarrow> Inr (specs, cs)
      | Some cc \<Rightarrow>
        let cc = cc\<lparr>cc_AuthenticationMethod := EnsureString (cc_AuthenticationMethod cc) ClientSecretAuthMethod,
              cc_IdentitySystem := EnsureString (cc_IdentitySystem cc) AzureADIdentitySystem,
              cc_DependenciesLocation := EnsureString (cc_DependenciesLocation cc) AzureCustomCloudDependenciesLocationPublic\<rparr>;
            cs = cs\<lparr>cs_Properties := p\<lparr>p_CustomCloudProfile := Some cc\<rparr>\<rparr>
        in bindR (SetCustomCloudProfileEnvironment get cs) (\<lambda>cs.
           bindR (SetCustomCloudSpec isUpgrade isScale specs (cs_Properties cs)) (\<lambda>(specs, p).
           Inr (specs, cs\<lparr>cs_Properties := p\<rparr>))))"

end
