(* ===== verification/Net.thy ===== *)
theory Net
  imports GoBase "HOL-Library.Word"
begin

section \<open>IP addresses (package net, pkg/api/common/net.go)\<close>

text \<open>
  What the program uses of package net: an address is a list of bytes, four or sixteen of them, and the
  empty list where Go has nil; a mask is a list of bytes; a subnet is a pair of both. Parsers return \<open>None\<close>
  for a nil address or an error. The functions of pkg/api/common/net.go follow at the end.
\<close>

unbundle bit_operations_syntax

type_synonym byte = "8 word"
type_synonym ip = "byte list"

record ip_net =
  n_IP :: ip
  n_Mask :: ip

definition v4_in_v6_prefix :: ip where
  "v4_in_v6_prefix = replicate 10 0 @ [255, 255]"

definition To4 :: "ip \<Rightarrow> ip" where
  "To4 ip =
     (if length ip = 4 then ip
      else if length ip = 16 \<and> take 12 ip = v4_in_v6_prefix then drop 12 ip
      else [])"

definition As16 :: "ip \<Rightarrow> ip" where
  "As16 ip = (if length ip = 4 then v4_in_v6_prefix @ ip else ip)"

subsection \<open>Masks\<close>

text \<open>\<open>net.CIDRMask\<close>, \<open>IPMask.Size\<close> and \<open>IP.Mask\<close>.\<close>

primrec mask_bytes :: "nat \<Rightarrow> nat \<Rightarrow> ip" where
  "mask_bytes 0 n = []"
| "mask_bytes (Suc l) n =
     (if n \<ge> 8 then 255 # mask_bytes l (n - 8) else (NOT (drop_bit n 255)) # mask_bytes l 0)"

definition CIDRMask :: "nat \<Rightarrow> nat \<Rightarrow> ip" where
  "CIDRMask ones bits = mask_bytes (bits div 8) ones"

fun leading_ones :: "nat \<Rightarrow> byte \<Rightarrow> nat \<times> byte" where
  "leading_ones 0 v = (0, v)"
| "leading_ones (Suc k) v =
     (if v AND 128 \<noteq> 0 then (case leading_ones k (push_bit 1 v) of (n, w) \<Rightarrow> (Suc n, w)) else (0, v))"

fun simple_mask_length :: "ip \<Rightarrow> nat option" where
  "simple_mask_length [] = Some 0"
| "simple_mask_length (v # m) =
     (if v = 255 then map_option (\<lambda>n. n + 8) (simple_mask_length m)
      else case leading_ones 8 v of (n, w) \<Rightarrow>
        if w = 0 \<and> list_all (\<lambda>x. x = 0) m then Some n else None)"

definition Mask_Size :: "ip \<Rightarrow> nat \<times> nat" where
  "Mask_Size m = (case simple_mask_length m of None \<Rightarrow> (0, 0) | Some n \<Rightarrow> (n, length m * 8))"

definition IP_Mask :: "ip \<Rightarrow> ip \<Rightarrow> ip" where
  "IP_Mask ip m =
     (let m = if length m = 16 \<and> length ip = 4 \<and> list_all (\<lambda>b. b = 255) (take 12 m) then drop 12 m else m;
          ip = if length m = 4 \<and> length ip = 16 \<and> take 12 ip = v4_in_v6_prefix then drop 12 ip else ip
      in if length ip = length m then map2 (AND) ip m else [])"

text \<open>\<open>IPNet.Contains\<close>; the subnets of the program have masks as long as their addresses.\<close>

definition Contains :: "ip_net \<Rightarrow> ip \<Rightarrow> bool" where
  "Contains n ip =
     (let nn = if To4 (n_IP n) \<noteq> [] then To4 (n_IP n) else n_IP n;
          m = if length (n_Mask n) = 16 \<and> length nn = 4 then drop 12 (n_Mask n) else n_Mask n;
          ip = if To4 ip \<noteq> [] then To4 ip else ip
      in length ip = length nn \<and> map2 (AND) nn m = map2 (AND) ip m)"

subsection \<open>Parsing\<close>

definition parse_octet :: "string \<Rightarrow> byte option" where
  "parse_octet s =
     (if s \<noteq> [] \<and> list_all is_digit s \<and> (length s = 1 \<or> hd s \<noteq> CHR ''0'') \<and> dec_val 0 s \<le> 255
      then Some (of_nat (dec_val 0 s)) else None)"

definition parse_ipv4 :: "string \<Rightarrow> ip option" where
  "parse_ipv4 s = (case map parse_octet (split_on (CHR ''.'') s) of
       [Some a, Some b, Some c, Some d] \<Rightarrow> Some [a, b, c, d] | _ \<Rightarrow> None)"

definition hex_digit :: "char \<Rightarrow> nat option" where
  "hex_digit c =
     (let n = of_char c in
      if 48 \<le> n \<and> n \<le> 57 then Some (n - 48)
      else if 97 \<le> n \<and> n \<le> 102 then Some (n - 87)
      else if 65 \<le> n \<and> n \<le> 70 then Some (n - 55) else None)"

definition hex_group :: "string \<Rightarrow> string \<times> string" where
  "hex_group s = (takeWhile (\<lambda>c. hex_digit c \<noteq> None) s, dropWhile (\<lambda>c. hex_digit c \<noteq> None) s)"

definition hex_val :: "string \<Rightarrow> nat" where
  "hex_val s = foldl (\<lambda>acc c. acc * 16 + the (hex_digit c)) 0 s"

text \<open>
  The loop of \<open>parseIPv6\<close>: the bytes so far, the position of the ellipsis, the rest of the text. It returns
  the bytes and the position when the text is used up.
\<close>

function parse_groups :: "ip \<Rightarrow> nat option \<Rightarrow> string \<Rightarrow> (ip \<times> nat option) option" where
  "parse_groups ip ellipsis s =
     (if length ip \<ge> 16 then (if s = [] then Some (ip, ellipsis) else None)
      else case hex_group s of (g, rest) \<Rightarrow>
        if g = [] \<or> length g > 4 then None
        else if rest \<noteq> [] \<and> hd rest = CHR ''.''
        then if (ellipsis = None \<and> length ip \<noteq> 12) \<or> length ip + 4 > 16 then None
             else map_option (\<lambda>v4. (ip @ v4, ellipsis)) (parse_ipv4 s)
        else let ip = ip @ [of_nat (hex_val g div 256), of_nat (hex_val g)] in
             if rest = [] then Some (ip, ellipsis)
             else if hd rest \<noteq> CHR '':'' \<or> length rest = 1 then None
             else if hd (tl rest) = CHR '':''
             then if ellipsis \<noteq> None then None
                  else if length rest = 2 then Some (ip, Some (length ip))
                  else parse_groups ip (Some (length ip)) (drop 2 rest)
             else parse_groups ip ellipsis (tl rest))"
  by pat_completeness auto
termination
  by (relation "measure (\<lambda>(ip, _, _). 16 - length ip)") auto

declare parse_groups.simps [simp del]

definition expand_ellipsis :: "ip \<times> nat option \<Rightarrow> ip option" where
  "expand_ellipsis r = (case r of (ip, ellipsis) \<Rightarrow>
     if length ip < 16
     then map_option (\<lambda>e. take e ip @ replicate (16 - length ip) 0 @ drop e ip) ellipsis
     else if ellipsis = None then Some ip else None)"

definition parse_ipv6 :: "string \<Rightarrow> ip option" where
  "parse_ipv6 s =
     (if has_prefix s ''::''
      then if length s = 2 then Some (replicate 16 0)
           else Option.bind (parse_groups [] (Some 0) (drop 2 s)) expand_ellipsis
      else Option.bind (parse_groups [] None s) expand_ellipsis)"

text \<open>The kind of address is decided by the first separator; an address with a zone is refused.\<close>

definition parse_addr :: "string \<Rightarrow> ip option" where
  "parse_addr s =
     (if CHR ''%'' \<in> set s then None
      else case dropWhile (\<lambda>c. c \<noteq> CHR ''.'' \<and> c \<noteq> CHR '':'') s of
        [] \<Rightarrow> None
      | c # _ \<Rightarrow> if c = CHR ''.'' then parse_ipv4 s else parse_ipv6 s)"

definition ParseIP :: "string \<Rightarrow> ip option" where
  "ParseIP s = map_option As16 (parse_addr s)"

text \<open>The prefix length of a CIDR: digits only, below the limit of \<open>dtoi\<close>.\<close>

definition parse_prefix_length :: "string \<Rightarrow> nat option" where
  "parse_prefix_length s =
     (if s \<noteq> [] \<and> list_all is_digit s \<and> dec_val 0 s < 16777215 then Some (dec_val 0 s) else None)"

definition ParseCIDR :: "string \<Rightarrow> (ip \<times> ip_net) option" where
  "ParseCIDR s =
     Option.bind (split_first (CHR ''/'') s) (\<lambda>(addr, mask).
     Option.bind (parse_addr addr) (\<lambda>a.
     Option.bind (parse_prefix_length mask) (\<lambda>n.
       if n > length a * 8 then None
       else let m = CIDRMask n (length a * 8) in
            Some (As16 a, \<lparr>n_IP = IP_Mask (As16 a) m, n_Mask = m\<rparr>))))"

subsection \<open>Printing\<close>

definition IPv4_String :: "ip \<Rightarrow> string" where
  "IPv4_String ip = join ''.'' (map (\<lambda>b. utoa (unat b)) ip)"

definition hex_char :: "nat \<Rightarrow> char" where
  "hex_char d = (if d < 10 then char_of (48 + d) else char_of (87 + d))"

fun utox :: "nat \<Rightarrow> string" where
  "utox n = (if n < 16 then [hex_char n] else utox (n div 16) @ [hex_char (n mod 16)])"

fun v6_groups :: "ip \<Rightarrow> nat list" where
  "v6_groups (a # b # ip) = (unat a * 256 + unat b) # v6_groups ip"
| "v6_groups _ = []"

text \<open>The first longest run of at least two zero groups, as its start and its end.\<close>

definition zero_run :: "nat list \<Rightarrow> nat \<times> nat" where
  "zero_run gs = foldl (\<lambda>(a, b) i.
       let l = length (takeWhile (\<lambda>g. g = 0) (drop i gs)) in
       if l \<ge> 2 \<and> l > b - a then (i, i + l) else (a, b)) (255, 255) [0..<8]"

definition IPv6_String :: "ip \<Rightarrow> string" where
  "IPv6_String ip =
     (let gs = v6_groups ip in
      case zero_run gs of (a, b) \<Rightarrow>
        if a = 255 then join '':'' (map utox gs)
        else join '':'' (map utox (take a gs)) @ ''::'' @ join '':'' (map utox (drop b gs)))"

definition IP_String :: "ip \<Rightarrow> string" where
  "IP_String ip =
     (if To4 ip \<noteq> [] then IPv4_String (To4 ip) else if length ip = 16 then IPv6_String ip else ''<nil>'')"

subsection \<open>pkg/api/common/net.go\<close>

fun increment_rev :: "ip \<Rightarrow> ip" where
  "increment_rev [] = []"
| "increment_rev (b # bs) = (if b + 1 > 0 then (b + 1) # bs else (b + 1) # increment_rev bs)"

definition CidrFirstIP :: "ip \<Rightarrow> ip" where
  "CidrFirstIP cidr = rev (increment_rev (rev cidr))"

definition CidrStringFirstIP :: "string \<Rightarrow> ip result" where
  "CidrStringFirstIP s = (case ParseCIDR s of
       None \<Rightarrow> Inl (Err ''invalid CIDR address'')
     | Some (cidr, _) \<Rightarrow> Inr (CidrFirstIP cidr))"

definition IP4BroadcastAddress :: "ip_net \<Rightarrow> ip" where
  "IP4BroadcastAddress n = map2 (\<lambda>b m. b OR NOT m) (To4 (n_IP n)) (n_Mask n)"

subsection \<open>Printed addresses\<close>

lemma utoa_zero: "utoa 0 = [digit_char 0]"
  by (subst utoa.simps) simp

lemma parse_octet_utoa [simp]: "parse_octet (utoa (unat b)) = Some b" for b :: byte
proof -
  have "length (utoa n) = 1 \<or> hd (utoa n) \<noteq> CHR ''0''" for n
    using utoa_no_leading_zero [of n] utoa_zero by (cases "n = 0") simp_all
  moreover have "unat b \<le> 255" using unsigned_less [of b, where 'a = nat] by simp
  ultimately show ?thesis by (simp add: parse_octet_def del: utoa.simps)
qed

lemma dot_not_digit: "is_digit c \<Longrightarrow> c \<noteq> CHR ''.'' \<and> c \<noteq> CHR ''/'' \<and> c \<noteq> CHR ''%'' \<and> c \<noteq> CHR '':''"
  by (auto simp: is_digit_def)

lemma utoa_no_separator:
  "CHR ''.'' \<notin> set (utoa n)" "CHR ''/'' \<notin> set (utoa n)" "CHR ''%'' \<notin> set (utoa n)" "CHR '':'' \<notin> set (utoa n)"
  using set_utoa_digits [of _ n] dot_not_digit by blast+

lemma IPv4_String_four:
  "IPv4_String [a, b, c, d] = utoa (unat a) @ CHR ''.'' # utoa (unat b) @ CHR ''.'' # utoa (unat c) @ CHR ''.'' # utoa (unat d)"
  by (simp add: IPv4_String_def del: utoa.simps)

lemma parse_addr_IPv4_String:
  assumes "length ip = 4"
  shows "parse_addr (IPv4_String ip) = Some ip"
proof -
  obtain a b c d where ip: "ip = [a, b, c, d]" using assms by (auto simp: numeral_eq_Suc length_Suc_conv)
  have "parse_ipv4 (IPv4_String ip) = Some ip"
    unfolding ip IPv4_String_four parse_ipv4_def
    by (simp add: split_on_append split_on_single utoa_no_separator del: utoa.simps)
  moreover have "dropWhile (\<lambda>c. c \<noteq> CHR ''.'' \<and> c \<noteq> CHR '':'') (IPv4_String ip) =
      CHR ''.'' # utoa (unat b) @ CHR ''.'' # utoa (unat c) @ CHR ''.'' # utoa (unat d)"
    unfolding ip IPv4_String_four
    by (subst dropWhile_append2) (use set_utoa_digits dot_not_digit in \<open>auto simp del: utoa.simps\<close>)
  moreover have "CHR ''%'' \<notin> set (IPv4_String ip)"
    unfolding ip IPv4_String_four using utoa_no_separator(3) by (auto simp del: utoa.simps)
  ultimately show ?thesis by (simp add: parse_addr_def)
qed

lemma IP_String_four: "length ip = 4 \<Longrightarrow> IP_String ip = IPv4_String ip"
  by (auto simp: IP_String_def To4_def)

lemma ParseIP_IP_String: "length ip = 4 \<Longrightarrow> ParseIP (IP_String ip) = Some (As16 ip)"
  by (simp add: ParseIP_def IP_String_four parse_addr_IPv4_String)

lemma To4_As16 [simp]: "length ip = 4 \<Longrightarrow> To4 (As16 ip) = ip"
  by (simp add: To4_def As16_def v4_in_v6_prefix_def)

lemma To4_four [simp]: "length ip = 4 \<Longrightarrow> To4 ip = ip"
  by (simp add: To4_def)

subsection \<open>Subnets\<close>

lemma length_mask_bytes [simp]: "length (mask_bytes l n) = l"
  by (induction l arbitrary: n) auto

lemma length_parse_octets: "parse_ipv4 s = Some ip \<Longrightarrow> length ip = 4"
  by (auto simp: parse_ipv4_def split: list.splits option.splits)

lemma leading_ones_mask: "n < 8 \<Longrightarrow> leading_ones 8 (NOT (drop_bit n 255)) = (n, 0) \<and> NOT (drop_bit n 255) \<noteq> (255::byte)"
proof -
  have "\<forall>n \<in> set [0..<8]. leading_ones 8 (NOT (drop_bit n 255)) = (n, 0) \<and> NOT (drop_bit n 255) \<noteq> (255::byte)"
    by code_simp
  then show "n < 8 \<Longrightarrow> ?thesis" by simp
qed

lemma mask_bytes_zero: "mask_bytes l 0 = replicate l 0"
proof (induction l)
  case (Suc l)
  have "NOT (drop_bit 0 255) = (0 :: byte)" by simp
  then show ?case using Suc by simp
qed simp

lemma simple_mask_length_bytes: "n \<le> 8 * l \<Longrightarrow> simple_mask_length (mask_bytes l n) = Some n"
proof (induction l arbitrary: n)
  case (Suc l)
  show ?case
  proof (cases "n \<ge> 8")
    case True
    then show ?thesis using Suc.IH [of "n - 8"] Suc.prems by simp
  next
    case False
    then show ?thesis using leading_ones_mask [of n] by (simp add: mask_bytes_zero list_all_iff)
  qed
qed simp

lemma Mask_Size_CIDRMask: "8 dvd bits \<Longrightarrow> ones \<le> bits \<Longrightarrow> Mask_Size (CIDRMask ones bits) = (ones, bits)"
  using simple_mask_length_bytes [of ones "bits div 8"] by (simp add: Mask_Size_def CIDRMask_def)

lemma parse_groups_length:
  "parse_groups ip e s = Some r \<Longrightarrow> even (length ip) \<Longrightarrow> length ip \<le> 16 \<Longrightarrow> length (fst r) \<le> 16"
proof (induction ip e s rule: parse_groups.induct)
  case (1 ip e s)
  obtain g rest where g: "hex_group s = (g, rest)" by (cases "hex_group s")
  let ?ip = "ip @ [of_nat (hex_val g div 256), of_nat (hex_val g)]"
  note run = "1.prems"(1) [unfolded parse_groups.simps [of ip e s]]
  show ?case
  proof (cases "length ip \<ge> 16 \<or> g = [] \<or> length g > 4 \<or> rest \<noteq> [] \<and> hd rest = CHR ''.'' \<or> rest = [] \<or>
      hd rest \<noteq> CHR '':'' \<or> length rest = 1")
    case True
    have "length ip + 2 \<le> 16 \<or> length ip \<ge> 16" using "1.prems"(2) by presburger
    then show ?thesis using True run g "1.prems"(3)
      by (auto simp: Let_def dest!: length_parse_octets split: if_splits)
  next
    case False
    note more = False [unfolded de_Morgan_disj not_not]
    have "\<not> 16 \<le> length ip" using more by blast
    then have "length ip + 2 \<le> 16" using "1.prems"(2) by presburger
    then have even: "even (length ?ip)" "length ?ip \<le> 16" using "1.prems"(2) by simp_all
    show ?thesis
    proof (cases "hd (tl rest) = CHR '':''")
      case True
      then have "length rest = 2 \<and> r = (?ip, Some (length ?ip)) \<or>
          length rest \<noteq> 2 \<and> parse_groups ?ip (Some (length ?ip)) (drop 2 rest) = Some r" "e = None"
        using run g more by (auto simp: Let_def split: if_splits)
      then show ?thesis using even "1.IH"(1) [OF _ g [symmetric] _ _ refl] True more by auto
    next
      case False
      then have "parse_groups ?ip e (tl rest) = Some r" using run g more by (auto simp: Let_def split: if_splits)
      then show ?thesis using even "1.IH"(2) [OF _ g [symmetric] _ _ refl] False more by auto
    qed
  qed
qed

lemma parse_addr_length: "parse_addr s = Some a \<Longrightarrow> length a = 4 \<or> length a = 16"
proof -
  have "length a = 16" if "Option.bind (parse_groups [] e t) expand_ellipsis = Some a" for e t
    using that parse_groups_length [of "[]" e t]
    by (auto simp: expand_ellipsis_def bind_eq_Some_conv split: if_splits)
  then show "parse_addr s = Some a \<Longrightarrow> ?thesis"
    by (auto simp: parse_addr_def parse_ipv6_def dest: length_parse_octets split: if_splits list.splits)
qed

lemma length_As16 [simp]: "length a = 4 \<or> length a = 16 \<Longrightarrow> length (As16 a) = 16"
  by (auto simp: As16_def v4_in_v6_prefix_def)

text \<open>A parsed subnet: the address, cut down to its first bits, and the mask of that many ones.\<close>

lemma ParseCIDR_Some:
  assumes "ParseCIDR s = Some (ip, net)"
  obtains a n where "length a = 4 \<or> length a = 16" and "n \<le> length a * 8" and "ip = As16 a"
    and "n_Mask net = CIDRMask n (length a * 8)" and "n_IP net = map2 (AND) a (n_Mask net)"
proof -
  let ?m = "\<lambda>a n. CIDRMask n (length a * 8)"
  have "\<exists>a n. parse_addr (fst (the (split_first (CHR ''/'') s))) = Some a \<and> n \<le> length a * 8 \<and> ip = As16 a \<and>
      net = \<lparr>n_IP = IP_Mask (As16 a) (?m a n), n_Mask = ?m a n\<rparr>"
    using assms by (fastforce simp: ParseCIDR_def bind_eq_Some_conv Let_def not_less split: prod.splits if_splits)
  then obtain a n where a: "length a = 4 \<or> length a = 16" "n \<le> length a * 8" "ip = As16 a"
    and net: "net = \<lparr>n_IP = IP_Mask (As16 a) (?m a n), n_Mask = ?m a n\<rparr>"
    using parse_addr_length by blast
  have "IP_Mask (As16 a) (CIDRMask n (length a * 8)) = map2 (AND) a (CIDRMask n (length a * 8))"
    using a(1) by (auto simp: IP_Mask_def CIDRMask_def As16_def v4_in_v6_prefix_def)
  then show ?thesis using that a net by simp
qed

lemma and_idem_bytes: "length a = length m \<Longrightarrow> map2 (AND) (map2 (AND) a m) m = map2 (AND) a m" for a m :: ip
  by (induction a m rule: list_induct2) (simp_all add: and.assoc)

lemma Contains_four:
  assumes "ParseCIDR s = Some (ip, net)" and "length (n_IP net) = 4" and "length b = 4"
  shows "Contains net b \<longleftrightarrow> map2 (AND) b (n_Mask net) = n_IP net"
proof -
  obtain a n where a: "length a = 4 \<or> length a = 16" "n_Mask net = CIDRMask n (length a * 8)"
    "n_IP net = map2 (AND) a (n_Mask net)"
    using ParseCIDR_Some [OF assms(1)] by metis
  then have len: "length a = 4" "length (n_Mask net) = 4" using assms(2) by (auto simp: CIDRMask_def)
  have "Contains net b \<longleftrightarrow> map2 (AND) (n_IP net) (n_Mask net) = map2 (AND) b (n_Mask net)"
    using assms(2,3) len(2) by (cases "b = []"; cases "n_IP net = []") (simp_all add: Contains_def Let_def)
  also have "map2 (AND) (n_IP net) (n_Mask net) = n_IP net"
    unfolding a(3) using len by (intro and_idem_bytes) simp
  finally show ?thesis by auto
qed

end
