(* ===== verification/NamedLists.thy ===== *)
theory NamedLists
  imports ClusterModel
begin

section \<open>Lists of named specifications and their merge with defaults\<close>

text \<open>
  Addons, components and their containers are lists that the code searches by name. The user's list is merged with
  a list of defaults: what is missing is appended, what is there is completed. The locale \<open>named_merge\<close> states what
  such a merge does to the element of a name, for any function that completes an element without changing its name.
\<close>

definition lookup :: "('a \<Rightarrow> string) \<Rightarrow> string \<Rightarrow> 'a list \<Rightarrow> 'a option" where
  "lookup key n xs = find (\<lambda>x. key x = n) xs"

text \<open>The code looks up an index and updates the element at it: the first one with the name.\<close>

fun update_first :: "('a \<Rightarrow> bool) \<Rightarrow> ('a \<Rightarrow> 'a) \<Rightarrow> 'a list \<Rightarrow> 'a list" where
  "update_first P f [] = []"
| "update_first P f (x # xs) = (if P x then f x # xs else x # update_first P f xs)"

fun remove_first :: "('a \<Rightarrow> bool) \<Rightarrow> 'a list \<Rightarrow> 'a list" where
  "remove_first P [] = []"
| "remove_first P (x # xs) = (if P x then xs else x # remove_first P xs)"

lemma lookup_simps [simp]:
  "lookup key n [] = None"
  "lookup key n (x # xs) = (if key x = n then Some x else lookup key n xs)"
  by (simp_all add: lookup_def)

lemma lookup_append: "lookup key n (xs @ ys) = (case lookup key n xs of None \<Rightarrow> lookup key n ys | Some x \<Rightarrow> Some x)"
  by (induction xs) auto

lemma lookup_None: "lookup key n xs = None \<longleftrightarrow> n \<notin> set (map key xs)"
  by (induction xs) auto

lemma lookup_ex: "list_ex (\<lambda>x. key x = n) xs \<longleftrightarrow> lookup key n xs \<noteq> None"
  by (induction xs) auto

lemma lookup_names: "map key xs = map key ys \<Longrightarrow> lookup key n xs = None \<longleftrightarrow> lookup key n ys = None"
  by (simp add: lookup_None)

lemma lookup_all: "list_all Q xs \<Longrightarrow> lookup key n xs = Some x \<Longrightarrow> Q x"
  by (induction xs) (auto split: if_splits)

lemma lookup_key: "lookup key n xs = Some x \<Longrightarrow> key x = n"
  by (induction xs) (auto split: if_splits)

lemma lookup_member: "distinct (map key xs) \<Longrightarrow> x \<in> set xs \<Longrightarrow> lookup key (key x) xs = Some x"
  by (induction xs) auto

lemma lookup_filter: "(\<And>x. key x = n \<Longrightarrow> P x) \<Longrightarrow> lookup key n (filter P xs) = lookup key n xs"
  by (induction xs) auto

lemma lookup_remove_first: "n \<noteq> m \<Longrightarrow> lookup key n (remove_first (\<lambda>x. key x = m) xs) = lookup key n xs"
  by (induction xs) auto

lemma lookup_update:
  assumes "\<And>x. key x = m \<Longrightarrow> key (f x) = m"
  shows "lookup key n (update_first (\<lambda>x. key x = m) f xs) = (if n = m then map_option f (lookup key n xs) else lookup key n xs)"
  using assms by (induction xs) auto

lemma names_update:
  assumes "\<And>x. key x = m \<Longrightarrow> key (f x) = m"
  shows "map key (update_first (\<lambda>x. key x = m) f xs) = map key xs"
  using assms by (induction xs) auto

lemma update_same: "(\<And>x. lookup key m xs = Some x \<Longrightarrow> f x = x) \<Longrightarrow> update_first (\<lambda>x. key x = m) f xs = xs"
  by (induction xs) auto

lemma index_where_negative: "0 \<le> j \<Longrightarrow> (index_where P j xs < 0) = (find P xs = None)" for j :: int
  by (induction xs arbitrary: j) auto

subsection \<open>The merge\<close>

definition append_missing :: "('a \<Rightarrow> string) \<Rightarrow> 'a list \<Rightarrow> 'a \<Rightarrow> 'a list" where
  "append_missing key xs d = (if lookup key (key d) xs = None then xs @ [d] else xs)"

lemma lookup_appended:
  "lookup key n (foldl (append_missing key) xs ds) = (case lookup key n xs of None \<Rightarrow> lookup key n ds | Some x \<Rightarrow> Some x)"
proof (induction ds arbitrary: xs)
  case Nil
  then show ?case by (simp split: option.split)
next
  case (Cons d ds)
  show ?case
    unfolding foldl_Cons Cons.IH by (auto simp: append_missing_def lookup_append split: option.splits)
qed

lemma appended_same: "list_all (\<lambda>d. lookup key (key d) xs \<noteq> None) ds \<Longrightarrow> foldl (append_missing key) xs ds = xs"
  by (induction ds) (auto simp: append_missing_def)

locale named_merge =
  fixes key :: "'a \<Rightarrow> string" and complete :: "'a \<Rightarrow> 'a \<Rightarrow> 'a"
  assumes key_complete: "key (complete d x) = key x"
begin

lemma lookup_completed:
  assumes "distinct (map key ds)"
  shows "lookup key n (foldl (\<lambda>xs d. update_first (\<lambda>x. key x = key d) (complete d) xs) xs ds) = (case lookup key n xs of
      None \<Rightarrow> None
    | Some x \<Rightarrow> Some (case lookup key n ds of None \<Rightarrow> x | Some d \<Rightarrow> complete d x))"
  using assms
proof (induction ds arbitrary: xs)
  case Nil
  then show ?case by (simp split: option.split)
next
  case (Cons d ds)
  have "lookup key (key d) ds = None" using Cons.prems by (simp add: lookup_None)
  with Cons show ?case by (auto simp: lookup_update key_complete split: option.split)
qed

lemma completed_same:
  assumes "\<And>d x. d \<in> set ds \<Longrightarrow> lookup key (key d) xs = Some x \<Longrightarrow> complete d x = x"
  shows "foldl (\<lambda>xs d. update_first (\<lambda>x. key x = key d) (complete d) xs) xs ds = xs"
  using assms
proof (induction ds)
  case (Cons d ds)
  then have "update_first (\<lambda>x. key x = key d) (complete d) xs = xs" by (intro update_same) auto
  then show ?case using Cons by simp
qed simp

text \<open>The whole merge, and that a second one changes nothing.\<close>

lemma lookup_merged:
  assumes "distinct (map key ds)"
  shows "lookup key n (foldl (\<lambda>xs d. update_first (\<lambda>x. key x = key d) (complete d) xs) (foldl (append_missing key) xs ds) ds) =
    (case lookup key n ds of None \<Rightarrow> lookup key n xs
     | Some d \<Rightarrow> Some (complete d (case lookup key n xs of None \<Rightarrow> d | Some x \<Rightarrow> x)))"
  by (auto simp: lookup_completed [OF assms] lookup_appended split: option.split)

lemma merged_twice:
  assumes "distinct (map key ds)" and "\<And>d x. d \<in> set ds \<Longrightarrow> complete d (complete d x) = complete d x"
    and "ys = foldl (\<lambda>xs d. update_first (\<lambda>x. key x = key d) (complete d) xs) (foldl (append_missing key) xs ds) ds"
  shows "foldl (append_missing key) ys ds = ys" and "foldl (\<lambda>xs d. update_first (\<lambda>x. key x = key d) (complete d) xs) ys ds = ys"
proof -
  have found: "lookup key (key d) ys = Some (complete d (case lookup key (key d) xs of None \<Rightarrow> d | Some x \<Rightarrow> x))" if "d \<in> set ds" for d
    using that by (simp add: assms(3) lookup_merged [OF assms(1)] lookup_member [OF assms(1)])
  show "foldl (append_missing key) ys ds = ys" by (rule appended_same) (simp add: list_all_iff found)
  show "foldl (\<lambda>xs d. update_first (\<lambda>x. key x = key d) (complete d) xs) ys ds = ys"
    by (rule completed_same) (auto simp: found assms(2))
qed

end

end
