(* ===== verification/AddonDefaults.thy ===== *)
theory AddonDefaults
  imports CloudSpecs Net K8sComponents NamedLists
begin

section \<open>Defaults of the addons (pkg/api/addons.go)\<close>

text \<open>
  The default specification of every addon, in the order of the file, and how \<open>setAddonsConfig\<close> merges them with
  the specifications of the user. What the tables read is collected in a record.
\<close>

subsection \<open>What the cluster definition says (types.go)\<close>

definition HasNSeriesSKU :: "properties \<Rightarrow> bool" where
  "HasNSeriesSKU p \<longleftrightarrow> list_ex (\<lambda>a. contains (ap_VMSize a) ''Standard_N'') (pools p)"

definition IsNvidiaDevicePluginCapable :: "properties \<Rightarrow> bool" where
  "IsNvidiaDevicePluginCapable p = HasNSeriesSKU p"

definition HasAADAdminGroupID :: "properties \<Rightarrow> bool" where
  "HasAADAdminGroupID p = (case p_AADProfile p of None \<Rightarrow> False | Some a \<Rightarrow> aad_AdminGroupID a \<noteq> '''')"

definition GetAADAdminGroupID :: "properties \<Rightarrow> string" where
  "GetAADAdminGroupID p = (case p_AADProfile p of None \<Rightarrow> '''' | Some a \<Rightarrow> aad_AdminGroupID a)"

definition GetKubeProxyFeatureGates :: "properties \<Rightarrow> string" where
  "GetKubeProxyFeatureGates p =
     (if IsFeatureEnabled (p_FeatureFlags p) ''EnableIPv6DualStack'' then ''IPv6DualStack: true'' else ''{}'')"

definition DefaultCNICIDR :: string where "DefaultCNICIDR = ''168.63.129.16/32''"

definition GetAzureCNICidr :: "orchestrator_profile \<Rightarrow> string" where
  "GetAzureCNICidr orch = (if IsAzureCNI orch then DefaultCNICIDR else '''')"

text \<open>\<open>IPNet.String\<close> of the subnet in a CIDR; without a subnet it prints \<open><nil>\<close>.\<close>

definition subnet_string :: "string \<Rightarrow> string" where
  "subnet_string cidr = (case ParseCIDR cidr of None \<Rightarrow> ''<nil>''
     | Some (_, n) \<Rightarrow>
       let nn = if To4 (n_IP n) \<noteq> [] then To4 (n_IP n) else n_IP n;
           m = if length (n_Mask n) = 16 \<and> length nn = 4 then drop 12 (n_Mask n) else n_Mask n
       in IP_String nn @ ''/'' @ utoa (fst (Mask_Size m)))"

definition GetNonMasqueradeCIDR :: "properties \<Rightarrow> orchestrator_profile \<Rightarrow> kubernetes_config \<Rightarrow> string" where
  "GetNonMasqueradeCIDR p orch k =
     (if IsAzureCNI orch
      then (case p_MasterProfile p of
          Some m \<Rightarrow> if MasterProfile_IsCustomVNET m then mp_VnetCidr m else DefaultVNETCIDR
        | None \<Rightarrow> DefaultVNETCIDR)
      else if IsFeatureEnabled (p_FeatureFlags p) ''EnableIPv6DualStack''
      then subnet_string (hd (split_on (CHR '','') (kc_ClusterSubnet k)))
      else kc_ClusterSubnet k)"

definition GetSecondaryNonMasqueradeCIDR :: "properties \<Rightarrow> kubernetes_config \<Rightarrow> string result" where
  "GetSecondaryNonMasqueradeCIDR p k =
     (if IsFeatureEnabled (p_FeatureFlags p) ''EnableIPv6DualStack''
      then (case split_on (CHR '','') (kc_ClusterSubnet k) of
          _ # cidr # _ \<Rightarrow> Inr (subnet_string cidr)
        | _ \<Rightarrow> Inl (Panic ''index out of range''))
      else Inr '''')"

definition kubeProxyImageSuffix :: "properties \<Rightarrow> orchestrator_profile \<Rightarrow> string" where
  "kubeProxyImageSuffix p orch =
     (if IsAzureStackCloud p \<and> \<not> IsKubernetesVersionGe (op_OrchestratorVersion orch) ''1.21.0'' then AzureStackSuffix else '''')"

definition getCSISidecarComponent :: "string \<Rightarrow> string \<Rightarrow> (string \<times> string) list \<Rightarrow> string" where
  "getCSISidecarComponent csiDriverName csiSidecarName k8sComponents =
     (case Option.bind (map_of csiSidecarComponentsOverrides csiDriverName) (\<lambda>m. map_of m csiSidecarName) of
        Some c \<Rightarrow> c
      | None \<Rightarrow> map_get k8sComponents csiSidecarName)"

definition makeDefaultClusterAutoscalerAddonPoolsConfig :: "properties \<Rightarrow> addon_pools_config list" where
  "makeDefaultClusterAutoscalerAddonPoolsConfig p =
     map (\<lambda>pool. \<lparr>anp_Name = ap_Name pool,
       anp_Config = Some [(''min-nodes'', itoa (ap_Count pool)), (''max-nodes'', itoa (ap_Count pool))]\<rparr>) (pools p)"

subsection \<open>The tables\<close>

record addon_context =
  ax_p :: properties
  ax_o :: orchestrator_profile
  ax_k :: kubernetes_config
  ax_spec :: kubernetes_spec_config
  ax_base :: string
  ax_components :: "(string \<times> string) list"
  ax_disk :: bool
  ax_file :: bool
  ax_node :: bool
  ax_nonmasq :: string
  ax_secondary :: string

definition antrea_chained :: "addon_context \<Rightarrow> bool" where
  "antrea_chained c \<longleftrightarrow> kc_NetworkPolicy (ax_k c) = NetworkPolicyAntrea \<and> IsAzureCNI (ax_o c)"

definition getAddonsIndexByName :: "addon list \<Rightarrow> string \<Rightarrow> int" where
  "getAddonsIndexByName addons name = index_where (\<lambda>a. ad_Name a = name) 0 addons"

text \<open>The conditions under which kube-dns takes the place of coredns.\<close>

definition coredns_replaced :: "bool \<Rightarrow> addon_context \<Rightarrow> bool" where
  "coredns_replaced isUpgrade c \<longleftrightarrow>
     ((getAddonsIndexByName (kc_Addons (ax_k c)) KubeDNSAddonName \<noteq> - 1 \<or>
       getAddonsIndexByName (kc_Addons (ax_k c)) CoreDNSAddonName \<noteq> - 1) \<and> IsAddonEnabled (ax_k c) KubeDNSAddonName) \<or>
     (\<not> isUpgrade \<and> IsAddonEnabled (ax_k c) KubeDNSAddonName)"


definition defaultTillerAddonsConfig :: "addon_context \<Rightarrow> addon" where
  "defaultTillerAddonsConfig c = zero_addon\<lparr>ad_Name := TillerAddonName,
     ad_Enabled := Some DefaultTillerAddonEnabled,
     ad_Containers :=
       [zero_container_spec\<lparr>ct_Name := TillerAddonName, ct_CPURequests := ''50m'', ct_MemoryRequests := ''150Mi'', ct_CPULimits := ''50m'', ct_MemoryLimits := ''150Mi'', ct_Image := ks_TillerImageBase (ax_spec c) @ map_get (ax_components c) TillerAddonName\<rparr>],
     ad_Config := Some
       [(''max-history'', itoa DefaultTillerMaxHistory)]\<rparr>"

definition defaultClusterAutoscalerAddonsConfig :: "addon_context \<Rightarrow> addon" where
  "defaultClusterAutoscalerAddonsConfig c = zero_addon\<lparr>ad_Name := ClusterAutoscalerAddonName,
     ad_Enabled := Some (DefaultClusterAutoscalerAddonEnabled \<and> \<not> IsAzureStackCloud (ax_p c)),
     ad_Mode := AddonModeEnsureExists,
     ad_Config := Some
       [(''scan-interval'', ''1m''),
        (''expendable-pods-priority-cutoff'', ''-10''),
        (''ignore-daemonsets-utilization'', ''false''),
        (''ignore-mirror-pods-utilization'', ''false''),
        (''max-autoprovisioned-node-group-count'', ''15''),
        (''max-empty-bulk-delete'', ''10''),
        (''max-failing-time'', ''15m0s''),
        (''max-graceful-termination-sec'', ''600''),
        (''max-inactivity'', ''10m0s''),
        (''max-node-provision-time'', ''15m0s''),
        (''max-nodes-total'', ''0''),
        (''max-total-unready-percentage'', ''45''),
        (''memory-total'', ''0:6400000''),
        (''min-replica-count'', ''0''),
        (''new-pod-scale-up-delay'', ''0s''),
        (''node-autoprovisioning-enabled'', ''false''),
        (''ok-total-unready-count'', ''3''),
        (''scale-down-candidates-pool-min-count'', ''50''),
        (''scale-down-candidates-pool-ratio'', ''0.1''),
        (''scale-down-delay-after-add'', ''10m0s''),
        (''scale-down-delay-after-delete'', ''1m''),
        (''scale-down-delay-after-failure'', ''3m0s''),
        (''scale-down-enabled'', ''true''),
        (''scale-down-non-empty-candidates-count'', ''30''),
        (''scale-down-unneeded-time'', ''10m0s''),
        (''scale-down-unready-time'', ''20m0s''),
        (''scale-down-utilization-threshold'', ''0.5''),
        (''skip-nodes-with-local-storage'', ''false''),
        (''skip-nodes-with-system-pods'', ''true''),
        (''stderrthreshold'', ''2''),
        (''unremovable-node-recheck-timeout'', ''5m0s''),
        (''v'', ''3''),
        (''write-status-configmap'', ''true''),
        (''balance-similar-node-groups'', ''true'')],
     ad_Containers :=
       [zero_container_spec\<lparr>ct_Name := ClusterAutoscalerAddonName, ct_CPURequests := ''100m'', ct_MemoryRequests := ''300Mi'', ct_CPULimits := ''100m'', ct_MemoryLimits := ''300Mi'', ct_Image := ax_base c @ map_get (ax_components c) ClusterAutoscalerAddonName\<rparr>],
     ad_Pools := makeDefaultClusterAutoscalerAddonPoolsConfig (ax_p c)\<rparr>"

definition defaultSMBFlexVolumeAddonsConfig :: "addon_context \<Rightarrow> addon" where
  "defaultSMBFlexVolumeAddonsConfig c = zero_addon\<lparr>ad_Name := SMBFlexVolumeAddonName,
     ad_Enabled := Some (DefaultSMBFlexVolumeAddonEnabled \<and> IsKubernetesVersionGe (op_OrchestratorVersion (ax_o c)) ''1.8.0'' \<and> \<not> IsAzureStackCloud (ax_p c)),
     ad_Containers :=
       [zero_container_spec\<lparr>ct_Name := SMBFlexVolumeAddonName, ct_CPURequests := ''50m'', ct_MemoryRequests := ''100Mi'', ct_CPULimits := ''50m'', ct_MemoryLimits := ''100Mi'', ct_Image := map_get (ax_components c) SMBFlexVolumeAddonName\<rparr>]\<rparr>"

definition defaultDashboardAddonsConfig :: "addon_context \<Rightarrow> addon" where
  "defaultDashboardAddonsConfig c = zero_addon\<lparr>ad_Name := DashboardAddonName,
     ad_Enabled := Some DefaultDashboardAddonEnabled,
     ad_Containers :=
       [zero_container_spec\<lparr>ct_Name := DashboardAddonName, ct_CPURequests := ''300m'', ct_MemoryRequests := ''150Mi'', ct_CPULimits := ''300m'', ct_MemoryLimits := ''150Mi'', ct_Image := map_get (ax_components c) DashboardAddonName\<rparr>,
        zero_container_spec\<lparr>ct_Name := DashboardMetricsScraperContainerName, ct_CPURequests := ''300m'', ct_MemoryRequests := ''150Mi'', ct_CPULimits := ''300m'', ct_MemoryLimits := ''150Mi'', ct_Image := map_get (ax_components c) DashboardMetricsScraperContainerName\<rparr>]\<rparr>"

definition defaultMetricsServerAddonsConfig :: "addon_context \<Rightarrow> addon" where
  "defaultMetricsServerAddonsConfig c = zero_addon\<lparr>ad_Name := MetricsServerAddonName,
     ad_Enabled := Some DefaultMetricsServerAddonEnabled,
     ad_Mode := (if IsKubernetesVersionGe (op_OrchestratorVersion (ax_o c)) ''1.16.0'' then AddonModeReconcile else AddonModeEnsureExists),
     ad_Containers :=
       [zero_container_spec\<lparr>ct_Name := MetricsServerAddonName, ct_Image := ax_base c @ map_get (ax_components c) MetricsServerAddonName\<rparr>]\<rparr>"

definition defaultNVIDIADevicePluginAddonsConfig :: "addon_context \<Rightarrow> addon" where
  "defaultNVIDIADevicePluginAddonsConfig c = zero_addon\<lparr>ad_Name := NVIDIADevicePluginAddonName,
     ad_Enabled := Some (IsNvidiaDevicePluginCapable (ax_p c) \<and> \<not> IsAzureStackCloud (ax_p c)),
     ad_Containers :=
       [zero_container_spec\<lparr>ct_Name := NVIDIADevicePluginAddonName, ct_CPURequests := ''50m'', ct_MemoryRequests := ''100Mi'', ct_CPULimits := ''50m'', ct_MemoryLimits := ''100Mi'', ct_Image := ks_NVIDIAImageBase (ax_spec c) @ map_get (ax_components c) NVIDIADevicePluginAddonName\<rparr>]\<rparr>"

definition defaultIPMasqAgentAddonsConfig :: "addon_context \<Rightarrow> addon" where
  "defaultIPMasqAgentAddonsConfig c = zero_addon\<lparr>ad_Name := IPMASQAgentAddonName,
     ad_Enabled := Some (DefaultIPMasqAgentAddonEnabled \<and> kc_NetworkPlugin (ax_k c) \<noteq> NetworkPluginCilium \<and> kc_NetworkPlugin (ax_k c) \<noteq> NetworkPluginAntrea),
     ad_Containers :=
       [zero_container_spec\<lparr>ct_Name := IPMASQAgentAddonName, ct_CPURequests := ''50m'', ct_MemoryRequests := ''50Mi'', ct_CPULimits := ''50m'', ct_MemoryLimits := ''250Mi'', ct_Image := ax_base c @ map_get (ax_components c) IPMASQAgentAddonName\<rparr>],
     ad_Config := Some
       [(''non-masquerade-cidr'', ax_nonmasq c),
        (''non-masq-cni-cidr'', GetAzureCNICidr (ax_o c)),
        (''secondary-non-masquerade-cidr'', ax_secondary c),
        (''enable-ipv6'', format_bool (IsFeatureEnabled (p_FeatureFlags (ax_p c)) ''EnableIPv6DualStack'' \<or> IsFeatureEnabled (p_FeatureFlags (ax_p c)) ''EnableIPv6Only''))]\<rparr>"

definition defaultAzureNetworkPolicyAddonsConfig :: "addon_context \<Rightarrow> addon" where
  "defaultAzureNetworkPolicyAddonsConfig c = zero_addon\<lparr>ad_Name := AzureNetworkPolicyAddonName,
     ad_Enabled := Some (kc_NetworkPlugin (ax_k c) = NetworkPluginAzure \<and> kc_NetworkPolicy (ax_k c) = NetworkPolicyAzure),
     ad_Mode := (if IsKubernetesVersionGe (op_OrchestratorVersion (ax_o c)) ''1.16.0'' then AddonModeReconcile else AddonModeEnsureExists),
     ad_Containers :=
       [zero_container_spec\<lparr>ct_Name := AzureNetworkPolicyAddonName, ct_Image := map_get (ax_components c) AzureNetworkPolicyAddonName, ct_CPURequests := ''10m'', ct_MemoryRequests := ''20Mi'', ct_CPULimits := ''100m'', ct_MemoryLimits := ''200Mi''\<rparr>]\<rparr>"

definition defaultCloudNodeManagerAddonsConfig :: "addon_context \<Rightarrow> addon" where
  "defaultCloudNodeManagerAddonsConfig c = zero_addon\<lparr>ad_Name := CloudNodeManagerAddonName,
     ad_Enabled := Some (ax_node c),
     ad_Containers :=
       [zero_container_spec\<lparr>ct_Name := CloudNodeManagerAddonName, ct_Image := ks_MCRKubernetesImageBase (ax_spec c) @ map_get (ax_components c) CloudNodeManagerAddonName\<rparr>]\<rparr>"

definition defaultsCalicoDaemonSetAddonsConfig :: "addon_context \<Rightarrow> addon" where
  "defaultsCalicoDaemonSetAddonsConfig c = zero_addon\<lparr>ad_Name := CalicoAddonName,
     ad_Enabled := Some (kc_NetworkPolicy (ax_k c) = NetworkPolicyCalico),
     ad_Config := Some
       [(''logSeverityScreen'', ''info''),
        (''usageReportingEnabled'', ''true'')],
     ad_Containers :=
       [zero_container_spec\<lparr>ct_Name := CalicoTyphaComponentName, ct_Image := ks_CalicoImageBase (ax_spec c) @ map_get (ax_components c) CalicoTyphaComponentName\<rparr>,
        zero_container_spec\<lparr>ct_Name := CalicoCNIComponentName, ct_Image := ks_CalicoImageBase (ax_spec c) @ map_get (ax_components c) CalicoCNIComponentName\<rparr>,
        zero_container_spec\<lparr>ct_Name := CalicoNodeComponentName, ct_Image := ks_CalicoImageBase (ax_spec c) @ map_get (ax_components c) CalicoNodeComponentName\<rparr>,
        zero_container_spec\<lparr>ct_Name := CalicoPod2DaemonComponentName, ct_Image := ks_CalicoImageBase (ax_spec c) @ map_get (ax_components c) CalicoPod2DaemonComponentName\<rparr>,
        zero_container_spec\<lparr>ct_Name := CalicoClusterAutoscalerComponentName, ct_Image := map_get (ax_components c) CalicoClusterAutoscalerComponentName\<rparr>]\<rparr>"

definition defaultsCiliumAddonsConfig :: "addon_context \<Rightarrow> addon" where
  "defaultsCiliumAddonsConfig c = zero_addon\<lparr>ad_Name := CiliumAddonName,
     ad_Enabled := Some (kc_NetworkPolicy (ax_k c) = NetworkPolicyCilium),
     ad_Containers :=
       [zero_container_spec\<lparr>ct_Name := CiliumAgentContainerName, ct_Image := map_get (ax_components c) CiliumAgentContainerName\<rparr>,
        zero_container_spec\<lparr>ct_Name := CiliumCleanStateContainerName, ct_Image := map_get (ax_components c) CiliumCleanStateContainerName\<rparr>,
        zero_container_spec\<lparr>ct_Name := CiliumOperatorContainerName, ct_Image := map_get (ax_components c) CiliumOperatorContainerName\<rparr>,
        zero_container_spec\<lparr>ct_Name := CiliumEtcdOperatorContainerName, ct_Image := map_get (ax_components c) CiliumEtcdOperatorContainerName\<rparr>]\<rparr>"

definition defaultsAntreaDaemonSetAddonsConfig :: "addon_context \<Rightarrow> addon" where
  "defaultsAntreaDaemonSetAddonsConfig c = zero_addon\<lparr>ad_Name := AntreaAddonName,
     ad_Enabled := Some (kc_NetworkPolicy (ax_k c) = NetworkPolicyAntrea),
     ad_Config := Some
       [(''serviceCidr'', kc_ServiceCIDR (ax_k c)),
        (''trafficEncapMode'', if antrea_chained c then AntreaNetworkPolicyOnlyMode else AntreaDefaultTrafficEncapMode),
        (''installCniCmd'', if antrea_chained c then AntreaInstallCniChainCmd else AntreaDefaultInstallCniCmd)],
     ad_Containers :=
       [zero_container_spec\<lparr>ct_Name := AntreaControllerContainerName, ct_Image := map_get (ax_components c) AntreaControllerContainerName, ct_CPURequests := ''200m''\<rparr>,
        zero_container_spec\<lparr>ct_Name := AntreaAgentContainerName, ct_Image := map_get (ax_components c) AntreaAgentContainerName, ct_CPURequests := ''200m''\<rparr>,
        zero_container_spec\<lparr>ct_Name := AntreaOVSContainerName, ct_Image := map_get (ax_components c) AntreaOVSContainerName, ct_CPURequests := ''200m''\<rparr>,
        zero_container_spec\<lparr>ct_Name := AntreaInstallCNIContainerName, ct_Image := map_get (ax_components c) (''antrea'' @ AntreaInstallCNIContainerName), ct_CPURequests := ''100m''\<rparr>]\<rparr>"

definition defaultsAADPodIdentityAddonsConfig :: "addon_context \<Rightarrow> addon" where
  "defaultsAADPodIdentityAddonsConfig c = zero_addon\<lparr>ad_Name := AADPodIdentityAddonName,
     ad_Enabled := Some (DefaultAADPodIdentityAddonEnabled \<and> \<not> IsAzureStackCloud (ax_p c)),
     ad_Config := Some
       [(''probePort'', ''8085'')],
     ad_Containers :=
       [zero_container_spec\<lparr>ct_Name := NMIContainerName, ct_Image := map_get (ax_components c) NMIContainerName, ct_CPURequests := ''100m'', ct_MemoryRequests := ''256Mi'', ct_CPULimits := ''200m'', ct_MemoryLimits := ''512Mi''\<rparr>,
        zero_container_spec\<lparr>ct_Name := MICContainerName, ct_Image := map_get (ax_components c) MICContainerName, ct_CPURequests := ''100m'', ct_MemoryRequests := ''256Mi'', ct_CPULimits := ''200m'', ct_MemoryLimits := ''1024Mi''\<rparr>]\<rparr>"

definition defaultsAzurePolicyAddonsConfig :: "addon_context \<Rightarrow> addon" where
  "defaultsAzurePolicyAddonsConfig c = zero_addon\<lparr>ad_Name := AzurePolicyAddonName,
     ad_Enabled := Some (DefaultAzurePolicyAddonEnabled \<and> \<not> IsAzureStackCloud (ax_p c)),
     ad_Config := Some
       [(''auditInterval'', ''60''),
        (''constraintViolationsLimit'', ''100'')],
     ad_Containers :=
       [zero_container_spec\<lparr>ct_Name := AzurePolicyAddonName, ct_Image := map_get (ax_components c) AzurePolicyAddonName, ct_CPURequests := ''30m'', ct_MemoryRequests := ''50Mi'', ct_CPULimits := ''100m'', ct_MemoryLimits := ''200Mi''\<rparr>,
        zero_container_spec\<lparr>ct_Name := GatekeeperContainerName, ct_Image := map_get (ax_components c) GatekeeperContainerName, ct_CPURequests := ''100m'', ct_MemoryRequests := ''256Mi'', ct_CPULimits := ''1000m'', ct_MemoryLimits := ''512Mi''\<rparr>]\<rparr>"

definition defaultNodeProblemDetectorConfig :: "addon_context \<Rightarrow> addon" where
  "defaultNodeProblemDetectorConfig c = zero_addon\<lparr>ad_Name := NodeProblemDetectorAddonName,
     ad_Enabled := Some DefaultNodeProblemDetectorAddonEnabled,
     ad_Config := Some
       [(''customPluginMonitor'', ''/config/kernel-monitor-counter.json,/config/systemd-monitor-counter.json''),
        (''systemLogMonitor'', ''/config/kernel-monitor.json,/config/docker-monitor.json,/config/systemd-monitor.json''),
        (''systemStatsMonitor'', ''/config/system-stats-monitor.json''),
        (''versionLabel'', ''v0.8.4'')],
     ad_Containers :=
       [zero_container_spec\<lparr>ct_Name := NodeProblemDetectorAddonName, ct_Image := map_get (ax_components c) NodeProblemDetectorAddonName, ct_CPURequests := ''20m'', ct_MemoryRequests := ''20Mi'', ct_CPULimits := ''200m'', ct_MemoryLimits := ''100Mi''\<rparr>]\<rparr>"

definition defaultAppGwAddonsConfig :: "addon_context \<Rightarrow> addon" where
  "defaultAppGwAddonsConfig c = zero_addon\<lparr>ad_Name := AppGwIngressAddonName,
     ad_Enabled := Some DefaultAppGwIngressAddonEnabled,
     ad_Config := Some
       [(''appgw-subnet'', ''''),
        (''appgw-sku'', ''WAF_v2''),
        (''appgw-private-ip'', '''')]\<rparr>"

definition defaultAzureDiskCSIDriverAddonsConfig :: "addon_context \<Rightarrow> addon" where
  "defaultAzureDiskCSIDriverAddonsConfig c = zero_addon\<lparr>ad_Name := AzureDiskCSIDriverAddonName,
     ad_Enabled := Some (DefaultAzureDiskCSIDriverAddonEnabled \<and> ax_disk c),
     ad_Containers :=
       [zero_container_spec\<lparr>ct_Name := CSIProvisionerContainerName, ct_Image := ks_MCRKubernetesImageBase (ax_spec c) @ getCSISidecarComponent AzureDiskCSIDriverAddonName CSIProvisionerContainerName (ax_components c), ct_CPURequests := ''10m'', ct_MemoryRequests := ''20Mi'', ct_CPULimits := ''2'', ct_MemoryLimits := ''2Gi''\<rparr>,
        zero_container_spec\<lparr>ct_Name := CSIAttacherContainerName, ct_Image := ks_MCRKubernetesImageBase (ax_spec c) @ getCSISidecarComponent AzureDiskCSIDriverAddonName CSIAttacherContainerName (ax_components c), ct_CPURequests := ''10m'', ct_MemoryRequests := ''20Mi'', ct_CPULimits := ''2'', ct_MemoryLimits := ''2Gi''\<rparr>,
        zero_container_spec\<lparr>ct_Name := CSILivenessProbeContainerName, ct_Image := ks_MCRKubernetesImageBase (ax_spec c) @ getCSISidecarComponent AzureDiskCSIDriverAddonName CSILivenessProbeContainerName (ax_components c), ct_CPURequests := ''10m'', ct_MemoryRequests := ''20Mi'', ct_CPULimits := ''2'', ct_MemoryLimits := ''2Gi''\<rparr>,
        zero_container_spec\<lparr>ct_Name := CSINodeDriverRegistrarContainerName, ct_Image := ks_MCRKubernetesImageBase (ax_spec c) @ getCSISidecarComponent AzureDiskCSIDriverAddonName CSINodeDriverRegistrarContainerName (ax_components c), ct_CPURequests := ''10m'', ct_MemoryRequests := ''20Mi'', ct_CPULimits := ''2'', ct_MemoryLimits := ''2Gi''\<rparr>,
        zero_container_spec\<lparr>ct_Name := CSILivenessProbeWindowsContainerName, ct_Image := ks_MCRKubernetesImageBase (ax_spec c) @ getCSISidecarComponent AzureDiskCSIDriverAddonName CSILivenessProbeWindowsContainerName (ax_components c), ct_CPURequests := ''10m'', ct_MemoryRequests := ''20Mi'', ct_CPULimits := ''2'', ct_MemoryLimits := ''2Gi''\<rparr>,
        zero_container_spec\<lparr>ct_Name := CSINodeDriverRegistrarWindowsContainerName, ct_Image := ks_MCRKubernetesImageBase (ax_spec c) @ getCSISidecarComponent AzureDiskCSIDriverAddonName CSINodeDriverRegistrarWindowsContainerName (ax_components c), ct_CPURequests := ''10m'', ct_MemoryRequests := ''20Mi'', ct_CPULimits := ''2'', ct_MemoryLimits := ''2Gi''\<rparr>,
        zero_container_spec\<lparr>ct_Name := CSISnapshotterContainerName, ct_Image := ks_MCRKubernetesImageBase (ax_spec c) @ getCSISidecarComponent AzureDiskCSIDriverAddonName CSISnapshotterContainerName (ax_components c), ct_CPURequests := ''10m'', ct_MemoryRequests := ''20Mi'', ct_CPULimits := ''2'', ct_MemoryLimits := ''2Gi''\<rparr>,
        zero_container_spec\<lparr>ct_Name := CSISnapshotControllerContainerName, ct_Image := ks_MCRKubernetesImageBase (ax_spec c) @ getCSISidecarComponent AzureDiskCSIDriverAddonName CSISnapshotControllerContainerName (ax_components c), ct_CPURequests := ''10m'', ct_MemoryRequests := ''20Mi'', ct_CPULimits := ''2'', ct_MemoryLimits := ''2Gi''\<rparr>,
        zero_container_spec\<lparr>ct_Name := CSIResizerContainerName, ct_Image := ks_MCRKubernetesImageBase (ax_spec c) @ getCSISidecarComponent AzureDiskCSIDriverAddonName CSIResizerContainerName (ax_components c), ct_CPURequests := ''10m'', ct_MemoryRequests := ''20Mi'', ct_CPULimits := ''2'', ct_MemoryLimits := ''2Gi''\<rparr>,
        zero_container_spec\<lparr>ct_Name := CSIAzureDiskContainerName, ct_Image := ks_MCRKubernetesImageBase (ax_spec c) @ getCSISidecarComponent AzureDiskCSIDriverAddonName CSIAzureDiskContainerName (ax_components c), ct_CPURequests := ''10m'', ct_MemoryRequests := ''20Mi'', ct_CPULimits := ''2'', ct_MemoryLimits := ''2Gi''\<rparr>]\<rparr>"

definition defaultAzureFileCSIDriverAddonsConfig :: "addon_context \<Rightarrow> addon" where
  "defaultAzureFileCSIDriverAddonsConfig c = zero_addon\<lparr>ad_Name := AzureFileCSIDriverAddonName,
     ad_Enabled := Some (DefaultAzureFileCSIDriverAddonEnabled \<and> ax_file c \<and> \<not> IsAzureStackCloud (ax_p c)),
     ad_Containers :=
       [zero_container_spec\<lparr>ct_Name := CSIProvisionerContainerName, ct_Image := ks_MCRKubernetesImageBase (ax_spec c) @ getCSISidecarComponent AzureFileCSIDriverAddonName CSIProvisionerContainerName (ax_components c), ct_CPURequests := ''10m'', ct_MemoryRequests := ''20Mi'', ct_CPULimits := ''2'', ct_MemoryLimits := ''2Gi''\<rparr>,
        zero_container_spec\<lparr>ct_Name := CSIAttacherContainerName, ct_Image := ks_MCRKubernetesImageBase (ax_spec c) @ getCSISidecarComponent AzureFileCSIDriverAddonName CSIAttacherContainerName (ax_components c), ct_CPURequests := ''10m'', ct_MemoryRequests := ''20Mi'', ct_CPULimits := ''2'', ct_MemoryLimits := ''2Gi''\<rparr>,
        zero_container_spec\<lparr>ct_Name := CSILivenessProbeContainerName, ct_Image := ks_MCRKubernetesImageBase (ax_spec c) @ getCSISidecarComponent AzureFileCSIDriverAddonName CSILivenessProbeContainerName (ax_components c), ct_CPURequests := ''10m'', ct_MemoryRequests := ''20Mi'', ct_CPULimits := ''2'', ct_MemoryLimits := ''2Gi''\<rparr>,
        zero_container_spec\<lparr>ct_Name := CSINodeDriverRegistrarContainerName, ct_Image := ks_MCRKubernetesImageBase (ax_spec c) @ getCSISidecarComponent AzureFileCSIDriverAddonName CSINodeDriverRegistrarContainerName (ax_components c), ct_CPURequests := ''10m'', ct_MemoryRequests := ''20Mi'', ct_CPULimits := ''2'', ct_MemoryLimits := ''2Gi''\<rparr>,
        zero_container_spec\<lparr>ct_Name := CSILivenessProbeWindowsContainerName, ct_Image := ks_MCRKubernetesImageBase (ax_spec c) @ getCSISidecarComponent AzureFileCSIDriverAddonName CSILivenessProbeWindowsContainerName (ax_components c), ct_CPURequests := ''10m'', ct_MemoryRequests := ''20Mi'', ct_CPULimits := ''2'', ct_MemoryLimits := ''2Gi''\<rparr>,
        zero_container_spec\<lparr>ct_Name := CSINodeDriverRegistrarWindowsContainerName, ct_Image := ks_MCRKubernetesImageBase (ax_spec c) @ getCSISidecarComponent AzureFileCSIDriverAddonName CSINodeDriverRegistrarWindowsContainerName (ax_components c), ct_CPURequests := ''10m'', ct_MemoryRequests := ''20Mi'', ct_CPULimits := ''2'', ct_MemoryLimits := ''2Gi''\<rparr>,
        zero_container_spec\<lparr>ct_Name := CSISnapshotterContainerName, ct_Image := ks_MCRKubernetesImageBase (ax_spec c) @ getCSISidecarComponent AzureFileCSIDriverAddonName CSISnapshotterContainerName (ax_components c), ct_CPURequests := ''10m'', ct_MemoryRequests := ''20Mi'', ct_CPULimits := ''2'', ct_MemoryLimits := ''2Gi''\<rparr>,
        zero_container_spec\<lparr>ct_Name := CSIResizerContainerName, ct_Image := ks_MCRKubernetesImageBase (ax_spec c) @ getCSISidecarComponent AzureFileCSIDriverAddonName CSIResizerContainerName (ax_components c), ct_CPURequests := ''10m'', ct_MemoryRequests := ''20Mi'', ct_CPULimits := ''2'', ct_MemoryLimits := ''2Gi''\<rparr>,
        zero_container_spec\<lparr>ct_Name := CSIAzureFileContainerName, ct_Image := ks_MCRKubernetesImageBase (ax_spec c) @ getCSISidecarComponent AzureFileCSIDriverAddonName CSIAzureFileContainerName (ax_components c), ct_CPURequests := ''10m'', ct_MemoryRequests := ''20Mi'', ct_CPULimits := ''2'', ct_MemoryLimits := ''2Gi''\<rparr>]\<rparr>"

definition defaultKubeDNSAddonsConfig :: "addon_context \<Rightarrow> addon" where
  "defaultKubeDNSAddonsConfig c = zero_addon\<lparr>ad_Name := KubeDNSAddonName,
     ad_Enabled := Some DefaultKubeDNSAddonEnabled,
     ad_Config := Some
       [(''domain'', map_get (user_flags (kc_KubeletConfig (ax_k c))) ''--cluster-domain''),
        (''clusterIP'', kc_DNSServiceIP (ax_k c))],
     ad_Containers :=
       [zero_container_spec\<lparr>ct_Name := ''kubedns'', ct_Image := ax_base c @ map_get (ax_components c) KubeDNSAddonName\<rparr>,
        zero_container_spec\<lparr>ct_Name := DNSMasqComponentName, ct_Image := ax_base c @ map_get (ax_components c) DNSMasqComponentName\<rparr>,
        zero_container_spec\<lparr>ct_Name := ''sidecar'', ct_Image := ax_base c @ map_get (ax_components c) DNSSidecarComponentName\<rparr>]\<rparr>"

definition defaultCorednsAddonsConfig :: "bool \<Rightarrow> addon_context \<Rightarrow> addon" where
  "defaultCorednsAddonsConfig isUpgrade c = zero_addon\<lparr>ad_Name := CoreDNSAddonName,
     ad_Enabled := Some (\<not> coredns_replaced isUpgrade c \<and> DefaultCoreDNSAddonEnabled),
     ad_Config := Some
       ([(''domain'', map_get (user_flags (kc_KubeletConfig (ax_k c))) ''--cluster-domain''),
        (''clusterIP'', kc_DNSServiceIP (ax_k c)),
        (''cores-per-replica'', ''512''),
        (''nodes-per-replica'', ''32''),
        (''min-replicas'', ''1'')] @
       (if IsFeatureEnabled (p_FeatureFlags (ax_p c)) ''EnableIPv6Only'' then [(''use-host-network'', ''true'')] else [])),
     ad_Containers :=
       [zero_container_spec\<lparr>ct_Name := CoreDNSAddonName, ct_Image := ax_base c @ map_get (ax_components c) CoreDNSAddonName\<rparr>,
        zero_container_spec\<lparr>ct_Name := CoreDNSAutoscalerName, ct_Image := map_get (ax_components c) CoreDNSAutoscalerName\<rparr>]\<rparr>"

definition defaultKubeProxyAddonsConfig :: "addon_context \<Rightarrow> addon" where
  "defaultKubeProxyAddonsConfig c = zero_addon\<lparr>ad_Name := KubeProxyAddonName,
     ad_Enabled := Some DefaultKubeProxyAddonEnabled,
     ad_Config := Some
       ([(''cluster-cidr'', kc_ClusterSubnet (ax_k c)),
        (''proxy-mode'', kc_ProxyMode (ax_k c)),
        (''featureGates'', GetKubeProxyFeatureGates (ax_p c))] @
       (if IsFeatureEnabled (p_FeatureFlags (ax_p c)) ''EnableIPv6Only''
        then [(''bind-address'', ''::''), (''healthz-bind-address'', ''::''), (''metrics-bind-address'', ''::1'')] else [])),
     ad_Containers :=
       [zero_container_spec\<lparr>ct_Name := KubeProxyAddonName, ct_Image := ax_base c @ map_get (ax_components c) KubeProxyAddonName @ kubeProxyImageSuffix (ax_p c) (ax_o c)\<rparr>]\<rparr>"

definition defaultPodSecurityPolicyAddonsConfig :: "addon_context \<Rightarrow> addon" where
  "defaultPodSecurityPolicyAddonsConfig c = zero_addon\<lparr>ad_Name := PodSecurityPolicyAddonName,
     ad_Enabled := Some (\<not> ShouldDisablePodSecurityPolicyAddon (op_OrchestratorVersion (ax_o c)))\<rparr>"

definition defaultAuditPolicyAddonsConfig :: "addon_context \<Rightarrow> addon" where
  "defaultAuditPolicyAddonsConfig c = zero_addon\<lparr>ad_Name := AuditPolicyAddonName,
     ad_Enabled := Some True\<rparr>"

definition defaultAzureCloudProviderAddonsConfig :: "addon_context \<Rightarrow> addon" where
  "defaultAzureCloudProviderAddonsConfig c = zero_addon\<lparr>ad_Name := AzureCloudProviderAddonName,
     ad_Enabled := Some True\<rparr>"

definition defaultAADDefaultAdminGroupAddonsConfig :: "addon_context \<Rightarrow> addon" where
  "defaultAADDefaultAdminGroupAddonsConfig c = zero_addon\<lparr>ad_Name := AADAdminGroupAddonName,
     ad_Enabled := Some (HasAADAdminGroupID (ax_p c)),
     ad_Config := Some
       [(''adminGroupID'', GetAADAdminGroupID (ax_p c))]\<rparr>"

definition defaultFlannelAddonsConfig :: "addon_context \<Rightarrow> addon" where
  "defaultFlannelAddonsConfig c = zero_addon\<lparr>ad_Name := FlannelAddonName,
     ad_Enabled := Some False,
     ad_Containers :=
       [zero_container_spec\<lparr>ct_Name := KubeFlannelContainerName, ct_Image := map_get (ax_components c) KubeFlannelContainerName\<rparr>,
        zero_container_spec\<lparr>ct_Name := FlannelInstallCNIContainerName, ct_Image := map_get (ax_components c) (''flannel'' @ FlannelInstallCNIContainerName)\<rparr>]\<rparr>"

definition defaultScheduledMaintenanceAddonsConfig :: "addon_context \<Rightarrow> addon" where
  "defaultScheduledMaintenanceAddonsConfig c = zero_addon\<lparr>ad_Name := ScheduledMaintenanceAddonName,
     ad_Enabled := Some False,
     ad_Containers :=
       [zero_container_spec\<lparr>ct_Name := KubeRBACProxyContainerName, ct_Image := map_get (ax_components c) KubeRBACProxyContainerName\<rparr>,
        zero_container_spec\<lparr>ct_Name := ScheduledMaintenanceManagerContainerName, ct_Image := map_get (ax_components c) ScheduledMaintenanceManagerContainerName\<rparr>]\<rparr>"

definition defaultSecretsStoreCSIDriverAddonsConfig :: "addon_context \<Rightarrow> addon" where
  "defaultSecretsStoreCSIDriverAddonsConfig c = zero_addon\<lparr>ad_Name := SecretsStoreCSIDriverAddonName,
     ad_Config := Some
       [(''metricsPort'', ''8095''),
        (''enableSecretRotation'', ''false''),
        (''rotationPollInterval'', ''2m'')],
     ad_Enabled := Some (DefaultSecretStoreCSIDriverAddonEnabled \<and> IsKubernetesVersionGe (op_OrchestratorVersion (ax_o c)) ''1.16.0''),
     ad_Containers :=
       [zero_container_spec\<lparr>ct_Name := CSILivenessProbeContainerName, ct_Image := ks_MCRKubernetesImageBase (ax_spec c) @ map_get (ax_components c) CSILivenessProbeContainerName, ct_CPURequests := ''10m'', ct_MemoryRequests := ''20Mi'', ct_CPULimits := ''200m'', ct_MemoryLimits := ''200Mi''\<rparr>,
        zero_container_spec\<lparr>ct_Name := CSINodeDriverRegistrarContainerName, ct_Image := ks_MCRKubernetesImageBase (ax_spec c) @ map_get (ax_components c) CSINodeDriverRegistrarContainerName, ct_CPURequests := ''10m'', ct_MemoryRequests := ''20Mi'', ct_CPULimits := ''200m'', ct_MemoryLimits := ''200Mi''\<rparr>,
        zero_container_spec\<lparr>ct_Name := CSISecretsStoreDriverContainerName, ct_Image := ks_MCRKubernetesImageBase (ax_spec c) @ map_get (ax_components c) CSISecretsStoreDriverContainerName, ct_CPURequests := ''50m'', ct_MemoryRequests := ''100Mi'', ct_CPULimits := ''200m'', ct_MemoryLimits := ''200Mi''\<rparr>,
        zero_container_spec\<lparr>ct_Name := CSISecretsStoreProviderAzureContainerName, ct_Image := ks_MCRKubernetesImageBase (ax_spec c) @ map_get (ax_components c) CSISecretsStoreProviderAzureContainerName, ct_CPURequests := ''50m'', ct_MemoryRequests := ''100Mi'', ct_CPULimits := ''200m'', ct_MemoryLimits := ''200Mi''\<rparr>]\<rparr>"

definition defaultAzureArcOnboardingAddonsConfig :: "addon_context \<Rightarrow> addon" where
  "defaultAzureArcOnboardingAddonsConfig c = zero_addon\<lparr>ad_Name := AzureArcOnboardingAddonName,
     ad_Enabled := Some DefaultAzureArcOnboardingAddonEnabled,
     ad_Containers :=
       [zero_container_spec\<lparr>ct_Name := AzureArcOnboardingAddonName, ct_Image := map_get (ax_components c) AzureArcOnboardingAddonName\<rparr>]\<rparr>"

definition defaultAddons :: "bool \<Rightarrow> addon_context \<Rightarrow> addon list" where
  "defaultAddons isUpgrade c =
     [defaultTillerAddonsConfig c,
      defaultClusterAutoscalerAddonsConfig c,
      defaultSMBFlexVolumeAddonsConfig c,
      defaultDashboardAddonsConfig c,
      defaultMetricsServerAddonsConfig c,
      defaultNVIDIADevicePluginAddonsConfig c,
      defaultAzureNetworkPolicyAddonsConfig c,
      defaultCloudNodeManagerAddonsConfig c,
      defaultIPMasqAgentAddonsConfig c,
      defaultsCalicoDaemonSetAddonsConfig c,
      defaultsCiliumAddonsConfig c,
      defaultsAADPodIdentityAddonsConfig c,
      defaultAppGwAddonsConfig c,
      defaultAzureDiskCSIDriverAddonsConfig c,
      defaultAzureFileCSIDriverAddonsConfig c,
      defaultsAzurePolicyAddonsConfig c,
      defaultNodeProblemDetectorConfig c,
      defaultKubeDNSAddonsConfig c,
      defaultCorednsAddonsConfig isUpgrade c,
      defaultKubeProxyAddonsConfig c,
      defaultPodSecurityPolicyAddonsConfig c,
      defaultAuditPolicyAddonsConfig c,
      defaultAzureCloudProviderAddonsConfig c,
      defaultAADDefaultAdminGroupAddonsConfig c,
      defaultsAntreaDaemonSetAddonsConfig c,
      defaultFlannelAddonsConfig c,
      defaultScheduledMaintenanceAddonsConfig c,
      defaultSecretsStoreCSIDriverAddonsConfig c,
      defaultAzureArcOnboardingAddonsConfig c]"

subsection \<open>Merging with the specifications of the user\<close>

definition appendAddonIfNotPresent :: "addon list \<Rightarrow> addon \<Rightarrow> addon list" where
  "appendAddonIfNotPresent addons a =
     (if getAddonsIndexByName addons (ad_Name a) < 0 then addons @ [a] else addons)"

abbreviation update_addon :: "string \<Rightarrow> (addon \<Rightarrow> addon) \<Rightarrow> addon list \<Rightarrow> addon list" where
  "update_addon name \<equiv> update_first (\<lambda>a. ad_Name a = name)"

definition default_container :: "bool \<Rightarrow> container_spec \<Rightarrow> container_spec \<Rightarrow> container_spec" where
  "default_container isUpgrade d c = c\<lparr>
     ct_Image := (if ct_Image c = '''' \<or> isUpgrade then ct_Image d else ct_Image c),
     ct_CPURequests := EnsureString (ct_CPURequests c) (ct_CPURequests d),
     ct_MemoryRequests := EnsureString (ct_MemoryRequests c) (ct_MemoryRequests d),
     ct_CPULimits := EnsureString (ct_CPULimits c) (ct_CPULimits d),
     ct_MemoryLimits := EnsureString (ct_MemoryLimits c) (ct_MemoryLimits d)\<rparr>"

definition default_containers :: "bool \<Rightarrow> container_spec list \<Rightarrow> container_spec list \<Rightarrow> container_spec list" where
  "default_containers isUpgrade cs defaults = foldl (\<lambda>cs d.
     if list_ex (\<lambda>c. ct_Name c = ct_Name d) cs
     then update_first (\<lambda>c. ct_Name c = ct_Name d) (default_container isUpgrade d) cs
     else cs @ [d]) cs defaults"

text \<open>The loop over the default settings; an empty setting counts as missing.\<close>

definition default_settings :: "(string \<times> string) list option \<Rightarrow> (string \<times> string) list option \<Rightarrow> (string \<times> string) list option" where
  "default_settings config defaults = foldl (\<lambda>config (key, val).
     let m = (case config of None \<Rightarrow> [] | Some m \<Rightarrow> m) in
     Some (if map_get m key = '''' then AList.update key val m else m))
     config (case defaults of None \<Rightarrow> [] | Some d \<Rightarrow> d)"

definition assignDefaultAddonVals :: "addon \<Rightarrow> addon \<Rightarrow> bool \<Rightarrow> addon" where
  "assignDefaultAddonVals a defaults isUpgrade =
     (let a = (if ad_Enabled a = None then a\<lparr>ad_Enabled := ad_Enabled defaults\<rparr> else a) in
      if \<not> to_Bool (ad_Enabled a) then zero_addon\<lparr>ad_Name := ad_Name a, ad_Enabled := ad_Enabled a\<rparr>
      else if ad_Data a \<noteq> ''''
      then zero_addon\<lparr>ad_Name := ad_Name a, ad_Enabled := ad_Enabled a, ad_Data := ad_Data a\<rparr>
      else a\<lparr>ad_Mode := EnsureString (ad_Mode a) (ad_Mode defaults),
        ad_Containers := default_containers isUpgrade (ad_Containers a) (ad_Containers defaults),
        ad_Pools := (if ad_Pools a = [] then ad_Pools defaults else ad_Pools a),
        ad_Config := default_settings (ad_Config a) (ad_Config defaults)\<rparr>)"

definition synthesizeAddonsConfig :: "bool \<Rightarrow> addon list \<Rightarrow> addon \<Rightarrow> addon list" where
  "synthesizeAddonsConfig isUpgrade addons d =
     update_addon (ad_Name d) (\<lambda>a. assignDefaultAddonVals a d isUpgrade) addons"

subsection \<open>The steps of an upgrade\<close>

text \<open>Cloud-node-manager and the CSI drivers.\<close>

definition enable_csi_addons :: "addon_context \<Rightarrow> addon list \<Rightarrow> addon list" where
  "enable_csi_addons c addons =
     (if ax_disk c \<and> ax_file c \<and> ax_node c
      then foldl (\<lambda>addons d. update_addon (ad_Name d) (\<lambda>a. if to_Bool (ad_Enabled a) then a else d) addons) addons
        [defaultAzureDiskCSIDriverAddonsConfig c, defaultAzureFileCSIDriverAddonsConfig c, defaultCloudNodeManagerAddonsConfig c]
      else addons)"

definition force_cloud_node_manager :: "addon_context \<Rightarrow> addon list \<Rightarrow> addon list" where
  "force_cloud_node_manager c addons =
     (if IsAzureStackCloud (ax_p c) \<and> to_Bool (kc_UseCloudControllerManager (ax_k c))
      then update_addon CloudNodeManagerAddonName (\<lambda>_. defaultCloudNodeManagerAddonsConfig c) addons
      else addons)"

text \<open>
  An old specification of the cluster autoscaler. The loop variable hides the index of the addon, so that the
  settings of the first pool are those of the first addon in the list.
\<close>

definition legacy_setting :: "string \<Rightarrow> addon list \<Rightarrow> string" where
  "legacy_setting key addons = (case addons of [] \<Rightarrow> '''' | a # _ \<Rightarrow> map_get (user_flags (ad_Config a)) key)"

definition autoscaler_pool :: "addon list \<Rightarrow> nat \<times> agent_pool_profile \<Rightarrow> addon_pools_config" where
  "autoscaler_pool addons = (\<lambda>(i, p).
     let value = (\<lambda>key. if i = 0 \<and> legacy_setting key addons \<noteq> '''' then legacy_setting key addons else itoa (ap_Count p))
     in \<lparr>anp_Name = ap_Name p, anp_Config = Some [(''min-nodes'', value ''min-nodes''), (''max-nodes'', value ''max-nodes'')]\<rparr>)"

definition delete_all_present :: "string list \<Rightarrow> (string \<times> string) list \<Rightarrow> (string \<times> string) list" where
  "delete_all_present keys m = foldl (\<lambda>m key. if map_get m key \<noteq> '''' then AList.delete key m else m) m keys"

definition drop_legacy_settings :: "addon list \<Rightarrow> addon list" where
  "drop_legacy_settings addons = (case addons of [] \<Rightarrow> []
     | a # as \<Rightarrow> a\<lparr>ad_Config := map_option (delete_all_present [''min-nodes'', ''max-nodes'']) (ad_Config a)\<rparr> # as)"

definition migrate_autoscaler :: "properties \<Rightarrow> addon list \<Rightarrow> addon list" where
  "migrate_autoscaler p addons =
     (case find (\<lambda>a. ad_Name a = ClusterAutoscalerAddonName) addons of
        Some a \<Rightarrow>
          if to_Bool (ad_Enabled a) \<and> ad_Pools a = []
          then update_addon ClusterAutoscalerAddonName
            (\<lambda>a. a\<lparr>ad_Pools := map (autoscaler_pool addons) (enumerate 0 (pools p))\<rparr>)
            (if pools p = [] then addons else drop_legacy_settings addons)
          else addons
      | None \<Rightarrow> addons)"

text \<open>Coredns: without it the code assigns at index -1.\<close>

definition migrate_coredns :: "string \<Rightarrow> addon list \<Rightarrow> addon list result" where
  "migrate_coredns version addons =
     (if IsKubernetesVersionGe version ''1.12.0'' \<and> getAddonsIndexByName addons CoreDNSAddonName = - 1
      then Inl (Panic ''index out of range'') else Inr addons)"

definition disable_network_monitor :: "addon list \<Rightarrow> addon list" where
  "disable_network_monitor = update_addon AzureCNINetworkMonitorAddonName (\<lambda>a. a\<lparr>ad_Enabled := Some False\<rparr>)"

subsection \<open>Steps of every operation\<close>

text \<open>
  The custom image of kube-proxy is assigned to the first container in place. A specification that was
  appended from the defaults shares its containers with them, so that the default then has the custom image too; a
  specification of the user has containers of its own.
\<close>

definition set_first_image :: "string \<Rightarrow> addon \<Rightarrow> addon" where
  "set_first_image img a = (case ad_Containers a of [] \<Rightarrow> a
     | c # cs \<Rightarrow> a\<lparr>ad_Containers := c\<lparr>ct_Image := img\<rparr> # cs\<rparr>)"

definition custom_kube_proxy :: "string \<Rightarrow> addon list \<Rightarrow> addon list result" where
  "custom_kube_proxy img addons =
     (if img = '''' then Inr addons
      else case find (\<lambda>a. ad_Name a = KubeProxyAddonName) addons of
        Some a \<Rightarrow> if ad_Containers a = [] then Inl (Panic ''index out of range'')
          else Inr (update_addon KubeProxyAddonName (set_first_image img) addons)
      | None \<Rightarrow> Inr addons)"

definition shared_defaults :: "string \<Rightarrow> addon list \<Rightarrow> addon list \<Rightarrow> addon list" where
  "shared_defaults img addons defaults =
     (if img \<noteq> '''' \<and> getAddonsIndexByName addons KubeProxyAddonName = - 1
      then update_addon KubeProxyAddonName (set_first_image img) defaults else defaults)"

definition pod_security_data :: "kubernetes_config \<Rightarrow> addon list \<Rightarrow> addon list" where
  "pod_security_data k addons = (case map_of (user_flags (kc_PodSecurityPolicyConfig k)) ''data'' of
       None \<Rightarrow> addons
     | Some base64Data \<Rightarrow> update_addon PodSecurityPolicyAddonName
         (\<lambda>a. if ad_Data a = '''' then a\<lparr>ad_Data := base64Data\<rparr> else a) addons)"

text \<open>The comparison of two pointers in the condition is always true.\<close>

definition force_calico :: "kubernetes_config \<Rightarrow> addon list \<Rightarrow> addon list \<Rightarrow> addon list" where
  "force_calico k defaults addons =
     (if kc_NetworkPolicy k = NetworkPolicyCalico
      then case find (\<lambda>a. ad_Name a = CalicoAddonName) defaults of
          Some d \<Rightarrow> update_addon CalicoAddonName
            (\<lambda>a. assignDefaultAddonVals (a\<lparr>ad_Enabled := Some True\<rparr>) d True) addons
        | None \<Rightarrow> addons
      else addons)"

definition drop_telemetry_container :: "kubernetes_config \<Rightarrow> string \<Rightarrow> addon list \<Rightarrow> addon list" where
  "drop_telemetry_container k version addons =
     (if kc_NetworkPolicy k = NetworkPolicyAzure \<and> IsKubernetesVersionGe version ''1.16.0''
      then update_addon AzureNetworkPolicyAddonName
        (\<lambda>a. a\<lparr>ad_Containers := filter (\<lambda>c. ct_Name c \<noteq> AzureVnetTelemetryContainerName) (ad_Containers a)\<rparr>) addons
      else addons)"

definition migrate_kube_proxy :: "addon list \<Rightarrow> addon list" where
  "migrate_kube_proxy addons =
     (case find (\<lambda>a. ad_Name a = ''kube-proxy-daemonset'') addons of
        None \<Rightarrow> addons
      | Some old \<Rightarrow> remove_first (\<lambda>a. ad_Name a = ''kube-proxy-daemonset'')
          (if to_Bool (ad_Enabled old)
           then update_addon KubeProxyAddonName
             (\<lambda>_. zero_addon\<lparr>ad_Name := KubeProxyAddonName, ad_Enabled := Some True, ad_Data := ad_Data old\<rparr>) addons
           else addons))"

definition pod_security_policy :: "bool \<Rightarrow> string \<Rightarrow> addon list \<Rightarrow> addon list" where
  "pod_security_policy isUpgrade version addons =
     (if ShouldDisablePodSecurityPolicyAddon version
      then update_addon PodSecurityPolicyAddonName (\<lambda>a. a\<lparr>ad_Enabled := Some False\<rparr>) addons
      else if isUpgrade \<and> \<not> (case find (\<lambda>a. ad_Name a = PodSecurityPolicyAddonName) addons of
          Some a \<Rightarrow> KubernetesAddon_IsDisabled a | None \<Rightarrow> False)
      then update_addon PodSecurityPolicyAddonName (\<lambda>a. a\<lparr>ad_Enabled := Some True\<rparr>) addons
      else addons)"

subsection \<open>The whole pass\<close>

definition merge_addons :: "bool \<Rightarrow> addon_context \<Rightarrow> addon list result" where
  "merge_addons isUpgrade c =
     (let k = ax_k c; version = op_OrchestratorVersion (ax_o c);
          defaults = defaultAddons isUpgrade c;
          addons = foldl appendAddonIfNotPresent (kc_Addons k) defaults;
          addons = (if isUpgrade then migrate_autoscaler (ax_p c) (force_cloud_node_manager c (enable_csi_addons c addons)) else addons)
      in bindR (if isUpgrade then migrate_coredns version addons else Inr addons) (\<lambda>addons.
         bindR (custom_kube_proxy (kc_CustomKubeProxyImage k) (if isUpgrade then disable_network_monitor addons else addons)) (\<lambda>addons.
         let defaults = shared_defaults (kc_CustomKubeProxyImage k) (kc_Addons k) defaults;
             addons = foldl (synthesizeAddonsConfig isUpgrade) addons defaults;
             addons = (if isUpgrade then drop_telemetry_container k version (force_calico k defaults (pod_security_data k addons)) else addons)
         in Inr (pod_security_policy isUpgrade version (migrate_kube_proxy addons)))))"

definition setAddonsConfig :: "cloud_specs \<Rightarrow> bool \<Rightarrow> container_service \<Rightarrow> container_service result" where
  "setAddonsConfig specs isUpgrade cs =
     (let p = cs_Properties cs in
      bindR (GetCloudSpecConfig specs cs) (\<lambda>cloudSpecConfig.
      bindR (deref (p_OrchestratorProfile p)) (\<lambda>orch.
      bindR (deref (op_KubernetesConfig orch)) (\<lambda>k.
      bindR (k8s_components k (op_OrchestratorVersion orch)) (\<lambda>k8sComponents.
      bindR (GetSecondaryNonMasqueradeCIDR p k) (\<lambda>secondary.
      bindR (ShouldEnableAzureCloudAddon p CloudNodeManagerAddonName) (\<lambda>node.
      bindR (ShouldEnableAzureCloudAddon p AzureDiskCSIDriverAddonName) (\<lambda>disk.
      bindR (ShouldEnableAzureCloudAddon p AzureFileCSIDriverAddonName) (\<lambda>file.
      let spec = es_KubernetesSpecConfig cloudSpecConfig;
          c = \<lparr>ax_p = p, ax_o = orch, ax_k = k, ax_spec = spec,
            ax_base = EnsureString (kc_KubernetesImageBase k) (ks_MCRKubernetesImageBase spec),
            ax_components = k8sComponents, ax_disk = disk, ax_file = file, ax_node = node,
            ax_nonmasq = GetNonMasqueradeCIDR p orch k, ax_secondary = secondary\<rparr>
      in bindR (merge_addons isUpgrade c) (\<lambda>addons.
         Inr (cs\<lparr>cs_Properties := p\<lparr>p_OrchestratorProfile :=
           Some (orch\<lparr>op_KubernetesConfig := Some (k\<lparr>kc_Addons := addons\<rparr>)\<rparr>)\<rparr>\<rparr>)))))))))))"

end
