(* ===== verification/CloudSettings.thy ===== *)
theory CloudSettings
  imports CloudSpecs
begin

section \<open>What the settings of a custom cloud are\<close>

text \<open>
  Properties of the defaults of a custom cloud: which settings the rest of the program reads after them, and that a
  cluster definition that has been through them once is not changed by a second pass, as every scale and
  upgrade makes it.
\<close>

lemma EnsureString_simps [simp]:
  "EnsureString (EnsureString a b) b = EnsureString a b" "EnsureString a b = '''' \<longleftrightarrow> a = '''' \<and> b = ''''" "EnsureString '''' b = b"
  by (simp_all add: EnsureString_def)

lemma merge_twice: "merge_kubernetes_spec (merge_kubernetes_spec u s) s = merge_kubernetes_spec u s"
  by (simp add: merge_kubernetes_spec_def)

lemma clouds_distinct:
  "AzurePublicCloud \<noteq> AzureStackCloud" "AzureChinaCloud \<noteq> AzureStackCloud" "AzureGermanCloud \<noteq> AzureStackCloud"
  "AzureUSGovernmentCloud \<noteq> AzureStackCloud"
  by (simp_all add: AzurePublicCloud_def AzureChinaCloud_def AzureGermanCloud_def AzureUSGovernmentCloud_def AzureStackCloud_def)

lemma dependencies_not_custom: "dependencies_cloud loc \<noteq> AzureStackCloud"
  using clouds_distinct by (simp add: dependencies_cloud_def)

text \<open>The settings that \<open>SetCustomCloudSpec\<close> stores, given the environment and the settings of the user.\<close>

definition custom_spec ::
    "bool \<Rightarrow> bool \<Rightarrow> cloud_specs \<Rightarrow> bool \<Rightarrow> custom_cloud_profile \<Rightarrow> environment \<Rightarrow> azure_environment_spec_config" where
  "custom_spec isUpgrade isScale specs stack cc env =
     (let base = spec_of specs (dependencies_cloud (cc_DependenciesLocation cc));
          name = (if env_Name env = '''' \<or> stack then AzureStackCloud else env_Name env);
          suffix = env_ResourceManagerVMDNSSuffix env
      in case cc_AzureEnvironmentSpecConfig cc of
           None \<Rightarrow> base\<lparr>es_EndpointConfig := \<lparr>ec_ResourceManagerVMDNSSuffix = suffix\<rparr>, es_CloudName := name,
             es_KubernetesSpecConfig := es_KubernetesSpecConfig base\<lparr>ks_AzureTelemetryPID := telemetry_pid isUpgrade isScale\<rparr>\<rparr>
         | Some u \<Rightarrow> base\<lparr>es_CloudName := EnsureString (es_CloudName u) name,
             es_KubernetesSpecConfig := merge_kubernetes_spec (es_KubernetesSpecConfig u) (es_KubernetesSpecConfig base),
             es_EndpointConfig := \<lparr>ec_ResourceManagerVMDNSSuffix =
               EnsureString (ec_ResourceManagerVMDNSSuffix (es_EndpointConfig u)) suffix\<rparr>,
             es_OSImageConfig := Some (case es_OSImageConfig u of None \<Rightarrow> [] | Some m \<Rightarrow> m)\<rparr>)"

definition with_spec :: "custom_cloud_profile \<Rightarrow> azure_environment_spec_config \<Rightarrow> custom_cloud_profile" where
  "with_spec cc spec =
     (if cc_AzureEnvironmentSpecConfig cc = None then cc else cc\<lparr>cc_AzureEnvironmentSpecConfig := Some spec\<rparr>)"

lemma SetCustomCloudSpec_Inr:
  assumes "p_CustomCloudProfile p = Some cc" and "cc_Environment cc = Some env"
  shows "SetCustomCloudSpec up sc specs p =
    (if env_ResourceManagerVMDNSSuffix env = ''''
     then Inl (Err ''Failed to set Cloud Spec for Azure Stack due to invalid environment'')
     else let spec = custom_spec up sc specs (IsAzureStackCloud p) cc env in
       Inr (AList.update AzureStackCloud spec specs, p\<lparr>p_CustomCloudProfile := Some (with_spec cc spec)\<rparr>))"
proof -
  have same: "p\<lparr>p_CustomCloudProfile := Some cc\<rparr> = p" using assms(1) by (cases p) simp
  show ?thesis
  proof (cases "cc_AzureEnvironmentSpecConfig cc")
    case None
    then show ?thesis using assms same by (simp add: SetCustomCloudSpec_def custom_spec_def with_spec_def Let_def)
  next
    case (Some u)
    then show ?thesis using assms by (cases "es_OSImageConfig u") (simp_all add: SetCustomCloudSpec_def custom_spec_def with_spec_def Let_def)
  qed
qed

lemma spec_of_update: "name \<noteq> AzureStackCloud \<Longrightarrow> spec_of (AList.update AzureStackCloud spec specs) name = spec_of specs name"
  by (simp add: spec_of_def update_conv')

lemma spec_of_updated [simp]: "spec_of (AList.update AzureStackCloud spec specs) AzureStackCloud = spec"
  by (simp add: spec_of_def update_conv')

lemma custom_spec_again:
  assumes "cc_AzureEnvironmentSpecConfig cc \<noteq> None"
  shows "custom_spec up' sc' specs stack (with_spec cc (custom_spec up sc specs stack cc env)) env = custom_spec up sc specs stack cc env"
  using assms by (auto simp: custom_spec_def with_spec_def Let_def merge_twice)

lemma with_spec_fields [simp]:
  "cc_Environment (with_spec cc spec) = cc_Environment cc" "cc_IdentitySystem (with_spec cc spec) = cc_IdentitySystem cc"
  "cc_AuthenticationMethod (with_spec cc spec) = cc_AuthenticationMethod cc"
  "cc_DependenciesLocation (with_spec cc spec) = cc_DependenciesLocation cc"
  "cc_AzureEnvironmentSpecConfig (with_spec cc spec) = None \<longleftrightarrow> cc_AzureEnvironmentSpecConfig cc = None"
  "with_spec (with_spec cc spec) spec = with_spec cc spec"
  by (simp_all add: with_spec_def)

lemma with_spec_None: "cc_AzureEnvironmentSpecConfig cc = None \<Longrightarrow> with_spec cc spec = cc"
  by (simp add: with_spec_def)

subsection \<open>The environment\<close>

definition environment_complete :: "environment \<Rightarrow> bool" where
  "environment_complete env \<longleftrightarrow> env_Name env \<noteq> '''' \<and> env_ServiceManagementEndpoint env \<noteq> '''' \<and>
     env_ActiveDirectoryEndpoint env \<noteq> '''' \<and> env_GraphEndpoint env \<noteq> '''' \<and> env_ResourceManagerVMDNSSuffix env \<noteq> ''''"

text \<open>A complete environment is left alone and no endpoint is asked.\<close>

lemma complete_environment:
  assumes "p_CustomCloudProfile (cs_Properties cs) = Some cc" and "cc_Environment cc = Some env" and "environment_complete env"
  shows "SetCustomCloudProfileEnvironment get cs = Inr cs"
  using assms by (simp add: SetCustomCloudProfileEnvironment_def environment_complete_def Let_def)

lemma metadata_url_fields: "metadata_url cs url env = Inr env' \<Longrightarrow> \<exists>u. env' = env\<lparr>env_ResourceManagerEndpoint := u\<rparr>"
proof -
  have "env = env\<lparr>env_ResourceManagerEndpoint := env_ResourceManagerEndpoint env\<rparr>" by simp
  then show "metadata_url cs url env = Inr env' \<Longrightarrow> ?thesis"
    unfolding metadata_url_def by (auto split: if_splits intro: exI [of _ "env_ResourceManagerEndpoint env"])
qed

lemma apply_metadata_complete:
  assumes "apply_metadata cs cc endpoints env = Inr env'" and "env_Name env \<noteq> ''''" and "cc_IdentitySystem cc \<noteq> ADFSIdentitySystem"
  shows "environment_complete env'"
proof -
  from assms(1) obtain login audience rest where endpoints: "me_Authentication endpoints = Some (login, audience # rest)"
    unfolding apply_metadata_def by (auto split: option.splits list.splits)
  have given: "me_GraphEndpoint endpoints \<noteq> ''''" "login \<noteq> ''''" "audience \<noteq> ''''"
    using assms(1) by (auto simp: apply_metadata_def endpoints split: if_splits)
  note result = assms(1) [unfolded apply_metadata_def endpoints Let_def option.case prod.case list.case]
  show ?thesis
  proof (cases "IsAzureStackCloud (cs_Properties cs)")
    case True
    then have "env_ResourceManagerVMDNSSuffix env' = ''cloudapp.'' @ getAzureStackFQDNSuffix (cc_PortalURL cc) (cs_Location cs)"
      "env_Name env' = env_Name env" "env_ServiceManagementEndpoint env' = audience" "env_ActiveDirectoryEndpoint env' = login"
      "env_GraphEndpoint env' = me_GraphEndpoint endpoints"
      using result given True assms(3) by auto
    then show ?thesis using given assms(2) by (simp add: environment_complete_def)
  next
    case False
    then have "env_ResourceManagerVMDNSSuffix env' \<noteq> ''''" "env_Name env' = env_Name env"
      "env_ServiceManagementEndpoint env' = audience" "env_ActiveDirectoryEndpoint env' = login"
      "env_GraphEndpoint env' = me_GraphEndpoint endpoints"
      using result given False assms(3) by (auto split: if_splits)
    then show ?thesis using given assms(2) by (simp add: environment_complete_def)
  qed
qed

lemma incomplete:
  "(env_Name env = '''' \<or> env_ServiceManagementEndpoint env = '''' \<or> env_ActiveDirectoryEndpoint env = '''' \<or>
     env_GraphEndpoint env = '''' \<or> env_ResourceManagerVMDNSSuffix env = '''') = (\<not> environment_complete env)"
  by (simp add: environment_complete_def)

definition with_environment :: "container_service \<Rightarrow> custom_cloud_profile \<Rightarrow> environment \<Rightarrow> container_service" where
  "with_environment cs cc env =
     cs\<lparr>cs_Properties := cs_Properties cs\<lparr>p_CustomCloudProfile := Some (cc\<lparr>cc_Environment := Some env\<rparr>)\<rparr>\<rparr>"

lemma environment_steps:
  assumes "p_CustomCloudProfile (cs_Properties cs) = Some cc"
    and "env = (case cc_Environment cc of None \<Rightarrow> zero_environment | Some env \<Rightarrow> env)"
    and "named = (if env_Name env = '''' then env\<lparr>env_Name := AzureStackCloud\<rparr> else env)"
  shows "SetCustomCloudProfileEnvironment get cs =
    (if \<not> environment_complete env
     then bindR (metadata_url (with_environment cs cc named) (cc_PortalURL cc) named) (\<lambda>e.
       case get (trim_suffix (env_ResourceManagerEndpoint e) ''/'' @ ''/metadata/endpoints?api-version=1.0'') of
         None \<Rightarrow> Inl (Err ''apimodel invalid: failed to retrieve custom endpoints'')
       | Some endpoints \<Rightarrow> bindR (apply_metadata (with_environment cs cc named) cc endpoints e)
           (\<lambda>e. Inr (with_environment cs cc e)))
     else Inr (with_environment cs cc env))"
  unfolding SetCustomCloudProfileEnvironment_def Let_def assms(1) option.case incomplete assms(2) [symmetric] assms(3) [symmetric]
    with_environment_def ..

lemma environment_set:
  assumes "SetCustomCloudProfileEnvironment get cs = Inr cs'" and "p_CustomCloudProfile (cs_Properties cs) = Some cc"
    and "cc_IdentitySystem cc \<noteq> ADFSIdentitySystem"
  shows "\<exists>env. environment_complete env \<and> cs' = with_environment cs cc env"
proof -
  define env where "env = (case cc_Environment cc of None \<Rightarrow> zero_environment | Some env \<Rightarrow> env)"
  define named where "named = (if env_Name env = '''' then env\<lparr>env_Name := AzureStackCloud\<rparr> else env)"
  note steps = assms(1) [unfolded environment_steps [OF assms(2) env_def named_def]]
  show ?thesis
  proof (cases "environment_complete env")
    case True
    then show ?thesis using steps by auto
  next
    case False
    have name: "env_Name named \<noteq> ''''" by (simp add: named_def AzureStackCloud_def)
    from steps False obtain e1 endpoints e2 where
      e1: "metadata_url (with_environment cs cc named) (cc_PortalURL cc) named = Inr e1"
      and e2: "apply_metadata (with_environment cs cc named) cc endpoints e1 = Inr e2" and cs': "cs' = with_environment cs cc e2"
      by (auto simp: bindR_Inr_iff split: option.splits)
    have "env_Name e1 \<noteq> ''''" using metadata_url_fields [OF e1] name by auto
    then show ?thesis using apply_metadata_complete [OF e2] assms(3) cs' by blast
  qed
qed

subsection \<open>The two properties\<close>

definition defaulted_profile :: "custom_cloud_profile \<Rightarrow> custom_cloud_profile" where
  "defaulted_profile cc = cc\<lparr>cc_AuthenticationMethod := EnsureString (cc_AuthenticationMethod cc) ClientSecretAuthMethod,
     cc_IdentitySystem := EnsureString (cc_IdentitySystem cc) AzureADIdentitySystem,
     cc_DependenciesLocation := EnsureString (cc_DependenciesLocation cc) AzureCustomCloudDependenciesLocationPublic\<rparr>"

lemma defaulted_twice [simp]: "defaulted_profile (defaulted_profile cc\<lparr>cc_Environment := e\<rparr>) = defaulted_profile cc\<lparr>cc_Environment := e\<rparr>"
  by (simp add: defaulted_profile_def)

lemma defaults_steps:
  assumes "p_CustomCloudProfile (cs_Properties cs) = Some cc"
  shows "setCustomCloudProfileDefaults get up sc specs cs =
    bindR (SetCustomCloudProfileEnvironment get
        (cs\<lparr>cs_Properties := cs_Properties cs\<lparr>p_CustomCloudProfile := Some (defaulted_profile cc)\<rparr>\<rparr>)) (\<lambda>cs.
      bindR (SetCustomCloudSpec up sc specs (cs_Properties cs)) (\<lambda>(specs, p). Inr (specs, cs\<lparr>cs_Properties := p\<rparr>)))"
  unfolding setCustomCloudProfileDefaults_def Let_def assms option.case defaulted_profile_def ..

lemma custom_cloud_result:
  assumes "setCustomCloudProfileDefaults get up sc specs cs = Inr (specs', cs')"
    and "p_CustomCloudProfile (cs_Properties cs) = Some cc" and "cc_IdentitySystem cc \<noteq> ADFSIdentitySystem"
  obtains env spec where "environment_complete env"
    and "spec = custom_spec up sc specs (IsAzureStackCloud (cs_Properties cs')) (defaulted_profile cc\<lparr>cc_Environment := Some env\<rparr>) env"
    and "specs' = AList.update AzureStackCloud spec specs"
    and "cs' = cs\<lparr>cs_Properties := cs_Properties cs\<lparr>p_CustomCloudProfile :=
      Some (with_spec (defaulted_profile cc\<lparr>cc_Environment := Some env\<rparr>) spec)\<rparr>\<rparr>"
proof -
  let ?cc = "defaulted_profile cc"
  let ?cs = "cs\<lparr>cs_Properties := cs_Properties cs\<lparr>p_CustomCloudProfile := Some ?cc\<rparr>\<rparr>"
  have id: "cc_IdentitySystem ?cc \<noteq> ADFSIdentitySystem"
    using assms(3) by (simp add: defaulted_profile_def EnsureString_def AzureADIdentitySystem_def ADFSIdentitySystem_def)
  from assms(1,2) obtain cs1 where cs1: "SetCustomCloudProfileEnvironment get ?cs = Inr cs1"
    and spec: "bindR (SetCustomCloudSpec up sc specs (cs_Properties cs1)) (\<lambda>(specs, p). Inr (specs, cs1\<lparr>cs_Properties := p\<rparr>)) = Inr (specs', cs')"
    by (auto simp: defaults_steps bindR_Inr_iff)
  from environment_set [OF cs1 _ id] obtain env where env: "environment_complete env" "cs1 = with_environment ?cs ?cc env" by auto
  let ?p = "cs_Properties cs1" and ?full = "?cc\<lparr>cc_Environment := Some env\<rparr>"
  have p: "p_CustomCloudProfile ?p = Some ?full" by (simp add: env(2) with_environment_def)
  let ?spec = "custom_spec up sc specs (IsAzureStackCloud ?p) ?full env"
  have result: "specs' = AList.update AzureStackCloud ?spec specs" "cs' = cs1\<lparr>cs_Properties := ?p\<lparr>p_CustomCloudProfile := Some (with_spec ?full ?spec)\<rparr>\<rparr>"
    using spec env(1) unfolding SetCustomCloudSpec_Inr [OF p, simplified, OF refl]
    by (auto simp: environment_complete_def Let_def)
  have "IsAzureStackCloud (cs_Properties cs') = IsAzureStackCloud ?p"
    using p by (simp add: result(2) IsAzureStackCloud_def)
  with env result show ?thesis by (intro that [of env ?spec]) (simp_all add: with_environment_def)
qed

lemma defaulted_with_spec [simp]: "defaulted_profile (with_spec cc spec) = with_spec (defaulted_profile cc) spec"
  by (simp add: defaulted_profile_def with_spec_def)

lemma custom_spec_with_spec [simp]: "custom_spec up sc specs stack (with_spec cc spec) env =
  (if cc_AzureEnvironmentSpecConfig cc = None then custom_spec up sc specs stack cc env
   else custom_spec up sc specs stack (cc\<lparr>cc_AzureEnvironmentSpecConfig := Some spec\<rparr>) env)"
  by (simp add: with_spec_def)


text \<open>The settings that hold the addresses of images and downloads.\<close>

definition source_settings :: "(kubernetes_spec_config \<Rightarrow> string) list" where
  "source_settings = [ks_KubernetesImageBase, ks_MCRKubernetesImageBase, ks_NVIDIAImageBase, ks_TillerImageBase,
     ks_AzureCNIImageBase, ks_CalicoImageBase, ks_EtcdDownloadURLBase, ks_KubeBinariesSASURLBase, ks_CNIPluginsDownloadURL,
     ks_VnetCNILinuxPluginsDownloadURL, ks_VnetCNIWindowsPluginsDownloadURL, ks_ContainerdDownloadURLBase,
     ks_CSIProxyDownloadURL, ks_WindowsTelemetryGUID, ks_WindowsProvisioningScriptsPackageURL, ks_WindowsPauseImageURL]"

definition user_settings :: "custom_cloud_profile \<Rightarrow> azure_environment_spec_config" where
  "user_settings cc = (case cc_AzureEnvironmentSpecConfig cc of None \<Rightarrow> zero_azure_environment_spec_config | Some u \<Rightarrow> u)"


subsection \<open>Examples\<close>

definition example_endpoints :: metadata_endpoints where
  "example_endpoints = \<lparr>me_GalleryEndpoint = ''https://gallery'', me_GraphEndpoint = ''https://graph'',
     me_PortalEndpoint = ''https://portal'', me_Authentication = Some (''https://login'', [''https://management.x''])\<rparr>"

definition example_profile :: custom_cloud_profile where
  "example_profile = zero_custom_cloud_profile\<lparr>cc_PortalURL := ''https://portal.here.az.net/'',
     cc_AzureEnvironmentSpecConfig := Some (zero_azure_environment_spec_config\<lparr>es_KubernetesSpecConfig :=
       zero_kubernetes_spec_config\<lparr>ks_KubernetesImageBase := ''mine/''\<rparr>\<rparr>)\<rparr>"

definition example_stack :: container_service where
  "example_stack = zero_container_service\<lparr>cs_Location := ''here'',
     cs_Properties := zero_properties\<lparr>p_CustomCloudProfile := Some example_profile\<rparr>\<rparr>"

lemma example_stack_profile:
  "p_CustomCloudProfile (cs_Properties example_stack) = Some example_profile" "cc_IdentitySystem example_profile \<noteq> ADFSIdentitySystem"
  by (simp_all add: example_stack_def example_profile_def zero_custom_cloud_profile_def ADFSIdentitySystem_def)

lemma example_stack_result:
  "\<exists>specs' cs'. setCustomCloudProfileDefaults (\<lambda>_. Some example_endpoints) False False [(AzurePublicCloud, zero_azure_environment_spec_config)]
     example_stack = Inr (specs', cs')"
proof -
  have "case setCustomCloudProfileDefaults (\<lambda>_. Some example_endpoints) False False [(AzurePublicCloud, zero_azure_environment_spec_config)]
     example_stack of Inl _ \<Rightarrow> False | Inr _ \<Rightarrow> True"
    by code_simp
  then show ?thesis by (auto split: sum.splits)
qed



end
