(* ===== verification/AddonFacts.thy ===== *)
theory AddonFacts
  imports AddonDefaults CloudSettings
begin

section \<open>What the merge of the addons gives\<close>

text \<open>
  The addons are looked up by name; every step of the merge is described by what it does to the addon of each
  name. From this follow the properties of a new cluster and of an upgrade.
\<close>

subsection \<open>Lookups and updates\<close>

abbreviation addon_of :: "string \<Rightarrow> addon list \<Rightarrow> addon option" where
  "addon_of \<equiv> lookup ad_Name"

abbreviation container_of :: "string \<Rightarrow> container_spec list \<Rightarrow> container_spec option" where
  "container_of \<equiv> lookup ct_Name"

lemma getAddonsIndexByName_None:
  "getAddonsIndexByName as name = - 1 \<longleftrightarrow> addon_of name as = None"
  "getAddonsIndexByName as name < 0 \<longleftrightarrow> addon_of name as = None"
  by (simp_all add: getAddonsIndexByName_def lookup_def index_where_None index_where_negative)

lemma append_addon: "appendAddonIfNotPresent = append_missing ad_Name"
  by (intro ext) (simp add: appendAddonIfNotPresent_def append_missing_def getAddonsIndexByName_None)

lemma assign_name [simp]: "ad_Name (assignDefaultAddonVals a d up) = ad_Name a"
  by (simp add: assignDefaultAddonVals_def Let_def)

interpretation addons: named_merge ad_Name "\<lambda>d a. assignDefaultAddonVals a d up" for up
  by unfold_locales simp

lemma synthesize_addons: "synthesizeAddonsConfig up = (\<lambda>as d. update_addon (ad_Name d) (\<lambda>a. assignDefaultAddonVals a d up) as)"
  by (intro ext) (simp add: synthesizeAddonsConfig_def)

lemmas addon_of_synthesized = addons.lookup_completed [folded synthesize_addons]
lemmas addon_of_appended = lookup_appended [where key = "ad_Name :: addon \<Rightarrow> string", folded append_addon]
lemmas addon_of_merge = addons.lookup_merged [folded synthesize_addons append_addon]
lemmas addons_merged_twice = addons.merged_twice [folded synthesize_addons append_addon]

subsection \<open>The names of the defaults\<close>

lemmas default_addon_defs =
  defaultAddons_def defaultTillerAddonsConfig_def defaultClusterAutoscalerAddonsConfig_def
    defaultSMBFlexVolumeAddonsConfig_def defaultDashboardAddonsConfig_def defaultMetricsServerAddonsConfig_def
    defaultNVIDIADevicePluginAddonsConfig_def defaultAzureNetworkPolicyAddonsConfig_def defaultCloudNodeManagerAddonsConfig_def
    defaultIPMasqAgentAddonsConfig_def defaultsCalicoDaemonSetAddonsConfig_def defaultsCiliumAddonsConfig_def
    defaultsAADPodIdentityAddonsConfig_def defaultAppGwAddonsConfig_def defaultAzureDiskCSIDriverAddonsConfig_def
    defaultAzureFileCSIDriverAddonsConfig_def defaultsAzurePolicyAddonsConfig_def defaultNodeProblemDetectorConfig_def
    defaultKubeDNSAddonsConfig_def defaultCorednsAddonsConfig_def defaultKubeProxyAddonsConfig_def
    defaultPodSecurityPolicyAddonsConfig_def defaultAuditPolicyAddonsConfig_def defaultAzureCloudProviderAddonsConfig_def
    defaultAADDefaultAdminGroupAddonsConfig_def defaultsAntreaDaemonSetAddonsConfig_def defaultFlannelAddonsConfig_def
    defaultScheduledMaintenanceAddonsConfig_def defaultSecretsStoreCSIDriverAddonsConfig_def defaultAzureArcOnboardingAddonsConfig_def

lemma defaultAddons_names:
  "map ad_Name (defaultAddons up c) =
    [TillerAddonName, ClusterAutoscalerAddonName, SMBFlexVolumeAddonName, DashboardAddonName, MetricsServerAddonName,
     NVIDIADevicePluginAddonName, AzureNetworkPolicyAddonName, CloudNodeManagerAddonName, IPMASQAgentAddonName, CalicoAddonName,
     CiliumAddonName, AADPodIdentityAddonName, AppGwIngressAddonName, AzureDiskCSIDriverAddonName, AzureFileCSIDriverAddonName,
     AzurePolicyAddonName, NodeProblemDetectorAddonName, KubeDNSAddonName, CoreDNSAddonName, KubeProxyAddonName,
     PodSecurityPolicyAddonName, AuditPolicyAddonName, AzureCloudProviderAddonName, AADAdminGroupAddonName, AntreaAddonName,
     FlannelAddonName, ScheduledMaintenanceAddonName, SecretsStoreCSIDriverAddonName, AzureArcOnboardingAddonName]"
  by (simp add: default_addon_defs)

lemma defaultAddons_distinct: "distinct (map ad_Name (defaultAddons up c))"
  unfolding defaultAddons_names by (simp add: cluster_consts default_consts ClusterAutoscalerAddonName_def)

lemmas addon_names = cluster_consts default_consts ClusterAutoscalerAddonName_def

lemma default_containers_distinct: "list_all (\<lambda>d. distinct (map ct_Name (ad_Containers d))) (defaultAddons up c)"
  by (simp add: default_addon_defs addon_names zero_addon_def)

subsection \<open>Containers and settings\<close>

lemma default_container_name [simp]: "ct_Name (default_container up d c) = ct_Name c"
  by (simp add: default_container_def)

lemma container_of_defaults:
  assumes "distinct (map ct_Name ds)"
  shows "container_of name (default_containers up cs ds) = (case container_of name ds of None \<Rightarrow> container_of name cs
    | Some d \<Rightarrow> Some (case container_of name cs of None \<Rightarrow> d | Some c \<Rightarrow> default_container up d c))"
  using assms
proof (induction ds arbitrary: cs)
  case Nil
  then show ?case by (simp add: default_containers_def)
next
  case (Cons d ds)
  let ?cs = "if list_ex (\<lambda>c. ct_Name c = ct_Name d) cs then update_first (\<lambda>c. ct_Name c = ct_Name d) (default_container up d) cs else cs @ [d]"
  have "default_containers up cs (d # ds) = default_containers up ?cs ds" by (simp add: default_containers_def)
  moreover have "container_of (ct_Name d) ds = None" using Cons.prems by (simp add: lookup_None)
  ultimately show ?case
    using Cons by (auto simp: lookup_ex lookup_update lookup_append split: option.splits)
qed

lemma default_containers_same:
  assumes "\<And>d. d \<in> set ds \<Longrightarrow> \<exists>c. container_of (ct_Name d) cs = Some c \<and> default_container up d c = c"
  shows "default_containers up cs ds = cs"
  using assms
proof (induction ds)
  case Nil
  then show ?case by (simp add: default_containers_def)
next
  case (Cons d ds)
  then obtain c where c: "container_of (ct_Name d) cs = Some c" "default_container up d c = c" by auto
  then have "update_first (\<lambda>c. ct_Name c = ct_Name d) (default_container up d) cs = cs"
    by (intro update_same) simp
  then show ?case using Cons c by (simp add: default_containers_def lookup_ex)
qed

lemma default_container_twice: "default_container up d (default_container up d c) = default_container up d c"
  by (simp add: default_container_def)

lemma default_container_self: "default_container up d d = d"
  by (simp add: default_container_def EnsureString_def)

lemma default_containers_twice:
  assumes "distinct (map ct_Name ds)"
  shows "default_containers up (default_containers up cs ds) ds = default_containers up cs ds"
  by (rule default_containers_same)
    (use assms in \<open>auto simp: container_of_defaults lookup_member default_container_twice default_container_self split: option.split\<close>)

text \<open>A setting of the addon when it is not empty, else the default; the keys of the defaults are distinct.\<close>

definition setting :: "(string \<times> string) list option \<Rightarrow> string \<Rightarrow> string" where
  "setting config key = map_get (case config of None \<Rightarrow> [] | Some m \<Rightarrow> m) key"

lemma setting_Some [simp]: "setting (Some m) key = map_get m key"
  by (simp add: setting_def)

lemma settings_fold:
  assumes "distinct (map fst ds)"
  shows "setting (foldl (\<lambda>config (key, val). let m = (case config of None \<Rightarrow> [] | Some m \<Rightarrow> m) in
      Some (if map_get m key = '''' then AList.update key val m else m)) config ds) key =
    (if setting config key = '''' then map_get ds key else setting config key)"
  using assms
proof (induction ds arbitrary: config)
  case Nil
  then show ?case by (simp add: map_get_def)
next
  case (Cons d ds)
  obtain k v where d: "d = (k, v)" by force
  have "k \<notin> fst ` set ds" using Cons.prems d by simp
  then have "map_of ds k = None" by (simp add: map_of_eq_None_iff)
  then have "map_get ds k = ''''" by (simp add: map_get_def)
  then show ?case
    using Cons by (auto simp: d setting_def Let_def map_get_update map_get_def [of "(k, v) # ds"] map_get_def [of ds])
qed

lemma setting_default:
  assumes "distinct (map fst (case d of None \<Rightarrow> [] | Some m \<Rightarrow> m))"
  shows "setting (default_settings config d) key = (if setting config key = '''' then setting d key else setting config key)"
  using settings_fold [OF assms, of config key] by (simp add: default_settings_def setting_def)

subsection \<open>The steps\<close>

lemma csi_names:
  "ad_Name (defaultAzureDiskCSIDriverAddonsConfig c) = AzureDiskCSIDriverAddonName"
  "ad_Name (defaultAzureFileCSIDriverAddonsConfig c) = AzureFileCSIDriverAddonName"
  "ad_Name (defaultCloudNodeManagerAddonsConfig c) = CloudNodeManagerAddonName"
  by (simp_all add: default_addon_defs)

lemma names_csi: "map ad_Name (enable_csi_addons c as) = map ad_Name as"
  by (simp add: enable_csi_addons_def names_update csi_names)

lemma names_node_manager: "map ad_Name (force_cloud_node_manager c as) = map ad_Name as"
  by (simp add: force_cloud_node_manager_def names_update csi_names)

lemma names_autoscaler: "map ad_Name (migrate_autoscaler p as) = map ad_Name as"
proof -
  have "map ad_Name (drop_legacy_settings as) = map ad_Name as" by (cases as) (simp_all add: drop_legacy_settings_def)
  then show ?thesis by (auto simp: migrate_autoscaler_def names_update split: option.split)
qed

lemma names_network_monitor: "map ad_Name (disable_network_monitor as) = map ad_Name as"
  by (simp add: disable_network_monitor_def names_update)

lemma set_first_image_name [simp]: "ad_Name (set_first_image img a) = ad_Name a"
  by (simp add: set_first_image_def split: list.split)

lemma names_custom: "custom_kube_proxy img as = Inr as' \<Longrightarrow> map ad_Name as' = map ad_Name as"
  by (auto simp: custom_kube_proxy_def names_update split: if_splits option.splits)

lemma names_shared: "map ad_Name (shared_defaults img as ds) = map ad_Name ds"
  by (simp add: shared_defaults_def names_update)

text \<open>The steps before the synthesis, of an upgrade and of any other operation, keep the names of the addons.\<close>

definition prepared_addons :: "bool \<Rightarrow> addon_context \<Rightarrow> addon list" where
  "prepared_addons isUpgrade c =
     (let addons = foldl appendAddonIfNotPresent (kc_Addons (ax_k c)) (defaultAddons isUpgrade c) in
      if isUpgrade
      then disable_network_monitor (migrate_autoscaler (ax_p c) (force_cloud_node_manager c (enable_csi_addons c addons)))
      else addons)"

lemma defaults_present: "n \<in> set (map ad_Name (defaultAddons up c)) \<Longrightarrow>
    addon_of n (foldl appendAddonIfNotPresent as (defaultAddons up c)) \<noteq> None"
  using lookup_None [of ad_Name n "defaultAddons up c"] by (auto simp: addon_of_appended split: option.split)

lemma names_prepared:
  "map ad_Name (prepared_addons up c) = map ad_Name (foldl appendAddonIfNotPresent (kc_Addons (ax_k c)) (defaultAddons up c))"
  by (simp add: prepared_addons_def Let_def names_network_monitor names_autoscaler names_node_manager names_csi)

lemma coredns_present:
  "IsKubernetesVersionGe v ''1.12.0'' \<and> getAddonsIndexByName (migrate_autoscaler p (force_cloud_node_manager c (enable_csi_addons c
     (foldl appendAddonIfNotPresent as (defaultAddons up c))))) CoreDNSAddonName = - 1 \<longleftrightarrow> False"
proof -
  have "CoreDNSAddonName \<in> set (map ad_Name (defaultAddons up c))" unfolding defaultAddons_names by simp
  then show ?thesis
    using defaults_present lookup_names [OF names_autoscaler] lookup_names [OF names_node_manager] lookup_names [OF names_csi]
    by (simp add: getAddonsIndexByName_None)
qed

text \<open>The merge in three parts.\<close>

definition finished_addons :: "bool \<Rightarrow> addon_context \<Rightarrow> addon list \<Rightarrow> addon list \<Rightarrow> addon list" where
  "finished_addons isUpgrade c defaults addons =
     (let k = ax_k c; version = op_OrchestratorVersion (ax_o c) in
      pod_security_policy isUpgrade version (migrate_kube_proxy
        (if isUpgrade then drop_telemetry_container k version (force_calico k defaults (pod_security_data k addons)) else addons)))"

lemma merge_addons_parts:
  "merge_addons up c = bindR (custom_kube_proxy (kc_CustomKubeProxyImage (ax_k c)) (prepared_addons up c)) (\<lambda>addons.
     let defaults = shared_defaults (kc_CustomKubeProxyImage (ax_k c)) (kc_Addons (ax_k c)) (defaultAddons up c)
     in Inr (finished_addons up c defaults (foldl (synthesizeAddonsConfig up) addons defaults)))"
  by (cases up) (simp_all add: merge_addons_def prepared_addons_def finished_addons_def Let_def migrate_coredns_def coredns_present)

lemma shared_defaults_none: "shared_defaults '''' as ds = ds"
  by (simp add: shared_defaults_def)

lemma custom_kube_proxy_none: "custom_kube_proxy '''' as = Inr as"
  by (simp add: custom_kube_proxy_def)

lemma addon_of_psp:
  "name \<noteq> PodSecurityPolicyAddonName \<Longrightarrow> addon_of name (pod_security_policy up v as) = addon_of name as"
  by (simp add: pod_security_policy_def lookup_update)

lemma kube_proxy_kept: "addon_of ''kube-proxy-daemonset'' as = None \<Longrightarrow> migrate_kube_proxy as = as"
  by (simp add: migrate_kube_proxy_def lookup_def)

lemma daemonset_not_default: "addon_of ''kube-proxy-daemonset'' (defaultAddons up c) = None"
  unfolding lookup_None defaultAddons_names by (simp add: addon_names)

lemma daemonset_absent:
  assumes "addon_of ''kube-proxy-daemonset'' (kc_Addons (ax_k c)) = None"
  shows "addon_of ''kube-proxy-daemonset'' (prepared_addons up c) = None"
  using lookup_names [OF names_prepared] assms by (simp add: addon_of_appended daemonset_not_default)

lemma addon_of_merged:
  assumes "merge_addons up c = Inr addons" and "addon_of ''kube-proxy-daemonset'' (kc_Addons (ax_k c)) = None"
    and "kc_CustomKubeProxyImage (ax_k c) = ''''"
  shows "addons = pod_security_policy up (op_OrchestratorVersion (ax_o c))
    (let synthesized = foldl (synthesizeAddonsConfig up) (prepared_addons up c) (defaultAddons up c) in
     if up then drop_telemetry_container (ax_k c) (op_OrchestratorVersion (ax_o c))
       (force_calico (ax_k c) (defaultAddons up c) (pod_security_data (ax_k c) synthesized)) else synthesized)"
proof -
  let ?s = "foldl (synthesizeAddonsConfig up) (prepared_addons up c) (defaultAddons up c)"
  let ?t = "drop_telemetry_container (ax_k c) (op_OrchestratorVersion (ax_o c))
       (force_calico (ax_k c) (defaultAddons up c) (pod_security_data (ax_k c) ?s))"
  have none: "addon_of ''kube-proxy-daemonset'' ?s = None"
    by (simp add: addon_of_synthesized [OF defaultAddons_distinct] daemonset_absent [OF assms(2)])
  then have "addon_of ''kube-proxy-daemonset'' ?t = None"
    by (auto simp: drop_telemetry_container_def force_calico_def pod_security_data_def lookup_update split: option.split)
  then show ?thesis
    using assms(1) none
    by (cases up) (simp_all add: merge_addons_parts assms(3) shared_defaults_none custom_kube_proxy_none finished_addons_def kube_proxy_kept Let_def)
qed

subsection \<open>Properties\<close>

text \<open>
  The addons of a new cluster, or of one that is scaled. Every addon of the tables is present, and it is the
  specification of the user, when there is one, completed with that of the table; addons that the tables do not know stay as
  the user wrote them. The exceptions are a custom image of kube-proxy, the retired name of the kube-proxy addon and
  the pod security policies.
\<close>

lemma addons_of_a_new_cluster:
  assumes "merge_addons False c = Inr addons" and "addon_of ''kube-proxy-daemonset'' (kc_Addons (ax_k c)) = None"
    and "kc_CustomKubeProxyImage (ax_k c) = ''''" and "name \<noteq> PodSecurityPolicyAddonName"
  shows "addon_of name addons = (case addon_of name (defaultAddons False c) of
      None \<Rightarrow> addon_of name (kc_Addons (ax_k c))
    | Some d \<Rightarrow> Some (assignDefaultAddonVals (case addon_of name (kc_Addons (ax_k c)) of None \<Rightarrow> d | Some a \<Rightarrow> a) d False))"
  using addon_of_merged [OF assms(1-3)] assms(4)
  by (auto simp: addon_of_psp addon_of_synthesized [OF defaultAddons_distinct] prepared_addons_def addon_of_appended split: option.split)

lemma psp_disabled:
  assumes "ShouldDisablePodSecurityPolicyAddon v" and "addon_of PodSecurityPolicyAddonName as \<noteq> None"
  shows "\<exists>a. addon_of PodSecurityPolicyAddonName (pod_security_policy up v as) = Some a \<and> ad_Enabled a = Some False"
  using assms by (auto simp: pod_security_policy_def lookup_update)

lemma addon_of_other_finish:
  assumes "name \<noteq> KubeProxyAddonName" and "name \<noteq> ''kube-proxy-daemonset''"
  shows "addon_of name (migrate_kube_proxy as) = addon_of name as"
  using assms by (auto simp: migrate_kube_proxy_def lookup_update lookup_remove_first split: option.split)

text \<open>
  Whatever the user asks for, and whatever the operation, a cluster of version 1.25 or later, which has no
  pod security policies any more, gets their addon only disabled.
\<close>

theorem no_policies_addon_without_policies:
  assumes "merge_addons up c = Inr addons" and "ShouldDisablePodSecurityPolicyAddon (op_OrchestratorVersion (ax_o c))"
  shows "\<exists>a. addon_of PodSecurityPolicyAddonName addons = Some a \<and> ad_Enabled a = Some False"
proof -
  let ?psp = PodSecurityPolicyAddonName
  have psp: "?psp \<noteq> KubeProxyAddonName" "?psp \<noteq> ''kube-proxy-daemonset''" by (simp_all add: addon_names)
  have "?psp \<in> set (map ad_Name (defaultAddons up c))" unfolding defaultAddons_names by simp
  then have prepared: "addon_of ?psp (prepared_addons up c) \<noteq> None"
    using defaults_present lookup_names [OF names_prepared] by blast
  from assms(1) obtain as where as: "custom_kube_proxy (kc_CustomKubeProxyImage (ax_k c)) (prepared_addons up c) = Inr as"
    and addons: "addons = finished_addons up c (shared_defaults (kc_CustomKubeProxyImage (ax_k c)) (kc_Addons (ax_k c)) (defaultAddons up c))
      (foldl (synthesizeAddonsConfig up) as (shared_defaults (kc_CustomKubeProxyImage (ax_k c)) (kc_Addons (ax_k c)) (defaultAddons up c)))"
    by (auto simp: merge_addons_parts bindR_Inr_iff Let_def)
  have "addon_of ?psp as \<noteq> None" using prepared lookup_names [OF names_custom [OF as]] by simp
  moreover have "distinct (map ad_Name (shared_defaults i us (defaultAddons up c)))" for i us
    using defaultAddons_distinct by (simp add: names_shared)
  ultimately have "addon_of ?psp (foldl (synthesizeAddonsConfig up) as (shared_defaults i us (defaultAddons up c))) \<noteq> None" for i us
    by (auto simp: addon_of_synthesized)
  then show ?thesis
    unfolding addons finished_addons_def Let_def
    by (intro psp_disabled [OF assms(2)])
      (auto simp: addon_of_other_finish [OF psp] drop_telemetry_container_def force_calico_def pod_security_data_def lookup_update split: option.split)
qed

lemma addon_of_distinct: "addon_of name (defaultAddons up c) = Some d \<Longrightarrow> distinct (map ct_Name (ad_Containers d))"
  using lookup_all [OF default_containers_distinct] .

definition images_of_default :: "addon \<Rightarrow> addon \<Rightarrow> bool" where
  "images_of_default a d \<longleftrightarrow> list_all (\<lambda>dc. map_option ct_Image (container_of (ct_Name dc) (ad_Containers a)) = Some (ct_Image dc)) (ad_Containers d)"

lemma assigned_images:
  assumes "to_Bool (ad_Enabled (assignDefaultAddonVals x d True))" and "ad_Data (assignDefaultAddonVals x d True) = ''''"
    and "distinct (map ct_Name (ad_Containers d))"
  shows "images_of_default (assignDefaultAddonVals x d True) d"
proof -
  have "ad_Containers (assignDefaultAddonVals x d True) = default_containers True (ad_Containers x) (ad_Containers d)"
    using assms(1,2) by (auto simp: assignDefaultAddonVals_def Let_def split: if_splits)
  then show ?thesis
    using assms(3) by (auto simp: images_of_default_def list_all_iff container_of_defaults lookup_member default_container_def split: option.split)
qed

lemma telemetry_not_default: "list_all (\<lambda>d. list_all (\<lambda>dc. ct_Name dc \<noteq> AzureVnetTelemetryContainerName) (ad_Containers d)) (defaultAddons up c)"
  by (simp add: default_addon_defs addon_names zero_addon_def)


lemma default_config_distinct:
  "list_all (\<lambda>d. distinct (map fst (case ad_Config d of None \<Rightarrow> [] | Some m \<Rightarrow> m))) (defaultAddons up c)"
  by (cases "IsFeatureEnabled (p_FeatureFlags (ax_p c)) ''EnableIPv6Only''") (simp_all add: default_addon_defs zero_addon_def)


subsection \<open>A second pass\<close>

text \<open>A list that the loop over the default settings leaves alone.\<close>

definition settled :: "(string \<times> string) list \<Rightarrow> (string \<times> string) list \<Rightarrow> bool" where
  "settled m ds \<longleftrightarrow> list_all (\<lambda>(key, val). map_get m key \<noteq> '''' \<or> map_of m key = Some val) ds"

lemma settled_same: "settled m ds \<Longrightarrow> default_settings (Some m) (Some ds) = Some m"
  by (induction ds) (auto simp: settled_def default_settings_def Let_def update_triv)

lemma settled_fold:
  assumes "distinct (map fst ds)"
  shows "\<exists>m. default_settings (Some m0) (Some ds) = Some m \<and> settled m ds \<and> (\<forall>key. key \<notin> fst ` set ds \<longrightarrow> map_of m key = map_of m0 key)"
  using assms
proof (induction ds arbitrary: m0)
  case Nil
  then show ?case by (simp add: default_settings_def settled_def)
next
  case (Cons d ds)
  obtain k v where d: "d = (k, v)" by force
  let ?m1 = "if map_get m0 k = '''' then AList.update k v m0 else m0"
  have "distinct (map fst ds)" using Cons.prems by simp
  from Cons.IH [OF this, of ?m1] obtain m where m: "default_settings (Some ?m1) (Some ds) = Some m" "settled m ds"
    and old: "\<forall>key. key \<notin> fst ` set ds \<longrightarrow> map_of m key = map_of ?m1 key" by auto
  have "k \<notin> fst ` set ds" using Cons.prems d by simp
  then have "map_of m k = map_of ?m1 k" using old by simp
  then have "map_get m k \<noteq> '''' \<or> map_of m k = Some v" by (simp add: map_get_def update_conv' split: if_splits)
  moreover have "default_settings (Some m0) (Some (d # ds)) = Some m" using m(1) by (cases "map_get m0 k = ''''") (simp_all add: default_settings_def d Let_def)
  ultimately show ?case using m(2) old d by (auto simp: settled_def update_conv' split: if_splits)
qed

lemma default_settings_twice:
  assumes "distinct (map fst (case d of None \<Rightarrow> [] | Some m \<Rightarrow> m))"
  shows "default_settings (default_settings config d) d = default_settings config d"
proof (cases d)
  case None
  then show ?thesis by (simp add: default_settings_def)
next
  case (Some ds)
  show ?thesis
  proof (cases "ds = []")
    case False
    then obtain k v rest where ds: "ds = (k, v) # rest" by (cases ds) auto
    let ?m0 = "case config of None \<Rightarrow> [] | Some m \<Rightarrow> m"
    have "default_settings config d = default_settings (Some ?m0) (Some ds)"
      by (cases config) (simp_all add: default_settings_def Some ds Let_def)
    moreover obtain m where "default_settings (Some ?m0) (Some ds) = Some m" "settled m ds"
      using settled_fold [of ds ?m0] assms Some by auto
    ultimately show ?thesis using settled_same Some by simp
  qed (simp add: default_settings_def Some)
qed

lemma assign_twice:
  assumes "distinct (map ct_Name (ad_Containers d))" and "distinct (map fst (case ad_Config d of None \<Rightarrow> [] | Some m \<Rightarrow> m))"
  shows "assignDefaultAddonVals (assignDefaultAddonVals a d up) d up = assignDefaultAddonVals a d up"
proof -
  let ?e = "if ad_Enabled a = None then a\<lparr>ad_Enabled := ad_Enabled d\<rparr> else a"
  show ?thesis
  proof (cases "\<not> to_Bool (ad_Enabled ?e) \<or> ad_Data a \<noteq> ''''")
    case True
    then show ?thesis by (auto simp: assignDefaultAddonVals_def Let_def zero_addon_def)
  next
    case False
    then show ?thesis
      using assms by (auto simp: assignDefaultAddonVals_def Let_def default_containers_twice default_settings_twice)
  qed
qed

lemma IsAddonEnabled_iff: "IsAddonEnabled k n \<longleftrightarrow> (case addon_of n (kc_Addons k) of None \<Rightarrow> False | Some a \<Rightarrow> to_Bool (ad_Enabled a))"
  by (simp add: IsAddonEnabled_def GetAddonByName_def KubernetesAddon_IsEnabled_def lookup_def zero_addon_def to_Bool_def split: option.split)

lemma coredns_replaced_iff: "coredns_replaced up c \<longleftrightarrow> IsAddonEnabled (ax_k c) KubeDNSAddonName"
  by (auto simp: coredns_replaced_def IsAddonEnabled_iff getAddonsIndexByName_None split: option.splits)

abbreviation with_addons :: "addon list \<Rightarrow> addon_context \<Rightarrow> addon_context" where
  "with_addons addons c \<equiv> c\<lparr>ax_k := (ax_k c)\<lparr>kc_Addons := addons\<rparr>\<rparr>"

lemma defaults_other_addons:
  assumes "IsAddonEnabled (ax_k (with_addons addons c)) KubeDNSAddonName = IsAddonEnabled (ax_k c) KubeDNSAddonName"
  shows "defaultAddons up (with_addons addons c) = defaultAddons up c"
proof -
  have "coredns_replaced up (with_addons addons c) = coredns_replaced up c" using assms by (simp add: coredns_replaced_iff)
  then show ?thesis by (simp add: default_addon_defs antrea_chained_def)
qed

lemma kube_dns_disabled: "\<exists>d. addon_of KubeDNSAddonName (defaultAddons up c) = Some d \<and> ad_Enabled d = Some False"
  by (simp add: default_addon_defs addon_names)

lemma psp_default: "addon_of PodSecurityPolicyAddonName (defaultAddons up c) = Some (defaultPodSecurityPolicyAddonsConfig c)"
  by (simp add: default_addon_defs addon_names)

lemma addon_enabled_cases: "a\<lparr>ad_Enabled := x\<rparr> = a" if "ad_Enabled a = x" for a :: addon
  using that by (cases a) simp

lemma psp_unchanged:
  assumes "\<And>a. ShouldDisablePodSecurityPolicyAddon v \<Longrightarrow> addon_of PodSecurityPolicyAddonName as = Some a \<Longrightarrow> ad_Enabled a = Some False"
  shows "pod_security_policy False v as = as"
  using assms by (auto simp: pod_security_policy_def intro!: update_same addon_enabled_cases)

text \<open>
  The merge is stable. When the addons of a cluster definition have been merged with the tables once, as every
  generated definition has, a second merge, as a scale operation makes it, gives the same addons.\<close>

theorem addon_merge_stable:
  assumes "merge_addons False c = Inr addons" and "addon_of ''kube-proxy-daemonset'' (kc_Addons (ax_k c)) = None"
    and "kc_CustomKubeProxyImage (ax_k c) = ''''" and "addon_of PodSecurityPolicyAddonName (kc_Addons (ax_k c)) = None"
  shows "merge_addons False (c\<lparr>ax_k := (ax_k c)\<lparr>kc_Addons := addons\<rparr>\<rparr>) = Inr addons"
proof -
  let ?ds = "defaultAddons False c" and ?v = "op_OrchestratorVersion (ax_o c)" and ?psp = PodSecurityPolicyAddonName
  define s where "s = foldl (synthesizeAddonsConfig False) (foldl appendAddonIfNotPresent (kc_Addons (ax_k c)) ?ds) ?ds"
  have lookup: "addon_of n s = (case addon_of n ?ds of None \<Rightarrow> addon_of n (kc_Addons (ax_k c))
      | Some d \<Rightarrow> Some (assignDefaultAddonVals (case addon_of n (kc_Addons (ax_k c)) of None \<Rightarrow> d | Some a \<Rightarrow> a) d False))" for n
    by (simp add: s_def addon_of_merge [OF defaultAddons_distinct])
  have "addon_of ?psp s = Some (assignDefaultAddonVals (defaultPodSecurityPolicyAddonsConfig c) (defaultPodSecurityPolicyAddonsConfig c) False)"
    by (simp add: lookup psp_default assms(4))
  then have same_psp: "pod_security_policy False ?v s = s"
    by (intro psp_unchanged) (simp add: assignDefaultAddonVals_def Let_def defaultPodSecurityPolicyAddonsConfig_def zero_addon_def)
  then have addons: "addons = s" using addon_of_merged [OF assms(1-3)] by (simp add: s_def prepared_addons_def)
  let ?c = "with_addons s c"
  have "IsAddonEnabled (ax_k ?c) KubeDNSAddonName = IsAddonEnabled (ax_k c) KubeDNSAddonName"
    using kube_dns_disabled [of False c] by (auto simp: IsAddonEnabled_iff lookup assignDefaultAddonVals_def Let_def split: option.split)
  then have ds: "defaultAddons False ?c = ?ds" by (rule defaults_other_addons)
  note twice = addons_merged_twice [OF defaultAddons_distinct _ s_def]
  have fixed: "assignDefaultAddonVals (assignDefaultAddonVals a d False) d False = assignDefaultAddonVals a d False" if "d \<in> set ?ds" for d a
    using that default_containers_distinct [of False c] default_config_distinct [of False c] by (auto simp: list_all_iff intro: assign_twice)
  have "addon_of ''kube-proxy-daemonset'' s = None" by (simp add: lookup daemonset_not_default assms(2))
  then show ?thesis
    using assms(3) same_psp unfolding addons
    by (simp add: merge_addons_parts prepared_addons_def ds custom_kube_proxy_none shared_defaults_none twice [OF fixed] finished_addons_def kube_proxy_kept)
qed

subsection \<open>When the merge fails\<close>

lemma containers_prepared:
  "map_option ad_Containers (addon_of KubeProxyAddonName (prepared_addons up c)) =
   map_option ad_Containers (addon_of KubeProxyAddonName (foldl appendAddonIfNotPresent (kc_Addons (ax_k c)) (defaultAddons up c)))"
proof -
  have legacy: "map_option ad_Containers (addon_of n (drop_legacy_settings as)) = map_option ad_Containers (addon_of n as)" for n as
    by (cases as) (simp_all add: drop_legacy_settings_def)
  have "KubeProxyAddonName \<notin> {ClusterAutoscalerAddonName, AzureCNINetworkMonitorAddonName, CloudNodeManagerAddonName,
      AzureDiskCSIDriverAddonName, AzureFileCSIDriverAddonName}"
    by (simp add: addon_names)
  then have "map_option ad_Containers (addon_of KubeProxyAddonName (migrate_autoscaler (ax_p c) as)) = map_option ad_Containers (addon_of KubeProxyAddonName as)"
    "addon_of KubeProxyAddonName (force_cloud_node_manager c as) = addon_of KubeProxyAddonName as"
    "addon_of KubeProxyAddonName (enable_csi_addons c as) = addon_of KubeProxyAddonName as"
    "addon_of KubeProxyAddonName (disable_network_monitor as) = addon_of KubeProxyAddonName as" for as
    using legacy by (auto simp: migrate_autoscaler_def force_cloud_node_manager_def enable_csi_addons_def disable_network_monitor_def
      lookup_update csi_names split: option.split)
  then show ?thesis by (simp add: prepared_addons_def Let_def)
qed

lemma kube_proxy_default: "\<exists>d. addon_of KubeProxyAddonName (defaultAddons up c) = Some d \<and> ad_Containers d \<noteq> []"
  by (simp add: default_addon_defs addon_names)

text \<open>
  The only way the merge of the addons fails: a custom image of kube-proxy ends the program with a panic exactly if
  the user's specification of the kube-proxy addon has no container, as that of a disabled addon has none.\<close>

theorem addon_merge_panics:
  "merge_addons up c = Inl e \<longleftrightarrow> e = Panic ''index out of range'' \<and> kc_CustomKubeProxyImage (ax_k c) \<noteq> '''' \<and>
    (case addon_of KubeProxyAddonName (kc_Addons (ax_k c)) of None \<Rightarrow> False | Some a \<Rightarrow> ad_Containers a = [])"
proof -
  obtain d where d: "addon_of KubeProxyAddonName (defaultAddons up c) = Some d" "ad_Containers d \<noteq> []"
    using kube_proxy_default by blast
  define user where "user = (case addon_of KubeProxyAddonName (kc_Addons (ax_k c)) of None \<Rightarrow> d | Some a \<Rightarrow> a)"
  have "map_option ad_Containers (addon_of KubeProxyAddonName (prepared_addons up c)) = Some (ad_Containers user)"
    by (simp add: containers_prepared addon_of_appended d(1) user_def split: option.split)
  then obtain a where "addon_of KubeProxyAddonName (prepared_addons up c) = Some a" "ad_Containers a = ad_Containers user" by auto
  then have "custom_kube_proxy (kc_CustomKubeProxyImage (ax_k c)) (prepared_addons up c) = Inl e \<longleftrightarrow>
      e = Panic ''index out of range'' \<and> kc_CustomKubeProxyImage (ax_k c) \<noteq> '''' \<and> ad_Containers user = []"
    by (auto simp: custom_kube_proxy_def lookup_def [symmetric])
  then show ?thesis
    using d(2) by (auto simp: merge_addons_parts bindR_Inl_iff Let_def user_def split: option.splits)
qed

subsection \<open>Examples\<close>

definition example_addon :: addon where
  "example_addon = zero_addon\<lparr>ad_Name := TillerAddonName, ad_Enabled := Some True, ad_Config := Some [(''max-history'', ''5'')]\<rparr>"

definition example_context :: addon_context where
  "example_context = \<lparr>ax_p = zero_properties, ax_o = zero_orchestrator_profile\<lparr>op_OrchestratorVersion := ''1.28.15''\<rparr>,
     ax_k = zero_kubernetes_config\<lparr>kc_Addons := [example_addon]\<rparr>, ax_spec = zero_kubernetes_spec_config,
     ax_base = ''mcr/'', ax_components = [(TillerAddonName, ''tiller:v2'')], ax_disk = False, ax_file = False,
     ax_node = False, ax_nonmasq = '''', ax_secondary = ''''\<rparr>"

lemma example_context_facts:
  "addon_of ''kube-proxy-daemonset'' (kc_Addons (ax_k example_context)) = None" "kc_CustomKubeProxyImage (ax_k example_context) = ''''"
  "TillerAddonName \<noteq> PodSecurityPolicyAddonName" "addon_of TillerAddonName (kc_Addons (ax_k example_context)) = Some example_addon"
  "addon_of PodSecurityPolicyAddonName (kc_Addons (ax_k example_context)) = None"
  "ad_Enabled example_addon = Some True" "ad_Data example_addon = ''''"
  by (simp_all add: example_context_def example_addon_def zero_kubernetes_config_def addon_names zero_addon_def)

lemma example_tiller: "addon_of TillerAddonName (defaultAddons up c) = Some (defaultTillerAddonsConfig c)"
  by (simp add: defaultAddons_def defaultTillerAddonsConfig_def)

lemma example_version: "ShouldDisablePodSecurityPolicyAddon (op_OrchestratorVersion (ax_o example_context))"
  by (simp add: example_context_def ShouldDisablePodSecurityPolicyAddon_def PodSecurityPolicyRemovedVersion_def
    IsKubernetesVersionGe_def compare_eval)

lemma example_merge: "\<exists>addons. merge_addons up example_context = Inr addons"
  by (simp add: merge_addons_parts example_context_facts custom_kube_proxy_none Let_def)


theorem no_policies_addon_without_policies_witness:
  "\<exists>addons a. merge_addons True example_context = Inr addons \<and> addon_of PodSecurityPolicyAddonName addons = Some a \<and> ad_Enabled a = Some False"
  using example_merge [of True] no_policies_addon_without_policies [OF _ example_version, of True] by blast

theorem addon_merge_stable_witness:
  "\<exists>addons. merge_addons False example_context = Inr addons \<and>
     merge_addons False (example_context\<lparr>ax_k := (ax_k example_context)\<lparr>kc_Addons := addons\<rparr>\<rparr>) = Inr addons"
  using example_merge [of False] addon_merge_stable [OF _ example_context_facts(1,2,5)] by blast

lemma example_upgraded:
  assumes "merge_addons True example_context = Inr addons"
  shows "addon_of TillerAddonName addons = Some (assignDefaultAddonVals example_addon (defaultTillerAddonsConfig example_context) True)"
proof -
  let ?c = example_context
  have other: "TillerAddonName \<notin> {PodSecurityPolicyAddonName, AzureNetworkPolicyAddonName, CalicoAddonName, ClusterAutoscalerAddonName,
      AzureCNINetworkMonitorAddonName}"
    by (simp add: addon_names)
  have "pools (ax_p ?c) = []" by (simp add: example_context_def zero_properties_def pools_def)
  then have "addon_of TillerAddonName (migrate_autoscaler (ax_p ?c) as) = addon_of TillerAddonName as" for as
    using other by (simp add: migrate_autoscaler_def lookup_update split: option.split)
  moreover have "enable_csi_addons ?c as = as" "force_cloud_node_manager ?c as = as" for as
    by (simp_all add: enable_csi_addons_def force_cloud_node_manager_def example_context_def zero_kubernetes_config_def)
  ultimately have "addon_of TillerAddonName (prepared_addons True ?c) = Some example_addon"
    using other by (simp add: prepared_addons_def disable_network_monitor_def lookup_update addon_of_appended example_context_facts)
  then show ?thesis
    using addon_of_merged [OF assms example_context_facts(1,2)] other
    by (simp add: addon_of_psp drop_telemetry_container_def force_calico_def pod_security_data_def lookup_update
      addon_of_synthesized [OF defaultAddons_distinct] example_tiller Let_def split: option.split)
qed


end
