(* ===== verification/ComponentDefaults.thy ===== *)
theory ComponentDefaults
  imports AddonFacts
begin

section \<open>Defaults of the control plane components (pkg/api/components.go)\<close>

text \<open>
  The specification of each control plane component, how \<open>setComponentsConfig\<close> merges it with that of the user,
  and which image a component runs in the end.
\<close>

subsection \<open>Images and commands\<close>

definition componentImageSuffix :: "properties \<Rightarrow> string \<Rightarrow> string" where
  "componentImageSuffix p version =
     (if IsAzureStackCloud p \<and> \<not> IsKubernetesVersionGe version ''1.21.0'' then AzureStackSuffix else '''')"

definition getComponentDefaultContainerImage ::
    "string \<Rightarrow> properties \<Rightarrow> string \<Rightarrow> kubernetes_config \<Rightarrow> kubernetes_spec_config \<Rightarrow> (string \<times> string) list \<Rightarrow> string" where
  "getComponentDefaultContainerImage name p version k specConfig k8sComponents =
     (let kubernetesImageBase = EnsureString (kc_KubernetesImageBase k) (ks_MCRKubernetesImageBase specConfig);
          img = map_get k8sComponents;
          suffix = componentImageSuffix p version;
          hyperkubeImage = kubernetesImageBase @ img Hyperkube @
            (if IsAzureStackCloud p \<and> \<not> IsKubernetesVersionGe version ''1.21.0'' then AzureStackSuffix else '''');
          controllerManagerBase = (if IsKubernetesVersionGe version ''1.16.0'' then kc_MCRKubernetesImageBase k else kubernetesImageBase);
          split = IsKubernetesVersionGe version ''1.17.0''
      in if name = APIServerComponentName
         then (if split then kubernetesImageBase @ img APIServerComponentName @ suffix else hyperkubeImage)
         else if name = ControllerManagerComponentName
         then (if split then kubernetesImageBase @ img ControllerManagerComponentName @ suffix else hyperkubeImage)
         else if name = CloudControllerManagerComponentName
         then controllerManagerBase @ img CloudControllerManagerComponentName @ suffix
         else if name = SchedulerComponentName
         then (if split then kubernetesImageBase @ img SchedulerComponentName @ suffix else hyperkubeImage)
         else if name = AddonManagerComponentName then kubernetesImageBase @ img AddonManagerComponentName
         else if name = AzureKMSProviderComponentName then kubernetesImageBase @ img AzureKMSProviderComponentName
         else '''')"

definition quoted :: "string \<Rightarrow> string" where
  "quoted s = CHR 0x22 # s @ [CHR 0x22]"

definition getAPIServerDefaultCommandString :: "string \<Rightarrow> string" where
  "getAPIServerDefaultCommandString version =
     (if IsKubernetesVersionGe version ''1.17.0'' then quoted ''kube-apiserver''
      else quoted ''/hyperkube'' @ '', '' @ quoted ''kube-apiserver'')"

definition getControllerManagerDefaultCommandString :: "string \<Rightarrow> string" where
  "getControllerManagerDefaultCommandString version =
     (if IsKubernetesVersionGe version ''1.17.0'' then quoted ''kube-controller-manager''
      else quoted ''/hyperkube'' @ '', '' @ quoted ''kube-controller-manager'')"

definition getSchedulerDefaultCommandString :: "string \<Rightarrow> string" where
  "getSchedulerDefaultCommandString version =
     (if IsKubernetesVersionGe version ''1.17.0'' then quoted ''kube-scheduler''
      else quoted ''/hyperkube'' @ '', '' @ quoted ''kube-scheduler'')"

subsection \<open>The components\<close>

definition default_component :: "string \<Rightarrow> bool \<Rightarrow> string \<Rightarrow> (string \<times> string) list option \<Rightarrow> component" where
  "default_component name enabled img config =
     \<lparr>co_Name = name, co_Enabled = Some enabled, co_Containers = [zero_container_spec\<lparr>ct_Name := name, ct_Image := img\<rparr>],
      co_Config = config, co_Data = ''''\<rparr>"

definition defaultComponents :: "string \<Rightarrow> kubernetes_config \<Rightarrow> (string \<Rightarrow> string) \<Rightarrow> component list" where
  "defaultComponents version k img =
     [default_component SchedulerComponentName True (img SchedulerComponentName)
        (Some [(''command'', getSchedulerDefaultCommandString version)]),
      default_component ControllerManagerComponentName True (img ControllerManagerComponentName)
        (Some [(''command'', getControllerManagerDefaultCommandString version)]),
      default_component CloudControllerManagerComponentName (to_Bool (kc_UseCloudControllerManager k))
        (img CloudControllerManagerComponentName) (Some [(''command'', quoted ''cloud-controller-manager'')]),
      default_component APIServerComponentName True (img APIServerComponentName)
        (Some [(''command'', getAPIServerDefaultCommandString version)]),
      default_component AddonManagerComponentName True (img AddonManagerComponentName) None,
      default_component AzureKMSProviderComponentName (to_Bool (kc_EnableEncryptionWithExternalKms k))
        (img AzureKMSProviderComponentName) (Some [(''command'', quoted ''k8s-azure-kms'')])]"

definition GetComponentsIndexByName :: "component list \<Rightarrow> string \<Rightarrow> int" where
  "GetComponentsIndexByName components name = index_where (\<lambda>c. co_Name c = name) 0 components"

definition appendComponentIfNotPresent :: "component list \<Rightarrow> component \<Rightarrow> component list" where
  "appendComponentIfNotPresent components c =
     (if co_Name c \<noteq> '''' \<and> GetComponentsIndexByName components (co_Name c) < 0 then components @ [c] else components)"

abbreviation update_component :: "string \<Rightarrow> (component \<Rightarrow> component) \<Rightarrow> component list \<Rightarrow> component list" where
  "update_component name \<equiv> update_first (\<lambda>c. co_Name c = name)"

subsection \<open>Custom images\<close>

definition custom_image :: "string \<Rightarrow> kubernetes_config \<Rightarrow> string \<Rightarrow> string" where
  "custom_image version k name =
     (let useHyperkube = \<not> IsKubernetesVersionGe version ''1.17.0'' in
      if name = APIServerComponentName then (if useHyperkube then kc_CustomHyperkubeImage k else kc_CustomKubeAPIServerImage k)
      else if name = ControllerManagerComponentName
      then (if useHyperkube then kc_CustomHyperkubeImage k else kc_CustomKubeControllerManagerImage k)
      else if name = CloudControllerManagerComponentName then kc_CustomCcmImage k
      else if name = SchedulerComponentName then (if useHyperkube then kc_CustomHyperkubeImage k else kc_CustomKubeSchedulerImage k)
      else '''')"

definition set_component_image :: "string \<Rightarrow> component \<Rightarrow> component" where
  "set_component_image img c = (case co_Containers c of [] \<Rightarrow> c
     | x # xs \<Rightarrow> c\<lparr>co_Containers := x\<lparr>ct_Image := img\<rparr> # xs\<rparr>)"

text \<open>The loop over the defaults; the first container is indexed without a check.\<close>

fun set_custom_images :: "(string \<Rightarrow> string) \<Rightarrow> component list \<Rightarrow> component list \<Rightarrow> component list result" where
  "set_custom_images custom [] components = Inr components"
| "set_custom_images custom (d # ds) components =
     (let name = co_Name d in
      if custom name = '''' then set_custom_images custom ds components
      else case find (\<lambda>c. co_Name c = name) components of
        None \<Rightarrow> set_custom_images custom ds components
      | Some c \<Rightarrow> if co_Containers c = [] then Inl (Panic ''index out of range'')
          else set_custom_images custom ds (update_component name (set_component_image (custom name)) components))"

text \<open>
  The image is assigned in place. A component appended from the defaults shares its containers with them, so that
  the default has the custom image too; a component of the user has containers of its own.
\<close>

definition shared_components :: "(string \<Rightarrow> string) \<Rightarrow> component list \<Rightarrow> component list \<Rightarrow> component list" where
  "shared_components custom user defaults =
     map (\<lambda>d. if custom (co_Name d) \<noteq> '''' \<and> GetComponentsIndexByName user (co_Name d) = - 1
       then set_component_image (custom (co_Name d)) d else d) defaults"

subsection \<open>Merging\<close>

definition default_commands :: "bool \<Rightarrow> (string \<times> string) list option \<Rightarrow> (string \<times> string) list option \<Rightarrow> (string \<times> string) list" where
  "default_commands isUpgrade config defaults = foldl (\<lambda>m (key, val).
     let m = (if key = ''command'' \<and> isUpgrade then AList.update key val m else m) in
     if map_get m key = '''' then AList.update key val m else m)
     (case config of None \<Rightarrow> [] | Some m \<Rightarrow> m) (case defaults of None \<Rightarrow> [] | Some d \<Rightarrow> d)"

definition assignDefaultComponentVals :: "component \<Rightarrow> component \<Rightarrow> bool \<Rightarrow> component" where
  "assignDefaultComponentVals c d isUpgrade =
     (let c = (if co_Name c = '''' then c\<lparr>co_Name := co_Name d\<rparr> else c);
          c = (if co_Enabled c = None then c\<lparr>co_Enabled := co_Enabled d\<rparr> else c) in
      if \<not> to_Bool (co_Enabled c) then zero_component\<lparr>co_Name := co_Name c, co_Enabled := co_Enabled c\<rparr>
      else if co_Data c \<noteq> ''''
      then zero_component\<lparr>co_Name := co_Name c, co_Enabled := co_Enabled c, co_Data := co_Data c\<rparr>
      else c\<lparr>co_Containers := default_containers isUpgrade (co_Containers c) (co_Containers d),
        co_Config := Some (default_commands isUpgrade (co_Config c) (co_Config d))\<rparr>)"

definition synthesizeComponentsConfig :: "bool \<Rightarrow> component list \<Rightarrow> component \<Rightarrow> component list" where
  "synthesizeComponentsConfig isUpgrade components d =
     update_component (co_Name d) (\<lambda>c. assignDefaultComponentVals c d isUpgrade) components"

definition force_cloud_controller_manager ::
    "properties \<Rightarrow> kubernetes_config \<Rightarrow> component list \<Rightarrow> component list \<Rightarrow> component list" where
  "force_cloud_controller_manager p k defaults components =
     (if IsAzureStackCloud p \<and> to_Bool (kc_UseCloudControllerManager k)
      then case find (\<lambda>c. co_Name c = CloudControllerManagerComponentName) defaults of
          Some d \<Rightarrow> update_component CloudControllerManagerComponentName (\<lambda>_. d) components
        | None \<Rightarrow> components
      else components)"

definition merge_components ::
    "bool \<Rightarrow> properties \<Rightarrow> string \<Rightarrow> kubernetes_config \<Rightarrow> (string \<Rightarrow> string) \<Rightarrow> component list result" where
  "merge_components isUpgrade p version k img =
     (let defaults = defaultComponents version k img;
          custom = custom_image version k;
          user = kc_Components k
      in bindR (set_custom_images custom defaults (foldl appendComponentIfNotPresent user defaults)) (\<lambda>components.
         let defaults = shared_components custom user defaults;
             components = (if isUpgrade then force_cloud_controller_manager p k defaults components else components)
         in Inr (foldl (synthesizeComponentsConfig isUpgrade) components defaults)))"

definition setComponentsConfig :: "cloud_specs \<Rightarrow> bool \<Rightarrow> container_service \<Rightarrow> container_service result" where
  "setComponentsConfig specs isUpgrade cs =
     (let p = cs_Properties cs in
      case p_OrchestratorProfile p of None \<Rightarrow> Inr cs
      | Some orch \<Rightarrow> (case op_KubernetesConfig orch of None \<Rightarrow> Inr cs
        | Some k \<Rightarrow>
          bindR (GetCloudSpecConfig specs cs) (\<lambda>cloudSpecConfig.
          bindR (k8s_components k (op_OrchestratorVersion orch)) (\<lambda>k8sComponents.
          bindR (merge_components isUpgrade p (op_OrchestratorVersion orch) k
            (\<lambda>name. getComponentDefaultContainerImage name p (op_OrchestratorVersion orch) k
              (es_KubernetesSpecConfig cloudSpecConfig) k8sComponents)) (\<lambda>components.
          Inr (cs\<lparr>cs_Properties := p\<lparr>p_OrchestratorProfile :=
            Some (orch\<lparr>op_KubernetesConfig := Some (k\<lparr>kc_Components := components\<rparr>)\<rparr>)\<rparr>\<rparr>))))))"

end
