(* ===== verification/ComponentFacts.thy ===== *)
theory ComponentFacts
  imports ComponentDefaults
begin

section \<open>Which image a component runs\<close>

text \<open>
  The merge of the components is another instance of the merge of named lists. The properties say which image each
  component runs, when the merge fails, and that a custom image makes the second operation on a cluster fail.
\<close>

abbreviation component_of :: "string \<Rightarrow> component list \<Rightarrow> component option" where
  "component_of \<equiv> lookup co_Name"

lemma GetComponentsIndexByName_None:
  "GetComponentsIndexByName cs name = - 1 \<longleftrightarrow> component_of name cs = None"
  "GetComponentsIndexByName cs name < 0 \<longleftrightarrow> component_of name cs = None"
  by (simp_all add: GetComponentsIndexByName_def lookup_def index_where_None index_where_negative)

lemma assign_component_name: "co_Name (assignDefaultComponentVals c d up) = (if co_Name c = '''' then co_Name d else co_Name c)"
  by (simp add: assignDefaultComponentVals_def Let_def)

text \<open>Components are found by a name that is not empty, so the merge keeps the names.\<close>

definition complete_component :: "bool \<Rightarrow> component \<Rightarrow> component \<Rightarrow> component" where
  "complete_component up d c = (assignDefaultComponentVals c d up)\<lparr>co_Name := co_Name c\<rparr>"

interpretation components: named_merge co_Name "complete_component up" for up
  by unfold_locales (simp add: complete_component_def)

lemma defaultComponents_names:
  "map co_Name (defaultComponents v k img) = [SchedulerComponentName, ControllerManagerComponentName, CloudControllerManagerComponentName,
     APIServerComponentName, AddonManagerComponentName, AzureKMSProviderComponentName]"
  by (simp add: defaultComponents_def default_component_def)

lemma defaultComponents_distinct: "distinct (map co_Name (defaultComponents v k img))"
  unfolding defaultComponents_names by (simp add: addon_names)

lemma component_names_nonempty: "\<forall>d \<in> set (defaultComponents v k img). co_Name d \<noteq> ''''"
  by (simp add: defaultComponents_def default_component_def addon_names)

lemma update_first_cong: "(\<And>x. P x \<Longrightarrow> f x = g x) \<Longrightarrow> update_first P f xs = update_first P g xs"
  by (induction xs) auto

lemma append_components:
  "\<forall>d \<in> set ds. co_Name d \<noteq> '''' \<Longrightarrow> foldl appendComponentIfNotPresent cs ds = foldl (append_missing co_Name) cs ds"
  by (induction ds arbitrary: cs) (auto simp: appendComponentIfNotPresent_def append_missing_def GetComponentsIndexByName_None)

lemma synthesize_components:
  assumes "\<forall>d \<in> set ds. co_Name d \<noteq> ''''"
  shows "foldl (synthesizeComponentsConfig up) cs ds =
    foldl (\<lambda>cs d. update_component (co_Name d) (complete_component up d) cs) cs ds"
  using assms
proof (induction ds arbitrary: cs)
  case (Cons d ds)
  have "synthesizeComponentsConfig up cs d = update_component (co_Name d) (complete_component up d) cs"
    unfolding synthesizeComponentsConfig_def
    by (rule update_first_cong) (use Cons.prems in \<open>auto simp: complete_component_def assign_component_name\<close>)
  then show ?case using Cons by simp
qed simp

subsection \<open>Custom images\<close>

lemma set_component_image_name [simp]: "co_Name (set_component_image img c) = co_Name c"
  by (simp add: set_component_image_def split: list.split)

text \<open>The loop fails exactly on a component without containers, and else sets the image of each component.\<close>

lemma set_custom_images_Inr:
  assumes "distinct (map co_Name ds)" and "set_custom_images custom ds cs = Inr cs'"
  shows "component_of n cs' = map_option (if n \<in> set (map co_Name ds) \<and> custom n \<noteq> '''' then set_component_image (custom n) else id) (component_of n cs)"
  using assms
proof (induction ds arbitrary: cs)
  case Nil
  then show ?case by (simp add: option.map_ident id_def)
next
  case (Cons d ds)
  show ?case
  proof (cases "custom (co_Name d) = '''' \<or> component_of (co_Name d) cs = None")
    case True
    then have "set_custom_images custom ds cs = Inr cs'" using Cons.prems(2) by (auto simp: Let_def lookup_def split: if_splits)
    then have "component_of n cs' = map_option (if n \<in> set (map co_Name ds) \<and> custom n \<noteq> '''' then set_component_image (custom n) else id) (component_of n cs)"
      using Cons.IH Cons.prems(1) by simp
    then show ?thesis using True by auto
  next
    case False
    then have "set_custom_images custom ds (update_component (co_Name d) (set_component_image (custom (co_Name d))) cs) = Inr cs'"
      using Cons.prems(2) by (auto simp: Let_def lookup_def split: if_splits option.splits)
    then show ?thesis using Cons.IH Cons.prems(1) False by (auto simp: lookup_update)
  qed
qed

lemma set_custom_images_Inl:
  assumes "distinct (map co_Name ds)"
  shows "set_custom_images custom ds cs = Inl e \<longleftrightarrow> e = Panic ''index out of range'' \<and>
    list_ex (\<lambda>n. custom n \<noteq> '''' \<and> (case component_of n cs of None \<Rightarrow> False | Some c \<Rightarrow> co_Containers c = [])) (map co_Name ds)"
  using assms
proof (induction ds arbitrary: cs)
  case (Cons d ds)
  have other: "list_ex (\<lambda>n. custom n \<noteq> '''' \<and> (case component_of n (update_component (co_Name d) f cs) of None \<Rightarrow> False | Some c \<Rightarrow> co_Containers c = [])) (map co_Name ds)
      \<longleftrightarrow> list_ex (\<lambda>n. custom n \<noteq> '''' \<and> (case component_of n cs of None \<Rightarrow> False | Some c \<Rightarrow> co_Containers c = [])) (map co_Name ds)"
    if "\<And>c. co_Name (f c) = co_Name c" for f
  proof -
    have "n \<noteq> co_Name d" if "n \<in> set (map co_Name ds)" for n using that Cons.prems by (metis distinct.simps(2) list.simps(9))
    then show ?thesis by (intro list_ex_cong refl) (simp add: lookup_update that)
  qed
  show ?case
    using Cons by (auto simp: Let_def lookup_def [symmetric] other split: option.splits if_splits)
qed simp

subsection \<open>The merge\<close>

lemma shared_components_names: "map co_Name (shared_components custom user ds) = map co_Name ds"
  by (simp add: shared_components_def)

lemma component_of_shared:
  "component_of n (shared_components custom user ds) =
    map_option (\<lambda>d. if custom n \<noteq> '''' \<and> component_of n user = None then set_component_image (custom n) d else d) (component_of n ds)"
  by (induction ds) (auto simp: shared_components_def GetComponentsIndexByName_None)

text \<open>The component of a name before the last loop, and after it.\<close>

definition before_completion :: "bool \<Rightarrow> properties \<Rightarrow> kubernetes_config \<Rightarrow> (string \<Rightarrow> string) \<Rightarrow> component \<Rightarrow> string \<Rightarrow> component" where
  "before_completion up p k custom d n =
     (let images = (if custom n \<noteq> '''' then set_component_image (custom n) else id);
          shared = (if component_of n (kc_Components k) = None then images d else d)
      in if up \<and> n = CloudControllerManagerComponentName \<and> IsAzureStackCloud p \<and> to_Bool (kc_UseCloudControllerManager k) then shared
         else images (case component_of n (kc_Components k) of None \<Rightarrow> d | Some u \<Rightarrow> u))"

lemma component_of_merged:
  assumes "merge_components up p v k img = Inr comps" and "component_of n (defaultComponents v k img) = Some d"
  shows "component_of n comps = Some (complete_component up
    (if custom_image v k n \<noteq> '''' \<and> component_of n (kc_Components k) = None then set_component_image (custom_image v k n) d else d)
    (before_completion up p k (custom_image v k) d n))"
proof -
  let ?ds = "defaultComponents v k img" and ?custom = "custom_image v k" and ?user = "kc_Components k"
  let ?shared = "shared_components ?custom ?user ?ds"
  from assms(1) obtain cs where cs: "set_custom_images ?custom ?ds (foldl appendComponentIfNotPresent ?user ?ds) = Inr cs"
    and comps: "comps = foldl (synthesizeComponentsConfig up) (if up then force_cloud_controller_manager p k ?shared cs else cs) ?shared"
    by (auto simp: merge_components_def Let_def bindR_Inr_iff)
  have n: "n \<in> set (map co_Name ?ds)" using assms(2) lookup_None [of co_Name n ?ds] by auto
  have "component_of n cs = Some ((if ?custom n \<noteq> '''' then set_component_image (?custom n) else id)
      (case component_of n ?user of None \<Rightarrow> d | Some u \<Rightarrow> u))"
    using set_custom_images_Inr [OF defaultComponents_distinct cs, of n] n assms(2)
    by (auto simp: append_components [OF component_names_nonempty] lookup_appended split: option.split)
  then have before: "component_of n (if up then force_cloud_controller_manager p k ?shared cs else cs) = Some (before_completion up p k ?custom d n)"
    using assms(2) unfolding force_cloud_controller_manager_def lookup_def [symmetric, of co_Name]
    by (auto simp: before_completion_def Let_def lookup_update component_of_shared lookup_key split: option.split)
  have "\<forall>d \<in> set ?shared. co_Name d \<noteq> ''''"
    using component_names_nonempty by (auto simp: shared_components_def)
  moreover have "distinct (map co_Name ?shared)" using defaultComponents_distinct by (simp add: shared_components_names)
  ultimately show ?thesis
    using before assms(2) by (simp add: comps synthesize_components components.lookup_completed component_of_shared)
qed

lemma default_component_of:
  assumes "component_of n (defaultComponents v k img) = Some d"
  shows "\<exists>e config. d = default_component n e (img n) config"
  using assms by (auto simp: defaultComponents_def default_component_def split: if_splits)

lemma completed_containers:
  assumes "to_Bool (co_Enabled (complete_component up d c))" and "co_Data (complete_component up d c) = ''''"
  shows "co_Containers (complete_component up d c) = default_containers up (co_Containers c) (co_Containers d)"
  using assms by (auto simp: complete_component_def assignDefaultComponentVals_def Let_def split: if_splits)

lemma disabled_containers:
  assumes "\<not> to_Bool (co_Enabled (complete_component up d c))"
  shows "co_Containers (complete_component up d c) = []"
  using assms by (auto simp: complete_component_def assignDefaultComponentVals_def Let_def zero_component_def split: if_splits)

lemma single_container:
  "ct_Name d = n \<Longrightarrow> container_of n (default_containers up cs [d]) =
    Some (case container_of n cs of None \<Rightarrow> d | Some x \<Rightarrow> default_container up d x)"
  using container_of_defaults [of "[d]" n up cs] by (simp split: option.split)

subsection \<open>Properties\<close>

text \<open>
  C30: the image that a control plane component runs. A component that the cluster definition does not list runs the custom image
  when there is one, else the image of the version. One that it lists runs, on a new cluster, the custom image, else the
  image it names, else that of the version; but after an upgrade it runs the image of the version, and the custom
  image is lost.\<close>

theorem component_images:
  assumes "merge_components up p v k img = Inr comps" and "component_of n (defaultComponents v k img) = Some d"
    and "component_of n comps = Some c" and "to_Bool (co_Enabled c)" and "co_Data c = ''''"
    and "case component_of n (kc_Components k) of None \<Rightarrow> True | Some u \<Rightarrow> co_Containers u \<noteq> [] \<and> ct_Name (hd (co_Containers u)) = n"
  shows "map_option ct_Image (container_of n (co_Containers c)) = Some (case component_of n (kc_Components k) of
      None \<Rightarrow> EnsureString (custom_image v k n) (img n)
    | Some u \<Rightarrow> if up then img n else EnsureString (custom_image v k n) (EnsureString (ct_Image (hd (co_Containers u))) (img n)))"
proof -
  obtain e config where d: "d = default_component n e (img n) config" using default_component_of [OF assms(2)] by blast
  let ?custom = "custom_image v k n"
  let ?d = "if ?custom \<noteq> '''' \<and> component_of n (kc_Components k) = None then set_component_image ?custom d else d"
  let ?c = "before_completion up p k (custom_image v k) d n"
  have c: "c = complete_component up ?d ?c" using component_of_merged [OF assms(1,2)] assms(3) by simp
  then have containers: "co_Containers c = default_containers up (co_Containers ?c) (co_Containers ?d)"
    using completed_containers assms(4,5) by blast
  have box: "co_Containers d = [zero_container_spec\<lparr>ct_Name := n, ct_Image := img n\<rparr>]" by (simp add: d default_component_def)
  show ?thesis
  proof (cases "component_of n (kc_Components k)")
    case None
    define x where "x = zero_container_spec\<lparr>ct_Name := n, ct_Image := EnsureString ?custom (img n)\<rparr>"
    have "co_Containers ?d = [x]" by (simp add: x_def None box set_component_image_def EnsureString_def)
    moreover have "co_Containers ?c = [x]" by (simp add: before_completion_def Let_def x_def None box set_component_image_def EnsureString_def)
    ultimately have "co_Containers c = default_containers up [x] [x]" using containers by simp
    then show ?thesis using None by (simp add: single_container x_def default_container_self)
  next
    case (Some u)
    have "co_Containers ?d = [zero_container_spec\<lparr>ct_Name := n, ct_Image := img n\<rparr>]" by (simp add: Some box)
    then have image: "container_of n (co_Containers c) = Some (case container_of n (co_Containers ?c) of
        None \<Rightarrow> zero_container_spec\<lparr>ct_Name := n, ct_Image := img n\<rparr>
      | Some x \<Rightarrow> default_container up (zero_container_spec\<lparr>ct_Name := n, ct_Image := img n\<rparr>) x)"
      using containers by (simp add: single_container)
    show ?thesis
    proof (cases up)
      case True
      then show ?thesis using Some image by (simp add: default_container_def split: option.split)
    next
      case False
      obtain y ys where u: "co_Containers u = y # ys" "ct_Name y = n" using assms(6) Some by (auto simp: neq_Nil_conv)
      have "container_of n (co_Containers ?c) = Some (y\<lparr>ct_Image := EnsureString ?custom (ct_Image y)\<rparr>)"
        using False u by (simp add: before_completion_def Let_def Some set_component_image_def EnsureString_def)
      then show ?thesis using Some False image u by (simp add: default_container_def EnsureString_def)
    qed
  qed
qed

lemma custom_image_components [simp]: "custom_image v (k\<lparr>kc_Components := cs\<rparr>) = custom_image v k"
  by (intro ext) (simp add: custom_image_def Let_def)

lemma custom_image_known: "custom_image v k n \<noteq> '''' \<Longrightarrow> n \<in> set (map co_Name (defaultComponents v k img))"
  unfolding defaultComponents_names by (auto simp: custom_image_def Let_def split: if_splits)

text \<open>
  The merge of the components fails exactly if a custom image is set for a component whose specification in the
  cluster definition has no container, and then it ends the program with a panic.
\<close>

theorem component_merge_panics:
  "merge_components up p v k img = Inl e \<longleftrightarrow> e = Panic ''index out of range'' \<and>
    list_ex (\<lambda>u. component_of (co_Name u) (kc_Components k) = Some u \<and> custom_image v k (co_Name u) \<noteq> '''' \<and> co_Containers u = []) (kc_Components k)"
proof -
  let ?ds = "defaultComponents v k img" and ?user = "kc_Components k" and ?custom = "custom_image v k"
  have nonempty: "list_all (\<lambda>d. co_Containers d \<noteq> []) ?ds" by (simp add: defaultComponents_def default_component_def)
  have "list_ex (\<lambda>n. ?custom n \<noteq> '''' \<and> (case component_of n (foldl appendComponentIfNotPresent ?user ?ds) of
        None \<Rightarrow> False | Some c \<Rightarrow> co_Containers c = [])) (map co_Name ?ds) \<longleftrightarrow>
      (\<exists>n u. component_of n ?user = Some u \<and> ?custom n \<noteq> '''' \<and> co_Containers u = [])" (is "?l \<longleftrightarrow> ?r")
  proof
    assume ?l
    then show ?r
      using lookup_all [OF nonempty] by (fastforce simp: list_ex_iff append_components [OF component_names_nonempty] lookup_appended split: option.splits)
  next
    assume ?r
    then obtain n u where u: "component_of n ?user = Some u" "?custom n \<noteq> ''''" "co_Containers u = []" by blast
    then show ?l
      using custom_image_known [of v k n img]
      by (auto simp: list_ex_iff append_components [OF component_names_nonempty] lookup_appended intro!: bexI [of _ n])
  qed
  moreover have "?r \<longleftrightarrow> list_ex (\<lambda>u. component_of (co_Name u) ?user = Some u \<and> ?custom (co_Name u) \<noteq> '''' \<and> co_Containers u = []) ?user"
    by (auto simp: list_ex_iff dest: lookup_key) (metis find_Some_iff lookup_def lookup_key nth_mem)
  ultimately show ?thesis
    by (auto simp: merge_components_def Let_def bindR_Inl_iff set_custom_images_Inl [OF defaultComponents_distinct])
qed

text \<open>
  C31: a custom image of a component that is not enabled, such as the cloud controller manager of most clusters, works
  once: the specification that the first operation stores has no container, so that every later operation on the
  cluster panics.\<close>

theorem custom_image_breaks_the_next_operation:
  assumes "merge_components up p v k img = Inr comps" and "custom_image v k n \<noteq> ''''"
    and "component_of n comps = Some c" and "\<not> to_Bool (co_Enabled c)"
  shows "merge_components up' p v (k\<lparr>kc_Components := comps\<rparr>) img' = Inl (Panic ''index out of range'')"
proof -
  have "n \<in> set (map co_Name (defaultComponents v k img))" using custom_image_known [OF assms(2)] .
  then obtain d where d: "component_of n (defaultComponents v k img) = Some d" using lookup_None [of co_Name n] by fastforce
  have empty: "co_Containers c = []"
    using component_of_merged [OF assms(1) d] assms(3,4) disabled_containers by fastforce
  let ?k = "k\<lparr>kc_Components := comps\<rparr>"
  have "custom_image v ?k n \<noteq> ''''" using assms(2) by (simp add: custom_image_components)
  then have "n \<in> set (map co_Name (defaultComponents v ?k img'))" by (rule custom_image_known)
  then have "list_ex (\<lambda>n. custom_image v ?k n \<noteq> '''' \<and> (case component_of n (foldl appendComponentIfNotPresent comps (defaultComponents v ?k img')) of
        None \<Rightarrow> False | Some c \<Rightarrow> co_Containers c = [])) (map co_Name (defaultComponents v ?k img'))"
    using \<open>custom_image v ?k n \<noteq> ''''\<close> assms(3) empty
    by (auto simp: list_ex_iff append_components [OF component_names_nonempty] lookup_appended intro!: bexI [of _ n])
  then show ?thesis
    by (simp add: merge_components_def Let_def bindR_Inl_iff set_custom_images_Inl [OF defaultComponents_distinct])
qed

subsection \<open>Examples\<close>

definition example_scheduler :: component where
  "example_scheduler = default_component SchedulerComponentName True ''old'' None"

definition example_custom :: kubernetes_config where
  "example_custom = zero_kubernetes_config\<lparr>kc_CustomKubeSchedulerImage := ''mine'', kc_CustomCcmImage := ''ccm'',
     kc_Components := [example_scheduler]\<rparr>"

lemma set_component_image_fields [simp]:
  "co_Enabled (set_component_image img c) = co_Enabled c" "co_Data (set_component_image img c) = co_Data c"
  by (simp_all add: set_component_image_def split: list.split)

lemma completed_state:
  assumes "co_Data c = ''''"
  shows "co_Enabled (complete_component up d c) = (if co_Enabled c = None then co_Enabled d else co_Enabled c)"
    "co_Data (complete_component up d c) = ''''"
  using assms by (auto simp: complete_component_def assignDefaultComponentVals_def Let_def zero_component_def)

lemma example_custom_images:
  "custom_image ''1.28.15'' example_custom SchedulerComponentName = ''mine''"
  "custom_image ''1.28.15'' example_custom CloudControllerManagerComponentName = ''ccm''"
  "component_of SchedulerComponentName (kc_Components example_custom) = Some example_scheduler"
  "component_of CloudControllerManagerComponentName (kc_Components example_custom) = None"
  by (simp_all add: custom_image_def example_custom_def example_scheduler_def default_component_def addon_names IsKubernetesVersionGe_def compare_eval)

lemma example_defaults:
  "component_of SchedulerComponentName (defaultComponents v k img) = Some (default_component SchedulerComponentName True
     (img SchedulerComponentName) (Some [(''command'', getSchedulerDefaultCommandString v)]))"
  "component_of CloudControllerManagerComponentName (defaultComponents v k img) = Some (default_component CloudControllerManagerComponentName
     (to_Bool (kc_UseCloudControllerManager k)) (img CloudControllerManagerComponentName) (Some [(''command'', quoted ''cloud-controller-manager'')]))"
  by (simp_all add: defaultComponents_def default_component_def addon_names)

lemma example_merge_runs: "\<exists>comps. merge_components up zero_properties ''1.28.15'' example_custom img = Inr comps"
proof -
  have nonempty: "list_all (\<lambda>c. co_Containers c \<noteq> []) (defaultComponents ''1.28.15'' example_custom img)"
    "list_all (\<lambda>c. co_Containers c \<noteq> []) (kc_Components example_custom)"
    by (simp_all add: defaultComponents_def default_component_def example_custom_def example_scheduler_def)
  have "co_Containers c \<noteq> []" if "component_of n (foldl appendComponentIfNotPresent (kc_Components example_custom)
      (defaultComponents ''1.28.15'' example_custom img)) = Some c" for n c
    using that lookup_all [OF nonempty(1)] lookup_all [OF nonempty(2)]
    by (auto simp: append_components [OF component_names_nonempty] lookup_appended split: option.splits)
  then have "set_custom_images (custom_image ''1.28.15'' example_custom) (defaultComponents ''1.28.15'' example_custom img)
      (foldl appendComponentIfNotPresent (kc_Components example_custom) (defaultComponents ''1.28.15'' example_custom img)) \<noteq> Inl e" for e
    by (auto simp: set_custom_images_Inl [OF defaultComponents_distinct] list_ex_iff split: option.splits)
  then show ?thesis
    by (cases "set_custom_images (custom_image ''1.28.15'' example_custom) (defaultComponents ''1.28.15'' example_custom img)
      (foldl appendComponentIfNotPresent (kc_Components example_custom) (defaultComponents ''1.28.15'' example_custom img))")
      (auto simp: merge_components_def Let_def)
qed

theorem component_images_witness:
  "\<exists>comps c. merge_components True zero_properties ''1.28.15'' example_custom (\<lambda>_. ''std'') = Inr comps \<and>
     component_of SchedulerComponentName comps = Some c \<and>
     map_option ct_Image (container_of SchedulerComponentName (co_Containers c)) = Some ''std''"
proof -
  obtain comps where run: "merge_components True zero_properties ''1.28.15'' example_custom (\<lambda>_. ''std'') = Inr comps"
    using example_merge_runs by blast
  have "SchedulerComponentName \<noteq> CloudControllerManagerComponentName" by (simp add: addon_names)
  then have "before_completion True zero_properties example_custom (custom_image ''1.28.15'' example_custom) d SchedulerComponentName =
      set_component_image ''mine'' example_scheduler" for d
    by (simp add: before_completion_def Let_def example_custom_images)
  then obtain c d where "component_of SchedulerComponentName comps = Some c"
    and "c = complete_component True d (set_component_image ''mine'' example_scheduler)"
    using component_of_merged [OF run example_defaults(1)] by auto
  then have c: "component_of SchedulerComponentName comps = Some c" "to_Bool (co_Enabled c)" "co_Data c = ''''"
    by (simp_all add: completed_state example_scheduler_def default_component_def)
  have "case component_of SchedulerComponentName (kc_Components example_custom) of None \<Rightarrow> True
      | Some u \<Rightarrow> co_Containers u \<noteq> [] \<and> ct_Name (hd (co_Containers u)) = SchedulerComponentName"
    by (simp add: example_custom_images example_scheduler_def default_component_def)
  then show ?thesis
    using component_images [OF run example_defaults(1) c] run c by (auto simp: example_custom_images)
qed

theorem custom_image_breaks_the_next_operation_witness:
  "\<exists>comps. merge_components False zero_properties ''1.28.15'' example_custom (\<lambda>_. ''std'') = Inr comps \<and>
     merge_components False zero_properties ''1.28.15'' (example_custom\<lparr>kc_Components := comps\<rparr>) (\<lambda>_. ''std'') = Inl (Panic ''index out of range'')"
proof -
  obtain comps where run: "merge_components False zero_properties ''1.28.15'' example_custom (\<lambda>_. ''std'') = Inr comps"
    using example_merge_runs by blast
  let ?d = "default_component CloudControllerManagerComponentName (to_Bool (kc_UseCloudControllerManager example_custom))
    ''std'' (Some [(''command'', quoted ''cloud-controller-manager'')])"
  have "before_completion False zero_properties example_custom (custom_image ''1.28.15'' example_custom) ?d CloudControllerManagerComponentName =
      set_component_image ''ccm'' ?d"
    by (simp add: before_completion_def Let_def example_custom_images)
  then obtain c d where "component_of CloudControllerManagerComponentName comps = Some c"
    and "c = complete_component False d (set_component_image ''ccm'' ?d)"
    using component_of_merged [OF run example_defaults(2)] by auto
  then have c: "component_of CloudControllerManagerComponentName comps = Some c" "\<not> to_Bool (co_Enabled c)"
    by (simp_all add: completed_state default_component_def example_custom_def zero_kubernetes_config_def)
  have "custom_image ''1.28.15'' example_custom CloudControllerManagerComponentName \<noteq> ''''" by (simp add: example_custom_images)
  then show ?thesis using custom_image_breaks_the_next_operation [OF run _ c] run by blast
qed

end
