(* ===== verification/MasterAddresses.thy ===== *)
theory MasterAddresses
  imports Net ClusterConstants
begin

section \<open>Addresses of the control plane (types.go, defaults.go)\<close>

text \<open>
  The address of the first master in its subnet, and the addresses that go into the certificate of the API
  server: those of the masters, of the internal load balancer, of the local host and of the service.
\<close>

definition GetFirstConsecutiveStaticIPAddress :: "master_profile \<Rightarrow> string \<Rightarrow> string result" where
  "GetFirstConsecutiveStaticIPAddress m subnetStr = (case ParseCIDR subnetStr of
       None \<Rightarrow> Inr DefaultFirstConsecutiveKubernetesStaticIP
     | Some (_, subnet) \<Rightarrow> (case Mask_Size (n_Mask subnet) of (ones, bits) \<Rightarrow>
         let firstOctet = ones div 8;
             lastOctet = bits div 8 - 1;
             ip = n_IP subnet
         in if MasterProfile_IsVirtualMachineScaleSets m
            then Inr (IP_String (ip[lastOctet := of_int DefaultKubernetesFirstConsecutiveStaticIPOffsetVMSS]))
            else if firstOctet \<ge> length ip then Inl (Panic ''index out of range'')
            else let ip = ip[firstOctet := ip ! firstOctet OR (push_bit (8 - ones mod 8) 1 - 1)];
                     ip = foldl (\<lambda>ip i. ip[i := 255]) ip [firstOctet + 1..<lastOctet]
                 in Inr (IP_String (ip[lastOctet := of_int DefaultKubernetesFirstConsecutiveStaticIPOffset]))))"

text \<open>\<open>binary.BigEndian\<close> on four bytes.\<close>

definition Uint32 :: "ip \<Rightarrow> 32 word" where
  "Uint32 ip = push_bit 24 (ucast (ip ! 0)) OR push_bit 16 (ucast (ip ! 1)) OR push_bit 8 (ucast (ip ! 2)) OR ucast (ip ! 3)"

definition PutUint32 :: "32 word \<Rightarrow> ip" where
  "PutUint32 v = [ucast (drop_bit 24 v), ucast (drop_bit 16 v), ucast (drop_bit 8 v), ucast v]"

definition getNewAddr :: "32 word \<Rightarrow> int \<Rightarrow> int \<Rightarrow> 32 word" where
  "getNewAddr addr n offsetMultiplier = addr + of_int (n * offsetMultiplier)"

definition master_offset :: "master_profile \<Rightarrow> int" where
  "master_offset m = (if MasterProfile_IsVirtualMachineScaleSets m then mp_IPAddressCount m else 1)"

text \<open>The address of the internal load balancer; the addition is that of bytes.\<close>

definition internal_lb_address :: "master_profile \<Rightarrow> ip \<Rightarrow> ip" where
  "internal_lb_address m ip =
     (if MasterProfile_IsVirtualMachineScaleSets m
      then [ip ! 0, ip ! 1, 255, of_int DefaultInternalLbStaticIPOffset]
      else [ip ! 0, ip ! 1, ip ! 2, ip ! 3 + of_int DefaultInternalLbStaticIPOffset])"

definition other_masters :: "master_profile \<Rightarrow> ip \<Rightarrow> ip list" where
  "other_masters m ip = map (\<lambda>i. PutUint32 (getNewAddr (Uint32 ip) i (master_offset m))) [1..mp_Count m - 1]"

definition master_ips :: "master_profile \<Rightarrow> ip list result" where
  "master_ips m = (case ParseIP (mp_FirstConsecutiveStaticIP m) of
       None \<Rightarrow> Inl (Err ''MasterProfile.FirstConsecutiveStaticIP is an invalid IP address'')
     | Some ip \<Rightarrow>
         if To4 ip = [] then Inl (Err ''MasterProfile.FirstConsecutiveStaticIP is an invalid IP address'')
         else Inr ([To4 ip, [127, 0, 0, 1], internal_lb_address m (To4 ip)] @ other_masters m (To4 ip)))"

subsection \<open>Address arithmetic\<close>

lemma Put_Uint32: "PutUint32 (Uint32 [a, b, c, d]) = [a, b, c, d]"
proof -
  have "ucast (drop_bit k (Uint32 [a, b, c, d])) = [d, c, b, a] ! (k div 8)" if "k \<in> {0, 8, 16, 24}" for k :: nat
    by (rule bit_eqI) (use that in \<open>auto simp: Uint32_def bit_simps dest: bit_imp_le_length\<close>)
  from this [of 0] this [of 8] this [of 16] this [of 24] show ?thesis by (simp add: PutUint32_def)
qed

lemma Uint32_add:
  assumes "unat d + n < 256"
  shows "Uint32 [a, b, c, d] + of_nat n = Uint32 [a, b, c, d + of_nat n]"
proof -
  let ?high = "push_bit 24 (ucast a) OR push_bit 16 (ucast b) OR push_bit 8 (ucast c) :: 32 word"
  have sum: "Uint32 [a, b, c, x] = ?high + ucast x" for x
    unfolding Uint32_def
    by (subst disjunctive_add_eq_or) (auto simp: bit_eq_iff bit_simps or.assoc dest: bit_imp_le_length)
  have "unat (d + of_nat n) = unat d + n" using assms by (simp add: unat_word_ariths unat_of_nat)
  then have "ucast (d + of_nat n) = (ucast d + of_nat n :: 32 word)"
    using assms by (simp add: word_unat_eq_iff unat_word_ariths unat_of_nat unsigned_ucast_eq take_bit_eq_mod)
  then show ?thesis by (simp add: sum add.assoc)
qed

text \<open>The addresses after a first one, as long as the last byte does not overflow.\<close>

lemma next_addresses:
  assumes "unat d + n < 256"
  shows "PutUint32 (getNewAddr (Uint32 [a, b, c, d]) (int n) 1) = [a, b, c, d + of_nat n]"
  using Uint32_add [OF assms] by (simp add: getNewAddr_def Put_Uint32)

subsection \<open>The first address lies in the subnet\<close>

lemma four_bytes: "length ip = 4 \<Longrightarrow> ip = [ip ! 0, ip ! 1, ip ! 2, ip ! 3]" for ip :: ip
  by (auto simp: numeral_eq_Suc length_Suc_conv)

lemma host_byte: "n < 8 \<Longrightarrow> push_bit (8 - n) 1 - 1 = (drop_bit n 255 :: byte)"
proof -
  have "\<forall>n \<in> set [0..<8]. push_bit (8 - n) 1 - 1 = (drop_bit n 255 :: byte)" by code_simp
  then show "n < 8 \<Longrightarrow> ?thesis" by simp
qed

lemma or_and_not: "(b OR h) AND NOT h = b AND NOT h" for b h :: byte
  by (auto simp: bit_eq_iff bit_simps)

text \<open>The address for a prefix of \<open>q\<close> octets and \<open>r\<close> bits, and the mask of that length.\<close>

definition first_master_bytes :: "ip \<Rightarrow> nat \<Rightarrow> nat \<Rightarrow> ip" where
  "first_master_bytes ip q r =
     (let h = drop_bit r 255 in
      if q = 0 then [ip ! 0 OR h, 255, 255, 5]
      else if q = 1 then [ip ! 0, ip ! 1 OR h, 255, 5]
      else if q = 2 then [ip ! 0, ip ! 1, ip ! 2 OR h, 5]
      else [ip ! 0, ip ! 1, ip ! 2, 5])"

lemma small_cases: "q < 4 \<Longrightarrow> q = 0 \<or> q = 1 \<or> q = 2 \<or> q = (3 :: nat)"
  by arith

lemma first_address_bytes:
  fixes a b c d h :: byte
  assumes "q < 4"
  shows "(foldl (\<lambda>ip i. ip[i := 255]) ([a, b, c, d][q := [a, b, c, d] ! q OR h]) [q + 1..<3])[3 := 5] =
      (if q = 0 then [a OR h, 255, 255, 5] else if q = 1 then [a, b OR h, 255, 5]
       else if q = 2 then [a, b, c OR h, 5] else [a, b, c, 5])"
proof -
  have "[0 + 1..<3] = [1, 2 :: nat]" and "[1 + 1..<3] = [2 :: nat]" and "[2 + 1..<3] = ([] :: nat list)" and "[3 + 1..<3] = ([] :: nat list)"
    by code_simp+
  note ranges = this
  show ?thesis
    using small_cases [OF assms] by (elim disjE) (simp_all only: ranges, simp_all add: numeral_2_eq_2 numeral_3_eq_3)
qed

lemma mask_four:
  assumes "q < 4" and "r < 8"
  shows "CIDRMask (8 * q + r) 32 = (let m = NOT (drop_bit r 255) in
    if q = 0 then [m, 0, 0, 0] else if q = 1 then [255, m, 0, 0] else if q = 2 then [255, 255, m, 0] else [255, 255, 255, m])"
proof -
  have bytes: "mask_bytes (Suc k) r = NOT (drop_bit r 255) # replicate k 0" for k
    using assms(2) by (simp add: mask_bytes_zero)
  have more: "mask_bytes (Suc k) (8 + n) = 255 # mask_bytes k n" for k n by simp
  have "(32 :: nat) div 8 = Suc (Suc (Suc (Suc 0)))" by simp
  then have four: "CIDRMask n 32 = mask_bytes (Suc (Suc (Suc (Suc 0)))) n" for n by (simp only: CIDRMask_def)
  show ?thesis
    using small_cases [OF assms(1)]
  proof (elim disjE)
    assume q: "q = 3"
    have "8 * q + r = 8 + (8 + (8 + r))" using q by simp
    then show ?thesis using q by (simp only: four more bytes) simp
  next
    assume q: "q = 2"
    have "8 * q + r = 8 + (8 + r)" using q by simp
    then show ?thesis using q by (simp only: four more bytes) simp
  next
    assume q: "q = 1"
    have "8 * q + r = 8 + r" using q by simp
    then show ?thesis using q by (simp only: four more bytes) simp
  next
    assume "q = 0"
    then show ?thesis by (simp only: four bytes mult_0_right add_0) simp
  qed
qed

lemma first_address_four:
  assumes "ParseCIDR s = Some (a, n)" and "length (n_IP n) = 4"
    and "\<not> MasterProfile_IsVirtualMachineScaleSets m" and "Mask_Size (n_Mask n) = (ones, bits)"
  shows "n_Mask n = CIDRMask ones 32 \<and> ones \<le> 32 \<and> bits = 32 \<and> (\<exists>x. length x = 4 \<and> n_IP n = map2 (AND) x (n_Mask n)) \<and>
     GetFirstConsecutiveStaticIPAddress m s =
       (if ones = 32 then Inl (Panic ''index out of range'')
        else Inr (IP_String (first_master_bytes (n_IP n) (ones div 8) (ones mod 8))))"
proof -
  obtain x k where x: "length x = 4 \<or> length x = 16" "k \<le> length x * 8" "n_Mask n = CIDRMask k (length x * 8)"
      "n_IP n = map2 (AND) x (n_Mask n)"
    using ParseCIDR_Some [OF assms(1)] by metis
  then have four: "length x = 4" using assms(2) by (auto simp: CIDRMask_def)
  then have k: "ones = k" "bits = 32" "k \<le> 32" "n_Mask n = CIDRMask k 32" using assms(4) x(2,3) Mask_Size_CIDRMask [of 32 k] by auto
  have first: "GetFirstConsecutiveStaticIPAddress m s = Inr (IP_String (first_master_bytes (n_IP n) (k div 8) (k mod 8)))" if "k \<noteq> 32"
  proof -
    have q: "k div 8 < 4" using that k(3) by linarith
    obtain b0 b1 b2 b3 where b: "n_IP n = [b0, b1, b2, b3]" using four_bytes [OF assms(2)] by metis
    have "2 ^ (8 - k mod 8) - 1 = (drop_bit (k mod 8) 255 :: byte)" using host_byte [of "k mod 8"] by simp
    then have "GetFirstConsecutiveStaticIPAddress m s = Inr (IP_String ((foldl (\<lambda>ip i. ip[i := 255])
        ((n_IP n)[k div 8 := n_IP n ! (k div 8) OR drop_bit (k mod 8) 255]) [k div 8 + 1..<3])[3 := 5]))"
      using assms q k by (simp add: GetFirstConsecutiveStaticIPAddress_def Let_def DefaultKubernetesFirstConsecutiveStaticIPOffset_def)
    then show ?thesis
      unfolding b first_address_bytes [OF q] by (simp add: first_master_bytes_def Let_def)
  qed
  have "GetFirstConsecutiveStaticIPAddress m s = Inl (Panic ''index out of range'')" if "k = 32"
    using assms k that by (simp add: GetFirstConsecutiveStaticIPAddress_def)
  then show ?thesis using first k x(4) four by auto
qed

lemma first_bytes_masked:
  assumes "q < 4" and "r < 8" and "length x = 4" and "ip = map2 (AND) x (CIDRMask (8 * q + r) 32)"
  shows "map2 (AND) (first_master_bytes ip q r) (CIDRMask (8 * q + r) 32) = ip \<longleftrightarrow>
    8 * q + r \<le> 24 \<or> 5 AND CIDRMask (8 * q + r) 32 ! 3 = ip ! 3"
proof -
  obtain b0 b1 b2 b3 where b: "x = [b0, b1, b2, b3]" using four_bytes [OF assms(3)] by metis
  have mask: "CIDRMask (8 * q + r) 32 = (let m = NOT (drop_bit r 255) in
    if q = 0 then [m, 0, 0, 0] else if q = 1 then [255, m, 0, 0] else if q = 2 then [255, 255, m, 0] else [255, 255, 255, m])"
    by (rule mask_four [OF assms(1,2)])
  have "(- 256 :: byte) = 0" by simp
  then have none: "b AND - 256 = 0" for b :: byte by (simp only: and_zero_eq)
  show ?thesis
    unfolding assms(4) mask
    using small_cases [OF assms(1)] assms(2)
    by (elim disjE) (auto simp: b first_master_bytes_def Let_def or_and_not and.assoc numeral_3_eq_3 none)
qed

text \<open>
  C24: the address that the first master of an availability set gets by default. It ends in 5 and lies in the
  last block of 256 addresses of its subnet; it is an address of the subnet for every prefix of up to 24 bits, for
  a longer prefix only when the subnet happens to hold the address that ends in 5, and a prefix of 32 bits ends the
  program.\<close>

theorem first_master_address:
  assumes "ParseCIDR s = Some (a, n)" and "length (n_IP n) = 4"
    and "\<not> MasterProfile_IsVirtualMachineScaleSets m" and "Mask_Size (n_Mask n) = (ones, bits)"
  shows "if ones = 32 then GetFirstConsecutiveStaticIPAddress m s = Inl (Panic ''index out of range'')
    else \<exists>ip. GetFirstConsecutiveStaticIPAddress m s = Inr (IP_String ip) \<and> length ip = 4 \<and> ip ! 3 = 5 \<and>
      (Contains n ip \<longleftrightarrow> ones \<le> 24 \<or> 5 AND n_Mask n ! 3 = n_IP n ! 3)"
proof (cases "ones = 32")
  case True
  then show ?thesis using first_address_four [OF assms] by simp
next
  case False
  from first_address_four [OF assms] obtain x where x: "length x = 4" "n_IP n = map2 (AND) x (CIDRMask ones 32)"
    and mask: "n_Mask n = CIDRMask ones 32" and "ones \<le> 32" by auto
  let ?ip = "first_master_bytes (n_IP n) (ones div 8) (ones mod 8)"
  have q: "ones div 8 < 4" "ones mod 8 < 8" using False \<open>ones \<le> 32\<close> by auto
  have len: "length ?ip = 4" "?ip ! 3 = 5" by (simp_all add: first_master_bytes_def Let_def)
  have "Contains n ?ip \<longleftrightarrow> map2 (AND) ?ip (n_Mask n) = n_IP n" by (rule Contains_four [OF assms(1,2) len(1)])
  also have "\<dots> \<longleftrightarrow> ones \<le> 24 \<or> 5 AND n_Mask n ! 3 = n_IP n ! 3"
    using first_bytes_masked [OF q x(1)] x(2) mask by simp
  finally have "Contains n ?ip \<longleftrightarrow> ones \<le> 24 \<or> 5 AND n_Mask n ! 3 = n_IP n ! 3" .
  then show ?thesis using first_address_four [OF assms] False len by auto
qed

lemma last_mask_byte:
  assumes "ones \<le> 24"
  shows "\<exists>x y z. CIDRMask ones 32 = [x, y, z, 0]"
proof (cases "ones = 24")
  case True
  then show ?thesis using mask_four [of 3 0] by (simp add: Let_def)
next
  case False
  then have "ones div 8 = 0 \<or> ones div 8 = 1 \<or> ones div 8 = 2" using assms by linarith
  then show ?thesis using mask_four [of "ones div 8" "ones mod 8"] by (auto simp: Let_def)
qed

lemma Contains_last_byte:
  assumes "ParseCIDR s = Some (a, n)" and "length (n_IP n) = 4" and "n_Mask n = [x, y, z, 0]"
  shows "Contains n [b0, b1, b2, u] = Contains n [b0, b1, b2, v]"
  using assms by (simp add: Contains_four)

definition master_addresses :: "ip \<Rightarrow> nat \<Rightarrow> ip list" where
  "master_addresses ip k = map (\<lambda>i. [ip ! 0, ip ! 1, ip ! 2, ip ! 3 + of_nat i]) [0..<k]"

lemma other_masters_addresses:
  assumes "\<not> MasterProfile_IsVirtualMachineScaleSets m" and "length ip = 4" and "unat (ip ! 3) + nat (mp_Count m) \<le> 256"
  shows "other_masters m ip = tl (master_addresses ip (nat (mp_Count m)))"
proof (rule nth_equalityI)
  show "length (other_masters m ip) = length (tl (master_addresses ip (nat (mp_Count m))))"
    by (simp add: other_masters_def master_addresses_def nat_diff_distrib')
  fix i assume "i < length (other_masters m ip)"
  then have i: "Suc i < nat (mp_Count m)" "i < nat (mp_Count m - 1)" by (simp_all add: other_masters_def)
  obtain b0 b1 b2 b3 where b: "ip = [b0, b1, b2, b3]" using four_bytes [OF assms(2)] by metis
  have "other_masters m ip ! i = PutUint32 (getNewAddr (Uint32 ip) (int (Suc i)) 1)"
    using assms(1) i by (simp add: other_masters_def master_offset_def add.commute)
  also have "\<dots> = [b0, b1, b2, b3 + of_nat (Suc i)]"
    unfolding b by (rule next_addresses) (use assms(3) i b in simp)
  finally show "other_masters m ip ! i = tl (master_addresses ip (nat (mp_Count m))) ! i"
    using i by (simp add: master_addresses_def b nth_tl)
qed

lemma master_addresses_distinct:
  assumes "unat (ip ! 3) + k \<le> 256"
  shows "distinct (master_addresses ip k)"
proof -
  have "unat (ip ! 3 + of_nat i) = unat (ip ! 3) + i" if "i < k" for i
    using assms that by (simp add: unat_word_ariths unat_of_nat)
  then have "inj_on (\<lambda>i. [ip ! 0, ip ! 1, ip ! 2, ip ! 3 + of_nat i]) (set [0..<k])" by (auto intro!: inj_onI) (metis add_left_cancel)
  then show ?thesis by (simp add: master_addresses_def distinct_map)
qed

lemma lb_in_addresses:
  assumes "k \<le> 251" and "ip ! 3 = 5"
  shows "[ip ! 0, ip ! 1, ip ! 2, 15] \<in> set (master_addresses ip k) \<longleftrightarrow> 10 < k"
proof -
  have "5 + of_nat i = (15 :: byte) \<longleftrightarrow> i = 10" if "i < k" for i
  proof -
    have "unat (5 + of_nat i :: byte) = 5 + i" using assms(1) that by (simp add: unat_word_ariths unat_of_nat)
    then show ?thesis by (simp add: word_unat_eq_iff)
  qed
  then show ?thesis using assms(2) by (auto simp: master_addresses_def image_iff)
qed

text \<open>
  C25: the addresses in the certificate of the API server. When the subnet has at most 24 bits of prefix and the
  first address is the default one, the certificate names the address of every master, all of them distinct, the local
  host and the address of the internal load balancer; all but the local host lie in the subnet, and the load balancer
  shares its address with a master only from the eleventh master on.\<close>

theorem certificate_addresses:
  assumes "ParseCIDR s = Some (a, n)" and "length (n_IP n) = 4" and "Mask_Size (n_Mask n) = (ones, bits)"
    and "\<not> MasterProfile_IsVirtualMachineScaleSets m" and "ones \<le> 24" and "1 \<le> mp_Count m" and "mp_Count m \<le> 251"
    and "GetFirstConsecutiveStaticIPAddress m s = Inr (mp_FirstConsecutiveStaticIP m)"
  shows "\<exists>lb masters. master_ips m = Inr (hd masters # [127, 0, 0, 1] # lb # tl masters) \<and>
    int (length masters) = mp_Count m \<and> distinct masters \<and> list_all (Contains n) (lb # masters) \<and>
    (lb \<in> set masters \<longleftrightarrow> 10 < mp_Count m)"
proof -
  define ip where "ip = first_master_bytes (n_IP n) (ones div 8) (ones mod 8)"
  have ip: "length ip = 4" "ip ! 3 = 5" by (simp_all add: ip_def first_master_bytes_def Let_def)
  then obtain b0 b1 b2 where b: "ip = [b0, b1, b2, 5]" using four_bytes [of ip] by metis
  note four = first_address_four [OF assms(1,2,4,3)]
  have "mp_FirstConsecutiveStaticIP m = IP_String ip" and mask: "n_Mask n = CIDRMask ones 32"
    using four assms(5,8) by (auto simp: ip_def)
  then have parsed: "ParseIP (mp_FirstConsecutiveStaticIP m) = Some (As16 ip)" using ParseIP_IP_String [OF ip(1)] by simp
  define k where "k = nat (mp_Count m)"
  have k: "1 \<le> k" "k \<le> 251" "mp_Count m = int k" using assms(6,7) by (simp_all add: k_def)
  let ?masters = "master_addresses ip k" and ?lb = "[b0, b1, b2, 15]"
  have range: "unat (ip ! 3) + k \<le> 256" using ip(2) k(2) by simp
  have "internal_lb_address m ip = ?lb"
    using assms(4) by (simp add: internal_lb_address_def b DefaultInternalLbStaticIPOffset_def)
  moreover have "hd ?masters = ip" using k(1) by (simp add: master_addresses_def b hd_map)
  ultimately have "master_ips m = Inr (hd ?masters # [127, 0, 0, 1] # ?lb # tl ?masters)"
    using parsed other_masters_addresses [OF assms(4) ip(1)] range ip(1) k_def by (auto simp: master_ips_def)
  moreover have "Contains n [b0, b1, b2, u]" for u
  proof -
    have "Contains n ip"
      using Contains_four [OF assms(1,2) ip(1)] four first_bytes_masked [of "ones div 8" "ones mod 8"] assms(5) mask
      by (auto simp: ip_def)
    then show ?thesis using last_mask_byte [OF assms(5)] mask Contains_last_byte [OF assms(1,2)] b by metis
  qed
  then have "list_all (Contains n) (?lb # ?masters)" by (auto simp: list_all_iff master_addresses_def b)
  moreover have "?lb \<in> set ?masters \<longleftrightarrow> 10 < mp_Count m" using lb_in_addresses [of k ip] k ip(2) b by simp
  ultimately show ?thesis
    using master_addresses_distinct [OF range] k(3) by (intro exI [of _ ?lb] exI [of _ ?masters]) (simp add: master_addresses_def)
qed

definition example_subnet :: ip_net where
  "example_subnet = \<lparr>n_IP = [10, 240, 0, 0], n_Mask = [255, 255, 0, 0]\<rparr>"

definition example_masters :: master_profile where
  "example_masters = zero_master_profile\<lparr>mp_Count := 3, mp_FirstConsecutiveStaticIP := ''10.240.255.5''\<rparr>"

lemma example_strings:
  "IPv4_String [10, 240, 255, 5] = ''10.240.255.5''" "IPv4_String [10, 240, 0, 0] = ''10.240.0.0''"
  by (simp_all add: IPv4_String_four utoa.simps digit_char_eval)

lemma example_mask: "CIDRMask 16 32 = [255, 255, 0, 0]"
  using mask_four [of 2 0] by simp

lemma example_subnet_parses: "ParseCIDR ''10.240.0.0/16'' = Some (As16 [10, 240, 0, 0], example_subnet)"
proof -
  have "split_first (CHR ''/'') ''10.240.0.0/16'' = Some (''10.240.0.0'', ''16'')" by simp
  moreover have "parse_addr ''10.240.0.0'' = Some [10, 240, 0, 0]"
    using parse_addr_IPv4_String [of "[10, 240, 0, 0]"] by (simp add: example_strings)
  moreover have "parse_prefix_length ''16'' = Some 16" by (simp add: parse_prefix_length_def is_digit_def digit_val_def)
  moreover have "IP_Mask (As16 [10, 240, 0, 0]) [255, 255, 0, 0] = [10, 240, 0, 0]" by (simp add: IP_Mask_def As16_def v4_in_v6_prefix_def)
  ultimately show ?thesis by (simp add: ParseCIDR_def example_mask example_subnet_def)
qed

lemma example_subnet_mask: "Mask_Size (n_Mask example_subnet) = (16, 32)" "length (n_IP example_subnet) = 4"
  using Mask_Size_CIDRMask [of 32 16] by (simp_all add: example_subnet_def example_mask)

lemma example_not_vmss: "\<not> MasterProfile_IsVirtualMachineScaleSets example_masters"
  by code_simp

lemma example_first_address:
  "GetFirstConsecutiveStaticIPAddress example_masters ''10.240.0.0/16'' = Inr ''10.240.255.5''"
  using first_address_four [OF example_subnet_parses example_subnet_mask(2) example_not_vmss example_subnet_mask(1)]
  by (simp add: first_master_bytes_def example_subnet_def IP_String_four example_strings)

theorem first_master_address_witness:
  "\<exists>ip. GetFirstConsecutiveStaticIPAddress example_masters ''10.240.0.0/16'' = Inr (IP_String ip) \<and> ip ! 3 = 5 \<and> Contains example_subnet ip"
  using first_master_address [OF example_subnet_parses example_subnet_mask(2) example_not_vmss example_subnet_mask(1)] by auto

theorem certificate_addresses_witness:
  "\<exists>lb masters. master_ips example_masters = Inr (hd masters # [127, 0, 0, 1] # lb # tl masters) \<and>
    length masters = 3 \<and> distinct masters \<and> list_all (Contains example_subnet) (lb # masters) \<and> lb \<notin> set masters"
proof -
  have count: "mp_Count example_masters = 3" "mp_FirstConsecutiveStaticIP example_masters = ''10.240.255.5''"
    by (simp_all add: example_masters_def)
  show ?thesis
    using certificate_addresses [OF example_subnet_parses example_subnet_mask(2,1) example_not_vmss]
    by (simp add: count example_first_address)
qed

end
