(* ===== verification/VMSizes.thy ===== *)
theory VMSizes
  imports ClusterModel
begin

section \<open>The VM sizes (pkg/helpers/azure_skus.go, azure_skus_const.go)\<close>

text \<open>
  The table of VM sizes, what the templates print of it, and whether a size supports accelerated networking.
\<close>

subsection \<open>The table\<close>

definition VMSkus_1 :: "(string \<times> bool) list" where
  "VMSkus_1 =
   [(''Standard_A0'', False), (''Standard_A1'', False), (''Standard_A10'', False), (''Standard_A11'', False),
    (''Standard_A1_v2'', False), (''Standard_A2'', False), (''Standard_A2_v2'', False),
    (''Standard_A2m_v2'', False), (''Standard_A3'', False), (''Standard_A4'', False), (''Standard_A4_v2'', False),
    (''Standard_A4m_v2'', False), (''Standard_A5'', False), (''Standard_A6'', False), (''Standard_A7'', False),
    (''Standard_A8'', False), (''Standard_A8_v2'', False), (''Standard_A8m_v2'', False), (''Standard_A9'', False),
    (''Standard_B12ms'', True), (''Standard_B16ms'', True), (''Standard_B1ls'', False), (''Standard_B1ms'', False),
    (''Standard_B1s'', False), (''Standard_B20ms'', True), (''Standard_B2ms'', False), (''Standard_B2s'', False),
    (''Standard_B4ms'', False), (''Standard_B8ms'', False), (''Standard_D1'', False), (''Standard_D11'', False),
    (''Standard_D11_v2'', True), (''Standard_D11_v2_Promo'', True), (''Standard_D12'', False),
    (''Standard_D12_v2'', False)]"

definition VMSkus_2 :: "(string \<times> bool) list" where
  "VMSkus_2 =
   [(''Standard_D12_v2'', True), (''Standard_D12_v2_Promo'', False), (''Standard_D13'', False),
    (''Standard_D13_v2'', True), (''Standard_D13_v2_Promo'', True), (''Standard_D14'', False),
    (''Standard_D14_v2'', True), (''Standard_D14_v2_Promo'', True), (''Standard_D15_v2'', True),
    (''Standard_D16_v3'', True), (''Standard_D16_v4'', True), (''Standard_D16_v5'', True),
    (''Standard_D16a_v3'', False), (''Standard_D16a_v4'', True), (''Standard_D16ads_v5'', True),
    (''Standard_D16as_v3'', False), (''Standard_D16as_v4'', True), (''Standard_D16as_v5'', True),
    (''Standard_D16d_v4'', True), (''Standard_D16d_v5'', True), (''Standard_D16ds_v4'', True),
    (''Standard_D16ds_v5'', True), (''Standard_D16pds_v5'', True), (''Standard_D16plds_v5'', True),
    (''Standard_D16pls_v5'', True), (''Standard_D16ps_v5'', True), (''Standard_D16s_v3'', True),
    (''Standard_D16s_v4'', True), (''Standard_D16s_v5'', True), (''Standard_D1_v2'', False),
    (''Standard_D2'', False), (''Standard_D2_v2'', True), (''Standard_D2_v2_Promo'', True),
    (''Standard_D2_v3'', False), (''Standard_D2_v4'', False), (''Standard_D2_v5'', True),
    (''Standard_D2a_v3'', False)]"

definition VMSkus_3 :: "(string \<times> bool) list" where
  "VMSkus_3 =
   [(''Standard_D2a_v4'', False), (''Standard_D2ads_v5'', True), (''Standard_D2as_v3'', False),
    (''Standard_D2as_v4'', False), (''Standard_D2as_v5'', True), (''Standard_D2d_v4'', False),
    (''Standard_D2d_v5'', True), (''Standard_D2ds_v4'', False), (''Standard_D2ds_v5'', True),
    (''Standard_D2pds_v5'', True), (''Standard_D2plds_v5'', True), (''Standard_D2pls_v5'', True),
    (''Standard_D2ps_v5'', True), (''Standard_D2s_v3'', False), (''Standard_D2s_v4'', False),
    (''Standard_D2s_v5'', True), (''Standard_D3'', False), (''Standard_D32_v3'', True),
    (''Standard_D32_v4'', True), (''Standard_D32_v5'', True), (''Standard_D32a_v3'', False),
    (''Standard_D32a_v4'', True), (''Standard_D32ads_v5'', True), (''Standard_D32as_v3'', False),
    (''Standard_D32as_v4'', True), (''Standard_D32as_v5'', True), (''Standard_D32d_v4'', True),
    (''Standard_D32d_v5'', True), (''Standard_D32ds_v4'', True), (''Standard_D32ds_v5'', True),
    (''Standard_D32pds_v5'', True), (''Standard_D32plds_v5'', True), (''Standard_D32pls_v5'', True),
    (''Standard_D32ps_v5'', True), (''Standard_D32s_v3'', True), (''Standard_D32s_v4'', True),
    (''Standard_D32s_v5'', True)]"

definition VMSkus_4 :: "(string \<times> bool) list" where
  "VMSkus_4 =
   [(''Standard_D3_v2'', True), (''Standard_D3_v2_Promo'', True), (''Standard_D4'', False),
    (''Standard_D48_v3'', True), (''Standard_D48_v4'', True), (''Standard_D48_v5'', True),
    (''Standard_D48a_v3'', False), (''Standard_D48a_v4'', True), (''Standard_D48ads_v5'', True),
    (''Standard_D48as_v3'', False), (''Standard_D48as_v4'', True), (''Standard_D48as_v5'', True),
    (''Standard_D48d_v4'', True), (''Standard_D48d_v5'', True), (''Standard_D48ds_v4'', True),
    (''Standard_D48ds_v5'', True), (''Standard_D48pds_v5'', True), (''Standard_D48plds_v5'', True),
    (''Standard_D48pls_v5'', True), (''Standard_D48ps_v5'', True), (''Standard_D48s_v3'', True),
    (''Standard_D48s_v4'', True), (''Standard_D48s_v5'', True), (''Standard_D4_v2'', True),
    (''Standard_D4_v2_Promo'', True), (''Standard_D4_v3'', True), (''Standard_D4_v4'', True),
    (''Standard_D4_v5'', True), (''Standard_D4a_v3'', False), (''Standard_D4a_v4'', True),
    (''Standard_D4ads_v5'', True), (''Standard_D4as_v3'', False), (''Standard_D4as_v4'', True),
    (''Standard_D4as_v5'', True), (''Standard_D4d_v4'', True), (''Standard_D4d_v5'', True),
    (''Standard_D4ds_v4'', True)]"

definition VMSkus_5 :: "(string \<times> bool) list" where
  "VMSkus_5 =
   [(''Standard_D4ds_v5'', True), (''Standard_D4pds_v5'', True), (''Standard_D4plds_v5'', True),
    (''Standard_D4pls_v5'', True), (''Standard_D4ps_v5'', True), (''Standard_D4s_v3'', True),
    (''Standard_D4s_v4'', True), (''Standard_D4s_v5'', True), (''Standard_D5_v2'', True),
    (''Standard_D5_v2_Promo'', True), (''Standard_D64_v3'', True), (''Standard_D64_v4'', True),
    (''Standard_D64_v5'', True), (''Standard_D64a_v3'', False), (''Standard_D64a_v4'', True),
    (''Standard_D64ads_v5'', True), (''Standard_D64as_v3'', False), (''Standard_D64as_v4'', True),
    (''Standard_D64as_v5'', True), (''Standard_D64d_v4'', True), (''Standard_D64d_v5'', True),
    (''Standard_D64ds_v4'', True), (''Standard_D64ds_v5'', True), (''Standard_D64pds_v5'', True),
    (''Standard_D64plds_v5'', True), (''Standard_D64pls_v5'', True), (''Standard_D64ps_v5'', True),
    (''Standard_D64s_v3'', True), (''Standard_D64s_v4'', True), (''Standard_D64s_v5'', True),
    (''Standard_D8_v3'', True), (''Standard_D8_v4'', True), (''Standard_D8_v5'', True),
    (''Standard_D8a_v3'', False), (''Standard_D8a_v4'', True), (''Standard_D8ads_v5'', True),
    (''Standard_D8as_v3'', False)]"

definition VMSkus_6 :: "(string \<times> bool) list" where
  "VMSkus_6 =
   [(''Standard_D8as_v4'', True), (''Standard_D8as_v5'', True), (''Standard_D8d_v4'', True),
    (''Standard_D8d_v5'', True), (''Standard_D8ds_v4'', True), (''Standard_D8ds_v5'', True),
    (''Standard_D8pds_v5'', True), (''Standard_D8plds_v5'', True), (''Standard_D8pls_v5'', True),
    (''Standard_D8ps_v5'', True), (''Standard_D8s_v3'', True), (''Standard_D8s_v4'', True),
    (''Standard_D8s_v5'', True), (''Standard_D96_v5'', True), (''Standard_D96a_v3'', False),
    (''Standard_D96a_v4'', True), (''Standard_D96ads_v5'', True), (''Standard_D96as_v3'', False),
    (''Standard_D96as_v4'', True), (''Standard_D96as_v5'', True), (''Standard_D96d_v5'', True),
    (''Standard_D96ds_v5'', True), (''Standard_D96s_v5'', True), (''Standard_DC16ads_v5'', True),
    (''Standard_DC16as_v5'', True), (''Standard_DC16ds_v3'', True), (''Standard_DC16s_v3'', True),
    (''Standard_DC1ds_v3'', True), (''Standard_DC1s_v2'', False), (''Standard_DC1s_v3'', True),
    (''Standard_DC24ds_v3'', True), (''Standard_DC24s_v3'', True), (''Standard_DC2ads_v5'', True),
    (''Standard_DC2as_v5'', True), (''Standard_DC2ds_v3'', True), (''Standard_DC2s'', False),
    (''Standard_DC2s_v2'', True)]"

definition VMSkus_7 :: "(string \<times> bool) list" where
  "VMSkus_7 =
   [(''Standard_DC2s_v3'', True), (''Standard_DC32ads_v5'', True), (''Standard_DC32as_v5'', True),
    (''Standard_DC32ds_v3'', True), (''Standard_DC32s_v3'', True), (''Standard_DC48ads_v5'', True),
    (''Standard_DC48as_v5'', True), (''Standard_DC48ds_v3'', True), (''Standard_DC48s_v3'', True),
    (''Standard_DC4ads_v5'', True), (''Standard_DC4as_v5'', True), (''Standard_DC4ds_v3'', True),
    (''Standard_DC4s'', False), (''Standard_DC4s_v2'', True), (''Standard_DC4s_v3'', True),
    (''Standard_DC64ads_v5'', True), (''Standard_DC64as_v5'', True), (''Standard_DC8_v2'', True),
    (''Standard_DC8ads_v5'', True), (''Standard_DC8as_v5'', True), (''Standard_DC8ds_v3'', True),
    (''Standard_DC8s'', False), (''Standard_DC8s_v3'', True), (''Standard_DC96ads_v5'', True),
    (''Standard_DC96as_v5'', True), (''Standard_DS1'', False), (''Standard_DS11'', False),
    (''Standard_DS11-1_v2'', False), (''Standard_DS11_v2'', True), (''Standard_DS11_v2_Promo'', True),
    (''Standard_DS12'', False), (''Standard_DS12-1_v2'', True), (''Standard_DS12-2_v2'', True),
    (''Standard_DS12_v2'', True), (''Standard_DS12_v2_Promo'', True), (''Standard_DS13'', False),
    (''Standard_DS13-2_v2'', True)]"

definition VMSkus_8 :: "(string \<times> bool) list" where
  "VMSkus_8 =
   [(''Standard_DS13-4_v2'', True), (''Standard_DS13_v2'', True), (''Standard_DS13_v2_Promo'', True),
    (''Standard_DS14'', False), (''Standard_DS14-4_v2'', True), (''Standard_DS14-8_v2'', True),
    (''Standard_DS14_v2'', True), (''Standard_DS14_v2_Promo'', True), (''Standard_DS15_v2'', True),
    (''Standard_DS1_v2'', False), (''Standard_DS2'', False), (''Standard_DS2_v2'', True),
    (''Standard_DS2_v2_Promo'', True), (''Standard_DS3'', False), (''Standard_DS3_v2'', True),
    (''Standard_DS3_v2_Promo'', True), (''Standard_DS4'', False), (''Standard_DS4_v2'', True),
    (''Standard_DS4_v2_Promo'', True), (''Standard_DS5_v2'', False), (''Standard_DS5_v2_Promo'', False),
    (''Standard_E104i_v5'', True), (''Standard_E104id_v5'', True), (''Standard_E104ids_v5'', True),
    (''Standard_E104is_v5'', True), (''Standard_E112iads_v5'', True), (''Standard_E112ias_v5'', True),
    (''Standard_E16-4ads_v5'', True), (''Standard_E16-4as_v4'', True), (''Standard_E16-4as_v5'', True),
    (''Standard_E16-4ds_v4'', True), (''Standard_E16-4ds_v5'', True), (''Standard_E16-4s_v3'', True),
    (''Standard_E16-4s_v4'', True), (''Standard_E16-4s_v5'', True), (''Standard_E16-8ads_v5'', True),
    (''Standard_E16-8as_v4'', False)]"

definition VMSkus_9 :: "(string \<times> bool) list" where
  "VMSkus_9 =
   [(''Standard_E16-8as_v5'', True), (''Standard_E16-8ds_v4'', True), (''Standard_E16-8ds_v5'', True),
    (''Standard_E16-8s_v3'', True), (''Standard_E16-8s_v4'', True), (''Standard_E16-8s_v5'', True),
    (''Standard_E16_v3'', True), (''Standard_E16_v4'', True), (''Standard_E16_v5'', True),
    (''Standard_E16a_v3'', False), (''Standard_E16a_v4'', True), (''Standard_E16ads_v5'', True),
    (''Standard_E16as_v3'', False), (''Standard_E16as_v4'', True), (''Standard_E16as_v5'', True),
    (''Standard_E16bds_v5'', True), (''Standard_E16bs_v5'', True), (''Standard_E16d_v4'', True),
    (''Standard_E16d_v5'', True), (''Standard_E16ds_v4'', True), (''Standard_E16ds_v5'', True),
    (''Standard_E16pds_v5'', True), (''Standard_E16ps_v5'', True), (''Standard_E16s_v3'', True),
    (''Standard_E16s_v4'', True), (''Standard_E16s_v5'', True), (''Standard_E20_v3'', True),
    (''Standard_E20_v4'', True), (''Standard_E20_v5'', True), (''Standard_E20a_v4'', True),
    (''Standard_E20ads_v5'', True), (''Standard_E20as_v4'', True), (''Standard_E20as_v5'', True),
    (''Standard_E20d_v4'', True), (''Standard_E20d_v5'', True), (''Standard_E20ds_v4'', True),
    (''Standard_E20ds_v5'', True)]"

definition VMSkus_10 :: "(string \<times> bool) list" where
  "VMSkus_10 =
   [(''Standard_E20pds_v5'', True), (''Standard_E20ps_v5'', True), (''Standard_E20s_v3'', True),
    (''Standard_E20s_v4'', True), (''Standard_E20s_v5'', True), (''Standard_E2_v3'', False),
    (''Standard_E2_v4'', False), (''Standard_E2_v5'', True), (''Standard_E2a_v3'', False),
    (''Standard_E2a_v4'', False), (''Standard_E2ads_v5'', True), (''Standard_E2as_v3'', False),
    (''Standard_E2as_v4'', False), (''Standard_E2as_v5'', True), (''Standard_E2bds_v5'', True),
    (''Standard_E2bs_v5'', True), (''Standard_E2d_v4'', False), (''Standard_E2d_v5'', True),
    (''Standard_E2ds_v4'', False), (''Standard_E2ds_v5'', True), (''Standard_E2pds_v5'', True),
    (''Standard_E2ps_v5'', True), (''Standard_E2s_v3'', False), (''Standard_E2s_v4'', False),
    (''Standard_E2s_v5'', True), (''Standard_E32-16ads_v5'', True), (''Standard_E32-16as_v4'', True),
    (''Standard_E32-16as_v5'', True), (''Standard_E32-16ds_v4'', True), (''Standard_E32-16ds_v5'', True),
    (''Standard_E32-16s_v3'', True), (''Standard_E32-16s_v4'', True), (''Standard_E32-16s_v5'', True),
    (''Standard_E32-8ads_v5'', True), (''Standard_E32-8as_v4'', True), (''Standard_E32-8as_v5'', True),
    (''Standard_E32-8ds_v4'', True)]"

definition VMSkus_11 :: "(string \<times> bool) list" where
  "VMSkus_11 =
   [(''Standard_E32-8ds_v5'', True), (''Standard_E32-8s_v3'', True), (''Standard_E32-8s_v4'', True),
    (''Standard_E32-8s_v5'', True), (''Standard_E32_v3'', True), (''Standard_E32_v4'', True),
    (''Standard_E32_v5'', True), (''Standard_E32a_v3'', False), (''Standard_E32a_v4'', True),
    (''Standard_E32ads_v5'', True), (''Standard_E32as_v3'', False), (''Standard_E32as_v4'', True),
    (''Standard_E32as_v5'', True), (''Standard_E32bds_v5'', True), (''Standard_E32bs_v5'', True),
    (''Standard_E32d_v4'', True), (''Standard_E32d_v5'', True), (''Standard_E32ds_v4'', True),
    (''Standard_E32ds_v5'', True), (''Standard_E32pds_v5'', True), (''Standard_E32ps_v5'', True),
    (''Standard_E32s_v3'', True), (''Standard_E32s_v4'', True), (''Standard_E32s_v5'', True),
    (''Standard_E4-2ads_v5'', True), (''Standard_E4-2as_v4'', True), (''Standard_E4-2as_v5'', True),
    (''Standard_E4-2ds_v4'', True), (''Standard_E4-2ds_v5'', True), (''Standard_E4-2s_v3'', True),
    (''Standard_E4-2s_v4'', True), (''Standard_E4-2s_v5'', True), (''Standard_E48_v3'', True),
    (''Standard_E48_v4'', True), (''Standard_E48_v5'', True), (''Standard_E48a_v3'', False),
    (''Standard_E48a_v4'', True)]"

definition VMSkus_12 :: "(string \<times> bool) list" where
  "VMSkus_12 =
   [(''Standard_E48ads_v5'', True), (''Standard_E48as_v3'', False), (''Standard_E48as_v4'', True),
    (''Standard_E48as_v5'', True), (''Standard_E48bds_v5'', True), (''Standard_E48bs_v5'', True),
    (''Standard_E48d_v4'', True), (''Standard_E48d_v5'', True), (''Standard_E48ds_v4'', True),
    (''Standard_E48ds_v5'', True), (''Standard_E48s_v3'', True), (''Standard_E48s_v4'', True),
    (''Standard_E48s_v5'', True), (''Standard_E4_v3'', True), (''Standard_E4_v4'', True),
    (''Standard_E4_v5'', True), (''Standard_E4a_v3'', False), (''Standard_E4a_v4'', True),
    (''Standard_E4ads_v5'', True), (''Standard_E4as_v3'', False), (''Standard_E4as_v4'', True),
    (''Standard_E4as_v5'', True), (''Standard_E4bds_v5'', True), (''Standard_E4bs_v5'', True),
    (''Standard_E4d_v4'', True), (''Standard_E4d_v5'', True), (''Standard_E4ds_v4'', True),
    (''Standard_E4ds_v5'', True), (''Standard_E4pds_v5'', True), (''Standard_E4ps_v5'', True),
    (''Standard_E4s_v3'', True), (''Standard_E4s_v4'', True), (''Standard_E4s_v5'', True),
    (''Standard_E64-16ads_v5'', True), (''Standard_E64-16as_v4'', True), (''Standard_E64-16as_v5'', True),
    (''Standard_E64-16ds_v4'', True)]"

definition VMSkus_13 :: "(string \<times> bool) list" where
  "VMSkus_13 =
   [(''Standard_E64-16ds_v5'', True), (''Standard_E64-16s_v3'', True), (''Standard_E64-16s_v4'', True),
    (''Standard_E64-16s_v5'', True), (''Standard_E64-32ads_v5'', True), (''Standard_E64-32as_v4'', True),
    (''Standard_E64-32as_v5'', True), (''Standard_E64-32ds_v4'', True), (''Standard_E64-32ds_v5'', True),
    (''Standard_E64-32s_v3'', True), (''Standard_E64-32s_v4'', True), (''Standard_E64-32s_v5'', True),
    (''Standard_E64_v3'', True), (''Standard_E64_v4'', True), (''Standard_E64_v5'', True),
    (''Standard_E64a_v3'', False), (''Standard_E64a_v4'', True), (''Standard_E64ads_v5'', True),
    (''Standard_E64as_v3'', False), (''Standard_E64as_v4'', True), (''Standard_E64as_v5'', True),
    (''Standard_E64bds_v5'', True), (''Standard_E64bs_v5'', True), (''Standard_E64d_v4'', True),
    (''Standard_E64d_v5'', True), (''Standard_E64ds_v4'', True), (''Standard_E64ds_v5'', True),
    (''Standard_E64i_v3'', True), (''Standard_E64is_v3'', True), (''Standard_E64s_v3'', True),
    (''Standard_E64s_v4'', True), (''Standard_E64s_v5'', True), (''Standard_E8-2ads_v5'', True),
    (''Standard_E8-2as_v4'', True), (''Standard_E8-2as_v5'', True), (''Standard_E8-2ds_v4'', True),
    (''Standard_E8-2ds_v5'', True)]"

definition VMSkus_14 :: "(string \<times> bool) list" where
  "VMSkus_14 =
   [(''Standard_E8-2s_v3'', True), (''Standard_E8-2s_v4'', True), (''Standard_E8-2s_v5'', True),
    (''Standard_E8-4ads_v5'', True), (''Standard_E8-4as_v4'', True), (''Standard_E8-4as_v5'', True),
    (''Standard_E8-4ds_v4'', True), (''Standard_E8-4ds_v5'', True), (''Standard_E8-4s_v3'', True),
    (''Standard_E8-4s_v4'', True), (''Standard_E8-4s_v5'', True), (''Standard_E80ids_v4'', True),
    (''Standard_E80is_v4'', True), (''Standard_E8_v3'', True), (''Standard_E8_v4'', True),
    (''Standard_E8_v5'', True), (''Standard_E8a_v3'', False), (''Standard_E8a_v4'', True),
    (''Standard_E8ads_v5'', True), (''Standard_E8as_v3'', False), (''Standard_E8as_v4'', True),
    (''Standard_E8as_v5'', True), (''Standard_E8bds_v5'', True), (''Standard_E8bs_v5'', True),
    (''Standard_E8d_v4'', True), (''Standard_E8d_v5'', True), (''Standard_E8ds_v4'', True),
    (''Standard_E8ds_v5'', True), (''Standard_E8pds_v5'', True), (''Standard_E8ps_v5'', True),
    (''Standard_E8s_v3'', True), (''Standard_E8s_v4'', True), (''Standard_E8s_v5'', True),
    (''Standard_E96-24ads_v5'', True), (''Standard_E96-24as_v4'', True), (''Standard_E96-24as_v5'', True),
    (''Standard_E96-24ds_v5'', True)]"

definition VMSkus_15 :: "(string \<times> bool) list" where
  "VMSkus_15 =
   [(''Standard_E96-24s_v5'', True), (''Standard_E96-48ads_v5'', True), (''Standard_E96-48as_v4'', True),
    (''Standard_E96-48as_v5'', True), (''Standard_E96-48ds_v5'', True), (''Standard_E96-48s_v5'', True),
    (''Standard_E96_v5'', True), (''Standard_E96a_v4'', True), (''Standard_E96ads_v5'', True),
    (''Standard_E96as_v4'', True), (''Standard_E96as_v5'', True), (''Standard_E96d_v5'', True),
    (''Standard_E96ds_v5'', True), (''Standard_E96ias_v4'', True), (''Standard_E96s_v5'', True),
    (''Standard_EC16ads_v5'', True), (''Standard_EC16as_v5'', True), (''Standard_EC20ads_v5'', True),
    (''Standard_EC20as_v5'', True), (''Standard_EC2ads_v5'', True), (''Standard_EC2as_v5'', True),
    (''Standard_EC32ads_v5'', True), (''Standard_EC32as_v5'', True), (''Standard_EC48ads_v5'', True),
    (''Standard_EC48as_v5'', True), (''Standard_EC4ads_v5'', True), (''Standard_EC4as_v5'', True),
    (''Standard_EC64ads_v5'', True), (''Standard_EC64as_v5'', True), (''Standard_EC8ads_v5'', True),
    (''Standard_EC8as_v5'', True), (''Standard_EC96ads_v5'', True), (''Standard_EC96as_v5'', True),
    (''Standard_EC96iads_v5'', True), (''Standard_EC96ias_v5'', True), (''Standard_F1'', False),
    (''Standard_F16'', True)]"

definition VMSkus_16 :: "(string \<times> bool) list" where
  "VMSkus_16 =
   [(''Standard_F16s'', True), (''Standard_F16s_v2'', True), (''Standard_F1s'', False), (''Standard_F2'', True),
    (''Standard_F2s'', True), (''Standard_F2s_v2'', False), (''Standard_F32s_v2'', True), (''Standard_F4'', True),
    (''Standard_F48s_v2'', True), (''Standard_F4s'', True), (''Standard_F4s_v2'', True),
    (''Standard_F64s_v2'', True), (''Standard_F72s_v2'', True), (''Standard_F8'', True), (''Standard_F8s'', True),
    (''Standard_F8s_v2'', True), (''Standard_FX12mds'', True), (''Standard_FX24mds'', True),
    (''Standard_FX36mds'', True), (''Standard_FX48mds'', True), (''Standard_FX4mds'', True),
    (''Standard_G1'', False), (''Standard_G2'', False), (''Standard_G3'', False), (''Standard_G4'', False),
    (''Standard_G5'', False), (''Standard_GS1'', False), (''Standard_GS2'', False), (''Standard_GS3'', False),
    (''Standard_GS4'', False), (''Standard_GS4-4'', False), (''Standard_GS4-8'', False), (''Standard_GS5'', False),
    (''Standard_GS5-16'', False), (''Standard_GS5-8'', False), (''Standard_H16'', False),
    (''Standard_H16_Promo'', False)]"

definition VMSkus_17 :: "(string \<times> bool) list" where
  "VMSkus_17 =
   [(''Standard_H16m'', False), (''Standard_H16m_Promo'', False), (''Standard_H16mr'', False),
    (''Standard_H16mr_Promo'', False), (''Standard_H16r'', False), (''Standard_H16r_Promo'', False),
    (''Standard_H8'', False), (''Standard_H8_Promo'', False), (''Standard_H8m'', False),
    (''Standard_H8m_Promo'', False), (''Standard_HB120-16rs_v2'', True), (''Standard_HB120-16rs_v3'', True),
    (''Standard_HB120-32rs_v2'', True), (''Standard_HB120-32rs_v3'', True), (''Standard_HB120-64rs_v2'', True),
    (''Standard_HB120-64rs_v3'', True), (''Standard_HB120-96rs_v2'', True), (''Standard_HB120-96rs_v3'', True),
    (''Standard_HB120rs_v2'', False), (''Standard_HB120rs_v3'', True), (''Standard_HB60-15rs'', True),
    (''Standard_HB60-30rs'', True), (''Standard_HB60-45rs'', True), (''Standard_HB60rs'', False),
    (''Standard_HC44-16rs'', True), (''Standard_HC44-32rs'', True), (''Standard_HC44rs'', False),
    (''Standard_L16as_v3'', True), (''Standard_L16s'', False), (''Standard_L16s_v2'', True),
    (''Standard_L16s_v3'', True), (''Standard_L32as_v3'', True), (''Standard_L32s'', False),
    (''Standard_L32s_v2'', True), (''Standard_L32s_v3'', True), (''Standard_L48as_v3'', True),
    (''Standard_L48s_v2'', True)]"

definition VMSkus_18 :: "(string \<times> bool) list" where
  "VMSkus_18 =
   [(''Standard_L48s_v3'', True), (''Standard_L4s'', False), (''Standard_L64as_v3'', True),
    (''Standard_L64s_v2'', True), (''Standard_L64s_v3'', True), (''Standard_L80as_v3'', True),
    (''Standard_L80s_v2'', True), (''Standard_L80s_v3'', True), (''Standard_L8as_v3'', True),
    (''Standard_L8s'', False), (''Standard_L8s_v2'', True), (''Standard_L8s_v3'', True), (''Standard_LRS'', False),
    (''Standard_M128'', True), (''Standard_M128-32ms'', True), (''Standard_M128-64ms'', True),
    (''Standard_M128dms_v2'', True), (''Standard_M128ds_v2'', True), (''Standard_M128m'', True),
    (''Standard_M128ms'', True), (''Standard_M128ms_v2'', True), (''Standard_M128s'', True),
    (''Standard_M128s_v2'', True), (''Standard_M16-4ms'', True), (''Standard_M16-8ms'', True),
    (''Standard_M16ms'', True), (''Standard_M192idms_v2'', True), (''Standard_M192ids_v2'', True),
    (''Standard_M192ims_v2'', True), (''Standard_M192is_v2'', True), (''Standard_M192ms_v2'', True),
    (''Standard_M192s_v2'', True), (''Standard_M208ms_v2'', True), (''Standard_M208s_v2'', True),
    (''Standard_M24ms_v2'', True), (''Standard_M24s_v2'', True), (''Standard_M32-16ms'', True)]"

definition VMSkus_19 :: "(string \<times> bool) list" where
  "VMSkus_19 =
   [(''Standard_M32-8ms'', True), (''Standard_M32dms_v2'', True), (''Standard_M32ls'', True),
    (''Standard_M32ms'', True), (''Standard_M32ms_v2'', True), (''Standard_M32ts'', True),
    (''Standard_M416-208ms_v2'', True), (''Standard_M416-208s_v2'', True), (''Standard_M416ms_v2'', True),
    (''Standard_M416s_v2'', True), (''Standard_M48ms_v2'', True), (''Standard_M48s_v2'', True),
    (''Standard_M64'', True), (''Standard_M64-16ms'', True), (''Standard_M64-32ms'', True),
    (''Standard_M64dms_v2'', True), (''Standard_M64ds_v2'', True), (''Standard_M64ls'', True),
    (''Standard_M64m'', True), (''Standard_M64ms'', True), (''Standard_M64ms_v2'', True),
    (''Standard_M64s'', False), (''Standard_M64s_v2'', True), (''Standard_M8-2ms'', False),
    (''Standard_M8-4ms'', False), (''Standard_M832ixs'', True), (''Standard_M8ms'', True),
    (''Standard_M96ms_v2'', True), (''Standard_M96s_v2'', True), (''Standard_NC12'', False),
    (''Standard_NC12_Promo'', False), (''Standard_NC12s_v2'', False), (''Standard_NC12s_v3'', False),
    (''Standard_NC16ads_A10_v4'', True), (''Standard_NC16as_T4_v3'', True), (''Standard_NC24'', False),
    (''Standard_NC24_Promo'', False)]"

definition VMSkus_20 :: "(string \<times> bool) list" where
  "VMSkus_20 =
   [(''Standard_NC24ads_A100_v4'', True), (''Standard_NC24r'', False), (''Standard_NC24r_Promo'', False),
    (''Standard_NC24rs_v2'', False), (''Standard_NC24rs_v3'', False), (''Standard_NC24s_v2'', False),
    (''Standard_NC24s_v3'', False), (''Standard_NC32ads_A10_v4'', True), (''Standard_NC48ads_A100_v4'', True),
    (''Standard_NC4as_T4_v3'', True), (''Standard_NC6'', False), (''Standard_NC64as_T4_v3'', True),
    (''Standard_NC6_Promo'', False), (''Standard_NC6s_v2'', False), (''Standard_NC6s_v3'', False),
    (''Standard_NC8ads_A10_v4'', True), (''Standard_NC8as_T4_v3'', True), (''Standard_NC96ads_A100_v4'', True),
    (''Standard_ND12s'', False), (''Standard_ND24rs'', False), (''Standard_ND24s'', False),
    (''Standard_ND40rs_v2'', False), (''Standard_ND40s_v3'', True), (''Standard_ND6s'', False),
    (''Standard_ND96amsr_A100_v4'', True), (''Standard_ND96asr_v4'', True), (''Standard_NP10s'', False),
    (''Standard_NP20s'', False), (''Standard_NP40s'', False), (''Standard_NV12'', False),
    (''Standard_NV12_Promo'', False), (''Standard_NV12ads_A10_v5'', True), (''Standard_NV12s_v2'', False),
    (''Standard_NV12s_v3'', False), (''Standard_NV16as_v4'', False), (''Standard_NV18ads_A10_v5'', True),
    (''Standard_NV24'', False)]"

definition VMSkus_21 :: "(string \<times> bool) list" where
  "VMSkus_21 =
   [(''Standard_NV24_Promo'', False), (''Standard_NV24s_v2'', False), (''Standard_NV24s_v3'', False),
    (''Standard_NV32as_v4'', False), (''Standard_NV36adms_A10_v5'', True), (''Standard_NV36ads_A10_v5'', True),
    (''Standard_NV48s_v3'', False), (''Standard_NV4as_v4'', False), (''Standard_NV6'', False),
    (''Standard_NV6_Promo'', False), (''Standard_NV6ads_A10_v5'', True), (''Standard_NV6s_v2'', False),
    (''Standard_NV72ads_A10_v5'', True), (''Standard_NV8as_v4'', False), (''Standard_PB12s'', False),
    (''Standard_PB24s'', False), (''Standard_PB6s'', False), (''Standard_ZRS'', False)]"

definition VMSkus :: "(string \<times> bool) list" where
  "VMSkus = VMSkus_1 @ VMSkus_2 @ VMSkus_3 @ VMSkus_4 @ VMSkus_5 @ VMSkus_6 @ VMSkus_7 @ VMSkus_8 @ VMSkus_9 @ VMSkus_10 @
     VMSkus_11 @ VMSkus_12 @ VMSkus_13 @ VMSkus_14 @ VMSkus_15 @ VMSkus_16 @ VMSkus_17 @ VMSkus_18 @ VMSkus_19 @ VMSkus_20 @ VMSkus_21"

subsection \<open>What the code reads in it\<close>

definition newline :: string where "newline = [CHR 0x0A]"

definition in_quotes :: "string \<Rightarrow> string" where
  "in_quotes s = CHR 0x22 # s @ [CHR 0x22]"

definition AcceleratedNetworkingSupported :: "string \<Rightarrow> bool" where
  "AcceleratedNetworkingSupported sku =
     (case find (\<lambda>s. fst s = trim_suffix sku ''_Promo'') VMSkus of Some s \<Rightarrow> snd s | None \<Rightarrow> False)"

definition GetStorageAccountType :: "string \<Rightarrow> string result" where
  "GetStorageAccountType sizeName = (case split_on (CHR ''_'') sizeName of
       _ # capability # _ \<Rightarrow> Inr (if contains (to_lower capability) ''s'' then ''Premium_LRS'' else ''Standard_LRS'')
     | _ \<Rightarrow> Inl (Err (''Invalid sizeName: '' @ sizeName)))"

text \<open>The loops print a comma after every entry but the last.\<close>

fun print_entries :: "(string \<Rightarrow> string) \<Rightarrow> string list \<Rightarrow> string" where
  "print_entries f [] = ''''"
| "print_entries f [n] = f n @ newline"
| "print_entries f (n # ns) = f n @ '','' @ newline @ print_entries f ns"

definition GetKubernetesAllowedVMSKUs :: string where
  "GetKubernetesAllowedVMSKUs =
     ''      '' @ in_quotes ''allowedValues'' @ '': ['' @ newline @
     print_entries in_quotes (map fst VMSkus) @ ''    ],'' @ newline"

definition size_map_entry :: "string \<Rightarrow> string" where
  "size_map_entry name =
     ''    '' @ in_quotes name @ '': {'' @ newline @ ''      '' @ in_quotes ''storageAccountType'' @ '': '' @
     in_quotes (case GetStorageAccountType name of Inr t \<Rightarrow> t | Inl (Err msg) \<Rightarrow> msg | Inl (Panic msg) \<Rightarrow> msg) @
     newline @ ''    }''"

definition GetSizeMap :: string where
  "GetSizeMap =
     ''    '' @ in_quotes ''vmSizesMap'' @ '': {'' @ newline @
     print_entries size_map_entry (map fst VMSkus) @ ''   }'' @ newline @ ''  ''"

subsection \<open>The lookup\<close>

text \<open>
  The names of the table are in ascending order of their bytes, except that one size is listed twice. The order is
  checked between neighbours.
\<close>

fun byte_less :: "char \<Rightarrow> char \<Rightarrow> bool" where
  "byte_less (Char a0 a1 a2 a3 a4 a5 a6 a7) (Char b0 b1 b2 b3 b4 b5 b6 b7) =
     (if a7 \<noteq> b7 then b7 else if a6 \<noteq> b6 then b6 else if a5 \<noteq> b5 then b5 else if a4 \<noteq> b4 then b4
      else if a3 \<noteq> b3 then b3 else if a2 \<noteq> b2 then b2 else if a1 \<noteq> b1 then b1 else \<not> a0 \<and> b0)"

fun bytes_less :: "string \<Rightarrow> string \<Rightarrow> bool" where
  "bytes_less s [] = False"
| "bytes_less [] (d # t) = True"
| "bytes_less (c # s) (d # t) = (if c = d then bytes_less s t else byte_less c d)"

text \<open>A path goes up from one name to the name of the last entry.\<close>

fun path :: "string \<Rightarrow> (string \<times> 'a) list \<Rightarrow> string \<Rightarrow> bool" where
  "path m [] n = (m = n)"
| "path m ((k, a) # s) n = (bytes_less m k \<and> path k s n)"

lemma byte_less_trans: "byte_less c d \<Longrightarrow> byte_less d e \<Longrightarrow> byte_less c e"
  by (cases c; cases d; cases e) (auto split: if_splits)

lemma byte_less_irrefl: "\<not> byte_less c c"
  by (cases c) auto

lemma bytes_less_trans: "bytes_less s t \<Longrightarrow> bytes_less t u \<Longrightarrow> bytes_less s u"
proof (induction s t arbitrary: u rule: bytes_less.induct)
  case (2 d t)
  then show ?case by (cases u) auto
next
  case (3 c s d t)
  then show ?case
    by (cases u) (auto simp: byte_less_irrefl split: if_splits dest: byte_less_trans)
qed simp

lemma bytes_less_irrefl: "\<not> bytes_less s s"
  by (induction s) auto

lemma path_append: "path m xs n \<Longrightarrow> path n ys k \<Longrightarrow> path m (xs @ ys) k"
  by (induction m xs n rule: path.induct) auto

lemma path_below: "path m xs n \<Longrightarrow> s \<in> set xs \<Longrightarrow> bytes_less m (fst s)"
  by (induction m xs n rule: path.induct) (auto intro: bytes_less_trans)

lemma path_distinct: "path m xs n \<Longrightarrow> distinct (map fst xs)"
proof (induction m xs n rule: path.induct)
  case (2 m k a s n)
  then show ?case using path_below [of k s n] bytes_less_irrefl by fastforce
qed simp

lemma path_end: "path m xs n \<Longrightarrow> xs = [] \<or> n \<in> fst ` set xs"
proof (induction m xs n rule: path.induct)
  case (2 m k a s n)
  then show ?case by (cases s) auto
qed simp

lemma path_1: "path '''' (VMSkus_1) ''Standard_D12_v2''"
  by code_simp

lemma path_2: "path ''Standard_D12_v2'' (tl VMSkus_2) ''Standard_D2a_v3''"
  by code_simp

lemma path_3: "path ''Standard_D2a_v3'' (VMSkus_3) ''Standard_D32s_v5''"
  by code_simp

lemma path_4: "path ''Standard_D32s_v5'' (VMSkus_4) ''Standard_D4ds_v4''"
  by code_simp

lemma path_5: "path ''Standard_D4ds_v4'' (VMSkus_5) ''Standard_D8as_v3''"
  by code_simp

lemma path_6: "path ''Standard_D8as_v3'' (VMSkus_6) ''Standard_DC2s_v2''"
  by code_simp

lemma path_7: "path ''Standard_DC2s_v2'' (VMSkus_7) ''Standard_DS13-2_v2''"
  by code_simp

lemma path_8: "path ''Standard_DS13-2_v2'' (VMSkus_8) ''Standard_E16-8as_v4''"
  by code_simp

lemma path_9: "path ''Standard_E16-8as_v4'' (VMSkus_9) ''Standard_E20ds_v5''"
  by code_simp

lemma path_10: "path ''Standard_E20ds_v5'' (VMSkus_10) ''Standard_E32-8ds_v4''"
  by code_simp

lemma path_11: "path ''Standard_E32-8ds_v4'' (VMSkus_11) ''Standard_E48a_v4''"
  by code_simp

lemma path_12: "path ''Standard_E48a_v4'' (VMSkus_12) ''Standard_E64-16ds_v4''"
  by code_simp

lemma path_13: "path ''Standard_E64-16ds_v4'' (VMSkus_13) ''Standard_E8-2ds_v5''"
  by code_simp

lemma path_14: "path ''Standard_E8-2ds_v5'' (VMSkus_14) ''Standard_E96-24ds_v5''"
  by code_simp

lemma path_15: "path ''Standard_E96-24ds_v5'' (VMSkus_15) ''Standard_F16''"
  by code_simp

lemma path_16: "path ''Standard_F16'' (VMSkus_16) ''Standard_H16_Promo''"
  by code_simp

lemma path_17: "path ''Standard_H16_Promo'' (VMSkus_17) ''Standard_L48s_v2''"
  by code_simp

lemma path_18: "path ''Standard_L48s_v2'' (VMSkus_18) ''Standard_M32-16ms''"
  by code_simp

lemma path_19: "path ''Standard_M32-16ms'' (VMSkus_19) ''Standard_NC24_Promo''"
  by code_simp

lemma path_20: "path ''Standard_NC24_Promo'' (VMSkus_20) ''Standard_NV24''"
  by code_simp

lemma path_21: "path ''Standard_NV24'' (VMSkus_21) ''Standard_ZRS''"
  by code_simp

lemmas paths =
  path_1 path_2 path_3 path_4 path_5 path_6 path_7 path_8 path_9 path_10 path_11 path_12
  path_13 path_14 path_15 path_16 path_17 path_18 path_19 path_20 path_21

definition first_entries :: "(string \<times> bool) list" where
  "first_entries = VMSkus_1 @ tl VMSkus_2 @ VMSkus_3 @ VMSkus_4 @ VMSkus_5 @ VMSkus_6 @ VMSkus_7 @ VMSkus_8 @ VMSkus_9 @ VMSkus_10 @
     VMSkus_11 @ VMSkus_12 @ VMSkus_13 @ VMSkus_14 @ VMSkus_15 @ VMSkus_16 @ VMSkus_17 @ VMSkus_18 @ VMSkus_19 @ VMSkus_20 @ VMSkus_21"

lemma first_entries_path: "path '''' first_entries ''Standard_ZRS''"
  unfolding first_entries_def by (rule paths path_append)+

text \<open>One size is listed a second time; its second entry contradicts the first.\<close>

definition second_entry :: "string \<times> bool" where
  "second_entry = (''Standard_D12_v2'', True)"

lemma table_parts: "\<exists>rest. VMSkus = VMSkus_1 @ second_entry # rest \<and> first_entries = VMSkus_1 @ rest"
proof -
  have "VMSkus_2 = second_entry # tl VMSkus_2" by (simp add: VMSkus_2_def second_entry_def)
  then show ?thesis unfolding VMSkus_def first_entries_def by (metis append_Cons append_assoc)
qed

lemma find_append: "find P (xs @ ys) = (case find P xs of None \<Rightarrow> find P ys | Some x \<Rightarrow> Some x)"
  by (induction xs) auto

lemma find_fst: "find (\<lambda>s. fst s = n) xs = Some s \<Longrightarrow> fst s = n"
  by (induction xs) (auto split: if_splits)

lemma find_unique: "distinct (map fst xs) \<Longrightarrow> find (\<lambda>s. fst s = n) xs = Some (n, a) \<longleftrightarrow> (n, a) \<in> set xs"
  by (induction xs) force+

lemma second_entry_first: "second_entry \<notin> set VMSkus_1" "''Standard_D12_v2'' \<in> fst ` set VMSkus_1"
proof -
  show "''Standard_D12_v2'' \<in> fst ` set VMSkus_1" using path_end [OF path_1] by (simp add: VMSkus_1_def)
  show "second_entry \<notin> set VMSkus_1" by (simp add: VMSkus_1_def second_entry_def)
qed

lemma find_first_entries: "find (\<lambda>s. fst s = n) VMSkus = find (\<lambda>s. fst s = n) first_entries"
proof -
  obtain rest where rest: "VMSkus = VMSkus_1 @ second_entry # rest" "first_entries = VMSkus_1 @ rest" using table_parts by blast
  have "find (\<lambda>s. fst s = n) VMSkus_1 \<noteq> None" if "n = fst second_entry"
    using second_entry_first(2) by (auto simp: that find_None_iff second_entry_def)
  then show ?thesis by (auto simp: rest find_append split: option.split)
qed

lemma second_entry_not_first: "(''Standard_D12_v2'', True) \<notin> set first_entries"
proof
  assume "(''Standard_D12_v2'', True) \<in> set first_entries"
  moreover obtain b where "(''Standard_D12_v2'', b) \<in> set VMSkus_1" using second_entry_first(2) by force
  moreover have "set VMSkus_1 \<subseteq> set first_entries" by (simp add: first_entries_def)
  ultimately have "b = True" using eq_key_imp_eq_value [OF path_distinct [OF first_entries_path]] by auto
  then show False using \<open>(''Standard_D12_v2'', b) \<in> set VMSkus_1\<close> second_entry_first(1) by (simp add: second_entry_def)
qed

text \<open>
  Accelerated networking is supported exactly by the sizes that the table marks so, a promotional size counting as
  the size that it offers; except \<open>Standard_D12_v2\<close>, which the table lists twice and marks only the second time.\<close>

theorem accelerated_networking_table:
  "AcceleratedNetworkingSupported sku \<longleftrightarrow>
     (trim_suffix sku ''_Promo'', True) \<in> set VMSkus \<and> trim_suffix sku ''_Promo'' \<noteq> ''Standard_D12_v2''"
proof -
  let ?n = "trim_suffix sku ''_Promo''"
  have "AcceleratedNetworkingSupported sku \<longleftrightarrow> find (\<lambda>s. fst s = ?n) VMSkus = Some (?n, True)"
    by (auto simp: AcceleratedNetworkingSupported_def dest: find_fst split: option.split)
  also have "\<dots> \<longleftrightarrow> (?n, True) \<in> set first_entries"
    unfolding find_first_entries by (rule find_unique [OF path_distinct [OF first_entries_path]])
  also have "\<dots> \<longleftrightarrow> (?n, True) \<in> set VMSkus \<and> ?n \<noteq> ''Standard_D12_v2''"
  proof -
    obtain rest where rest: "VMSkus = VMSkus_1 @ second_entry # rest" "first_entries = VMSkus_1 @ rest" using table_parts by blast
    have "set VMSkus = insert second_entry (set first_entries)" by (auto simp: rest)
    then show ?thesis using second_entry_not_first by (auto simp: second_entry_def)
  qed
  finally show ?thesis .
qed

end
