(* ===== verification/ProfileDefaults.thy ===== *)
theory ProfileDefaults
  imports VMNames MasterAddresses CloudSpecs VMSizes
begin

section \<open>Defaults of the profiles (pkg/api/defaults.go)\<close>

text \<open>
  The functions of defaults.go that fill in the master, agent pool, Linux, Windows and telemetry profiles, the
  storage profiles and the extensions. The caching types are constants of the Azure SDK, which the code names as
  \<open>compute.CachingTypesReadWrite\<close> and \<open>compute.CachingTypesReadOnly\<close>; they are the fields of a record.
\<close>

record caching_types =
  CachingTypesReadWrite :: string
  CachingTypesReadOnly :: string

text \<open>Many assignments are made only when a pointer is nil.\<close>

definition if_nil :: "'a option \<Rightarrow> 'a \<Rightarrow> 'a option" where
  "if_nil x d = (case x of None \<Rightarrow> Some d | Some _ \<Rightarrow> x)"

subsection \<open>Masters\<close>

definition setMasterProfileDefaults :: "caching_types \<Rightarrow> properties \<Rightarrow> properties result" where
  "setMasterProfileDefaults ct p =
     bindR (deref (p_MasterProfile p)) (\<lambda>m.
     let m = m\<lparr>mp_AvailabilityProfile := EnsureString (mp_AvailabilityProfile m)
               (if IsAzureStackCloud p then DefaultAzureStackAvailabilityProfile else AvailabilitySet)\<rparr>;
         vmss = MasterProfile_IsVirtualMachineScaleSets m;
         m = (if vmss then m\<lparr>mp_SinglePlacementGroup := if_nil (mp_SinglePlacementGroup m) DefaultSinglePlacementGroup\<rparr> else m)
     in bindR (if MasterProfile_IsCustomVNET m \<and> vmss then GetFirstConsecutiveStaticIPAddress m (mp_VnetCidr m)
               else Inr (mp_FirstConsecutiveStaticIP m)) (\<lambda>ip.
        Inr (p\<lparr>p_MasterProfile := Some (m\<lparr>mp_FirstConsecutiveStaticIP := ip,
          mp_HTTPSourceAddressPrefix := EnsureString (mp_HTTPSourceAddressPrefix m) ''*'',
          mp_CosmosEtcd := if_nil (mp_CosmosEtcd m) DefaultUseCosmos,
          mp_PlatformFaultDomainCount := (if IsAzureStackCloud p
            then if_nil (mp_PlatformFaultDomainCount m) DefaultAzureStackFaultDomainCount else mp_PlatformFaultDomainCount m),
          mp_PlatformUpdateDomainCount := if_nil (mp_PlatformUpdateDomainCount m) 3,
          mp_OSDiskCachingType := EnsureString (mp_OSDiskCachingType m) (CachingTypesReadWrite ct)\<rparr>)\<rparr>)))"

subsection \<open>Agent pools\<close>

text \<open>The defaults of a scale set; its name is built from the cluster id, which the first use stores.\<close>

definition vmss_settings :: "bool \<Rightarrow> bool \<Rightarrow> agent_pool_profile \<Rightarrow> agent_pool_profile" where
  "vmss_settings isUpgrade isScale a = a\<lparr>
     ap_ScaleSetEvictionPolicy :=
       (if ap_ScaleSetEvictionPolicy a = '''' \<and> (ap_ScaleSetPriority a = ScaleSetPriorityLow \<or> ap_ScaleSetPriority a = ScaleSetPrioritySpot)
        then ScaleSetEvictionPolicyDelete else ap_ScaleSetEvictionPolicy a),
     ap_SpotMaxPrice :=
       (if ap_ScaleSetPriority a = ScaleSetPrioritySpot then if_nil (ap_SpotMaxPrice a) (- 1) else ap_SpotMaxPrice a),
     ap_VMSSOverProvisioningEnabled := if_nil (ap_VMSSOverProvisioningEnabled a)
       (DefaultVMSSOverProvisioningEnabled \<and> \<not> isUpgrade \<and> \<not> isScale)\<rparr>"

definition vmss_defaults :: "rand_source \<Rightarrow> bool \<Rightarrow> bool \<Rightarrow> properties \<Rightarrow> nat \<Rightarrow> agent_pool_profile \<Rightarrow> agent_pool_profile result" where
  "vmss_defaults rnd isUpgrade isScale p i a =
     (let a = vmss_settings isUpgrade isScale a
      in bindR (GetAgentVMPrefix rnd p a (int i)) (\<lambda>name. Inr (a\<lparr>ap_VMSSName := name\<rparr>)))"

definition accelerated_default :: "bool \<Rightarrow> bool \<Rightarrow> bool \<Rightarrow> properties \<Rightarrow> agent_pool_profile \<Rightarrow> bool" where
  "accelerated_default enabled isUpgrade isScale p a =
     (if IsAzureStackCloud p then DefaultAzureStackAcceleratedNetworking
      else enabled \<and> \<not> isUpgrade \<and> \<not> isScale \<and> AcceleratedNetworkingSupported (ap_VMSize a))"

definition agent_settings ::
    "caching_types \<Rightarrow> bool \<Rightarrow> bool \<Rightarrow> properties \<Rightarrow> agent_pool_profile \<Rightarrow> agent_pool_profile" where
  "agent_settings ct isUpgrade isScale p a = a\<lparr>
     ap_OSType := EnsureString (ap_OSType a) Linux,
     ap_PlatformFaultDomainCount := (if IsAzureStackCloud p
       then if_nil (ap_PlatformFaultDomainCount a) DefaultAzureStackFaultDomainCount else ap_PlatformFaultDomainCount a),
     ap_PlatformUpdateDomainCount := if_nil (ap_PlatformUpdateDomainCount a) 3,
     ap_AcceleratedNetworkingEnabled := if_nil (ap_AcceleratedNetworkingEnabled a)
       (accelerated_default DefaultAcceleratedNetworking isUpgrade isScale p a),
     ap_AcceleratedNetworkingEnabledWindows := if_nil (ap_AcceleratedNetworkingEnabledWindows a)
       (accelerated_default DefaultAcceleratedNetworkingWindowsEnabled isUpgrade isScale p a),
     ap_AuditDEnabled := if_nil (ap_AuditDEnabled a) (DefaultAuditDEnabled \<and> \<not> isUpgrade \<and> \<not> isScale),
     ap_PreserveNodesProperties := if_nil (ap_PreserveNodesProperties a) DefaultPreserveNodesProperties,
     ap_EnableVMSSNodePublicIP := if_nil (ap_EnableVMSSNodePublicIP a) DefaultEnableVMSSNodePublicIP,
     ap_OSDiskCachingType := EnsureString (ap_OSDiskCachingType a)
       (if IsEphemeral a then CachingTypesReadOnly ct else CachingTypesReadWrite ct),
     ap_DataDiskCachingType := EnsureString (ap_DataDiskCachingType a) (CachingTypesReadOnly ct)\<rparr>"

definition agent_defaults ::
    "caching_types \<Rightarrow> rand_source \<Rightarrow> bool \<Rightarrow> bool \<Rightarrow> properties \<Rightarrow> nat \<times> agent_pool_profile \<Rightarrow> agent_pool_profile result" where
  "agent_defaults ct rnd isUpgrade isScale p = (\<lambda>(i, a).
     let a = a\<lparr>ap_AvailabilityProfile := EnsureString (ap_AvailabilityProfile a) VirtualMachineScaleSets\<rparr>
     in bindR (if IsVirtualMachineScaleSets a then vmss_defaults rnd isUpgrade isScale p i a else Inr a) (\<lambda>a.
        Inr (agent_settings ct isUpgrade isScale p a)))"

text \<open>Whether the loop asks for the cluster id, and so stores it.\<close>

definition needs_cluster_id :: "properties \<Rightarrow> bool" where
  "needs_cluster_id p \<longleftrightarrow> list_ex (\<lambda>a. EnsureString (ap_AvailabilityProfile a) VirtualMachineScaleSets = VirtualMachineScaleSets \<and>
     ap_VMSSName a = '''') (pools p)"

definition setAgentProfileDefaults :: "caching_types \<Rightarrow> rand_source \<Rightarrow> bool \<Rightarrow> bool \<Rightarrow> properties \<Rightarrow> properties result" where
  "setAgentProfileDefaults ct rnd isUpgrade isScale p =
     bindR (mapR (agent_defaults ct rnd isUpgrade isScale p) (enumerate 0 (pools p))) (\<lambda>as.
     Inr (p\<lparr>p_AgentPoolProfiles := map_option (\<lambda>_. as) (p_AgentPoolProfiles p),
       p_ClusterID := (if needs_cluster_id p then cluster_id rnd p else p_ClusterID p)\<rparr>))"

subsection \<open>Linux nodes, storage, extensions, telemetry\<close>

definition setLinuxProfileDefaults :: "properties \<Rightarrow> properties result" where
  "setLinuxProfileDefaults p =
     bindR (deref (p_LinuxProfile p)) (\<lambda>l.
     bindR (deref (p_OrchestratorProfile p)) (\<lambda>orch.
     Inr (p\<lparr>p_LinuxProfile := Some (l\<lparr>
       lp_RunUnattendedUpgradesOnBootstrap := if_nil (lp_RunUnattendedUpgradesOnBootstrap l)
         (if IsAzureStackCloud p then DefaultRunUnattendedUpgradesOnBootstrapAzureStack else DefaultRunUnattendedUpgradesOnBootstrap),
       lp_EnableUnattendedUpgrades := if_nil (lp_EnableUnattendedUpgrades l)
         (if IsAzureStackCloud p then DefaultEnableUnattendedUpgradesAzureStack else DefaultEnableUnattendedUpgrades),
       lp_Eth0MTU := (if IsAzureCNI orch \<and> lp_Eth0MTU l = 0 then DefaultEth0MTU else lp_Eth0MTU l)\<rparr>)\<rparr>)))"

definition setStorageDefaults :: "properties \<Rightarrow> properties" where
  "setStorageDefaults p = p\<lparr>
     p_MasterProfile := map_option (\<lambda>m. m\<lparr>mp_StorageProfile := EnsureString (mp_StorageProfile m) ManagedDisks\<rparr>) (p_MasterProfile p),
     p_AgentPoolProfiles := map_option (map (\<lambda>a. a\<lparr>ap_StorageProfile := EnsureString (ap_StorageProfile a) ManagedDisks\<rparr>))
       (p_AgentPoolProfiles p)\<rparr>"

definition setExtensionDefaults :: "properties \<Rightarrow> properties" where
  "setExtensionDefaults p = p\<lparr>p_ExtensionProfiles :=
     map (\<lambda>e. e\<lparr>ep_RootURL := EnsureString (ep_RootURL e) DefaultExtensionsRootURL\<rparr>) (p_ExtensionProfiles p)\<rparr>"

definition setTelemetryProfileDefaults :: "properties \<Rightarrow> properties" where
  "setTelemetryProfileDefaults p = p\<lparr>p_TelemetryProfile :=
     if_nil (p_TelemetryProfile p) \<lparr>tp_ApplicationInsightsKey = ''''\<rparr>\<rparr>"

subsection \<open>Windows nodes\<close>

definition ImagePublisherAndOfferMatch :: "windows_profile \<Rightarrow> azure_os_image_config \<Rightarrow> bool" where
  "ImagePublisherAndOfferMatch w imageConfig \<longleftrightarrow>
     wp_WindowsPublisher w = oi_ImagePublisher imageConfig \<and> wp_WindowsOffer w = oi_ImageOffer imageConfig"

definition IsCSIProxyEnabled :: "windows_profile \<Rightarrow> bool" where
  "IsCSIProxyEnabled w = (case wp_EnableCSIProxy w of Some b \<Rightarrow> b | None \<Rightarrow> DefaultEnableCSIProxyWindows)"

definition default_windows_image :: "bool \<Rightarrow> windows_profile \<Rightarrow> azure_os_image_config" where
  "default_windows_image containerd w =
     (if ImagePublisherAndOfferMatch w WindowsServer2019OSImageConfig then WindowsServer2019OSImageConfig
      else if containerd then AKSWindowsServer2019ContainerDOSImageConfig
      else AKSWindowsServer2019OSImageConfig)"

text \<open>The image of a new cluster.\<close>

definition windows_image_defaults :: "bool \<Rightarrow> windows_profile \<Rightarrow> windows_profile" where
  "windows_image_defaults containerd w =
     (let d = default_windows_image containerd w in
      if ImagePublisherAndOfferMatch w d
      then let w = w\<lparr>wp_WindowsSku := EnsureString (wp_WindowsSku w) (oi_ImageSku d)\<rparr>
           in w\<lparr>wp_ImageVersion := EnsureString (wp_ImageVersion w)
                 (if wp_WindowsSku w = oi_ImageSku d then oi_ImageVersion d else ''latest'')\<rparr>
      else let w = w\<lparr>wp_WindowsPublisher := EnsureString (wp_WindowsPublisher w) (oi_ImagePublisher d),
                 wp_WindowsOffer := EnsureString (wp_WindowsOffer w) (oi_ImageOffer d),
                 wp_WindowsSku := EnsureString (wp_WindowsSku w) (oi_ImageSku d)\<rparr>
           in w\<lparr>wp_ImageVersion := EnsureString (EnsureString (wp_ImageVersion w)
                 (case find (\<lambda>c. ImagePublisherAndOfferMatch w c \<and> wp_WindowsSku w = oi_ImageSku c)
                    [AKSWindowsServer2019ContainerDOSImageConfig, AKSWindowsServer2019OSImageConfig] of
                   Some c \<Rightarrow> oi_ImageVersion c | None \<Rightarrow> '''')) ''latest''\<rparr>)"

text \<open>The image on an upgrade: publisher and offer are kept.\<close>

definition windows_image_upgrade :: "bool \<Rightarrow> windows_profile \<Rightarrow> windows_profile" where
  "windows_image_upgrade containerd w =
     (case find (ImagePublisherAndOfferMatch w)
        [if containerd then AKSWindowsServer2019ContainerDOSImageConfig else AKSWindowsServer2019OSImageConfig,
         WindowsServer2019OSImageConfig] of
        Some c \<Rightarrow> w\<lparr>wp_ImageVersion := EnsureString (wp_ImageVersion w) (oi_ImageVersion c),
          wp_WindowsSku := EnsureString (wp_WindowsSku w) (oi_ImageSku c)\<rparr>
      | None \<Rightarrow> w)"

definition windows_defaults :: "bool \<Rightarrow> bool \<Rightarrow> kubernetes_spec_config \<Rightarrow> bool \<Rightarrow> windows_profile \<Rightarrow> windows_profile" where
  "windows_defaults isUpgrade isScale spec containerd w =
     (if \<not> isUpgrade \<and> \<not> isScale
      then windows_image_defaults containerd (w\<lparr>
        wp_ProvisioningScriptsPackageURL := EnsureString (wp_ProvisioningScriptsPackageURL w) (ks_WindowsProvisioningScriptsPackageURL spec),
        wp_WindowsPauseImageURL := EnsureString (wp_WindowsPauseImageURL w) (ks_WindowsPauseImageURL spec),
        wp_AlwaysPullWindowsPauseImage := if_nil (wp_AlwaysPullWindowsPauseImage w) (ks_AlwaysPullWindowsPauseImage spec),
        wp_SSHEnabled := if_nil (wp_SSHEnabled w) DefaultWindowsSSHEnabled\<rparr>)
      else if isUpgrade
      then windows_image_upgrade containerd (w\<lparr>
        wp_ProvisioningScriptsPackageURL := ks_WindowsProvisioningScriptsPackageURL spec,
        wp_WindowsPauseImageURL := EnsureString (wp_WindowsPauseImageURL w) (ks_WindowsPauseImageURL spec),
        wp_AlwaysPullWindowsPauseImage := if_nil (wp_AlwaysPullWindowsPauseImage w) (ks_AlwaysPullWindowsPauseImage spec)\<rparr>)
      else w)"

definition setWindowsProfileDefaults :: "cloud_specs \<Rightarrow> bool \<Rightarrow> bool \<Rightarrow> container_service \<Rightarrow> container_service result" where
  "setWindowsProfileDefaults specs isUpgrade isScale cs =
     (let p = cs_Properties cs in
      bindR (GetCloudSpecConfig specs cs) (\<lambda>cloudSpecConfig.
      if isScale \<and> \<not> isUpgrade then Inr cs
      else bindR (deref (p_WindowsProfile p)) (\<lambda>w.
      bindR (if \<not> isUpgrade \<and> ImagePublisherAndOfferMatch w WindowsServer2019OSImageConfig then Inr False
             else bindR (deref (p_OrchestratorProfile p)) (\<lambda>orch.
                  bindR (deref (op_KubernetesConfig orch)) (\<lambda>k. Inr (NeedsContainerd k)))) (\<lambda>containerd.
      Inr (cs\<lparr>cs_Properties := p\<lparr>p_WindowsProfile :=
        Some (windows_defaults isUpgrade isScale (es_KubernetesSpecConfig cloudSpecConfig) containerd w)\<rparr>\<rparr>)))))"

definition setCSIProxyDefaults :: "cloud_specs \<Rightarrow> container_service \<Rightarrow> container_service result" where
  "setCSIProxyDefaults specs cs =
     (let p = cs_Properties cs in
      bindR (deref (p_OrchestratorProfile p)) (\<lambda>orch.
      bindR (deref (p_WindowsProfile p)) (\<lambda>w.
      let useCloudControllerManager = (case op_KubernetesConfig orch of None \<Rightarrow> False
            | Some k \<Rightarrow> to_Bool (kc_UseCloudControllerManager k))
      in if (wp_EnableCSIProxy w = None \<and> useCloudControllerManager) \<or> IsCSIProxyEnabled w \<or> wp_CSIProxyURL w \<noteq> ''''
         then bindR (if wp_CSIProxyURL w = ''''
                then bindR (GetCloudSpecConfig specs cs) (\<lambda>c. Inr (ks_CSIProxyDownloadURL (es_KubernetesSpecConfig c)))
                else Inr (wp_CSIProxyURL w)) (\<lambda>url.
              Inr (cs\<lparr>cs_Properties := p\<lparr>p_WindowsProfile :=
                Some (w\<lparr>wp_EnableCSIProxy := Some True, wp_CSIProxyURL := url\<rparr>)\<rparr>\<rparr>))
         else Inr cs)))"

end
