(* ===== verification/ProfileFacts.thy ===== *)
theory ProfileFacts
  imports ProfileDefaults CloudSettings
begin

section \<open>What the defaults of the profiles guarantee\<close>

text \<open>
  The agent pools and the Windows image keep, in every later operation, what the first one has chosen.
\<close>

subsection \<open>Values that are set once\<close>

lemma if_nil_simps [simp]:
  "if_nil (Some x) d = Some x" "if_nil (if_nil y d) e = if_nil y d" "\<exists>z. if_nil y d = Some z"
  by (simp_all add: if_nil_def split: option.split)

lemma EnsureString_again [simp]: "d \<noteq> '''' \<Longrightarrow> EnsureString (EnsureString s d) e = EnsureString s d"
  by (simp add: EnsureString_def)

subsection \<open>Agent pools\<close>

text \<open>The name of a scale set, once built, is the name that is used.\<close>

lemma scale_set_name_again:
  assumes "GetAgentVMPrefix rnd p a (int i) = Inr n" and "IsVirtualMachineScaleSets a"
    and "IsVirtualMachineScaleSets b" and "ap_VMSSName b = n" and "ap_OSType b = EnsureString (ap_OSType a) Linux"
  shows "GetAgentVMPrefix rnd' p' b (int i) = Inr n"
proof (cases "n = ''''")
  case True
  then have "\<not> IsLinux a" "ap_OSType a \<noteq> ''''" "\<not> IsWindows a"
    using assms(1,2) by (auto simp: GetAgentVMPrefix_def Let_def K8sOrchestratorName_def DefaultOrchestratorName_def split: if_splits)
  then show ?thesis
    using True assms(3-5) by (simp add: GetAgentVMPrefix_def Let_def IsLinux_def IsWindows_def EnsureString_def)
qed (use assms in \<open>simp add: GetAgentVMPrefix_def\<close>)

lemma vmss_settings_fields [simp]:
  "IsVirtualMachineScaleSets (vmss_settings up sc a) = IsVirtualMachineScaleSets a"
  "ap_AvailabilityProfile (vmss_settings up sc a) = ap_AvailabilityProfile a" "ap_OSType (vmss_settings up sc a) = ap_OSType a"
  "ap_VMSSName (vmss_settings up sc a) = ap_VMSSName a"
  by (simp_all add: vmss_settings_def IsVirtualMachineScaleSets_def)

lemma agent_settings_fields [simp]:
  "IsVirtualMachineScaleSets (agent_settings ct up sc p a) = IsVirtualMachineScaleSets a"
  "ap_AvailabilityProfile (agent_settings ct up sc p a) = ap_AvailabilityProfile a"
  "ap_VMSSName (agent_settings ct up sc p a) = ap_VMSSName a"
  "ap_OSType (agent_settings ct up sc p a) = EnsureString (ap_OSType a) Linux"
  by (simp_all add: agent_settings_def IsVirtualMachineScaleSets_def)

text \<open>Both are settled after the first time, whatever the operation.\<close>

lemma vmss_settings_same:
  assumes "ap_ScaleSetEvictionPolicy a = '''' \<longrightarrow> ap_ScaleSetPriority a \<noteq> ScaleSetPriorityLow \<and> ap_ScaleSetPriority a \<noteq> ScaleSetPrioritySpot"
    and "ap_ScaleSetPriority a = ScaleSetPrioritySpot \<longrightarrow> ap_SpotMaxPrice a \<noteq> None" and "ap_VMSSOverProvisioningEnabled a \<noteq> None"
  shows "vmss_settings up sc a = a"
proof -
  have "(if ap_ScaleSetEvictionPolicy a = '''' \<and> (ap_ScaleSetPriority a = ScaleSetPriorityLow \<or> ap_ScaleSetPriority a = ScaleSetPrioritySpot)
      then ScaleSetEvictionPolicyDelete else ap_ScaleSetEvictionPolicy a) = ap_ScaleSetEvictionPolicy a" using assms(1) by auto
  moreover have "(if ap_ScaleSetPriority a = ScaleSetPrioritySpot then if_nil (ap_SpotMaxPrice a) (- 1) else ap_SpotMaxPrice a) = ap_SpotMaxPrice a"
    using assms(2) by auto
  moreover have "if_nil (ap_VMSSOverProvisioningEnabled a) d = ap_VMSSOverProvisioningEnabled a" for d using assms(3) by auto
  ultimately show ?thesis unfolding vmss_settings_def by simp
qed

lemma vmss_settings_again: "vmss_settings up' sc' (agent_settings ct up sc p ((vmss_settings up sc a)\<lparr>ap_VMSSName := n\<rparr>)) =
    agent_settings ct up sc p ((vmss_settings up sc a)\<lparr>ap_VMSSName := n\<rparr>)"
  by (rule vmss_settings_same) (simp_all add: agent_settings_def vmss_settings_def ScaleSetEvictionPolicyDelete_def)

lemma agent_settings_again:
  assumes "IsAzureStackCloud p' = IsAzureStackCloud p"
  shows "agent_settings ct up' sc' p' (agent_settings ct up sc p a) = agent_settings ct up sc p a"
proof -
  let ?b = "agent_settings ct up sc p a"
  have "EnsureString (ap_OSType ?b) Linux = ap_OSType ?b" by (simp add: Linux_def)
  moreover have "(if IsAzureStackCloud p' then if_nil (ap_PlatformFaultDomainCount ?b) DefaultAzureStackFaultDomainCount
      else ap_PlatformFaultDomainCount ?b) = ap_PlatformFaultDomainCount ?b" by (simp add: agent_settings_def assms)
  moreover have "if_nil (ap_PlatformUpdateDomainCount ?b) 3 = ap_PlatformUpdateDomainCount ?b" by (simp add: agent_settings_def)
  moreover have "if_nil (ap_AcceleratedNetworkingEnabled ?b) d = ap_AcceleratedNetworkingEnabled ?b"
    "if_nil (ap_AcceleratedNetworkingEnabledWindows ?b) d = ap_AcceleratedNetworkingEnabledWindows ?b"
    "if_nil (ap_AuditDEnabled ?b) d = ap_AuditDEnabled ?b" "if_nil (ap_PreserveNodesProperties ?b) d = ap_PreserveNodesProperties ?b"
    "if_nil (ap_EnableVMSSNodePublicIP ?b) d = ap_EnableVMSSNodePublicIP ?b" for d by (simp_all add: agent_settings_def)
  moreover have "EnsureString (ap_OSDiskCachingType ?b) (if IsEphemeral ?b then CachingTypesReadOnly ct else CachingTypesReadWrite ct) =
      ap_OSDiskCachingType ?b" "EnsureString (ap_DataDiskCachingType ?b) (CachingTypesReadOnly ct) = ap_DataDiskCachingType ?b"
    by (simp_all add: agent_settings_def IsEphemeral_def)
  ultimately show ?thesis unfolding agent_settings_def [of ct up' sc' p'] by simp
qed

lemma agent_defaults_again:
  assumes "agent_defaults ct rnd up sc p (i, a) = Inr b" and "IsAzureStackCloud p' = IsAzureStackCloud p"
  shows "agent_defaults ct rnd' up' sc' p' (i, b) = Inr b"
proof -
  let ?a = "a\<lparr>ap_AvailabilityProfile := EnsureString (ap_AvailabilityProfile a) VirtualMachineScaleSets\<rparr>"
  from assms(1) obtain a' where a': "(if IsVirtualMachineScaleSets ?a then vmss_defaults rnd up sc p i ?a else Inr ?a) = Inr a'"
    and b: "b = agent_settings ct up sc p a'"
    by (auto simp: agent_defaults_def Let_def result_simps)
  have "(if IsVirtualMachineScaleSets b then vmss_defaults rnd' up' sc' p' i b else Inr b) = Inr b \<and> ap_AvailabilityProfile b \<noteq> ''''"
  proof (cases "IsVirtualMachineScaleSets ?a")
    case True
    then obtain n where n: "GetAgentVMPrefix rnd p (vmss_settings up sc ?a) (int i) = Inr n"
      and a'': "a' = (vmss_settings up sc ?a)\<lparr>ap_VMSSName := n\<rparr>" using a' by (auto simp: vmss_defaults_def Let_def result_simps)
    have vmss: "IsVirtualMachineScaleSets b" using True by (simp add: b a'' IsVirtualMachineScaleSets_def)
    have "GetAgentVMPrefix rnd' p' b (int i) = Inr n"
      by (rule scale_set_name_again [OF n _ vmss]) (use True in \<open>simp_all add: b a''\<close>)
    moreover have "b\<lparr>ap_VMSSName := n\<rparr> = b" by (simp add: b a'' agent_settings_def)
    ultimately have "vmss_defaults rnd' up' sc' p' i b = Inr b"
      by (simp add: vmss_defaults_def b a'' vmss_settings_again)
    then show ?thesis using vmss by (simp add: IsVirtualMachineScaleSets_def VirtualMachineScaleSets_def)
  next
    case False
    then have "a' = ?a" using a' by simp
    then show ?thesis using False by (simp add: b VirtualMachineScaleSets_def)
  qed
  moreover from this have "b\<lparr>ap_AvailabilityProfile := EnsureString (ap_AvailabilityProfile b) VirtualMachineScaleSets\<rparr> = b"
    by (simp add: EnsureString_def)
  moreover have "agent_settings ct up' sc' p' b = b" using agent_settings_again [OF assms(2)] by (simp add: b)
  ultimately show ?thesis by (simp add: agent_defaults_def)
qed

subsection \<open>The pools as a whole\<close>

lemma agent_defaults_unnamed:
  assumes "agent_defaults ct rnd up sc p (i, a) = Inr b"
    and "EnsureString (ap_AvailabilityProfile b) VirtualMachineScaleSets = VirtualMachineScaleSets \<and> ap_VMSSName b = ''''"
  shows "EnsureString (ap_AvailabilityProfile a) VirtualMachineScaleSets = VirtualMachineScaleSets \<and> ap_VMSSName a = ''''"
proof -
  let ?a = "a\<lparr>ap_AvailabilityProfile := EnsureString (ap_AvailabilityProfile a) VirtualMachineScaleSets\<rparr>"
  have vmss: "IsVirtualMachineScaleSets ?a"
  proof (rule ccontr)
    assume "\<not> IsVirtualMachineScaleSets ?a"
    then have "b = agent_settings ct up sc p ?a" using assms(1) by (simp add: agent_defaults_def)
    then show False using assms(2) \<open>\<not> IsVirtualMachineScaleSets ?a\<close> by (simp add: IsVirtualMachineScaleSets_def VirtualMachineScaleSets_def)
  qed
  then obtain n where "GetAgentVMPrefix rnd p (vmss_settings up sc ?a) (int i) = Inr n" "ap_VMSSName b = n"
    using assms(1) by (auto simp: agent_defaults_def vmss_defaults_def Let_def result_simps)
  then have "ap_VMSSName a = ''''" using assms(2) vmss by (cases "ap_VMSSName a = ''''") (simp_all add: GetAgentVMPrefix_def)
  then show ?thesis using vmss by (simp add: IsVirtualMachineScaleSets_def)
qed

text \<open>
  C32: what the first operation on a cluster decides for its agent pools, every later one keeps, be it an upgrade or
  a scale operation and whatever random numbers it draws: the names of the scale sets, accelerated networking, the
  priority and price of spot nodes, caching, fault domains.\<close>

theorem pool_defaults_are_final:
  assumes "setAgentProfileDefaults ct rnd up sc p = Inr p'"
  shows "setAgentProfileDefaults ct rnd' up' sc' p' = Inr p'"
proof -
  from assms obtain bs where bs: "mapR (agent_defaults ct rnd up sc p) (enumerate 0 (pools p)) = Inr bs"
    and p': "p' = p\<lparr>p_AgentPoolProfiles := map_option (\<lambda>_. bs) (p_AgentPoolProfiles p),
       p_ClusterID := (if needs_cluster_id p then cluster_id rnd p else p_ClusterID p)\<rparr>"
    by (auto simp: setAgentProfileDefaults_def result_simps)
  have pools: "pools p' = bs"
    using bs by (cases "p_AgentPoolProfiles p") (simp_all add: p' pools_def)
  have each: "list_all2 (\<lambda>(i, a) b. agent_defaults ct rnd up sc p (i, a) = Inr b) (enumerate 0 (pools p)) bs"
    using bs by (simp add: mapR_Inr_iff case_prod_unfold)
  have "list_all2 (\<lambda>ib b. agent_defaults ct rnd' up' sc' p' ib = Inr b) (enumerate 0 bs) bs"
  proof (rule list_all2_all_nthI)
    fix n assume n: "n < length (enumerate 0 bs)"
    then have "agent_defaults ct rnd up sc p (n, pools p ! n) = Inr (bs ! n)"
      using list_all2_nthD2 [OF each, of n] list_all2_lengthD [OF each] by (simp add: nth_enumerate_eq)
    from agent_defaults_again [OF this] n
    show "agent_defaults ct rnd' up' sc' p' (enumerate 0 bs ! n) = Inr (bs ! n)" by (simp add: p' IsAzureStackCloud_def nth_enumerate_eq)
  qed simp
  then have again: "mapR (agent_defaults ct rnd' up' sc' p') (enumerate 0 (pools p')) = Inr bs" by (simp add: mapR_Inr_iff pools)
  have "cluster_id rnd' p' = p_ClusterID p'" if need: "needs_cluster_id p'"
  proof -
    have "needs_cluster_id p"
    proof -
      from need obtain n where n: "n < length bs" "EnsureString (ap_AvailabilityProfile (bs ! n)) VirtualMachineScaleSets = VirtualMachineScaleSets \<and>
          ap_VMSSName (bs ! n) = ''''" by (auto simp: needs_cluster_id_def pools list_ex_length)
      have "agent_defaults ct rnd up sc p (n, pools p ! n) = Inr (bs ! n)" "n < length (pools p)"
        using list_all2_nthD2 [OF each n(1)] list_all2_lengthD [OF each] n(1) by (simp_all add: nth_enumerate_eq)
      from agent_defaults_unnamed [OF this(1) n(2)] this(2) show ?thesis by (auto simp: needs_cluster_id_def list_ex_length)
    qed
    then have "p_ClusterID p' = cluster_id rnd p" by (simp add: p')
    then show ?thesis using cluster_id_nonempty [of rnd p] by (simp add: cluster_id_def [of rnd'] GetClusterID_def)
  qed
  moreover have "map_option (\<lambda>_. bs) (p_AgentPoolProfiles p') = p_AgentPoolProfiles p'" by (simp add: p' option.map_comp comp_def)
  ultimately show ?thesis by (simp add: setAgentProfileDefaults_def again)
qed

definition example_pools :: properties where
  "example_pools = zero_properties\<lparr>p_AgentPoolProfiles := Some [zero_agent_pool_profile\<lparr>ap_Name := ''linuxpool''\<rparr>]\<rparr>"

theorem pool_defaults_are_final_witness:
  "\<exists>p'. setAgentProfileDefaults \<lparr>CachingTypesReadWrite = ''ReadWrite'', CachingTypesReadOnly = ''ReadOnly''\<rparr> (\<lambda>_. 1) False False example_pools = Inr p' \<and>
     setAgentProfileDefaults \<lparr>CachingTypesReadWrite = ''ReadWrite'', CachingTypesReadOnly = ''ReadOnly''\<rparr> (\<lambda>_. 2) True False p' = Inr p'"
proof -
  let ?ct = "\<lparr>CachingTypesReadWrite = ''ReadWrite'', CachingTypesReadOnly = ''ReadOnly''\<rparr>"
  obtain p' where p': "setAgentProfileDefaults ?ct (\<lambda>_. 1) False False example_pools = Inr p'"
    by (simp add: setAgentProfileDefaults_def example_pools_def pools_def zero_properties_def agent_defaults_def vmss_defaults_def
        zero_agent_pool_profile_def GetAgentVMPrefix_def IsVirtualMachineScaleSets_def vmss_settings_def Let_def)
  then show ?thesis using pool_defaults_are_final [OF p'] by blast
qed

subsection \<open>The Windows image\<close>

lemma windows_image_names: "default_windows_image c w \<in> {WindowsServer2019OSImageConfig, AKSWindowsServer2019ContainerDOSImageConfig,
    AKSWindowsServer2019OSImageConfig}"
  by (simp add: default_windows_image_def)

lemma windows_image_nonempty: "d \<in> {WindowsServer2019OSImageConfig, AKSWindowsServer2019ContainerDOSImageConfig, AKSWindowsServer2019OSImageConfig} \<Longrightarrow>
    oi_ImagePublisher d \<noteq> '''' \<and> oi_ImageOffer d \<noteq> '''' \<and> oi_ImageSku d \<noteq> '''' \<and> oi_ImageVersion d \<noteq> ''''"
  by (auto simp: WindowsServer2019OSImageConfig_def AKSWindowsServer2019ContainerDOSImageConfig_def AKSWindowsServer2019OSImageConfig_def)

lemma windows_image_fields:
  assumes "d = default_windows_image c w" and "oi_ImagePublisher d \<noteq> ''''" and "oi_ImageOffer d \<noteq> ''''"
  shows "wp_WindowsPublisher (windows_image_defaults c w) = EnsureString (wp_WindowsPublisher w) (oi_ImagePublisher d)"
    and "wp_WindowsOffer (windows_image_defaults c w) = EnsureString (wp_WindowsOffer w) (oi_ImageOffer d)"
    and "wp_WindowsSku (windows_image_defaults c w) = EnsureString (wp_WindowsSku w) (oi_ImageSku d)"
    and "wp_ImageVersion w \<noteq> '''' \<Longrightarrow> wp_ImageVersion (windows_image_defaults c w) = wp_ImageVersion w"
    and "oi_ImageVersion d \<noteq> '''' \<Longrightarrow> wp_ImageVersion (windows_image_defaults c w) \<noteq> ''''"
proof -
  have names: "wp_WindowsPublisher w = oi_ImagePublisher d" "wp_WindowsOffer w = oi_ImageOffer d" if "ImagePublisherAndOfferMatch w d"
    using that by (simp_all add: ImagePublisherAndOfferMatch_def)
  note image = windows_image_defaults_def Let_def assms(1) [symmetric]
  show "wp_WindowsPublisher (windows_image_defaults c w) = EnsureString (wp_WindowsPublisher w) (oi_ImagePublisher d)"
    using names(1) assms(2) by (cases "ImagePublisherAndOfferMatch w d") (simp_all add: image EnsureString_def)
  show "wp_WindowsOffer (windows_image_defaults c w) = EnsureString (wp_WindowsOffer w) (oi_ImageOffer d)"
    using names(2) assms(3) by (cases "ImagePublisherAndOfferMatch w d") (simp_all add: image EnsureString_def)
  show "wp_WindowsSku (windows_image_defaults c w) = EnsureString (wp_WindowsSku w) (oi_ImageSku d)"
    by (cases "ImagePublisherAndOfferMatch w d") (simp_all add: image)
  show "wp_ImageVersion w \<noteq> '''' \<Longrightarrow> wp_ImageVersion (windows_image_defaults c w) = wp_ImageVersion w"
    by (cases "ImagePublisherAndOfferMatch w d") (simp_all add: image EnsureString_def)
  show "oi_ImageVersion d \<noteq> '''' \<Longrightarrow> wp_ImageVersion (windows_image_defaults c w) \<noteq> ''''"
    by (cases "ImagePublisherAndOfferMatch w d") (simp_all add: image)
qed

lemma upgraded_windows_image:
  assumes "wp_WindowsSku w \<noteq> ''''" and "wp_ImageVersion w \<noteq> ''''"
  shows "windows_image_upgrade c w = w"
  using assms by (simp add: windows_image_upgrade_def EnsureString_def split: option.split)



end
