(* ===== verification/KubernetesDefaults.thy ===== *)
theory KubernetesDefaults
  imports ProfileDefaults
begin

section \<open>Defaults of the Kubernetes configuration (pkg/api/defaults.go, setOrchestratorDefaults)\<close>

text \<open>
  The part of \<open>setOrchestratorDefaults\<close> that fills in the Kubernetes configuration, cut into steps in the order
  of the code; each is one function on the configuration. A \<open>float64\<close> is a rational number here.
\<close>

subsection \<open>Version numbers (pkg/versions/compare.go)\<close>

definition number_at :: "string list \<Rightarrow> nat \<Rightarrow> int" where
  "number_at parts i = (if i < length parts then fst (atoi (parts ! i)) else 0)"

definition compare :: "string \<Rightarrow> string \<Rightarrow> int" where
  "compare v1 v2 =
     (let currTab = split_on (CHR ''.'') v1; otherTab = split_on (CHR ''.'') v2 in
      case find (\<lambda>i. number_at currTab i \<noteq> number_at otherTab i) [0..<max (length currTab) (length otherTab)] of
        None \<Rightarrow> 0
      | Some i \<Rightarrow> if number_at currTab i > number_at otherTab i then 1 else - 1)"

definition LessThan :: "string \<Rightarrow> string \<Rightarrow> bool" where
  "LessThan v other \<longleftrightarrow> compare v other = - 1"

definition LessThanOrEqualTo :: "string \<Rightarrow> string \<Rightarrow> bool" where
  "LessThanOrEqualTo v other \<longleftrightarrow> compare v other \<le> 0"

definition GreaterThan :: "string \<Rightarrow> string \<Rightarrow> bool" where
  "GreaterThan v other \<longleftrightarrow> compare v other = 1"

definition GreaterThanOrEqualTo :: "string \<Rightarrow> string \<Rightarrow> bool" where
  "GreaterThanOrEqualTo v other \<longleftrightarrow> compare v other \<ge> 0"

definition Equal :: "string \<Rightarrow> string \<Rightarrow> bool" where
  "Equal v other \<longleftrightarrow> compare v other = 0"

subsection \<open>Network plugin and policy\<close>

definition translate_network_policy :: "kubernetes_config \<Rightarrow> kubernetes_config" where
  "translate_network_policy k =
     (let policy = kc_NetworkPolicy k; plugin = kc_NetworkPlugin k in
      if policy = NetworkPolicyAzure
      then (if plugin = '''' then k\<lparr>kc_NetworkPlugin := NetworkPluginAzure, kc_NetworkPolicy := DefaultNetworkPolicy\<rparr> else k)
      else if policy = NetworkPolicyNone
      then k\<lparr>kc_NetworkPlugin := NetworkPluginKubenet, kc_NetworkPolicy := DefaultNetworkPolicy\<rparr>
      else if policy = NetworkPolicyCalico then k\<lparr>kc_NetworkPlugin := EnsureString plugin NetworkPluginKubenet\<rparr>
      else if policy = NetworkPolicyCilium then k\<lparr>kc_NetworkPlugin := NetworkPluginCilium\<rparr>
      else if policy = NetworkPolicyAntrea then k\<lparr>kc_NetworkPlugin := EnsureString plugin NetworkPluginAzure\<rparr>
      else k)"

definition network_plugin_defaults :: "bool \<Rightarrow> kubernetes_config \<Rightarrow> kubernetes_config" where
  "network_plugin_defaults hasWindows k =
     (let k = k\<lparr>kc_NetworkPlugin := EnsureString (kc_NetworkPlugin k)
            (if hasWindows then DefaultNetworkPluginWindows else DefaultNetworkPlugin)\<rparr>
      in k\<lparr>kc_NetworkMode := (if kc_NetworkPlugin k = NetworkPluginAzure
            then EnsureString (kc_NetworkMode k) NetworkModeTransparent else kc_NetworkMode k)\<rparr>)"

subsection \<open>Images, etcd, identity, container runtime\<close>

definition azure_stack_images :: "bool \<Rightarrow> kubernetes_spec_config \<Rightarrow> kubernetes_config \<Rightarrow> kubernetes_config" where
  "azure_stack_images isUpgrade spec k = k\<lparr>
     kc_KubernetesImageBase := ks_MCRKubernetesImageBase spec,
     kc_KubernetesImageBaseType := KubernetesImageBaseTypeMCR,
     kc_MCRKubernetesImageBase :=
       (if isUpgrade \<and> equal_fold (kc_MCRKubernetesImageBase k) ''mcr.microsoft.com/k8s/core/'' then ''''
        else kc_MCRKubernetesImageBase k)\<rparr>"

definition image_base_upgrade :: "kubernetes_spec_config \<Rightarrow> kubernetes_config \<Rightarrow> kubernetes_config" where
  "image_base_upgrade spec k =
     (if (kc_KubernetesImageBase k = '''' \<or> kc_KubernetesImageBase k = ks_KubernetesImageBase spec) \<and>
         (kc_KubernetesImageBaseType k = '''' \<or> kc_KubernetesImageBaseType k = KubernetesImageBaseTypeGCR)
      then k\<lparr>kc_KubernetesImageBase := ks_MCRKubernetesImageBase spec, kc_KubernetesImageBaseType := KubernetesImageBaseTypeMCR\<rparr>
      else k)"

definition image_base_defaults :: "kubernetes_spec_config \<Rightarrow> kubernetes_config \<Rightarrow> kubernetes_config" where
  "image_base_defaults spec k = k\<lparr>
     kc_KubernetesImageBase :=
       (let base = kc_KubernetesImageBase k in
        if base = '''' then ks_MCRKubernetesImageBase spec
        else if last base \<noteq> CHR ''/'' then base @ ''/'' else base),
     kc_KubernetesImageBaseType := EnsureString (kc_KubernetesImageBaseType k) KubernetesImageBaseTypeMCR,
     kc_MCRKubernetesImageBase := EnsureString (kc_MCRKubernetesImageBase k) (ks_MCRKubernetesImageBase spec)\<rparr>"

definition image_defaults :: "bool \<Rightarrow> bool \<Rightarrow> kubernetes_spec_config \<Rightarrow> kubernetes_config \<Rightarrow> kubernetes_config" where
  "image_defaults isAzureStack isUpgrade spec k =
     (let k = (if isAzureStack then azure_stack_images isUpgrade spec k else k);
          k = (if isUpgrade then image_base_upgrade spec k else k)
      in image_base_defaults spec k)"

text \<open>On an upgrade etcd moves to the version of the engine, if that is newer.\<close>

definition etcd_version :: "bool \<Rightarrow> string \<Rightarrow> string result" where
  "etcd_version isUpgrade v =
     (if v = '''' then Inr DefaultEtcdVersion
      else if isUpgrade \<and> v \<noteq> DefaultEtcdVersion
      then bindR (GetMinVersion [v, DefaultEtcdVersion] True) (\<lambda>m. Inr (if m = v then DefaultEtcdVersion else v))
      else Inr v)"

definition identity_default :: "bool \<Rightarrow> properties \<Rightarrow> kubernetes_config \<Rightarrow> kubernetes_config result" where
  "identity_default isUpdate p k =
     (if \<not> isUpdate \<and> \<not> IsCustomCloudProfile p
      then bindR (deref (p_MasterProfile p)) (\<lambda>m.
        Inr (if \<not> MasterProfile_IsVirtualMachineScaleSets m \<and> kc_UseManagedIdentity k = None
             then k\<lparr>kc_UseManagedIdentity := Some True\<rparr> else k))
      else Inr k)"

definition runtime_defaults :: "bool \<Rightarrow> bool \<Rightarrow> string \<Rightarrow> kubernetes_config \<Rightarrow> kubernetes_config" where
  "runtime_defaults isAzureStack isUpdate version k =
     (let k = k\<lparr>kc_ContainerRuntime := EnsureString (kc_ContainerRuntime k)
            (if isAzureStack \<and> IsKubernetesVersionGe version ''1.24.0'' then Containerd else DefaultContainerRuntime)\<rparr>
      in if kc_ContainerRuntime k = Docker
         then let k = k\<lparr>kc_MobyVersion := (if isUpdate then DefaultMobyVersion else EnsureString (kc_MobyVersion k) DefaultMobyVersion)\<rparr>
              in if GreaterThanOrEqualTo (kc_MobyVersion k) ''19.03''
                 then k\<lparr>kc_ContainerdVersion :=
                   (if isUpdate then DefaultContainerdVersion else EnsureString (kc_ContainerdVersion k) DefaultContainerdVersion)\<rparr>
                 else k
         else if kc_ContainerRuntime k = Containerd
         then k\<lparr>kc_ContainerdVersion :=
                (if isUpdate then DefaultContainerdVersion else EnsureString (kc_ContainerdVersion k) DefaultContainerdVersion),
              kc_WindowsContainerdURL :=
                (if isUpdate then DefaultWindowsContainerdURL else EnsureString (kc_WindowsContainerdURL k) DefaultWindowsContainerdURL)\<rparr>
         else k)"

subsection \<open>Subnets\<close>

definition getDefaultKubernetesClusterSubnetIPv6 :: "string \<Rightarrow> string" where
  "getDefaultKubernetesClusterSubnetIPv6 version =
     (if IsKubernetesVersionGe version ''1.17.0'' then DefaultKubernetesClusterSubnetIPv6 else ''fc00::/8'')"

text \<open>With both IP families a single subnet is completed by the default of the other family.\<close>

definition both_families :: "string \<Rightarrow> string \<Rightarrow> string \<Rightarrow> string" where
  "both_families default4 default6 subnets =
     (case split_on (CHR '','') subnets of
        [subnet] \<Rightarrow> join '','' (case ParseCIDR subnet of
            None \<Rightarrow> [subnet]
          | Some (ip, _) \<Rightarrow> if To4 ip \<noteq> [] then [subnet, default6] else [default4, subnet])
      | _ \<Rightarrow> subnets)"

definition cluster_subnet :: "feature_flags option \<Rightarrow> string \<Rightarrow> bool \<Rightarrow> string \<Rightarrow> string" where
  "cluster_subnet features version azureCNI subnets =
     (let dual = IsFeatureEnabled features ''EnableIPv6DualStack'';
          default4 = (if azureCNI then DefaultKubernetesSubnet else DefaultKubernetesClusterSubnet);
          default6 = getDefaultKubernetesClusterSubnetIPv6 version
      in if subnets = ''''
         then if dual then join '','' [default4, default6]
           else if \<not> azureCNI \<and> IsFeatureEnabled features ''EnableIPv6Only'' then DefaultKubernetesClusterSubnetIPv6
           else default4
         else if dual then both_families default4 default6 subnets
         else subnets)"

definition service_cidr :: "feature_flags option \<Rightarrow> string \<Rightarrow> string" where
  "service_cidr features cidr =
     (let dual = IsFeatureEnabled features ''EnableIPv6DualStack'' in
      if cidr = ''''
      then if dual then join '','' [DefaultKubernetesServiceCIDR, DefaultKubernetesServiceCIDRIPv6]
        else if IsFeatureEnabled features ''EnableIPv6Only'' then DefaultKubernetesServiceCIDRIPv6
        else DefaultKubernetesServiceCIDR
      else if dual then both_families DefaultKubernetesServiceCIDR DefaultKubernetesServiceCIDRIPv6 cidr
      else cidr)"

definition subnet_defaults :: "feature_flags option \<Rightarrow> string \<Rightarrow> kubernetes_config \<Rightarrow> kubernetes_config" where
  "subnet_defaults features version k = k\<lparr>
     kc_ClusterSubnet := cluster_subnet features version (kc_NetworkPlugin k = NetworkPluginAzure) (kc_ClusterSubnet k),
     kc_GCHighThreshold := (if kc_GCHighThreshold k = 0 then DefaultKubernetesGCHighThreshold else kc_GCHighThreshold k),
     kc_GCLowThreshold := (if kc_GCLowThreshold k = 0 then DefaultKubernetesGCLowThreshold else kc_GCLowThreshold k),
     kc_DNSServiceIP := EnsureString (kc_DNSServiceIP k)
       (if IsFeatureEnabled features ''EnableIPv6Only'' then DefaultKubernetesDNSServiceIPv6 else DefaultKubernetesDNSServiceIP),
     kc_DockerBridgeSubnet := EnsureString (kc_DockerBridgeSubnet k) DefaultDockerBridgeSubnet,
     kc_ServiceCIDR := service_cidr features (kc_ServiceCIDR k)\<rparr>"

subsection \<open>Cloud provider (SetCloudProviderBackoffDefaults, SetCloudProviderRateLimitDefaults of types.go)\<close>

definition if_zero :: "'a::zero \<Rightarrow> 'a \<Rightarrow> 'a" where
  "if_zero x d = (if x = 0 then d else x)"

definition SetCloudProviderBackoffDefaults :: "bool \<Rightarrow> kubernetes_config \<Rightarrow> kubernetes_config" where
  "SetCloudProviderBackoffDefaults isAzureStack k =
     (let v1 = kc_CloudProviderBackoffMode k \<noteq> CloudProviderBackoffModeV2 in
      k\<lparr>kc_CloudProviderBackoffDuration := if_zero (kc_CloudProviderBackoffDuration k)
          (if isAzureStack then DefaultAzureStackKubernetesCloudProviderBackoffDuration else DefaultKubernetesCloudProviderBackoffDuration),
        kc_CloudProviderBackoffRetries := if_zero (kc_CloudProviderBackoffRetries k)
          (if isAzureStack then DefaultAzureStackKubernetesCloudProviderBackoffRetries else DefaultKubernetesCloudProviderBackoffRetries),
        kc_CloudProviderBackoffExponent := (if v1 then if_zero (kc_CloudProviderBackoffExponent k)
          (if isAzureStack then DefaultAzureStackKubernetesCloudProviderBackoffExponent else DefaultKubernetesCloudProviderBackoffExponent)
          else kc_CloudProviderBackoffExponent k),
        kc_CloudProviderBackoffJitter := (if v1 then if_zero (kc_CloudProviderBackoffJitter k)
          (if isAzureStack then DefaultAzureStackKubernetesCloudProviderBackoffJitter else DefaultKubernetesCloudProviderBackoffJitter)
          else kc_CloudProviderBackoffJitter k)\<rparr>)"

text \<open>The read and the write limits have the same defaults but for their constants.\<close>

definition rate_limit_bucket :: "bool \<Rightarrow> nat \<Rightarrow> int \<Rightarrow> int \<Rightarrow> int \<Rightarrow> int" where
  "rate_limit_bucket isAzureStack n d stack bucket =
     if_zero bucket (if isAzureStack then stack else if n = 0 then d else int n * MaxAgentCount)"

definition rate_limit_qps :: "bool \<Rightarrow> int \<Rightarrow> rat \<Rightarrow> rat \<Rightarrow> rat \<Rightarrow> rat" where
  "rate_limit_qps isAzureStack bucket d stack qps =
     if_zero qps (if isAzureStack then stack
       else if d / of_int bucket < MinCloudProviderQPSToBucketFactor then of_int bucket * MinCloudProviderQPSToBucketFactor
       else d)"

definition SetCloudProviderRateLimitDefaults :: "bool \<Rightarrow> nat \<Rightarrow> kubernetes_config \<Rightarrow> kubernetes_config" where
  "SetCloudProviderRateLimitDefaults isAzureStack n k =
     (let k = k\<lparr>kc_CloudProviderRateLimitBucket := rate_limit_bucket isAzureStack n DefaultKubernetesCloudProviderRateLimitBucket
              DefaultAzureStackKubernetesCloudProviderRateLimitBucket (kc_CloudProviderRateLimitBucket k),
            kc_CloudProviderRateLimitBucketWrite := rate_limit_bucket isAzureStack n DefaultKubernetesCloudProviderRateLimitBucketWrite
              DefaultAzureStackKubernetesCloudProviderRateLimitBucketWrite (kc_CloudProviderRateLimitBucketWrite k)\<rparr>
      in k\<lparr>kc_CloudProviderRateLimitQPS := rate_limit_qps isAzureStack (kc_CloudProviderRateLimitBucket k)
            DefaultKubernetesCloudProviderRateLimitQPS DefaultAzureStackKubernetesCloudProviderRateLimitQPS (kc_CloudProviderRateLimitQPS k),
          kc_CloudProviderRateLimitQPSWrite := rate_limit_qps isAzureStack (kc_CloudProviderRateLimitBucketWrite k)
            DefaultKubernetesCloudProviderRateLimitQPSWrite DefaultAzureStackKubernetesCloudProviderRateLimitQPSWrite
            (kc_CloudProviderRateLimitQPSWrite k)\<rparr>)"

definition cloud_provider_defaults :: "bool \<Rightarrow> nat \<Rightarrow> string \<Rightarrow> kubernetes_config \<Rightarrow> kubernetes_config" where
  "cloud_provider_defaults isAzureStack n version k =
     (let v2 = IsKubernetesVersionGe version ''1.14.0'';
          k = k\<lparr>kc_CloudProviderBackoffMode := (if v2 then CloudProviderBackoffModeV2 else ''v1''),
                kc_CloudProviderBackoff := if_nil (kc_CloudProviderBackoff k) v2\<rparr>;
          k = SetCloudProviderBackoffDefaults isAzureStack k;
          k = k\<lparr>kc_CloudProviderRateLimit := if_nil (kc_CloudProviderRateLimit k) DefaultKubernetesCloudProviderRateLimit\<rparr>
      in SetCloudProviderRateLimitDefaults isAzureStack n k)"

subsection \<open>Private clusters and etcd\<close>

definition private_cluster_defaults :: "private_cluster option \<Rightarrow> private_cluster" where
  "private_cluster_defaults pc =
     (let c = (case pc of None \<Rightarrow> zero_private_cluster | Some c \<Rightarrow> c) in
      c\<lparr>pc_Enabled := if_nil (pc_Enabled c) DefaultPrivateClusterEnabled,
        pc_EnableHostsConfigAgent := if_nil (pc_EnableHostsConfigAgent c) DefaultPrivateClusterHostsConfigAgentEnabled\<rparr>)"

definition jumpbox_defaults :: "private_cluster \<Rightarrow> private_cluster" where
  "jumpbox_defaults c =
     (if to_Bool (pc_Enabled c)
      then c\<lparr>pc_JumpboxProfile := map_option (\<lambda>j. j\<lparr>pj_OSDiskSizeGB := if_zero (pj_OSDiskSizeGB j) DefaultJumpboxDiskSize,
             pj_Username := EnsureString (pj_Username j) DefaultJumpboxUsername,
             pj_StorageProfile := EnsureString (pj_StorageProfile j) ManagedDisks\<rparr>) (pc_JumpboxProfile c)\<rparr>
      else c)"

definition etcd_disk_size :: "bool \<Rightarrow> int \<Rightarrow> string" where
  "etcd_disk_size isAzureStack nodes =
     (if nodes > 20 then (if isAzureStack then MaxAzureStackManagedDiskSize else DefaultEtcdDiskSizeGT20Nodes)
      else if nodes > 10 then (if isAzureStack then MaxAzureStackManagedDiskSize else DefaultEtcdDiskSizeGT10Nodes)
      else if nodes > 3 then DefaultEtcdDiskSizeGT3Nodes
      else DefaultEtcdDiskSize)"

text \<open>The encryption key is random; the parameter stands for it.\<close>

definition etcd_defaults :: "bool \<Rightarrow> int \<Rightarrow> string \<Rightarrow> kubernetes_config \<Rightarrow> kubernetes_config" where
  "etcd_defaults isAzureStack nodes key k = k\<lparr>
     kc_PrivateCluster := Some (jumpbox_defaults (private_cluster_defaults (kc_PrivateCluster k))),
     kc_EtcdDiskSizeGB := EnsureString (kc_EtcdDiskSizeGB k) (etcd_disk_size isAzureStack nodes),
     kc_EtcdStorageLimitGB := if_zero (kc_EtcdStorageLimitGB k) DefaultEtcdStorageLimitGB,
     kc_EtcdEncryptionKey := (if to_Bool (kc_EnableDataEncryptionAtRest k) then EnsureString (kc_EtcdEncryptionKey k) key
       else kc_EtcdEncryptionKey k)\<rparr>"

subsection \<open>Access control and load balancer\<close>

definition access_defaults :: "bool \<Rightarrow> bool \<Rightarrow> bool \<Rightarrow> string \<Rightarrow> kubernetes_config \<Rightarrow> kubernetes_config" where
  "access_defaults isAzureStack isUpgrade isUpdate version k =
     (let k = k\<lparr>kc_EnableRbac := if_nil (kc_EnableRbac k) DefaultRBACEnabled,
            kc_MicrosoftAptRepositoryURL := EnsureString (kc_MicrosoftAptRepositoryURL k) DefaultMicrosoftAptRepositoryURL\<rparr>;
          k = (if \<not> IsRBACEnabled k \<and> IsKubernetesVersionGe version ''1.15.0'' \<and> isUpgrade
               then k\<lparr>kc_EnableRbac := Some True\<rparr> else k)
      in k\<lparr>kc_EnableAggregatedAPIs := (if IsRBACEnabled k then True else if isUpdate then False else kc_EnableAggregatedAPIs k),
          kc_EnableSecureKubelet := if_nil (kc_EnableSecureKubelet k) DefaultSecureKubeletEnabled,
          kc_UseInstanceMetadata := if_nil (kc_UseInstanceMetadata k)
            (if isAzureStack then DefaultAzureStackUseInstanceMetadata else DefaultUseInstanceMetadata)\<rparr>)"

definition load_balancer_sku :: "bool \<Rightarrow> string \<Rightarrow> string" where
  "load_balancer_sku isAzureStack sku =
     (let sku = (if isAzureStack \<and> sku \<noteq> DefaultAzureStackLoadBalancerSku then DefaultAzureStackLoadBalancerSku
            else EnsureString sku StandardLoadBalancerSku)
      in if equal_fold sku BasicLoadBalancerSku then BasicLoadBalancerSku
         else if equal_fold sku StandardLoadBalancerSku then StandardLoadBalancerSku
         else sku)"

definition load_balancer_defaults :: "bool \<Rightarrow> bool \<Rightarrow> kubernetes_config \<Rightarrow> kubernetes_config" where
  "load_balancer_defaults isAzureStack hasWindows k =
     (let sku = load_balancer_sku isAzureStack (kc_LoadBalancerSku k);
          standard = (sku = StandardLoadBalancerSku)
      in k\<lparr>kc_LoadBalancerSku := sku,
          kc_ExcludeMasterFromStandardLB := (if standard
            then if_nil (kc_ExcludeMasterFromStandardLB k) DefaultExcludeMasterFromStandardLB else kc_ExcludeMasterFromStandardLB k),
          kc_AzureCNIVersion := (if kc_NetworkPlugin k = NetworkPluginAzure
            then if hasWindows then AzureCniPluginVerWindows else AzureCniPluginVerLinux
            else kc_AzureCNIVersion k),
          kc_MaximumLoadBalancerRuleCount := if_zero (kc_MaximumLoadBalancerRuleCount k) DefaultMaximumLoadBalancerRuleCount,
          kc_ProxyMode := EnsureString (kc_ProxyMode k) DefaultKubeProxyMode,
          kc_OutboundRuleIdleTimeoutInMinutes := (if standard
            then if_zero (kc_OutboundRuleIdleTimeoutInMinutes k) DefaultOutboundRuleIdleTimeoutInMinutes
            else kc_OutboundRuleIdleTimeoutInMinutes k),
          kc_CloudProviderDisableOutboundSNAT := (if standard then if_nil (kc_CloudProviderDisableOutboundSNAT k) False else Some False),
          kc_ContainerRuntimeConfig := if_nil (kc_ContainerRuntimeConfig k) []\<rparr>)"

subsection \<open>The configuration as a whole\<close>

definition kubernetes_defaults ::
    "bool \<Rightarrow> bool \<Rightarrow> kubernetes_spec_config \<Rightarrow> string \<Rightarrow> properties \<Rightarrow> string \<Rightarrow> kubernetes_config \<Rightarrow> kubernetes_config result" where
  "kubernetes_defaults isUpgrade isScale spec key p version k =
     (let isUpdate = isUpgrade \<or> isScale; isAzureStack = IsAzureStackCloud p;
          k = image_defaults isAzureStack isUpgrade spec (translate_network_policy k)
      in bindR (etcd_version isUpgrade (kc_EtcdVersion k)) (\<lambda>etcd.
         bindR (identity_default isUpdate p (k\<lparr>kc_EtcdVersion := etcd\<rparr>)) (\<lambda>k.
         let k = network_plugin_defaults (HasWindows p) k;
             k = runtime_defaults isAzureStack isUpdate version k;
             k = subnet_defaults (p_FeatureFlags p) version k;
             k = cloud_provider_defaults isAzureStack (length (pools p)) version k;
             k = etcd_defaults isAzureStack (TotalNodes p) key k;
             k = access_defaults isAzureStack isUpgrade isUpdate version k
         in Inr (load_balancer_defaults isAzureStack (HasWindows p) k))))"

end
