(* ===== verification/OrchestratorDefaults.thy ===== *)
theory OrchestratorDefaults
  imports KubernetesDefaults ControlPlaneDefaults KubeletDefaults ComponentFacts
begin

section \<open>Defaults of the whole cluster (pkg/api/defaults.go)\<close>

text \<open>
  \<open>setOrchestratorDefaults\<close>: the defaults of the Kubernetes configuration, what follows from them for the masters
  and the pools, and the calls that set the flags, the addons and the components.
\<close>

subsection \<open>Masters\<close>

text \<open>The subnet and the first address of the masters, unless they are in a network of the user.\<close>

definition master_network :: "bool \<Rightarrow> bool \<Rightarrow> feature_flags option \<Rightarrow> string \<Rightarrow> master_profile \<Rightarrow> master_profile result" where
  "master_network isUpgrade azureCNI features clusterSubnet m =
     (let vmss = MasterProfile_IsVirtualMachineScaleSets m;
          reset = (\<not> isUpgrade \<or> mp_FirstConsecutiveStaticIP m = '''')
      in if MasterProfile_IsCustomVNET m then Inr m
      else if azureCNI
      then let subnets = split_on (CHR '','') clusterSubnet;
               m = m\<lparr>mp_Subnet := (if IsFeatureEnabled features ''EnableIPv6DualStack'' \<and> length subnets > 1
                       then hd subnets else clusterSubnet),
                     mp_SubnetIPv6 := DefaultKubernetesMasterSubnetIPv6\<rparr>
           in if \<not> reset then Inr m
              else if vmss
              then Inr (m\<lparr>mp_FirstConsecutiveStaticIP := DefaultFirstConsecutiveKubernetesStaticIPVMSS,
                mp_Subnet := DefaultKubernetesMasterSubnet, mp_AgentSubnet := DefaultKubernetesAgentSubnetVMSS\<rparr>)
              else bindR (GetFirstConsecutiveStaticIPAddress m (mp_Subnet m)) (\<lambda>ip. Inr (m\<lparr>mp_FirstConsecutiveStaticIP := ip\<rparr>))
      else let m = m\<lparr>mp_Subnet := DefaultKubernetesMasterSubnet, mp_SubnetIPv6 := DefaultKubernetesMasterSubnetIPv6\<rparr>
           in Inr (if \<not> reset then m
              else if vmss
              then m\<lparr>mp_FirstConsecutiveStaticIP := DefaultFirstConsecutiveKubernetesStaticIPVMSS,
                mp_AgentSubnet := DefaultKubernetesAgentSubnetVMSS\<rparr>
              else m\<lparr>mp_FirstConsecutiveStaticIP := DefaultFirstConsecutiveKubernetesStaticIP\<rparr>))"

text \<open>The names of distributions that are no longer built are replaced.\<close>

definition current_distro :: "string \<Rightarrow> string" where
  "current_distro distro =
     (if distro = AKSDockerEngine \<or> distro = AKS1604Deprecated then AKSUbuntu1604
      else if distro = AKS1804Deprecated then AKSUbuntu1804
      else distro)"

definition german_distro :: "string \<Rightarrow> bool \<Rightarrow> string \<Rightarrow> string" where
  "german_distro cloudName isAzureStack distro =
     (if cloudName = AzureGermanCloud then if isAzureStack then Ubuntu2204 else Ubuntu1804 else distro)"

definition master_distro :: "bool \<Rightarrow> string \<Rightarrow> bool \<Rightarrow> master_profile \<Rightarrow> master_profile" where
  "master_distro isUpdate cloudName isAzureStack m =
     (if mp_ImageRef m = None
      then m\<lparr>mp_Distro := german_distro cloudName isAzureStack
        (if mp_Distro m = '''' then if isAzureStack then AKSUbuntu2204 else AKSUbuntu1804
         else if isUpdate then current_distro (mp_Distro m) else mp_Distro m)\<rparr>
      else m)"

subsection \<open>Agent pools\<close>

definition pool_subnet :: "master_profile option \<Rightarrow> agent_pool_profile \<Rightarrow> agent_pool_profile" where
  "pool_subnet master a = (case master of None \<Rightarrow> a
     | Some m \<Rightarrow> if \<not> MasterProfile_IsCustomVNET m \<and> \<not> MasterProfile_IsVirtualMachineScaleSets m
       then a\<lparr>ap_Subnet := mp_Subnet m\<rparr> else a)"

definition pool_distro :: "bool \<Rightarrow> string \<Rightarrow> bool \<Rightarrow> agent_pool_profile \<Rightarrow> agent_pool_profile" where
  "pool_distro isUpdate cloudName isAzureStack a =
     (if ap_OSType a \<noteq> Windows \<and> ap_ImageRef a = None
      then a\<lparr>ap_Distro := german_distro cloudName isAzureStack
        (if ap_Distro a = ''''
         then if ap_OSDiskSizeGB a \<noteq> 0 \<and> ap_OSDiskSizeGB a < VHDDiskSizeAKS
           then if isAzureStack then Ubuntu2204 else Ubuntu1804
           else if isAzureStack then AKSUbuntu2204 else AKSUbuntu1804
         else if isUpdate then current_distro (ap_Distro a) else ap_Distro a)\<rparr>
      else a)"

definition pool_placement :: "kubernetes_config \<Rightarrow> agent_pool_profile \<Rightarrow> agent_pool_profile" where
  "pool_placement k a =
     (if ap_AvailabilityProfile a = VirtualMachineScaleSets
      then a\<lparr>ap_SinglePlacementGroup := if_nil (ap_SinglePlacementGroup a)
        (if kc_LoadBalancerSku k = StandardLoadBalancerSku then False else DefaultSinglePlacementGroup)\<rparr>
      else a)"

definition pool_orchestrator_defaults ::
    "bool \<Rightarrow> string \<Rightarrow> bool \<Rightarrow> kubernetes_config \<Rightarrow> master_profile option \<Rightarrow> agent_pool_profile \<Rightarrow> agent_pool_profile" where
  "pool_orchestrator_defaults isUpdate cloudName isAzureStack k master a =
     pool_placement k (pool_distro isUpdate cloudName isAzureStack (pool_subnet master a))"

subsection \<open>Addresses for pods\<close>

definition host_network_addons :: "string list" where
  "host_network_addons =
     [AADPodIdentityAddonName, AntreaAddonName, AzureNetworkPolicyAddonName, AzureDiskCSIDriverAddonName,
      AzureFileCSIDriverAddonName, CalicoAddonName, CiliumAddonName, CloudNodeManagerAddonName, FlannelAddonName,
      IPMASQAgentAddonName, KubeProxyAddonName, SecretsStoreCSIDriverAddonName]"

definition getPodIPAddressCountForAzureCNI :: "int \<Rightarrow> kubernetes_config \<Rightarrow> int" where
  "getPodIPAddressCountForAzureCNI kubeletMaxPods k =
     (let numHostNetworkPods = length (filter (IsAddonEnabled k) host_network_addons)
      in 1 + (kubeletMaxPods - int numHostNetworkPods))"

text \<open>\<open>strconv.Atoi\<close> of the flag; what it returns beside an error counts too.\<close>

definition max_pods :: "kubernetes_config option \<Rightarrow> int result" where
  "max_pods k = bindR (deref k) (\<lambda>k. Inr (fst (atoi (map_get (user_flags (kc_KubeletConfig k)) ''--max-pods''))))"

definition master_address_count :: "bool \<Rightarrow> master_profile \<Rightarrow> master_profile result" where
  "master_address_count azureCNI m =
     (if mp_IPAddressCount m \<noteq> 0 then Inr m
      else if azureCNI then bindR (max_pods (mp_KubernetesConfig m)) (\<lambda>n. Inr (m\<lparr>mp_IPAddressCount := 1 + n\<rparr>))
      else Inr (m\<lparr>mp_IPAddressCount := 1\<rparr>))"

definition pool_address_count :: "bool \<Rightarrow> kubernetes_config \<Rightarrow> agent_pool_profile \<Rightarrow> agent_pool_profile result" where
  "pool_address_count azureCNI k a =
     (if ap_IPAddressCount a \<noteq> 0 then Inr a
      else if azureCNI
      then bindR (max_pods (ap_KubernetesConfig a)) (\<lambda>n.
        Inr (a\<lparr>ap_IPAddressCount := (if IsWindows a then 1 + n else getPodIPAddressCountForAzureCNI n k)\<rparr>))
      else Inr (a\<lparr>ap_IPAddressCount := 1\<rparr>))"

definition set_address_counts :: "properties \<Rightarrow> properties result" where
  "set_address_counts p =
     bindR (deref (p_OrchestratorProfile p)) (\<lambda>orch.
     bindR (deref (op_KubernetesConfig orch)) (\<lambda>k.
     let azureCNI = IsAzureCNI orch in
     bindR (case p_MasterProfile p of None \<Rightarrow> Inr None
        | Some m \<Rightarrow> bindR (master_address_count azureCNI m) (\<lambda>m. Inr (Some m))) (\<lambda>master.
     bindR (mapR (pool_address_count azureCNI k) (pools p)) (\<lambda>as.
     Inr (p\<lparr>p_MasterProfile := master, p_AgentPoolProfiles := map_option (\<lambda>_. as) (p_AgentPoolProfiles p)\<rparr>)))))"

subsection \<open>setOrchestratorDefaults\<close>

text \<open>Everything up to the flags.\<close>

definition orchestrator_profiles ::
    "bool \<Rightarrow> bool \<Rightarrow> azure_environment_spec_config \<Rightarrow> string \<Rightarrow> string \<Rightarrow> kubernetes_config \<Rightarrow> properties \<Rightarrow>
     (kubernetes_config \<times> properties) result" where
  "orchestrator_profiles isUpgrade isScale cloudSpec key version k p =
     (let isUpdate = isUpgrade \<or> isScale; isAzureStack = IsAzureStackCloud p; cloudName = es_CloudName cloudSpec in
      bindR (kubernetes_defaults isUpgrade isScale (es_KubernetesSpecConfig cloudSpec) key p version k) (\<lambda>k.
      bindR (case p_MasterProfile p of None \<Rightarrow> Inr None
        | Some m \<Rightarrow> bindR (master_network isUpgrade (kc_NetworkPlugin k = NetworkPluginAzure) (p_FeatureFlags p) (kc_ClusterSubnet k) m)
            (\<lambda>m. Inr (Some (master_distro isUpdate cloudName isAzureStack m)))) (\<lambda>master.
      Inr (k, p\<lparr>p_MasterProfile := master,
        p_AgentPoolProfiles := map_option (map (pool_orchestrator_defaults isUpdate cloudName isAzureStack k master))
          (p_AgentPoolProfiles p)\<rparr>))))"

definition with_properties :: "container_service \<Rightarrow> properties result \<Rightarrow> container_service result" where
  "with_properties cs r = bindR r (\<lambda>p. Inr (cs\<lparr>cs_Properties := p\<rparr>))"

text \<open>The flags of every service, the addons, the addresses and the components.\<close>

definition service_defaults :: "cloud_specs \<Rightarrow> bool \<Rightarrow> container_service \<Rightarrow> container_service result" where
  "service_defaults specs isUpgrade cs =
     bindR (with_properties cs (setKubeletConfig isUpgrade (cs_Properties cs))) (\<lambda>cs.
     bindR (setAddonsConfig specs isUpgrade cs) (\<lambda>cs.
     bindR (with_properties cs (set_address_counts (cs_Properties cs))) (\<lambda>cs.
     bindR (with_properties cs (set_control_plane_flags cs)) (\<lambda>cs.
     bindR (setComponentsConfig specs isUpgrade cs) (\<lambda>cs.
     with_properties cs (setSysctlDConfig (cs_Properties cs)))))))"

definition setOrchestratorDefaults :: "cloud_specs \<Rightarrow> string \<Rightarrow> bool \<Rightarrow> bool \<Rightarrow> container_service \<Rightarrow> container_service result" where
  "setOrchestratorDefaults specs key isUpgrade isScale cs =
     (let p = cs_Properties cs in
      bindR (GetCloudSpecConfig specs cs) (\<lambda>cloudSpec.
      let orch = (case p_OrchestratorProfile p of None \<Rightarrow> zero_orchestrator_profile\<lparr>op_OrchestratorType := Kubernetes\<rparr> | Some o' \<Rightarrow> o');
          version = GetValidPatchVersion (op_OrchestratorType orch) (op_OrchestratorVersion orch) (isUpgrade \<or> isScale)
            (HasWindows p) (IsAzureStackCloud p);
          orch = orch\<lparr>op_OrchestratorVersion := version\<rparr>
      in if op_OrchestratorType orch \<noteq> Kubernetes
         then Inr (cs\<lparr>cs_Properties := p\<lparr>p_OrchestratorProfile := Some orch\<rparr>\<rparr>)
         else
           let k = (case op_KubernetesConfig orch of None \<Rightarrow> zero_kubernetes_config | Some k \<Rightarrow> k) in
           bindR (orchestrator_profiles isUpgrade isScale cloudSpec key version k p) (\<lambda>(k, p).
           service_defaults specs isUpgrade
             (cs\<lparr>cs_Properties := p\<lparr>p_OrchestratorProfile := Some (orch\<lparr>op_KubernetesConfig := Some k\<rparr>)\<rparr>\<rparr>))))"

end
