(* ===== verification/KubernetesFacts.thy ===== *)
theory KubernetesFacts
  imports KubernetesDefaults ProfileFacts Orchestrators
begin

section \<open>What the defaults of the Kubernetes configuration guarantee\<close>

text \<open>
  The order of version numbers; etcd is never downgraded; a cluster with both IP families has a subnet of each; and for each
  step of the defaults the fields that it keeps.
\<close>

subsection \<open>The order of version numbers\<close>

text \<open>The number at each place of a version, zero after its end, and the order of two such sequences.\<close>

definition numbers :: "string \<Rightarrow> nat \<Rightarrow> int" where
  "numbers v = number_at (split_on (CHR ''.'') v)"

definition earlier :: "(nat \<Rightarrow> int) \<Rightarrow> (nat \<Rightarrow> int) \<Rightarrow> bool" where
  "earlier f g \<longleftrightarrow> (\<exists>i. (\<forall>j<i. f j = g j) \<and> f i < g i)"

lemma numbers_end: "i \<ge> length (split_on (CHR ''.'') v) \<Longrightarrow> numbers v i = 0"
  by (simp add: numbers_def number_at_def)

lemma earlier_at: "f i \<noteq> g i \<Longrightarrow> \<forall>j<i. f j = g j \<Longrightarrow> earlier f g \<longleftrightarrow> f i < g i" for f g :: "nat \<Rightarrow> int"
  unfolding earlier_def by (metis linorder_neqE_nat order_less_irrefl)

text \<open>
  The comparison of \<open>pkg/versions\<close> orders versions place by place, as numbers: the first place where they differ
  decides, a missing place counts as zero, so that 1.9 comes before 1.10 and 1.2 equals 1.2.0.
\<close>

theorem compare_place_by_place:
  "compare v w = (if earlier (numbers v) (numbers w) then - 1 else if earlier (numbers w) (numbers v) then 1 else 0)"
proof -
  let ?m = "max (length (split_on (CHR ''.'') v)) (length (split_on (CHR ''.'') w))"
  let ?P = "\<lambda>i. numbers v i \<noteq> numbers w i"
  have c: "compare v w = (case find ?P [0..<?m] of None \<Rightarrow> 0 | Some i \<Rightarrow> if numbers v i > numbers w i then 1 else - 1)"
    by (simp add: compare_def numbers_def Let_def cong: option.case_cong)
  show ?thesis
  proof (cases "find ?P [0..<?m]")
    case None
    have "numbers v i = numbers w i" for i
    proof (cases "i < ?m")
      case True
      then show ?thesis using None by (simp add: find_None_iff)
    next
      case False
      then show ?thesis by (simp add: numbers_end)
    qed
    then show ?thesis using None by (simp add: c earlier_def)
  next
    case (Some i)
    then have i: "?P i" "\<forall>j<i. numbers v j = numbers w j" by (auto simp: find_Some_iff)
    then have "\<forall>j<i. numbers w j = numbers v j" by simp
    then show ?thesis using earlier_at [OF i] earlier_at [of "numbers w" i "numbers v"] i(1) by (auto simp: c Some)
  qed
qed

subsection \<open>etcd\<close>

lemma default_etcd_plain: "plain_version DefaultEtcdVersion"
  by (simp add: DefaultEtcdVersion_def semver_eval)

lemma semver_compare_skey: "semver_compare (semver_make a) (semver_make b) \<le> 0 \<longleftrightarrow> skey a \<le> skey b"
  by (simp add: skey_def semver_compare_key)

text \<open>
  C34: etcd is never downgraded. The version of a cluster is kept on every operation but an upgrade, and an upgrade
  moves to the later one of that version and the version of the engine.\<close>

theorem etcd_is_never_downgraded:
  assumes "plain_version v"
  shows "\<exists>v'. etcd_version isUpgrade v = Inr v' \<and> v' \<in> {v, DefaultEtcdVersion} \<and> (v' = v \<or> isUpgrade) \<and>
    semver_compare (semver_make v) (semver_make v') \<le> 0 \<and>
    (isUpgrade = False \<or> semver_compare (semver_make DefaultEtcdVersion) (semver_make v') \<le> 0)"
proof (cases "isUpgrade \<and> v \<noteq> DefaultEtcdVersion")
  case True
  obtain y where y: "y = v \<or> y = DefaultEtcdVersion" "GetMinVersion [v, DefaultEtcdVersion] True = Inr y"
      "skey y \<le> skey v" "skey y \<le> skey DefaultEtcdVersion"
    using GetMinVersion_least [of "[v, DefaultEtcdVersion]"] assms default_etcd_plain by auto
  have "etcd_version isUpgrade v = Inr (if y = v then DefaultEtcdVersion else v)"
    using True y(2) plain_version_nonempty [OF assms] by (simp add: etcd_version_def)
  then show ?thesis using True y by (auto simp: semver_compare_skey)
next
  case False
  then have "etcd_version isUpgrade v = Inr v" using plain_version_nonempty [OF assms] by (auto simp: etcd_version_def)
  then show ?thesis using False by (auto simp: semver_compare_skey)
qed

theorem etcd_is_never_downgraded_witness:
  "plain_version ''3.2.18'' \<and> (\<exists>v'. etcd_version True ''3.2.18'' = Inr v' \<and>
     semver_compare (semver_make ''3.2.18'') (semver_make v') \<le> 0)"
proof -
  have "plain_version ''3.2.18''" by (simp add: semver_eval)
  then show ?thesis using etcd_is_never_downgraded [of "''3.2.18''" True] by blast
qed

subsection \<open>Both IP families\<close>

definition is_ipv4 :: "string \<Rightarrow> bool" where
  "is_ipv4 subnet = (case ParseCIDR subnet of None \<Rightarrow> False | Some (ip, _) \<Rightarrow> To4 ip \<noteq> [])"

definition is_ipv6 :: "string \<Rightarrow> bool" where
  "is_ipv6 subnet = (case ParseCIDR subnet of None \<Rightarrow> False | Some (ip, _) \<Rightarrow> To4 ip = [])"

lemmas ipv4_eval = ParseCIDR_def parse_addr_def parse_ipv4_def parse_octet_def parse_prefix_length_def is_digit_eval digit_val_eval

lemma ipv4_families: "is_ipv4 DefaultKubernetesSubnet" "is_ipv4 DefaultKubernetesClusterSubnet" "is_ipv4 DefaultKubernetesServiceCIDR"
  by (simp_all add: is_ipv4_def DefaultKubernetesSubnet_def DefaultKubernetesClusterSubnet_def DefaultKubernetesServiceCIDR_def
      ipv4_eval To4_def As16_def v4_in_v6_prefix_def Let_def)

lemmas ipv6_eval = parse_ipv6_def parse_groups.simps hex_group_def hex_digit_def hex_val_def has_prefix_def expand_ellipsis_def

lemma starts_with_zero: "b # xs = replicate 10 0 @ ys \<longleftrightarrow> b = 0 \<and> xs = replicate 9 0 @ ys" for b :: byte
  by (simp add: eval_nat_numeral)

lemma ipv6_families: "is_ipv6 DefaultKubernetesClusterSubnetIPv6" "is_ipv6 DefaultKubernetesServiceCIDRIPv6" "is_ipv6 ''fc00::/8''"
  by (simp_all add: is_ipv6_def DefaultKubernetesClusterSubnetIPv6_def DefaultKubernetesServiceCIDRIPv6_def
      ipv4_eval ipv6_eval To4_def As16_def v4_in_v6_prefix_def Let_def starts_with_zero)

lemmas default_families = ipv4_families ipv6_families

lemma default_no_comma:
  "CHR '','' \<notin> set DefaultKubernetesSubnet" "CHR '','' \<notin> set DefaultKubernetesClusterSubnet"
  "CHR '','' \<notin> set DefaultKubernetesServiceCIDR" "CHR '','' \<notin> set DefaultKubernetesServiceCIDRIPv6"
  "CHR '','' \<notin> set (getDefaultKubernetesClusterSubnetIPv6 version)"
  by (simp_all add: DefaultKubernetesSubnet_def DefaultKubernetesClusterSubnet_def DefaultKubernetesServiceCIDR_def
      DefaultKubernetesServiceCIDRIPv6_def getDefaultKubernetesClusterSubnetIPv6_def DefaultKubernetesClusterSubnetIPv6_def)

lemma default_ipv6: "is_ipv6 (getDefaultKubernetesClusterSubnetIPv6 version)"
  using default_families by (simp add: getDefaultKubernetesClusterSubnetIPv6_def)

lemma split_two: "CHR '','' \<notin> set a \<Longrightarrow> CHR '','' \<notin> set b \<Longrightarrow> split_on (CHR '','') (join '','' [a, b]) = [a, b]"
  using split_on_join [of "[a, b]" "CHR '',''"] by simp

lemma split_single: "split_on d s = [t] \<Longrightarrow> s = t \<and> d \<notin> set s"
proof -
  assume "split_on d s = [t]"
  moreover from this have "s = t" using join_split_on [of d s] by simp
  moreover have "d \<notin> set s"
  proof
    assume "d \<in> set s"
    from split_list_first [OF this] obtain a b where "s = a @ d # b" "d \<notin> set a" by blast
    then show False using \<open>split_on d s = [t]\<close> by (simp add: split_on_append split_on_nonempty)
  qed
  ultimately show ?thesis by simp
qed

lemma both_families_single:
  assumes "CHR '','' \<notin> set s" and "ParseCIDR s \<noteq> None" and "CHR '','' \<notin> set d4" and "CHR '','' \<notin> set d6" and "is_ipv4 d4" and "is_ipv6 d6"
  shows "\<exists>a b. split_on (CHR '','') (both_families d4 d6 s) = [a, b] \<and> is_ipv4 a \<and> is_ipv6 b \<and> s \<in> {a, b}"
proof -
  obtain ip n where p: "ParseCIDR s = Some (ip, n)" using assms(2) by fastforce
  have "both_families d4 d6 s = join '','' (if To4 ip \<noteq> [] then [s, d6] else [d4, s])"
    using split_on_single [OF assms(1)] by (simp add: both_families_def p)
  moreover have "is_ipv4 s \<longleftrightarrow> To4 ip \<noteq> []" "is_ipv6 s \<longleftrightarrow> To4 ip = []" by (simp_all add: is_ipv4_def is_ipv6_def p)
  ultimately show ?thesis
    using assms split_two [OF assms(1) assms(4)] split_two [OF assms(3) assms(1)] by (cases "To4 ip = []") auto
qed

text \<open>
  C35: a cluster with both IP families gets exactly two cluster subnets and two service subnets, the first of each in IPv4
  and the second in IPv6, when the user gives none or one valid subnet of either family; and that one is kept.\<close>

theorem dual_stack_subnets:
  assumes "IsFeatureEnabled features ''EnableIPv6DualStack''"
    and "kc_ClusterSubnet k = '''' \<or> (CHR '','' \<notin> set (kc_ClusterSubnet k) \<and> ParseCIDR (kc_ClusterSubnet k) \<noteq> None)"
    and "kc_ServiceCIDR k = '''' \<or> (CHR '','' \<notin> set (kc_ServiceCIDR k) \<and> ParseCIDR (kc_ServiceCIDR k) \<noteq> None)"
    and "k' = subnet_defaults features version k"
  shows "(\<exists>a b. split_on (CHR '','') (kc_ClusterSubnet k') = [a, b] \<and> is_ipv4 a \<and> is_ipv6 b \<and> kc_ClusterSubnet k \<in> {'''', a, b}) \<and>
    (\<exists>a b. split_on (CHR '','') (kc_ServiceCIDR k') = [a, b] \<and> is_ipv4 a \<and> is_ipv6 b \<and> kc_ServiceCIDR k \<in> {'''', a, b})"
proof (intro conjI)
  let ?d4 = "if kc_NetworkPlugin k = NetworkPluginAzure then DefaultKubernetesSubnet else DefaultKubernetesClusterSubnet"
  let ?d6 = "getDefaultKubernetesClusterSubnetIPv6 version"
  have d: "CHR '','' \<notin> set ?d4" "CHR '','' \<notin> set ?d6" "is_ipv4 ?d4" "is_ipv6 ?d6"
    using default_no_comma default_families default_ipv6 by simp_all
  show "\<exists>a b. split_on (CHR '','') (kc_ClusterSubnet k') = [a, b] \<and> is_ipv4 a \<and> is_ipv6 b \<and> kc_ClusterSubnet k \<in> {'''', a, b}"
  proof (cases "kc_ClusterSubnet k = ''''")
    case True
    then have "kc_ClusterSubnet k' = join '','' [?d4, ?d6]" by (simp add: assms(1,4) subnet_defaults_def cluster_subnet_def)
    then show ?thesis using split_two [OF d(1,2)] d True by auto
  next
    case False
    then have "kc_ClusterSubnet k' = both_families ?d4 ?d6 (kc_ClusterSubnet k)"
      by (simp add: assms(1,4) subnet_defaults_def cluster_subnet_def)
    then show ?thesis using both_families_single [OF _ _ d(1,2,3,4)] assms(2) False by fastforce
  qed
  note d = default_no_comma(3,4) default_families(3,5)
  show "\<exists>a b. split_on (CHR '','') (kc_ServiceCIDR k') = [a, b] \<and> is_ipv4 a \<and> is_ipv6 b \<and> kc_ServiceCIDR k \<in> {'''', a, b}"
  proof (cases "kc_ServiceCIDR k = ''''")
    case True
    then have "kc_ServiceCIDR k' = join '','' [DefaultKubernetesServiceCIDR, DefaultKubernetesServiceCIDRIPv6]"
      by (simp add: assms(1,4) subnet_defaults_def service_cidr_def)
    then show ?thesis using split_two [OF d(1,2)] d True by auto
  next
    case False
    then have "kc_ServiceCIDR k' = both_families DefaultKubernetesServiceCIDR DefaultKubernetesServiceCIDRIPv6 (kc_ServiceCIDR k)"
      by (simp add: assms(1,4) subnet_defaults_def service_cidr_def)
    then show ?thesis using both_families_single [OF _ _ d] assms(3) False by fastforce
  qed
qed

theorem dual_stack_subnets_witness:
  "\<exists>a b. split_on (CHR '','') (kc_ClusterSubnet (subnet_defaults (Some (zero_feature_flags\<lparr>ff_EnableIPv6DualStack := True\<rparr>)) ''1.29.10''
     zero_kubernetes_config)) = [a, b] \<and> is_ipv4 a \<and> is_ipv6 b"
proof -
  have "IsFeatureEnabled (Some (zero_feature_flags\<lparr>ff_EnableIPv6DualStack := True\<rparr>)) ''EnableIPv6DualStack''"
    by (simp add: IsFeatureEnabled_def)
  from dual_stack_subnets [OF this _ _ refl, of zero_kubernetes_config "''1.29.10''"]
  show ?thesis by (auto simp: zero_kubernetes_config_def)
qed

subsection \<open>The fields that a step keeps\<close>

text \<open>For each step, the fields that it leaves alone and that an earlier step has set.\<close>

lemma translate_network_policy_keeps [simp]:
  "kc_ContainerRuntime (translate_network_policy k) = kc_ContainerRuntime k"
  "kc_EtcdDiskSizeGB (translate_network_policy k) = kc_EtcdDiskSizeGB k"
  "kc_EtcdVersion (translate_network_policy k) = kc_EtcdVersion k"
  by (simp_all add: translate_network_policy_def Let_def)

lemma image_defaults_keeps [simp]:
  "kc_ContainerRuntime (image_defaults a u s k) = kc_ContainerRuntime k"
  "kc_EtcdDiskSizeGB (image_defaults a u s k) = kc_EtcdDiskSizeGB k"
  "kc_EtcdVersion (image_defaults a u s k) = kc_EtcdVersion k"
  by (simp_all add: image_defaults_def azure_stack_images_def image_base_upgrade_def image_base_defaults_def Let_def)

lemma network_plugin_defaults_keeps [simp]:
  "kc_KubernetesImageBase (network_plugin_defaults w k) = kc_KubernetesImageBase k"
  "kc_KubernetesImageBaseType (network_plugin_defaults w k) = kc_KubernetesImageBaseType k"
  "kc_MCRKubernetesImageBase (network_plugin_defaults w k) = kc_MCRKubernetesImageBase k"
  "kc_ContainerRuntime (network_plugin_defaults w k) = kc_ContainerRuntime k"
  "kc_EtcdDiskSizeGB (network_plugin_defaults w k) = kc_EtcdDiskSizeGB k"
  "kc_EtcdVersion (network_plugin_defaults w k) = kc_EtcdVersion k"
  by (simp_all add: network_plugin_defaults_def Let_def)

lemma runtime_defaults_keeps [simp]:
  "kc_NetworkPlugin (runtime_defaults a u v k) = kc_NetworkPlugin k"
  "kc_KubernetesImageBase (runtime_defaults a u v k) = kc_KubernetesImageBase k"
  "kc_KubernetesImageBaseType (runtime_defaults a u v k) = kc_KubernetesImageBaseType k"
  "kc_MCRKubernetesImageBase (runtime_defaults a u v k) = kc_MCRKubernetesImageBase k"
  "kc_NetworkMode (runtime_defaults a u v k) = kc_NetworkMode k"
  "kc_EtcdDiskSizeGB (runtime_defaults a u v k) = kc_EtcdDiskSizeGB k"
  "kc_EtcdVersion (runtime_defaults a u v k) = kc_EtcdVersion k"
  by (simp_all add: runtime_defaults_def Let_def)

lemma subnet_defaults_keeps [simp]:
  "kc_NetworkPlugin (subnet_defaults f v k) = kc_NetworkPlugin k"
  "kc_KubernetesImageBase (subnet_defaults f v k) = kc_KubernetesImageBase k"
  "kc_KubernetesImageBaseType (subnet_defaults f v k) = kc_KubernetesImageBaseType k"
  "kc_MCRKubernetesImageBase (subnet_defaults f v k) = kc_MCRKubernetesImageBase k"
  "kc_NetworkMode (subnet_defaults f v k) = kc_NetworkMode k"
  "kc_ContainerRuntime (subnet_defaults f v k) = kc_ContainerRuntime k"
  "kc_MobyVersion (subnet_defaults f v k) = kc_MobyVersion k"
  "kc_ContainerdVersion (subnet_defaults f v k) = kc_ContainerdVersion k"
  "kc_WindowsContainerdURL (subnet_defaults f v k) = kc_WindowsContainerdURL k"
  "kc_EtcdDiskSizeGB (subnet_defaults f v k) = kc_EtcdDiskSizeGB k"
  "kc_EtcdVersion (subnet_defaults f v k) = kc_EtcdVersion k"
  by (simp_all add: subnet_defaults_def)

lemma cloud_provider_defaults_keeps [simp]:
  "kc_NetworkPlugin (cloud_provider_defaults a n v k) = kc_NetworkPlugin k"
  "kc_KubernetesImageBase (cloud_provider_defaults a n v k) = kc_KubernetesImageBase k"
  "kc_KubernetesImageBaseType (cloud_provider_defaults a n v k) = kc_KubernetesImageBaseType k"
  "kc_MCRKubernetesImageBase (cloud_provider_defaults a n v k) = kc_MCRKubernetesImageBase k"
  "kc_NetworkMode (cloud_provider_defaults a n v k) = kc_NetworkMode k"
  "kc_ContainerRuntime (cloud_provider_defaults a n v k) = kc_ContainerRuntime k"
  "kc_MobyVersion (cloud_provider_defaults a n v k) = kc_MobyVersion k"
  "kc_ContainerdVersion (cloud_provider_defaults a n v k) = kc_ContainerdVersion k"
  "kc_WindowsContainerdURL (cloud_provider_defaults a n v k) = kc_WindowsContainerdURL k"
  "kc_ClusterSubnet (cloud_provider_defaults a n v k) = kc_ClusterSubnet k"
  "kc_GCHighThreshold (cloud_provider_defaults a n v k) = kc_GCHighThreshold k"
  "kc_GCLowThreshold (cloud_provider_defaults a n v k) = kc_GCLowThreshold k"
  "kc_DNSServiceIP (cloud_provider_defaults a n v k) = kc_DNSServiceIP k"
  "kc_DockerBridgeSubnet (cloud_provider_defaults a n v k) = kc_DockerBridgeSubnet k"
  "kc_ServiceCIDR (cloud_provider_defaults a n v k) = kc_ServiceCIDR k"
  "kc_EtcdDiskSizeGB (cloud_provider_defaults a n v k) = kc_EtcdDiskSizeGB k"
  "kc_EtcdVersion (cloud_provider_defaults a n v k) = kc_EtcdVersion k"
  by (simp_all add: cloud_provider_defaults_def SetCloudProviderBackoffDefaults_def SetCloudProviderRateLimitDefaults_def Let_def)

lemma etcd_defaults_keeps [simp]:
  "kc_NetworkPlugin (etcd_defaults a i key k) = kc_NetworkPlugin k"
  "kc_KubernetesImageBase (etcd_defaults a i key k) = kc_KubernetesImageBase k"
  "kc_KubernetesImageBaseType (etcd_defaults a i key k) = kc_KubernetesImageBaseType k"
  "kc_MCRKubernetesImageBase (etcd_defaults a i key k) = kc_MCRKubernetesImageBase k"
  "kc_NetworkMode (etcd_defaults a i key k) = kc_NetworkMode k"
  "kc_ContainerRuntime (etcd_defaults a i key k) = kc_ContainerRuntime k"
  "kc_MobyVersion (etcd_defaults a i key k) = kc_MobyVersion k"
  "kc_ContainerdVersion (etcd_defaults a i key k) = kc_ContainerdVersion k"
  "kc_WindowsContainerdURL (etcd_defaults a i key k) = kc_WindowsContainerdURL k"
  "kc_ClusterSubnet (etcd_defaults a i key k) = kc_ClusterSubnet k"
  "kc_GCHighThreshold (etcd_defaults a i key k) = kc_GCHighThreshold k"
  "kc_GCLowThreshold (etcd_defaults a i key k) = kc_GCLowThreshold k"
  "kc_DNSServiceIP (etcd_defaults a i key k) = kc_DNSServiceIP k"
  "kc_DockerBridgeSubnet (etcd_defaults a i key k) = kc_DockerBridgeSubnet k"
  "kc_ServiceCIDR (etcd_defaults a i key k) = kc_ServiceCIDR k"
  "kc_CloudProviderBackoff (etcd_defaults a i key k) = kc_CloudProviderBackoff k"
  "kc_CloudProviderRateLimit (etcd_defaults a i key k) = kc_CloudProviderRateLimit k"
  "kc_CloudProviderRateLimitBucket (etcd_defaults a i key k) = kc_CloudProviderRateLimitBucket k"
  "kc_CloudProviderRateLimitBucketWrite (etcd_defaults a i key k) = kc_CloudProviderRateLimitBucketWrite k"
  "kc_CloudProviderRateLimitQPS (etcd_defaults a i key k) = kc_CloudProviderRateLimitQPS k"
  "kc_CloudProviderRateLimitQPSWrite (etcd_defaults a i key k) = kc_CloudProviderRateLimitQPSWrite k"
  "kc_EtcdVersion (etcd_defaults a i key k) = kc_EtcdVersion k"
  by (simp_all add: etcd_defaults_def)

lemma access_defaults_keeps [simp]:
  "kc_NetworkPlugin (access_defaults a u b v k) = kc_NetworkPlugin k"
  "kc_KubernetesImageBase (access_defaults a u b v k) = kc_KubernetesImageBase k"
  "kc_KubernetesImageBaseType (access_defaults a u b v k) = kc_KubernetesImageBaseType k"
  "kc_MCRKubernetesImageBase (access_defaults a u b v k) = kc_MCRKubernetesImageBase k"
  "kc_NetworkMode (access_defaults a u b v k) = kc_NetworkMode k"
  "kc_ContainerRuntime (access_defaults a u b v k) = kc_ContainerRuntime k"
  "kc_MobyVersion (access_defaults a u b v k) = kc_MobyVersion k"
  "kc_ContainerdVersion (access_defaults a u b v k) = kc_ContainerdVersion k"
  "kc_WindowsContainerdURL (access_defaults a u b v k) = kc_WindowsContainerdURL k"
  "kc_ClusterSubnet (access_defaults a u b v k) = kc_ClusterSubnet k"
  "kc_GCHighThreshold (access_defaults a u b v k) = kc_GCHighThreshold k"
  "kc_GCLowThreshold (access_defaults a u b v k) = kc_GCLowThreshold k"
  "kc_DNSServiceIP (access_defaults a u b v k) = kc_DNSServiceIP k"
  "kc_DockerBridgeSubnet (access_defaults a u b v k) = kc_DockerBridgeSubnet k"
  "kc_ServiceCIDR (access_defaults a u b v k) = kc_ServiceCIDR k"
  "kc_CloudProviderBackoff (access_defaults a u b v k) = kc_CloudProviderBackoff k"
  "kc_CloudProviderRateLimit (access_defaults a u b v k) = kc_CloudProviderRateLimit k"
  "kc_CloudProviderRateLimitBucket (access_defaults a u b v k) = kc_CloudProviderRateLimitBucket k"
  "kc_CloudProviderRateLimitBucketWrite (access_defaults a u b v k) = kc_CloudProviderRateLimitBucketWrite k"
  "kc_CloudProviderRateLimitQPS (access_defaults a u b v k) = kc_CloudProviderRateLimitQPS k"
  "kc_CloudProviderRateLimitQPSWrite (access_defaults a u b v k) = kc_CloudProviderRateLimitQPSWrite k"
  "kc_PrivateCluster (access_defaults a u b v k) = kc_PrivateCluster k"
  "kc_EtcdDiskSizeGB (access_defaults a u b v k) = kc_EtcdDiskSizeGB k"
  "kc_EtcdStorageLimitGB (access_defaults a u b v k) = kc_EtcdStorageLimitGB k"
  "kc_EtcdVersion (access_defaults a u b v k) = kc_EtcdVersion k"
  by (simp_all add: access_defaults_def Let_def)

lemma load_balancer_defaults_keeps [simp]:
  "kc_NetworkPlugin (load_balancer_defaults a w k) = kc_NetworkPlugin k"
  "kc_KubernetesImageBase (load_balancer_defaults a w k) = kc_KubernetesImageBase k"
  "kc_KubernetesImageBaseType (load_balancer_defaults a w k) = kc_KubernetesImageBaseType k"
  "kc_MCRKubernetesImageBase (load_balancer_defaults a w k) = kc_MCRKubernetesImageBase k"
  "kc_NetworkMode (load_balancer_defaults a w k) = kc_NetworkMode k"
  "kc_ContainerRuntime (load_balancer_defaults a w k) = kc_ContainerRuntime k"
  "kc_MobyVersion (load_balancer_defaults a w k) = kc_MobyVersion k"
  "kc_ContainerdVersion (load_balancer_defaults a w k) = kc_ContainerdVersion k"
  "kc_WindowsContainerdURL (load_balancer_defaults a w k) = kc_WindowsContainerdURL k"
  "kc_ClusterSubnet (load_balancer_defaults a w k) = kc_ClusterSubnet k"
  "kc_GCHighThreshold (load_balancer_defaults a w k) = kc_GCHighThreshold k"
  "kc_GCLowThreshold (load_balancer_defaults a w k) = kc_GCLowThreshold k"
  "kc_DNSServiceIP (load_balancer_defaults a w k) = kc_DNSServiceIP k"
  "kc_DockerBridgeSubnet (load_balancer_defaults a w k) = kc_DockerBridgeSubnet k"
  "kc_ServiceCIDR (load_balancer_defaults a w k) = kc_ServiceCIDR k"
  "kc_CloudProviderBackoff (load_balancer_defaults a w k) = kc_CloudProviderBackoff k"
  "kc_CloudProviderRateLimit (load_balancer_defaults a w k) = kc_CloudProviderRateLimit k"
  "kc_CloudProviderRateLimitBucket (load_balancer_defaults a w k) = kc_CloudProviderRateLimitBucket k"
  "kc_CloudProviderRateLimitBucketWrite (load_balancer_defaults a w k) = kc_CloudProviderRateLimitBucketWrite k"
  "kc_CloudProviderRateLimitQPS (load_balancer_defaults a w k) = kc_CloudProviderRateLimitQPS k"
  "kc_CloudProviderRateLimitQPSWrite (load_balancer_defaults a w k) = kc_CloudProviderRateLimitQPSWrite k"
  "kc_PrivateCluster (load_balancer_defaults a w k) = kc_PrivateCluster k"
  "kc_EtcdDiskSizeGB (load_balancer_defaults a w k) = kc_EtcdDiskSizeGB k"
  "kc_EtcdStorageLimitGB (load_balancer_defaults a w k) = kc_EtcdStorageLimitGB k"
  "kc_EnableRbac (load_balancer_defaults a w k) = kc_EnableRbac k"
  "kc_EnableSecureKubelet (load_balancer_defaults a w k) = kc_EnableSecureKubelet k"
  "kc_UseInstanceMetadata (load_balancer_defaults a w k) = kc_UseInstanceMetadata k"
  "kc_EtcdVersion (load_balancer_defaults a w k) = kc_EtcdVersion k"
  by (simp_all add: load_balancer_defaults_def Let_def)


end
