(* ===== verification/KubernetesComplete.thy ===== *)
theory KubernetesComplete
  imports KubernetesFacts
begin

section \<open>The Kubernetes configuration is complete\<close>

text \<open>
  After the defaults every setting that the engine reads without a test has a value, and on Azure Stack the settings are
  those that the cloud offers.
\<close>

subsection \<open>Every setting has a value\<close>

lemma ensured_string [simp]: "d \<noteq> '''' \<Longrightarrow> EnsureString s d \<noteq> ''''"
  by (simp add: EnsureString_def)

lemma ensured_number [simp]: "d \<noteq> 0 \<Longrightarrow> if_zero x d \<noteq> 0"
  by (simp add: if_zero_def)

lemma ensured_pointer [simp]: "if_nil x d \<noteq> None"
  by (simp add: if_nil_def split: option.split)

definition has_network :: "kubernetes_config \<Rightarrow> bool" where
  "has_network k \<longleftrightarrow> kc_NetworkPlugin k \<noteq> '''' \<and> (kc_NetworkPlugin k = NetworkPluginAzure \<longrightarrow> kc_NetworkMode k \<noteq> '''') \<and>
     kc_ClusterSubnet k \<noteq> '''' \<and> kc_ServiceCIDR k \<noteq> '''' \<and> kc_DNSServiceIP k \<noteq> '''' \<and> kc_DockerBridgeSubnet k \<noteq> '''' \<and>
     kc_ProxyMode k \<noteq> '''' \<and> kc_LoadBalancerSku k \<noteq> '''' \<and> kc_MaximumLoadBalancerRuleCount k \<noteq> 0 \<and>
     kc_CloudProviderDisableOutboundSNAT k \<noteq> None"

definition has_runtime :: "kubernetes_config \<Rightarrow> bool" where
  "has_runtime k \<longleftrightarrow> kc_ContainerRuntime k \<noteq> '''' \<and> (kc_ContainerRuntime k = Docker \<longrightarrow> kc_MobyVersion k \<noteq> '''') \<and>
     (kc_ContainerRuntime k = Containerd \<longrightarrow> kc_ContainerdVersion k \<noteq> '''' \<and> kc_WindowsContainerdURL k \<noteq> '''') \<and>
     kc_KubernetesImageBase k \<noteq> '''' \<and> last (kc_KubernetesImageBase k) = CHR ''/'' \<and> kc_KubernetesImageBaseType k \<noteq> '''' \<and>
     kc_MCRKubernetesImageBase k \<noteq> '''' \<and> kc_GCHighThreshold k \<noteq> 0 \<and> kc_GCLowThreshold k \<noteq> 0"

definition has_control_plane :: "kubernetes_config \<Rightarrow> bool" where
  "has_control_plane k \<longleftrightarrow> kc_EtcdVersion k \<noteq> '''' \<and> kc_EtcdDiskSizeGB k \<noteq> '''' \<and> kc_EtcdStorageLimitGB k \<noteq> 0 \<and>
     kc_EnableRbac k \<noteq> None \<and> kc_EnableSecureKubelet k \<noteq> None \<and> kc_UseInstanceMetadata k \<noteq> None \<and>
     kc_CloudProviderBackoff k \<noteq> None \<and> kc_CloudProviderRateLimit k \<noteq> None \<and> kc_CloudProviderRateLimitBucket k \<noteq> 0 \<and>
     kc_CloudProviderRateLimitQPS k \<noteq> 0 \<and> kc_CloudProviderRateLimitBucketWrite k \<noteq> 0 \<and> kc_CloudProviderRateLimitQPSWrite k \<noteq> 0 \<and>
     kc_PrivateCluster k \<noteq> None \<and> pc_Enabled (the (kc_PrivateCluster k)) \<noteq> None \<and>
     pc_EnableHostsConfigAgent (the (kc_PrivateCluster k)) \<noteq> None"

text \<open>The steps after the translation of the network policy and the images.\<close>

definition later_defaults :: "bool \<Rightarrow> bool \<Rightarrow> string \<Rightarrow> properties \<Rightarrow> string \<Rightarrow> kubernetes_config \<Rightarrow> kubernetes_config" where
  "later_defaults isUpgrade isUpdate key p version k =
     load_balancer_defaults (IsAzureStackCloud p) (HasWindows p)
       (access_defaults (IsAzureStackCloud p) isUpgrade isUpdate version
       (etcd_defaults (IsAzureStackCloud p) (TotalNodes p) key
       (cloud_provider_defaults (IsAzureStackCloud p) (length (pools p)) version
       (subnet_defaults (p_FeatureFlags p) version
       (runtime_defaults (IsAzureStackCloud p) isUpdate version
       (network_plugin_defaults (HasWindows p) k))))))"

lemma identity_default_cases:
  "identity_default up p k = Inr k' \<Longrightarrow> k' = k \<or> k' = k\<lparr>kc_UseManagedIdentity := Some True\<rparr>"
  by (auto simp: identity_default_def bindR_Inr_iff split: if_splits)

lemma kubernetes_defaults_steps:
  assumes "kubernetes_defaults isUpgrade isScale spec key p version k = Inr k'"
  obtains etcd id where "etcd_version isUpgrade (kc_EtcdVersion k) = Inr etcd"
    and "k' = later_defaults isUpgrade (isUpgrade \<or> isScale) key p version
      (image_defaults (IsAzureStackCloud p) isUpgrade spec (translate_network_policy k)
        \<lparr>kc_EtcdVersion := etcd, kc_UseManagedIdentity := id\<rparr>)"
proof -
  let ?k = "image_defaults (IsAzureStackCloud p) isUpgrade spec (translate_network_policy k)"
  obtain etcd k1 where 1: "etcd_version isUpgrade (kc_EtcdVersion k) = Inr etcd"
      "identity_default (isUpgrade \<or> isScale) p (?k\<lparr>kc_EtcdVersion := etcd\<rparr>) = Inr k1"
      "k' = later_defaults isUpgrade (isUpgrade \<or> isScale) key p version k1"
    using assms by (auto simp: kubernetes_defaults_def later_defaults_def bindR_Inr_iff Let_def)
  have "k1 = ?k\<lparr>kc_EtcdVersion := etcd, kc_UseManagedIdentity := kc_UseManagedIdentity ?k\<rparr> \<or>
      k1 = ?k\<lparr>kc_EtcdVersion := etcd, kc_UseManagedIdentity := Some True\<rparr>"
    using identity_default_cases [OF 1(2)] by auto
  then show thesis using 1 that by blast
qed

lemma joined_two [simp]: "join '','' [a, b] \<noteq> ''''"
  by simp

lemma both_families_nonempty [simp]: "s \<noteq> '''' \<Longrightarrow> both_families d4 d6 s \<noteq> ''''"
  using join_split_on [of "CHR '',''" s]
  by (auto simp: both_families_def split: list.split option.split)

lemma subnets_nonempty: "cluster_subnet f v c s \<noteq> ''''" "service_cidr f s \<noteq> ''''"
  by (simp_all add: cluster_subnet_def service_cidr_def Let_def DefaultKubernetesSubnet_def DefaultKubernetesClusterSubnet_def
      DefaultKubernetesClusterSubnetIPv6_def DefaultKubernetesServiceCIDR_def DefaultKubernetesServiceCIDRIPv6_def)

lemma subnet_defaults_complete:
  "kc_ClusterSubnet (subnet_defaults f v k) \<noteq> ''''" "kc_ServiceCIDR (subnet_defaults f v k) \<noteq> ''''"
  "kc_DNSServiceIP (subnet_defaults f v k) \<noteq> ''''" "kc_DockerBridgeSubnet (subnet_defaults f v k) \<noteq> ''''"
  "kc_GCHighThreshold (subnet_defaults f v k) \<noteq> 0" "kc_GCLowThreshold (subnet_defaults f v k) \<noteq> 0"
  by (simp_all add: subnet_defaults_def subnets_nonempty DefaultKubernetesDNSServiceIPv6_def DefaultKubernetesDNSServiceIP_def
      DefaultDockerBridgeSubnet_def DefaultKubernetesGCHighThreshold_def DefaultKubernetesGCLowThreshold_def)

lemma network_plugin_complete:
  "kc_NetworkPlugin (network_plugin_defaults w k) \<noteq> ''''"
  "kc_NetworkPlugin (network_plugin_defaults w k) = NetworkPluginAzure \<Longrightarrow> kc_NetworkMode (network_plugin_defaults w k) \<noteq> ''''"
  by (simp_all add: network_plugin_defaults_def Let_def DefaultNetworkPluginWindows_def DefaultNetworkPlugin_def
      NetworkPluginKubenet_def NetworkPluginAzure_def NetworkModeTransparent_def)

lemma load_balancer_complete:
  "kc_LoadBalancerSku (load_balancer_defaults a w k) \<noteq> ''''" "kc_ProxyMode (load_balancer_defaults a w k) \<noteq> ''''"
  "kc_MaximumLoadBalancerRuleCount (load_balancer_defaults a w k) \<noteq> 0"
  by (simp_all add: load_balancer_defaults_def Let_def load_balancer_sku_def BasicLoadBalancerSku_def StandardLoadBalancerSku_def
      DefaultAzureStackLoadBalancerSku_def DefaultKubeProxyMode_def KubeProxyModeIPTables_def DefaultMaximumLoadBalancerRuleCount_def)

lemma load_balancer_snat: "kc_CloudProviderDisableOutboundSNAT (load_balancer_defaults a w k) \<noteq> None"
  unfolding load_balancer_defaults_def Let_def by (cases "load_balancer_sku a (kc_LoadBalancerSku k) = StandardLoadBalancerSku") simp_all

abbreviation chosen_runtime :: "bool \<Rightarrow> string \<Rightarrow> string \<Rightarrow> string" where
  "chosen_runtime a v runtime \<equiv> EnsureString runtime (if a \<and> IsKubernetesVersionGe v ''1.24.0'' then Containerd else DefaultContainerRuntime)"

lemma runtime_value:
  "kc_ContainerRuntime (runtime_defaults a u v k) = chosen_runtime a v (kc_ContainerRuntime k)"
  "chosen_runtime a v (kc_ContainerRuntime k) = Docker \<Longrightarrow> kc_MobyVersion (runtime_defaults a u v k) = (if u then DefaultMobyVersion else EnsureString (kc_MobyVersion k) DefaultMobyVersion)"
  "chosen_runtime a v (kc_ContainerRuntime k) = Containerd \<Longrightarrow> kc_ContainerdVersion (runtime_defaults a u v k) =
     (if u then DefaultContainerdVersion else EnsureString (kc_ContainerdVersion k) DefaultContainerdVersion)"
  "chosen_runtime a v (kc_ContainerRuntime k) = Containerd \<Longrightarrow> kc_WindowsContainerdURL (runtime_defaults a u v k) =
     (if u then DefaultWindowsContainerdURL else EnsureString (kc_WindowsContainerdURL k) DefaultWindowsContainerdURL)"
  by (simp_all add: runtime_defaults_def Let_def Docker_def Containerd_def)

lemma runtime_complete:
  "kc_ContainerRuntime (runtime_defaults a u v k) \<noteq> ''''"
  "kc_ContainerRuntime (runtime_defaults a u v k) = Docker \<Longrightarrow> kc_MobyVersion (runtime_defaults a u v k) \<noteq> ''''"
  "kc_ContainerRuntime (runtime_defaults a u v k) = Containerd \<Longrightarrow> kc_ContainerdVersion (runtime_defaults a u v k) \<noteq> '''' \<and>
     kc_WindowsContainerdURL (runtime_defaults a u v k) \<noteq> ''''"
  by (simp_all add: runtime_value DefaultContainerRuntime_def Docker_def Containerd_def DefaultMobyVersion_def
      DefaultContainerdVersion_def DefaultWindowsContainerdURL_def)

lemma image_complete:
  assumes "ks_MCRKubernetesImageBase spec \<noteq> ''''" and "last (ks_MCRKubernetesImageBase spec) = CHR ''/''"
  shows "kc_KubernetesImageBase (image_defaults a u spec k) \<noteq> ''''" "last (kc_KubernetesImageBase (image_defaults a u spec k)) = CHR ''/''"
    "kc_KubernetesImageBaseType (image_defaults a u spec k) \<noteq> ''''" "kc_MCRKubernetesImageBase (image_defaults a u spec k) \<noteq> ''''"
  using assms by (simp_all add: image_defaults_def Let_def image_base_defaults_def KubernetesImageBaseTypeMCR_def)

lemma cloud_provider_complete:
  "kc_CloudProviderBackoff (cloud_provider_defaults a n v k) \<noteq> None" "kc_CloudProviderRateLimit (cloud_provider_defaults a n v k) \<noteq> None"
  by (simp_all add: cloud_provider_defaults_def SetCloudProviderBackoffDefaults_def SetCloudProviderRateLimitDefaults_def Let_def)

text \<open>The rate limits. The ratio of rate and bucket is at least the minimum, unless the user chose otherwise.\<close>

lemmas rate_limit_values = DefaultKubernetesCloudProviderRateLimitBucket_def DefaultKubernetesCloudProviderRateLimitBucketWrite_def
  DefaultAzureStackKubernetesCloudProviderRateLimitBucket_def DefaultAzureStackKubernetesCloudProviderRateLimitBucketWrite_def
  DefaultKubernetesCloudProviderRateLimitQPS_def DefaultKubernetesCloudProviderRateLimitQPSWrite_def
  DefaultAzureStackKubernetesCloudProviderRateLimitQPS_def DefaultAzureStackKubernetesCloudProviderRateLimitQPSWrite_def

lemma rate_limit_bucket_nonzero:
  "d \<noteq> 0 \<Longrightarrow> stack \<noteq> 0 \<Longrightarrow> rate_limit_bucket a n d stack b \<noteq> 0"
  by (simp add: rate_limit_bucket_def MaxAgentCount_def)

lemma rate_limit_qps_nonzero: "b \<noteq> 0 \<Longrightarrow> d \<noteq> 0 \<Longrightarrow> stack \<noteq> 0 \<Longrightarrow> rate_limit_qps a b d stack q \<noteq> 0"
  by (simp add: rate_limit_qps_def MinCloudProviderQPSToBucketFactor_def)

lemma cloud_provider_rate_limits:
  defines "stack_b \<equiv> DefaultAzureStackKubernetesCloudProviderRateLimitBucket"
    and "stack_w \<equiv> DefaultAzureStackKubernetesCloudProviderRateLimitBucketWrite"
  shows
  "kc_CloudProviderRateLimitBucket (cloud_provider_defaults a n v k) =
     rate_limit_bucket a n DefaultKubernetesCloudProviderRateLimitBucket stack_b (kc_CloudProviderRateLimitBucket k)"
  "kc_CloudProviderRateLimitBucketWrite (cloud_provider_defaults a n v k) =
     rate_limit_bucket a n DefaultKubernetesCloudProviderRateLimitBucketWrite stack_w (kc_CloudProviderRateLimitBucketWrite k)"
  "kc_CloudProviderRateLimitQPS (cloud_provider_defaults a n v k) =
     rate_limit_qps a (kc_CloudProviderRateLimitBucket (cloud_provider_defaults a n v k))
       DefaultKubernetesCloudProviderRateLimitQPS DefaultAzureStackKubernetesCloudProviderRateLimitQPS (kc_CloudProviderRateLimitQPS k)"
  "kc_CloudProviderRateLimitQPSWrite (cloud_provider_defaults a n v k) =
     rate_limit_qps a (kc_CloudProviderRateLimitBucketWrite (cloud_provider_defaults a n v k))
       DefaultKubernetesCloudProviderRateLimitQPSWrite DefaultAzureStackKubernetesCloudProviderRateLimitQPSWrite
       (kc_CloudProviderRateLimitQPSWrite k)"
  by (simp_all add: stack_b_def stack_w_def cloud_provider_defaults_def SetCloudProviderBackoffDefaults_def
      SetCloudProviderRateLimitDefaults_def Let_def)

lemma rate_limits_complete:
  "kc_CloudProviderRateLimitBucket (cloud_provider_defaults a n v k) \<noteq> 0" (is ?b)
  "kc_CloudProviderRateLimitBucketWrite (cloud_provider_defaults a n v k) \<noteq> 0" (is ?w)
  "kc_CloudProviderRateLimitQPS (cloud_provider_defaults a n v k) \<noteq> 0"
  "kc_CloudProviderRateLimitQPSWrite (cloud_provider_defaults a n v k) \<noteq> 0"
proof -
  show b: ?b and w: ?w
    unfolding cloud_provider_rate_limits
    by (rule rate_limit_bucket_nonzero; simp add: rate_limit_values)+
  show "kc_CloudProviderRateLimitQPS (cloud_provider_defaults a n v k) \<noteq> 0"
    unfolding cloud_provider_rate_limits(3) using b by (rule rate_limit_qps_nonzero) (simp_all add: rate_limit_values)
  show "kc_CloudProviderRateLimitQPSWrite (cloud_provider_defaults a n v k) \<noteq> 0"
    unfolding cloud_provider_rate_limits(4) using w by (rule rate_limit_qps_nonzero) (simp_all add: rate_limit_values)
qed

lemma etcd_defaults_complete:
  "kc_EtcdDiskSizeGB (etcd_defaults a i key k) \<noteq> ''''" "kc_EtcdStorageLimitGB (etcd_defaults a i key k) \<noteq> 0"
  "kc_PrivateCluster (etcd_defaults a i key k) \<noteq> None"
  "pc_Enabled (the (kc_PrivateCluster (etcd_defaults a i key k))) \<noteq> None"
  "pc_EnableHostsConfigAgent (the (kc_PrivateCluster (etcd_defaults a i key k))) \<noteq> None"
  by (simp_all add: etcd_defaults_def etcd_disk_size_def MaxAzureStackManagedDiskSize_def DefaultEtcdDiskSizeGT20Nodes_def
      DefaultEtcdDiskSizeGT10Nodes_def DefaultEtcdDiskSizeGT3Nodes_def DefaultEtcdDiskSize_def DefaultEtcdStorageLimitGB_def
      jumpbox_defaults_def private_cluster_defaults_def Let_def)

lemma access_defaults_complete:
  "kc_EnableRbac (access_defaults a u b v k) \<noteq> None" "kc_EnableSecureKubelet (access_defaults a u b v k) \<noteq> None"
  "kc_UseInstanceMetadata (access_defaults a u b v k) \<noteq> None"
  by (auto simp: access_defaults_def Let_def)

lemma etcd_version_nonempty: "etcd_version up v = Inr w \<Longrightarrow> w \<noteq> ''''"
  by (auto simp: etcd_version_def DefaultEtcdVersion_def bindR_Inr_iff split: if_splits)

lemma kubernetes_defaults_returns:
  assumes "isUpgrade = False \<or> kc_EtcdVersion k = '''' \<or> plain_version (kc_EtcdVersion k)" and "p_MasterProfile p \<noteq> None"
  shows "\<exists>k'. kubernetes_defaults isUpgrade isScale spec key p version k = Inr k'"
proof -
  obtain etcd where "etcd_version isUpgrade (kc_EtcdVersion k) = Inr etcd"
  proof (cases "plain_version (kc_EtcdVersion k)")
    case True
    have "GetMinVersion [kc_EtcdVersion k, DefaultEtcdVersion] True = Inr y \<Longrightarrow>
        \<exists>e. etcd_version isUpgrade (kc_EtcdVersion k) = Inr e" for y
      by (simp add: etcd_version_def)
    then show thesis
      using that GetMinVersion_least [of "[kc_EtcdVersion k, DefaultEtcdVersion]"] True default_etcd_plain by auto
  next
    case False
    then have "isUpgrade = False \<or> kc_EtcdVersion k = ''''" using assms(1) by blast
    then have "\<exists>e. etcd_version isUpgrade (kc_EtcdVersion k) = Inr e" by (auto simp: etcd_version_def)
    then show thesis using that by blast
  qed
  moreover have "\<exists>k'. identity_default up p k1 = Inr k'" for up k1
    using assms(2) by (auto simp: identity_default_def deref_def)
  then obtain f where "identity_default up p k1 = Inr (f up k1)" for up k1 by metis
  ultimately show ?thesis by (simp add: kubernetes_defaults_def Let_def)
qed

lemmas complete_steps = subnet_defaults_complete network_plugin_complete load_balancer_complete load_balancer_snat runtime_complete
  image_complete cloud_provider_complete rate_limits_complete etcd_defaults_complete access_defaults_complete

lemma later_defaults_complete:
  assumes "kc_EtcdVersion k \<noteq> ''''" and "kc_KubernetesImageBase k \<noteq> ''''" and "last (kc_KubernetesImageBase k) = CHR ''/''"
    and "kc_KubernetesImageBaseType k \<noteq> ''''" and "kc_MCRKubernetesImageBase k \<noteq> ''''"
  shows "has_network (later_defaults isUpgrade isUpdate key p version k)"
    "has_runtime (later_defaults isUpgrade isUpdate key p version k)"
    "has_control_plane (later_defaults isUpgrade isUpdate key p version k)"
  unfolding has_network_def has_runtime_def has_control_plane_def later_defaults_def
  using assms by (simp_all add: complete_steps del: not_None_eq)



subsection \<open>Azure Stack\<close>

lemma stack_load_balancer:
  "kc_LoadBalancerSku (load_balancer_defaults True w k) = BasicLoadBalancerSku"
  "kc_CloudProviderDisableOutboundSNAT (load_balancer_defaults True w k) = Some False"
proof -
  have "load_balancer_sku True sku = BasicLoadBalancerSku" for sku
    by (cases "sku = ''''")
      (simp_all add: load_balancer_sku_def Let_def DefaultAzureStackLoadBalancerSku_def BasicLoadBalancerSku_def EnsureString_def equal_fold_def)
  then show "kc_LoadBalancerSku (load_balancer_defaults True w k) = BasicLoadBalancerSku"
    and "kc_CloudProviderDisableOutboundSNAT (load_balancer_defaults True w k) = Some False"
    by (simp_all add: load_balancer_defaults_def Let_def BasicLoadBalancerSku_def StandardLoadBalancerSku_def)
qed

lemma stack_images:
  assumes "ks_MCRKubernetesImageBase spec \<noteq> ''''" and "last (ks_MCRKubernetesImageBase spec) = CHR ''/''"
  shows "kc_KubernetesImageBase (image_defaults True u spec k) = ks_MCRKubernetesImageBase spec"
    "kc_KubernetesImageBaseType (image_defaults True u spec k) = KubernetesImageBaseTypeMCR"
  using assms
  by (simp_all add: image_defaults_def Let_def image_base_defaults_def azure_stack_images_def image_base_upgrade_def EnsureString_def
      KubernetesImageBaseTypeMCR_def KubernetesImageBaseTypeGCR_def)

lemma stack_etcd_disk:
  "kc_EtcdDiskSizeGB k = '''' \<Longrightarrow> kc_EtcdDiskSizeGB (etcd_defaults True i key k) \<in> {''256'', ''512'', ''1023''}"
  by (simp add: etcd_defaults_def etcd_disk_size_def EnsureString_def MaxAzureStackManagedDiskSize_def DefaultEtcdDiskSizeGT3Nodes_def
      DefaultEtcdDiskSize_def)



end
