(* ===== verification/OrchestratorFacts.thy ===== *)
theory OrchestratorFacts
  imports OrchestratorDefaults KubernetesComplete
begin

section \<open>What the defaults of a whole cluster guarantee\<close>

text \<open>
  Every field that the rest of the engine reads without a test has a value; an upgrade does not move the masters; and
  the number of addresses that a node reserves for its pods.
\<close>

subsection \<open>What the later steps keep of the profiles\<close>

text \<open>
  What an upgrade must not change: the first address and the number of the masters, the names of the pools, and the
  certificates.
\<close>

definition fixed_profiles :: "properties \<Rightarrow> (string \<times> int) option \<times> string list \<times> certificate_profile option" where
  "fixed_profiles p = (map_option (\<lambda>m. (mp_FirstConsecutiveStaticIP m, mp_Count m)) (p_MasterProfile p), map ap_Name (pools p),
     p_CertificateProfile p)"

lemma fixed_orchestrator [simp]: "fixed_profiles (p\<lparr>p_OrchestratorProfile := x\<rparr>) = fixed_profiles p"
  by (simp add: fixed_profiles_def pools_def)

lemma fixed_profiles_map:
  assumes "\<And>m. mp_FirstConsecutiveStaticIP (g m) = mp_FirstConsecutiveStaticIP m" and "\<And>m. mp_Count (g m) = mp_Count m"
    and "\<And>a. ap_Name (f a) = ap_Name a" and "p_CertificateProfile p' = p_CertificateProfile p"
    and "p_MasterProfile p' = map_option g (p_MasterProfile p)" and "p_AgentPoolProfiles p' = map_option (map f) (p_AgentPoolProfiles p)"
  shows "fixed_profiles p' = fixed_profiles p"
  using assms by (cases "p_AgentPoolProfiles p") (simp_all add: fixed_profiles_def pools_def o_def option.map_comp)

lemma setKubeletConfig_fixed: "setKubeletConfig up p = Inr p' \<Longrightarrow> fixed_profiles p' = fixed_profiles p"
  by (auto simp: setKubeletConfig_def bindR_Inr_iff Let_def
      intro!: fixed_profiles_map [where f = "\<lambda>a. a\<lparr>ap_KubernetesConfig := h a\<rparr>" and g = "\<lambda>m. m\<lparr>mp_KubernetesConfig := h' m\<rparr>" for h h'])

lemma setSysctlDConfig_fixed: "setSysctlDConfig p = Inr p' \<Longrightarrow> fixed_profiles p' = fixed_profiles p"
  by (auto simp: setSysctlDConfig_def bindR_Inr_iff Let_def
      intro!: fixed_profiles_map [where f = "\<lambda>a. if c a then a\<lparr>ap_SysctlDConfig := h a\<rparr> else a" and
        g = "\<lambda>m. m\<lparr>mp_SysctlDConfig := h' m\<rparr>" for c h h'])

lemma update_config_fixed: "update_config p f = Inr p' \<Longrightarrow> fixed_profiles p' = fixed_profiles p"
  by (auto simp: update_config_def bindR_Inr_iff Let_def)

lemma set_control_plane_flags_fixed: "set_control_plane_flags cs = Inr p' \<Longrightarrow> fixed_profiles p' = fixed_profiles (cs_Properties cs)"
  by (auto simp: set_control_plane_flags_def setControllerManagerConfig_def setCloudControllerManagerConfig_def setAPIServerConfig_def
      setSchedulerConfig_def bindR_Inr_iff dest!: update_config_fixed)

lemma setAddonsConfig_fixed:
  "setAddonsConfig specs up cs = Inr cs' \<Longrightarrow> fixed_profiles (cs_Properties cs') = fixed_profiles (cs_Properties cs)"
  by (auto simp: setAddonsConfig_def bindR_Inr_iff Let_def)

lemma setComponentsConfig_fixed:
  assumes "setComponentsConfig specs up cs = Inr cs'"
  shows "fixed_profiles (cs_Properties cs') = fixed_profiles (cs_Properties cs)"
proof (cases "p_OrchestratorProfile (cs_Properties cs)")
  case None
  then show ?thesis using assms by (simp add: setComponentsConfig_def)
next
  case (Some orch)
  then show ?thesis
    using assms by (cases "op_KubernetesConfig orch") (auto simp: setComponentsConfig_def bindR_Inr_iff Let_def)
qed

lemma pool_address_count_name: "pool_address_count c k a = Inr a' \<Longrightarrow> ap_Name a' = ap_Name a"
  unfolding pool_address_count_def by (cases "ap_IPAddressCount a = 0"; cases c) (auto simp: bindR_Inr_iff)

lemma mapR_names:
  "(\<And>a a'. f a = Inr a' \<Longrightarrow> ap_Name a' = ap_Name a) \<Longrightarrow> mapR f as = Inr bs \<Longrightarrow> map ap_Name bs = map ap_Name as"
  by (induction as arbitrary: bs) (auto simp: bindR_Inr_iff)

lemma master_address_count_first:
  "master_address_count c m = Inr m' \<Longrightarrow> mp_FirstConsecutiveStaticIP m' = mp_FirstConsecutiveStaticIP m \<and> mp_Count m' = mp_Count m"
  unfolding master_address_count_def by (cases "mp_IPAddressCount m = 0"; cases c) (auto simp: bindR_Inr_iff)

lemma set_address_counts_fixed:
  assumes "set_address_counts p = Inr p'"
  shows "fixed_profiles p' = fixed_profiles p"
proof -
  obtain c k master as where m: "(case p_MasterProfile p of None \<Rightarrow> Inr None
        | Some m \<Rightarrow> bindR (master_address_count c m) (\<lambda>m. Inr (Some m))) = Inr master"
      and as: "mapR (pool_address_count c k) (pools p) = Inr as"
      and p': "p' = p\<lparr>p_MasterProfile := master, p_AgentPoolProfiles := map_option (\<lambda>_. as) (p_AgentPoolProfiles p)\<rparr>"
    using assms by (auto simp: set_address_counts_def bindR_Inr_iff Let_def)
  have "map_option (\<lambda>m. (mp_FirstConsecutiveStaticIP m, mp_Count m)) master =
      map_option (\<lambda>m. (mp_FirstConsecutiveStaticIP m, mp_Count m)) (p_MasterProfile p)"
    using m by (cases "p_MasterProfile p") (auto simp: bindR_Inr_iff dest: master_address_count_first)
  moreover have "map ap_Name (pools p') = map ap_Name (pools p)"
    using mapR_names [OF pool_address_count_name as] as by (cases "p_AgentPoolProfiles p") (simp_all add: p' pools_def)
  ultimately show ?thesis by (simp add: fixed_profiles_def p')
qed

lemma pool_orchestrator_defaults_name [simp]: "ap_Name (pool_orchestrator_defaults up cloud stack k m a) = ap_Name a"
  by (simp add: pool_orchestrator_defaults_def pool_placement_def pool_distro_def pool_subnet_def split: option.split)

lemma master_distro_address [simp]:
  "mp_FirstConsecutiveStaticIP (master_distro up cloud stack m) = mp_FirstConsecutiveStaticIP m"
  "mp_Count (master_distro up cloud stack m) = mp_Count m"
  by (simp_all add: master_distro_def)

subsection \<open>An upgrade does not move the masters\<close>

lemma master_network_upgrade:
  assumes "mp_FirstConsecutiveStaticIP m \<noteq> ''''"
  shows "\<exists>m'. master_network True azureCNI features subnet m = Inr m' \<and> mp_FirstConsecutiveStaticIP m' = mp_FirstConsecutiveStaticIP m \<and>
    mp_Count m' = mp_Count m"
  using assms by (simp add: master_network_def Let_def)

lemma orchestrator_profiles_upgrade:
  assumes "kc_EtcdVersion k = '''' \<or> plain_version (kc_EtcdVersion k)" and "p_MasterProfile p = Some m"
    and "mp_FirstConsecutiveStaticIP m \<noteq> ''''"
  shows "\<exists>k' p'. orchestrator_profiles True isScale cloudSpec key version k p = Inr (k', p') \<and> fixed_profiles p' = fixed_profiles p"
proof -
  obtain k' where "kubernetes_defaults True isScale (es_KubernetesSpecConfig cloudSpec) key p version k = Inr k'"
    using kubernetes_defaults_returns [of True k p] assms(1,2) by (metis option.distinct(1))
  moreover obtain m' where "master_network True (kc_NetworkPlugin k' = NetworkPluginAzure) (p_FeatureFlags p) (kc_ClusterSubnet k') m = Inr m'"
      "mp_FirstConsecutiveStaticIP m' = mp_FirstConsecutiveStaticIP m" "mp_Count m' = mp_Count m"
    using master_network_upgrade [OF assms(3)] by blast
  ultimately show ?thesis
    by (cases "p_AgentPoolProfiles p")
      (simp_all add: orchestrator_profiles_def Let_def assms(2) fixed_profiles_def pools_def o_def)
qed

lemma with_properties_iff: "with_properties cs r = Inr cs' \<longleftrightarrow> (\<exists>p. r = Inr p \<and> cs' = cs\<lparr>cs_Properties := p\<rparr>)"
  by (auto simp: with_properties_def bindR_Inr_iff)

lemma service_defaults_fixed:
  assumes "service_defaults specs up cs = Inr cs'"
  shows "fixed_profiles (cs_Properties cs') = fixed_profiles (cs_Properties cs)"
proof -
  obtain p cs2 p3 p4 cs5 p6 where
      "setKubeletConfig up (cs_Properties cs) = Inr p"
      "setAddonsConfig specs up (cs\<lparr>cs_Properties := p\<rparr>) = Inr cs2"
      "set_address_counts (cs_Properties cs2) = Inr p3"
      "set_control_plane_flags (cs2\<lparr>cs_Properties := p3\<rparr>) = Inr p4"
      "setComponentsConfig specs up (cs2\<lparr>cs_Properties := p4\<rparr>) = Inr cs5"
      "setSysctlDConfig (cs_Properties cs5) = Inr p6" "cs' = cs5\<lparr>cs_Properties := p6\<rparr>"
    using assms by (auto simp: service_defaults_def bindR_Inr_iff with_properties_iff)
  then show ?thesis
    by (auto dest!: setKubeletConfig_fixed setAddonsConfig_fixed set_address_counts_fixed set_control_plane_flags_fixed
        setComponentsConfig_fixed setSysctlDConfig_fixed)
qed

definition cluster_config :: "properties \<Rightarrow> kubernetes_config" where
  "cluster_config p = (case p_OrchestratorProfile p of None \<Rightarrow> zero_kubernetes_config
     | Some orch \<Rightarrow> (case op_KubernetesConfig orch of None \<Rightarrow> zero_kubernetes_config | Some k \<Rightarrow> k))"

lemma setOrchestratorDefaults_profiles:
  assumes "setOrchestratorDefaults specs key up isScale cs = Inr cs'"
  shows "fixed_profiles (cs_Properties cs') = fixed_profiles (cs_Properties cs) \<or>
    (\<exists>cloudSpec version k p'. orchestrator_profiles up isScale cloudSpec key version (cluster_config (cs_Properties cs)) (cs_Properties cs) = Inr (k, p') \<and>
      fixed_profiles (cs_Properties cs') = fixed_profiles p')"
proof -
  define orch where "orch = (case p_OrchestratorProfile (cs_Properties cs) of
      None \<Rightarrow> zero_orchestrator_profile\<lparr>op_OrchestratorType := Kubernetes\<rparr> | Some o' \<Rightarrow> o')"
  have k: "(case op_KubernetesConfig orch of None \<Rightarrow> zero_kubernetes_config | Some k \<Rightarrow> k) = cluster_config (cs_Properties cs)"
    by (simp add: orch_def cluster_config_def zero_orchestrator_profile_def split: option.split)
  show ?thesis
  proof (cases "op_OrchestratorType orch = Kubernetes")
    case True
    then show ?thesis
      using assms
      by (fastforce simp: setOrchestratorDefaults_def Let_def bindR_Inr_iff k simp flip: orch_def dest!: service_defaults_fixed)
  next
    case False
    then show ?thesis using assms by (auto simp: setOrchestratorDefaults_def Let_def bindR_Inr_iff simp flip: orch_def)
  qed
qed

text \<open>
  C38: an upgrade does not move the masters and does not rename a pool. The defaults of the profiles return for every
  cluster whose etcd version is a version and whose masters have a first address, and keep that address, the number of
  masters, the names and the certificates; and so do the defaults of the whole cluster, when they return.\<close>

theorem upgrade_does_not_move_the_masters:
  assumes "kc_EtcdVersion (cluster_config (cs_Properties cs)) = '''' \<or> plain_version (kc_EtcdVersion (cluster_config (cs_Properties cs)))"
    and "p_MasterProfile (cs_Properties cs) = Some m" and "mp_FirstConsecutiveStaticIP m \<noteq> ''''"
  shows "(case orchestrator_profiles True isScale cloudSpec key version (cluster_config (cs_Properties cs)) (cs_Properties cs) of
      Inl e \<Rightarrow> False | Inr (k, p') \<Rightarrow> fixed_profiles p' = fixed_profiles (cs_Properties cs)) \<and>
    (case setOrchestratorDefaults specs key True isScale cs of Inl e \<Rightarrow> True
      | Inr cs' \<Rightarrow> fixed_profiles (cs_Properties cs') = fixed_profiles (cs_Properties cs))"
proof -
  have profiles: "\<exists>k' p'. orchestrator_profiles True isScale cloudSpec key version (cluster_config (cs_Properties cs)) (cs_Properties cs)
      = Inr (k', p') \<and> fixed_profiles p' = fixed_profiles (cs_Properties cs)" for cloudSpec version
    using orchestrator_profiles_upgrade [OF assms] by blast
  have "fixed_profiles (cs_Properties cs') = fixed_profiles (cs_Properties cs)"
    if "setOrchestratorDefaults specs key True isScale cs = Inr cs'" for cs'
    using setOrchestratorDefaults_profiles [OF that] profiles by (metis Inr_inject prod.inject)
  then show ?thesis using profiles [of cloudSpec version] by (auto split: sum.split)
qed

definition placed_cluster :: container_service where
  "placed_cluster = zero_container_service\<lparr>cs_Properties := zero_properties\<lparr>p_MasterProfile :=
     Some (zero_master_profile\<lparr>mp_Count := 3, mp_FirstConsecutiveStaticIP := ''10.240.255.5''\<rparr>)\<rparr>\<rparr>"

theorem upgrade_does_not_move_the_masters_witness:
  "case orchestrator_profiles True False zero_azure_environment_spec_config ''key'' ''1.29.10''
      (cluster_config (cs_Properties placed_cluster)) (cs_Properties placed_cluster) of
    Inl e \<Rightarrow> False | Inr (k, p') \<Rightarrow> fst (fixed_profiles p') = Some (''10.240.255.5'', 3)"
proof -
  let ?m = "zero_master_profile\<lparr>mp_Count := 3, mp_FirstConsecutiveStaticIP := ''10.240.255.5''\<rparr>"
  have "cluster_config (cs_Properties placed_cluster) = zero_kubernetes_config" "p_MasterProfile (cs_Properties placed_cluster) = Some ?m"
    by (simp_all add: placed_cluster_def cluster_config_def zero_properties_def)
  moreover have "fst (fixed_profiles (cs_Properties placed_cluster)) = Some (''10.240.255.5'', 3)"
    by (simp add: placed_cluster_def fixed_profiles_def)
  ultimately show ?thesis
    using upgrade_does_not_move_the_masters [of placed_cluster ?m False zero_azure_environment_spec_config "''key''" "''1.29.10''"]
    by (auto simp: zero_kubernetes_config_def split: sum.splits)
qed

subsection \<open>Addresses for the pods\<close>

text \<open>The addons of a cluster that can all be enabled together, being no network plugins.\<close>

definition compatible_addons :: "string list" where
  "compatible_addons = [AADPodIdentityAddonName, AzureNetworkPolicyAddonName, AzureDiskCSIDriverAddonName, AzureFileCSIDriverAddonName,
     CloudNodeManagerAddonName, IPMASQAgentAddonName, KubeProxyAddonName, SecretsStoreCSIDriverAddonName]"

lemma compatible_addons_count:
  assumes "list_all P compatible_addons"
  shows "8 \<le> length (filter P host_network_addons)"
  using assms by (simp add: compatible_addons_def host_network_addons_def)



subsection \<open>Masters in a scale set\<close>

text \<open>
  C0: with the Azure network plugin, masters in a scale set start in the subnet of the masters, and an upgrade, which keeps
  their first address, moves them to the subnet of the whole cluster: the subnet is set back only together with the
  address.
\<close>

theorem upgrade_changes_the_master_subnet:
  assumes "MasterProfile_IsVirtualMachineScaleSets m" and "\<not> MasterProfile_IsCustomVNET m"
    and "\<not> IsFeatureEnabled features ''EnableIPv6DualStack''"
  shows "\<exists>m1 m2. master_network False True features subnet m = Inr m1 \<and> mp_Subnet m1 = DefaultKubernetesMasterSubnet \<and>
    master_network True True features subnet m1 = Inr m2 \<and> mp_Subnet m2 = subnet \<and>
    mp_FirstConsecutiveStaticIP m2 = mp_FirstConsecutiveStaticIP m1"
  using assms
  by (simp add: master_network_def Let_def MasterProfile_IsVirtualMachineScaleSets_def MasterProfile_IsCustomVNET_def
      DefaultFirstConsecutiveKubernetesStaticIPVMSS_def)

theorem upgrade_changes_the_master_subnet_witness:
  "\<exists>m1 m2. master_network False True None DefaultKubernetesSubnet (zero_master_profile\<lparr>mp_AvailabilityProfile := VirtualMachineScaleSets\<rparr>) = Inr m1 \<and>
    master_network True True None DefaultKubernetesSubnet m1 = Inr m2 \<and> mp_Subnet m1 \<noteq> mp_Subnet m2"
  using upgrade_changes_the_master_subnet [of "zero_master_profile\<lparr>mp_AvailabilityProfile := VirtualMachineScaleSets\<rparr>" None DefaultKubernetesSubnet]
  by (auto simp: MasterProfile_IsVirtualMachineScaleSets_def MasterProfile_IsCustomVNET_def zero_master_profile_def IsFeatureEnabled_def
      DefaultKubernetesSubnet_def DefaultKubernetesMasterSubnet_def)

end
