(* ===== verification/Spec2Isabelle.thy ===== *)
theory Spec2Isabelle
  imports Orchestrators Transform ClusterTopology UpgradeSafety ControlPlaneDefaults KubeletDefaults ComponentFacts ProfileFacts
    OrchestratorFacts
begin

text \<open>
  Verification library of AKS Engine for Azure Stack Hub (the Go code under src/).

  The program turns a cluster definition (an API model in JSON) into ARM templates and drives the
  life cycle of the cluster: deploy, scale, upgrade. The library models the part of it that decides:
  which Kubernetes versions exist and lead where, how VMs are named and read back, how a generated
  template is cut down before it is deployed again, which VMs of a running cluster an upgrade
  touches, and the order of the calls by which it deletes and recreates nodes.

  \<^bold>\<open>Parts and theories\<close>

  \<^item> GoBase, Ordering: prelude. Go results (\<open>Inr\<close> a value, \<open>Inl (Err _)\<close> an error, \<open>Inl (Panic _)\<close> a
    run-time panic), byte strings with the functions of packages strings and strconv, package sort, and
    the locale \<open>comparison\<close> of three-way comparison functions.
  \<^item> Semver: vendored blang/semver: parser, printer, comparison; interpretation of \<open>comparison\<close>.
  \<^item> K8sVersions, K8sVersionTables, K8sVersionFacts: pkg/api/common/versions.go with its tables; the
    tables are evaluated once, and the properties follow from the evaluated facts.
  \<^item> ApiTypes, ClusterModel: the structs of pkg/api/types.go as records and their methods.
  \<^item> Orchestrators: pkg/api/orchestrators.go, the versions offered for a new cluster and an upgrade.
  \<^item> Regex, VMNames: package regexp for the patterns of the naming code; names of VMs and their parsers
    (pkg/api/types.go, pkg/armhelpers/utils/util.go).
  \<^item> Transform: pkg/engine/transform/transform.go on JSON templates.
  \<^item> ClusterTopology: pkg/operations/kubernetesupgrade/upgradecluster.go, sorting the VMs of the
    resource group, the control plane check, the replica count of the cluster autoscaler.
  \<^item> Cloud: runs as histories of calls, a sequential monad with errors, and a program logic with
    \<open>throughout\<close> (what holds after every call) and \<open>triple\<close> (what holds at the end).
  \<^item> Operations: deletevm.go, cordondrainvm.go, scaledownagentpool.go of pkg/operations.
  \<^item> UpgradeNodes: upgradeagentnode.go, upgrademasternode.go; the interface \<open>UpgradeNode\<close> of
    upgradeworkflow.go is the locale \<open>node_ops\<close>, interpreted by both implementations.
  \<^item> Upgrader: upgrader.go, the upgrade of masters and agent pools; MasterUpgrade and AgentUpgrade prove
    what holds during and after it.
  \<^item> ClusterUpgrade: \<open>RunUpgrade\<close> and \<open>UpgradeCluster\<close>, the whole upgrade; UpgradeSafety has its properties.
  \<^item> ConfigMaps: the helpers of defaults.go on maps of flags and on the feature gates inside a flag, and the
    locale \<open>flag_pass\<close>: what it means to complete, force, remove and repair the flags of a component.
  \<^item> DefaultConstants: the constants of the two const.go files that the defaults name.
  \<^item> DefaultsControlPlane: defaults-scheduler.go, defaults-controller-manager.go,
    defaults-cloud-controller-manager.go, defaults-apiserver.go; ControlPlaneFlags interprets \<open>flag_pass\<close> by
    the four of them, ControlPlaneDefaults composes them as defaults.go does.
  \<^item> K8sComponents: the image tables of pkg/api/k8s_versions.go; ComponentTables evaluates them.
  \<^item> DefaultsKubelet: defaults-kubelet.go and defaults-sysctld.go; KubeletDefaults has their properties.
  \<^item> Net: the part of package net that the code uses (addresses, masks, subnets, their parsers and
    printers) and pkg/api/common/net.go. MasterAddresses: the first static address of the control plane and the
    addresses in the certificate of the API server (types.go, \<open>SetDefaultCerts\<close> of defaults.go).
  \<^item> ClusterConstants: further constants of the const.go files.
  \<^item> CloudSpecs: the tables of pkg/api/azenvtypes.go and defaults-custom-cloud-profile.go, the settings of a custom
    cloud; CloudSettings has their properties.
  \<^item> NamedLists: lists of named specifications that are completed by defaults, and the locale \<open>named_merge\<close>.
  \<^item> AddonDefaults: pkg/api/addons.go, the tables of the addons and \<open>setAddonsConfig\<close>; AddonFacts interprets
    \<open>named_merge\<close> by it and has the properties. ComponentDefaults, ComponentFacts: the same for
    pkg/api/components.go, the control plane components and their images.
  \<^item> VMSizes: the table of VM sizes (azure_skus_const.go) and its lookups. ProfileDefaults, ProfileFacts: the defaults
    of the master, agent pool, Linux and Windows profiles in defaults.go.
  \<^item> KubernetesDefaults, OrchestratorDefaults: \<open>setOrchestratorDefaults\<close> of defaults.go as a whole, first the
    Kubernetes configuration, then what follows for masters and pools, with the calls of the functions above in their
    order (and pkg/versions/compare.go). KubernetesFacts, KubernetesComplete, OrchestratorFacts have their properties.

  \<^bold>\<open>How state and operations correspond\<close>

  A struct is a record with the fields of the source behind a prefix (\<open>ap_Count\<close> is
  AgentPoolProfile.Count), a pointer an option, a map that the code ranges over an association list in
  iteration order. Functions keep their names; a method that two structs share carries the struct's
  name. What the cloud and the API server answer is a parameter (record \<open>cloud\<close>), a function of the
  history of calls, so every behaviour of the services is covered, errors at any call included.

  \<^bold>\<open>Bounds and fuel\<close>

  No definition takes fuel. Loops that count up (\<open>next_index\<close>, \<open>create_missing\<close>) have
  measures; the ten attempts of the autoscaler update and the five of cordon are the constants of the
  code. uint64 arithmetic is taken modulo 2 ^ 64 where it can wrap (\<open>uint64\<close> in Orchestrators).

  \<^bold>\<open>What the lemmas show\<close>

  Versions: comparison is the reference order, parser and printer are inverse, the supported list does
  not depend on map order, rationalised versions are supported, the offered upgrades are exactly those
  the skip rule allows. Names: what is built is read back, and VMs of different pools or indexes have
  different names, with the exceptions that the findings record. Templates: for every transformation
  which resources remain, with the dependencies that are dropped. Upgrade: no VM is lost or sorted into
  two sets, only VMs with an upgrade path are selected; deletions follow their plan, a drain spares
  static pods, a scale down reports every failure. While an upgrade runs, at most one master is missing and
  every pool keeps the nodes it needs; only outdated VMs are replaced; a paused autoscaler is resumed.
  Defaults: the passes over the flags of the control plane and the kubelets are idempotent, leave no flag and
  no feature gate that the version does not know, and say whose value each flag has; the image tables are
  total and complete. Addresses: for which prefixes the default address of the first master lies in its subnet,
  and which addresses the certificate names. Custom clouds: whose settings the program reads, and that a second
  pass changes nothing. Addons and components: whose settings and whose images win on a new cluster and on an
  upgrade, that the merge is stable, and the only ways in which it panics. Profiles: what the first operation
  decides for the pools and the Windows image is final. Whole cluster: the Kubernetes configuration is complete after its
  defaults, etcd is never downgraded, both IP families get their subnets, Azure Stack gets what it has, and an upgrade
  does not move the masters.

  \<^bold>\<open>Not modelled\<close>

  The Azure and kubernetes client libraries, regexp beyond the patterns used, and math/rand are
  parameters or derivative matchers. Template generation builds values of the Azure SDK's types, which
  are not in the repository. The generation of certificates, validation and the converters are not
  modelled. The random encryption key of etcd is a parameter, and a float64 is a rational number.
  Logging, timing and the interleaving of goroutines beyond the order of their reports are left out.
\<close>

end
